(* ===== verification/Prelude.thy ===== *)
theory Prelude
  imports Complex_Main "HOL-Library.AList" "HOL-Library.Char_ord" "HOL-Library.List_Lexorder"
begin

text \<open>
  What the components share: the JavaScript values and string operations the TypeScript code
  uses (\<open>trim\<close>, \<open>toLowerCase\<close>, \<open>split\<close>, \<open>Number\<close>, decimal rendering), updates of the first
  matching element of a list (\<open>Array.prototype.find\<close> followed by a mutation), and the two
  interfaces that several components provide: a transition system with an invariant, and a
  bounded cache of a pure function.

  Strings are lists of characters and a character stands for one UTF-16 code unit below 256;
  code units above that are outside the model. Numbers are mathematical: an instant or a
  duration in milliseconds is an \<open>int\<close> (a double holds it exactly below 2 to the 53), and a
  number that the code still has to check or to floor is a rational in a \<open>jsval\<close>.
\<close>

named_theorems js_defs "definitions of the JavaScript operations, for evaluation"
named_theorems keeps_id "operations that do not change the identifier of an element"

section \<open>JavaScript values\<close>

text \<open>
  The values an \<open>unknown\<close> of the source can hold: \<open>JNonFinite\<close> is the number NaN, \<open>JErr\<close> an \<open>Error\<close> object with its name and message, \<open>JObj\<close> a plain object with
  its own enumerable properties in insertion order.
\<close>

datatype jsval =
    JUndef
  | JNull
  | JBool bool
  | JNum rat
  | JNonFinite
  | JBigInt int
  | JStr string
  | JArr "jsval list"
  | JObj "(string \<times> jsval) list"
  | JErr string string

text \<open>\<open>x ?? d\<close>, and a property of a plain object.\<close>

definition or_default :: "'a option \<Rightarrow> 'a \<Rightarrow> 'a" where
  "or_default x d = (case x of None \<Rightarrow> d | Some v \<Rightarrow> v)"

definition get_prop :: "string \<Rightarrow> (string \<times> jsval) list \<Rightarrow> jsval" where
  "get_prop k kvs = or_default (map_of kvs k) JUndef"

section \<open>Strings\<close>

definition js_ws :: "char \<Rightarrow> bool" where
  "js_ws c = (c \<in> {CHR 0x09, CHR 0x0A, CHR 0x0B, CHR 0x0C, CHR 0x0D, CHR 0x20, CHR 0xA0})"

definition trim_end :: "string \<Rightarrow> string" where
  "trim_end s = rev (dropWhile js_ws (rev s))"

definition trim :: "string \<Rightarrow> string" where
  "trim s = trim_end (dropWhile js_ws s)"

definition lower_char :: "char \<Rightarrow> char" where
  "lower_char c = (let n = (of_char c :: nat) in
     if (65 \<le> n \<and> n \<le> 90) \<or> (192 \<le> n \<and> n \<le> 222 \<and> n \<noteq> 215) then char_of (n + 32) else c)"

definition to_lower :: "string \<Rightarrow> string" where
  "to_lower s = map lower_char s"

fun starts_with :: "string \<Rightarrow> string \<Rightarrow> bool" where
  "starts_with s [] = True"
| "starts_with [] (p # ps) = False"
| "starts_with (c # cs) (p # ps) = (c = p \<and> starts_with cs ps)"

fun has_substring :: "string \<Rightarrow> string \<Rightarrow> bool" where
  "has_substring [] p = (p = [])"
| "has_substring (c # cs) p = (starts_with (c # cs) p \<or> has_substring cs p)"

definition ends_with :: "string \<Rightarrow> string \<Rightarrow> bool" where
  "ends_with s t = starts_with (rev s) (rev t)"

text \<open>\<open>toUpperCase\<close>: the sharp s becomes two letters; the two letters whose capital is no longer a single
  code unit below 256 stay as they are.\<close>

definition upper_char :: "char \<Rightarrow> string" where
  "upper_char c = (let n = (of_char c :: nat) in
     if (97 \<le> n \<and> n \<le> 122) \<or> (224 \<le> n \<and> n \<le> 254 \<and> n \<noteq> 247) then [char_of (n - 32)]
     else if n = 223 then ''SS'' else [c])"

definition to_upper :: "string \<Rightarrow> string" where
  "to_upper s = concat (map upper_char s)"

text \<open>The character classes \<open>[A-Za-z]\<close>, \<open>[0-9]\<close> and \<open>[A-Za-z0-9_]\<close>.\<close>

definition is_alpha :: "char \<Rightarrow> bool" where
  "is_alpha c = (let n = (of_char c :: nat) in (65 \<le> n \<and> n \<le> 90) \<or> (97 \<le> n \<and> n \<le> 122))"

definition is_digit :: "char \<Rightarrow> bool" where
  "is_digit c = (let n = (of_char c :: nat) in 48 \<le> n \<and> n \<le> 57)"

definition is_word_char :: "char \<Rightarrow> bool" where
  "is_word_char c = (is_alpha c \<or> is_digit c \<or> c = CHR ''_'')"

text \<open>\<open>split\<close> on one separator character; the result is never empty.\<close>

fun split_on :: "char \<Rightarrow> string \<Rightarrow> string list" where
  "split_on c [] = [[]]"
| "split_on c (x # xs) =
     (if x = c then [] # split_on c xs
      else case split_on c xs of [] \<Rightarrow> [[x]] | w # ws \<Rightarrow> (x # w) # ws)"

text \<open>\<open>split(/\s+/).filter(Boolean)\<close>: the maximal runs of characters that are not white space.\<close>

fun ws_fields_aux :: "string \<Rightarrow> string \<Rightarrow> string list" where
  "ws_fields_aux acc [] = (if acc = [] then [] else [rev acc])"
| "ws_fields_aux acc (c # cs) =
     (if js_ws c then (if acc = [] then ws_fields_aux [] cs else rev acc # ws_fields_aux [] cs)
      else ws_fields_aux (c # acc) cs)"

definition ws_fields :: "string \<Rightarrow> string list" where
  "ws_fields s = ws_fields_aux [] s"

definition join_with :: "string \<Rightarrow> string list \<Rightarrow> string" where
  "join_with sep ws = (case ws of [] \<Rightarrow> [] | w # ws' \<Rightarrow> w @ concat (map (\<lambda>x. sep @ x) ws'))"

text \<open>A trimmed string, \<open>None\<close> when nothing is left: the idiom \<open>s.trim() || undefined\<close>.\<close>

definition nonempty :: "string \<Rightarrow> string option" where
  "nonempty s = (if s = [] then None else Some s)"

definition trimmed_opt :: "string option \<Rightarrow> string option" where
  "trimmed_opt s = (case s of None \<Rightarrow> None | Some t \<Rightarrow> nonempty (trim t))"

lemmas [js_defs] = js_ws_def trim_end_def trim_def lower_char_def to_lower_def ws_fields_def
  join_with_def nonempty_def trimmed_opt_def

lemma trim_end_idem [simp]: "trim_end (trim_end s) = trim_end s"
  by (simp add: trim_end_def)

lemma hd_trim_end: "trim_end s \<noteq> [] \<Longrightarrow> hd (trim_end s) = hd s"
proof -
  assume ne: "trim_end s \<noteq> []"
  have "s = rev (takeWhile js_ws (rev s) @ dropWhile js_ws (rev s))" by simp
  also have "\<dots> = trim_end s @ rev (takeWhile js_ws (rev s))"
    by (simp add: trim_end_def del: takeWhile_dropWhile_id)
  finally show ?thesis using ne by (metis hd_append2)
qed

lemma trim_idem [simp]: "trim (trim s) = trim s"
proof (cases "trim s = []")
  case True
  moreover have "trim [] = []" by (simp add: trim_def trim_end_def)
  ultimately show ?thesis by (simp only: True)
next
  case False
  let ?d = "dropWhile js_ws s"
  from False have ne: "trim_end ?d \<noteq> []" unfolding trim_def .
  then have "?d \<noteq> []" by (metis dropWhile.simps(1) rev.simps(1) trim_end_def)
  then have "\<not> js_ws (hd ?d)" by (rule hd_dropWhile)
  then have "\<not> js_ws (hd (trim_end ?d))" using hd_trim_end [OF ne] by simp
  then have "dropWhile js_ws (trim_end ?d) = trim_end ?d"
    using ne by (cases "trim_end ?d") auto
  then show ?thesis by (simp add: trim_def)
qed

lemma trimmed_opt_Some: "trimmed_opt s = Some t \<Longrightarrow> t \<noteq> [] \<and> trim t = t"
  by (auto simp: trimmed_opt_def nonempty_def split: option.splits if_splits)

lemma trimmed_opt_idem [simp]: "trimmed_opt (trimmed_opt s) = trimmed_opt s"
  by (auto simp: trimmed_opt_def nonempty_def split: option.splits)

section \<open>Decimal rendering and Number\<close>

fun digit_char :: "nat \<Rightarrow> char" where
  "digit_char n = char_of (48 + n)"

function show_nat :: "nat \<Rightarrow> string" where
  "show_nat n = (if n < 10 then [digit_char n] else show_nat (n div 10) @ [digit_char (n mod 10)])"
  by pat_completeness auto
termination
  by (relation "measure id") auto

declare show_nat.simps [simp del]

definition show_int :: "int \<Rightarrow> string" where
  "show_int i = (if i < 0 then CHR ''-'' # show_nat (nat (- i)) else show_nat (nat i))"

definition digit_value :: "char \<Rightarrow> nat option" where
  "digit_value c = (let n = (of_char c :: nat) in
     if 48 \<le> n \<and> n \<le> 57 then Some (n - 48) else None)"

text \<open>The longest run of decimal digits: its value, its length, what follows it.\<close>

fun read_digits :: "nat \<Rightarrow> nat \<Rightarrow> string \<Rightarrow> nat \<times> nat \<times> string" where
  "read_digits v k [] = (v, k, [])"
| "read_digits v k (c # cs) =
     (case digit_value c of
        Some d \<Rightarrow> read_digits (10 * v + d) (Suc k) cs
      | None \<Rightarrow> (v, k, c # cs))"

definition split_sign :: "string \<Rightarrow> int \<times> string" where
  "split_sign s = (case s of
     [] \<Rightarrow> (1, [])
   | c # cs \<Rightarrow> if c = CHR ''-'' then (- 1, cs) else if c = CHR ''+'' then (1, cs) else (1, s))"

definition is_exp_char :: "char \<Rightarrow> bool" where
  "is_exp_char c = (c = CHR ''e'' \<or> c = CHR ''E'')"

definition scale_ten :: "rat \<Rightarrow> int \<Rightarrow> rat" where
  "scale_ten m e = (if 0 \<le> e then m * 10 ^ nat e else m / 10 ^ nat (- e))"

text \<open>
  \<open>Number(s)\<close> on a trimmed non-empty string: the decimal literals of the grammar (an optional
  sign, digits with an optional fraction, an optional exponent) and the unsigned hexadecimal,
  octal and binary ones. Everything else (\<open>NaN\<close>, \<open>Infinity\<close>, and a literal whose value
  overflows a double) is \<open>None\<close>. The rounding of the value to a double is left out.
\<close>

definition radix_digit :: "char \<Rightarrow> nat option" where
  "radix_digit c = (let n = (of_char (lower_char c) :: nat) in
     if 48 \<le> n \<and> n \<le> 57 then Some (n - 48)
     else if 97 \<le> n \<and> n \<le> 122 then Some (n - 87) else None)"

fun read_radix :: "nat \<Rightarrow> nat \<Rightarrow> string \<Rightarrow> nat option" where
  "read_radix b v [] = Some v"
| "read_radix b v (c # cs) =
     (case radix_digit c of
        Some d \<Rightarrow> if d < b then read_radix b (b * v + d) cs else None
      | None \<Rightarrow> None)"

definition radix_of :: "char \<Rightarrow> nat option" where
  "radix_of c =
     (if c \<in> {CHR ''x'', CHR ''X''} then Some 16
      else if c \<in> {CHR ''o'', CHR ''O''} then Some 8
      else if c \<in> {CHR ''b'', CHR ''B''} then Some 2 else None)"

definition prefixed_number :: "string \<Rightarrow> nat option" where
  "prefixed_number s = (case s of
     z # r # d # ds \<Rightarrow>
       (case radix_of r of
          Some b \<Rightarrow> if z = CHR ''0'' then read_radix b 0 (d # ds) else None
        | None \<Rightarrow> None)
   | _ \<Rightarrow> None)"

definition max_double :: rat where
  "max_double = 2 ^ 1024 - 2 ^ 970"

definition decimal_number :: "string \<Rightarrow> rat option" where
  "decimal_number s =
     (let (sg, body) = split_sign s;
          (iv, ik, rest) = read_digits 0 0 body;
          (fv, fk, rest') = (case rest of
             c # cs \<Rightarrow> if c = CHR ''.'' then read_digits 0 0 cs else (0, 0, rest)
           | [] \<Rightarrow> (0, 0, []));
          m = of_int sg * (of_nat iv + of_nat fv / 10 ^ fk);
          fin = (\<lambda>r. if \<bar>r\<bar> < max_double then Some r else None)
      in if ik + fk = 0 then None
         else case rest' of
           [] \<Rightarrow> fin m
         | c # cs \<Rightarrow>
             if is_exp_char c then
               (let (esg, ebody) = split_sign cs; (ev, ek, erest) = read_digits 0 0 ebody
                in if ek = 0 \<or> erest \<noteq> [] then None else fin (scale_ten m (esg * int ev)))
             else None)"

definition js_number :: "string \<Rightarrow> rat option" where
  "js_number s = (case prefixed_number s of
     Some n \<Rightarrow> if (of_nat n :: rat) < max_double then Some (of_nat n) else None
   | None \<Rightarrow> decimal_number s)"

lemmas [js_defs] = radix_digit_def radix_of_def prefixed_number_def decimal_number_def show_int_def digit_value_def split_sign_def is_exp_char_def scale_ten_def
  js_number_def max_double_def

text \<open>
  The decimal rendering of a number: the digits of the shortest decimal that denotes it, placed
  as ECMAScript's \<open>Number::toString\<close> places them. A number of the model is the decimal it was
  written as; the fuel bounds the number of its decimals.
\<close>

fun decimal_shift :: "nat \<Rightarrow> nat \<Rightarrow> rat \<Rightarrow> nat" where
  "decimal_shift 0 j r = j"
| "decimal_shift (Suc n) j r =
     (if of_int \<lfloor>r * 10 ^ j\<rfloor> = r * 10 ^ j then j else decimal_shift n (Suc j) r)"

definition place_digits :: "string \<Rightarrow> int \<Rightarrow> string" where
  "place_digits ds n =
     (let k = int (length ds); e = n - 1;
          expo = (if e < 0 then ''e-'' @ show_int (- e) else ''e+'' @ show_int e)
      in if k \<le> n \<and> n \<le> 21 then ds @ replicate (nat (n - k)) (CHR ''0'')
         else if 0 < n \<and> n \<le> 21 then take (nat n) ds @ ''.'' @ drop (nat n) ds
         else if -6 < n \<and> n \<le> 0 then ''0.'' @ replicate (nat (- n)) (CHR ''0'') @ ds
         else if k = 1 then ds @ expo
         else take 1 ds @ ''.'' @ drop 1 ds @ expo)"

definition show_num :: "rat \<Rightarrow> string" where
  "show_num r =
     (if r = 0 then ''0''
      else let j = decimal_shift 1100 0 \<bar>r\<bar>;
               ds = show_nat (nat \<lfloor>\<bar>r\<bar> * 10 ^ j\<rfloor>);
               body = place_digits (rev (dropWhile (\<lambda>c. c = CHR ''0'') (rev ds))) (int (length ds) - int j)
           in if r < 0 then CHR ''-'' # body else body)"

lemmas [js_defs] = place_digits_def show_num_def

text \<open>\<open>JSON.stringify\<close> of a string.\<close>

definition hex_char :: "nat \<Rightarrow> char" where
  "hex_char n = (if n < 10 then char_of (48 + n) else char_of (87 + n))"

definition json_escape :: "char \<Rightarrow> string" where
  "json_escape c =
     (let n = (of_char c :: nat) in
      if c = CHR 0x22 then [CHR 0x5C, CHR 0x22]
      else if c = CHR 0x5C then [CHR 0x5C, CHR 0x5C]
      else if n = 8 then [CHR 0x5C, CHR ''b'']
      else if n = 9 then [CHR 0x5C, CHR ''t'']
      else if n = 10 then [CHR 0x5C, CHR ''n'']
      else if n = 12 then [CHR 0x5C, CHR ''f'']
      else if n = 13 then [CHR 0x5C, CHR ''r'']
      else if n < 32 then [CHR 0x5C, CHR ''u'', CHR ''0'', CHR ''0'', hex_char (n div 16), hex_char (n mod 16)]
      else [c])"

definition json_quote :: "string \<Rightarrow> string" where
  "json_quote s = [CHR 0x22] @ concat (map json_escape s) @ [CHR 0x22]"

text \<open>\<open>setTimeout(f, ms)\<close> of Node fires after one millisecond when \<open>ms\<close> does not fit in 31 bits.\<close>

definition node_timer_ms :: "int \<Rightarrow> int" where
  "node_timer_ms ms = (if ms < 1 \<or> ms > 2147483647 then 1 else ms)"

section \<open>Lists\<close>

text \<open>\<open>jobs.find(p)\<close> and a mutation of what it returns: only the first match changes.\<close>

fun update_first :: "('a \<Rightarrow> bool) \<Rightarrow> ('a \<Rightarrow> 'a) \<Rightarrow> 'a list \<Rightarrow> 'a list" where
  "update_first P f [] = []"
| "update_first P f (x # xs) = (if P x then f x # xs else x # update_first P f xs)"

lemma length_update_first [simp]: "length (update_first P f xs) = length xs"
  by (induction xs) auto

lemma update_first_none: "(\<forall>x \<in> set xs. \<not> P x) \<Longrightarrow> update_first P f xs = xs"
  by (induction xs) auto

lemma map_update_first:
  "(\<And>x. P x \<Longrightarrow> g (f x) = g x) \<Longrightarrow> map g (update_first P f xs) = map g xs"
  by (induction xs) auto

lemma find_update_first:
  "(\<And>x. P x \<Longrightarrow> P (f x)) \<Longrightarrow> find P (update_first P f xs) = map_option f (find P xs)"
  by (induction xs) auto

lemma find_update_first_other:
  "(\<And>x. P x \<Longrightarrow> \<not> Q x \<and> \<not> Q (f x)) \<Longrightarrow> find Q (update_first P f xs) = find Q xs"
  by (induction xs) auto

lemma set_update_first: "set (update_first P f xs) \<subseteq> set xs \<union> f ` {x \<in> set xs. P x}"
  by (induction xs) auto

lemma update_first_all:
  "(\<And>x. x \<in> set xs \<Longrightarrow> Q x) \<Longrightarrow> (\<And>x. x \<in> set xs \<Longrightarrow> P x \<Longrightarrow> Q (f x)) \<Longrightarrow>
   y \<in> set (update_first P f xs) \<Longrightarrow> Q y"
  using set_update_first [of P f xs] by auto

lemma find_SomeD: "find P xs = Some x \<Longrightarrow> x \<in> set xs \<and> P x"
  by (induction xs) (auto split: if_splits)

lemma find_None_iff_all: "find P xs = None \<longleftrightarrow> (\<forall>x \<in> set xs. \<not> P x)"
  by (induction xs) auto

lemma distinct_map_unique:
  "distinct (map f xs) \<Longrightarrow> x \<in> set xs \<Longrightarrow> y \<in> set xs \<Longrightarrow> f x = f y \<Longrightarrow> x = y"
  by (auto simp: distinct_map dest: inj_onD)

lemma find_distinct_key:
  assumes "distinct (map f xs)" and "x \<in> set xs"
  shows "find (\<lambda>y. f y = f x) xs = Some x"
  using assms by (induction xs) (auto dest: image_eqI)

text \<open>A stable sort by a comparison function, which is what \<open>toSorted\<close> computes for a consistent one.\<close>

fun insert_by :: "('a \<Rightarrow> 'a \<Rightarrow> int) \<Rightarrow> 'a \<Rightarrow> 'a list \<Rightarrow> 'a list" where
  "insert_by cmp x [] = [x]"
| "insert_by cmp x (y # ys) = (if cmp x y \<le> 0 then x # y # ys else y # insert_by cmp x ys)"

definition sort_with :: "('a \<Rightarrow> 'a \<Rightarrow> int) \<Rightarrow> 'a list \<Rightarrow> 'a list" where
  "sort_with cmp xs = foldr (insert_by cmp) xs []"

section \<open>A transition system with an invariant\<close>

text \<open>
  A component that handles one event at a time: if every step keeps \<open>inv\<close>, so does every run.
  Components instantiate \<open>step\<close> with their own step function.
\<close>

locale guarded_system =
  fixes step :: "'s \<Rightarrow> 'e \<Rightarrow> 's"
    and inv :: "'s \<Rightarrow> bool"
    and ok :: "'s \<Rightarrow> 'e \<Rightarrow> bool"
  assumes step_inv: "inv s \<Longrightarrow> ok s e \<Longrightarrow> inv (step s e)"
begin

fun run_ok :: "'s \<Rightarrow> 'e list \<Rightarrow> bool" where
  "run_ok s [] = True"
| "run_ok s (e # es) = (ok s e \<and> run_ok (step s e) es)"

lemma run_inv: "inv s \<Longrightarrow> run_ok s es \<Longrightarrow> inv (foldl step s es)"
  by (induction es arbitrary: s) (auto intro: step_inv)

end

locale invariant_system = guarded_system step inv "\<lambda>_ _. True"
  for step :: "'s \<Rightarrow> 'e \<Rightarrow> 's" and inv :: "'s \<Rightarrow> bool"
begin

lemma run_ok_trivial: "run_ok s es"
  by (induction es arbitrary: s) auto

lemma run_all_inv: "inv s \<Longrightarrow> inv (foldl step s es)"
  by (rule run_inv) (simp_all add: run_ok_trivial)

lemma run_prefix_inv: "inv s \<Longrightarrow> inv (foldl step s (take n es))"
  by (rule run_all_inv)

end

end
