(* ===== verification/CommandQueue.thy ===== *)
theory CommandQueue
  imports Prelude "HOL-Library.Multiset"
begin

text \<open>
  The in-process command queue of \<open>src/process/command-queue.ts\<close>: named lanes, each a FIFO
  queue with a concurrency limit, a generation that a restart bumps, and waiters for the tasks
  that are active.

  One event of the model is one synchronous section of the code: a call of an exported
  function, the continuation that runs when a task's promise settles, or a timer callback.
  Within a section the clock is read once. The JavaScript closures become data: \<open>q_promise\<close>
  numbers the promise that \<open>enqueueCommandInLane\<close> returned together with its task, and an
  entry of \<open>running\<close> is the continuation of a started task. What a section does to the outside
  (starting a task, settling a promise, calling \<open>onWait\<close>) is appended to \<open>q_log\<close>. The part of
  a task before its first await is assumed not to call the queue; log lines are left out.
\<close>

section \<open>Data\<close>

datatype lane_error =
    CommandLaneClearedError string
  | GatewayDrainingError
  | TaskError string

record queue_entry =
  q_promise :: nat
  q_enqueuedAt :: int
  q_warnAfterMs :: int
  q_hasOnWait :: bool

record lane_state =
  lane_queue :: "queue_entry list"
  lane_active :: "nat list"
  lane_max :: nat
  lane_draining :: bool
  lane_gen :: nat

record task_waiter =
  w_promise :: nat
  w_ids :: "nat list"

record running_task =
  rt_task :: nat
  rt_lane :: string
  rt_gen :: nat
  rt_promise :: nat

datatype queue_effect =
    TaskStarted string nat nat
  | WaitCallback nat int nat
  | Resolved nat
  | Rejected nat lane_error
  | WaiterResolved nat bool

record queue_state =
  gateway_draining :: bool
  lanes :: "(string \<times> lane_state) list"
  active_waiters :: "task_waiter list"
  next_task_id :: nat
  running :: "running_task list"
  next_promise :: nat
  next_waiter :: nat
  q_log :: "queue_effect list"

definition initial_queue_state :: queue_state where
  "initial_queue_state =
     \<lparr>gateway_draining = False, lanes = [], active_waiters = [], next_task_id = 1,
      running = [], next_promise = 0, next_waiter = 0, q_log = []\<rparr>"

definition main_lane :: string where
  "main_lane = ''main''"

definition emit_effects :: "queue_effect list \<Rightarrow> queue_state \<Rightarrow> queue_state" where
  "emit_effects es st = st\<lparr>q_log := q_log st @ es\<rparr>"

section \<open>Lanes\<close>

definition normalizeLane :: "string \<Rightarrow> string" where
  "normalizeLane lane = (if trim lane = [] then main_lane else trim lane)"

definition getLaneDepth :: "lane_state \<Rightarrow> nat" where
  "getLaneDepth s = length (lane_queue s) + length (lane_active s)"

definition new_lane :: lane_state where
  "new_lane = \<lparr>lane_queue = [], lane_active = [], lane_max = 1, lane_draining = False,
               lane_gen = 0\<rparr>"

definition put_lane :: "string \<Rightarrow> lane_state \<Rightarrow> queue_state \<Rightarrow> queue_state" where
  "put_lane l s st = st\<lparr>lanes := AList.update l s (lanes st)\<rparr>"

definition getLaneState :: "string \<Rightarrow> queue_state \<Rightarrow> lane_state \<times> queue_state" where
  "getLaneState l st =
     (case map_of (lanes st) l of
        Some s \<Rightarrow> (s, st)
      | None \<Rightarrow> (new_lane, put_lane l new_lane st))"

definition completeTask :: "lane_state \<Rightarrow> nat \<Rightarrow> nat \<Rightarrow> bool \<times> lane_state" where
  "completeTask s t g =
     (if g \<noteq> lane_gen s then (False, s)
      else (True, s\<lparr>lane_active := filter (\<lambda>x. x \<noteq> t) (lane_active s)\<rparr>))"

section \<open>Waiters\<close>

definition hasPendingActiveTasks :: "queue_state \<Rightarrow> nat list \<Rightarrow> bool" where
  "hasPendingActiveTasks st ids =
     list_ex (\<lambda>(l, s). list_ex (\<lambda>t. t \<in> set ids) (lane_active s)) (lanes st)"

definition resolveActiveTaskWaiter :: "task_waiter \<Rightarrow> bool \<Rightarrow> queue_state \<Rightarrow> queue_state" where
  "resolveActiveTaskWaiter w drained st =
     (if w \<in> set (active_waiters st)
      then emit_effects [WaiterResolved (w_promise w) drained]
             (st\<lparr>active_waiters := removeAll w (active_waiters st)\<rparr>)
      else st)"

definition notify_one :: "queue_state \<Rightarrow> task_waiter \<Rightarrow> queue_state" where
  "notify_one st w =
     (if w_ids w = [] \<or> \<not> hasPendingActiveTasks st (w_ids w)
      then resolveActiveTaskWaiter w True st else st)"

definition notifyActiveTaskWaiters :: "queue_state \<Rightarrow> queue_state" where
  "notifyActiveTaskWaiters st = foldl notify_one st (active_waiters st)"

section \<open>Pumping a lane\<close>

text \<open>
  \<open>pump_loop\<close> is the \<open>while\<close> of \<open>pump\<close>: while a slot is free it shifts the head of the
  queue and gives it the next task id. It returns the started entries with their ids and the
  length of the queue left behind each, the rest of the queue, the active ids and the next id.
\<close>

fun pump_loop :: "nat \<Rightarrow> queue_entry list \<Rightarrow> nat list \<Rightarrow> nat \<Rightarrow>
    (queue_entry \<times> nat \<times> nat) list \<times> queue_entry list \<times> nat list \<times> nat" where
  "pump_loop mx [] act nid = ([], [], act, nid)"
| "pump_loop mx (e # q) act nid =
     (if length act < mx
      then (case pump_loop mx q (act @ [nid]) (Suc nid) of
              (started, q', act', nid') \<Rightarrow> ((e, nid, length q) # started, q', act', nid'))
      else ([], e # q, act, nid))"

definition start_effects ::
    "int \<Rightarrow> string \<Rightarrow> queue_entry \<times> nat \<times> nat \<Rightarrow> queue_effect list" where
  "start_effects now l = (\<lambda>(e, t, ahead).
     (let waited = now - q_enqueuedAt e in
      (if q_warnAfterMs e \<le> waited \<and> q_hasOnWait e
       then [WaitCallback (q_promise e) waited ahead] else []) @
      [TaskStarted l (q_promise e) t]))"

definition start_task :: "string \<Rightarrow> nat \<Rightarrow> queue_entry \<times> nat \<times> nat \<Rightarrow> running_task" where
  "start_task l g = (\<lambda>(e, t, ahead).
     \<lparr>rt_task = t, rt_lane = l, rt_gen = g, rt_promise = q_promise e\<rparr>)"

definition pump :: "int \<Rightarrow> string \<Rightarrow> queue_state \<Rightarrow> queue_state" where
  "pump now l st =
     (let s = fst (getLaneState l st) in
      case pump_loop (lane_max s) (lane_queue s) (lane_active s) (next_task_id st) of
        (started, q', act', nid') \<Rightarrow>
          emit_effects (concat (map (start_effects now l) started))
            ((put_lane l (s\<lparr>lane_queue := q', lane_active := act', lane_draining := False\<rparr>) st)
               \<lparr>next_task_id := nid',
                running := running st @ map (start_task l (lane_gen s)) started\<rparr>))"

definition drainLane :: "int \<Rightarrow> string \<Rightarrow> queue_state \<Rightarrow> queue_state" where
  "drainLane now l st =
     (case getLaneState l st of (s, st1) \<Rightarrow>
        if lane_draining s then st1
        else pump now l (put_lane l (s\<lparr>lane_draining := True\<rparr>) st1))"

text \<open>
  The continuation of a task: on success and on failure alike the task leaves its lane if the
  lane still has the generation it started in, then the waiters are notified, the lane is
  pumped, and last the caller's promise is settled.
\<close>

definition settle_effect :: "nat \<Rightarrow> string option \<Rightarrow> queue_effect" where
  "settle_effect p err = (case err of None \<Rightarrow> Resolved p | Some e \<Rightarrow> Rejected p (TaskError e))"

definition taskSettled :: "int \<Rightarrow> nat \<Rightarrow> string option \<Rightarrow> queue_state \<Rightarrow> queue_state" where
  "taskSettled now t err st =
     (case find (\<lambda>r. rt_task r = t) (running st) of
        None \<Rightarrow> st
      | Some r \<Rightarrow>
          (let st0 = st\<lparr>running := filter (\<lambda>x. rt_task x \<noteq> t) (running st)\<rparr>;
               l = rt_lane r;
               (completed, s') = completeTask (fst (getLaneState l st0)) t (rt_gen r);
               st1 = (if completed
                      then pump now l (notifyActiveTaskWaiters (put_lane l s' st0)) else st0)
           in emit_effects [settle_effect (rt_promise r) err] st1))"

section \<open>The exported operations\<close>

definition markGatewayDraining :: "queue_state \<Rightarrow> queue_state" where
  "markGatewayDraining st = st\<lparr>gateway_draining := True\<rparr>"

definition setCommandLaneConcurrency :: "int \<Rightarrow> string \<Rightarrow> rat \<Rightarrow> queue_state \<Rightarrow> queue_state" where
  "setCommandLaneConcurrency now lane mx st =
     (let cleaned = normalizeLane lane in
      case getLaneState cleaned st of (s, st1) \<Rightarrow>
        drainLane now cleaned
          (put_lane cleaned (s\<lparr>lane_max := nat (max 1 \<lfloor>mx\<rfloor>)\<rparr>) st1))"

definition enqueueCommandInLane ::
    "int \<Rightarrow> string \<Rightarrow> int option \<Rightarrow> bool \<Rightarrow> queue_state \<Rightarrow> queue_state" where
  "enqueueCommandInLane now lane warnAfterMs hasOnWait st =
     (let p = next_promise st; st0 = st\<lparr>next_promise := Suc p\<rparr> in
      if gateway_draining st then emit_effects [Rejected p GatewayDrainingError] st0
      else
        (let cleaned = normalizeLane lane;
             e = \<lparr>q_promise = p, q_enqueuedAt = now,
                  q_warnAfterMs = (case warnAfterMs of Some w \<Rightarrow> w | None \<Rightarrow> 2000),
                  q_hasOnWait = hasOnWait\<rparr>
         in case getLaneState cleaned st0 of (s, st1) \<Rightarrow>
              drainLane now cleaned (put_lane cleaned (s\<lparr>lane_queue := lane_queue s @ [e]\<rparr>) st1)))"

definition enqueueCommand ::
    "int \<Rightarrow> int option \<Rightarrow> bool \<Rightarrow> queue_state \<Rightarrow> queue_state" where
  "enqueueCommand now warnAfterMs hasOnWait st =
     enqueueCommandInLane now main_lane warnAfterMs hasOnWait st"

definition getQueueSize :: "string \<Rightarrow> queue_state \<Rightarrow> nat" where
  "getQueueSize lane st =
     (case map_of (lanes st) (normalizeLane lane) of None \<Rightarrow> 0 | Some s \<Rightarrow> getLaneDepth s)"

definition getTotalQueueSize :: "queue_state \<Rightarrow> nat" where
  "getTotalQueueSize st = sum_list (map (\<lambda>(l, s). getLaneDepth s) (lanes st))"

definition clearCommandLane :: "string \<Rightarrow> queue_state \<Rightarrow> nat \<times> queue_state" where
  "clearCommandLane lane st =
     (let cleaned = normalizeLane lane in
      case map_of (lanes st) cleaned of
        None \<Rightarrow> (0, st)
      | Some s \<Rightarrow>
          (length (lane_queue s),
           emit_effects
             (map (\<lambda>e. Rejected (q_promise e) (CommandLaneClearedError cleaned)) (lane_queue s))
             (put_lane cleaned (s\<lparr>lane_queue := []\<rparr>) st)))"

definition reset_lane :: "lane_state \<Rightarrow> lane_state" where
  "reset_lane s = s\<lparr>lane_gen := lane_gen s + 1, lane_active := [], lane_draining := False\<rparr>"

definition resetAllLanes :: "int \<Rightarrow> queue_state \<Rightarrow> queue_state" where
  "resetAllLanes now st =
     (let st1 = st\<lparr>gateway_draining := False,
                   lanes := map (\<lambda>(l, s). (l, reset_lane s)) (lanes st)\<rparr>;
          lanesToDrain = map fst (filter (\<lambda>(l, s). lane_queue s \<noteq> []) (lanes st1))
      in notifyActiveTaskWaiters (foldl (\<lambda>s l. drainLane now l s) st1 lanesToDrain))"

definition getActiveTaskCount :: "queue_state \<Rightarrow> nat" where
  "getActiveTaskCount st = sum_list (map (\<lambda>(l, s). length (lane_active s)) (lanes st))"

definition active_task_ids :: "queue_state \<Rightarrow> nat list" where
  "active_task_ids st = concat (map (\<lambda>(l, s). lane_active s) (lanes st))"

definition waitForActiveTasks :: "int \<Rightarrow> queue_state \<Rightarrow> queue_state" where
  "waitForActiveTasks timeoutMs st =
     (let p = next_waiter st;
          st0 = st\<lparr>next_waiter := Suc p\<rparr>;
          activeAtStart = active_task_ids st
      in if activeAtStart = [] then emit_effects [WaiterResolved p True] st0
         else if timeoutMs \<le> 0 then emit_effects [WaiterResolved p False] st0
         else notifyActiveTaskWaiters
                (st0\<lparr>active_waiters := active_waiters st @
                       [\<lparr>w_promise = p, w_ids = activeAtStart\<rparr>]\<rparr>))"

definition waiterTimeout :: "nat \<Rightarrow> queue_state \<Rightarrow> queue_state" where
  "waiterTimeout p st =
     (case find (\<lambda>w. w_promise w = p) (active_waiters st) of
        None \<Rightarrow> st
      | Some w \<Rightarrow> resolveActiveTaskWaiter w False st)"

section \<open>Runs\<close>

datatype queue_event =
    EnqueueInLane string "int option" bool
  | TaskDone nat "string option"
  | SetConcurrency string rat
  | ClearLane string
  | MarkDraining
  | ResetLanes
  | WaitActive int
  | WaiterTimedOut nat

fun queue_step :: "queue_state \<Rightarrow> int \<times> queue_event \<Rightarrow> queue_state" where
  "queue_step st (now, EnqueueInLane l w b) = enqueueCommandInLane now l w b st"
| "queue_step st (now, TaskDone t e) = taskSettled now t e st"
| "queue_step st (now, SetConcurrency l m) = setCommandLaneConcurrency now l m st"
| "queue_step st (now, ClearLane l) = snd (clearCommandLane l st)"
| "queue_step st (now, MarkDraining) = markGatewayDraining st"
| "queue_step st (now, ResetLanes) = resetAllLanes now st"
| "queue_step st (now, WaitActive ms) = waitForActiveTasks ms st"
| "queue_step st (now, WaiterTimedOut p) = waiterTimeout p st"

definition queue_run :: "queue_state \<Rightarrow> (int \<times> queue_event) list \<Rightarrow> queue_state" where
  "queue_run st es = foldl queue_step st es"

end
