(* ===== verification/CommandQueueInv.thy ===== *)
theory CommandQueueInv
  imports CommandQueue
begin

text \<open>
  The invariant of the command queue and the proof that every synchronous section keeps it.
  \<open>q_inv X M st\<close> is the invariant with two allowances that sections use between their steps:
  the lanes of \<open>X\<close> may still have work that fits (they are about to be pumped), and the
  promises of \<open>M\<close> are held by the continuation that is running.
\<close>

section \<open>Reading the state\<close>

definition lane_at :: "queue_state \<Rightarrow> string \<Rightarrow> lane_state option" where
  "lane_at st l = map_of (lanes st) l"

definition issued :: "nat \<Rightarrow> nat multiset" where
  "issued n = mset [0..<n]"

lemma issued_Suc: "issued (Suc n) = issued n + {#n#}"
  by (simp add: issued_def del: mset_upt)

definition queued_promises :: "queue_state \<Rightarrow> nat list" where
  "queued_promises st = concat (map (\<lambda>(l, s). map q_promise (lane_queue s)) (lanes st))"

fun settled_of :: "queue_effect \<Rightarrow> nat list" where
  "settled_of (Resolved p) = [p]"
| "settled_of (Rejected p e) = [p]"
| "settled_of _ = []"

definition settled_promises :: "queue_state \<Rightarrow> nat list" where
  "settled_promises st = concat (map settled_of (q_log st))"

definition promise_mset :: "queue_state \<Rightarrow> nat multiset" where
  "promise_mset st = mset (queued_promises st) + mset (map rt_promise (running st)) +
     mset (settled_promises st)"

section \<open>The invariant\<close>

definition lane_inv :: "bool \<Rightarrow> lane_state \<Rightarrow> bool" where
  "lane_inv exempt s \<longleftrightarrow> 1 \<le> lane_max s \<and> \<not> lane_draining s \<and>
     (\<not> exempt \<longrightarrow> lane_queue s \<noteq> [] \<longrightarrow> lane_max s \<le> length (lane_active s))"

definition tasks_inv :: "queue_state \<Rightarrow> bool" where
  "tasks_inv st \<longleftrightarrow>
     distinct (map rt_task (running st)) \<and>
     (\<forall>r \<in> set (running st). rt_task r < next_task_id st \<and>
        (\<exists>s. lane_at st (rt_lane r) = Some s \<and> rt_gen r \<le> lane_gen s)) \<and>
     (\<forall>l s. lane_at st l = Some s \<longrightarrow> distinct (lane_active s) \<and>
        set (lane_active s) =
          rt_task ` {r \<in> set (running st). rt_lane r = l \<and> rt_gen r = lane_gen s})"

text \<open>The promises of the tasks a lane started, in the order of the starts.\<close>

fun starts_in :: "string \<Rightarrow> queue_effect \<Rightarrow> nat list" where
  "starts_in l (TaskStarted l' p t) = (if l' = l then [p] else [])"
| "starts_in l _ = []"

definition lane_starts :: "string \<Rightarrow> queue_effect list \<Rightarrow> nat list" where
  "lane_starts l effs = concat (map (starts_in l) effs)"

definition fifo_inv :: "queue_state \<Rightarrow> bool" where
  "fifo_inv st \<longleftrightarrow>
     (\<forall>l. sorted_wrt (<) (lane_starts l (q_log st))) \<and>
     (\<forall>l p t. TaskStarted l p t \<in> set (q_log st) \<longrightarrow> p < next_promise st) \<and>
     (\<forall>l s. lane_at st l = Some s \<longrightarrow>
        sorted_wrt (<) (map q_promise (lane_queue s)) \<and>
        (\<forall>e \<in> set (lane_queue s). q_promise e < next_promise st) \<and>
        (\<forall>p t. TaskStarted l p t \<in> set (q_log st) \<longrightarrow> (\<forall>e \<in> set (lane_queue s). p < q_promise e)))"

definition q_inv :: "string set \<Rightarrow> nat multiset \<Rightarrow> queue_state \<Rightarrow> bool" where
  "q_inv X M st \<longleftrightarrow>
     distinct (map fst (lanes st)) \<and>
     (\<forall>l s. lane_at st l = Some s \<longrightarrow> lane_inv (l \<in> X) s) \<and>
     tasks_inv st \<and>
     promise_mset st + M = issued (next_promise st) \<and>
     fifo_inv st"

definition waiters_inv :: "queue_state \<Rightarrow> bool" where
  "waiters_inv st \<longleftrightarrow> (\<forall>w \<in> set (active_waiters st). hasPendingActiveTasks st (w_ids w))"

definition queue_inv :: "queue_state \<Rightarrow> bool" where
  "queue_inv st \<longleftrightarrow> q_inv {} {#} st \<and> waiters_inv st"

lemmas inv_defs = q_inv_def lane_inv_def tasks_inv_def fifo_inv_def

lemma q_inv_initial: "queue_inv initial_queue_state"
  by (simp add: queue_inv_def waiters_inv_def inv_defs initial_queue_state_def promise_mset_def
      queued_promises_def settled_promises_def lane_at_def issued_def lane_starts_def)

lemma in_lane_starts: "p \<in> set (lane_starts l (q_log st)) \<longleftrightarrow> (\<exists>t. TaskStarted l p t \<in> set (q_log st))"
proof -
  have "p \<in> set (starts_in l e) \<longleftrightarrow> (\<exists>t. TaskStarted l p t = e)" for e
    by (cases e) auto
  then show ?thesis by (auto simp: lane_starts_def)
qed

lemma q_inv_mono: "q_inv X M st \<Longrightarrow> X \<subseteq> Y \<Longrightarrow> q_inv Y M st"
  unfolding q_inv_def lane_inv_def by (meson subsetD)

section \<open>The primitive updates\<close>

lemma lane_at_put_lane [simp]: "lane_at (put_lane l s st) = (lane_at st)(l \<mapsto> s)"
  by (rule ext) (simp add: lane_at_def put_lane_def AList.update_conv')

lemma put_lane_fields [simp]:
  "running (put_lane l s st) = running st" "q_log (put_lane l s st) = q_log st"
  "next_task_id (put_lane l s st) = next_task_id st"
  "next_promise (put_lane l s st) = next_promise st"
  "active_waiters (put_lane l s st) = active_waiters st"
  "gateway_draining (put_lane l s st) = gateway_draining st"
  by (simp_all add: put_lane_def)

lemma emit_effects_fields [simp]:
  "running (emit_effects es st) = running st" "q_log (emit_effects es st) = q_log st @ es"
  "next_task_id (emit_effects es st) = next_task_id st"
  "next_promise (emit_effects es st) = next_promise st"
  "active_waiters (emit_effects es st) = active_waiters st"
  "lanes (emit_effects es st) = lanes st"
  "gateway_draining (emit_effects es st) = gateway_draining st"
  by (simp_all add: emit_effects_def)

lemma distinct_put_lane: "distinct (map fst (lanes st)) \<Longrightarrow> distinct (map fst (lanes (put_lane l s st)))"
  by (simp add: put_lane_def distinct_update)

lemma getLaneState_cases:
  obtains "lane_at st l = Some (fst (getLaneState l st))" "snd (getLaneState l st) = st"
  | "lane_at st l = None" "getLaneState l st = (new_lane, put_lane l new_lane st)"
  by (cases "lane_at st l") (auto simp: getLaneState_def lane_at_def)

lemma lane_at_getLaneState:
  "lane_at (snd (getLaneState l st)) = (lane_at st)(l \<mapsto> fst (getLaneState l st))"
  by (rule getLaneState_cases [of st l]) (auto simp: fun_upd_idem)

lemma getLaneState_fields [simp]:
  "running (snd (getLaneState l st)) = running st" "q_log (snd (getLaneState l st)) = q_log st"
  "next_task_id (snd (getLaneState l st)) = next_task_id st"
  "next_promise (snd (getLaneState l st)) = next_promise st"
  "active_waiters (snd (getLaneState l st)) = active_waiters st"
  by (auto simp: getLaneState_def split: option.splits)

text \<open>Storing a lane exchanges its queued promises for those of the new value.\<close>

lemma mset_concat_update:
  "mset (concat (map (\<lambda>(k, v). f v) (AList.update k v al))) +
     (case map_of al k of None \<Rightarrow> {#} | Some w \<Rightarrow> mset (f w)) =
   mset (concat (map (\<lambda>(k, v). f v) al)) + mset (f v)"
  by (induction al) (auto split: option.splits)

definition lane_promises :: "lane_state option \<Rightarrow> nat multiset" where
  "lane_promises s = (case s of None \<Rightarrow> {#} | Some s \<Rightarrow> mset (map q_promise (lane_queue s)))"

lemma queued_put_lane:
  "mset (queued_promises (put_lane l s st)) + lane_promises (lane_at st l) =
   mset (queued_promises st) + mset (map q_promise (lane_queue s))"
  using mset_concat_update [of "\<lambda>s. map q_promise (lane_queue s)" l s "lanes st"]
  by (simp add: queued_promises_def put_lane_def lane_promises_def lane_at_def
      cong: option.case_cong)

lemma promise_put_lane:
  "promise_mset (put_lane l s st) + lane_promises (lane_at st l) =
   promise_mset st + mset (map q_promise (lane_queue s))"
  using queued_put_lane [of l s st]
  by (simp add: promise_mset_def settled_promises_def add_ac)

lemma promise_put_lane_same:
  "lane_promises (lane_at st l) = mset (map q_promise (lane_queue s)) \<Longrightarrow>
   promise_mset (put_lane l s st) = promise_mset st"
  using promise_put_lane [of l s st] by simp

lemma promise_mset_emit:
  "promise_mset (emit_effects es st) = promise_mset st + mset (concat (map settled_of es))"
  by (simp add: promise_mset_def settled_promises_def queued_promises_def emit_effects_def)

section \<open>The pump\<close>

lemma pump_loop_shape:
  assumes "pump_loop mx q act nid = (started, q', act', nid')"
  shows "map fst started @ q' = q \<and> act' = act @ [nid..<nid'] \<and>
    map (\<lambda>(e, t, a). t) started = [nid..<nid'] \<and> nid \<le> nid' \<and>
    (q' \<noteq> [] \<longrightarrow> mx \<le> length act') \<and> (started \<noteq> [] \<longrightarrow> length act' \<le> mx)"
  using assms
proof (induction mx q act nid arbitrary: started q' act' nid' rule: pump_loop.induct)
  case (1 mx act nid)
  then show ?case by simp
next
  case (2 mx e q act nid)
  show ?case
  proof (cases "length act < mx")
    case False
    with "2.prems" show ?thesis by auto
  next
    case True
    obtain st1 q1 a1 n1 where r: "pump_loop mx q (act @ [nid]) (Suc nid) = (st1, q1, a1, n1)"
      by (cases "pump_loop mx q (act @ [nid]) (Suc nid)") auto
    note IH = "2.IH" [OF True r]
    from True r "2.prems" have eqs: "started = (e, nid, length q) # st1" "q' = q1" "act' = a1" "nid' = n1"
      by auto
    have "length a1 \<le> mx"
    proof (cases "st1 = []")
      case True
      with IH have "[Suc nid..<n1] = []" by simp
      with IH have "a1 = act @ [nid]" by simp
      with \<open>length act < mx\<close> show ?thesis by simp
    next
      case False
      with IH show ?thesis by blast
    qed
    moreover have "nid < n1" using IH by simp
    ultimately show ?thesis using IH unfolding eqs
      by (auto simp: upt_conv_Cons simp del: length_append length_upt)
  qed
qed

text \<open>
  What a pump of lane \<open>l\<close> starts, what it leaves in the queue and the next task id after it;
  the facts \<open>pump_state\<close> describe the state after the pump with them.
\<close>

definition pump_starts :: "string \<Rightarrow> queue_state \<Rightarrow> (queue_entry \<times> nat \<times> nat) list" where
  "pump_starts l st = (let s = fst (getLaneState l st) in
     fst (pump_loop (lane_max s) (lane_queue s) (lane_active s) (next_task_id st)))"

definition pump_rest :: "string \<Rightarrow> queue_state \<Rightarrow> queue_entry list" where
  "pump_rest l st = (let s = fst (getLaneState l st) in
     fst (snd (pump_loop (lane_max s) (lane_queue s) (lane_active s) (next_task_id st))))"

definition pump_next :: "string \<Rightarrow> queue_state \<Rightarrow> nat" where
  "pump_next l st = (let s = fst (getLaneState l st) in
     snd (snd (snd (pump_loop (lane_max s) (lane_queue s) (lane_active s) (next_task_id st)))))"

lemma lane_at_fields [simp]:
  "lane_at (emit_effects es st) = lane_at st"
  "lane_at (st\<lparr>next_task_id := n\<rparr>) = lane_at st"
  "lane_at (st\<lparr>running := rs\<rparr>) = lane_at st"
  "lane_at (st\<lparr>next_promise := n\<rparr>) = lane_at st"
  "lane_at (st\<lparr>next_waiter := n\<rparr>) = lane_at st"
  "lane_at (st\<lparr>active_waiters := ws\<rparr>) = lane_at st"
  "lane_at (st\<lparr>gateway_draining := b\<rparr>) = lane_at st"
  by (simp_all add: lane_at_def emit_effects_def fun_eq_iff)

lemma pump_shape:
  assumes l: "lane_at st l = Some s"
  shows pump_take: "map fst (pump_starts l st) @ pump_rest l st = lane_queue s"
    and pump_tasks: "map (\<lambda>(e, t, a). t) (pump_starts l st) = [next_task_id st..<pump_next l st]"
    and pump_next_le: "next_task_id st \<le> pump_next l st"
    and pump_full: "pump_rest l st \<noteq> [] \<Longrightarrow>
      lane_max s \<le> length (lane_active s @ [next_task_id st..<pump_next l st])"
    and pump_fits: "pump_starts l st \<noteq> [] \<Longrightarrow>
      length (lane_active s @ [next_task_id st..<pump_next l st]) \<le> lane_max s"
    and pump_state: "pump now l st = emit_effects (concat (map (start_effects now l) (pump_starts l st)))
      ((put_lane l (s\<lparr>lane_queue := pump_rest l st,
                      lane_active := lane_active s @ [next_task_id st..<pump_next l st],
                      lane_draining := False\<rparr>) st)
         \<lparr>next_task_id := pump_next l st,
          running := running st @ map (start_task l (lane_gen s)) (pump_starts l st)\<rparr>)"
proof -
  have g: "fst (getLaneState l st) = s" using l by (simp add: getLaneState_def lane_at_def)
  obtain started q' act' nid' where r:
    "pump_loop (lane_max s) (lane_queue s) (lane_active s) (next_task_id st) = (started, q', act', nid')"
    by (cases "pump_loop (lane_max s) (lane_queue s) (lane_active s) (next_task_id st)") auto
  have eqs: "pump_starts l st = started" "pump_rest l st = q'" "pump_next l st = nid'"
    by (simp_all add: pump_starts_def pump_rest_def pump_next_def g r)
  note sh = pump_loop_shape [OF r]
  show "map fst (pump_starts l st) @ pump_rest l st = lane_queue s"
    and "map (\<lambda>(e, t, a). t) (pump_starts l st) = [next_task_id st..<pump_next l st]"
    and "next_task_id st \<le> pump_next l st"
    unfolding eqs using sh by blast+
  show "lane_max s \<le> length (lane_active s @ [next_task_id st..<pump_next l st])"
    if "pump_rest l st \<noteq> []" using that sh unfolding eqs by blast
  show "length (lane_active s @ [next_task_id st..<pump_next l st]) \<le> lane_max s"
    if "pump_starts l st \<noteq> []" using that sh unfolding eqs by blast
  show "pump now l st = emit_effects (concat (map (start_effects now l) (pump_starts l st)))
      ((put_lane l (s\<lparr>lane_queue := pump_rest l st,
                      lane_active := lane_active s @ [next_task_id st..<pump_next l st],
                      lane_draining := False\<rparr>) st)
         \<lparr>next_task_id := pump_next l st,
          running := running st @ map (start_task l (lane_gen s)) (pump_starts l st)\<rparr>)"
    unfolding eqs using sh by (auto simp: pump_def g r simp del: length_append length_upt)
qed

lemma pump_waiters [simp]: "active_waiters (pump now l st) = active_waiters st"
  by (simp add: pump_def Let_def split: prod.split)

lemma settled_of_starts: "concat (map settled_of (start_effects now l x)) = []"
  by (cases x) (simp add: start_effects_def Let_def)

lemma settled_of_all_starts:
  "concat (map settled_of (concat (map (start_effects now l) xs))) = []"
  by (induction xs) (auto simp: settled_of_starts)

lemma started_in_effects:
  "TaskStarted l' p t \<in> set (concat (map (start_effects now l) xs)) \<longleftrightarrow>
   l' = l \<and> (\<exists>e a. (e, t, a) \<in> set xs \<and> p = q_promise e)"
  by (auto simp: start_effects_def Let_def split: if_splits)

lemma start_task_fields:
  "rt_task (start_task l g x) = (\<lambda>(e, t, a). t) x" "rt_lane (start_task l g x) = l"
  "rt_gen (start_task l g x) = g" "rt_promise (start_task l g x) = q_promise (fst x)"
  by (cases x; simp add: start_task_def)+

text \<open>Each conjunct of the invariant over a pump.\<close>

lemma pump_new_tasks:
  assumes l: "lane_at st l = Some s"
  shows "map rt_task (map (start_task l (lane_gen s)) (pump_starts l st)) =
    [next_task_id st..<pump_next l st]"
  using pump_tasks [OF l] by (simp add: start_task_fields comp_def)

lemma pump_task_ids:
  assumes l: "lane_at st l = Some s" and r: "r \<in> set (map (start_task l (lane_gen s)) (pump_starts l st))"
  shows "next_task_id st \<le> rt_task r \<and> rt_task r < pump_next l st"
proof -
  from r have "rt_task r \<in> set (map rt_task (map (start_task l (lane_gen s)) (pump_starts l st)))"
    unfolding set_map by (rule imageI)
  then show ?thesis unfolding pump_new_tasks [OF l] by simp
qed

lemma pump_active:
  assumes inv: "tasks_inv st" and l: "lane_at st l = Some s"
  shows "distinct (lane_active s @ [next_task_id st..<pump_next l st]) \<and>
    set (lane_active s @ [next_task_id st..<pump_next l st]) =
      rt_task ` {r \<in> set (running st @ map (start_task l (lane_gen s)) (pump_starts l st)).
        rt_lane r = l \<and> rt_gen r = lane_gen s}"
proof -
  let ?new = "map (start_task l (lane_gen s)) (pump_starts l st)"
  have a: "distinct (lane_active s)" "set (lane_active s) =
      rt_task ` {r \<in> set (running st). rt_lane r = l \<and> rt_gen r = lane_gen s}"
    using inv l by (auto simp: tasks_inv_def)
  have old: "rt_task r < next_task_id st" if "r \<in> set (running st)" for r
    using inv that by (simp add: tasks_inv_def)
  have "rt_task ` set ?new = set (map rt_task ?new)" by (simp only: set_map)
  then have new: "rt_task ` set ?new = {next_task_id st..<pump_next l st}"
    by (simp only: pump_new_tasks [OF l] set_upt)
  have "{r \<in> set (running st @ ?new). rt_lane r = l \<and> rt_gen r = lane_gen s} =
      {r \<in> set (running st). rt_lane r = l \<and> rt_gen r = lane_gen s} \<union> set ?new"
    by (auto simp: start_task_fields)
  then have "rt_task ` {r \<in> set (running st @ ?new). rt_lane r = l \<and> rt_gen r = lane_gen s} =
      set (lane_active s) \<union> {next_task_id st..<pump_next l st}"
    by (simp only: image_Un a(2) new)
  moreover have "set (lane_active s) \<inter> {next_task_id st..<pump_next l st} = {}"
    using a(2) old by fastforce
  ultimately show ?thesis using a(1) by simp
qed

lemma pump_tasks_inv:
  assumes inv: "tasks_inv st" and l: "lane_at st l = Some s"
  shows "tasks_inv (pump now l st)"
proof -
  let ?new = "map (start_task l (lane_gen s)) (pump_starts l st)"
  have run: "running (pump now l st) = running st @ ?new" "next_task_id (pump now l st) = pump_next l st"
    by (simp_all add: pump_state [OF l])
  have ids: "rt_task r < pump_next l st" if "r \<in> set (running st @ ?new)" for r
    using that pump_task_ids [OF l] pump_next_le [OF l] inv
    by (auto simp: tasks_inv_def simp del: set_map intro: order.strict_trans2)
  have lanes_new: "rt_lane r = l \<and> rt_gen r = lane_gen s" if "r \<in> set ?new" for r
    using that by (auto simp: start_task_fields)
  have "distinct (map rt_task (running st @ ?new))"
    using inv pump_task_ids [OF l]
    by (auto simp: tasks_inv_def pump_new_tasks [OF l] simp del: map_map)
  moreover have "\<exists>s'. lane_at (pump now l st) (rt_lane r) = Some s' \<and> rt_gen r \<le> lane_gen s'"
    if "r \<in> set (running st @ ?new)" for r
    using that inv lanes_new [of r] l by (auto simp: pump_state [OF l] tasks_inv_def simp del: set_map)
  moreover have "distinct (lane_active s') \<and> set (lane_active s') =
      rt_task ` {r \<in> set (running st @ ?new). rt_lane r = l' \<and> rt_gen r = lane_gen s'}"
    if l': "lane_at (pump now l st) l' = Some s'" for l' s'
  proof (cases "l' = l")
    case True
    with l' have "lane_active s' = lane_active s @ [next_task_id st..<pump_next l st]"
      "lane_gen s' = lane_gen s" by (auto simp: pump_state [OF l])
    with pump_active [OF inv l] True show ?thesis by metis
  next
    case False
    then have "{r \<in> set (running st @ ?new). rt_lane r = l' \<and> rt_gen r = lane_gen s'} =
        {r \<in> set (running st). rt_lane r = l' \<and> rt_gen r = lane_gen s'}"
      using lanes_new by auto
    with False l' inv show ?thesis by (simp add: pump_state [OF l] tasks_inv_def)
  qed
  ultimately show ?thesis using ids unfolding tasks_inv_def run by blast
qed

lemma pump_next_promise:
  assumes l: "lane_at st l = Some s"
  shows "next_promise (pump now l st) = next_promise st"
  by (simp add: pump_state [OF l])

lemma pump_promises:
  assumes l: "lane_at st l = Some s"
  shows "promise_mset (pump now l st) = promise_mset st"
proof -
  let ?s' = "s\<lparr>lane_queue := pump_rest l st,
    lane_active := lane_active s @ [next_task_id st..<pump_next l st], lane_draining := False\<rparr>"
  let ?started = "mset (map (q_promise \<circ> fst) (pump_starts l st))"
  have qs: "mset (map q_promise (lane_queue s)) = ?started + mset (map q_promise (pump_rest l st))"
    by (simp flip: pump_take [OF l] add: comp_def)
  have "mset (queued_promises (put_lane l ?s' st)) + ?started = mset (queued_promises st)"
    using queued_put_lane [of l ?s' st] l qs by (simp add: lane_promises_def ac_simps)
  moreover have "queued_promises (pump now l st) = queued_promises (put_lane l ?s' st)"
    by (simp add: pump_state [OF l] queued_promises_def emit_effects_def)
  moreover have "settled_promises (pump now l st) = settled_promises st"
    by (simp add: pump_state [OF l] settled_promises_def settled_of_all_starts)
  moreover have "mset (map rt_promise (running (pump now l st))) =
      mset (map rt_promise (running st)) + ?started"
    by (simp add: pump_state [OF l] start_task_fields comp_def)
  ultimately show ?thesis
    unfolding promise_mset_def by (metis (no_types, lifting) union_assoc union_commute)
qed

lemma starts_in_pump:
  "concat (map (starts_in l) (concat (map (start_effects now l') xs))) =
     (if l = l' then map q_promise (map fst xs) else [])"
  by (induction xs) (auto simp: start_effects_def Let_def)

lemma lane_starts_pump:
  "lane_at st l = Some s \<Longrightarrow> lane_starts l' (q_log (pump now l st)) =
     lane_starts l' (q_log st) @ (if l' = l then map q_promise (map fst (pump_starts l st)) else [])"
  unfolding lane_starts_def pump_state by (simp add: starts_in_pump [unfolded map_map comp_def] comp_def)

lemma pump_fifo_inv:
  assumes inv: "fifo_inv st" and l: "lane_at st l = Some s"
  shows "fifo_inv (pump now l st)"
proof -
  let ?started = "pump_starts l st" and ?q = "pump_rest l st"
  have srt: "sorted_wrt (<) (map q_promise (map fst ?started @ ?q))"
    and bnd: "\<forall>e \<in> set (map fst ?started @ ?q). q_promise e < next_promise st"
    and log: "\<forall>p t. TaskStarted l p t \<in> set (q_log st) \<longrightarrow>
      (\<forall>e \<in> set (map fst ?started @ ?q). p < q_promise e)"
    using inv l unfolding fifo_inv_def pump_take [OF l] by blast+
  have new: "l' = l \<and> p < next_promise st \<and> (\<forall>e \<in> set ?q. p < q_promise e)"
    if "TaskStarted l' p t \<in> set (concat (map (start_effects now l) ?started))" for l' p t
  proof -
    from that obtain e a where e: "(e, t, a) \<in> set ?started" "p = q_promise e" and "l' = l"
      by (auto simp: started_in_effects simp del: set_concat)
    moreover from e have "e \<in> set (map fst ?started)" by force
    ultimately show ?thesis using srt bnd by (auto simp: sorted_wrt_append)
  qed
  have logs: "l' = l \<and> p < next_promise st \<and> (\<forall>e \<in> set ?q. p < q_promise e) \<or>
      TaskStarted l' p t \<in> set (q_log st)"
    if "TaskStarted l' p t \<in> set (q_log (pump now l st))" for l' p t
    using that new by (auto simp: pump_state [OF l] simp del: set_concat)
  have ql: "sorted_wrt (<) (map q_promise ?q)" "\<forall>e \<in> set ?q. q_promise e < next_promise st"
    using srt bnd by (auto simp: sorted_wrt_append)
  show ?thesis
    unfolding fifo_inv_def pump_next_promise [OF l]
  proof (intro conjI allI impI)
    fix l'
    have "p < q_promise e" if "p \<in> set (lane_starts l (q_log st))" "e \<in> set (map fst ?started)" for p e
      using that log by (auto simp: in_lane_starts)
    moreover have "sorted_wrt (<) (lane_starts l' (q_log st))" for l'
      using inv by (simp add: fifo_inv_def)
    moreover have "sorted_wrt (<) (map q_promise (map fst ?started))"
      using srt by (simp add: sorted_wrt_append)
    ultimately show "sorted_wrt (<) (lane_starts l' (q_log (pump now l st)))"
      by (force simp: lane_starts_pump [OF l] sorted_wrt_append)
  next
    fix l' p t assume "TaskStarted l' p t \<in> set (q_log (pump now l st))"
    then show "p < next_promise st" using logs inv unfolding fifo_inv_def by blast
  next
    fix l' s' assume s': "lane_at (pump now l st) l' = Some s'"
    then have c: "l' = l \<and> lane_queue s' = ?q \<or> l' \<noteq> l \<and> lane_at st l' = Some s'"
      by (auto simp: pump_state [OF l] split: if_splits)
    show "sorted_wrt (<) (map q_promise (lane_queue s'))"
      using c ql inv unfolding fifo_inv_def by metis
    show "\<forall>e \<in> set (lane_queue s'). q_promise e < next_promise st"
      using c ql inv unfolding fifo_inv_def by metis
    fix p t assume "TaskStarted l' p t \<in> set (q_log (pump now l st))"
    from c logs [OF this] inv log show "\<forall>e \<in> set (lane_queue s'). p < q_promise e"
      unfolding fifo_inv_def set_append by (metis Un_iff)
  qed
qed

lemma pump_keys:
  assumes "lane_at st l = Some s" and "distinct (map fst (lanes st))"
  shows "distinct (map fst (lanes (pump now l st)))"
  using assms(2) distinct_put_lane by (simp add: pump_state [OF assms(1)] emit_effects_def)

lemma pump_lane_inv:
  assumes l: "lane_at st l = Some s" and inv: "\<forall>l s. lane_at st l = Some s \<longrightarrow> lane_inv (l \<in> X) s"
  shows "\<forall>l' s'. lane_at (pump now l st) l' = Some s' \<longrightarrow> lane_inv (l' \<in> X - {l}) s'"
  using l inv pump_full [OF l]
  by (auto simp: lane_inv_def pump_state [OF l] simp del: length_append length_upt)

lemma pump_inv:
  assumes inv: "q_inv X M st" and l: "lane_at st l = Some s"
  shows "q_inv (X - {l}) M (pump now l st)"
  unfolding q_inv_def pump_promises [OF l] pump_next_promise [OF l]
  using inv pump_keys [OF l] pump_lane_inv [OF l, of X] pump_tasks_inv [OF _ l]
    pump_fifo_inv [OF _ l]
  unfolding q_inv_def by blast

section \<open>The other primitive steps\<close>

lemma lane_inv_of: "q_inv X M st \<Longrightarrow> lane_at st l = Some s \<Longrightarrow> lane_inv (l \<in> X) s"
  by (simp add: q_inv_def)

lemma put_lane_same: "lane_at st l = Some s \<Longrightarrow> put_lane l s st = st"
  by (simp add: put_lane_def lane_at_def update_triv)

lemma put_lane_twice: "put_lane l s (put_lane l s' st) = put_lane l s st"
  by (simp add: put_lane_def)

lemma getLaneState_Some: "lane_at st l = Some s \<Longrightarrow> getLaneState l st = (s, st)"
  by (simp add: getLaneState_def lane_at_def)

text \<open>Outside a section no lane is draining, so \<open>drainLane\<close> is the pump.\<close>

lemma pump_put_draining:
  assumes l: "lane_at st l = Some s"
  shows "pump now l (put_lane l (s\<lparr>lane_draining := b\<rparr>) st) = pump now l st"
proof -
  let ?st = "put_lane l (s\<lparr>lane_draining := b\<rparr>) st"
  have l': "lane_at ?st l = Some (s\<lparr>lane_draining := b\<rparr>)" by simp
  have "pump_starts l ?st = pump_starts l st" "pump_rest l ?st = pump_rest l st"
    "pump_next l ?st = pump_next l st"
    by (simp_all add: pump_starts_def pump_rest_def pump_next_def getLaneState_Some [OF l]
        getLaneState_Some [OF l'])
  then show ?thesis
    by (simp add: pump_state [OF l] pump_state [OF l'] put_lane_twice)
qed

lemma drainLane_pump:
  "lane_at st l = Some s \<Longrightarrow> \<not> lane_draining s \<Longrightarrow> drainLane now l st = pump now l st"
  by (simp add: drainLane_def getLaneState_Some pump_put_draining)

lemma drainLane_inv:
  assumes "q_inv X M st" and "lane_at st l = Some s"
  shows "q_inv (X - {l}) M (drainLane now l st)"
  using pump_inv [OF assms] lane_inv_of [OF assms] drainLane_pump [OF assms(2)]
  by (simp add: lane_inv_def)

text \<open>Storing a lane with the same tasks: the limit may change.\<close>

lemma put_lane_same_work_inv:
  assumes inv: "q_inv X M st" and l: "lane_at st l = Some s"
    and s': "lane_queue s' = lane_queue s" "lane_active s' = lane_active s" "lane_gen s' = lane_gen s"
      "1 \<le> lane_max s'" "\<not> lane_draining s'"
  shows "q_inv (insert l X) M (put_lane l s' st)"
proof -
  have "promise_mset (put_lane l s' st) = promise_mset st"
    by (rule promise_put_lane_same) (simp add: lane_promises_def l s')
  moreover have "tasks_inv (put_lane l s' st)"
    using inv l s' unfolding q_inv_def tasks_inv_def by (auto split: if_splits)
  moreover have "fifo_inv (put_lane l s' st)"
    using inv l s' unfolding q_inv_def fifo_inv_def by (auto split: if_splits)
  ultimately show ?thesis
    using inv s' distinct_put_lane [of st l s'] unfolding q_inv_def lane_inv_def
    by (auto split: if_splits)
qed

lemma new_lane_simps [simp]:
  "lane_queue new_lane = []" "lane_active new_lane = []" "lane_max new_lane = 1"
  "\<not> lane_draining new_lane" "lane_gen new_lane = 0"
  by (simp_all add: new_lane_def)

lemma put_new_lane_inv:
  assumes inv: "q_inv X M st" and l: "lane_at st l = None"
  shows "q_inv X M (put_lane l new_lane st)"
proof -
  have "promise_mset (put_lane l new_lane st) = promise_mset st"
    by (rule promise_put_lane_same) (simp add: lane_promises_def l)
  moreover have t: "tasks_inv st" using inv by (simp add: q_inv_def)
  moreover have "rt_lane r \<noteq> l" if "r \<in> set (running st)" for r
    using t that l unfolding tasks_inv_def by force
  then have "tasks_inv (put_lane l new_lane st)"
    using t unfolding tasks_inv_def by (auto split: if_splits)
  moreover have "fifo_inv (put_lane l new_lane st)"
    using inv unfolding q_inv_def fifo_inv_def by (auto split: if_splits)
  ultimately show ?thesis
    using inv distinct_put_lane [of st l new_lane] unfolding q_inv_def lane_inv_def
    by (auto split: if_splits)
qed

lemma getLaneState_inv:
  assumes "q_inv X M st"
  shows "q_inv X M (snd (getLaneState l st))"
  by (rule getLaneState_cases [of st l]) (use assms put_new_lane_inv [OF assms] in auto)

text \<open>Appending the entry of a fresh promise to a lane.\<close>

lemma push_entry_inv:
  assumes inv: "q_inv X M st" and l: "lane_at st l = Some s" and e: "q_promise e = next_promise st"
  shows "q_inv (insert l X) M
    (put_lane l (s\<lparr>lane_queue := lane_queue s @ [e]\<rparr>) (st\<lparr>next_promise := Suc (next_promise st)\<rparr>))"
    (is "q_inv _ _ (put_lane l ?s ?st)")
proof -
  have "promise_mset (put_lane l ?s ?st) = promise_mset ?st + {#next_promise st#}"
    using promise_put_lane [of l ?s ?st] l e by (simp add: lane_promises_def)
  moreover have "promise_mset ?st = promise_mset st"
    by (simp add: promise_mset_def queued_promises_def settled_promises_def)
  moreover have "tasks_inv (put_lane l ?s ?st)"
    using inv l unfolding q_inv_def tasks_inv_def by (auto split: if_splits)
  moreover have "fifo_inv (put_lane l ?s ?st)"
  proof -
    have f: "fifo_inv st" using inv by (simp add: q_inv_def)
    show ?thesis
      unfolding fifo_inv_def
    proof (intro conjI allI impI)
      fix l'
      show "sorted_wrt (<) (lane_starts l' (q_log (put_lane l ?s ?st)))"
        using f by (simp add: fifo_inv_def lane_starts_def)
    next
      fix l' p t assume "TaskStarted l' p t \<in> set (q_log (put_lane l ?s ?st))"
      then have "TaskStarted l' p t \<in> set (q_log st)" by simp
      with f have "p < next_promise st" unfolding fifo_inv_def by blast
      then show "p < next_promise (put_lane l ?s ?st)" by simp
    next
      fix l' s' assume s': "lane_at (put_lane l ?s ?st) l' = Some s'"
      show "sorted_wrt (<) (map q_promise (lane_queue s'))"
        and "\<forall>e \<in> set (lane_queue s'). q_promise e < next_promise (put_lane l ?s ?st)"
        using s' f l e by (auto simp: fifo_inv_def sorted_wrt_append less_SucI split: if_splits)
      fix p t assume "TaskStarted l' p t \<in> set (q_log (put_lane l ?s ?st))"
      then have pt: "TaskStarted l' p t \<in> set (q_log st)" by simp
      then have "p < next_promise st" using f unfolding fifo_inv_def by blast
      moreover have "\<forall>e \<in> set (lane_queue s0). p < q_promise e" if "lane_at st l' = Some s0" for s0
        using f pt that unfolding fifo_inv_def by blast
      ultimately show "\<forall>e \<in> set (lane_queue s'). p < q_promise e"
        using s' l e by (auto split: if_splits)
    qed
  qed
  ultimately show ?thesis
    using inv l distinct_put_lane [of ?st l ?s] unfolding q_inv_def lane_inv_def
    by (auto simp: issued_Suc split: if_splits)
qed

text \<open>Effects that are neither starts nor settlements, and settling a promise held.\<close>

fun is_start :: "queue_effect \<Rightarrow> bool" where
  "is_start (TaskStarted l p t) = True"
| "is_start _ = False"

lemma emit_effects_inv:
  assumes "q_inv X (M + mset (concat (map settled_of es))) st" and "\<forall>e \<in> set es. \<not> is_start e"
  shows "q_inv X M (emit_effects es st)"
proof -
  have "TaskStarted l p t \<notin> set es" for l p t using assms(2) by auto
  moreover have "starts_in l e = []" if "e \<in> set es" for l e
    using assms(2) [THEN bspec, OF that] by (cases e rule: is_start.cases) auto
  then have "concat (map (starts_in l) es) = []" for l by (simp add: concat_eq_Nil_conv)
  then have "lane_starts l (q_log (emit_effects es st)) = lane_starts l (q_log st)" for l
    by (simp only: lane_starts_def emit_effects_fields map_append concat_append append_Nil2)
  ultimately show ?thesis
    using assms(1) unfolding q_inv_def tasks_inv_def fifo_inv_def promise_mset_emit
    by (simp add: ac_simps)
qed

section \<open>Waiters\<close>

lemma resolve_fields [simp]:
  "lanes (resolveActiveTaskWaiter w d st) = lanes st"
  "lane_at (resolveActiveTaskWaiter w d st) = lane_at st"
  "next_promise (resolveActiveTaskWaiter w d st) = next_promise st"
  "active_waiters (resolveActiveTaskWaiter w d st) = removeAll w (active_waiters st)"
  by (simp_all add: resolveActiveTaskWaiter_def lane_at_def fun_eq_iff)

lemma emit_waiter_inv:
  "q_inv X M st \<Longrightarrow> q_inv X M (emit_effects [WaiterResolved p d] st)"
  by (rule emit_effects_inv) simp_all

lemma waiters_field_inv: "q_inv X M (st\<lparr>active_waiters := ws\<rparr>) = q_inv X M st"
  by (simp add: q_inv_def tasks_inv_def fifo_inv_def promise_mset_def queued_promises_def
      settled_promises_def)

lemma resolve_inv:
  assumes "q_inv X M st"
  shows "q_inv X M (resolveActiveTaskWaiter w d st)"
  using assms by (auto simp: resolveActiveTaskWaiter_def waiters_field_inv intro: emit_waiter_inv)

lemma hasPending_lanes: "lanes st = lanes st' \<Longrightarrow> hasPendingActiveTasks st = hasPendingActiveTasks st'"
  by (simp add: hasPendingActiveTasks_def fun_eq_iff)

lemma notify_one_cases:
  "notify_one st w =
     (if w_ids w = [] \<or> \<not> hasPendingActiveTasks st (w_ids w)
      then resolveActiveTaskWaiter w True st else st)"
  by (rule notify_one_def)

lemma foldl_notify:
  "lanes (foldl notify_one st ws) = lanes st \<and>
   lane_at (foldl notify_one st ws) = lane_at st \<and>
   (q_inv X M st \<longrightarrow> q_inv X M (foldl notify_one st ws)) \<and>
   active_waiters (foldl notify_one st ws) =
     filter (\<lambda>w. w \<in> set ws \<longrightarrow> w_ids w \<noteq> [] \<and> hasPendingActiveTasks st (w_ids w)) (active_waiters st)"
proof (induction ws arbitrary: st)
  case Nil
  then show ?case by simp
next
  case (Cons w ws)
  have h: "hasPendingActiveTasks (notify_one st w) = hasPendingActiveTasks st"
    by (rule hasPending_lanes) (simp add: notify_one_def)
  have a: "active_waiters (notify_one st w) =
      filter (\<lambda>x. x = w \<longrightarrow> w_ids x \<noteq> [] \<and> hasPendingActiveTasks st (w_ids x)) (active_waiters st)"
    by (auto simp: notify_one_def removeAll_filter_not_eq intro: filter_cong filter_True [symmetric])
  have q: "q_inv X M st \<Longrightarrow> q_inv X M (notify_one st w)"
    by (simp add: notify_one_def resolve_inv)
  have l: "lanes (notify_one st w) = lanes st" "lane_at (notify_one st w) = lane_at st"
    by (simp_all add: notify_one_def)
  show ?case
    using Cons.IH [of "notify_one st w"] h q
    by (auto simp: a l intro!: filter_cong)
qed

lemma notify_lanes [simp]:
  "lanes (notifyActiveTaskWaiters st) = lanes st"
  "lane_at (notifyActiveTaskWaiters st) = lane_at st"
  using foldl_notify [of st "active_waiters st" "{}" "{#}"] by (simp_all add: notifyActiveTaskWaiters_def)

lemma notify_inv: "q_inv X M st \<Longrightarrow> q_inv X M (notifyActiveTaskWaiters st)"
  using foldl_notify by (simp add: notifyActiveTaskWaiters_def)

lemma notify_waiters:
  "active_waiters (notifyActiveTaskWaiters st) =
     filter (\<lambda>w. w_ids w \<noteq> [] \<and> hasPendingActiveTasks st (w_ids w)) (active_waiters st)"
  using foldl_notify [of st "active_waiters st" "{}" "{#}"]
  by (auto simp: notifyActiveTaskWaiters_def intro!: filter_cong)

text \<open>Notifying restores the waiters' invariant from any state.\<close>

lemma notify_waiters_inv: "waiters_inv (notifyActiveTaskWaiters st)"
  using hasPending_lanes [of "notifyActiveTaskWaiters st" st]
  by (simp add: waiters_inv_def notify_waiters)

lemma hasPending_iff:
  assumes "distinct (map fst (lanes st))"
  shows "hasPendingActiveTasks st ids \<longleftrightarrow>
    (\<exists>l s t. lane_at st l = Some s \<and> t \<in> set (lane_active s) \<and> t \<in> set ids)"
  using assms by (auto simp: hasPendingActiveTasks_def list_ex_iff lane_at_def)

lemma waiters_mono:
  assumes "waiters_inv st" and "set (active_waiters st') \<subseteq> set (active_waiters st)"
    and "distinct (map fst (lanes st))" and "distinct (map fst (lanes st'))"
    and "\<And>l s. lane_at st l = Some s \<Longrightarrow>
      \<exists>s'. lane_at st' l = Some s' \<and> set (lane_active s) \<subseteq> set (lane_active s')"
  shows "waiters_inv st'"
  unfolding waiters_inv_def
proof
  fix w assume "w \<in> set (active_waiters st')"
  with assms(1,2) have "hasPendingActiveTasks st (w_ids w)" by (auto simp: waiters_inv_def)
  then obtain l s t where "lane_at st l = Some s" "t \<in> set (lane_active s)" "t \<in> set (w_ids w)"
    by (auto simp: hasPending_iff [OF assms(3)])
  with assms(5) [of l s] show "hasPendingActiveTasks st' (w_ids w)"
    by (auto simp: hasPending_iff [OF assms(4)])
qed

lemma pump_waiters_inv:
  assumes "waiters_inv st" and "q_inv X M st" and l: "lane_at st l = Some s"
  shows "waiters_inv (pump now l st)"
  using assms(1)
proof (rule waiters_mono)
  show "set (active_waiters (pump now l st)) \<subseteq> set (active_waiters st)" by simp
  show d: "distinct (map fst (lanes st))" using assms(2) by (simp add: q_inv_def)
  then show "distinct (map fst (lanes (pump now l st)))" by (rule pump_keys [OF l])
  show "\<exists>s''. lane_at (pump now l st) l' = Some s'' \<and> set (lane_active s') \<subseteq> set (lane_active s'')"
    if "lane_at st l' = Some s'" for l' s'
    using that l by (auto simp: pump_state [OF l])
qed

section \<open>Every section keeps the invariant\<close>

text \<open>A settled task leaves \<open>running\<close>; in its own generation it also leaves its lane.\<close>

definition forget_task :: "nat \<Rightarrow> queue_state \<Rightarrow> queue_state" where
  "forget_task t st = st\<lparr>running := filter (\<lambda>x. rt_task x \<noteq> t) (running st)\<rparr>"

lemma mset_filter_key:
  assumes "distinct (map f xs)" and "x \<in> set xs"
  shows "mset (map g xs) = mset (map g (filter (\<lambda>y. f y \<noteq> f x) xs)) + {#g x#}"
  using assms
proof (induction xs)
  case Nil
  then show ?case by simp
next
  case (Cons y ys)
  show ?case
  proof (cases "x = y")
    case True
    with Cons.prems have "filter (\<lambda>z. f z \<noteq> f x) ys = ys"
      by (auto simp: filter_id_conv image_iff)
    with True show ?thesis by simp
  next
    case False
    with Cons.prems have "x \<in> set ys" "f y \<noteq> f x" "distinct (map f ys)" by (auto simp: image_iff)
    with Cons.IH show ?thesis by simp
  qed
qed

lemma forget_task_simps [simp]:
  "lane_at (forget_task t st) = lane_at st" "lanes (forget_task t st) = lanes st"
  "q_log (forget_task t st) = q_log st" "next_promise (forget_task t st) = next_promise st"
  "active_waiters (forget_task t st) = active_waiters st"
  "next_task_id (forget_task t st) = next_task_id st"
  "running (forget_task t st) = filter (\<lambda>x. rt_task x \<noteq> t) (running st)"
  by (simp_all add: forget_task_def)

lemma forget_promises:
  assumes "tasks_inv st" and "r \<in> set (running st)"
  shows "promise_mset (forget_task (rt_task r) st) + {#rt_promise r#} = promise_mset st"
proof -
  have "mset (map rt_promise (running st)) =
      mset (map rt_promise (filter (\<lambda>x. rt_task x \<noteq> rt_task r) (running st))) + {#rt_promise r#}"
    using assms by (intro mset_filter_key) (auto simp: tasks_inv_def)
  then show ?thesis
    by (simp add: promise_mset_def queued_promises_def settled_promises_def)
qed

lemma other_generation:
  assumes "tasks_inv st" and "r \<in> set (running st)" and "lane_at st l = Some s"
    and "rt_lane r \<noteq> l \<or> rt_gen r \<noteq> lane_gen s"
  shows "{x \<in> set (running (forget_task (rt_task r) st)). rt_lane x = l \<and> rt_gen x = lane_gen s} =
    {x \<in> set (running st). rt_lane x = l \<and> rt_gen x = lane_gen s}"
proof -
  have "x = r" if "x \<in> set (running st)" "rt_task x = rt_task r" for x
    using assms(1,2) that by (auto simp: tasks_inv_def dest: distinct_map_unique)
  with assms(4) show ?thesis by auto
qed

lemma forget_stale_inv:
  assumes inv: "q_inv X M st" and r: "r \<in> set (running st)"
    and s: "lane_at st (rt_lane r) = Some s" "rt_gen r \<noteq> lane_gen s"
  shows "q_inv X (M + {#rt_promise r#}) (forget_task (rt_task r) st)"
proof -
  have t: "tasks_inv st" using inv by (simp add: q_inv_def)
  have "rt_lane r \<noteq> l \<or> rt_gen r \<noteq> lane_gen s'" if "lane_at st l = Some s'" for l s'
    using s that by auto
  then have "tasks_inv (forget_task (rt_task r) st)"
    using t other_generation [OF t r] by (simp add: tasks_inv_def distinct_map_filter)
  moreover have "fifo_inv (forget_task (rt_task r) st)"
    using inv by (simp add: q_inv_def fifo_inv_def)
  moreover have "promise_mset (forget_task (rt_task r) st) + (M + {#rt_promise r#}) =
      promise_mset st + M"
    using forget_promises [OF t r] by (metis union_assoc union_commute)
  ultimately show ?thesis
    using inv unfolding q_inv_def by simp
qed

lemma complete_task_inv:
  assumes inv: "q_inv {} {#} st" and r: "r \<in> set (running st)"
    and s: "lane_at st (rt_lane r) = Some s" "rt_gen r = lane_gen s"
  defines "s' \<equiv> s\<lparr>lane_active := filter (\<lambda>x. x \<noteq> rt_task r) (lane_active s)\<rparr>"
  shows "q_inv {rt_lane r} {#rt_promise r#} (put_lane (rt_lane r) s' (forget_task (rt_task r) st))"
    (is "q_inv _ _ ?st'")
proof -
  have t: "tasks_inv st" using inv by (simp add: q_inv_def)
  have "set (lane_active s) = rt_task ` {x \<in> set (running st). rt_lane x = rt_lane r \<and> rt_gen x = lane_gen s}"
    "distinct (lane_active s)"
    using t s by (auto simp: tasks_inv_def)
  then have own: "distinct (lane_active s')" "set (lane_active s') = rt_task `
      {x \<in> set (running ?st'). rt_lane x = rt_lane r \<and> rt_gen x = lane_gen s'}"
    by (auto simp: s'_def)
  have tasks: "tasks_inv ?st'"
    unfolding tasks_inv_def
  proof (intro conjI allI impI ballI)
    show "distinct (map rt_task (running ?st'))" using t by (simp add: tasks_inv_def distinct_map_filter)
    show "rt_task x < next_task_id ?st'" if "x \<in> set (running ?st')" for x
      using t that by (simp add: tasks_inv_def)
    show "\<exists>s. lane_at ?st' (rt_lane x) = Some s \<and> rt_gen x \<le> lane_gen s"
      if "x \<in> set (running ?st')" for x
      using t that s by (cases "rt_lane x = rt_lane r") (auto simp: tasks_inv_def s'_def)
    fix l s0 assume s0: "lane_at ?st' l = Some s0"
    show "distinct (lane_active s0)"
      using s0 own t by (auto simp: tasks_inv_def split: if_splits)
    show "set (lane_active s0) =
        rt_task ` {x \<in> set (running ?st'). rt_lane x = l \<and> rt_gen x = lane_gen s0}"
    proof (cases "l = rt_lane r")
      case True
      with s0 own show ?thesis by simp
    next
      case False
      with s0 have "lane_at st l = Some s0" by simp
      with t other_generation [OF t r this] False show ?thesis by (simp add: tasks_inv_def)
    qed
  qed
  have "promise_mset ?st' = promise_mset (forget_task (rt_task r) st)"
    by (rule promise_put_lane_same) (simp add: lane_promises_def s s'_def)
  moreover have "fifo_inv ?st'"
    using inv s by (auto simp: q_inv_def fifo_inv_def s'_def split: if_splits)
  moreover have "lane_inv (l \<in> {rt_lane r}) s0" if "lane_at ?st' l = Some s0" for l s0
    using that inv s by (auto simp: q_inv_def lane_inv_def s'_def split: if_splits)
  moreover have "distinct (map fst (lanes ?st'))"
    using inv by (intro distinct_put_lane) (simp add: q_inv_def)
  ultimately show ?thesis
    using inv tasks forget_promises [OF t r] by (simp add: q_inv_def ac_simps)
qed

lemma waiters_emit [simp]: "waiters_inv (emit_effects es st) = waiters_inv st"
  using hasPending_lanes [of "emit_effects es st" st] by (simp add: waiters_inv_def)

lemma settle_inv:
  "q_inv X {#p#} st \<Longrightarrow> q_inv X {#} (emit_effects [settle_effect p err] st)"
  by (rule emit_effects_inv) (simp_all add: settle_effect_def split: option.splits)

lemma taskSettled_eq:
  assumes "queue_inv st" and "r \<in> set (running st)" and "lane_at st (rt_lane r) = Some s"
  shows "taskSettled now (rt_task r) err st = emit_effects [settle_effect (rt_promise r) err]
    (if rt_gen r = lane_gen s
     then pump now (rt_lane r) (notifyActiveTaskWaiters (put_lane (rt_lane r)
            (s\<lparr>lane_active := filter (\<lambda>x. x \<noteq> rt_task r) (lane_active s)\<rparr>) (forget_task (rt_task r) st)))
     else forget_task (rt_task r) st)"
proof -
  have "find (\<lambda>x. rt_task x = rt_task r) (running st) = Some r"
    using assms(1,2) by (intro find_distinct_key) (auto simp: queue_inv_def q_inv_def tasks_inv_def)
  moreover have "fst (getLaneState (rt_lane r) (forget_task (rt_task r) st)) = s"
    using assms(3) by (simp add: getLaneState_Some)
  ultimately show ?thesis
    by (simp add: taskSettled_def completeTask_def Let_def forget_task_def)
qed

lemma taskSettled_inv:
  assumes inv: "queue_inv st"
  shows "queue_inv (taskSettled now t err st)"
proof (cases "find (\<lambda>r. rt_task r = t) (running st)")
  case None
  then show ?thesis using inv by (simp add: taskSettled_def)
next
  case (Some r)
  then have r: "r \<in> set (running st)" "t = rt_task r" by (auto dest: find_SomeD)
  from inv have q: "q_inv {} {#} st" and w: "waiters_inv st" by (simp_all add: queue_inv_def)
  with r obtain s where s: "lane_at st (rt_lane r) = Some s"
    by (auto simp: q_inv_def tasks_inv_def)
  show ?thesis
  proof (cases "rt_gen r = lane_gen s")
    case True
    let ?st1 = "notifyActiveTaskWaiters (put_lane (rt_lane r)
      (s\<lparr>lane_active := filter (\<lambda>x. x \<noteq> rt_task r) (lane_active s)\<rparr>) (forget_task (rt_task r) st))"
    have q1: "q_inv {rt_lane r} {#rt_promise r#} ?st1"
      by (rule notify_inv) (rule complete_task_inv [OF q r(1) s True])
    obtain s1 where s1: "lane_at ?st1 (rt_lane r) = Some s1" by simp
    have "q_inv {} {#rt_promise r#} (pump now (rt_lane r) ?st1)"
      using pump_inv [OF q1 s1] by simp
    moreover have "waiters_inv (pump now (rt_lane r) ?st1)"
      by (rule pump_waiters_inv [OF notify_waiters_inv q1 s1])
    ultimately show ?thesis
      using True by (simp add: taskSettled_eq [OF inv r(1) s] r(2) queue_inv_def settle_inv)
  next
    case False
    have "q_inv {} {#rt_promise r#} (forget_task (rt_task r) st)"
      using forget_stale_inv [OF q r(1) s False] by simp
    moreover have "waiters_inv (forget_task (rt_task r) st)"
      using w hasPending_lanes [of "forget_task (rt_task r) st" st] by (simp add: waiters_inv_def)
    ultimately show ?thesis
      using False by (simp add: taskSettled_eq [OF inv r(1) s] r(2) queue_inv_def settle_inv)
  qed
qed

lemma markGatewayDraining_inv:
  "queue_inv st \<Longrightarrow> queue_inv (markGatewayDraining st)"
  using hasPending_lanes [of "markGatewayDraining st" st]
  by (simp add: queue_inv_def waiters_inv_def q_inv_def tasks_inv_def fifo_inv_def promise_mset_def
      queued_promises_def settled_promises_def markGatewayDraining_def)

lemma getLaneState_lane:
  "lane_at (snd (getLaneState l st)) l = Some (fst (getLaneState l st))"
  by (simp add: lane_at_getLaneState)

lemma getLaneState_waiters_inv:
  assumes w: "waiters_inv st" and q: "q_inv X M st"
  shows "waiters_inv (snd (getLaneState l st))"
  using w
proof (rule waiters_mono)
  show "distinct (map fst (lanes st))" "distinct (map fst (lanes (snd (getLaneState l st))))"
    using q getLaneState_inv [OF q] by (simp_all add: q_inv_def)
  show "\<exists>s'. lane_at (snd (getLaneState l st)) l' = Some s' \<and> set (lane_active s) \<subseteq> set (lane_active s')"
    if "lane_at st l' = Some s" for l' s
    using that by (rule_tac getLaneState_cases [of st l]) (auto split: if_splits)
qed simp

lemma put_lane_waiters_inv:
  assumes w: "waiters_inv st" and q: "q_inv X M st" and l: "lane_at st l = Some s"
    and a: "set (lane_active s) \<subseteq> set (lane_active s')"
  shows "waiters_inv (put_lane l s' st)"
  using w
proof (rule waiters_mono)
  show d: "distinct (map fst (lanes st))" using q by (simp add: q_inv_def)
  then show "distinct (map fst (lanes (put_lane l s' st)))" by (rule distinct_put_lane)
  show "\<exists>s''. lane_at (put_lane l s' st) l' = Some s'' \<and> set (lane_active s0) \<subseteq> set (lane_active s'')"
    if "lane_at st l' = Some s0" for l' s0
    using that l a by auto
qed simp

lemma drainLane_waiters_inv:
  "waiters_inv st \<Longrightarrow> q_inv X M st \<Longrightarrow> lane_at st l = Some s \<Longrightarrow> waiters_inv (drainLane now l st)"
  using pump_waiters_inv drainLane_pump lane_inv_of by (metis lane_inv_def)

lemma setCommandLaneConcurrency_inv:
  assumes inv: "queue_inv st"
  shows "queue_inv (setCommandLaneConcurrency now lane mx st)"
proof -
  let ?l = "normalizeLane lane"
  obtain s st1 where g: "getLaneState ?l st = (s, st1)" by (cases "getLaneState ?l st")
  have q1: "q_inv {} {#} st1" and w1: "waiters_inv st1" and l1: "lane_at st1 ?l = Some s"
    using inv getLaneState_inv [of "{}" "{#}" st ?l] getLaneState_waiters_inv [of st "{}" "{#}" ?l]
      getLaneState_lane [of ?l st] g by (simp_all add: queue_inv_def)
  let ?s' = "s\<lparr>lane_max := nat (max 1 \<lfloor>mx\<rfloor>)\<rparr>"
  have q2: "q_inv {?l} {#} (put_lane ?l ?s' st1)"
    using put_lane_same_work_inv [OF q1 l1, of ?s'] lane_inv_of [OF q1 l1] by (simp add: lane_inv_def)
  have w2: "waiters_inv (put_lane ?l ?s' st1)"
    by (rule put_lane_waiters_inv [OF w1 q1 l1]) simp
  have l2: "lane_at (put_lane ?l ?s' st1) ?l = Some ?s'" by simp
  show ?thesis
    using drainLane_inv [OF q2 l2] drainLane_waiters_inv [OF w2 q2 l2] g
    by (simp add: setCommandLaneConcurrency_def queue_inv_def Let_def)
qed

lemma getLaneState_next_promise:
  "getLaneState l (st\<lparr>next_promise := n\<rparr>) =
     (fst (getLaneState l st), (snd (getLaneState l st))\<lparr>next_promise := n\<rparr>)"
  by (simp add: getLaneState_def put_lane_def split: option.split)

lemma waiters_next_promise [simp]: "waiters_inv (st\<lparr>next_promise := n\<rparr>) = waiters_inv st"
  using hasPending_lanes [of "st\<lparr>next_promise := n\<rparr>" st] by (simp add: waiters_inv_def)

lemma put_lane_next_promise:
  "put_lane l s (st\<lparr>next_promise := n\<rparr>) = (put_lane l s st)\<lparr>next_promise := n\<rparr>"
  by (simp add: put_lane_def)

lemma reject_fresh_inv:
  assumes "queue_inv st"
  shows "queue_inv (emit_effects [Rejected (next_promise st) e]
    (st\<lparr>next_promise := Suc (next_promise st)\<rparr>))"
proof -
  have "fifo_inv (st\<lparr>next_promise := Suc (next_promise st)\<rparr>)"
    using assms by (auto simp: queue_inv_def q_inv_def fifo_inv_def less_SucI)
  then have "q_inv {} {#next_promise st#} (st\<lparr>next_promise := Suc (next_promise st)\<rparr>)"
    using assms by (simp add: queue_inv_def q_inv_def tasks_inv_def promise_mset_def
        queued_promises_def settled_promises_def issued_Suc)
  then have "q_inv {} {#} (emit_effects [Rejected (next_promise st) e]
      (st\<lparr>next_promise := Suc (next_promise st)\<rparr>))"
    by (intro emit_effects_inv) simp_all
  then show ?thesis using assms by (simp add: queue_inv_def)
qed

lemma enqueueCommandInLane_inv:
  assumes inv: "queue_inv st"
  shows "queue_inv (enqueueCommandInLane now lane w b st)"
proof (cases "gateway_draining st")
  case True
  then show ?thesis using reject_fresh_inv [OF inv] by (simp add: enqueueCommandInLane_def Let_def)
next
  case False
  let ?l = "normalizeLane lane"
  let ?e = "\<lparr>q_promise = next_promise st, q_enqueuedAt = now,
    q_warnAfterMs = (case w of Some w \<Rightarrow> w | None \<Rightarrow> 2000), q_hasOnWait = b\<rparr>"
  obtain s st1 where g: "getLaneState ?l st = (s, st1)" by (cases "getLaneState ?l st")
  have q1: "q_inv {} {#} st1" and w1: "waiters_inv st1" and l1: "lane_at st1 ?l = Some s"
    and n1: "next_promise st1 = next_promise st"
    using inv getLaneState_inv [of "{}" "{#}" st ?l] getLaneState_waiters_inv [of st "{}" "{#}" ?l]
      getLaneState_lane [of ?l st] getLaneState_fields(4) [of ?l st] g by (simp_all add: queue_inv_def)
  let ?s' = "s\<lparr>lane_queue := lane_queue s @ [?e]\<rparr>"
  let ?st2 = "put_lane ?l ?s' (st1\<lparr>next_promise := Suc (next_promise st)\<rparr>)"
  have q2: "q_inv {?l} {#} ?st2"
    using push_entry_inv [OF q1 l1, of ?e] n1 by simp
  have w2: "waiters_inv ?st2"
    using put_lane_waiters_inv [OF w1 q1 l1, of ?s'] by (simp add: put_lane_next_promise)
  have l2: "lane_at ?st2 ?l = Some ?s'" by simp
  show ?thesis
    using drainLane_inv [OF q2 l2] drainLane_waiters_inv [OF w2 q2 l2] g False
    by (simp add: enqueueCommandInLane_def getLaneState_next_promise queue_inv_def Let_def)
qed

lemma settled_of_rejections:
  "concat (map settled_of (map (\<lambda>e. Rejected (q_promise e) x) es)) = map q_promise es"
  by (induction es) auto

lemma clearCommandLane_inv:
  assumes inv: "queue_inv st"
  shows "queue_inv (snd (clearCommandLane lane st))"
proof (cases "lane_at st (normalizeLane lane)")
  case None
  then show ?thesis using inv by (simp add: clearCommandLane_def lane_at_def)
next
  case (Some s)
  let ?l = "normalizeLane lane"
  let ?st' = "put_lane ?l (s\<lparr>lane_queue := []\<rparr>) st"
  have q: "q_inv {} {#} st" and w: "waiters_inv st" using inv by (simp_all add: queue_inv_def)
  have "promise_mset ?st' + mset (map q_promise (lane_queue s)) = promise_mset st"
    using promise_put_lane [of ?l "s\<lparr>lane_queue := []\<rparr>" st] Some by (simp add: lane_promises_def)
  moreover have "tasks_inv ?st'"
    using q Some unfolding q_inv_def tasks_inv_def by (auto split: if_splits)
  moreover have "fifo_inv ?st'"
    using q Some unfolding q_inv_def fifo_inv_def by (auto split: if_splits)
  ultimately have "q_inv {} (mset (map q_promise (lane_queue s))) ?st'"
    using q Some distinct_put_lane [of st ?l "s\<lparr>lane_queue := []\<rparr>"] unfolding q_inv_def lane_inv_def
    by (auto split: if_splits)
  then have "q_inv {} {#} (emit_effects
      (map (\<lambda>e. Rejected (q_promise e) (CommandLaneClearedError ?l)) (lane_queue s)) ?st')"
    by (intro emit_effects_inv) (simp_all only: settled_of_rejections, auto)
  moreover have "waiters_inv ?st'"
    by (rule put_lane_waiters_inv [OF w q Some]) simp
  ultimately show ?thesis
    using Some by (simp add: clearCommandLane_def queue_inv_def lane_at_def Let_def)
qed

lemma waitForActiveTasks_inv:
  assumes inv: "queue_inv st"
  shows "queue_inv (waitForActiveTasks timeoutMs st)"
proof -
  have q: "q_inv X M (st\<lparr>next_waiter := n\<rparr>) = q_inv X M st" for X M n
    by (simp add: q_inv_def tasks_inv_def fifo_inv_def promise_mset_def queued_promises_def
        settled_promises_def)
  have w: "waiters_inv (st\<lparr>next_waiter := n\<rparr>) = waiters_inv st" for n
    using hasPending_lanes [of "st\<lparr>next_waiter := n\<rparr>" st] by (simp add: waiters_inv_def)
  show ?thesis
    using inv q w
    by (auto simp: waitForActiveTasks_def Let_def queue_inv_def waiters_field_inv
        intro!: emit_waiter_inv notify_inv notify_waiters_inv)
qed

lemma waiterTimeout_inv:
  assumes inv: "queue_inv st"
  shows "queue_inv (waiterTimeout p st)"
proof -
  have "waiters_inv (resolveActiveTaskWaiter w False st)" for w
    using inv hasPending_lanes [of "resolveActiveTaskWaiter w False st" st]
    by (simp add: waiters_inv_def queue_inv_def)
  then show ?thesis
    using inv by (auto simp: waiterTimeout_def queue_inv_def intro: resolve_inv split: option.split)
qed

text \<open>A restart: every lane is reset, then the lanes with queued work are drained.\<close>

lemma foldl_drain_inv:
  assumes "q_inv X M st" and "\<forall>l \<in> set ls. lane_at st l \<noteq> None"
  shows "q_inv (X - set ls) M (foldl (\<lambda>s l. drainLane now l s) st ls)"
  using assms
proof (induction ls arbitrary: X st)
  case Nil
  then show ?case by simp
next
  case (Cons l ls)
  from Cons.prems obtain s where s: "lane_at st l = Some s" by auto
  have d: "drainLane now l st = pump now l st"
    using drainLane_pump [OF s] lane_inv_of [OF Cons.prems(1) s] by (simp add: lane_inv_def)
  have "\<forall>l' \<in> set ls. lane_at (pump now l st) l' \<noteq> None"
    using Cons.prems(2) by (auto simp: pump_state [OF s])
  with Cons.IH [of "X - {l}" "pump now l st"] pump_inv [OF Cons.prems(1) s]
  have "q_inv (X - {l} - set ls) M (foldl (\<lambda>s l. drainLane now l s) (drainLane now l st) ls)"
    by (simp only: d)
  moreover have "X - {l} - set ls = X - set (l # ls)" by auto
  ultimately show ?case by (simp only: foldl.simps)
qed

definition reset_state :: "queue_state \<Rightarrow> queue_state" where
  "reset_state st = st\<lparr>gateway_draining := False,
     lanes := map (\<lambda>(l, s). (l, reset_lane s)) (lanes st)\<rparr>"

definition lanes_to_drain :: "queue_state \<Rightarrow> string list" where
  "lanes_to_drain st = map fst (filter (\<lambda>(l, s). lane_queue s \<noteq> []) (lanes st))"

lemma resetAllLanes_eq:
  "resetAllLanes now st = notifyActiveTaskWaiters
     (foldl (\<lambda>s l. drainLane now l s) (reset_state st) (lanes_to_drain (reset_state st)))"
  by (simp add: resetAllLanes_def Let_def reset_state_def lanes_to_drain_def)

lemma lane_at_reset: "lane_at (reset_state st) l = map_option reset_lane (lane_at st l)"
  by (simp add: lane_at_def map_of_map reset_state_def)

lemma reset_lane_simps [simp]:
  "lane_queue (reset_lane s) = lane_queue s" "lane_active (reset_lane s) = []"
  "lane_max (reset_lane s) = lane_max s" "\<not> lane_draining (reset_lane s)"
  "lane_gen (reset_lane s) = Suc (lane_gen s)"
  by (simp_all add: reset_lane_def)

lemma reset_state_fields [simp]:
  "running (reset_state st) = running st" "q_log (reset_state st) = q_log st"
  "next_promise (reset_state st) = next_promise st" "next_task_id (reset_state st) = next_task_id st"
  by (simp_all add: reset_state_def)

lemma reset_state_inv:
  assumes inv: "queue_inv st"
  shows "q_inv (set (lanes_to_drain (reset_state st))) {#} (reset_state st)"
    and "\<forall>l \<in> set (lanes_to_drain (reset_state st)). lane_at (reset_state st) l \<noteq> None"
proof -
  let ?st = "reset_state st" and ?ls = "lanes_to_drain (reset_state st)"
  have q: "q_inv {} {#} st" using inv by (simp add: queue_inv_def)
  have d: "distinct (map fst (lanes ?st))"
    using q by (simp add: q_inv_def reset_state_def comp_def split_beta)
  have "queued_promises ?st = queued_promises st"
    by (simp add: queued_promises_def reset_state_def comp_def case_prod_unfold)
  then have "promise_mset ?st = promise_mset st"
    by (simp add: promise_mset_def settled_promises_def)
  moreover have "tasks_inv ?st"
    using q by (fastforce simp: q_inv_def tasks_inv_def lane_at_reset)
  moreover have "fifo_inv ?st"
    using q unfolding q_inv_def fifo_inv_def lane_at_reset reset_state_fields by fastforce
  moreover have "l \<in> set ?ls" if "lane_at ?st l = Some s" "lane_queue s \<noteq> []" for l s
    using that unfolding lanes_to_drain_def lane_at_def by (force dest: map_of_SomeD)
  then have "lane_inv (l \<in> set ?ls) s" if "lane_at ?st l = Some s" for l s
    using q that by (auto simp: q_inv_def lane_inv_def lane_at_reset)
  ultimately show "q_inv (set ?ls) {#} ?st"
    using q d by (simp add: q_inv_def)
  show "\<forall>l \<in> set ?ls. lane_at ?st l \<noteq> None"
    unfolding lanes_to_drain_def lane_at_def map_of_eq_None_iff by auto
qed

lemma resetAllLanes_inv: "queue_inv st \<Longrightarrow> queue_inv (resetAllLanes now st)"
  using foldl_drain_inv [OF reset_state_inv, of st now]
  by (simp add: resetAllLanes_eq queue_inv_def notify_inv notify_waiters_inv)

lemma queue_step_inv: "queue_inv st \<Longrightarrow> queue_inv (queue_step st e)"
  by (cases "(st, e)" rule: queue_step.cases)
    (simp_all add: enqueueCommandInLane_inv taskSettled_inv setCommandLaneConcurrency_inv
      clearCommandLane_inv markGatewayDraining_inv resetAllLanes_inv waitForActiveTasks_inv
      waiterTimeout_inv)

interpretation cq: invariant_system queue_step queue_inv
  by unfold_locales (rule queue_step_inv)

lemma queue_run_inv: "queue_inv (queue_run initial_queue_state es)"
  unfolding queue_run_def by (rule cq.run_all_inv) (rule q_inv_initial)

end
