(* ===== verification/CommandQueueProps.thy ===== *)
theory CommandQueueProps
  imports CommandQueueInv
begin

text \<open>
  What the command queue promises, over every run of its sections from the initial state: no
  promise is lost or settled twice, no lane with free slots keeps work waiting, a lane starts
  its tasks in the order they were enqueued and never more of them than its limit, waiters do
  not outlive the tasks they wait for, the completion of a task from before a restart does not
  touch the lanes, and when the tasks complete the queue empties.
\<close>

section \<open>Effects of a section on the settled promises\<close>

lemma notify_fields [simp]:
  "next_promise (notifyActiveTaskWaiters st) = next_promise st"
  "settled_promises (notifyActiveTaskWaiters st) = settled_promises st"
  "running (notifyActiveTaskWaiters st) = running st"
proof -
  have one: "next_promise (notify_one st w) = next_promise st \<and>
      settled_promises (notify_one st w) = settled_promises st \<and>
      running (notify_one st w) = running st" for st w
    by (simp add: notify_one_def resolveActiveTaskWaiter_def settled_promises_def)
  have "next_promise (foldl notify_one st ws) = next_promise st \<and>
      settled_promises (foldl notify_one st ws) = settled_promises st \<and>
      running (foldl notify_one st ws) = running st" for st ws
    by (induction ws arbitrary: st) (simp_all add: one)
  then show "next_promise (notifyActiveTaskWaiters st) = next_promise st"
    "settled_promises (notifyActiveTaskWaiters st) = settled_promises st"
    "running (notifyActiveTaskWaiters st) = running st"
    by (simp_all add: notifyActiveTaskWaiters_def)
qed

lemma pump_settled:
  "lane_at st l = Some s \<Longrightarrow> settled_promises (pump now l st) = settled_promises st"
  by (simp add: pump_state settled_promises_def settled_of_all_starts)

lemma taskSettled_settles:
  assumes "queue_inv st" and "r \<in> set (running st)"
  shows "settled_promises (taskSettled now (rt_task r) err st) = settled_promises st @ [rt_promise r]"
    and "next_promise (taskSettled now (rt_task r) err st) = next_promise st"
proof -
  from assms obtain s where s: "lane_at st (rt_lane r) = Some s"
    by (auto simp: queue_inv_def q_inv_def tasks_inv_def)
  have f: "settled_promises (forget_task t st) = settled_promises st"
      "settled_promises (put_lane l x st) = settled_promises st" for t l x st
    by (simp_all add: settled_promises_def forget_task_def)
  have e: "settled_promises (emit_effects [settle_effect p err] st) = settled_promises st @ [p]" for p st
    by (simp add: settled_promises_def settle_effect_def split: option.split)
  show "settled_promises (taskSettled now (rt_task r) err st) = settled_promises st @ [rt_promise r]"
    "next_promise (taskSettled now (rt_task r) err st) = next_promise st"
    by (simp_all add: taskSettled_eq [OF assms s] e f pump_settled pump_next_promise)
qed

section \<open>Draining\<close>

text \<open>Work that is not settled yet, and its size in a state with the invariant.\<close>

definition unsettled :: "queue_state \<Rightarrow> nat" where
  "unsettled st = length (queued_promises st) + length (running st)"

lemma unsettled_size:
  assumes "queue_inv st"
  shows "unsettled st + length (settled_promises st) = next_promise st"
proof -
  have "size (promise_mset st) = size (issued (next_promise st))"
    using assms by (simp add: queue_inv_def q_inv_def)
  then show ?thesis by (simp add: promise_mset_def issued_def unsettled_def)
qed

lemma taskSettled_unsettled:
  assumes "queue_inv st" and "r \<in> set (running st)"
  shows "Suc (unsettled (taskSettled now (rt_task r) err st)) = unsettled st"
  using unsettled_size [OF assms(1)] unsettled_size [OF taskSettled_inv [OF assms(1)], of now "rt_task r" err]
    taskSettled_settles [OF assms, of now err] by simp

lemma idle_no_queue:
  assumes inv: "queue_inv st" and idle: "running st = []"
  shows "queued_promises st = []"
proof -
  have "lane_queue s = []" if "(l, s) \<in> set (lanes st)" for l s
  proof -
    have d: "distinct (map fst (lanes st))"
      using inv by (simp add: queue_inv_def q_inv_def)
    with that have l: "lane_at st l = Some s"
      by (simp add: lane_at_def)
    then have "lane_active s = []" and "lane_inv False s"
      using inv idle by (auto simp: queue_inv_def q_inv_def tasks_inv_def)
    then show ?thesis by (auto simp: lane_inv_def)
  qed
  then show ?thesis by (auto simp: queued_promises_def)
qed

lemma idle_all_settled:
  assumes inv: "queue_inv st" and idle: "running st = []"
  shows "mset (settled_promises st) = issued (next_promise st)"
  using inv idle_no_queue [OF inv idle] idle
  by (simp add: queue_inv_def q_inv_def promise_mset_def)

lemma drains:
  assumes "queue_inv st"
  shows "\<exists>ts. running (queue_run st (map (\<lambda>t. (now, TaskDone t None)) ts)) = [] \<and>
    length ts = unsettled st"
  using assms
proof (induction "unsettled st" arbitrary: st)
  case 0
  then show ?case by (intro exI [of _ "[]"]) (simp add: unsettled_def queue_run_def)
next
  case (Suc n)
  have "running st \<noteq> []"
    using Suc.hyps(2) idle_no_queue [OF Suc.prems] by (auto simp: unsettled_def)
  then obtain r where r: "r \<in> set (running st)" by (cases "running st") auto
  let ?st = "taskSettled now (rt_task r) None st"
  have "n = unsettled ?st" using taskSettled_unsettled [OF Suc.prems r, of now None] Suc.hyps(2) by simp
  from Suc.hyps(1) [OF this taskSettled_inv [OF Suc.prems]] obtain ts where
    "running (queue_run ?st (map (\<lambda>t. (now, TaskDone t None)) ts)) = []" "length ts = unsettled ?st"
    by blast
  then show ?case
    using \<open>n = unsettled ?st\<close> Suc.hyps(2)
    by (intro exI [of _ "rt_task r # ts"]) (simp add: queue_run_def)
qed

lemma queue_run_append: "queue_run st (es @ es') = queue_run (queue_run st es) es'"
  by (simp add: queue_run_def)

section \<open>How many tasks a lane runs\<close>

definition active_count :: "queue_state \<Rightarrow> string \<Rightarrow> nat" where
  "active_count st l = (case lane_at st l of None \<Rightarrow> 0 | Some s \<Rightarrow> length (lane_active s))"

definition lane_limit :: "queue_state \<Rightarrow> string \<Rightarrow> nat" where
  "lane_limit st l = (case lane_at st l of None \<Rightarrow> 1 | Some s \<Rightarrow> lane_max s)"

definition within_limit :: "queue_state \<Rightarrow> queue_state \<Rightarrow> string \<Rightarrow> bool" where
  "within_limit st st' l \<longleftrightarrow> active_count st' l \<le> max (active_count st l) (lane_limit st' l)"

lemmas count_defs = active_count_def lane_limit_def within_limit_def

lemma pump_within:
  assumes "lane_at st l = Some s"
  shows "within_limit st (pump now l st) l'" and "lane_limit (pump now l st) l' = lane_limit st l'"
proof -
  have "length (lane_active s @ [next_task_id st..<pump_next l st]) \<le> lane_max s \<or>
      [next_task_id st..<pump_next l st] = []"
    using pump_fits [OF assms] pump_tasks [OF assms] by (cases "pump_starts l st = []") simp_all
  then show "within_limit st (pump now l st) l'"
    using assms by (auto simp: count_defs pump_state [OF assms] simp del: length_upt upt_eq_Nil_conv)
  show "lane_limit (pump now l st) l' = lane_limit st l'"
    using assms by (simp add: lane_limit_def pump_state [OF assms])
qed

lemma drain_within:
  assumes "lane_at st l = Some s" and "\<not> lane_draining s"
  shows "within_limit st (drainLane now l st) l'"
    and "lane_limit (drainLane now l st) l' = lane_limit st l'"
  using pump_within [OF assms(1)] drainLane_pump [OF assms] by simp_all

lemma within_limit_from:
  "within_limit st1 st2 l \<Longrightarrow> active_count st1 l \<le> active_count st l \<Longrightarrow> within_limit st st2 l"
  by (auto simp: within_limit_def)

lemma within_limit_same: "lanes st' = lanes st \<Longrightarrow> within_limit st st' l"
  by (simp add: count_defs lane_at_def)

lemma count_lanes:
  "active_count (emit_effects es st) l = active_count st l"
  "active_count (notifyActiveTaskWaiters st) l = active_count st l"
  "active_count (forget_task t st) l = active_count st l"
  "lane_limit (emit_effects es st) l = lane_limit st l"
  "lane_limit (notifyActiveTaskWaiters st) l = lane_limit st l"
  "lane_limit (forget_task t st) l = lane_limit st l"
  by (simp_all add: active_count_def lane_limit_def)

text \<open>The lane that \<open>getLaneState\<close> returns, stored back with the same active tasks and drained.\<close>

lemma touch_within:
  assumes inv: "queue_inv st" and g: "getLaneState l st = (s, st1)"
    and s': "lane_active s' = lane_active s" "\<not> lane_draining s'"
    and st2: "lane_at st2 = (lane_at st1)(l \<mapsto> s')"
  shows "within_limit st (drainLane now l st2) l'"
    and "lane_limit (drainLane now l st2) l' = (if l' = l then lane_max s' else lane_limit st l')"
proof -
  have l1: "lane_at st1 = (lane_at st)(l \<mapsto> s)"
    using lane_at_getLaneState [of l st] g by simp
  have s: "s = (case lane_at st l of None \<Rightarrow> new_lane | Some s \<Rightarrow> s)"
    using g by (auto simp: getLaneState_def lane_at_def split: option.splits)
  have l2: "lane_at st2 l = Some s'" using st2 by simp
  have "active_count st2 l' \<le> active_count st l'"
    using s' s by (auto simp: active_count_def st2 l1 split: option.splits)
  with drain_within(1) [OF l2 s'(2)] show "within_limit st (drainLane now l st2) l'"
    by (rule within_limit_from)
  have "lane_limit st2 l' = (if l' = l then lane_max s' else lane_limit st l')"
    by (simp add: lane_limit_def st2 l1)
  with drain_within(2) [OF l2 s'(2)]
  show "lane_limit (drainLane now l st2) l' = (if l' = l then lane_max s' else lane_limit st l')"
    by simp
qed

lemma getLaneState_idle_drain:
  assumes "queue_inv st" and "getLaneState l st = (s, st1)"
  shows "\<not> lane_draining s" and "lane_max s = lane_limit st l"
proof -
  have s: "s = (case lane_at st l of None \<Rightarrow> new_lane | Some s \<Rightarrow> s)"
    using assms(2) by (auto simp: getLaneState_def lane_at_def split: option.splits)
  then show "lane_max s = lane_limit st l" by (simp add: lane_limit_def split: option.split)
  show "\<not> lane_draining s"
    using s assms(1) by (auto simp: queue_inv_def q_inv_def lane_inv_def split: option.splits)
qed

lemma enqueue_within:
  assumes inv: "queue_inv st"
  shows "within_limit st (enqueueCommandInLane now lane w b st) l \<and>
    lane_limit (enqueueCommandInLane now lane w b st) l = lane_limit st l"
proof (cases "gateway_draining st")
  case True
  then show ?thesis by (simp add: enqueueCommandInLane_def Let_def count_defs)
next
  case False
  let ?l = "normalizeLane lane"
  obtain s st1 where g: "getLaneState ?l st = (s, st1)" by (cases "getLaneState ?l st")
  note i = getLaneState_idle_drain [OF inv g]
  define st2 where "st2 = put_lane ?l (s\<lparr>lane_queue := lane_queue s @ [\<lparr>q_promise = next_promise st,
    q_enqueuedAt = now, q_warnAfterMs = (case w of Some w \<Rightarrow> w | None \<Rightarrow> 2000), q_hasOnWait = b\<rparr>]\<rparr>)
    (st1\<lparr>next_promise := Suc (next_promise st)\<rparr>)"
  have "enqueueCommandInLane now lane w b st = drainLane now ?l st2"
    using False g getLaneState_next_promise [of ?l _ st]
    by (simp add: enqueueCommandInLane_def Let_def st2_def)
  with touch_within [OF inv g, of "s\<lparr>lane_queue := lane_queue s @ [\<lparr>q_promise = next_promise st,
    q_enqueuedAt = now, q_warnAfterMs = (case w of Some w \<Rightarrow> w | None \<Rightarrow> 2000), q_hasOnWait = b\<rparr>]\<rparr>" st2 now l] i
  show ?thesis by (simp add: st2_def)
qed

lemma concurrency_within:
  assumes inv: "queue_inv st"
  shows "within_limit st (setCommandLaneConcurrency now lane m st) l \<and>
    (l \<noteq> normalizeLane lane \<longrightarrow> lane_limit (setCommandLaneConcurrency now lane m st) l = lane_limit st l)"
proof -
  let ?l = "normalizeLane lane"
  obtain s st1 where g: "getLaneState ?l st = (s, st1)" by (cases "getLaneState ?l st")
  note i = getLaneState_idle_drain [OF inv g]
  show ?thesis
    using touch_within [OF inv g, of "s\<lparr>lane_max := nat (max 1 \<lfloor>m\<rfloor>)\<rparr>"
      "put_lane ?l (s\<lparr>lane_max := nat (max 1 \<lfloor>m\<rfloor>)\<rparr>) st1" now l] i g
    by (simp add: setCommandLaneConcurrency_def Let_def)
qed

lemma settled_within:
  assumes inv: "queue_inv st"
  shows "within_limit st (taskSettled now t err st) l \<and>
    lane_limit (taskSettled now t err st) l = lane_limit st l"
proof (cases "find (\<lambda>r. rt_task r = t) (running st)")
  case None
  then show ?thesis by (simp add: taskSettled_def within_limit_def)
next
  case (Some r)
  then have r: "r \<in> set (running st)" "t = rt_task r" by (auto dest: find_SomeD)
  with inv obtain s where s: "lane_at st (rt_lane r) = Some s"
    by (auto simp: queue_inv_def q_inv_def tasks_inv_def)
  let ?s' = "s\<lparr>lane_active := filter (\<lambda>x. x \<noteq> rt_task r) (lane_active s)\<rparr>"
  let ?st1 = "notifyActiveTaskWaiters (put_lane (rt_lane r) ?s' (forget_task (rt_task r) st))"
  have l1: "lane_at ?st1 = (lane_at st)(rt_lane r \<mapsto> ?s')" by simp
  have "active_count ?st1 l \<le> active_count st l" and lim: "lane_limit ?st1 l = lane_limit st l"
    using s by (simp_all add: active_count_def lane_limit_def l1)
  moreover have "lane_at ?st1 (rt_lane r) = Some ?s'" by simp
  note pump_within [OF this, of now l]
  ultimately have "within_limit st (pump now (rt_lane r) ?st1) l"
    "lane_limit (pump now (rt_lane r) ?st1) l = lane_limit st l"
    by (auto intro: within_limit_from)
  then show ?thesis
    unfolding r(2) taskSettled_eq [OF inv r(1) s]
    by (simp add: within_limit_def count_lanes)
qed

lemma clear_within:
  "within_limit st (snd (clearCommandLane lane st)) l \<and>
   lane_limit (snd (clearCommandLane lane st)) l = lane_limit st l"
  by (auto simp: clearCommandLane_def Let_def count_defs lane_at_def [symmetric] split: option.splits)

lemma drains_within:
  assumes "q_inv X M st" and "\<forall>l \<in> set ls. lane_at st l \<noteq> None"
  shows "within_limit st (foldl (\<lambda>s l. drainLane now l s) st ls) l' \<and>
    lane_limit (foldl (\<lambda>s l. drainLane now l s) st ls) l' = lane_limit st l'"
  using assms
proof (induction ls arbitrary: X st)
  case Nil
  then show ?case by (simp add: within_limit_def)
next
  case (Cons l ls)
  from Cons.prems obtain s where s: "lane_at st l = Some s" by auto
  from lane_inv_of [OF Cons.prems(1) s] have nd: "\<not> lane_draining s" by (simp add: lane_inv_def)
  have "\<forall>l' \<in> set ls. lane_at (drainLane now l st) l' \<noteq> None"
    using Cons.prems(2) by (auto simp: drainLane_pump [OF s nd] pump_state [OF s])
  from Cons.IH [OF drainLane_inv [OF Cons.prems(1) s] this] drain_within [OF s nd, of now l']
  show ?case by (auto simp: within_limit_def)
qed

lemma reset_within:
  assumes inv: "queue_inv st"
  shows "within_limit st (resetAllLanes now st) l \<and>
    lane_limit (resetAllLanes now st) l = lane_limit st l"
proof -
  have "active_count (reset_state st) l \<le> active_count st l"
    "lane_limit (reset_state st) l = lane_limit st l"
    by (simp_all add: active_count_def lane_limit_def lane_at_reset split: option.split)
  with drains_within [OF reset_state_inv [OF inv], of now l]
  show ?thesis
    unfolding resetAllLanes_eq by (auto simp: within_limit_def count_lanes)
qed

lemma wait_within:
  "within_limit st (waitForActiveTasks ms st) l \<and>
   lane_limit (waitForActiveTasks ms st) l = lane_limit st l"
  by (simp add: waitForActiveTasks_def Let_def count_defs lane_at_def)

lemma timeout_within:
  "within_limit st (waiterTimeout p st) l \<and> lane_limit (waiterTimeout p st) l = lane_limit st l"
  by (simp add: waiterTimeout_def count_defs split: option.split)

lemma draining_within:
  "within_limit st (markGatewayDraining st) l \<and> lane_limit (markGatewayDraining st) l = lane_limit st l"
  by (simp add: count_defs markGatewayDraining_def)

lemma queue_step_within: "queue_inv st \<Longrightarrow> within_limit st (queue_step st e) l"
  by (cases "(st, e)" rule: queue_step.cases)
    (simp_all add: enqueue_within settled_within concurrency_within clear_within reset_within
      wait_within timeout_within draining_within)

text \<open>Only \<open>setCommandLaneConcurrency\<close> on a lane changes its limit.\<close>

fun reconfigures :: "string \<Rightarrow> queue_event \<Rightarrow> bool" where
  "reconfigures l (SetConcurrency lane m) = (normalizeLane lane = l)"
| "reconfigures l _ = False"

lemma queue_step_limit:
  "queue_inv st \<Longrightarrow> \<not> reconfigures l (snd e) \<Longrightarrow> lane_limit (queue_step st e) l = lane_limit st l"
  by (cases "(st, e)" rule: queue_step.cases)
    (auto simp: enqueue_within settled_within concurrency_within clear_within reset_within
      wait_within timeout_within draining_within)

lemma serial_lane:
  assumes "queue_inv st" and "active_count st l \<le> 1" and "lane_limit st l = 1"
    and "\<forall>e \<in> set es. \<not> reconfigures l (snd e)"
  shows "active_count (queue_run st es) l \<le> 1"
  using assms
proof (induction es arbitrary: st)
  case Nil
  then show ?case by (simp add: queue_run_def)
next
  case (Cons e es)
  then have "lane_limit (queue_step st e) l = 1" by (simp add: queue_step_limit)
  moreover have "active_count (queue_step st e) l \<le> 1"
    using queue_step_within [OF Cons.prems(1), of e l] calculation Cons.prems(2)
    by (simp add: within_limit_def)
  ultimately show ?case
    using Cons.IH [OF queue_step_inv [OF Cons.prems(1), of e]] Cons.prems(4)
    by (simp add: queue_run_def)
qed

section \<open>Completions from before a restart\<close>

lemma drains_generations:
  assumes "q_inv X M st" and "\<forall>l \<in> set ls. lane_at st l \<noteq> None"
  shows "set (running st) \<subseteq> set (running (foldl (\<lambda>s l. drainLane now l s) st ls)) \<and>
    map_option lane_gen (lane_at (foldl (\<lambda>s l. drainLane now l s) st ls) l') =
      map_option lane_gen (lane_at st l')"
  using assms
proof (induction ls arbitrary: X st)
  case Nil
  then show ?case by simp
next
  case (Cons l ls)
  from Cons.prems obtain s where s: "lane_at st l = Some s" by auto
  from lane_inv_of [OF Cons.prems(1) s] have nd: "\<not> lane_draining s" by (simp add: lane_inv_def)
  have "\<forall>l' \<in> set ls. lane_at (drainLane now l st) l' \<noteq> None"
    using Cons.prems(2) by (auto simp: drainLane_pump [OF s nd] pump_state [OF s])
  from Cons.IH [OF drainLane_inv [OF Cons.prems(1) s] this] s show ?case
    by (auto simp: drainLane_pump [OF s nd] pump_state [OF s])
qed

lemma reset_stale:
  assumes inv: "queue_inv st" and r: "r \<in> set (running st)"
  obtains s where "lane_at (resetAllLanes now st) (rt_lane r) = Some s" "rt_gen r < lane_gen s"
    "r \<in> set (running (resetAllLanes now st))"
proof -
  from inv r obtain s where s: "lane_at st (rt_lane r) = Some s" "rt_gen r \<le> lane_gen s"
    by (auto simp: queue_inv_def q_inv_def tasks_inv_def)
  note d = drains_generations [OF reset_state_inv [OF inv], of now "rt_lane r"]
  have "map_option lane_gen (lane_at (resetAllLanes now st) (rt_lane r)) = Some (Suc (lane_gen s))"
    using d s by (simp add: resetAllLanes_eq lane_at_reset)
  moreover have "r \<in> set (running (resetAllLanes now st))"
    using d r by (auto simp: resetAllLanes_eq)
  ultimately show ?thesis using that s(2) by auto
qed

lemma stale_completion:
  assumes "queue_inv st" and "r \<in> set (running st)" and "lane_at st (rt_lane r) = Some s"
    and "rt_gen r < lane_gen s"
  shows "lanes (taskSettled now (rt_task r) err st) = lanes st \<and>
    active_waiters (taskSettled now (rt_task r) err st) = active_waiters st \<and>
    q_log (taskSettled now (rt_task r) err st) = q_log st @ [settle_effect (rt_promise r) err]"
  using assms(4) by (simp add: taskSettled_eq [OF assms(1-3)] forget_task_def)

section \<open>Properties\<close>

text \<open>C1: In every run, each promise that an enqueue ever returned is in exactly one place: still
  queued in a lane, held by one running task, or settled, and settled once. No command is lost,
  duplicated or settled twice, across completions, failures, clears, restarts and draining.\<close>

theorem queue_promises_conserved:
  "let st = queue_run initial_queue_state es in
     mset (queued_promises st) + mset (map rt_promise (running st)) + mset (settled_promises st) =
     mset [0..<next_promise st]"
  using queue_run_inv [of es]
  by (simp add: Let_def queue_inv_def q_inv_def promise_mset_def issued_def)

text \<open>C2: In every run, between two sections no lane has both work waiting and a free slot: a
  lane with a queued command runs at least as many tasks as its limit allows. There is no lost
  wakeup, and no lane is left with its draining flag up.\<close>

theorem queue_work_conserving:
  assumes "map_of (lanes (queue_run initial_queue_state es)) l = Some s"
  shows "\<not> lane_draining s \<and> 1 \<le> lane_max s \<and>
    (lane_queue s \<noteq> [] \<longrightarrow> lane_max s \<le> length (lane_active s))"
  using queue_run_inv [of es] assms
  by (auto simp: queue_inv_def q_inv_def lane_inv_def lane_at_def)

definition two_on_main :: "(int \<times> queue_event) list" where
  "two_on_main = [(0, EnqueueInLane ''main'' None False), (1, EnqueueInLane '' '' None True)]"

definition two_on_main_lane :: lane_state where
  "two_on_main_lane = \<lparr>lane_queue = [\<lparr>q_promise = 1, q_enqueuedAt = 1, q_warnAfterMs = 2000,
     q_hasOnWait = True\<rparr>], lane_active = [1], lane_max = 1, lane_draining = False, lane_gen = 0\<rparr>"

theorem queue_work_conserving_witness:
  "lane_max two_on_main_lane \<le> length (lane_active two_on_main_lane)"
proof -
  have "map_of (lanes (queue_run initial_queue_state two_on_main)) ''main'' = Some two_on_main_lane"
    by code_simp
  from queue_work_conserving [OF this] show ?thesis
    by (simp add: two_on_main_lane_def)
qed

text \<open>In every run, a lane starts its commands in the order in which they were enqueued: the
  promises of the tasks it started are strictly increasing, whatever its concurrency limit, and
  every started command is older than every command the lane still holds.\<close>

theorem lane_starts_fifo:
  "sorted_wrt (<) (lane_starts l (q_log (queue_run initial_queue_state es)) @
     (case map_of (lanes (queue_run initial_queue_state es)) l of
        None \<Rightarrow> [] | Some s \<Rightarrow> map q_promise (lane_queue s)))"
proof -
  let ?st = "queue_run initial_queue_state es"
  have f: "fifo_inv ?st" using queue_run_inv [of es] by (simp add: queue_inv_def q_inv_def)
  show ?thesis
  proof (cases "lane_at ?st l")
    case None
    then show ?thesis using f by (simp add: fifo_inv_def lane_at_def)
  next
    case (Some s)
    have "p < q_promise e"
      if "p \<in> set (lane_starts l (q_log ?st))" "e \<in> set (lane_queue s)" for p e
      using f Some that unfolding in_lane_starts fifo_inv_def by blast
    then show ?thesis
      using f Some by (simp add: sorted_wrt_append fifo_inv_def lane_at_def)
  qed
qed



text \<open>C38: From every reachable state the queue can always drain, and in as many completions as
  there is unsettled work: if running tasks keep completing, every queued command is started and
  settled, and when no task runs the promises settled are all those issued, each once.\<close>

theorem queue_drains:
  "\<exists>ts. let st = queue_run initial_queue_state es;
           st' = queue_run st (map (\<lambda>t. (now, TaskDone t None)) ts) in
     length ts = unsettled st \<and> running st' = [] \<and> queued_promises st' = [] \<and>
     mset (settled_promises st') = mset [0..<next_promise st] \<and> next_promise st' = next_promise st"
proof -
  have next_promise: "next_promise (queue_run st (map (\<lambda>t. (now, TaskDone t None)) ts)) = next_promise st"
    if "queue_inv st" for st ts
    using that
  proof (induction ts arbitrary: st)
    case (Cons t ts)
    have "next_promise (taskSettled now t None st) = next_promise st"
    proof (cases "find (\<lambda>r. rt_task r = t) (running st)")
      case (Some r)
      then have "r \<in> set (running st)" "rt_task r = t" by (auto dest: find_SomeD)
      with taskSettled_settles(2) [OF Cons.prems] show ?thesis by blast
    qed (simp add: taskSettled_def)
    with Cons.IH [OF taskSettled_inv [OF Cons.prems]] show ?case by (simp add: queue_run_def)
  qed (simp add: queue_run_def)
  let ?st = "queue_run initial_queue_state es"
  obtain ts where ts: "running (queue_run ?st (map (\<lambda>t. (now, TaskDone t None)) ts)) = []"
    "length ts = unsettled ?st"
    using drains [OF queue_run_inv [of es]] by blast
  have inv: "queue_inv (queue_run ?st (map (\<lambda>t. (now, TaskDone t None)) ts))"
    using queue_run_inv [of "es @ map (\<lambda>t. (now, TaskDone t None)) ts"]
    by (simp only: queue_run_append)
  show ?thesis
    using ts idle_no_queue [OF inv ts(1)] idle_all_settled [OF inv ts(1)]
      next_promise [OF queue_run_inv [of es], of ts]
    by (intro exI [of _ ts]) (simp add: Let_def issued_def)
qed

text \<open>A task that was running when the lanes were reset no longer counts: its completion after
  the restart settles its own promise and nothing else. The lanes, their active tasks and the
  waiters stay as they are, so an old completion cannot free a slot of the new generation.\<close>

theorem stale_completion_ignored:
  assumes "r \<in> set (running (queue_run initial_queue_state es))"
  shows "let st = resetAllLanes now (queue_run initial_queue_state es);
             st' = taskSettled now' (rt_task r) err st in
    lanes st' = lanes st \<and> active_waiters st' = active_waiters st \<and>
    q_log st' = q_log st @ [settle_effect (rt_promise r) err]"
proof -
  note inv = queue_run_inv [of es]
  obtain s where s: "lane_at (resetAllLanes now (queue_run initial_queue_state es)) (rt_lane r) = Some s"
    "rt_gen r < lane_gen s" "r \<in> set (running (resetAllLanes now (queue_run initial_queue_state es)))"
    by (rule reset_stale [OF inv assms])
  from stale_completion [OF resetAllLanes_inv [OF inv] s(3,1,2), of now' err]
  show ?thesis by (simp add: Let_def)
qed

theorem stale_completion_ignored_witness:
  "let st = resetAllLanes 5 (queue_run initial_queue_state two_on_main);
       st' = taskSettled 9 1 None st in
     map (\<lambda>(l, s). lane_active s) (lanes st') = [[2]] \<and> settled_promises st' = [0]"
proof -
  let ?r = "\<lparr>rt_task = 1, rt_lane = ''main'', rt_gen = 0, rt_promise = 0\<rparr>"
  have "?r \<in> set (running (queue_run initial_queue_state two_on_main))" by code_simp
  note c = stale_completion_ignored [OF this, of 5 9 None]
  moreover have "map (\<lambda>(l, s). lane_active s)
      (lanes (resetAllLanes 5 (queue_run initial_queue_state two_on_main))) = [[2]]"
    by code_simp
  moreover have "settled_promises (resetAllLanes 5 (queue_run initial_queue_state two_on_main)) = []"
    by code_simp
  ultimately show ?thesis by (simp add: Let_def settled_promises_def settle_effect_def)
qed

text \<open>In every run, a caller of \<open>waitForActiveTasks\<close> that is still waiting waits for at least
  one task that some lane still counts as active: no waiter is left behind after the last of its
  tasks completed or a restart forgot them.\<close>

theorem waiters_have_active_tasks:
  "list_all (\<lambda>w. hasPendingActiveTasks (queue_run initial_queue_state es) (w_ids w))
     (active_waiters (queue_run initial_queue_state es))"
  using queue_run_inv [of es] by (simp add: queue_inv_def waiters_inv_def list_all_iff)

end
