(* ===== verification/HeartbeatReason.thy ===== *)
theory HeartbeatReason
  imports Prelude
begin

text \<open>
  What a heartbeat run returns (the type of \<open>src/infra/heartbeat-wake.ts\<close>, which the cron jobs use too) and the
  reasons of a wake-up, \<open>src/infra/heartbeat-reason.ts\<close>.
\<close>

datatype HeartbeatRunResult = HbRan | HbSkipped string | HbFailed string

section \<open>Reasons\<close>

datatype reason_kind = RetryReason | IntervalReason | ManualReason | ExecEventReason | WakeReason | CronReason
  | HookReason | OtherReason

definition normalizeHeartbeatWakeReason :: "string option \<Rightarrow> string" where
  "normalizeHeartbeatWakeReason reason = (case trimmed_opt reason of Some r \<Rightarrow> r | None \<Rightarrow> ''requested'')"

definition resolveHeartbeatReasonKind :: "string option \<Rightarrow> reason_kind" where
  "resolveHeartbeatReasonKind reason =
     (let t = (case reason of None \<Rightarrow> [] | Some r \<Rightarrow> trim r) in
      if t = ''retry'' then RetryReason
      else if t = ''interval'' then IntervalReason
      else if t = ''manual'' then ManualReason
      else if t = ''exec-event'' then ExecEventReason
      else if t = ''wake'' then WakeReason
      else if starts_with t ''acp:spawn:'' then WakeReason
      else if starts_with t ''cron:'' then CronReason
      else if starts_with t ''hook:'' then HookReason
      else OtherReason)"

definition isHeartbeatEventDrivenReason :: "string option \<Rightarrow> bool" where
  "isHeartbeatEventDrivenReason reason =
     (resolveHeartbeatReasonKind reason \<in> {ExecEventReason, CronReason, WakeReason, HookReason})"

definition isHeartbeatActionWakeReason :: "string option \<Rightarrow> bool" where
  "isHeartbeatActionWakeReason reason =
     (resolveHeartbeatReasonKind reason \<in> {ManualReason, ExecEventReason, HookReason})"

end
