(* ===== verification/HeartbeatWake.thy ===== *)
theory HeartbeatWake
  imports HeartbeatReason
begin

text \<open>
  Wake-ups of the agent: \<open>src/infra/heartbeat-wake.ts\<close>. The module's
  variables are the record \<open>heartbeat\<close>. One event is one synchronous section: an exported function, the timer's
  callback, or the continuation after an awaited run of the handler. A timer callback that awaits is a batch: what
  it took from the queue, what is left of it (the first one is running), its handler and the delay it was armed
  with. Handlers are numbers; every call of one is appended to \<open>hw_calls\<close>.
\<close>

section \<open>State\<close>

record wake =
  wk_reason :: string
  wk_priority :: nat
  wk_requestedAt :: int
  wk_agentId :: "string option"
  wk_sessionKey :: "string option"

datatype timer_kind = NormalTimer | RetryTimer

text \<open>\<open>wt_fireAt\<close> is the instant the runtime calls back.\<close>

record wake_timer =
  wt_fireAt :: int
  wt_dueAt :: int
  wt_delay :: int
  wt_kind :: timer_kind

record wake_batch =
  wb_all :: "wake list"
  wb_rest :: "wake list"
  wb_handler :: nat
  wb_delay :: int

record heartbeat =
  hw_enabled :: bool
  hw_handler :: "nat option"
  hw_generation :: nat
  hw_pending :: "(string \<times> wake) list"
  hw_scheduled :: bool
  hw_running :: bool
  hw_timer :: "wake_timer option"
  hw_batches :: "(nat \<times> wake_batch) list"
  hw_nextBatch :: nat
  hw_calls :: "(nat \<times> wake) list"

definition initial_heartbeat :: heartbeat where
  "initial_heartbeat = \<lparr>hw_enabled = True, hw_handler = None, hw_generation = 0, hw_pending = [], hw_scheduled = False,
     hw_running = False, hw_timer = None, hw_batches = [], hw_nextBatch = 0, hw_calls = []\<rparr>"

definition DEFAULT_COALESCE_MS :: int where
  "DEFAULT_COALESCE_MS = 250"

definition DEFAULT_RETRY_MS :: int where
  "DEFAULT_RETRY_MS = 1000"

section \<open>The queue of wakes\<close>

definition resolveReasonPriority :: "string \<Rightarrow> nat" where
  "resolveReasonPriority reason =
     (let kind = resolveHeartbeatReasonKind (Some reason) in
      if kind = RetryReason then 0 else if kind = IntervalReason then 1
      else if isHeartbeatActionWakeReason (Some reason) then 3 else 2)"

definition getWakeTargetKey :: "string option \<Rightarrow> string option \<Rightarrow> string" where
  "getWakeTargetKey agentId sessionKey =
     or_default (trimmed_opt agentId) [] @ ''::'' @ or_default (trimmed_opt sessionKey) []"

definition make_wake :: "string option \<Rightarrow> int \<Rightarrow> string option \<Rightarrow> string option \<Rightarrow> wake" where
  "make_wake reason requestedAt agentId sessionKey =
     (let r = normalizeHeartbeatWakeReason reason in
      \<lparr>wk_reason = r, wk_priority = resolveReasonPriority r, wk_requestedAt = requestedAt,
       wk_agentId = trimmed_opt agentId, wk_sessionKey = trimmed_opt sessionKey\<rparr>)"

definition queuePendingWakeReason ::
    "int \<Rightarrow> string option \<Rightarrow> string option \<Rightarrow> string option \<Rightarrow> heartbeat \<Rightarrow> heartbeat" where
  "queuePendingWakeReason now reason agentId sessionKey s =
     (let w = make_wake reason now agentId sessionKey;
          key = getWakeTargetKey (trimmed_opt agentId) (trimmed_opt sessionKey);
          put = s\<lparr>hw_pending := AList.update key w (hw_pending s)\<rparr>
      in case map_of (hw_pending s) key of
           None \<Rightarrow> put
         | Some previous \<Rightarrow>
             if wk_priority w > wk_priority previous then put
             else if wk_priority w = wk_priority previous \<and> wk_requestedAt w \<ge> wk_requestedAt previous then put
             else s)"

text \<open>Putting a wake of a batch back.\<close>

definition requeue :: "int \<Rightarrow> wake \<Rightarrow> heartbeat \<Rightarrow> heartbeat" where
  "requeue now w s = queuePendingWakeReason now (Some (wk_reason w)) (wk_agentId w) (wk_sessionKey w) s"

section \<open>The timer\<close>

definition arm :: "int \<Rightarrow> int \<Rightarrow> timer_kind \<Rightarrow> heartbeat \<Rightarrow> heartbeat" where
  "arm now delay kind s =
     s\<lparr>hw_timer := Some \<lparr>wt_fireAt = now + node_timer_ms delay, wt_dueAt = now + delay, wt_delay = delay, wt_kind = kind\<rparr>\<rparr>"

text \<open>\<open>coalesceMs\<close> is \<open>None\<close> when it is not a finite number.\<close>

definition schedule :: "int \<Rightarrow> int option \<Rightarrow> timer_kind \<Rightarrow> heartbeat \<Rightarrow> heartbeat" where
  "schedule now coalesceMs kind s =
     (let delay = (case coalesceMs of Some ms \<Rightarrow> max 0 ms | None \<Rightarrow> DEFAULT_COALESCE_MS) in
      case hw_timer s of
        None \<Rightarrow> arm now delay kind s
      | Some t \<Rightarrow>
          if wt_kind t = RetryTimer then s
          else if wt_dueAt t \<le> now + delay then s
          else arm now delay kind s)"

text \<open>The end of a batch: the \<open>finally\<close> block.\<close>

definition finish_batch :: "int \<Rightarrow> int \<Rightarrow> heartbeat \<Rightarrow> heartbeat" where
  "finish_batch now delay s =
     (let s1 = s\<lparr>hw_running := False\<rparr> in
      if hw_pending s1 \<noteq> [] \<or> hw_scheduled s1 then schedule now (Some delay) NormalTimer s1 else s1)"

definition start_batch :: "int \<Rightarrow> int \<Rightarrow> nat \<Rightarrow> heartbeat \<Rightarrow> heartbeat" where
  "start_batch now delay handler s =
     (let pendingBatch = map snd (hw_pending s); s1 = s\<lparr>hw_pending := [], hw_running := True\<rparr> in
      case pendingBatch of
        [] \<Rightarrow> finish_batch now delay s1
      | w # ws \<Rightarrow>
          s1\<lparr>hw_batches := hw_batches s1 @ [(hw_nextBatch s1,
                \<lparr>wb_all = pendingBatch, wb_rest = pendingBatch, wb_handler = handler, wb_delay = delay\<rparr>)],
             hw_nextBatch := Suc (hw_nextBatch s1), hw_calls := hw_calls s1 @ [(handler, w)]\<rparr>)"

definition timer_fires :: "int \<Rightarrow> heartbeat \<Rightarrow> heartbeat" where
  "timer_fires now s =
     (case hw_timer s of
        None \<Rightarrow> s
      | Some t \<Rightarrow>
          if now < wt_fireAt t then s
          else (let s1 = s\<lparr>hw_timer := None, hw_scheduled := False\<rparr> in
            case hw_handler s1 of
              None \<Rightarrow> s1
            | Some active \<Rightarrow>
                if hw_running s1 then schedule now (Some (wt_delay t)) (wt_kind t) (s1\<lparr>hw_scheduled := True\<rparr>)
                else start_batch now (wt_delay t) active s1))"

text \<open>The handler's promise for the first wake that is left: \<open>None\<close> when it rejects.\<close>

definition run_returns :: "int \<Rightarrow> nat \<Rightarrow> HeartbeatRunResult option \<Rightarrow> heartbeat \<Rightarrow> heartbeat" where
  "run_returns now i outcome s =
     (case map_of (hw_batches s) i of
        None \<Rightarrow> s
      | Some b \<Rightarrow>
          (case wb_rest b of
             [] \<Rightarrow> s
           | w # ws \<Rightarrow>
               (case outcome of
                  None \<Rightarrow>
                    (let s1 = s\<lparr>hw_batches := AList.delete i (hw_batches s)\<rparr>;
                         s2 = foldl (\<lambda>acc v. requeue now v acc) s1 (wb_all b)
                     in finish_batch now (wb_delay b) (schedule now (Some DEFAULT_RETRY_MS) RetryTimer s2))
                | Some res \<Rightarrow>
                    (let s1 = (if res = HbSkipped ''requests-in-flight''
                               then schedule now (Some DEFAULT_RETRY_MS) RetryTimer (requeue now w s) else s)
                     in case ws of
                          [] \<Rightarrow> finish_batch now (wb_delay b) (s1\<lparr>hw_batches := AList.delete i (hw_batches s1)\<rparr>)
                        | v # vs \<Rightarrow> s1\<lparr>hw_batches := AList.update i (b\<lparr>wb_rest := ws\<rparr>) (hw_batches s1),
                                     hw_calls := hw_calls s1 @ [(wb_handler b, v)]\<rparr>))))"

section \<open>The exported functions\<close>

definition setHeartbeatsEnabled :: "bool \<Rightarrow> heartbeat \<Rightarrow> heartbeat" where
  "setHeartbeatsEnabled enabled s = s\<lparr>hw_enabled := enabled\<rparr>"

definition setHeartbeatWakeHandler :: "int \<Rightarrow> nat option \<Rightarrow> heartbeat \<Rightarrow> heartbeat" where
  "setHeartbeatWakeHandler now next' s =
     (let s1 = s\<lparr>hw_generation := Suc (hw_generation s), hw_handler := next'\<rparr>;
          s2 = (if next' \<noteq> None then s1\<lparr>hw_timer := None, hw_running := False, hw_scheduled := False\<rparr> else s1)
      in if hw_handler s2 \<noteq> None \<and> hw_pending s2 \<noteq> [] then schedule now (Some DEFAULT_COALESCE_MS) NormalTimer s2 else s2)"

text \<open>The disposer that registering \<open>next\<close> as generation \<open>generation\<close> returned.\<close>

definition dispose_handler :: "nat \<Rightarrow> nat option \<Rightarrow> heartbeat \<Rightarrow> heartbeat" where
  "dispose_handler generation next' s =
     (if hw_generation s \<noteq> generation then s
      else if hw_handler s \<noteq> next' then s
      else s\<lparr>hw_generation := Suc (hw_generation s), hw_handler := None\<rparr>)"

definition requestHeartbeatNow ::
    "int \<Rightarrow> string option \<Rightarrow> int option option \<Rightarrow> string option \<Rightarrow> string option \<Rightarrow> heartbeat \<Rightarrow> heartbeat" where
  "requestHeartbeatNow now reason coalesceMs agentId sessionKey s =
     schedule now (or_default coalesceMs (Some DEFAULT_COALESCE_MS)) NormalTimer
       (queuePendingWakeReason now reason agentId sessionKey s)"

definition hasHeartbeatWakeHandler :: "heartbeat \<Rightarrow> bool" where
  "hasHeartbeatWakeHandler s = (hw_handler s \<noteq> None)"

definition hasPendingHeartbeatWake :: "heartbeat \<Rightarrow> bool" where
  "hasPendingHeartbeatWake s = (hw_pending s \<noteq> [] \<or> hw_timer s \<noteq> None \<or> hw_scheduled s)"

datatype wake_event =
    EnableWakes bool
  | SetWakeHandler int "nat option"
  | DisposeHandler nat "nat option"
  | RequestWake int "string option" "int option option" "string option" "string option"
  | TimerFires int
  | RunReturns int nat "HeartbeatRunResult option"

fun wake_step :: "heartbeat \<Rightarrow> wake_event \<Rightarrow> heartbeat" where
  "wake_step s (EnableWakes b) = setHeartbeatsEnabled b s"
| "wake_step s (SetWakeHandler now h) = setHeartbeatWakeHandler now h s"
| "wake_step s (DisposeHandler g h) = dispose_handler g h s"
| "wake_step s (RequestWake now reason coalesceMs agentId sessionKey) =
     requestHeartbeatNow now reason coalesceMs agentId sessionKey s"
| "wake_step s (TimerFires now) = timer_fires now s"
| "wake_step s (RunReturns now i outcome) = run_returns now i outcome s"

definition wake_run :: "wake_event list \<Rightarrow> heartbeat" where
  "wake_run es = foldl wake_step initial_heartbeat es"

end
