(* ===== verification/HeartbeatProps.thy ===== *)
theory HeartbeatProps
  imports HeartbeatWake
begin

text \<open>
  What the wake-up queue promises: while a handler is registered a pending wake always has a timer, a requested
  target stays owed until a run for it came back, and batches run one at a time as long as the handler is not
  replaced under a running batch.
\<close>

section \<open>The timer\<close>

text \<open>No handler, nothing pending, or a timer.\<close>

definition timer_armed :: "heartbeat \<Rightarrow> bool" where
  "timer_armed s = (hw_handler s = None \<or> hw_pending s = [] \<or> hw_timer s \<noteq> None)"

lemma schedule_frame [simp]:
  "hw_handler (schedule now ms k s) = hw_handler s" "hw_pending (schedule now ms k s) = hw_pending s"
  "hw_batches (schedule now ms k s) = hw_batches s" "hw_running (schedule now ms k s) = hw_running s"
  "hw_nextBatch (schedule now ms k s) = hw_nextBatch s" "hw_calls (schedule now ms k s) = hw_calls s"
  by (simp_all add: schedule_def arm_def Let_def split: option.split)

lemma schedule_arms [simp]: "hw_timer (schedule now ms k s) \<noteq> None"
  by (simp add: schedule_def arm_def Let_def split: option.split)

lemma queue_frame [simp]:
  "hw_handler (queuePendingWakeReason now r a k s) = hw_handler s" "hw_batches (queuePendingWakeReason now r a k s) = hw_batches s"
  "hw_running (queuePendingWakeReason now r a k s) = hw_running s" "hw_nextBatch (queuePendingWakeReason now r a k s) = hw_nextBatch s"
  by (simp_all add: queuePendingWakeReason_def Let_def split: option.split)

lemma requeue_frame [simp]:
  "hw_handler (requeue now w s) = hw_handler s" "hw_batches (requeue now w s) = hw_batches s"
  "hw_running (requeue now w s) = hw_running s" "hw_nextBatch (requeue now w s) = hw_nextBatch s"
  by (simp_all add: requeue_def)

lemma requeue_all_frame [simp]:
  "hw_handler (foldl (\<lambda>acc v. requeue now v acc) s ws) = hw_handler s"
  "hw_batches (foldl (\<lambda>acc v. requeue now v acc) s ws) = hw_batches s"
  "hw_nextBatch (foldl (\<lambda>acc v. requeue now v acc) s ws) = hw_nextBatch s"
  by (induction ws arbitrary: s) simp_all

lemma finish_frame [simp]:
  "hw_handler (finish_batch now d s) = hw_handler s" "hw_pending (finish_batch now d s) = hw_pending s"
  "hw_batches (finish_batch now d s) = hw_batches s" "hw_running (finish_batch now d s) = False"
  "hw_nextBatch (finish_batch now d s) = hw_nextBatch s"
  by (simp_all add: finish_batch_def Let_def)

lemma schedule_armed [intro]: "timer_armed (schedule now ms k s)"
  using schedule_arms [of now ms k s] by (simp add: timer_armed_def)

lemma finish_armed [intro]: "timer_armed (finish_batch now d s)"
  using schedule_arms [of now "Some d" NormalTimer "s\<lparr>hw_running := False\<rparr>"]
  by (auto simp: timer_armed_def finish_batch_def Let_def)

lemma wake_step_armed: "timer_armed s \<Longrightarrow> timer_armed (wake_step s e)"
proof (cases e)
  case (TimerFires now)
  assume "timer_armed s"
  then show ?thesis
    by (auto simp: TimerFires timer_fires_def start_batch_def Let_def split: option.split list.split)
      (auto simp: timer_armed_def)
next
  case (RunReturns now i outcome)
  assume armed: "timer_armed s"
  then show ?thesis
    by (auto simp: RunReturns run_returns_def Let_def split: option.split list.split)
      (auto simp: timer_armed_def)
next
  case (SetWakeHandler now h)
  assume "timer_armed s"
  then show ?thesis
    by (cases h) (auto simp: SetWakeHandler setHeartbeatWakeHandler_def Let_def, auto simp: timer_armed_def)
qed (auto simp: timer_armed_def setHeartbeatsEnabled_def dispose_handler_def requestHeartbeatNow_def)

interpretation armed: invariant_system wake_step timer_armed
  by unfold_locales (rule wake_step_armed)

text \<open>A pending wake is never forgotten by the clock. Whatever sequence of requests, registrations, disposals,
  timer callbacks and returning runs the module sees, when a handler is registered and a wake is pending, a timer is
  armed; without it the wake would sit in the map until an unrelated request comes.\<close>

theorem wakes_stay_armed: "timer_armed (wake_run es)"
  unfolding wake_run_def by (rule armed.run_all_inv) (simp add: timer_armed_def initial_heartbeat_def)

section \<open>What is owed\<close>

text \<open>The targets of the pending wakes, and of the wakes that running batches have not yet worked through.\<close>

definition target_of :: "wake \<Rightarrow> string" where
  "target_of w = getWakeTargetKey (wk_agentId w) (wk_sessionKey w)"

definition owed :: "heartbeat \<Rightarrow> string set" where
  "owed s = fst ` set (hw_pending s) \<union> (\<Union>b\<in>ran (map_of (hw_batches s)). target_of ` set (wb_rest b))"

text \<open>The targets whose run came back with anything but busy, one step and a whole run.\<close>

fun serves :: "heartbeat \<Rightarrow> wake_event \<Rightarrow> string set" where
  "serves s (RunReturns now i (Some res)) =
     (case map_of (hw_batches s) i of
        None \<Rightarrow> {}
      | Some b \<Rightarrow> (if res = HbSkipped ''requests-in-flight'' then {} else target_of ` set (take 1 (wb_rest b))))"
| "serves s _ = {}"

fun served :: "heartbeat \<Rightarrow> wake_event list \<Rightarrow> string set" where
  "served s [] = {}"
| "served s (e # es) = serves s e \<union> served (wake_step s e) es"

definition keyed :: "heartbeat \<Rightarrow> bool" where
  "keyed s = (\<forall>kw \<in> set (hw_pending s). target_of (snd kw) = fst kw)"

definition books :: "heartbeat \<Rightarrow> bool" where
  "books s \<longleftrightarrow> keyed s \<and>
     (\<forall>i \<ge> hw_nextBatch s. map_of (hw_batches s) i = None) \<and>
     (\<forall>b \<in> ran (map_of (hw_batches s)). set (wb_rest b) \<subseteq> set (wb_all b))"

lemma target_key_trim: "getWakeTargetKey (trimmed_opt a) (trimmed_opt k) = getWakeTargetKey a k"
  by (simp add: getWakeTargetKey_def)

lemma target_make_wake: "target_of (make_wake r now a k) = getWakeTargetKey a k"
  by (simp add: target_of_def make_wake_def Let_def target_key_trim)

lemma queued_pending:
  obtains (put) "hw_pending (queuePendingWakeReason now r a k s) =
      AList.update (getWakeTargetKey a k) (make_wake r now a k) (hw_pending s)"
  | (kept) "getWakeTargetKey a k \<in> fst ` set (hw_pending s)"
      "hw_pending (queuePendingWakeReason now r a k s) = hw_pending s"
proof (cases "map_of (hw_pending s) (getWakeTargetKey a k)")
  case None
  then show ?thesis by (intro put) (simp add: queuePendingWakeReason_def Let_def target_key_trim)
next
  case (Some w)
  then have key: "getWakeTargetKey a k \<in> fst ` set (hw_pending s)" by (metis domI dom_map_of_conv_image_fst)
  let ?w = "make_wake r now a k"
  show ?thesis
  proof (cases "wk_priority ?w > wk_priority w \<or> wk_priority ?w = wk_priority w \<and> wk_requestedAt ?w \<ge> wk_requestedAt w")
    case True
    with Some show ?thesis by (intro put) (auto simp add: queuePendingWakeReason_def Let_def target_key_trim)
  next
    case False
    with Some show ?thesis
      by (intro kept key) (auto simp add: queuePendingWakeReason_def Let_def target_key_trim)
  qed
qed

lemma queued_keys:
  "fst ` set (hw_pending (queuePendingWakeReason now r a k s)) = insert (getWakeTargetKey a k) (fst ` set (hw_pending s))"
  by (rule queued_pending [of now r a k s]) (simp_all only: dom_update insert_absorb insert_is_Un [symmetric])

lemma update_entries: "set (AList.update x v al) \<subseteq> insert (x, v) (set al)"
  by (induction al) auto

lemma queued_entries:
  assumes "\<forall>kw \<in> set (hw_pending s). target_of (snd kw) = fst kw"
  shows "\<forall>kw \<in> set (hw_pending (queuePendingWakeReason now r a k' s)). target_of (snd kw) = fst kw"
proof (cases rule: queued_pending [of now r a k' s])
  case put
  show ?thesis
  proof
    fix kw assume "kw \<in> set (hw_pending (queuePendingWakeReason now r a k' s))"
    then have "kw \<in> insert (getWakeTargetKey a k', make_wake r now a k') (set (hw_pending s))"
      unfolding put by (rule subsetD [OF update_entries])
    then consider "kw = (getWakeTargetKey a k', make_wake r now a k')" | "kw \<in> set (hw_pending s)" by blast
    then show "target_of (snd kw) = fst kw" using assms by cases (simp_all add: target_make_wake)
  qed
qed (simp add: assms)

lemma requeued_keys: "fst ` set (hw_pending (requeue now w s)) = insert (target_of w) (fst ` set (hw_pending s))"
  by (simp add: requeue_def queued_keys target_of_def)

lemma requeued_all_keys:
  "fst ` set (hw_pending (foldl (\<lambda>acc v. requeue now v acc) s ws)) = target_of ` set ws \<union> fst ` set (hw_pending s)"
  by (induction ws arbitrary: s) (simp_all add: requeued_keys)

lemma keyed_queue: "keyed s \<Longrightarrow> keyed (queuePendingWakeReason now r a k s)"
  unfolding keyed_def by (rule queued_entries)

lemma keyed_requeue_all: "keyed s \<Longrightarrow> keyed (foldl (\<lambda>acc v. requeue now v acc) s ws)"
  by (induction ws arbitrary: s) (simp_all add: requeue_def keyed_queue)

lemma books_by_frame:
  "hw_pending s' = hw_pending s \<Longrightarrow> hw_batches s' = hw_batches s \<Longrightarrow> hw_nextBatch s' = hw_nextBatch s \<Longrightarrow>
   books s' = books s"
  by (simp add: books_def keyed_def)

lemma owed_by_frame: "hw_pending s' = hw_pending s \<Longrightarrow> hw_batches s' = hw_batches s \<Longrightarrow> owed s' = owed s"
  by (simp add: owed_def)

lemma frame_books [simp]:
  "books (schedule now ms k s) = books s" "books (finish_batch now d s) = books s"
  by (rule books_by_frame; simp)+

lemma frame_owed [simp]:
  "owed (schedule now ms k s) = owed s" "owed (finish_batch now d s) = owed s"
  by (rule owed_by_frame; simp)+

lemma books_queue [intro]: "books s \<Longrightarrow> books (queuePendingWakeReason now r a k s)"
  by (simp add: books_def keyed_queue)

lemma owed_queue: "owed (queuePendingWakeReason now r a k s) = insert (getWakeTargetKey a k) (owed s)"
  by (simp add: owed_def queued_keys)

lemma books_requeue [intro]: "books s \<Longrightarrow> books (requeue now w s)"
  by (simp add: requeue_def books_queue)

lemma owed_requeue [simp]: "owed (requeue now w s) = insert (target_of w) (owed s)"
  by (simp add: requeue_def owed_queue target_of_def)

lemma ran_delete: "ran (map_of (AList.delete i al)) \<subseteq> ran (map_of al)"
  by (auto simp: ran_def AList.delete_conv' split: if_splits)

text \<open>A batch that starts, ends or goes on.\<close>

lemma pending_targets: "books s \<Longrightarrow> target_of ` snd ` set (hw_pending s) = fst ` set (hw_pending s)"
  unfolding books_def keyed_def image_image by (rule image_cong) simp_all

lemma ran_append_fresh: "map_of al i = None \<Longrightarrow> ran (map_of (al @ [(i, b)])) = insert b (ran (map_of al))"
proof -
  assume none: "map_of al i = None"
  then have "map_of (al @ [(i, b)]) = (map_of al)(i \<mapsto> b)"
    by (intro ext) (simp add: map_add_def split: option.split)
  then show ?thesis using none by simp
qed

lemma start_batch_keeps:
  assumes "books s"
  shows "books (start_batch now d h s) \<and> owed (start_batch now d h s) = owed s"
proof (cases "hw_pending s")
  case Nil
  then show ?thesis using assms
    by (simp add: start_batch_def books_def keyed_def owed_def)
next
  case (Cons p ps)
  let ?b = "\<lparr>wb_all = map snd (hw_pending s), wb_rest = map snd (hw_pending s), wb_handler = h, wb_delay = d\<rparr>"
  have fresh: "map_of (hw_batches s) (hw_nextBatch s) = None" using assms by (simp add: books_def)
  have eq: "hw_pending (start_batch now d h s) = []"
    "hw_batches (start_batch now d h s) = hw_batches s @ [(hw_nextBatch s, ?b)]"
    "hw_nextBatch (start_batch now d h s) = Suc (hw_nextBatch s)"
    by (simp_all add: start_batch_def Let_def Cons)
  have "owed (start_batch now d h s) = target_of ` snd ` set (hw_pending s) \<union>
      (\<Union>b\<in>ran (map_of (hw_batches s)). target_of ` set (wb_rest b))"
    unfolding owed_def eq ran_append_fresh [OF fresh] by simp
  moreover have "books (start_batch now d h s)"
    using assms unfolding books_def eq ran_append_fresh [OF fresh]
    by (auto simp: keyed_def eq map_add_def split: option.split)
  ultimately show ?thesis by (simp add: pending_targets [OF assms] owed_def)
qed

lemma owedE:
  assumes "t \<in> owed s"
  obtains (pending) "t \<in> fst ` set (hw_pending s)"
  | (batch) j c where "map_of (hw_batches s) j = Some c" "t \<in> target_of ` set (wb_rest c)"
  using assms unfolding owed_def ran_def by blast

lemma owed_batch: "map_of (hw_batches s) j = Some c \<Longrightarrow> t \<in> target_of ` set (wb_rest c) \<Longrightarrow> t \<in> owed s"
  unfolding owed_def ran_def by blast

text \<open>A run that comes back moves its target out of its batch, back to the queue when the lane was busy.\<close>

lemma map_of_delete: "map_of (AList.delete i al) j = (if j = i then None else map_of al j)"
  by (simp add: delete_conv')

lemma books_delete: "books s \<Longrightarrow> books (s\<lparr>hw_batches := AList.delete i (hw_batches s)\<rparr>)"
  using ran_delete [of i "hw_batches s"] by (auto simp: books_def keyed_def map_of_delete)

lemma owed_delete:
  "map_of (hw_batches s) i = Some b \<Longrightarrow>
   owed s \<subseteq> owed (s\<lparr>hw_batches := AList.delete i (hw_batches s)\<rparr>) \<union> target_of ` set (wb_rest b)"
proof
  fix t
  assume i: "map_of (hw_batches s) i = Some b" and t: "t \<in> owed s"
  from t show "t \<in> owed (s\<lparr>hw_batches := AList.delete i (hw_batches s)\<rparr>) \<union> target_of ` set (wb_rest b)"
  proof (cases rule: owedE)
    case (batch j c)
    with i show ?thesis by (cases "j = i") (auto intro: owed_batch simp: map_of_delete)
  qed (simp add: owed_def)
qed

lemma update_batch:
  fixes c :: "(nat \<times> wake) list"
  assumes "books s" "map_of (hw_batches s) i = Some b" "wb_rest b = w # ws"
  defines s': "s' \<equiv> s\<lparr>hw_batches := AList.update i (b\<lparr>wb_rest := ws\<rparr>) (hw_batches s), hw_calls := c\<rparr>"
  shows "books s'" "owed s \<subseteq> insert (target_of w) (owed s')"
proof -
  have upd: "map_of (hw_batches s') = (map_of (hw_batches s))(i \<mapsto> b\<lparr>wb_rest := ws\<rparr>)"
    by (simp add: s' update_conv')
  have frame: "hw_pending s' = hw_pending s" "hw_nextBatch s' = hw_nextBatch s" by (simp_all add: s')
  have b: "set (wb_rest b) \<subseteq> set (wb_all b)" "i < hw_nextBatch s"
    using assms(1,2) by (auto simp: books_def intro: ranI) (metis not_le option.distinct(1))
  have ran: "ran (map_of (hw_batches s')) \<subseteq> insert (b\<lparr>wb_rest := ws\<rparr>) (ran (map_of (hw_batches s)))"
    unfolding upd by (auto simp: ran_def)
  show "books s'"
    unfolding books_def keyed_def frame
  proof (intro conjI allI impI)
    show "\<forall>kw \<in> set (hw_pending s). target_of (snd kw) = fst kw" using assms(1) by (simp add: books_def keyed_def)
    show "map_of (hw_batches s') j = None" if "hw_nextBatch s \<le> j" for j
      using that assms(1) b(2) by (simp add: upd books_def)
    show "\<forall>b \<in> ran (map_of (hw_batches s')). set (wb_rest b) \<subseteq> set (wb_all b)"
    proof
      fix v assume "v \<in> ran (map_of (hw_batches s'))"
      then consider "v = b\<lparr>wb_rest := ws\<rparr>" | "v \<in> ran (map_of (hw_batches s))" using ran by blast
      then show "set (wb_rest v) \<subseteq> set (wb_all v)"
        using b(1) assms(1,3) by cases (simp_all add: books_def)
    qed
  qed
  have "t \<in> insert (target_of w) (owed s')" if t: "t \<in> owed s" for t
    using t
  proof (cases rule: owedE)
    case (batch j c)
    show ?thesis
    proof (cases "j = i")
      case True
      then have "t = target_of w \<or> t \<in> target_of ` set ws" using batch assms(2,3) by auto
      then show ?thesis using owed_batch [of s' i "b\<lparr>wb_rest := ws\<rparr>" t] by (auto simp: upd)
    next
      case False
      then have "map_of (hw_batches s') j = Some c" using batch by (simp add: upd)
      then show ?thesis using batch owed_batch [of s' j c t] by simp
    qed
  qed (simp add: owed_def frame)
  then show "owed s \<subseteq> insert (target_of w) (owed s')" by blast
qed

text \<open>The promise of a run settles: it rejected, was busy, or came back.\<close>

lemma run_returns_keeps:
  assumes "books s"
  shows "books (run_returns now i outcome s) \<and>
     owed s \<subseteq> owed (run_returns now i outcome s) \<union> serves s (RunReturns now i outcome)"
proof (cases "\<exists>b w ws. map_of (hw_batches s) i = Some b \<and> wb_rest b = w # ws")
  case False
  then show ?thesis using assms by (auto simp: run_returns_def split: option.split list.split)
next
  case True
  then obtain b w ws where b: "map_of (hw_batches s) i = Some b" "wb_rest b = w # ws" by blast
  show ?thesis
  proof (cases outcome)
    case None
    let ?d = "s\<lparr>hw_batches := AList.delete i (hw_batches s)\<rparr>"
    let ?s = "foldl (\<lambda>acc v. requeue now v acc) ?d (wb_all b)"
    have keyed: "keyed ?s" using assms by (intro keyed_requeue_all) (simp add: keyed_def books_def)
    have "books ?s" using keyed books_delete [OF assms, of i] by (simp add: books_def)
    moreover have "owed ?s = target_of ` set (wb_all b) \<union> owed ?d"
      by (simp add: owed_def requeued_all_keys Un_assoc)
    moreover have "set (wb_rest b) \<subseteq> set (wb_all b)"
      using assms b(1) by (auto simp: books_def intro: ranI)
    ultimately show ?thesis using owed_delete [OF b(1)] b
      by (simp add: run_returns_def None) blast
  next
    case (Some res)
    define s1 where "s1 = (if res = HbSkipped ''requests-in-flight''
      then schedule now (Some DEFAULT_RETRY_MS) RetryTimer (requeue now w s) else s)"
    have s1: "books s1" "hw_batches s1 = hw_batches s" "owed s \<subseteq> owed s1"
      using assms by (auto simp: s1_def)
    have held: "target_of w \<in> fst ` set (hw_pending s1) \<union> serves s (RunReturns now i outcome)"
      using b by (simp add: s1_def Some requeued_keys)
    have b1: "map_of (hw_batches s1) i = Some b" using b(1) s1(2) by simp
    show ?thesis
    proof (cases ws)
      case Nil
      then have eq: "run_returns now i outcome s =
          finish_batch now (wb_delay b) (s1\<lparr>hw_batches := AList.delete i (hw_batches s1)\<rparr>)"
        using b by (simp add: run_returns_def Some s1_def)
      have "owed s1 \<subseteq> insert (target_of w) (owed (s1\<lparr>hw_batches := AList.delete i (hw_batches s1)\<rparr>))"
        using owed_delete [OF b1] b(2) Nil by simp
      moreover have "target_of w \<in> owed (s1\<lparr>hw_batches := AList.delete i (hw_batches s1)\<rparr>) \<union> serves s (RunReturns now i outcome)"
        using held by (simp add: owed_def) blast
      ultimately show ?thesis unfolding eq using s1 books_delete [OF s1(1), of i] by auto
    next
      case (Cons v vs)
      then have eq: "run_returns now i outcome s =
          s1\<lparr>hw_batches := AList.update i (b\<lparr>wb_rest := ws\<rparr>) (hw_batches s1), hw_calls := hw_calls s1 @ [(wb_handler b, v)]\<rparr>"
        using b by (simp add: run_returns_def Some s1_def)
      note upd = update_batch [OF s1(1) b1 b(2), of "hw_calls s1 @ [(wb_handler b, v)]", folded eq]
      have "target_of w \<in> owed (run_returns now i outcome s) \<union> serves s (RunReturns now i outcome)"
        using held by (simp add: eq owed_def) blast
      with upd s1 show ?thesis by auto
    qed
  qed
qed

fun asks :: "wake_event \<Rightarrow> string set" where
  "asks (RequestWake now r c a k) = {getWakeTargetKey a k}"
| "asks _ = {}"

lemma wake_step_keeps:
  assumes "books s"
  shows "books (wake_step s e) \<and> owed s \<union> asks e \<subseteq> owed (wake_step s e) \<union> serves s e"
proof (cases e)
  case (TimerFires now)
  have "books s' \<and> owed s' = owed s" if "s' = s\<lparr>hw_timer := None, hw_scheduled := b\<rparr>" for s' b
    using assms by (simp add: that books_def keyed_def owed_def)
  then show ?thesis
    using assms start_batch_keeps by (auto simp: TimerFires timer_fires_def Let_def split: option.split)
next
  case (RunReturns now i outcome)
  then show ?thesis using run_returns_keeps [OF assms] by simp
next
  case (RequestWake now r c a k)
  then show ?thesis using books_queue [OF assms] by (simp add: requestHeartbeatNow_def owed_queue subset_insertI)
qed (use assms in \<open>auto simp: setHeartbeatsEnabled_def dispose_handler_def setHeartbeatWakeHandler_def Let_def
      books_def keyed_def owed_def\<close>)

interpretation booked: invariant_system wake_step books
  by unfold_locales (use wake_step_keeps in blast)

lemma books_initial: "books initial_heartbeat"
  by (simp add: books_def keyed_def initial_heartbeat_def)

lemma owed_or_served: "books s \<Longrightarrow> owed s \<subseteq> owed (foldl wake_step s es) \<union> served s es"
proof (induction es arbitrary: s)
  case (Cons e es)
  then show ?case using wake_step_keeps [of s e] by (simp only: foldl_Cons served.simps) blast
qed simp

text \<open>C30: A requested wake is owed until it ran. After a request for a target, whatever follows (further requests,
  busy lanes, rejected runs, registrations of other handlers, disposals), the target is still queued or in a running
  batch, or since then a run for this very target came back with an answer other than \<open>requests-in-flight\<close>. Requests
  for the same target coalesce, but none is dropped.\<close>

theorem wake_owed_until_run:
  "getWakeTargetKey a k \<in>
     owed (wake_run (es @ RequestWake now r c a k # es')) \<union>
     served (wake_run (es @ [RequestWake now r c a k])) es'"
proof -
  let ?s = "wake_run (es @ [RequestWake now r c a k])"
  have books: "books (wake_run es)" using booked.run_all_inv [OF books_initial, of es] by (simp add: wake_run_def)
  then have "books ?s" "getWakeTargetKey a k \<in> owed ?s"
    using wake_step_keeps [OF books, of "RequestWake now r c a k"] by (simp_all add: wake_run_def)
  then show ?thesis using owed_or_served [of ?s es'] by (auto simp: wake_run_def)
qed

section \<open>One batch at a time\<close>

definition one_batch :: "heartbeat \<Rightarrow> bool" where
  "one_batch s \<longleftrightarrow>
     (if hw_running s then length (hw_batches s) = 1 \<and> (\<forall>b \<in> snd ` set (hw_batches s). wb_rest b \<noteq> [])
      else hw_batches s = [])"

text \<open>A handler is not registered while a batch of an earlier one still runs.\<close>

fun settled_registration :: "heartbeat \<Rightarrow> wake_event \<Rightarrow> bool" where
  "settled_registration s (SetWakeHandler now (Some h)) = (hw_batches s = [])"
| "settled_registration s _ = True"

lemma wake_step_one_batch: "one_batch s \<Longrightarrow> settled_registration s e \<Longrightarrow> one_batch (wake_step s e)"
proof (cases e)
  case (TimerFires now)
  assume "one_batch s"
  then show ?thesis
    by (auto simp: TimerFires timer_fires_def start_batch_def Let_def one_batch_def split: option.split list.split)
next
  case (RunReturns now i outcome)
  assume one: "one_batch s"
  then show ?thesis
    by (auto simp: RunReturns run_returns_def Let_def one_batch_def length_Suc_conv split: option.split list.split if_splits)
next
  case (SetWakeHandler now h)
  assume "one_batch s" "settled_registration s e"
  then show ?thesis
    by (cases h) (auto simp: SetWakeHandler setHeartbeatWakeHandler_def Let_def one_batch_def)
qed (auto simp: one_batch_def setHeartbeatsEnabled_def dispose_handler_def requestHeartbeatNow_def)

interpretation single: guarded_system wake_step one_batch settled_registration
  by unfold_locales (rule wake_step_one_batch)

text \<open>Batches exclude each other. In every run in which a handler is registered only while no batch is in flight,
  at most one batch runs, the flag \<open>running\<close> says exactly whether one does, and a batch in flight still has a wake
  to run.\<close>

theorem wakes_run_one_batch:
  assumes "single.run_ok initial_heartbeat es"
  shows "length (hw_batches (wake_run es)) \<le> 1 \<and> (hw_running (wake_run es) \<longleftrightarrow> hw_batches (wake_run es) \<noteq> []) \<and>
    (\<forall>b \<in> snd ` set (hw_batches (wake_run es)). wb_rest b \<noteq> [])"
proof -
  have "one_batch (wake_run es)"
    unfolding wake_run_def by (rule single.run_inv [OF _ assms]) (simp add: one_batch_def initial_heartbeat_def)
  then show ?thesis by (auto simp: one_batch_def split: if_splits)
qed

definition two_targets :: "wake_event list" where
  "two_targets = [SetWakeHandler 0 (Some 1), RequestWake 0 None None (Some ''main'') None,
     RequestWake 10 (Some ''manual'') None (Some ''ops'') None, TimerFires 250, RequestWake 260 None None (Some ''main'') None]"

theorem wakes_run_one_batch_witness:
  "length (hw_batches (wake_run two_targets)) \<le> 1 \<and> hw_running (wake_run two_targets)"
proof -
  have "single.run_ok initial_heartbeat two_targets"
    by (simp add: two_targets_def initial_heartbeat_def)
  from wakes_run_one_batch [OF this] show ?thesis by (elim conjE, intro conjI) (assumption, code_simp)
qed

text \<open>Handler 1 is replaced by handler 2 while its batch is in flight; handler 2 starts a batch; then the batch of
  handler 1 ends.\<close>

definition replaced_under_batch :: "wake_event list" where
  "replaced_under_batch = [SetWakeHandler 0 (Some 1), RequestWake 0 None None (Some ''main'') None, TimerFires 250,
     SetWakeHandler 300 (Some 2), RequestWake 300 None None (Some ''main'') None, TimerFires 550,
     RunReturns 600 0 (Some HbRan)]"

text \<open>Replacing the handler under a running batch breaks the exclusion: the \<open>finally\<close> of the old handler's batch
  clears the flag that the new handler's batch has set, so the next timer starts a second batch of the new handler
  while its first one is still running.\<close>

theorem stale_batch_unlocks:
  "hw_running (wake_run replaced_under_batch) = False \<and>
   map (\<lambda>b. wb_handler (snd b)) (hw_batches (wake_run (replaced_under_batch @
     [RequestWake 600 None None (Some ''main'') None, TimerFires 850]))) = [2, 2]"
  by code_simp

end
