(* ===== verification/SessionState.thy ===== *)
theory SessionState
  imports Prelude "HOL-Library.Multiset"
begin

text \<open>
  The diagnostic state the agents keep per session (\<open>src/logging/diagnostic-session-state.ts\<close>):
  the bounded registry of sessions, and in each state the tool-call history that loop detection
  reads, the buckets of emitted loop warnings, and the poll counters that
  \<open>src/agents/command-poll-backoff.ts\<close> keeps.

  A \<open>Map\<close> is an association list in insertion order, which \<open>AList.update\<close> extends at the end
  and updates in place, as \<open>Map.prototype.set\<close> does. The object that
  \<open>getDiagnosticSessionState\<close> returns is shared with the registry: the model returns its key and
  its value, and \<open>write_back\<close> stores what a caller made of it, provided the registry still
  holds the key.
\<close>

section \<open>Data\<close>

record tool_call_record =
  tc_toolName :: string
  tc_argsHash :: string
  tc_toolCallId :: "string option"
  tc_resultHash :: "string option"
  tc_timestamp :: int

datatype session_state_value = SIdle | SProcessing | SWaiting

record poll_data =
  pd_count :: int
  pd_lastPollAt :: int

record session_state =
  ss_sessionId :: "string option"
  ss_sessionKey :: "string option"
  ss_lastActivity :: int
  ss_state :: session_state_value
  ss_queueDepth :: int
  ss_toolCallHistory :: "tool_call_record list option"
  ss_warningBuckets :: "(string \<times> int) list option"
  ss_pollCounts :: "(string \<times> poll_data) list option"

record session_registry =
  sr_states :: "(string \<times> session_state) list"
  sr_lastPruneAt :: int

definition session_state_ttl_ms :: int where
  "session_state_ttl_ms = 30 * 60 * 1000"

definition session_state_prune_interval_ms :: int where
  "session_state_prune_interval_ms = 60 * 1000"

definition session_state_max_entries :: nat where
  "session_state_max_entries = 2000"

lemmas session_limits = session_state_ttl_ms_def session_state_prune_interval_ms_def
  session_state_max_entries_def

section \<open>The registry\<close>

definition session_expired :: "int \<Rightarrow> session_state \<Rightarrow> bool" where
  "session_expired now s \<longleftrightarrow>
     ss_state s = SIdle \<and> ss_queueDepth s \<le> 0 \<and> now - ss_lastActivity s > session_state_ttl_ms"

definition oldest_keys :: "nat \<Rightarrow> (string \<times> session_state) list \<Rightarrow> string list" where
  "oldest_keys excess ss =
     takeWhile (\<lambda>k. k \<noteq> []) (take excess (map fst (sort_key (\<lambda>(k, s). ss_lastActivity s) ss)))"

definition pruneDiagnosticSessionStates ::
    "int \<Rightarrow> bool \<Rightarrow> session_registry \<Rightarrow> session_registry" where
  "pruneDiagnosticSessionStates now force reg =
     (let shouldPruneForSize = session_state_max_entries < length (sr_states reg) in
      if \<not> force \<and> \<not> shouldPruneForSize \<and> now - sr_lastPruneAt reg < session_state_prune_interval_ms
      then reg
      else
        (let ss = filter (\<lambda>(k, s). \<not> session_expired now s) (sr_states reg) in
         if length ss \<le> session_state_max_entries then \<lparr>sr_states = ss, sr_lastPruneAt = now\<rparr>
         else (let gone = oldest_keys (length ss - session_state_max_entries) ss in
               \<lparr>sr_states = filter (\<lambda>(k, s). k \<notin> set gone) ss, sr_lastPruneAt = now\<rparr>)))"

definition resolveSessionKey :: "string option \<Rightarrow> string option \<Rightarrow> string" where
  "resolveSessionKey sessionKey sessionId =
     (case sessionKey of Some k \<Rightarrow> k
      | None \<Rightarrow> (case sessionId of Some i \<Rightarrow> i | None \<Rightarrow> ''unknown''))"

definition findStateBySessionId ::
    "string \<Rightarrow> session_registry \<Rightarrow> (string \<times> session_state) option" where
  "findStateBySessionId i reg = find (\<lambda>(k, s). ss_sessionId s = Some i) (sr_states reg)"

definition truthy_id :: "string option \<Rightarrow> string option" where
  "truthy_id i = (case i of None \<Rightarrow> None | Some s \<Rightarrow> nonempty s)"

definition existing_session ::
    "string option \<Rightarrow> string option \<Rightarrow> session_registry \<Rightarrow> (string \<times> session_state) option" where
  "existing_session sessionKey sessionId reg =
     (let key = resolveSessionKey sessionKey sessionId in
      case map_of (sr_states reg) key of
        Some s \<Rightarrow> Some (key, s)
      | None \<Rightarrow> (case truthy_id sessionId of
                   None \<Rightarrow> None
                 | Some i \<Rightarrow> findStateBySessionId i reg))"

definition new_session :: "int \<Rightarrow> string option \<Rightarrow> string option \<Rightarrow> session_state" where
  "new_session now sessionKey sessionId =
     \<lparr>ss_sessionId = sessionId, ss_sessionKey = sessionKey, ss_lastActivity = now,
      ss_state = SIdle, ss_queueDepth = 0, ss_toolCallHistory = None, ss_warningBuckets = None,
      ss_pollCounts = None\<rparr>"

definition write_back :: "string \<Rightarrow> session_state \<Rightarrow> session_registry \<Rightarrow> session_registry" where
  "write_back k s reg =
     (if k \<in> fst ` set (sr_states reg)
      then reg\<lparr>sr_states := AList.update k s (sr_states reg)\<rparr> else reg)"

definition getDiagnosticSessionState ::
    "int \<Rightarrow> string option \<Rightarrow> string option \<Rightarrow> session_registry \<Rightarrow>
     string \<times> session_state \<times> session_registry" where
  "getDiagnosticSessionState now sessionKey sessionId reg0 =
     (let reg = pruneDiagnosticSessionStates now False reg0 in
      case existing_session sessionKey sessionId reg of
        Some (k, s) \<Rightarrow>
          (let s1 = (case truthy_id sessionId of None \<Rightarrow> s | Some i \<Rightarrow> s\<lparr>ss_sessionId := Some i\<rparr>);
               s2 = (case truthy_id sessionKey of None \<Rightarrow> s1
                     | Some i \<Rightarrow> s1\<lparr>ss_sessionKey := Some i\<rparr>)
           in (k, s2, write_back k s2 reg))
      | None \<Rightarrow>
          (let key = resolveSessionKey sessionKey sessionId;
               created = new_session now sessionKey sessionId;
               reg1 = reg\<lparr>sr_states := AList.update key created (sr_states reg)\<rparr>
           in (key, created, pruneDiagnosticSessionStates now True reg1)))"

section \<open>Poll backoff\<close>

definition backoff_schedule_ms :: "int list" where
  "backoff_schedule_ms = [5000, 10000, 30000, 60000]"

definition calculateBackoffMs :: "int \<Rightarrow> int" where
  "calculateBackoffMs n =
     (let i = min n (int (length backoff_schedule_ms) - 1) in
      if 0 \<le> i then backoff_schedule_ms ! nat i else 60000)"

definition poll_counts :: "session_state \<Rightarrow> (string \<times> poll_data) list" where
  "poll_counts s = (case ss_pollCounts s of None \<Rightarrow> [] | Some m \<Rightarrow> m)"

definition recordCommandPoll ::
    "int \<Rightarrow> string \<Rightarrow> bool \<Rightarrow> session_state \<Rightarrow> int \<times> session_state" where
  "recordCommandPoll now commandId hasNewOutput s =
     (let m = poll_counts s;
          put = (\<lambda>n. s\<lparr>ss_pollCounts := Some (AList.update commandId
                        \<lparr>pd_count = n, pd_lastPollAt = now\<rparr> m)\<rparr>)
      in if hasNewOutput then (hd backoff_schedule_ms, put 0)
         else (let newCount = (case map_of m commandId of None \<Rightarrow> -1 | Some d \<Rightarrow> pd_count d) + 1
               in (calculateBackoffMs newCount, put newCount)))"

definition getCommandPollSuggestion :: "string \<Rightarrow> session_state \<Rightarrow> int option" where
  "getCommandPollSuggestion commandId s =
     map_option (\<lambda>d. calculateBackoffMs (pd_count d)) (map_of (poll_counts s) commandId)"

definition resetCommandPollCount :: "string \<Rightarrow> session_state \<Rightarrow> session_state" where
  "resetCommandPollCount commandId s =
     s\<lparr>ss_pollCounts := map_option (AList.delete commandId) (ss_pollCounts s)\<rparr>"

definition pruneStaleCommandPolls :: "int \<Rightarrow> int \<Rightarrow> session_state \<Rightarrow> session_state" where
  "pruneStaleCommandPolls maxAgeMs now s =
     s\<lparr>ss_pollCounts := map_option (filter (\<lambda>(k, d). \<not> now - pd_lastPollAt d > maxAgeMs))
        (ss_pollCounts s)\<rparr>"

section \<open>The registry is bounded\<close>

definition registry_ok :: "session_registry \<Rightarrow> bool" where
  "registry_ok reg \<longleftrightarrow> distinct (map fst (sr_states reg)) \<and> [] \<notin> fst ` set (sr_states reg)"

lemma distinct_filter_keys:
  "distinct (map fst xs) \<Longrightarrow> distinct (map fst (filter P xs))"
  by (induction xs) auto

lemma oldest_keys_all:
  assumes "[] \<notin> fst ` set ss"
  shows "oldest_keys n ss = take n (map fst (sort_key (\<lambda>(k, s). ss_lastActivity s) ss))"
proof -
  have "k \<noteq> []" if "k \<in> set (take n (map fst (sort_key (\<lambda>(k, s). ss_lastActivity s) ss)))" for k
    using in_set_takeD [OF that] assms by force
  then show ?thesis by (simp add: oldest_keys_def)
qed

lemma filter_dropped_keys_length:
  assumes "distinct (map fst ss)" and "distinct ks" and "set ks \<subseteq> fst ` set ss"
  shows "length (filter (\<lambda>(k, s). k \<notin> set ks) ss) + length ks = length ss"
proof -
  have "length (filter (\<lambda>(k, s). k \<notin> set ks) ss) = length (filter (\<lambda>k. k \<notin> set ks) (map fst ss))"
    by (simp add: filter_map comp_def case_prod_unfold)
  also have "\<dots> = card (set (map fst ss) - set ks)"
    using distinct_card [OF distinct_filter [OF assms(1)], of "\<lambda>k. k \<notin> set ks"]
    by (simp add: set_diff_eq del: filter_map)
  also have "\<dots> + length ks = length ss"
  proof -
    have "card (fst ` set ss) = length ss"
      using distinct_card [OF assms(1)] by simp
    moreover have "card (set ks) = length ks" by (rule distinct_card [OF assms(2)])
    moreover have "card (set ks) \<le> card (fst ` set ss)"
      by (rule card_mono) (use assms(3) in auto)
    ultimately show ?thesis using assms(3) by (simp add: card_Diff_subset)
  qed
  finally show ?thesis .
qed

lemma evict_length:
  assumes "distinct (map fst ss)" and "[] \<notin> fst ` set ss" and "n \<le> length ss"
  shows "length (filter (\<lambda>(k, s). k \<notin> set (oldest_keys n ss)) ss) = length ss - n"
proof -
  let ?ks = "oldest_keys n ss" and ?srt = "sort_key (\<lambda>(k, s). ss_lastActivity s) ss"
  have e: "?ks = take n (map fst ?srt)" by (rule oldest_keys_all [OF assms(2)])
  have "mset (map fst ?srt) = mset (map fst ss)" by simp
  then have "distinct (map fst ?srt)" using assms(1) mset_eq_imp_distinct_iff by blast
  then have "distinct ?ks" unfolding e by (rule distinct_take)
  moreover have "set ?ks \<subseteq> fst ` set ss"
    unfolding e by (force dest: in_set_takeD)
  moreover have "length ?ks = n" using assms(3) by (simp add: e)
  ultimately show ?thesis
    using filter_dropped_keys_length [OF assms(1), of ?ks] by simp
qed

lemma prune_bounded:
  assumes "registry_ok reg"
  shows "registry_ok (pruneDiagnosticSessionStates now force reg) \<and>
    length (sr_states (pruneDiagnosticSessionStates now force reg)) \<le> session_state_max_entries"
proof -
  let ?ss = "filter (\<lambda>(k, s). \<not> session_expired now s) (sr_states reg)"
  have d: "distinct (map fst ?ss)" "[] \<notin> fst ` set ?ss"
    using assms by (auto simp: registry_ok_def distinct_filter_keys)
  show ?thesis
    using assms d evict_length [OF d, of "length ?ss - session_state_max_entries"]
    by (auto simp: pruneDiagnosticSessionStates_def Let_def registry_ok_def distinct_filter_keys)
qed

lemma write_back_keys: "map fst (sr_states (write_back k s reg)) = map fst (sr_states reg)"
proof (cases "k \<in> fst ` set (sr_states reg)")
  case True
  then show ?thesis by (simp add: write_back_def update_keys)
qed (simp add: write_back_def)

lemma write_back_ok [simp]:
  "registry_ok (write_back k s reg) = registry_ok reg"
  "length (sr_states (write_back k s reg)) = length (sr_states reg)"
proof -
  have "fst ` set (sr_states (write_back k s reg)) = fst ` set (sr_states reg)"
    by (metis list.set_map write_back_keys)
  then show "registry_ok (write_back k s reg) = registry_ok reg"
    by (simp only: registry_ok_def write_back_keys)
  show "length (sr_states (write_back k s reg)) = length (sr_states reg)"
    by (metis length_map write_back_keys)
qed

lemma insert_ok:
  "registry_ok reg \<Longrightarrow> k \<noteq> [] \<Longrightarrow> registry_ok (reg\<lparr>sr_states := AList.update k s (sr_states reg)\<rparr>)"
  by (auto simp: registry_ok_def distinct_update dom_update)

text \<open>The session registry never outgrows its limit: whatever it held before, after
  \<open>getDiagnosticSessionState\<close> it has at most 2000 states, under distinct keys, and the state
  that was asked for carries the ids of the reference. (A registry key that is the empty string
  would end the eviction early; no key is empty as long as no empty key is asked for.)\<close>

theorem session_registry_bounded:
  assumes "registry_ok reg" and "resolveSessionKey sessionKey sessionId \<noteq> []"
  shows "case getDiagnosticSessionState now sessionKey sessionId reg of (k, s, reg') \<Rightarrow>
    registry_ok reg' \<and> length (sr_states reg') \<le> session_state_max_entries \<and>
    (truthy_id sessionId \<noteq> None \<longrightarrow> ss_sessionId s = sessionId) \<and>
    (truthy_id sessionKey \<noteq> None \<longrightarrow> ss_sessionKey s = sessionKey)"
proof -
  let ?reg = "pruneDiagnosticSessionStates now False reg"
  let ?k = "resolveSessionKey sessionKey sessionId"
  have r: "registry_ok ?reg" "length (sr_states ?reg) \<le> session_state_max_entries"
    using prune_bounded [OF assms(1)] by blast+
  have t: "truthy_id i = Some x \<Longrightarrow> i = Some x" for i :: "string option" and x
    by (auto simp: truthy_id_def nonempty_def split: option.splits if_splits)
  show ?thesis
    using r prune_bounded [OF insert_ok [OF r(1) assms(2)]]
    by (auto simp: getDiagnosticSessionState_def Let_def new_session_def split: option.splits
        dest: t)
qed

definition one_session :: session_registry where
  "one_session = \<lparr>sr_states = [(''agent:main:a'', new_session 0 (Some ''agent:main:a'') (Some ''main''))],
     sr_lastPruneAt = 0\<rparr>"

theorem session_registry_bounded_witness:
  "length (sr_states (snd (snd (getDiagnosticSessionState 5 (Some ''k'') None one_session)))) \<le> 2000"
proof -
  have "registry_ok one_session" "resolveSessionKey (Some ''k'') None \<noteq> []"
    by (simp_all add: registry_ok_def one_session_def resolveSessionKey_def)
  from session_registry_bounded [OF this, of 5] show ?thesis
    by (simp add: split_beta session_state_max_entries_def)
qed

text \<open>Sessions are told apart by their key only as long as no other session of the registry has
  the same session id: a new key whose id is already recorded under another key gets that other
  session's state (its history, warning buckets and poll counters) and no state of its own.
  The tool gate passes the agent's id as the session id, so two sessions of one agent share
  one loop-detection history.\<close>

theorem session_shared_by_id:
  assumes "sr_states (pruneDiagnosticSessionStates now False reg) = [(k, s)]"
    and "ss_sessionId s = Some i" and "i \<noteq> []" and "k' \<noteq> k"
  shows "case getDiagnosticSessionState now (Some k') (Some i) reg of (k'', s', reg') \<Rightarrow>
    k'' = k \<and> ss_toolCallHistory s' = ss_toolCallHistory s \<and>
    ss_warningBuckets s' = ss_warningBuckets s \<and> map fst (sr_states reg') = [k]"
  using assms
  by (auto simp: getDiagnosticSessionState_def existing_session_def resolveSessionKey_def Let_def
      truthy_id_def nonempty_def findStateBySessionId_def write_back_def)

theorem session_shared_by_id_witness:
  "fst (getDiagnosticSessionState 5 (Some ''agent:main:b'') (Some ''main'') one_session) = ''agent:main:a''"
proof -
  have "sr_states (pruneDiagnosticSessionStates 5 False one_session) =
      [(''agent:main:a'', new_session 0 (Some ''agent:main:a'') (Some ''main''))]"
    "ss_sessionId (new_session 0 (Some ''agent:main:a'') (Some ''main'')) = Some ''main''"
    "''main'' \<noteq> []" "''agent:main:b'' \<noteq> ''agent:main:a''"
    by (simp_all add: pruneDiagnosticSessionStates_def one_session_def session_limits new_session_def)
  from session_shared_by_id [OF this] show ?thesis by (simp add: split_beta)
qed

section \<open>Poll backoff\<close>

text \<open>The delays that \<open>n\<close> consecutive polls without output get.\<close>

fun quiet_polls :: "(int list) \<Rightarrow> string \<Rightarrow> session_state \<Rightarrow> int list" where
  "quiet_polls [] c s = []"
| "quiet_polls (now # nows) c s =
     (case recordCommandPoll now c False s of (d, s') \<Rightarrow> d # quiet_polls nows c s')"

lemma calculateBackoffMs_cases:
  "0 \<le> n \<Longrightarrow> calculateBackoffMs n =
     (if n = 0 then 5000 else if n = 1 then 10000 else if n = 2 then 30000 else 60000)"
  by (auto simp: calculateBackoffMs_def backoff_schedule_ms_def Let_def min_def nth_Cons'
      nat_eq_iff)

lemma quiet_polls_from:
  "0 \<le> m \<Longrightarrow> map_of (poll_counts s) c = Some \<lparr>pd_count = m, pd_lastPollAt = t\<rparr> \<Longrightarrow>
   quiet_polls nows c s = map (\<lambda>i. calculateBackoffMs (m + 1 + int i)) [0..<length nows]"
proof (induction nows arbitrary: m t s)
  case Nil
  then show ?case by simp
next
  case (Cons now nows)
  let ?s = "s\<lparr>ss_pollCounts := Some (AList.update c \<lparr>pd_count = m + 1, pd_lastPollAt = now\<rparr> (poll_counts s))\<rparr>"
  have "map_of (poll_counts ?s) c = Some \<lparr>pd_count = m + 1, pd_lastPollAt = now\<rparr>"
    by (simp add: poll_counts_def update_conv')
  with Cons.IH [OF _ this] Cons.prems
  have "quiet_polls nows c ?s = map (\<lambda>i. calculateBackoffMs (m + 1 + 1 + int i)) [0..<length nows]"
    by simp
  then show ?case
    using Cons.prems(2)
    by (simp add: recordCommandPoll_def Let_def add_ac map_Suc_upt [symmetric] upt_conv_Cons
        del: upt_Suc)
qed

text \<open>A command that produced output and then stays quiet is polled ever more slowly: the
  delays suggested for its next polls are 10, 30, then 60 seconds for good, whatever the clock
  and whatever the counters held before; output resets the delay to 5 seconds.\<close>

theorem poll_backoff_schedule:
  "case recordCommandPoll now c True s of (d, s') \<Rightarrow>
     d = 5000 \<and>
     quiet_polls nows c s' =
       map (\<lambda>i. if i = 0 then 10000 else if i = 1 then 30000 else 60000) [0..<length nows]"
proof -
  let ?s = "s\<lparr>ss_pollCounts := Some (AList.update c \<lparr>pd_count = 0, pd_lastPollAt = now\<rparr> (poll_counts s))\<rparr>"
  have "map_of (poll_counts ?s) c = Some \<lparr>pd_count = 0, pd_lastPollAt = now\<rparr>"
    by (simp add: poll_counts_def update_conv')
  from quiet_polls_from [OF _ this, of nows] show ?thesis
    by (auto simp: recordCommandPoll_def Let_def backoff_schedule_ms_def calculateBackoffMs_cases)
qed

end
