(* ===== verification/ToolLoop.thy ===== *)
theory ToolLoop
  imports SessionState
begin

text \<open>
  The tool-loop detector of \<open>src/agents/tool-loop-detection.ts\<close>: hashing of a call and of its
  outcome, the history window, the no-progress streak, the ping-pong streak, the decision, and
  the statistics.

  SHA-256 (of \<open>node:crypto\<close>) is the argument \<open>sha\<close>; its \<open>update\<close> throws a \<open>TypeError\<close> when it is
  not given a string. A function that can throw returns \<open>js_exn + 'a\<close>. The values that reach
  the detector are the \<open>jsval\<close>s: no functions, symbols or cyclic objects, and the keys of an
  object are distinct. Log lines are left out.
\<close>

section \<open>Types and constants\<close>

datatype js_exn = JsTypeError

datatype LoopDetectorKind =
  GenericRepeat | KnownPollNoProgress | GlobalCircuitBreaker | PingPong

datatype loop_level = LWarning | LCritical

record stuck_info =
  si_level :: loop_level
  si_detector :: LoopDetectorKind
  si_count :: nat
  si_message :: string
  si_pairedToolName :: "string option"
  si_warningKey :: string

datatype LoopDetectionResult = NotStuck | Stuck stuck_info

definition TOOL_CALL_HISTORY_SIZE :: nat where "TOOL_CALL_HISTORY_SIZE = 30"
definition WARNING_THRESHOLD :: nat where "WARNING_THRESHOLD = 10"
definition CRITICAL_THRESHOLD :: nat where "CRITICAL_THRESHOLD = 20"
definition GLOBAL_CIRCUIT_BREAKER_THRESHOLD :: nat where "GLOBAL_CIRCUIT_BREAKER_THRESHOLD = 30"

record detectors_config =
  dc_genericRepeat :: "bool option"
  dc_knownPollNoProgress :: "bool option"
  dc_pingPong :: "bool option"

record ToolLoopDetectionConfig =
  lc_enabled :: "bool option"
  lc_historySize :: jsval
  lc_warningThreshold :: jsval
  lc_criticalThreshold :: jsval
  lc_globalCircuitBreakerThreshold :: jsval
  lc_detectors :: "detectors_config option"

record ResolvedLoopDetectionConfig =
  rc_enabled :: bool
  rc_historySize :: nat
  rc_warningThreshold :: nat
  rc_criticalThreshold :: nat
  rc_globalCircuitBreakerThreshold :: nat
  rc_genericRepeat :: bool
  rc_knownPollNoProgress :: bool
  rc_pingPong :: bool

definition asPositiveInt :: "jsval \<Rightarrow> nat \<Rightarrow> nat" where
  "asPositiveInt value fallback =
     (case value of
        JNum r \<Rightarrow> if of_int \<lfloor>r\<rfloor> \<noteq> r \<or> r \<le> 0 then fallback else nat \<lfloor>r\<rfloor>
      | _ \<Rightarrow> fallback)"

definition empty_loop_config :: ToolLoopDetectionConfig where
  "empty_loop_config = \<lparr>lc_enabled = None, lc_historySize = JUndef, lc_warningThreshold = JUndef,
     lc_criticalThreshold = JUndef, lc_globalCircuitBreakerThreshold = JUndef, lc_detectors = None\<rparr>"

definition resolveLoopDetectionConfig ::
    "ToolLoopDetectionConfig option \<Rightarrow> ResolvedLoopDetectionConfig" where
  "resolveLoopDetectionConfig config =
     (let c = or_default config empty_loop_config;
          warning = asPositiveInt (lc_warningThreshold c) WARNING_THRESHOLD;
          critical0 = asPositiveInt (lc_criticalThreshold c) CRITICAL_THRESHOLD;
          breaker0 = asPositiveInt (lc_globalCircuitBreakerThreshold c) GLOBAL_CIRCUIT_BREAKER_THRESHOLD;
          critical = (if critical0 \<le> warning then warning + 1 else critical0);
          breaker = (if breaker0 \<le> critical then critical + 1 else breaker0);
          detector = (\<lambda>sel. case lc_detectors c of None \<Rightarrow> True | Some d \<Rightarrow> or_default (sel d) True)
      in \<lparr>rc_enabled = or_default (lc_enabled c) False,
          rc_historySize = asPositiveInt (lc_historySize c) TOOL_CALL_HISTORY_SIZE,
          rc_warningThreshold = warning,
          rc_criticalThreshold = critical,
          rc_globalCircuitBreakerThreshold = breaker,
          rc_genericRepeat = detector dc_genericRepeat,
          rc_knownPollNoProgress = detector dc_knownPollNoProgress,
          rc_pingPong = detector dc_pingPong\<rparr>)"

section \<open>Stable serialization\<close>

text \<open>\<open>Array.prototype.join\<close> writes nothing for \<open>undefined\<close>, a template literal writes its name.\<close>

definition join_value :: "string option \<Rightarrow> string" where
  "join_value x = or_default x []"

definition template_value :: "string option \<Rightarrow> string" where
  "template_value x = or_default x ''undefined''"

fun all_results :: "(js_exn + 'a) list \<Rightarrow> js_exn + 'a list" where
  "all_results [] = Inr []"
| "all_results (r # rs) =
     (case r of Inl e \<Rightarrow> Inl e
      | Inr x \<Rightarrow> (case all_results rs of Inl e \<Rightarrow> Inl e | Inr xs \<Rightarrow> Inr (x # xs)))"

definition stringify_array :: "(js_exn + string option) list \<Rightarrow> js_exn + string option" where
  "stringify_array rs =
     (case all_results rs of Inl e \<Rightarrow> Inl e
      | Inr xs \<Rightarrow> Inr (Some (''['' @ join_with '','' (map join_value xs) @ '']'')))"

definition stringify_object ::
    "(string \<times> (js_exn + string option)) list \<Rightarrow> js_exn + string option" where
  "stringify_object kvs =
     (let sorted = sort_key fst kvs in
      case all_results (map snd sorted) of Inl e \<Rightarrow> Inl e
      | Inr xs \<Rightarrow> Inr (Some (''{'' @
          join_with '','' (map2 (\<lambda>k x. json_quote k @ '':'' @ template_value x) (map fst sorted) xs) @
          ''}'')))"

fun stableStringify :: "jsval \<Rightarrow> js_exn + string option"
and stringify_list :: "jsval list \<Rightarrow> (js_exn + string option) list"
and stringify_props :: "(string \<times> jsval) list \<Rightarrow> (string \<times> (js_exn + string option)) list" where
  "stableStringify JUndef = Inr None"
| "stableStringify JNull = Inr (Some ''null'')"
| "stableStringify (JBool b) = Inr (Some (if b then ''true'' else ''false''))"
| "stableStringify (JNum r) = Inr (Some (show_num r))"
| "stableStringify JNonFinite = Inr (Some ''null'')"
| "stableStringify (JBigInt i) = Inl JsTypeError"
| "stableStringify (JStr s) = Inr (Some (json_quote s))"
| "stableStringify (JErr n m) = Inr (Some ''{}'')"
| "stableStringify (JArr xs) = stringify_array (stringify_list xs)"
| "stableStringify (JObj kvs) = stringify_object (stringify_props kvs)"
| "stringify_list [] = []"
| "stringify_list (x # xs) = stableStringify x # stringify_list xs"
| "stringify_props [] = []"
| "stringify_props ((k, v) # kvs) = (k, stableStringify v) # stringify_props kvs"

definition stableStringifyFallback :: "jsval \<Rightarrow> string option" where
  "stableStringifyFallback value =
     (case stableStringify value of
        Inr s \<Rightarrow> s
      | Inl _ \<Rightarrow> Some (case value of
            JNull \<Rightarrow> ''null''
          | JUndef \<Rightarrow> ''undefined''
          | JStr s \<Rightarrow> s
          | JNum r \<Rightarrow> show_num r
          | JNonFinite \<Rightarrow> ''NaN''
          | JBool b \<Rightarrow> (if b then ''true'' else ''false'')
          | JBigInt i \<Rightarrow> show_int i
          | JErr n m \<Rightarrow> n @ '':'' @ m
          | JArr xs \<Rightarrow> ''[object Array]''
          | JObj kvs \<Rightarrow> ''[object Object]''))"

section \<open>Hashes\<close>

definition digestStable :: "(string \<Rightarrow> string) \<Rightarrow> jsval \<Rightarrow> js_exn + string" where
  "digestStable sha value =
     (case stableStringifyFallback value of None \<Rightarrow> Inl JsTypeError | Some s \<Rightarrow> Inr (sha s))"

definition hashToolCall :: "(string \<Rightarrow> string) \<Rightarrow> string \<Rightarrow> jsval \<Rightarrow> js_exn + string" where
  "hashToolCall sha toolName params =
     (case digestStable sha params of Inl e \<Rightarrow> Inl e | Inr d \<Rightarrow> Inr (toolName @ '':'' @ d))"

definition isKnownPollToolCall :: "string \<Rightarrow> jsval \<Rightarrow> bool" where
  "isKnownPollToolCall toolName params =
     (if toolName = ''command_status'' then True
      else if toolName \<noteq> ''process'' then False
      else (case params of
              JObj kvs \<Rightarrow> get_prop ''action'' kvs = JStr ''poll'' \<or> get_prop ''action'' kvs = JStr ''log''
            | _ \<Rightarrow> False))"

fun content_text :: "jsval \<Rightarrow> string option" where
  "content_text (JObj kvs) =
     (case (get_prop ''type'' kvs, get_prop ''text'' kvs) of (JStr t, JStr s) \<Rightarrow> Some s | _ \<Rightarrow> None)"
| "content_text _ = None"

definition extractTextContent :: "jsval \<Rightarrow> string" where
  "extractTextContent result =
     (case result of
        JObj kvs \<Rightarrow>
          (case get_prop ''content'' kvs of
             JArr xs \<Rightarrow> trim (join_with [CHR 0x0A] (List.map_filter content_text xs))
           | _ \<Rightarrow> [])
      | _ \<Rightarrow> [])"

definition formatErrorForHash :: "jsval \<Rightarrow> js_exn + string option" where
  "formatErrorForHash err =
     (case err of
        JErr n m \<Rightarrow> Inr (Some (if m = [] then n else m))
      | JStr s \<Rightarrow> Inr (Some s)
      | JNum r \<Rightarrow> Inr (Some (show_num r))
      | JNonFinite \<Rightarrow> Inr (Some ''NaN'')
      | JBool b \<Rightarrow> Inr (Some (if b then ''true'' else ''false''))
      | JBigInt i \<Rightarrow> Inr (Some (show_int i))
      | _ \<Rightarrow> stableStringify err)"

definition or_null :: "jsval \<Rightarrow> jsval" where
  "or_null v = (if v = JUndef then JNull else v)"

definition string_value :: "string option \<Rightarrow> jsval" where
  "string_value s = (case s of None \<Rightarrow> JUndef | Some s \<Rightarrow> JStr s)"

definition hashToolOutcome ::
    "(string \<Rightarrow> string) \<Rightarrow> string \<Rightarrow> jsval \<Rightarrow> jsval \<Rightarrow> jsval \<Rightarrow> js_exn + string option" where
  "hashToolOutcome sha toolName params result err =
     (let some = (\<lambda>r. case r of Inl e \<Rightarrow> Inl e | Inr d \<Rightarrow> Inr (Some d)) in
      if err \<noteq> JUndef then
        (case formatErrorForHash err of
           Inl e \<Rightarrow> Inl e
         | Inr s \<Rightarrow> (case digestStable sha (string_value s) of
                       Inl e \<Rightarrow> Inl e | Inr d \<Rightarrow> Inr (Some (''error:'' @ d))))
      else (case result of
        JObj rkvs \<Rightarrow>
          (let details = (case get_prop ''details'' rkvs of JObj d \<Rightarrow> d | _ \<Rightarrow> []);
               text = JStr (extractTextContent result);
               d = (\<lambda>k. or_null (get_prop k details));
               action = (case params of JObj pkvs \<Rightarrow> get_prop ''action'' pkvs | _ \<Rightarrow> JUndef);
               polled = isKnownPollToolCall toolName params \<and> toolName = ''process''
           in if polled \<and> action = JStr ''poll'' then
                some (digestStable sha (JObj
                  [(''action'', action), (''status'', get_prop ''status'' details),
                   (''exitCode'', d ''exitCode''), (''exitSignal'', d ''exitSignal''),
                   (''aggregated'', d ''aggregated''), (''text'', text)]))
              else if polled \<and> action = JStr ''log'' then
                some (digestStable sha (JObj
                  [(''action'', action), (''status'', get_prop ''status'' details),
                   (''totalLines'', d ''totalLines''), (''totalChars'', d ''totalChars''),
                   (''truncated'', d ''truncated''), (''exitCode'', d ''exitCode''),
                   (''exitSignal'', d ''exitSignal''), (''text'', text)]))
              else some (digestStable sha (JObj [(''details'', JObj details), (''text'', text)])))
      | JUndef \<Rightarrow> Inr None
      | _ \<Rightarrow> some (digestStable sha result)))"

section \<open>Streaks\<close>

text \<open>The loop of \<open>getNoProgressStreak\<close>, over the history from its newest record backwards.\<close>

fun no_progress_loop ::
    "tool_call_record list \<Rightarrow> string \<Rightarrow> string \<Rightarrow> nat \<Rightarrow> string option \<Rightarrow> nat \<times> string option" where
  "no_progress_loop [] toolName argsHash streak latest = (streak, latest)"
| "no_progress_loop (r # rs) toolName argsHash streak latest =
     (if tc_toolName r \<noteq> toolName \<or> tc_argsHash r \<noteq> argsHash
      then no_progress_loop rs toolName argsHash streak latest
      else (case truthy_id (tc_resultHash r) of
              None \<Rightarrow> no_progress_loop rs toolName argsHash streak latest
            | Some h \<Rightarrow>
                (case latest of
                   None \<Rightarrow> no_progress_loop rs toolName argsHash 1 (Some h)
                 | Some l \<Rightarrow> if h \<noteq> l then (streak, latest)
                             else no_progress_loop rs toolName argsHash (streak + 1) latest)))"

definition getNoProgressStreak ::
    "tool_call_record list \<Rightarrow> string \<Rightarrow> string \<Rightarrow> nat \<times> string option" where
  "getNoProgressStreak history toolName argsHash =
     no_progress_loop (rev history) toolName argsHash 0 None"

record ping_pong =
  pp_count :: nat
  pp_pairedToolName :: "string option"
  pp_pairedSignature :: "string option"
  pp_noProgressEvidence :: bool

definition no_ping_pong :: ping_pong where
  "no_ping_pong = \<lparr>pp_count = 0, pp_pairedToolName = None, pp_pairedSignature = None,
                   pp_noProgressEvidence = False\<rparr>"

text \<open>The second loop of \<open>getPingPongStreak\<close>: how long the tail alternates.\<close>

fun alternating_tail :: "tool_call_record list \<Rightarrow> string \<Rightarrow> string \<Rightarrow> nat \<Rightarrow> nat" where
  "alternating_tail [] a b n = n"
| "alternating_tail (r # rs) a b n =
     (if tc_argsHash r \<noteq> (if n mod 2 = 0 then a else b) then n
      else alternating_tail rs a b (n + 1))"

text \<open>The third loop: the results on each side, over the tail from its oldest record.\<close>

fun side_results ::
    "tool_call_record list \<Rightarrow> string \<Rightarrow> string \<Rightarrow> string option \<Rightarrow> string option \<Rightarrow> bool" where
  "side_results [] a b fa fb = (fa \<noteq> None \<and> fb \<noteq> None)"
| "side_results (r # rs) a b fa fb =
     (case truthy_id (tc_resultHash r) of
        None \<Rightarrow> False
      | Some h \<Rightarrow>
          if tc_argsHash r = a then
            (case fa of None \<Rightarrow> side_results rs a b (Some h) fb
             | Some f \<Rightarrow> if f \<noteq> h then False else side_results rs a b fa fb)
          else if tc_argsHash r = b then
            (case fb of None \<Rightarrow> side_results rs a b fa (Some h)
             | Some f \<Rightarrow> if f \<noteq> h then False else side_results rs a b fa fb)
          else False)"

definition getPingPongStreak :: "tool_call_record list \<Rightarrow> string \<Rightarrow> ping_pong" where
  "getPingPongStreak history currentSignature =
     (case rev history of
        [] \<Rightarrow> no_ping_pong
      | latest # older \<Rightarrow>
          (case find (\<lambda>c. tc_argsHash c \<noteq> tc_argsHash latest) older of
             None \<Rightarrow> no_ping_pong
           | Some other \<Rightarrow>
               if tc_argsHash other = [] \<or> tc_toolName other = [] then no_ping_pong
               else
                 (let a = tc_argsHash latest; b = tc_argsHash other;
                      n = alternating_tail (latest # older) a b 0
                  in if n < 2 then no_ping_pong
                     else if currentSignature \<noteq> b then no_ping_pong
                     else \<lparr>pp_count = n + 1, pp_pairedToolName = Some (tc_toolName latest),
                           pp_pairedSignature = Some a,
                           pp_noProgressEvidence =
                             side_results (drop (length history - n) history) a b None None\<rparr>)))"

definition canonicalPairKey :: "string \<Rightarrow> string \<Rightarrow> string" where
  "canonicalPairKey a b = join_with ''|'' (sort [a, b])"

section \<open>The decision\<close>

definition message_breaker :: "string \<Rightarrow> nat \<Rightarrow> string" where
  "message_breaker t n = ''CRITICAL: '' @ t @ '' has repeated identical no-progress outcomes '' @
     show_nat n @ '' times. Session execution blocked by global circuit breaker to prevent runaway loops.''"

definition message_poll_critical :: "string \<Rightarrow> nat \<Rightarrow> string" where
  "message_poll_critical t n = ''CRITICAL: Called '' @ t @
     '' with identical arguments and no progress '' @ show_nat n @
     '' times. This appears to be a stuck polling loop. Session execution blocked to prevent resource waste.''"

definition message_poll_warning :: "string \<Rightarrow> nat \<Rightarrow> string" where
  "message_poll_warning t n = ''WARNING: You have called '' @ t @ '' '' @ show_nat n @
     '' times with identical arguments and no progress. Stop polling and either (1) increase wait time between checks, or (2) report the task as failed if the process is stuck.''"

definition message_pingpong_critical :: "nat \<Rightarrow> string" where
  "message_pingpong_critical n =
     ''CRITICAL: You are alternating between repeated tool-call patterns ('' @ show_nat n @
     '' consecutive calls) with no progress. This appears to be a stuck ping-pong loop. Session execution blocked to prevent resource waste.''"

definition message_pingpong_warning :: "nat \<Rightarrow> string" where
  "message_pingpong_warning n =
     ''WARNING: You are alternating between repeated tool-call patterns ('' @ show_nat n @
     '' consecutive calls). This looks like a ping-pong loop; stop retrying and report the task as failed.''"

definition message_generic :: "string \<Rightarrow> nat \<Rightarrow> string" where
  "message_generic t n = ''WARNING: You have called '' @ t @ '' '' @ show_nat n @
     '' times with identical arguments. If this is not making progress, stop retrying and report the task as failed.''"

definition history_of :: "session_state \<Rightarrow> tool_call_record list" where
  "history_of s = or_default (ss_toolCallHistory s) []"

definition same_call :: "string \<Rightarrow> string \<Rightarrow> tool_call_record \<Rightarrow> bool" where
  "same_call toolName argsHash r \<longleftrightarrow> tc_toolName r = toolName \<and> tc_argsHash r = argsHash"

definition decide_loop ::
    "ResolvedLoopDetectionConfig \<Rightarrow> tool_call_record list \<Rightarrow> string \<Rightarrow> bool \<Rightarrow> string \<Rightarrow>
     LoopDetectionResult" where
  "decide_loop rc history toolName knownPollTool currentHash =
     (let (streak, latestHash) = getNoProgressStreak history toolName currentHash;
          pingPong = getPingPongStreak history currentHash;
          result_key = (\<lambda>prefix. prefix @ toolName @ '':'' @ currentHash @ '':'' @ or_default latestHash ''none'');
          pingPongKey = (case truthy_id (pp_pairedSignature pingPong) of
              Some sig \<Rightarrow> ''pingpong:'' @ canonicalPairKey currentHash sig
            | None \<Rightarrow> ''pingpong:'' @ toolName @ '':'' @ currentHash);
          recentCount = length (filter (same_call toolName currentHash) history);
          stuck = (\<lambda>level detector count message paired key.
            Stuck \<lparr>si_level = level, si_detector = detector, si_count = count, si_message = message,
                   si_pairedToolName = paired, si_warningKey = key\<rparr>)
      in if rc_globalCircuitBreakerThreshold rc \<le> streak then
           stuck LCritical GlobalCircuitBreaker streak (message_breaker toolName streak) None
             (result_key ''global:'')
         else if knownPollTool \<and> rc_knownPollNoProgress rc \<and> rc_criticalThreshold rc \<le> streak then
           stuck LCritical KnownPollNoProgress streak (message_poll_critical toolName streak) None
             (result_key ''poll:'')
         else if knownPollTool \<and> rc_knownPollNoProgress rc \<and> rc_warningThreshold rc \<le> streak then
           stuck LWarning KnownPollNoProgress streak (message_poll_warning toolName streak) None
             (result_key ''poll:'')
         else if rc_pingPong rc \<and> rc_criticalThreshold rc \<le> pp_count pingPong \<and>
                 pp_noProgressEvidence pingPong then
           stuck LCritical PingPong (pp_count pingPong) (message_pingpong_critical (pp_count pingPong))
             (pp_pairedToolName pingPong) pingPongKey
         else if rc_pingPong rc \<and> rc_warningThreshold rc \<le> pp_count pingPong then
           stuck LWarning PingPong (pp_count pingPong) (message_pingpong_warning (pp_count pingPong))
             (pp_pairedToolName pingPong) pingPongKey
         else if \<not> knownPollTool \<and> rc_genericRepeat rc \<and> rc_warningThreshold rc \<le> recentCount then
           stuck LWarning GenericRepeat recentCount (message_generic toolName recentCount) None
             (''generic:'' @ toolName @ '':'' @ currentHash)
         else NotStuck)"

definition detectToolCallLoop ::
    "(string \<Rightarrow> string) \<Rightarrow> session_state \<Rightarrow> string \<Rightarrow> jsval \<Rightarrow> ToolLoopDetectionConfig option \<Rightarrow>
     js_exn + LoopDetectionResult" where
  "detectToolCallLoop sha state toolName params config =
     (let rc = resolveLoopDetectionConfig config in
      if \<not> rc_enabled rc then Inr NotStuck
      else (case hashToolCall sha toolName params of
              Inl e \<Rightarrow> Inl e
            | Inr currentHash \<Rightarrow>
                Inr (decide_loop rc (history_of state) toolName (isKnownPollToolCall toolName params)
                  currentHash)))"

section \<open>Recording\<close>

text \<open>A recording returns the exception it throws, if it does, and the state it leaves.\<close>

definition recordToolCall ::
    "(string \<Rightarrow> string) \<Rightarrow> int \<Rightarrow> session_state \<Rightarrow> string \<Rightarrow> jsval \<Rightarrow> string option \<Rightarrow>
     ToolLoopDetectionConfig option \<Rightarrow> js_exn option \<times> session_state" where
  "recordToolCall sha now state toolName params toolCallId config =
     (let rc = resolveLoopDetectionConfig config; h = history_of state in
      case hashToolCall sha toolName params of
        Inl e \<Rightarrow> (Some e, state\<lparr>ss_toolCallHistory := Some h\<rparr>)
      | Inr argsHash \<Rightarrow>
          (let h1 = h @ [\<lparr>tc_toolName = toolName, tc_argsHash = argsHash, tc_toolCallId = toolCallId,
                          tc_resultHash = None, tc_timestamp = now\<rparr>]
           in (None, state\<lparr>ss_toolCallHistory :=
                 Some (if rc_historySize rc < length h1 then tl h1 else h1)\<rparr>)))"

definition awaits_outcome :: "string option \<Rightarrow> string \<Rightarrow> string \<Rightarrow> tool_call_record \<Rightarrow> bool" where
  "awaits_outcome toolCallId toolName argsHash c \<longleftrightarrow>
     (truthy_id toolCallId \<noteq> None \<longrightarrow> tc_toolCallId c = toolCallId) \<and>
     same_call toolName argsHash c \<and> tc_resultHash c = None"

definition recordToolCallOutcome ::
    "(string \<Rightarrow> string) \<Rightarrow> int \<Rightarrow> session_state \<Rightarrow> string \<Rightarrow> jsval \<Rightarrow> string option \<Rightarrow> jsval \<Rightarrow> jsval \<Rightarrow>
     ToolLoopDetectionConfig option \<Rightarrow> js_exn option \<times> session_state" where
  "recordToolCallOutcome sha now state toolName toolParams toolCallId result err config =
     (let rc = resolveLoopDetectionConfig config in
      case hashToolOutcome sha toolName toolParams result err of
        Inl e \<Rightarrow> (Some e, state)
      | Inr rh \<Rightarrow>
         (case truthy_id rh of
            None \<Rightarrow> (None, state)
          | Some resultHash \<Rightarrow>
              (let h = history_of state in
               case hashToolCall sha toolName toolParams of
                 Inl e \<Rightarrow> (Some e, state\<lparr>ss_toolCallHistory := Some h\<rparr>)
               | Inr argsHash \<Rightarrow>
                   (let p = awaits_outcome toolCallId toolName argsHash;
                        h1 = (if list_ex p h
                              then rev (update_first p (\<lambda>c. c\<lparr>tc_resultHash := Some resultHash\<rparr>) (rev h))
                              else h @ [\<lparr>tc_toolName = toolName, tc_argsHash = argsHash,
                                         tc_toolCallId = toolCallId, tc_resultHash = Some resultHash,
                                         tc_timestamp = now\<rparr>])
                    in (None, state\<lparr>ss_toolCallHistory :=
                          Some (drop (length h1 - rc_historySize rc) h1)\<rparr>)))))"

section \<open>Statistics\<close>

definition bump_pattern ::
    "(string \<times> string \<times> nat) list \<Rightarrow> tool_call_record \<Rightarrow> (string \<times> string \<times> nat) list" where
  "bump_pattern patterns c =
     (case map_of patterns (tc_argsHash c) of
        Some (t, n) \<Rightarrow> AList.update (tc_argsHash c) (t, n + 1) patterns
      | None \<Rightarrow> AList.update (tc_argsHash c) (tc_toolName c, 1) patterns)"

definition call_patterns :: "tool_call_record list \<Rightarrow> (string \<times> string \<times> nat) list" where
  "call_patterns history = foldl bump_pattern [] history"

definition pick_frequent ::
    "(string \<times> nat) option \<Rightarrow> string \<times> nat \<Rightarrow> (string \<times> nat) option" where
  "pick_frequent best p =
     (case best of None \<Rightarrow> Some p | Some b \<Rightarrow> if snd b < snd p then Some p else best)"

definition getToolCallStats :: "session_state \<Rightarrow> nat \<times> nat \<times> (string \<times> nat) option" where
  "getToolCallStats state =
     (let history = history_of state; patterns = call_patterns history in
      (length history, length patterns, foldl pick_frequent None (map snd patterns)))"

end
