(* ===== verification/ToolLoopProps.thy ===== *)
theory ToolLoopProps
  imports ToolLoop "HOL-Library.Multiset"
begin

text \<open>
  What the loop detector guarantees: the thresholds are ordered, the history is a bounded
  window, a blocking verdict has the evidence it claims, a call that keeps being repeated
  without progress is blocked, the hash of a call does not depend on the order of its
  parameters' keys, and the statistics add up.
\<close>

section \<open>Configuration\<close>

lemma asPositiveInt_pos: "0 < d \<Longrightarrow> 0 < asPositiveInt v d"
  by (auto simp: asPositiveInt_def less_floor_iff split: jsval.split)

lemma resolved_sizes:
  "0 < rc_warningThreshold (resolveLoopDetectionConfig c)"
  "rc_warningThreshold (resolveLoopDetectionConfig c) < rc_criticalThreshold (resolveLoopDetectionConfig c)"
  "rc_criticalThreshold (resolveLoopDetectionConfig c) <
     rc_globalCircuitBreakerThreshold (resolveLoopDetectionConfig c)"
  "0 < rc_historySize (resolveLoopDetectionConfig c)"
  by (simp_all add: resolveLoopDetectionConfig_def Let_def asPositiveInt_pos WARNING_THRESHOLD_def
      TOOL_CALL_HISTORY_SIZE_def)

section \<open>The no-progress streak\<close>

text \<open>The results recorded for one call pattern, oldest first, and the streak as the longest run
  of equal results at its end.\<close>

definition matching_results :: "tool_call_record list \<Rightarrow> string \<Rightarrow> string \<Rightarrow> string list" where
  "matching_results history t a =
     List.map_filter (\<lambda>r. if same_call t a r then truthy_id (tc_resultHash r) else None) history"

definition final_run :: "string list \<Rightarrow> nat \<times> string option" where
  "final_run rs = (case rev rs of [] \<Rightarrow> (0, None) | h # hs \<Rightarrow> (length (takeWhile ((=) h) (h # hs)), Some h))"

lemma rev_map_filter: "List.map_filter f (rev xs) = rev (List.map_filter f xs)"
  by (simp add: List.map_filter_def rev_map rev_filter)

lemma matching_results_append:
  "matching_results (xs @ ys) t a = matching_results xs t a @ matching_results ys t a"
  by (simp add: matching_results_def List.map_filter_def)

lemma matching_results_rev: "matching_results (rev xs) t a = rev (matching_results xs t a)"
  by (simp add: matching_results_def rev_map_filter)

lemma matching_results_Nil [simp]: "matching_results [] t a = []"
  by (simp add: matching_results_def List.map_filter_def)

lemma matching_results_Cons:
  "matching_results (r # rs) t a =
     (if same_call t a r then (case truthy_id (tc_resultHash r) of None \<Rightarrow> [] | Some h \<Rightarrow> [h]) else []) @
     matching_results rs t a"
  by (simp add: matching_results_def List.map_filter_def split: option.split)

lemma no_progress_loop_more:
  "no_progress_loop (r # rs) t a n (Some l) =
     (if same_call t a r
      then (case truthy_id (tc_resultHash r) of
              None \<Rightarrow> no_progress_loop rs t a n (Some l)
            | Some h \<Rightarrow> if h = l then no_progress_loop rs t a (n + 1) (Some l) else (n, Some l))
      else no_progress_loop rs t a n (Some l))"
  unfolding same_call_def no_progress_loop.simps by (cases "truthy_id (tc_resultHash r)") simp_all

lemma no_progress_loop_first:
  "no_progress_loop (r # rs) t a 0 None =
     (if same_call t a r
      then (case truthy_id (tc_resultHash r) of
              None \<Rightarrow> no_progress_loop rs t a 0 None
            | Some h \<Rightarrow> no_progress_loop rs t a 1 (Some h))
      else no_progress_loop rs t a 0 None)"
  unfolding same_call_def no_progress_loop.simps by (cases "truthy_id (tc_resultHash r)") simp_all

lemma no_progress_loop_run:
  "no_progress_loop rs t a n (Some h) =
     (n + length (takeWhile ((=) h) (matching_results rs t a)), Some h)"
proof (induction rs arbitrary: n)
  case (Cons r rs)
  note eqs = no_progress_loop_more matching_results_Cons Cons.IH
  consider "\<not> same_call t a r" | "same_call t a r" "truthy_id (tc_resultHash r) = None"
    | x where "same_call t a r" "truthy_id (tc_resultHash r) = Some x" by blast
  then show ?case
  proof cases
    case 1
    then show ?thesis unfolding eqs by simp
  next
    case 2
    then show ?thesis unfolding eqs by simp
  next
    case 3
    then show ?thesis unfolding eqs by simp
  qed
qed simp

lemma no_progress_loop_start:
  "no_progress_loop rs t a 0 None =
     (case matching_results rs t a of [] \<Rightarrow> (0, None)
      | h # hs \<Rightarrow> (length (takeWhile ((=) h) (h # hs)), Some h))"
proof (induction rs)
  case (Cons r rs)
  note eqs = no_progress_loop_first matching_results_Cons Cons.IH no_progress_loop_run
  consider "\<not> same_call t a r" | "same_call t a r" "truthy_id (tc_resultHash r) = None"
    | x where "same_call t a r" "truthy_id (tc_resultHash r) = Some x" by blast
  then show ?case
  proof cases
    case 1
    then show ?thesis unfolding eqs by simp
  next
    case 2
    then show ?thesis unfolding eqs by simp
  next
    case 3
    then show ?thesis unfolding eqs by simp
  qed
qed simp

lemma getNoProgressStreak_run:
  "getNoProgressStreak history t a = final_run (matching_results history t a)"
  by (simp add: getNoProgressStreak_def no_progress_loop_start final_run_def matching_results_rev)

lemma takeWhile_eq_replicate: "takeWhile ((=) h) xs = replicate (length (takeWhile ((=) h) xs)) h"
  by (induction xs) auto

lemma final_run_evidence:
  assumes "final_run rs = (n, l)" and "0 < n"
  shows "\<exists>h. l = Some h \<and> n \<le> length rs \<and> drop (length rs - n) rs = replicate n h"
proof (cases "rev rs")
  case Nil
  then show ?thesis using assms by (simp add: final_run_def)
next
  case (Cons h hs)
  with assms(1) have n: "n = length (takeWhile ((=) h) (rev rs))" and l: "l = Some h"
    by (auto simp: final_run_def)
  have "take n (rev rs) = replicate n h"
    using takeWhile_eq_take [of "(=) h" "rev rs"] takeWhile_eq_replicate [of h "rev rs"] n by simp
  moreover have le: "n \<le> length rs" using n length_takeWhile_le [of "(=) h" "rev rs"] by simp
  ultimately have "rev (drop (length rs - n) rs) = replicate n h" by (simp add: rev_drop)
  then have "drop (length rs - n) rs = replicate n h" by (metis rev_replicate rev_rev_ident)
  with l le show ?thesis by blast
qed

lemma final_run_length: "fst (final_run rs) \<le> length rs"
proof (cases "rev rs")
  case (Cons h hs)
  then have "length rs = Suc (length hs)" by (metis length_Cons length_rev)
  with Cons show ?thesis by (simp add: final_run_def length_takeWhile_le)
qed (simp add: final_run_def)

lemma matching_results_length: "length (matching_results history t a) \<le> length history"
  by (induction history) (auto simp: matching_results_Cons
      split: option.split)

lemma streak_le_history: "fst (getNoProgressStreak history t a) \<le> length history"
  using final_run_length matching_results_length order_trans
  unfolding getNoProgressStreak_run by blast

section \<open>The ping-pong streak\<close>

lemma alternating_tail_bound: "alternating_tail rs a b n \<le> n + length rs"
proof (induction rs arbitrary: n)
  case (Cons r rs)
  from Cons.IH [of "n + 1"] show ?case by simp
qed simp

lemma alternating_tail_ge: "n \<le> alternating_tail rs a b n"
proof (induction rs arbitrary: n)
  case (Cons r rs)
  from Cons.IH [of "n + 1"] show ?case by simp
qed simp

lemma alternating_tail_nth:
  "i < alternating_tail rs a b n - n \<Longrightarrow>
   tc_argsHash (rs ! i) = (if (n + i) mod 2 = 0 then a else b)"
proof (induction rs arbitrary: n i)
  case Nil
  then show ?case by simp
next
  case (Cons r rs)
  show ?case
  proof (cases i)
    case 0
    with Cons.prems show ?thesis by (auto split: if_splits)
  next
    case (Suc j)
    with Cons.prems have "j < alternating_tail rs a b (Suc n) - Suc n" by (auto split: if_splits)
    from Cons.IH [OF this] Suc show ?thesis by simp
  qed
qed

lemma side_results_evidence:
  assumes "side_results rs a b fa fb" and "a \<noteq> b"
  shows "\<exists>ha hb. (fa = None \<or> fa = Some ha) \<and> (fb = None \<or> fb = Some hb) \<and>
    (\<forall>r \<in> set rs. tc_argsHash r = a \<and> tc_resultHash r = Some ha \<or>
                  tc_argsHash r = b \<and> tc_resultHash r = Some hb)"
  using assms
proof (induction rs arbitrary: fa fb)
  case Nil
  then show ?case by auto
next
  case (Cons r rs)
  have t: "truthy_id x = Some h \<Longrightarrow> x = Some h" for x h
    by (auto simp: truthy_id_def nonempty_def split: option.splits if_splits)
  from Cons.prems(1) obtain h where h: "truthy_id (tc_resultHash r) = Some h"
    by (auto split: option.splits)
  show ?case
  proof (cases "tc_argsHash r = a")
    case True
    with Cons.prems(1) h have "side_results rs a b (Some h) fb" and "fa = None \<or> fa = Some h"
      by (auto split: option.splits if_splits)
    with Cons.IH [of "Some h" fb] Cons.prems(2) True t [OF h] show ?thesis by auto
  next
    case False
    with Cons.prems(1) h have "tc_argsHash r = b" and "side_results rs a b fa (Some h)"
      and "fb = None \<or> fb = Some h"
      by (auto split: option.splits if_splits)
    with Cons.IH [of fa "Some h"] Cons.prems(2) t [OF h] show ?thesis by auto
  qed
qed

lemma getPingPongStreak_evidence:
  assumes "0 < pp_count (getPingPongStreak history sig)"
  shows "\<exists>n a. pp_count (getPingPongStreak history sig) = n + 1 \<and> 2 \<le> n \<and> n \<le> length history \<and>
    a \<noteq> sig \<and> (\<forall>i < n. tc_argsHash (rev history ! i) = (if even i then a else sig)) \<and>
    pp_noProgressEvidence (getPingPongStreak history sig) =
      side_results (drop (length history - n) history) a sig None None"
proof (cases "rev history")
  case Nil
  then show ?thesis using assms by (simp add: getPingPongStreak_def no_ping_pong_def)
next
  case (Cons latest older)
  let ?a = "tc_argsHash latest"
  from assms Cons obtain other where
    o: "find (\<lambda>c. tc_argsHash c \<noteq> ?a) older = Some other"
    by (cases "find (\<lambda>c. tc_argsHash c \<noteq> ?a) older")
      (auto simp: getPingPongStreak_def no_ping_pong_def)
  let ?n = "alternating_tail (latest # older) ?a (tc_argsHash other) 0"
  have c: "2 \<le> ?n" "sig = tc_argsHash other" "getPingPongStreak history sig =
      \<lparr>pp_count = ?n + 1, pp_pairedToolName = Some (tc_toolName latest), pp_pairedSignature = Some ?a,
       pp_noProgressEvidence = side_results (drop (length history - ?n) history) ?a sig None None\<rparr>"
    using assms Cons o unfolding getPingPongStreak_def
    by (simp only: list.case option.case Let_def, auto simp: no_ping_pong_def split: if_splits)+
  have "?n \<le> length (latest # older)"
    using alternating_tail_bound [of "latest # older" ?a "tc_argsHash other" 0] by (simp del: alternating_tail.simps)
  then have n: "?n \<le> length history" using Cons by (metis length_rev)
  have alt: "tc_argsHash (rev history ! i) = (if even i then ?a else sig)" if "i < ?n" for i
    using alternating_tail_nth [of i "latest # older" ?a "tc_argsHash other" 0] that Cons c(2)
    by (simp add: even_iff_mod_2_eq_zero del: alternating_tail.simps)
  have "?a \<noteq> sig" using find_SomeD [OF o] c(2) by auto
  with c(1) n alt show ?thesis
    unfolding c(3) by (intro exI [of _ ?n] exI [of _ ?a]) (simp del: alternating_tail.simps)
qed

section \<open>Verdicts\<close>

text \<open>The evidence a blocking verdict stands on: the last \<open>n\<close> recorded outcomes of the call are the
  same; or the last \<open>n - 1\<close> calls alternate between another call and this one, each with one and
  the same outcome throughout, and this call would continue the pattern.\<close>

definition identical_outcomes :: "tool_call_record list \<Rightarrow> string \<Rightarrow> string \<Rightarrow> nat \<Rightarrow> bool" where
  "identical_outcomes history t a n \<longleftrightarrow>
     (let rs = matching_results history t a in
      n \<le> length rs \<and> (\<exists>h. drop (length rs - n) rs = replicate n h))"

definition alternating_outcomes :: "tool_call_record list \<Rightarrow> string \<Rightarrow> nat \<Rightarrow> bool" where
  "alternating_outcomes history a n \<longleftrightarrow>
     n - 1 \<le> length history \<and>
     (\<exists>b ha hb. a \<noteq> b \<and> (\<forall>i < n - 1.
        tc_argsHash (rev history ! i) = (if even i then b else a) \<and>
        tc_resultHash (rev history ! i) = Some (if even i then hb else ha)))"

lemma ping_pong_alternates:
  assumes "0 < pp_count (getPingPongStreak history sig)"
    and "pp_noProgressEvidence (getPingPongStreak history sig)"
  shows "alternating_outcomes history sig (pp_count (getPingPongStreak history sig))"
proof -
  from getPingPongStreak_evidence [OF assms(1)] assms(2) obtain n a where
    n: "pp_count (getPingPongStreak history sig) = n + 1" "n \<le> length history" and a: "a \<noteq> sig"
    and sigs: "\<forall>i < n. tc_argsHash (rev history ! i) = (if even i then a else sig)"
    and side: "side_results (drop (length history - n) history) a sig None None"
    by blast
  from side_results_evidence [OF side a] obtain ha hb where
    rs: "\<forall>r \<in> set (drop (length history - n) history).
      tc_argsHash r = a \<and> tc_resultHash r = Some ha \<or> tc_argsHash r = sig \<and> tc_resultHash r = Some hb"
    by blast
  have "tc_resultHash (rev history ! i) = Some (if even i then ha else hb)" if i: "i < n" for i
  proof -
    have "rev history ! i = drop (length history - n) history ! (n - Suc i)"
      using i n(2) by (simp add: rev_nth)
    moreover have "n - Suc i < length (drop (length history - n) history)" using i n(2) by simp
    ultimately have "rev history ! i \<in> set (drop (length history - n) history)"
      using nth_mem by metis
    with rs sigs i a show ?thesis by (metis (full_types))
  qed
  with n a sigs show ?thesis
    unfolding alternating_outcomes_def by (intro conjI exI [of _ a] exI [of _ hb] exI [of _ ha]) auto
qed

lemma streak_identical:
  "0 < fst (getNoProgressStreak history t a) \<Longrightarrow>
   identical_outcomes history t a (fst (getNoProgressStreak history t a))"
  using final_run_evidence [of "matching_results history t a"]
  by (fastforce simp: getNoProgressStreak_run identical_outcomes_def Let_def
      intro: prod.collapse [symmetric])

text \<open>The verdict by its level and detector.\<close>

lemma decide_critical:
  assumes "decide_loop rc history t k a = Stuck i" and "si_level i = LCritical"
    and "rc_criticalThreshold rc < rc_globalCircuitBreakerThreshold rc"
  shows "rc_criticalThreshold rc \<le> si_count i \<and>
    (if si_detector i = PingPong
     then si_count i = pp_count (getPingPongStreak history a) \<and>
       pp_noProgressEvidence (getPingPongStreak history a)
     else si_count i = fst (getNoProgressStreak history t a))"
  using assms by (auto simp: decide_loop_def Let_def split: prod.splits if_splits)

lemma decide_breaker:
  assumes "rc_globalCircuitBreakerThreshold rc \<le> fst (getNoProgressStreak history t a)"
  shows "\<exists>i. decide_loop rc history t k a = Stuck i \<and> si_level i = LCritical \<and>
    si_detector i = GlobalCircuitBreaker \<and> si_count i = fst (getNoProgressStreak history t a)"
  using assms by (auto simp: decide_loop_def Let_def split: prod.splits)

section \<open>Repeated calls\<close>

text \<open>Rounds of one and the same call: each records the call, then its outcome. A round has the two
  clock readings, the call id, the result and the error.\<close>

fun repeat_calls ::
    "(string \<Rightarrow> string) \<Rightarrow> ToolLoopDetectionConfig option \<Rightarrow> string \<Rightarrow> jsval \<Rightarrow>
     (int \<times> int \<times> string option \<times> jsval \<times> jsval) list \<Rightarrow> session_state \<Rightarrow> session_state" where
  "repeat_calls sha cfg t p [] st = st"
| "repeat_calls sha cfg t p ((now, now', callId, res, err) # rs) st =
     repeat_calls sha cfg t p rs
       (snd (recordToolCallOutcome sha now' (snd (recordToolCall sha now st t p callId cfg))
          t p callId res err cfg))"

definition ends_with_outcomes :: "string \<Rightarrow> string \<Rightarrow> string \<Rightarrow> nat \<Rightarrow> session_state \<Rightarrow> bool" where
  "ends_with_outcomes t a h k st \<longleftrightarrow>
     (\<exists>ys zs. history_of st = ys @ zs \<and> k \<le> length zs \<and>
        (\<forall>z \<in> set zs. same_call t a z \<and> tc_resultHash z = Some h))"

lemma history_of_update [simp]: "history_of (st\<lparr>ss_toolCallHistory := Some h\<rparr>) = h"
  by (simp add: history_of_def or_default_def)

lemma drop_tl_snoc: "xs \<noteq> [] \<Longrightarrow> drop n (tl (xs @ [x])) = drop (Suc n) (xs @ [x])"
  by (cases xs) (simp_all del: drop_append)

lemma round_history:
  assumes a: "hashToolCall sha t p = Inr a" and h: "hashToolOutcome sha t p res err = Inr (Some h)"
    "h \<noteq> []"
  shows "\<exists>r. same_call t a r \<and> tc_resultHash r = Some h \<and>
    history_of (snd (recordToolCallOutcome sha now' (snd (recordToolCall sha now st t p callId cfg))
      t p callId res err cfg)) =
    drop (Suc (length (history_of st)) - rc_historySize (resolveLoopDetectionConfig cfg))
      (history_of st @ [r])"
proof -
  let ?H = "rc_historySize (resolveLoopDetectionConfig cfg)" and ?h0 = "history_of st"
  let ?fresh = "\<lparr>tc_toolName = t, tc_argsHash = a, tc_toolCallId = callId, tc_resultHash = None,
    tc_timestamp = now\<rparr>"
  let ?r = "?fresh\<lparr>tc_resultHash := Some h\<rparr>" and ?p = "awaits_outcome callId t a"
  define xs where "xs = (if ?H < Suc (length ?h0) then tl ?h0 else ?h0)"
  have ne: "?H < Suc (length ?h0) \<Longrightarrow> ?h0 \<noteq> []" using resolved_sizes(4) [of cfg] by auto
  have "tl (?h0 @ [?fresh]) = tl ?h0 @ [?fresh]" if "?h0 \<noteq> []" using that by simp
  then have h1: "history_of (snd (recordToolCall sha now st t p callId cfg)) = xs @ [?fresh]"
    using a ne by (simp add: recordToolCall_def Let_def xs_def)
  have p: "?p ?fresh" by (simp add: awaits_outcome_def same_call_def)
  have "rev (update_first ?p (\<lambda>c. c\<lparr>tc_resultHash := Some h\<rparr>) (rev (xs @ [?fresh]))) = xs @ [?r]"
    using p by simp
  moreover have "list_ex ?p (xs @ [?fresh])" using p by simp
  ultimately have "history_of (snd (recordToolCallOutcome sha now'
      (snd (recordToolCall sha now st t p callId cfg)) t p callId res err cfg)) =
      drop (length (xs @ [?r]) - ?H) (xs @ [?r])"
    using a h h1 unfolding recordToolCallOutcome_def Let_def
    by (simp add: truthy_id_def nonempty_def)
  also have "\<dots> = drop (Suc (length ?h0) - ?H) (?h0 @ [?r])"
    using ne by (auto simp: xs_def drop_tl_snoc drop_Suc Suc_diff_le tl_append2 [symmetric] simp del: tl_append2)
  finally show ?thesis
    by (intro exI [of _ ?r]) (simp add: same_call_def)
qed

lemma round_extends:
  assumes "hashToolCall sha t p = Inr a" and "hashToolOutcome sha t p res err = Inr (Some h)"
    and "h \<noteq> []" and e: "ends_with_outcomes t a h k st"
  shows "ends_with_outcomes t a h (min (Suc k) (rc_historySize (resolveLoopDetectionConfig cfg)))
    (snd (recordToolCallOutcome sha now' (snd (recordToolCall sha now st t p callId cfg))
      t p callId res err cfg))"
proof -
  let ?H = "rc_historySize (resolveLoopDetectionConfig cfg)"
  obtain r where r: "same_call t a r" "tc_resultHash r = Some h"
    and hist: "history_of (snd (recordToolCallOutcome sha now'
      (snd (recordToolCall sha now st t p callId cfg)) t p callId res err cfg)) =
      drop (Suc (length (history_of st)) - ?H) (history_of st @ [r])"
    using round_history [OF assms(1-3)] by blast
  from e obtain ys zs where z: "history_of st = ys @ zs" "k \<le> length zs"
    "\<forall>z \<in> set zs. same_call t a z \<and> tc_resultHash z = Some h"
    by (auto simp: ends_with_outcomes_def)
  let ?d = "Suc (length (history_of st)) - ?H"
  have "drop ?d (history_of st @ [r]) = drop ?d ys @ drop (?d - length ys) (zs @ [r])"
    using z(1) by simp
  moreover have "min (Suc k) ?H \<le> length (drop (?d - length ys) (zs @ [r]))"
    using z(1,2) by auto
  moreover have "\<forall>x \<in> set (drop (?d - length ys) (zs @ [r])). same_call t a x \<and> tc_resultHash x = Some h"
    using z(3) r by (auto dest: in_set_dropD)
  ultimately show ?thesis unfolding ends_with_outcomes_def hist by blast
qed

lemma ends_with_outcomes_mono:
  "ends_with_outcomes t a h m st \<Longrightarrow> n \<le> m \<Longrightarrow> ends_with_outcomes t a h n st"
  unfolding ends_with_outcomes_def by (meson le_trans)

lemma repeat_calls_ends:
  assumes "hashToolCall sha t p = Inr a" and "h \<noteq> []"
    and "\<forall>(now, now', callId, res, err) \<in> set rounds. hashToolOutcome sha t p res err = Inr (Some h)"
    and "ends_with_outcomes t a h k st"
  shows "ends_with_outcomes t a h
    (min (k + length rounds) (rc_historySize (resolveLoopDetectionConfig cfg)))
    (repeat_calls sha cfg t p rounds st)"
  using assms(3,4)
proof (induction rounds arbitrary: k st)
  case Nil
  then show ?case by (simp add: ends_with_outcomes_mono [of t a h k])
next
  case (Cons x rounds)
  obtain now now' callId res err where x: "x = (now, now', callId, res, err)" by (cases x)
  have "ends_with_outcomes t a h (min (Suc k) (rc_historySize (resolveLoopDetectionConfig cfg)))
      (snd (recordToolCallOutcome sha now' (snd (recordToolCall sha now st t p callId cfg))
        t p callId res err cfg))"
    using round_extends [OF assms(1) _ assms(2) Cons.prems(2)] Cons.prems(1) x by auto
  from Cons.IH [OF _ this] Cons.prems(1) show ?case
    by (auto simp: x elim!: ends_with_outcomes_mono)
qed

lemma ends_with_outcomes_streak:
  assumes "ends_with_outcomes t a h k st" and "h \<noteq> []"
  shows "k \<le> fst (getNoProgressStreak (history_of st) t a)"
proof -
  from assms(1) obtain ys zs where z: "history_of st = ys @ zs" "k \<le> length zs"
    "\<forall>z \<in> set zs. same_call t a z \<and> tc_resultHash z = Some h"
    by (auto simp: ends_with_outcomes_def)
  have "matching_results zs t a = replicate (length zs) h"
    using z(3) assms(2)
    by (induction zs) (simp_all add: matching_results_Cons truthy_id_def nonempty_def)
  then have "rev (matching_results (history_of st) t a) =
      replicate (length zs) h @ rev (matching_results ys t a)"
    by (simp add: z(1) matching_results_append)
  moreover have "n \<le> length (takeWhile ((=) h) (replicate n h @ xs))" for n xs
    by (induction n) simp_all
  ultimately show ?thesis
    using z(2) unfolding getNoProgressStreak_run final_run_def
    by (cases "length zs") (auto intro: order_trans)
qed

section \<open>The history window\<close>

datatype tool_event =
    ToolCalled int string jsval "string option"
  | ToolFinished int string jsval "string option" jsval jsval

fun tool_step ::
    "(string \<Rightarrow> string) \<Rightarrow> ToolLoopDetectionConfig option \<Rightarrow> session_state \<Rightarrow> tool_event \<Rightarrow> session_state" where
  "tool_step sha cfg st (ToolCalled now t p callId) = snd (recordToolCall sha now st t p callId cfg)"
| "tool_step sha cfg st (ToolFinished now t p callId res err) =
     snd (recordToolCallOutcome sha now st t p callId res err cfg)"

definition within_window :: "ToolLoopDetectionConfig option \<Rightarrow> session_state \<Rightarrow> bool" where
  "within_window cfg st \<longleftrightarrow>
     length (history_of st) \<le> rc_historySize (resolveLoopDetectionConfig cfg)"

lemma tool_step_window: "within_window cfg st \<Longrightarrow> within_window cfg (tool_step sha cfg st e)"
  by (cases e) (auto simp: within_window_def recordToolCall_def recordToolCallOutcome_def Let_def
      split: sum.split option.split)

interpretation tl: invariant_system "tool_step sha cfg" "within_window cfg" for sha cfg
  by unfold_locales (rule tool_step_window)

lemma breaker_needs_history:
  assumes "decide_loop rc history t k a = Stuck i" and "si_detector i = GlobalCircuitBreaker"
  shows "rc_globalCircuitBreakerThreshold rc \<le> length history"
proof -
  have "rc_globalCircuitBreakerThreshold rc \<le> fst (getNoProgressStreak history t a)"
    using assms by (auto simp: decide_loop_def Let_def split: prod.splits if_splits)
  then show ?thesis using streak_le_history order_trans by blast
qed

section \<open>Key order\<close>

text \<open>Values that differ in the order of object keys only, at any depth.\<close>

inductive json_eq :: "jsval \<Rightarrow> jsval \<Rightarrow> bool" where
  json_refl: "json_eq v v"
| json_arr: "list_all2 json_eq xs ys \<Longrightarrow> json_eq (JArr xs) (JArr ys)"
| json_obj: "list_all2 (\<lambda>x y. fst x = fst y \<and> json_eq (snd x) (snd y)) kvs kvs1 \<Longrightarrow>
    mset kvs1 = mset kvs2 \<Longrightarrow> distinct (map fst kvs1) \<Longrightarrow> json_eq (JObj kvs) (JObj kvs2)"

lemma stringify_list_map: "stringify_list xs = map stableStringify xs"
  by (induction xs) auto

lemma stringify_props_map: "stringify_props kvs = map (\<lambda>x. (fst x, stableStringify (snd x))) kvs"
  by (induction kvs) auto

lemma stringify_object_perm:
  assumes "mset kvs = mset kvs'" and "distinct (map fst kvs)"
  shows "stringify_object kvs = stringify_object kvs'"
proof -
  have "sort_key fst kvs = sort_key fst kvs'"
    using assms by (intro sort_key_inj_key_eq) (auto simp: distinct_map)
  then show ?thesis by (simp add: stringify_object_def)
qed

lemma json_eq_stringify: "json_eq v w \<Longrightarrow> stableStringify v = stableStringify w"
proof (induction rule: json_eq.induct)
  case (json_refl v)
  show ?case ..
next
  case (json_arr xs ys)
  then have "map stableStringify xs = map stableStringify ys"
    by (induction rule: list_all2_induct) auto
  then show ?case by (simp add: stringify_list_map)
next
  case (json_obj kvs kvs1 kvs2)
  from json_obj.IH have "stringify_props kvs = stringify_props kvs1"
    by (induction rule: list_all2_induct) (auto simp: stringify_props_map)
  moreover have "mset (stringify_props kvs1) = mset (stringify_props kvs2)"
    using json_obj.hyps by (simp add: stringify_props_map)
  moreover have "distinct (map fst (stringify_props kvs1))"
    using json_obj.hyps by (simp add: stringify_props_map comp_def)
  ultimately show ?case by (simp add: stringify_object_perm)
qed

lemma json_eq_fallback:
  assumes "json_eq v w"
  shows "stableStringifyFallback v = stableStringifyFallback w"
  using assms
  by (cases rule: json_eq.cases)
    (use json_eq_stringify [OF assms] in \<open>auto simp: stableStringifyFallback_def split: sum.split\<close>)

section \<open>Statistics\<close>

lemma bump_pattern_lookup:
  "map_of (bump_pattern ps c) a =
     (if a = tc_argsHash c
      then Some (case map_of ps a of None \<Rightarrow> (tc_toolName c, 1) | Some (t, n) \<Rightarrow> (t, n + 1))
      else map_of ps a)"
  by (auto simp: bump_pattern_def update_conv' split: option.split)

lemma bump_pattern_keys:
  "distinct (map fst ps) \<Longrightarrow> distinct (map fst (bump_pattern ps c))"
  "fst ` set (bump_pattern ps c) = insert (tc_argsHash c) (fst ` set ps)"
  by (auto simp: bump_pattern_def distinct_update dom_update split: option.split)

lemma call_patterns_snoc: "call_patterns (h @ [c]) = bump_pattern (call_patterns h) c"
  by (simp add: call_patterns_def)

lemma call_patterns_keys:
  "distinct (map fst (call_patterns h)) \<and> fst ` set (call_patterns h) = tc_argsHash ` set h"
  by (induction h rule: rev_induct)
    (auto simp: call_patterns_snoc bump_pattern_keys, auto simp: call_patterns_def)

lemma call_patterns_count:
  "map_option snd (map_of (call_patterns h) a) =
     (if a \<in> tc_argsHash ` set h then Some (count_list (map tc_argsHash h) a) else None)"
proof (induction h rule: rev_induct)
  case Nil
  show ?case by (simp add: call_patterns_def)
next
  case (snoc c h)
  then show ?case
    by (auto simp: call_patterns_snoc bump_pattern_lookup count_notin split: option.splits if_splits)
qed

lemma pick_frequent_max:
  assumes "ps \<noteq> []"
  shows "\<exists>b. foldl pick_frequent None ps = Some b \<and> b \<in> set ps \<and> (\<forall>p \<in> set ps. snd p \<le> snd b)"
  using assms
proof (induction ps rule: rev_induct)
  case (snoc p ps)
  show ?case
  proof (cases "ps = []")
    case True
    then show ?thesis by (simp add: pick_frequent_def)
  next
    case False
    with snoc.IH obtain b where
      b: "foldl pick_frequent None ps = Some b" "b \<in> set ps" "\<forall>p \<in> set ps. snd p \<le> snd b"
      by blast
    from b(1) have "foldl pick_frequent None (ps @ [p]) = Some (if snd b < snd p then p else b)"
      by (simp add: pick_frequent_def [of "Some b"])
    with b(2,3) show ?thesis
      by (intro exI [of _ "if snd b < snd p then p else b"]) auto
  qed
qed simp

section \<open>Properties\<close>

text \<open>The detector's thresholds are usable whatever the configuration holds (missing, negative,
  fractional or not a number): the warning threshold is positive, the critical threshold lies
  above it, the circuit breaker above that, and the history keeps at least one call.\<close>

theorem thresholds_ordered:
  "let rc = resolveLoopDetectionConfig cfg in
     0 < rc_warningThreshold rc \<and> rc_warningThreshold rc < rc_criticalThreshold rc \<and>
     rc_criticalThreshold rc < rc_globalCircuitBreakerThreshold rc \<and> 0 < rc_historySize rc"
  by (simp only: Let_def resolved_sizes simp_thms)

text \<open>A call is only ever blocked on evidence: a critical verdict counts at least the critical
  threshold, and the history shows what it claims. Either the last \<open>count\<close> recorded outcomes of
  this very call (same tool, same parameters) are one and the same, or the last \<open>count - 1\<close> calls
  alternate between this call and one other, each side with a single unchanged outcome.\<close>

theorem critical_verdict_has_evidence:
  assumes "detectToolCallLoop sha st t p cfg = Inr (Stuck i)" and "si_level i = LCritical"
    and "hashToolCall sha t p = Inr a"
  shows "rc_criticalThreshold (resolveLoopDetectionConfig cfg) \<le> si_count i \<and>
    (if si_detector i = PingPong then alternating_outcomes (history_of st) a (si_count i)
     else identical_outcomes (history_of st) t a (si_count i))"
proof -
  let ?rc = "resolveLoopDetectionConfig cfg"
  from assms(1,3) have "decide_loop ?rc (history_of st) t (isKnownPollToolCall t p) a = Stuck i"
    by (auto simp: detectToolCallLoop_def Let_def split: if_splits)
  note d = decide_critical [OF this assms(2) resolved_sizes(3)]
  have "0 < rc_criticalThreshold ?rc" using resolved_sizes(1,2) [of cfg] by simp
  with d show ?thesis
    using streak_identical [of "history_of st" t a] ping_pong_alternates [of "history_of st" a]
    by (auto split: if_splits)
qed

text \<open>A runaway loop is always stopped: whatever the session did before, once an agent has made
  the same call with the same outcome as often as the circuit breaker allows, the next attempt
  of that call is blocked, provided detection is on and the history window is at least as large
  as the threshold. Clock readings and call ids do not matter.\<close>

theorem repeated_call_is_blocked:
  assumes "rc_enabled (resolveLoopDetectionConfig cfg)"
    and "rc_globalCircuitBreakerThreshold (resolveLoopDetectionConfig cfg) \<le>
      rc_historySize (resolveLoopDetectionConfig cfg)"
    and "hashToolCall sha t p = Inr a" and "h \<noteq> []"
    and "\<forall>(now, now', callId, res, err) \<in> set rounds. hashToolOutcome sha t p res err = Inr (Some h)"
    and "rc_globalCircuitBreakerThreshold (resolveLoopDetectionConfig cfg) \<le> length rounds"
  shows "\<exists>i. detectToolCallLoop sha (repeat_calls sha cfg t p rounds st) t p cfg = Inr (Stuck i) \<and>
    si_level i = LCritical \<and> si_detector i = GlobalCircuitBreaker"
proof -
  let ?st = "repeat_calls sha cfg t p rounds st" and ?rc = "resolveLoopDetectionConfig cfg"
  have "ends_with_outcomes t a h 0 st"
    unfolding ends_with_outcomes_def by (intro exI [of _ "history_of st"] exI [of _ "[]"]) simp
  from repeat_calls_ends [OF assms(3-5) this, of cfg]
  have "ends_with_outcomes t a h (rc_globalCircuitBreakerThreshold ?rc) ?st"
    by (rule ends_with_outcomes_mono) (use assms(2,6) in simp)
  from decide_breaker [OF ends_with_outcomes_streak [OF this assms(4)]] obtain i where
    "decide_loop ?rc (history_of ?st) t (isKnownPollToolCall t p) a = Stuck i"
    "si_level i = LCritical" "si_detector i = GlobalCircuitBreaker" by blast
  with assms(1,3) show ?thesis by (simp add: detectToolCallLoop_def Let_def)
qed

text \<open>A polling call and a configuration with small thresholds, for the witnesses; the digest is
  the identity.\<close>

definition small_config :: "ToolLoopDetectionConfig option" where
  "small_config = Some \<lparr>lc_enabled = Some True, lc_historySize = JNum 5, lc_warningThreshold = JNum 1,
     lc_criticalThreshold = JNum 2, lc_globalCircuitBreakerThreshold = JNum 3, lc_detectors = None\<rparr>"

definition poll_params :: jsval where
  "poll_params = JObj [(''action'', JStr ''poll'')]"

definition poll_round :: "int \<times> int \<times> string option \<times> jsval \<times> jsval" where
  "poll_round = (0, 1, Some ''c1'', JStr ''busy'', JUndef)"

definition idle_session :: session_state where
  "idle_session = new_session 0 (Some ''k'') None"

definition poll_args_hash :: string where
  "poll_args_hash = ''process:'' @ or_default (stableStringifyFallback poll_params) []"

lemma small_config_sizes:
  "resolveLoopDetectionConfig small_config = \<lparr>rc_enabled = True, rc_historySize = 5,
     rc_warningThreshold = 1, rc_criticalThreshold = 2, rc_globalCircuitBreakerThreshold = 3,
     rc_genericRepeat = True, rc_knownPollNoProgress = True, rc_pingPong = True\<rparr>"
  by (simp add: resolveLoopDetectionConfig_def small_config_def or_default_def asPositiveInt_def Let_def)

lemma poll_hash: "hashToolCall id ''process'' poll_params = Inr poll_args_hash"
  by code_simp

lemma poll_outcome:
  "hashToolOutcome id ''process'' poll_params (JStr ''busy'') JUndef =
     Inr (Some (json_quote ''busy''))"
  by code_simp

theorem repeated_call_is_blocked_witness:
  "\<exists>i. detectToolCallLoop id (repeat_calls id small_config ''process'' poll_params
      (replicate 3 poll_round) idle_session) ''process'' poll_params small_config = Inr (Stuck i) \<and>
    si_level i = LCritical \<and> si_detector i = GlobalCircuitBreaker"
proof (rule repeated_call_is_blocked [OF _ _ poll_hash])
  show "\<forall>(now, now', callId, res, err) \<in> set (replicate 3 poll_round).
      hashToolOutcome id ''process'' poll_params res err = Inr (Some (json_quote ''busy''))"
    by (simp add: poll_round_def poll_outcome)
qed (simp_all add: small_config_sizes json_quote_def)

theorem critical_verdict_has_evidence_witness:
  "\<exists>n. identical_outcomes (history_of (repeat_calls id small_config ''process'' poll_params
      (replicate 2 poll_round) idle_session)) ''process'' poll_args_hash n \<and> 2 \<le> n"
proof -
  let ?st = "repeat_calls id small_config ''process'' poll_params (replicate 2 poll_round) idle_session"
  obtain i where i: "detectToolCallLoop id ?st ''process'' poll_params small_config = Inr (Stuck i)"
    "si_level i = LCritical" "si_detector i = KnownPollNoProgress"
  proof -
    have "(case detectToolCallLoop id ?st ''process'' poll_params small_config of
        Inr (Stuck i) \<Rightarrow> si_level i = LCritical \<and> si_detector i = KnownPollNoProgress | _ \<Rightarrow> False)"
      by code_simp
    with that show ?thesis by (auto split: sum.splits LoopDetectionResult.splits)
  qed
  have "2 \<le> si_count i \<and> identical_outcomes (history_of ?st) ''process'' poll_args_hash (si_count i)"
    using critical_verdict_has_evidence [OF i(1,2) poll_hash] i(3) by (simp add: small_config_sizes)
  then show ?thesis by blast
qed

text \<open>The history is a sliding window: under one configuration no sequence of calls and
  outcomes makes it longer than \<open>historySize\<close>. Therefore a circuit breaker set above
  \<open>historySize\<close> never fires, whatever the agent does: the threshold can only be raised together
  with the window.\<close>

theorem history_is_window:
  assumes "length (history_of st) \<le> rc_historySize (resolveLoopDetectionConfig cfg)"
  shows "length (history_of (foldl (tool_step sha cfg) st es)) \<le>
      rc_historySize (resolveLoopDetectionConfig cfg) \<and>
    (rc_historySize (resolveLoopDetectionConfig cfg) <
       rc_globalCircuitBreakerThreshold (resolveLoopDetectionConfig cfg) \<longrightarrow>
     (\<forall>t p i. detectToolCallLoop sha (foldl (tool_step sha cfg) st es) t p cfg = Inr (Stuck i) \<longrightarrow>
        si_detector i \<noteq> GlobalCircuitBreaker))"
proof -
  let ?st = "foldl (tool_step sha cfg) st es" and ?rc = "resolveLoopDetectionConfig cfg"
  have w: "length (history_of ?st) \<le> rc_historySize ?rc"
    using tl.run_all_inv [of cfg st sha es] assms by (simp add: within_window_def)
  have "rc_globalCircuitBreakerThreshold ?rc \<le> length (history_of ?st)"
    if "detectToolCallLoop sha ?st t p cfg = Inr (Stuck i)" "si_detector i = GlobalCircuitBreaker" for t p i
    using that breaker_needs_history
    by (fastforce simp: detectToolCallLoop_def Let_def split: if_splits sum.splits)
  with w show ?thesis by fastforce
qed

theorem history_is_window_witness:
  "length (history_of (foldl (tool_step id small_config) idle_session
     (replicate 9 (ToolCalled 0 ''process'' poll_params None)))) \<le> 5"
proof -
  have "length (history_of idle_session) \<le> rc_historySize (resolveLoopDetectionConfig small_config)"
    by (simp add: idle_session_def new_session_def history_of_def or_default_def)
  from history_is_window [OF this, of id "replicate 9 (ToolCalled 0 ''process'' poll_params None)"]
  show ?thesis by (simp add: small_config_sizes)
qed

text \<open>Calls whose parameters are the same JSON value have the same hash: permuting the keys of
  objects, at any depth of nested arrays and objects, does not change it, so a model cannot
  escape the detector by reordering its arguments.\<close>

theorem hash_ignores_key_order:
  assumes "json_eq p p'"
  shows "hashToolCall sha t p = hashToolCall sha t p'"
  using json_eq_fallback [OF assms] by (simp add: hashToolCall_def digestStable_def)

theorem hash_ignores_key_order_witness:
  "hashToolCall id ''x'' (JArr [JObj [(''b'', JNum 1), (''a'', JNull)]]) =
   hashToolCall id ''x'' (JArr [JObj [(''a'', JNull), (''b'', JNum 1)]])"
proof (rule hash_ignores_key_order)
  have "json_eq (JObj [(''b'', JNum 1), (''a'', JNull)]) (JObj [(''a'', JNull), (''b'', JNum 1)])"
    by (rule json_obj [of _ "[(''b'', JNum 1), (''a'', JNull)]"])
      (auto intro: json_refl)
  then show "json_eq (JArr [JObj [(''b'', JNum 1), (''a'', JNull)]])
      (JArr [JObj [(''a'', JNull), (''b'', JNum 1)]])"
    by (intro json_arr) simp
qed

text \<open>The statistics agree with the history: the number of calls, the number of distinct call
  hashes, and for the most frequent pattern the number of its occurrences, which no other
  pattern exceeds; there is none exactly when the history is empty.\<close>

theorem tool_call_stats_correct:
  "case getToolCallStats st of (calls, uniq, freq) \<Rightarrow>
     let hashes = map tc_argsHash (history_of st) in
     calls = length hashes \<and> uniq = card (set hashes) \<and>
     (case freq of None \<Rightarrow> hashes = []
      | Some (t, n) \<Rightarrow> \<exists>a \<in> set hashes. n = count_list hashes a \<and> (\<forall>b. count_list hashes b \<le> n))"
proof -
  let ?h = "history_of st" and ?ps = "call_patterns (history_of st)"
  note keys = call_patterns_keys [of ?h]
  have len: "length ?ps = card (tc_argsHash ` set ?h)"
    using keys distinct_card [of "map fst ?ps"] by simp
  have cnt: "n = count_list (map tc_argsHash ?h) a" if "(a, t, n) \<in> set ?ps" for a t n
  proof -
    from keys that have "map_of ?ps a = Some (t, n)" by (simp add: map_of_is_SomeI)
    then show ?thesis using call_patterns_count [of ?h a] by (simp split: if_splits)
  qed
  have all: "\<exists>t. (a, t, count_list (map tc_argsHash ?h) a) \<in> set ?ps" if "a \<in> tc_argsHash ` set ?h" for a
  proof -
    from keys that obtain v where "(a, v) \<in> set ?ps" by force
    then show ?thesis using cnt by (cases v) auto
  qed
  show ?thesis
  proof (cases "?h = []")
    case True
    then show ?thesis by (simp add: getToolCallStats_def call_patterns_def)
  next
    case False
    with len have "map snd ?ps \<noteq> []" by (auto simp: card_eq_0_iff)
    from pick_frequent_max [OF this] obtain t n where
      b: "foldl pick_frequent None (map snd ?ps) = Some (t, n)" "(t, n) \<in> snd ` set ?ps"
      "\<forall>p \<in> set ?ps. snd (snd p) \<le> n" by (metis (no_types, lifting) imageI list.set_map prod.exhaust_sel snd_conv)
    from b(2) obtain a where a: "(a, t, n) \<in> set ?ps" by force
    have "a \<in> tc_argsHash ` set ?h" using a keys by force
    moreover have "count_list (map tc_argsHash ?h) b \<le> n" for b
    proof (cases "b \<in> tc_argsHash ` set ?h")
      case True
      from all [OF this] b(3) show ?thesis by fastforce
    qed simp
    ultimately show ?thesis
      using b(1) cnt [OF a] len by (auto simp: getToolCallStats_def Let_def)
  qed
qed

end
