(* ===== verification/BeforeToolCall.thy ===== *)
theory BeforeToolCall
  imports ToolLoopProps
begin

text \<open>
  The gate in front of every tool call, \<open>src/agents/pi-tools.before-tool-call.ts\<close>: the loop check
  with its rate-limited warnings, the plugin hook with its approval dialogue, the table of
  adjusted parameters, and the recording of outcomes.

  Outside the model and passed in as data: what the hook runner does (\<open>hook_reply\<close>), what the
  gateway answers to an approval request (\<open>approval_world\<close>), and what the wrapped tool returns.
  The gate runs in sections between awaits: the loop check, the hook decision, the start of the
  tool and the recording of its outcome. Log lines are left out; the diagnostic events of
  \<open>logToolLoopAction\<close> are collected. A tool name is not the name of a member of
  \<open>Object.prototype\<close>.
\<close>

section \<open>Types and constants\<close>

record HookContext =
  hc_agentId :: "string option"
  hc_sessionKey :: "string option"
  hc_sessionId :: "string option"
  hc_runId :: "string option"
  hc_loopDetection :: "ToolLoopDetectionConfig option"

datatype HookOutcome = Blocked string | Proceed jsval

datatype PluginApprovalResolution = ALLOW_ONCE | ALLOW_ALWAYS | DENY | TIMEOUT | CANCELLED

record require_approval =
  ra_description :: string
  ra_timeoutBehavior :: "string option"

record hook_result =
  hr_params :: "jsval option"
  hr_block :: bool
  hr_blockReason :: "string option"
  hr_requireApproval :: "require_approval option"

datatype hook_reply = NoHooks | HookThrew | HookReturned "hook_result option"

text \<open>An exception of the gateway call: whether it is the abort signal's reason, and its name when
  it is an \<open>Error\<close>. A reply has an id and, if present, the value of its \<open>decision\<close> property.\<close>

record gateway_error =
  ge_isReason :: bool
  ge_name :: "string option"

record approval_reply =
  ar_id :: "string option"
  ar_decision :: "jsval option"

record approval_world =
  aw_request :: "gateway_error + approval_reply"
  aw_wait :: "gateway_error + jsval"
  aw_aborted :: bool

record gate_state =
  gs_registry :: session_registry
  gs_adjusted :: "(string \<times> jsval) list"

datatype loop_action = LoopAction string stuck_info

definition MAX_TRACKED_ADJUSTED_PARAMS :: nat where "MAX_TRACKED_ADJUSTED_PARAMS = 1024"
definition LOOP_WARNING_BUCKET_SIZE :: nat where "LOOP_WARNING_BUCKET_SIZE = 10"
definition MAX_LOOP_WARNING_KEYS :: nat where "MAX_LOOP_WARNING_KEYS = 256"

section \<open>Helpers\<close>

definition normalizeToolName :: "string \<Rightarrow> string" where
  "normalizeToolName name =
     (let n = to_lower (trim name) in
      if n = ''bash'' then ''exec'' else if n = ''apply-patch'' then ''apply_patch'' else n)"

definition buildAdjustedParamsKey :: "string option \<Rightarrow> string \<Rightarrow> string" where
  "buildAdjustedParamsKey runId toolCallId =
     (case runId of
        Some r \<Rightarrow> if trim r \<noteq> [] then r @ '':'' @ toolCallId else toolCallId
      | None \<Rightarrow> toolCallId)"

definition mergeParamsWithApprovalOverrides :: "jsval \<Rightarrow> jsval option \<Rightarrow> jsval" where
  "mergeParamsWithApprovalOverrides originalParams approvalParams =
     (case approvalParams of
        Some (JObj ps) \<Rightarrow>
          (case originalParams of
             JObj os \<Rightarrow> JObj (foldl (\<lambda>acc (k, v). AList.update k v acc) os ps)
           | _ \<Rightarrow> JObj ps)
      | _ \<Rightarrow> originalParams)"

definition isAbortSignalCancellation :: "gateway_error \<Rightarrow> bool \<Rightarrow> bool" where
  "isAbortSignalCancellation err aborted =
     (if \<not> aborted then False
      else if ge_isReason err then True
      else ge_name err = Some ''AbortError'')"

text \<open>Adding to a table that keeps at most \<open>mx\<close> keys: the oldest key goes, unless it is empty.\<close>

definition put_evict :: "nat \<Rightarrow> string \<Rightarrow> 'v \<Rightarrow> (string \<times> 'v) list \<Rightarrow> (string \<times> 'v) list" where
  "put_evict mx k v m =
     (let m' = AList.update k v m in
      if mx < length m' \<and> fst (hd m') \<noteq> [] then AList.delete (fst (hd m')) m' else m')"

definition warning_buckets :: "session_state \<Rightarrow> (string \<times> int) list" where
  "warning_buckets s = or_default (ss_warningBuckets s) []"

definition shouldEmitLoopWarning :: "session_state \<Rightarrow> string \<Rightarrow> nat \<Rightarrow> bool \<times> session_state" where
  "shouldEmitLoopWarning state warningKey n =
     (let m = warning_buckets state;
          bucket = int (n div LOOP_WARNING_BUCKET_SIZE);
          lastBucket = or_default (map_of m warningKey) 0
      in if bucket \<le> lastBucket then (False, state\<lparr>ss_warningBuckets := Some m\<rparr>)
         else (True, state\<lparr>ss_warningBuckets :=
                 Some (put_evict MAX_LOOP_WARNING_KEYS warningKey bucket m)\<rparr>))"

section \<open>The loop check\<close>

definition loop_gate ::
    "(string \<Rightarrow> string) \<Rightarrow> int \<Rightarrow> string \<Rightarrow> HookContext \<Rightarrow> string \<Rightarrow> jsval \<Rightarrow> string option \<Rightarrow>
     session_registry \<Rightarrow> (js_exn + string option) \<times> loop_action list \<times> session_registry" where
  "loop_gate sha now sessionKey ctx toolName params toolCallId reg0 =
     (let (k, s, reg) = getDiagnosticSessionState now (Some sessionKey) (hc_agentId ctx) reg0;
          cfg = hc_loopDetection ctx;
          record = (\<lambda>acts s. case recordToolCall sha now s toolName params toolCallId cfg of
             (exn, s') \<Rightarrow> (case exn of Some e \<Rightarrow> Inl e | None \<Rightarrow> Inr None, acts, write_back k s' reg))
      in case detectToolCallLoop sha s toolName params cfg of
           Inl e \<Rightarrow> (Inl e, [], reg)
         | Inr NotStuck \<Rightarrow> record [] s
         | Inr (Stuck i) \<Rightarrow>
             if si_level i = LCritical
             then (Inr (Some (si_message i)), [LoopAction toolName i], reg)
             else (case shouldEmitLoopWarning s (si_warningKey i) (si_count i) of
                     (emit, s1) \<Rightarrow> record (if emit then [LoopAction toolName i] else []) s1))"

section \<open>The hook and its approval\<close>

definition decision_of :: "jsval \<Rightarrow> PluginApprovalResolution" where
  "decision_of d =
     (if d = JStr ''allow-once'' then ALLOW_ONCE
      else if d = JStr ''allow-always'' then ALLOW_ALWAYS
      else if d = JStr ''deny'' then DENY else TIMEOUT)"

definition approval_failed ::
    "gateway_error \<Rightarrow> bool \<Rightarrow> HookOutcome \<times> PluginApprovalResolution list" where
  "approval_failed err aborted =
     (Blocked (if isAbortSignalCancellation err aborted then ''Approval cancelled (run aborted)''
               else ''Plugin approval required (gateway unavailable)''), [CANCELLED])"

definition approval_decided ::
    "require_approval \<Rightarrow> jsval \<Rightarrow> jsval \<Rightarrow> jsval option \<Rightarrow> HookOutcome \<times> PluginApprovalResolution list"
  where
  "approval_decided approval decision params hookParams =
     (let resolution = decision_of decision;
          proceed = Proceed (mergeParamsWithApprovalOverrides params hookParams)
      in (if resolution = ALLOW_ONCE \<or> resolution = ALLOW_ALWAYS then proceed
          else if resolution = DENY then Blocked ''Denied by user''
          else if or_default (ra_timeoutBehavior approval) ''deny'' = ''allow'' then proceed
          else Blocked ''Approval timed out'', [resolution]))"

definition request_approval ::
    "require_approval \<Rightarrow> approval_world \<Rightarrow> jsval \<Rightarrow> jsval option \<Rightarrow>
     HookOutcome \<times> PluginApprovalResolution list" where
  "request_approval approval w params hookParams =
     (case aw_request w of
        Inl err \<Rightarrow> approval_failed err (aw_aborted w)
      | Inr reply \<Rightarrow>
          (case truthy_id (ar_id reply) of
             None \<Rightarrow>
               (Blocked (if ra_description approval = [] then ''Plugin approval request failed''
                         else ra_description approval), [CANCELLED])
           | Some _ \<Rightarrow>
               (case ar_decision reply of
                  Some JNull \<Rightarrow> (Blocked ''Plugin approval unavailable (no approval route)'', [CANCELLED])
                | Some decision \<Rightarrow> approval_decided approval decision params hookParams
                | None \<Rightarrow>
                    (case aw_wait w of
                       Inl err \<Rightarrow> approval_failed err (aw_aborted w)
                     | Inr decision \<Rightarrow> approval_decided approval decision params hookParams))))"

definition hook_decision ::
    "hook_reply \<Rightarrow> approval_world \<Rightarrow> jsval \<Rightarrow> HookOutcome \<times> PluginApprovalResolution list" where
  "hook_decision reply w params =
     (case reply of
        NoHooks \<Rightarrow> (Proceed params, [])
      | HookThrew \<Rightarrow> (Proceed params, [])
      | HookReturned None \<Rightarrow> (Proceed params, [])
      | HookReturned (Some r) \<Rightarrow>
          if hr_block r then
            (Blocked (or_default (truthy_id (hr_blockReason r)) ''Tool call blocked by plugin hook''), [])
          else (case hr_requireApproval r of
                  Some approval \<Rightarrow> request_approval approval w params (hr_params r)
                | None \<Rightarrow> (Proceed (case hr_params r of
                             Some p \<Rightarrow> mergeParamsWithApprovalOverrides params (Some p)
                           | None \<Rightarrow> params), [])))"

definition runBeforeToolCallHook ::
    "(string \<Rightarrow> string) \<Rightarrow> int \<Rightarrow> string \<Rightarrow> jsval \<Rightarrow> string option \<Rightarrow> HookContext option \<Rightarrow>
     hook_reply \<Rightarrow> approval_world \<Rightarrow> session_registry \<Rightarrow>
     (js_exn + HookOutcome) \<times> PluginApprovalResolution list \<times> loop_action list \<times> session_registry"
  where
  "runBeforeToolCallHook sha now rawName params toolCallId ctx reply w reg =
     (let toolName = normalizeToolName (if rawName = [] then ''tool'' else rawName);
          hook = (\<lambda>acts reg. case hook_decision reply w params of
                    (out, res) \<Rightarrow> (Inr out, res, acts, reg))
      in case ctx of
           None \<Rightarrow> hook [] reg
         | Some c \<Rightarrow>
             (case truthy_id (hc_sessionKey c) of
                None \<Rightarrow> hook [] reg
              | Some key \<Rightarrow>
                  (case loop_gate sha now key c toolName params toolCallId reg of
                     (verdict, acts, reg1) \<Rightarrow>
                       (case verdict of
                          Inl e \<Rightarrow> (Inl e, [], acts, reg1)
                        | Inr (Some reason) \<Rightarrow> (Inr (Blocked reason), [], acts, reg1)
                        | Inr None \<Rightarrow> hook acts reg1))))"

section \<open>The wrapped tool\<close>

text \<open>After a gate that lets the call through, its parameters are remembered under the call id,
  then the tool runs; \<open>recordLoopOutcome\<close> swallows the exceptions of the recording.\<close>

definition trackAdjustedParams ::
    "HookContext option \<Rightarrow> string option \<Rightarrow> jsval \<Rightarrow> gate_state \<Rightarrow> gate_state" where
  "trackAdjustedParams ctx toolCallId params st =
     (case truthy_id toolCallId of
        None \<Rightarrow> st
      | Some i \<Rightarrow>
          st\<lparr>gs_adjusted := put_evict MAX_TRACKED_ADJUSTED_PARAMS
            (buildAdjustedParamsKey (case ctx of None \<Rightarrow> None | Some c \<Rightarrow> hc_runId c) i) params
            (gs_adjusted st)\<rparr>)"

definition recordLoopOutcome ::
    "(string \<Rightarrow> string) \<Rightarrow> int \<Rightarrow> HookContext option \<Rightarrow> string \<Rightarrow> jsval \<Rightarrow> string option \<Rightarrow> jsval \<Rightarrow> jsval \<Rightarrow>
     session_registry \<Rightarrow> session_registry" where
  "recordLoopOutcome sha now ctx toolName toolParams toolCallId result err reg0 =
     (case ctx of
        None \<Rightarrow> reg0
      | Some c \<Rightarrow>
          (case truthy_id (hc_sessionKey c) of
             None \<Rightarrow> reg0
           | Some key \<Rightarrow>
               (let (k, s, reg) = getDiagnosticSessionState now (Some key) (hc_agentId c) reg0
                in write_back k (snd (recordToolCallOutcome sha now s toolName toolParams toolCallId
                     result err (hc_loopDetection c))) reg)))"

text \<open>One uninterrupted execution of a wrapped tool: \<open>exec\<close> is what the tool does with its
  parameters, a result on the right, a thrown value on the left.\<close>

datatype wrapped_result = ThrewError string | ThrewExn js_exn | ThrewValue jsval | Returned jsval

definition executeWrappedTool ::
    "(string \<Rightarrow> string) \<Rightarrow> int \<Rightarrow> int \<Rightarrow> string \<Rightarrow> HookContext option \<Rightarrow> string option \<Rightarrow> jsval \<Rightarrow>
     hook_reply \<Rightarrow> approval_world \<Rightarrow> (jsval \<Rightarrow> jsval + jsval) \<Rightarrow> gate_state \<Rightarrow>
     wrapped_result \<times> PluginApprovalResolution list \<times> loop_action list \<times> gate_state" where
  "executeWrappedTool sha now now' rawName ctx toolCallId params reply w exec st =
     (let name = (if rawName = [] then ''tool'' else rawName) in
      case runBeforeToolCallHook sha now name params toolCallId ctx reply w (gs_registry st) of
        (out, res, acts, reg) \<Rightarrow>
          (let st1 = st\<lparr>gs_registry := reg\<rparr> in
           case out of
             Inl e \<Rightarrow> (ThrewExn e, res, acts, st1)
           | Inr (Blocked reason) \<Rightarrow> (ThrewError reason, res, acts, st1)
           | Inr (Proceed ps) \<Rightarrow>
               (let st2 = trackAdjustedParams ctx toolCallId ps st1;
                    outcome = exec ps;
                    result = (case outcome of Inl e \<Rightarrow> JUndef | Inr v \<Rightarrow> v);
                    err = (case outcome of Inl e \<Rightarrow> e | Inr v \<Rightarrow> JUndef);
                    st3 = st2\<lparr>gs_registry := recordLoopOutcome sha now' ctx (normalizeToolName name) ps
                      toolCallId result err (gs_registry st2)\<rparr>
                in (case outcome of Inl e \<Rightarrow> ThrewValue e | Inr v \<Rightarrow> Returned v, res, acts, st3))))"

definition consumeAdjustedParamsForToolCall ::
    "string \<Rightarrow> string option \<Rightarrow> gate_state \<Rightarrow> jsval \<times> gate_state" where
  "consumeAdjustedParamsForToolCall toolCallId runId st =
     (let key = buildAdjustedParamsKey runId toolCallId in
      (or_default (map_of (gs_adjusted st) key) JUndef,
       st\<lparr>gs_adjusted := AList.delete key (gs_adjusted st)\<rparr>))"

end
