(* ===== verification/BeforeToolCallProps.thy ===== *)
theory BeforeToolCallProps
  imports BeforeToolCall
begin

text \<open>
  What the gate guarantees: a runaway loop is stopped across the gate, the registry, the
  detector and the recording; an approval lets a call through only on a positive decision and
  reports exactly one resolution; warnings are rate limited; the tables stay bounded.
\<close>

section \<open>A session that the registry keeps\<close>

definition keeps_session :: "string \<Rightarrow> session_state \<Rightarrow> session_registry \<Rightarrow> bool" where
  "keeps_session K s reg \<longleftrightarrow> registry_ok reg \<and> length (sr_states reg) \<le> session_state_max_entries \<and>
     map_of (sr_states reg) K = Some s"

lemma prune_keeps:
  assumes "keeps_session K s reg" and "\<not> session_expired now s"
  shows "keeps_session K s (pruneDiagnosticSessionStates now False reg)"
proof -
  have "map_of (filter (\<lambda>(k, s). \<not> session_expired now s) (sr_states reg)) K = Some s"
    using assms by (auto simp: keeps_session_def registry_ok_def map_of_eq_Some_iff distinct_filter_keys)
  moreover have "length (filter (\<lambda>(k, s). \<not> session_expired now s) (sr_states reg)) \<le>
      session_state_max_entries"
    using assms(1) length_filter_le order_trans unfolding keeps_session_def by blast
  ultimately show ?thesis
    using assms(1) prune_bounded [of reg now False]
    by (auto simp: keeps_session_def pruneDiagnosticSessionStates_def Let_def)
qed

lemma write_back_keeps:
  assumes "keeps_session K s reg"
  shows "keeps_session K s' (write_back K s' reg)"
proof -
  have "K \<in> fst ` set (sr_states reg)"
    using assms by (force simp: keeps_session_def dest: map_of_SomeD)
  then have "map_of (sr_states (write_back K s' reg)) K = Some s'"
    by (simp add: write_back_def update_conv')
  with assms show ?thesis by (simp add: keeps_session_def)
qed

lemma get_keeps:
  assumes "keeps_session K s reg" and "\<not> session_expired now s"
    and "getDiagnosticSessionState now (Some K) agent reg = (k, s', reg')"
  shows "k = K" and "keeps_session K s' reg'" and "history_of s' = history_of s"
    and "session_expired t s' = session_expired t s"
proof -
  note p = prune_keeps [OF assms(1,2)]
  then have "map_of (sr_states (pruneDiagnosticSessionStates now False reg)) K = Some s"
    by (simp add: keeps_session_def)
  then have eq: "k = K" "s' = (case truthy_id (Some K) of
        None \<Rightarrow> (case truthy_id agent of None \<Rightarrow> s | Some i \<Rightarrow> s\<lparr>ss_sessionId := Some i\<rparr>)
      | Some i \<Rightarrow> (case truthy_id agent of None \<Rightarrow> s | Some i \<Rightarrow> s\<lparr>ss_sessionId := Some i\<rparr>)\<lparr>ss_sessionKey := Some i\<rparr>)"
      "reg' = write_back K s' (pruneDiagnosticSessionStates now False reg)"
    using assms(3) by (auto simp: getDiagnosticSessionState_def existing_session_def
        resolveSessionKey_def Let_def)
  show "k = K" by (rule eq(1))
  show "keeps_session K s' reg'" unfolding eq(3) by (rule write_back_keeps [OF p])
  show "history_of s' = history_of s" "session_expired t s' = session_expired t s"
    unfolding eq(2) by (simp_all add: history_of_def session_expired_def split: option.split)
qed

text \<open>The history is all that the recording reads and writes of a session.\<close>

lemma recordToolCall_history:
  "history_of s = history_of s' \<Longrightarrow>
   history_of (snd (recordToolCall sha now s t p i cfg)) = history_of (snd (recordToolCall sha now s' t p i cfg))"
  by (simp add: recordToolCall_def Let_def split: sum.split)

lemma recordToolCallOutcome_history:
  "history_of s = history_of s' \<Longrightarrow>
   history_of (snd (recordToolCallOutcome sha now s t p i res err cfg)) =
   history_of (snd (recordToolCallOutcome sha now s' t p i res err cfg))"
  by (simp add: recordToolCallOutcome_def Let_def split: sum.split option.split)

lemma record_expired:
  "session_expired t (snd (recordToolCall sha now s tool p i cfg)) = session_expired t s"
  "session_expired t (snd (recordToolCallOutcome sha now s tool p i res err cfg)) = session_expired t s"
  "session_expired t (snd (shouldEmitLoopWarning s key n)) = session_expired t s"
  "history_of (snd (shouldEmitLoopWarning s key n)) = history_of s"
  by (auto simp: recordToolCall_def recordToolCallOutcome_def shouldEmitLoopWarning_def Let_def
      session_expired_def history_of_def split: sum.split option.split)

section \<open>One execution of the same call\<close>

lemma loop_gate_cases:
  assumes k: "keeps_session K s reg" and e: "\<not> session_expired now s"
    and a: "hashToolCall sha t p = Inr a"
  shows "(\<exists>reason acts reg'. loop_gate sha now K ctx t p i reg = (Inr (Some reason), acts, reg')) \<or>
    (\<exists>acts reg' s'. loop_gate sha now K ctx t p i reg = (Inr None, acts, reg') \<and>
       keeps_session K s' reg' \<and>
       history_of s' = history_of (snd (recordToolCall sha now s t p i (hc_loopDetection ctx))) \<and>
       (\<forall>u. session_expired u s' = session_expired u s))"
proof -
  obtain s1 reg1 where g: "getDiagnosticSessionState now (Some K) (hc_agentId ctx) reg = (K, s1, reg1)"
    and k1: "keeps_session K s1 reg1" and h1: "history_of s1 = history_of s"
    and x1: "\<And>u. session_expired u s1 = session_expired u s"
    using get_keeps [OF k e] by (cases "getDiagnosticSessionState now (Some K) (hc_agentId ctx) reg") blast
  have rec: "\<exists>acts reg' s'.
      (case recordToolCall sha now s2 t p i (hc_loopDetection ctx) of
         (exn, s') \<Rightarrow> (case exn of Some e \<Rightarrow> Inl e | None \<Rightarrow> Inr None, acts0, write_back K s' reg1)) =
        (Inr None, acts, reg') \<and> keeps_session K s' reg' \<and>
      history_of s' = history_of (snd (recordToolCall sha now s t p i (hc_loopDetection ctx))) \<and>
      (\<forall>u. session_expired u s' = session_expired u s)"
    if "history_of s2 = history_of s" "\<And>u. session_expired u s2 = session_expired u s" for s2 acts0
  proof -
    obtain s' where s': "recordToolCall sha now s2 t p i (hc_loopDetection ctx) = (None, s')"
      using a by (simp add: recordToolCall_def Let_def)
    then show ?thesis
      using write_back_keeps [OF k1] recordToolCall_history [OF that(1)] record_expired(1) that(2)
      by (intro exI [of _ acts0] exI [of _ "write_back K s' reg1"] exI [of _ s']) (metis case_prod_conv option.case(1) snd_conv)
  qed
  show ?thesis
  proof (cases "detectToolCallLoop sha s1 t p (hc_loopDetection ctx)")
    case (Inl e)
    then show ?thesis using a by (simp add: detectToolCallLoop_def Let_def split: if_splits)
  next
    case (Inr d)
    show ?thesis
    proof (cases d)
      case NotStuck
      with Inr g have "loop_gate sha now K ctx t p i reg =
          (case recordToolCall sha now s1 t p i (hc_loopDetection ctx) of
             (exn, s') \<Rightarrow> (case exn of Some e \<Rightarrow> Inl e | None \<Rightarrow> Inr None, [], write_back K s' reg1))"
        by (simp add: loop_gate_def Let_def)
      with rec [OF h1 x1, of "[]"] show ?thesis by (intro disjI2) (simp only:)
    next
      case (Stuck i')
      obtain em s2 where w: "shouldEmitLoopWarning s1 (si_warningKey i') (si_count i') = (em, s2)"
        by fastforce
      then have "history_of s2 = history_of s" "\<And>u. session_expired u s2 = session_expired u s"
        using record_expired(3) [of _ s1 "si_warningKey i'" "si_count i'"]
          record_expired(4) [of s1 "si_warningKey i'" "si_count i'"] h1 x1 by simp_all
      note r = rec [OF this, of "if em then [LoopAction t i'] else []"]
      show ?thesis
      proof (cases "si_level i' = LCritical")
        case True
        with Stuck Inr g show ?thesis by (intro disjI1) (simp add: loop_gate_def Let_def)
      next
        case False
        with Stuck Inr g w have "loop_gate sha now K ctx t p i reg =
            (case recordToolCall sha now s2 t p i (hc_loopDetection ctx) of
               (exn, s') \<Rightarrow> (case exn of Some e \<Rightarrow> Inl e | None \<Rightarrow> Inr None,
                  if em then [LoopAction t i'] else [], write_back K s' reg1))"
          by (simp add: loop_gate_def Let_def)
        with r show ?thesis by (intro disjI2) (simp only:)
      qed
    qed
  qed
qed

lemma recordLoopOutcome_keeps:
  assumes "keeps_session K s reg" and "\<not> session_expired now s"
    and "hc_sessionKey ctx = Some K" and "K \<noteq> []"
  shows "\<exists>s'. keeps_session K s' (recordLoopOutcome sha now (Some ctx) t p i res err reg) \<and>
    history_of s' = history_of (snd (recordToolCallOutcome sha now s t p i res err (hc_loopDetection ctx))) \<and>
    (\<forall>u. session_expired u s' = session_expired u s)"
proof -
  obtain s1 reg1 where g: "getDiagnosticSessionState now (Some K) (hc_agentId ctx) reg = (K, s1, reg1)"
    and k1: "keeps_session K s1 reg1" and h1: "history_of s1 = history_of s"
    and x1: "\<And>u. session_expired u s1 = session_expired u s"
    using get_keeps [OF assms(1,2)]
    by (cases "getDiagnosticSessionState now (Some K) (hc_agentId ctx) reg") blast
  let ?s = "snd (recordToolCallOutcome sha now s1 t p i res err (hc_loopDetection ctx))"
  have "recordLoopOutcome sha now (Some ctx) t p i res err reg = write_back K ?s reg1"
    using g assms(3,4) by (simp add: recordLoopOutcome_def truthy_id_def nonempty_def Let_def)
  then show ?thesis
    using write_back_keeps [OF k1, of ?s] recordToolCallOutcome_history [OF h1] x1
    by (intro exI [of _ ?s]) (simp add: record_expired)
qed

lemma execute_round:
  assumes k: "keeps_session K s (gs_registry st)"
    and e: "\<not> session_expired now s" "\<not> session_expired now' s"
    and c: "hc_sessionKey ctx = Some K" "K \<noteq> []"
    and t: "t = normalizeToolName (if name = [] then ''tool'' else name)"
    and a: "hashToolCall sha t p = Inr a" and x: "exec p = Inr v"
  shows "case executeWrappedTool sha now now' name (Some ctx) i p NoHooks w exec st of
    (out, res, acts, st') \<Rightarrow> (\<exists>reason. out = ThrewError reason) \<or>
      (out = Returned v \<and> (\<exists>s'. keeps_session K s' (gs_registry st') \<and>
         (\<forall>u. session_expired u s' = session_expired u s) \<and>
         history_of s' = history_of (snd (recordToolCallOutcome sha now'
           (snd (recordToolCall sha now s t p i (hc_loopDetection ctx))) t p i v JUndef
           (hc_loopDetection ctx)))))"
proof -
  let ?n = "if name = [] then ''tool'' else name"
  have nn: "(if ?n = [] then ''tool'' else ?n) = ?n" by simp
  have key: "truthy_id (hc_sessionKey ctx) = Some K" using c by (simp add: truthy_id_def nonempty_def)
  from loop_gate_cases [OF k e(1) a, of ctx i] show ?thesis
  proof (elim disjE exE conjE)
    fix reason acts reg'
    assume "loop_gate sha now K ctx t p i (gs_registry st) = (Inr (Some reason), acts, reg')"
    then show ?thesis
      unfolding executeWrappedTool_def runBeforeToolCallHook_def Let_def nn t [symmetric]
      by (simp add: key)
  next
    fix acts reg' s1
    assume g: "loop_gate sha now K ctx t p i (gs_registry st) = (Inr None, acts, reg')"
      and s1: "keeps_session K s1 reg'" "history_of s1 = history_of (snd (recordToolCall sha now s t p i
        (hc_loopDetection ctx)))" "\<forall>u. session_expired u s1 = session_expired u s"
    have ne: "\<not> session_expired now' s1" using s1(3) e(2) by simp
    have adj: "gs_registry (trackAdjustedParams (Some ctx) i p (st\<lparr>gs_registry := reg'\<rparr>)) = reg'"
      by (simp add: trackAdjustedParams_def split: option.split)
    obtain s2 where s2: "keeps_session K s2 (recordLoopOutcome sha now' (Some ctx) t p i v JUndef reg')"
      "history_of s2 = history_of (snd (recordToolCallOutcome sha now' s1 t p i v JUndef (hc_loopDetection ctx)))"
      "\<forall>u. session_expired u s2 = session_expired u s1"
      using recordLoopOutcome_keeps [OF s1(1) ne c, of sha t p i v JUndef] by blast
    have "executeWrappedTool sha now now' name (Some ctx) i p NoHooks w exec st =
      (Returned v, [], acts, (trackAdjustedParams (Some ctx) i p (st\<lparr>gs_registry := reg'\<rparr>))
         \<lparr>gs_registry := recordLoopOutcome sha now' (Some ctx) t p i v JUndef reg'\<rparr>)"
      unfolding executeWrappedTool_def runBeforeToolCallHook_def Let_def nn t [symmetric]
      by (simp add: key g hook_decision_def x adj)
    then show ?thesis
      using s2 s1(3) recordToolCallOutcome_history [OF s1(2)] by auto
  qed
qed

section \<open>A run of executions\<close>

text \<open>An agent that executes the same call again and again; a round has its two clock readings and
  the call id.\<close>

fun run_wrapped ::
    "(string \<Rightarrow> string) \<Rightarrow> string \<Rightarrow> HookContext \<Rightarrow> jsval \<Rightarrow> approval_world \<Rightarrow> (jsval \<Rightarrow> jsval + jsval) \<Rightarrow>
     (int \<times> int \<times> string option) list \<Rightarrow> gate_state \<Rightarrow> wrapped_result list" where
  "run_wrapped sha name ctx p w exec [] st = []"
| "run_wrapped sha name ctx p w exec ((now, now', i) # rounds) st =
     (case executeWrappedTool sha now now' name (Some ctx) i p NoHooks w exec st of
        (out, res, acts, st') \<Rightarrow> out # run_wrapped sha name ctx p w exec rounds st')"

lemma ends_with_outcomes_cong:
  "history_of s = history_of s' \<Longrightarrow> ends_with_outcomes t a h k s = ends_with_outcomes t a h k s'"
  by (simp add: ends_with_outcomes_def)

lemma blocked_now:
  assumes k: "keeps_session K s (gs_registry st)" and e: "\<not> session_expired now s"
    and c: "hc_sessionKey ctx = Some K" "K \<noteq> []"
    and t: "t = normalizeToolName (if name = [] then ''tool'' else name)"
    and a: "hashToolCall sha t p = Inr a" and h: "h \<noteq> []"
    and en: "rc_enabled (resolveLoopDetectionConfig (hc_loopDetection ctx))"
    and o: "ends_with_outcomes t a h
      (rc_globalCircuitBreakerThreshold (resolveLoopDetectionConfig (hc_loopDetection ctx))) s"
  shows "\<exists>reason res acts st'. executeWrappedTool sha now now' name (Some ctx) i p NoHooks w exec st =
    (ThrewError reason, res, acts, st')"
proof -
  let ?rc = "resolveLoopDetectionConfig (hc_loopDetection ctx)"
  let ?n = "if name = [] then ''tool'' else name"
  have nn: "(if ?n = [] then ''tool'' else ?n) = ?n" by simp
  obtain s1 reg1 where g: "getDiagnosticSessionState now (Some K) (hc_agentId ctx) (gs_registry st) = (K, s1, reg1)"
    and h1: "history_of s1 = history_of s"
    using get_keeps [OF k e]
    by (cases "getDiagnosticSessionState now (Some K) (hc_agentId ctx) (gs_registry st)") blast
  from o have "ends_with_outcomes t a h (rc_globalCircuitBreakerThreshold ?rc) s1"
    using ends_with_outcomes_cong [OF h1] by blast
  from decide_breaker [OF ends_with_outcomes_streak [OF this h]] obtain j where
    "decide_loop ?rc (history_of s1) t (isKnownPollToolCall t p) a = Stuck j" "si_level j = LCritical"
    by blast
  then have "detectToolCallLoop sha s1 t p (hc_loopDetection ctx) = Inr (Stuck j)"
    using en a by (simp add: detectToolCallLoop_def Let_def)
  with g \<open>si_level j = LCritical\<close>
  have "loop_gate sha now K ctx t p i (gs_registry st) = (Inr (Some (si_message j)), [LoopAction t j], reg1)"
    by (simp add: loop_gate_def Let_def)
  moreover have "truthy_id (hc_sessionKey ctx) = Some K" using c by (simp add: truthy_id_def nonempty_def)
  ultimately show ?thesis
    unfolding executeWrappedTool_def runBeforeToolCallHook_def Let_def nn t [symmetric] by simp
qed

lemma runaway_blocked:
  assumes c: "hc_sessionKey ctx = Some K" "K \<noteq> []"
    and t: "t = normalizeToolName (if name = [] then ''tool'' else name)"
    and a: "hashToolCall sha t p = Inr a" and x: "exec p = Inr v"
    and h: "hashToolOutcome sha t p v JUndef = Inr (Some h)" "h \<noteq> []"
    and rc: "rc = resolveLoopDetectionConfig (hc_loopDetection ctx)" "rc_enabled rc"
      "rc_globalCircuitBreakerThreshold rc \<le> rc_historySize rc"
    and k: "keeps_session K s (gs_registry st)" "ends_with_outcomes t a h k s"
    and e: "\<forall>(now, now', i) \<in> set rounds. \<not> session_expired now s \<and> \<not> session_expired now' s"
    and n: "k \<le> rc_globalCircuitBreakerThreshold rc" "rc_globalCircuitBreakerThreshold rc < k + length rounds"
  shows "\<exists>reason. ThrewError reason \<in> set (run_wrapped sha name ctx p w exec rounds st)"
  using k e n
proof (induction rounds arbitrary: k s st)
  case Nil
  then show ?case by simp
next
  case (Cons r rounds)
  obtain now now' i where r: "r = (now, now', i)" by (cases r)
  with Cons.prems(3) have e: "\<not> session_expired now s" "\<not> session_expired now' s" by auto
  obtain out res acts st' where ex:
    "executeWrappedTool sha now now' name (Some ctx) i p NoHooks w exec st = (out, res, acts, st')"
    by (metis prod.exhaust)
  have run: "run_wrapped sha name ctx p w exec (r # rounds) st =
      out # run_wrapped sha name ctx p w exec rounds st'"
    by (simp add: r ex)
  show ?case
  proof (cases "k = rc_globalCircuitBreakerThreshold rc")
    case True
    with blocked_now [OF Cons.prems(1) e(1) c t a h(2), of now' i w exec] rc(1,2) Cons.prems(2) ex
    show ?thesis by (auto simp: run)
  next
    case False
    from execute_round [where exec = exec and p = p and v = v and w = w and i = i,
        OF Cons.prems(1) e c t a x] ex
    consider reason where "out = ThrewError reason" | s' where "keeps_session K s' (gs_registry st')"
      "\<forall>u. session_expired u s' = session_expired u s"
      "history_of s' = history_of (snd (recordToolCallOutcome sha now'
         (snd (recordToolCall sha now s t p i (hc_loopDetection ctx))) t p i v JUndef (hc_loopDetection ctx)))"
      by auto
    then show ?thesis
    proof cases
      case 1
      then show ?thesis by (auto simp: run)
    next
      case 2
      have "ends_with_outcomes t a h (min (Suc k) (rc_historySize rc)) s'"
        unfolding ends_with_outcomes_cong [OF 2(3)] rc(1)
        by (rule round_extends [OF a h Cons.prems(2)])
      moreover have "Suc k \<le> rc_globalCircuitBreakerThreshold rc" using False Cons.prems(4) by simp
      ultimately have "ends_with_outcomes t a h (Suc k) s'" using rc(3) by simp
      from Cons.IH [OF 2(1) this] Cons.prems(3,5) 2(2) \<open>Suc k \<le> _\<close> show ?thesis
        by (auto simp: run)
    qed
  qed
qed

section \<open>Bounded tables\<close>

lemma update_length: "length (AList.update k v m) = (if k \<in> fst ` set m then length m else Suc (length m))"
proof -
  have "length (AList.update k v m) = length (map fst (AList.update k v m))" by simp
  also have "\<dots> = (if k \<in> fst ` set m then length m else Suc (length m))"
    by (simp add: update_keys)
  finally show ?thesis .
qed

lemma delete_hd_length: "m \<noteq> [] \<Longrightarrow> length (AList.delete (fst (hd m)) m) < length m"
  by (cases m) (auto simp: AList.delete_eq le_imp_less_Suc)

lemma hd_update: "m \<noteq> [] \<Longrightarrow> fst (hd (AList.update k v m)) = fst (hd m)"
  by (cases m) auto

text \<open>Within its bound the table keeps what was just put, and stays within its bound as long as
  its oldest key is not empty.\<close>

lemma put_evict_lookup:
  assumes "length m \<le> mx" and "0 < mx"
  shows "map_of (put_evict mx k v m) k = Some v"
proof (cases "mx < length (AList.update k v m) \<and> fst (hd (AList.update k v m)) \<noteq> []")
  case True
  with assms(1) have new: "k \<notin> fst ` set m" and len: "length m = mx"
    by (auto simp: update_length split: if_splits)
  with assms(2) have "m \<noteq> []" by auto
  then have "fst (hd (AList.update k v m)) = fst (hd m)" "fst (hd m) \<in> fst ` set m"
    by (simp_all add: hd_update)
  with new have "fst (hd (AList.update k v m)) \<noteq> k" by auto
  with True show ?thesis by (simp add: put_evict_def Let_def delete_conv' update_conv')
next
  case False
  then show ?thesis by (auto simp: put_evict_def Let_def update_conv')
qed

definition no_empty_key :: "(string \<times> 'v) list \<Rightarrow> bool" where
  "no_empty_key m \<longleftrightarrow> [] \<notin> fst ` set m"

lemma put_evict_bounded:
  assumes "length m \<le> mx" and "no_empty_key m" and "k \<noteq> []"
  shows "length (put_evict mx k v m) \<le> mx \<and> no_empty_key (put_evict mx k v m)"
proof -
  let ?m = "AList.update k v m"
  have "?m \<noteq> []" by (cases m) auto
  have keys: "no_empty_key ?m" using assms(2,3) by (auto simp: no_empty_key_def dom_update)
  with \<open>?m \<noteq> []\<close> have "fst (hd ?m) \<noteq> []" by (cases ?m) (auto simp: no_empty_key_def)
  moreover have "length ?m \<le> Suc mx" using assms(1) by (simp add: update_length)
  moreover have "no_empty_key (AList.delete x ?m)" for x
    using keys by (auto simp: no_empty_key_def AList.delete_eq)
  ultimately show ?thesis
    using keys delete_hd_length [OF \<open>?m \<noteq> []\<close>] by (auto simp: put_evict_def Let_def)
qed

section \<open>Warnings\<close>

text \<open>The answers of \<open>shouldEmitLoopWarning\<close> to a sequence of counts under one key.\<close>

fun warnings_emitted :: "string \<Rightarrow> nat list \<Rightarrow> session_state \<Rightarrow> bool list" where
  "warnings_emitted key [] s = []"
| "warnings_emitted key (n # ns) s =
     (case shouldEmitLoopWarning s key n of (emit, s') \<Rightarrow> emit # warnings_emitted key ns s')"

definition last_bucket :: "string \<Rightarrow> session_state \<Rightarrow> int" where
  "last_bucket key s = or_default (map_of (warning_buckets s) key) 0"

definition buckets_ok :: "session_state \<Rightarrow> bool" where
  "buckets_ok s \<longleftrightarrow> length (warning_buckets s) \<le> MAX_LOOP_WARNING_KEYS \<and> no_empty_key (warning_buckets s)"

lemma warning_buckets_update [simp]: "warning_buckets (s\<lparr>ss_warningBuckets := Some m\<rparr>) = m"
  by (simp add: warning_buckets_def or_default_def)

lemma shouldEmit_cases:
  assumes "buckets_ok s" and "key \<noteq> []" and "shouldEmitLoopWarning s key n = (emit, s')"
  shows "buckets_ok s'" and "emit \<longleftrightarrow> last_bucket key s < int (n div LOOP_WARNING_BUCKET_SIZE)"
    and "last_bucket key s' = max (last_bucket key s) (int (n div LOOP_WARNING_BUCKET_SIZE))"
proof -
  let ?b = "int (n div LOOP_WARNING_BUCKET_SIZE)" and ?m = "warning_buckets s"
  note p = put_evict_bounded [of ?m MAX_LOOP_WARNING_KEYS key ?b]
    put_evict_lookup [of ?m MAX_LOOP_WARNING_KEYS key ?b]
  have m: "0 < MAX_LOOP_WARNING_KEYS" by (simp add: MAX_LOOP_WARNING_KEYS_def)
  show "buckets_ok s'" and "emit \<longleftrightarrow> last_bucket key s < ?b" and "last_bucket key s' = max (last_bucket key s) ?b"
    using assms p m
    by (auto simp: shouldEmitLoopWarning_def Let_def buckets_ok_def last_bucket_def or_default_def
        max_def split: if_splits)
qed

lemma warnings_bound:
  assumes "buckets_ok s" and "key \<noteq> []" and "\<forall>n \<in> set ns. n \<le> N"
  shows "int (length (filter (\<lambda>b. b) (warnings_emitted key ns s))) \<le>
    max 0 (int (N div LOOP_WARNING_BUCKET_SIZE) - last_bucket key s)"
  using assms
proof (induction ns arbitrary: s)
  case Nil
  then show ?case by simp
next
  case (Cons n ns)
  obtain emit s' where e: "shouldEmitLoopWarning s key n = (emit, s')" by fastforce
  note c = shouldEmit_cases [OF Cons.prems(1,2) e]
  have "n div LOOP_WARNING_BUCKET_SIZE \<le> N div LOOP_WARNING_BUCKET_SIZE"
    using Cons.prems(3) by (simp add: div_le_mono)
  with Cons.IH [OF c(1) Cons.prems(2)] Cons.prems(3) c(2,3) show ?case
    by (auto simp: e max_def split: if_splits)
qed

section \<open>Rewritten parameters\<close>

text \<open>Rounds in which the call is recorded with the parameters the agent sent and its outcome with
  those a hook put in their place.\<close>

fun repeat_rewritten ::
    "(string \<Rightarrow> string) \<Rightarrow> ToolLoopDetectionConfig option \<Rightarrow> string \<Rightarrow> jsval \<Rightarrow> jsval \<Rightarrow>
     (int \<times> int \<times> string option \<times> jsval \<times> jsval) list \<Rightarrow> session_state \<Rightarrow> session_state" where
  "repeat_rewritten sha cfg t p p' [] st = st"
| "repeat_rewritten sha cfg t p p' ((now, now', callId, res, err) # rs) st =
     repeat_rewritten sha cfg t p p' rs
       (snd (recordToolCallOutcome sha now' (snd (recordToolCall sha now st t p callId cfg))
          t p' callId res err cfg))"

definition without_results :: "string \<Rightarrow> session_state \<Rightarrow> bool" where
  "without_results a st \<longleftrightarrow> (\<forall>r \<in> set (history_of st). tc_argsHash r = a \<longrightarrow> tc_resultHash r = None)"

lemma in_set_tlD: "x \<in> set (tl xs) \<Longrightarrow> x \<in> set xs"
  by (cases xs) auto

lemma recordToolCall_without:
  "without_results a st \<Longrightarrow> without_results a (snd (recordToolCall sha now st t p i cfg))"
  by (auto simp: without_results_def recordToolCall_def Let_def split: sum.split dest!: in_set_tlD)

lemma recordToolCallOutcome_without:
  assumes "without_results a st" and "hashToolCall sha t p' = Inr a'" and "a' \<noteq> a"
  shows "without_results a (snd (recordToolCallOutcome sha now st t p' i res err cfg))"
proof -
  let ?p = "awaits_outcome i t a'"
  have "tc_argsHash r = a \<longrightarrow> tc_resultHash r = None"
    if "r \<in> set (rev (update_first ?p (\<lambda>c. c\<lparr>tc_resultHash := Some h\<rparr>) (rev (history_of st))))" for r h
    using that assms(1,3) set_update_first [of ?p "\<lambda>c. c\<lparr>tc_resultHash := Some h\<rparr>" "rev (history_of st)"]
    by (auto simp: without_results_def awaits_outcome_def same_call_def)
  then show ?thesis
    using assms
    by (auto simp: without_results_def recordToolCallOutcome_def Let_def split: sum.split option.split
        dest!: in_set_dropD)
qed

lemma repeat_rewritten_without:
  assumes "hashToolCall sha t p' = Inr a'" and "a' \<noteq> a"
  shows "without_results a st \<Longrightarrow> without_results a (repeat_rewritten sha cfg t p p' rounds st)"
proof (induction rounds arbitrary: st)
  case (Cons r rounds)
  show ?case
    by (cases r) (simp add: Cons.IH Cons.prems recordToolCall_without
        recordToolCallOutcome_without [OF _ assms])
qed simp

lemma no_matching_results:
  "\<forall>r \<in> set hs. tc_argsHash r = a \<longrightarrow> tc_resultHash r = None \<Longrightarrow> matching_results hs t a = []"
  by (induction hs) (auto simp: matching_results_Cons same_call_def truthy_id_def)

lemma without_results_no_critical:
  assumes "without_results a st" and "hashToolCall sha t p = Inr a"
    and "detectToolCallLoop sha st t p cfg = Inr (Stuck i)"
  shows "si_level i = LWarning"
proof (rule ccontr)
  let ?rc = "resolveLoopDetectionConfig cfg" and ?h = "history_of st"
  assume "si_level i \<noteq> LWarning"
  then have l: "si_level i = LCritical" by (cases "si_level i") auto
  from assms(2,3) have "decide_loop ?rc ?h t (isKnownPollToolCall t p) a = Stuck i"
    by (auto simp: detectToolCallLoop_def Let_def split: if_splits)
  note d = decide_critical [OF this l resolved_sizes(3)]
  have pos: "0 < rc_criticalThreshold ?rc" using resolved_sizes(1,2) [of cfg] by simp
  have z: "fst (getNoProgressStreak ?h t a) = 0"
    using assms(1) by (simp add: getNoProgressStreak_run no_matching_results without_results_def final_run_def)
  have c: "0 < si_count i" using d pos by (rule order.strict_trans2 [OF _ conjunct1, rotated])
  have "si_detector i = PingPong"
    using conjunct2 [OF d] c z by (metis less_not_refl)
  then have pp: "0 < pp_count (getPingPongStreak ?h a)" "pp_noProgressEvidence (getPingPongStreak ?h a)"
    using conjunct2 [OF d] c by (metis+)
  from getPingPongStreak_evidence [OF pp(1)] obtain n where
    n: "pp_count (getPingPongStreak ?h a) = n + 1" "2 \<le> n" "n \<le> length ?h" by blast
  have o: "alternating_outcomes ?h a (n + 1)" using ping_pong_alternates [OF pp] n(1) by simp
  then obtain b ha hb where "\<forall>i < n. tc_argsHash (rev ?h ! i) = (if even i then b else a) \<and>
      tc_resultHash (rev ?h ! i) = Some (if even i then hb else ha)"
    unfolding alternating_outcomes_def add_diff_cancel_right' by blast
  moreover have "1 < n" using n(2) by linarith
  ultimately have "tc_argsHash (rev ?h ! 1) = (if even (1 :: nat) then b else a) \<and>
      tc_resultHash (rev ?h ! 1) = Some (if even (1 :: nat) then hb else ha)" by blast
  then have "tc_argsHash (rev ?h ! 1) = a \<and> tc_resultHash (rev ?h ! 1) \<noteq> None"
    by (simp only: odd_one if_False option.distinct simp_thms)
  moreover have "1 < length (rev ?h)" using n(2,3) unfolding length_rev by linarith
  then have "rev ?h ! 1 \<in> set ?h" using nth_mem set_rev by metis
  with assms(1) have "tc_argsHash (rev ?h ! 1) = a \<longrightarrow> tc_resultHash (rev ?h ! 1) = None"
    unfolding without_results_def by (rule bspec)
  ultimately show False by simp
qed

section \<open>Properties\<close>


definition poll_context :: HookContext where
  "poll_context = \<lparr>hc_agentId = Some ''main'', hc_sessionKey = Some ''k'', hc_sessionId = None,
     hc_runId = None, hc_loopDetection = small_config\<rparr>"

definition poll_gate :: gate_state where
  "poll_gate = \<lparr>gs_registry = \<lparr>sr_states = [(''k'', idle_session)], sr_lastPruneAt = 0\<rparr>, gs_adjusted = []\<rparr>"

definition no_gateway :: approval_world where
  "no_gateway = \<lparr>aw_request = Inl \<lparr>ge_isReason = False, ge_name = None\<rparr>,
     aw_wait = Inl \<lparr>ge_isReason = False, ge_name = None\<rparr>, aw_aborted = False\<rparr>"


text \<open>A tool call that a plugin holds for approval goes ahead only on an explicit \<open>allow-once\<close> or
  \<open>allow-always\<close>, or on an answer that is no decision when the plugin asked for timeouts to be
  allowed; a denial, a missing approval route, a failed request, a gateway error and an abort
  all block it. Every path reports exactly one resolution to the plugin, an allowing one only
  when the call goes ahead.\<close>

theorem approval_needs_decision:
  "case request_approval approval w params hookParams of (out, resolutions) \<Rightarrow>
     \<exists>r. resolutions = [r] \<and>
       (out = Proceed (mergeParamsWithApprovalOverrides params hookParams) \<longleftrightarrow>
         r = ALLOW_ONCE \<or> r = ALLOW_ALWAYS \<or>
         (r = TIMEOUT \<and> ra_timeoutBehavior approval = Some ''allow'')) \<and>
       (out \<noteq> Proceed (mergeParamsWithApprovalOverrides params hookParams) \<longrightarrow> (\<exists>why. out = Blocked why)) \<and>
       (r = ALLOW_ONCE \<or> r = ALLOW_ALWAYS \<longrightarrow> (\<exists>reply. aw_request w = Inr reply \<and>
         (ar_decision reply \<in> {Some (JStr ''allow-once''), Some (JStr ''allow-always'')} \<or>
          ar_decision reply = None \<and>
          aw_wait w \<in> {Inr (JStr ''allow-once''), Inr (JStr ''allow-always'')})))"
proof -
  have decided: "\<exists>r. snd (approval_decided approval d params hookParams) = [r] \<and> r = decision_of d \<and>
      fst (approval_decided approval d params hookParams) =
        (if r = ALLOW_ONCE \<or> r = ALLOW_ALWAYS \<or> (r = TIMEOUT \<and> ra_timeoutBehavior approval = Some ''allow'')
         then Proceed (mergeParamsWithApprovalOverrides params hookParams)
         else Blocked (if r = DENY then ''Denied by user'' else ''Approval timed out''))" for d
    by (auto simp: approval_decided_def decision_of_def or_default_def Let_def split: option.split)
  have allowing: "decision_of d = ALLOW_ONCE \<or> decision_of d = ALLOW_ALWAYS \<Longrightarrow>
      d = JStr ''allow-once'' \<or> d = JStr ''allow-always''" for d
    by (auto simp: decision_of_def split: if_splits)
  show ?thesis
  proof (cases "aw_request w")
    case (Inl err)
    then show ?thesis by (simp add: request_approval_def approval_failed_def)
  next
    case (Inr reply)
    consider "truthy_id (ar_id reply) = None" | i where "truthy_id (ar_id reply) = Some i" "ar_decision reply = Some JNull"
      | i d where "truthy_id (ar_id reply) = Some i" "ar_decision reply = Some d" "d \<noteq> JNull"
      | i err where "truthy_id (ar_id reply) = Some i" "ar_decision reply = None" "aw_wait w = Inl err"
      | i d where "truthy_id (ar_id reply) = Some i" "ar_decision reply = None" "aw_wait w = Inr d"
      by (metis old.sum.exhaust option.exhaust)
    then show ?thesis
    proof cases
      case (3 i d)
      then have "request_approval approval w params hookParams = approval_decided approval d params hookParams"
        using Inr by (simp add: request_approval_def split: jsval.split)
      with decided [of d] allowing [of d] 3 Inr show ?thesis
        by (cases "approval_decided approval d params hookParams") auto
    next
      case (5 i d)
      then have "request_approval approval w params hookParams = approval_decided approval d params hookParams"
        using Inr by (simp add: request_approval_def)
      with decided [of d] allowing [of d] 5 Inr show ?thesis
        by (cases "approval_decided approval d params hookParams") auto
    qed (simp_all add: Inr request_approval_def approval_failed_def)
  qed
qed

definition held_call :: require_approval where
  "held_call = \<lparr>ra_description = ''Run the command?'', ra_timeoutBehavior = Some ''deny''\<rparr>"

definition allowing_gateway :: approval_world where
  "allowing_gateway = \<lparr>aw_request = Inr \<lparr>ar_id = Some ''a1'', ar_decision = None\<rparr>,
     aw_wait = Inr (JStr ''allow-once''), aw_aborted = False\<rparr>"

theorem approval_needs_decision_witness:
  "fst (request_approval held_call allowing_gateway poll_params None) = Proceed poll_params"
proof -
  have "snd (request_approval held_call allowing_gateway poll_params None) = [ALLOW_ONCE]" by code_simp
  with approval_needs_decision [where approval = held_call and w = allowing_gateway and
    params = poll_params and hookParams = None] show ?thesis
    by (simp add: split_beta mergeParamsWithApprovalOverrides_def)
qed

text \<open>Loop warnings are rate limited: while a session's warning table is within its bound, the
  calls that share a warning key and repeat at most \<open>N\<close> times produce at most one warning per
  started bucket of ten, so at most \<open>N div 10\<close> in all, however often the counts come back.\<close>

theorem warnings_rate_limited:
  assumes "length (warning_buckets s) \<le> MAX_LOOP_WARNING_KEYS" and "no_empty_key (warning_buckets s)"
    and "key \<noteq> []" and "map_of (warning_buckets s) key = None" and "\<forall>n \<in> set ns. n \<le> N"
  shows "length (filter (\<lambda>b. b) (warnings_emitted key ns s)) \<le> N div 10"
  using warnings_bound [OF _ assms(3,5), of s] assms(1,2,4)
  by (simp add: buckets_ok_def last_bucket_def or_default_def LOOP_WARNING_BUCKET_SIZE_def)

theorem warnings_rate_limited_witness:
  "length (filter (\<lambda>b. b) (warnings_emitted ''poll:x'' [10, 11, 12, 20, 21] idle_session)) \<le> 21 div 10"
  by (rule warnings_rate_limited)
    (simp_all add: idle_session_def new_session_def warning_buckets_def or_default_def no_empty_key_def)

text \<open>When a plugin hook rewrites the parameters of a call, the detector loses track of it: the
  call is recorded under the parameters the agent sent, its outcome under those that were
  executed, so the call's own records never get a result. However often such a call is
  repeated with one unchanged outcome, it is never blocked; it can only be warned about.\<close>

theorem rewritten_calls_never_blocked:
  assumes "hashToolCall sha t p = Inr a" and "hashToolCall sha t p' = Inr a'" and "a' \<noteq> a"
    and "history_of st = []"
    and "detectToolCallLoop sha (repeat_rewritten sha cfg t p p' rounds st) t p cfg = Inr (Stuck i)"
  shows "si_level i = LWarning"
proof -
  have "without_results a st" using assms(4) by (simp add: without_results_def)
  from without_results_no_critical [OF repeat_rewritten_without [OF assms(2,3) this] assms(1,5)]
  show ?thesis .
qed

theorem rewritten_calls_never_blocked_witness:
  "case detectToolCallLoop id (repeat_rewritten id small_config ''process'' poll_params (JObj [])
     (replicate 4 poll_round) idle_session) ''process'' poll_params small_config of
     Inr (Stuck i) \<Rightarrow> si_level i = LWarning | _ \<Rightarrow> False"
proof -
  let ?d = "detectToolCallLoop id (repeat_rewritten id small_config ''process'' poll_params (JObj [])
     (replicate 4 poll_round) idle_session) ''process'' poll_params small_config"
  have "(case ?d of Inr (Stuck i) \<Rightarrow> True | _ \<Rightarrow> False)" by code_simp
  then obtain i where i: "?d = Inr (Stuck i)" by (auto split: sum.splits LoopDetectionResult.splits)
  have "hashToolCall id ''process'' (JObj []) = Inr ''process:{}''" by code_simp
  moreover have "''process:{}'' \<noteq> poll_args_hash" by code_simp
  moreover have "history_of idle_session = []"
    by (simp add: idle_session_def new_session_def history_of_def or_default_def)
  ultimately have "si_level i = LWarning"
    using rewritten_calls_never_blocked [OF poll_hash _ _ _ i] by blast
  with i show ?thesis by simp
qed

text \<open>The parameters a call was let through with can be fetched by its id exactly once: what was
  tracked is what \<open>consumeAdjustedParamsForToolCall\<close> returns for the same run and call, a second
  fetch finds nothing, and the table never holds more than 1024 calls.\<close>

theorem adjusted_params_roundtrip:
  assumes "length (gs_adjusted st) \<le> MAX_TRACKED_ADJUSTED_PARAMS" and "no_empty_key (gs_adjusted st)"
    and "callId \<noteq> []"
  shows "let st1 = trackAdjustedParams (Some ctx) (Some callId) ps st;
             (v, st2) = consumeAdjustedParamsForToolCall callId (hc_runId ctx) st1;
             (v', st3) = consumeAdjustedParamsForToolCall callId (hc_runId ctx) st2
    in v = ps \<and> v' = JUndef \<and> length (gs_adjusted st1) \<le> MAX_TRACKED_ADJUSTED_PARAMS"
proof -
  let ?k = "buildAdjustedParamsKey (hc_runId ctx) callId"
  have "?k \<noteq> []" using assms(3) by (simp add: buildAdjustedParamsKey_def split: option.split)
  moreover have "truthy_id (Some callId) = Some callId" using assms(3) by (simp add: truthy_id_def nonempty_def)
  ultimately show ?thesis
    using put_evict_lookup [OF assms(1), of ?k ps] put_evict_bounded [OF assms(1,2), of ?k ps]
    by (simp add: trackAdjustedParams_def consumeAdjustedParamsForToolCall_def Let_def or_default_def
        delete_conv' MAX_TRACKED_ADJUSTED_PARAMS_def)
qed

theorem adjusted_params_roundtrip_witness:
  "fst (consumeAdjustedParamsForToolCall ''c'' None
     (trackAdjustedParams (Some poll_context) (Some ''c'') poll_params poll_gate)) = poll_params"
proof -
  have "length (gs_adjusted poll_gate) \<le> MAX_TRACKED_ADJUSTED_PARAMS" "no_empty_key (gs_adjusted poll_gate)"
    "''c'' \<noteq> []"
    by (simp_all add: poll_gate_def no_empty_key_def)
  from adjusted_params_roundtrip [OF this, of poll_context poll_params] show ?thesis
    by (simp add: Let_def poll_context_def split_beta)
qed

end
