(* ===== verification/BoundedMemo.thy ===== *)
theory BoundedMemo
  imports Prelude "HOL-Library.AList"
begin

text \<open>
  One interface for the caches of the program: a bounded memo of a function. The instances, in \<open>CronCaches\<close> and
  \<open>AgentIds\<close>, show that going through a cache gives the answers of the function and that the cache stays bounded;
  the rest of the model calls the functions themselves.
\<close>

section \<open>The interface\<close>

locale bounded_memo =
  fixes call :: "'k \<Rightarrow> 'c \<Rightarrow> 'r \<times> 'c"
    and f :: "'k \<Rightarrow> 'r"
    and admissible :: "'k \<Rightarrow> bool"
    and inv :: "'c \<Rightarrow> bool"
    and entries :: "'c \<Rightarrow> nat"
    and limit :: nat
  assumes call_value: "inv c \<Longrightarrow> admissible k \<Longrightarrow> fst (call k c) = f k"
    and call_inv: "inv c \<Longrightarrow> admissible k \<Longrightarrow> inv (snd (call k c))"
    and inv_bounded: "inv c \<Longrightarrow> entries c \<le> limit"
begin

fun calls :: "'k list \<Rightarrow> 'c \<Rightarrow> 'r list \<times> 'c" where
  "calls [] c = ([], c)"
| "calls (k # ks) c = (case call k c of (r, c') \<Rightarrow> case calls ks c' of (rs, c'') \<Rightarrow> (r # rs, c''))"

lemma calls_transparent:
  assumes "inv c" and "\<forall>k \<in> set ks. admissible k"
  shows "fst (calls ks c) = map f ks \<and> inv (snd (calls ks c)) \<and> entries (snd (calls ks c)) \<le> limit"
  using assms
proof (induction ks arbitrary: c)
  case Nil
  then show ?case by (simp add: inv_bounded)
next
  case (Cons k ks)
  then have "fst (call k c) = f k" and i: "inv (snd (call k c))" by (simp_all add: call_value call_inv)
  moreover from Cons.IH [OF i] Cons.prems(2)
  have "fst (calls ks (snd (call k c))) = map f ks \<and> inv (snd (calls ks (snd (call k c)))) \<and>
      entries (snd (calls ks (snd (call k c)))) \<le> limit" by simp
  ultimately show ?case by (simp add: split_beta)
qed

end

section \<open>Maps in insertion order\<close>

text \<open>\<open>Map.delete\<close> of the oldest key of a full map.\<close>

definition drop_oldest :: "nat \<Rightarrow> (string \<times> 'v) list \<Rightarrow> (string \<times> 'v) list" where
  "drop_oldest mx m = (if mx \<le> length m then (case m of [] \<Rightarrow> [] | (k, v) # r \<Rightarrow> AList.delete k m) else m)"

definition cache_ok :: "nat \<Rightarrow> (string \<Rightarrow> 'v \<Rightarrow> bool) \<Rightarrow> (string \<times> 'v) list \<Rightarrow> bool" where
  "cache_ok mx P m \<longleftrightarrow> distinct (map fst m) \<and> length m \<le> mx \<and> (\<forall>(k, v) \<in> set m. P k v)"

lemma drop_oldest_ok:
  assumes "cache_ok mx P m" and "0 < mx"
  shows "cache_ok mx P (drop_oldest mx m)" and "length (drop_oldest mx m) < mx"
proof -
  have del: "cache_ok mx P (AList.delete k m)" for k
  proof -
    have "set (AList.delete k m) \<subseteq> set m" unfolding AList.delete_eq by (rule filter_is_subset)
    moreover have "length (AList.delete k m) \<le> length m" by (rule length_delete_le)
    moreover have "distinct (map fst m) \<Longrightarrow> distinct (map fst (AList.delete k m))" by (rule distinct_delete)
    ultimately show ?thesis using assms(1) unfolding cache_ok_def by fastforce
  qed
  show "cache_ok mx P (drop_oldest mx m)"
  proof (cases m)
    case Nil
    then show ?thesis using assms by (simp add: drop_oldest_def)
  next
    case (Cons x r)
    then show ?thesis using assms(1) del [of "fst x"] by (cases x) (simp add: drop_oldest_def)
  qed
  show "length (drop_oldest mx m) < mx"
  proof (cases "mx \<le> length m")
    case False
    then show ?thesis by (simp add: drop_oldest_def)
  next
    case True
    with assms obtain k v r where m: "m = (k, v) # r" by (cases m) auto
    then have "drop_oldest mx m = AList.delete k r" using True by (simp add: drop_oldest_def)
    moreover have "length (AList.delete k r) \<le> length r" by (rule length_delete_le)
    moreover have "length r < mx" using m assms(1) by (simp add: cache_ok_def)
    ultimately show ?thesis by simp
  qed
qed

lemma update_ok:
  assumes "cache_ok mx P m" and "length m < mx" and "P k v"
  shows "cache_ok mx P (AList.update k v m)"
proof -
  have "length (AList.update k v m) \<le> Suc (length m)"
    by (induction m) auto
  moreover have "set (AList.update k v m) \<subseteq> insert (k, v) (set m)"
    by (induction m) auto
  ultimately show ?thesis
    using assms by (auto simp: cache_ok_def distinct_update)
qed

lemma cache_ok_lookup: "cache_ok mx P m \<Longrightarrow> map_of m k = Some v \<Longrightarrow> P k v"
  by (auto simp: cache_ok_def dest!: map_of_SomeD)

end
