(* ===== verification/AgentIds.thy ===== *)
theory AgentIds
  imports BoundedMemo
begin

text \<open>
  The normal form of agent and account ids: \<open>normalizeAgentId\<close> of \<open>src/routing/session-key.ts\<close> and
  \<open>src/routing/account-id.ts\<close> with its two caches, and the keys of \<open>src/infra/prototype-keys.ts\<close>.
\<close>

section \<open>Agent ids\<close>

definition id_char :: "char \<Rightarrow> bool" where
  "id_char c = (let n = (of_char c :: nat) in
     (48 \<le> n \<and> n \<le> 57) \<or> (97 \<le> n \<and> n \<le> 122) \<or> c = CHR ''_'' \<or> c = CHR ''-'')"

definition id_char_ci :: "char \<Rightarrow> bool" where
  "id_char_ci c = (let n = (of_char c :: nat) in id_char c \<or> (65 \<le> n \<and> n \<le> 90))"

text \<open>\<open>VALID_ID_RE\<close>, the collapse of every run of other characters to one dash, and the cut of
  leading and trailing dashes.\<close>

definition valid_id :: "string \<Rightarrow> bool" where
  "valid_id s = (case s of
     [] \<Rightarrow> False
   | c # cs \<Rightarrow> id_char_ci c \<and> c \<noteq> CHR ''_'' \<and> c \<noteq> CHR ''-'' \<and> length cs \<le> 63 \<and> list_all id_char_ci cs)"

fun collapse_invalid :: "bool \<Rightarrow> string \<Rightarrow> string" where
  "collapse_invalid inrun [] = []"
| "collapse_invalid inrun (c # cs) =
     (if id_char c then c # collapse_invalid False cs
      else if inrun then collapse_invalid True cs else CHR ''-'' # collapse_invalid True cs)"

definition cut_dashes :: "string \<Rightarrow> string" where
  "cut_dashes s = rev (dropWhile (\<lambda>c. c = CHR ''-'') (rev (dropWhile (\<lambda>c. c = CHR ''-'') s)))"

definition normalizeAgentId :: "string option \<Rightarrow> string" where
  "normalizeAgentId value =
     (let trimmed = (case value of None \<Rightarrow> [] | Some v \<Rightarrow> trim v) in
      if trimmed = [] then ''main''
      else if valid_id trimmed then to_lower trimmed
      else (let s = take 64 (cut_dashes (collapse_invalid False (to_lower trimmed)))
            in if s = [] then ''main'' else s))"

definition isValidAgentId :: "string option \<Rightarrow> bool" where
  "isValidAgentId value = (let trimmed = trim (or_default value []) in trimmed \<noteq> [] \<and> valid_id trimmed)"

definition sanitizeAgentId :: "string option \<Rightarrow> string" where
  "sanitizeAgentId value = normalizeAgentId value"

section \<open>Account ids\<close>

definition isBlockedObjectKey :: "string \<Rightarrow> bool" where
  "isBlockedObjectKey key = (key \<in> {''__proto__'', ''prototype'', ''constructor''})"

definition DEFAULT_ACCOUNT_ID :: string where "DEFAULT_ACCOUNT_ID = ''default''"
definition ACCOUNT_ID_CACHE_MAX :: nat where "ACCOUNT_ID_CACHE_MAX = 512"

definition canonicalizeAccountId :: "string \<Rightarrow> string" where
  "canonicalizeAccountId value =
     (if valid_id value then to_lower value else take 64 (cut_dashes (collapse_invalid False (to_lower value))))"

definition normalizeCanonicalAccountId :: "string \<Rightarrow> string option" where
  "normalizeCanonicalAccountId value =
     (let canonical = canonicalizeAccountId value in
      if canonical = [] \<or> isBlockedObjectKey canonical then None else Some canonical)"

text \<open>What the two exported functions compute for a trimmed value that is not empty, and the functions with their
  caches. A cache is a \<open>Map\<close>: its list is in insertion order.\<close>

definition account_id :: "string \<Rightarrow> string" where
  "account_id trimmed = or_default (normalizeCanonicalAccountId trimmed) DEFAULT_ACCOUNT_ID"

definition setNormalizeCache :: "(string \<times> 'v) list \<Rightarrow> string \<Rightarrow> 'v \<Rightarrow> (string \<times> 'v) list" where
  "setNormalizeCache cache key value =
     (let m = AList.update key value cache in
      if length m \<le> ACCOUNT_ID_CACHE_MAX then m
      else (case m of [] \<Rightarrow> [] | (k, v) # r \<Rightarrow> AList.delete k m))"

definition cached_account_id :: "string option \<Rightarrow> (string \<times> string) list \<Rightarrow> string \<times> (string \<times> string) list" where
  "cached_account_id value cache =
     (let trimmed = trim (or_default value []) in
      if trimmed = [] then (DEFAULT_ACCOUNT_ID, cache)
      else (case map_of cache trimmed of
              Some c \<Rightarrow> if c \<noteq> [] then (c, cache) else (account_id trimmed, setNormalizeCache cache trimmed (account_id trimmed))
            | None \<Rightarrow> (account_id trimmed, setNormalizeCache cache trimmed (account_id trimmed))))"

definition cached_optional_account_id ::
    "string option \<Rightarrow> (string \<times> string option) list \<Rightarrow> string option \<times> (string \<times> string option) list" where
  "cached_optional_account_id value cache =
     (let trimmed = trim (or_default value []) in
      if trimmed = [] then (None, cache)
      else (case map_of cache trimmed of
              Some c \<Rightarrow> (c, cache)
            | None \<Rightarrow> (normalizeCanonicalAccountId trimmed,
                setNormalizeCache cache trimmed (normalizeCanonicalAccountId trimmed))))"

text \<open>The functions without their caches, which the rest of the model calls.\<close>

definition normalizeAccountId :: "string option \<Rightarrow> string" where
  "normalizeAccountId value =
     (let trimmed = trim (or_default value []) in if trimmed = [] then DEFAULT_ACCOUNT_ID else account_id trimmed)"

definition normalizeOptionalAccountId :: "string option \<Rightarrow> string option" where
  "normalizeOptionalAccountId value =
     (let trimmed = trim (or_default value []) in if trimmed = [] then None else normalizeCanonicalAccountId trimmed)"

section \<open>The caches are transparent\<close>

lemma set_cache_ok:
  assumes "cache_ok ACCOUNT_ID_CACHE_MAX P m" and "P k v"
  shows "cache_ok ACCOUNT_ID_CACHE_MAX P (setNormalizeCache m k v)"
proof -
  let ?u = "AList.update k v m"
  have len: "length ?u \<le> Suc (length m)" by (induction m) auto
  have sub: "set ?u \<subseteq> insert (k, v) (set m)" by (induction m) auto
  have dist: "distinct (map fst ?u)" using assms(1) by (simp add: cache_ok_def distinct_update)
  have all: "\<forall>(k, v) \<in> set ?u. P k v" using sub assms by (fastforce simp: cache_ok_def)
  show ?thesis
  proof (cases "length ?u \<le> ACCOUNT_ID_CACHE_MAX")
    case True
    then show ?thesis using dist all by (simp add: setNormalizeCache_def cache_ok_def)
  next
    case False
    then obtain i w r where u: "?u = (i, w) # r" by (cases ?u) auto
    then have "setNormalizeCache m k v = r" "i \<notin> fst ` set r"
      using False dist by (auto simp: setNormalizeCache_def)
    then show ?thesis using len assms(1) dist all u by (auto simp: cache_ok_def)
  qed
qed

definition account_cache_ok :: "(string \<times> string) list \<Rightarrow> bool" where
  "account_cache_ok = cache_ok ACCOUNT_ID_CACHE_MAX (\<lambda>k v. v = account_id k)"

definition optional_cache_ok :: "(string \<times> string option) list \<Rightarrow> bool" where
  "optional_cache_ok = cache_ok ACCOUNT_ID_CACHE_MAX (\<lambda>k v. v = normalizeCanonicalAccountId k)"

interpretation acc: bounded_memo cached_account_id normalizeAccountId "\<lambda>_. True" account_cache_ok length ACCOUNT_ID_CACHE_MAX
proof unfold_locales
  fix c k
  assume ok: "account_cache_ok c"
  show "fst (cached_account_id k c) = normalizeAccountId k"
    using cache_ok_lookup [OF ok [unfolded account_cache_ok_def]]
    by (auto simp: cached_account_id_def normalizeAccountId_def Let_def split: option.split)
  show "account_cache_ok (snd (cached_account_id k c))"
    using ok set_cache_ok [of "\<lambda>k v. v = account_id k"]
    by (auto simp: cached_account_id_def account_cache_ok_def Let_def split: option.split)
qed (simp add: account_cache_ok_def cache_ok_def)

interpretation oacc: bounded_memo cached_optional_account_id normalizeOptionalAccountId "\<lambda>_. True" optional_cache_ok length
    ACCOUNT_ID_CACHE_MAX
proof unfold_locales
  fix c k
  assume ok: "optional_cache_ok c"
  show "fst (cached_optional_account_id k c) = normalizeOptionalAccountId k"
    using cache_ok_lookup [OF ok [unfolded optional_cache_ok_def]]
    by (auto simp: cached_optional_account_id_def normalizeOptionalAccountId_def Let_def split: option.split)
  show "optional_cache_ok (snd (cached_optional_account_id k c))"
    using ok set_cache_ok [of "\<lambda>k v. v = normalizeCanonicalAccountId k"]
    by (auto simp: cached_optional_account_id_def optional_cache_ok_def Let_def split: option.split)
qed (simp add: optional_cache_ok_def cache_ok_def)

end
