(* ===== verification/CronTypes.thy ===== *)
theory CronTypes
  imports AgentIds
begin

text \<open>
  The data of the cron service (\<open>src/cron/types.ts\<close>, \<open>types-shared.ts\<close>,
  \<open>src/config/types.cron.ts\<close>, \<open>src/cron/service/state.ts\<close>) and what the service takes from
  outside: \<open>cron_env\<close> bundles \<open>Date.parse\<close>, the croner evaluator, the host's time zone, the
  SHA-256 prefix used for staggering and the URL parser.

  Instants and durations are integers. The numbers that the code itself coerces or checks
  (\<open>everyMs\<close>, \<open>anchorMs\<close>, \<open>staggerMs\<close>, \<open>after\<close>, \<open>cooldownMs\<close>) stay raw \<open>jsval\<close>s. An optional
  property that the code tests with \<open>in\<close> has a type \<open>'a option option\<close>: absent, present but
  undefined (or of another type), present.
\<close>

section \<open>Schedules\<close>

text \<open>The legacy \<open>atMs\<close> of a one-shot schedule that the code still reads.\<close>

datatype legacy_at = NoAtMs | AtMsNumber int | AtMsString string

datatype CronSchedule =
    SAt (sch_at: "string option") (sch_atMs: legacy_at)
  | SEvery (sch_everyMs: jsval) (sch_anchorMs: jsval)
  | SCron (sch_expr: "string option") (sch_cron: "string option") (sch_tz: "string option")
      (sch_staggerMs: jsval)

definition is_cron :: "CronSchedule \<Rightarrow> bool" where
  "is_cron s = (case s of SCron _ _ _ _ \<Rightarrow> True | _ \<Rightarrow> False)"

definition is_every :: "CronSchedule \<Rightarrow> bool" where
  "is_every s = (case s of SEvery _ _ \<Rightarrow> True | _ \<Rightarrow> False)"

definition is_at :: "CronSchedule \<Rightarrow> bool" where
  "is_at s = (case s of SAt _ _ \<Rightarrow> True | _ \<Rightarrow> False)"

lemmas schedule_kind_defs = is_cron_def is_every_def is_at_def

section \<open>Jobs\<close>

datatype CronWakeMode = WakeNextHeartbeat | WakeNow

datatype thread_id = ThreadText string | ThreadNumber rat

text \<open>A failure destination as the code stores it: it distinguishes a property that is present
  with the value \<open>undefined\<close> from one that is absent.\<close>

record CronFailureDestination =
  fd_channel :: "string option option"
  fd_to :: "string option option"
  fd_accountId :: "string option option"
  fd_mode :: "string option option"

record CronDelivery =
  dl_mode :: "string option"
  dl_channel :: "string option"
  dl_to :: "string option"
  dl_threadId :: "thread_id option"
  dl_accountId :: "string option"
  dl_bestEffort :: "bool option"
  dl_failureDestination :: "CronFailureDestination option"

record agent_turn =
  at_message :: string
  at_model :: "string option"
  at_fallbacks :: "string list option"
  at_thinking :: "string option"
  at_timeoutSeconds :: "rat option"
  at_allowUnsafe :: "bool option"
  at_externalSource :: "string option"
  at_lightContext :: "bool option"
  at_toolsAllow :: "string list option"

datatype CronPayload = SystemEvent string | AgentTurn agent_turn

record CronFailureAlert =
  fa_after :: jsval
  fa_channel :: "string option"
  fa_to :: "string option"
  fa_cooldownMs :: jsval
  fa_mode :: "string option"
  fa_accountId :: "string option"

datatype failure_alert_field = AlertUnset | AlertOff | AlertOn CronFailureAlert

datatype CronRunStatus = StatusOk | StatusError | StatusSkipped

datatype CronDeliveryStatus = Delivered | NotDelivered | DeliveryUnknown | NotRequested

record CronJobState =
  st_nextRunAtMs :: "int option"
  st_runningAtMs :: "int option"
  st_lastRunAtMs :: "int option"
  st_lastRunStatus :: "CronRunStatus option"
  st_lastStatus :: "CronRunStatus option"
  st_lastError :: "string option"
  st_lastErrorReason :: "string option"
  st_lastDurationMs :: "int option"
  st_consecutiveErrors :: "int option"
  st_lastFailureAlertAtMs :: "int option"
  st_scheduleErrorCount :: "int option"
  st_lastDeliveryStatus :: "CronDeliveryStatus option"
  st_lastDeliveryError :: "string option"
  st_lastDelivered :: "bool option"

record CronJob =
  job_id :: string
  job_agentId :: "string option"
  job_sessionKey :: "string option"
  job_name :: string
  job_description :: "string option"
  job_enabled :: bool
  job_deleteAfterRun :: "bool option"
  job_createdAtMs :: int
  job_updatedAtMs :: int
  job_schedule :: CronSchedule
  job_sessionTarget :: string
  job_wakeMode :: CronWakeMode
  job_payload :: CronPayload
  job_delivery :: "CronDelivery option"
  job_failureAlert :: failure_alert_field
  job_state :: CronJobState

definition empty_job_state :: CronJobState where
  "empty_job_state = \<lparr>st_nextRunAtMs = None, st_runningAtMs = None, st_lastRunAtMs = None,
     st_lastRunStatus = None, st_lastStatus = None, st_lastError = None, st_lastErrorReason = None,
     st_lastDurationMs = None, st_consecutiveErrors = None, st_lastFailureAlertAtMs = None,
     st_scheduleErrorCount = None, st_lastDeliveryStatus = None, st_lastDeliveryError = None,
     st_lastDelivered = None\<rparr>"

text \<open>Updating the state of a job in place.\<close>

definition set_state :: "(CronJobState \<Rightarrow> CronJobState) \<Rightarrow> CronJob \<Rightarrow> CronJob" where
  "set_state f j = j\<lparr>job_state := f (job_state j)\<rparr>"

lemma set_state_simps [simp]:
  "job_id (set_state f j) = job_id j" "job_enabled (set_state f j) = job_enabled j"
  "job_schedule (set_state f j) = job_schedule j" "job_state (set_state f j) = f (job_state j)"
  "job_createdAtMs (set_state f j) = job_createdAtMs j" "job_payload (set_state f j) = job_payload j"
  "job_delivery (set_state f j) = job_delivery j" "job_agentId (set_state f j) = job_agentId j"
  "job_sessionKey (set_state f j) = job_sessionKey j" "job_name (set_state f j) = job_name j"
  "job_deleteAfterRun (set_state f j) = job_deleteAfterRun j"
  "job_sessionTarget (set_state f j) = job_sessionTarget j" "job_wakeMode (set_state f j) = job_wakeMode j"
  "job_failureAlert (set_state f j) = job_failureAlert j"
  by (simp_all add: set_state_def)

section \<open>Configuration\<close>

datatype CronRetryOn = RateLimit | Overloaded | Network | TimeoutErr | ServerError

record CronRetryConfig =
  rt_maxAttempts :: "int option"
  rt_backoffMs :: "int list option"
  rt_retryOn :: "CronRetryOn list option"

record CronFailureAlertConfig =
  fac_enabled :: "bool option"
  fac_after :: jsval
  fac_cooldownMs :: jsval
  fac_mode :: "string option"
  fac_accountId :: "string option"

record CronFailureDestinationConfig =
  fdc_channel :: "string option"
  fdc_to :: "string option"
  fdc_accountId :: "string option"
  fdc_mode :: "string option"

record CronConfig =
  cc_maxConcurrentRuns :: jsval
  cc_retry :: "CronRetryConfig option"
  cc_failureAlert :: "CronFailureAlertConfig option"
  cc_failureDestination :: "CronFailureDestinationConfig option"

section \<open>What the service takes from outside\<close>

text \<open>\<open>ce_cron_check expr tz\<close> is the error text of the croner constructor, \<open>None\<close> if the pattern is
  accepted; \<open>ce_cron_next\<close> and \<open>ce_cron_prev\<close> are \<open>nextRun\<close> and the first of \<open>previousRuns\<close>, which
  may throw; \<open>ce_sha32\<close> the first four bytes of the SHA-256 digest; \<open>ce_url_protocol\<close> the protocol
  of a URL that parses. An exception is represented by its \<open>String(err)\<close>.\<close>

record cron_env =
  ce_date_parse :: "string \<Rightarrow> int option"
  ce_cron_check :: "string \<Rightarrow> string \<Rightarrow> string option"
  ce_cron_next :: "string \<Rightarrow> string \<Rightarrow> int \<Rightarrow> string + int option"
  ce_cron_prev :: "string \<Rightarrow> string \<Rightarrow> int \<Rightarrow> string + int option"
  ce_local_tz :: string
  ce_sha32 :: "string \<Rightarrow> nat"
  ce_url_protocol :: "string \<Rightarrow> string option"

type_synonym 'a thrown = "string + 'a"

definition quoted :: "string \<Rightarrow> string" where
  "quoted s = CHR 0x22 # s @ [CHR 0x22]"

definition bind_ok :: "'a thrown \<Rightarrow> ('a \<Rightarrow> 'b thrown) \<Rightarrow> 'b thrown" where
  "bind_ok r f = (case r of Inl e \<Rightarrow> Inl e | Inr x \<Rightarrow> f x)"

lemma bind_ok_simps [simp]: "bind_ok (Inl e) f = Inl e" "bind_ok (Inr x) f = f x"
  by (simp_all add: bind_ok_def)

lemma bind_ok_Inr: "bind_ok r f = Inr y \<longleftrightarrow> (\<exists>x. r = Inr x \<and> f x = Inr y)"
  by (cases r) auto

section \<open>Effects\<close>

text \<open>The texts the scheduler sends; those with characters outside the model are constructors.\<close>

datatype notice =
    PlainText string
  | AutoDisabledNotice string int string
  | FailureAlertText string int string

record CronEvent =
  ev_jobId :: string
  ev_action :: string
  ev_runAtMs :: "int option"
  ev_durationMs :: "int option"
  ev_status :: "CronRunStatus option"
  ev_error :: "string option"
  ev_summary :: "string option"
  ev_delivered :: "bool option"
  ev_deliveryStatus :: "CronDeliveryStatus option"
  ev_deliveryError :: "string option"
  ev_sessionId :: "string option"
  ev_sessionKey :: "string option"
  ev_nextRunAtMs :: "int option"

definition plain_event :: "string \<Rightarrow> string \<Rightarrow> CronEvent" where
  "plain_event i action = \<lparr>ev_jobId = i, ev_action = action, ev_runAtMs = None, ev_durationMs = None,
     ev_status = None, ev_error = None, ev_summary = None, ev_delivered = None,
     ev_deliveryStatus = None, ev_deliveryError = None, ev_sessionId = None, ev_sessionKey = None,
     ev_nextRunAtMs = None\<rparr>"

record alert_target =
  al_channel :: string
  al_to :: "string option"
  al_mode :: "string option"
  al_accountId :: "string option"

datatype cron_effect =
    EnqueueSystemEvent notice "string option" "string option" "string option"
  | RequestHeartbeat string "string option" "string option"
  | RunHeartbeatOnce string "string option" "string option"
  | EmitEvent CronEvent
  | SendFailureAlert string notice alert_target

end
