(* ===== verification/CronSchedule.thy ===== *)
theory CronSchedule
  imports CronTypes
begin

text \<open>
  When a schedule fires: absolute times (\<open>src/cron/parse.ts\<close>), stagger windows
  (\<open>src/cron/stagger.ts\<close>), the next and the previous run of a schedule with the work-around for
  croner's year rollback (\<open>src/cron/schedule.ts\<close>), and the two bounded caches in front of the
  croner evaluator and of the stagger offsets as instances of one interface.
\<close>

section \<open>Absolute times\<close>

definition is_digit_char :: "char \<Rightarrow> bool" where
  "is_digit_char c \<longleftrightarrow> digit_value c \<noteq> None"

fun matches_prefix :: "(char \<Rightarrow> bool) list \<Rightarrow> string \<Rightarrow> bool" where
  "matches_prefix [] s = True"
| "matches_prefix (p # ps) [] = False"
| "matches_prefix (p # ps) (c # cs) = (p c \<and> matches_prefix ps cs)"

definition iso_date_shape :: "(char \<Rightarrow> bool) list" where
  "iso_date_shape =
     (let d = is_digit_char; m = (\<lambda>c. c = CHR ''-'') in [d, d, d, d, m, d, d, m, d, d])"

text \<open>\<open>ISO_TZ_RE\<close>: a final \<open>Z\<close> or \<open>z\<close>, or a sign and two digits, an optional colon, two digits.\<close>

definition has_iso_tz :: "string \<Rightarrow> bool" where
  "has_iso_tz s =
     (let d = is_digit_char; sg = (\<lambda>c. c = CHR ''+'' \<or> c = CHR ''-''); r = rev s in
      matches_prefix [\<lambda>c. c = CHR ''Z'' \<or> c = CHR ''z''] r \<or>
      matches_prefix [d, d, d, d, sg] r \<or>
      matches_prefix [d, d, \<lambda>c. c = CHR '':'', d, d, sg] r)"

definition normalizeUtcIso :: "string \<Rightarrow> string" where
  "normalizeUtcIso raw =
     (if has_iso_tz raw then raw
      else if length raw = 10 \<and> matches_prefix iso_date_shape raw then raw @ ''T00:00:00Z''
      else if matches_prefix (iso_date_shape @ [\<lambda>c. c = CHR ''T'']) raw then raw @ ''Z''
      else raw)"

definition parseAbsoluteTimeMs :: "cron_env \<Rightarrow> string \<Rightarrow> int option" where
  "parseAbsoluteTimeMs env input =
     (let raw = trim input in
      if raw = [] then None
      else (case (if list_all is_digit_char raw then js_number raw else None) of
              Some n \<Rightarrow> if n > 0 then Some \<lfloor>n\<rfloor> else ce_date_parse env (normalizeUtcIso raw)
            | None \<Rightarrow> ce_date_parse env (normalizeUtcIso raw)))"

section \<open>Stagger windows\<close>

definition DEFAULT_TOP_OF_HOUR_STAGGER_MS :: int where
  "DEFAULT_TOP_OF_HOUR_STAGGER_MS = 5 * 60 * 1000"

definition isRecurringTopOfHourCronExpr :: "string \<Rightarrow> bool" where
  "isRecurringTopOfHourCronExpr expr =
     (case ws_fields (trim expr) of
        [minute, hour, _, _, _] \<Rightarrow> minute = ''0'' \<and> CHR ''*'' \<in> set hour
      | [second, minute, hour, _, _, _] \<Rightarrow> second = ''0'' \<and> minute = ''0'' \<and> CHR ''*'' \<in> set hour
      | _ \<Rightarrow> False)"

definition normalizeCronStaggerMs :: "jsval \<Rightarrow> int option" where
  "normalizeCronStaggerMs raw =
     (let numeric = (case raw of
        JNum r \<Rightarrow> Some r
      | JStr s \<Rightarrow> if trim s \<noteq> [] then js_number (trim s) else None
      | _ \<Rightarrow> None)
      in map_option (\<lambda>r. max 0 \<lfloor>r\<rfloor>) numeric)"

definition resolveDefaultCronStaggerMs :: "string \<Rightarrow> int option" where
  "resolveDefaultCronStaggerMs expr =
     (if isRecurringTopOfHourCronExpr expr then Some DEFAULT_TOP_OF_HOUR_STAGGER_MS else None)"

definition resolveCronStaggerMs :: "string option \<Rightarrow> jsval \<Rightarrow> int" where
  "resolveCronStaggerMs expr staggerMs =
     (case normalizeCronStaggerMs staggerMs of
        Some ms \<Rightarrow> ms
      | None \<Rightarrow> (case resolveDefaultCronStaggerMs (case expr of Some e \<Rightarrow> e | None \<Rightarrow> []) of
                   Some ms \<Rightarrow> ms | None \<Rightarrow> 0))"

section \<open>The croner evaluator\<close>

definition resolveCronTimezone :: "cron_env \<Rightarrow> string option \<Rightarrow> string" where
  "resolveCronTimezone env tz =
     (case trimmed_opt tz of Some t \<Rightarrow> t | None \<Rightarrow> ce_local_tz env)"

text \<open>A compiled pattern is its expression and its time zone.\<close>

definition compile_cron :: "cron_env \<Rightarrow> string \<times> string \<Rightarrow> (string \<times> string) thrown" where
  "compile_cron env p =
     (case ce_cron_check env (fst p) (snd p) of Some e \<Rightarrow> Inl e | None \<Rightarrow> Inr p)"

definition resolveCronFromSchedule ::
    "cron_env \<Rightarrow> string option \<Rightarrow> string option \<Rightarrow> string option \<Rightarrow> (string \<times> string) option thrown"
  where
  "resolveCronFromSchedule env expr0 cron tz =
     (case (case expr0 of Some e \<Rightarrow> Some e | None \<Rightarrow> cron) of
        None \<Rightarrow> Inl ''Error: invalid cron schedule: expr is required''
      | Some src \<Rightarrow>
          if trim src = [] then Inr None
          else bind_ok (compile_cron env (trim src, resolveCronTimezone env tz)) (\<lambda>c. Inr (Some c)))"

definition coerceFiniteScheduleNumber :: "jsval \<Rightarrow> rat option" where
  "coerceFiniteScheduleNumber value =
     (case value of
        JNum r \<Rightarrow> Some r
      | JStr s \<Rightarrow> if trim s = [] then None else js_number (trim s)
      | _ \<Rightarrow> None)"

definition resolve_at_ms :: "cron_env \<Rightarrow> string option \<Rightarrow> legacy_at \<Rightarrow> int option" where
  "resolve_at_ms env at0 atMs =
     (let canonical = (case at0 of Some s \<Rightarrow> parseAbsoluteTimeMs env s | None \<Rightarrow> None) in
      case atMs of
        AtMsNumber n \<Rightarrow> if n > 0 then Some n else canonical
      | AtMsString s \<Rightarrow> parseAbsoluteTimeMs env s
      | NoAtMs \<Rightarrow> canonical)"

definition every_next :: "int \<Rightarrow> int \<Rightarrow> int \<Rightarrow> int" where
  "every_next everyMs anchor now =
     (if now < anchor then anchor
      else (let elapsed = now - anchor; steps = max 1 ((elapsed + everyMs - 1) div everyMs)
            in anchor + steps * everyMs))"

definition next_second :: "int \<Rightarrow> int" where
  "next_second now = now div 1000 * 1000 + 1000"

definition start_of_tomorrow_utc :: "int \<Rightarrow> int" where
  "start_of_tomorrow_utc now = (now div 86400000 + 1) * 86400000"

text \<open>\<open>cron.nextRun\<close> with the two retries after a result that is not in the future.\<close>

definition cron_next_future :: "cron_env \<Rightarrow> string \<times> string \<Rightarrow> int \<Rightarrow> int option thrown" where
  "cron_next_future env c now =
     (let nextRun = ce_cron_next env (fst c) (snd c) in
      bind_ok (nextRun now) (\<lambda>r. case r of
        None \<Rightarrow> Inr None
      | Some nextMs \<Rightarrow>
          if nextMs > now then Inr (Some nextMs)
          else bind_ok (nextRun (next_second now)) (\<lambda>retry. case retry of
                 Some m \<Rightarrow> if m > now then Inr (Some m)
                           else bind_ok (nextRun (start_of_tomorrow_utc now)) (\<lambda>retry2. case retry2 of
                                  Some m2 \<Rightarrow> Inr (if m2 > now then Some m2 else None)
                                | None \<Rightarrow> Inr None)
               | None \<Rightarrow> bind_ok (nextRun (start_of_tomorrow_utc now)) (\<lambda>retry2. case retry2 of
                           Some m2 \<Rightarrow> Inr (if m2 > now then Some m2 else None)
                         | None \<Rightarrow> Inr None))))"

definition computeNextRunAtMs :: "cron_env \<Rightarrow> CronSchedule \<Rightarrow> int \<Rightarrow> int option thrown" where
  "computeNextRunAtMs env schedule now =
     (case schedule of
        SAt at0 atMs \<Rightarrow>
          Inr (case resolve_at_ms env at0 atMs of
                 Some ms \<Rightarrow> if ms > now then Some ms else None
               | None \<Rightarrow> None)
      | SEvery everyMs anchorMs \<Rightarrow>
          Inr (case coerceFiniteScheduleNumber everyMs of
                 None \<Rightarrow> None
               | Some raw \<Rightarrow>
                   (let every = max 1 \<lfloor>raw\<rfloor>;
                        anchor = max 0 (case coerceFiniteScheduleNumber anchorMs of
                                   Some a \<Rightarrow> \<lfloor>a\<rfloor> | None \<Rightarrow> now)
                    in Some (every_next every anchor now)))
      | SCron expr cron tz staggerMs \<Rightarrow>
          bind_ok (resolveCronFromSchedule env expr cron tz) (\<lambda>c. case c of
            None \<Rightarrow> Inr None
          | Some c \<Rightarrow> cron_next_future env c now))"

definition computePreviousRunAtMs :: "cron_env \<Rightarrow> CronSchedule \<Rightarrow> int \<Rightarrow> int option thrown" where
  "computePreviousRunAtMs env schedule now =
     (case schedule of
        SCron expr cron tz staggerMs \<Rightarrow>
          bind_ok (resolveCronFromSchedule env expr cron tz) (\<lambda>c. case c of
            None \<Rightarrow> Inr None
          | Some c \<Rightarrow> bind_ok (ce_cron_prev env (fst c) (snd c) now) (\<lambda>r. case r of
              None \<Rightarrow> Inr None
            | Some ms \<Rightarrow> Inr (if ms \<ge> now then None else Some ms)))
      | _ \<Rightarrow> Inr None)"

end
