(* ===== verification/CronCaches.thy ===== *)
theory CronCaches
  imports CronSchedule BoundedMemo
begin

text \<open>
  The two caches of the scheduler, \<open>cronEvalCache\<close> of \<open>src/cron/schedule.ts\<close> and
  \<open>staggerOffsetCache\<close> of \<open>src/cron/service/jobs.ts\<close>, as instances of \<open>bounded_memo\<close>.
\<close>

section \<open>The evaluator cache\<close>

definition CRON_EVAL_CACHE_MAX :: nat where "CRON_EVAL_CACHE_MAX = 512"

definition eval_cache_key :: "string \<times> string \<Rightarrow> string" where
  "eval_cache_key p = snd p @ [CHR 0x00] @ fst p"

definition resolveCachedCron ::
    "cron_env \<Rightarrow> string \<times> string \<Rightarrow> (string \<times> string \<times> string) list \<Rightarrow>
     (string \<times> string) thrown \<times> (string \<times> string \<times> string) list" where
  "resolveCachedCron env p cache =
     (let key = eval_cache_key p in
      case map_of cache key of
        Some c \<Rightarrow> (Inr c, cache)
      | None \<Rightarrow>
          (let cache1 = drop_oldest CRON_EVAL_CACHE_MAX cache in
           case compile_cron env p of
             Inl e \<Rightarrow> (Inl e, cache1)
           | Inr c \<Rightarrow> (Inr c, AList.update key c cache1)))"

lemma split_at_char:
  "c \<notin> set a \<Longrightarrow> takeWhile (\<lambda>x. x \<noteq> c) (a @ c # b) = a \<and> tl (dropWhile (\<lambda>x. x \<noteq> c) (a @ c # b)) = b"
  by (induction a) auto

lemma eval_cache_key_inj:
  assumes "CHR 0x00 \<notin> set (snd p)" and "CHR 0x00 \<notin> set (snd q)" and "eval_cache_key p = eval_cache_key q"
  shows "p = q"
proof -
  have "takeWhile (\<lambda>c. c \<noteq> CHR 0x00) (eval_cache_key r) = snd r"
    and "tl (dropWhile (\<lambda>c. c \<noteq> CHR 0x00) (eval_cache_key r)) = fst r"
    if "CHR 0x00 \<notin> set (snd r)" for r
    using split_at_char [OF that, of "fst r"] by (simp_all add: eval_cache_key_def)
  then show ?thesis using assms by (metis prod.expand)
qed

definition eval_entry :: "cron_env \<Rightarrow> string \<Rightarrow> string \<times> string \<Rightarrow> bool" where
  "eval_entry env k c \<longleftrightarrow>
     (\<exists>p. CHR 0x00 \<notin> set (snd p) \<and> k = eval_cache_key p \<and> compile_cron env p = Inr c)"

definition eval_cache_ok :: "cron_env \<Rightarrow> (string \<times> string \<times> string) list \<Rightarrow> bool" where
  "eval_cache_ok env = cache_ok CRON_EVAL_CACHE_MAX (eval_entry env)"

lemma resolveCachedCron_correct:
  assumes "eval_cache_ok env cache" and "CHR 0x00 \<notin> set (snd p)"
  shows "fst (resolveCachedCron env p cache) = compile_cron env p"
    and "eval_cache_ok env (snd (resolveCachedCron env p cache))"
proof -
  have hit: "compile_cron env p = Inr c" if "map_of cache (eval_cache_key p) = Some c" for c
    using cache_ok_lookup [OF assms(1) [unfolded eval_cache_ok_def] that] assms(2) eval_cache_key_inj
    unfolding eval_entry_def by blast
  have lim: "0 < CRON_EVAL_CACHE_MAX" by (simp add: CRON_EVAL_CACHE_MAX_def)
  note d = drop_oldest_ok [OF assms(1) [unfolded eval_cache_ok_def] lim]
  show "fst (resolveCachedCron env p cache) = compile_cron env p"
    by (auto simp: resolveCachedCron_def Let_def hit split: option.split sum.split)
  show "eval_cache_ok env (snd (resolveCachedCron env p cache))"
  proof (cases "compile_cron env p")
    case (Inl e)
    then show ?thesis
      using assms(1) d(1) by (auto simp: eval_cache_ok_def resolveCachedCron_def Let_def split: option.split)
  next
    case (Inr c)
    then have "eval_entry env (eval_cache_key p) c" using assms(2) unfolding eval_entry_def by blast
    from update_ok [OF d this] Inr assms(1) show ?thesis
      by (simp add: eval_cache_ok_def resolveCachedCron_def Let_def split: option.split)
  qed
qed

interpretation ev: bounded_memo "resolveCachedCron env" "compile_cron env"
    "\<lambda>p. CHR 0x00 \<notin> set (snd p)" "eval_cache_ok env" length CRON_EVAL_CACHE_MAX for env
  by unfold_locales
    (simp_all add: resolveCachedCron_correct, simp add: eval_cache_ok_def cache_ok_def)

section \<open>The stagger offsets\<close>

definition STAGGER_OFFSET_CACHE_MAX :: nat where "STAGGER_OFFSET_CACHE_MAX = 4096"

definition offset_cache_key :: "int \<times> string \<Rightarrow> string" where
  "offset_cache_key p = show_int (fst p) @ '':'' @ snd p"

text \<open>The offset without the cache, and \<open>resolveStableCronOffsetMs\<close> with it.\<close>

definition stable_offset :: "cron_env \<Rightarrow> int \<times> string \<Rightarrow> int" where
  "stable_offset env p =
     (if fst p \<le> 1 then 0 else int (ce_sha32 env (snd p)) mod fst p)"

definition resolveStableCronOffsetMs ::
    "cron_env \<Rightarrow> int \<times> string \<Rightarrow> (string \<times> int) list \<Rightarrow> int \<times> (string \<times> int) list" where
  "resolveStableCronOffsetMs env p cache =
     (if fst p \<le> 1 then (0, cache)
      else (case map_of cache (offset_cache_key p) of
              Some off \<Rightarrow> (off, cache)
            | None \<Rightarrow>
                (let off = int (ce_sha32 env (snd p)) mod fst p
                 in (off, AList.update (offset_cache_key p) off
                            (drop_oldest STAGGER_OFFSET_CACHE_MAX cache)))))"

text \<open>Decimal renderings have digits only and determine their number.\<close>

definition digits_value :: "string \<Rightarrow> nat" where
  "digits_value s = foldl (\<lambda>v c. 10 * v + ((of_char c :: nat) - 48)) 0 s"

lemma digit_of_char: "n < 10 \<Longrightarrow> (of_char (digit_char n) :: nat) = 48 + n"
  by (simp add: take_bit_nat_eq_self)

lemma show_nat_value: "digits_value (show_nat n) = n"
proof (induction n rule: show_nat.induct)
  case (1 n)
  show ?case
  proof (cases "n < 10")
    case True
    then show ?thesis using digit_of_char [OF True]
      by (simp add: show_nat.simps [of n] digits_value_def del: digit_char.simps)
  next
    case False
    have "digits_value (show_nat (n div 10) @ [digit_char (n mod 10)]) = 10 * (n div 10) + n mod 10"
      using 1 [OF False] digit_of_char [of "n mod 10"]
      by (simp add: digits_value_def del: digit_char.simps)
    then show ?thesis using False by (simp add: show_nat.simps [of n] del: digit_char.simps)
  qed
qed

lemma show_nat_no_colon: "CHR '':'' \<notin> set (show_nat n)"
proof (induction n rule: show_nat.induct)
  case (1 n)
  have "CHR '':'' \<noteq> digit_char k" if "k < 10" for k
  proof
    assume "CHR '':'' = digit_char k"
    then have "(of_char (digit_char k) :: nat) = of_char (CHR '':'')" by (simp only:)
    with digit_of_char [OF that] that show False by simp
  qed
  then show ?case using 1 by (subst show_nat.simps) (auto simp del: digit_char.simps)
qed

lemma offset_cache_key_inj:
  assumes "1 < fst p" and "1 < fst q" and "offset_cache_key p = offset_cache_key q"
  shows "p = q"
proof -
  have nc: "CHR '':'' \<notin> set (show_int (fst r))" if "1 < fst r" for r :: "int \<times> string"
    using that show_nat_no_colon by (simp add: show_int_def)
  have hd: "takeWhile (\<lambda>c. c \<noteq> CHR '':'') (offset_cache_key r) = show_int (fst r)"
    and tl: "tl (dropWhile (\<lambda>c. c \<noteq> CHR '':'') (offset_cache_key r)) = snd r"
    if "1 < fst r" for r :: "int \<times> string"
    using split_at_char [OF nc [OF that], of "snd r"] by (simp_all add: offset_cache_key_def)
  have hp: "takeWhile (\<lambda>c. c \<noteq> CHR '':'') (offset_cache_key q) = show_int (fst p)"
    and tp: "tl (dropWhile (\<lambda>c. c \<noteq> CHR '':'') (offset_cache_key q)) = snd p"
    using hd [OF assms(1)] tl [OF assms(1)] unfolding assms(3) by blast+
  have s: "show_int (fst p) = show_int (fst q)"
    by (rule trans [OF hp [symmetric] hd [OF assms(2)]])
  have t: "snd p = snd q"
    by (rule trans [OF tp [symmetric] tl [OF assms(2)]])
  have val: "int (digits_value (show_int i)) = i" if "1 < i" for i
    using that show_nat_value [of "nat i"] by (simp add: show_int_def)
  have "fst p = fst q"
    by (rule trans [OF val [OF assms(1), symmetric]
        trans [OF arg_cong [OF s, of "\<lambda>x. int (digits_value x)"] val [OF assms(2)]]])
  with t show ?thesis by (rule prod_eqI [rotated])
qed

definition offset_entry :: "cron_env \<Rightarrow> string \<Rightarrow> int \<Rightarrow> bool" where
  "offset_entry env k off \<longleftrightarrow> (\<exists>p. 1 < fst p \<and> k = offset_cache_key p \<and> off = stable_offset env p)"

definition offset_cache_ok :: "cron_env \<Rightarrow> (string \<times> int) list \<Rightarrow> bool" where
  "offset_cache_ok env = cache_ok STAGGER_OFFSET_CACHE_MAX (offset_entry env)"

lemma resolveStableCronOffsetMs_correct:
  assumes "offset_cache_ok env cache"
  shows "fst (resolveStableCronOffsetMs env p cache) = stable_offset env p"
    and "offset_cache_ok env (snd (resolveStableCronOffsetMs env p cache))"
proof -
  have hit: "off = stable_offset env p"
    if "1 < fst p" "map_of cache (offset_cache_key p) = Some off" for off
    using cache_ok_lookup [OF assms [unfolded offset_cache_ok_def] that(2)] that(1) offset_cache_key_inj
    unfolding offset_entry_def by blast
  have lim: "0 < STAGGER_OFFSET_CACHE_MAX" by (simp add: STAGGER_OFFSET_CACHE_MAX_def)
  note d = drop_oldest_ok [OF assms [unfolded offset_cache_ok_def] lim]
  show "fst (resolveStableCronOffsetMs env p cache) = stable_offset env p"
  proof (cases "fst p \<le> 1")
    case True
    then show ?thesis by (simp add: resolveStableCronOffsetMs_def stable_offset_def)
  next
    case False
    then show ?thesis using hit
      by (cases "map_of cache (offset_cache_key p)")
        (simp_all add: resolveStableCronOffsetMs_def stable_offset_def Let_def)
  qed
  show "offset_cache_ok env (snd (resolveStableCronOffsetMs env p cache))"
  proof (cases "fst p \<le> 1")
    case True
    then show ?thesis using assms by (simp add: resolveStableCronOffsetMs_def)
  next
    case False
    then have "offset_entry env (offset_cache_key p) (int (ce_sha32 env (snd p)) mod fst p)"
      unfolding offset_entry_def stable_offset_def by (intro exI [of _ p]) auto
    from update_ok [OF d this] False assms show ?thesis
      by (simp add: offset_cache_ok_def resolveStableCronOffsetMs_def Let_def split: option.split)
  qed
qed

interpretation so: bounded_memo "resolveStableCronOffsetMs env" "stable_offset env" "\<lambda>_. True"
    "offset_cache_ok env" length STAGGER_OFFSET_CACHE_MAX for env
  by unfold_locales
    (simp_all add: resolveStableCronOffsetMs_correct, simp add: offset_cache_ok_def cache_ok_def)

lemma stable_offset_range: "0 \<le> stable_offset env p" "1 < fst p \<Longrightarrow> stable_offset env p < fst p"
  by (simp_all add: stable_offset_def)

section \<open>Property\<close>

text \<open>The caches in front of the cron evaluator and of the stagger offsets are transparent and
  bounded: for any sequence of requests from empty caches the answers are those of compiling
  the pattern, respectively of hashing the job id, each time, and the caches never hold more
  than 512 and 4096 entries. (A time zone does not contain the separator character NUL.)\<close>

theorem caches_transparent:
  assumes "\<forall>p \<in> set ps. CHR 0x00 \<notin> set (snd p)"
  shows "fst (ev.calls env ps []) = map (compile_cron env) ps \<and> length (snd (ev.calls env ps [])) \<le> 512 \<and>
    fst (so.calls env qs []) = map (stable_offset env) qs \<and> length (snd (so.calls env qs [])) \<le> 4096"
proof -
  have "eval_cache_ok env []" and "offset_cache_ok env []"
    by (simp_all add: eval_cache_ok_def offset_cache_ok_def cache_ok_def)
  with ev.calls_transparent [of env "[]" ps] so.calls_transparent [of env "[]" qs] assms
  show ?thesis by (simp add: CRON_EVAL_CACHE_MAX_def STAGGER_OFFSET_CACHE_MAX_def)
qed

definition hourly_env :: cron_env where
  "hourly_env = \<lparr>ce_date_parse = (\<lambda>s. None), ce_cron_check = (\<lambda>e tz. None),
     ce_cron_next = (\<lambda>e tz now. Inr (Some (now div 3600000 * 3600000 + 3600000))),
     ce_cron_prev = (\<lambda>e tz now. Inr (Some ((now - 1) div 3600000 * 3600000))),
     ce_local_tz = ''UTC'', ce_sha32 = length, ce_url_protocol = (\<lambda>s. Some ''https:'')\<rparr>"

theorem caches_transparent_witness:
  "fst (ev.calls hourly_env [(''0 * * * *'', ''UTC''), (''0 * * * *'', ''UTC'')] []) =
     [Inr (''0 * * * *'', ''UTC''), Inr (''0 * * * *'', ''UTC'')]"
proof -
  have "\<forall>p \<in> set [(''0 * * * *'', ''UTC''), (''0 * * * *'', ''UTC'')]. CHR 0x00 \<notin> set (snd p)" by simp
  from caches_transparent [OF this, of hourly_env "[]"] show ?thesis
    by (simp add: compile_cron_def hourly_env_def)
qed

end
