(* ===== verification/CronJobs.thy ===== *)
theory CronJobs
  imports CronCaches
begin

text \<open>
  Jobs, \<open>src/cron/service/jobs.ts\<close>: the next run of a job with its stagger offset, the upkeep of
  the job states (stuck markers, recomputation, auto-disable after repeated schedule errors),
  the wake time, creating and patching a job with its validation, and when a job is due.

  A function that mutates a job returns the new job; one that can throw returns a sum. The
  clock and the generated id are arguments. A missing \<open>state\<close> and ill-typed persisted numbers
  are outside the data model, so the branches that repair them have no counterpart.
\<close>

section \<open>Next and previous run\<close>

definition STUCK_RUN_MS :: int where "STUCK_RUN_MS = 2 * 60 * 60 * 1000"

definition MAX_SCHEDULE_ERRORS :: int where "MAX_SCHEDULE_ERRORS = 3"

text \<open>The loops over the shifted cursor; the first argument is the number of attempts left.\<close>

fun staggered_next_loop ::
    "nat \<Rightarrow> cron_env \<Rightarrow> CronSchedule \<Rightarrow> int \<Rightarrow> int \<Rightarrow> int \<Rightarrow> int option thrown" where
  "staggered_next_loop 0 env s offset now cursor = Inr None"
| "staggered_next_loop (Suc n) env s offset now cursor =
     bind_ok (computeNextRunAtMs env s cursor) (\<lambda>r. case r of
       None \<Rightarrow> Inr None
     | Some baseNext \<Rightarrow>
         if baseNext + offset > now then Inr (Some (baseNext + offset))
         else staggered_next_loop n env s offset now (max (cursor + 1) (baseNext + 1000)))"

definition job_offset :: "cron_env \<Rightarrow> CronJob \<Rightarrow> int" where
  "job_offset env j =
     stable_offset env (resolveCronStaggerMs (sch_expr (job_schedule j)) (sch_staggerMs (job_schedule j)),
                        job_id j)"

definition computeStaggeredCronNextRunAtMs :: "cron_env \<Rightarrow> CronJob \<Rightarrow> int \<Rightarrow> int option thrown" where
  "computeStaggeredCronNextRunAtMs env j now =
     (if \<not> is_cron (job_schedule j) then computeNextRunAtMs env (job_schedule j) now
      else if job_offset env j \<le> 0 then computeNextRunAtMs env (job_schedule j) now
      else staggered_next_loop 4 env (job_schedule j) (job_offset env j) now
             (max 0 (now - job_offset env j)))"

fun staggered_previous_loop ::
    "nat \<Rightarrow> cron_env \<Rightarrow> CronSchedule \<Rightarrow> int \<Rightarrow> int \<Rightarrow> int \<Rightarrow> int option thrown" where
  "staggered_previous_loop 0 env s offset now cursor = Inr None"
| "staggered_previous_loop (Suc n) env s offset now cursor =
     bind_ok (computePreviousRunAtMs env s cursor) (\<lambda>r. case r of
       None \<Rightarrow> Inr None
     | Some basePrevious \<Rightarrow>
         if basePrevious + offset \<le> now then Inr (Some (basePrevious + offset))
         else staggered_previous_loop n env s offset now (max 0 (basePrevious - 1000)))"

definition computeStaggeredCronPreviousRunAtMs :: "cron_env \<Rightarrow> CronJob \<Rightarrow> int \<Rightarrow> int option thrown" where
  "computeStaggeredCronPreviousRunAtMs env j now =
     (if \<not> is_cron (job_schedule j) then Inr None
      else if job_offset env j \<le> 0 then computePreviousRunAtMs env (job_schedule j) now
      else staggered_previous_loop 4 env (job_schedule j) (job_offset env j) now
             (max 0 (now - job_offset env j)))"

definition resolveEveryAnchorMs :: "jsval \<Rightarrow> int \<Rightarrow> int" where
  "resolveEveryAnchorMs anchorMs fallback =
     (case coerceFiniteScheduleNumber anchorMs of
        Some a \<Rightarrow> max 0 \<lfloor>a\<rfloor>
      | None \<Rightarrow> max 0 fallback)"

definition computeJobNextRunAtMs :: "cron_env \<Rightarrow> CronJob \<Rightarrow> int \<Rightarrow> int option thrown" where
  "computeJobNextRunAtMs env j now =
     (if \<not> job_enabled j then Inr None
      else case job_schedule j of
        SEvery everyMs anchorMs \<Rightarrow>
          (case coerceFiniteScheduleNumber everyMs of
             None \<Rightarrow> Inr None
           | Some raw \<Rightarrow>
               (let every = max 1 \<lfloor>raw\<rfloor>;
                    fromAnchor = computeNextRunAtMs env
                      (SEvery (JNum (of_int every))
                        (JNum (of_int (resolveEveryAnchorMs anchorMs (job_createdAtMs j))))) now
                in case st_lastRunAtMs (job_state j) of
                     Some l \<Rightarrow> if l + every > now then Inr (Some (l + every)) else fromAnchor
                   | None \<Rightarrow> fromAnchor))
      | SAt at0 atMs \<Rightarrow>
          (let ms = resolve_at_ms env at0 atMs in
           case st_lastRunAtMs (job_state j) of
             Some l \<Rightarrow>
               if st_lastStatus (job_state j) = Some StatusOk \<and> l \<noteq> 0
               then Inr (case ms of Some t \<Rightarrow> if t > l then Some t else None | None \<Rightarrow> None)
               else Inr ms
           | None \<Rightarrow> Inr ms)
      | SCron expr cron tz staggerMs \<Rightarrow>
          bind_ok (computeStaggeredCronNextRunAtMs env j now) (\<lambda>r. case r of
            Some t \<Rightarrow> Inr (Some t)
          | None \<Rightarrow> computeStaggeredCronNextRunAtMs env j (next_second now)))"

definition computeJobPreviousRunAtMs :: "cron_env \<Rightarrow> CronJob \<Rightarrow> int \<Rightarrow> int option thrown" where
  "computeJobPreviousRunAtMs env j now =
     (if \<not> job_enabled j \<or> \<not> is_cron (job_schedule j) then Inr None
      else computeStaggeredCronPreviousRunAtMs env j now)"

section \<open>Upkeep of the job states\<close>

definition recordScheduleComputeError :: "string \<Rightarrow> CronJob \<Rightarrow> CronJob \<times> cron_effect list" where
  "recordScheduleComputeError err j =
     (let n = (case st_scheduleErrorCount (job_state j) of None \<Rightarrow> 0 | Some c \<Rightarrow> c) + 1;
          j1 = set_state (\<lambda>s. s\<lparr>st_scheduleErrorCount := Some n, st_nextRunAtMs := None,
                 st_lastError := Some (''schedule error: '' @ err)\<rparr>) j;
          tag = ''cron:'' @ job_id j @ '':auto-disabled''
      in if n \<ge> MAX_SCHEDULE_ERRORS
         then (j1\<lparr>job_enabled := False\<rparr>,
               [EnqueueSystemEvent (AutoDisabledNotice (job_name j) n err) (job_agentId j) (job_sessionKey j) (Some tag),
                RequestHeartbeat tag (job_agentId j) (job_sessionKey j)])
         else (j1, []))"

text \<open>The result of a step over one job: whether it changed, the job, the effects.\<close>

type_synonym job_step = "bool \<times> CronJob \<times> cron_effect list"

definition normalize_anchor :: "CronJob \<Rightarrow> bool \<times> CronJob" where
  "normalize_anchor j =
     (case job_schedule j of
        SEvery everyMs anchorMs \<Rightarrow>
          (let a = JNum (of_int (resolveEveryAnchorMs anchorMs (job_createdAtMs j))) in
           if anchorMs \<noteq> a then (True, j\<lparr>job_schedule := SEvery everyMs a\<rparr>) else (False, j))
      | _ \<Rightarrow> (False, j))"

definition normalizeJobTickState :: "int \<Rightarrow> CronJob \<Rightarrow> bool \<times> bool \<times> CronJob" where
  "normalizeJobTickState now j0 =
     (let (changed, j) = normalize_anchor j0; s = job_state j in
      if \<not> job_enabled j then
        (changed \<or> st_nextRunAtMs s \<noteq> None \<or> st_runningAtMs s \<noteq> None, True,
         set_state (\<lambda>s. s\<lparr>st_nextRunAtMs := None, st_runningAtMs := None\<rparr>) j)
      else (case st_runningAtMs s of
              Some r \<Rightarrow>
                if now - r > STUCK_RUN_MS
                then (True, False, set_state (\<lambda>s. s\<lparr>st_runningAtMs := None\<rparr>) j)
                else (changed, False, j)
            | None \<Rightarrow> (changed, False, j)))"

definition walk_job :: "(int \<Rightarrow> CronJob \<Rightarrow> job_step) \<Rightarrow> int \<Rightarrow> CronJob \<Rightarrow> job_step" where
  "walk_job f now j =
     (case normalizeJobTickState now j of (changed, skip, j1) \<Rightarrow>
        if skip then (changed, j1, [])
        else (case f now j1 of (changed', j2, effs) \<Rightarrow> (changed \<or> changed', j2, effs)))"

definition walkSchedulableJobs ::
    "(int \<Rightarrow> CronJob \<Rightarrow> job_step) \<Rightarrow> int \<Rightarrow> CronJob list \<Rightarrow> bool \<times> CronJob list \<times> cron_effect list"
  where
  "walkSchedulableJobs f now jobs =
     (let rs = map (walk_job f now) jobs in
      (list_ex fst rs, map (\<lambda>r. fst (snd r)) rs, concat (map (\<lambda>r. snd (snd r)) rs)))"

definition truthy_count :: "int option \<Rightarrow> bool" where
  "truthy_count c \<longleftrightarrow> c \<noteq> None \<and> c \<noteq> Some 0"

definition recomputeJobNextRunAtMs :: "cron_env \<Rightarrow> int \<Rightarrow> CronJob \<Rightarrow> job_step" where
  "recomputeJobNextRunAtMs env now j =
     (case computeJobNextRunAtMs env j now of
        Inl err \<Rightarrow> (case recordScheduleComputeError err j of (j', effs) \<Rightarrow> (True, j', effs))
      | Inr newNext \<Rightarrow>
          (st_nextRunAtMs (job_state j) \<noteq> newNext \<or> truthy_count (st_scheduleErrorCount (job_state j)),
           set_state (\<lambda>s. s\<lparr>st_nextRunAtMs := newNext,
             st_scheduleErrorCount := (if truthy_count (st_scheduleErrorCount s) then None
                                       else st_scheduleErrorCount s)\<rparr>) j, []))"

definition recompute_if_due :: "cron_env \<Rightarrow> int \<Rightarrow> CronJob \<Rightarrow> job_step" where
  "recompute_if_due env now j =
     (if (case st_nextRunAtMs (job_state j) of None \<Rightarrow> True | Some t \<Rightarrow> now \<ge> t)
      then recomputeJobNextRunAtMs env now j else (False, j, []))"

definition recomputeNextRuns ::
    "cron_env \<Rightarrow> int \<Rightarrow> CronJob list \<Rightarrow> bool \<times> CronJob list \<times> cron_effect list" where
  "recomputeNextRuns env now jobs = walkSchedulableJobs (recompute_if_due env) now jobs"

definition maintain_job :: "cron_env \<Rightarrow> bool \<Rightarrow> int \<Rightarrow> CronJob \<Rightarrow> job_step" where
  "maintain_job env recomputeExpired now j =
     (case st_nextRunAtMs (job_state j) of
        None \<Rightarrow> recomputeJobNextRunAtMs env now j
      | Some t \<Rightarrow>
          if recomputeExpired \<and> now \<ge> t \<and> st_runningAtMs (job_state j) = None \<and>
             (case st_lastRunAtMs (job_state j) of None \<Rightarrow> False | Some l \<Rightarrow> l \<ge> t)
          then recomputeJobNextRunAtMs env now j else (False, j, []))"

definition recomputeNextRunsForMaintenance ::
    "cron_env \<Rightarrow> bool \<Rightarrow> int \<Rightarrow> CronJob list \<Rightarrow> bool \<times> CronJob list \<times> cron_effect list" where
  "recomputeNextRunsForMaintenance env recomputeExpired now jobs =
     walkSchedulableJobs (maintain_job env recomputeExpired) now jobs"

definition wake_times :: "CronJob list \<Rightarrow> int list" where
  "wake_times jobs =
     List.map_filter (\<lambda>j. if job_enabled j then st_nextRunAtMs (job_state j) else None) jobs"

definition nextWakeAtMs :: "CronJob list \<Rightarrow> int option" where
  "nextWakeAtMs jobs =
     (case wake_times jobs of [] \<Rightarrow> None | t # ts \<Rightarrow> Some (foldl min t (t # ts)))"

section \<open>Validation\<close>

definition is_isolated_like :: "string \<Rightarrow> bool" where
  "is_isolated_like target \<longleftrightarrow>
     target = ''isolated'' \<or> target = ''current'' \<or> starts_with target ''session:''"

definition is_agent_turn :: "CronPayload \<Rightarrow> bool" where
  "is_agent_turn p = (case p of AgentTurn _ \<Rightarrow> True | SystemEvent _ \<Rightarrow> False)"

definition assertSupportedJobSpec :: "CronJob \<Rightarrow> CronJob thrown" where
  "assertSupportedJobSpec j =
     (if job_sessionTarget j = ''main'' \<and> is_agent_turn (job_payload j)
      then Inl (''Error: main cron jobs require payload.kind='' @ quoted ''systemEvent'')
      else if is_isolated_like (job_sessionTarget j) \<and> \<not> is_agent_turn (job_payload j)
      then Inl (''Error: isolated/current/session cron jobs require payload.kind='' @ quoted ''agentTurn'')
      else Inr j)"

definition assertMainSessionAgentId :: "string option \<Rightarrow> CronJob \<Rightarrow> CronJob thrown" where
  "assertMainSessionAgentId defaultAgentId j =
     (if job_sessionTarget j \<noteq> ''main'' then Inr j
      else (case job_agentId j of
              None \<Rightarrow> Inr j
            | Some a \<Rightarrow>
                if a = [] \<or> normalizeAgentId (Some a) = normalizeAgentId defaultAgentId then Inr j
                else Inl (''Error: cron: sessionTarget '' @ quoted ''main'' @ '' is only valid for the default agent. Use sessionTarget '' @ quoted ''isolated'' @ '' with payload.kind '' @ quoted ''agentTurn'' @ '' for non-default agents (agentId: '' @ a @ '')'')))"

definition normalizeHttpWebhookUrl :: "cron_env \<Rightarrow> string option \<Rightarrow> string option" where
  "normalizeHttpWebhookUrl env value =
     (case trimmed_opt value of
        None \<Rightarrow> None
      | Some t \<Rightarrow>
          (case ce_url_protocol env t of
             None \<Rightarrow> None
           | Some p \<Rightarrow> if p = ''http:'' \<or> p = ''https:'' then Some t else None))"

definition assertDeliverySupport :: "cron_env \<Rightarrow> CronJob \<Rightarrow> CronJob thrown" where
  "assertDeliverySupport env j =
     (case job_delivery j of
        None \<Rightarrow> Inr j
      | Some d \<Rightarrow>
          if dl_mode d = Some ''none'' then Inr j
          else if dl_mode d = Some ''webhook'' then
            (case normalizeHttpWebhookUrl env (dl_to d) of
               None \<Rightarrow> Inl ''Error: cron webhook delivery requires delivery.to to be a valid http(s) URL''
             | Some t \<Rightarrow> Inr (j\<lparr>job_delivery := Some (d\<lparr>dl_to := Some t\<rparr>)\<rparr>))
          else if is_isolated_like (job_sessionTarget j) then Inr j
          else Inl (''Error: cron channel delivery config is only supported for sessionTarget='' @ quoted ''isolated''))"

definition delivery_mode :: "CronJob \<Rightarrow> string option" where
  "delivery_mode j = (case job_delivery j of None \<Rightarrow> None | Some d \<Rightarrow> dl_mode d)"

definition delivery_failureDestination :: "CronJob \<Rightarrow> CronFailureDestination option" where
  "delivery_failureDestination j =
     (case job_delivery j of None \<Rightarrow> None | Some d \<Rightarrow> dl_failureDestination d)"

definition main_without_webhook :: "CronJob \<Rightarrow> bool" where
  "main_without_webhook j \<longleftrightarrow> job_sessionTarget j = ''main'' \<and> delivery_mode j \<noteq> Some ''webhook''"

definition failure_destination_error :: string where
  "failure_destination_error = ''Error: cron delivery.failureDestination is only supported for sessionTarget='' @ quoted ''isolated'' @ '' unless delivery.mode='' @ quoted ''webhook''"

definition assertFailureDestinationSupport :: "cron_env \<Rightarrow> CronJob \<Rightarrow> CronJob thrown" where
  "assertFailureDestinationSupport env j =
     (case (job_delivery j, delivery_failureDestination j) of
        (Some d, Some fd) \<Rightarrow>
          if main_without_webhook j then Inl failure_destination_error
          else if fd_mode fd = Some (Some ''webhook'') then
            (case normalizeHttpWebhookUrl env (case fd_to fd of None \<Rightarrow> None | Some t \<Rightarrow> t) of
               None \<Rightarrow> Inl ''Error: cron failure destination webhook requires delivery.failureDestination.to to be a valid http(s) URL''
             | Some t \<Rightarrow> Inr (j\<lparr>job_delivery :=
                   Some (d\<lparr>dl_failureDestination := Some (fd\<lparr>fd_to := Some (Some t)\<rparr>)\<rparr>)\<rparr>))
          else Inr j
      | _ \<Rightarrow> Inr j)"

definition validate_job :: "cron_env \<Rightarrow> string option \<Rightarrow> CronJob \<Rightarrow> CronJob thrown" where
  "validate_job env defaultAgentId j =
     bind_ok (assertSupportedJobSpec j) (\<lambda>j.
     bind_ok (assertMainSessionAgentId defaultAgentId j) (\<lambda>j.
     bind_ok (assertDeliverySupport env j) (assertFailureDestinationSupport env)))"

definition findJobOrThrow :: "string \<Rightarrow> CronJob list \<Rightarrow> CronJob thrown" where
  "findJobOrThrow i jobs =
     (case find (\<lambda>j. job_id j = i) jobs of
        None \<Rightarrow> Inl (''Error: unknown cron job id: '' @ i)
      | Some j \<Rightarrow> Inr j)"

section \<open>Due jobs\<close>

definition isJobDue :: "CronJob \<Rightarrow> int \<Rightarrow> bool \<Rightarrow> bool" where
  "isJobDue j now forced =
     (if st_runningAtMs (job_state j) \<noteq> None then False
      else if forced then True
      else job_enabled j \<and> (case st_nextRunAtMs (job_state j) of None \<Rightarrow> False | Some t \<Rightarrow> now \<ge> t))"

definition normalizePayloadToSystemText :: "CronPayload \<Rightarrow> string" where
  "normalizePayloadToSystemText p =
     (case p of SystemEvent t \<Rightarrow> trim t | AgentTurn a \<Rightarrow> trim (at_message a))"

definition resolveJobPayloadTextForMain :: "CronJob \<Rightarrow> string option" where
  "resolveJobPayloadTextForMain j =
     (if is_agent_turn (job_payload j) then None
      else (let text = normalizePayloadToSystemText (job_payload j) in
            if trim text = [] then None else Some text))"

end
