(* ===== verification/CronPatch.thy ===== *)
theory CronPatch
  imports CronJobs
begin

text \<open>
  Creating and patching a job: \<open>createJob\<close>, \<open>applyJobPatch\<close> and its merges
  (\<open>src/cron/service/jobs.ts\<close>), the normalization of names and identifiers
  (\<open>service/normalize.ts\<close>) and the delivery of a new job (\<open>service/initial-delivery.ts\<close>).

  \<open>applyJobPatch\<close> mutates the job it is given one field after the other and may throw on the
  way, so its result is the job as it is left behind and the exception. A property of a patch
  that the code tests with \<open>in\<close> is a \<open>jsval option\<close>: absent, or present with any value.
\<close>

section \<open>Normalization of names and identifiers\<close>

definition normalizeRequiredName :: "jsval \<Rightarrow> string thrown" where
  "normalizeRequiredName raw =
     (case raw of
        JStr s \<Rightarrow> if trim s = [] then Inl ''Error: cron job name is required'' else Inr (trim s)
      | _ \<Rightarrow> Inl ''Error: cron job name is required'')"

definition normalizeOptionalText :: "jsval \<Rightarrow> string option" where
  "normalizeOptionalText raw = (case raw of JStr s \<Rightarrow> nonempty (trim s) | _ \<Rightarrow> None)"

definition normalizeOptionalAgentId :: "jsval \<Rightarrow> string option" where
  "normalizeOptionalAgentId raw =
     (case raw of
        JStr s \<Rightarrow> if trim s = [] then None else Some (normalizeAgentId (Some (trim s)))
      | _ \<Rightarrow> None)"

definition normalizeOptionalSessionKey :: "jsval \<Rightarrow> string option" where
  "normalizeOptionalSessionKey raw = (case raw of JStr s \<Rightarrow> nonempty (trim s) | _ \<Rightarrow> None)"

definition normalizeOptionalTrimmedString :: "jsval \<Rightarrow> string option" where
  "normalizeOptionalTrimmedString value =
     (let trimmed = (case value of JStr s \<Rightarrow> trim s | _ \<Rightarrow> []) in nonempty trimmed)"

definition normalizeOptionalThreadId :: "jsval \<Rightarrow> thread_id option" where
  "normalizeOptionalThreadId value =
     (case value of
        JNum r \<Rightarrow> Some (ThreadNumber r)
      | _ \<Rightarrow> map_option ThreadText (normalizeOptionalTrimmedString value))"

section \<open>Patches\<close>

text \<open>A partial job state is the list of its assignments.\<close>

datatype state_assignment =
    NextRunAtMs "int option" | RunningAtMs "int option" | LastRunAtMs "int option"
  | LastRunStatus "CronRunStatus option" | LastStatus "CronRunStatus option"
  | LastError "string option" | LastErrorReason "string option" | LastDurationMs "int option"
  | ConsecutiveErrors "int option" | LastFailureAlertAtMs "int option"
  | ScheduleErrorCount "int option" | LastDeliveryStatus "CronDeliveryStatus option"
  | LastDeliveryError "string option" | LastDelivered "bool option"

fun assign_state :: "CronJobState \<Rightarrow> state_assignment \<Rightarrow> CronJobState" where
  "assign_state s (NextRunAtMs v) = s\<lparr>st_nextRunAtMs := v\<rparr>"
| "assign_state s (RunningAtMs v) = s\<lparr>st_runningAtMs := v\<rparr>"
| "assign_state s (LastRunAtMs v) = s\<lparr>st_lastRunAtMs := v\<rparr>"
| "assign_state s (LastRunStatus v) = s\<lparr>st_lastRunStatus := v\<rparr>"
| "assign_state s (LastStatus v) = s\<lparr>st_lastStatus := v\<rparr>"
| "assign_state s (LastError v) = s\<lparr>st_lastError := v\<rparr>"
| "assign_state s (LastErrorReason v) = s\<lparr>st_lastErrorReason := v\<rparr>"
| "assign_state s (LastDurationMs v) = s\<lparr>st_lastDurationMs := v\<rparr>"
| "assign_state s (ConsecutiveErrors v) = s\<lparr>st_consecutiveErrors := v\<rparr>"
| "assign_state s (LastFailureAlertAtMs v) = s\<lparr>st_lastFailureAlertAtMs := v\<rparr>"
| "assign_state s (ScheduleErrorCount v) = s\<lparr>st_scheduleErrorCount := v\<rparr>"
| "assign_state s (LastDeliveryStatus v) = s\<lparr>st_lastDeliveryStatus := v\<rparr>"
| "assign_state s (LastDeliveryError v) = s\<lparr>st_lastDeliveryError := v\<rparr>"
| "assign_state s (LastDelivered v) = s\<lparr>st_lastDelivered := v\<rparr>"

datatype tools_patch = ToolsKeep | ToolsNull | ToolsSet "string list"

record agent_turn_patch =
  ap_message :: "string option"
  ap_model :: "string option"
  ap_fallbacks :: "string list option"
  ap_toolsAllow :: tools_patch
  ap_thinking :: "string option"
  ap_timeoutSeconds :: "rat option"
  ap_lightContext :: "bool option"
  ap_allowUnsafe :: "bool option"

datatype CronPayloadPatch = SystemEventPatch "string option" | AgentTurnPatch agent_turn_patch

record failure_destination_patch =
  fp_channel :: "jsval option"
  fp_to :: "jsval option"
  fp_accountId :: "jsval option"
  fp_mode :: "jsval option"

datatype failure_destination_field = FdAbsent | FdUndefined | FdNull | FdPatch failure_destination_patch

record CronDeliveryPatch =
  dp_mode :: "string option"
  dp_channel :: "jsval option"
  dp_to :: "jsval option"
  dp_threadId :: "jsval option"
  dp_accountId :: "jsval option"
  dp_bestEffort :: "bool option"
  dp_failureDestination :: failure_destination_field

record failure_alert_patch =
  lp_after :: "jsval option"
  lp_channel :: "jsval option"
  lp_to :: "jsval option"
  lp_cooldownMs :: "jsval option"
  lp_mode :: "jsval option"
  lp_accountId :: "jsval option"

datatype alert_patch = AlertPatchUndefined | AlertPatchOff | AlertPatch failure_alert_patch

record CronJobPatch =
  pt_name :: "jsval option"
  pt_description :: "jsval option"
  pt_enabled :: "bool option"
  pt_deleteAfterRun :: "bool option"
  pt_schedule :: "CronSchedule option"
  pt_sessionTarget :: "string option"
  pt_wakeMode :: "CronWakeMode option"
  pt_payload :: "CronPayloadPatch option"
  pt_delivery :: "CronDeliveryPatch option"
  pt_failureAlert :: "alert_patch option"
  pt_state :: "state_assignment list option"
  pt_agentId :: "jsval option"
  pt_sessionKey :: "jsval option"

definition empty_patch :: CronJobPatch where
  "empty_patch = \<lparr>pt_name = None, pt_description = None, pt_enabled = None, pt_deleteAfterRun = None,
     pt_schedule = None, pt_sessionTarget = None, pt_wakeMode = None, pt_payload = None,
     pt_delivery = None, pt_failureAlert = None, pt_state = None, pt_agentId = None,
     pt_sessionKey = None\<rparr>"

record CronJobCreate =
  cr_agentId :: jsval
  cr_sessionKey :: jsval
  cr_name :: jsval
  cr_description :: jsval
  cr_enabled :: "bool option"
  cr_deleteAfterRun :: "bool option"
  cr_schedule :: CronSchedule
  cr_sessionTarget :: string
  cr_wakeMode :: CronWakeMode
  cr_payload :: CronPayload
  cr_delivery :: "CronDelivery option"
  cr_failureAlert :: failure_alert_field
  cr_state :: "state_assignment list"

section \<open>Merging payloads, deliveries and alerts\<close>

definition or_keep :: "'a option \<Rightarrow> 'a \<Rightarrow> 'a" where
  "or_keep p x = (case p of None \<Rightarrow> x | Some v \<Rightarrow> v)"

lemma or_keep_simps [simp]: "or_keep None x = x" "or_keep (Some v) x = v"
  by (simp_all add: or_keep_def)

definition some_or_keep :: "'a option \<Rightarrow> 'a option \<Rightarrow> 'a option" where
  "some_or_keep p x = (case p of None \<Rightarrow> x | Some v \<Rightarrow> Some v)"

lemma some_or_keep_simps [simp]:
  "some_or_keep None x = x" "some_or_keep (Some v) x = Some v"
  "some_or_keep p (some_or_keep p x) = some_or_keep p x"
  by (simp_all add: some_or_keep_def split: option.split)

definition buildPayloadFromPatch :: "CronPayloadPatch \<Rightarrow> CronPayload thrown" where
  "buildPayloadFromPatch patch =
     (case patch of
        SystemEventPatch text \<Rightarrow>
          (case text of
             Some t \<Rightarrow> if t = [] then Inl (''Error: cron.update payload.kind='' @ quoted ''systemEvent'' @ '' requires text'')
                       else Inr (SystemEvent t)
           | None \<Rightarrow> Inl (''Error: cron.update payload.kind='' @ quoted ''systemEvent'' @ '' requires text''))
      | AgentTurnPatch p \<Rightarrow>
          (case ap_message p of
             Some m \<Rightarrow>
               if m = [] then Inl (''Error: cron.update payload.kind='' @ quoted ''agentTurn'' @ '' requires message'')
               else Inr (AgentTurn \<lparr>at_message = m, at_model = ap_model p, at_fallbacks = ap_fallbacks p,
                      at_thinking = ap_thinking p, at_timeoutSeconds = ap_timeoutSeconds p,
                      at_allowUnsafe = ap_allowUnsafe p, at_externalSource = None,
                      at_lightContext = ap_lightContext p,
                      at_toolsAllow = (case ap_toolsAllow p of ToolsSet ts \<Rightarrow> Some ts | _ \<Rightarrow> None)\<rparr>)
           | None \<Rightarrow> Inl (''Error: cron.update payload.kind='' @ quoted ''agentTurn'' @ '' requires message'')))"

definition mergeCronPayload :: "CronPayload \<Rightarrow> CronPayloadPatch \<Rightarrow> CronPayload thrown" where
  "mergeCronPayload existing patch =
     (case (existing, patch) of
        (SystemEvent old, SystemEventPatch text) \<Rightarrow> Inr (SystemEvent (or_keep text old))
      | (AgentTurn a, AgentTurnPatch p) \<Rightarrow>
          Inr (AgentTurn (a\<lparr>
            at_message := or_keep (ap_message p) (at_message a),
            at_model := some_or_keep (ap_model p) (at_model a),
            at_fallbacks := some_or_keep (ap_fallbacks p) (at_fallbacks a),
            at_toolsAllow := (case ap_toolsAllow p of
               ToolsSet ts \<Rightarrow> Some ts | ToolsNull \<Rightarrow> None | ToolsKeep \<Rightarrow> at_toolsAllow a),
            at_thinking := some_or_keep (ap_thinking p) (at_thinking a),
            at_timeoutSeconds := some_or_keep (ap_timeoutSeconds p) (at_timeoutSeconds a),
            at_lightContext := some_or_keep (ap_lightContext p) (at_lightContext a),
            at_allowUnsafe := some_or_keep (ap_allowUnsafe p) (at_allowUnsafe a)\<rparr>))
      | _ \<Rightarrow> buildPayloadFromPatch patch)"

definition announce_or_webhook :: "jsval \<Rightarrow> string option" where
  "announce_or_webhook value =
     (let mode = (case value of JStr s \<Rightarrow> trim s | _ \<Rightarrow> []) in
      if mode = ''announce'' \<or> mode = ''webhook'' then Some mode else None)"

text \<open>The merged failure destination has all four properties, undefined or not.\<close>

definition present_field :: "'a option option \<Rightarrow> 'a option option" where
  "present_field f = (case f of None \<Rightarrow> Some None | Some v \<Rightarrow> Some v)"

lemma present_field_idem [simp]: "present_field (present_field f) = present_field f"
  by (simp add: present_field_def split: option.split)

lemma present_field_Some [simp]: "present_field (Some v) = Some v"
  by (simp add: present_field_def)

definition existing_fd :: "CronFailureDestination option \<Rightarrow> CronFailureDestination" where
  "existing_fd fd =
     (case fd of
        None \<Rightarrow> \<lparr>fd_channel = Some None, fd_to = Some None, fd_accountId = Some None, fd_mode = Some None\<rparr>
      | Some f \<Rightarrow> \<lparr>fd_channel = present_field (fd_channel f), fd_to = present_field (fd_to f),
                 fd_accountId = present_field (fd_accountId f), fd_mode = present_field (fd_mode f)\<rparr>)"

definition mergeFailureDestination ::
    "CronFailureDestination option \<Rightarrow> failure_destination_field \<Rightarrow> CronFailureDestination option" where
  "mergeFailureDestination existing field =
     (case field of
        FdAbsent \<Rightarrow> existing
      | FdUndefined \<Rightarrow> None
      | FdNull \<Rightarrow> Some (existing_fd existing)
      | FdPatch p \<Rightarrow>
          (let base = existing_fd existing in
           Some \<lparr>fd_channel = some_or_keep (map_option normalizeOptionalTrimmedString (fp_channel p)) (fd_channel base),
                 fd_to = some_or_keep (map_option normalizeOptionalTrimmedString (fp_to p)) (fd_to base),
                 fd_accountId = some_or_keep (map_option normalizeOptionalTrimmedString (fp_accountId p)) (fd_accountId base),
                 fd_mode = some_or_keep (map_option announce_or_webhook (fp_mode p)) (fd_mode base)\<rparr>))"

definition mergeCronDelivery :: "CronDelivery option \<Rightarrow> CronDeliveryPatch \<Rightarrow> CronDelivery" where
  "mergeCronDelivery existing patch =
     (let old = (\<lambda>f. case existing of None \<Rightarrow> None | Some d \<Rightarrow> f d);
          oldThread = (case existing of None \<Rightarrow> None | Some d \<Rightarrow> dl_threadId d);
          oldBest = (case existing of None \<Rightarrow> None | Some d \<Rightarrow> dl_bestEffort d);
          oldFd = (case existing of None \<Rightarrow> None | Some d \<Rightarrow> dl_failureDestination d)
      in \<lparr>dl_mode = Some (case dp_mode patch of
             Some m \<Rightarrow> if m = ''deliver'' then ''announce'' else m
           | None \<Rightarrow> (case old dl_mode of Some m \<Rightarrow> m | None \<Rightarrow> ''none'')),
          dl_channel = or_keep (map_option normalizeOptionalTrimmedString (dp_channel patch)) (old dl_channel),
          dl_to = or_keep (map_option normalizeOptionalTrimmedString (dp_to patch)) (old dl_to),
          dl_threadId = or_keep (map_option normalizeOptionalThreadId (dp_threadId patch)) oldThread,
          dl_accountId = or_keep (map_option normalizeOptionalTrimmedString (dp_accountId patch)) (old dl_accountId),
          dl_bestEffort = some_or_keep (dp_bestEffort patch) oldBest,
          dl_failureDestination = mergeFailureDestination oldFd (dp_failureDestination patch)\<rparr>)"

definition alert_after :: "jsval \<Rightarrow> jsval" where
  "alert_after v =
     (let after = (case v of JNum r \<Rightarrow> r | _ \<Rightarrow> 0) in
      if after > 0 then JNum (of_int \<lfloor>after\<rfloor>) else JUndef)"

definition alert_cooldown :: "jsval \<Rightarrow> jsval" where
  "alert_cooldown v =
     (let cooldownMs = (case v of JNum r \<Rightarrow> r | _ \<Rightarrow> -1) in
      if cooldownMs \<ge> 0 then JNum (of_int \<lfloor>cooldownMs\<rfloor>) else JUndef)"

definition mergeCronFailureAlert :: "failure_alert_field \<Rightarrow> alert_patch \<Rightarrow> failure_alert_field" where
  "mergeCronFailureAlert existing patch =
     (case patch of
        AlertPatchOff \<Rightarrow> AlertOff
      | AlertPatchUndefined \<Rightarrow> existing
      | AlertPatch p \<Rightarrow>
          (let base = (case existing of
                 AlertOn a \<Rightarrow> a
               | _ \<Rightarrow> \<lparr>fa_after = JUndef, fa_channel = None, fa_to = None, fa_cooldownMs = JUndef,
                       fa_mode = None, fa_accountId = None\<rparr>)
           in AlertOn \<lparr>fa_after = or_keep (map_option alert_after (lp_after p)) (fa_after base),
                fa_channel = or_keep (map_option normalizeOptionalTrimmedString (lp_channel p)) (fa_channel base),
                fa_to = or_keep (map_option normalizeOptionalTrimmedString (lp_to p)) (fa_to base),
                fa_cooldownMs = or_keep (map_option alert_cooldown (lp_cooldownMs p)) (fa_cooldownMs base),
                fa_mode = or_keep (map_option announce_or_webhook (lp_mode p)) (fa_mode base),
                fa_accountId = or_keep (map_option normalizeOptionalTrimmedString (lp_accountId p)) (fa_accountId base)\<rparr>))"

section \<open>Creating a job\<close>

definition resolveInitialCronDelivery :: "CronJobCreate \<Rightarrow> CronDelivery option" where
  "resolveInitialCronDelivery input =
     (case cr_delivery input of
        Some d \<Rightarrow> Some d
      | None \<Rightarrow>
          if cr_sessionTarget input = ''isolated'' \<and> is_agent_turn (cr_payload input)
          then Some \<lparr>dl_mode = Some ''announce'', dl_channel = None, dl_to = None, dl_threadId = None,
                     dl_accountId = None, dl_bestEffort = None, dl_failureDestination = None\<rparr>
          else None)"

text \<open>The explicit or the default stagger of a cron schedule; the default needs \<open>expr\<close>, since
  \<open>isRecurringTopOfHourCronExpr\<close> calls \<open>expr.trim()\<close>.\<close>

definition default_stagger_schedule :: "CronSchedule \<Rightarrow> CronSchedule thrown" where
  "default_stagger_schedule s =
     (case s of
        SCron expr cron tz staggerMs \<Rightarrow>
          (case normalizeCronStaggerMs staggerMs of
             Some ms \<Rightarrow> Inr (SCron expr cron tz (JNum (of_int ms)))
           | None \<Rightarrow>
               (case expr of
                  None \<Rightarrow> Inl (''TypeError: Cannot read properties of undefined (reading '' @ [CHR 0x27] @ ''trim'' @ [CHR 0x27] @ '')'')
                | Some e \<Rightarrow> (case resolveDefaultCronStaggerMs e of
                     Some ms \<Rightarrow> Inr (SCron expr cron tz (JNum (of_int ms)))
                   | None \<Rightarrow> Inr s)))
      | _ \<Rightarrow> Inr s)"

definition initial_schedule :: "int \<Rightarrow> CronSchedule \<Rightarrow> CronSchedule thrown" where
  "initial_schedule now s =
     (case s of
        SEvery everyMs anchorMs \<Rightarrow> Inr (SEvery everyMs (JNum (of_int (resolveEveryAnchorMs anchorMs now))))
      | _ \<Rightarrow> default_stagger_schedule s)"

text \<open>The job that the input describes, before it is checked.\<close>

definition initial_job :: "string \<Rightarrow> int \<Rightarrow> CronSchedule \<Rightarrow> string \<Rightarrow> CronJobCreate \<Rightarrow> CronJob" where
  "initial_job new_id now schedule name input =
     \<lparr>job_id = new_id,
      job_agentId = normalizeOptionalAgentId (cr_agentId input),
      job_sessionKey = normalizeOptionalSessionKey (cr_sessionKey input),
      job_name = name,
      job_description = normalizeOptionalText (cr_description input),
      job_enabled = (case cr_enabled input of Some b \<Rightarrow> b | None \<Rightarrow> True),
      job_deleteAfterRun = (case cr_deleteAfterRun input of
         Some b \<Rightarrow> Some b
       | None \<Rightarrow> if is_at schedule then Some True else None),
      job_createdAtMs = now,
      job_updatedAtMs = now,
      job_schedule = schedule,
      job_sessionTarget = cr_sessionTarget input,
      job_wakeMode = cr_wakeMode input,
      job_payload = cr_payload input,
      job_delivery = resolveInitialCronDelivery input,
      job_failureAlert = cr_failureAlert input,
      job_state = foldl assign_state empty_job_state (cr_state input)\<rparr>"

definition createJob ::
    "cron_env \<Rightarrow> string option \<Rightarrow> string \<Rightarrow> int \<Rightarrow> CronJobCreate \<Rightarrow> CronJob thrown" where
  "createJob env defaultAgentId new_id now input =
     bind_ok (initial_schedule now (cr_schedule input)) (\<lambda>schedule.
     bind_ok (normalizeRequiredName (cr_name input)) (\<lambda>name.
     bind_ok (validate_job env defaultAgentId (initial_job new_id now schedule name input)) (\<lambda>job.
     bind_ok (computeJobNextRunAtMs env job now) (\<lambda>next.
       Inr (set_state (\<lambda>s. s\<lparr>st_nextRunAtMs := next\<rparr>) job)))))"

section \<open>Patching a job\<close>

definition patch_schedule :: "CronSchedule \<Rightarrow> CronSchedule \<Rightarrow> CronSchedule thrown" where
  "patch_schedule old new =
     (case new of
        SCron expr cron tz staggerMs \<Rightarrow>
          (case (normalizeCronStaggerMs staggerMs, old) of
             (None, SCron _ _ _ oldStagger) \<Rightarrow> Inr (SCron expr cron tz oldStagger)
           | _ \<Rightarrow> default_stagger_schedule new)
      | _ \<Rightarrow> Inr new)"

text \<open>One step of the patch per statement of the code; a step that throws leaves the job alone.\<close>

type_synonym job_update = "CronJob \<Rightarrow> CronJob thrown"

definition when_some :: "'a option \<Rightarrow> ('a \<Rightarrow> job_update) \<Rightarrow> job_update" where
  "when_some p f j = (case p of None \<Rightarrow> Inr j | Some v \<Rightarrow> f v j)"

lemma when_some_simps [simp]: "when_some None f j = Inr j" "when_some (Some v) f j = f v j"
  by (simp_all add: when_some_def)

definition patch_target :: "string \<Rightarrow> job_update" where
  "patch_target t j = (if t = [] then Inr j else Inr (j\<lparr>job_sessionTarget := t\<rparr>))"

definition reject_main_failure_destination :: job_update where
  "reject_main_failure_destination j =
     (if main_without_webhook j \<and> delivery_failureDestination j \<noteq> None
      then Inl failure_destination_error else Inr j)"

definition drop_main_delivery :: job_update where
  "drop_main_delivery j = Inr (if main_without_webhook j then j\<lparr>job_delivery := None\<rparr> else j)"

definition patch_steps :: "CronJobPatch \<Rightarrow> job_update list" where
  "patch_steps p =
     [when_some (pt_name p) (\<lambda>v j. bind_ok (normalizeRequiredName v) (\<lambda>n. Inr (j\<lparr>job_name := n\<rparr>))),
      when_some (pt_description p) (\<lambda>v j. Inr (j\<lparr>job_description := normalizeOptionalText v\<rparr>)),
      when_some (pt_enabled p) (\<lambda>b j. Inr (j\<lparr>job_enabled := b\<rparr>)),
      when_some (pt_deleteAfterRun p) (\<lambda>b j. Inr (j\<lparr>job_deleteAfterRun := Some b\<rparr>)),
      when_some (pt_schedule p) (\<lambda>s j. bind_ok (patch_schedule (job_schedule j) s)
                                         (\<lambda>s'. Inr (j\<lparr>job_schedule := s'\<rparr>))),
      when_some (pt_sessionTarget p) patch_target,
      when_some (pt_wakeMode p) (\<lambda>w j. Inr (j\<lparr>job_wakeMode := w\<rparr>)),
      when_some (pt_payload p) (\<lambda>v j. bind_ok (mergeCronPayload (job_payload j) v)
                                        (\<lambda>v'. Inr (j\<lparr>job_payload := v'\<rparr>))),
      when_some (pt_delivery p) (\<lambda>d j. Inr (j\<lparr>job_delivery := Some (mergeCronDelivery (job_delivery j) d)\<rparr>)),
      when_some (pt_failureAlert p) (\<lambda>a j. Inr (j\<lparr>job_failureAlert := mergeCronFailureAlert (job_failureAlert j) a\<rparr>)),
      reject_main_failure_destination,
      drop_main_delivery,
      when_some (pt_state p) (\<lambda>as j. Inr (set_state (\<lambda>s. foldl assign_state s as) j)),
      when_some (pt_agentId p) (\<lambda>v j. Inr (j\<lparr>job_agentId := normalizeOptionalAgentId v\<rparr>)),
      when_some (pt_sessionKey p) (\<lambda>v j. Inr (j\<lparr>job_sessionKey := normalizeOptionalSessionKey v\<rparr>))]"

definition check_steps :: "cron_env \<Rightarrow> string option \<Rightarrow> job_update list" where
  "check_steps env defaultAgentId =
     [assertSupportedJobSpec, assertMainSessionAgentId defaultAgentId,
      assertDeliverySupport env, assertFailureDestinationSupport env]"

text \<open>The job as the steps leave it, and the exception of the one that threw.\<close>

fun run_updates :: "job_update list \<Rightarrow> CronJob \<Rightarrow> CronJob \<times> string option" where
  "run_updates [] j = (j, None)"
| "run_updates (f # fs) j = (case f j of Inl e \<Rightarrow> (j, Some e) | Inr j' \<Rightarrow> run_updates fs j')"

definition applyJobPatch ::
    "cron_env \<Rightarrow> string option \<Rightarrow> CronJobPatch \<Rightarrow> CronJob \<Rightarrow> CronJob \<times> string option" where
  "applyJobPatch env defaultAgentId patch job =
     run_updates (patch_steps patch @ check_steps env defaultAgentId) job"

end
