(* ===== verification/CronResult.thy ===== *)
theory CronResult
  imports CronDelivery
begin

text \<open>
  What the result of a run does to its job, the first half of \<open>src/cron/service/timer.ts\<close>:
  time limits and error texts, the back-off tables, the classification of transient errors,
  failure alerts, and \<open>applyJobResult\<close>.

  \<open>applyJobResult\<close> mutates the job and may send an alert: it returns the job, whether the caller
  has to delete it, and the effects. The clock it reads for the alert cooldown is an argument;
  the failover classifier of the agent runtime is a function of the dependencies.
\<close>

section \<open>The dependencies of the service\<close>

record cron_deps =
  cd_cronEnabled :: bool
  cd_defaultAgentId :: "string option"
  cd_cronConfig :: "CronConfig option"
  cd_missedJobStaggerMs :: "int option"
  cd_maxMissedJobsPerRestart :: "int option"
  cd_hasRunHeartbeatOnce :: bool
  cd_busyMaxWaitMs :: "int option"
  cd_busyRetryDelayMs :: "int option"
  cd_hasSendCronFailureAlert :: bool
  cd_failoverReason :: "string \<Rightarrow> string option"

definition config_of :: "(CronConfig \<Rightarrow> 'a option) \<Rightarrow> cron_deps \<Rightarrow> 'a option" where
  "config_of f deps = (case cd_cronConfig deps of None \<Rightarrow> None | Some c \<Rightarrow> f c)"

section \<open>Limits\<close>

definition MAX_TIMER_DELAY_MS :: int where "MAX_TIMER_DELAY_MS = 60000"

definition MIN_REFIRE_GAP_MS :: int where "MIN_REFIRE_GAP_MS = 2000"

definition DEFAULT_JOB_TIMEOUT_MS :: int where "DEFAULT_JOB_TIMEOUT_MS = 10 * 60000"

definition AGENT_TURN_SAFETY_TIMEOUT_MS :: int where "AGENT_TURN_SAFETY_TIMEOUT_MS = 60 * 60000"

definition resolveCronJobTimeoutMs :: "CronJob \<Rightarrow> int option" where
  "resolveCronJobTimeoutMs job =
     (let configured = (case job_payload job of
            AgentTurn a \<Rightarrow> map_option (\<lambda>r. \<lfloor>r * 1000\<rfloor>) (at_timeoutSeconds a)
          | SystemEvent _ \<Rightarrow> None)
      in case configured of
           None \<Rightarrow> Some (if is_agent_turn (job_payload job) then AGENT_TURN_SAFETY_TIMEOUT_MS
                        else DEFAULT_JOB_TIMEOUT_MS)
         | Some ms \<Rightarrow> if ms \<le> 0 then None else Some ms)"

definition resolveRunConcurrency :: "cron_deps \<Rightarrow> nat" where
  "resolveRunConcurrency deps =
     (case (case cd_cronConfig deps of None \<Rightarrow> JUndef | Some c \<Rightarrow> cc_maxConcurrentRuns c) of
        JNum r \<Rightarrow> nat (max 1 \<lfloor>r\<rfloor>)
      | _ \<Rightarrow> 1)"

section \<open>Error texts\<close>

definition timeoutErrorMessage :: string where
  "timeoutErrorMessage = ''cron: job execution timed out''"

datatype thrown_value = ThrownError string string | ThrownString string

definition isAbortError :: "thrown_value \<Rightarrow> bool" where
  "isAbortError err =
     (case err of ThrownError name msg \<Rightarrow> name = ''AbortError'' \<or> msg = timeoutErrorMessage
                | ThrownString _ \<Rightarrow> False)"

definition normalizeCronRunErrorText :: "thrown_value \<Rightarrow> string" where
  "normalizeCronRunErrorText err =
     (if isAbortError err then timeoutErrorMessage
      else case err of
        ThrownString s \<Rightarrow> if s = ''Error: '' @ timeoutErrorMessage then timeoutErrorMessage else s
      | ThrownError name msg \<Rightarrow>
          if name = [] then msg else if msg = [] then name else name @ '': '' @ msg)"

section \<open>Back-off and transient errors\<close>

definition DEFAULT_BACKOFF_SCHEDULE_MS :: "int list" where
  "DEFAULT_BACKOFF_SCHEDULE_MS = [30000, 60000, 5 * 60000, 15 * 60000, 60 * 60000]"

definition errorBackoffMs :: "int \<Rightarrow> int list \<Rightarrow> int" where
  "errorBackoffMs consecutiveErrors schedule =
     schedule ! nat (max 0 (min (consecutiveErrors - 1) (int (length schedule) - 1)))"

definition word_char :: "char \<Rightarrow> bool" where
  "word_char c = (let n = (of_char c :: nat) in
     (48 \<le> n \<and> n \<le> 57) \<or> (65 \<le> n \<and> n \<le> 90) \<or> (97 \<le> n \<and> n \<le> 122) \<or> c = CHR ''_'')"

text \<open>\<open>/\bw\b/\<close> for a pattern \<open>w\<close> of word characters; the flag says that a word character precedes.\<close>

fun word_match :: "(char \<Rightarrow> bool) list \<Rightarrow> bool \<Rightarrow> string \<Rightarrow> bool" where
  "word_match ps prev [] = False"
| "word_match ps prev (c # cs) =
     ((\<not> prev \<and> matches_prefix ps (c # cs) \<and>
       (case drop (length ps) (c # cs) of [] \<Rightarrow> True | d # ds \<Rightarrow> \<not> word_char d)) \<or>
      word_match ps (word_char c) cs)"

definition literal :: "string \<Rightarrow> (char \<Rightarrow> bool) list" where
  "literal s = map (\<lambda>c d. d = c) s"

definition transient_pattern :: "CronRetryOn \<Rightarrow> string \<Rightarrow> bool" where
  "transient_pattern k err =
     (let e = to_lower err; has = has_substring e in
      case k of
        RateLimit \<Rightarrow> has ''rate_limit'' \<or> has ''rate limit'' \<or> has ''too many requests'' \<or> has ''429'' \<or>
          has ''resource has been exhausted'' \<or> has ''cloudflare'' \<or> has ''tokens per day''
      | Overloaded \<Rightarrow> word_match (literal ''529'') False e \<or> word_match (literal ''overloaded'') False e \<or>
          word_match (literal ''overloaded_error'') False e \<or> has ''high demand'' \<or>
          has ''temporarily overloaded'' \<or> has ''temporary overloaded'' \<or> has ''capacity exceeded''
      | Network \<Rightarrow> has ''network'' \<or> has ''econnreset'' \<or> has ''econnrefused'' \<or> has ''fetch failed'' \<or> has ''socket''
      | TimeoutErr \<Rightarrow> has ''timeout'' \<or> has ''etimedout''
      | ServerError \<Rightarrow> word_match [\<lambda>c. c = CHR ''5'', is_digit_char, is_digit_char] False err)"

definition isTransientCronError :: "string option \<Rightarrow> CronRetryOn list option \<Rightarrow> bool" where
  "isTransientCronError err retryOn =
     (case err of
        None \<Rightarrow> False
      | Some e \<Rightarrow>
          e \<noteq> [] \<and>
          list_ex (\<lambda>k. transient_pattern k e)
            (case retryOn of
               Some (k # ks) \<Rightarrow> k # ks
             | _ \<Rightarrow> [RateLimit, Overloaded, Network, TimeoutErr, ServerError]))"

record retry_config =
  rc_maxAttempts :: int
  rc_backoffMs :: "int list"
  rc_retryOn :: "CronRetryOn list option"

definition nonempty_list :: "'a list option \<Rightarrow> 'a list option" where
  "nonempty_list xs = (case xs of Some (y # ys) \<Rightarrow> Some (y # ys) | _ \<Rightarrow> None)"

definition resolveRetryConfig :: "cron_deps \<Rightarrow> retry_config" where
  "resolveRetryConfig deps =
     (let retry = config_of cc_retry deps in
      \<lparr>rc_maxAttempts = (case retry of None \<Rightarrow> 3 | Some r \<Rightarrow>
          (case rt_maxAttempts r of None \<Rightarrow> 3 | Some n \<Rightarrow> n)),
       rc_backoffMs = (case retry of None \<Rightarrow> take 3 DEFAULT_BACKOFF_SCHEDULE_MS | Some r \<Rightarrow>
          (case nonempty_list (rt_backoffMs r) of
             None \<Rightarrow> take 3 DEFAULT_BACKOFF_SCHEDULE_MS | Some xs \<Rightarrow> xs)),
       rc_retryOn = (case retry of None \<Rightarrow> None | Some r \<Rightarrow> nonempty_list (rt_retryOn r))\<rparr>)"

section \<open>Failure alerts\<close>

definition resolveDeliveryStatus :: "CronJob \<Rightarrow> bool option \<Rightarrow> CronDeliveryStatus" where
  "resolveDeliveryStatus job delivered =
     (case delivered of
        Some True \<Rightarrow> Delivered
      | Some False \<Rightarrow> NotDelivered
      | None \<Rightarrow> if cp_requested (resolveCronDeliveryPlan job) then DeliveryUnknown else NotRequested)"

definition clampPositiveInt :: "jsval \<Rightarrow> int \<Rightarrow> int" where
  "clampPositiveInt value fallback =
     (case value of JNum r \<Rightarrow> if \<lfloor>r\<rfloor> \<ge> 1 then \<lfloor>r\<rfloor> else fallback | _ \<Rightarrow> fallback)"

definition clampNonNegativeInt :: "jsval \<Rightarrow> int \<Rightarrow> int" where
  "clampNonNegativeInt value fallback =
     (case value of JNum r \<Rightarrow> if \<lfloor>r\<rfloor> \<ge> 0 then \<lfloor>r\<rfloor> else fallback | _ \<Rightarrow> fallback)"

definition nullish_or :: "jsval \<Rightarrow> jsval \<Rightarrow> jsval" where
  "nullish_or a b = (case a of JUndef \<Rightarrow> b | JNull \<Rightarrow> b | _ \<Rightarrow> a)"

record failure_alert_plan =
  av_after :: int
  av_cooldownMs :: int
  av_target :: alert_target

definition resolveFailureAlert :: "cron_deps \<Rightarrow> CronJob \<Rightarrow> failure_alert_plan option" where
  "resolveFailureAlert deps job =
     (let g = config_of cc_failureAlert deps;
          job_alert = (case job_failureAlert job of AlertOn a \<Rightarrow> Some a | _ \<Rightarrow> None);
          g_val = (\<lambda>f. case g of None \<Rightarrow> JUndef | Some c \<Rightarrow> f c);
          j_val = (\<lambda>f. case job_alert of None \<Rightarrow> JUndef | Some a \<Rightarrow> f a);
          g_str = (\<lambda>f. case g of None \<Rightarrow> None | Some c \<Rightarrow> f c);
          j_str = (\<lambda>f. case job_alert of None \<Rightarrow> None | Some a \<Rightarrow> f a);
          d_str = (\<lambda>f. case job_delivery job of None \<Rightarrow> None | Some d \<Rightarrow> f d);
          mode = some_or_keep (j_str fa_mode) (g_str fac_mode);
          explicitTo = normalizeTo (j_str fa_to)
      in if job_failureAlert job = AlertOff then None
         else if job_alert = None \<and> (case g of None \<Rightarrow> True | Some c \<Rightarrow> fac_enabled c \<noteq> Some True) then None
         else Some
           \<lparr>av_after = clampPositiveInt (nullish_or (j_val fa_after) (g_val fac_after)) 2,
            av_cooldownMs = clampNonNegativeInt (nullish_or (j_val fa_cooldownMs) (g_val fac_cooldownMs)) (60 * 60000),
            av_target =
              \<lparr>al_channel = (case some_or_keep (normalizeChannel (j_str fa_channel)) (normalizeChannel (d_str dl_channel)) of
                  Some c \<Rightarrow> c | None \<Rightarrow> ''last''),
               al_to = (if mode = Some ''webhook'' then explicitTo
                        else some_or_keep explicitTo (normalizeTo (d_str dl_to))),
               al_mode = mode,
               al_accountId = some_or_keep (j_str fa_accountId) (g_str fac_accountId)\<rparr>\<rparr>)"

definition emitFailureAlert ::
    "cron_deps \<Rightarrow> CronJob \<Rightarrow> string option \<Rightarrow> int \<Rightarrow> alert_target \<Rightarrow> cron_effect list" where
  "emitFailureAlert deps job err consecutiveErrors target =
     (let safeJobName = (if job_name job = [] then job_id job else job_name job);
          truncatedError = take 200 (case trimmed_opt err of Some e \<Rightarrow> e | None \<Rightarrow> ''unknown error'');
          text = FailureAlertText safeJobName consecutiveErrors truncatedError
      in if cd_hasSendCronFailureAlert deps then [SendFailureAlert (job_id job) text target]
         else EnqueueSystemEvent text (job_agentId job) None None #
              (if job_wakeMode job = WakeNow
               then [RequestHeartbeat (''cron:'' @ job_id job @ '':failure-alert'') None None] else []))"

section \<open>Applying a result\<close>

record run_result =
  rr_status :: CronRunStatus
  rr_error :: "string option"
  rr_delivered :: "bool option"
  rr_startedAt :: int
  rr_endedAt :: int

definition record_outcome :: "cron_deps \<Rightarrow> run_result \<Rightarrow> CronJob \<Rightarrow> CronJob" where
  "record_outcome deps r job =
     (let deliveryStatus = resolveDeliveryStatus job (rr_delivered r) in
      set_state (\<lambda>s. s\<lparr>
        st_runningAtMs := None,
        st_lastRunAtMs := Some (rr_startedAt r),
        st_lastRunStatus := Some (rr_status r),
        st_lastStatus := Some (rr_status r),
        st_lastDurationMs := Some (max 0 (rr_endedAt r - rr_startedAt r)),
        st_lastError := rr_error r,
        st_lastErrorReason := (case rr_error r of
           Some e \<Rightarrow> if rr_status r = StatusError then cd_failoverReason deps e else None
         | None \<Rightarrow> None),
        st_lastDelivered := rr_delivered r,
        st_lastDeliveryStatus := Some deliveryStatus,
        st_lastDeliveryError := (if deliveryStatus = NotDelivered \<and> rr_error r \<noteq> Some []
                                 then rr_error r else None)\<rparr>)
        (job\<lparr>job_updatedAtMs := rr_endedAt r\<rparr>))"

text \<open>The alert that is due after the count \<open>n\<close> of consecutive errors.\<close>

definition due_alert :: "cron_deps \<Rightarrow> int \<Rightarrow> int \<Rightarrow> CronJob \<Rightarrow> alert_target option" where
  "due_alert deps now n job =
     (case resolveFailureAlert deps job of
        None \<Rightarrow> None
      | Some a \<Rightarrow>
          if n \<ge> av_after a \<and> (case job_delivery job of None \<Rightarrow> True | Some d \<Rightarrow> dl_bestEffort d \<noteq> Some True) \<and>
             \<not> (case st_lastFailureAlertAtMs (job_state job) of
                  None \<Rightarrow> False | Some t \<Rightarrow> now - t < max 0 (av_cooldownMs a))
          then Some (av_target a) else None)"

definition count_errors :: "cron_deps \<Rightarrow> int \<Rightarrow> run_result \<Rightarrow> CronJob \<Rightarrow> CronJob \<times> cron_effect list" where
  "count_errors deps alertNow r job =
     (if rr_status r = StatusError then
        (let n = (case st_consecutiveErrors (job_state job) of None \<Rightarrow> 0 | Some c \<Rightarrow> c) + 1;
             job1 = set_state (\<lambda>s. s\<lparr>st_consecutiveErrors := Some n\<rparr>) job
         in case due_alert deps alertNow n job1 of
              None \<Rightarrow> (job1, [])
            | Some target \<Rightarrow>
                (set_state (\<lambda>s. s\<lparr>st_lastFailureAlertAtMs := Some alertNow\<rparr>) job1,
                 emitFailureAlert deps job1 (rr_error r) n target))
      else (set_state (\<lambda>s. s\<lparr>st_consecutiveErrors := Some 0, st_lastFailureAlertAtMs := None\<rparr>) job, []))"

definition set_next :: "int option \<Rightarrow> CronJob \<Rightarrow> CronJob" where
  "set_next t job = set_state (\<lambda>s. s\<lparr>st_nextRunAtMs := t\<rparr>) job"

text \<open>The next run of a recurring job after it ended; a throw is recorded on the job.\<close>

definition natural_next ::
    "cron_env \<Rightarrow> bool \<Rightarrow> int option \<Rightarrow> int \<Rightarrow> CronJob \<Rightarrow> int option \<times> CronJob \<times> cron_effect list" where
  "natural_next env preserveSchedule prevLastRun endedAt job =
     (case computeJobNextRunAtMs env
             (if preserveSchedule \<and> is_every (job_schedule job)
              then set_state (\<lambda>s. s\<lparr>st_lastRunAtMs := prevLastRun\<rparr>) job else job) endedAt of
        Inr t \<Rightarrow> (t, job, [])
      | Inl err \<Rightarrow> (case recordScheduleComputeError err job of (job', effs) \<Rightarrow> (None, job', effs)))"

definition settle_one_shot :: "cron_deps \<Rightarrow> run_result \<Rightarrow> CronJob \<Rightarrow> CronJob" where
  "settle_one_shot deps r job =
     (if rr_status r \<noteq> StatusError then set_next None (job\<lparr>job_enabled := False\<rparr>)
      else (let retry = resolveRetryConfig deps;
                consecutive = (case st_consecutiveErrors (job_state job) of None \<Rightarrow> 0 | Some c \<Rightarrow> c)
            in if isTransientCronError (rr_error r) (rc_retryOn retry) \<and> consecutive \<le> rc_maxAttempts retry
               then set_next (Some (rr_endedAt r + errorBackoffMs consecutive (rc_backoffMs retry))) job
               else set_next None (job\<lparr>job_enabled := False\<rparr>)))"

definition settle_recurring ::
    "cron_env \<Rightarrow> bool \<Rightarrow> int option \<Rightarrow> run_result \<Rightarrow> CronJob \<Rightarrow> CronJob \<times> cron_effect list" where
  "settle_recurring env preserveSchedule prevLastRun r job =
     (if \<not> job_enabled job then (set_next None job, [])
      else (case natural_next env preserveSchedule prevLastRun (rr_endedAt r) job of
              (next, job', effs) \<Rightarrow>
                if rr_status r = StatusError then
                  (let backoffNext = rr_endedAt r +
                         errorBackoffMs (case st_consecutiveErrors (job_state job) of None \<Rightarrow> 1 | Some c \<Rightarrow> c)
                           DEFAULT_BACKOFF_SCHEDULE_MS
                   in (set_next (Some (case next of Some t \<Rightarrow> max t backoffNext | None \<Rightarrow> backoffNext)) job', effs))
                else if is_cron (job_schedule job') then
                  (let minNext = rr_endedAt r + MIN_REFIRE_GAP_MS
                   in (set_next (Some (case next of Some t \<Rightarrow> max t minNext | None \<Rightarrow> minNext)) job', effs))
                else (set_next next job', effs)))"

definition applyJobResult ::
    "cron_env \<Rightarrow> cron_deps \<Rightarrow> int \<Rightarrow> bool \<Rightarrow> run_result \<Rightarrow> CronJob \<Rightarrow> CronJob \<times> bool \<times> cron_effect list"
  where
  "applyJobResult env deps alertNow preserveSchedule r job =
     (let prevLastRun = st_lastRunAtMs (job_state job);
          (job1, effs1) = count_errors deps alertNow r (record_outcome deps r job);
          shouldDelete = is_at (job_schedule job1) \<and> job_deleteAfterRun job1 = Some True \<and> rr_status r = StatusOk
      in if shouldDelete then (job1, True, effs1)
         else if is_at (job_schedule job1) then (settle_one_shot deps r job1, False, effs1)
         else (case settle_recurring env preserveSchedule prevLastRun r job1 of
                 (job2, effs2) \<Rightarrow> (job2, False, effs1 @ effs2)))"

end
