(* ===== verification/CronScheduleProps.thy ===== *)
theory CronScheduleProps
  imports CronJobs
begin

text \<open>
  What the next-run computation promises: an interval schedule stays on its grid, no computed run
  of a cron or one-shot schedule is in the past whatever croner answers, a staggered run keeps
  its offset, and a finished one-shot is not armed again.
\<close>

section \<open>Interval schedules\<close>

lemma every_next_before: "now < anchor \<Longrightarrow> every_next every anchor now = anchor"
  by (simp add: every_next_def)

text \<open>The division that rounds the elapsed periods up.\<close>

lemma ceil_div_bounds:
  fixes e p :: int
  assumes "0 < e" and "0 \<le> p"
  shows "p \<le> (p + e - 1) div e * e" and "(p + e - 1) div e * e < p + e"
proof -
  have "(p + e - 1) div e * e + (p + e - 1) mod e = p + e - 1" by (simp add: div_mult_mod_eq)
  moreover have "0 \<le> (p + e - 1) mod e" and "(p + e - 1) mod e < e" using assms by simp_all
  ultimately show "p \<le> (p + e - 1) div e * e" and "(p + e - 1) div e * e < p + e" by linarith+
qed

lemma every_next_after:
  assumes "0 < every" and "anchor \<le> now"
  shows "\<exists>k\<ge>1. every_next every anchor now = anchor + k * every"
    and "now \<le> every_next every anchor now"
    and "every_next every anchor now \<le> now + every"
    and "anchor < now \<Longrightarrow> every_next every anchor now < now + every"
proof -
  define q where "q = (now - anchor + every - 1) div every"
  have r: "every_next every anchor now = anchor + max 1 q * every"
    using assms(2) by (simp add: every_next_def q_def Let_def)
  have lo: "now - anchor \<le> q * every" and hi: "q * every < now - anchor + every"
    using ceil_div_bounds [of every "now - anchor"] assms unfolding q_def by simp_all
  have q0: "0 \<le> q" using assms unfolding q_def by (simp add: pos_imp_zdiv_nonneg_iff)
  have pos: "1 \<le> q" if "anchor < now"
  proof (rule ccontr)
    assume "\<not> 1 \<le> q"
    with q0 have "q = 0" by simp
    with lo that show False by simp
  qed
  show "\<exists>k\<ge>1. every_next every anchor now = anchor + k * every"
    by (rule exI [of _ "max 1 q"]) (simp add: r)
  have step: "max 1 q * every = (if anchor < now then q * every else every)"
  proof (cases "anchor < now")
    case True
    with pos show ?thesis by (simp add: max_absorb2)
  next
    case False
    with assms(2) hi have "q * every < 1 * every" by simp
    with assms(1) have "q < 1" by (simp only: mult_less_cancel_right_disj, simp)
    then show ?thesis using False by (simp add: max_absorb1)
  qed
  show "now \<le> every_next every anchor now" "every_next every anchor now \<le> now + every"
    "anchor < now \<Longrightarrow> every_next every anchor now < now + every"
    using lo hi assms by (simp_all add: r step)
qed

text \<open>The period and the anchor an interval schedule is evaluated with.\<close>

definition every_period :: "rat \<Rightarrow> int" where
  "every_period raw = max 1 \<lfloor>raw\<rfloor>"

definition every_anchor :: "jsval \<Rightarrow> int \<Rightarrow> int" where
  "every_anchor anchorMs now = max 0 (case coerceFiniteScheduleNumber anchorMs of Some a \<Rightarrow> \<lfloor>a\<rfloor> | None \<Rightarrow> now)"

lemma compute_every:
  "coerceFiniteScheduleNumber everyMs = Some raw \<Longrightarrow>
   computeNextRunAtMs env (SEvery everyMs anchorMs) now =
     Inr (Some (every_next (every_period raw) (every_anchor anchorMs now) now))"
  by (simp add: computeNextRunAtMs_def every_period_def every_anchor_def Let_def)

text \<open>An interval schedule fires on its grid and without a gap: the next run is a whole number of
  periods after the anchor, not before now and at most one period after it (or the anchor
  itself while that is still to come).\<close>

theorem every_schedule_on_grid:
  assumes "coerceFiniteScheduleNumber everyMs = Some raw"
  shows "\<exists>r. computeNextRunAtMs env (SEvery everyMs anchorMs) now = Inr (Some r) \<and> now \<le> r \<and>
    (\<exists>k\<ge>0. r = every_anchor anchorMs now + k * every_period raw) \<and>
    r \<le> max (every_anchor anchorMs now) (now + every_period raw)"
proof -
  have pos: "0 < every_period raw" by (simp add: every_period_def)
  show ?thesis
  proof (cases "now < every_anchor anchorMs now")
    case True
    show ?thesis unfolding compute_every [OF assms]
      by (rule exI [of _ "every_anchor anchorMs now"])
        (use True in \<open>auto simp: every_next_before intro!: exI [of _ 0]\<close>)
  next
    case False
    then have le: "every_anchor anchorMs now \<le> now" by simp
    note a = every_next_after(1-3) [OF pos le]
    from a(1) obtain k where "1 \<le> k"
      and "every_next (every_period raw) (every_anchor anchorMs now) now =
        every_anchor anchorMs now + k * every_period raw" by blast
    then have "\<exists>k\<ge>0. every_next (every_period raw) (every_anchor anchorMs now) now =
        every_anchor anchorMs now + k * every_period raw" by (intro exI [of _ k]) simp
    with a(2,3) show ?thesis unfolding compute_every [OF assms] by (auto simp: le_max_iff_disj)
  qed
qed

theorem every_schedule_on_grid_witness:
  "\<exists>r. computeNextRunAtMs hourly_env (SEvery (JNum 10) (JNum 3)) 25 = Inr (Some r) \<and> 25 \<le> r \<and>
    (\<exists>k\<ge>0. r = every_anchor (JNum 3) 25 + k * every_period 10) \<and>
    r \<le> max (every_anchor (JNum 3) 25) (25 + every_period 10)"
  by (rule every_schedule_on_grid) (simp add: coerceFiniteScheduleNumber_def)

section \<open>Cron and one-shot schedules\<close>

lemma cron_next_future_gt:
  "cron_next_future env c now = Inr (Some t) \<Longrightarrow> now < t"
  unfolding cron_next_future_def Let_def
  by (auto simp: bind_ok_Inr split: option.splits if_splits)

lemma computeNext_future:
  "\<not> is_every s \<Longrightarrow> computeNextRunAtMs env s now = Inr (Some t) \<Longrightarrow> now < t"
  by (cases s)
    (auto simp: computeNextRunAtMs_def is_every_def bind_ok_Inr split: option.splits if_splits
      dest: cron_next_future_gt)

lemma computeNext_not_past:
  "computeNextRunAtMs env s now = Inr (Some t) \<Longrightarrow> now \<le> t"
proof (cases s)
  case (SEvery everyMs anchorMs)
  assume t: "computeNextRunAtMs env s now = Inr (Some t)"
  then obtain raw where "coerceFiniteScheduleNumber everyMs = Some raw"
    by (cases "coerceFiniteScheduleNumber everyMs") (simp_all add: SEvery computeNextRunAtMs_def)
  from compute_every [OF this, of env anchorMs now] t
  have r: "t = every_next (every_period raw) (every_anchor anchorMs now) now" by (simp add: SEvery)
  have "0 < every_period raw" by (simp add: every_period_def)
  then show ?thesis
    using every_next_after(2) [of "every_period raw" "every_anchor anchorMs now" now]
    by (cases "now < every_anchor anchorMs now") (simp_all add: r every_next_before)
next
  case (SAt a m)
  assume "computeNextRunAtMs env s now = Inr (Some t)"
  then have "now < t" by (rule computeNext_future [rotated]) (simp add: SAt is_every_def)
  then show ?thesis by simp
next
  case (SCron e c tz sg)
  assume "computeNextRunAtMs env s now = Inr (Some t)"
  then have "now < t" by (rule computeNext_future [rotated]) (simp add: SCron is_every_def)
  then show ?thesis by simp
qed

lemma computePrevious_past:
  assumes "computePreviousRunAtMs env s now = Inr (Some t)"
  shows "t < now"
proof -
  obtain e k tz sg where s: "s = SCron e k tz sg"
    using assms by (cases s) (simp_all add: computePreviousRunAtMs_def)
  with assms obtain c r where "resolveCronFromSchedule env e k tz = Inr (Some c)"
    and "ce_cron_prev env (fst c) (snd c) now = Inr (Some r)" and "(if r \<ge> now then None else Some r) = Some t"
    by (auto simp: computePreviousRunAtMs_def bind_ok_Inr split: option.split_asm)
  then show ?thesis by (simp split: if_split_asm)
qed

section \<open>Staggered runs\<close>

lemma staggered_next_loop_result:
  "staggered_next_loop n env s off now cursor = Inr (Some t) \<Longrightarrow>
   now < t \<and> (\<exists>c\<ge>cursor. computeNextRunAtMs env s c = Inr (Some (t - off)))"
proof (induction n arbitrary: cursor)
  case (Suc n)
  from Suc.prems obtain r where r: "computeNextRunAtMs env s cursor = Inr (Some r)"
    and rest: "if r + off > now then t = r + off
               else staggered_next_loop n env s off now (max (cursor + 1) (r + 1000)) = Inr (Some t)"
    by (auto simp: bind_ok_Inr split: option.splits if_splits)
  show ?case
  proof (cases "r + off > now")
    case True
    with rest r show ?thesis by (auto intro!: exI [of _ cursor])
  next
    case False
    with rest have "staggered_next_loop n env s off now (max (cursor + 1) (r + 1000)) = Inr (Some t)"
      by simp
    from Suc.IH [OF this] obtain c where c: "now < t" "max (cursor + 1) (r + 1000) \<le> c"
      "computeNextRunAtMs env s c = Inr (Some (t - off))" by blast
    then have "cursor \<le> c" by simp
    with c show ?thesis by blast
  qed
qed simp

text \<open>Every attempt moves the cursor forward, and the window of one offset before now is searched from
  its start: the loop finds a run unless its attempts run out.\<close>

lemma staggered_next:
  assumes "is_cron (job_schedule j)" and "computeStaggeredCronNextRunAtMs env j now = Inr (Some t)"
  shows "now < t \<and> (\<exists>c. computeNextRunAtMs env (job_schedule j) c = Inr (Some (t - max 0 (job_offset env j))))"
proof (cases "job_offset env j \<le> 0")
  case True
  with assms have "computeNextRunAtMs env (job_schedule j) now = Inr (Some t)"
    by (simp add: computeStaggeredCronNextRunAtMs_def)
  moreover have "\<not> is_every (job_schedule j)"
    using assms(1) by (simp add: schedule_kind_defs split: CronSchedule.splits)
  ultimately have "now < t" by (rule computeNext_future [rotated])
  with \<open>computeNextRunAtMs env (job_schedule j) now = Inr (Some t)\<close> True show ?thesis
    by (auto simp: max_def)
next
  case False
  with assms have "staggered_next_loop 4 env (job_schedule j) (job_offset env j) now
      (max 0 (now - job_offset env j)) = Inr (Some t)"
    by (simp add: computeStaggeredCronNextRunAtMs_def)
  from staggered_next_loop_result [OF this] False show ?thesis by (auto simp: max_def)
qed

lemma job_next_cron:
  assumes "is_cron (job_schedule j)" and "computeJobNextRunAtMs env j now = Inr (Some t)"
  shows "now < t \<and> (\<exists>c. computeNextRunAtMs env (job_schedule j) c = Inr (Some (t - max 0 (job_offset env j))))"
proof -
  obtain e k tz sg where s: "job_schedule j = SCron e k tz sg"
    using assms(1) by (auto simp: is_cron_def split: CronSchedule.splits)
  from assms(2) have "job_enabled j" by (auto simp: computeJobNextRunAtMs_def split: if_splits)
  with assms(2) consider "computeStaggeredCronNextRunAtMs env j now = Inr (Some t)"
    | "computeStaggeredCronNextRunAtMs env j (next_second now) = Inr (Some t)"
    by (auto simp: computeJobNextRunAtMs_def s bind_ok_Inr split: option.splits)
  then show ?thesis
  proof cases
    case 1
    then show ?thesis by (rule staggered_next [OF assms(1)])
  next
    case 2
    have "now < next_second now"
      using pos_mod_bound [of 1000 now] div_mult_mod_eq [of now 1000] by (simp add: next_second_def)
    with staggered_next [OF assms(1) 2] show ?thesis by auto
  qed
qed

text \<open>The next run of a cron job is strictly in the future and is a firing time of the pattern plus
  the job's stagger offset, whatever the external cron evaluator answers: a result in the past
  is never scheduled.\<close>

theorem cron_job_next_in_future:
  assumes "is_cron (job_schedule j)" and "computeJobNextRunAtMs env j now = Inr (Some t)"
  shows "now < t \<and> (\<exists>c. computeNextRunAtMs env (job_schedule j) c = Inr (Some (t - max 0 (job_offset env j))))"
  using assms by (rule job_next_cron)

definition example_job :: CronJob where
  "example_job = \<lparr>job_id = ''job'', job_agentId = None, job_sessionKey = None, job_name = ''n'',
     job_description = None, job_enabled = True, job_deleteAfterRun = None, job_createdAtMs = 0,
     job_updatedAtMs = 0, job_schedule = SCron (Some ''0 * * * *'') None None JUndef,
     job_sessionTarget = ''main'', job_wakeMode = WakeNow, job_payload = SystemEvent ''t'',
     job_delivery = None, job_failureAlert = AlertUnset, job_state = empty_job_state\<rparr>"

lemma example_job_next: "computeJobNextRunAtMs hourly_env example_job 3600000 = Inr (Some 3600003)"
  by code_simp

theorem cron_job_next_in_future_witness:
  "3600000 < (3600003 :: int) \<and> (\<exists>c. computeNextRunAtMs hourly_env (job_schedule example_job) c =
     Inr (Some (3600003 - max 0 (job_offset hourly_env example_job))))"
  by (rule cron_job_next_in_future [OF _ example_job_next]) (simp add: example_job_def is_cron_def)

section \<open>One-shot jobs\<close>

text \<open>A one-shot that ran successfully has no further run, unless its time was moved past that run.\<close>

lemma finished_one_shot:
  assumes "job_enabled j" "job_schedule j = SAt a m" "st_lastStatus (job_state j) = Some StatusOk"
    "st_lastRunAtMs (job_state j) = Some l" "l \<noteq> 0"
  shows "computeJobNextRunAtMs env j now =
    Inr (case resolve_at_ms env a m of Some t \<Rightarrow> if t > l then Some t else None | None \<Rightarrow> None)"
  using assms by (simp add: computeJobNextRunAtMs_def Let_def)

text \<open>An interval job that ran is next due one period after that run, if this is still to come.\<close>

lemma every_job_from_last_run:
  assumes "job_enabled j" "job_schedule j = SEvery e a" "coerceFiniteScheduleNumber e = Some raw"
    "st_lastRunAtMs (job_state j) = Some l" "now < l + every_period raw"
  shows "computeJobNextRunAtMs env j now = Inr (Some (l + every_period raw))"
  using assms by (simp add: computeJobNextRunAtMs_def every_period_def Let_def)

lemma disabled_job_next: "\<not> job_enabled j \<Longrightarrow> computeJobNextRunAtMs env j now = Inr None"
  by (simp add: computeJobNextRunAtMs_def)

end
