(* ===== verification/CronUpkeepProps.thy ===== *)
theory CronUpkeepProps
  imports CronScheduleProps
begin

text \<open>
  What the upkeep of the job states promises: which job it may change and how, that maintenance
  never moves a due run that was not executed, that a schedule which cannot be evaluated is
  disabled after three rounds, when a running marker is stale, and that the wake time is the
  least next run.
\<close>

section \<open>What a walk keeps\<close>

text \<open>The parts of a job that no upkeep step changes.\<close>

definition same_definition :: "CronJob \<Rightarrow> CronJob \<Rightarrow> bool" where
  "same_definition j j' \<longleftrightarrow> job_id j' = job_id j \<and> job_agentId j' = job_agentId j \<and>
     job_sessionKey j' = job_sessionKey j \<and> job_name j' = job_name j \<and>
     job_payload j' = job_payload j \<and> job_delivery j' = job_delivery j \<and>
     job_sessionTarget j' = job_sessionTarget j \<and> job_wakeMode j' = job_wakeMode j \<and>
     job_failureAlert j' = job_failureAlert j \<and> job_createdAtMs j' = job_createdAtMs j \<and>
     job_deleteAfterRun j' = job_deleteAfterRun j \<and> job_updatedAtMs j' = job_updatedAtMs j \<and>
     is_cron (job_schedule j') = is_cron (job_schedule j) \<and>
     is_at (job_schedule j') = is_at (job_schedule j)"

lemma same_definition_refl [simp]: "same_definition j j"
  by (simp add: same_definition_def)

lemma same_definition_trans: "same_definition a b \<Longrightarrow> same_definition b c \<Longrightarrow> same_definition a c"
  by (simp add: same_definition_def)

lemma same_definition_state [simp]: "same_definition j (set_state f j)"
  by (simp add: same_definition_def set_state_def)

lemma record_error_facts:
  "same_definition j (fst (recordScheduleComputeError e j))"
  "job_schedule (fst (recordScheduleComputeError e j)) = job_schedule j"
  "st_runningAtMs (job_state (fst (recordScheduleComputeError e j))) = st_runningAtMs (job_state j)"
  "st_lastRunAtMs (job_state (fst (recordScheduleComputeError e j))) = st_lastRunAtMs (job_state j)"
  "st_nextRunAtMs (job_state (fst (recordScheduleComputeError e j))) = None"
  by (simp_all add: recordScheduleComputeError_def same_definition_def set_state_def Let_def)

lemma record_error_count:
  "st_scheduleErrorCount (job_state (fst (recordScheduleComputeError e j))) =
     Some ((case st_scheduleErrorCount (job_state j) of None \<Rightarrow> 0 | Some c \<Rightarrow> c) + 1)"
  "job_enabled (fst (recordScheduleComputeError e j)) =
     (job_enabled j \<and> (case st_scheduleErrorCount (job_state j) of None \<Rightarrow> 0 | Some c \<Rightarrow> c) + 1 < MAX_SCHEDULE_ERRORS)"
  by (auto simp: recordScheduleComputeError_def set_state_def Let_def)

lemma normalize_anchor_facts:
  "same_definition j (snd (normalize_anchor j))" "job_state (snd (normalize_anchor j)) = job_state j"
  "job_enabled (snd (normalize_anchor j)) = job_enabled j"
  "is_cron (job_schedule j) \<Longrightarrow> snd (normalize_anchor j) = j"
  by (auto simp: normalize_anchor_def same_definition_def schedule_kind_defs Let_def
      split: CronSchedule.split)

text \<open>The job a step of the walk works on: normalized, and the marker gone when it is stale.\<close>

definition tick_job :: "int \<Rightarrow> CronJob \<Rightarrow> CronJob" where
  "tick_job now j = snd (snd (normalizeJobTickState now j))"

lemma tick_job_disabled:
  "\<not> job_enabled j \<Longrightarrow> walk_job f now j = (fst (walk_job f now j), tick_job now j, []) \<and>
     st_nextRunAtMs (job_state (tick_job now j)) = None \<and> st_runningAtMs (job_state (tick_job now j)) = None \<and>
     \<not> job_enabled (tick_job now j)"
proof -
  assume dis: "\<not> job_enabled j"
  obtain c j1 where n: "normalize_anchor j = (c, j1)" by (cases "normalize_anchor j")
  have "job_enabled j1 = job_enabled j" using normalize_anchor_facts(3) [of j] by (simp add: n)
  with dis show ?thesis
    by (simp add: walk_job_def tick_job_def normalizeJobTickState_def n Let_def)
qed

lemma tick_job_enabled:
  assumes "job_enabled j"
  shows "job_enabled (tick_job now j)"
    and "st_nextRunAtMs (job_state (tick_job now j)) = st_nextRunAtMs (job_state j)"
    and "st_lastRunAtMs (job_state (tick_job now j)) = st_lastRunAtMs (job_state j)"
    and "st_scheduleErrorCount (job_state (tick_job now j)) = st_scheduleErrorCount (job_state j)"
    and "st_runningAtMs (job_state (tick_job now j)) =
      (case st_runningAtMs (job_state j) of
         None \<Rightarrow> None | Some r \<Rightarrow> if now - r > STUCK_RUN_MS then None else Some r)"
    and "fst (snd (walk_job f now j)) = fst (snd (f now (tick_job now j)))"
    and "snd (snd (walk_job f now j)) = snd (snd (f now (tick_job now j)))"
    and "is_cron (job_schedule j) \<Longrightarrow> job_schedule (tick_job now j) = job_schedule j"
proof -
  obtain c j1 where n: "normalize_anchor j = (c, j1)" by (cases "normalize_anchor j")
  have j1: "job_state j1 = job_state j" "job_enabled j1" "is_cron (job_schedule j) \<Longrightarrow> j1 = j"
    using normalize_anchor_facts [of j] assms by (simp_all add: n)
  have t: "tick_job now j = (case st_runningAtMs (job_state j) of
      Some r \<Rightarrow> if now - r > STUCK_RUN_MS then set_state (\<lambda>s. s\<lparr>st_runningAtMs := None\<rparr>) j1 else j1
    | None \<Rightarrow> j1)"
    by (simp add: tick_job_def normalizeJobTickState_def n j1 split: option.split)
  have w: "\<exists>b. normalizeJobTickState now j = (b, False, tick_job now j)"
    by (cases "st_runningAtMs (job_state j)") (auto simp: t normalizeJobTickState_def n j1)
  show "job_enabled (tick_job now j)"
    "st_nextRunAtMs (job_state (tick_job now j)) = st_nextRunAtMs (job_state j)"
    "st_lastRunAtMs (job_state (tick_job now j)) = st_lastRunAtMs (job_state j)"
    "st_scheduleErrorCount (job_state (tick_job now j)) = st_scheduleErrorCount (job_state j)"
    "st_runningAtMs (job_state (tick_job now j)) = (case st_runningAtMs (job_state j) of
         None \<Rightarrow> None | Some r \<Rightarrow> if now - r > STUCK_RUN_MS then None else Some r)"
    by (simp_all add: t j1 split: option.split)
  show "is_cron (job_schedule j) \<Longrightarrow> job_schedule (tick_job now j) = job_schedule j"
    by (simp add: t j1 split: option.split)
  from w obtain b where w: "normalizeJobTickState now j = (b, False, tick_job now j)" ..
  show "fst (snd (walk_job f now j)) = fst (snd (f now (tick_job now j)))"
    "snd (snd (walk_job f now j)) = snd (snd (f now (tick_job now j)))"
    by (simp_all add: walk_job_def w split: prod.split)
qed

lemma tick_job_same: "same_definition j (tick_job now j)"
proof -
  obtain c j1 where n: "normalize_anchor j = (c, j1)" by (cases "normalize_anchor j")
  have "same_definition j j1" using normalize_anchor_facts(1) [of j] by (simp add: n)
  then have "same_definition j (set_state f j1)" for f
    by (rule same_definition_trans) simp
  with \<open>same_definition j j1\<close> show ?thesis
    by (simp add: tick_job_def normalizeJobTickState_def n Let_def split: option.split)
qed

lemma walk_nth:
  "i < length jobs \<Longrightarrow> fst (snd (walkSchedulableJobs f now jobs)) ! i = fst (snd (walk_job f now (jobs ! i)))"
  by (simp add: walkSchedulableJobs_def Let_def)

lemma walk_length [simp]: "length (fst (snd (walkSchedulableJobs f now jobs))) = length jobs"
  by (simp add: walkSchedulableJobs_def Let_def)

lemma recompute_step_same: "same_definition j (fst (snd (recomputeJobNextRunAtMs env now j)))"
proof (cases "computeJobNextRunAtMs env j now")
  case (Inl e)
  then show ?thesis using record_error_facts(1) [of j e]
    by (simp add: recomputeJobNextRunAtMs_def split: prod.split)
qed (simp add: recomputeJobNextRunAtMs_def)

lemma step_same:
  "same_definition j (fst (snd (maintain_job env b now j)))"
  "same_definition j (fst (snd (recompute_if_due env now j)))"
  by (simp_all add: maintain_job_def recompute_if_due_def recompute_step_same split: option.split)

lemma walk_job_same:
  assumes "\<And>j. same_definition j (fst (snd (f now j)))"
  shows "same_definition j (fst (snd (walk_job f now j)))"
proof (cases "job_enabled j")
  case True
  then show ?thesis
    using same_definition_trans [OF tick_job_same assms] by (simp add: tick_job_enabled(6))
next
  case False
  then have "fst (snd (walk_job f now j)) = tick_job now j"
    by (metis fst_conv snd_conv tick_job_disabled)
  then show ?thesis by (simp add: tick_job_same)
qed

lemma walk_ids:
  assumes "\<And>j. same_definition j (fst (snd (f now j)))"
  shows "map job_id (fst (snd (walkSchedulableJobs f now jobs))) = map job_id jobs"
  using walk_job_same [of f now, OF assms]
  by (simp add: walkSchedulableJobs_def Let_def same_definition_def)

section \<open>Due runs that were not executed\<close>

lemma maintain_keeps_next:
  assumes "job_enabled j" and "st_nextRunAtMs (job_state j) = Some t"
    and "\<not> (recomputeExpired \<and> (\<exists>l. st_lastRunAtMs (job_state j) = Some l \<and> t \<le> l))"
  shows "st_nextRunAtMs (job_state (fst (snd (walk_job (maintain_job env recomputeExpired) now j)))) = Some t"
    and "job_enabled (fst (snd (walk_job (maintain_job env recomputeExpired) now j)))"
proof -
  have "maintain_job env recomputeExpired now (tick_job now j) = (False, tick_job now j, [])"
    using assms by (auto simp: maintain_job_def tick_job_enabled split: option.split)
  then show "st_nextRunAtMs (job_state (fst (snd (walk_job (maintain_job env recomputeExpired) now j)))) = Some t"
    and "job_enabled (fst (snd (walk_job (maintain_job env recomputeExpired) now j)))"
    using assms(1,2) by (simp_all add: tick_job_enabled)
qed

text \<open>C20: Maintenance never skips a run: in every round, with or without recomputation of expired
  slots, an enabled job keeps its next run, due or not, as long as no run at or after that
  instant has been recorded (#13992, #16156, #17852).\<close>

theorem maintenance_never_skips:
  assumes "i < length jobs" and "job_enabled (jobs ! i)" and "st_nextRunAtMs (job_state (jobs ! i)) = Some t"
    and "\<not> (\<exists>l. st_lastRunAtMs (job_state (jobs ! i)) = Some l \<and> t \<le> l)"
    and "recomputeNextRunsForMaintenance env recomputeExpired now jobs = (changed, jobs', effs)"
  shows "job_enabled (jobs' ! i) \<and> st_nextRunAtMs (job_state (jobs' ! i)) = Some t \<and>
    map job_id jobs' = map job_id jobs"
proof -
  have j': "jobs' = fst (snd (walkSchedulableJobs (maintain_job env recomputeExpired) now jobs))"
    using assms(5) by (simp add: recomputeNextRunsForMaintenance_def)
  from assms(4) have "\<not> (recomputeExpired \<and> (\<exists>l. st_lastRunAtMs (job_state (jobs ! i)) = Some l \<and> t \<le> l))"
    by blast
  note k = maintain_keeps_next [OF assms(2,3) this, of env now]
  have "map job_id jobs' = map job_id jobs"
    unfolding j' by (rule walk_ids) (rule step_same)
  with k show ?thesis unfolding j' walk_nth [OF assms(1)] by blast
qed

definition due_example :: CronJob where
  "due_example = set_state (\<lambda>s. s\<lparr>st_nextRunAtMs := Some 500, st_lastRunAtMs := Some 400\<rparr>) example_job"

lemma due_example_facts:
  "job_enabled ([due_example] ! 0)" "st_nextRunAtMs (job_state ([due_example] ! 0)) = Some 500"
  "st_lastRunAtMs (job_state ([due_example] ! 0)) = Some 400"
  by (simp_all add: due_example_def example_job_def empty_job_state_def)

theorem maintenance_never_skips_witness:
  "st_nextRunAtMs (job_state (fst (snd (recomputeNextRunsForMaintenance hourly_env True 9000 [due_example])) ! 0)) = Some 500"
proof -
  obtain c jobs' effs where m: "recomputeNextRunsForMaintenance hourly_env True 9000 [due_example] = (c, jobs', effs)"
    by (cases "recomputeNextRunsForMaintenance hourly_env True 9000 [due_example]")
  have "\<not> (\<exists>l. st_lastRunAtMs (job_state ([due_example] ! 0)) = Some l \<and> (500 :: int) \<le> l)"
    using due_example_facts(3) by simp
  from maintenance_never_skips [OF _ due_example_facts(1,2) this m] show ?thesis
    unfolding m by simp
qed

text \<open>The full recomputation leaves future runs alone and replaces the due ones.\<close>

lemma recompute_keeps_future:
  assumes "job_enabled j" and "st_nextRunAtMs (job_state j) = Some t" and "now < t"
  shows "st_nextRunAtMs (job_state (fst (snd (walk_job (recompute_if_due env) now j)))) = Some t"
  using assms by (simp add: tick_job_enabled recompute_if_due_def)

section \<open>Schedules that cannot be evaluated\<close>

text \<open>The cron part of the next-run computation does not read the state of the job.\<close>

definition broken_schedule :: "cron_env \<Rightarrow> CronJob \<Rightarrow> bool" where
  "broken_schedule env j \<longleftrightarrow> is_cron (job_schedule j) \<and>
     (\<forall>now. \<exists>e. computeStaggeredCronNextRunAtMs env j now = Inl e)"

lemma staggered_ignores_state:
  "job_schedule j' = job_schedule j \<Longrightarrow> job_id j' = job_id j \<Longrightarrow>
   computeStaggeredCronNextRunAtMs env j' now = computeStaggeredCronNextRunAtMs env j now"
  by (simp add: computeStaggeredCronNextRunAtMs_def job_offset_def)

lemma broken_schedule_next:
  assumes "broken_schedule env j" and "job_enabled j"
  shows "\<exists>e. computeJobNextRunAtMs env j now = Inl e"
proof -
  obtain x k tz sg where s: "job_schedule j = SCron x k tz sg"
    using assms(1) by (auto simp: broken_schedule_def is_cron_def split: CronSchedule.splits)
  obtain e where "computeStaggeredCronNextRunAtMs env j now = Inl e"
    using assms(1) by (auto simp: broken_schedule_def)
  then show ?thesis using assms(2) by (simp add: computeJobNextRunAtMs_def s)
qed

lemma broken_schedule_cong:
  "job_schedule j' = job_schedule j \<Longrightarrow> job_id j' = job_id j \<Longrightarrow> broken_schedule env j \<Longrightarrow> broken_schedule env j'"
  unfolding broken_schedule_def using staggered_ignores_state [of j' j env] by simp

text \<open>The state of a job with a broken schedule after \<open>n\<close> rounds: counted, without a next run.\<close>

definition error_rounds :: "nat \<Rightarrow> CronJob \<Rightarrow> bool" where
  "error_rounds n j \<longleftrightarrow>
     (case st_scheduleErrorCount (job_state j) of None \<Rightarrow> 0 | Some c \<Rightarrow> c) = int (min n 3) \<and>
     st_nextRunAtMs (job_state j) = None \<and> job_enabled j = (n < 3)"

lemma broken_round:
  assumes "broken_schedule env j" and "error_rounds n j"
  shows "broken_schedule env (fst (snd (walk_job (maintain_job env b) now j))) \<and>
    error_rounds (Suc n) (fst (snd (walk_job (maintain_job env b) now j)))"
proof (cases "n < 3")
  case True
  with assms(2) have en: "job_enabled j" by (simp add: error_rounds_def)
  let ?t = "tick_job now j"
  have cron: "is_cron (job_schedule j)" using assms(1) by (simp add: broken_schedule_def)
  have id: "job_id ?t = job_id j" using tick_job_same [of j now] by (simp add: same_definition_def)
  note t = tick_job_enabled [OF en, where now = now]
  have br: "broken_schedule env ?t"
    by (rule broken_schedule_cong [OF t(8) [OF cron] id assms(1)])
  from broken_schedule_next [OF br t(1)] obtain e where e: "computeJobNextRunAtMs env ?t now = Inl e" ..
  have "fst (snd (walk_job (maintain_job env b) now j)) = fst (recordScheduleComputeError e ?t)"
    using assms(2) by (simp add: t(2,6) maintain_job_def recomputeJobNextRunAtMs_def e error_rounds_def split: prod.split)
  moreover have "broken_schedule env (fst (recordScheduleComputeError e ?t))"
    using record_error_facts(1) [of ?t e]
    by (intro broken_schedule_cong [OF record_error_facts(2) _ br]) (simp add: same_definition_def)
  moreover have "error_rounds (Suc n) (fst (recordScheduleComputeError e ?t))"
    using assms(2) True
    by (auto simp: error_rounds_def record_error_count record_error_facts t(1,4) MAX_SCHEDULE_ERRORS_def)
  ultimately show ?thesis by simp
next
  case False
  with assms(2) have dis: "\<not> job_enabled j" by (simp add: error_rounds_def)
  have cron: "is_cron (job_schedule j)" using assms(1) by (simp add: broken_schedule_def)
  have n: "normalize_anchor j = (False, j)"
    using cron by (cases "job_schedule j") (simp_all add: normalize_anchor_def is_cron_def)
  have w: "fst (snd (walk_job (maintain_job env b) now j)) =
      set_state (\<lambda>s. s\<lparr>st_nextRunAtMs := None, st_runningAtMs := None\<rparr>) j"
    using dis by (simp add: walk_job_def normalizeJobTickState_def n Let_def)
  have "broken_schedule env (set_state f j)" for f
    by (rule broken_schedule_cong [OF _ _ assms(1)]) simp_all
  moreover have "error_rounds (Suc n) (set_state (\<lambda>s. s\<lparr>st_nextRunAtMs := None, st_runningAtMs := None\<rparr>) j)"
    using assms(2) False by (simp add: error_rounds_def)
  ultimately show ?thesis unfolding w by blast
qed

fun maintenance_rounds :: "cron_env \<Rightarrow> int list \<Rightarrow> CronJob list \<Rightarrow> CronJob list" where
  "maintenance_rounds env [] jobs = jobs"
| "maintenance_rounds env (now # nows) jobs =
     maintenance_rounds env nows (fst (snd (recomputeNextRunsForMaintenance env False now jobs)))"

lemma broken_rounds:
  assumes "i < length jobs" and "broken_schedule env (jobs ! i)" and "error_rounds n (jobs ! i)"
  shows "error_rounds (n + length nows) (maintenance_rounds env nows jobs ! i)"
  using assms
proof (induction nows arbitrary: n jobs)
  case (Cons now nows)
  let ?jobs = "fst (snd (recomputeNextRunsForMaintenance env False now jobs))"
  have nth: "?jobs ! i = fst (snd (walk_job (maintain_job env False) now (jobs ! i)))"
    using Cons.prems(1) by (simp add: recomputeNextRunsForMaintenance_def walk_nth)
  from broken_round [OF Cons.prems(2,3), of False now]
  have "error_rounds (Suc n + length nows) (maintenance_rounds env nows ?jobs ! i)"
    by (intro Cons.IH)
      (simp_all only: nth, simp_all add: Cons.prems(1) recomputeNextRunsForMaintenance_def)
  then show ?case by simp
qed simp

text \<open>A job whose cron schedule cannot be evaluated is disabled by the third maintenance round
  and not before, whatever the other jobs are; it never gets a next run on the way and its
  error count stops at three.\<close>

theorem broken_schedule_disabled_after_three:
  assumes "i < length jobs" and "broken_schedule env (jobs ! i)" and "job_enabled (jobs ! i)"
    and "st_nextRunAtMs (job_state (jobs ! i)) = None" and "st_scheduleErrorCount (job_state (jobs ! i)) = None"
  shows "job_enabled (maintenance_rounds env nows jobs ! i) = (length nows < 3) \<and>
    st_nextRunAtMs (job_state (maintenance_rounds env nows jobs ! i)) = None \<and>
    (case st_scheduleErrorCount (job_state (maintenance_rounds env nows jobs ! i)) of
       None \<Rightarrow> 0 | Some c \<Rightarrow> c) = int (min (length nows) 3)"
proof -
  have "error_rounds 0 (jobs ! i)" using assms(3-5) by (simp add: error_rounds_def)
  from broken_rounds [OF assms(1,2) this, of nows] show ?thesis by (simp add: error_rounds_def)
qed

definition rejecting_env :: cron_env where
  "rejecting_env = hourly_env\<lparr>ce_cron_check := (\<lambda>e tz. Some ''TypeError: bad pattern'')\<rparr>"

lemma rejecting_env_broken: "broken_schedule rejecting_env example_job"
proof -
  have off: "job_offset rejecting_env example_job = 3" by code_simp
  have "resolveCronFromSchedule rejecting_env (Some ''0 * * * *'') None None = Inl ''TypeError: bad pattern''"
    by code_simp
  then have "computeNextRunAtMs rejecting_env (job_schedule example_job) c = Inl ''TypeError: bad pattern''" for c
    by (simp add: example_job_def computeNextRunAtMs_def)
  then show ?thesis
    by (simp add: broken_schedule_def computeStaggeredCronNextRunAtMs_def off eval_nat_numeral)
      (simp add: example_job_def is_cron_def)
qed

theorem broken_schedule_disabled_after_three_witness:
  "\<not> job_enabled (maintenance_rounds rejecting_env [1, 2, 3] [example_job] ! 0)"
  using broken_schedule_disabled_after_three [of 0 "[example_job]" rejecting_env "[1, 2, 3]"] rejecting_env_broken
  by (simp add: example_job_def empty_job_state_def)

section \<open>The wake time\<close>

lemma foldl_min_Min: "foldl min t ts = Min (set (t # ts))" for t :: int
proof -
  have "(\<lambda>x s. min s x) = (min :: int \<Rightarrow> int \<Rightarrow> int)" by (intro ext) (rule min.commute)
  then show ?thesis by (simp only: foldl_conv_fold Min.set_eq_fold)
qed

lemma nextWake_Min:
  "nextWakeAtMs jobs = (if wake_times jobs = [] then None else Some (Min (set (wake_times jobs))))"
  by (cases "wake_times jobs") (simp_all add: nextWakeAtMs_def foldl_min_Min del: foldl_Cons)

lemma wake_times_iff:
  "t \<in> set (wake_times jobs) \<longleftrightarrow> (\<exists>j \<in> set jobs. job_enabled j \<and> st_nextRunAtMs (job_state j) = Some t)"
  unfolding wake_times_def by (induction jobs) (auto simp: List.map_filter_simps split: option.split)

lemma nextWake_le:
  "j \<in> set jobs \<Longrightarrow> job_enabled j \<Longrightarrow> st_nextRunAtMs (job_state j) = Some t \<Longrightarrow>
   \<exists>w. nextWakeAtMs jobs = Some w \<and> w \<le> t"
proof -
  assume a: "j \<in> set jobs" "job_enabled j" "st_nextRunAtMs (job_state j) = Some t"
  then have "t \<in> set (wake_times jobs)" by (auto simp: wake_times_iff)
  then show ?thesis unfolding nextWake_Min by (cases "wake_times jobs") auto
qed

lemma nextWake_in:
  "nextWakeAtMs jobs = Some w \<Longrightarrow> \<exists>j \<in> set jobs. job_enabled j \<and> st_nextRunAtMs (job_state j) = Some w"
  unfolding nextWake_Min wake_times_iff [symmetric]
  by (metis List.finite_set Min_in option.distinct(1) option.inject set_empty)

end
