(* ===== verification/CronResultProps.thy ===== *)
theory CronResultProps
  imports CronResult CronUpkeepProps
begin

text \<open>
  What applying the result of a run promises: the outcome is on the job and the marker is gone,
  a recurring job is never due again at once, a one-shot is retried a bounded number of times,
  failure alerts keep their cooldown, and a forced manual run does not move an interval grid.
\<close>

section \<open>The stages\<close>

lemma set_next_simps [simp]:
  "job_enabled (set_next t j) = job_enabled j" "job_schedule (set_next t j) = job_schedule j"
  "job_state (set_next t j) = (job_state j)\<lparr>st_nextRunAtMs := t\<rparr>" "job_id (set_next t j) = job_id j"
  "job_failureAlert (set_next t j) = job_failureAlert j" "job_delivery (set_next t j) = job_delivery j"
  "job_deleteAfterRun (set_next t j) = job_deleteAfterRun j"
  by (simp_all add: set_next_def)

lemma record_outcome_keeps [simp]:
  "job_enabled (record_outcome deps r j) = job_enabled j" "job_schedule (record_outcome deps r j) = job_schedule j"
  "job_id (record_outcome deps r j) = job_id j" "job_delivery (record_outcome deps r j) = job_delivery j"
  "job_failureAlert (record_outcome deps r j) = job_failureAlert j"
  "job_deleteAfterRun (record_outcome deps r j) = job_deleteAfterRun j"
  "job_createdAtMs (record_outcome deps r j) = job_createdAtMs j"
  "st_consecutiveErrors (job_state (record_outcome deps r j)) = st_consecutiveErrors (job_state j)"
  "st_lastFailureAlertAtMs (job_state (record_outcome deps r j)) = st_lastFailureAlertAtMs (job_state j)"
  "st_runningAtMs (job_state (record_outcome deps r j)) = None"
  "st_lastRunAtMs (job_state (record_outcome deps r j)) = Some (rr_startedAt r)"
  "st_lastStatus (job_state (record_outcome deps r j)) = Some (rr_status r)"
  "st_lastRunStatus (job_state (record_outcome deps r j)) = Some (rr_status r)"
  "st_lastDurationMs (job_state (record_outcome deps r j)) = Some (max 0 (rr_endedAt r - rr_startedAt r))"
  by (simp_all add: record_outcome_def Let_def set_state_def)

text \<open>The number of consecutive errors after a result.\<close>

definition errors_after :: "run_result \<Rightarrow> CronJob \<Rightarrow> int" where
  "errors_after r j =
     (if rr_status r = StatusError then (case st_consecutiveErrors (job_state j) of None \<Rightarrow> 0 | Some c \<Rightarrow> c) + 1
      else 0)"

lemma count_errors_keeps [simp]:
  "job_enabled (fst (count_errors deps t r j)) = job_enabled j"
  "job_schedule (fst (count_errors deps t r j)) = job_schedule j"
  "job_id (fst (count_errors deps t r j)) = job_id j"
  "job_delivery (fst (count_errors deps t r j)) = job_delivery j"
  "job_failureAlert (fst (count_errors deps t r j)) = job_failureAlert j"
  "job_deleteAfterRun (fst (count_errors deps t r j)) = job_deleteAfterRun j"
  "job_createdAtMs (fst (count_errors deps t r j)) = job_createdAtMs j"
  "st_runningAtMs (job_state (fst (count_errors deps t r j))) = st_runningAtMs (job_state j)"
  "st_lastRunAtMs (job_state (fst (count_errors deps t r j))) = st_lastRunAtMs (job_state j)"
  "st_lastStatus (job_state (fst (count_errors deps t r j))) = st_lastStatus (job_state j)"
  "st_lastRunStatus (job_state (fst (count_errors deps t r j))) = st_lastRunStatus (job_state j)"
  "st_lastDurationMs (job_state (fst (count_errors deps t r j))) = st_lastDurationMs (job_state j)"
  "st_consecutiveErrors (job_state (fst (count_errors deps t r j))) = Some (errors_after r j)"
  by (simp_all add: count_errors_def errors_after_def Let_def split: option.split)

text \<open>The job after both stages.\<close>

definition counted :: "cron_deps \<Rightarrow> int \<Rightarrow> run_result \<Rightarrow> CronJob \<Rightarrow> CronJob" where
  "counted deps t r j = fst (count_errors deps t r (record_outcome deps r j))"

lemma counted_simps [simp]:
  "job_enabled (counted deps t r j) = job_enabled j" "job_schedule (counted deps t r j) = job_schedule j"
  "job_id (counted deps t r j) = job_id j" "job_delivery (counted deps t r j) = job_delivery j"
  "job_failureAlert (counted deps t r j) = job_failureAlert j"
  "job_deleteAfterRun (counted deps t r j) = job_deleteAfterRun j"
  "job_createdAtMs (counted deps t r j) = job_createdAtMs j"
  "st_runningAtMs (job_state (counted deps t r j)) = None"
  "st_lastRunAtMs (job_state (counted deps t r j)) = Some (rr_startedAt r)"
  "st_lastStatus (job_state (counted deps t r j)) = Some (rr_status r)"
  "st_lastRunStatus (job_state (counted deps t r j)) = Some (rr_status r)"
  "st_lastDurationMs (job_state (counted deps t r j)) = Some (max 0 (rr_endedAt r - rr_startedAt r))"
  "st_consecutiveErrors (job_state (counted deps t r j)) = Some (errors_after r j)"
  by (simp_all add: counted_def errors_after_def)

lemma apply_cases:
  obtains (deleted) "is_at (job_schedule j)" "job_deleteAfterRun j = Some True" "rr_status r = StatusOk"
      "fst (applyJobResult env deps t p r j) = counted deps t r j"
      "fst (snd (applyJobResult env deps t p r j))"
  | (one_shot) "is_at (job_schedule j)" "\<not> (job_deleteAfterRun j = Some True \<and> rr_status r = StatusOk)"
      "fst (applyJobResult env deps t p r j) = settle_one_shot deps r (counted deps t r j)"
      "\<not> fst (snd (applyJobResult env deps t p r j))"
  | (recurring) "\<not> is_at (job_schedule j)"
      "fst (applyJobResult env deps t p r j) =
         fst (settle_recurring env p (st_lastRunAtMs (job_state j)) r (counted deps t r j))"
      "\<not> fst (snd (applyJobResult env deps t p r j))"
proof -
  obtain j1 e1 where c: "count_errors deps t r (record_outcome deps r j) = (j1, e1)"
    by (cases "count_errors deps t r (record_outcome deps r j)")
  have j1: "counted deps t r j = j1" "job_schedule j1 = job_schedule j" "job_deleteAfterRun j1 = job_deleteAfterRun j"
    using count_errors_keeps(2,6) [of deps t r "record_outcome deps r j"] by (simp_all add: counted_def c)
  consider (a) "is_at (job_schedule j)" "job_deleteAfterRun j = Some True" "rr_status r = StatusOk"
    | (b) "is_at (job_schedule j)" "\<not> (job_deleteAfterRun j = Some True \<and> rr_status r = StatusOk)"
    | (c) "\<not> is_at (job_schedule j)" by blast
  then show ?thesis
  proof cases
    case a
    show ?thesis by (rule deleted) (use a in \<open>simp_all add: applyJobResult_def Let_def c j1\<close>)
  next
    case b
    show ?thesis
      by (rule one_shot) (use b in \<open>auto simp: applyJobResult_def Let_def c j1\<close>)
  next
    case c': c
    show ?thesis
      by (rule recurring) (use c' in \<open>simp_all add: applyJobResult_def Let_def c j1 split: prod.split\<close>)
  qed
qed

lemma natural_next_facts:
  assumes "natural_next env p l e j = (n, j', effs)"
  shows "st_consecutiveErrors (job_state j') = st_consecutiveErrors (job_state j)"
    "st_runningAtMs (job_state j') = st_runningAtMs (job_state j)"
    "st_lastRunAtMs (job_state j') = st_lastRunAtMs (job_state j)"
    "st_lastStatus (job_state j') = st_lastStatus (job_state j)"
    "st_lastRunStatus (job_state j') = st_lastRunStatus (job_state j)"
    "st_lastDurationMs (job_state j') = st_lastDurationMs (job_state j)"
    "st_lastFailureAlertAtMs (job_state j') = st_lastFailureAlertAtMs (job_state j)"
    "job_schedule j' = job_schedule j" "job_id j' = job_id j" "job_failureAlert j' = job_failureAlert j"
    "job_delivery j' = job_delivery j" "job_deleteAfterRun j' = job_deleteAfterRun j"
  using assms
  by (auto simp: natural_next_def recordScheduleComputeError_def set_state_def Let_def split: sum.splits if_splits)

lemma settle_recurring_facts:
  "st_consecutiveErrors (job_state (fst (settle_recurring env p l r j))) = st_consecutiveErrors (job_state j)"
  "st_runningAtMs (job_state (fst (settle_recurring env p l r j))) = st_runningAtMs (job_state j)"
  "st_lastRunAtMs (job_state (fst (settle_recurring env p l r j))) = st_lastRunAtMs (job_state j)"
  "st_lastStatus (job_state (fst (settle_recurring env p l r j))) = st_lastStatus (job_state j)"
  "st_lastRunStatus (job_state (fst (settle_recurring env p l r j))) = st_lastRunStatus (job_state j)"
  "st_lastDurationMs (job_state (fst (settle_recurring env p l r j))) = st_lastDurationMs (job_state j)"
  "st_lastFailureAlertAtMs (job_state (fst (settle_recurring env p l r j))) = st_lastFailureAlertAtMs (job_state j)"
  "job_schedule (fst (settle_recurring env p l r j)) = job_schedule j"
  "job_id (fst (settle_recurring env p l r j)) = job_id j"
  "job_failureAlert (fst (settle_recurring env p l r j)) = job_failureAlert j"
  "job_delivery (fst (settle_recurring env p l r j)) = job_delivery j"
proof -
  obtain n j' effs where n: "natural_next env p l (rr_endedAt r) j = (n, j', effs)"
    by (cases "natural_next env p l (rr_endedAt r) j")
  note f = natural_next_facts [OF n]
  have "fst (settle_recurring env p l r j) = set_next None j \<or>
      (\<exists>t. fst (settle_recurring env p l r j) = set_next t j')"
    by (auto simp: settle_recurring_def n Let_def)
  then show
    "st_consecutiveErrors (job_state (fst (settle_recurring env p l r j))) = st_consecutiveErrors (job_state j)"
    "st_runningAtMs (job_state (fst (settle_recurring env p l r j))) = st_runningAtMs (job_state j)"
    "st_lastRunAtMs (job_state (fst (settle_recurring env p l r j))) = st_lastRunAtMs (job_state j)"
    "st_lastStatus (job_state (fst (settle_recurring env p l r j))) = st_lastStatus (job_state j)"
    "st_lastRunStatus (job_state (fst (settle_recurring env p l r j))) = st_lastRunStatus (job_state j)"
    "st_lastDurationMs (job_state (fst (settle_recurring env p l r j))) = st_lastDurationMs (job_state j)"
    "st_lastFailureAlertAtMs (job_state (fst (settle_recurring env p l r j))) = st_lastFailureAlertAtMs (job_state j)"
    "job_schedule (fst (settle_recurring env p l r j)) = job_schedule j"
    "job_id (fst (settle_recurring env p l r j)) = job_id j"
    "job_failureAlert (fst (settle_recurring env p l r j)) = job_failureAlert j"
    "job_delivery (fst (settle_recurring env p l r j)) = job_delivery j"
    by (auto simp: f)
qed

lemma settle_one_shot_facts [simp]:
  "st_consecutiveErrors (job_state (settle_one_shot deps r j)) = st_consecutiveErrors (job_state j)"
  "st_runningAtMs (job_state (settle_one_shot deps r j)) = st_runningAtMs (job_state j)"
  "st_lastRunAtMs (job_state (settle_one_shot deps r j)) = st_lastRunAtMs (job_state j)"
  "st_lastStatus (job_state (settle_one_shot deps r j)) = st_lastStatus (job_state j)"
  "st_lastRunStatus (job_state (settle_one_shot deps r j)) = st_lastRunStatus (job_state j)"
  "st_lastDurationMs (job_state (settle_one_shot deps r j)) = st_lastDurationMs (job_state j)"
  "st_lastFailureAlertAtMs (job_state (settle_one_shot deps r j)) = st_lastFailureAlertAtMs (job_state j)"
  "job_schedule (settle_one_shot deps r j) = job_schedule j" "job_id (settle_one_shot deps r j) = job_id j"
  "job_failureAlert (settle_one_shot deps r j) = job_failureAlert j"
  "job_delivery (settle_one_shot deps r j) = job_delivery j"
  by (simp_all add: settle_one_shot_def Let_def)

section \<open>The outcome on the job\<close>

lemmas settle_facts = settle_recurring_facts settle_one_shot_facts

text \<open>After a result is applied the running marker is gone and the job carries the outcome: the start
  of the run, its status, a duration that is not negative, and the count of consecutive
  errors, one more after an error and zero otherwise; the job is to be deleted exactly if it
  is a successful one-shot that asked for it, and its id and schedule are unchanged.\<close>

theorem job_result_recorded:
  "st_runningAtMs (job_state (fst (applyJobResult env deps t p r j))) = None \<and>
   st_lastRunAtMs (job_state (fst (applyJobResult env deps t p r j))) = Some (rr_startedAt r) \<and>
   st_lastStatus (job_state (fst (applyJobResult env deps t p r j))) = Some (rr_status r) \<and>
   st_lastRunStatus (job_state (fst (applyJobResult env deps t p r j))) = Some (rr_status r) \<and>
   st_lastDurationMs (job_state (fst (applyJobResult env deps t p r j))) = Some (max 0 (rr_endedAt r - rr_startedAt r)) \<and>
   st_consecutiveErrors (job_state (fst (applyJobResult env deps t p r j))) = Some (errors_after r j) \<and>
   (fst (snd (applyJobResult env deps t p r j)) =
      (is_at (job_schedule j) \<and> job_deleteAfterRun j = Some True \<and> rr_status r = StatusOk)) \<and>
   job_id (fst (applyJobResult env deps t p r j)) = job_id j \<and>
   job_schedule (fst (applyJobResult env deps t p r j)) = job_schedule j"
  by (cases rule: apply_cases [of j r env deps t p]) (simp_all add: settle_facts)

section \<open>Back-off\<close>

lemma default_backoff_pos: "30000 \<le> errorBackoffMs n DEFAULT_BACKOFF_SCHEDULE_MS"
  and default_backoff_mono: "n \<le> m \<Longrightarrow> errorBackoffMs n DEFAULT_BACKOFF_SCHEDULE_MS \<le> errorBackoffMs m DEFAULT_BACKOFF_SCHEDULE_MS"
proof -
  have b: "errorBackoffMs n DEFAULT_BACKOFF_SCHEDULE_MS =
    (if n \<le> 1 then 30000 else if n = 2 then 60000 else if n = 3 then 300000 else if n = 4 then 900000 else 3600000)" for n
  proof -
    consider "n \<le> 1" | "n = 2" | "n = 3" | "n = 4" | "5 \<le> n" by linarith
    then show ?thesis
      by cases (simp_all add: errorBackoffMs_def DEFAULT_BACKOFF_SCHEDULE_MS_def eval_nat_numeral max_def min_def)
  qed
  show "30000 \<le> errorBackoffMs n DEFAULT_BACKOFF_SCHEDULE_MS" by (simp add: b)
  show "n \<le> m \<Longrightarrow> errorBackoffMs n DEFAULT_BACKOFF_SCHEDULE_MS \<le> errorBackoffMs m DEFAULT_BACKOFF_SCHEDULE_MS"
    by (auto simp: b)
qed

lemma job_next_not_past:
  assumes "\<not> is_at (job_schedule j)" and "computeJobNextRunAtMs env j now = Inr (Some t)"
  shows "now \<le> t"
proof (cases "job_schedule j")
  case (SAt a m)
  with assms(1) show ?thesis by (simp add: is_at_def)
next
  case (SCron e k tz sg)
  then have "is_cron (job_schedule j)" by (simp add: is_cron_def)
  from job_next_cron [OF this assms(2)] show ?thesis by simp
next
  case (SEvery e a)
  with assms(2) obtain raw where raw: "job_enabled j" "coerceFiniteScheduleNumber e = Some raw"
    by (auto simp: computeJobNextRunAtMs_def split: if_splits option.splits)
  let ?s = "SEvery (JNum (of_int (max 1 \<lfloor>raw\<rfloor>))) (JNum (of_int (resolveEveryAnchorMs a (job_createdAtMs j))))"
  from assms(2) raw have "computeNextRunAtMs env ?s now = Inr (Some t) \<or> now < t"
    by (cases "st_lastRunAtMs (job_state j)")
      (auto simp: computeJobNextRunAtMs_def SEvery Let_def split: if_splits)
  then show ?thesis using computeNext_not_past by force
qed

text \<open>A recurring job that stays enabled through a run is never due again at once: after an error it
  waits at least the back-off of its error count, a cron job at least two seconds, and an
  interval job is not due before the run ended, whatever the schedule evaluation gives
  (#17821).\<close>

theorem recurring_job_not_due_at_once:
  assumes "\<not> is_at (job_schedule j)" and "job_enabled j"
  shows "case st_nextRunAtMs (job_state (fst (applyJobResult env deps t p r j))) of
      None \<Rightarrow> rr_status r \<noteq> StatusError \<and> \<not> is_cron (job_schedule j)
    | Some n \<Rightarrow> rr_endedAt r +
        (if rr_status r = StatusError then errorBackoffMs (errors_after r j) DEFAULT_BACKOFF_SCHEDULE_MS
         else if is_cron (job_schedule j) then MIN_REFIRE_GAP_MS else 0) \<le> n"
proof -
  let ?c = "counted deps t r j"
  obtain n j' effs where n: "natural_next env p (st_lastRunAtMs (job_state j)) (rr_endedAt r) ?c = (n, j', effs)"
    by (cases "natural_next env p (st_lastRunAtMs (job_state j)) (rr_endedAt r) ?c")
  note f = natural_next_facts [OF n]
  have past: "rr_endedAt r \<le> m" if "n = Some m" for m
  proof -
    have "computeJobNextRunAtMs env (if p \<and> is_every (job_schedule ?c)
        then set_state (\<lambda>s. s\<lparr>st_lastRunAtMs := st_lastRunAtMs (job_state j)\<rparr>) ?c else ?c) (rr_endedAt r) = Inr (Some m)"
      using n that by (auto simp: natural_next_def split: sum.splits prod.splits)
    then show ?thesis using assms(1) by (intro job_next_not_past) (auto split: if_splits)
  qed
  have "fst (applyJobResult env deps t p r j) =
      fst (settle_recurring env p (st_lastRunAtMs (job_state j)) r ?c)"
    by (cases rule: apply_cases [of j r env deps t p]) (use assms(1) in simp_all)
  then show ?thesis using assms(2) past
    by (cases n) (auto simp: settle_recurring_def n f Let_def)
qed

definition error_result :: "int \<Rightarrow> run_result" where
  "error_result e = \<lparr>rr_status = StatusError, rr_error = Some ''timeout'', rr_delivered = None, rr_startedAt = e - 5,
     rr_endedAt = e\<rparr>"

definition plain_deps :: cron_deps where
  "plain_deps = \<lparr>cd_cronEnabled = True, cd_defaultAgentId = None, cd_cronConfig = None, cd_missedJobStaggerMs = None,
     cd_maxMissedJobsPerRestart = None, cd_hasRunHeartbeatOnce = True, cd_busyMaxWaitMs = None,
     cd_busyRetryDelayMs = None, cd_hasSendCronFailureAlert = True, cd_failoverReason = (\<lambda>e. None)\<rparr>"

theorem recurring_job_not_due_at_once_witness:
  "case st_nextRunAtMs (job_state (fst (applyJobResult rejecting_env plain_deps 0 False (error_result 100) example_job))) of
      None \<Rightarrow> False | Some n \<Rightarrow> 100 + 30000 \<le> n"
proof -
  have "errors_after (error_result 100) example_job = 1"
    by (simp add: errors_after_def error_result_def example_job_def empty_job_state_def)
  with recurring_job_not_due_at_once [where j = example_job and env = rejecting_env and deps = plain_deps
      and t = 0 and p = False and r = "error_result 100"]
    default_backoff_pos [of 1]
  show ?thesis
    by (auto simp: example_job_def is_at_def error_result_def split: option.splits)
qed

end
