(* ===== verification/CronTimer.thy ===== *)
theory CronTimer
  imports CronResult
begin

text \<open>
  The scheduler tick, the second half of \<open>src/cron/service/timer.ts\<close>, over the state of the
  service (\<open>service/state.ts\<close>, \<open>service/store.ts\<close>): the timer, which jobs are runnable, the two
  locked sections of a tick, the start-up catch-up, and the execution of one job.

  A section under \<open>locked\<close> is one step; the clock values it reads are its arguments, in the order
  of the reads. The store file is the list of jobs that was last saved; saving is assumed to
  succeed. Log output, the task ledger and the usage telemetry of a run are left out.
\<close>

section \<open>The state of the service\<close>

record cron_service =
  sv_store :: "CronJob list option"
  sv_disk :: "CronJob list"
  sv_timer :: "int option"
  sv_running :: bool
  sv_effects :: "cron_effect list"

definition createCronServiceState :: "CronJob list \<Rightarrow> cron_service" where
  "createCronServiceState disk =
     \<lparr>sv_store = None, sv_disk = disk, sv_timer = None, sv_running = False, sv_effects = []\<rparr>"

text \<open>What \<open>JSON.parse(JSON.stringify(job))\<close> changes: undefined properties vanish, a number that is
  not finite becomes null.\<close>

definition json_field :: "'a option option \<Rightarrow> 'a option option" where
  "json_field f = (case f of Some (Some v) \<Rightarrow> Some (Some v) | _ \<Rightarrow> None)"

definition json_failure_destination :: "CronFailureDestination \<Rightarrow> CronFailureDestination" where
  "json_failure_destination fd =
     \<lparr>fd_channel = json_field (fd_channel fd), fd_to = json_field (fd_to fd),
      fd_accountId = json_field (fd_accountId fd), fd_mode = json_field (fd_mode fd)\<rparr>"

definition json_number :: "jsval \<Rightarrow> jsval" where
  "json_number v = (case v of JNonFinite \<Rightarrow> JNull | _ \<Rightarrow> v)"

definition json_schedule :: "CronSchedule \<Rightarrow> CronSchedule" where
  "json_schedule s =
     (case s of
        SAt a ms \<Rightarrow> SAt a ms
      | SEvery everyMs anchorMs \<Rightarrow> SEvery (json_number everyMs) (json_number anchorMs)
      | SCron expr cron tz staggerMs \<Rightarrow> SCron expr cron tz (json_number staggerMs))"

definition json_alert :: "failure_alert_field \<Rightarrow> failure_alert_field" where
  "json_alert f =
     (case f of
        AlertOn a \<Rightarrow> AlertOn (a\<lparr>fa_after := json_number (fa_after a), fa_cooldownMs := json_number (fa_cooldownMs a)\<rparr>)
      | _ \<Rightarrow> f)"

definition json_job :: "CronJob \<Rightarrow> CronJob" where
  "json_job job = job\<lparr>
     job_schedule := json_schedule (job_schedule job),
     job_delivery := map_option (\<lambda>d. d\<lparr>dl_failureDestination :=
        map_option json_failure_destination (dl_failureDestination d)\<rparr>) (job_delivery job),
     job_failureAlert := json_alert (job_failureAlert job)\<rparr>"

definition sv_jobs :: "cron_service \<Rightarrow> CronJob list" where
  "sv_jobs sv = (case sv_store sv of None \<Rightarrow> [] | Some jobs \<Rightarrow> jobs)"

definition set_jobs :: "CronJob list \<Rightarrow> cron_service \<Rightarrow> cron_service" where
  "set_jobs jobs sv = (case sv_store sv of None \<Rightarrow> sv | Some _ \<Rightarrow> sv\<lparr>sv_store := Some jobs\<rparr>)"

definition add_effects :: "cron_effect list \<Rightarrow> cron_service \<Rightarrow> cron_service" where
  "add_effects effs sv = sv\<lparr>sv_effects := sv_effects sv @ effs\<rparr>"

definition emit :: "CronEvent \<Rightarrow> cron_service \<Rightarrow> cron_service" where
  "emit e sv = add_effects [EmitEvent e] sv"

definition persist :: "cron_service \<Rightarrow> cron_service" where
  "persist sv = (case sv_store sv of None \<Rightarrow> sv | Some jobs \<Rightarrow> sv\<lparr>sv_disk := map json_job jobs\<rparr>)"

text \<open>Replacing the jobs in memory by the result of a walk over them, with its effects.\<close>

definition walk_store :: "(CronJob list \<Rightarrow> bool \<times> CronJob list \<times> cron_effect list) \<Rightarrow>
    cron_service \<Rightarrow> bool \<times> cron_service" where
  "walk_store f sv =
     (case sv_store sv of
        None \<Rightarrow> (False, sv)
      | Some jobs \<Rightarrow> (case f jobs of (changed, jobs', effs) \<Rightarrow>
          (changed, add_effects effs (sv\<lparr>sv_store := Some jobs'\<rparr>))))"

text \<open>\<open>ensureLoaded\<close>; the argument \<open>recompute_now\<close> is the clock of the recomputation, \<open>None\<close> for
  \<open>skipRecompute\<close>.\<close>

definition ensureLoaded :: "cron_env \<Rightarrow> bool \<Rightarrow> int option \<Rightarrow> cron_service \<Rightarrow> cron_service" where
  "ensureLoaded env forceReload recompute_now sv =
     (if sv_store sv \<noteq> None \<and> \<not> forceReload then sv
      else (let sv1 = sv\<lparr>sv_store := Some (sv_disk sv)\<rparr> in
            case recompute_now of
              None \<Rightarrow> sv1
            | Some now \<Rightarrow> snd (walk_store (recomputeNextRuns env now) sv1)))"

definition maintain :: "cron_env \<Rightarrow> bool \<Rightarrow> int \<Rightarrow> cron_service \<Rightarrow> bool \<times> cron_service" where
  "maintain env recomputeExpired now sv =
     walk_store (recomputeNextRunsForMaintenance env recomputeExpired now) sv"

section \<open>The timer\<close>

text \<open>The delay in milliseconds of the armed timer.\<close>

definition timer_delay :: "int \<Rightarrow> int \<Rightarrow> int" where
  "timer_delay nextAt now =
     (let delay = max (nextAt - now) 0;
          flooredDelay = (if delay = 0 then MIN_REFIRE_GAP_MS else delay)
      in min flooredDelay MAX_TIMER_DELAY_MS)"

definition armTimer :: "cron_deps \<Rightarrow> int \<Rightarrow> cron_service \<Rightarrow> cron_service" where
  "armTimer deps now sv =
     sv\<lparr>sv_timer := (if \<not> cd_cronEnabled deps then None
                     else case nextWakeAtMs (sv_jobs sv) of
                       None \<Rightarrow> None
                     | Some nextAt \<Rightarrow> if nextAt = 0 then None else Some (timer_delay nextAt now))\<rparr>"

definition armRunningRecheckTimer :: "cron_service \<Rightarrow> cron_service" where
  "armRunningRecheckTimer sv = sv\<lparr>sv_timer := Some MAX_TIMER_DELAY_MS\<rparr>"

definition stopTimer :: "cron_service \<Rightarrow> cron_service" where
  "stopTimer sv = sv\<lparr>sv_timer := None\<rparr>"

section \<open>Runnable jobs\<close>

definition isErrorBackoffPending :: "CronJob \<Rightarrow> int \<Rightarrow> bool" where
  "isErrorBackoffPending job now =
     (if is_at (job_schedule job) \<or> st_lastStatus (job_state job) \<noteq> Some StatusError then False
      else (case st_lastRunAtMs (job_state job) of
              None \<Rightarrow> False
            | Some l \<Rightarrow> now < l + errorBackoffMs
                (case st_consecutiveErrors (job_state job) of None \<Rightarrow> 1 | Some c \<Rightarrow> max 1 c)
                DEFAULT_BACKOFF_SCHEDULE_MS))"

text \<open>The options of \<open>isRunnableJob\<close>: the job ids to skip, \<open>skipAtIfAlreadyRan\<close>,
  \<open>allowCronMissedRunByLastRun\<close>.\<close>

record runnable_opts =
  ro_skip :: "string list"
  ro_skipAtIfAlreadyRan :: bool
  ro_allowMissed :: bool

definition tick_opts :: runnable_opts where
  "tick_opts = \<lparr>ro_skip = [], ro_skipAtIfAlreadyRan = False, ro_allowMissed = False\<rparr>"

definition startup_opts :: "string list \<Rightarrow> runnable_opts" where
  "startup_opts skip = \<lparr>ro_skip = skip, ro_skipAtIfAlreadyRan = True, ro_allowMissed = True\<rparr>"

definition missed_slot :: "cron_env \<Rightarrow> CronJob \<Rightarrow> int \<Rightarrow> bool" where
  "missed_slot env job now =
     (case computeJobPreviousRunAtMs env job now of
        Inl _ \<Rightarrow> False
      | Inr None \<Rightarrow> False
      | Inr (Some p) \<Rightarrow> (case st_lastRunAtMs (job_state job) of None \<Rightarrow> False | Some l \<Rightarrow> p > l))"

definition isRunnableJob :: "cron_env \<Rightarrow> runnable_opts \<Rightarrow> int \<Rightarrow> CronJob \<Rightarrow> bool" where
  "isRunnableJob env opts now job =
     (let s = job_state job in
      if \<not> job_enabled job then False
      else if job_id job \<in> set (ro_skip opts) then False
      else if st_runningAtMs s \<noteq> None then False
      else if ro_skipAtIfAlreadyRan opts \<and> is_at (job_schedule job) \<and> st_lastStatus s \<noteq> None then
        (case (st_nextRunAtMs s, st_lastRunAtMs s) of
           (Some n, Some l) \<Rightarrow> st_lastStatus s = Some StatusError \<and> n > l \<and> now \<ge> n
         | _ \<Rightarrow> False)
      else if (case st_nextRunAtMs s of None \<Rightarrow> False | Some n \<Rightarrow> now \<ge> n) then True
      else if (case st_nextRunAtMs s of None \<Rightarrow> False | Some n \<Rightarrow> n > now \<and> isErrorBackoffPending job now)
      then False
      else if \<not> ro_allowMissed opts \<or> \<not> is_cron (job_schedule job) then False
      else missed_slot env job now)"

definition collectRunnableJobs :: "cron_env \<Rightarrow> runnable_opts \<Rightarrow> int \<Rightarrow> cron_service \<Rightarrow> CronJob list" where
  "collectRunnableJobs env opts now sv = filter (isRunnableJob env opts now) (sv_jobs sv)"

definition mark_running :: "int \<Rightarrow> CronJob \<Rightarrow> CronJob" where
  "mark_running now job = set_state (\<lambda>s. s\<lparr>st_runningAtMs := Some now, st_lastError := None\<rparr>) job"

definition mark_jobs :: "int \<Rightarrow> string list \<Rightarrow> CronJob list \<Rightarrow> CronJob list" where
  "mark_jobs now ids jobs = map (\<lambda>j. if job_id j \<in> set ids then mark_running now j else j) jobs"

section \<open>The outcome of a run\<close>

record timed_outcome =
  to_jobId :: string
  to_status :: CronRunStatus
  to_error :: "string option"
  to_summary :: "string option"
  to_delivered :: "bool option"
  to_sessionId :: "string option"
  to_sessionKey :: "string option"
  to_startedAt :: int
  to_endedAt :: int

definition outcome_result :: "timed_outcome \<Rightarrow> run_result" where
  "outcome_result o' = \<lparr>rr_status = to_status o', rr_error = to_error o', rr_delivered = to_delivered o',
     rr_startedAt = to_startedAt o', rr_endedAt = to_endedAt o'\<rparr>"

definition finished_event :: "CronJob \<Rightarrow> timed_outcome \<Rightarrow> CronEvent" where
  "finished_event job o' = \<lparr>ev_jobId = job_id job, ev_action = ''finished'',
     ev_runAtMs = Some (to_startedAt o'), ev_durationMs = st_lastDurationMs (job_state job),
     ev_status = Some (to_status o'), ev_error = to_error o', ev_summary = to_summary o',
     ev_delivered = to_delivered o', ev_deliveryStatus = st_lastDeliveryStatus (job_state job),
     ev_deliveryError = st_lastDeliveryError (job_state job), ev_sessionId = to_sessionId o',
     ev_sessionKey = to_sessionKey o', ev_nextRunAtMs = st_nextRunAtMs (job_state job)\<rparr>"

definition remove_job :: "string \<Rightarrow> CronJob list \<Rightarrow> CronJob list" where
  "remove_job i jobs = filter (\<lambda>j. job_id j \<noteq> i) jobs"

text \<open>The result applied to the stored job, for the tick and for a manual run.\<close>

definition apply_to_stored ::
    "cron_env \<Rightarrow> cron_deps \<Rightarrow> int \<Rightarrow> bool \<Rightarrow> timed_outcome \<Rightarrow> cron_service \<Rightarrow> cron_service" where
  "apply_to_stored env deps alertNow preserveSchedule o' sv =
     (case find (\<lambda>j. job_id j = to_jobId o') (sv_jobs sv) of
        None \<Rightarrow> sv
      | Some job \<Rightarrow>
          (case applyJobResult env deps alertNow preserveSchedule (outcome_result o') job of
             (job', shouldDelete, effs) \<Rightarrow>
               (let sv1 = emit (finished_event job' o') (add_effects effs
                      (set_jobs (update_first (\<lambda>j. job_id j = to_jobId o') (\<lambda>_. job') (sv_jobs sv)) sv))
                in if shouldDelete
                   then emit (plain_event (job_id job') ''removed'') (set_jobs (remove_job (job_id job') (sv_jobs sv1)) sv1)
                   else sv1)))"

definition applyOutcomeToStoredJob ::
    "cron_env \<Rightarrow> cron_deps \<Rightarrow> int \<Rightarrow> timed_outcome \<Rightarrow> cron_service \<Rightarrow> cron_service" where
  "applyOutcomeToStoredJob env deps alertNow o' sv = apply_to_stored env deps alertNow False o' sv"

section \<open>A tick\<close>

text \<open>The synchronous entry of \<open>onTimer\<close>: whether the tick goes on.\<close>

definition tick_enter :: "cron_service \<Rightarrow> bool \<times> cron_service" where
  "tick_enter sv =
     (if sv_running sv then (False, armRunningRecheckTimer sv)
      else (True, armRunningRecheckTimer (sv\<lparr>sv_running := True\<rparr>)))"

text \<open>The first locked section: the ids of the due jobs, which are marked as running and saved.\<close>

definition tick_select :: "cron_env \<Rightarrow> int \<Rightarrow> int \<Rightarrow> cron_service \<Rightarrow> string list \<times> cron_service" where
  "tick_select env dueCheckNow now sv =
     (let sv1 = ensureLoaded env True None sv;
          due = collectRunnableJobs env tick_opts dueCheckNow sv1
      in if due = []
         then (case maintain env True dueCheckNow sv1 of (changed, sv2) \<Rightarrow>
                 ([], if changed then persist sv2 else sv2))
         else (map job_id due,
               persist (set_jobs (map (\<lambda>j. if isRunnableJob env tick_opts dueCheckNow j
                                           then mark_running now j else j) (sv_jobs sv1)) sv1)))"

text \<open>The start of one due job: the marker in memory is moved to the actual start.\<close>

definition tick_start :: "string \<Rightarrow> int \<Rightarrow> cron_service \<Rightarrow> cron_service" where
  "tick_start i startedAt sv =
     emit ((plain_event i ''started'')\<lparr>ev_runAtMs := Some startedAt\<rparr>)
       (set_jobs (update_first (\<lambda>j. job_id j = i)
          (set_state (\<lambda>s. s\<lparr>st_runningAtMs := Some startedAt\<rparr>)) (sv_jobs sv)) sv)"

text \<open>The second locked section, with the clock of each alert and of the maintenance.\<close>

definition tick_apply ::
    "cron_env \<Rightarrow> cron_deps \<Rightarrow> int \<Rightarrow> (int \<times> timed_outcome) list \<Rightarrow> cron_service \<Rightarrow> cron_service" where
  "tick_apply env deps now outcomes sv =
     (if outcomes = [] then sv
      else persist (snd (maintain env False now
        (foldl (\<lambda>s (t, o'). applyOutcomeToStoredJob env deps t o' s)
           (ensureLoaded env True None sv) outcomes))))"

definition tick_leave :: "cron_deps \<Rightarrow> int \<Rightarrow> cron_service \<Rightarrow> cron_service" where
  "tick_leave deps now sv = armTimer deps now (sv\<lparr>sv_running := False\<rparr>)"

section \<open>Start-up catch-up\<close>

record catchup_plan =
  pl_candidates :: "string list"
  pl_deferred :: "string list"

definition next_key :: "CronJob \<Rightarrow> int" where
  "next_key j = (case st_nextRunAtMs (job_state j) of None \<Rightarrow> 0 | Some t \<Rightarrow> t)"

definition planStartupCatchup ::
    "cron_env \<Rightarrow> cron_deps \<Rightarrow> string list \<Rightarrow> int \<Rightarrow> cron_service \<Rightarrow> catchup_plan \<times> cron_service" where
  "planStartupCatchup env deps skip now sv =
     (let maxImmediate = nat (max 0 (case cd_maxMissedJobsPerRestart deps of None \<Rightarrow> 5 | Some m \<Rightarrow> m));
          sv1 = ensureLoaded env False None sv;
          missed = collectRunnableJobs env (startup_opts skip) now sv1
      in if missed = [] then (\<lparr>pl_candidates = [], pl_deferred = []\<rparr>, sv1)
         else (let sorted = sort_key next_key missed;
                   candidates = map job_id (take maxImmediate sorted);
                   deferred = map job_id (drop maxImmediate sorted)
               in (\<lparr>pl_candidates = candidates, pl_deferred = deferred\<rparr>,
                   persist (set_jobs (mark_jobs now candidates (sv_jobs sv1)) sv1))))"

text \<open>The deferred jobs get one start after the other, \<open>staggerMs\<close> apart.\<close>

fun defer_jobs :: "int \<Rightarrow> int \<Rightarrow> int \<Rightarrow> string list \<Rightarrow> CronJob list \<Rightarrow> CronJob list" where
  "defer_jobs baseNow staggerMs offset [] jobs = jobs"
| "defer_jobs baseNow staggerMs offset (i # ids) jobs =
     (case find (\<lambda>j. job_id j = i) jobs of
        None \<Rightarrow> defer_jobs baseNow staggerMs offset ids jobs
      | Some j \<Rightarrow>
          if \<not> job_enabled j then defer_jobs baseNow staggerMs offset ids jobs
          else defer_jobs baseNow staggerMs (offset + staggerMs) ids
                 (update_first (\<lambda>j. job_id j = i) (set_next (Some (baseNow + offset))) jobs))"

definition applyStartupCatchupOutcomes ::
    "cron_env \<Rightarrow> cron_deps \<Rightarrow> catchup_plan \<Rightarrow> (int \<times> timed_outcome) list \<Rightarrow> int \<Rightarrow> int \<Rightarrow>
     cron_service \<Rightarrow> cron_service" where
  "applyStartupCatchupOutcomes env deps plan outcomes baseNow now sv =
     (let staggerMs = max 0 (case cd_missedJobStaggerMs deps of None \<Rightarrow> 5000 | Some m \<Rightarrow> m);
          sv1 = foldl (\<lambda>s (t, o'). applyOutcomeToStoredJob env deps t o' s)
                  (ensureLoaded env False None sv) outcomes;
          sv2 = set_jobs (defer_jobs baseNow staggerMs staggerMs (pl_deferred plan) (sv_jobs sv1)) sv1
      in persist (snd (maintain env False now sv2)))"

end
