(* ===== verification/CronPatchProps.thy ===== *)
theory CronPatchProps
  imports CronPatch CronScheduleProps
begin

text \<open>
  What creating and patching a job promises: an accepted job satisfies the specification of
  supported jobs, whatever patches made it, its identity never changes, and the merges of
  payload, delivery and alert settings are idempotent.
\<close>

section \<open>Supported jobs\<close>

definition http_url :: "cron_env \<Rightarrow> string option \<Rightarrow> bool" where
  "http_url env t \<longleftrightarrow> t \<noteq> None \<and> normalizeHttpWebhookUrl env t = t"

definition delivery_supported :: "cron_env \<Rightarrow> CronJob \<Rightarrow> bool" where
  "delivery_supported env j =
     (case job_delivery j of
        None \<Rightarrow> True
      | Some d \<Rightarrow> dl_mode d = Some ''none'' \<or>
          (if dl_mode d = Some ''webhook'' then http_url env (dl_to d)
           else is_isolated_like (job_sessionTarget j)))"

definition failure_destination_supported :: "cron_env \<Rightarrow> CronJob \<Rightarrow> bool" where
  "failure_destination_supported env j =
     (case delivery_failureDestination j of
        None \<Rightarrow> True
      | Some fd \<Rightarrow> \<not> main_without_webhook j \<and>
          (fd_mode fd = Some (Some ''webhook'') \<longrightarrow>
             (case fd_to fd of Some t \<Rightarrow> http_url env t | None \<Rightarrow> False)))"

definition main_agent_supported :: "string option \<Rightarrow> CronJob \<Rightarrow> bool" where
  "main_agent_supported d j =
     (job_sessionTarget j = ''main'' \<longrightarrow>
       (case job_agentId j of
          None \<Rightarrow> True | Some a \<Rightarrow> a = [] \<or> normalizeAgentId (Some a) = normalizeAgentId d))"

definition supported_job :: "cron_env \<Rightarrow> string option \<Rightarrow> CronJob \<Rightarrow> bool" where
  "supported_job env d j \<longleftrightarrow>
     (job_sessionTarget j = ''main'' \<longrightarrow> \<not> is_agent_turn (job_payload j)) \<and>
     (is_isolated_like (job_sessionTarget j) \<longrightarrow> is_agent_turn (job_payload j)) \<and>
     main_agent_supported d j \<and> delivery_supported env j \<and> failure_destination_supported env j"

lemma normalized_url: "normalizeHttpWebhookUrl env v = Some t \<Longrightarrow> http_url env (Some t)"
proof -
  assume a: "normalizeHttpWebhookUrl env v = Some t"
  then obtain p where t: "trimmed_opt v = Some t" "ce_url_protocol env t = Some p" "p = ''http:'' \<or> p = ''https:''"
    by (auto simp: normalizeHttpWebhookUrl_def split: option.splits if_splits)
  then have "trimmed_opt (Some t) = Some t" by (metis trimmed_opt_idem)
  with t show ?thesis by (simp add: http_url_def normalizeHttpWebhookUrl_def)
qed

lemma http_url_Some: "http_url env v \<Longrightarrow> \<exists>t. v = Some t \<and> normalizeHttpWebhookUrl env v = Some t"
  by (auto simp: http_url_def)

text \<open>The four checks, each with what it establishes and keeps.\<close>

lemma assertSupportedJobSpec_Inr:
  "assertSupportedJobSpec j = Inr j' \<longleftrightarrow> j' = j \<and>
     (job_sessionTarget j = ''main'' \<longrightarrow> \<not> is_agent_turn (job_payload j)) \<and>
     (is_isolated_like (job_sessionTarget j) \<longrightarrow> is_agent_turn (job_payload j))"
  by (auto simp: assertSupportedJobSpec_def)

lemma assertMainSessionAgentId_Inr:
  "assertMainSessionAgentId d j = Inr j' \<longleftrightarrow> j' = j \<and> main_agent_supported d j"
  by (auto simp: assertMainSessionAgentId_def main_agent_supported_def split: option.splits)

lemma assertDeliverySupport_Inr:
  assumes "assertDeliverySupport env j = Inr j'"
  shows "delivery_supported env j' \<and> (\<exists>d. j' = j\<lparr>job_delivery := d\<rparr>) \<and> delivery_mode j' = delivery_mode j"
proof (cases "job_delivery j")
  case None
  with assms show ?thesis
    by (auto simp: assertDeliverySupport_def delivery_supported_def intro!: exI [of _ None])
next
  case (Some d)
  have keep: "j = j\<lparr>job_delivery := Some d\<rparr>" using Some by simp
  consider "dl_mode d = Some ''none''" | "dl_mode d = Some ''webhook''"
    | "dl_mode d \<noteq> Some ''none''" "dl_mode d \<noteq> Some ''webhook''" by blast
  then show ?thesis
  proof cases
    case 1
    with assms Some keep show ?thesis
      by (auto simp: assertDeliverySupport_def delivery_supported_def intro!: exI [of _ "Some d"])
  next
    case 2
    with assms Some obtain t where t: "normalizeHttpWebhookUrl env (dl_to d) = Some t"
      and j': "j' = j\<lparr>job_delivery := Some (d\<lparr>dl_to := Some t\<rparr>)\<rparr>"
      by (auto simp: assertDeliverySupport_def split: option.splits)
    with normalized_url [OF t] 2 Some show ?thesis
      by (auto simp: delivery_supported_def delivery_mode_def intro!: exI [of _ "Some (d\<lparr>dl_to := Some t\<rparr>)"])
  next
    case 3
    with assms Some keep show ?thesis
      by (auto simp: assertDeliverySupport_def delivery_supported_def split: if_splits
          intro!: exI [of _ "Some d"])
  qed
qed

lemma assertFailureDestinationSupport_Inr:
  assumes "assertFailureDestinationSupport env j = Inr j'"
  shows "failure_destination_supported env j' \<and> (delivery_supported env j \<longrightarrow> delivery_supported env j') \<and>
    (\<exists>d. j' = j\<lparr>job_delivery := d\<rparr>)"
proof (cases "job_delivery j")
  case None
  with assms show ?thesis
    by (auto simp: assertFailureDestinationSupport_def failure_destination_supported_def
        delivery_failureDestination_def intro!: exI [of _ None])
next
  case (Some d)
  show ?thesis
  proof (cases "dl_failureDestination d")
    case None
    with assms Some show ?thesis
      by (auto simp: assertFailureDestinationSupport_def failure_destination_supported_def
          delivery_failureDestination_def intro!: exI [of _ "Some d"])
  next
    case (Some fd)
    note d = \<open>job_delivery j = Some d\<close>
    from assms have ok: "\<not> main_without_webhook j"
      by (auto simp: assertFailureDestinationSupport_def delivery_failureDestination_def d Some split: if_splits)
    show ?thesis
    proof (cases "fd_mode fd = Some (Some ''webhook'')")
      case True
      with assms ok obtain v t where t: "normalizeHttpWebhookUrl env v = Some t" and
        j': "j' = j\<lparr>job_delivery := Some (d\<lparr>dl_failureDestination := Some (fd\<lparr>fd_to := Some (Some t)\<rparr>)\<rparr>)\<rparr>"
        by (auto simp: assertFailureDestinationSupport_def delivery_failureDestination_def d Some
            split: option.splits)
      from normalized_url [OF t] ok True show ?thesis unfolding j'
        by (auto simp: failure_destination_supported_def delivery_failureDestination_def
            main_without_webhook_def delivery_mode_def delivery_supported_def d
            intro!: exI [of _ "Some (d\<lparr>dl_failureDestination := Some (fd\<lparr>fd_to := Some (Some t)\<rparr>)\<rparr>)"])
    next
      case False
      with assms ok have "j' = j"
        by (simp add: assertFailureDestinationSupport_def delivery_failureDestination_def d Some)
      with ok False show ?thesis
        by (auto simp: failure_destination_supported_def delivery_failureDestination_def d Some
            intro!: exI [of _ "Some d"])
    qed
  qed
qed

lemma delivery_irrelevant:
  "job_sessionTarget (j\<lparr>job_delivery := d\<rparr>) = job_sessionTarget j"
  "main_agent_supported a (j\<lparr>job_delivery := d\<rparr>) = main_agent_supported a j"
  "job_payload (j\<lparr>job_delivery := d\<rparr>) = job_payload j"
  by (simp_all add: main_agent_supported_def)

lemma validate_job_supported:
  assumes "validate_job env d j = Inr j'"
  shows "supported_job env d j' \<and> (\<exists>x. j' = j\<lparr>job_delivery := x\<rparr>)"
proof -
  from assms obtain j2 where s: "assertSupportedJobSpec j = Inr j" and m: "assertMainSessionAgentId d j = Inr j"
    and j2: "assertDeliverySupport env j = Inr j2" and j': "assertFailureDestinationSupport env j2 = Inr j'"
    by (auto simp: validate_job_def bind_ok_Inr assertSupportedJobSpec_Inr assertMainSessionAgentId_Inr)
  from assertDeliverySupport_Inr [OF j2] obtain x2 where x2: "j2 = j\<lparr>job_delivery := x2\<rparr>"
    and dl: "delivery_supported env j2" by blast
  from assertFailureDestinationSupport_Inr [OF j'] obtain x where x: "j' = j2\<lparr>job_delivery := x\<rparr>"
    and fd: "failure_destination_supported env j'" "delivery_supported env j'" using dl by blast
  have "j' = j\<lparr>job_delivery := x\<rparr>" by (simp add: x x2)
  moreover from s m have "main_agent_supported d j"
    "job_sessionTarget j = ''main'' \<longrightarrow> \<not> is_agent_turn (job_payload j)"
    "is_isolated_like (job_sessionTarget j) \<longrightarrow> is_agent_turn (job_payload j)"
    by (simp_all add: assertSupportedJobSpec_Inr assertMainSessionAgentId_Inr)
  ultimately show ?thesis using fd by (auto simp: supported_job_def delivery_irrelevant)
qed

text \<open>The checks accept every supported job as it is: validation is a projection.\<close>

lemma supported_job_validates:
  assumes "supported_job env d j"
  shows "validate_job env d j = Inr j"
proof -
  from assms have "assertSupportedJobSpec j = Inr j" "assertMainSessionAgentId d j = Inr j"
    by (simp_all add: supported_job_def assertSupportedJobSpec_Inr assertMainSessionAgentId_Inr)
  moreover have "assertDeliverySupport env j = Inr j"
  proof (cases "job_delivery j")
    case (Some x)
    with assms show ?thesis
      by (auto simp: supported_job_def delivery_supported_def assertDeliverySupport_def
          split: if_splits dest!: http_url_Some)
  qed (simp add: assertDeliverySupport_def)
  moreover have "assertFailureDestinationSupport env j = Inr j"
  proof (cases "delivery_failureDestination j")
    case (Some fd)
    then obtain x where x: "job_delivery j = Some x" "dl_failureDestination x = Some fd"
      by (auto simp: delivery_failureDestination_def split: option.splits)
    from assms Some have ok: "\<not> main_without_webhook j"
      by (simp add: supported_job_def failure_destination_supported_def)
    show ?thesis
    proof (cases "fd_mode fd = Some (Some ''webhook'')")
      case True
      with assms Some obtain t where t: "fd_to fd = Some (Some t)" "normalizeHttpWebhookUrl env (Some t) = Some t"
        by (auto simp: supported_job_def failure_destination_supported_def split: option.splits dest!: http_url_Some)
      then have "fd\<lparr>fd_to := Some (Some t)\<rparr> = fd" by simp
      with t ok True x Some show ?thesis by (simp add: assertFailureDestinationSupport_def)
    qed (use ok x Some in \<open>simp add: assertFailureDestinationSupport_def\<close>)
  qed (simp add: assertFailureDestinationSupport_def split: option.split)
  ultimately show ?thesis by (simp add: validate_job_def)
qed

section \<open>Created jobs\<close>

lemma compute_ignores_next [simp]:
  "computeJobNextRunAtMs env (set_state (\<lambda>s. s\<lparr>st_nextRunAtMs := t\<rparr>) j) now = computeJobNextRunAtMs env j now"
  by (cases "job_schedule j"; cases "st_lastRunAtMs (job_state j)")
    (simp_all add: computeJobNextRunAtMs_def computeStaggeredCronNextRunAtMs_def job_offset_def Let_def
      split: option.split)

lemma supported_ignores_state [simp]: "supported_job env d (set_state f j) = supported_job env d j"
proof -
  have m: "main_without_webhook (set_state f j) = main_without_webhook j"
    by (simp add: main_without_webhook_def delivery_mode_def)
  have fd: "delivery_failureDestination (set_state f j) = delivery_failureDestination j"
    by (simp add: delivery_failureDestination_def)
  have "delivery_supported env (set_state f j) = delivery_supported env j"
    by (cases "job_delivery j") (simp_all add: delivery_supported_def)
  moreover have "failure_destination_supported env (set_state f j) = failure_destination_supported env j"
    by (cases "delivery_failureDestination j") (simp_all add: failure_destination_supported_def fd m)
  ultimately show ?thesis by (simp add: supported_job_def main_agent_supported_def)
qed

text \<open>A job that \<open>createJob\<close> returns is a supported job under the new id, with a non-empty name,
  the creation time, the next run that its schedule gives at that time, and validating it again
  changes nothing.\<close>

theorem created_job_supported:
  assumes "createJob env d i now input = Inr job"
  shows "supported_job env d job \<and> validate_job env d job = Inr job \<and> job_id job = i \<and>
    job_createdAtMs job = now \<and> job_name job \<noteq> [] \<and>
    computeJobNextRunAtMs env job now = Inr (st_nextRunAtMs (job_state job))"
proof -
  from assms obtain s n j1 t where n: "normalizeRequiredName (cr_name input) = Inr n"
    and v: "validate_job env d (initial_job i now s n input) = Inr j1"
    and t: "computeJobNextRunAtMs env j1 now = Inr t"
    and job: "job = set_state (\<lambda>s. s\<lparr>st_nextRunAtMs := t\<rparr>) j1"
    by (auto simp: createJob_def bind_ok_Inr)
  have j0: "job_id (initial_job i now s n input) = i" "job_createdAtMs (initial_job i now s n input) = now"
    "job_name (initial_job i now s n input) = n" by (simp_all add: initial_job_def)
  from validate_job_supported [OF v] obtain x where s: "supported_job env d j1" and x: "j1 = (initial_job i now s n input)\<lparr>job_delivery := x\<rparr>"
    by blast
  from n have "n \<noteq> []" by (auto simp: normalizeRequiredName_def split: jsval.splits if_splits)
  with s x j0 t supported_job_validates [of env d job] show ?thesis by (simp add: job)
qed

definition example_create :: CronJobCreate where
  "example_create = \<lparr>cr_agentId = JUndef, cr_sessionKey = JUndef, cr_name = JStr '' daily '', cr_description = JUndef,
     cr_enabled = None, cr_deleteAfterRun = None, cr_schedule = SCron (Some ''0 * * * *'') None None JUndef,
     cr_sessionTarget = ''main'', cr_wakeMode = WakeNow, cr_payload = SystemEvent ''t'', cr_delivery = None,
     cr_failureAlert = AlertUnset, cr_state = []\<rparr>"

lemma example_create_result: "map_option job_name (case createJob hourly_env None ''job'' 3600000 example_create of
    Inl e \<Rightarrow> None | Inr j \<Rightarrow> Some j) = Some ''daily''"
  by code_simp

theorem created_job_supported_witness:
  "\<exists>job. createJob hourly_env None ''job'' 3600000 example_create = Inr job \<and> supported_job hourly_env None job \<and>
     job_name job = ''daily''"
proof -
  from example_create_result obtain job where j: "createJob hourly_env None ''job'' 3600000 example_create = Inr job"
    and "job_name job = ''daily''" by (cases "createJob hourly_env None ''job'' 3600000 example_create") auto
  with created_job_supported [OF j] show ?thesis by blast
qed

section \<open>Patched jobs\<close>

lemma run_updates_append:
  "run_updates (xs @ ys) j =
     (case run_updates xs j of (j', Some e) \<Rightarrow> (j', Some e) | (j', None) \<Rightarrow> run_updates ys j')"
  by (induction xs arbitrary: j) (simp_all split: sum.split)

lemma run_updates_keeps:
  "(\<And>f j j'. f \<in> set fs \<Longrightarrow> f j = Inr j' \<Longrightarrow> P j' = P j) \<Longrightarrow> P (fst (run_updates fs j)) = P j"
proof (induction fs arbitrary: j)
  case (Cons f fs)
  show ?case
  proof (cases "f j")
    case (Inr j')
    then have "P (fst (run_updates fs j')) = P j'" using Cons.prems by (intro Cons.IH) auto
    moreover have "P j' = P j" using Inr by (intro Cons.prems [of f]) simp_all
    ultimately show ?thesis using Inr by simp
  qed simp
qed simp

lemma when_some_keeps:
  "(\<And>v j j'. f v j = Inr j' \<Longrightarrow> P j' = P j) \<Longrightarrow> when_some p f j = Inr j' \<Longrightarrow> P j' = P j"
  by (cases p) auto

text \<open>What identifies a job.\<close>

definition job_identity :: "CronJob \<Rightarrow> string \<times> int" where
  "job_identity j = (job_id j, job_createdAtMs j)"

lemma patch_steps_identity:
  assumes "f \<in> set (patch_steps p @ check_steps env d)" and "f j = Inr j'"
  shows "job_identity j' = job_identity j"
proof -
  have deliv: "job_identity (j\<lparr>job_delivery := x\<rparr>) = job_identity j" for j x by (simp add: job_identity_def)
  from assms(1) consider "f \<in> set (patch_steps p)" | "f \<in> set (check_steps env d)" by auto
  then show ?thesis
  proof cases
    case 1
    then show ?thesis using assms(2) unfolding patch_steps_def
      by (auto simp: when_some_def bind_ok_Inr job_identity_def patch_target_def set_state_def
          reject_main_failure_destination_def drop_main_delivery_def split: option.split_asm if_split_asm)
  next
    case 2
    then consider "f = assertSupportedJobSpec" | "f = assertMainSessionAgentId d"
      | "f = assertDeliverySupport env" | "f = assertFailureDestinationSupport env"
      by (auto simp: check_steps_def)
    then show ?thesis
      by cases (use assms(2) in \<open>auto simp: assertSupportedJobSpec_Inr assertMainSessionAgentId_Inr deliv
          dest!: assertDeliverySupport_Inr assertFailureDestinationSupport_Inr\<close>)
  qed
qed

lemma check_steps_validate: "run_updates (check_steps env d) j = (j', None) \<Longrightarrow> validate_job env d j = Inr j'"
  by (auto simp: check_steps_def validate_job_def split: sum.splits)

lemma applyJobPatch_identity: "job_identity (fst (applyJobPatch env d p j)) = job_identity j"
  unfolding applyJobPatch_def by (rule run_updates_keeps) (rule patch_steps_identity)

text \<open>A patch that is accepted leaves a supported job, whatever the job and the patch were, and
  no patch, accepted or not, changes the id or the creation time of a job.\<close>

theorem patched_job_supported:
  assumes "applyJobPatch env d patch job = (job', None)"
  shows "supported_job env d job' \<and> job_id job' = job_id job \<and> job_createdAtMs job' = job_createdAtMs job"
proof -
  from assms obtain j1 where "run_updates (check_steps env d) j1 = (job', None)"
    unfolding applyJobPatch_def run_updates_append by (auto split: prod.splits option.splits)
  from validate_job_supported [OF check_steps_validate [OF this]] applyJobPatch_identity [of env d patch job] assms
  show ?thesis by (simp add: job_identity_def)
qed

lemma example_patch_result:
  "(case applyJobPatch hourly_env None (empty_patch\<lparr>pt_name := Some (JStr ''x'')\<rparr>) example_job of
      (j, e) \<Rightarrow> job_name j = ''x'' \<and> e = None)"
  by code_simp

theorem patched_job_supported_witness:
  "\<exists>job'. applyJobPatch hourly_env None (empty_patch\<lparr>pt_name := Some (JStr ''x'')\<rparr>) example_job = (job', None) \<and>
     supported_job hourly_env None job' \<and> job_id job' = ''job'' \<and> job_name job' = ''x''"
proof -
  from example_patch_result obtain job' where j:
    "applyJobPatch hourly_env None (empty_patch\<lparr>pt_name := Some (JStr ''x'')\<rparr>) example_job = (job', None)"
    and "job_name job' = ''x''"
    by (cases "applyJobPatch hourly_env None (empty_patch\<lparr>pt_name := Some (JStr ''x'')\<rparr>) example_job") auto
  with patched_job_supported [OF j] show ?thesis by (simp add: example_job_def)
qed

section \<open>Idempotent merges\<close>

lemma or_keep_idem [simp]: "or_keep p (or_keep p x) = or_keep p x"
  by (simp add: or_keep_def split: option.split)

lemma merge_payload_idem:
  "bind_ok (mergeCronPayload x p) (\<lambda>y. mergeCronPayload y p) = mergeCronPayload x p"
proof (cases "mergeCronPayload x p")
  case (Inr y)
  show ?thesis
  proof (cases p)
    case (SystemEventPatch t)
    with Inr show ?thesis
      by (cases x; cases t) (auto simp: mergeCronPayload_def buildPayloadFromPatch_def split: if_splits)
  next
    case (AgentTurnPatch a)
    with Inr show ?thesis
      by (cases x; cases "ap_message a"; cases "ap_toolsAllow a")
        (auto simp: mergeCronPayload_def buildPayloadFromPatch_def some_or_keep_def split: if_splits option.splits)
  qed
qed simp

lemma existing_fd_idem [simp]: "existing_fd (Some (existing_fd f)) = existing_fd f"
  by (cases f) (simp_all add: existing_fd_def)

lemma merge_failure_destination_idem:
  "mergeFailureDestination (mergeFailureDestination f p) p = mergeFailureDestination f p"
proof (cases p)
  case (FdPatch q)
  have present: "present_field (some_or_keep v (g (existing_fd f))) = some_or_keep v (g (existing_fd f))"
    if "\<exists>w. g (existing_fd f) = Some w" for g :: "CronFailureDestination \<Rightarrow> string option option" and v
    using that by (cases v) auto
  have ex: "\<exists>w. fd_channel (existing_fd f) = Some w" "\<exists>w. fd_to (existing_fd f) = Some w"
    "\<exists>w. fd_accountId (existing_fd f) = Some w" "\<exists>w. fd_mode (existing_fd f) = Some w"
    by (auto simp: existing_fd_def present_field_def split: option.split)
  show ?thesis
    unfolding FdPatch mergeFailureDestination_def Let_def failure_destination_field.case
    by (simp add: existing_fd_def [of "Some _"] present ex)
qed (simp_all add: mergeFailureDestination_def)

lemma merge_delivery_idem: "mergeCronDelivery (Some (mergeCronDelivery e p)) p = mergeCronDelivery e p"
  by (simp add: mergeCronDelivery_def Let_def merge_failure_destination_idem split: option.split)

lemma merge_alert_idem: "mergeCronFailureAlert (mergeCronFailureAlert e p) p = mergeCronFailureAlert e p"
  by (cases p) (simp_all add: mergeCronFailureAlert_def Let_def)

text \<open>Applying the same payload, delivery or alert patch twice is the same as applying it once, on
  every branch: rejected payload patches, a change of the payload kind, cleared tool lists,
  and a failure destination that is kept, cleared or merged.\<close>

theorem patch_merges_idempotent:
  "bind_ok (mergeCronPayload x p) (\<lambda>y. mergeCronPayload y p) = mergeCronPayload x p \<and>
   mergeCronDelivery (Some (mergeCronDelivery e q)) q = mergeCronDelivery e q \<and>
   mergeCronFailureAlert (mergeCronFailureAlert f r) r = mergeCronFailureAlert f r"
  by (intro conjI merge_payload_idem merge_delivery_idem merge_alert_idem)

end
