(* ===== verification/CronDeliveryProps.thy ===== *)
theory CronDeliveryProps
  imports CronTimer CronPatchProps
begin

text \<open>
  What the delivery plans promise: an announced job has a channel, a failure destination is
  deliverable and differs from the primary target, and the failure destination that a patch
  builds means something else after the store was reloaded.
\<close>

section \<open>Delivery plans\<close>

lemma plan_mode_cases: "plan_mode m = Some x \<Longrightarrow> x = ''announce'' \<or> x = ''webhook'' \<or> x = ''none''"
  by (auto simp: plan_mode_def Let_def split: option.splits if_splits)

lemma delivery_plan_wf:
  "cp_requested (resolveCronDeliveryPlan job) \<longleftrightarrow> cp_mode (resolveCronDeliveryPlan job) = ''announce''"
  "cp_channel (resolveCronDeliveryPlan job) \<noteq> None \<longleftrightarrow> cp_requested (resolveCronDeliveryPlan job)"
  by (simp_all add: resolveCronDeliveryPlan_def Let_def split: option.split)

section \<open>Failure destinations\<close>

lemma normalizeTo_Some: "normalizeTo v = Some t \<Longrightarrow> t \<noteq> [] \<and> trim t = t"
  by (auto simp: normalizeTo_def nonempty_def split: option.splits if_splits)

lemma normalizeFailureMode_Some: "normalizeFailureMode v = Some m \<Longrightarrow> m = ''announce'' \<or> m = ''webhook''"
  by (auto simp: normalizeFailureMode_def Let_def split: option.splits if_splits)

lemma override_field_cases: "override_field f new old = new \<or> override_field f new old = old"
  by (simp add: override_field_def)

text \<open>Every part of the merged failure destination is normalized.\<close>

lemma failure_fields_normalized:
  assumes "failure_fields dest g = (channel, to, accountId, mode)"
  shows "(\<exists>v. to = normalizeTo v) \<and> (\<exists>v. mode = normalizeFailureMode v)"
proof -
  obtain gc gt ga gm where gl: "(case g of None \<Rightarrow> (None, None, None, None)
      | Some c \<Rightarrow> (normalizeChannel (fdc_channel c), normalizeTo (fdc_to c),
                   normalizeAccountId (fdc_accountId c), normalizeFailureMode (fdc_mode c))) = (gc, gt, ga, gm)"
    by (rule prod_cases4)
  have none: "normalizeTo None = None" "normalizeFailureMode None = None"
    by (simp_all add: normalizeTo_def normalizeFailureMode_def)
  have "(\<exists>v. gt = normalizeTo v) \<and> (\<exists>v. gm = normalizeFailureMode v)"
  proof (cases g)
    case None
    with gl have "gt = normalizeTo None" "gm = normalizeFailureMode None" by (simp_all add: none)
    then show ?thesis by blast
  next
    case (Some c)
    with gl have "gt = normalizeTo (fdc_to c)" "gm = normalizeFailureMode (fdc_mode c)" by simp_all
    then show ?thesis by blast
  qed
  then have gto: "\<exists>v. gt = normalizeTo v" and gmo: "\<exists>v. gm = normalizeFailureMode v" by blast+
  show ?thesis
  proof (cases dest)
    case None
    with assms gl gto gmo show ?thesis by (simp add: failure_fields_def)
  next
    case (Some fd)
    let ?to = "override_field (fd_to fd) (normalizeTo (field_value (fd_to fd))) gt"
    have to: "\<exists>v. ?to = normalizeTo v" using gto override_field_cases by metis
    show ?thesis
    proof (cases "normalizeFailureMode (field_value (fd_mode fd))")
      case None
      with assms Some gl to gmo show ?thesis by (simp add: failure_fields_def Let_def)
    next
      case (Some m)
      have "mode = normalizeFailureMode (field_value (fd_mode fd))" and "to = None \<or> to = ?to"
        using assms \<open>dest = Some fd\<close> gl Some
        by (auto simp: failure_fields_def Let_def split: if_splits)
      with to none show ?thesis by metis
    qed
  qed
qed

text \<open>A failure destination that is returned can be delivered to and is not the job's primary
  target: its mode is announce or webhook, a webhook has a (trimmed, non-empty) URL and no
  channel, an announcement has a channel.\<close>

theorem failure_destination_sound:
  assumes "resolveFailureDestination job g = Some p"
  shows "(fl_mode p = ''announce'' \<and> fl_channel p \<noteq> None \<or>
      fl_mode p = ''webhook'' \<and> fl_channel p = None \<and> (\<exists>t. fl_to p = Some t \<and> t \<noteq> [] \<and> trim t = t)) \<and>
    (case job_delivery job of None \<Rightarrow> True | Some d \<Rightarrow> \<not> isSameDeliveryTarget d p)"
proof -
  obtain channel to accountId mode
    where f: "failure_fields (delivery_failureDestination job) g = (channel, to, accountId, mode)"
    by (metis prod_cases4)
  define m where "m = (case mode of Some m \<Rightarrow> m | None \<Rightarrow> ''announce'')"
  from assms have p: "p = \<lparr>fl_mode = m, fl_channel = (if m = ''announce''
      then Some (case channel of Some c \<Rightarrow> c | None \<Rightarrow> ''last'') else None), fl_to = to, fl_accountId = accountId\<rparr>"
    and w: "\<not> (m = ''webhook'' \<and> to = None)"
    and s: "\<not> (case job_delivery job of None \<Rightarrow> False | Some d \<Rightarrow> isSameDeliveryTarget d p)"
    by (auto simp: resolveFailureDestination_def f Let_def m_def [symmetric] split: if_splits)
  from failure_fields_normalized [OF f] obtain v u
    where v: "to = normalizeTo v" and u: "mode = normalizeFailureMode u" by blast
  have "m = ''announce'' \<or> m = ''webhook''"
  proof (cases mode)
    case (Some x)
    with u have "normalizeFailureMode u = Some x" by simp
    from normalizeFailureMode_Some [OF this] Some show ?thesis by (simp add: m_def)
  qed (simp add: m_def)
  moreover have "\<exists>t. to = Some t \<and> t \<noteq> [] \<and> trim t = t" if "m = ''webhook''"
    using w that normalizeTo_Some [of v] v by (cases to) auto
  ultimately show ?thesis using s by (auto simp: p split: option.split)
qed

definition webhook_config :: CronFailureDestinationConfig where
  "webhook_config = \<lparr>fdc_channel = None, fdc_to = Some '' https://x '', fdc_accountId = None, fdc_mode = Some ''webhook''\<rparr>"

theorem failure_destination_sound_witness:
  "\<exists>p. resolveFailureDestination example_job (Some webhook_config) = Some p \<and> fl_to p = Some ''https://x'' \<and>
    (fl_mode p = ''announce'' \<and> fl_channel p \<noteq> None \<or>
      fl_mode p = ''webhook'' \<and> fl_channel p = None \<and> (\<exists>t. fl_to p = Some t \<and> t \<noteq> [] \<and> trim t = t))"
proof -
  have r: "resolveFailureDestination example_job (Some webhook_config) =
    Some \<lparr>fl_mode = ''webhook'', fl_channel = None, fl_to = Some ''https://x'', fl_accountId = None\<rparr>"
    by code_simp
  from failure_destination_sound [OF r] r show ?thesis by simp
qed

section \<open>Patched failure destinations\<close>

text \<open>A failure destination patched without a channel overrides the globally configured channel
  with the default as long as the service runs, and inherits the global channel after a
  restart: the merge stores an explicit \<open>undefined\<close>, which \<open>"channel" in dest\<close> sees and
  which the saved JSON drops.\<close>

theorem patched_failure_destination_unstable:
  assumes "fp_channel p = None"
  shows "fst (failure_fields (mergeFailureDestination None (FdPatch p)) (Some g)) = None \<and>
    fst (failure_fields (map_option json_failure_destination (mergeFailureDestination None (FdPatch p))) (Some g)) =
      normalizeChannel (fdc_channel g)"
  using assms
  by (auto simp: failure_fields_def mergeFailureDestination_def Let_def existing_fd_def
      json_failure_destination_def json_field_def override_field_def field_value_def normalizeChannel_def
      split: option.split)

theorem patched_failure_destination_unstable_witness:
  "fst (failure_fields (mergeFailureDestination None
      (FdPatch \<lparr>fp_channel = None, fp_to = Some (JStr ''ops''), fp_accountId = None, fp_mode = None\<rparr>))
      (Some \<lparr>fdc_channel = Some ''slack'', fdc_to = None, fdc_accountId = None, fdc_mode = None\<rparr>)) = None"
  using patched_failure_destination_unstable
    [of "\<lparr>fp_channel = None, fp_to = Some (JStr ''ops''), fp_accountId = None, fp_mode = None\<rparr>"
        "\<lparr>fdc_channel = Some ''slack'', fdc_to = None, fdc_accountId = None, fdc_mode = None\<rparr>"]
  by simp

end
