(* ===== verification/CronRetryProps.thy ===== *)
theory CronRetryProps
  imports CronResultProps
begin

text \<open>
  What a sequence of results does to one job: a one-shot that keeps failing is retried with
  growing delays and then disabled, failure alerts keep their cooldown, and forced manual runs
  leave the grid of an interval job alone.
\<close>

definition result_step :: "cron_env \<Rightarrow> cron_deps \<Rightarrow> CronJob \<Rightarrow> int \<times> run_result \<Rightarrow> CronJob" where
  "result_step env deps j x = fst (applyJobResult env deps (fst x) False (snd x) j)"

section \<open>One-shot retries\<close>

definition transient_failure :: "cron_deps \<Rightarrow> run_result \<Rightarrow> bool" where
  "transient_failure deps r \<longleftrightarrow> rr_status r = StatusError \<and>
     isTransientCronError (rr_error r) (rc_retryOn (resolveRetryConfig deps))"

text \<open>The job after \<open>n\<close> transient failures, the last of which ended at \<open>e\<close>.\<close>

definition failed_times :: "cron_deps \<Rightarrow> nat \<Rightarrow> int \<Rightarrow> CronJob \<Rightarrow> bool" where
  "failed_times deps n e j \<longleftrightarrow>
     (let c = resolveRetryConfig deps; ok = (int n \<le> rc_maxAttempts c) in
      is_at (job_schedule j) \<and> st_consecutiveErrors (job_state j) = Some (int n) \<and> job_enabled j = ok \<and>
      st_nextRunAtMs (job_state j) = (if ok then Some (e + errorBackoffMs (int n) (rc_backoffMs c)) else None))"

lemma one_shot_error:
  assumes "is_at (job_schedule j)" and "rr_status r = StatusError"
  shows "fst (applyJobResult env deps t p r j) = settle_one_shot deps r (counted deps t r j)"
  by (cases rule: apply_cases [of j r env deps t p]) (use assms in simp_all)

lemma transient_step:
  assumes "is_at (job_schedule j)" and "transient_failure deps r"
    and "(case st_consecutiveErrors (job_state j) of None \<Rightarrow> 0 | Some c \<Rightarrow> c) = int n"
    and "job_enabled j = (n = 0 \<or> int n \<le> rc_maxAttempts (resolveRetryConfig deps))"
  shows "failed_times deps (Suc n) (rr_endedAt r) (fst (applyJobResult env deps t p r j))"
proof -
  have e: "errors_after r j = int (Suc n)"
    using assms(2,3) by (simp add: errors_after_def transient_failure_def)
  have s: "rr_status r = StatusError" using assms(2) by (simp add: transient_failure_def)
  show ?thesis
    using assms unfolding one_shot_error [OF assms(1) s]
    by (auto simp: failed_times_def settle_one_shot_def Let_def e transient_failure_def)
qed

lemma transient_steps:
  assumes "failed_times deps n e j" and "1 \<le> n" and "list_all (\<lambda>x. transient_failure deps (snd x)) rs"
  shows "failed_times deps (n + length rs) (last (e # map (\<lambda>x. rr_endedAt (snd x)) rs))
    (foldl (result_step env deps) j rs)"
  using assms
proof (induction rs arbitrary: n e j)
  case (Cons x rs)
  from Cons.prems have "failed_times deps (Suc n) (rr_endedAt (snd x)) (result_step env deps j x)"
    unfolding result_step_def
    by (intro transient_step) (auto simp: failed_times_def Let_def)
  from Cons.IH [OF this] Cons.prems show ?case by simp
qed simp

text \<open>A one-shot job that keeps failing with transient errors is retried after each failure with the
  configured back-off of its failure count, as long as the count does not exceed the configured
  number of attempts; the next failure disables it for good. So at most \<open>maxAttempts + 1\<close> runs
  are started (#24355).\<close>

theorem one_shot_retries_bounded:
  assumes "is_at (job_schedule j)" and "job_enabled j"
    and "st_consecutiveErrors (job_state j) = None \<or> st_consecutiveErrors (job_state j) = Some 0"
    and "rs \<noteq> []" and "list_all (\<lambda>x. transient_failure deps (snd x)) rs"
  shows "job_enabled (foldl (result_step env deps) j rs) = (int (length rs) \<le> rc_maxAttempts (resolveRetryConfig deps)) \<and>
    st_nextRunAtMs (job_state (foldl (result_step env deps) j rs)) =
      (if int (length rs) \<le> rc_maxAttempts (resolveRetryConfig deps)
       then Some (rr_endedAt (snd (last rs)) +
         errorBackoffMs (int (length rs)) (rc_backoffMs (resolveRetryConfig deps)))
       else None)"
proof -
  obtain x xs where rs: "rs = x # xs" using assms(4) by (cases rs) auto
  have one: "failed_times deps (Suc 0) (rr_endedAt (snd x)) (result_step env deps j x)"
    unfolding result_step_def using assms by (intro transient_step) (auto simp: rs)
  have "failed_times deps (length rs) (last (rr_endedAt (snd x) # map (\<lambda>x. rr_endedAt (snd x)) xs))
      (foldl (result_step env deps) j rs)"
    using transient_steps [OF one, of xs env] assms(5) by (simp add: rs)
  moreover have "last (rr_endedAt (snd x) # map (\<lambda>x. rr_endedAt (snd x)) xs) = rr_endedAt (snd (last rs))"
    by (simp add: rs last_map)
  ultimately show ?thesis by (simp add: failed_times_def Let_def)
qed

definition at_job :: CronJob where
  "at_job = example_job\<lparr>job_schedule := SAt (Some ''2026-01-01'') NoAtMs\<rparr>"

lemma timeout_is_transient: "transient_failure plain_deps (error_result e)"
proof -
  have "isTransientCronError (Some ''timeout'') None" by code_simp
  then show ?thesis
    by (simp add: transient_failure_def error_result_def resolveRetryConfig_def config_of_def plain_deps_def Let_def)
qed

theorem one_shot_retries_bounded_witness:
  "\<not> job_enabled (foldl (result_step hourly_env plain_deps) at_job
     [(0, error_result 10), (0, error_result 20), (0, error_result 30), (0, error_result 40)])"
proof -
  have m: "rc_maxAttempts (resolveRetryConfig plain_deps) = 3"
    by (simp add: resolveRetryConfig_def config_of_def plain_deps_def Let_def)
  show ?thesis
    using one_shot_retries_bounded [of at_job
        "[(0, error_result 10), (0, error_result 20), (0, error_result 30), (0, error_result 40)]" plain_deps hourly_env]
    by (simp add: m timeout_is_transient at_job_def example_job_def empty_job_state_def is_at_def)
qed

section \<open>Failure alerts\<close>

definition is_alert :: "cron_effect \<Rightarrow> bool" where
  "is_alert e = (case e of
     SendFailureAlert _ _ _ \<Rightarrow> True
   | EnqueueSystemEvent (FailureAlertText _ _ _) _ _ _ \<Rightarrow> True
   | _ \<Rightarrow> False)"

fun alert_times :: "cron_env \<Rightarrow> cron_deps \<Rightarrow> (int \<times> run_result) list \<Rightarrow> CronJob \<Rightarrow> int list" where
  "alert_times env deps [] j = []"
| "alert_times env deps (x # rs) j =
     (if list_ex is_alert (snd (snd (applyJobResult env deps (fst x) False (snd x) j))) then [fst x] else []) @
     alert_times env deps rs (result_step env deps j x)"

lemma emit_is_alert: "list_ex is_alert (emitFailureAlert deps j e n t)"
  by (simp add: emitFailureAlert_def Let_def is_alert_def)

lemma recompute_error_no_alert: "\<not> list_ex is_alert (snd (recordScheduleComputeError e j))"
  by (simp add: recordScheduleComputeError_def Let_def is_alert_def)

lemma settle_no_alert: "\<not> list_ex is_alert (snd (settle_recurring env p l r j))"
proof -
  obtain n j' effs where n: "natural_next env p l (rr_endedAt r) j = (n, j', effs)"
    by (cases "natural_next env p l (rr_endedAt r) j")
  have "effs = [] \<or> (\<exists>e. effs = snd (recordScheduleComputeError e j))"
    using n by (auto simp: natural_next_def split: sum.splits prod.splits) (metis snd_conv)
  then show ?thesis
    by (auto simp: settle_recurring_def n Let_def recompute_error_no_alert)
qed

lemma alert_config_cong:
  "job_failureAlert j' = job_failureAlert j \<Longrightarrow> job_delivery j' = job_delivery j \<Longrightarrow>
   resolveFailureAlert deps j' = resolveFailureAlert deps j"
  by (simp add: resolveFailureAlert_def)

lemma apply_alert_iff:
  "list_ex is_alert (snd (snd (applyJobResult env deps t p r j))) =
   list_ex is_alert (snd (count_errors deps t r (record_outcome deps r j)))"
  using settle_no_alert
  by (simp add: applyJobResult_def Let_def split: prod.split) (metis snd_conv)

lemma apply_keeps_config:
  "job_failureAlert (fst (applyJobResult env deps t p r j)) = job_failureAlert j"
  "job_delivery (fst (applyJobResult env deps t p r j)) = job_delivery j"
  "st_lastFailureAlertAtMs (job_state (fst (applyJobResult env deps t p r j))) =
     st_lastFailureAlertAtMs (job_state (counted deps t r j))"
  by (cases rule: apply_cases [of j r env deps t p], simp_all add: settle_facts)+

lemma alert_step:
  assumes "resolveFailureAlert deps j = Some a" and "rr_status r = StatusError"
  shows "if list_ex is_alert (snd (snd (applyJobResult env deps t p r j)))
    then st_lastFailureAlertAtMs (job_state (fst (applyJobResult env deps t p r j))) = Some t \<and>
      (case st_lastFailureAlertAtMs (job_state j) of None \<Rightarrow> True | Some l \<Rightarrow> max 0 (av_cooldownMs a) \<le> t - l) \<and>
      av_after a \<le> errors_after r j
    else st_lastFailureAlertAtMs (job_state (fst (applyJobResult env deps t p r j))) = st_lastFailureAlertAtMs (job_state j)"
proof -
  let ?r = "record_outcome deps r j"
  let ?n = "errors_after r j"
  let ?j1 = "set_state (\<lambda>s. s\<lparr>st_consecutiveErrors := Some ?n\<rparr>) ?r"
  have cfg: "resolveFailureAlert deps ?j1 = Some a"
    using assms(1) alert_config_cong [of ?j1 j deps] by simp
  have ce: "count_errors deps t r ?r = (case due_alert deps t ?n ?j1 of
      None \<Rightarrow> (?j1, [])
    | Some target \<Rightarrow> (set_state (\<lambda>s. s\<lparr>st_lastFailureAlertAtMs := Some t\<rparr>) ?j1,
        emitFailureAlert deps ?j1 (rr_error r) ?n target))"
    using assms(2) by (simp add: count_errors_def errors_after_def Let_def split: option.split)
  have due: "due_alert deps t ?n ?j1 \<noteq> None \<Longrightarrow> av_after a \<le> ?n \<and>
      (case st_lastFailureAlertAtMs (job_state j) of None \<Rightarrow> True | Some l \<Rightarrow> max 0 (av_cooldownMs a) \<le> t - l)"
    by (cases "st_lastFailureAlertAtMs (job_state j)") (auto simp: due_alert_def cfg split: if_splits)
  show ?thesis
  proof (cases "due_alert deps t ?n ?j1")
    case None
    then show ?thesis by (simp add: apply_alert_iff apply_keeps_config counted_def ce)
  next
    case (Some target)
    with due show ?thesis by (simp add: apply_alert_iff apply_keeps_config counted_def ce emit_is_alert)
  qed
qed

lemma alerts_cooldown_from:
  assumes "resolveFailureAlert deps j = Some a" and "list_all (\<lambda>x. rr_status (snd x) = StatusError) rs"
  shows "successively (\<lambda>x y. max 0 (av_cooldownMs a) \<le> y - x)
    ((case st_lastFailureAlertAtMs (job_state j) of None \<Rightarrow> [] | Some l \<Rightarrow> [l]) @ alert_times env deps rs j)"
  using assms
proof (induction rs arbitrary: j)
  case Nil
  show ?case by (simp split: option.split)
next
  case (Cons x rs)
  let ?j = "result_step env deps j x"
  have cfg: "resolveFailureAlert deps ?j = Some a"
    using Cons.prems(1) alert_config_cong [of ?j j deps] apply_keeps_config(1,2) by (simp add: result_step_def)
  have err: "rr_status (snd x) = StatusError" using Cons.prems(2) by simp
  note IH = Cons.IH [OF cfg]
  note st = alert_step [OF Cons.prems(1) err, of env "fst x" False]
  show ?case
  proof (cases "list_ex is_alert (snd (snd (applyJobResult env deps (fst x) False (snd x) j)))")
    case True
    with st IH Cons.prems(2) show ?thesis
      by (cases "st_lastFailureAlertAtMs (job_state j)") (simp_all add: result_step_def)
  next
    case False
    with st IH Cons.prems(2) show ?thesis by (simp add: result_step_def)
  qed
qed

text \<open>While a job keeps failing, two failure alerts about it are never closer than the configured
  cooldown, whatever the errors and the configuration of the job, its delivery and the global
  defaults are.\<close>

theorem alerts_respect_cooldown:
  assumes "resolveFailureAlert deps j = Some a" and "list_all (\<lambda>x. rr_status (snd x) = StatusError) rs"
  shows "successively (\<lambda>x y. max 0 (av_cooldownMs a) \<le> y - x) (alert_times env deps rs j)"
  using alerts_cooldown_from [OF assms, of env] by (simp add: successively_append_iff)

definition alerting_job :: CronJob where
  "alerting_job = example_job\<lparr>job_failureAlert := AlertOn \<lparr>fa_after = JNum 1, fa_channel = None, fa_to = None,
     fa_cooldownMs = JNum 100, fa_mode = None, fa_accountId = None\<rparr>\<rparr>"

lemma alerting_job_plan: "map_option av_cooldownMs (resolveFailureAlert plain_deps alerting_job) = Some 100"
  by code_simp

theorem alerts_respect_cooldown_witness:
  "successively (\<lambda>x y. 100 \<le> y - x) (alert_times hourly_env plain_deps
     [(10, error_result 10), (60, error_result 60), (120, error_result 120)] alerting_job)"
proof -
  obtain a where a: "resolveFailureAlert plain_deps alerting_job = Some a" "av_cooldownMs a = 100"
    using alerting_job_plan by auto
  have "list_all (\<lambda>x. rr_status (snd x) = StatusError)
      [(10 :: int, error_result 10), (60, error_result 60), (120, error_result 120)]"
    by (simp add: error_result_def)
  from alerts_respect_cooldown [OF a(1) this, of hourly_env] show ?thesis by (simp add: a(2))
qed

section \<open>Forced manual runs\<close>

lemma compute_every_cong:
  assumes "is_every (job_schedule j)" and "job_schedule j' = job_schedule j" and "job_enabled j' = job_enabled j"
    and "job_createdAtMs j' = job_createdAtMs j"
    and "st_lastRunAtMs (job_state j') = st_lastRunAtMs (job_state j)"
  shows "computeJobNextRunAtMs env j' now = computeJobNextRunAtMs env j now"
proof -
  obtain e a where "job_schedule j = SEvery e a"
    using assms(1) by (auto simp: is_every_def split: CronSchedule.splits)
  with assms show ?thesis by (simp add: computeJobNextRunAtMs_def Let_def split: option.split)
qed

text \<open>A forced manual run of an interval job leaves its schedule where it was: after a run that did
  not fail the next run is the one the job had without it, instead of one period after the
  manual run.\<close>

theorem forced_run_keeps_grid:
  assumes "is_every (job_schedule j)" and "job_enabled j" and "rr_status r \<noteq> StatusError"
    and "computeJobNextRunAtMs env j (rr_endedAt r) = Inr n"
  shows "st_nextRunAtMs (job_state (fst (applyJobResult env deps t True r j))) = n"
proof -
  let ?c = "counted deps t r j"
  let ?l = "set_state (\<lambda>s. s\<lparr>st_lastRunAtMs := st_lastRunAtMs (job_state j)\<rparr>) ?c"
  have na: "\<not> is_at (job_schedule j)" "\<not> is_cron (job_schedule j)"
    using assms(1) by (simp_all add: schedule_kind_defs split: CronSchedule.splits)
  have "computeJobNextRunAtMs env ?l (rr_endedAt r) = computeJobNextRunAtMs env j (rr_endedAt r)"
    by (rule compute_every_cong [OF assms(1)]) simp_all
  then have nat: "natural_next env True (st_lastRunAtMs (job_state j)) (rr_endedAt r) ?c = (n, ?c, [])"
    using assms(1,4) by (simp add: natural_next_def)
  have "fst (applyJobResult env deps t True r j) =
      fst (settle_recurring env True (st_lastRunAtMs (job_state j)) r ?c)"
    by (cases rule: apply_cases [of j r env deps t True]) (use na in simp_all)
  then show ?thesis using assms(2,3) na by (simp add: settle_recurring_def nat)
qed

theorem forced_run_keeps_grid_witness:
  "st_nextRunAtMs (job_state (fst (applyJobResult hourly_env plain_deps 0 True ((error_result 25)\<lparr>rr_status := StatusOk\<rparr>)
     (example_job\<lparr>job_schedule := SEvery (JNum 10) (JNum 3)\<rparr>)))) = Some 33"
proof -
  let ?j = "example_job\<lparr>job_schedule := SEvery (JNum 10) (JNum 3)\<rparr>"
  have "computeJobNextRunAtMs hourly_env ?j (rr_endedAt ((error_result 25)\<lparr>rr_status := StatusOk\<rparr>)) = Inr (Some 33)"
    by code_simp
  from forced_run_keeps_grid [OF _ _ _ this] show ?thesis
    by (simp add: example_job_def is_every_def error_result_def)
qed

end
