(* ===== verification/CronExecute.thy ===== *)
theory CronExecute
  imports CronTimer HeartbeatReason
begin

text \<open>
  Executing a job, \<open>src/cron/service/timer.ts\<close>: the main-session job with its wait for a busy
  heartbeat, the detached agent job, the time limit around both, the pool of workers that runs the
  due jobs of a tick, and \<open>wake\<close>.

  What the run observes (the heartbeat and agent results, the clock, whether the abort signal is
  set) are functions of the number of the observation. \<open>None\<close> is a run that has not returned
  within the fuel. A thrown value is the left part of a sum.
\<close>

section \<open>The core of a run\<close>

record core_result =
  cx_status :: CronRunStatus
  cx_error :: "string option"
  cx_summary :: "string option"
  cx_delivered :: "bool option"
  cx_sessionId :: "string option"
  cx_sessionKey :: "string option"

record run_inputs =
  ri_aborted :: "nat \<Rightarrow> bool"
  ri_clock :: "nat \<Rightarrow> int"
  ri_heartbeat :: "nat \<Rightarrow> thrown_value + HeartbeatRunResult"
  ri_agent :: "thrown_value + core_result"

definition plain_result :: "CronRunStatus \<Rightarrow> string option \<Rightarrow> string option \<Rightarrow> core_result" where
  "plain_result status err summary = \<lparr>cx_status = status, cx_error = err, cx_summary = summary,
     cx_delivered = None, cx_sessionId = None, cx_sessionKey = None\<rparr>"

definition abort_result :: core_result where
  "abort_result = plain_result StatusError (Some timeoutErrorMessage) None"

type_synonym settled = "thrown_value + core_result"

definition requests_in_flight :: string where
  "requests_in_flight = ''requests-in-flight''"

definition job_reason :: "CronJob \<Rightarrow> string" where
  "job_reason job = ''cron:'' @ job_id job"

definition run_heartbeat :: "CronJob \<Rightarrow> cron_effect" where
  "run_heartbeat job = RunHeartbeatOnce (job_reason job) (job_agentId job) (job_sessionKey job)"

definition request_heartbeat :: "CronJob \<Rightarrow> cron_effect" where
  "request_heartbeat job = RequestHeartbeat (job_reason job) (job_agentId job) (job_sessionKey job)"

text \<open>The loop of a main-session job that wakes the agent now; \<open>n\<close> counts its attempts.\<close>

fun heartbeat_loop ::
    "nat \<Rightarrow> int \<Rightarrow> run_inputs \<Rightarrow> CronJob \<Rightarrow> string \<Rightarrow> nat \<Rightarrow> (settled \<times> cron_effect list) option" where
  "heartbeat_loop 0 maxWait inp job text n = None"
| "heartbeat_loop (Suc fuel) maxWait inp job text n =
     (if ri_aborted inp (2 * n + 1) then Some (Inr abort_result, [])
      else (case ri_heartbeat inp n of
        Inl e \<Rightarrow> Some (Inl e, [run_heartbeat job])
      | Inr HbRan \<Rightarrow> Some (Inr (plain_result StatusOk None (Some text)), [run_heartbeat job])
      | Inr (HbFailed reason) \<Rightarrow>
          Some (Inr (plain_result StatusError (Some reason) (Some text)), [run_heartbeat job])
      | Inr (HbSkipped reason) \<Rightarrow>
          if reason \<noteq> requests_in_flight
          then Some (Inr (plain_result StatusSkipped (Some reason) (Some text)), [run_heartbeat job])
          else if \<not> is_at (job_schedule job)
          then Some (Inr (plain_result StatusOk None (Some text)), [run_heartbeat job, request_heartbeat job])
          else if ri_aborted inp (2 * n + 2) then Some (Inr abort_result, [run_heartbeat job])
          else if ri_clock inp (Suc n) - ri_clock inp 0 > maxWait
          then Some (Inr (plain_result StatusOk None (Some text)), [run_heartbeat job, request_heartbeat job])
          else map_option (\<lambda>(r, effs). (r, run_heartbeat job # effs))
                 (heartbeat_loop fuel maxWait inp job text (Suc n))))"

definition executeMainSessionCronJob ::
    "nat \<Rightarrow> cron_deps \<Rightarrow> run_inputs \<Rightarrow> CronJob \<Rightarrow> (settled \<times> cron_effect list) option" where
  "executeMainSessionCronJob fuel deps inp job =
     (case resolveJobPayloadTextForMain job of
        None \<Rightarrow> Some (Inr (plain_result StatusSkipped
          (Some (if is_agent_turn (job_payload job) then (''main job requires payload.kind='' @ quoted ''systemEvent'')
                 else ''main job requires non-empty systemEvent text'')) None), [])
      | Some text \<Rightarrow>
          (let enqueued = EnqueueSystemEvent (PlainText text) (job_agentId job) (job_sessionKey job)
                            (Some (job_reason job))
           in if job_wakeMode job = WakeNow \<and> cd_hasRunHeartbeatOnce deps then
                map_option (\<lambda>(r, effs). (r, enqueued # effs))
                  (heartbeat_loop fuel (case cd_busyMaxWaitMs deps of None \<Rightarrow> 2 * 60000 | Some m \<Rightarrow> m)
                    inp job text 0)
              else if ri_aborted inp 1 then Some (Inr abort_result, [enqueued])
              else Some (Inr (plain_result StatusOk None (Some text)), [enqueued, request_heartbeat job])))"

definition executeDetachedCronJob :: "run_inputs \<Rightarrow> CronJob \<Rightarrow> settled" where
  "executeDetachedCronJob inp job =
     (if \<not> is_agent_turn (job_payload job)
      then Inr (plain_result StatusSkipped (Some ''isolated job requires payload.kind=agentTurn'') None)
      else if ri_aborted inp 1 then Inr abort_result
      else (case ri_agent inp of
              Inl e \<Rightarrow> Inl e
            | Inr res \<Rightarrow> if ri_aborted inp 2 then Inr abort_result else Inr res))"

definition executeJobCore ::
    "nat \<Rightarrow> cron_deps \<Rightarrow> run_inputs \<Rightarrow> CronJob \<Rightarrow> (settled \<times> cron_effect list) option" where
  "executeJobCore fuel deps inp job =
     (if ri_aborted inp 0 then Some (Inr abort_result, [])
      else if job_sessionTarget job = ''main'' then executeMainSessionCronJob fuel deps inp job
      else Some (executeDetachedCronJob inp job, []))"

section \<open>The time limit\<close>

text \<open>The argument \<open>core\<close> is when and how the core settles, \<open>None\<close> if it never does.\<close>

definition executeJobCoreWithTimeout :: "CronJob \<Rightarrow> (int \<times> settled) option \<Rightarrow> settled option" where
  "executeJobCoreWithTimeout job core =
     (case resolveCronJobTimeoutMs job of
        None \<Rightarrow> map_option snd core
      | Some ms \<Rightarrow>
          (case core of
             Some (t, r) \<Rightarrow>
               if t < node_timer_ms ms then Some r
               else Some (Inl (ThrownError ''Error'' timeoutErrorMessage))
           | None \<Rightarrow> Some (Inl (ThrownError ''Error'' timeoutErrorMessage))))"

text \<open>The outcome of a run that settled, for the tick, the catch-up and the manual run.\<close>

definition run_outcome :: "string \<Rightarrow> int \<Rightarrow> int \<Rightarrow> settled \<Rightarrow> timed_outcome" where
  "run_outcome i startedAt endedAt r =
     (case r of
        Inr c \<Rightarrow> \<lparr>to_jobId = i, to_status = cx_status c, to_error = cx_error c, to_summary = cx_summary c,
                 to_delivered = cx_delivered c, to_sessionId = cx_sessionId c,
                 to_sessionKey = cx_sessionKey c, to_startedAt = startedAt, to_endedAt = endedAt\<rparr>
      | Inl e \<Rightarrow> \<lparr>to_jobId = i, to_status = StatusError, to_error = Some (normalizeCronRunErrorText e),
                 to_summary = None, to_delivered = None, to_sessionId = None, to_sessionKey = None,
                 to_startedAt = startedAt, to_endedAt = endedAt\<rparr>)"

section \<open>The workers of a tick\<close>

text \<open>
  Every worker takes the next index from the shared cursor, runs that job and stores its result,
  until the cursor is past the end. A step is one such action of one worker.
\<close>

datatype worker = Ready | Busy nat | Returned

record 'r pool =
  pw_workers :: "worker list"
  pw_cursor :: nat
  pw_results :: "'r option list"

definition pool_init :: "nat \<Rightarrow> nat \<Rightarrow> 'r pool" where
  "pool_init n concurrency =
     \<lparr>pw_workers = replicate concurrency Ready, pw_cursor = 0, pw_results = replicate n None\<rparr>"

definition tick_concurrency :: "cron_deps \<Rightarrow> nat \<Rightarrow> nat" where
  "tick_concurrency deps n = min (resolveRunConcurrency deps) (max 1 n)"

inductive pool_step :: "'r pool \<Rightarrow> 'r pool \<Rightarrow> bool" where
  take_job: "w < length (pw_workers p) \<Longrightarrow> pw_workers p ! w = Ready \<Longrightarrow>
     pw_cursor p < length (pw_results p) \<Longrightarrow>
     pool_step p (p\<lparr>pw_workers := (pw_workers p)[w := Busy (pw_cursor p)], pw_cursor := Suc (pw_cursor p)\<rparr>)"
| no_job: "w < length (pw_workers p) \<Longrightarrow> pw_workers p ! w = Ready \<Longrightarrow>
     length (pw_results p) \<le> pw_cursor p \<Longrightarrow>
     pool_step p (p\<lparr>pw_workers := (pw_workers p)[w := Returned], pw_cursor := Suc (pw_cursor p)\<rparr>)"
| job_done: "w < length (pw_workers p) \<Longrightarrow> pw_workers p ! w = Busy i \<Longrightarrow>
     pool_step p (p\<lparr>pw_workers := (pw_workers p)[w := Ready], pw_results := (pw_results p)[i := Some r]\<rparr>)"

inductive_cases pool_stepE: "pool_step p p'"

definition pool_returned :: "'r pool \<Rightarrow> bool" where
  "pool_returned p = list_all (\<lambda>w. w = Returned) (pw_workers p)"

section \<open>Waking the agent\<close>

definition wake :: "bool \<Rightarrow> string \<Rightarrow> bool \<times> cron_effect list" where
  "wake now text0 =
     (let text = trim text0 in
      if text = [] then (False, [])
      else (True, EnqueueSystemEvent (PlainText text) None None None #
              (if now then [RequestHeartbeat ''wake'' None None] else [])))"

end
