(* ===== verification/CronOps.thy ===== *)
theory CronOps
  imports CronExecute CommandQueue
begin

text \<open>
  The operations of the cron service, \<open>src/cron/service/ops.ts\<close>: start, status, list and the
  paged list, add, update, remove, the two phases of a manual run and its enqueueing in the
  cron lane of the command queue.

  An operation returns the state it leaves and its value or the exception. \<open>update\<close> mutates the
  job in memory before it validates, so the state after an exception matters too. The order of
  \<open>localeCompare\<close> is an argument of the listing.
\<close>

type_synonym 'a op_result = "'a thrown \<times> cron_service"

section \<open>Starting and reading\<close>

definition clear_marker :: "CronJob \<Rightarrow> CronJob" where
  "clear_marker job = set_state (\<lambda>s. s\<lparr>st_runningAtMs := None\<rparr>) job"

definition is_marked :: "CronJob \<Rightarrow> bool" where
  "is_marked job \<longleftrightarrow> st_runningAtMs (job_state job) \<noteq> None"

text \<open>The first section of \<open>start\<close>: no marker survives a restart; the interrupted ids.\<close>

definition start_load :: "cron_env \<Rightarrow> cron_service \<Rightarrow> string list \<times> cron_service" where
  "start_load env sv =
     (let sv1 = ensureLoaded env False None sv;
          interrupted = map job_id (filter is_marked (sv_jobs sv1));
          sv2 = set_jobs (map (\<lambda>j. if is_marked j then clear_marker j else j) (sv_jobs sv1)) sv1
      in (interrupted, if interrupted = [] then sv2 else persist sv2))"

text \<open>The last section of \<open>start\<close>.\<close>

definition start_arm :: "cron_env \<Rightarrow> cron_deps \<Rightarrow> int \<Rightarrow> int \<Rightarrow> cron_service \<Rightarrow> cron_service" where
  "start_arm env deps now armNow sv =
     (case walk_store (recomputeNextRuns env now) (ensureLoaded env False None sv) of
        (changed, sv1) \<Rightarrow> armTimer deps armNow (if changed then persist sv1 else sv1))"

definition stop :: "cron_service \<Rightarrow> cron_service" where
  "stop sv = stopTimer sv"

definition ensureLoadedForRead :: "cron_env \<Rightarrow> int \<Rightarrow> cron_service \<Rightarrow> cron_service" where
  "ensureLoadedForRead env now sv =
     (case maintain env False now (ensureLoaded env False None sv) of
        (changed, sv1) \<Rightarrow> if changed then persist sv1 else sv1)"

record cron_status =
  ss_enabled :: bool
  ss_jobs :: nat
  ss_nextWakeAtMs :: "int option"

definition status :: "cron_env \<Rightarrow> cron_deps \<Rightarrow> int \<Rightarrow> cron_service \<Rightarrow> cron_status \<times> cron_service" where
  "status env deps now sv =
     (let sv1 = ensureLoadedForRead env now sv in
      (\<lparr>ss_enabled = cd_cronEnabled deps, ss_jobs = length (sv_jobs sv1),
        ss_nextWakeAtMs = (if cd_cronEnabled deps then nextWakeAtMs (sv_jobs sv1) else None)\<rparr>, sv1))"

definition list_jobs :: "cron_env \<Rightarrow> bool \<Rightarrow> int \<Rightarrow> cron_service \<Rightarrow> CronJob list \<times> cron_service" where
  "list_jobs env includeDisabled now sv =
     (let sv1 = ensureLoadedForRead env now sv in
      (sort_key next_key (filter (\<lambda>j. includeDisabled \<or> job_enabled j) (sv_jobs sv1)), sv1))"

datatype enabled_filter = FilterAll | FilterEnabled | FilterDisabled

datatype sort_by = ByNextRun | ByUpdated | ByName

record list_opts =
  lo_includeDisabled :: bool
  lo_limit :: "rat option"
  lo_offset :: "rat option"
  lo_query :: "string option"
  lo_enabled :: "enabled_filter option"
  lo_sortBy :: "sort_by option"
  lo_desc :: bool

record list_page =
  lr_jobs :: "CronJob list"
  lr_total :: nat
  lr_offset :: nat
  lr_limit :: nat
  lr_hasMore :: bool
  lr_nextOffset :: "nat option"

definition resolveEnabledFilter :: "list_opts \<Rightarrow> enabled_filter" where
  "resolveEnabledFilter opts =
     (case lo_enabled opts of
        Some f \<Rightarrow> f
      | None \<Rightarrow> if lo_includeDisabled opts then FilterAll else FilterEnabled)"

text \<open>\<open>localeCompare\<close> with base sensitivity for names and without options for ids.\<close>

record collation =
  co_base :: "string \<Rightarrow> string \<Rightarrow> int"
  co_ids :: "string \<Rightarrow> string \<Rightarrow> int"

definition compare_next :: "CronJob \<Rightarrow> CronJob \<Rightarrow> int" where
  "compare_next a b =
     (case (st_nextRunAtMs (job_state a), st_nextRunAtMs (job_state b)) of
        (Some x, Some y) \<Rightarrow> x - y
      | (Some _, None) \<Rightarrow> -1
      | (None, Some _) \<Rightarrow> 1
      | (None, None) \<Rightarrow> 0)"

definition compare_jobs :: "collation \<Rightarrow> sort_by \<Rightarrow> bool \<Rightarrow> CronJob \<Rightarrow> CronJob \<Rightarrow> int" where
  "compare_jobs co sortBy desc a b =
     (let cmp = (case sortBy of
            ByName \<Rightarrow> co_base co (job_name a) (job_name b)
          | ByUpdated \<Rightarrow> job_updatedAtMs a - job_updatedAtMs b
          | ByNextRun \<Rightarrow> compare_next a b)
      in if cmp \<noteq> 0 then (if desc then - cmp else cmp) else co_ids co (job_id a) (job_id b))"

definition sortJobs :: "collation \<Rightarrow> sort_by \<Rightarrow> bool \<Rightarrow> CronJob list \<Rightarrow> CronJob list" where
  "sortJobs co sortBy desc jobs = sort_with (compare_jobs co sortBy desc) jobs"

definition matches_query :: "string \<Rightarrow> CronJob \<Rightarrow> bool" where
  "matches_query query job =
     (query = [] \<or>
      has_substring (to_lower (join_with '' '' [job_name job,
          case job_description job of None \<Rightarrow> [] | Some d \<Rightarrow> d,
          case job_agentId job of None \<Rightarrow> [] | Some a \<Rightarrow> a])) query)"

definition passes_filter :: "enabled_filter \<Rightarrow> CronJob \<Rightarrow> bool" where
  "passes_filter f job =
     (case f of FilterAll \<Rightarrow> True | FilterEnabled \<Rightarrow> job_enabled job | FilterDisabled \<Rightarrow> \<not> job_enabled job)"

definition page_of :: "list_opts \<Rightarrow> CronJob list \<Rightarrow> list_page" where
  "page_of opts xs =
     (let total = length xs;
          offset = nat (max 0 (min (int total) \<lfloor>case lo_offset opts of None \<Rightarrow> 0 | Some r \<Rightarrow> r\<rfloor>));
          defaultLimit = (if total = 0 then 50 else of_nat total);
          limit = nat (max 1 (min 200 \<lfloor>case lo_limit opts of None \<Rightarrow> defaultLimit | Some r \<Rightarrow> r\<rfloor>));
          jobs = take limit (drop offset xs);
          nextOffset = offset + length jobs
      in \<lparr>lr_jobs = jobs, lr_total = total, lr_offset = offset, lr_limit = limit,
          lr_hasMore = (nextOffset < total),
          lr_nextOffset = (if nextOffset < total then Some nextOffset else None)\<rparr>)"

definition listPage ::
    "cron_env \<Rightarrow> collation \<Rightarrow> list_opts \<Rightarrow> int \<Rightarrow> cron_service \<Rightarrow> list_page \<times> cron_service" where
  "listPage env co opts now sv =
     (let sv1 = ensureLoadedForRead env now sv;
          query = (case lo_query opts of None \<Rightarrow> [] | Some q \<Rightarrow> to_lower (trim q));
          filtered = filter (\<lambda>j. passes_filter (resolveEnabledFilter opts) j \<and> matches_query query j) (sv_jobs sv1)
      in (page_of opts (sortJobs co (case lo_sortBy opts of None \<Rightarrow> ByNextRun | Some b \<Rightarrow> b) (lo_desc opts) filtered),
          sv1))"

definition getJob :: "string \<Rightarrow> cron_service \<Rightarrow> CronJob option" where
  "getJob i sv = find (\<lambda>j. job_id j = i) (sv_jobs sv)"

section \<open>Adding, updating and removing\<close>

text \<open>The clock reads of an operation: of the load, of the operation, of the recomputation and of
  the timer.\<close>

record op_clock =
  oc_load :: int
  oc_now :: int
  oc_recompute :: int
  oc_arm :: int

definition job_event :: "string \<Rightarrow> CronJob \<Rightarrow> CronEvent" where
  "job_event action job = (plain_event (job_id job) action)\<lparr>ev_nextRunAtMs := st_nextRunAtMs (job_state job)\<rparr>"

definition add :: "cron_env \<Rightarrow> cron_deps \<Rightarrow> op_clock \<Rightarrow> string \<Rightarrow> CronJobCreate \<Rightarrow> cron_service \<Rightarrow>
    CronJob op_result" where
  "add env deps clk new_id input sv =
     (let sv1 = ensureLoaded env False (Some (oc_load clk)) sv in
      case createJob env (cd_defaultAgentId deps) new_id (oc_now clk) input of
        Inl e \<Rightarrow> (Inl e, sv1)
      | Inr job \<Rightarrow>
          (let sv2 = snd (walk_store (recomputeNextRuns env (oc_recompute clk))
                       (set_jobs (sv_jobs sv1 @ [job]) sv1));
               job' = last (sv_jobs sv2)
           in (Inr job', emit (job_event ''added'' job') (armTimer deps (oc_arm clk) (persist sv2)))))"

definition repair_anchor :: "int \<Rightarrow> CronJobPatch \<Rightarrow> CronJob \<Rightarrow> CronJob" where
  "repair_anchor now patch job =
     (case job_schedule job of
        SEvery everyMs anchorMs \<Rightarrow>
          (case anchorMs of
             JNum _ \<Rightarrow> job
           | _ \<Rightarrow>
               (let fallback = (case pt_schedule patch of
                      Some (SEvery _ _) \<Rightarrow> now | _ \<Rightarrow> job_createdAtMs job)
                in job\<lparr>job_schedule := SEvery everyMs (JNum (of_int (max 0 fallback)))\<rparr>))
      | _ \<Rightarrow> job)"

definition refresh_next :: "cron_env \<Rightarrow> int \<Rightarrow> CronJob \<Rightarrow> CronJob \<times> string option" where
  "refresh_next env now job =
     (case computeJobNextRunAtMs env job now of
        Inl e \<Rightarrow> (job, Some e)
      | Inr t \<Rightarrow> (set_next t job, None))"

text \<open>What \<open>update\<close> does to the job, with the exception that cuts it short.\<close>

definition update_job ::
    "cron_env \<Rightarrow> cron_deps \<Rightarrow> int \<Rightarrow> CronJobPatch \<Rightarrow> CronJob \<Rightarrow> CronJob \<times> string option" where
  "update_job env deps now patch job0 =
     (case applyJobPatch env (cd_defaultAgentId deps) patch job0 of
        (job, Some e) \<Rightarrow> (job, Some e)
      | (job, None) \<Rightarrow>
          (let job1 = (repair_anchor now patch job)\<lparr>job_updatedAtMs := now\<rparr> in
           if pt_schedule patch \<noteq> None \<or> pt_enabled patch \<noteq> None then
             (if job_enabled job1 then refresh_next env now job1
              else (set_state (\<lambda>s. s\<lparr>st_nextRunAtMs := None, st_runningAtMs := None\<rparr>) job1, None))
           else if job_enabled job1 \<and> st_nextRunAtMs (job_state job1) = None then refresh_next env now job1
           else (job1, None)))"

definition update :: "cron_env \<Rightarrow> cron_deps \<Rightarrow> op_clock \<Rightarrow> string \<Rightarrow> CronJobPatch \<Rightarrow> cron_service \<Rightarrow>
    CronJob op_result" where
  "update env deps clk i patch sv =
     (let sv1 = ensureLoaded env False None sv in
      case findJobOrThrow i (sv_jobs sv1) of
        Inl e \<Rightarrow> (Inl e, sv1)
      | Inr job \<Rightarrow>
          (case update_job env deps (oc_now clk) patch job of
             (job', err) \<Rightarrow>
               (let sv2 = set_jobs (update_first (\<lambda>j. job_id j = i) (\<lambda>_. job') (sv_jobs sv1)) sv1 in
                case err of
                  Some e \<Rightarrow> (Inl e, sv2)
                | None \<Rightarrow> (Inr job', emit (job_event ''updated'' job') (armTimer deps (oc_arm clk) (persist sv2))))))"

definition remove :: "cron_env \<Rightarrow> cron_deps \<Rightarrow> op_clock \<Rightarrow> string \<Rightarrow> cron_service \<Rightarrow> bool \<times> cron_service" where
  "remove env deps clk i sv =
     (let sv1 = ensureLoaded env False (Some (oc_load clk)) sv;
          jobs' = remove_job i (sv_jobs sv1);
          removed = (length jobs' \<noteq> length (sv_jobs sv1));
          sv2 = armTimer deps (oc_arm clk) (persist (set_jobs jobs' sv1))
      in (removed, if removed then emit (plain_event i ''removed'') sv2 else sv2))"

section \<open>Manual runs\<close>

datatype manual_disposition = AlreadyRunning | NotDue | Runnable int

definition inspectManualRunPreflight ::
    "cron_env \<Rightarrow> int \<Rightarrow> int \<Rightarrow> bool \<Rightarrow> string \<Rightarrow> cron_service \<Rightarrow> manual_disposition op_result" where
  "inspectManualRunPreflight env maintainNow now forced i sv =
     (let sv1 = snd (maintain env False maintainNow (ensureLoaded env False None sv)) in
      case findJobOrThrow i (sv_jobs sv1) of
        Inl e \<Rightarrow> (Inl e, sv1)
      | Inr job \<Rightarrow>
          (Inr (if is_marked job then AlreadyRunning
                else if isJobDue job now forced then Runnable now else NotDue), sv1))"

text \<open>The second section of \<open>prepareManualRun\<close>: the copy of the job to execute, if it was reserved.\<close>

definition reserveManualRun :: "int \<Rightarrow> string \<Rightarrow> cron_service \<Rightarrow> CronJob option op_result" where
  "reserveManualRun now i sv =
     (case findJobOrThrow i (sv_jobs sv) of
        Inl e \<Rightarrow> (Inl e, sv)
      | Inr job \<Rightarrow>
          if is_marked job then (Inr None, sv)
          else (Inr (Some (json_job (mark_running now job))),
                emit ((plain_event i ''started'')\<lparr>ev_runAtMs := Some now\<rparr>)
                  (persist (set_jobs (update_first (\<lambda>j. job_id j = i) (mark_running now) (sv_jobs sv)) sv))))"

definition merge_snapshot :: "CronJob \<Rightarrow> CronJob \<Rightarrow> CronJob" where
  "merge_snapshot snapshot reloaded = reloaded\<lparr>job_enabled := job_enabled snapshot,
     job_updatedAtMs := job_updatedAtMs snapshot, job_state := job_state snapshot\<rparr>"

text \<open>The post-run state is merged by id into what a reload brings in, or the job removed from it.\<close>

definition mergeManualRunSnapshotAfterReload ::
    "string \<Rightarrow> CronJob option \<Rightarrow> bool \<Rightarrow> cron_service \<Rightarrow> cron_service" where
  "mergeManualRunSnapshotAfterReload i snapshot removed sv =
     (if removed then set_jobs (remove_job i (sv_jobs sv)) sv
      else (case snapshot of
              None \<Rightarrow> sv
            | Some s \<Rightarrow> set_jobs (update_first (\<lambda>j. job_id j = i) (merge_snapshot s) (sv_jobs sv)) sv))"

definition finishPreparedManualRun ::
    "cron_env \<Rightarrow> cron_deps \<Rightarrow> int \<Rightarrow> int \<Rightarrow> int \<Rightarrow> bool \<Rightarrow> timed_outcome \<Rightarrow> cron_service \<Rightarrow> cron_service" where
  "finishPreparedManualRun env deps alertNow now armNow forced o' sv =
     (let i = to_jobId o'; sv1 = ensureLoaded env False None sv in
      case find (\<lambda>j. job_id j = i) (sv_jobs sv1) of
        None \<Rightarrow> sv1
      | Some job \<Rightarrow>
          (case applyJobResult env deps alertNow forced (outcome_result o') job of
             (job', shouldDelete, _) \<Rightarrow>
               (let sv2 = apply_to_stored env deps alertNow forced o' sv1;
                    sv3 = ensureLoaded env True None sv2;
                    sv4 = mergeManualRunSnapshotAfterReload i (if shouldDelete then None else Some job') shouldDelete sv3
                in armTimer deps armNow (persist (snd (maintain env True now sv4))))))"

text \<open>\<open>enqueueRun\<close> puts the run in the cron lane and names it by the id, the clock and a counter.\<close>

record manual_queue =
  mq_counter :: nat
  mq_queue :: queue_state

definition cron_lane :: string where
  "cron_lane = ''cron''"

definition enqueueRun ::
    "cron_env \<Rightarrow> int \<Rightarrow> int \<Rightarrow> int \<Rightarrow> bool \<Rightarrow> string \<Rightarrow> cron_service \<times> manual_queue \<Rightarrow>
     (manual_disposition \<times> string option) thrown \<times> cron_service \<times> manual_queue" where
  "enqueueRun env maintainNow now idNow forced i s =
     (case s of (sv, mq) \<Rightarrow>
       (case inspectManualRunPreflight env maintainNow now forced i sv of
          (Inl e, sv1) \<Rightarrow> (Inl e, sv1, mq)
        | (Inr (Runnable t), sv1) \<Rightarrow>
            (Inr (Runnable t, Some (''manual:'' @ i @ '':'' @ show_int idNow @ '':'' @ show_nat (mq_counter mq))), sv1,
             \<lparr>mq_counter = mq_counter mq + 1,
              mq_queue = enqueueCommandInLane idNow cron_lane (Some 5000) True (mq_queue mq)\<rparr>)
        | (Inr d, sv1) \<Rightarrow> (Inr (d, None), sv1, mq)))"

end
