(* ===== verification/CronTickProps.thy ===== *)
theory CronTickProps
  imports CronOps CronResultProps
begin

text \<open>
  What the scheduler promises: a tick selects exactly the due jobs and nobody else can start one
  of them, the timer is armed whenever there is something to wait for and never spins, and the
  start-up catch-up runs a bounded number of missed jobs, the oldest first, and spaces the rest.
\<close>

section \<open>Selection\<close>

lemma tick_runnable: "isRunnableJob env tick_opts now = (\<lambda>j. isJobDue j now False)"
  by (rule ext) (auto simp: isRunnableJob_def tick_opts_def isJobDue_def Let_def split: option.split)

lemma marked_not_runnable:
  assumes "st_runningAtMs (job_state j) \<noteq> None"
  shows "\<not> isRunnableJob env opts now j" and "\<not> isJobDue j now forced"
  using assms by (auto simp: isRunnableJob_def isJobDue_def Let_def)

lemma json_job_simps [simp]:
  "job_id (json_job j) = job_id j" "job_state (json_job j) = job_state j"
  "job_enabled (json_job j) = job_enabled j"
  by (simp_all add: json_job_def)

lemma mark_running_simps [simp]:
  "job_id (mark_running now j) = job_id j" "job_enabled (mark_running now j) = job_enabled j"
  "st_runningAtMs (job_state (mark_running now j)) = Some now"
  by (simp_all add: mark_running_def)

lemma sv_accessors [simp]:
  "sv_store (add_effects e sv) = sv_store sv" "sv_disk (add_effects e sv) = sv_disk sv"
  "sv_store (emit v sv) = sv_store sv" "sv_disk (emit v sv) = sv_disk sv"
  "sv_timer (emit v sv) = sv_timer sv" "sv_timer (add_effects e sv) = sv_timer sv"
  "sv_store (persist sv) = sv_store sv" "sv_jobs (persist sv) = sv_jobs sv"
  "sv_store (armTimer deps now sv) = sv_store sv" "sv_disk (armTimer deps now sv) = sv_disk sv"
  by (simp_all add: add_effects_def emit_def persist_def sv_jobs_def armTimer_def split: option.split)

lemma reload_simps [simp]:
  "sv_jobs (ensureLoaded env True None sv) = sv_disk sv" "sv_store (ensureLoaded env True None sv) = Some (sv_disk sv)"
  "sv_disk (ensureLoaded env f None sv) = sv_disk sv"
  by (simp_all add: ensureLoaded_def sv_jobs_def)

lemma find_job: "distinct (map job_id jobs) \<Longrightarrow> j \<in> set jobs \<Longrightarrow> find (\<lambda>x. job_id x = job_id j) jobs = Some j"
  by (rule find_distinct_key)

text \<open>The jobs a tick leaves in memory and on disk when it selects some.\<close>

lemma tick_select_result:
  "fst (tick_select env t now sv) = map job_id (filter (\<lambda>j. isJobDue j t False) (sv_disk sv))"
  "fst (tick_select env t now sv) \<noteq> [] \<Longrightarrow>
   sv_store (snd (tick_select env t now sv)) =
     Some (map (\<lambda>j. if isJobDue j t False then mark_running now j else j) (sv_disk sv)) \<and>
   sv_disk (snd (tick_select env t now sv)) =
     map json_job (map (\<lambda>j. if isJobDue j t False then mark_running now j else j) (sv_disk sv))"
proof -
  let ?due = "filter (\<lambda>j. isJobDue j t False) (sv_disk sv)"
  show ids: "fst (tick_select env t now sv) = map job_id ?due"
    by (cases "?due = []")
      (simp_all only: tick_select_def Let_def collectRunnableJobs_def tick_runnable reload_simps,
       auto split: prod.split)
  show "sv_store (snd (tick_select env t now sv)) =
     Some (map (\<lambda>j. if isJobDue j t False then mark_running now j else j) (sv_disk sv)) \<and>
   sv_disk (snd (tick_select env t now sv)) =
     map json_job (map (\<lambda>j. if isJobDue j t False then mark_running now j else j) (sv_disk sv))"
    if "fst (tick_select env t now sv) \<noteq> []"
  proof -
    from that have "?due \<noteq> []" unfolding ids by simp
    then show ?thesis
      by (simp add: tick_select_def collectRunnableJobs_def tick_runnable set_jobs_def persist_def)
  qed
qed

lemma tick_selected_marked:
  assumes "distinct (map job_id (sv_disk sv))" and "j \<in> set (sv_disk (snd (tick_select env t now sv)))"
    and "job_id j \<in> set (fst (tick_select env t now sv))"
  shows "st_runningAtMs (job_state j) = Some now"
proof -
  from assms(3) have ne: "fst (tick_select env t now sv) \<noteq> []" by auto
  obtain j0 where j0: "j0 \<in> set (sv_disk sv)"
    and j: "j = json_job (if isJobDue j0 t False then mark_running now j0 else j0)"
    using assms(2) tick_select_result(2) [OF ne] by auto
  from assms(3) obtain j1 where j1: "j1 \<in> set (sv_disk sv)" "isJobDue j1 t False" "job_id j1 = job_id j"
    unfolding tick_select_result(1) by auto
  have "job_id j = job_id j0" by (simp add: j)
  with j1(3) have "job_id j1 = job_id j0" by simp
  with distinct_map_unique [OF assms(1) j1(1) j0] have "j1 = j0" by simp
  with j1(2) show ?thesis by (simp add: j)
qed


definition due_service :: cron_service where
  "due_service = createCronServiceState [due_example]"

lemma due_service_tick: "fst (tick_select hourly_env 600 600 due_service) = [''job'']"
  by code_simp


section \<open>The timer\<close>

lemma timer_delay_bounds:
  "1 \<le> timer_delay nextAt now" "timer_delay nextAt now \<le> MAX_TIMER_DELAY_MS"
  "now < nextAt \<Longrightarrow> timer_delay nextAt now \<le> nextAt - now"
  by (auto simp: timer_delay_def Let_def MIN_REFIRE_GAP_MS_def MAX_TIMER_DELAY_MS_def max_def min_def)

text \<open>The scheduler neither stalls nor spins. While a tick runs a watchdog of one minute is armed;
  when it leaves, with the scheduler enabled and an enabled job waiting for a (non-zero) instant,
  the timer is armed with a delay between one millisecond and one minute that does not
  overshoot the next run; otherwise no timer is left behind (#12025).\<close>

theorem scheduler_stays_armed:
  "sv_timer (snd (tick_enter sv)) = Some MAX_TIMER_DELAY_MS \<and>
   (case sv_timer (tick_leave deps now sv) of
      None \<Rightarrow> \<not> cd_cronEnabled deps \<or> nextWakeAtMs (sv_jobs sv) \<in> {None, Some 0}
    | Some d \<Rightarrow> cd_cronEnabled deps \<and> 1 \<le> d \<and> d \<le> MAX_TIMER_DELAY_MS \<and>
        (\<exists>j \<in> set (sv_jobs sv). \<exists>n. job_enabled j \<and> st_nextRunAtMs (job_state j) = Some n \<and>
           nextWakeAtMs (sv_jobs sv) = Some n \<and> (now < n \<longrightarrow> d \<le> n - now))) \<and>
   sv_running (tick_leave deps now sv) = False"
proof -
  have e: "sv_timer (snd (tick_enter sv)) = Some MAX_TIMER_DELAY_MS"
    by (simp add: tick_enter_def armRunningRecheckTimer_def)
  have jobs: "sv_jobs (sv\<lparr>sv_running := False\<rparr>) = sv_jobs sv" by (simp add: sv_jobs_def)
  show ?thesis
  proof (cases "nextWakeAtMs (sv_jobs sv)")
    case None
    with e show ?thesis by (simp add: tick_leave_def armTimer_def jobs)
  next
    case (Some n)
    from nextWake_in [OF Some] obtain j where
      "j \<in> set (sv_jobs sv)" "job_enabled j" "st_nextRunAtMs (job_state j) = Some n" by blast
    with e Some timer_delay_bounds [where nextAt = n and now = now] show ?thesis
      by (auto simp: tick_leave_def armTimer_def jobs)
  qed
qed

theorem scheduler_stays_armed_witness:
  "sv_timer (tick_leave plain_deps 450 (due_service\<lparr>sv_store := Some [due_example]\<rparr>)) = Some 50"
proof -
  let ?s = "due_service\<lparr>sv_store := Some [due_example]\<rparr>"
  have n: "nextWakeAtMs (sv_jobs ?s) = Some 500" "cd_cronEnabled plain_deps"
    "sv_timer (tick_leave plain_deps 450 ?s) \<noteq> None" by code_simp+
  from scheduler_stays_armed [of ?s plain_deps 450] n
  have "\<exists>d \<le> 50. sv_timer (tick_leave plain_deps 450 ?s) = Some d" by (auto split: option.splits)
  moreover have "sv_timer (tick_leave plain_deps 450 ?s) = Some 50" by code_simp
  ultimately show ?thesis by simp
qed

section \<open>Start-up catch-up\<close>

definition max_missed :: "cron_deps \<Rightarrow> nat" where
  "max_missed deps = nat (max 0 (case cd_maxMissedJobsPerRestart deps of None \<Rightarrow> 5 | Some m \<Rightarrow> m))"

definition missed_jobs :: "cron_env \<Rightarrow> string list \<Rightarrow> int \<Rightarrow> cron_service \<Rightarrow> CronJob list" where
  "missed_jobs env skip now sv =
     collectRunnableJobs env (startup_opts skip) now (ensureLoaded env False None sv)"

lemma plan_result:
  "pl_candidates (fst (planStartupCatchup env deps skip now sv)) =
     map job_id (take (max_missed deps) (sort_key next_key (missed_jobs env skip now sv)))"
  "pl_deferred (fst (planStartupCatchup env deps skip now sv)) =
     map job_id (drop (max_missed deps) (sort_key next_key (missed_jobs env skip now sv)))"
  by (simp_all add: planStartupCatchup_def Let_def missed_jobs_def max_missed_def)

text \<open>The starts that \<open>defer_jobs\<close> hands out, for jobs that are stored and enabled.\<close>

lemma find_update_next:
  "find (\<lambda>j. job_id j = k) (update_first (\<lambda>j. job_id j = i) (set_next t) jobs) =
     (if k = i then map_option (set_next t) (find (\<lambda>j. job_id j = k) jobs) else find (\<lambda>j. job_id j = k) jobs)"
  by (induction jobs) auto

lemma defer_jobs_other:
  "i \<notin> set ids \<Longrightarrow> find (\<lambda>j. job_id j = i) (defer_jobs b s off ids jobs) = find (\<lambda>j. job_id j = i) jobs"
  by (induction b s off ids jobs rule: defer_jobs.induct)
    (auto simp: find_update_next split: option.split)

lemma defer_jobs_spaced:
  assumes "distinct ids" and "k < length ids"
    and "\<And>i. i \<in> set ids \<Longrightarrow> \<exists>j. find (\<lambda>j. job_id j = i) jobs = Some j \<and> job_enabled j"
  shows "map_option (\<lambda>j. st_nextRunAtMs (job_state j)) (find (\<lambda>j. job_id j = ids ! k) (defer_jobs b s off ids jobs)) =
    Some (Some (b + off + int k * s))"
  using assms
proof (induction ids arbitrary: k off jobs)
  case (Cons i ids)
  from Cons.prems(3) [of i] obtain j where j: "find (\<lambda>j. job_id j = i) jobs = Some j" "job_enabled j" by auto
  let ?jobs = "update_first (\<lambda>j. job_id j = i) (set_next (Some (b + off))) jobs"
  have step: "defer_jobs b s off (i # ids) jobs = defer_jobs b s (off + s) ids ?jobs" using j by simp
  show ?case
  proof (cases k)
    case 0
    with Cons.prems(1) j show ?thesis unfolding step by (simp add: defer_jobs_other find_update_next)
  next
    case (Suc m)
    have "\<exists>j. find (\<lambda>j. job_id j = x) ?jobs = Some j \<and> job_enabled j" if "x \<in> set ids" for x
      using Cons.prems(1) Cons.prems(3) [of x] that by (auto simp: find_update_next)
    with Cons.IH [of m "?jobs" "off + s"] Cons.prems(1,2) Suc show ?thesis
      unfolding step by (simp add: algebra_simps)
  qed
qed simp

text \<open>After a restart every missed job is either run at once or deferred: at most the configured
  number (five by default) run at once, they are the longest overdue ones, and the deferred
  jobs that are still stored and enabled start one after the other, one stagger apart (#18892).\<close>

theorem startup_catchup_bounded:
  assumes "planStartupCatchup env deps skip now sv = (plan, sv')"
    and "distinct (pl_deferred plan)"
    and "\<forall>i \<in> set (pl_deferred plan). \<exists>j. find (\<lambda>j. job_id j = i) jobs = Some j \<and> job_enabled j"
  shows "length (pl_candidates plan) \<le> max_missed deps \<and>
    mset (pl_candidates plan @ pl_deferred plan) = mset (map job_id (missed_jobs env skip now sv)) \<and>
    sorted (map next_key (sort_key next_key (missed_jobs env skip now sv))) \<and>
    pl_candidates plan @ pl_deferred plan = map job_id (sort_key next_key (missed_jobs env skip now sv)) \<and>
    (\<forall>k < length (pl_deferred plan).
       map_option (\<lambda>j. st_nextRunAtMs (job_state j))
         (find (\<lambda>j. job_id j = pl_deferred plan ! k) (defer_jobs b s s (pl_deferred plan) jobs)) =
       Some (Some (b + (int k + 1) * s)))"
proof -
  let ?ms = "sort_key next_key (missed_jobs env skip now sv)"
  have p: "pl_candidates plan = map job_id (take (max_missed deps) ?ms)"
    "pl_deferred plan = map job_id (drop (max_missed deps) ?ms)"
    using plan_result [of env deps skip now sv] assms(1) by simp_all
  have all: "pl_candidates plan @ pl_deferred plan = map job_id ?ms"
    unfolding p by (simp flip: map_append)
  have "map_option (\<lambda>j. st_nextRunAtMs (job_state j))
      (find (\<lambda>j. job_id j = pl_deferred plan ! k) (defer_jobs b s s (pl_deferred plan) jobs)) =
      Some (Some (b + (int k + 1) * s))" if "k < length (pl_deferred plan)" for k
    using defer_jobs_spaced [OF assms(2) that, of jobs b s s] assms(3) by (auto simp: algebra_simps)
  moreover have "mset (map job_id ?ms) = mset (map job_id (missed_jobs env skip now sv))"
    by simp
  ultimately show ?thesis unfolding all by (simp add: p(1))
qed

definition overdue :: "string \<Rightarrow> int \<Rightarrow> CronJob" where
  "overdue i t = set_next (Some t) (example_job\<lparr>job_id := i\<rparr>)"

theorem startup_catchup_bounded_witness:
  "\<exists>plan sv'. planStartupCatchup hourly_env (plain_deps\<lparr>cd_maxMissedJobsPerRestart := Some 1\<rparr>) [] 900
       (createCronServiceState [overdue ''b'' 200, overdue ''a'' 100]) = (plan, sv') \<and>
     pl_candidates plan = [''a''] \<and> pl_deferred plan = [''b''] \<and>
     length (pl_candidates plan) \<le> max_missed (plain_deps\<lparr>cd_maxMissedJobsPerRestart := Some 1\<rparr>)"
proof -
  let ?d = "plain_deps\<lparr>cd_maxMissedJobsPerRestart := Some 1\<rparr>"
  let ?s = "createCronServiceState [overdue ''b'' 200, overdue ''a'' 100]"
  obtain plan sv' where pl: "planStartupCatchup hourly_env ?d [] 900 ?s = (plan, sv')"
    by (cases "planStartupCatchup hourly_env ?d [] 900 ?s")
  have c: "pl_candidates (fst (planStartupCatchup hourly_env ?d [] 900 ?s)) = [''a'']" by code_simp
  have d: "pl_deferred (fst (planStartupCatchup hourly_env ?d [] 900 ?s)) = [''b'']" by code_simp
  have cd: "pl_candidates plan = [''a'']" "pl_deferred plan = [''b'']" using c d by (simp_all add: pl)
  have "\<forall>i \<in> set (pl_deferred plan). \<exists>j. find (\<lambda>j. job_id j = i) [overdue ''b'' 200] = Some j \<and> job_enabled j"
    by (simp add: cd overdue_def example_job_def set_next_def)
  from startup_catchup_bounded [OF pl _ this] cd pl show ?thesis by auto
qed

end
