(* ===== verification/CronExecuteProps.thy ===== *)
theory CronExecuteProps
  imports CronTickProps
begin

text \<open>
  What the execution of jobs promises: the workers of a tick run every due job exactly once and
  stop, the wait for a busy heartbeat ends, and a run with a time limit always settles.
\<close>

section \<open>The worker pool\<close>

text \<open>An index below the cursor is being run by exactly one worker or has its result; the rest is untouched.\<close>

definition pool_inv :: "nat \<Rightarrow> nat \<Rightarrow> 'r pool \<Rightarrow> bool" where
  "pool_inv n c p \<longleftrightarrow>
     length (pw_workers p) = c \<and> length (pw_results p) = n \<and>
     (\<forall>w < c. \<forall>i. pw_workers p ! w = Busy i \<longrightarrow> i < n \<and> i < pw_cursor p \<and> pw_results p ! i = None) \<and>
     (\<forall>w < c. \<forall>v < c. \<forall>i. pw_workers p ! w = Busy i \<longrightarrow> pw_workers p ! v = Busy i \<longrightarrow> w = v) \<and>
     (\<forall>i < n. i < pw_cursor p \<longrightarrow> pw_results p ! i = None \<longrightarrow> (\<exists>w < c. pw_workers p ! w = Busy i)) \<and>
     (\<forall>i < n. pw_cursor p \<le> i \<longrightarrow> pw_results p ! i = None) \<and>
     (\<forall>w < c. pw_workers p ! w = Returned \<longrightarrow> n \<le> pw_cursor p)"

lemma pool_init_inv: "pool_inv n c (pool_init n c)"
  by (simp add: pool_inv_def pool_init_def)

lemma pool_invD:
  assumes "pool_inv n c p"
  shows "length (pw_workers p) = c" "length (pw_results p) = n"
    "w < c \<Longrightarrow> pw_workers p ! w = Busy i \<Longrightarrow> i < n"
    "w < c \<Longrightarrow> pw_workers p ! w = Busy i \<Longrightarrow> i < pw_cursor p"
    "w < c \<Longrightarrow> pw_workers p ! w = Busy i \<Longrightarrow> pw_results p ! i = None"
    "w < c \<Longrightarrow> v < c \<Longrightarrow> pw_workers p ! w = Busy i \<Longrightarrow> pw_workers p ! v = Busy i \<Longrightarrow> w = v"
    "i < n \<Longrightarrow> i < pw_cursor p \<Longrightarrow> pw_results p ! i = None \<Longrightarrow> \<exists>w < c. pw_workers p ! w = Busy i"
    "i < n \<Longrightarrow> pw_cursor p \<le> i \<Longrightarrow> pw_results p ! i = None"
    "w < c \<Longrightarrow> pw_workers p ! w = Returned \<Longrightarrow> n \<le> pw_cursor p"
  using assms unfolding pool_inv_def by blast+

lemma pool_invI:
  assumes "length (pw_workers p) = c" "length (pw_results p) = n"
    "\<And>w i. w < c \<Longrightarrow> pw_workers p ! w = Busy i \<Longrightarrow> i < n \<and> i < pw_cursor p \<and> pw_results p ! i = None"
    "\<And>w v i. w < c \<Longrightarrow> v < c \<Longrightarrow> pw_workers p ! w = Busy i \<Longrightarrow> pw_workers p ! v = Busy i \<Longrightarrow> w = v"
    "\<And>i. i < n \<Longrightarrow> i < pw_cursor p \<Longrightarrow> pw_results p ! i = None \<Longrightarrow> \<exists>w < c. pw_workers p ! w = Busy i"
    "\<And>i. i < n \<Longrightarrow> pw_cursor p \<le> i \<Longrightarrow> pw_results p ! i = None"
    "\<And>w. w < c \<Longrightarrow> pw_workers p ! w = Returned \<Longrightarrow> n \<le> pw_cursor p"
  shows "pool_inv n c p"
  unfolding pool_inv_def using assms by blast

lemma take_job_inv:
  assumes inv: "pool_inv n c p" and w: "w < c" "pw_workers p ! w = Ready" and cur: "pw_cursor p < n"
  shows "pool_inv n c (p\<lparr>pw_workers := (pw_workers p)[w := Busy (pw_cursor p)], pw_cursor := Suc (pw_cursor p)\<rparr>)"
    (is "pool_inv n c ?q")
proof -
  note D = pool_invD [OF inv]
  have at: "pw_workers ?q ! v = (if v = w then Busy (pw_cursor p) else pw_workers p ! v)" if "v < c" for v
    using that D(1) by (simp add: nth_list_update)
  show ?thesis
  proof (rule pool_invI)
    fix v i assume v: "v < c" "pw_workers ?q ! v = Busy i"
    then have "v = w \<and> i = pw_cursor p \<or> pw_workers p ! v = Busy i"
      by (auto simp only: at worker.inject split: if_split_asm)
    then show "i < n \<and> i < pw_cursor ?q \<and> pw_results ?q ! i = None"
      using v(1) D(3,4,5) [of v i] D(8) [of i] cur by auto
  next
    fix v u i assume "v < c" "u < c" "pw_workers ?q ! v = Busy i" "pw_workers ?q ! u = Busy i"
    then show "v = u"
      using D(4) [of v i] D(4) [of u i] D(6) [of v u i]
      by (auto simp only: at worker.inject split: if_split_asm)
  next
    fix i assume i: "i < n" "i < pw_cursor ?q" "pw_results ?q ! i = None"
    show "\<exists>v < c. pw_workers ?q ! v = Busy i"
    proof (cases "i = pw_cursor p")
      case True
      with w(1) at [of w] show ?thesis by (intro exI [of _ w]) simp
    next
      case False
      with i obtain v where "v < c" "pw_workers p ! v = Busy i" using D(7) [of i] by auto
      with w(2) at [of v] show ?thesis by (intro exI [of _ v]) auto
    qed
  next
    fix v assume "v < c" "pw_workers ?q ! v = Returned"
    then have "v < c" "pw_workers p ! v = Returned" by (auto simp only: at worker.distinct split: if_split_asm)
    then show "n \<le> pw_cursor ?q" using D(9) [of v] cur by simp
  qed (use D(1,2,8) in auto)
qed

lemma no_job_inv:
  assumes inv: "pool_inv n c p" and w: "w < c" "pw_workers p ! w = Ready" and cur: "n \<le> pw_cursor p"
  shows "pool_inv n c (p\<lparr>pw_workers := (pw_workers p)[w := Returned], pw_cursor := Suc (pw_cursor p)\<rparr>)"
    (is "pool_inv n c ?q")
proof -
  note D = pool_invD [OF inv]
  have at: "pw_workers ?q ! v = (if v = w then Returned else pw_workers p ! v)" if "v < c" for v
    using that D(1) by (simp add: nth_list_update)
  show ?thesis
  proof (rule pool_invI)
    fix v i assume "v < c" "pw_workers ?q ! v = Busy i"
    then have "v < c" "pw_workers p ! v = Busy i" by (simp_all only: at worker.distinct split: if_split_asm)
    then show "i < n \<and> i < pw_cursor ?q \<and> pw_results ?q ! i = None"
      using D(3,4,5) [of v i] by auto
  next
    fix v u i assume "v < c" "u < c" "pw_workers ?q ! v = Busy i" "pw_workers ?q ! u = Busy i"
    then show "v = u"
      using D(6) [of v u i] by (simp only: at worker.distinct split: if_split_asm)
  next
    fix i assume i: "i < n" "i < pw_cursor ?q" "pw_results ?q ! i = None"
    with cur obtain v where "v < c" "pw_workers p ! v = Busy i" using D(7) [of i] by auto
    with w(2) at [of v] show "\<exists>v < c. pw_workers ?q ! v = Busy i" by (intro exI [of _ v]) auto
  qed (use D(1,2,8) cur in auto)
qed

lemma job_done_inv:
  assumes inv: "pool_inv n c p" and w: "w < c" "pw_workers p ! w = Busy i"
  shows "pool_inv n c (p\<lparr>pw_workers := (pw_workers p)[w := Ready], pw_results := (pw_results p)[i := Some r]\<rparr>)"
    (is "pool_inv n c ?q")
proof -
  note D = pool_invD [OF inv]
  have at: "pw_workers ?q ! v = (if v = w then Ready else pw_workers p ! v)" if "v < c" for v
    using that D(1) by (simp add: nth_list_update)
  have res: "pw_results ?q ! k = (if k = i then Some r else pw_results p ! k)" if "k < n" for k
    using that D(2) by (simp add: nth_list_update)
  show ?thesis
  proof (rule pool_invI)
    fix v k assume v: "v < c" "pw_workers ?q ! v = Busy k"
    then have p: "v \<noteq> w" "pw_workers p ! v = Busy k" by (auto simp only: at worker.distinct split: if_split_asm)
    have "k \<noteq> i" using D(6) [OF v(1) w(1), of k] p w(2) by auto
    then show "k < n \<and> k < pw_cursor ?q \<and> pw_results ?q ! k = None"
      using D(3,4,5) [OF v(1) p(2)] res [of k] by auto
  next
    fix v u k assume "v < c" "u < c" "pw_workers ?q ! v = Busy k" "pw_workers ?q ! u = Busy k"
    then show "v = u"
      using D(6) [of v u k] by (simp only: at worker.distinct split: if_split_asm)
  next
    fix k assume k: "k < n" "k < pw_cursor ?q" "pw_results ?q ! k = None"
    then have "k \<noteq> i" "pw_results p ! k = None" using res [of k] by (auto split: if_split_asm)
    with k obtain v where v: "v < c" "pw_workers p ! v = Busy k" using D(7) [of k] by auto
    with w(2) \<open>k \<noteq> i\<close> have "v \<noteq> w" by auto
    with v at [of v] show "\<exists>v < c. pw_workers ?q ! v = Busy k" by (intro exI [of _ v]) auto
  next
    fix k assume k: "k < n" "pw_cursor ?q \<le> k"
    with D(4) [OF w] have "k \<noteq> i" by auto
    with k D(8) [of k] res [of k] show "pw_results ?q ! k = None" by auto
  next
    fix v assume "v < c" "pw_workers ?q ! v = Returned"
    then have "v < c" "pw_workers p ! v = Returned" by (auto simp only: at worker.distinct split: if_split_asm)
    then show "n \<le> pw_cursor ?q" using D(9) [of v] by simp
  qed (use D(1,2) in auto)
qed

lemma pool_step_inv: "pool_step p p' \<Longrightarrow> pool_inv n c p \<Longrightarrow> pool_inv n c p'"
proof (induction rule: pool_step.induct)
  case (take_job w p)
  then show ?case by (intro take_job_inv) (auto simp: pool_inv_def)
next
  case (no_job w p)
  then show ?case by (intro no_job_inv) (auto simp: pool_inv_def)
next
  case (job_done w p i r)
  then show ?case by (intro job_done_inv) (auto simp: pool_inv_def)
qed

lemma pool_reachable_inv: "pool_step\<^sup>*\<^sup>* (pool_init n c) p \<Longrightarrow> pool_inv n c p"
  by (induction rule: rtranclp_induct) (auto intro: pool_init_inv pool_step_inv)

text \<open>The work that is left: each action of a worker makes it less.\<close>

definition worker_weight :: "worker \<Rightarrow> nat" where
  "worker_weight w = (case w of Ready \<Rightarrow> 1 | Busy _ \<Rightarrow> 2 | Returned \<Rightarrow> 0)"

definition pool_work :: "'r pool \<Rightarrow> nat" where
  "pool_work p = 2 * (length (pw_results p) - pw_cursor p) + sum_list (map worker_weight (pw_workers p))"

lemma weight_update:
  assumes "w < length ws"
  shows "sum_list (map worker_weight (ws[w := x])) + worker_weight (ws ! w) =
    sum_list (map worker_weight ws) + worker_weight x"
proof -
  have "ws = take w ws @ ws ! w # drop (Suc w) ws" using assms by (rule id_take_nth_drop)
  then have "sum_list (map worker_weight ws) = sum_list (map worker_weight (take w ws)) +
      (worker_weight (ws ! w) + sum_list (map worker_weight (drop (Suc w) ws)))"
    by (metis list.simps(9) map_append sum_list.Cons sum_list.append)
  then show ?thesis using assms by (simp add: upd_conv_take_nth_drop)
qed

lemma pool_step_work: "pool_step p p' \<Longrightarrow> pool_work p' < pool_work p"
proof (induction rule: pool_step.induct)
  case (take_job w p)
  with weight_update [OF take_job(1), of "Busy (pw_cursor p)"] show ?case
    by (simp add: pool_work_def worker_weight_def)
next
  case (no_job w p)
  with weight_update [OF no_job(1), of Returned] show ?case
    by (simp add: pool_work_def worker_weight_def)
next
  case (job_done w p i r)
  with weight_update [OF job_done(1), of Ready] show ?case
    by (simp add: pool_work_def worker_weight_def)
qed

lemma pool_progress:
  assumes "\<not> pool_returned p"
  shows "\<exists>p'. pool_step p p'"
proof -
  from assms obtain w where w: "w < length (pw_workers p)" "pw_workers p ! w \<noteq> Returned"
    by (auto simp: pool_returned_def list_all_length)
  show ?thesis
  proof (cases "pw_workers p ! w")
    case Ready
    with w show ?thesis
      by (cases "pw_cursor p < length (pw_results p)") (blast intro: pool_step.intros, metis no_job not_less)
  qed (use w in \<open>blast intro: pool_step.intros\<close>)+
qed

lemma pool_complete:
  assumes "pool_inv n c p" and "pool_returned p" and "1 \<le> c" and "i < n"
  shows "\<exists>r. pw_results p ! i = Some r"
proof -
  have r: "pw_workers p ! w = Returned" if "w < c" for w
    using assms(1,2) that by (auto simp: pool_returned_def pool_inv_def list_all_length)
  note D = pool_invD [OF assms(1)]
  from r [of 0] D(9) [of 0] assms(3) have "n \<le> pw_cursor p" by simp
  with assms(4) have "i < pw_cursor p" by simp
  with D(7) [OF assms(4)] r show ?thesis by (cases "pw_results p ! i") auto
qed

lemma tick_concurrency_pos: "1 \<le> tick_concurrency deps n"
proof -
  have "1 \<le> nat (max 1 x)" for x :: int by (simp add: le_nat_iff)
  then show ?thesis by (simp add: tick_concurrency_def resolveRunConcurrency_def split: option.split jsval.split)
qed

text \<open>C23: The workers of a tick run its \<open>n\<close> due jobs to the end and each exactly once: at any moment at
  most the configured number is running, no index is run by two workers or run again after its
  result is in, every action makes the remaining work less and is possible until all workers
  have returned, and then every job has its result.\<close>

theorem tick_pool_runs_all:
  assumes "pool_step\<^sup>*\<^sup>* (pool_init n (tick_concurrency deps n)) p"
  shows "length (filter (\<lambda>w. \<exists>i. w = Busy i) (pw_workers p)) \<le> min (resolveRunConcurrency deps) (max 1 n) \<and>
    (\<forall>w < length (pw_workers p). \<forall>i. pw_workers p ! w = Busy i \<longrightarrow> pw_results p ! i = None \<and>
       (\<forall>v < length (pw_workers p). pw_workers p ! v = Busy i \<longrightarrow> v = w)) \<and>
    (\<forall>p'. pool_step p p' \<longrightarrow> pool_work p' < pool_work p) \<and>
    (if pool_returned p then \<forall>i < n. \<exists>r. pw_results p ! i = Some r else \<exists>p'. pool_step p p')"
proof -
  note inv = pool_reachable_inv [OF assms]
  have len: "length (pw_workers p) = tick_concurrency deps n" using inv by (simp add: pool_inv_def)
  then have "length (filter (\<lambda>w. \<exists>i. w = Busy i) (pw_workers p)) \<le> min (resolveRunConcurrency deps) (max 1 n)"
    by (metis length_filter_le tick_concurrency_def)
  moreover have "\<forall>w < length (pw_workers p). \<forall>i. pw_workers p ! w = Busy i \<longrightarrow> pw_results p ! i = None \<and>
       (\<forall>v < length (pw_workers p). pw_workers p ! v = Busy i \<longrightarrow> v = w)"
    using inv unfolding len pool_inv_def by blast
  moreover have "if pool_returned p then \<forall>i < n. \<exists>r. pw_results p ! i = Some r else \<exists>p'. pool_step p p'"
    using pool_complete [OF inv _ tick_concurrency_pos] pool_progress [of p] by simp
  ultimately show ?thesis using pool_step_work by blast
qed

theorem tick_pool_runs_all_witness:
  "length (filter (\<lambda>w. \<exists>i. w = Busy i) (pw_workers (pool_init 3 (tick_concurrency plain_deps 3) :: nat pool))) \<le> 1"
proof -
  have "resolveRunConcurrency plain_deps = 1" by (simp add: resolveRunConcurrency_def plain_deps_def)
  with tick_pool_runs_all [OF rtranclp.rtrancl_refl, of 3 plain_deps, where 'a = nat] show ?thesis by auto
qed

section \<open>Waiting for the heartbeat\<close>

lemma heartbeat_loop_returns:
  assumes "\<And>n. int n * d \<le> ri_clock inp (Suc n) - ri_clock inp 0" and "maxWait < int K * d" and "0 < d"
    and "K + 1 \<le> n + fuel" and "1 \<le> fuel"
  shows "\<exists>x. heartbeat_loop fuel maxWait inp job text n = Some x"
  using assms(4,5)
proof (induction fuel arbitrary: n)
  case (Suc fuel)
  have rec: "\<exists>x. heartbeat_loop fuel maxWait inp job text (Suc n) = Some x"
    if "\<not> maxWait < ri_clock inp (Suc n) - ri_clock inp 0"
  proof (rule Suc.IH)
    from that assms(1) [of n] assms(2) have "int n * d < int K * d" by linarith
    with assms(3) have "n < K" by (simp add: mult_less_cancel_right)
    with Suc.prems(1) show "K + 1 \<le> Suc n + fuel" "1 \<le> fuel" by simp_all
  qed
  show ?case
  proof (cases "ri_heartbeat inp n")
    case (Inl e)
    then show ?thesis by simp
  next
    case (Inr h)
    then show ?thesis using rec by (cases h) auto
  qed
qed simp

definition heartbeat_wait :: "cron_deps \<Rightarrow> int" where
  "heartbeat_wait deps = (case cd_busyMaxWaitMs deps of None \<Rightarrow> 2 * 60000 | Some m \<Rightarrow> m)"

text \<open>A main-session job never waits for the heartbeat for ever: if every further attempt comes at least
  \<open>d\<close> milliseconds after the previous one (the delay between the retries), the job returns
  after at most \<open>maxWait div d + 2\<close> attempts, whatever the heartbeat answers and whether or not
  the run is aborted.\<close>

theorem heartbeat_wait_ends:
  assumes "0 < d" and "\<forall>n. int n * d \<le> ri_clock inp (Suc n) - ri_clock inp 0"
  shows "\<exists>r effs. executeMainSessionCronJob (nat (heartbeat_wait deps div d) + 2) deps inp job = Some (r, effs)"
proof -
  let ?w = "heartbeat_wait deps"
  have "?w < (?w div d + 1) * d" using assms(1)
    by (metis add.commute div_mult_mod_eq distrib_right mult_1 add_less_cancel_left pos_mod_bound)
  also have "\<dots> \<le> int (nat (?w div d) + 1) * d" using assms(1) by (intro mult_right_mono) auto
  finally have "\<exists>x. heartbeat_loop (nat (?w div d) + 2) ?w inp job s 0 = Some x" for s
    using assms by (intro heartbeat_loop_returns [where d = d and K = "nat (?w div d) + 1"]) auto
  then show ?thesis
    by (cases "resolveJobPayloadTextForMain job")
      (auto simp: executeMainSessionCronJob_def heartbeat_wait_def Let_def)
qed

definition busy_inputs :: run_inputs where
  "busy_inputs = \<lparr>ri_aborted = (\<lambda>n. False), ri_clock = (\<lambda>n. 250 * int n),
     ri_heartbeat = (\<lambda>n. Inr (HbSkipped requests_in_flight)), ri_agent = Inr abort_result\<rparr>"

theorem heartbeat_wait_ends_witness:
  "\<exists>r effs. executeMainSessionCronJob (nat (heartbeat_wait plain_deps div 250) + 2) plain_deps busy_inputs example_job = Some (r, effs)"
  by (rule heartbeat_wait_ends) (simp_all add: busy_inputs_def)

section \<open>Time limits\<close>

text \<open>Only an explicit limit of zero or less turns the limit off, and then only the core settles the run.\<close>

lemma limited_run_settles:
  "resolveCronJobTimeoutMs job = Some ms \<Longrightarrow> \<exists>r. executeJobCoreWithTimeout job core = Some r"
  by (auto simp: executeJobCoreWithTimeout_def split: option.split)

lemma timed_out_outcome:
  "to_error (run_outcome i s e (Inl (ThrownError ''Error'' timeoutErrorMessage))) = Some timeoutErrorMessage"
  "to_status (run_outcome i s e (Inl (ThrownError ''Error'' timeoutErrorMessage))) = StatusError"
  by (simp_all add: run_outcome_def normalizeCronRunErrorText_def isAbortError_def)

text \<open>A time limit beyond the range of a timer (2147484 seconds or more, just under 25 days) makes every
  run of the job that takes a millisecond or longer fail as timed out: the limit is passed to
  \<open>setTimeout\<close> unclamped, which then fires at once.\<close>

theorem huge_timeout_fires_at_once:
  assumes "job_payload job = AgentTurn a" and "at_timeoutSeconds a = Some s" and "2147484 \<le> s" and "1 \<le> t"
  shows "\<exists>r. executeJobCoreWithTimeout job (Some (t, ok)) = Some r \<and>
    to_status (run_outcome i st en r) = StatusError \<and> to_error (run_outcome i st en r) = Some timeoutErrorMessage"
proof -
  have "(2147483648 :: rat) \<le> s * 1000" using assms(3) by simp
  then have big: "2147483648 \<le> \<lfloor>s * 1000\<rfloor>" by (simp add: le_floor_iff)
  then have "resolveCronJobTimeoutMs job = Some \<lfloor>s * 1000\<rfloor>"
    by (simp add: resolveCronJobTimeoutMs_def assms(1,2))
  with big assms(4) have "executeJobCoreWithTimeout job (Some (t, ok)) =
      Some (Inl (ThrownError ''Error'' timeoutErrorMessage))"
    by (simp add: executeJobCoreWithTimeout_def node_timer_ms_def)
  then show ?thesis by (simp add: timed_out_outcome)
qed

definition slow_agent :: agent_turn where
  "slow_agent = \<lparr>at_message = ''m'', at_model = None, at_fallbacks = None, at_thinking = None,
     at_timeoutSeconds = Some 9999999, at_allowUnsafe = None, at_externalSource = None, at_lightContext = None,
     at_toolsAllow = None\<rparr>"

theorem huge_timeout_fires_at_once_witness:
  "\<exists>r. executeJobCoreWithTimeout (example_job\<lparr>job_payload := AgentTurn slow_agent\<rparr>)
       (Some (5, Inr (plain_result StatusOk None None))) = Some r \<and>
     to_status (run_outcome ''job'' 0 5 r) = StatusError \<and>
     to_error (run_outcome ''job'' 0 5 r) = Some timeoutErrorMessage"
  by (rule huge_timeout_fires_at_once [of _ slow_agent 9999999]) (simp_all add: slow_agent_def)

end
