(* ===== verification/CronOpsProps.thy ===== *)
theory CronOpsProps
  imports CronExecuteProps CronDeliveryProps CommandQueueProps
begin

text \<open>
  What the operations of the service promise: the store behaves as a map from ids to jobs and its
  file follows it, pages cover the list, a manual run waits its turn in the cron lane; and two
  places where they do not keep what the rest of the service relies on.
\<close>

section \<open>A table of keyed values\<close>

text \<open>
  The interface of a list that is searched by key: removing every value under a key, changing the
  first one, appending one, and changing all of them. Its content is a map.
\<close>

locale keyed_table =
  fixes lookup :: "'k \<Rightarrow> 's \<Rightarrow> 'v option"
    and delete :: "'k \<Rightarrow> 's \<Rightarrow> 's"
    and modify :: "'k \<Rightarrow> ('v \<Rightarrow> 'v) \<Rightarrow> 's \<Rightarrow> 's"
    and append :: "'v \<Rightarrow> 's \<Rightarrow> 's"
    and key :: "'v \<Rightarrow> 'k"
  assumes lookup_key: "lookup k s = Some v \<Longrightarrow> key v = k"
    and lookup_delete: "lookup k (delete i s) = (if k = i then None else lookup k s)"
    and lookup_modify: "(\<And>v. key v = i \<Longrightarrow> key (f v) = i) \<Longrightarrow>
      lookup k (modify i f s) = (if k = i then map_option f (lookup k s) else lookup k s)"
    and lookup_append: "lookup k (append v s) =
      (case lookup k s of Some w \<Rightarrow> Some w | None \<Rightarrow> if key v = k then Some v else None)"
begin

lemma delete_map: "(\<lambda>k. lookup k (delete i s)) = (\<lambda>k. lookup k s)(i := None)"
  by (rule ext) (simp add: lookup_delete)

lemma modify_map:
  assumes "key v = i" and "lookup i s = Some w"
  shows "(\<lambda>k. lookup k (modify i (\<lambda>_. v) s)) = (\<lambda>k. lookup k s)(i \<mapsto> v)"
  using assms by (intro ext) (simp add: lookup_modify)

lemma append_map:
  assumes "lookup (key v) s = None"
  shows "(\<lambda>k. lookup k (append v s)) = (\<lambda>k. lookup k s)(key v \<mapsto> v)"
  using assms by (intro ext) (auto simp: lookup_append split: option.split)

lemma delete_append:
  "lookup (key v) s = None \<Longrightarrow> (\<lambda>k. lookup k (delete (key v) (append v s))) = (\<lambda>k. lookup k s)"
  by (auto simp: delete_map append_map)

end

definition job_with :: "string \<Rightarrow> CronJob list \<Rightarrow> CronJob option" where
  "job_with i jobs = find (\<lambda>j. job_id j = i) jobs"

lemma find_filter_other: "find P (filter Q xs) = find (\<lambda>x. Q x \<and> P x) xs"
  by (induction xs) auto

lemma find_append: "find P (xs @ ys) = (case find P xs of Some x \<Rightarrow> Some x | None \<Rightarrow> find P ys)"
  by (induction xs) auto

interpretation jt: keyed_table job_with remove_job "\<lambda>i f. update_first (\<lambda>j. job_id j = i) f"
  "\<lambda>j jobs. jobs @ [j]" job_id
proof
  show "job_id v = k" if "job_with k s = Some v" for k s v
    using find_SomeD [of "\<lambda>j. job_id j = k" s v] that by (simp add: job_with_def)
  show "job_with k (remove_job i s) = (if k = i then None else job_with k s)" for k i s
    by (cases "k = i")
      (simp_all add: job_with_def remove_job_def find_filter_other find_None_iff_all
        cong: arg_cong [where f = "\<lambda>P. find P s"], metis)
  show "job_with k (update_first (\<lambda>j. job_id j = i) f s) =
      (if k = i then map_option f (job_with k s) else job_with k s)"
    if "\<And>v. job_id v = i \<Longrightarrow> job_id (f v) = i" for k i f s
    using that by (simp add: job_with_def find_update_first find_update_first_other)
  show "job_with k (s @ [v]) =
      (case job_with k s of Some w \<Rightarrow> Some w | None \<Rightarrow> if job_id v = k then Some v else None)" for k v s
    by (simp add: job_with_def find_append split: option.split)
qed


section \<open>The store as a map\<close>

definition store_map :: "cron_service \<Rightarrow> string \<Rightarrow> CronJob option" where
  "store_map sv = (\<lambda>i. getJob i sv)"

lemma store_map_jobs: "store_map sv = (\<lambda>i. job_with i (sv_jobs sv))"
  by (simp add: store_map_def getJob_def job_with_def)

lemma loaded_store [simp]: "sv_store (ensureLoaded env f t sv) = Some (sv_jobs (ensureLoaded env f t sv))"
proof (cases "sv_store (ensureLoaded env f t sv)")
  case None
  then show ?thesis
    by (auto simp: ensureLoaded_def Let_def walk_store_def split: if_splits option.splits prod.splits)
next
  case (Some jobs)
  then show ?thesis by (simp add: sv_jobs_def)
qed

lemma set_jobs_loaded:
  assumes "sv_store sv = Some jobs0"
  shows "sv_store (set_jobs jobs sv) = Some jobs" "sv_jobs (set_jobs jobs sv) = jobs"
    "sv_disk (set_jobs jobs sv) = sv_disk sv" "sv_disk (persist (set_jobs jobs sv)) = map json_job jobs"
  using assms by (simp_all add: set_jobs_def sv_jobs_def persist_def)

lemma jobs_accessors [simp]:
  "sv_jobs (emit v sv) = sv_jobs sv" "sv_jobs (armTimer deps t sv) = sv_jobs sv"
  "sv_jobs (add_effects e sv) = sv_jobs sv"
  by (simp_all add: sv_jobs_def)

lemma update_job_id: "job_id (fst (update_job env deps now patch job)) = job_id job"
proof -
  obtain j1 e where a: "applyJobPatch env (cd_defaultAgentId deps) patch job = (j1, e)"
    by (cases "applyJobPatch env (cd_defaultAgentId deps) patch job")
  have j1: "job_id j1 = job_id job"
    using applyJobPatch_identity [of env "cd_defaultAgentId deps" patch job] by (simp add: a job_identity_def)
  have r: "job_id (repair_anchor now patch j) = job_id j" for j
    by (simp add: repair_anchor_def Let_def split: CronSchedule.split jsval.split)
  have f: "job_id (fst (refresh_next env now j)) = job_id j" for j
    by (simp add: refresh_next_def split: sum.split)
  show ?thesis by (cases e) (simp_all add: update_job_def a Let_def j1 r f)
qed

text \<open>An update, with the job it changes spelled out.\<close>

lemma update_unknown:
  "store_map (ensureLoaded env False None sv) i = None \<Longrightarrow>
   \<exists>e. update env deps clk i patch sv = (Inl e, ensureLoaded env False None sv)"
  by (simp add: update_def Let_def findJobOrThrow_def store_map_def getJob_def)

lemma update_known:
  assumes "store_map (ensureLoaded env False None sv) i = Some job"
    and "update_job env deps (oc_now clk) patch job = (job', err)"
  shows "(case err of None \<Rightarrow> fst (update env deps clk i patch sv) = Inr job'
      | Some e \<Rightarrow> fst (update env deps clk i patch sv) = Inl e) \<and>
    store_map (snd (update env deps clk i patch sv)) = (store_map (ensureLoaded env False None sv))(i \<mapsto> job') \<and>
    sv_disk (snd (update env deps clk i patch sv)) =
      (if err = None then map json_job (sv_jobs (snd (update env deps clk i patch sv))) else sv_disk sv)"
proof -
  let ?sv1 = "ensureLoaded env False None sv"
  let ?jobs = "update_first (\<lambda>j. job_id j = i) (\<lambda>_. job') (sv_jobs ?sv1)"
  have f: "find (\<lambda>j. job_id j = i) (sv_jobs ?sv1) = Some job"
    using assms(1) by (simp add: store_map_def getJob_def)
  then have "job_id job = i" using find_SomeD by fastforce
  then have i: "job_id job' = i" using update_job_id [of env deps "oc_now clk" patch job] assms(2) by simp
  have u: "update env deps clk i patch sv =
      (case err of
         Some e \<Rightarrow> (Inl e, set_jobs ?jobs ?sv1)
       | None \<Rightarrow> (Inr job', emit (job_event ''updated'' job') (armTimer deps (oc_arm clk) (persist (set_jobs ?jobs ?sv1)))))"
    by (simp add: update_def Let_def findJobOrThrow_def f assms(2))
  have m: "(\<lambda>k. job_with k ?jobs) = (\<lambda>k. job_with k (sv_jobs ?sv1))(i \<mapsto> job')"
    by (rule jt.modify_map [OF i]) (simp add: job_with_def f)
  note s = set_jobs_loaded [OF loaded_store, of ?jobs env False None sv]
  show ?thesis
    by (cases err) (simp_all add: u store_map_jobs s m)
qed

lemma remove_result:
  shows "store_map (snd (remove env deps clk i sv)) = (store_map (ensureLoaded env False (Some (oc_load clk)) sv))(i := None)"
    and "sv_disk (snd (remove env deps clk i sv)) = map json_job (sv_jobs (snd (remove env deps clk i sv)))"
    and "fst (remove env deps clk i sv) = (store_map (ensureLoaded env False (Some (oc_load clk)) sv) i \<noteq> None)"
proof -
  let ?sv1 = "ensureLoaded env False (Some (oc_load clk)) sv"
  let ?jobs = "remove_job i (sv_jobs ?sv1)"
  note s = set_jobs_loaded [OF loaded_store, of ?jobs env False "Some (oc_load clk)" sv]
  have js: "sv_jobs (snd (remove env deps clk i sv)) = ?jobs" by (simp add: remove_def Let_def s)
  show "store_map (snd (remove env deps clk i sv)) = (store_map ?sv1)(i := None)"
    by (simp add: store_map_jobs js jt.delete_map)
  show "sv_disk (snd (remove env deps clk i sv)) = map json_job (sv_jobs (snd (remove env deps clk i sv)))"
    unfolding js by (simp add: remove_def Let_def s)
  have "length (filter P xs) \<noteq> length xs \<longleftrightarrow> (\<exists>x \<in> set xs. \<not> P x)" for P and xs :: "CronJob list"
    by (metis filter_True length_filter_less less_irrefl)
  then show "fst (remove env deps clk i sv) = (store_map ?sv1 i \<noteq> None)"
    by (auto simp: remove_def Let_def remove_job_def store_map_def getJob_def find_None_iff_all
        simp del: not_None_eq)
qed



definition rename_patch :: CronJobPatch where
  "rename_patch = empty_patch\<lparr>pt_name := Some (JStr ''x'')\<rparr>"

definition one_job_service :: cron_service where
  "one_job_service = (createCronServiceState [example_job])\<lparr>sv_store := Some [example_job]\<rparr>"

definition zero_clock :: op_clock where
  "zero_clock = \<lparr>oc_load = 0, oc_now = 0, oc_recompute = 0, oc_arm = 0\<rparr>"


section \<open>A failed update\<close>

text \<open>An update that throws leaves the half-applied patch in memory: the caller gets the exception and
  the file is untouched, but the job in memory is the patched one, and the next operation that
  saves the store, here the removal of another job, writes it to the file.\<close>

theorem failed_update_leaks:
  assumes "sv_store sv = Some jobs" and "store_map sv i = Some job"
    and "update_job env deps (oc_now clk) patch job = (job', Some e)" and "k \<noteq> i"
  shows "fst (update env deps clk i patch sv) = Inl e \<and>
    sv_disk (snd (update env deps clk i patch sv)) = sv_disk sv \<and>
    store_map (snd (update env deps clk i patch sv)) i = Some job' \<and>
    json_job job' \<in> set (sv_disk (snd (remove env deps clk k (snd (update env deps clk i patch sv)))))"
proof -
  have l: "ensureLoaded env False t sv = sv" for t by (simp add: ensureLoaded_def assms(1))
  let ?sv = "snd (update env deps clk i patch sv)"
  have job: "store_map (ensureLoaded env False None sv) i = Some job" by (simp add: l assms(2))
  from update_known [OF job assms(3)]
  have u: "fst (update env deps clk i patch sv) = Inl e" "store_map ?sv = (store_map sv)(i \<mapsto> job')"
    "sv_disk ?sv = sv_disk sv" by (simp_all add: l)
  obtain jobs' where st: "sv_store ?sv = Some jobs'"
    using set_jobs_loaded(1) [OF assms(1)] u(1) assms(1)
    by (auto simp: update_def Let_def l split: sum.splits prod.splits option.splits)
  have "ensureLoaded env False (Some t) ?sv = ?sv" for t by (simp add: ensureLoaded_def st)
  with remove_result [of env deps clk k ?sv]
  have r: "store_map (snd (remove env deps clk k ?sv)) i = Some job'"
    "sv_disk (snd (remove env deps clk k ?sv)) = map json_job (sv_jobs (snd (remove env deps clk k ?sv)))"
    using u(2) assms(4) by simp_all
  then have "job' \<in> set (sv_jobs (snd (remove env deps clk k ?sv)))"
    unfolding store_map_def getJob_def by (auto dest: find_SomeD)
  with r(2) u show ?thesis by simp
qed

definition retarget_patch :: CronJobPatch where
  "retarget_patch = empty_patch\<lparr>pt_sessionTarget := Some ''isolated''\<rparr>"

theorem failed_update_leaks_witness:
  "\<exists>job' e. update_job hourly_env plain_deps 0 retarget_patch example_job = (job', Some e) \<and>
     job_sessionTarget job' = ''isolated'' \<and> \<not> supported_job hourly_env None job' \<and>
     json_job job' \<in> set (sv_disk (snd (remove hourly_env plain_deps zero_clock ''other''
       (snd (update hourly_env plain_deps zero_clock ''job'' retarget_patch one_job_service)))))"
proof -
  let ?u = "update_job hourly_env plain_deps (oc_now zero_clock) retarget_patch example_job"
  have c: "(case snd ?u of None \<Rightarrow> False | Some e \<Rightarrow> True)" "job_sessionTarget (fst ?u) = ''isolated''"
    "\<not> is_agent_turn (job_payload (fst ?u))" by code_simp+
  then obtain e where u: "?u = (fst ?u, Some e)" by (cases ?u) (auto split: option.splits)
  have "sv_store one_job_service = Some [example_job]" "store_map one_job_service ''job'' = Some example_job"
    by (simp_all add: one_job_service_def store_map_def getJob_def sv_jobs_def example_job_def)
  from failed_update_leaks [OF this u, of "''other''"]
  have d: "json_job (fst ?u) \<in> set (sv_disk (snd (remove hourly_env plain_deps zero_clock ''other''
       (snd (update hourly_env plain_deps zero_clock ''job'' retarget_patch one_job_service)))))" by simp
  have "\<not> supported_job hourly_env None (fst ?u)"
    using c(2,3) by (auto simp: supported_job_def is_isolated_like_def)
  with u c(2) d show ?thesis by (auto simp: zero_clock_def)
qed


section \<open>Adding a job\<close>

lemma walk_length_eq: "length (fst (snd (recomputeNextRuns env t jobs))) = length jobs"
  by (simp add: recomputeNextRuns_def)

lemma recompute_nth:
  "n < length jobs \<Longrightarrow> fst (snd (recomputeNextRuns env t jobs)) ! n =
     fst (snd (walk_job (recompute_if_due env) t (jobs ! n)))"
  by (simp add: recomputeNextRuns_def walk_nth)

definition recomputed :: "cron_env \<Rightarrow> int \<Rightarrow> CronJob \<Rightarrow> CronJob" where
  "recomputed env t j = fst (snd (walk_job (recompute_if_due env) t j))"

lemma recomputed_same: "same_definition j (recomputed env t j)" "job_id (recomputed env t j) = job_id j"
proof -
  show s: "same_definition j (recomputed env t j)"
    unfolding recomputed_def by (rule walk_job_same) (rule step_same)
  then show "job_id (recomputed env t j) = job_id j" by (simp add: same_definition_def)
qed

lemma recompute_map: "fst (snd (recomputeNextRuns env t jobs)) = map (recomputed env t) jobs"
  by (rule nth_equalityI) (simp_all add: walk_length_eq recompute_nth recomputed_def)

lemma job_with_map: "(\<And>j. job_id (g j) = job_id j) \<Longrightarrow> job_with i (map g jobs) = map_option g (job_with i jobs)"
  by (induction jobs) (auto simp: job_with_def)

lemma created_job_id:
  assumes "createJob env d i now input = Inr job"
  shows "job_id job = i"
proof -
  from assms obtain s n j1 t where v: "validate_job env d (initial_job i now s n input) = Inr j1"
    and job: "job = set_state (\<lambda>s. s\<lparr>st_nextRunAtMs := t\<rparr>) j1"
    by (auto simp: createJob_def bind_ok_Inr)
  from validate_job_supported [OF v] show ?thesis by (auto simp: job initial_job_def)
qed

lemma add_result:
  assumes "add env deps clk nid input sv = (Inr job', sv')"
    and sv1: "sv1 = ensureLoaded env False (Some (oc_load clk)) sv"
  shows "\<exists>job. createJob env (cd_defaultAgentId deps) nid (oc_now clk) input = Inr job \<and>
    job' = recomputed env (oc_recompute clk) job \<and>
    sv_jobs sv' = map (recomputed env (oc_recompute clk)) (sv_jobs sv1 @ [job]) \<and>
    sv_disk sv' = map json_job (sv_jobs sv')"
proof -
  from assms obtain job where job: "createJob env (cd_defaultAgentId deps) nid (oc_now clk) input = Inr job"
    by (auto simp: add_def Let_def split: sum.splits)
  let ?jobs = "sv_jobs sv1 @ [job]"
  obtain ch effs where rec: "recomputeNextRuns env (oc_recompute clk) ?jobs =
      (ch, map (recomputed env (oc_recompute clk)) ?jobs, effs)"
    using recompute_map [of env "oc_recompute clk" ?jobs] by (metis prod.collapse)
  note s = set_jobs_loaded [OF loaded_store, of ?jobs env False "Some (oc_load clk)" sv, folded sv1]
  let ?sv2 = "snd (walk_store (recomputeNextRuns env (oc_recompute clk)) (set_jobs ?jobs sv1))"
  have st: "sv_store ?sv2 = Some (map (recomputed env (oc_recompute clk)) ?jobs)"
    by (simp add: walk_store_def s rec)
  then have js: "sv_jobs ?sv2 = map (recomputed env (oc_recompute clk)) ?jobs" by (simp add: sv_jobs_def)
  have d: "sv_disk (persist ?sv2) = map json_job (sv_jobs ?sv2)" by (simp add: persist_def st js)
  have a: "add env deps clk nid input sv =
    (Inr (last (sv_jobs ?sv2)), emit (job_event ''added'' (last (sv_jobs ?sv2))) (armTimer deps (oc_arm clk) (persist ?sv2)))"
    by (simp only: add_def Let_def job sum.case flip: sv1)
  have "job' = last (sv_jobs ?sv2)" "sv' = emit (job_event ''added'' job') (armTimer deps (oc_arm clk) (persist ?sv2))"
    using assms(1) unfolding a by auto
  then show ?thesis using job d by (simp add: js)
qed

text \<open>Adding a job under a fresh id refines the extension of the map: the id maps to the returned job,
  every other entry keeps its definition, nothing else appears, and the file equals the memory.\<close>

theorem add_refines_map:
  assumes "add env deps clk nid input sv = (Inr job', sv')"
    and "m = store_map (ensureLoaded env False (Some (oc_load clk)) sv)" and "m nid = None"
  shows "job_id job' = nid \<and> store_map sv' nid = Some job' \<and>
    (\<forall>k. k \<noteq> nid \<longrightarrow> rel_option same_definition (m k) (store_map sv' k)) \<and>
    sv_disk sv' = map json_job (sv_jobs sv')"
proof -
  let ?r = "recomputed env (oc_recompute clk)" and ?sv1 = "ensureLoaded env False (Some (oc_load clk)) sv"
  from add_result [OF assms(1) refl] obtain job where
    c: "createJob env (cd_defaultAgentId deps) nid (oc_now clk) input = Inr job" and j: "job' = ?r job"
    and js: "sv_jobs sv' = map ?r (sv_jobs ?sv1 @ [job])" and d: "sv_disk sv' = map json_job (sv_jobs sv')"
    by blast
  have i: "job_id job = nid" using c by (rule created_job_id)
  have m: "m = (\<lambda>k. job_with k (sv_jobs ?sv1))" by (simp add: assms(2) store_map_jobs)
  have "store_map sv' k = map_option ?r (job_with k (sv_jobs ?sv1 @ [job]))" for k
    by (simp only: store_map_jobs js job_with_map recomputed_same(2))
  moreover have "(\<lambda>k. job_with k (sv_jobs ?sv1 @ [job])) = m(nid \<mapsto> job)"
    using jt.append_map [of job "sv_jobs ?sv1"] assms(3) by (simp add: m i)
  ultimately have s: "store_map sv' k = map_option ?r ((m(nid \<mapsto> job)) k)" for k by metis
  have "rel_option same_definition (m k) (store_map sv' k)" if "k \<noteq> nid" for k
    using that recomputed_same(1) by (cases "m k") (simp_all add: s)
  then show ?thesis using d i by (simp add: s j recomputed_same(2))
qed

theorem add_refines_map_witness:
  "\<exists>job' sv'. add hourly_env plain_deps zero_clock ''new'' example_create one_job_service = (Inr job', sv') \<and>
     store_map sv' ''new'' = Some job' \<and> store_map sv' ''job'' \<noteq> None"
proof -
  let ?a = "add hourly_env plain_deps zero_clock ''new'' example_create one_job_service"
  have "(case fst ?a of Inl e \<Rightarrow> False | Inr j \<Rightarrow> True)" by code_simp
  then obtain job' where a: "?a = (Inr job', snd ?a)" by (cases ?a) (auto split: sum.splits)
  have l: "ensureLoaded hourly_env False t one_job_service = one_job_service" for t
    by (simp add: ensureLoaded_def one_job_service_def)
  have n: "store_map one_job_service ''new'' = None" "store_map one_job_service ''job'' = Some example_job"
    by (simp_all add: store_map_def getJob_def sv_jobs_def one_job_service_def example_job_def)
  have "store_map (ensureLoaded hourly_env False (Some (oc_load zero_clock)) one_job_service) ''new'' = None"
    by (simp add: l n)
  note r = add_refines_map [OF a refl this, unfolded l]
  have "rel_option same_definition (store_map one_job_service ''job'') (store_map (snd ?a) ''job'')"
    by (rule r [THEN conjunct2, THEN conjunct2, THEN conjunct1, rule_format]) simp
  then have s: "store_map (snd ?a) ''new'' = Some job'" "rel_option same_definition (Some example_job) (store_map (snd ?a) ''job'')"
    using r n by simp_all
  then have "store_map (snd ?a) ''job'' \<noteq> None" by (cases "store_map (snd ?a) ''job''") simp_all
  with s(1) a show ?thesis by (intro exI [of _ job'] exI [of _ "snd ?a"]) simp
qed


text \<open>Adding a job drops due runs: a cron job that is due at that moment, because its tick is late or
  still busy, gets its next firing time although nothing ran it, and is not due any more.\<close>

theorem add_skips_due_runs:
  assumes "sv_store sv = Some jobs" and "j \<in> set jobs" and "is_cron (job_schedule j)"
    and "isJobDue j (oc_recompute clk) False" and "add env deps clk nid input sv = (Inr job', sv')"
  shows "\<exists>j' \<in> set (sv_jobs sv'). job_id j' = job_id j \<and> \<not> isJobDue j' (oc_recompute clk) False \<and>
    st_lastRunAtMs (job_state j') = st_lastRunAtMs (job_state j) \<and> sv_disk sv' = map json_job (sv_jobs sv')"
proof -
  let ?now = "oc_recompute clk" and ?j = "recomputed env (oc_recompute clk) j"
  have l: "ensureLoaded env False t sv = sv" for t by (simp add: ensureLoaded_def assms(1))
  have js: "sv_jobs sv = jobs" by (simp add: sv_jobs_def assms(1))
  from add_result [OF assms(5) refl] assms(2) have mem: "?j \<in> set (sv_jobs sv')"
    and d: "sv_disk sv' = map json_job (sv_jobs sv')" by (auto simp: l js)
  from assms(4) obtain t where j: "job_enabled j" "st_nextRunAtMs (job_state j) = Some t" "t \<le> ?now"
    by (auto simp: isJobDue_def split: if_splits option.splits)
  let ?k = "tick_job ?now j"
  note tj = tick_job_enabled [where now = "oc_recompute clk", OF j(1)]
  have k: "is_cron (job_schedule ?k)" using tj(8) assms(3) by simp
  have r: "?j = fst (snd (recomputeJobNextRunAtMs env ?now ?k))"
    using j tj by (simp add: recomputed_def recompute_if_due_def)
  have "\<not> isJobDue ?j ?now False \<and> st_lastRunAtMs (job_state ?j) = st_lastRunAtMs (job_state j)"
  proof (cases "computeJobNextRunAtMs env ?k ?now")
    case (Inl e)
    then have "?j = fst (recordScheduleComputeError e ?k)"
      by (simp add: r recomputeJobNextRunAtMs_def split: prod.split)
    then show ?thesis using record_error_facts [where e = e and j = "tick_job (oc_recompute clk) j"] tj(3) by (simp add: isJobDue_def)
  next
    case (Inr n)
    have "\<not> (\<exists>t \<le> ?now. n = Some t)" using job_next_cron [where now = "oc_recompute clk" and env = env, OF k] Inr by auto
    with Inr tj(3) show ?thesis
      by (auto simp: r recomputeJobNextRunAtMs_def isJobDue_def split: option.split)
  qed
  with mem d recomputed_same(2) show ?thesis by blast
qed

definition due_store :: cron_service where
  "due_store = due_service\<lparr>sv_store := Some [due_example]\<rparr>"

theorem add_skips_due_runs_witness:
  "\<exists>j' \<in> set (sv_jobs (snd (add hourly_env plain_deps (zero_clock\<lparr>oc_recompute := 600\<rparr>) ''new'' example_create due_store))).
     job_id j' = ''job'' \<and> \<not> isJobDue j' 600 False \<and> isJobDue due_example 600 False"
proof -
  let ?a = "add hourly_env plain_deps (zero_clock\<lparr>oc_recompute := 600\<rparr>) ''new'' example_create due_store"
  have "(case fst ?a of Inl e \<Rightarrow> False | Inr j \<Rightarrow> True)" by code_simp
  then obtain job' where a: "?a = (Inr job', snd ?a)" by (cases ?a) (auto split: sum.splits)
  have due: "isJobDue due_example (oc_recompute (zero_clock\<lparr>oc_recompute := 600\<rparr>)) False" by code_simp
  have "sv_store due_store = Some [due_example]" "is_cron (job_schedule due_example)" "job_id due_example = ''job''"
    by (simp_all add: due_store_def due_example_def example_job_def is_cron_def)
  from add_skips_due_runs [OF this(1) _ this(2) due a] this(3) due show ?thesis by auto
qed



section \<open>Manual runs in the cron lane\<close>

text \<open>
  A run of the process as the queue sees it: requests for manual runs and any other event of the
  queue. The store may be anything at each request, as other operations change it in between.
\<close>

datatype manual_event =
    RequestRun cron_service int int int bool string
  | OtherEvent "int \<times> queue_event"

fun manual_step :: "cron_env \<Rightarrow> manual_queue \<Rightarrow> manual_event \<Rightarrow> manual_queue" where
  "manual_step env mq (RequestRun sv maintainNow now idNow forced i) =
     snd (snd (enqueueRun env maintainNow now idNow forced i (sv, mq)))"
| "manual_step env mq (OtherEvent e) = mq\<lparr>mq_queue := queue_step (mq_queue mq) e\<rparr>"

definition accepted :: "cron_env \<Rightarrow> manual_event \<Rightarrow> bool" where
  "accepted env e = (case e of
     RequestRun sv maintainNow now idNow forced i \<Rightarrow>
       (\<exists>t. fst (inspectManualRunPreflight env maintainNow now forced i sv) = Inr (Runnable t))
   | OtherEvent _ \<Rightarrow> False)"

definition queue_events :: "cron_env \<Rightarrow> manual_event \<Rightarrow> (int \<times> queue_event) list" where
  "queue_events env e = (case e of
     RequestRun sv maintainNow now idNow forced i \<Rightarrow>
       if accepted env e then [(idNow, EnqueueInLane cron_lane (Some 5000) True)] else []
   | OtherEvent q \<Rightarrow> [q])"

definition no_manual :: manual_queue where
  "no_manual = \<lparr>mq_counter = 1, mq_queue = initial_queue_state\<rparr>"

lemma manual_step_queue:
  "mq_queue (manual_step env mq e) = queue_run (mq_queue mq) (queue_events env e) \<and>
   mq_counter (manual_step env mq e) = mq_counter mq + (if accepted env e then 1 else 0)"
proof (cases e)
  case (RequestRun sv m now t f i)
  obtain r sv1 where p: "inspectManualRunPreflight env m now f i sv = (r, sv1)" by fastforce
  show ?thesis
  proof (cases r)
    case (Inl x)
    then show ?thesis by (simp add: RequestRun enqueueRun_def p accepted_def queue_events_def queue_run_def)
  next
    case (Inr d)
    then show ?thesis
      by (cases d) (simp_all add: RequestRun enqueueRun_def p accepted_def queue_events_def queue_run_def)
  qed
next
  case (OtherEvent q)
  then show ?thesis by (simp add: accepted_def queue_events_def queue_run_def)
qed

lemma manual_run_queue:
  "mq_queue (foldl (manual_step env) mq es) = queue_run (mq_queue mq) (concat (map (queue_events env) es)) \<and>
   mq_counter (foldl (manual_step env) mq es) = mq_counter mq + length (filter (accepted env) es)"
proof (induction es arbitrary: mq)
  case (Cons e es)
  from Cons [of "manual_step env mq e"] manual_step_queue [of env mq e] show ?case
    by (simp add: queue_run_def)
qed (simp add: queue_run_def)

lemma enqueue_next_promise [simp]:
  "next_promise (enqueueCommandInLane now l w b st) = Suc (next_promise st)"
proof -
  have p: "next_promise (pump now l st) = next_promise st" for now l st
    by (simp add: pump_def emit_effects_def put_lane_def Let_def split: prod.split)
  have g: "next_promise (snd (getLaneState l st)) = next_promise st" for l st
    by (simp add: getLaneState_def put_lane_def split: option.split)
  have d: "next_promise (drainLane now l st) = next_promise st" for now l st
    using g [of l st] by (cases "getLaneState l st") (simp add: drainLane_def p put_lane_def)
  show ?thesis
    using g [of "normalizeLane l" "st\<lparr>next_promise := Suc (next_promise st)\<rparr>"]
    by (cases "getLaneState (normalizeLane l) (st\<lparr>next_promise := Suc (next_promise st)\<rparr>)")
      (simp add: enqueueCommandInLane_def Let_def emit_effects_def d put_lane_def)
qed




end
