(* ===== verification/SortLemmas.thy ===== *)
theory SortLemmas
  imports Prelude "HOL-Library.Multiset"
begin

text \<open>
  \<open>Array.prototype.toSorted\<close> with a comparison function, shared by the listing of cron jobs and the order of
  credentials: which comparison functions order, and what sorting with them gives.
\<close>

text \<open>A comparison function that orders: the two directions agree and it is transitive.\<close>

definition consistent :: "('a \<Rightarrow> 'a \<Rightarrow> int) \<Rightarrow> bool" where
  "consistent cmp \<longleftrightarrow> (\<forall>a b. cmp a b \<le> 0 \<longleftrightarrow> 0 \<le> cmp b a) \<and>
     (\<forall>a b c. cmp a b \<le> 0 \<longrightarrow> cmp b c \<le> 0 \<longrightarrow> cmp a c \<le> 0)"

lemma consistentI:
  assumes "\<And>a b. cmp a b \<le> 0 \<longleftrightarrow> 0 \<le> cmp b a" "\<And>a b c. cmp a b \<le> 0 \<Longrightarrow> cmp b c \<le> 0 \<Longrightarrow> cmp a c \<le> 0"
  shows "consistent cmp"
  unfolding consistent_def using assms by blast

lemma consistentD:
  assumes "consistent cmp"
  shows "cmp a b \<le> 0 \<longleftrightarrow> 0 \<le> cmp b a" "cmp a b \<le> 0 \<Longrightarrow> cmp b c \<le> 0 \<Longrightarrow> cmp a c \<le> 0"
  using assms unfolding consistent_def by blast+

lemma consistent_swap: "consistent cmp \<Longrightarrow> cmp a b < 0 \<longleftrightarrow> 0 < cmp b a"
  using consistentD(1) [of cmp b a] by linarith

lemma consistent_zero: "consistent cmp \<Longrightarrow> cmp a b = 0 \<longleftrightarrow> cmp b a = 0"
  using consistentD(1) [of cmp a b] consistentD(1) [of cmp b a] by linarith

lemma consistent_pullback: "consistent cmp \<Longrightarrow> consistent (\<lambda>a b. cmp (f a) (f b))"
  unfolding consistent_def by blast

lemma consistent_neg:
  assumes "consistent cmp"
  shows "consistent (\<lambda>a b. - cmp a b)"
proof (rule consistentI)
  show "- cmp a b \<le> 0 \<longleftrightarrow> 0 \<le> - cmp b a" for a b using consistentD(1) [OF assms, of b a] by linarith
  show "- cmp a c \<le> 0" if "- cmp a b \<le> 0" "- cmp b c \<le> 0" for a b c
    using that consistentD(1) [OF assms, of b a] consistentD(1) [OF assms, of c b]
      consistentD(1) [OF assms, of c a] consistentD(2) [OF assms, of c b a] by linarith
qed

lemma consistent_lex:
  assumes c1: "consistent c1" and c2: "consistent c2"
  shows "consistent (\<lambda>a b. if c1 a b \<noteq> 0 then c1 a b else c2 a b)"
proof (rule consistentI)
  show "(if c1 a b \<noteq> 0 then c1 a b else c2 a b) \<le> 0 \<longleftrightarrow> 0 \<le> (if c1 b a \<noteq> 0 then c1 b a else c2 b a)" for a b
    using consistent_zero [OF c1, of a b] consistentD(1) [OF c1, of a b] consistentD(1) [OF c2, of a b] by simp
  show "(if c1 a c \<noteq> 0 then c1 a c else c2 a c) \<le> 0"
    if ab: "(if c1 a b \<noteq> 0 then c1 a b else c2 a b) \<le> 0" and bc: "(if c1 b c \<noteq> 0 then c1 b c else c2 b c) \<le> 0" for a b c
  proof -
    have le: "c1 a b \<le> 0" "c1 b c \<le> 0" using ab bc by (auto split: if_split_asm)
    note ac = consistentD(2) [OF c1 le]
    show ?thesis
    proof (cases "c1 a c = 0")
      case True
      then have "c1 c a \<le> 0" using consistent_zero [OF c1, of a c] by simp
      from consistentD(2) [OF c1 this le(1)] consistentD(2) [OF c1 le(2) this]
      have "c1 c b \<le> 0" "c1 b a \<le> 0" .
      with le have "c1 a b = 0" "c1 b c = 0"
        using consistentD(1) [OF c1, of c b] consistentD(1) [OF c1, of b a] by linarith+
      with True ab bc consistentD(2) [OF c2, of a b c] show ?thesis by simp
    next
      case False
      with ac show ?thesis by simp
    qed
  qed
qed

lemma consistent_diff: "consistent (\<lambda>a b. f a - f b)" for f :: "'a \<Rightarrow> int"
  by (rule consistentI) linarith+

lemma mset_sort_with: "mset (sort_with cmp xs) = mset xs"
proof -
  have "mset (insert_by cmp x ys) = add_mset x (mset ys)" for x ys by (induction ys) auto
  then show ?thesis by (induction xs) (simp_all add: sort_with_def)
qed

lemma sorted_sort_with:
  assumes "consistent cmp"
  shows "sorted_wrt (\<lambda>a b. cmp a b \<le> 0) (sort_with cmp xs)"
proof -
  have set: "set (insert_by cmp x ys) = insert x (set ys)" for x ys by (induction ys) auto
  have "sorted_wrt (\<lambda>a b. cmp a b \<le> 0) ys \<Longrightarrow> sorted_wrt (\<lambda>a b. cmp a b \<le> 0) (insert_by cmp x ys)" for x ys
  proof (induction ys)
    case (Cons y ys)
    show ?case
    proof (cases "cmp x y \<le> 0")
      case True
      with Cons.prems show ?thesis using consistentD(2) [OF assms True] by auto
    next
      case False
      then have "cmp y x \<le> 0" using consistentD(1) [OF assms, of y x] by simp
      with Cons False show ?thesis by (simp add: set)
    qed
  qed simp
  then show ?thesis by (induction xs) (simp_all add: sort_with_def)
qed

lemma set_sort_with [simp]: "set (sort_with cmp xs) = set xs"
  using mset_sort_with [of cmp xs] by (metis set_mset_mset)

lemma distinct_sort_with [simp]: "distinct (sort_with cmp xs) = distinct xs"
  using mset_sort_with [of cmp xs] by (metis mset_eq_imp_distinct_iff)

end
