(* ===== verification/CronListProps.thy ===== *)
theory CronListProps
  imports CronOps CronScheduleProps SortLemmas
begin

text \<open>
  What the paged list promises: its order, and that following the next offset visits every job
  that matches exactly once.
\<close>

section \<open>Comparison functions\<close>

lemma consistent_compare_next: "consistent compare_next"
  by (rule consistentI) (auto simp: compare_next_def split: option.splits)

lemma consistent_compare_jobs:
  assumes "consistent (co_base co)" and "consistent (co_ids co)"
  shows "consistent (compare_jobs co by_key desc)"
proof -
  have i: "consistent (\<lambda>a b. co_ids co (job_id a) (job_id b))" by (rule consistent_pullback [OF assms(2)])
  have lex: "consistent (\<lambda>a b. if c a b \<noteq> 0 then (if desc then - c a b else c a b) else co_ids co (job_id a) (job_id b))"
    if c: "consistent c" for c :: "CronJob \<Rightarrow> CronJob \<Rightarrow> int"
  proof (cases desc)
    case True
    then show ?thesis using consistent_lex [OF consistent_neg [OF c] i] by (simp cong: if_cong)
  next
    case False
    then show ?thesis using consistent_lex [OF c i] by (simp cong: if_cong)
  qed
  show ?thesis
  proof (cases by_key)
    case ByNextRun
    then show ?thesis unfolding compare_jobs_def Let_def using lex [OF consistent_compare_next] by (simp only: ByNextRun sort_by.case)
  next
    case ByUpdated
    then show ?thesis unfolding compare_jobs_def Let_def using lex [OF consistent_diff [of job_updatedAtMs]] by (simp only: ByUpdated sort_by.case)
  next
    case ByName
    then show ?thesis unfolding compare_jobs_def Let_def
      using lex [OF consistent_pullback [OF assms(1), of job_name]] by (simp only: ByName sort_by.case)
  qed
qed

section \<open>Pages\<close>

text \<open>The jobs a listing is about, in its order, and the client that follows the next offset.\<close>

definition matching_jobs :: "cron_env \<Rightarrow> list_opts \<Rightarrow> int \<Rightarrow> cron_service \<Rightarrow> CronJob list" where
  "matching_jobs env opts now sv =
     filter (\<lambda>j. passes_filter (resolveEnabledFilter opts) j \<and>
        matches_query (case lo_query opts of None \<Rightarrow> [] | Some q \<Rightarrow> to_lower (trim q)) j)
       (sv_jobs (ensureLoadedForRead env now sv))"

definition opts_order :: "collation \<Rightarrow> list_opts \<Rightarrow> CronJob \<Rightarrow> CronJob \<Rightarrow> int" where
  "opts_order co opts = compare_jobs co (case lo_sortBy opts of None \<Rightarrow> ByNextRun | Some b \<Rightarrow> b) (lo_desc opts)"

fun all_pages :: "nat \<Rightarrow> cron_env \<Rightarrow> collation \<Rightarrow> list_opts \<Rightarrow> int \<Rightarrow> cron_service \<Rightarrow> CronJob list" where
  "all_pages 0 env co opts now sv = []"
| "all_pages (Suc n) env co opts now sv =
     (let p = fst (listPage env co opts now sv) in
      lr_jobs p @ (case lr_nextOffset p of
        None \<Rightarrow> []
      | Some k \<Rightarrow> all_pages n env co (opts\<lparr>lo_offset := Some (of_nat k)\<rparr>) now sv))"

lemma listPage_page:
  "fst (listPage env co opts now sv) = page_of opts (sort_with (opts_order co opts) (matching_jobs env opts now sv))"
  by (simp add: listPage_def Let_def sortJobs_def opts_order_def matching_jobs_def)

lemma ignore_offset [simp]:
  "matching_jobs env (opts\<lparr>lo_offset := x\<rparr>) now sv = matching_jobs env opts now sv"
  "opts_order co (opts\<lparr>lo_offset := x\<rparr>) = opts_order co opts"
  by (simp_all add: matching_jobs_def opts_order_def resolveEnabledFilter_def)

definition page_limit :: "list_opts \<Rightarrow> nat \<Rightarrow> nat" where
  "page_limit opts n = nat (max 1 (min 200 \<lfloor>case lo_limit opts of
     None \<Rightarrow> (if n = 0 then 50 else of_nat n) | Some r \<Rightarrow> r\<rfloor>))"

lemma page_limit_bounds: "1 \<le> page_limit opts n" "page_limit opts n \<le> 200"
proof -
  have "1 \<le> nat (max 1 (min 200 x))" "nat (max 1 (min 200 x)) \<le> 200" for x :: int
    by (simp_all add: le_nat_iff nat_le_iff)
  then show "1 \<le> page_limit opts n" "page_limit opts n \<le> 200" unfolding page_limit_def by blast+
qed

lemma page_limit_fold: "page_of opts xs =
  (let offset = nat (max 0 (min (int (length xs)) \<lfloor>case lo_offset opts of None \<Rightarrow> 0 | Some r \<Rightarrow> r\<rfloor>));
       jobs = take (page_limit opts (length xs)) (drop offset xs);
       n = offset + length jobs
   in \<lparr>lr_jobs = jobs, lr_total = length xs, lr_offset = offset, lr_limit = page_limit opts (length xs),
       lr_hasMore = (n < length xs), lr_nextOffset = (if n < length xs then Some n else None)\<rparr>)"
  unfolding page_of_def page_limit_def Let_def ..

lemma page_at:
  assumes "k \<le> length xs"
  shows "lr_jobs (page_of (opts\<lparr>lo_offset := Some (of_nat k)\<rparr>) xs) = take (page_limit opts (length xs)) (drop k xs)"
    and "lr_nextOffset (page_of (opts\<lparr>lo_offset := Some (of_nat k)\<rparr>) xs) =
      (let n = k + length (take (page_limit opts (length xs)) (drop k xs)) in if n < length xs then Some n else None)"
proof -
  have "min (int (length xs)) (int k) = int k" using assms by simp
  then have o: "nat (max 0 (min (int (length xs)) \<lfloor>of_nat k :: rat\<rfloor>)) = k" by simp
  have l: "page_limit (opts\<lparr>lo_offset := x\<rparr>) n = page_limit opts n" for x n by (simp add: page_limit_def)
  have f: "lo_offset (opts\<lparr>lo_offset := x\<rparr>) = x" for x by simp
  show "lr_jobs (page_of (opts\<lparr>lo_offset := Some (of_nat k)\<rparr>) xs) = take (page_limit opts (length xs)) (drop k xs)"
    "lr_nextOffset (page_of (opts\<lparr>lo_offset := Some (of_nat k)\<rparr>) xs) =
      (let n = k + length (take (page_limit opts (length xs)) (drop k xs)) in if n < length xs then Some n else None)"
    by (simp_all only: page_limit_fold Let_def l f option.case o list_page.simps)
qed

lemma pages_from:
  assumes "k \<le> length (matching_jobs env opts now sv)" and "length (matching_jobs env opts now sv) - k < n"
  shows "all_pages n env co (opts\<lparr>lo_offset := Some (of_nat k)\<rparr>) now sv =
    drop k (sort_with (opts_order co opts) (matching_jobs env opts now sv))"
  using assms
proof (induction n arbitrary: k)
  case (Suc n)
  let ?xs = "sort_with (opts_order co opts) (matching_jobs env opts now sv)"
  let ?l = "page_limit opts (length ?xs)"
  have len: "length ?xs = length (matching_jobs env opts now sv)"
    by (metis mset_sort_with size_mset)
  then have k: "k \<le> length ?xs" using Suc.prems by simp
  note p = page_at [OF k, of opts]
  show ?case
  proof (cases "k + length (take ?l (drop k ?xs)) < length ?xs")
    case False
    then have "take ?l (drop k ?xs) = drop k ?xs" by (simp add: min_def split: if_split_asm)
    with False show ?thesis by (simp add: listPage_page p Let_def)
  next
    case True
    then have next': "k + length (take ?l (drop k ?xs)) = k + ?l" by (simp add: min_def split: if_split_asm)
    have "all_pages n env co (opts\<lparr>lo_offset := Some (of_nat (k + ?l))\<rparr>) now sv = drop (k + ?l) ?xs"
      using Suc.IH [of "k + ?l"] Suc.prems True page_limit_bounds(1) [of opts "length ?xs"]
      unfolding next' by (simp add: len)
    moreover have "take ?l (drop k ?xs) @ drop (k + ?l) ?xs = drop k ?xs"
      by (metis append_take_drop_id drop_drop add.commute)
    ultimately show ?thesis using True unfolding next' by (simp add: listPage_page p Let_def next')
  qed
qed simp

text \<open>Paging covers the list: a client that starts at offset 0 and follows the next offset, whatever its
  limit, gets every job that matches the filter and the query exactly once and in the
  requested order, after at most one page more than there are jobs, each of at most 200 jobs.\<close>

theorem listing_pages_cover:
  assumes "consistent (co_base co)" and "consistent (co_ids co)"
  shows "let opts0 = opts\<lparr>lo_offset := Some 0\<rparr>; p = fst (listPage env co opts0 now sv);
             pages = all_pages (Suc (lr_total p)) env co opts0 now sv in
    mset pages = mset (matching_jobs env opts now sv) \<and>
    sorted_wrt (\<lambda>a b. opts_order co opts a b \<le> 0) pages \<and> length (lr_jobs p) \<le> 200"
proof -
  let ?xs = "sort_with (opts_order co opts) (matching_jobs env opts now sv)"
  let ?p = "fst (listPage env co (opts\<lparr>lo_offset := Some 0\<rparr>) now sv)"
  have len: "length ?xs = length (matching_jobs env opts now sv)" by (metis mset_sort_with size_mset)
  have t: "lr_total ?p = length ?xs" by (simp add: listPage_page page_of_def Let_def)
  have c: "consistent (opts_order co opts)"
    unfolding opts_order_def by (rule consistent_compare_jobs [OF assms])
  have pages: "all_pages (Suc (lr_total ?p)) env co (opts\<lparr>lo_offset := Some 0\<rparr>) now sv = ?xs"
    using pages_from [of 0 env opts now sv "Suc (lr_total ?p)" co] by (simp add: t len del: all_pages.simps)
  have "length (lr_jobs ?p) \<le> 200"
    using page_at(1) [of 0 ?xs opts] page_limit_bounds(2) [of opts "length ?xs"]
    by (simp add: listPage_page)
  then show ?thesis unfolding Let_def pages using sorted_sort_with [OF c] by (simp add: mset_sort_with)
qed

definition length_collation :: collation where
  "length_collation = \<lparr>co_base = (\<lambda>a b. int (length a) - int (length b)), co_ids = (\<lambda>a b. int (length a) - int (length b))\<rparr>"

definition page_opts :: list_opts where
  "page_opts = \<lparr>lo_includeDisabled = True, lo_limit = Some (3/2), lo_offset = None, lo_query = None,
     lo_enabled = None, lo_sortBy = Some ByName, lo_desc = False\<rparr>"


theorem listing_pages_cover_witness:
  "let opts0 = page_opts\<lparr>lo_offset := Some 0\<rparr>;
       sv = createCronServiceState [set_next (Some 5) example_job, set_next (Some 7) (example_job\<lparr>job_id := ''b''\<rparr>)];
       pages = all_pages 3 hourly_env length_collation opts0 0 sv in
   mset (map job_id pages) = {#''job'', ''b''#} \<and> lr_nextOffset (fst (listPage hourly_env length_collation opts0 0 sv)) = Some 1"
proof -
  let ?o = "page_opts\<lparr>lo_offset := Some 0\<rparr>"
  let ?s = "createCronServiceState [set_next (Some 5) example_job, set_next (Some 7) (example_job\<lparr>job_id := ''b''\<rparr>)]"
  have c: "consistent (co_base length_collation)" "consistent (co_ids length_collation)"
    by (simp_all add: length_collation_def consistent_diff)
  have p: "lr_nextOffset (fst (listPage hourly_env length_collation ?o 0 ?s)) = Some 1"
    "lr_total (fst (listPage hourly_env length_collation ?o 0 ?s)) = 2"
    "map job_id (matching_jobs hourly_env page_opts 0 ?s) = [''job'', ''b'']" by code_simp+
  from listing_pages_cover [OF c, of page_opts hourly_env 0 ?s]
  have "mset (all_pages (Suc 2) hourly_env length_collation ?o 0 ?s) = mset (matching_jobs hourly_env page_opts 0 ?s)"
    by (simp only: Let_def p)
  then have "image_mset job_id (mset (all_pages 3 hourly_env length_collation ?o 0 ?s)) = mset [''job'', ''b'']"
    by (metis mset_map p(3) numeral_3_eq_3 numeral_2_eq_2)
  with p show ?thesis by (simp add: Let_def)
qed

end
