(* ===== verification/NetIp.thy ===== *)
theory NetIp
  imports Prelude "HOL-Library.Word"
begin

text \<open>
  Addresses and the identity of a client: \<open>src/shared/net/ip.ts\<close> (parsing and classifying addresses)
  and \<open>src/gateway/net.ts\<close> (the client behind trusted proxies, host names, bind hosts).

  The package \<open>ipaddr.js\<close> and Node's \<open>net.isIP\<close> and \<open>URL\<close> are the fields of \<open>ip_lib\<close>. An IPv4
  address has four octets, an IPv6 address eight hextets and an optional zone.
\<close>

unbundle bit_operations_syntax

section \<open>The library\<close>

datatype ip_address = IPv4 "8 word list" | IPv6 "16 word list" "string option"

record url_parts =
  up_protocol :: string
  up_origin :: string
  up_host :: string
  up_hostname :: string

record ip_lib =
  il_v4 :: "string \<Rightarrow> 8 word list option"
  il_four_part :: "string \<Rightarrow> bool"
  il_v6 :: "string \<Rightarrow> (16 word list \<times> string option) option"
  il_parse :: "string \<Rightarrow> ip_address option"
  il_mapped :: "16 word list \<Rightarrow> 8 word list option"
  il_show :: "ip_address \<Rightarrow> string"
  il_range :: "ip_address \<Rightarrow> string"
  il_match :: "ip_address \<Rightarrow> ip_address \<Rightarrow> nat \<Rightarrow> bool option"
  il_cidr :: "string \<Rightarrow> (ip_address \<times> nat) option"
  il_node :: "string \<Rightarrow> nat"
  il_url :: "string \<Rightarrow> url_parts option"

section \<open>Parsing\<close>

definition bracketed :: "string \<Rightarrow> bool" where
  "bracketed s \<longleftrightarrow> s \<noteq> [] \<and> hd s = CHR ''['' \<and> last s = CHR '']''"

definition stripIpv6Brackets :: "string \<Rightarrow> string" where
  "stripIpv6Brackets s = (if bracketed s then butlast (tl s) else s)"

definition is_alnum :: "char \<Rightarrow> bool" where
  "is_alnum c = (let n = (of_char c :: nat) in
     48 \<le> n \<and> n \<le> 57 \<or> 65 \<le> n \<and> n \<le> 90 \<or> 97 \<le> n \<and> n \<le> 122)"

definition is_dec :: "char \<Rightarrow> bool" where
  "is_dec c = (let n = (of_char c :: nat) in 48 \<le> n \<and> n \<le> 57)"

definition is_hex :: "char \<Rightarrow> bool" where
  "is_hex c = (let n = (of_char c :: nat) in
     48 \<le> n \<and> n \<le> 57 \<or> 65 \<le> n \<and> n \<le> 70 \<or> 97 \<le> n \<and> n \<le> 102)"

text \<open>\<open>split_last c s\<close> cuts at the last \<open>c\<close>, which goes to the left part.\<close>

definition split_last :: "char \<Rightarrow> string \<Rightarrow> string \<times> string" where
  "split_last c s = (rev (dropWhile (\<lambda>x. x \<noteq> c) (rev s)), rev (takeWhile (\<lambda>x. x \<noteq> c) (rev s)))"

definition decimal_value :: "string \<Rightarrow> nat" where
  "decimal_value s = foldl (\<lambda>n c. n * 10 + (of_char c - 48)) 0 s"

definition hex_digit :: "nat \<Rightarrow> char" where
  "hex_digit n = (if n < 10 then char_of (48 + n) else char_of (87 + n))"

text \<open>\<open>toString(16)\<close> of a number below 2 to the 16.\<close>

definition show_hex :: "16 word \<Rightarrow> string" where
  "show_hex w = (let ds = map (\<lambda>k. unat (drop_bit k w AND 15)) [12, 8, 4];
                     lead = dropWhile (\<lambda>d. d = 0) ds
                 in map hex_digit (lead @ [unat (w AND 15)]))"

definition hextet :: "8 word \<Rightarrow> 8 word \<Rightarrow> 16 word" where
  "hextet hi lo = push_bit 8 (ucast hi) OR ucast lo"

text \<open>
  The regular expression: a prefix up to the last colon, four decimal parts, an optional zone. What
  it asks of the four parts is implied by \<open>isValidFourPartDecimal\<close>.
\<close>

definition embedded_parts :: "string \<Rightarrow> (string \<times> string \<times> string) option" where
  "embedded_parts raw =
     (let (zp, zs) = split_last (CHR ''%'') raw;
          zoned = (zp \<noteq> [] \<and> zs \<noteq> [] \<and> list_all is_alnum zs);
          body = (if zoned then butlast zp else raw);
          zone = (if zoned then CHR ''%'' # zs else []);
          (prefix, four) = split_last (CHR '':'') body
      in if prefix = [] \<or> CHR ''%'' \<in> set four \<or> CHR 0x0A \<in> set prefix \<or> CHR 0x0D \<in> set prefix
         then None else Some (prefix, four, zone))"

definition parseIpv6WithEmbeddedIpv4 :: "ip_lib \<Rightarrow> string \<Rightarrow> ip_address option" where
  "parseIpv6WithEmbeddedIpv4 lib raw =
     (if CHR '':'' \<notin> set raw \<or> CHR ''.'' \<notin> set raw then None
      else (case embedded_parts raw of
              None \<Rightarrow> None
            | Some (prefix, four, zone) \<Rightarrow>
                if \<not> il_four_part lib four then None
                else (case map (\<lambda>p. of_nat (decimal_value p)) (split_on (CHR ''.'') four) of
                        [a, b, c, d] \<Rightarrow>
                          map_option (\<lambda>(p, z). IPv6 p z)
                            (il_v6 lib (prefix @ show_hex (hextet a b) @ '':'' @ show_hex (hextet c d) @ zone))
                      | _ \<Rightarrow> None)))"

definition normalizeIpv4MappedAddress :: "ip_lib \<Rightarrow> ip_address \<Rightarrow> ip_address" where
  "normalizeIpv4MappedAddress lib a =
     (case a of
        IPv4 o4 \<Rightarrow> a
      | IPv6 p z \<Rightarrow> (case il_mapped lib p of None \<Rightarrow> a | Some o4 \<Rightarrow> IPv4 o4))"

definition normalizeIpParseInput :: "string option \<Rightarrow> string option" where
  "normalizeIpParseInput raw = map_option stripIpv6Brackets (trimmed_opt raw)"

definition parseCanonicalIpAddress :: "ip_lib \<Rightarrow> string option \<Rightarrow> ip_address option" where
  "parseCanonicalIpAddress lib raw =
     (case normalizeIpParseInput raw of
        None \<Rightarrow> None
      | Some n \<Rightarrow>
          if n = [] then None
          else (case il_v4 lib n of
                  Some o4 \<Rightarrow> if il_four_part lib n then Some (IPv4 o4) else None
                | None \<Rightarrow>
                    (case il_v6 lib n of
                       Some (p, z) \<Rightarrow> Some (IPv6 p z)
                     | None \<Rightarrow> parseIpv6WithEmbeddedIpv4 lib n)))"

definition parseLooseIpAddress :: "ip_lib \<Rightarrow> string option \<Rightarrow> ip_address option" where
  "parseLooseIpAddress lib raw =
     (case normalizeIpParseInput raw of
        None \<Rightarrow> None
      | Some n \<Rightarrow>
          if n = [] then None
          else (case il_parse lib n of
                  Some a \<Rightarrow> Some a
                | None \<Rightarrow> parseIpv6WithEmbeddedIpv4 lib n))"

definition normalizeIpAddress :: "ip_lib \<Rightarrow> string option \<Rightarrow> string option" where
  "normalizeIpAddress lib raw =
     map_option (\<lambda>a. to_lower (il_show lib (normalizeIpv4MappedAddress lib a))) (parseCanonicalIpAddress lib raw)"

definition isCanonicalDottedDecimalIPv4 :: "ip_lib \<Rightarrow> string option \<Rightarrow> bool" where
  "isCanonicalDottedDecimalIPv4 lib raw =
     (case trimmed_opt raw of
        None \<Rightarrow> False
      | Some t \<Rightarrow> stripIpv6Brackets t \<noteq> [] \<and> il_four_part lib (stripIpv6Brackets t))"

definition isNumericIpv4LiteralPart :: "string \<Rightarrow> bool" where
  "isNumericIpv4LiteralPart v \<longleftrightarrow>
     v \<noteq> [] \<and> list_all is_dec v \<or>
     2 < length v \<and> hd v = CHR ''0'' \<and> lower_char (v ! 1) = CHR ''x'' \<and> list_all is_hex (drop 2 v)"

definition isLegacyIpv4Literal :: "ip_lib \<Rightarrow> string option \<Rightarrow> bool" where
  "isLegacyIpv4Literal lib raw =
     (case trimmed_opt raw of
        None \<Rightarrow> False
      | Some t \<Rightarrow>
          (let n = stripIpv6Brackets t; parts = split_on (CHR ''.'') n in
           if n = [] \<or> CHR '':'' \<in> set n then False
           else if isCanonicalDottedDecimalIPv4 lib (Some n) then False
           else if parts = [] \<or> 4 < length parts then False
           else if list_ex (\<lambda>p. p = []) parts then False
           else list_all isNumericIpv4LiteralPart parts))"

section \<open>Classes of addresses\<close>

definition isLoopbackIpAddress :: "ip_lib \<Rightarrow> string option \<Rightarrow> bool" where
  "isLoopbackIpAddress lib raw =
     (case parseCanonicalIpAddress lib raw of
        None \<Rightarrow> False
      | Some a \<Rightarrow> il_range lib (normalizeIpv4MappedAddress lib a) = ''loopback'')"

definition PRIVATE_OR_LOOPBACK_IPV4_RANGES :: "string list" where
  "PRIVATE_OR_LOOPBACK_IPV4_RANGES = [''loopback'', ''private'', ''linkLocal'', ''carrierGradeNat'']"

definition BLOCKED_IPV4_SPECIAL_USE_RANGES :: "string list" where
  "BLOCKED_IPV4_SPECIAL_USE_RANGES = [''unspecified'', ''broadcast'', ''multicast'', ''linkLocal'', ''loopback'',
     ''carrierGradeNat'', ''private'', ''reserved'']"

definition BLOCKED_IPV6_SPECIAL_USE_RANGES :: "string list" where
  "BLOCKED_IPV6_SPECIAL_USE_RANGES = [''unspecified'', ''loopback'', ''linkLocal'', ''uniqueLocal'', ''multicast'',
     ''reserved'', ''benchmarking'', ''discard'', ''orchid2'']"

text \<open>The address has eight hextets; a missing one would be \<open>undefined\<close>, whose bits are zero.\<close>

definition hextet_at :: "16 word list \<Rightarrow> nat \<Rightarrow> 16 word" where
  "hextet_at parts i = (if i < length parts then parts ! i else 0)"

definition isBlockedSpecialUseIpv6Address :: "ip_lib \<Rightarrow> 16 word list \<Rightarrow> string option \<Rightarrow> bool" where
  "isBlockedSpecialUseIpv6Address lib parts zone \<longleftrightarrow>
     il_range lib (IPv6 parts zone) \<in> set BLOCKED_IPV6_SPECIAL_USE_RANGES \<or>
     hextet_at parts 0 AND 0xffc0 = 0xfec0"

definition isPrivateOrLoopbackIpAddress :: "ip_lib \<Rightarrow> string option \<Rightarrow> bool" where
  "isPrivateOrLoopbackIpAddress lib raw =
     (case parseCanonicalIpAddress lib raw of
        None \<Rightarrow> False
      | Some a \<Rightarrow>
          (case normalizeIpv4MappedAddress lib a of
             IPv4 o4 \<Rightarrow> il_range lib (IPv4 o4) \<in> set PRIVATE_OR_LOOPBACK_IPV4_RANGES
           | IPv6 p z \<Rightarrow> isBlockedSpecialUseIpv6Address lib p z))"

definition v4_in_range :: "ip_lib \<Rightarrow> string \<Rightarrow> string option \<Rightarrow> bool" where
  "v4_in_range lib rng raw =
     (case parseCanonicalIpAddress lib raw of
        Some (IPv4 o4) \<Rightarrow> il_range lib (IPv4 o4) = rng
      | _ \<Rightarrow> False)"

definition isRfc1918Ipv4Address :: "ip_lib \<Rightarrow> string option \<Rightarrow> bool" where
  "isRfc1918Ipv4Address lib raw = v4_in_range lib ''private'' raw"

definition isCarrierGradeNatIpv4Address :: "ip_lib \<Rightarrow> string option \<Rightarrow> bool" where
  "isCarrierGradeNatIpv4Address lib raw = v4_in_range lib ''carrierGradeNat'' raw"

definition isBlockedSpecialUseIpv4Address :: "ip_lib \<Rightarrow> bool \<Rightarrow> 8 word list \<Rightarrow> bool" where
  "isBlockedSpecialUseIpv4Address lib allowRfc2544BenchmarkRange o4 =
     (let benchmark = (il_match lib (IPv4 o4) (IPv4 [198, 18, 0, 0]) 15 = Some True) in
      if benchmark \<and> allowRfc2544BenchmarkRange then False
      else il_range lib (IPv4 o4) \<in> set BLOCKED_IPV4_SPECIAL_USE_RANGES \<or> benchmark)"

section \<open>Embedded IPv4 addresses\<close>

definition decodeIpv4FromHextets :: "16 word \<Rightarrow> 16 word \<Rightarrow> 8 word list" where
  "decodeIpv4FromHextets high low =
     [ucast (drop_bit 8 high AND 0xff), ucast (high AND 0xff), ucast (drop_bit 8 low AND 0xff), ucast (low AND 0xff)]"

text \<open>The rules in their order: IPv4-compatible, NAT64 local-use, 6to4, Teredo, ISATAP.\<close>

definition sentinel_rules :: "((16 word list \<Rightarrow> bool) \<times> (16 word list \<Rightarrow> 16 word \<times> 16 word)) list" where
  "sentinel_rules =
     [(\<lambda>p. hextet_at p 0 = 0 \<and> hextet_at p 1 = 0 \<and> hextet_at p 2 = 0 \<and> hextet_at p 3 = 0 \<and>
           hextet_at p 4 = 0 \<and> hextet_at p 5 = 0, \<lambda>p. (hextet_at p 6, hextet_at p 7)),
      (\<lambda>p. hextet_at p 0 = 0x0064 \<and> hextet_at p 1 = 0xff9b \<and> hextet_at p 2 = 0x0001 \<and> hextet_at p 3 = 0 \<and>
           hextet_at p 4 = 0 \<and> hextet_at p 5 = 0, \<lambda>p. (hextet_at p 6, hextet_at p 7)),
      (\<lambda>p. hextet_at p 0 = 0x2002, \<lambda>p. (hextet_at p 1, hextet_at p 2)),
      (\<lambda>p. hextet_at p 0 = 0x2001 \<and> hextet_at p 1 = 0,
       \<lambda>p. (hextet_at p 6 XOR 0xffff, hextet_at p 7 XOR 0xffff)),
      (\<lambda>p. hextet_at p 4 AND 0xfcff = 0 \<and> hextet_at p 5 = 0x5efe, \<lambda>p. (hextet_at p 6, hextet_at p 7))]"

definition extractEmbeddedIpv4FromIpv6 :: "ip_lib \<Rightarrow> 16 word list \<Rightarrow> string option \<Rightarrow> 8 word list option" where
  "extractEmbeddedIpv4FromIpv6 lib parts zone =
     (case il_mapped lib parts of
        Some o4 \<Rightarrow> Some o4
      | None \<Rightarrow>
          if il_range lib (IPv6 parts zone) = ''rfc6145'' \<or> il_range lib (IPv6 parts zone) = ''rfc6052''
          then Some (decodeIpv4FromHextets (hextet_at parts 6) (hextet_at parts 7))
          else map_option (\<lambda>(_, f). case f parts of (high, low) \<Rightarrow> decodeIpv4FromHextets high low)
                 (find (\<lambda>(m, _). m parts) sentinel_rules))"

section \<open>Membership in a network\<close>

definition same_kind :: "ip_address \<Rightarrow> ip_address \<Rightarrow> bool" where
  "same_kind a b = (case (a, b) of (IPv4 _, IPv4 _) \<Rightarrow> True | (IPv6 _ _, IPv6 _ _) \<Rightarrow> True | _ \<Rightarrow> False)"

definition isIpInCidr :: "ip_lib \<Rightarrow> string \<Rightarrow> string \<Rightarrow> bool" where
  "isIpInCidr lib ip cidr =
     (case parseCanonicalIpAddress lib (Some ip) of
        None \<Rightarrow> False
      | Some a \<Rightarrow>
          (let candidate = trim cidr; ca = normalizeIpv4MappedAddress lib a in
           if candidate = [] then False
           else if CHR ''/'' \<notin> set candidate then
             (case parseCanonicalIpAddress lib (Some candidate) of
                None \<Rightarrow> False
              | Some e \<Rightarrow>
                  (let ce = normalizeIpv4MappedAddress lib e in same_kind ca ce \<and> il_show lib ca = il_show lib ce))
           else (case il_cidr lib candidate of
                   None \<Rightarrow> False
                 | Some (b, len) \<Rightarrow>
                     (let cb = normalizeIpv4MappedAddress lib b in
                      same_kind ca cb \<and> il_match lib ca cb len = Some True))))"

end
