(* ===== verification/GatewayNet.thy ===== *)
theory GatewayNet
  imports NetIp
begin

text \<open>
  \<open>src/gateway/net.ts\<close>: who the client behind trusted proxies is, which host names are local, which
  WebSocket URLs may carry secrets, and the address the gateway binds to; and
  \<open>src/gateway/origin-check.ts\<close>. Whether a socket can be bound is a parameter, as are the addresses
  of the tailnet interface.
\<close>

section \<open>Host names\<close>

definition normalizeHostHeader :: "string option \<Rightarrow> string" where
  "normalizeHostHeader h = to_lower (trim (case h of None \<Rightarrow> [] | Some s \<Rightarrow> s))"

definition resolveHostName :: "ip_lib \<Rightarrow> string option \<Rightarrow> string" where
  "resolveHostName lib hostHeader =
     (let host = normalizeHostHeader hostHeader in
      if host = [] then []
      else if hd host = CHR ''['' \<and> CHR '']'' \<in> set host then takeWhile (\<lambda>c. c \<noteq> CHR '']'') (tl host)
      else if il_node lib host = 6 then host
      else hd (split_on (CHR '':'') host))"

definition isLoopbackAddress :: "ip_lib \<Rightarrow> string option \<Rightarrow> bool" where
  "isLoopbackAddress lib ip = isLoopbackIpAddress lib ip"

definition isPrivateOrLoopbackAddress :: "ip_lib \<Rightarrow> string option \<Rightarrow> bool" where
  "isPrivateOrLoopbackAddress lib ip = isPrivateOrLoopbackIpAddress lib ip"

definition normalizeIp :: "ip_lib \<Rightarrow> string option \<Rightarrow> string option" where
  "normalizeIp lib ip = normalizeIpAddress lib ip"

text \<open>Whether the host is \<open>localhost\<close>, and the host without brackets.\<close>

definition parseHostForAddressChecks :: "string \<Rightarrow> (bool \<times> string) option" where
  "parseHostForAddressChecks host =
     (if host = [] then None
      else (let normalizedHost = to_lower (trim host);
                canonicalHost = rev (dropWhile (\<lambda>c. c = CHR ''.'') (rev normalizedHost))
            in if canonicalHost = ''localhost'' then Some (True, canonicalHost)
               else Some (False, stripIpv6Brackets normalizedHost)))"

definition isLoopbackHost :: "ip_lib \<Rightarrow> string \<Rightarrow> bool" where
  "isLoopbackHost lib host =
     (case parseHostForAddressChecks host of
        None \<Rightarrow> False
      | Some (isLocalhost, h) \<Rightarrow> isLocalhost \<or> isLoopbackAddress lib (Some h))"

definition isLocalishHost :: "ip_lib \<Rightarrow> string option \<Rightarrow> bool" where
  "isLocalishHost lib hostHeader =
     (let host = resolveHostName lib hostHeader in
      host \<noteq> [] \<and> (isLoopbackHost lib host \<or> starts_with (rev host) (rev ''.ts.net'')))"

definition isPrivateOrLoopbackHost :: "ip_lib \<Rightarrow> string \<Rightarrow> bool" where
  "isPrivateOrLoopbackHost lib host =
     (case parseHostForAddressChecks host of
        None \<Rightarrow> False
      | Some (isLocalhost, h) \<Rightarrow>
          if isLocalhost then True
          else (case normalizeIp lib (Some h) of
                  None \<Rightarrow> False
                | Some n \<Rightarrow>
                    if n = [] \<or> \<not> isPrivateOrLoopbackAddress lib (Some n) then False
                    else \<not> (il_node lib n = 6 \<and> (starts_with n ''ff'' \<or> n = ''::''))))"

definition isSecureWebSocketUrl :: "ip_lib \<Rightarrow> bool \<Rightarrow> string \<Rightarrow> bool" where
  "isSecureWebSocketUrl lib allowPrivateWs url =
     (case il_url lib url of
        None \<Rightarrow> False
      | Some u \<Rightarrow>
          (let protocol = (if up_protocol u = ''https:'' then ''wss:''
                           else if up_protocol u = ''http:'' then ''ws:'' else up_protocol u)
           in if protocol = ''wss:'' then True
              else if protocol \<noteq> ''ws:'' then False
              else if isLoopbackHost lib (up_hostname u) then True
              else if \<not> allowPrivateWs then False
              else isPrivateOrLoopbackHost lib (up_hostname u) \<or>
                   il_node lib (stripIpv6Brackets (up_hostname u)) = 0))"

section \<open>The client behind proxies\<close>

definition stripOptionalPort :: "ip_lib \<Rightarrow> string \<Rightarrow> string" where
  "stripOptionalPort lib ip =
     (if ip \<noteq> [] \<and> hd ip = CHR ''['' \<and> CHR '']'' \<in> set ip
      then takeWhile (\<lambda>c. c \<noteq> CHR '']'') (tl ip)
      else if il_node lib ip \<noteq> 0 then ip
      else if CHR '':'' \<in> set ip \<and> CHR ''.'' \<in> set ip \<and> CHR '':'' \<notin> set (tl (dropWhile (\<lambda>c. c \<noteq> CHR '':'') ip)) \<and>
              il_node lib (takeWhile (\<lambda>c. c \<noteq> CHR '':'') ip) = 4
      then takeWhile (\<lambda>c. c \<noteq> CHR '':'') ip
      else ip)"

definition parseIpLiteral :: "ip_lib \<Rightarrow> string option \<Rightarrow> string option" where
  "parseIpLiteral lib raw =
     (case trimmed_opt raw of
        None \<Rightarrow> None
      | Some t \<Rightarrow>
          (case normalizeIp lib (Some (stripOptionalPort lib t)) of
             None \<Rightarrow> None
           | Some n \<Rightarrow> if n = [] \<or> il_node lib n = 0 then None else Some n))"

definition parseRealIp :: "ip_lib \<Rightarrow> string option \<Rightarrow> string option" where
  "parseRealIp lib realIp = parseIpLiteral lib realIp"

definition isTrustedProxyAddress :: "ip_lib \<Rightarrow> string option \<Rightarrow> string list \<Rightarrow> bool" where
  "isTrustedProxyAddress lib ip trustedProxies =
     (case normalizeIp lib ip of
        None \<Rightarrow> False
      | Some n \<Rightarrow>
          if n = [] \<or> trustedProxies = [] then False
          else list_ex (\<lambda>proxy. trim proxy \<noteq> [] \<and> isIpInCidr lib n (trim proxy)) trustedProxies)"

text \<open>The walk from right to left; its argument is the reversed chain.\<close>

fun walk_hops :: "ip_lib \<Rightarrow> string list \<Rightarrow> string list \<Rightarrow> string option" where
  "walk_hops lib proxies [] = None"
| "walk_hops lib proxies (hop # hops) =
     (if isLoopbackAddress lib (Some hop) then walk_hops lib proxies hops
      else if \<not> isTrustedProxyAddress lib (Some hop) proxies then Some hop
      else walk_hops lib proxies hops)"

definition forwarded_chain :: "ip_lib \<Rightarrow> string option \<Rightarrow> string list" where
  "forwarded_chain lib forwardedFor =
     List.map_filter (\<lambda>entry. parseIpLiteral lib (Some entry))
       (case forwardedFor of None \<Rightarrow> [] | Some f \<Rightarrow> split_on (CHR '','') f)"

definition resolveForwardedClientIp :: "ip_lib \<Rightarrow> string option \<Rightarrow> string list \<Rightarrow> string option" where
  "resolveForwardedClientIp lib forwardedFor trustedProxies =
     (if trustedProxies = [] then None
      else walk_hops lib trustedProxies (rev (forwarded_chain lib forwardedFor)))"

record client_params =
  cp_remoteAddr :: "string option"
  cp_forwardedFor :: "string option"
  cp_realIp :: "string option"
  cp_trustedProxies :: "string list"
  cp_allowRealIpFallback :: bool

definition resolveClientIp :: "ip_lib \<Rightarrow> client_params \<Rightarrow> string option" where
  "resolveClientIp lib ps =
     (case normalizeIp lib (cp_remoteAddr ps) of
        None \<Rightarrow> None
      | Some remote \<Rightarrow>
          if remote = [] then None
          else if \<not> isTrustedProxyAddress lib (Some remote) (cp_trustedProxies ps) then Some remote
          else (case resolveForwardedClientIp lib (cp_forwardedFor ps) (cp_trustedProxies ps) of
                  Some ip \<Rightarrow> Some ip
                | None \<Rightarrow> if cp_allowRealIpFallback ps then parseRealIp lib (cp_realIp ps) else None))"

text \<open>
  A request: the remote address of its socket and its headers, with lower-case names; a repeated
  header is a list of values, of which the first counts.
\<close>

record http_request =
  rq_remoteAddress :: "string option"
  rq_headers :: "(string \<times> string list) list"

definition headerValue :: "http_request \<Rightarrow> string \<Rightarrow> string option" where
  "headerValue req name =
     (case map_of (rq_headers req) name of
        None \<Rightarrow> None
      | Some vs \<Rightarrow> (case vs of [] \<Rightarrow> None | v # _ \<Rightarrow> Some v))"

definition resolveRequestClientIp :: "ip_lib \<Rightarrow> http_request option \<Rightarrow> string list \<Rightarrow> bool \<Rightarrow> string option" where
  "resolveRequestClientIp lib req trustedProxies allowRealIpFallback =
     (case req of
        None \<Rightarrow> None
      | Some r \<Rightarrow> resolveClientIp lib
          \<lparr>cp_remoteAddr = Some (case rq_remoteAddress r of None \<Rightarrow> [] | Some a \<Rightarrow> a),
           cp_forwardedFor = headerValue r ''x-forwarded-for'', cp_realIp = headerValue r ''x-real-ip'',
           cp_trustedProxies = trustedProxies, cp_allowRealIpFallback = allowRealIpFallback\<rparr>)"

definition isLocalGatewayAddress :: "ip_lib \<Rightarrow> string option \<Rightarrow> string option \<Rightarrow> string option \<Rightarrow> bool" where
  "isLocalGatewayAddress lib tailnetIPv4 tailnetIPv6 ip =
     (if isLoopbackAddress lib ip then True
      else (case ip of
              None \<Rightarrow> False
            | Some i \<Rightarrow>
                if i = [] then False
                else (case normalizeIp lib ip of
                        None \<Rightarrow> False
                      | Some n \<Rightarrow>
                          n \<noteq> [] \<and>
                          ((case tailnetIPv4 of None \<Rightarrow> False | Some t \<Rightarrow> t \<noteq> [] \<and> n = to_lower t) \<or>
                           (case tailnetIPv6 of None \<Rightarrow> False | Some t \<Rightarrow> t \<noteq> [] \<and> to_lower (trim i) = to_lower t)))))"

section \<open>Binding\<close>

datatype bind_mode = BindAuto | BindLan | BindLoopback | BindCustom | BindTailnet

definition resolveGatewayBindHost ::
    "ip_lib \<Rightarrow> (string \<Rightarrow> bool) \<Rightarrow> string option \<Rightarrow> bind_mode option \<Rightarrow> string option \<Rightarrow> string" where
  "resolveGatewayBindHost lib canBind tailnetIPv4 bind customHost =
     (let loopback_or_all = (if canBind ''127.0.0.1'' then ''127.0.0.1'' else ''0.0.0.0'') in
      case (case bind of None \<Rightarrow> BindLoopback | Some m \<Rightarrow> m) of
        BindLoopback \<Rightarrow> loopback_or_all
      | BindTailnet \<Rightarrow>
          (case tailnetIPv4 of
             None \<Rightarrow> loopback_or_all
           | Some t \<Rightarrow> if t \<noteq> [] \<and> canBind t then t else loopback_or_all)
      | BindLan \<Rightarrow> ''0.0.0.0''
      | BindCustom \<Rightarrow>
          (case trimmed_opt customHost of
             None \<Rightarrow> ''0.0.0.0''
           | Some h \<Rightarrow> if isCanonicalDottedDecimalIPv4 lib (Some h) \<and> canBind h then h else ''0.0.0.0'')
      | BindAuto \<Rightarrow> loopback_or_all)"

definition resolveGatewayListenHosts :: "(string \<Rightarrow> bool) \<Rightarrow> string \<Rightarrow> string list" where
  "resolveGatewayListenHosts canBind bindHost =
     (if bindHost \<noteq> ''127.0.0.1'' then [bindHost]
      else if canBind ''::1'' then [bindHost, ''::1''] else [bindHost])"

section \<open>Browser origins\<close>

definition parseOrigin :: "ip_lib \<Rightarrow> string option \<Rightarrow> (string \<times> string \<times> string) option" where
  "parseOrigin lib originRaw =
     (case trimmed_opt originRaw of
        None \<Rightarrow> None
      | Some t \<Rightarrow>
          if t = ''null'' then None
          else map_option (\<lambda>u. (to_lower (up_origin u), to_lower (up_host u), to_lower (up_hostname u))) (il_url lib t))"

record origin_params =
  op_requestHost :: "string option"
  op_origin :: "string option"
  op_allowedOrigins :: "string list"
  op_allowHostHeaderOriginFallback :: bool
  op_isLocalClient :: bool

datatype origin_match = MatchedAllowlist | MatchedHostHeader | MatchedLocalLoopback

text \<open>\<open>Inr\<close> is the rule that matched, \<open>Inl\<close> the reason of the refusal.\<close>

definition checkBrowserOrigin :: "ip_lib \<Rightarrow> origin_params \<Rightarrow> string + origin_match" where
  "checkBrowserOrigin lib ps =
     (case parseOrigin lib (op_origin ps) of
        None \<Rightarrow> Inl ''origin missing or invalid''
      | Some (origin, host, hostname) \<Rightarrow>
          (let allowlist = filter (\<lambda>v. v \<noteq> []) (map (\<lambda>v. to_lower (trim v)) (op_allowedOrigins ps));
               requestHost = normalizeHostHeader (op_requestHost ps)
           in if ''*'' \<in> set allowlist \<or> origin \<in> set allowlist then Inr MatchedAllowlist
              else if op_allowHostHeaderOriginFallback ps \<and> requestHost \<noteq> [] \<and> host = requestHost
              then Inr MatchedHostHeader
              else if op_isLocalClient ps \<and> isLoopbackHost lib hostname then Inr MatchedLocalLoopback
              else Inl ''origin not allowed''))"

section \<open>What it promises\<close>

text \<open>
  What the identity of a client promises: what a client writes into the forwarding header does not
  change who it is taken for, a trusted proxy is never taken for the client, and an IPv4 address
  that hides in an IPv6 address is found.
\<close>

section \<open>The forwarding chain\<close>

lemma split_on_nonempty: "split_on c s \<noteq> []"
  by (induction s) (auto split: list.splits)

lemma split_on_append: "split_on c (a @ c # b) = split_on c a @ split_on c b"
proof (induction a)
  case (Cons x a)
  then show ?case using split_on_nonempty [of c a] by (cases "split_on c a") auto
qed simp

lemma walk_hops_append:
  "walk_hops lib proxies (xs @ ys) =
     (case walk_hops lib proxies xs of None \<Rightarrow> walk_hops lib proxies ys | Some ip \<Rightarrow> Some ip)"
  by (induction xs) auto

lemma walk_hops_Some:
  "walk_hops lib proxies hops = Some ip \<Longrightarrow>
   ip \<in> set hops \<and> \<not> isLoopbackAddress lib (Some ip) \<and> \<not> isTrustedProxyAddress lib (Some ip) proxies"
  by (induction hops) (auto split: if_splits)

lemma chain_append:
  "forwarded_chain lib (Some (a @ CHR '','' # b)) = forwarded_chain lib (Some a) @ forwarded_chain lib (Some b)"
proof -
  have "List.map_filter f (xs @ ys) = List.map_filter f xs @ List.map_filter f ys"
    for f :: "string \<Rightarrow> string option" and xs ys by (simp add: List.map_filter_def)
  then show ?thesis by (simp add: forwarded_chain_def split_on_append)
qed

lemma forwarded_prefix:
  assumes "resolveForwardedClientIp lib (Some suffix) proxies = Some ip"
  shows "resolveForwardedClientIp lib (Some (spoofed @ CHR '','' # suffix)) proxies = Some ip"
  using assms by (simp add: resolveForwardedClientIp_def chain_append walk_hops_append split: if_splits)


text \<open>The resolution fails closed. The client is either the remote address itself, and then it is no
  trusted proxy, or the request came from a trusted proxy and the client is the rightmost hop of
  the chain that is neither loopback nor trusted, or, only when the fallback is enabled and the
  chain names nobody, the valid address of \<open>X-Real-IP\<close>. Without such information there is no client:
  the proxy's own address is never used.\<close>

theorem client_ip_fails_closed:
  "case resolveClientIp lib ps of
     Some ip \<Rightarrow>
       normalizeIp lib (cp_remoteAddr ps) = Some ip \<and> \<not> isTrustedProxyAddress lib (Some ip) (cp_trustedProxies ps) \<or>
       (\<exists>remote. normalizeIp lib (cp_remoteAddr ps) = Some remote \<and>
          isTrustedProxyAddress lib (Some remote) (cp_trustedProxies ps) \<and>
          (resolveForwardedClientIp lib (cp_forwardedFor ps) (cp_trustedProxies ps) = Some ip \<and>
             ip \<in> set (forwarded_chain lib (cp_forwardedFor ps)) \<and> \<not> isLoopbackAddress lib (Some ip) \<and>
             \<not> isTrustedProxyAddress lib (Some ip) (cp_trustedProxies ps) \<or>
           cp_allowRealIpFallback ps \<and> parseRealIp lib (cp_realIp ps) = Some ip \<and>
             resolveForwardedClientIp lib (cp_forwardedFor ps) (cp_trustedProxies ps) = None))
   | None \<Rightarrow>
       normalizeIp lib (cp_remoteAddr ps) \<in> {None, Some []} \<or>
       resolveForwardedClientIp lib (cp_forwardedFor ps) (cp_trustedProxies ps) = None"
proof -
  have w: "ip \<in> set (forwarded_chain lib (cp_forwardedFor ps)) \<and> \<not> isLoopbackAddress lib (Some ip) \<and>
      \<not> isTrustedProxyAddress lib (Some ip) (cp_trustedProxies ps)"
    if "resolveForwardedClientIp lib (cp_forwardedFor ps) (cp_trustedProxies ps) = Some ip" for ip
    using that walk_hops_Some [of lib "cp_trustedProxies ps" "rev (forwarded_chain lib (cp_forwardedFor ps))" ip]
    by (simp add: resolveForwardedClientIp_def split: if_splits)
  show ?thesis
    using w by (auto simp: resolveClientIp_def split: option.split)
qed

section \<open>Embedded addresses\<close>

lemma byte_mask: "0xff = (mask 8 :: 16 word)"
  by (simp add: mask_eq_exp_minus_1)

lemma hextet_bytes:
  "ucast (drop_bit 8 (hextet a b) AND 0xff) = a" "ucast (hextet a b AND 0xff) = b"
proof -
  show "ucast (drop_bit 8 (hextet a b) AND 0xff) = a"
    unfolding byte_mask by (rule bit_word_eqI) (auto simp: hextet_def bit_simps dest: bit_imp_le_length)
  show "ucast (hextet a b AND 0xff) = b"
    unfolding byte_mask by (rule bit_word_eqI) (auto simp: hextet_def bit_simps)
qed

lemma decode_hextets: "decodeIpv4FromHextets (hextet a b) (hextet c d) = [a, b, c, d]"
  by (simp add: decodeIpv4FromHextets_def hextet_bytes)

lemma xor_twice: "(x XOR m) XOR m = (x :: 16 word)"
  by (simp add: xor.assoc)

text \<open>An IPv4 address hidden in an IPv6 address is recovered exactly, whatever the other hextets are: in
  a 6to4 address, in a Teredo address, where it is stored inverted, in a link-local ISATAP
  address, in an IPv4-compatible and in a NAT64 local-use address; the two-hextet form that the
  parser writes for an embedded address is decoded to the same four octets.\<close>

theorem embedded_ipv4_recovered:
  assumes "il_mapped lib parts = None" and "il_range lib (IPv6 parts zone) \<notin> {''rfc6145'', ''rfc6052''}"
    and "parts \<in> {[0x2002, hextet a b, hextet c d, x1, x2, x3, x4, x5],
      [0x2001, 0, x1, x2, x3, x4, hextet a b XOR 0xffff, hextet c d XOR 0xffff],
      [0xfe80, 0, 0, 0, x1 AND 0x0300, 0x5efe, hextet a b, hextet c d],
      [0, 0, 0, 0, 0, 0, hextet a b, hextet c d],
      [0x64, 0xff9b, 1, 0, 0, 0, hextet a b, hextet c d]}"
  shows "extractEmbeddedIpv4FromIpv6 lib parts zone = Some [a, b, c, d]"
proof -
  have m: "(x1 AND 0x0300) AND 0xfcff = 0"
  proof -
    have "(0x0300 :: 16 word) AND 0xfcff = 0" by simp
    then show ?thesis by (simp add: and.assoc)
  qed
  have e: "extractEmbeddedIpv4FromIpv6 lib parts zone =
      map_option (\<lambda>(_, f). case f parts of (high, low) \<Rightarrow> decodeIpv4FromHextets high low)
        (find (\<lambda>(m, _). m parts) sentinel_rules)"
    using assms(1,2) by (simp add: extractEmbeddedIpv4FromIpv6_def)
  from assms(3) show ?thesis
    unfolding e by (elim insertE emptyE) (simp_all add: sentinel_rules_def hextet_at_def decode_hextets xor_twice m)
qed

section \<open>An example library\<close>

definition example_four_part :: "string \<Rightarrow> bool" where
  "example_four_part s \<longleftrightarrow> length (split_on (CHR ''.'') s) = 4 \<and>
     list_all (\<lambda>p. p \<noteq> [] \<and> list_all is_dec p \<and> decimal_value p < 256) (split_on (CHR ''.'') s)"

definition example_v4 :: "string \<Rightarrow> 8 word list option" where
  "example_v4 s = (if example_four_part s then Some (map (\<lambda>p. of_nat (decimal_value p)) (split_on (CHR ''.'') s)) else None)"

definition example_show :: "ip_address \<Rightarrow> string" where
  "example_show a = (case a of IPv4 o4 \<Rightarrow> join_with ''.'' (map (\<lambda>w. show_nat (unat w)) o4) | IPv6 _ _ \<Rightarrow> ''::'')"

definition example_lib :: ip_lib where
  "example_lib = \<lparr>il_v4 = example_v4, il_four_part = example_four_part, il_v6 = (\<lambda>_. None), il_parse = (\<lambda>_. None),
     il_mapped = (\<lambda>_. None), il_show = example_show,
     il_range = (\<lambda>a. case a of IPv4 (x # _) \<Rightarrow> (if x = 127 then ''loopback'' else if x = 10 then ''private'' else ''unicast'')
                      | _ \<Rightarrow> ''unicast''),
     il_match = (\<lambda>a b n. Some (a = b)), il_cidr = (\<lambda>_. None),
     il_node = (\<lambda>s. if example_four_part s then 4 else 0), il_url = (\<lambda>_. None)\<rparr>"

definition proxied :: client_params where
  "proxied = \<lparr>cp_remoteAddr = Some ''10.0.0.1'', cp_forwardedFor = Some ''9.9.9.9'', cp_realIp = None,
     cp_trustedProxies = [''10.0.0.1''], cp_allowRealIpFallback = False\<rparr>"


theorem embedded_ipv4_recovered_witness:
  "extractEmbeddedIpv4FromIpv6 example_lib [0x2002, hextet 192 0, hextet 2 1, 7, 0, 0, 0, 1] None = Some [192, 0, 2, 1]"
  by (rule embedded_ipv4_recovered) (simp_all add: example_lib_def)

end
