(* ===== verification/AuthRateLimit.thy ===== *)
theory AuthRateLimit
  imports GatewayNet
begin

text \<open>
  The limiter of failed authentication attempts, \<open>src/gateway/auth-rate-limit.ts\<close>: a sliding window
  and a lockout for every pair of scope and client address. The limiter's state is its table of
  entries; an operation gets the clock and returns the state it leaves. The periodic timer is the
  operation \<open>prune\<close>. Times and the configured durations are integers.
\<close>

record rate_options =
  ro_maxAttempts :: "int option"
  ro_windowMs :: "int option"
  ro_lockoutMs :: "int option"
  ro_exemptLoopback :: "bool option"

record rate_config =
  rl_maxAttempts :: int
  rl_windowMs :: int
  rl_lockoutMs :: int
  rl_exemptLoopback :: bool

record rate_entry =
  re_attempts :: "int list"
  re_lockedUntil :: "int option"

type_synonym rate_state = "(string \<times> rate_entry) list"

record rate_check =
  rk_allowed :: bool
  rk_remaining :: int
  rk_retryAfterMs :: int

definition scope_default :: string where
  "scope_default = ''default''"

definition scope_shared_secret :: string where
  "scope_shared_secret = ''shared-secret''"

definition createAuthRateLimiter :: "rate_options option \<Rightarrow> rate_config \<times> rate_state" where
  "createAuthRateLimiter config =
     (let get = (\<lambda>f d. case config of None \<Rightarrow> d | Some c \<Rightarrow> (case f c of None \<Rightarrow> d | Some v \<Rightarrow> v)) in
      (\<lparr>rl_maxAttempts = get ro_maxAttempts 10, rl_windowMs = get ro_windowMs 60000,
        rl_lockoutMs = get ro_lockoutMs 300000,
        rl_exemptLoopback = (case config of None \<Rightarrow> True | Some c \<Rightarrow>
          (case ro_exemptLoopback c of None \<Rightarrow> True | Some v \<Rightarrow> v))\<rparr>, []))"

definition normalizeRateLimitClientIp :: "ip_lib \<Rightarrow> string option \<Rightarrow> string" where
  "normalizeRateLimitClientIp lib ip =
     (case resolveClientIp lib \<lparr>cp_remoteAddr = ip, cp_forwardedFor = None, cp_realIp = None,
             cp_trustedProxies = [], cp_allowRealIpFallback = False\<rparr> of
        None \<Rightarrow> ''unknown''
      | Some i \<Rightarrow> i)"

definition normalizeScope :: "string option \<Rightarrow> string" where
  "normalizeScope s =
     (case trimmed_opt (Some (case s of None \<Rightarrow> scope_default | Some t \<Rightarrow> t)) of
        None \<Rightarrow> scope_default
      | Some t \<Rightarrow> t)"

definition resolveKey :: "ip_lib \<Rightarrow> string option \<Rightarrow> string option \<Rightarrow> string \<times> string" where
  "resolveKey lib rawIp rawScope =
     (let ip = normalizeRateLimitClientIp lib rawIp in (normalizeScope rawScope @ '':'' @ ip, ip))"

definition isExempt :: "ip_lib \<Rightarrow> rate_config \<Rightarrow> string \<Rightarrow> bool" where
  "isExempt lib cfg ip \<longleftrightarrow> rl_exemptLoopback cfg \<and> isLoopbackAddress lib (Some ip)"

definition slideWindow :: "rate_config \<Rightarrow> int \<Rightarrow> rate_entry \<Rightarrow> rate_entry" where
  "slideWindow cfg now e = e\<lparr>re_attempts := filter (\<lambda>ts. ts > now - rl_windowMs cfg) (re_attempts e)\<rparr>"

text \<open>\<open>lockedUntil\<close> is tested for truth, so that the instant 0 counts as no lock.\<close>

definition lock_set :: "rate_entry \<Rightarrow> int option" where
  "lock_set e = (case re_lockedUntil e of None \<Rightarrow> None | Some l \<Rightarrow> if l = 0 then None else Some l)"

definition still_locked :: "int \<Rightarrow> rate_entry \<Rightarrow> bool" where
  "still_locked now e = (case lock_set e of None \<Rightarrow> False | Some l \<Rightarrow> now < l)"

definition clear_lock :: "int \<Rightarrow> rate_entry \<Rightarrow> rate_entry" where
  "clear_lock now e =
     (case lock_set e of
        None \<Rightarrow> e
      | Some l \<Rightarrow> if now \<ge> l then e\<lparr>re_lockedUntil := None, re_attempts := []\<rparr> else e)"

definition check ::
    "ip_lib \<Rightarrow> rate_config \<Rightarrow> int \<Rightarrow> string option \<Rightarrow> string option \<Rightarrow> rate_state \<Rightarrow> rate_check \<times> rate_state" where
  "check lib cfg now rawIp rawScope st =
     (case resolveKey lib rawIp rawScope of (key, ip) \<Rightarrow>
       if isExempt lib cfg ip
       then (\<lparr>rk_allowed = True, rk_remaining = rl_maxAttempts cfg, rk_retryAfterMs = 0\<rparr>, st)
       else (case map_of st key of
          None \<Rightarrow> (\<lparr>rk_allowed = True, rk_remaining = rl_maxAttempts cfg, rk_retryAfterMs = 0\<rparr>, st)
        | Some e \<Rightarrow>
            if still_locked now e
            then (\<lparr>rk_allowed = False, rk_remaining = 0,
                   rk_retryAfterMs = (case lock_set e of None \<Rightarrow> 0 | Some l \<Rightarrow> l - now)\<rparr>, st)
            else (let e' = slideWindow cfg now (clear_lock now e);
                      remaining = max 0 (rl_maxAttempts cfg - int (length (re_attempts e')))
                  in (\<lparr>rk_allowed = (remaining > 0), rk_remaining = remaining, rk_retryAfterMs = 0\<rparr>,
                      AList.update key e' st))))"

definition empty_entry :: rate_entry where
  "empty_entry = \<lparr>re_attempts = [], re_lockedUntil = None\<rparr>"

definition recordFailure ::
    "ip_lib \<Rightarrow> rate_config \<Rightarrow> int \<Rightarrow> string option \<Rightarrow> string option \<Rightarrow> rate_state \<Rightarrow> rate_state" where
  "recordFailure lib cfg now rawIp rawScope st =
     (case resolveKey lib rawIp rawScope of (key, ip) \<Rightarrow>
       if isExempt lib cfg ip then st
       else (let e = (case map_of st key of None \<Rightarrow> empty_entry | Some e \<Rightarrow> e) in
             if still_locked now e then st
             else (let e1 = slideWindow cfg now e;
                       e2 = e1\<lparr>re_attempts := re_attempts e1 @ [now]\<rparr>
                   in AList.update key
                        (if int (length (re_attempts e2)) \<ge> rl_maxAttempts cfg
                         then e2\<lparr>re_lockedUntil := Some (now + rl_lockoutMs cfg)\<rparr> else e2) st)))"

definition reset :: "ip_lib \<Rightarrow> string option \<Rightarrow> string option \<Rightarrow> rate_state \<Rightarrow> rate_state" where
  "reset lib rawIp rawScope st = AList.delete (fst (resolveKey lib rawIp rawScope)) st"

definition prune_entry :: "rate_config \<Rightarrow> int \<Rightarrow> rate_entry \<Rightarrow> rate_entry option" where
  "prune_entry cfg now e =
     (if still_locked now e then Some e
      else (let e' = slideWindow cfg now e in if re_attempts e' = [] then None else Some e'))"

definition prune :: "rate_config \<Rightarrow> int \<Rightarrow> rate_state \<Rightarrow> rate_state" where
  "prune cfg now st = List.map_filter (\<lambda>(k, e). map_option (\<lambda>e'. (k, e')) (prune_entry cfg now e)) st"

definition rate_size :: "rate_state \<Rightarrow> nat" where
  "rate_size st = length st"

definition dispose :: "rate_state \<Rightarrow> rate_state" where
  "dispose st = []"

end
