(* ===== verification/GatewayAuth.thy ===== *)
theory GatewayAuth
  imports AuthRateLimit
begin

text \<open>
  Who may connect to the gateway, \<open>src/gateway/auth.ts\<close>: the credentials, the verified tailnet user,
  the user a trusted proxy names, and the order of the checks around the limiter. The digest of
  \<open>src/security/secret-equal.ts\<close> and the tailnet's \<open>whois\<close> are parameters.

  On the HTTP surface the whole decision is one synchronous section. On the control UI surface the
  \<open>whois\<close> question may suspend it between the check and the recording of a failure.
\<close>

datatype auth_mode = AuthNone | AuthToken | AuthPassword | AuthTrustedProxy

datatype mode_source = FromOverride | FromConfig | FromPassword | FromToken | FromDefault

record trusted_proxy_config =
  tp_userHeader :: string
  tp_requiredHeaders :: "string list"
  tp_allowUsers :: "string list"

record gateway_auth =
  ga_mode :: auth_mode
  ga_token :: "string option"
  ga_password :: "string option"
  ga_allowTailscale :: bool
  ga_trustedProxy :: "trusted_proxy_config option"

datatype auth_method = MethodNone | MethodToken | MethodPassword | MethodTailscale | MethodTrustedProxy

datatype auth_result =
    Granted auth_method "string option"
  | Refused string
  | RateLimited int

definition truthy :: "string option \<Rightarrow> bool" where
  "truthy s \<longleftrightarrow> s \<noteq> None \<and> s \<noteq> Some []"

definition safeEqualSecret :: "(string \<Rightarrow> string) \<Rightarrow> string option \<Rightarrow> string option \<Rightarrow> bool" where
  "safeEqualSecret sha provided expected =
     (case (provided, expected) of (Some p, Some e) \<Rightarrow> sha p = sha e | _ \<Rightarrow> False)"

section \<open>The tailnet user\<close>

definition normalizeLogin :: "string \<Rightarrow> string" where
  "normalizeLogin login = to_lower (trim login)"

definition TAILSCALE_TRUSTED_PROXIES :: "string list" where
  "TAILSCALE_TRUSTED_PROXIES = [''127.0.0.1'', ''::1'']"

definition resolveTailscaleClientIp :: "ip_lib \<Rightarrow> http_request option \<Rightarrow> string option" where
  "resolveTailscaleClientIp lib req =
     (case req of
        None \<Rightarrow> None
      | Some r \<Rightarrow> resolveClientIp lib
          \<lparr>cp_remoteAddr = Some (case rq_remoteAddress r of None \<Rightarrow> [] | Some a \<Rightarrow> a),
           cp_forwardedFor = headerValue r ''x-forwarded-for'', cp_realIp = None,
           cp_trustedProxies = TAILSCALE_TRUSTED_PROXIES, cp_allowRealIpFallback = False\<rparr>)"

text \<open>A header sent once is a string, one sent several times an array, which counts as true.\<close>

definition header_truthy :: "http_request \<Rightarrow> string \<Rightarrow> bool" where
  "header_truthy r name =
     (case map_of (rq_headers r) name of None \<Rightarrow> False | Some vs \<Rightarrow> vs \<noteq> [[]] \<and> vs \<noteq> [])"

definition isLocalDirectRequest :: "ip_lib \<Rightarrow> http_request option \<Rightarrow> bool" where
  "isLocalDirectRequest lib req =
     (case req of
        None \<Rightarrow> False
      | Some r \<Rightarrow>
          if list_ex (header_truthy r)
               [''forwarded'', ''x-forwarded-for'', ''x-forwarded-proto'', ''x-real-ip'', ''x-forwarded-host'']
          then False else isLoopbackAddress lib (rq_remoteAddress r))"

record tailscale_user =
  tu_login :: string
  tu_name :: string

text \<open>A header that was sent twice is an array, which is not a \<open>string\<close>.\<close>

definition single_header :: "http_request \<Rightarrow> string \<Rightarrow> string option" where
  "single_header r name = (case map_of (rq_headers r) name of Some [v] \<Rightarrow> Some v | _ \<Rightarrow> None)"

definition getTailscaleUser :: "http_request option \<Rightarrow> tailscale_user option" where
  "getTailscaleUser req =
     (case req of
        None \<Rightarrow> None
      | Some r \<Rightarrow>
          (case trimmed_opt (single_header r ''tailscale-user-login'') of
             None \<Rightarrow> None
           | Some login \<Rightarrow>
               Some \<lparr>tu_login = login,
                     tu_name = (case trimmed_opt (single_header r ''tailscale-user-name'') of
                                  None \<Rightarrow> login | Some n \<Rightarrow> n)\<rparr>))"

definition hasTailscaleProxyHeaders :: "http_request \<Rightarrow> bool" where
  "hasTailscaleProxyHeaders r \<longleftrightarrow> header_truthy r ''x-forwarded-for'' \<and>
     header_truthy r ''x-forwarded-proto'' \<and> header_truthy r ''x-forwarded-host''"

definition isTailscaleProxyRequest :: "ip_lib \<Rightarrow> http_request option \<Rightarrow> bool" where
  "isTailscaleProxyRequest lib req =
     (case req of
        None \<Rightarrow> False
      | Some r \<Rightarrow> isLoopbackAddress lib (rq_remoteAddress r) \<and> hasTailscaleProxyHeaders r)"

text \<open>\<open>whois\<close> gives the login and the name of the owner of a tailnet address.\<close>

type_synonym whois = "string \<Rightarrow> (string \<times> string option) option"

definition resolveVerifiedTailscaleUser ::
    "ip_lib \<Rightarrow> whois \<Rightarrow> http_request option \<Rightarrow> string + tailscale_user" where
  "resolveVerifiedTailscaleUser lib tailscaleWhois req =
     (case getTailscaleUser req of
        None \<Rightarrow> Inl ''tailscale_user_missing''
      | Some u \<Rightarrow>
          if \<not> isTailscaleProxyRequest lib req then Inl ''tailscale_proxy_missing''
          else (case resolveTailscaleClientIp lib req of
                  None \<Rightarrow> Inl ''tailscale_whois_failed''
                | Some clientIp \<Rightarrow>
                    if clientIp = [] then Inl ''tailscale_whois_failed''
                    else (case tailscaleWhois clientIp of
                       None \<Rightarrow> Inl ''tailscale_whois_failed''
                     | Some (login, name) \<Rightarrow>
                         if login = [] then Inl ''tailscale_whois_failed''
                         else if normalizeLogin login \<noteq> normalizeLogin (tu_login u)
                         then Inl ''tailscale_user_mismatch''
                         else Inr \<lparr>tu_login = login, tu_name = (case name of None \<Rightarrow> tu_name u | Some n \<Rightarrow> n)\<rparr>)))"

section \<open>Configuration\<close>

text \<open>The mode and the flags after the override; the credentials are those the configuration and the
  environment give.\<close>

record auth_settings =
  as_mode :: "auth_mode option"
  as_overrideMode :: "auth_mode option"
  as_token :: "string option"
  as_password :: "string option"
  as_allowTailscale :: "bool option"
  as_trustedProxy :: "trusted_proxy_config option"
  as_tailscaleServe :: bool

definition resolve_mode :: "auth_settings \<Rightarrow> auth_mode \<times> mode_source" where
  "resolve_mode s =
     (case as_overrideMode s of
        Some m \<Rightarrow> (m, FromOverride)
      | None \<Rightarrow>
          (case as_mode s of
             Some m \<Rightarrow> (m, FromConfig)
           | None \<Rightarrow>
               if truthy (as_password s) then (AuthPassword, FromPassword)
               else if truthy (as_token s) then (AuthToken, FromToken)
               else (AuthToken, FromDefault)))"

definition resolve_auth :: "auth_settings \<Rightarrow> gateway_auth" where
  "resolve_auth s =
     (let mode = fst (resolve_mode s) in
      \<lparr>ga_mode = mode, ga_token = as_token s, ga_password = as_password s,
       ga_allowTailscale = (case as_allowTailscale s of
          Some b \<Rightarrow> b
        | None \<Rightarrow> as_tailscaleServe s \<and> mode \<noteq> AuthPassword \<and> mode \<noteq> AuthTrustedProxy),
       ga_trustedProxy = as_trustedProxy s\<rparr>)"

datatype shared_secret = SharedToken "string option" | SharedPassword "string option"

definition resolveEffectiveSharedGatewayAuth :: "auth_settings \<Rightarrow> shared_secret option" where
  "resolveEffectiveSharedGatewayAuth s =
     (let auth = resolve_auth s in
      case ga_mode auth of
        AuthToken \<Rightarrow> Some (SharedToken (ga_token auth))
      | AuthPassword \<Rightarrow> Some (SharedPassword (ga_password auth))
      | _ \<Rightarrow> None)"

datatype auth_config_error =
    TokenNotConfigured
  | PasswordIsReference
  | PasswordNotConfigured
  | TrustedProxyMissing
  | UserHeaderEmpty
  | TokenWithTrustedProxy

text \<open>\<open>passwordIsRef\<close>: the raw password of the configuration is present and not a string.\<close>

definition assertGatewayAuthConfigured :: "bool \<Rightarrow> gateway_auth \<Rightarrow> auth_config_error + unit" where
  "assertGatewayAuthConfigured passwordIsRef auth =
     (if ga_mode auth = AuthToken \<and> \<not> truthy (ga_token auth) then
        (if ga_allowTailscale auth then Inr () else Inl TokenNotConfigured)
      else if ga_mode auth = AuthPassword \<and> \<not> truthy (ga_password auth) then
        Inl (if passwordIsRef then PasswordIsReference else PasswordNotConfigured)
      else if ga_mode auth = AuthTrustedProxy then
        (case ga_trustedProxy auth of
           None \<Rightarrow> Inl TrustedProxyMissing
         | Some tp \<Rightarrow>
             if trim (tp_userHeader tp) = [] then Inl UserHeaderEmpty
             else if truthy (ga_token auth) then Inl TokenWithTrustedProxy
             else Inr ())
      else Inr ())"

section \<open>The user a trusted proxy names\<close>

fun missing_header :: "http_request \<Rightarrow> string list \<Rightarrow> string option" where
  "missing_header r [] = None"
| "missing_header r (h # hs) =
     (if trimmed_opt (headerValue r (to_lower h)) = None then Some h else missing_header r hs)"

definition authorizeTrustedProxy ::
    "ip_lib \<Rightarrow> http_request option \<Rightarrow> string list \<Rightarrow> trusted_proxy_config \<Rightarrow> string + string" where
  "authorizeTrustedProxy lib req trustedProxies tp =
     (case req of
        None \<Rightarrow> Inl ''trusted_proxy_no_request''
      | Some r \<Rightarrow>
          if \<not> truthy (rq_remoteAddress r) \<or> \<not> isTrustedProxyAddress lib (rq_remoteAddress r) trustedProxies
          then Inl ''trusted_proxy_untrusted_source''
          else if isLoopbackAddress lib (rq_remoteAddress r) then Inl ''trusted_proxy_loopback_source''
          else (case missing_header r (tp_requiredHeaders tp) of
                  Some h \<Rightarrow> Inl (''trusted_proxy_missing_header_'' @ h)
                | None \<Rightarrow>
                    (case trimmed_opt (headerValue r (to_lower (tp_userHeader tp))) of
                       None \<Rightarrow> Inl ''trusted_proxy_user_missing''
                     | Some user \<Rightarrow>
                         if tp_allowUsers tp \<noteq> [] \<and> user \<notin> set (tp_allowUsers tp)
                         then Inl ''trusted_proxy_user_not_allowed'' else Inr user)))"

datatype auth_surface = SurfaceHttp | SurfaceControlUi

definition authorizeTrustedProxyBrowserOrigin ::
    "ip_lib \<Rightarrow> auth_surface \<Rightarrow> origin_params option \<Rightarrow> string option" where
  "authorizeTrustedProxyBrowserOrigin lib surface policy =
     (if surface \<noteq> SurfaceHttp then None
      else (case policy of
              None \<Rightarrow> None
            | Some p \<Rightarrow>
                (case trimmed_opt (op_origin p) of
                   None \<Rightarrow> None
                 | Some origin \<Rightarrow>
                     (case checkBrowserOrigin lib (p\<lparr>op_origin := Some origin, op_isLocalClient := False\<rparr>) of
                        Inr _ \<Rightarrow> None
                      | Inl _ \<Rightarrow> Some ''trusted_proxy_origin_not_allowed''))))"

section \<open>The decision\<close>

text \<open>The limiter, where there is one, is its configuration and its state.\<close>

record connect_params =
  cn_auth :: gateway_auth
  cn_token :: "string option"
  cn_password :: "string option"
  cn_req :: "http_request option"
  cn_trustedProxies :: "string list"
  cn_surface :: auth_surface
  cn_clientIp :: "string option"
  cn_rateLimitScope :: "string option"
  cn_allowRealIpFallback :: bool
  cn_originPolicy :: "origin_params option"

record auth_env =
  ae_lib :: ip_lib
  ae_sha :: "string \<Rightarrow> string"
  ae_whois :: whois
  ae_limiter :: "rate_config option"

definition limiter_reset :: "auth_env \<Rightarrow> string option \<Rightarrow> string \<Rightarrow> rate_state \<Rightarrow> rate_state" where
  "limiter_reset env ip scope st =
     (case ae_limiter env of None \<Rightarrow> st | Some _ \<Rightarrow> reset (ae_lib env) ip (Some scope) st)"

definition limiter_fail :: "auth_env \<Rightarrow> int \<Rightarrow> string option \<Rightarrow> string \<Rightarrow> rate_state \<Rightarrow> rate_state" where
  "limiter_fail env now ip scope st =
     (case ae_limiter env of None \<Rightarrow> st | Some cfg \<Rightarrow> recordFailure (ae_lib env) cfg now ip (Some scope) st)"

text \<open>A shared secret, the token or the password; \<open>kind\<close> names it in the reasons.\<close>

definition authorizeSecret ::
    "auth_env \<Rightarrow> string \<Rightarrow> auth_method \<Rightarrow> int \<Rightarrow> string option \<Rightarrow> string \<Rightarrow> string option \<Rightarrow> string option \<Rightarrow>
     rate_state \<Rightarrow> auth_result \<times> rate_state" where
  "authorizeSecret env kind how now ip scope expected provided st =
     (if \<not> truthy expected then (Refused (kind @ ''_missing_config''), st)
      else if \<not> truthy provided then (Refused (kind @ ''_missing''), st)
      else if \<not> safeEqualSecret (ae_sha env) provided expected
      then (Refused (kind @ ''_mismatch''), limiter_fail env now ip scope st)
      else (Granted how None, limiter_reset env ip scope st))"

definition authorizeTokenAuth ::
    "auth_env \<Rightarrow> int \<Rightarrow> string option \<Rightarrow> string \<Rightarrow> string option \<Rightarrow> string option \<Rightarrow>
     rate_state \<Rightarrow> auth_result \<times> rate_state" where
  "authorizeTokenAuth env now ip scope authToken connectToken st =
     authorizeSecret env ''token'' MethodToken now ip scope authToken connectToken st"

definition connect_ip :: "auth_env \<Rightarrow> connect_params \<Rightarrow> string option" where
  "connect_ip env ps =
     (case cn_clientIp ps of
        Some ip \<Rightarrow> Some ip
      | None \<Rightarrow>
          (case resolveRequestClientIp (ae_lib env) (cn_req ps) (cn_trustedProxies ps) (cn_allowRealIpFallback ps) of
             Some ip \<Rightarrow> Some ip
           | None \<Rightarrow> (case cn_req ps of None \<Rightarrow> None | Some r \<Rightarrow> rq_remoteAddress r)))"

definition connect_scope :: "connect_params \<Rightarrow> string" where
  "connect_scope ps = (case cn_rateLimitScope ps of None \<Rightarrow> scope_shared_secret | Some s \<Rightarrow> s)"

definition trusted_proxy_decision :: "auth_env \<Rightarrow> connect_params \<Rightarrow> auth_result" where
  "trusted_proxy_decision env ps =
     (case ga_trustedProxy (cn_auth ps) of
        None \<Rightarrow> Refused ''trusted_proxy_config_missing''
      | Some tp \<Rightarrow>
          if cn_trustedProxies ps = [] then Refused ''trusted_proxy_no_proxies_configured''
          else (case authorizeTrustedProxy (ae_lib env) (cn_req ps) (cn_trustedProxies ps) tp of
                  Inl reason \<Rightarrow> Refused reason
                | Inr user \<Rightarrow>
                    (case authorizeTrustedProxyBrowserOrigin (ae_lib env) (cn_surface ps) (cn_originPolicy ps) of
                       Some reason \<Rightarrow> Refused reason
                     | None \<Rightarrow> Granted MethodTrustedProxy (Some user))))"

text \<open>The last part, once the limiter let the request through: the tailnet user, then the secret. The
  clock of a failure is its own, because the \<open>whois\<close> question may take time.\<close>

definition authorize_identity ::
    "auth_env \<Rightarrow> int \<Rightarrow> connect_params \<Rightarrow> rate_state \<Rightarrow> auth_result \<times> rate_state" where
  "authorize_identity env failNow ps st =
     (let ip = connect_ip env ps; scope = connect_scope ps; auth = cn_auth ps;
          tailscale = (if cn_surface ps = SurfaceControlUi \<and> ga_allowTailscale auth \<and>
                          \<not> isLocalDirectRequest (ae_lib env) (cn_req ps)
                       then (case resolveVerifiedTailscaleUser (ae_lib env) (ae_whois env) (cn_req ps) of
                               Inl _ \<Rightarrow> None | Inr u \<Rightarrow> Some u)
                       else None)
      in case tailscale of
           Some u \<Rightarrow> (Granted MethodTailscale (Some (tu_login u)), limiter_reset env ip scope st)
         | None \<Rightarrow>
             (case ga_mode auth of
                AuthToken \<Rightarrow> authorizeTokenAuth env failNow ip scope (ga_token auth) (cn_token ps) st
              | AuthPassword \<Rightarrow>
                  authorizeSecret env ''password'' MethodPassword failNow ip scope (ga_password auth) (cn_password ps) st
              | _ \<Rightarrow> (Refused ''unauthorized'', limiter_fail env failNow ip scope st)))"

definition authorizeGatewayConnect ::
    "auth_env \<Rightarrow> int \<Rightarrow> int \<Rightarrow> connect_params \<Rightarrow> rate_state \<Rightarrow> auth_result \<times> rate_state" where
  "authorizeGatewayConnect env now failNow ps st =
     (if ga_mode (cn_auth ps) = AuthTrustedProxy then (trusted_proxy_decision env ps, st)
      else if ga_mode (cn_auth ps) = AuthNone then (Granted MethodNone None, st)
      else (case ae_limiter env of
              None \<Rightarrow> authorize_identity env failNow ps st
            | Some cfg \<Rightarrow>
                (case check (ae_lib env) cfg now (connect_ip env ps) (Some (connect_scope ps)) st of
                   (r, st1) \<Rightarrow>
                     if \<not> rk_allowed r then (RateLimited (rk_retryAfterMs r), st1)
                     else authorize_identity env failNow ps st1)))"

definition authorizeHttpGatewayConnect ::
    "auth_env \<Rightarrow> int \<Rightarrow> connect_params \<Rightarrow> rate_state \<Rightarrow> auth_result \<times> rate_state" where
  "authorizeHttpGatewayConnect env now ps st =
     authorizeGatewayConnect env now now (ps\<lparr>cn_surface := SurfaceHttp\<rparr>) st"

definition authorizeWsControlUiGatewayConnect ::
    "auth_env \<Rightarrow> int \<Rightarrow> int \<Rightarrow> connect_params \<Rightarrow> rate_state \<Rightarrow> auth_result \<times> rate_state" where
  "authorizeWsControlUiGatewayConnect env now failNow ps st =
     authorizeGatewayConnect env now failNow (ps\<lparr>cn_surface := SurfaceControlUi\<rparr>) st"

end
