(* ===== verification/GatewayAuthProps.thy ===== *)
theory GatewayAuthProps
  imports GatewayAuth GatewayNet
begin

text \<open>
  What the gateway's authentication promises: nobody is let in without the credentials of the
  configured mode, and guessing a secret is bounded per client address and window, however
  requests of other clients and the limiter's upkeep interleave. And where the bound does not hold.
\<close>

section \<open>The window of one key\<close>

text \<open>\<open>hist\<close> are the times of the recorded failures of the key \<open>k\<close>, in order.\<close>

definition recent :: "rate_config \<Rightarrow> int \<Rightarrow> int list \<Rightarrow> int list" where
  "recent cfg now hist = filter (\<lambda>t. t > now - rl_windowMs cfg) hist"

definition rate_inv :: "rate_config \<Rightarrow> string \<Rightarrow> int \<Rightarrow> int list \<Rightarrow> rate_state \<Rightarrow> bool" where
  "rate_inv cfg k now hist st \<longleftrightarrow> distinct (map fst st) \<and> (\<forall>t \<in> set hist. t \<le> now) \<and>
     (case map_of st k of
        None \<Rightarrow> recent cfg now hist = []
      | Some e \<Rightarrow> recent cfg now (re_attempts e) = recent cfg now hist \<and>
          (case lock_set e of None \<Rightarrow> True | Some l \<Rightarrow> \<forall>t \<in> set hist. t \<le> l - rl_lockoutMs cfg))"

lemma recent_idem [simp]: "recent cfg now (recent cfg now xs) = recent cfg now xs"
  by (simp add: recent_def)

lemma recent_later: "now \<le> now' \<Longrightarrow> recent cfg now xs = recent cfg now ys \<Longrightarrow> recent cfg now' xs = recent cfg now' ys"
proof -
  assume n: "now \<le> now'" and eq: "recent cfg now xs = recent cfg now ys"
  have "recent cfg now' zs = recent cfg now' (recent cfg now zs)" for zs
    unfolding recent_def filter_filter by (rule filter_cong [OF refl]) (use n in auto)
  then show ?thesis using eq by metis
qed

lemma rate_inv_later:
  assumes "rate_inv cfg k now hist st" and "now \<le> now'"
  shows "rate_inv cfg k now' hist st"
proof -
  have old: "\<forall>t \<in> set hist. t \<le> now'" using assms by (force simp: rate_inv_def)
  show ?thesis
  proof (cases "map_of st k")
    case None
    with assms(1) have "recent cfg now hist = recent cfg now []" by (simp add: rate_inv_def recent_def)
    from recent_later [OF assms(2) this] have "recent cfg now' hist = []" by (simp add: recent_def)
    with None old assms(1) show ?thesis by (simp add: rate_inv_def)
  next
    case (Some e)
    with assms(1) have "recent cfg now (re_attempts e) = recent cfg now hist" by (simp add: rate_inv_def)
    from recent_later [OF assms(2) this] Some old assms(1) show ?thesis by (simp add: rate_inv_def)
  qed
qed

lemma rate_inv_entry:
  assumes "rate_inv cfg k now hist st"
    and "recent cfg now (re_attempts e) = recent cfg now hist"
    and "\<And>l. lock_set e = Some l \<Longrightarrow> \<forall>t \<in> set hist. t \<le> l - rl_lockoutMs cfg"
  shows "rate_inv cfg k now hist (AList.update k e st)"
  using assms by (simp add: rate_inv_def distinct_update update_conv' split: option.splits)

lemma rate_inv_other:
  assumes "rate_inv cfg k now hist st" and "k' \<noteq> k"
  shows "rate_inv cfg k now hist (AList.update k' e st)" "rate_inv cfg k now hist (AList.delete k' st)"
  using assms by (simp_all add: rate_inv_def distinct_update update_conv' delete_conv' distinct_delete)

lemma recent_slide: "recent cfg now (re_attempts (slideWindow cfg now e)) = re_attempts (slideWindow cfg now e)"
  "re_attempts (slideWindow cfg now e) = recent cfg now (re_attempts e)"
  by (simp_all add: recent_def slideWindow_def)

lemma lock_slide [simp]: "lock_set (slideWindow cfg now e) = lock_set e"
  by (simp add: slideWindow_def lock_set_def)

text \<open>An expired lock: everything recorded before it has left the window.\<close>

lemma expired_clears:
  assumes "rate_inv cfg k now hist st" and "map_of st k = Some e" and "\<not> still_locked now e"
    and "rl_windowMs cfg \<le> rl_lockoutMs cfg"
  shows "recent cfg now (re_attempts (clear_lock now e)) = recent cfg now hist" and "lock_set (clear_lock now e) = None"
proof -
  have r: "recent cfg now (re_attempts e) = recent cfg now hist" using assms(1,2) by (simp add: rate_inv_def)
  show "recent cfg now (re_attempts (clear_lock now e)) = recent cfg now hist"
  proof (cases "lock_set e")
    case None
    then show ?thesis using r by (simp add: clear_lock_def)
  next
    case (Some l)
    with assms(3) have l: "l \<le> now" by (simp add: still_locked_def)
    have "\<forall>t \<in> set hist. t \<le> l - rl_lockoutMs cfg" using assms(1,2) Some by (simp add: rate_inv_def)
    with l assms(4) have "recent cfg now hist = []" by (force simp: recent_def filter_empty_conv)
    then show ?thesis using Some l by (simp add: clear_lock_def recent_def)
  qed
  show "lock_set (clear_lock now e) = None"
    using assms(3) by (cases "lock_set e") (auto simp: clear_lock_def still_locked_def lock_set_def)
qed

section \<open>The operations\<close>

lemma check_inv:
  assumes "rate_inv cfg k now hist st" and "rl_windowMs cfg \<le> rl_lockoutMs cfg"
  shows "rate_inv cfg k now hist (snd (check lib cfg now ip scope st))"
proof -
  obtain k' i where k': "resolveKey lib ip scope = (k', i)" by fastforce
  show ?thesis
  proof (cases "map_of st k'")
    case None
    then show ?thesis using assms(1) by (simp add: check_def k')
  next
    case (Some e)
    let ?e = "slideWindow cfg now (clear_lock now e)"
    have "rate_inv cfg k now hist (AList.update k' ?e st)" if "\<not> still_locked now e"
    proof (cases "k' = k")
      case True
      note c = expired_clears [OF assms(1) Some [unfolded True] that assms(2)]
      show ?thesis unfolding True
      proof (rule rate_inv_entry [OF assms(1)])
        show "recent cfg now (re_attempts ?e) = recent cfg now hist"
          using c(1) by (simp add: recent_slide(2))
      qed (simp add: c(2))
    next
      case False
      then show ?thesis by (rule rate_inv_other(1) [OF assms(1)])
    qed
    then show ?thesis using assms(1) Some by (simp add: check_def k' Let_def)
  qed
qed


lemma check_allowed:
  assumes "rate_inv cfg k now hist st" and "rl_windowMs cfg \<le> rl_lockoutMs cfg" and "1 \<le> rl_maxAttempts cfg"
    and "resolveKey lib ip scope = (k, i)" and "\<not> isExempt lib cfg i" and "rk_allowed (fst (check lib cfg now ip scope st))"
  shows "int (length (recent cfg now hist)) < rl_maxAttempts cfg"
    and "map_of (snd (check lib cfg now ip scope st)) k = Some e \<Longrightarrow> lock_set e = None"
proof -
  let ?r = "check lib cfg now ip scope st"
  have "int (length (recent cfg now hist)) < rl_maxAttempts cfg \<and>
    (map_of (snd ?r) k = Some e \<longrightarrow> lock_set e = None)"
  proof (cases "map_of st k")
    case None
    then show ?thesis using assms by (simp add: rate_inv_def check_def)
  next
    case (Some d)
    have nl: "\<not> still_locked now d" using assms(4-6) Some by (auto simp: check_def)
    let ?e = "slideWindow cfg now (clear_lock now d)"
    note c = expired_clears [OF assms(1) Some nl assms(2)]
    have len: "re_attempts ?e = recent cfg now hist" using c(1) by (simp add: recent_slide(2))
    have r: "?r = (\<lparr>rk_allowed = (max 0 (rl_maxAttempts cfg - int (length (re_attempts ?e))) > 0),
        rk_remaining = max 0 (rl_maxAttempts cfg - int (length (re_attempts ?e))), rk_retryAfterMs = 0\<rparr>,
        AList.update k ?e st)"
      using assms(4,5) Some nl by (simp add: check_def Let_def)
    have "int (length (recent cfg now hist)) < rl_maxAttempts cfg"
      using assms(6) unfolding r len by simp
    moreover have "map_of (snd ?r) k = Some e \<longrightarrow> lock_set e = None"
      unfolding r using c(2) by (auto simp: update_conv')
    ultimately show ?thesis by blast
  qed
  then show "int (length (recent cfg now hist)) < rl_maxAttempts cfg"
    "map_of (snd (check lib cfg now ip scope st)) k = Some e \<Longrightarrow> lock_set e = None" by blast+
qed

lemma record_inv:
  assumes "rate_inv cfg k now hist st" and "0 < rl_windowMs cfg"
    and "resolveKey lib ip scope = (k, i)" and "\<not> isExempt lib cfg i"
    and "\<And>e. map_of st k = Some e \<Longrightarrow> lock_set e = None"
  shows "rate_inv cfg k now (hist @ [now]) (recordFailure lib cfg now ip scope st)"
proof -
  define e where "e = (case map_of st k of None \<Rightarrow> empty_entry | Some e \<Rightarrow> e)"
  have l: "lock_set e = None" using assms(5) by (auto simp: e_def empty_entry_def lock_set_def split: option.split)
  have a: "recent cfg now (re_attempts e) = recent cfg now hist"
    using assms(1) by (cases "map_of st k") (simp_all add: rate_inv_def e_def empty_entry_def recent_def)
  define e2 where "e2 = (slideWindow cfg now e)\<lparr>re_attempts := re_attempts (slideWindow cfg now e) @ [now]\<rparr>"
  define e3 where "e3 = (if int (length (re_attempts e2)) \<ge> rl_maxAttempts cfg
    then e2\<lparr>re_lockedUntil := Some (now + rl_lockoutMs cfg)\<rparr> else e2)"
  have r: "recordFailure lib cfg now ip scope st = AList.update k e3 st"
    using assms(3,4) l
    by (simp add: recordFailure_def e_def [symmetric] Let_def still_locked_def e3_def e2_def)
  have "re_attempts e3 = recent cfg now hist @ [now]"
    using a by (simp add: e3_def e2_def recent_slide(2))
  then have att: "recent cfg now (re_attempts e3) = recent cfg now (hist @ [now])"
    using assms(2) by (simp add: recent_def)
  have lock: "\<forall>t \<in> set (hist @ [now]). t \<le> m - rl_lockoutMs cfg" if "lock_set e3 = Some m" for m
  proof -
    have "lock_set e2 = None" using l by (simp add: e2_def lock_set_def slideWindow_def)
    with that have "m = now + rl_lockoutMs cfg" by (auto simp: e3_def lock_set_def split: if_splits option.splits)
    then show ?thesis using assms(1) by (auto simp: rate_inv_def)
  qed
  show ?thesis
    using assms(1) att lock unfolding r rate_inv_def
    by (simp add: distinct_update update_conv' split: option.split)
qed

lemma record_inv_other:
  assumes "rate_inv cfg k now hist st" and "fst (resolveKey lib ip scope) \<noteq> k \<or> isExempt lib cfg (snd (resolveKey lib ip scope))"
  shows "rate_inv cfg k now hist (recordFailure lib cfg now ip scope st)"
  using assms rate_inv_other(1) [OF assms(1)]
  by (auto simp: recordFailure_def Let_def split: prod.split option.split)

lemma reset_inv_other:
  assumes "rate_inv cfg k now hist st" and "fst (resolveKey lib ip scope) \<noteq> k"
  shows "rate_inv cfg k now hist (reset lib ip scope st)"
  using rate_inv_other(2) [OF assms] by (simp add: reset_def)

lemma map_of_map_filter:
  assumes "distinct (map fst st)"
  shows "map_of (List.map_filter (\<lambda>(k, e). map_option (\<lambda>e'. (k, e')) (f e)) st) k = Option.bind (map_of st k) f"
    and "distinct (map fst (List.map_filter (\<lambda>(k, e). map_option (\<lambda>e'. (k, e')) (f e)) st))"
proof -
  let ?g = "\<lambda>(k, e). map_option (\<lambda>e'. (k, e')) (f e)"
  have s: "set (map fst (List.map_filter ?g xs)) \<subseteq> set (map fst xs)" for xs
    by (force simp: List.map_filter_def split: option.splits)
  have m: "map_of (List.map_filter ?g xs) k = None" if "k \<notin> set (map fst xs)" for xs
    using s [of xs] that by (auto simp: map_of_eq_None_iff)
  show "map_of (List.map_filter ?g st) k = Option.bind (map_of st k) f" using assms
  proof (induction st)
    case (Cons x st)
    obtain k' e where x: "x = (k', e)" by fastforce
    show ?case
      using Cons m [of st] by (cases "f e") (auto simp: x List.map_filter_simps)
  qed (simp add: List.map_filter_def)
  show "distinct (map fst (List.map_filter ?g st))" using assms
  proof (induction st)
    case (Cons x st)
    obtain k' e where x: "x = (k', e)" by fastforce
    show ?case using Cons s [of st] by (cases "f e") (auto simp: x List.map_filter_simps)
  qed (simp add: List.map_filter_def)
qed

lemma prune_inv:
  assumes "rate_inv cfg k now hist st"
  shows "rate_inv cfg k now hist (prune cfg now st)"
proof -
  have d: "distinct (map fst st)" using assms by (simp add: rate_inv_def)
  note p = map_of_map_filter [OF d, of "prune_entry cfg now", folded prune_def]
  show ?thesis
  proof (cases "map_of st k")
    case None
    then show ?thesis using assms p by (simp add: rate_inv_def)
  next
    case (Some e)
    then have r: "recent cfg now (re_attempts e) = recent cfg now hist"
      "\<forall>l. lock_set e = Some l \<longrightarrow> (\<forall>t \<in> set hist. t \<le> l - rl_lockoutMs cfg)"
      "\<forall>t \<in> set hist. t \<le> now"
      using assms by (auto simp: rate_inv_def split: option.splits)
    show ?thesis
    proof (cases "prune_entry cfg now e")
      case None
      then have "recent cfg now (re_attempts e) = []"
        by (auto simp: prune_entry_def Let_def recent_slide(2) split: if_splits)
      then show ?thesis using r p Some None by (simp add: rate_inv_def)
    next
      case (Some e')
      then have "e' = e \<or> e' = slideWindow cfg now e" by (auto simp: prune_entry_def Let_def split: if_splits)
      then have "recent cfg now (re_attempts e') = recent cfg now hist" "lock_set e' = lock_set e"
        using r(1) by (auto simp: recent_slide(2))
      then show ?thesis using r p Some \<open>map_of st k = Some e\<close>
        by (auto simp: rate_inv_def split: option.split)
    qed
  qed
qed


section \<open>Guessing the secret\<close>

text \<open>What happens at the gateway: HTTP requests, each decided in one section, the limiter's timer, and
  failures and resets that other parts of the gateway record.\<close>

datatype gate_event =
    HttpRequest connect_params
  | PruneTick
  | OtherFailure "string option" "string option"
  | OtherReset "string option" "string option"

definition request_key :: "auth_env \<Rightarrow> connect_params \<Rightarrow> string \<times> string" where
  "request_key env ps = resolveKey (ae_lib env) (connect_ip env ps) (Some (connect_scope ps))"

fun gate_step :: "auth_env \<Rightarrow> rate_config \<Rightarrow> int \<times> gate_event \<Rightarrow> rate_state \<Rightarrow> auth_result option \<times> rate_state" where
  "gate_step env cfg (now, HttpRequest ps) st =
     (case authorizeHttpGatewayConnect env now ps st of (r, st') \<Rightarrow> (Some r, st'))"
| "gate_step env cfg (now, PruneTick) st = (None, prune cfg now st)"
| "gate_step env cfg (now, OtherFailure ip scope) st = (None, recordFailure (ae_lib env) cfg now ip scope st)"
| "gate_step env cfg (now, OtherReset ip scope) st = (None, reset (ae_lib env) ip scope st)"

fun gate_run :: "auth_env \<Rightarrow> rate_config \<Rightarrow> (int \<times> gate_event) list \<Rightarrow> rate_state \<Rightarrow>
    (int \<times> gate_event \<times> auth_result option) list" where
  "gate_run env cfg [] st = []"
| "gate_run env cfg (e # es) st =
     (case gate_step env cfg e st of (r, st') \<Rightarrow> (fst e, snd e, r) # gate_run env cfg es st')"

text \<open>A secret of the client with key \<open>k\<close> was compared and was wrong.\<close>

definition is_guess :: "auth_env \<Rightarrow> rate_config \<Rightarrow> string \<Rightarrow> gate_event \<Rightarrow> auth_result option \<Rightarrow> bool" where
  "is_guess env cfg k e r =
     (case e of
        HttpRequest ps \<Rightarrow>
          fst (request_key env ps) = k \<and> \<not> isExempt (ae_lib env) cfg (snd (request_key env ps)) \<and>
          ga_mode (cn_auth ps) \<in> {AuthToken, AuthPassword} \<and>
          r \<in> {Some (Refused ''token_mismatch''), Some (Refused ''password_mismatch'')}
      | _ \<Rightarrow> False)"

definition guess_times :: "auth_env \<Rightarrow> rate_config \<Rightarrow> string \<Rightarrow> (int \<times> gate_event \<times> auth_result option) list \<Rightarrow> int list" where
  "guess_times env cfg k tr = map fst (filter (\<lambda>(t, e, r). is_guess env cfg k e r) tr)"

text \<open>What would reset the counter of \<open>k\<close> or charge it with failures that are no guesses of this kind.\<close>

definition foreign :: "auth_env \<Rightarrow> rate_config \<Rightarrow> string \<Rightarrow> gate_event \<Rightarrow> auth_result option \<Rightarrow> bool" where
  "foreign env cfg k e r =
     (case e of
        HttpRequest ps \<Rightarrow> fst (request_key env ps) = k \<longrightarrow> (\<forall>m u. r \<noteq> Some (Granted m u))
      | PruneTick \<Rightarrow> True
      | OtherFailure ip scope \<Rightarrow> fst (resolveKey (ae_lib env) ip scope) \<noteq> k
      | OtherReset ip scope \<Rightarrow> fst (resolveKey (ae_lib env) ip scope) \<noteq> k)"

text \<open>The decision on the HTTP surface, for a mode with a shared secret.\<close>

lemma http_decision:
  assumes "ae_limiter env = Some cfg" and "ga_mode (cn_auth ps) \<in> {AuthToken, AuthPassword}"
  shows "authorizeHttpGatewayConnect env now ps st =
    (case check (ae_lib env) cfg now (connect_ip env ps) (Some (connect_scope ps)) st of
       (r, st1) \<Rightarrow> if \<not> rk_allowed r then (RateLimited (rk_retryAfterMs r), st1)
       else if ga_mode (cn_auth ps) = AuthToken
       then authorizeSecret env ''token'' MethodToken now (connect_ip env ps) (connect_scope ps)
              (ga_token (cn_auth ps)) (cn_token ps) st1
       else authorizeSecret env ''password'' MethodPassword now (connect_ip env ps) (connect_scope ps)
              (ga_password (cn_auth ps)) (cn_password ps) st1)"
proof -
  have c: "connect_ip env (ps\<lparr>cn_surface := SurfaceHttp\<rparr>) = connect_ip env ps"
    "connect_scope (ps\<lparr>cn_surface := SurfaceHttp\<rparr>) = connect_scope ps"
    by (simp_all add: connect_ip_def connect_scope_def cong: option.case_cong)
  show ?thesis
    using assms
    by (auto simp: authorizeHttpGatewayConnect_def authorizeGatewayConnect_def authorize_identity_def
        authorizeTokenAuth_def c Let_def split: prod.split)
qed

lemma secret_result:
  assumes "ae_limiter env = Some cfg"
    and "authorizeSecret env kind how now ip scope expected provided st = (r, st')"
  shows "r = Refused (kind @ ''_mismatch'') \<and> st' = recordFailure (ae_lib env) cfg now ip (Some scope) st \<or>
    r = Granted how None \<and> st' = reset (ae_lib env) ip (Some scope) st \<or>
    (r = Refused (kind @ ''_missing_config'') \<or> r = Refused (kind @ ''_missing'')) \<and> st' = st"
  using assms by (auto simp: authorizeSecret_def limiter_fail_def limiter_reset_def split: if_splits)


lemma http_other_mode:
  "ga_mode (cn_auth ps) \<notin> {AuthToken, AuthPassword} \<Longrightarrow> snd (authorizeHttpGatewayConnect env now ps st) = st"
  by (cases "ga_mode (cn_auth ps)") (simp_all add: authorizeHttpGatewayConnect_def authorizeGatewayConnect_def)

lemma http_step:
  assumes lim: "ae_limiter env = Some cfg" "0 < rl_windowMs cfg" "rl_windowMs cfg \<le> rl_lockoutMs cfg" "1 \<le> rl_maxAttempts cfg"
    and inv: "rate_inv cfg k now hist st" and step: "authorizeHttpGatewayConnect env now ps st = (r, st')"
    and fgn: "foreign env cfg k (HttpRequest ps) (Some r)"
  shows "if is_guess env cfg k (HttpRequest ps) (Some r)
    then rate_inv cfg k now (hist @ [now]) st' \<and> int (length (recent cfg now hist)) < rl_maxAttempts cfg
    else rate_inv cfg k now hist st'"
proof (cases "ga_mode (cn_auth ps) \<in> {AuthToken, AuthPassword}")
  case False
  then have "st' = st" using http_other_mode [OF False, of env now st] step by simp
  then show ?thesis using False inv by (simp add: is_guess_def)
next
  case True
  let ?ip = "connect_ip env ps" and ?sc = "connect_scope ps"
  obtain c st1 where c: "check (ae_lib env) cfg now ?ip (Some ?sc) st = (c, st1)" by fastforce
  note inv1 = check_inv [OF inv lim(3), of "ae_lib env" ?ip "Some ?sc", unfolded c snd_conv]
  show ?thesis
  proof (cases "rk_allowed c")
    case False
    then have "r = RateLimited (rk_retryAfterMs c)" "st' = st1"
      using step by (simp_all add: http_decision [OF lim(1) True] c)
    then show ?thesis using inv1 by (simp add: is_guess_def)
  next
    case al: True
    have key: "request_key env ps = resolveKey (ae_lib env) ?ip (Some ?sc)" by (simp add: request_key_def)
    have "\<exists>kind how expected provided. (kind = ''token'' \<or> kind = ''password'') \<and>
      authorizeSecret env kind how now ?ip ?sc expected provided st1 = (r, st')"
    proof (cases "ga_mode (cn_auth ps) = AuthToken")
      case True
      then have "authorizeSecret env ''token'' MethodToken now ?ip ?sc (ga_token (cn_auth ps)) (cn_token ps) st1 = (r, st')"
        using step al by (simp add: http_decision [OF lim(1)] c)
      then show ?thesis by blast
    next
      case False
      then have "authorizeSecret env ''password'' MethodPassword now ?ip ?sc (ga_password (cn_auth ps)) (cn_password ps) st1 = (r, st')"
        using step al \<open>ga_mode (cn_auth ps) \<in> _\<close> by (simp add: http_decision [OF lim(1)] c)
      then show ?thesis by blast
    qed
    then obtain kind how expected provided where kind: "kind = ''token'' \<or> kind = ''password''"
      and sec: "authorizeSecret env kind how now ?ip ?sc expected provided st1 = (r, st')" by blast
    note cases = secret_result [OF lim(1) sec]
    from cases consider (wrong) "r = Refused (kind @ ''_mismatch'')" "st' = recordFailure (ae_lib env) cfg now ?ip (Some ?sc) st1"
      | (granted) "r = Granted how None" "st' = reset (ae_lib env) ?ip (Some ?sc) st1"
      | (absent) "r = Refused (kind @ ''_missing_config'') \<or> r = Refused (kind @ ''_missing'')" "st' = st1" by blast
    then show ?thesis
    proof cases
      case wrong
      then have w: "r \<in> {Refused ''token_mismatch'', Refused ''password_mismatch''}" using kind by auto
      show ?thesis
      proof (cases "fst (request_key env ps) = k \<and> \<not> isExempt (ae_lib env) cfg (snd (request_key env ps))")
        case True
        then obtain i where ki: "resolveKey (ae_lib env) ?ip (Some ?sc) = (k, i)" "\<not> isExempt (ae_lib env) cfg i"
          unfolding key by (cases "resolveKey (ae_lib env) ?ip (Some ?sc)") auto
        note a = check_allowed [OF inv lim(3,4) ki, unfolded c fst_conv snd_conv, OF al]
        have "rate_inv cfg k now (hist @ [now]) st'"
          unfolding wrong(2) by (rule record_inv [OF inv1 lim(2) ki]) (rule a(2))
        then show ?thesis using a(1) True w \<open>ga_mode (cn_auth ps) \<in> _\<close> by (simp add: is_guess_def)
      next
        case False
        then have "rate_inv cfg k now hist st'"
          unfolding wrong(2) key by (intro record_inv_other [OF inv1]) auto
        then show ?thesis using False by (auto simp: is_guess_def)
      qed
    next
      case granted
      then have "fst (resolveKey (ae_lib env) ?ip (Some ?sc)) \<noteq> k"
        using fgn by (auto simp: foreign_def key)
      from reset_inv_other [OF inv1 this] granted show ?thesis by (simp add: is_guess_def)
    next
      case absent
      then have "r \<notin> {Refused ''token_mismatch'', Refused ''password_mismatch''}" using kind by auto
      then show ?thesis using inv1 absent(2) by (simp add: is_guess_def)
    qed
  qed
qed

definition bounded_rate :: "rate_config \<Rightarrow> int list \<Rightarrow> bool" where
  "bounded_rate cfg hist \<longleftrightarrow>
     (\<forall>T. int (length (filter (\<lambda>t. T - rl_windowMs cfg < t \<and> t \<le> T) hist)) \<le> rl_maxAttempts cfg)"

lemma bounded_snoc:
  assumes "bounded_rate cfg hist" and "\<forall>t \<in> set hist. t \<le> now"
    and "int (length (recent cfg now hist)) < rl_maxAttempts cfg"
  shows "bounded_rate cfg (hist @ [now])"
  unfolding bounded_rate_def
proof
  fix T
  show "int (length (filter (\<lambda>t. T - rl_windowMs cfg < t \<and> t \<le> T) (hist @ [now]))) \<le> rl_maxAttempts cfg"
  proof (cases "now \<le> T")
    case True
    have "length (filter (\<lambda>t. T - rl_windowMs cfg < t \<and> t \<le> T) hist) \<le> length (recent cfg now hist)"
    proof -
      have "filter (\<lambda>t. T - rl_windowMs cfg < t \<and> t \<le> T) hist =
          filter (\<lambda>t. T - rl_windowMs cfg < t \<and> t \<le> T) (recent cfg now hist)"
        unfolding recent_def filter_filter by (rule filter_cong [OF refl]) (use True in auto)
      then show ?thesis by (metis length_filter_le)
    qed
    then show ?thesis using assms(3) True by simp
  next
    case False
    then show ?thesis using assms(1) by (simp add: bounded_rate_def)
  qed
qed

lemma gate_run_bounded:
  assumes lim: "ae_limiter env = Some cfg" "0 < rl_windowMs cfg" "rl_windowMs cfg \<le> rl_lockoutMs cfg" "1 \<le> rl_maxAttempts cfg"
    and "rate_inv cfg k now hist st" and "bounded_rate cfg hist" and "sorted (now # map fst es)"
    and "list_all (\<lambda>(t, e, r). foreign env cfg k e r) (gate_run env cfg es st)"
  shows "bounded_rate cfg (hist @ guess_times env cfg k (gate_run env cfg es st))"
  using assms(5-8)
proof (induction es arbitrary: now hist st)
  case (Cons x es)
  obtain t e where x: "x = (t, e)" by fastforce
  obtain r st' where s: "gate_step env cfg (t, e) st = (r, st')" by fastforce
  have t: "now \<le> t" "sorted (t # map fst es)" using Cons.prems(3) by (simp_all add: x)
  have inv: "rate_inv cfg k t hist st" by (rule rate_inv_later [OF Cons.prems(1) t(1)])
  have f: "foreign env cfg k e r" and rest: "list_all (\<lambda>(t, e, r). foreign env cfg k e r) (gate_run env cfg es st')"
    using Cons.prems(4) by (simp_all add: x s)
  have step: "if is_guess env cfg k e r
    then rate_inv cfg k t (hist @ [t]) st' \<and> int (length (recent cfg t hist)) < rl_maxAttempts cfg
    else rate_inv cfg k t hist st'"
  proof (cases e)
    case (HttpRequest ps)
    then obtain a where a: "authorizeHttpGatewayConnect env t ps st = (a, st')" "r = Some a"
      using s by (auto split: prod.splits)
    show ?thesis using http_step [OF lim inv a(1)] f by (simp add: HttpRequest a(2))
  next
    case PruneTick
    then show ?thesis using s prune_inv [OF inv] by (auto simp: is_guess_def)
  next
    case (OtherFailure ip scope)
    then show ?thesis using s f record_inv_other [OF inv, of "ae_lib env" ip scope] by (auto simp: is_guess_def foreign_def)
  next
    case (OtherReset ip scope)
    then show ?thesis using s f reset_inv_other [OF inv, of "ae_lib env" ip scope] by (auto simp: is_guess_def foreign_def)
  qed
  show ?case
  proof (cases "is_guess env cfg k e r")
    case True
    have "bounded_rate cfg (hist @ [t])"
      using bounded_snoc [OF Cons.prems(2)] inv step True by (simp add: rate_inv_def)
    from Cons.IH [OF _ this t(2) rest] step True show ?thesis by (simp add: x s guess_times_def)
  next
    case False
    with Cons.IH [OF _ Cons.prems(2) t(2) rest] step show ?thesis by (simp add: x s guess_times_def)
  qed
qed (simp add: guess_times_def)



definition strict_limit :: rate_config where
  "strict_limit = \<lparr>rl_maxAttempts = 2, rl_windowMs = 1000, rl_lockoutMs = 5000, rl_exemptLoopback = True\<rparr>"

text \<open>A library for which every address is the same public one.\<close>

definition one_client_lib :: ip_lib where
  "one_client_lib = \<lparr>il_v4 = (\<lambda>_. Some [9, 9, 9, 9]), il_four_part = (\<lambda>_. True), il_v6 = (\<lambda>_. None),
     il_parse = (\<lambda>_. None), il_mapped = (\<lambda>_. None), il_show = (\<lambda>_. ''9.9.9.9''), il_range = (\<lambda>_. ''unicast''),
     il_match = (\<lambda>_ _ _. None), il_cidr = (\<lambda>_. None), il_node = (\<lambda>_. 4), il_url = (\<lambda>_. None)\<rparr>"

definition one_client_gate :: auth_env where
  "one_client_gate = \<lparr>ae_lib = one_client_lib, ae_sha = id, ae_whois = (\<lambda>_. None), ae_limiter = Some strict_limit\<rparr>"

definition example_gate :: auth_env where
  "example_gate = \<lparr>ae_lib = example_lib, ae_sha = id, ae_whois = (\<lambda>_. None), ae_limiter = Some strict_limit\<rparr>"

definition guess_from :: "string \<Rightarrow> string \<Rightarrow> connect_params" where
  "guess_from ip token = \<lparr>cn_auth = \<lparr>ga_mode = AuthToken, ga_token = Some ''secret'', ga_password = None,
       ga_allowTailscale = False, ga_trustedProxy = None\<rparr>,
     cn_token = Some token, cn_password = None,
     cn_req = Some \<lparr>rq_remoteAddress = Some ip, rq_headers = []\<rparr>, cn_trustedProxies = [],
     cn_surface = SurfaceHttp, cn_clientIp = None, cn_rateLimitScope = None, cn_allowRealIpFallback = False,
     cn_originPolicy = None\<rparr>"

definition guessing :: "(int \<times> gate_event) list" where
  "guessing = [(10, HttpRequest (guess_from ''9.9.9.9'' ''a'')), (20, HttpRequest (guess_from ''9.9.9.9'' ''b'')),
     (30, PruneTick), (40, HttpRequest (guess_from ''9.9.9.9'' ''secret''))]"

lemma guessing_results:
  "map (\<lambda>(t, e, r). r) (gate_run one_client_gate strict_limit guessing []) =
     [Some (Refused ''token_mismatch''), Some (Refused ''token_mismatch''), None, Some (RateLimited 4980)]"
  by code_simp

lemma guessing_key: "request_key one_client_gate (guess_from ''9.9.9.9'' t) = (''shared-secret:9.9.9.9'', ''9.9.9.9'')"
proof -
  have "request_key one_client_gate (guess_from ''9.9.9.9'' t) = request_key one_client_gate (guess_from ''9.9.9.9'' [])"
    by (simp add: request_key_def connect_ip_def connect_scope_def guess_from_def cong: option.case_cong)
  also have "\<dots> = (''shared-secret:9.9.9.9'', ''9.9.9.9'')" by code_simp
  finally show ?thesis .
qed

lemma guessing_trace:
  "gate_run one_client_gate strict_limit guessing [] =
     [(10, HttpRequest (guess_from ''9.9.9.9'' ''a''), Some (Refused ''token_mismatch'')),
      (20, HttpRequest (guess_from ''9.9.9.9'' ''b''), Some (Refused ''token_mismatch'')),
      (30, PruneTick, None), (40, HttpRequest (guess_from ''9.9.9.9'' ''secret''), Some (RateLimited 4980))]"
proof -
  have "gate_run env cfg es st = zip (map fst es) (zip (map snd es) (map (\<lambda>(t, e, r). r) (gate_run env cfg es st)))" for env cfg es st
    by (induction es arbitrary: st) (auto split: prod.split)
  from this [of one_client_gate strict_limit guessing "[]"]
  show ?thesis unfolding guessing_results by (simp add: guessing_def)
qed


section \<open>Who is let in\<close>

definition secret_presented :: "auth_env \<Rightarrow> string option \<Rightarrow> string option \<Rightarrow> bool" where
  "secret_presented env provided expected \<longleftrightarrow>
     (\<exists>t s. provided = Some t \<and> expected = Some s \<and> t \<noteq> [] \<and> s \<noteq> [] \<and> ae_sha env t = ae_sha env s)"

definition tailnet_names :: "auth_env \<Rightarrow> connect_params \<Rightarrow> string option \<Rightarrow> bool" where
  "tailnet_names env ps u \<longleftrightarrow> cn_surface ps = SurfaceControlUi \<and> ga_allowTailscale (cn_auth ps) \<and>
     (\<exists>r claimed ip name login. cn_req ps = Some r \<and> isLoopbackAddress (ae_lib env) (rq_remoteAddress r) \<and>
        getTailscaleUser (Some r) = Some claimed \<and> resolveTailscaleClientIp (ae_lib env) (Some r) = Some ip \<and>
        ae_whois env ip = Some (login, name) \<and> u = Some login \<and> login \<noteq> [] \<and>
        normalizeLogin login = normalizeLogin (tu_login claimed))"

definition proxy_names :: "auth_env \<Rightarrow> connect_params \<Rightarrow> string option \<Rightarrow> bool" where
  "proxy_names env ps u \<longleftrightarrow>
     (\<exists>r tp user. cn_req ps = Some r \<and> ga_trustedProxy (cn_auth ps) = Some tp \<and> u = Some user \<and>
        isTrustedProxyAddress (ae_lib env) (rq_remoteAddress r) (cn_trustedProxies ps) \<and>
        \<not> isLoopbackAddress (ae_lib env) (rq_remoteAddress r) \<and>
        trimmed_opt (headerValue r (to_lower (tp_userHeader tp))) = Some user \<and>
        (tp_allowUsers tp = [] \<or> user \<in> set (tp_allowUsers tp)) \<and>
        missing_header r (tp_requiredHeaders tp) = None)"

lemma secret_granted:
  assumes "fst (authorizeSecret env kind how now ip scope expected provided st) = Granted m u"
  shows "m = how \<and> secret_presented env provided expected"
  using assms
  by (cases expected; cases provided)
    (auto simp: authorizeSecret_def secret_presented_def safeEqualSecret_def truthy_def split: if_splits)

lemma tailnet_user:
  assumes "resolveVerifiedTailscaleUser lib w req = Inr v"
  shows "\<exists>r claimed ip name. req = Some r \<and> isLoopbackAddress lib (rq_remoteAddress r) \<and>
    getTailscaleUser (Some r) = Some claimed \<and> resolveTailscaleClientIp lib (Some r) = Some ip \<and>
    w ip = Some (tu_login v, name) \<and> tu_login v \<noteq> [] \<and> normalizeLogin (tu_login v) = normalizeLogin (tu_login claimed)"
  using assms
  by (cases req)
    (auto simp: resolveVerifiedTailscaleUser_def isTailscaleProxyRequest_def split: option.splits if_splits prod.splits)

lemma identity_granted:
  assumes "ga_mode (cn_auth ps) \<in> {AuthToken, AuthPassword}" and "fst (authorize_identity env failNow ps st) = Granted m u"
  shows "m = MethodTailscale \<and> tailnet_names env ps u \<or>
    m = MethodToken \<and> ga_mode (cn_auth ps) = AuthToken \<and> secret_presented env (cn_token ps) (ga_token (cn_auth ps)) \<or>
    m = MethodPassword \<and> ga_mode (cn_auth ps) = AuthPassword \<and> secret_presented env (cn_password ps) (ga_password (cn_auth ps))"
proof -
  let ?ask = "cn_surface ps = SurfaceControlUi \<and> ga_allowTailscale (cn_auth ps) \<and> \<not> isLocalDirectRequest (ae_lib env) (cn_req ps)"
  show ?thesis
  proof (cases "?ask \<and> (\<exists>v. resolveVerifiedTailscaleUser (ae_lib env) (ae_whois env) (cn_req ps) = Inr v)")
    case True
    then obtain v where v: "resolveVerifiedTailscaleUser (ae_lib env) (ae_whois env) (cn_req ps) = Inr v" by blast
    with True assms(2) have "m = MethodTailscale" "u = Some (tu_login v)"
      by (simp_all add: authorize_identity_def Let_def)
    then show ?thesis using True tailnet_user [OF v] by (auto simp: tailnet_names_def)
  next
    case False
    then have none: "(if ?ask then case resolveVerifiedTailscaleUser (ae_lib env) (ae_whois env) (cn_req ps) of
        Inl _ \<Rightarrow> None | Inr u \<Rightarrow> Some u else None) = None"
      by (auto split: sum.split)
    let ?ip = "connect_ip env ps" and ?sc = "connect_scope ps"
    show ?thesis
    proof (cases "ga_mode (cn_auth ps) = AuthToken")
      case True
      then have "authorize_identity env failNow ps st =
          authorizeSecret env ''token'' MethodToken failNow ?ip ?sc (ga_token (cn_auth ps)) (cn_token ps) st"
        unfolding authorize_identity_def Let_def none by (simp add: authorizeTokenAuth_def)
      with assms(2) have "fst (authorizeSecret env ''token'' MethodToken failNow ?ip ?sc (ga_token (cn_auth ps)) (cn_token ps) st) =
        Granted m u" by simp
      from secret_granted [OF this] True show ?thesis by simp
    next
      case False
      then have p: "ga_mode (cn_auth ps) = AuthPassword" using assms(1) by simp
      then have "authorize_identity env failNow ps st =
          authorizeSecret env ''password'' MethodPassword failNow ?ip ?sc (ga_password (cn_auth ps)) (cn_password ps) st"
        unfolding authorize_identity_def Let_def none by simp
      with assms(2) have "fst (authorizeSecret env ''password'' MethodPassword failNow ?ip ?sc (ga_password (cn_auth ps)) (cn_password ps) st) =
        Granted m u" by simp
      from secret_granted [OF this] p show ?thesis by simp
    qed
  qed
qed




section \<open>Behind a proxy on the same host\<close>

text \<open>Behind a reverse proxy on the same host the bound is void for requests whose forwarding chain
  names nobody: such a request is charged to the proxy's loopback address, which is exempt, so that
  it is never limited and its wrong guesses are not recorded, however many there are.\<close>

theorem chainless_requests_unlimited:
  assumes "ae_limiter env = Some cfg" and "rl_exemptLoopback cfg" and "cn_clientIp ps = None" and "cn_req ps = Some r"
    and "rq_remoteAddress r = Some a" and "normalizeIp (ae_lib env) (Some a) = Some n" and "n \<noteq> []"
    and "isLoopbackAddress (ae_lib env) (Some n)" and "isTrustedProxyAddress (ae_lib env) (Some n) (cn_trustedProxies ps)"
    and "resolveForwardedClientIp (ae_lib env) (headerValue r ''x-forwarded-for'') (cn_trustedProxies ps) = None"
    and "\<not> cn_allowRealIpFallback ps" and "ga_mode (cn_auth ps) = AuthToken" and "truthy (ga_token (cn_auth ps))"
    and "truthy (cn_token ps)" and "\<not> safeEqualSecret (ae_sha env) (cn_token ps) (ga_token (cn_auth ps))"
  shows "authorizeHttpGatewayConnect env now ps st = (Refused ''token_mismatch'', st)"
proof -
  let ?lib = "ae_lib env"
  have "resolveRequestClientIp ?lib (cn_req ps) (cn_trustedProxies ps) (cn_allowRealIpFallback ps) = None"
    using assms by (simp add: resolveRequestClientIp_def resolveClientIp_def)
  then have ip: "connect_ip env ps = Some a" using assms(3-5) by (simp add: connect_ip_def)
  have "isTrustedProxyAddress ?lib (Some n) [] = False" by (simp add: isTrustedProxyAddress_def split: option.split)
  then have "normalizeRateLimitClientIp ?lib (Some a) = n"
    using assms(6,7) by (simp add: normalizeRateLimitClientIp_def resolveClientIp_def)
  then have k: "\<exists>k. resolveKey ?lib (Some a) sc = (k, n)" for sc by (simp add: resolveKey_def Let_def)
  have ex: "isExempt ?lib cfg n" using assms(2,8) by (simp add: isExempt_def)
  have c: "check ?lib cfg now (Some a) sc st = (\<lparr>rk_allowed = True, rk_remaining = rl_maxAttempts cfg, rk_retryAfterMs = 0\<rparr>, st)"
    "recordFailure ?lib cfg now (Some a) sc st = st" for sc
    using k [of sc] ex by (auto simp: check_def recordFailure_def)
  show ?thesis
    using assms(1,12-15) by (simp add: http_decision ip c authorizeSecret_def limiter_fail_def)
qed

definition proxied_guess :: connect_params where
  "proxied_guess = (guess_from ''127.0.0.1'' ''a'')\<lparr>cn_trustedProxies := [''127.0.0.1'']\<rparr>"

theorem chainless_requests_unlimited_witness:
  "authorizeHttpGatewayConnect example_gate 77 proxied_guess [] = (Refused ''token_mismatch'', [])"
proof (rule chainless_requests_unlimited [where r = "\<lparr>rq_remoteAddress = Some ''127.0.0.1'', rq_headers = []\<rparr>"
      and a = "''127.0.0.1''" and n = "''127.0.0.1''" and cfg = strict_limit])
  show "normalizeIp (ae_lib example_gate) (Some ''127.0.0.1'') = Some ''127.0.0.1''"
    "isLoopbackAddress (ae_lib example_gate) (Some ''127.0.0.1'')"
    "isTrustedProxyAddress (ae_lib example_gate) (Some ''127.0.0.1'') (cn_trustedProxies proxied_guess)"
    by code_simp+
qed (simp_all add: example_gate_def strict_limit_def proxied_guess_def guess_from_def truthy_def safeEqualSecret_def
    resolveForwardedClientIp_def forwarded_chain_def headerValue_def List.map_filter_def)

end
