(* ===== verification/ExecPolicy.thy ===== *)
theory ExecPolicy
  imports Prelude
begin

text \<open>
  The policy file of host command execution, \<open>src/infra/exec-approvals.ts\<close>: its data, how a file of
  unchecked values is normalized, how the policy of an agent is resolved, when a command needs an
  approval and how approvals are recorded in the allowlists; the summary of
  \<open>src/infra/exec-approvals-effective.ts\<close>; and the check a node host makes,
  \<open>src/node-host/exec-policy.ts\<close>.

  A field of a policy is what the file holds: absent (or null), a string, or something else.
  Allowlists are lists of entries and of the plain strings that old files have; other JSON values in
  them are outside the model. UUIDs are the values of a sequence, with the next index as state; the
  digest, the default socket path and the generated token are parameters.
\<close>

section \<open>Policy values\<close>

datatype exec_security = SecDeny | SecAllowlist | SecFull
datatype exec_ask = AskOff | AskOnMiss | AskAlways
datatype approval_decision = AllowOnce | AllowAlways | Deny

fun security_order :: "exec_security \<Rightarrow> nat" where
  "security_order SecDeny = 0"
| "security_order SecAllowlist = 1"
| "security_order SecFull = 2"

fun ask_order :: "exec_ask \<Rightarrow> nat" where
  "ask_order AskOff = 0"
| "ask_order AskOnMiss = 1"
| "ask_order AskAlways = 2"

text \<open>Both are ordered from the strict or quiet end, so that the code's comparisons are \<open>min\<close> and \<open>max\<close>.\<close>

instantiation exec_security :: linorder
begin

definition less_eq_exec_security :: "exec_security \<Rightarrow> exec_security \<Rightarrow> bool" where
  "less_eq_exec_security a b \<longleftrightarrow> security_order a \<le> security_order b"

definition less_exec_security :: "exec_security \<Rightarrow> exec_security \<Rightarrow> bool" where
  "less_exec_security a b \<longleftrightarrow> security_order a < security_order b"

instance
proof
  fix a b :: exec_security
  show "a \<le> b \<Longrightarrow> b \<le> a \<Longrightarrow> a = b"
    by (cases a; cases b) (simp_all add: less_eq_exec_security_def)
qed (auto simp: less_eq_exec_security_def less_exec_security_def)

end

instantiation exec_ask :: linorder
begin

definition less_eq_exec_ask :: "exec_ask \<Rightarrow> exec_ask \<Rightarrow> bool" where
  "less_eq_exec_ask a b \<longleftrightarrow> ask_order a \<le> ask_order b"

definition less_exec_ask :: "exec_ask \<Rightarrow> exec_ask \<Rightarrow> bool" where
  "less_exec_ask a b \<longleftrightarrow> ask_order a < ask_order b"

instance
proof
  fix a b :: exec_ask
  show "a \<le> b \<Longrightarrow> b \<le> a \<Longrightarrow> a = b"
    by (cases a; cases b) (simp_all add: less_eq_exec_ask_def)
qed (auto simp: less_eq_exec_ask_def less_exec_ask_def)

end

definition minSecurity :: "exec_security \<Rightarrow> exec_security \<Rightarrow> exec_security" where
  "minSecurity a b = (if security_order a \<le> security_order b then a else b)"

definition maxAsk :: "exec_ask \<Rightarrow> exec_ask \<Rightarrow> exec_ask" where
  "maxAsk a b = (if ask_order a \<ge> ask_order b then a else b)"

lemma minSecurity_min [simp]: "minSecurity a b = min a b"
  by (simp add: minSecurity_def min_def less_eq_exec_security_def)

lemma maxAsk_max [simp]: "maxAsk a b = max a b"
  by (cases a; cases b) (simp_all add: maxAsk_def max_def less_eq_exec_ask_def)

definition parse_security :: "string \<Rightarrow> exec_security option" where
  "parse_security s =
     (if s = ''deny'' then Some SecDeny else if s = ''allowlist'' then Some SecAllowlist
      else if s = ''full'' then Some SecFull else None)"

definition parse_ask :: "string \<Rightarrow> exec_ask option" where
  "parse_ask s =
     (if s = ''off'' then Some AskOff else if s = ''on-miss'' then Some AskOnMiss
      else if s = ''always'' then Some AskAlways else None)"

definition normalizeExecSecurity :: "string option \<Rightarrow> exec_security option" where
  "normalizeExecSecurity v = Option.bind v (\<lambda>s. parse_security (to_lower (trim s)))"

definition normalizeExecAsk :: "string option \<Rightarrow> exec_ask option" where
  "normalizeExecAsk v = Option.bind v (\<lambda>s. parse_ask (to_lower (trim s)))"

section \<open>The file\<close>

datatype policy_value = PStr string | POther

record exec_policy =
  ep_security :: "policy_value option"
  ep_ask :: "policy_value option"
  ep_askFallback :: "policy_value option"
  ep_autoAllowSkills :: "bool option"

text \<open>\<open>al_always\<close> is the source \<open>allow-always\<close>.\<close>

record allow_entry =
  al_id :: "string option"
  al_pattern :: string
  al_always :: bool
  al_commandText :: "string option"
  al_argPattern :: "string option"
  al_lastUsedAt :: "int option"
  al_lastUsedCommand :: "string option"
  al_lastResolvedPath :: "string option"

definition new_entry :: "string \<Rightarrow> allow_entry" where
  "new_entry p = \<lparr>al_id = None, al_pattern = p, al_always = False, al_commandText = None,
     al_argPattern = None, al_lastUsedAt = None, al_lastUsedCommand = None, al_lastResolvedPath = None\<rparr>"

datatype allow_item = ItemText string | ItemEntry allow_entry

record exec_agent = exec_policy +
  ea_allowlist :: "allow_item list option"

definition no_policy :: exec_policy where
  "no_policy = \<lparr>ep_security = None, ep_ask = None, ep_askFallback = None, ep_autoAllowSkills = None\<rparr>"

definition no_agent :: exec_agent where
  "no_agent = \<lparr>ep_security = None, ep_ask = None, ep_askFallback = None, ep_autoAllowSkills = None,
     ea_allowlist = None\<rparr>"

text \<open>The agents are an object: a list of keys and values with different keys.\<close>

record approvals_file =
  af_socketPath :: "string option"
  af_socketToken :: "string option"
  af_defaults :: exec_policy
  af_agents :: "(string \<times> exec_agent) list"

definition empty_file :: approvals_file where
  "empty_file = \<lparr>af_socketPath = None, af_socketToken = None, af_defaults = no_policy, af_agents = []\<rparr>"

record approvals_env =
  xe_uuid :: "nat \<Rightarrow> string"
  xe_socketPath :: string
  xe_token :: string
  xe_digest :: "string \<Rightarrow> string"

definition DEFAULT_AGENT_ID :: string where
  "DEFAULT_AGENT_ID = ''main''"

definition agent_at :: "string \<Rightarrow> approvals_file \<Rightarrow> exec_agent" where
  "agent_at k f = (case map_of (af_agents f) k of None \<Rightarrow> no_agent | Some a \<Rightarrow> a)"

section \<open>Normalization\<close>

definition normalizeAllowlistPattern :: "string option \<Rightarrow> string option" where
  "normalizeAllowlistPattern value = map_option to_lower (trimmed_opt value)"

text \<open>The walk of \<open>pushEntry\<close> over both lists: a string has no \<open>pattern\<close> and is skipped.\<close>

fun push_entries :: "(string \<times> string) list \<Rightarrow> allow_item list \<Rightarrow> allow_item list" where
  "push_entries seen [] = []"
| "push_entries seen (ItemText s # items) = push_entries seen items"
| "push_entries seen (ItemEntry e # items) =
     (case normalizeAllowlistPattern (Some (al_pattern e)) of
        None \<Rightarrow> push_entries seen items
      | Some p \<Rightarrow>
          (let key = (p, case al_argPattern e of None \<Rightarrow> [] | Some a \<Rightarrow> trim a)
           in if key \<in> set seen then push_entries seen items
              else ItemEntry e # push_entries (key # seen) items))"

definition or_else :: "'a option \<Rightarrow> 'a option \<Rightarrow> 'a option" where
  "or_else a b = (case a of None \<Rightarrow> b | Some x \<Rightarrow> Some x)"

definition items_of :: "allow_item list option \<Rightarrow> allow_item list" where
  "items_of xs = (case xs of None \<Rightarrow> [] | Some ys \<Rightarrow> ys)"

definition mergeLegacyAgent :: "exec_agent \<Rightarrow> exec_agent \<Rightarrow> exec_agent" where
  "mergeLegacyAgent current legacy =
     \<lparr>ep_security = or_else (ep_security current) (ep_security legacy),
      ep_ask = or_else (ep_ask current) (ep_ask legacy),
      ep_askFallback = or_else (ep_askFallback current) (ep_askFallback legacy),
      ep_autoAllowSkills = or_else (ep_autoAllowSkills current) (ep_autoAllowSkills legacy),
      ea_allowlist =
        (let allowlist = push_entries [] (items_of (ea_allowlist current) @ items_of (ea_allowlist legacy))
         in if allowlist = [] then None else Some allowlist)\<rparr>"

fun coerce_item :: "allow_item \<Rightarrow> allow_entry option" where
  "coerce_item (ItemText s) = map_option new_entry (trimmed_opt (Some s))"
| "coerce_item (ItemEntry e) = (if trim (al_pattern e) = [] then None else Some e)"

definition coerceAllowlistEntries :: "allow_item list option \<Rightarrow> allow_entry list option" where
  "coerceAllowlistEntries allowlist =
     (case allowlist of
        None \<Rightarrow> None
      | Some [] \<Rightarrow> Some []
      | Some items \<Rightarrow> (case List.map_filter coerce_item items of [] \<Rightarrow> None | result \<Rightarrow> Some result))"

fun assign_ids :: "(nat \<Rightarrow> string) \<Rightarrow> nat \<Rightarrow> allow_entry list \<Rightarrow> allow_entry list \<times> nat" where
  "assign_ids uuid n [] = ([], n)"
| "assign_ids uuid n (e # es) =
     (if al_id e = None \<or> al_id e = Some []
      then case assign_ids uuid (Suc n) es of (es', n') \<Rightarrow> (e\<lparr>al_id := Some (uuid n)\<rparr> # es', n')
      else case assign_ids uuid n es of (es', n') \<Rightarrow> (e # es', n'))"

definition ensureAllowlistIds ::
    "(nat \<Rightarrow> string) \<Rightarrow> nat \<Rightarrow> allow_entry list option \<Rightarrow> allow_entry list option \<times> nat" where
  "ensureAllowlistIds uuid n allowlist =
     (case allowlist of
        None \<Rightarrow> (None, n)
      | Some es \<Rightarrow> (case assign_ids uuid n es of (es', n') \<Rightarrow> (Some es', n')))"

definition stripAllowlistCommandText :: "allow_entry list option \<Rightarrow> allow_entry list option" where
  "stripAllowlistCommandText allowlist = map_option (map (\<lambda>e. e\<lparr>al_commandText := None\<rparr>)) allowlist"

text \<open>\<open>known\<close> is the test of the trimmed string.\<close>

definition sanitize_field :: "(string \<Rightarrow> bool) \<Rightarrow> policy_value option \<Rightarrow> policy_value option" where
  "sanitize_field known v =
     (case v of Some (PStr s) \<Rightarrow> if known (trim s) then Some (PStr (trim s)) else None | _ \<Rightarrow> None)"

definition sanitizeExecApprovalPolicy :: "'a exec_policy_scheme \<Rightarrow> 'a exec_policy_scheme" where
  "sanitizeExecApprovalPolicy p = p
     \<lparr>ep_security := sanitize_field (\<lambda>s. parse_security s \<noteq> None) (ep_security p),
      ep_ask := sanitize_field (\<lambda>s. parse_ask s \<noteq> None) (ep_ask p),
      ep_askFallback := sanitize_field (\<lambda>s. parse_security s \<noteq> None) (ep_askFallback p)\<rparr>"

definition normalize_agent :: "(nat \<Rightarrow> string) \<Rightarrow> nat \<Rightarrow> exec_agent \<Rightarrow> exec_agent \<times> nat" where
  "normalize_agent uuid n a =
     (case ensureAllowlistIds uuid n (coerceAllowlistEntries (ea_allowlist a)) of
        (withIds, n') \<Rightarrow>
          ((sanitizeExecApprovalPolicy a)
             \<lparr>ea_allowlist := map_option (map ItemEntry) (stripAllowlistCommandText withIds)\<rparr>, n'))"

fun normalize_agents ::
    "(nat \<Rightarrow> string) \<Rightarrow> nat \<Rightarrow> (string \<times> exec_agent) list \<Rightarrow> (string \<times> exec_agent) list \<times> nat" where
  "normalize_agents uuid n [] = ([], n)"
| "normalize_agents uuid n ((k, a) # as) =
     (case normalize_agent uuid n a of
        (a', n1) \<Rightarrow> (case normalize_agents uuid n1 as of (as', n2) \<Rightarrow> ((k, a') # as', n2)))"

definition migrate_legacy :: "(string \<times> exec_agent) list \<Rightarrow> (string \<times> exec_agent) list" where
  "migrate_legacy agents =
     (case map_of agents ''default'' of
        None \<Rightarrow> agents
      | Some legacy \<Rightarrow>
          AList.delete ''default''
            (AList.update DEFAULT_AGENT_ID
               (case map_of agents DEFAULT_AGENT_ID of
                  None \<Rightarrow> legacy | Some main \<Rightarrow> mergeLegacyAgent main legacy) agents))"

definition normalizeExecApprovals :: "(nat \<Rightarrow> string) \<Rightarrow> nat \<Rightarrow> approvals_file \<Rightarrow> approvals_file \<times> nat" where
  "normalizeExecApprovals uuid n f =
     (case normalize_agents uuid n (migrate_legacy (af_agents f)) of
        (agents, n') \<Rightarrow>
          (\<lparr>af_socketPath = trimmed_opt (af_socketPath f), af_socketToken = trimmed_opt (af_socketToken f),
            af_defaults = sanitizeExecApprovalPolicy (af_defaults f), af_agents = agents\<rparr>, n'))"

definition mergeExecApprovalsSocketDefaults ::
    "approvals_env \<Rightarrow> approvals_file \<Rightarrow> approvals_file option \<Rightarrow> approvals_file" where
  "mergeExecApprovalsSocketDefaults env normalized current =
     normalized
       \<lparr>af_socketPath := or_else (map_option trim (af_socketPath normalized))
          (or_else (Option.bind current (\<lambda>c. map_option trim (af_socketPath c))) (Some (xe_socketPath env))),
        af_socketToken := or_else (map_option trim (af_socketToken normalized))
          (or_else (Option.bind current (\<lambda>c. map_option trim (af_socketToken c))) (Some []))\<rparr>"

text \<open>
  \<open>disk\<close> is what the file on disk parses to, \<open>None\<close> when it is absent, unreadable or of another
  version.
\<close>

definition loadExecApprovals :: "approvals_env \<Rightarrow> nat \<Rightarrow> approvals_file option \<Rightarrow> approvals_file \<times> nat" where
  "loadExecApprovals env n disk =
     normalizeExecApprovals (xe_uuid env) n (case disk of None \<Rightarrow> empty_file | Some f \<Rightarrow> f)"

text \<open>The result is what is saved.\<close>

definition ensureExecApprovals :: "approvals_env \<Rightarrow> nat \<Rightarrow> approvals_file option \<Rightarrow> approvals_file \<times> nat" where
  "ensureExecApprovals env n disk =
     (case loadExecApprovals env n disk of
        (loaded, n1) \<Rightarrow>
          (case normalizeExecApprovals (xe_uuid env) n1 loaded of
             (f, n2) \<Rightarrow>
               (f\<lparr>af_socketPath := or_else (trimmed_opt (af_socketPath f)) (Some (xe_socketPath env)),
                  af_socketToken := or_else (trimmed_opt (af_socketToken f)) (Some (xe_token env))\<rparr>, n2)))"

section \<open>The policy of an agent\<close>

record resolved_policy =
  rp_security :: exec_security
  rp_ask :: exec_ask
  rp_askFallback :: exec_security
  rp_autoAllowSkills :: bool

record policy_overrides =
  ov_security :: "exec_security option"
  ov_ask :: "exec_ask option"
  ov_askFallback :: "exec_security option"
  ov_autoAllowSkills :: "bool option"

record policy_sources =
  ps_security :: "string option"
  ps_ask :: "string option"
  ps_askFallback :: "string option"

record approvals_resolved =
  ar_defaults :: resolved_policy
  ar_agent :: resolved_policy
  ar_sources :: policy_sources
  ar_allowlist :: "allow_entry list"
  ar_file :: approvals_file

datatype security_field = FieldSecurity | FieldAskFallback

fun field_name :: "security_field \<Rightarrow> string" where
  "field_name FieldSecurity = ''security''"
| "field_name FieldAskFallback = ''askFallback''"

fun field_of :: "security_field \<Rightarrow> 'a exec_policy_scheme \<Rightarrow> policy_value option" where
  "field_of FieldSecurity p = ep_security p"
| "field_of FieldAskFallback p = ep_askFallback p"

definition isExecSecurity :: "policy_value option \<Rightarrow> exec_security option" where
  "isExecSecurity v = (case v of Some (PStr s) \<Rightarrow> parse_security s | _ \<Rightarrow> None)"

definition isExecAsk :: "policy_value option \<Rightarrow> exec_ask option" where
  "isExecAsk v = (case v of Some (PStr s) \<Rightarrow> parse_ask s | _ \<Rightarrow> None)"

definition value_or :: "'a option \<Rightarrow> 'a \<Rightarrow> 'a" where
  "value_or v d = (case v of None \<Rightarrow> d | Some x \<Rightarrow> x)"

definition normalizeSecurity :: "policy_value option \<Rightarrow> exec_security \<Rightarrow> exec_security" where
  "normalizeSecurity v fallback = value_or (isExecSecurity v) fallback"

definition normalizeAsk :: "policy_value option \<Rightarrow> exec_ask \<Rightarrow> exec_ask" where
  "normalizeAsk v fallback = value_or (isExecAsk v) fallback"

definition resolveDefaultSecurityField ::
    "security_field \<Rightarrow> exec_policy \<Rightarrow> exec_security \<Rightarrow> exec_security \<times> string option" where
  "resolveDefaultSecurityField fld defaults fallback =
     (case isExecSecurity (field_of fld defaults) of
        Some v \<Rightarrow> (v, Some (''defaults.'' @ field_name fld))
      | None \<Rightarrow> (fallback, None))"

definition resolveDefaultAskField :: "exec_policy \<Rightarrow> exec_ask \<Rightarrow> exec_ask \<times> string option" where
  "resolveDefaultAskField defaults fallback =
     (case isExecAsk (ep_ask defaults) of
        Some v \<Rightarrow> (v, Some ''defaults.ask'') | None \<Rightarrow> (fallback, None))"

text \<open>
  The raw records are those of the file as it was given: a field that is present there but not valid
  falls back to the defaults and hides the wildcard.
\<close>

definition resolveAgentSecurityField ::
    "security_field \<Rightarrow> exec_policy \<Rightarrow> exec_agent \<Rightarrow> exec_agent \<Rightarrow> exec_agent \<Rightarrow> exec_agent \<Rightarrow> string \<Rightarrow>
     exec_security \<Rightarrow> exec_security \<times> string option" where
  "resolveAgentSecurityField fld defaults agent rawAgent wildcard rawWildcard agentKey fallback =
     (let fallbackField = resolveDefaultSecurityField fld defaults fallback in
      if field_of fld rawAgent \<noteq> None then
        (case isExecSecurity (field_of fld agent) of
           Some v \<Rightarrow> (v, Some (''agents.'' @ agentKey @ ''.'' @ field_name fld))
         | None \<Rightarrow> fallbackField)
      else if field_of fld rawWildcard \<noteq> None then
        (case isExecSecurity (field_of fld wildcard) of
           Some v \<Rightarrow> (v, Some (''agents.*.'' @ field_name fld))
         | None \<Rightarrow> fallbackField)
      else fallbackField)"

definition resolveAgentAskField ::
    "exec_policy \<Rightarrow> exec_agent \<Rightarrow> exec_agent \<Rightarrow> exec_agent \<Rightarrow> exec_agent \<Rightarrow> string \<Rightarrow>
     exec_ask \<Rightarrow> exec_ask \<times> string option" where
  "resolveAgentAskField defaults agent rawAgent wildcard rawWildcard agentKey fallback =
     (let fallbackField = resolveDefaultAskField defaults fallback in
      if ep_ask rawAgent \<noteq> None then
        (case isExecAsk (ep_ask agent) of
           Some v \<Rightarrow> (v, Some (''agents.'' @ agentKey @ ''.ask'')) | None \<Rightarrow> fallbackField)
      else if ep_ask rawWildcard \<noteq> None then
        (case isExecAsk (ep_ask wildcard) of
           Some v \<Rightarrow> (v, Some ''agents.*.ask'') | None \<Rightarrow> fallbackField)
      else fallbackField)"

text \<open>The entries of a normalized allowlist.\<close>

definition entries_of :: "exec_agent \<Rightarrow> allow_entry list" where
  "entries_of a = List.map_filter (\<lambda>i. case i of ItemEntry e \<Rightarrow> Some e | ItemText _ \<Rightarrow> None) (items_of (ea_allowlist a))"

definition DEFAULT_SECURITY :: exec_security where
  "DEFAULT_SECURITY = SecFull"

definition DEFAULT_ASK :: exec_ask where
  "DEFAULT_ASK = AskOff"

definition DEFAULT_EXEC_APPROVAL_ASK_FALLBACK :: exec_security where
  "DEFAULT_EXEC_APPROVAL_ASK_FALLBACK = SecFull"

definition DEFAULT_AUTO_ALLOW_SKILLS :: bool where
  "DEFAULT_AUTO_ALLOW_SKILLS = False"

definition resolve_defaults :: "exec_policy \<Rightarrow> policy_overrides \<Rightarrow> resolved_policy" where
  "resolve_defaults defaults ov =
     (let fallbackAskFallback = value_or (ov_askFallback ov) DEFAULT_EXEC_APPROVAL_ASK_FALLBACK in
      \<lparr>rp_security = normalizeSecurity (ep_security defaults) (value_or (ov_security ov) DEFAULT_SECURITY),
       rp_ask = normalizeAsk (ep_ask defaults) (value_or (ov_ask ov) DEFAULT_ASK),
       rp_askFallback = normalizeSecurity (ep_askFallback defaults) fallbackAskFallback,
       rp_autoAllowSkills = value_or (ep_autoAllowSkills defaults)
         (value_or (ov_autoAllowSkills ov) DEFAULT_AUTO_ALLOW_SKILLS)\<rparr>)"

definition resolveExecApprovalsFromFile ::
    "(nat \<Rightarrow> string) \<Rightarrow> nat \<Rightarrow> approvals_file \<Rightarrow> string option \<Rightarrow> policy_overrides \<Rightarrow> approvals_resolved" where
  "resolveExecApprovalsFromFile uuid n rawFile agentId ov =
     (let f = fst (normalizeExecApprovals uuid n rawFile);
          defaults = af_defaults f;
          agentKey = value_or agentId DEFAULT_AGENT_ID;
          agent = agent_at agentKey f; wildcard = agent_at ''*'' f;
          rawAgent = agent_at agentKey rawFile; rawWildcard = agent_at ''*'' rawFile;
          rd = resolve_defaults defaults ov;
          sec = resolveAgentSecurityField FieldSecurity defaults agent rawAgent wildcard rawWildcard agentKey (rp_security rd);
          ask = resolveAgentAskField defaults agent rawAgent wildcard rawWildcard agentKey (rp_ask rd);
          fb = resolveAgentSecurityField FieldAskFallback defaults agent rawAgent wildcard rawWildcard agentKey (rp_askFallback rd)
      in \<lparr>ar_defaults = rd,
          ar_agent = \<lparr>rp_security = fst sec, rp_ask = fst ask, rp_askFallback = fst fb,
            rp_autoAllowSkills = value_or (ep_autoAllowSkills agent)
              (value_or (ep_autoAllowSkills wildcard) (rp_autoAllowSkills rd))\<rparr>,
          ar_sources = \<lparr>ps_security = snd sec, ps_ask = snd ask, ps_askFallback = snd fb\<rparr>,
          ar_allowlist = entries_of wildcard @ entries_of agent,
          ar_file = f\<rparr>)"

text \<open>The policy in force: the file on disk is normalized, completed and saved first.\<close>

definition resolveExecApprovals ::
    "approvals_env \<Rightarrow> nat \<Rightarrow> approvals_file option \<Rightarrow> string option \<Rightarrow> policy_overrides \<Rightarrow>
     approvals_resolved \<times> approvals_file" where
  "resolveExecApprovals env n disk agentId ov =
     (case ensureExecApprovals env n disk of
        (f, n') \<Rightarrow> (resolveExecApprovalsFromFile (xe_uuid env) n' f agentId ov, f))"

section \<open>When a command needs an approval\<close>

definition requiresExecApproval :: "exec_ask \<Rightarrow> exec_security \<Rightarrow> bool \<Rightarrow> bool \<Rightarrow> bool \<Rightarrow> bool" where
  "requiresExecApproval ask security analysisOk allowlistSatisfied durableApprovalSatisfied =
     (if ask = AskAlways then True
      else if durableApprovalSatisfied then False
      else ask = AskOnMiss \<and> security = SecAllowlist \<and> (\<not> analysisOk \<or> \<not> allowlistSatisfied))"

definition buildDurableCommandApprovalPattern :: "(string \<Rightarrow> string) \<Rightarrow> string \<Rightarrow> string" where
  "buildDurableCommandApprovalPattern digest commandText = ''=command:'' @ take 16 (digest commandText)"

text \<open>The matched entry of each segment of the command, where there is one.\<close>

definition hasDurableExecApproval ::
    "(string \<Rightarrow> string) \<Rightarrow> bool \<Rightarrow> allow_entry option list \<Rightarrow> allow_entry list \<Rightarrow> string option \<Rightarrow> bool" where
  "hasDurableExecApproval digest analysisOk segmentEntries allowlist commandText =
     (let exactCommandMatch =
            (case trimmed_opt commandText of
               None \<Rightarrow> False
             | Some c \<Rightarrow> list_ex (\<lambda>e. al_always e \<and>
                 (al_pattern e = buildDurableCommandApprovalPattern digest c \<or>
                  map_option trim (al_commandText e) = Some c)) allowlist);
          allowlistMatch = analysisOk \<and> segmentEntries \<noteq> [] \<and>
            list_all (\<lambda>e. case e of None \<Rightarrow> False | Some e \<Rightarrow> al_always e) segmentEntries
      in exactCommandMatch \<or> allowlistMatch)"

definition resolveExecApprovalAllowedDecisions :: "string option \<Rightarrow> approval_decision list" where
  "resolveExecApprovalAllowedDecisions ask =
     (if normalizeExecAsk ask = Some AskAlways then [AllowOnce, Deny] else [AllowOnce, AllowAlways, Deny])"

definition parse_decision :: "string \<Rightarrow> approval_decision option" where
  "parse_decision s =
     (if s = ''allow-once'' then Some AllowOnce else if s = ''allow-always'' then Some AllowAlways
      else if s = ''deny'' then Some Deny else None)"

definition resolveExecApprovalRequestAllowedDecisions ::
    "string list option \<Rightarrow> string option \<Rightarrow> approval_decision list" where
  "resolveExecApprovalRequestAllowedDecisions allowedDecisions ask =
     (case List.map_filter parse_decision (value_or allowedDecisions []) of
        [] \<Rightarrow> resolveExecApprovalAllowedDecisions ask
      | explicit \<Rightarrow> explicit)"

definition isExecApprovalDecisionAllowed :: "approval_decision \<Rightarrow> string option \<Rightarrow> bool" where
  "isExecApprovalDecisionAllowed decision ask = (decision \<in> set (resolveExecApprovalAllowedDecisions ask))"

section \<open>Recording approvals\<close>

text \<open>
  The functions that record mutate the file object they are given and write it to disk: the state is
  the object, the next UUID and what the file on disk parses to.
\<close>

record approvals_store =
  as_file :: approvals_file
  as_next :: nat
  as_disk :: "approvals_file option"

definition agent_entries :: "string \<Rightarrow> approvals_file \<Rightarrow> allow_item list" where
  "agent_entries target f = items_of (ea_allowlist (agent_at target f))"

definition put_entries :: "string \<Rightarrow> allow_item list \<Rightarrow> approvals_file \<Rightarrow> approvals_file" where
  "put_entries target items f =
     f\<lparr>af_agents := AList.update target ((agent_at target f)\<lparr>ea_allowlist := Some items\<rparr>) (af_agents f)\<rparr>"

definition save_entries :: "string \<Rightarrow> allow_item list \<Rightarrow> nat \<Rightarrow> approvals_store \<Rightarrow> approvals_store" where
  "save_entries target items n st =
     (let f = put_entries target items (as_file st) in \<lparr>as_file = f, as_next = n, as_disk = Some f\<rparr>)"

fun mark_used ::
    "(nat \<Rightarrow> string) \<Rightarrow> nat \<Rightarrow> int \<Rightarrow> allow_entry \<Rightarrow> string \<Rightarrow> string option \<Rightarrow> allow_item list \<Rightarrow>
     allow_item list \<times> nat" where
  "mark_used uuid n now entry command path [] = ([], n)"
| "mark_used uuid n now entry command path (ItemText s # items) =
     (case mark_used uuid n now entry command path items of (items', n') \<Rightarrow> (ItemText s # items', n'))"
| "mark_used uuid n now entry command path (ItemEntry e # items) =
     (if al_pattern e = al_pattern entry \<and> al_argPattern e = al_argPattern entry then
        (case mark_used uuid (if al_id e = None then Suc n else n) now entry command path items of
           (items', n') \<Rightarrow>
             (ItemEntry (e\<lparr>al_id := Some (value_or (al_id e) (uuid n)), al_lastUsedAt := Some now,
                al_lastUsedCommand := Some command, al_lastResolvedPath := path\<rparr>) # items', n'))
      else (case mark_used uuid n now entry command path items of (items', n') \<Rightarrow> (ItemEntry e # items', n')))"

definition recordAllowlistUse ::
    "approvals_env \<Rightarrow> int \<Rightarrow> string option \<Rightarrow> allow_entry \<Rightarrow> string \<Rightarrow> string option \<Rightarrow>
     approvals_store \<Rightarrow> approvals_store" where
  "recordAllowlistUse env now agentId entry command path st =
     (let target = value_or agentId DEFAULT_AGENT_ID in
      case mark_used (xe_uuid env) (as_next st) now entry command path (agent_entries target (as_file st)) of
        (items, n) \<Rightarrow> save_entries target items n st)"

definition match_key :: "allow_entry \<Rightarrow> string \<times> string" where
  "match_key e = (al_pattern e, case al_argPattern e of None \<Rightarrow> [] | Some a \<Rightarrow> trim a)"

fun record_matches ::
    "approvals_env \<Rightarrow> int \<Rightarrow> string option \<Rightarrow> string \<Rightarrow> string option \<Rightarrow> (string \<times> string) list \<Rightarrow>
     allow_entry list \<Rightarrow> approvals_store \<Rightarrow> approvals_store" where
  "record_matches env now agentId command path seen [] st = st"
| "record_matches env now agentId command path seen (m # ms) st =
     (if al_pattern m = [] \<or> match_key m \<in> set seen
      then record_matches env now agentId command path seen ms st
      else record_matches env now agentId command path (match_key m # seen) ms
             (recordAllowlistUse env now agentId m command path st))"

definition recordAllowlistMatchesUse ::
    "approvals_env \<Rightarrow> int \<Rightarrow> string option \<Rightarrow> allow_entry list \<Rightarrow> string \<Rightarrow> string option \<Rightarrow>
     approvals_store \<Rightarrow> approvals_store" where
  "recordAllowlistMatchesUse env now agentId matches command path st =
     record_matches env now agentId command path [] matches st"

text \<open>
  The found entry decides whether anything has to be done, but the update goes to every entry with
  the same pattern.
\<close>

fun entry_of :: "allow_item \<Rightarrow> allow_entry option" where
  "entry_of (ItemText s) = None"
| "entry_of (ItemEntry e) = Some e"

fun retag :: "string \<Rightarrow> string option \<Rightarrow> bool \<Rightarrow> int \<Rightarrow> allow_item \<Rightarrow> allow_item" where
  "retag p arg src now (ItemText s) = ItemText s"
| "retag p arg src now (ItemEntry e) =
     (if al_pattern e = p
      then ItemEntry (e\<lparr>al_argPattern := arg, al_always := src \<or> al_always e, al_lastUsedAt := Some now\<rparr>)
      else ItemEntry e)"

definition addAllowlistEntry ::
    "approvals_env \<Rightarrow> int \<Rightarrow> string option \<Rightarrow> string \<Rightarrow> string option \<Rightarrow> bool \<Rightarrow>
     approvals_store \<Rightarrow> approvals_store" where
  "addAllowlistEntry env now agentId pattern argPattern src st =
     (let target = value_or agentId DEFAULT_AGENT_ID;
          items = agent_entries target (as_file st);
          trimmed = trim pattern;
          trimmedArg = trimmed_opt argPattern;
          existing = find (\<lambda>e. al_pattern e = trimmed \<and> al_argPattern e = trimmedArg) (List.map_filter entry_of items)
      in if trimmed = [] then st
         else (case existing of
                 Some e \<Rightarrow>
                   if \<not> src \<or> al_always e then st
                   else save_entries target (map (retag trimmed trimmedArg src now) items) (as_next st) st
               | None \<Rightarrow>
                   save_entries target
                     (items @ [ItemEntry ((new_entry trimmed)\<lparr>al_id := Some (xe_uuid env (as_next st)),
                        al_argPattern := trimmedArg, al_always := src, al_lastUsedAt := Some now\<rparr>)])
                     (Suc (as_next st)) st))"

definition addDurableCommandApproval ::
    "approvals_env \<Rightarrow> int \<Rightarrow> string option \<Rightarrow> string \<Rightarrow> approvals_store \<Rightarrow> approvals_store" where
  "addDurableCommandApproval env now agentId commandText st =
     (let normalized = trim commandText in
      if normalized = [] then st
      else addAllowlistEntry env now agentId
             (buildDurableCommandApprovalPattern (xe_digest env) normalized) None True st)"

text \<open>The patterns are those the segments of the command give, with their argument patterns.\<close>

fun persistAllowAlwaysPatterns ::
    "approvals_env \<Rightarrow> int \<Rightarrow> string option \<Rightarrow> (string \<times> string option) list \<Rightarrow>
     approvals_store \<Rightarrow> approvals_store" where
  "persistAllowAlwaysPatterns env now agentId [] st = st"
| "persistAllowAlwaysPatterns env now agentId ((p, arg) # ps) st =
     persistAllowAlwaysPatterns env now agentId ps
       (if p = [] then st else addAllowlistEntry env now agentId p arg True st)"

section \<open>The effective policy that is displayed\<close>

record requested_policy =
  rq_scopeSecurity :: "exec_security option"
  rq_scopeAsk :: "exec_ask option"
  rq_globalSecurity :: "exec_security option"
  rq_globalAsk :: "exec_ask option"

datatype requested_source = FromScope | FromTools | FromDefault

definition resolveRequestedField :: "'a option \<Rightarrow> 'a option \<Rightarrow> 'a \<Rightarrow> 'a \<times> requested_source" where
  "resolveRequestedField scopeValue globalValue defaultValue =
     (case scopeValue of
        Some v \<Rightarrow> (v, FromScope)
      | None \<Rightarrow> (case globalValue of Some v \<Rightarrow> (v, FromTools) | None \<Rightarrow> (defaultValue, FromDefault)))"

datatype ask_note = HostSuppresses | RequestedApplies | MoreAggressiveWins

definition resolveAskNote :: "exec_ask \<Rightarrow> exec_ask \<Rightarrow> exec_ask \<Rightarrow> ask_note" where
  "resolveAskNote requestedAsk hostAsk effectiveAsk =
     (if hostAsk = AskOff \<and> requestedAsk \<noteq> AskOff then HostSuppresses
      else if effectiveAsk = requestedAsk then RequestedApplies else MoreAggressiveWins)"

record policy_snapshot =
  sn_requestedSecurity :: "exec_security \<times> requested_source"
  sn_hostSecurity :: "exec_security \<times> string option"
  sn_effectiveSecurity :: exec_security
  sn_requestedAsk :: "exec_ask \<times> requested_source"
  sn_hostAsk :: "exec_ask \<times> string option"
  sn_effectiveAsk :: exec_ask
  sn_askNote :: ask_note
  sn_askFallback :: "exec_security \<times> string option"
  sn_allowedDecisions :: "approval_decision list"

fun ask_text :: "exec_ask \<Rightarrow> string" where
  "ask_text AskOff = ''off''"
| "ask_text AskOnMiss = ''on-miss''"
| "ask_text AskAlways = ''always''"

definition requested_overrides :: "exec_security \<Rightarrow> exec_ask \<Rightarrow> policy_overrides" where
  "requested_overrides security ask =
     \<lparr>ov_security = Some security, ov_ask = Some ask, ov_askFallback = None, ov_autoAllowSkills = None\<rparr>"

definition resolveExecPolicyScopeSnapshot ::
    "(nat \<Rightarrow> string) \<Rightarrow> nat \<Rightarrow> approvals_file \<Rightarrow> requested_policy \<Rightarrow> string option \<Rightarrow> policy_snapshot" where
  "resolveExecPolicyScopeSnapshot uuid n approvals rq agentId =
     (let requestedSecurity = resolveRequestedField (rq_scopeSecurity rq) (rq_globalSecurity rq) SecFull;
          requestedAsk = resolveRequestedField (rq_scopeAsk rq) (rq_globalAsk rq) AskOff;
          resolved = resolveExecApprovalsFromFile uuid n approvals agentId
            (requested_overrides (fst requestedSecurity) (fst requestedAsk));
          host = ar_agent resolved;
          effectiveAsk = (if rp_ask host = AskOff then AskOff else maxAsk (fst requestedAsk) (rp_ask host))
      in \<lparr>sn_requestedSecurity = requestedSecurity,
          sn_hostSecurity = (rp_security host, ps_security (ar_sources resolved)),
          sn_effectiveSecurity = minSecurity (fst requestedSecurity) (rp_security host),
          sn_requestedAsk = requestedAsk,
          sn_hostAsk = (rp_ask host, ps_ask (ar_sources resolved)),
          sn_effectiveAsk = effectiveAsk,
          sn_askNote = resolveAskNote (fst requestedAsk) (rp_ask host) effectiveAsk,
          sn_askFallback = (rp_askFallback host, ps_askFallback (ar_sources resolved)),
          sn_allowedDecisions = resolveExecApprovalAllowedDecisions (Some (ask_text effectiveAsk))\<rparr>)"

end
