(* ===== verification/ExecGate.thy ===== *)
theory ExecGate
  imports ExecPolicy
begin

text \<open>
  Whether a command may run on a host: the shared parts of \<open>src/agents/bash-tools.exec-host-shared.ts\<close>,
  the decision of \<open>processGatewayAllowlist\<close> (\<open>bash-tools.exec-host-gateway.ts\<close>), the one of
  \<open>executeNodeHostCommand\<close> (\<open>bash-tools.exec-host-node.ts\<close>), and the check a node host makes on the
  request it receives (\<open>src/node-host/exec-policy.ts\<close>, the policy phase of
  \<open>src/node-host/invoke-system-run.ts\<close>).

  The evaluation of a shell command (\<open>exec-approvals-allowlist.ts\<close> over its analysis, the
  detection of obfuscated and inline-eval commands) is a parameter: a function of the command and
  the allowlist. Registering a request and waiting for its decision are inputs, and so is the file
  on disk when a decision arrives, because minutes may have passed.
\<close>

section \<open>What both hosts share\<close>

record host_context =
  hc_file :: approvals_file
  hc_next :: nat
  hc_allowlist :: "allow_entry list"
  hc_security :: exec_security
  hc_ask :: exec_ask
  hc_askFallback :: exec_security

text \<open>\<open>None\<close> is the exception \<open>exec denied: security=deny\<close>; the second part is the file that was saved.\<close>

definition resolveExecHostApprovalContext ::
    "approvals_env \<Rightarrow> nat \<Rightarrow> approvals_file option \<Rightarrow> string option \<Rightarrow> exec_security \<Rightarrow> exec_ask \<Rightarrow>
     host_context option \<times> approvals_file" where
  "resolveExecHostApprovalContext env n disk agentId security ask =
     (case resolveExecApprovals env n disk agentId (requested_overrides security ask) of
        (approvals, saved) \<Rightarrow>
          (let host = ar_agent approvals;
               hostSecurity = minSecurity security (rp_security host);
               hostAsk = (if rp_ask host = AskOff then AskOff else maxAsk ask (rp_ask host))
           in (if hostSecurity = SecDeny then None
               else Some \<lparr>hc_file = ar_file approvals,
                 hc_next = snd (normalizeExecApprovals (xe_uuid env) (snd (ensureExecApprovals env n disk)) saved),
                 hc_allowlist = ar_allowlist approvals, hc_security = hostSecurity, hc_ask = hostAsk,
                 hc_askFallback = rp_askFallback host\<rparr>,
               saved)))"

record base_decision =
  bd_approvedByAsk :: bool
  bd_deniedReason :: "string option"
  bd_timedOut :: bool

definition resolveBaseExecApprovalDecision :: "string option \<Rightarrow> exec_security \<Rightarrow> bool \<Rightarrow> base_decision" where
  "resolveBaseExecApprovalDecision decision askFallback obfuscationDetected =
     (if decision = Some ''deny''
      then \<lparr>bd_approvedByAsk = False, bd_deniedReason = Some ''user-denied'', bd_timedOut = False\<rparr>
      else if decision = None \<or> decision = Some [] then
        (if obfuscationDetected
         then \<lparr>bd_approvedByAsk = False, bd_deniedReason = Some ''approval-timeout (obfuscation-detected)'',
               bd_timedOut = True\<rparr>
         else case askFallback of
                SecFull \<Rightarrow> \<lparr>bd_approvedByAsk = True, bd_deniedReason = None, bd_timedOut = True\<rparr>
              | SecDeny \<Rightarrow> \<lparr>bd_approvedByAsk = False, bd_deniedReason = Some ''approval-timeout'', bd_timedOut = True\<rparr>
              | SecAllowlist \<Rightarrow> \<lparr>bd_approvedByAsk = False, bd_deniedReason = None, bd_timedOut = True\<rparr>)
      else \<lparr>bd_approvedByAsk = False, bd_deniedReason = None, bd_timedOut = False\<rparr>)"

datatype surface = SurfaceEnabled | SurfaceDisabled | SurfaceUnsupported
datatype unavailable = NoApprovalRoute | PlatformDisabled | PlatformUnsupported

text \<open>\<open>pre\<close> is the decision the registration answered: \<open>None\<close> for none, \<open>Some None\<close> for null.\<close>

definition resolveExecApprovalUnavailableState ::
    "surface \<Rightarrow> string option option \<Rightarrow> unavailable option" where
  "resolveExecApprovalUnavailableState initiatingSurface pre =
     (if pre = Some None then Some NoApprovalRoute
      else case initiatingSurface of
             SurfaceDisabled \<Rightarrow> Some PlatformDisabled
           | SurfaceUnsupported \<Rightarrow> Some PlatformUnsupported
           | SurfaceEnabled \<Rightarrow> None)"

definition shouldResolveExecApprovalUnavailableInline ::
    "string option \<Rightarrow> unavailable option \<Rightarrow> string option option \<Rightarrow> bool" where
  "shouldResolveExecApprovalUnavailableInline trigger reason pre \<longleftrightarrow>
     trigger = Some ''cron'' \<and> reason = Some NoApprovalRoute \<and> pre = Some None"

text \<open>\<open>waited\<close> is the answer to waiting for the decision, \<open>None\<close> when the request failed.\<close>

definition resolveApprovalDecisionOrUndefined ::
    "string option option \<Rightarrow> string option option \<Rightarrow> string option option" where
  "resolveApprovalDecisionOrUndefined pre waited = (case pre of Some d \<Rightarrow> Some d | None \<Rightarrow> waited)"

section \<open>The gateway host\<close>

text \<open>
  What the analysis of a command finds: per segment its words, whether it evaluates code inline and
  the allowlist entry it matches; the command rebuilt for execution, or why it cannot be; the
  patterns that \<open>allow-always\<close> would add.
\<close>

record shell_eval =
  ev_analysisOk :: bool
  ev_allowlistSatisfied :: bool
  ev_matches :: "allow_entry list"
  ev_segmentEntries :: "allow_entry option list"
  ev_argvs :: "string list list"
  ev_inlineEval :: "bool list"
  ev_enforced :: "string option"
  ev_patterns :: "(string \<times> string option) list"
  ev_auditPath :: "string option"

record gate_env =
  gv_approvals :: approvals_env
  gv_evaluate :: "string \<Rightarrow> allow_entry list \<Rightarrow> shell_eval"
  gv_obfuscated :: "string \<Rightarrow> bool"

record gate_request =
  gq_command :: string
  gq_agentId :: "string option"
  gq_security :: exec_security
  gq_ask :: exec_ask
  gq_trigger :: "string option"
  gq_strictInlineEval :: bool

record gate_plan =
  gp_host :: host_context
  gp_eval :: shell_eval
  gp_satisfied :: bool
  gp_durable :: bool
  gp_inlineEval :: bool
  gp_enforced :: "string option"
  gp_obfuscated :: bool
  gp_requiresAsk :: bool

definition has_heredoc :: "shell_eval \<Rightarrow> bool" where
  "has_heredoc ev = list_ex (list_ex (\<lambda>token. starts_with token ''<<'')) (ev_argvs ev)"

definition gateway_plan :: "gate_env \<Rightarrow> gate_request \<Rightarrow> host_context \<Rightarrow> gate_plan" where
  "gateway_plan env rq hc =
     (let ev = gv_evaluate env (gq_command rq) (hc_allowlist hc);
          analysisOk = ev_analysisOk ev;
          satisfied = (if hc_security hc = SecAllowlist \<and> analysisOk then ev_allowlistSatisfied ev else False);
          durable = hasDurableExecApproval (xe_digest (gv_approvals env)) analysisOk (ev_segmentEntries ev)
            (hc_allowlist hc) (Some (gq_command rq));
          inlineEval = (gq_strictInlineEval rq \<and> list_ex id (ev_inlineEval ev));
          covered = (hc_security hc = SecAllowlist \<and> analysisOk \<and> satisfied);
          enforced = (if covered then (case ev_enforced ev of Some c \<Rightarrow> nonempty c | None \<Rightarrow> None) else None);
          obfuscated = gv_obfuscated env (gq_command rq)
      in \<lparr>gp_host = hc, gp_eval = ev, gp_satisfied = satisfied, gp_durable = durable,
          gp_inlineEval = inlineEval, gp_enforced = enforced, gp_obfuscated = obfuscated,
          gp_requiresAsk =
            requiresExecApproval (hc_ask hc) (hc_security hc) analysisOk satisfied durable \<or>
            (covered \<and> enforced = None) \<or> (covered \<and> has_heredoc ev) \<or> inlineEval \<or> obfuscated\<rparr>)"

datatype gate_outcome =
    GateDenied string
  | GateRun "string option" bool
  | GatePending

definition plan_store :: "gate_plan \<Rightarrow> approvals_file option \<Rightarrow> approvals_store" where
  "plan_store p disk = \<lparr>as_file = hc_file (gp_host p), as_next = hc_next (gp_host p), as_disk = disk\<rparr>"

definition record_use :: "gate_env \<Rightarrow> gate_request \<Rightarrow> gate_plan \<Rightarrow> int \<Rightarrow> approvals_store \<Rightarrow> approvals_store" where
  "record_use env rq p now st =
     recordAllowlistMatchesUse (gv_approvals env) now (gq_agentId rq) (ev_matches (gp_eval p)) (gq_command rq)
       (ev_auditPath (gp_eval p)) st"

text \<open>The part after the requests that need an approval have left.\<close>

definition gateway_unprompted ::
    "gate_env \<Rightarrow> gate_request \<Rightarrow> gate_plan \<Rightarrow> int \<Rightarrow> approvals_store \<Rightarrow> gate_outcome \<times> approvals_store" where
  "gateway_unprompted env rq p now st =
     (if hc_security (gp_host p) = SecAllowlist \<and> (\<not> ev_analysisOk (gp_eval p) \<or> \<not> gp_satisfied p)
      then (GateDenied ''exec denied: allowlist miss'', st)
      else (GateRun (gp_enforced p) False, record_use env rq p now st))"

text \<open>A registered request: decided at once where nobody can answer a cron run, else pending.\<close>

definition gateway_registered ::
    "gate_env \<Rightarrow> gate_request \<Rightarrow> gate_plan \<Rightarrow> surface \<Rightarrow> string option option \<Rightarrow> int \<Rightarrow> approvals_store \<Rightarrow>
     gate_outcome \<times> approvals_store" where
  "gateway_registered env rq p initiatingSurface pre now st =
     (let reason = resolveExecApprovalUnavailableState initiatingSurface pre in
      if shouldResolveExecApprovalUnavailableInline (gq_trigger rq) reason pre then
        (let d = resolveBaseExecApprovalDecision (value_or pre None) (hc_askFallback (gp_host p)) (gp_obfuscated p) in
         if bd_deniedReason d \<noteq> None \<or> \<not> bd_approvedByAsk d
         then (GateDenied ''exec denied: headless'', st)
         else (GateRun (gp_enforced p) (gp_enforced p = None), record_use env rq p now st))
      else (GatePending, st))"

definition processGatewayAllowlist ::
    "gate_env \<Rightarrow> gate_request \<Rightarrow> nat \<Rightarrow> approvals_file option \<Rightarrow> surface \<Rightarrow> string option option \<Rightarrow> int \<Rightarrow>
     gate_outcome \<times> approvals_store" where
  "processGatewayAllowlist env rq n disk initiatingSurface pre now =
     (case resolveExecHostApprovalContext (gv_approvals env) n disk (gq_agentId rq) (gq_security rq) (gq_ask rq) of
        (None, saved) \<Rightarrow>
          (GateDenied ''exec denied: host=gateway security=deny'', \<lparr>as_file = saved, as_next = n, as_disk = Some saved\<rparr>)
      | (Some hc, saved) \<Rightarrow>
          (let p = gateway_plan env rq hc; st = plan_store p (Some saved) in
           if gp_requiresAsk p then gateway_registered env rq p initiatingSurface pre now st
           else gateway_unprompted env rq p now st))"

datatype followup = FollowDenied string | FollowRun "string option" | FollowStopped

definition allow_always :: "gate_env \<Rightarrow> gate_request \<Rightarrow> gate_plan \<Rightarrow> int \<Rightarrow> approvals_store \<Rightarrow> approvals_store" where
  "allow_always env rq p now st =
     (if gp_inlineEval p then st
      else if ev_patterns (gp_eval p) = []
      then addDurableCommandApproval (gv_approvals env) now (gq_agentId rq) (gq_command rq) st
      else persistAllowAlwaysPatterns (gv_approvals env) now (gq_agentId rq) (ev_patterns (gp_eval p)) st)"

text \<open>
  When the decision arrives. The file object is the one loaded for the request; \<open>disk\<close> is what the
  file on disk has become.
\<close>

definition gateway_followup ::
    "gate_env \<Rightarrow> gate_request \<Rightarrow> gate_plan \<Rightarrow> string option option \<Rightarrow> int \<Rightarrow> approvals_file option \<Rightarrow>
     followup \<times> approvals_store" where
  "gateway_followup env rq p decision now disk =
     (let st = plan_store p disk; hc = gp_host p; ok = ev_analysisOk (gp_eval p) in
      case decision of
        None \<Rightarrow> (FollowStopped, st)
      | Some d \<Rightarrow>
          (let base = resolveBaseExecApprovalDecision d (hc_askFallback hc) (gp_obfuscated p);
               fallback = (bd_timedOut base \<and> hc_askFallback hc = SecAllowlist);
               miss = (\<not> ok \<or> \<not> gp_satisfied p);
               approved = (if fallback then (if miss then bd_approvedByAsk base else True)
                           else if d = Some ''allow-once'' \<or> d = Some ''allow-always'' then True
                           else bd_approvedByAsk base);
               denied0 = (if fallback \<and> miss then Some ''approval-timeout (allowlist-miss)'' else bd_deniedReason base);
               st1 = (if \<not> fallback \<and> d = Some ''allow-always'' then allow_always env rq p now st else st);
               denied = (if hc_security hc = SecAllowlist \<and> miss \<and> \<not> approved \<and> \<not> gp_durable p
                         then Some (value_or denied0 ''allowlist-miss'') else denied0)
           in case denied of
                Some reason \<Rightarrow> (FollowDenied reason, st1)
              | None \<Rightarrow> (FollowRun (gp_enforced p), record_use env rq p now st1)))"

section \<open>The node host, as the gateway sees it\<close>

text \<open>
  The node's own file, where it could be fetched, refines the analysis. The raw command of the plan
  the node prepared is what durable approvals are matched against.
\<close>

record node_plan =
  np_host :: host_context
  np_inlineEval :: bool
  np_obfuscated :: bool
  np_requiresAsk :: bool

definition node_plan_of ::
    "gate_env \<Rightarrow> gate_request \<Rightarrow> host_context \<Rightarrow> string \<Rightarrow> (nat \<times> approvals_file) option \<Rightarrow> node_plan" where
  "node_plan_of env rq hc rawCommand nodeFile =
     (let base = gv_evaluate env (gq_command rq) [];
          fetched = (if (hc_ask hc = AskAlways \<or> hc_security hc = SecAllowlist) \<and> ev_analysisOk base
                     then nodeFile else None);
          (analysisOk, satisfied, durable) =
            (case fetched of
               None \<Rightarrow> (ev_analysisOk base, False, False)
             | Some (n, f) \<Rightarrow>
                 (let resolved = resolveExecApprovalsFromFile (xe_uuid (gv_approvals env)) n f (gq_agentId rq)
                        \<lparr>ov_security = Some SecFull, ov_ask = None, ov_askFallback = None, ov_autoAllowSkills = None\<rparr>;
                      ev = gv_evaluate env (gq_command rq) (ar_allowlist resolved)
                  in (ev_analysisOk ev, ev_allowlistSatisfied ev,
                      hasDurableExecApproval (xe_digest (gv_approvals env)) (ev_analysisOk ev) (ev_segmentEntries ev)
                        (ar_allowlist resolved) (Some rawCommand))));
          inlineEval = (gq_strictInlineEval rq \<and> list_ex id (ev_inlineEval base));
          obfuscated = gv_obfuscated env (gq_command rq)
      in \<lparr>np_host = hc, np_inlineEval = inlineEval, np_obfuscated = obfuscated,
          np_requiresAsk = requiresExecApproval (hc_ask hc) (hc_security hc) analysisOk satisfied durable \<or>
            inlineEval \<or> obfuscated\<rparr>)"

text \<open>The control fields of the request that goes to the node.\<close>

record invoke_flags =
  if_approved :: bool
  if_decision :: "approval_decision option"
  if_runId :: "string option"

definition buildInvokeParams :: "node_plan \<Rightarrow> bool \<Rightarrow> approval_decision option \<Rightarrow> string option \<Rightarrow> invoke_flags" where
  "buildInvokeParams p approvedByAsk approvalDecision runId =
     \<lparr>if_approved = approvedByAsk,
      if_decision = (if approvalDecision = Some AllowAlways \<and> np_inlineEval p then Some AllowOnce
                     else approvalDecision),
      if_runId = runId\<rparr>"

datatype node_outcome = NodeDenied string | NodeInvoke invoke_flags | NodePending

definition node_begin ::
    "gate_request \<Rightarrow> node_plan \<Rightarrow> string \<Rightarrow> surface \<Rightarrow> string option option \<Rightarrow> node_outcome" where
  "node_begin rq p approvalId initiatingSurface pre =
     (if \<not> np_requiresAsk p then NodeInvoke (buildInvokeParams p False None None)
      else (let reason = resolveExecApprovalUnavailableState initiatingSurface pre in
        if shouldResolveExecApprovalUnavailableInline (gq_trigger rq) reason pre then
          (let d = resolveBaseExecApprovalDecision (value_or pre None) (hc_askFallback (np_host p)) (np_obfuscated p) in
           if bd_deniedReason d \<noteq> None \<or> \<not> bd_approvedByAsk d then NodeDenied ''exec denied: headless''
           else NodeInvoke (buildInvokeParams p True (Some AllowOnce) (Some approvalId)))
        else NodePending))"

definition node_followup :: "node_plan \<Rightarrow> string \<Rightarrow> string option option \<Rightarrow> node_outcome option" where
  "node_followup p approvalId decision =
     (case decision of
        None \<Rightarrow> None
      | Some d \<Rightarrow>
          (let hc = np_host p;
               base = resolveBaseExecApprovalDecision d (hc_askFallback hc) (np_obfuscated p);
               (approved, dec) =
                 (if bd_timedOut base \<and> hc_askFallback hc = SecFull \<and> bd_approvedByAsk base
                  then (True, Some AllowOnce)
                  else if d = Some ''allow-once'' then (True, Some AllowOnce)
                  else if d = Some ''allow-always'' then (True, Some AllowAlways)
                  else (bd_approvedByAsk base, None))
           in Some (case bd_deniedReason base of
                      Some reason \<Rightarrow> NodeDenied reason
                    | None \<Rightarrow> NodeInvoke (buildInvokeParams p approved dec (Some approvalId)))))"

section \<open>The check on the node\<close>

datatype policy_denial =
    DeniedSecurity
  | DeniedApprovalRequired
  | DeniedAllowlistMiss bool bool

record run_policy =
  pd_analysisOk :: bool
  pd_allowlistSatisfied :: bool
  pd_shellWrapperBlocked :: bool
  pd_windowsShellWrapperBlocked :: bool
  pd_requiresAsk :: bool
  pd_approvalDecision :: "approval_decision option"
  pd_approvedByAsk :: bool
  pd_denied :: "policy_denial option"

record run_policy_params =
  rp_hostSecurity :: exec_security
  rp_hostAsk :: exec_ask
  rp_analysisOk :: bool
  rp_allowlistSatisfied :: bool
  rp_durable :: bool
  rp_decision :: "approval_decision option"
  rp_approved :: bool
  rp_isWindows :: bool
  rp_cmdInvocation :: bool
  rp_shellWrapper :: bool

definition resolveExecApprovalDecision :: "string option \<Rightarrow> approval_decision option" where
  "resolveExecApprovalDecision v =
     (if v = Some ''allow-once'' then Some AllowOnce
      else if v = Some ''allow-always'' then Some AllowAlways else None)"

definition evaluateSystemRunPolicy :: "run_policy_params \<Rightarrow> run_policy" where
  "evaluateSystemRunPolicy ps =
     (let shellWrapperBlocked = (rp_hostSecurity ps = SecAllowlist \<and> rp_shellWrapper ps);
          windowsBlocked = (shellWrapperBlocked \<and> rp_isWindows ps \<and> rp_cmdInvocation ps);
          analysisOk = (if shellWrapperBlocked then False else rp_analysisOk ps);
          satisfied = (if shellWrapperBlocked then False else rp_allowlistSatisfied ps);
          approvedByAsk = (rp_decision ps \<noteq> None \<or> rp_approved ps);
          requiresAsk = requiresExecApproval (rp_hostAsk ps) (rp_hostSecurity ps) analysisOk satisfied (rp_durable ps);
          result = (\<lambda>ask denied. \<lparr>pd_analysisOk = analysisOk, pd_allowlistSatisfied = satisfied,
            pd_shellWrapperBlocked = shellWrapperBlocked, pd_windowsShellWrapperBlocked = windowsBlocked,
            pd_requiresAsk = ask, pd_approvalDecision = rp_decision ps, pd_approvedByAsk = approvedByAsk,
            pd_denied = denied\<rparr>)
      in if rp_hostSecurity ps = SecDeny then result False (Some DeniedSecurity)
         else if requiresAsk \<and> \<not> approvedByAsk then result requiresAsk (Some DeniedApprovalRequired)
         else if rp_hostSecurity ps = SecAllowlist \<and> (\<not> analysisOk \<or> \<not> satisfied) \<and> \<not> approvedByAsk then
           (if rp_durable ps then result requiresAsk None
            else result requiresAsk (Some (DeniedAllowlistMiss shellWrapperBlocked windowsBlocked)))
         else result requiresAsk None)"

text \<open>
  The policy phase up to the hardening of paths: \<open>durable\<close> and \<open>trusted\<close> (some segment matches an
  \<open>allow-always\<close> entry) are the two reasons to trust the command without asking again;
  \<open>shellPayload\<close> is the command handed to a shell wrapper.
\<close>

definition system_run_check ::
    "run_policy_params \<Rightarrow> string option \<Rightarrow> bool \<Rightarrow> bool \<Rightarrow> bool \<Rightarrow> policy_denial option" where
  "system_run_check ps shellPayload durable inlineEvalHit trusted =
     (let policy = evaluateSystemRunPolicy (ps\<lparr>rp_durable := durable \<or> (inlineEvalHit \<and> trusted),
            rp_shellWrapper := (shellPayload \<noteq> None)\<rparr>) in
      if inlineEvalHit \<and> \<not> pd_approvedByAsk policy \<and> pd_denied policy \<noteq> Some DeniedSecurity
      then Some DeniedApprovalRequired
      else if pd_denied policy \<noteq> None then pd_denied policy
      else if rp_hostSecurity ps = SecAllowlist \<and> shellPayload \<noteq> None \<and> shellPayload \<noteq> Some [] \<and>
              \<not> pd_approvedByAsk policy \<and> \<not> durable
      then Some DeniedApprovalRequired
      else None)"

end
