(* ===== verification/ExecGateProps.thy ===== *)
theory ExecGateProps
  imports ExecGate
begin

text \<open>
  What the policy of host execution guarantees: normalizing a file twice changes nothing, so that the
  policy the operator sees is the one that is enforced; what a command that runs had to have; and
  the ways in which recorded approvals go wrong.
\<close>

section \<open>Normalization\<close>

lemma or_else_simps [simp]: "or_else None b = b" "or_else (Some x) b = Some x"
  by (simp_all add: or_else_def)

lemma value_or_simps [simp]: "value_or None d = d" "value_or (Some x) d = x"
  by (simp_all add: value_or_def)

lemma sanitize_field_idem [simp]: "sanitize_field known (sanitize_field known v) = sanitize_field known v"
  by (auto simp: sanitize_field_def split: option.splits policy_value.splits)

lemma sanitize_policy_idem [simp]:
  "sanitizeExecApprovalPolicy (sanitizeExecApprovalPolicy p) = sanitizeExecApprovalPolicy p"
  by (simp add: sanitizeExecApprovalPolicy_def)

definition entry_ready :: "allow_entry \<Rightarrow> bool" where
  "entry_ready e \<longleftrightarrow> trim (al_pattern e) \<noteq> [] \<and> (\<exists>i. al_id e = Some i \<and> i \<noteq> [])"

lemma coerce_item_ready: "coerce_item i = Some e \<Longrightarrow> trim (al_pattern e) \<noteq> []"
  by (cases i) (auto simp: new_entry_def split: if_splits dest: trimmed_opt_Some)

lemma set_map_filter: "set (List.map_filter f xs) = {y. \<exists>x \<in> set xs. f x = Some y}"
  by (induction xs) (auto simp: List.map_filter_simps split: option.splits)

lemma coerce_eq:
  "coerceAllowlistEntries allowlist =
     Option.bind allowlist (\<lambda>xs. let es = List.map_filter coerce_item xs in
       if xs \<noteq> [] \<and> es = [] then None else Some es)"
  by (cases allowlist) (auto simp: coerceAllowlistEntries_def List.map_filter_simps Let_def
      split: list.splits option.splits)

lemma coerce_ready:
  assumes "coerceAllowlistEntries allowlist = Some es" and "e \<in> set es"
  shows "trim (al_pattern e) \<noteq> []"
proof -
  from assms(1) obtain xs where "es = List.map_filter coerce_item xs"
    by (auto simp: coerce_eq Let_def bind_eq_Some_conv split: if_splits)
  with assms(2) show ?thesis by (auto simp: set_map_filter dest: coerce_item_ready)
qed

lemma assign_ids_ready:
  assumes "\<And>k. uuid k \<noteq> []" and "\<And>e. e \<in> set es \<Longrightarrow> trim (al_pattern e) \<noteq> []"
    and "assign_ids uuid n es = (es', n')"
  shows "list_all entry_ready es' \<and> (es' = [] \<longleftrightarrow> es = [])"
  using assms(2,3)
proof (induction es arbitrary: n es' n')
  case Nil
  then show ?case by simp
next
  case (Cons e es)
  let ?new = "al_id e = None \<or> al_id e = Some []"
  obtain es1 n1 where r: "assign_ids uuid (if ?new then Suc n else n) es = (es1, n1)" by fastforce
  have ih: "list_all entry_ready es1" using Cons.IH [OF _ r] Cons.prems(1) by auto
  have "trim (al_pattern e) \<noteq> []" using Cons.prems(1) by simp
  then have "entry_ready (if ?new then e\<lparr>al_id := Some (uuid n)\<rparr> else e)"
    using assms(1) by (auto simp: entry_ready_def)
  moreover have "es' = (if ?new then e\<lparr>al_id := Some (uuid n)\<rparr> else e) # es1"
    using Cons.prems(2) r by (auto split: if_splits)
  ultimately show ?case using ih by simp
qed

lemma assign_ids_same:
  "list_all entry_ready es \<Longrightarrow> assign_ids uuid n es = (es, n)"
  by (induction es) (auto simp: entry_ready_def)

text \<open>An agent that normalization leaves alone.\<close>

definition agent_ready :: "exec_agent \<Rightarrow> bool" where
  "agent_ready a \<longleftrightarrow> sanitizeExecApprovalPolicy a = a \<and>
     (case ea_allowlist a of
        None \<Rightarrow> True
      | Some items \<Rightarrow> \<exists>es. items = map ItemEntry es \<and> list_all entry_ready es \<and>
          list_all (\<lambda>e. al_commandText e = None) es)"

lemma map_filter_map_Some:
  "list_all (\<lambda>x. f (g x) = Some x) xs \<Longrightarrow> List.map_filter f (map g xs) = xs"
  by (induction xs) (auto simp: List.map_filter_simps)

lemma strip_ready:
  "list_all entry_ready es \<Longrightarrow> list_all entry_ready (map (\<lambda>e. e\<lparr>al_commandText := None\<rparr>) es)"
  by (induction es) (auto simp: entry_ready_def)

lemma normalize_agent_ready:
  assumes "\<And>k. uuid k \<noteq> []"
  shows "agent_ready (fst (normalize_agent uuid n a))"
proof (cases "coerceAllowlistEntries (ea_allowlist a)")
  case None
  then show ?thesis
    by (simp add: normalize_agent_def ensureAllowlistIds_def agent_ready_def stripAllowlistCommandText_def
        sanitizeExecApprovalPolicy_def)
next
  case (Some es)
  obtain es' n' where r: "assign_ids uuid n es = (es', n')" by fastforce
  have "list_all entry_ready es'"
    using assign_ids_ready [OF assms _ r] coerce_ready [OF Some] by blast
  then have "list_all entry_ready (map (\<lambda>e. e\<lparr>al_commandText := None\<rparr>) es')" by (rule strip_ready)
  moreover have "list_all (\<lambda>e. al_commandText e = None) (map (\<lambda>e. e\<lparr>al_commandText := None\<rparr>) es')"
    by (simp add: list_all_iff)
  ultimately show ?thesis using Some r
    by (simp add: normalize_agent_def ensureAllowlistIds_def agent_ready_def stripAllowlistCommandText_def
        sanitizeExecApprovalPolicy_def del: map_map list.pred_map)
      blast
qed

lemma normalize_agent_same:
  assumes "agent_ready a"
  shows "normalize_agent uuid n a = (a, n)"
proof (cases "ea_allowlist a")
  case None
  then show ?thesis using assms
    by (simp add: normalize_agent_def ensureAllowlistIds_def agent_ready_def stripAllowlistCommandText_def
        coerce_eq)
next
  case (Some items)
  with assms obtain es where es: "items = map ItemEntry es" "list_all entry_ready es"
      "list_all (\<lambda>e. al_commandText e = None) es" and p: "sanitizeExecApprovalPolicy a = a"
    by (auto simp: agent_ready_def)
  have "List.map_filter coerce_item items = es"
    unfolding es(1) by (rule map_filter_map_Some) (use es(2) in \<open>auto simp: list_all_iff entry_ready_def\<close>)
  then have "coerceAllowlistEntries (ea_allowlist a) = Some es"
    using Some es(1) by (auto simp: coerce_eq)
  moreover have "map (\<lambda>e. e\<lparr>al_commandText := None\<rparr>) es = es"
    by (rule map_idI) (use es(3) in \<open>auto simp: list_all_iff\<close>)
  ultimately show ?thesis using Some es p assign_ids_same [OF es(2)]
    by (simp add: normalize_agent_def ensureAllowlistIds_def stripAllowlistCommandText_def)
qed

definition file_ready :: "approvals_file \<Rightarrow> bool" where
  "file_ready f \<longleftrightarrow> trimmed_opt (af_socketPath f) = af_socketPath f \<and>
     trimmed_opt (af_socketToken f) = af_socketToken f \<and>
     sanitizeExecApprovalPolicy (af_defaults f) = af_defaults f \<and>
     map_of (af_agents f) ''default'' = None \<and> (\<forall>(k, a) \<in> set (af_agents f). agent_ready a)"

lemma normalize_agents_ready:
  assumes "\<And>k. uuid k \<noteq> []"
  shows "(\<forall>(k, a) \<in> set (fst (normalize_agents uuid n as)). agent_ready a) \<and>
    map fst (fst (normalize_agents uuid n as)) = map fst as"
proof (induction as arbitrary: n)
  case Nil
  then show ?case by simp
next
  case (Cons ka as)
  obtain k a where ka: "ka = (k, a)" by fastforce
  show ?case using Cons.IH [of "snd (normalize_agent uuid n a)"] normalize_agent_ready [of uuid n a, OF assms]
    by (simp add: ka split_beta)
qed

lemma normalize_agents_same:
  "(\<forall>(k, a) \<in> set as. agent_ready a) \<Longrightarrow> normalize_agents uuid n as = (as, n)"
  by (induction as arbitrary: n) (auto simp: normalize_agent_same)

lemma migrate_no_default: "map_of (migrate_legacy agents) ''default'' = None"
  by (auto simp: migrate_legacy_def delete_conv map_of_delete split: option.splits)

lemma normalize_ready:
  assumes "\<And>k. uuid k \<noteq> []"
  shows "file_ready (fst (normalizeExecApprovals uuid n f))"
proof -
  have "map_of (fst (normalize_agents uuid n (migrate_legacy (af_agents f)))) ''default'' = None"
    using migrate_no_default [of "af_agents f"] normalize_agents_ready [of uuid n, OF assms]
    by (metis map_of_eq_None_iff set_map)
  then show ?thesis using normalize_agents_ready [of uuid n, OF assms]
    by (simp add: normalizeExecApprovals_def file_ready_def split_beta)
qed

lemma normalize_same: "file_ready f \<Longrightarrow> normalizeExecApprovals uuid n f = (f, n)"
  by (simp add: normalizeExecApprovals_def file_ready_def migrate_legacy_def normalize_agents_same)

lemma load_ready:
  "(\<And>k. xe_uuid env k \<noteq> []) \<Longrightarrow> file_ready (fst (loadExecApprovals env n disk))"
  by (simp add: loadExecApprovals_def normalize_ready)

text \<open>The file in force is the loaded one, with a socket.\<close>

definition with_socket :: "approvals_env \<Rightarrow> approvals_file \<Rightarrow> approvals_file" where
  "with_socket env f = f\<lparr>af_socketPath := or_else (trimmed_opt (af_socketPath f)) (Some (xe_socketPath env)),
     af_socketToken := or_else (trimmed_opt (af_socketToken f)) (Some (xe_token env))\<rparr>"

lemma ensure_eq:
  assumes "\<And>k. xe_uuid env k \<noteq> []"
  shows "ensureExecApprovals env n disk =
    (with_socket env (fst (loadExecApprovals env n disk)), snd (loadExecApprovals env n disk))"
  using normalize_same [OF load_ready [of env n disk, OF assms]]
  by (simp add: ensureExecApprovals_def with_socket_def split_beta)

lemma normalize_with_socket:
  assumes "file_ready f"
  shows "fst (normalizeExecApprovals uuid n (with_socket env f)) =
      f\<lparr>af_socketPath := trimmed_opt (af_socketPath (with_socket env f)),
        af_socketToken := trimmed_opt (af_socketToken (with_socket env f))\<rparr>"
    and "snd (normalizeExecApprovals uuid n (with_socket env f)) = n"
  using assms
  by (simp_all add: normalizeExecApprovals_def file_ready_def migrate_legacy_def normalize_agents_same
      with_socket_def)

lemma agent_at_socket [simp]:
  "agent_at k (f\<lparr>af_socketPath := p, af_socketToken := t\<rparr>) = agent_at k f"
  "agent_at k (with_socket env f) = agent_at k f"
  by (simp_all add: agent_at_def with_socket_def)

section \<open>The policy in force\<close>

lemma trim_nonblank: "trim s \<noteq> [] \<Longrightarrow> trimmed_opt (Some s) = Some (trim s)"
  by (simp add: trimmed_opt_def nonempty_def)

lemma sanitized_fields:
  assumes "sanitizeExecApprovalPolicy p = p"
  shows "ep_security p = None \<longleftrightarrow> isExecSecurity (ep_security p) = None"
    and "ep_ask p = None \<longleftrightarrow> isExecAsk (ep_ask p) = None"
    and "ep_askFallback p = None \<longleftrightarrow> isExecSecurity (ep_askFallback p) = None"
proof -
  have "ep_security p = sanitize_field (\<lambda>s. parse_security s \<noteq> None) (ep_security p)"
    "ep_ask p = sanitize_field (\<lambda>s. parse_ask s \<noteq> None) (ep_ask p)"
    "ep_askFallback p = sanitize_field (\<lambda>s. parse_security s \<noteq> None) (ep_askFallback p)"
    using assms by (cases p, simp add: sanitizeExecApprovalPolicy_def)+
  then show "ep_security p = None \<longleftrightarrow> isExecSecurity (ep_security p) = None"
    "ep_ask p = None \<longleftrightarrow> isExecAsk (ep_ask p) = None"
    "ep_askFallback p = None \<longleftrightarrow> isExecSecurity (ep_askFallback p) = None"
    by (auto simp: sanitize_field_def isExecSecurity_def isExecAsk_def split: option.splits policy_value.splits if_splits)
qed

lemma agent_at_sanitized:
  assumes "file_ready f"
  shows "sanitizeExecApprovalPolicy (agent_at k f) = agent_at k f"
proof (cases "map_of (af_agents f) k")
  case None
  then show ?thesis
    by (simp add: agent_at_def no_agent_def sanitizeExecApprovalPolicy_def sanitize_field_def)
next
  case (Some a)
  then show ?thesis using assms map_of_SomeD [OF Some]
    by (auto simp: agent_at_def file_ready_def agent_ready_def)
qed

lemma resolve_ready:
  assumes "file_ready f"
  defines "key \<equiv> \<lambda>a. value_or a DEFAULT_AGENT_ID"
  shows "rp_security (ar_agent (resolveExecApprovalsFromFile uuid n f a ov)) =
      value_or (or_else (isExecSecurity (ep_security (agent_at (key a) f)))
        (or_else (isExecSecurity (ep_security (agent_at ''*'' f))) (isExecSecurity (ep_security (af_defaults f)))))
        (value_or (ov_security ov) DEFAULT_SECURITY)"
    and "rp_ask (ar_agent (resolveExecApprovalsFromFile uuid n f a ov)) =
      value_or (or_else (isExecAsk (ep_ask (agent_at (key a) f)))
        (or_else (isExecAsk (ep_ask (agent_at ''*'' f))) (isExecAsk (ep_ask (af_defaults f)))))
        (value_or (ov_ask ov) DEFAULT_ASK)"
    and "rp_askFallback (ar_agent (resolveExecApprovalsFromFile uuid n f a ov)) =
      value_or (or_else (isExecSecurity (ep_askFallback (agent_at (key a) f)))
        (or_else (isExecSecurity (ep_askFallback (agent_at ''*'' f))) (isExecSecurity (ep_askFallback (af_defaults f)))))
        (value_or (ov_askFallback ov) DEFAULT_EXEC_APPROVAL_ASK_FALLBACK)"
  using sanitized_fields [OF agent_at_sanitized [OF assms(1), of "key a"]]
    sanitized_fields [OF agent_at_sanitized [OF assms(1), of "''*''"]]
  by (auto simp: key_def resolveExecApprovalsFromFile_def normalize_same [OF assms(1)] Let_def
      resolveAgentSecurityField_def resolveAgentAskField_def resolveDefaultSecurityField_def
      resolveDefaultAskField_def resolve_defaults_def normalizeSecurity_def normalizeAsk_def
      split: option.splits)

lemma with_socket_ready:
  "file_ready f \<Longrightarrow> file_ready (fst (normalizeExecApprovals uuid n (with_socket env f)))"
  by (simp add: normalize_with_socket file_ready_def)

text \<open>The socket makes no difference to the policy.\<close>

lemma resolve_with_socket:
  assumes "file_ready f"
  shows "ar_agent (resolveExecApprovalsFromFile uuid n (with_socket env f) a ov) =
      ar_agent (resolveExecApprovalsFromFile uuid' n' f a ov)"
    and "ar_sources (resolveExecApprovalsFromFile uuid n (with_socket env f) a ov) =
      ar_sources (resolveExecApprovalsFromFile uuid' n' f a ov)"
    and "ar_allowlist (resolveExecApprovalsFromFile uuid n (with_socket env f) a ov) =
      ar_allowlist (resolveExecApprovalsFromFile uuid' n' f a ov)"
  by (simp_all add: resolveExecApprovalsFromFile_def normalize_with_socket [OF assms] normalize_same [OF assms] Let_def)

lemma policy_of_disk:
  assumes "\<And>k. xe_uuid env k \<noteq> []"
  shows "ar_agent (fst (resolveExecApprovals env n disk a ov)) =
    ar_agent (resolveExecApprovalsFromFile uuid' n' (fst (loadExecApprovals env n disk)) a ov)"
  using resolve_with_socket(1) [OF load_ready [of env n disk, OF assms]]
  by (simp add: resolveExecApprovals_def ensure_eq [OF assms])

text \<open>The policy that is in force for an agent, whatever the file on disk holds: each of security, ask
  mode and fallback is the valid value of the agent itself, else the one of the wildcard agent, else
  the one of the defaults, else what the caller requests, else the built-in default; values are
  trimmed and anything unknown counts as absent.\<close>

theorem policy_in_force:
  assumes "\<And>k. xe_uuid env k \<noteq> []"
  shows "let f = fst (loadExecApprovals env n disk); agent = agent_at (value_or agentId DEFAULT_AGENT_ID) f;
      wildcard = agent_at ''*'' f; policy = ar_agent (fst (resolveExecApprovals env n disk agentId ov))
    in rp_security policy =
         value_or (or_else (isExecSecurity (ep_security agent))
           (or_else (isExecSecurity (ep_security wildcard)) (isExecSecurity (ep_security (af_defaults f)))))
           (value_or (ov_security ov) SecFull) \<and>
       rp_ask policy =
         value_or (or_else (isExecAsk (ep_ask agent))
           (or_else (isExecAsk (ep_ask wildcard)) (isExecAsk (ep_ask (af_defaults f)))))
           (value_or (ov_ask ov) AskOff) \<and>
       rp_askFallback policy =
         value_or (or_else (isExecSecurity (ep_askFallback agent))
           (or_else (isExecSecurity (ep_askFallback wildcard)) (isExecSecurity (ep_askFallback (af_defaults f)))))
           (value_or (ov_askFallback ov) SecFull)"
  unfolding Let_def policy_of_disk [OF assms, where uuid' = "xe_uuid env" and n' = n]
    resolve_ready [OF load_ready [of env n disk, OF assms]]
  by (simp add: DEFAULT_SECURITY_def DEFAULT_ASK_def DEFAULT_EXEC_APPROVAL_ASK_FALLBACK_def)

definition example_env :: approvals_env where
  "example_env = \<lparr>xe_uuid = show_nat, xe_socketPath = ''sock'', xe_token = ''tok'', xe_digest = (\<lambda>s. s)\<rparr>"

definition strict_defaults :: approvals_file where
  "strict_defaults = empty_file\<lparr>af_defaults := no_policy\<lparr>ep_security := Some (PStr ''deny'')\<rparr>,
     af_agents := [(''*'', no_agent\<lparr>ep_security := Some (PStr '' full '')\<rparr>),
       (''runner'', no_agent\<lparr>ep_security := Some (PStr ''allow-list'')\<rparr>)]\<rparr>"

lemma example_uuid: "xe_uuid example_env k \<noteq> []"
  by (simp add: example_env_def show_nat.simps [of k])

theorem policy_in_force_witness:
  "rp_security (ar_agent (fst (resolveExecApprovals example_env 0 (Some strict_defaults) (Some ''main'')
     (requested_overrides SecAllowlist AskOnMiss)))) = SecFull"
proof -
  have "isExecSecurity (ep_security (agent_at ''main'' (fst (loadExecApprovals example_env 0 (Some strict_defaults))))) = None"
    "isExecSecurity (ep_security (agent_at ''*'' (fst (loadExecApprovals example_env 0 (Some strict_defaults))))) = Some SecFull"
    by code_simp+
  then show ?thesis
    using policy_in_force [of example_env 0 "Some strict_defaults" "Some ''main''" "requested_overrides SecAllowlist AskOnMiss"]
    by (simp add: Let_def example_uuid)
qed

lemma normalize_agents_security:
  "map_option ep_security (map_of (fst (normalize_agents uuid n as)) k) =
    map_option (\<lambda>a. sanitize_field (\<lambda>s. parse_security s \<noteq> None) (ep_security a)) (map_of as k)"
  by (induction as arbitrary: n)
    (auto simp: split_beta normalize_agent_def sanitizeExecApprovalPolicy_def)

lemma normalized_security:
  assumes "map_of (af_agents f) ''default'' = None"
  shows "ep_security (agent_at k (fst (normalizeExecApprovals uuid n f))) =
    sanitize_field (\<lambda>s. parse_security s \<noteq> None) (ep_security (agent_at k f))"
  using normalize_agents_security [of uuid n "af_agents f" k] assms
  by (auto simp: agent_at_def normalizeExecApprovals_def migrate_legacy_def split_beta no_agent_def
      sanitize_field_def split: option.splits)

lemma sanitized_value:
  "isExecSecurity (sanitize_field (\<lambda>s. parse_security s \<noteq> None) (Some (PStr s))) = parse_security (trim s)"
  by (simp add: sanitize_field_def isExecSecurity_def)

text \<open>A value that is not valid hides the wildcard only until the file is saved. Resolved from a file as it
  stands, an agent whose security is set to an unknown value falls back to the defaults; the policy
  in force takes the wildcard's value instead, because loading the file drops the unknown value
  before it is resolved. With strict defaults and a permissive wildcard a typing error in the entry
  of one agent opens it.\<close>

theorem load_unmasks_invalid_policy:
  assumes "\<And>k. xe_uuid env k \<noteq> []" and "map_of (af_agents f) ''default'' = None"
    and "ep_security (agent_at key f) = Some (PStr v)" and "parse_security (trim v) = None"
    and "ep_security (agent_at ''*'' f) = Some (PStr w)" and "parse_security (trim w) = Some wildcard"
    and "ep_security (af_defaults f) = Some (PStr d)" and "parse_security (trim d) = Some defaults"
  shows "rp_security (ar_agent (resolveExecApprovalsFromFile uuid n f (Some key) ov)) = defaults \<and>
    rp_security (ar_agent (fst (resolveExecApprovals env n (Some f) (Some key) ov))) = wildcard"
proof
  have dflt: "isExecSecurity (ep_security (af_defaults (fst (normalizeExecApprovals u m f)))) = Some defaults" for u m
    using assms(7,8)
    by (simp add: normalizeExecApprovals_def split_beta sanitizeExecApprovalPolicy_def sanitized_value del: not_None_eq)
  have agent: "isExecSecurity (ep_security (agent_at key (fst (normalizeExecApprovals u m f)))) = None" for u m
    using assms(3,4) by (simp add: normalized_security [OF assms(2)] sanitized_value del: not_None_eq)
  have wild: "isExecSecurity (ep_security (agent_at ''*'' (fst (normalizeExecApprovals u m f)))) = Some wildcard" for u m
    using assms(5,6) by (simp add: normalized_security [OF assms(2)] sanitized_value del: not_None_eq)
  show "rp_security (ar_agent (resolveExecApprovalsFromFile uuid n f (Some key) ov)) = defaults"
    by (simp add: resolveExecApprovalsFromFile_def Let_def resolveAgentSecurityField_def assms(3) agent
        resolveDefaultSecurityField_def dflt)
  show "rp_security (ar_agent (fst (resolveExecApprovals env n (Some f) (Some key) ov))) = wildcard"
    unfolding policy_of_disk [OF assms(1), where uuid' = "xe_uuid env" and n' = n]
      resolve_ready(1) [OF load_ready [of env n "Some f", OF assms(1)]]
    by (simp add: loadExecApprovals_def agent wild)
qed

theorem load_unmasks_invalid_policy_witness:
  "rp_security (ar_agent (resolveExecApprovalsFromFile show_nat 0 strict_defaults (Some ''runner'')
     (requested_overrides SecFull AskOff))) = SecDeny \<and>
   rp_security (ar_agent (fst (resolveExecApprovals example_env 0 (Some strict_defaults) (Some ''runner'')
     (requested_overrides SecFull AskOff)))) = SecFull"
proof (rule load_unmasks_invalid_policy [where v = "''allow-list''" and w = "'' full ''" and d = "''deny''"])
  show "map_of (af_agents strict_defaults) ''default'' = None"
    "ep_security (agent_at ''runner'' strict_defaults) = Some (PStr ''allow-list'')"
    "parse_security (trim ''allow-list'') = None"
    "ep_security (agent_at ''*'' strict_defaults) = Some (PStr '' full '')"
    "parse_security (trim '' full '') = Some SecFull"
    "ep_security (af_defaults strict_defaults) = Some (PStr ''deny'')"
    "parse_security (trim ''deny'') = Some SecDeny" by code_simp+
qed (rule example_uuid)

text \<open>The policy an operator is shown is the policy that is enforced. For the same requested policy the
  displayed summary and the check of a host agree on the effective security, ask mode and fallback,
  whatever the file holds and although the check rewrites it first: a host with effective security
  \<open>deny\<close> refuses to run anything. The effective security is the stricter of the requested one and the
  host's; the ask mode is at least the requested one unless the host says \<open>off\<close>.\<close>

theorem displayed_policy_enforced:
  assumes "\<And>k. xe_uuid env k \<noteq> []"
  shows "let shown = resolveExecPolicyScopeSnapshot (xe_uuid env) n' (fst (loadExecApprovals env n disk)) rq agentId;
      security = fst (sn_requestedSecurity shown); ask = fst (sn_requestedAsk shown);
      enforced = fst (resolveExecHostApprovalContext env n disk agentId security ask)
    in sn_effectiveSecurity shown = min security (fst (sn_hostSecurity shown)) \<and>
       (sn_effectiveAsk shown = AskOff \<or> ask \<le> sn_effectiveAsk shown) \<and>
       map_option (\<lambda>hc. (hc_security hc, hc_ask hc, hc_askFallback hc)) enforced =
         (if sn_effectiveSecurity shown = SecDeny then None
          else Some (sn_effectiveSecurity shown, sn_effectiveAsk shown, fst (sn_askFallback shown)))"
  by (simp add: Let_def resolveExecPolicyScopeSnapshot_def resolveExecHostApprovalContext_def split_beta
      policy_of_disk [OF assms, where uuid' = "xe_uuid env" and n' = n'])

theorem displayed_policy_enforced_witness:
  "map_option hc_security (fst (resolveExecHostApprovalContext example_env 0 (Some strict_defaults) (Some ''main'')
     SecAllowlist AskOnMiss)) = Some SecAllowlist"
proof -
  let ?rq = "\<lparr>rq_scopeSecurity = Some SecAllowlist, rq_scopeAsk = Some AskOnMiss, rq_globalSecurity = None, rq_globalAsk = None\<rparr>"
  let ?shown = "resolveExecPolicyScopeSnapshot (xe_uuid example_env) 0 (fst (loadExecApprovals example_env 0 (Some strict_defaults))) ?rq (Some ''main'')"
  have "fst (sn_requestedSecurity ?shown) = SecAllowlist" "fst (sn_requestedAsk ?shown) = AskOnMiss"
    "sn_effectiveSecurity ?shown = SecAllowlist" by code_simp+
  then show ?thesis
    using displayed_policy_enforced [OF example_uuid, where n = 0 and n' = 0 and disk = "Some strict_defaults" and
        rq = ?rq and agentId = "Some ''main''"]
    by (auto simp: Let_def)
qed

end
