(* ===== verification/ExecRunProps.thy ===== *)
theory ExecRunProps
  imports ExecGateProps
begin

text \<open>
  What a command that runs on a host had to have, on the gateway and on a node, and the ways in which
  recorded approvals go wrong: exact commands, patterns with several argument restrictions, and
  files that change while a request is pending.
\<close>

section \<open>Commands that run\<close>

lemma min_security_deny: "min a b \<noteq> SecDeny \<Longrightarrow> b \<noteq> SecDeny" for a b :: exec_security
  by (cases a; cases b) (simp_all add: min_def less_eq_exec_security_def)

lemma plan_fields [simp]:
  "gp_host (gateway_plan env rq hc) = hc"
  "gp_eval (gateway_plan env rq hc) = gv_evaluate env (gq_command rq) (hc_allowlist hc)"
  "gp_obfuscated (gateway_plan env rq hc) = gv_obfuscated env (gq_command rq)"
  by (simp_all add: gateway_plan_def Let_def)

lemma plan_unasked:
  assumes "\<not> gp_requiresAsk (gateway_plan env rq hc)"
  defines "p \<equiv> gateway_plan env rq hc" and "ev \<equiv> gv_evaluate env (gq_command rq) (hc_allowlist hc)"
  shows "hc_ask hc \<noteq> AskAlways \<and> \<not> gp_obfuscated p \<and> \<not> gp_inlineEval p \<and>
    (hc_security hc = SecAllowlist \<and> ev_analysisOk ev \<and> gp_satisfied p \<longrightarrow>
       ev_allowlistSatisfied ev \<and> gp_enforced p \<noteq> None \<and> \<not> has_heredoc ev)"
  using assms(1) unfolding p_def ev_def
  by (auto simp: gateway_plan_def Let_def requiresExecApproval_def split: if_splits)

lemma context_not_denied:
  "fst (resolveExecHostApprovalContext env n disk a security ask) = Some hc \<Longrightarrow> hc_security hc \<noteq> SecDeny"
  by (auto simp: resolveExecHostApprovalContext_def split_beta Let_def split: if_splits)

lemma base_approved:
  "bd_approvedByAsk (resolveBaseExecApprovalDecision d fb obf) \<longleftrightarrow>
    (d = None \<or> d = Some []) \<and> \<not> obf \<and> fb = SecFull"
  by (auto simp: resolveBaseExecApprovalDecision_def split: exec_security.splits)

lemma base_timedOut:
  "bd_timedOut (resolveBaseExecApprovalDecision d fb obf) \<longleftrightarrow> d = None \<or> d = Some []"
  by (auto simp: resolveBaseExecApprovalDecision_def split: exec_security.splits)

lemma base_denied:
  "bd_deniedReason (resolveBaseExecApprovalDecision d fb obf) = None \<longleftrightarrow>
    d \<noteq> Some ''deny'' \<and> ((d = None \<or> d = Some []) \<longrightarrow> \<not> obf \<and> fb \<noteq> SecDeny)"
  by (auto simp: resolveBaseExecApprovalDecision_def split: exec_security.splits)


text \<open>A command that runs after its prompt was answered was approved, or nobody answered and the fallback
  covers it: a timeout runs an obfuscated command never, any other one when the fallback is \<open>full\<close> or
  when it is \<open>allowlist\<close> and the analysed command is on the allowlist. A denial runs nothing and
  leaves the file alone, whatever the policy is.\<close>

theorem decided_run_is_approved:
  assumes "fst (gateway_followup env rq p (Some d) now disk) = FollowRun c"
    and "d = None \<or> d \<in> {Some ''allow-once'', Some ''allow-always'', Some ''deny''}"
  shows "c = gp_enforced p \<and>
    (d = Some ''allow-once'' \<or> d = Some ''allow-always'' \<or>
     d = None \<and> \<not> gp_obfuscated p \<and>
       (hc_askFallback (gp_host p) = SecFull \<or>
        hc_askFallback (gp_host p) = SecAllowlist \<and> ev_analysisOk (gp_eval p) \<and> gp_satisfied p)) \<and>
    gateway_followup env rq p (Some (Some ''deny'')) now disk = (FollowDenied ''user-denied'', plan_store p disk)"
proof -
  have deny: "gateway_followup env rq p (Some (Some ''deny'')) now disk = (FollowDenied ''user-denied'', plan_store p disk)"
    by (simp add: gateway_followup_def Let_def resolveBaseExecApprovalDecision_def)
  have "c = gp_enforced p"
    using assms(1) by (auto simp: gateway_followup_def Let_def split: option.splits)
  moreover have "d \<noteq> Some ''deny''" using assms(1) deny by auto
  moreover have "\<not> gp_obfuscated p \<and> (hc_askFallback (gp_host p) = SecFull \<or>
      hc_askFallback (gp_host p) = SecAllowlist \<and> ev_analysisOk (gp_eval p) \<and> gp_satisfied p)" if "d = None"
    using assms(1) that
    by (cases "hc_askFallback (gp_host p)")
      (auto simp: gateway_followup_def Let_def resolveBaseExecApprovalDecision_def split: if_splits)
  ultimately show ?thesis using assms(2) deny by auto
qed

text \<open>A node runs a command only under its own policy. Where its check passes, the host does not deny
  everything, and either the request carries an approval, or the ask mode is not \<open>always\<close>, no code is
  evaluated inline where that is restricted, and the security is \<open>full\<close>, or the command has a durable
  approval, or it is an analysed command on the allowlist that goes through no shell wrapper.\<close>

theorem node_run_is_covered:
  assumes "system_run_check ps shellPayload durable inlineEvalHit trusted = None"
  shows "rp_hostSecurity ps \<noteq> SecDeny \<and>
    (rp_decision ps \<noteq> None \<or> rp_approved ps \<or>
     \<not> inlineEvalHit \<and> rp_hostAsk ps \<noteq> AskAlways \<and>
       (rp_hostSecurity ps = SecFull \<or> durable \<or>
        rp_analysisOk ps \<and> rp_allowlistSatisfied ps \<and> shellPayload = None))"
  using assms
  by (cases "rp_hostSecurity ps")
    (auto simp: system_run_check_def evaluateSystemRunPolicy_def Let_def requiresExecApproval_def split: if_splits)

definition quiet_eval :: "bool \<Rightarrow> shell_eval" where
  "quiet_eval satisfied = \<lparr>ev_analysisOk = True, ev_allowlistSatisfied = satisfied, ev_matches = [],
     ev_segmentEntries = [None], ev_argvs = [[''make'']], ev_inlineEval = [False], ev_enforced = Some ''make'',
     ev_patterns = [], ev_auditPath = None\<rparr>"

definition host_env :: gate_env where
  "host_env = \<lparr>gv_approvals = example_env, gv_evaluate = (\<lambda>c allow. quiet_eval (allow \<noteq> [] \<and> c = ''ls'')),
     gv_obfuscated = (\<lambda>c. False)\<rparr>"

definition host_request :: "string \<Rightarrow> exec_security \<Rightarrow> exec_ask \<Rightarrow> gate_request" where
  "host_request command security ask = \<lparr>gq_command = command, gq_agentId = None, gq_security = security,
     gq_ask = ask, gq_trigger = None, gq_strictInlineEval = True\<rparr>"

definition file_with :: "allow_item list \<Rightarrow> approvals_file" where
  "file_with items = empty_file\<lparr>af_agents := [(''main'', no_agent\<lparr>ea_allowlist := Some items\<rparr>)]\<rparr>"


definition asked_plan :: gate_plan where
  "asked_plan = gateway_plan host_env (host_request ''rm'' SecAllowlist AskOnMiss)
     \<lparr>hc_file = empty_file, hc_next = 0, hc_allowlist = [], hc_security = SecAllowlist, hc_ask = AskOnMiss,
      hc_askFallback = SecFull\<rparr>"

theorem decided_run_is_approved_witness:
  "fst (gateway_followup host_env (host_request ''rm'' SecAllowlist AskOnMiss) asked_plan (Some None) 5 None) = FollowRun None \<and>
   gateway_followup host_env (host_request ''rm'' SecAllowlist AskOnMiss) asked_plan (Some (Some ''deny'')) 5 None =
     (FollowDenied ''user-denied'', plan_store asked_plan None)"
proof -
  have run: "fst (gateway_followup host_env (host_request ''rm'' SecAllowlist AskOnMiss) asked_plan (Some None) 5 None) = FollowRun None"
    by code_simp
  show ?thesis using run decided_run_is_approved [OF run] by auto
qed

definition node_params :: run_policy_params where
  "node_params = \<lparr>rp_hostSecurity = SecAllowlist, rp_hostAsk = AskOnMiss, rp_analysisOk = True,
     rp_allowlistSatisfied = False, rp_durable = True, rp_decision = None, rp_approved = False,
     rp_isWindows = False, rp_cmdInvocation = False, rp_shellWrapper = False\<rparr>"

theorem node_run_is_covered_witness:
  "system_run_check node_params (Some ''make'') True False False = None \<and> rp_hostSecurity node_params \<noteq> SecDeny"
proof -
  have c: "system_run_check node_params (Some ''make'') True False False = None" by code_simp
  show ?thesis using c node_run_is_covered [OF c] by simp
qed

section \<open>Approvals that are recorded\<close>

text \<open>\<open>allow-always\<close> on an exact command does not allow it on the gateway host. Under security
  \<open>allowlist\<close>, a command that is durably approved but not covered by the allowlist needs no prompt any
  more (unless the ask mode is \<open>always\<close> or another check asks for one), and is then refused as an
  allowlist miss; a node host, given the same facts, runs it.\<close>

theorem durable_command_denied:
  assumes "fst (resolveExecHostApprovalContext (gv_approvals env) n disk (gq_agentId rq) (gq_security rq) (gq_ask rq)) = Some hc"
    and "hc_security hc = SecAllowlist" and "hc_ask hc \<noteq> AskAlways"
    and "gp_durable (gateway_plan env rq hc)" and "\<not> gp_inlineEval (gateway_plan env rq hc)"
    and "\<not> gp_satisfied (gateway_plan env rq hc)" and "\<not> gv_obfuscated env (gq_command rq)"
    and "rp_hostSecurity ps = hc_security hc" and "rp_hostAsk ps = hc_ask hc" and "rp_decision ps = None"
  shows "fst (processGatewayAllowlist env rq n disk surf pre now) = GateDenied ''exec denied: allowlist miss'' \<and>
    system_run_check ps shellPayload True False trusted = None"
proof
  let ?p = "gateway_plan env rq hc"
  have "\<not> gp_requiresAsk ?p"
    using assms(2-7) by (auto simp: gateway_plan_def Let_def requiresExecApproval_def split: if_splits)
  then show "fst (processGatewayAllowlist env rq n disk surf pre now) = GateDenied ''exec denied: allowlist miss''"
    using assms(1,2,6)
    by (cases "resolveExecHostApprovalContext (gv_approvals env) n disk (gq_agentId rq) (gq_security rq) (gq_ask rq)")
      (simp add: processGatewayAllowlist_def Let_def gateway_unprompted_def)
  show "system_run_check ps shellPayload True False trusted = None"
    using assms(2,3,8-10)
    by (simp add: system_run_check_def evaluateSystemRunPolicy_def Let_def requiresExecApproval_def)
qed

text \<open>The file after the operator has answered \<open>allow-always\<close> to a command without patterns.\<close>

definition approved_disk :: "approvals_file option" where
  "approved_disk = as_disk (snd (gateway_followup host_env (host_request ''rm'' SecAllowlist AskOnMiss) asked_plan
     (Some (Some ''allow-always'')) 5 None))"

theorem durable_command_denied_witness:
  "fst (processGatewayAllowlist host_env (host_request ''rm'' SecAllowlist AskOnMiss) 0 approved_disk SurfaceEnabled None 6) =
     GateDenied ''exec denied: allowlist miss'' \<and>
   system_run_check node_params None True False False = None"
proof -
  let ?rq = "host_request ''rm'' SecAllowlist AskOnMiss"
  let ?ctx = "fst (resolveExecHostApprovalContext (gv_approvals host_env) 0 approved_disk (gq_agentId ?rq) (gq_security ?rq) (gq_ask ?rq))"
  have facts: "map_option (\<lambda>hc. (hc_security hc, hc_ask hc, gp_durable (gateway_plan host_env ?rq hc),
      gp_inlineEval (gateway_plan host_env ?rq hc), gp_satisfied (gateway_plan host_env ?rq hc))) ?ctx =
      Some (SecAllowlist, AskOnMiss, True, False, False)"
    by code_simp
  then obtain hc where hc: "?ctx = Some hc" by auto
  show ?thesis
    by (rule durable_command_denied [OF hc]) (use facts hc in \<open>auto simp: node_params_def host_env_def\<close>)
qed

text \<open>Approving a command with one argument pattern rewrites the entries of its siblings. When the entry
  with the approved pattern and argument pattern exists but was not approved for ever, recording the
  approval gives its argument pattern and its source to every entry with the same pattern: the other
  argument patterns are gone from the list.\<close>

theorem allow_always_rewrites_siblings:
  assumes "trim pattern \<noteq> []"
    and "find (\<lambda>e. al_pattern e = trim pattern \<and> al_argPattern e = trimmed_opt argPattern)
      (List.map_filter entry_of (agent_entries (value_or agentId DEFAULT_AGENT_ID) (as_file st))) = Some e"
    and "\<not> al_always e"
  shows "\<forall>s \<in> set (List.map_filter entry_of (agent_entries (value_or agentId DEFAULT_AGENT_ID)
      (as_file (addAllowlistEntry env now agentId pattern argPattern True st)))).
    al_pattern s = trim pattern \<longrightarrow> al_argPattern s = trimmed_opt argPattern \<and> al_always s"
proof -
  let ?t = "value_or agentId DEFAULT_AGENT_ID"
  let ?items = "map (retag (trim pattern) (trimmed_opt argPattern) True now) (agent_entries ?t (as_file st))"
  have "as_file (addAllowlistEntry env now agentId pattern argPattern True st) = put_entries ?t ?items (as_file st)"
    using assms by (simp add: addAllowlistEntry_def Let_def save_entries_def)
  moreover have "agent_entries ?t (put_entries ?t ?items (as_file st)) = ?items"
    by (simp add: agent_entries_def put_entries_def agent_at_def update_conv' items_of_def)
  moreover have "al_pattern s = trim pattern \<longrightarrow> al_argPattern s = trimmed_opt argPattern \<and> al_always s"
    if s: "s \<in> set (List.map_filter entry_of ?items)" for s
  proof -
    obtain j where j: "j \<in> set ?items" "entry_of j = Some s"
      using s unfolding set_map_filter by blast
    obtain i where "entry_of (retag (trim pattern) (trimmed_opt argPattern) True now i) = Some s"
      using j by auto
    then show ?thesis by (cases i) (auto split: if_splits)
  qed
  ultimately show ?thesis by simp
qed

theorem allow_always_rewrites_siblings_witness:
  "map al_argPattern (List.map_filter entry_of (agent_entries ''main'' (as_file
     (addAllowlistEntry example_env 5 None ''/bin/git'' (Some ''^status$'') True
       \<lparr>as_file = file_with [ItemEntry ((new_entry ''/bin/git'')\<lparr>al_argPattern := Some ''^status$''\<rparr>),
          ItemEntry ((new_entry ''/bin/git'')\<lparr>al_argPattern := Some ''^log$''\<rparr>)], as_next = 0, as_disk = None\<rparr>)))) =
   [Some ''^status$'', Some ''^status$'']"
proof -
  let ?e = "(new_entry ''/bin/git'')\<lparr>al_argPattern := Some ''^status$''\<rparr>"
  let ?st = "\<lparr>as_file = file_with [ItemEntry ?e, ItemEntry ((new_entry ''/bin/git'')\<lparr>al_argPattern := Some ''^log$''\<rparr>)],
    as_next = 0, as_disk = None\<rparr> :: approvals_store"
  have h: "trim ''/bin/git'' \<noteq> []" "value_or None DEFAULT_AGENT_ID = ''main''" "\<not> al_always ?e"
    "find (\<lambda>e. al_pattern e = trim ''/bin/git'' \<and> al_argPattern e = trimmed_opt (Some ''^status$''))
      (List.map_filter entry_of (agent_entries (value_or None DEFAULT_AGENT_ID) (as_file ?st))) = Some ?e"
    by code_simp+
  have two: "map al_pattern (List.map_filter entry_of (agent_entries ''main'' (as_file
      (addAllowlistEntry example_env 5 None ''/bin/git'' (Some ''^status$'') True ?st)))) = [''/bin/git'', ''/bin/git'']"
    by code_simp
  then obtain a b where ab: "List.map_filter entry_of (agent_entries ''main'' (as_file
      (addAllowlistEntry example_env 5 None ''/bin/git'' (Some ''^status$'') True ?st))) = [a, b]"
      "al_pattern a = ''/bin/git''" "al_pattern b = ''/bin/git''"
    by (auto simp: map_eq_Cons_conv)
  have "trim ''/bin/git'' = ''/bin/git''" "trimmed_opt (Some ''^status$'') = Some ''^status$''" by code_simp+
  then show ?thesis
    using allow_always_rewrites_siblings [OF h(1,4,3), of example_env 5] ab
    by (simp add: DEFAULT_AGENT_ID_def)
qed

text \<open>What recording leaves alone: the policies of the file; and once something was saved, the object and the
  file on disk are the same.\<close>

definition policies :: "approvals_file \<Rightarrow> exec_policy \<times> (string \<Rightarrow> exec_policy)" where
  "policies f = (af_defaults f, \<lambda>k. exec_policy.truncate (agent_at k f))"

lemma put_entries_policies [simp]: "policies (put_entries target items f) = policies f"
  by (auto simp: policies_def put_entries_def agent_at_def update_conv' exec_policy.truncate_def no_agent_def
      split: option.splits)

lemma save_entries_state [simp]:
  "policies (as_file (save_entries t items n st)) = policies (as_file st)"
  "as_disk (save_entries t items n st) = Some (as_file (save_entries t items n st))"
  by (simp_all add: save_entries_def Let_def)

lemma record_use_state:
  assumes "as_disk st = Some (as_file st)"
  shows "policies (as_file (record_use env rq p now st)) = policies (as_file st) \<and>
    as_disk (record_use env rq p now st) = Some (as_file (record_use env rq p now st))"
proof -
  have "policies (as_file (record_matches ae now a c path seen ms st)) = policies (as_file st) \<and>
      as_disk (record_matches ae now a c path seen ms st) = Some (as_file (record_matches ae now a c path seen ms st))"
    if "as_disk st = Some (as_file st)" for ae a c path seen ms st
    using that
    by (induction ms arbitrary: st seen) (simp_all add: recordAllowlistUse_def Let_def split_beta)
  then show ?thesis using assms by (simp add: record_use_def recordAllowlistMatchesUse_def)
qed

text \<open>An approval can undo a change of policy. The file object is loaded when the command is requested and
  written back as a whole when the answer arrives: if the operator answers \<open>allow-always\<close>, what is
  then on disk has the defaults and the policies of every agent of the time of the request, whatever
  the file had become in the meantime; a policy tightened while the prompt was open is lost.\<close>

theorem late_approval_restores_policy:
  assumes "\<not> gp_inlineEval p" and "ev_patterns (gp_eval p) = []" and "trim (gq_command rq) \<noteq> []"
    and "find (\<lambda>e. al_pattern e = trim (buildDurableCommandApprovalPattern (xe_digest (gv_approvals env)) (trim (gq_command rq))) \<and>
        al_argPattern e = None)
      (List.map_filter entry_of (agent_entries (value_or (gq_agentId rq) DEFAULT_AGENT_ID) (hc_file (gp_host p)))) = None"
  shows "fst (gateway_followup env rq p (Some (Some ''allow-always'')) now disk) = FollowRun (gp_enforced p) \<and>
    (\<exists>saved. as_disk (snd (gateway_followup env rq p (Some (Some ''allow-always'')) now disk)) = Some saved \<and>
      policies saved = policies (hc_file (gp_host p)))"
proof -
  let ?st = "plan_store p disk"
  have trim_eq: "trim (''=command:'' @ x) \<noteq> []" for x
    by (simp add: trim_def trim_end_def js_ws_def)
  have no_arg: "trimmed_opt None = None" by (simp add: trimmed_opt_def)
  have st1: "as_disk (allow_always env rq p now ?st) = Some (as_file (allow_always env rq p now ?st))"
    "policies (as_file (allow_always env rq p now ?st)) = policies (hc_file (gp_host p))"
    using assms trim_eq
    by (simp_all add: allow_always_def addDurableCommandApproval_def addAllowlistEntry_def Let_def plan_store_def
        buildDurableCommandApprovalPattern_def no_arg)
  show ?thesis using record_use_state [OF st1(1), of env rq p now] st1(2)
    by (simp add: gateway_followup_def Let_def base_timedOut base_approved resolveBaseExecApprovalDecision_def)
qed

theorem late_approval_restores_policy_witness:
  "\<exists>saved. as_disk (snd (gateway_followup host_env (host_request ''rm'' SecAllowlist AskOnMiss) asked_plan
     (Some (Some ''allow-always'')) 5 (Some (empty_file\<lparr>af_defaults := no_policy\<lparr>ep_security := Some (PStr ''deny'')\<rparr>\<rparr>)))) = Some saved \<and>
   ep_security (af_defaults saved) = None"
proof -
  have h: "\<not> gp_inlineEval asked_plan" "ev_patterns (gp_eval asked_plan) = []"
    "trim (gq_command (host_request ''rm'' SecAllowlist AskOnMiss)) \<noteq> []"
    "find (\<lambda>e. al_pattern e = trim (buildDurableCommandApprovalPattern (xe_digest (gv_approvals host_env))
          (trim (gq_command (host_request ''rm'' SecAllowlist AskOnMiss)))) \<and> al_argPattern e = None)
      (List.map_filter entry_of (agent_entries (value_or (gq_agentId (host_request ''rm'' SecAllowlist AskOnMiss)) DEFAULT_AGENT_ID)
        (hc_file (gp_host asked_plan)))) = None"
    by code_simp+
  let ?disk = "Some (empty_file\<lparr>af_defaults := no_policy\<lparr>ep_security := Some (PStr ''deny'')\<rparr>\<rparr>)"
  have "ep_security (fst (policies (hc_file (gp_host asked_plan)))) = None"
    by (simp add: asked_plan_def policies_def empty_file_def no_policy_def)
  moreover obtain saved where "as_disk (snd (gateway_followup host_env (host_request ''rm'' SecAllowlist AskOnMiss) asked_plan
      (Some (Some ''allow-always'')) 5 ?disk)) = Some saved" "policies saved = policies (hc_file (gp_host asked_plan))"
    using late_approval_restores_policy [OF h, where now = 5 and disk = ?disk] by blast
  ultimately show ?thesis by (metis fst_conv policies_def)
qed

end
