(* ===== verification/ExecApproval.thy ===== *)
theory ExecApproval
  imports ExecPolicy
begin

text \<open>
  The gateway's approval manager, \<open>src/gateway/exec-approval-manager.ts\<close>, for any type of request
  payload. A promise is a number; the list of settled promises records what each was resolved with.
  A timer is a handle, the instant it is due and what its callback does: expire the entry under an
  rid, or drop the entry of a promise after the grace period.
\<close>

definition RESOLVED_ENTRY_GRACE_MS :: int where
  "RESOLVED_ENTRY_GRACE_MS = 15000"

text \<open>\<open>xr_resolvedBy\<close> is \<open>None\<close> while undefined and \<open>Some None\<close> for null.\<close>

record 'p approval_record =
  xr_id :: string
  xr_request :: 'p
  xr_createdAtMs :: int
  xr_expiresAtMs :: int
  xr_connId :: "string option"
  xr_deviceId :: "string option"
  xr_clientId :: "string option"
  xr_resolvedAtMs :: "int option"
  xr_decision :: "approval_decision option"
  xr_resolvedBy :: "string option option"

record 'p pending_entry =
  pe_record :: "'p approval_record"
  pe_promise :: nat
  pe_timer :: nat

datatype timer_action = ExpireTimer string | GraceTimer string nat

record 'p approval_manager =
  am_pending :: "(string \<times> 'p pending_entry) list"
  am_timers :: "(nat \<times> int \<times> timer_action) list"
  am_nextTimer :: nat
  am_nextPromise :: nat
  am_settled :: "(nat \<times> approval_decision option) list"

definition empty_manager :: "'p approval_manager" where
  "empty_manager = \<lparr>am_pending = [], am_timers = [], am_nextTimer = 0, am_nextPromise = 0, am_settled = []\<rparr>"

definition create :: "int \<Rightarrow> string \<Rightarrow> 'p \<Rightarrow> int \<Rightarrow> string option \<Rightarrow> 'p approval_record" where
  "create now uuid request timeoutMs rid =
     \<lparr>xr_id = (case trimmed_opt rid of Some i \<Rightarrow> i | None \<Rightarrow> uuid), xr_request = request,
      xr_createdAtMs = now, xr_expiresAtMs = now + timeoutMs, xr_connId = None, xr_deviceId = None,
      xr_clientId = None, xr_resolvedAtMs = None, xr_decision = None, xr_resolvedBy = None\<rparr>"

definition register ::
    "int \<Rightarrow> 'p approval_record \<Rightarrow> int \<Rightarrow> 'p approval_manager \<Rightarrow> (string + nat) \<times> 'p approval_manager" where
  "register now rc timeoutMs m =
     (case map_of (am_pending m) (xr_id rc) of
        Some e \<Rightarrow>
          if xr_resolvedAtMs (pe_record e) = None then (Inr (pe_promise e), m)
          else (Inl (''approval id '' @ [CHR 0x27] @ xr_id rc @ [CHR 0x27] @ '' already resolved''), m)
      | None \<Rightarrow>
          (Inr (am_nextPromise m),
           m\<lparr>am_pending := AList.update (xr_id rc)
               \<lparr>pe_record = rc, pe_promise = am_nextPromise m, pe_timer = am_nextTimer m\<rparr> (am_pending m),
             am_timers := am_timers m @ [(am_nextTimer m, now + node_timer_ms timeoutMs, ExpireTimer (xr_id rc))],
             am_nextTimer := Suc (am_nextTimer m), am_nextPromise := Suc (am_nextPromise m)\<rparr>))"

definition settled_entry :: "int \<Rightarrow> approval_decision option \<Rightarrow> string option \<Rightarrow> 'p pending_entry \<Rightarrow> 'p pending_entry" where
  "settled_entry now decision resolvedBy e =
     e\<lparr>pe_record := (pe_record e)\<lparr>xr_resolvedAtMs := Some now, xr_decision := decision,
         xr_resolvedBy := Some resolvedBy\<rparr>\<rparr>"

lemma settled_entry_simps [simp]:
  "pe_promise (settled_entry now d by' e) = pe_promise e" "pe_timer (settled_entry now d by' e) = pe_timer e"
  "xr_resolvedAtMs (pe_record (settled_entry now d by' e)) = Some now"
  "xr_decision (pe_record (settled_entry now d by' e)) = d"
  by (simp_all add: settled_entry_def)

text \<open>The common body of \<open>resolve\<close> and \<open>expire\<close>.\<close>

definition settle_entry ::
    "int \<Rightarrow> string \<Rightarrow> approval_decision option \<Rightarrow> string option \<Rightarrow> 'p approval_manager \<Rightarrow>
     bool \<times> 'p approval_manager" where
  "settle_entry now recordId decision resolvedBy m =
     (case map_of (am_pending m) recordId of
        None \<Rightarrow> (False, m)
      | Some e \<Rightarrow>
          if xr_resolvedAtMs (pe_record e) \<noteq> None then (False, m)
          else (True,
            m\<lparr>am_pending := AList.update recordId
                (settled_entry now decision resolvedBy e) (am_pending m),
              am_timers := filter (\<lambda>t. fst t \<noteq> pe_timer e) (am_timers m) @
                [(am_nextTimer m, now + RESOLVED_ENTRY_GRACE_MS, GraceTimer recordId (pe_promise e))],
              am_nextTimer := Suc (am_nextTimer m),
              am_settled := am_settled m @ [(pe_promise e, decision)]\<rparr>))"

definition resolve_approval ::
    "int \<Rightarrow> string \<Rightarrow> approval_decision \<Rightarrow> string option \<Rightarrow> 'p approval_manager \<Rightarrow> bool \<times> 'p approval_manager" where
  "resolve_approval now recordId decision resolvedBy m = settle_entry now recordId (Some decision) resolvedBy m"

definition expire ::
    "int \<Rightarrow> string \<Rightarrow> string option \<Rightarrow> 'p approval_manager \<Rightarrow> bool \<times> 'p approval_manager" where
  "expire now recordId resolvedBy m = settle_entry now recordId None resolvedBy m"

definition getSnapshot :: "string \<Rightarrow> 'p approval_manager \<Rightarrow> 'p approval_record option" where
  "getSnapshot recordId m = map_option pe_record (map_of (am_pending m) recordId)"

definition consumeAllowOnce :: "string \<Rightarrow> 'p approval_manager \<Rightarrow> bool \<times> 'p approval_manager" where
  "consumeAllowOnce recordId m =
     (case map_of (am_pending m) recordId of
        None \<Rightarrow> (False, m)
      | Some e \<Rightarrow>
          if xr_decision (pe_record e) \<noteq> Some AllowOnce then (False, m)
          else (True, m\<lparr>am_pending := AList.update recordId
                 (e\<lparr>pe_record := (pe_record e)\<lparr>xr_decision := None\<rparr>\<rparr>) (am_pending m)\<rparr>))"

definition awaitDecision :: "string \<Rightarrow> 'p approval_manager \<Rightarrow> nat option" where
  "awaitDecision recordId m = map_option pe_promise (map_of (am_pending m) recordId)"

datatype id_lookup = ExactId string | PrefixId string | AmbiguousIds "string list" | NoId

definition prefix_matches :: "string \<Rightarrow> 'p approval_manager \<Rightarrow> string list" where
  "prefix_matches prefix m =
     map fst (filter (\<lambda>(rid, e). xr_resolvedAtMs (pe_record e) = None \<and> starts_with (to_lower rid) prefix) (am_pending m))"

definition lookupPendingId :: "string \<Rightarrow> 'p approval_manager \<Rightarrow> id_lookup" where
  "lookupPendingId input m =
     (let normalized = trim input in
      if normalized = [] then NoId
      else (case map_of (am_pending m) normalized of
              Some e \<Rightarrow> if xr_resolvedAtMs (pe_record e) = None then ExactId normalized else NoId
            | None \<Rightarrow>
                (case prefix_matches (to_lower normalized) m of
                   [] \<Rightarrow> NoId
                 | [rid] \<Rightarrow> PrefixId rid
                 | ids \<Rightarrow> AmbiguousIds ids)))"

text \<open>A timer that is due runs its callback once.\<close>

definition fire_timer :: "int \<Rightarrow> nat \<Rightarrow> 'p approval_manager \<Rightarrow> 'p approval_manager" where
  "fire_timer now h m =
     (case map_of (am_timers m) h of
        None \<Rightarrow> m
      | Some (due, action) \<Rightarrow>
          if now < due then m
          else (let m1 = m\<lparr>am_timers := filter (\<lambda>t. fst t \<noteq> h) (am_timers m)\<rparr> in
            case action of
              ExpireTimer rid \<Rightarrow> snd (expire now rid None m1)
            | GraceTimer rid p \<Rightarrow>
                if map_option pe_promise (map_of (am_pending m1) rid) = Some p
                then m1\<lparr>am_pending := AList.delete rid (am_pending m1)\<rparr> else m1))"

text \<open>The calls and timers that change the manager. A request creates its record and registers it.\<close>

datatype 'p approval_event =
    EvRequest int string 'p int "string option"
  | EvResolve int string approval_decision "string option"
  | EvExpire int string "string option"
  | EvConsume string
  | EvTimer int nat

fun approval_step :: "'p approval_manager \<Rightarrow> 'p approval_event \<Rightarrow> 'p approval_manager" where
  "approval_step m (EvRequest now uuid request timeoutMs rid) =
     snd (register now (create now uuid request timeoutMs rid) timeoutMs m)"
| "approval_step m (EvResolve now rid decision by) = snd (resolve_approval now rid decision by m)"
| "approval_step m (EvExpire now rid by) = snd (expire now rid by m)"
| "approval_step m (EvConsume rid) = snd (consumeAllowOnce rid m)"
| "approval_step m (EvTimer now h) = fire_timer now h m"

definition approval_run :: "'p approval_event list \<Rightarrow> 'p approval_manager" where
  "approval_run es = foldl approval_step empty_manager es"

text \<open>The promises whose \<open>allow-once\<close> a run of events consumes, in order.\<close>

fun consumed :: "'p approval_manager \<Rightarrow> 'p approval_event list \<Rightarrow> nat list" where
  "consumed m [] = []"
| "consumed m (e # es) =
     (case e of
        EvConsume rid \<Rightarrow>
          (case map_of (am_pending m) rid of
             Some en \<Rightarrow> if fst (consumeAllowOnce rid m) then [pe_promise en] else []
           | None \<Rightarrow> [])
      | _ \<Rightarrow> []) @ consumed (approval_step m e) es"

end
