(* ===== verification/ExecApprovalProps.thy ===== *)
theory ExecApprovalProps
  imports ExecApproval
begin

text \<open>
  The approval manager keeps its promises: an invariant of every call and timer, from which each
  promise is settled exactly once and each \<open>allow-once\<close> is consumed at most once.
\<close>

section \<open>The invariant\<close>

abbreviation settled_promises :: "'p approval_manager \<Rightarrow> nat set" where
  "settled_promises m \<equiv> fst ` set (am_settled m)"

definition entry_ok :: "'p approval_manager \<Rightarrow> string \<Rightarrow> 'p pending_entry \<Rightarrow> bool" where
  "entry_ok m rid e \<longleftrightarrow> pe_promise e < am_nextPromise m \<and>
     (if xr_resolvedAtMs (pe_record e) = None
      then pe_promise e \<notin> settled_promises m \<and> xr_decision (pe_record e) = None \<and>
        (\<exists>due. (pe_timer e, due, ExpireTimer rid) \<in> set (am_timers m))
      else (\<exists>d. (pe_promise e, d) \<in> set (am_settled m) \<and>
             (xr_decision (pe_record e) = d \<or> xr_decision (pe_record e) = None)) \<and>
        (\<exists>h due. (h, due, GraceTimer rid (pe_promise e)) \<in> set (am_timers m)))"

definition pending_ok :: "'p approval_manager \<Rightarrow> bool" where
  "pending_ok m \<longleftrightarrow> distinct (map fst (am_pending m)) \<and>
     (\<forall>rid e. map_of (am_pending m) rid = Some e \<longrightarrow> entry_ok m rid e) \<and>
     (\<forall>rid rid' e e'. map_of (am_pending m) rid = Some e \<longrightarrow> map_of (am_pending m) rid' = Some e' \<longrightarrow>
        pe_promise e = pe_promise e' \<longrightarrow> rid = rid')"

definition timers_ok :: "'p approval_manager \<Rightarrow> bool" where
  "timers_ok m \<longleftrightarrow> distinct (map fst (am_timers m)) \<and> (\<forall>t \<in> set (am_timers m). fst t < am_nextTimer m) \<and>
     (\<forall>h due rid. (h, due, ExpireTimer rid) \<in> set (am_timers m) \<longrightarrow>
        (\<exists>e. map_of (am_pending m) rid = Some e \<and> pe_timer e = h \<and> xr_resolvedAtMs (pe_record e) = None)) \<and>
     (\<forall>h due rid p. (h, due, GraceTimer rid p) \<in> set (am_timers m) \<longrightarrow> p \<in> settled_promises m)"

definition promises_ok :: "'p approval_manager \<Rightarrow> bool" where
  "promises_ok m \<longleftrightarrow> distinct (map fst (am_settled m)) \<and> settled_promises m \<subseteq> {..<am_nextPromise m} \<and>
     (\<forall>p < am_nextPromise m. p \<in> settled_promises m \<or>
        (\<exists>rid e. map_of (am_pending m) rid = Some e \<and> pe_promise e = p \<and> xr_resolvedAtMs (pe_record e) = None))"

definition am_inv :: "'p approval_manager \<Rightarrow> bool" where
  "am_inv m \<longleftrightarrow> pending_ok m \<and> timers_ok m \<and> promises_ok m"

lemma empty_inv: "am_inv empty_manager"
  by (simp add: am_inv_def pending_ok_def timers_ok_def promises_ok_def empty_manager_def)

lemma timer_unique:
  assumes "timers_ok m" and "(h, due, a) \<in> set (am_timers m)" and "(h, due', a') \<in> set (am_timers m)"
  shows "a = a'"
  using assms distinct_map_unique [of fst "am_timers m" "(h, due, a)" "(h, due', a')"]
  by (simp add: timers_ok_def)

lemma create_fresh [simp]:
  "xr_resolvedAtMs (create now uuid request timeoutMs rid) = None"
  "xr_decision (create now uuid request timeoutMs rid) = None"
  by (simp_all add: create_def)

lemma register_inv:
  assumes inv: "am_inv m" and fresh: "xr_resolvedAtMs rc = None" "xr_decision rc = None"
  shows "am_inv (snd (register now rc timeoutMs m))"
proof (cases "map_of (am_pending m) (xr_id rc)")
  case (Some e)
  then show ?thesis using inv by (simp add: register_def)
next
  case None
  let ?e = "\<lparr>pe_record = rc, pe_promise = am_nextPromise m, pe_timer = am_nextTimer m\<rparr>"
  let ?m = "snd (register now rc timeoutMs m)"
  have m: "am_pending ?m = AList.update (xr_id rc) ?e (am_pending m)"
    "am_timers ?m = am_timers m @ [(am_nextTimer m, now + node_timer_ms timeoutMs, ExpireTimer (xr_id rc))]"
    "am_nextTimer ?m = Suc (am_nextTimer m)" "am_nextPromise ?m = Suc (am_nextPromise m)" "am_settled ?m = am_settled m"
    using None by (simp_all add: register_def)
  have old: "map_of (am_pending ?m) r = (if r = xr_id rc then Some ?e else map_of (am_pending m) r)" for r
    by (simp add: m update_conv')
  from inv have p: "pending_ok m" and t: "timers_ok m" and s: "promises_ok m" by (simp_all add: am_inv_def)
  have lt: "map_of (am_pending m) r = Some e \<Longrightarrow> pe_promise e < am_nextPromise m" for r e
    using p by (simp add: pending_ok_def entry_ok_def)
  have "pending_ok ?m"
    unfolding pending_ok_def
  proof (intro conjI allI impI)
    show "distinct (map fst (am_pending ?m))" using p by (simp add: m pending_ok_def distinct_update)
    show "entry_ok ?m r e" if "map_of (am_pending ?m) r = Some e" for r e
    proof (cases "r = xr_id rc")
      case True
      then show ?thesis using that s fresh by (auto simp: old entry_ok_def m(2-5) promises_ok_def)
    next
      case False
      then have "entry_ok m r e" using that p by (simp add: old pending_ok_def)
      then show ?thesis by (auto simp: entry_ok_def m(2-5) split: if_splits)
    qed
    show "r = r'" if "map_of (am_pending ?m) r = Some e" "map_of (am_pending ?m) r' = Some e'"
      "pe_promise e = pe_promise e'" for r r' e e'
      using that p lt by (fastforce simp: old pending_ok_def split: if_splits)
  qed
  moreover have "timers_ok ?m"
    unfolding timers_ok_def
  proof (intro conjI allI impI ballI)
    show "distinct (map fst (am_timers ?m))" using t by (auto simp: timers_ok_def m(2))
    show "fst x < am_nextTimer ?m" if "x \<in> set (am_timers ?m)" for x
      using that t by (auto simp: timers_ok_def m(2,3) intro: less_SucI)
    show "\<exists>e. map_of (am_pending ?m) r = Some e \<and> pe_timer e = h \<and> xr_resolvedAtMs (pe_record e) = None"
      if h: "(h, due, ExpireTimer r) \<in> set (am_timers ?m)" for h due r
    proof (cases "(h, due, ExpireTimer r) \<in> set (am_timers m)")
      case True
      then obtain e where "map_of (am_pending m) r = Some e" "pe_timer e = h" "xr_resolvedAtMs (pe_record e) = None"
        using t unfolding timers_ok_def by blast
      then show ?thesis using None by (auto simp: old)
    next
      case False
      then show ?thesis using h fresh by (simp add: m(2) old)
    qed
    show "q \<in> settled_promises ?m" if h: "(h, due, GraceTimer r q) \<in> set (am_timers ?m)" for h due r q
    proof -
      have "(h, due, GraceTimer r q) \<in> set (am_timers m)" using h by (simp add: m(2))
      then show ?thesis using t unfolding timers_ok_def m(5) by blast
    qed
  qed
  moreover have "promises_ok ?m"
    unfolding promises_ok_def
  proof (intro conjI allI impI)
    show "distinct (map fst (am_settled ?m))" "settled_promises ?m \<subseteq> {..<am_nextPromise ?m}"
      using s by (auto simp: promises_ok_def m(2-5))
    show "q \<in> settled_promises ?m \<or> (\<exists>r e. map_of (am_pending ?m) r = Some e \<and> pe_promise e = q \<and>
        xr_resolvedAtMs (pe_record e) = None)" if "q < am_nextPromise ?m" for q
    proof (cases "q = am_nextPromise m")
      case True
      then show ?thesis using fresh by (auto simp: old)
    next
      case False
      with that have "q < am_nextPromise m" by (simp add: m(4))
      with s have "q \<in> settled_promises m \<or> (\<exists>r e. map_of (am_pending m) r = Some e \<and> pe_promise e = q \<and>
          xr_resolvedAtMs (pe_record e) = None)" by (simp add: promises_ok_def)
      moreover have "map_of (am_pending m) r = Some e \<Longrightarrow> map_of (am_pending ?m) r = Some e" for r e
        using None by (auto simp: old)
      ultimately show ?thesis unfolding m(5) by blast
    qed
  qed
  ultimately show ?thesis by (simp add: am_inv_def)
qed

lemma settle_fields:
  assumes "map_of (am_pending m) rid = Some e" and "xr_resolvedAtMs (pe_record e) = None"
  shows "am_pending (snd (settle_entry now rid d by' m)) = AList.update rid (settled_entry now d by' e) (am_pending m)"
    and "am_timers (snd (settle_entry now rid d by' m)) = filter (\<lambda>t. fst t \<noteq> pe_timer e) (am_timers m) @
      [(am_nextTimer m, now + RESOLVED_ENTRY_GRACE_MS, GraceTimer rid (pe_promise e))]"
    and "am_nextTimer (snd (settle_entry now rid d by' m)) = Suc (am_nextTimer m)"
    and "am_nextPromise (snd (settle_entry now rid d by' m)) = am_nextPromise m"
    and "am_settled (snd (settle_entry now rid d by' m)) = am_settled m @ [(pe_promise e, d)]"
    and "map_of (am_pending (snd (settle_entry now rid d by' m))) r =
      (if r = rid then Some (settled_entry now d by' e) else map_of (am_pending m) r)"
  using assms by (simp_all add: settle_entry_def update_conv')

lemma settle_noop:
  "map_of (am_pending m) rid = None \<or> (\<exists>e t. map_of (am_pending m) rid = Some e \<and> xr_resolvedAtMs (pe_record e) = Some t) \<Longrightarrow>
    settle_entry now rid d by' m = (False, m)"
  by (auto simp: settle_entry_def)

lemma settle_entry_inv:
  assumes inv: "am_inv m"
  shows "am_inv (snd (settle_entry now rid d by' m))"
proof (cases "\<exists>e. map_of (am_pending m) rid = Some e \<and> xr_resolvedAtMs (pe_record e) = None")
  case False
  then have "settle_entry now rid d by' m = (False, m)"
    by (intro settle_noop) (cases "map_of (am_pending m) rid", auto)
  then show ?thesis using inv by simp
next
  case True
  then obtain e where e: "map_of (am_pending m) rid = Some e" "xr_resolvedAtMs (pe_record e) = None" by blast
  let ?m = "snd (settle_entry now rid d by' m)"
  note f = settle_fields [OF e, of now d by']
  from inv have p: "pending_ok m" and t: "timers_ok m" and s: "promises_ok m" by (simp_all add: am_inv_def)
  have eok: "pe_promise e < am_nextPromise m" "pe_promise e \<notin> settled_promises m"
    and own: "\<exists>due. (pe_timer e, due, ExpireTimer rid) \<in> set (am_timers m)"
    using p e by (auto simp: pending_ok_def entry_ok_def)
  have other: "h \<noteq> pe_timer e" if "(h, due, a) \<in> set (am_timers m)" "a \<noteq> ExpireTimer rid" for h due a
    using own that timer_unique [OF t] by blast
  have "pending_ok ?m"
    unfolding pending_ok_def
  proof (intro conjI allI impI)
    show "distinct (map fst (am_pending ?m))" using p unfolding f(1) pending_ok_def by (simp add: distinct_update)
    show "entry_ok ?m r x" if x: "map_of (am_pending ?m) r = Some x" for r x
    proof (cases "r = rid")
      case True
      with x have "pe_promise x = pe_promise e" "xr_resolvedAtMs (pe_record x) = Some now" "xr_decision (pe_record x) = d"
        by (auto simp: f(6))
      then show ?thesis using True eok by (auto simp: entry_ok_def f(2,4,5))
    next
      case False
      with x have x0: "map_of (am_pending m) r = Some x" by (simp add: f(6))
      then have ok: "entry_ok m r x" and ne: "pe_promise x \<noteq> pe_promise e"
        using p e(1) False unfolding pending_ok_def by blast+
      show ?thesis
      proof (cases "xr_resolvedAtMs (pe_record x) = None")
        case True
        then obtain due where "(pe_timer x, due, ExpireTimer r) \<in> set (am_timers m)" using ok by (auto simp: entry_ok_def)
        then show ?thesis using ok True ne other False by (fastforce simp: entry_ok_def f(2,4,5))
      next
        case res: False
        then obtain h due where "(h, due, GraceTimer r (pe_promise x)) \<in> set (am_timers m)" using ok by (auto simp: entry_ok_def)
        then show ?thesis using ok res other by (fastforce simp: entry_ok_def f(2,4,5))
      qed
    qed
    show "r = r'" if "map_of (am_pending ?m) r = Some x" "map_of (am_pending ?m) r' = Some x'"
      "pe_promise x = pe_promise x'" for r r' x x'
    proof -
      have "\<exists>y. map_of (am_pending m) r = Some y \<and> pe_promise y = pe_promise x"
        "\<exists>y. map_of (am_pending m) r' = Some y \<and> pe_promise y = pe_promise x'"
        using that(1,2) e(1) by (auto simp: f(6) split: if_splits)
      then show ?thesis using p that(3) unfolding pending_ok_def by metis
    qed
  qed
  moreover have "timers_ok ?m"
    unfolding timers_ok_def
  proof (intro conjI allI impI ballI)
    show "distinct (map fst (am_timers ?m))" using t by (auto simp: timers_ok_def f(2) distinct_map_filter)
    show "fst x < am_nextTimer ?m" if "x \<in> set (am_timers ?m)" for x
      using that t by (auto simp: timers_ok_def f(2,3) intro: less_SucI)
    show "\<exists>y. map_of (am_pending ?m) r = Some y \<and> pe_timer y = h \<and> xr_resolvedAtMs (pe_record y) = None"
      if h: "(h, due, ExpireTimer r) \<in> set (am_timers ?m)" for h due r
    proof -
      have h0: "(h, due, ExpireTimer r) \<in> set (am_timers m)" "h \<noteq> pe_timer e" using h by (auto simp: f(2))
      then obtain y where y: "map_of (am_pending m) r = Some y" "pe_timer y = h" "xr_resolvedAtMs (pe_record y) = None"
        using t unfolding timers_ok_def by blast
      with h0(2) e(1) have "r \<noteq> rid" by auto
      then show ?thesis using y by (simp add: f(6))
    qed
    show "q \<in> settled_promises ?m" if h: "(h, due, GraceTimer r q) \<in> set (am_timers ?m)" for h due r q
    proof (cases "(h, due, GraceTimer r q) \<in> set (am_timers m)")
      case True
      then have "q \<in> settled_promises m" using t unfolding timers_ok_def by blast
      then show ?thesis by (auto simp: f(5))
    next
      case False
      then show ?thesis using h by (auto simp: f(2,5))
    qed
  qed
  moreover have "promises_ok ?m"
    unfolding promises_ok_def
  proof (intro conjI allI impI)
    show "distinct (map fst (am_settled ?m))" "settled_promises ?m \<subseteq> {..<am_nextPromise ?m}"
      using s eok by (auto simp: promises_ok_def f(4,5))
    show "q \<in> settled_promises ?m \<or> (\<exists>r x. map_of (am_pending ?m) r = Some x \<and> pe_promise x = q \<and>
        xr_resolvedAtMs (pe_record x) = None)" if "q < am_nextPromise ?m" for q
    proof (cases "q = pe_promise e")
      case True
      then show ?thesis by (simp add: f(5))
    next
      case False
      have "q < am_nextPromise m" using that by (simp add: f(4))
      with s consider "q \<in> settled_promises m"
        | (waiting) r x where "map_of (am_pending m) r = Some x" "pe_promise x = q" "xr_resolvedAtMs (pe_record x) = None"
        unfolding promises_ok_def by blast
      then show ?thesis
      proof cases
        case 1
        then show ?thesis by (auto simp: f(5))
      next
        case (waiting r x)
        then have "map_of (am_pending ?m) r = Some x" using False e(1) by (auto simp: f(6))
        then show ?thesis using waiting by blast
      qed
    qed
  qed
  ultimately show ?thesis by (simp add: am_inv_def)
qed

text \<open>Consuming only clears a decision; every entry keeps what the invariant says of it.\<close>

lemma consume_fields:
  "map_option (\<lambda>e. (pe_promise e, pe_timer e, xr_resolvedAtMs (pe_record e))) (map_of (am_pending (snd (consumeAllowOnce rid m))) r) =
     map_option (\<lambda>e. (pe_promise e, pe_timer e, xr_resolvedAtMs (pe_record e))) (map_of (am_pending m) r)"
  "am_timers (snd (consumeAllowOnce rid m)) = am_timers m" "am_settled (snd (consumeAllowOnce rid m)) = am_settled m"
  "am_nextTimer (snd (consumeAllowOnce rid m)) = am_nextTimer m"
  "am_nextPromise (snd (consumeAllowOnce rid m)) = am_nextPromise m"
  by (auto simp: consumeAllowOnce_def update_conv' split: option.splits)

lemma consume_entry:
  assumes "map_of (am_pending (snd (consumeAllowOnce rid m))) r = Some e"
  shows "\<exists>e0. map_of (am_pending m) r = Some e0 \<and> pe_promise e = pe_promise e0 \<and> pe_timer e = pe_timer e0 \<and>
    xr_resolvedAtMs (pe_record e) = xr_resolvedAtMs (pe_record e0) \<and>
    (xr_decision (pe_record e) = xr_decision (pe_record e0) \<or> xr_decision (pe_record e) = None)"
  using assms by (auto simp: consumeAllowOnce_def update_conv' split: option.splits if_splits)

lemma consume_entry_back:
  assumes "map_of (am_pending m) r = Some e0"
  shows "\<exists>e. map_of (am_pending (snd (consumeAllowOnce rid m))) r = Some e \<and> pe_promise e = pe_promise e0 \<and>
    pe_timer e = pe_timer e0 \<and> xr_resolvedAtMs (pe_record e) = xr_resolvedAtMs (pe_record e0)"
  using assms by (auto simp: consumeAllowOnce_def update_conv' split: option.splits)

lemma consume_inv:
  assumes inv: "am_inv m"
  shows "am_inv (snd (consumeAllowOnce rid m))"
proof -
  let ?m = "snd (consumeAllowOnce rid m)"
  from inv have p: "pending_ok m" and t: "timers_ok m" and s: "promises_ok m" by (simp_all add: am_inv_def)
  have "pending_ok ?m"
    unfolding pending_ok_def
  proof (intro conjI allI impI)
    show "distinct (map fst (am_pending ?m))"
      using p by (auto simp: pending_ok_def consumeAllowOnce_def distinct_update split: option.splits)
    show "entry_ok ?m r e" if r: "map_of (am_pending ?m) r = Some e" for r e
    proof -
      obtain e0 where e0: "map_of (am_pending m) r = Some e0" "pe_promise e = pe_promise e0" "pe_timer e = pe_timer e0"
          "xr_resolvedAtMs (pe_record e) = xr_resolvedAtMs (pe_record e0)"
          "xr_decision (pe_record e) = xr_decision (pe_record e0) \<or> xr_decision (pe_record e) = None"
        using consume_entry [OF r] by blast
      have "entry_ok m r e0" using p e0(1) by (simp add: pending_ok_def)
      then show ?thesis using e0(2-5) by (auto simp: entry_ok_def consume_fields(2-5) split: if_splits)
    qed
    show "r = r'" if "map_of (am_pending ?m) r = Some e" "map_of (am_pending ?m) r' = Some e'"
      "pe_promise e = pe_promise e'" for r r' e e'
      using consume_entry [OF that(1)] consume_entry [OF that(2)] that(3) p unfolding pending_ok_def by metis
  qed
  moreover have "timers_ok ?m"
    using t consume_entry_back [of m _ _ rid] unfolding timers_ok_def consume_fields(2-5) by metis
  moreover have "promises_ok ?m"
    using s consume_entry_back [of m _ _ rid] unfolding promises_ok_def consume_fields(2-5) by metis
  ultimately show ?thesis by (simp add: am_inv_def)
qed

text \<open>A timer that is due: the expiry of its entry, or the end of a grace period.\<close>

lemma fire_expire:
  assumes t: "timers_ok m" and h: "(h, due, ExpireTimer rid) \<in> set (am_timers m)" and "due \<le> now"
  shows "fire_timer now h m = snd (settle_entry now rid None None m)"
proof -
  have "map_of (am_timers m) h = Some (due, ExpireTimer rid)"
    using t h by (simp add: timers_ok_def)
  moreover obtain e where "map_of (am_pending m) rid = Some e" "pe_timer e = h" "xr_resolvedAtMs (pe_record e) = None"
    using t h unfolding timers_ok_def by blast
  ultimately show ?thesis using assms(3)
    by (simp add: fire_timer_def expire_def settle_entry_def Let_def)
qed

lemma fire_grace_inv:
  assumes inv: "am_inv m" and h: "(h, due, GraceTimer rid q) \<in> set (am_timers m)" and "due \<le> now"
  shows "am_inv (fire_timer now h m)"
proof -
  from inv have p: "pending_ok m" and t: "timers_ok m" and s: "promises_ok m" by (simp_all add: am_inv_def)
  let ?hit = "map_option pe_promise (map_of (am_pending m) rid) = Some q"
  let ?m = "fire_timer now h m"
  have "map_of (am_timers m) h = Some (due, GraceTimer rid q)" using t h by (simp add: timers_ok_def)
  then have m: "am_pending ?m = (if ?hit then AList.delete rid (am_pending m) else am_pending m)"
    "am_timers ?m = filter (\<lambda>x. fst x \<noteq> h) (am_timers m)" "am_nextTimer ?m = am_nextTimer m"
    "am_nextPromise ?m = am_nextPromise m" "am_settled ?m = am_settled m"
    using assms(3) by (auto simp: fire_timer_def Let_def)
  have look: "map_of (am_pending ?m) r = (if r = rid \<and> ?hit then None else map_of (am_pending m) r)" for r
  proof (cases ?hit)
    case True
    then have "am_pending ?m = AList.delete rid (am_pending m)" using m(1) by simp
    then show ?thesis using True by (simp add: delete_conv')
  next
    case False
    then have "am_pending ?m = am_pending m" unfolding m(1) by (rule if_not_P)
    then show ?thesis using False by auto
  qed
  have kept: "(h', due', a) \<in> set (am_timers ?m)" if "(h', due', a) \<in> set (am_timers m)" "a \<noteq> GraceTimer rid q" for h' due' a
  proof -
    have "h' \<noteq> h" using timer_unique [OF t] that h by blast
    then show ?thesis using that(1) by (simp add: m(2))
  qed
  have settled: "q \<in> settled_promises m" using t h unfolding timers_ok_def by blast
  have "pending_ok ?m"
    unfolding pending_ok_def
  proof (intro conjI allI impI)
    show "distinct (map fst (am_pending ?m))" using p by (simp add: m(1) pending_ok_def distinct_delete)
    show "entry_ok ?m r e" if r: "map_of (am_pending ?m) r = Some e" for r e
    proof -
      have e: "map_of (am_pending m) r = Some e" and other: "\<not> (r = rid \<and> pe_promise e = q)"
        using r by (auto simp: look split: if_splits)
      have ok: "entry_ok m r e" using p e by (simp add: pending_ok_def)
      show ?thesis
      proof (cases "xr_resolvedAtMs (pe_record e) = None")
        case True
        then obtain d where "(pe_timer e, d, ExpireTimer r) \<in> set (am_timers m)" using ok by (auto simp: entry_ok_def)
        from kept [OF this] show ?thesis using ok True by (auto simp: entry_ok_def m(4,5))
      next
        case False
        then obtain g d where "(g, d, GraceTimer r (pe_promise e)) \<in> set (am_timers m)" using ok by (auto simp: entry_ok_def)
        from kept [OF this] show ?thesis using ok False other by (auto simp: entry_ok_def m(4,5))
      qed
    qed
    show "r = r'" if "map_of (am_pending ?m) r = Some e" "map_of (am_pending ?m) r' = Some e'"
      "pe_promise e = pe_promise e'" for r r' e e'
      using that p unfolding look pending_ok_def by (metis option.distinct(1))
  qed
  moreover have "timers_ok ?m"
    unfolding timers_ok_def
  proof (intro conjI allI impI ballI)
    show "distinct (map fst (am_timers ?m))" using t by (simp add: timers_ok_def m(2) distinct_map_filter)
    show "fst x < am_nextTimer ?m" if "x \<in> set (am_timers ?m)" for x
      using that t by (auto simp: timers_ok_def m(2,3))
    show "\<exists>e. map_of (am_pending ?m) r = Some e \<and> pe_timer e = k \<and> xr_resolvedAtMs (pe_record e) = None"
      if "(k, d, ExpireTimer r) \<in> set (am_timers ?m)" for k d r
    proof -
      have "(k, d, ExpireTimer r) \<in> set (am_timers m)" using that by (simp add: m(2))
      then obtain e where e: "map_of (am_pending m) r = Some e" "pe_timer e = k" "xr_resolvedAtMs (pe_record e) = None"
        using t unfolding timers_ok_def by blast
      have "pe_promise e \<notin> settled_promises m" using p e unfolding pending_ok_def entry_ok_def by metis
      then have "pe_promise e \<noteq> q" using settled by blast
      then show ?thesis using e by (auto simp: look)
    qed
    show "x \<in> settled_promises ?m" if "(k, d, GraceTimer r x) \<in> set (am_timers ?m)" for k d r x
    proof -
      have "(k, d, GraceTimer r x) \<in> set (am_timers m)" using that by (simp add: m(2))
      then show ?thesis using t unfolding timers_ok_def m(5) by blast
    qed
  qed
  moreover have "promises_ok ?m"
    unfolding promises_ok_def
  proof (intro conjI allI impI)
    show "distinct (map fst (am_settled ?m))" "settled_promises ?m \<subseteq> {..<am_nextPromise ?m}"
      using s by (auto simp: promises_ok_def m(4,5))
    show "x \<in> settled_promises ?m \<or> (\<exists>r e. map_of (am_pending ?m) r = Some e \<and> pe_promise e = x \<and>
        xr_resolvedAtMs (pe_record e) = None)" if "x < am_nextPromise ?m" for x
    proof (cases "x \<in> settled_promises m")
      case True
      then show ?thesis by (simp add: m(5))
    next
      case False
      then obtain r e where e: "map_of (am_pending m) r = Some e" "pe_promise e = x" "xr_resolvedAtMs (pe_record e) = None"
        using s \<open>x < am_nextPromise ?m\<close> unfolding promises_ok_def m(4) by blast
      with False settled have "x \<noteq> q" by blast
      with e have "map_of (am_pending ?m) r = Some e" by (auto simp: look)
      then show ?thesis using e by blast
    qed
  qed
  ultimately show ?thesis by (simp add: am_inv_def)
qed

lemma fire_inv:
  assumes inv: "am_inv m"
  shows "am_inv (fire_timer now h m)"
proof (cases "map_of (am_timers m) h")
  case None
  then show ?thesis using inv by (simp add: fire_timer_def)
next
  case (Some da)
  obtain due a where da: "da = (due, a)" by fastforce
  have mem: "(h, due, a) \<in> set (am_timers m)" using Some da by (auto dest: map_of_SomeD)
  show ?thesis
  proof (cases "now < due")
    case True
    then show ?thesis using inv Some da by (simp add: fire_timer_def)
  next
    case False
    then have le: "due \<le> now" by simp
    have t: "timers_ok m" using inv by (simp add: am_inv_def)
    show ?thesis
    proof (cases a)
      case (ExpireTimer rid)
      with mem have "(h, due, ExpireTimer rid) \<in> set (am_timers m)" by simp
      from fire_expire [OF t this le] show ?thesis using settle_entry_inv [OF inv, of now rid None None] by simp
    next
      case (GraceTimer rid q)
      with mem fire_grace_inv [OF inv _ le] show ?thesis by simp
    qed
  qed
qed

lemma approval_step_inv: "am_inv m \<Longrightarrow> am_inv (approval_step m e)"
  by (cases e) (simp_all add: register_inv settle_entry_inv resolve_approval_def expire_def consume_inv fire_inv)

interpretation approvals: invariant_system approval_step am_inv
  by unfold_locales (rule approval_step_inv)

lemma approval_run_inv: "am_inv (approval_run es)"
  unfolding approval_run_def by (rule approvals.run_all_inv [OF empty_inv])

section \<open>Every promise is settled once\<close>

definition waiting_promises :: "'p approval_manager \<Rightarrow> nat set" where
  "waiting_promises m = {p. \<exists>rid e due. map_of (am_pending m) rid = Some e \<and> pe_promise e = p \<and>
     xr_resolvedAtMs (pe_record e) = None \<and> (pe_timer e, due, ExpireTimer rid) \<in> set (am_timers m) \<and>
     (p, None) \<in> set (am_settled (fire_timer due (pe_timer e) m))}"

lemma waiting_iff:
  assumes inv: "am_inv m"
  shows "p \<in> waiting_promises m \<longleftrightarrow>
    (\<exists>rid e. map_of (am_pending m) rid = Some e \<and> pe_promise e = p \<and> xr_resolvedAtMs (pe_record e) = None)"
proof
  assume "\<exists>rid e. map_of (am_pending m) rid = Some e \<and> pe_promise e = p \<and> xr_resolvedAtMs (pe_record e) = None"
  then obtain rid e where e: "map_of (am_pending m) rid = Some e" "pe_promise e = p" "xr_resolvedAtMs (pe_record e) = None"
    by blast
  then obtain due where h: "(pe_timer e, due, ExpireTimer rid) \<in> set (am_timers m)"
    using inv unfolding am_inv_def pending_ok_def entry_ok_def by metis
  have "fire_timer due (pe_timer e) m = snd (settle_entry due rid None None m)"
    by (rule fire_expire [OF _ h]) (use inv in \<open>simp_all add: am_inv_def\<close>)
  then have "(p, None) \<in> set (am_settled (fire_timer due (pe_timer e) m))"
    using settle_fields(5) [OF e(1,3), of due None None] e(2) by simp
  then show "p \<in> waiting_promises m" using e h unfolding waiting_promises_def by blast
qed (auto simp: waiting_promises_def)

text \<open>C22: Every approval promise is settled exactly once. After any sequence of requests, answers, expiries,
  consumptions and timers no promise has been settled twice; a promise that was handed out is either
  settled or waiting, never both, and a waiting one belongs to an unresolved entry whose timer is
  armed and settles it with null when it fires.\<close>

theorem approval_settles_once:
  "distinct (map fst (am_settled (approval_run es))) \<and>
   settled_promises (approval_run es) \<union> waiting_promises (approval_run es) = {..<am_nextPromise (approval_run es)} \<and>
   settled_promises (approval_run es) \<inter> waiting_promises (approval_run es) = {}"
proof -
  let ?m = "approval_run es"
  have inv: "am_inv ?m" by (rule approval_run_inv)
  have d: "distinct (map fst (am_settled ?m))" using inv by (simp add: am_inv_def promises_ok_def)
  have "waiting_promises ?m \<subseteq> {..<am_nextPromise ?m}"
    using inv unfolding am_inv_def pending_ok_def entry_ok_def by (auto simp: waiting_iff [OF inv])
  moreover have "settled_promises ?m \<subseteq> {..<am_nextPromise ?m}"
    using inv by (simp add: am_inv_def promises_ok_def)
  moreover have "{..<am_nextPromise ?m} \<subseteq> settled_promises ?m \<union> waiting_promises ?m"
  proof
    fix p assume "p \<in> {..<am_nextPromise ?m}"
    then have "p \<in> settled_promises ?m \<or> (\<exists>rid e. map_of (am_pending ?m) rid = Some e \<and> pe_promise e = p \<and>
        xr_resolvedAtMs (pe_record e) = None)"
      using inv unfolding am_inv_def promises_ok_def by blast
    then show "p \<in> settled_promises ?m \<union> waiting_promises ?m" unfolding Un_iff waiting_iff [OF inv] .
  qed
  moreover have "settled_promises ?m \<inter> waiting_promises ?m = {}"
    using inv unfolding am_inv_def pending_ok_def entry_ok_def disjoint_iff waiting_iff [OF inv] by metis
  ultimately show ?thesis using d by blast
qed

section \<open>An allow-once is consumed once\<close>

definition spent :: "'p approval_manager \<Rightarrow> nat \<Rightarrow> bool" where
  "spent m p \<longleftrightarrow> p \<in> settled_promises m \<and>
     (\<forall>rid e. map_of (am_pending m) rid = Some e \<longrightarrow> pe_promise e = p \<longrightarrow> xr_decision (pe_record e) = None)"

lemma settled_mono: "(p, d) \<in> set (am_settled m) \<Longrightarrow> (p, d) \<in> set (am_settled (approval_step m e))"
  by (cases e) (auto simp: register_def resolve_approval_def expire_def settle_entry_def consumeAllowOnce_def
      fire_timer_def Let_def split: option.splits timer_action.splits)

lemma settle_entry_decision:
  assumes "map_of (am_pending (snd (settle_entry now rid d by' m))) r = Some e"
  shows "map_of (am_pending m) r = Some e \<or>
    (\<exists>e0. map_of (am_pending m) r = Some e0 \<and> pe_promise e0 = pe_promise e \<and> xr_resolvedAtMs (pe_record e0) = None)"
  using assms by (auto simp: settle_entry_def update_conv' split: option.splits if_splits)

lemma step_entry:
  assumes "map_of (am_pending (approval_step m ev)) r = Some e" and "pe_promise e < am_nextPromise m"
  shows "\<exists>e0. map_of (am_pending m) r = Some e0 \<and> pe_promise e0 = pe_promise e \<and>
    (xr_resolvedAtMs (pe_record e0) = None \<or> xr_decision (pe_record e) = xr_decision (pe_record e0) \<or>
     xr_decision (pe_record e) = None)"
proof (cases ev)
  case (EvRequest now uuid request timeoutMs rid)
  then show ?thesis using assms by (auto simp: register_def update_conv' split: option.splits if_splits)
next
  case (EvResolve now rid d by')
  then show ?thesis using assms settle_entry_decision by (fastforce simp: resolve_approval_def)
next
  case (EvExpire now rid by')
  then show ?thesis using assms settle_entry_decision by (fastforce simp: expire_def)
next
  case (EvConsume rid)
  then show ?thesis using assms consume_entry [of rid m r e] by auto
next
  case (EvTimer now h)
  let ?m1 = "m\<lparr>am_timers := filter (\<lambda>t. fst t \<noteq> h) (am_timers m)\<rparr>"
  from assms(1) EvTimer consider "map_of (am_pending m) r = Some e"
    | rid where "map_of (am_pending (snd (settle_entry now rid None None ?m1))) r = Some e"
    by (auto simp: fire_timer_def expire_def Let_def delete_conv' split: option.splits timer_action.splits if_splits)
  then show ?thesis
  proof cases
    case 1
    then show ?thesis by blast
  next
    case (2 rid)
    from settle_entry_decision [OF this] show ?thesis by auto
  qed
qed

lemma spent_step:
  assumes inv: "am_inv m" and sp: "spent m p"
  shows "spent (approval_step m ev) p"
  unfolding spent_def
proof (intro conjI allI impI)
  show "p \<in> settled_promises (approval_step m ev)" using sp settled_mono by (fastforce simp: spent_def)
  fix r e
  assume e: "map_of (am_pending (approval_step m ev)) r = Some e" "pe_promise e = p"
  have lt: "p < am_nextPromise m" using inv sp unfolding am_inv_def promises_ok_def spent_def by blast
  obtain e0 where e0: "map_of (am_pending m) r = Some e0" "pe_promise e0 = p"
      "xr_resolvedAtMs (pe_record e0) = None \<or> xr_decision (pe_record e) = xr_decision (pe_record e0) \<or> xr_decision (pe_record e) = None"
    using step_entry [OF e(1)] e(2) lt by auto
  have "xr_decision (pe_record e0) = None" using sp e0(1,2) by (simp add: spent_def)
  moreover have "xr_resolvedAtMs (pe_record e0) \<noteq> None"
    using inv sp e0(1,2) unfolding am_inv_def pending_ok_def entry_ok_def spent_def by metis
  ultimately show "xr_decision (pe_record e) = None" using e0(3) by auto
qed

lemma spent_not_consumed: "am_inv m \<Longrightarrow> spent m p \<Longrightarrow> p \<notin> set (consumed m es)"
proof (induction es arbitrary: m)
  case Nil
  then show ?case by simp
next
  case (Cons e es)
  have "p \<notin> set (consumed (approval_step m e) es)"
    using Cons.IH [OF approval_step_inv [OF Cons.prems(1)] spent_step [OF Cons.prems]] .
  moreover have "xr_decision (pe_record en) = None" if "map_of (am_pending m) rid = Some en" "pe_promise en = p" for rid en
    using Cons.prems(2) that by (simp add: spent_def)
  ultimately show ?case
    by (cases e) (auto simp: consumeAllowOnce_def split: option.splits if_splits)
qed

lemma consume_spends:
  assumes inv: "am_inv m" and en: "map_of (am_pending m) rid = Some en" and ok: "fst (consumeAllowOnce rid m)"
  shows "spent (approval_step m (EvConsume rid)) (pe_promise en) \<and> (pe_promise en, Some AllowOnce) \<in> set (am_settled m)"
proof -
  have d: "xr_decision (pe_record en) = Some AllowOnce"
    using en ok by (auto simp: consumeAllowOnce_def split: if_splits)
  have "entry_ok m rid en" using inv en by (simp add: am_inv_def pending_ok_def)
  then have s: "(pe_promise en, Some AllowOnce) \<in> set (am_settled m)"
    using d by (auto simp: entry_ok_def split: if_splits)
  have "xr_decision (pe_record e) = None"
    if "map_of (am_pending (snd (consumeAllowOnce rid m))) r = Some e" "pe_promise e = pe_promise en" for r e
  proof (cases "r = rid")
    case True
    then show ?thesis using that en d by (auto simp: consumeAllowOnce_def update_conv')
  next
    case False
    then have "map_of (am_pending m) r = Some e" using that en d by (simp add: consumeAllowOnce_def update_conv')
    then have "r = rid" using inv en that(2) unfolding am_inv_def pending_ok_def by metis
    with False show ?thesis ..
  qed
  then show ?thesis using s by (auto simp: spent_def consume_fields(3) image_iff intro!: bexI [where x = "(pe_promise en, Some AllowOnce)"])
qed

lemma consumed_from:
  "am_inv m \<Longrightarrow> distinct (consumed m es) \<and> set (consumed m es) \<subseteq> {p. (p, Some AllowOnce) \<in> set (am_settled (foldl approval_step m es))}"
proof (induction es arbitrary: m)
  case Nil
  then show ?case by simp
next
  case (Cons e es)
  let ?m = "approval_step m e"
  have ih: "distinct (consumed ?m es)" "set (consumed ?m es) \<subseteq> {p. (p, Some AllowOnce) \<in> set (am_settled (foldl approval_step ?m es))}"
    using Cons.IH [OF approval_step_inv [OF Cons.prems]] by auto
  have grow: "(p, d) \<in> set (am_settled m0) \<Longrightarrow> (p, d) \<in> set (am_settled (foldl approval_step m0 es))" for p d m0
    by (induction es arbitrary: m0) (simp_all add: settled_mono)
  show ?case
  proof (cases "\<exists>rid en. e = EvConsume rid \<and> map_of (am_pending m) rid = Some en \<and> fst (consumeAllowOnce rid m)")
    case True
    then obtain rid en where c: "e = EvConsume rid" "map_of (am_pending m) rid = Some en" "fst (consumeAllowOnce rid m)" by blast
    note sp = consume_spends [OF Cons.prems c(2,3)]
    have "pe_promise en \<notin> set (consumed ?m es)"
      using spent_not_consumed [OF approval_step_inv [OF Cons.prems], of e] sp c(1) by blast
    moreover have "(pe_promise en, Some AllowOnce) \<in> set (am_settled (foldl approval_step ?m es))"
      using grow settled_mono sp by blast
    moreover have "consumed m (e # es) = pe_promise en # consumed ?m es" using c by simp
    ultimately show ?thesis using ih by simp
  next
    case False
    then have "consumed m (e # es) = consumed ?m es" by (cases e) (auto split: option.splits)
    then show ?thesis using ih by simp
  qed
qed

text \<open>C14: An \<open>allow-once\<close> authorizes one run. However calls and timers interleave, ids are reused after their
  grace period and answers arrive, each promise's \<open>allow-once\<close> is consumed at most once, and only for
  a promise that was settled with \<open>allow-once\<close>.\<close>

theorem allow_once_consumed_once:
  "distinct (consumed empty_manager es) \<and>
   set (consumed empty_manager es) \<subseteq> {p. (p, Some AllowOnce) \<in> set (am_settled (approval_run es))}"
  unfolding approval_run_def by (rule consumed_from [OF empty_inv])

end
