(* ===== verification/ExecWrapper.thy ===== *)
theory ExecWrapper
  imports Prelude
begin

text \<open>
  Commands that run another command: \<open>src/infra/exec-wrapper-tokens.ts\<close>,
  \<open>dispatch-wrapper-resolution.ts\<close> (\<open>env\<close>, \<open>nice\<close>, \<open>timeout\<close> and the like), \<open>shell-wrapper-resolution.ts\<close>
  and \<open>shell-inline-command.ts\<close> (shells and their inline commands), \<open>exec-wrapper-trust-plan.ts\<close> (which
  command a chain of wrappers really runs). The platform, \<open>process.platform\<close>, is the argument \<open>pf\<close>;
  no caller passes another one. An argv and an index into it are the list of the tokens that are left.
\<close>

section \<open>Executable names\<close>

definition WINDOWS_EXECUTABLE_SUFFIXES :: "string list" where
  "WINDOWS_EXECUTABLE_SUFFIXES = [''.exe'', ''.cmd'', ''.bat'', ''.com'']"

definition stripWindowsExecutableSuffix :: "string \<Rightarrow> string" where
  "stripWindowsExecutableSuffix value =
     (case find (ends_with value) WINDOWS_EXECUTABLE_SUFFIXES of
        Some suffix \<Rightarrow> take (length value - length suffix) value
      | None \<Rightarrow> value)"

text \<open>\<open>path.posix.basename\<close> and \<open>path.win32.basename\<close> of Node: the last segment, trailing separators aside; the
  latter also skips a drive letter.\<close>

definition last_segment :: "(char \<Rightarrow> bool) \<Rightarrow> string \<Rightarrow> string" where
  "last_segment sep s = rev (takeWhile (\<lambda>c. \<not> sep c) (dropWhile sep (rev s)))"

definition posix_basename :: "string \<Rightarrow> string" where
  "posix_basename s = last_segment (\<lambda>c. c = CHR ''/'') s"

definition win32_basename :: "string \<Rightarrow> string" where
  "win32_basename s =
     last_segment (\<lambda>c. c = CHR ''/'' \<or> c = CHR 0x5C)
       (case s of d # c # rest \<Rightarrow> if is_alpha d \<and> c = CHR '':'' then rest else s | _ \<Rightarrow> s)"

definition basenameLower :: "string \<Rightarrow> string" where
  "basenameLower token =
     (let win = win32_basename token; posix = posix_basename token;
          base = (if length win < length posix then win else posix)
      in to_lower (trim base))"

definition normalizeExecutableToken :: "string \<Rightarrow> string" where
  "normalizeExecutableToken token = stripWindowsExecutableSuffix (basenameLower token)"

section \<open>Options of the dispatch wrappers\<close>

definition MAX_DISPATCH_WRAPPER_DEPTH :: nat where
  "MAX_DISPATCH_WRAPPER_DEPTH = 4"

definition ENV_OPTIONS_WITH_VALUE :: "string list" where
  "ENV_OPTIONS_WITH_VALUE = [''-u'', ''--unset'', ''-c'', ''--chdir'', ''-s'', ''--split-string'',
     ''--default-signal'', ''--ignore-signal'', ''--block-signal'']"

definition ENV_INLINE_VALUE_PREFIXES :: "string list" where
  "ENV_INLINE_VALUE_PREFIXES = [''-u'', ''-c'', ''-s'', ''--unset='', ''--chdir='', ''--split-string='',
     ''--default-signal='', ''--ignore-signal='', ''--block-signal='']"

definition ENV_FLAG_OPTIONS :: "string list" where
  "ENV_FLAG_OPTIONS = [''-i'', ''--ignore-environment'', ''-0'', ''--null'']"

definition NICE_OPTIONS_WITH_VALUE :: "string list" where
  "NICE_OPTIONS_WITH_VALUE = [''-n'', ''--adjustment'', ''--priority'']"

definition CAFFEINATE_OPTIONS_WITH_VALUE :: "string list" where
  "CAFFEINATE_OPTIONS_WITH_VALUE = [''-t'', ''-w'']"

definition STDBUF_OPTIONS_WITH_VALUE :: "string list" where
  "STDBUF_OPTIONS_WITH_VALUE = [''-i'', ''--input'', ''-o'', ''--output'', ''-e'', ''--error'']"

definition TIME_FLAG_OPTIONS :: "string list" where
  "TIME_FLAG_OPTIONS = [''-a'', ''--append'', ''-h'', ''--help'', ''-l'', ''-p'', ''-q'', ''--quiet'', ''-v'',
     ''--verbose'', ''-V'', ''--version'']"

definition TIME_OPTIONS_WITH_VALUE :: "string list" where
  "TIME_OPTIONS_WITH_VALUE = [''-f'', ''--format'', ''-o'', ''--output'']"

definition BSD_SCRIPT_FLAG_OPTIONS :: "string list" where
  "BSD_SCRIPT_FLAG_OPTIONS = [''-a'', ''-d'', ''-k'', ''-p'', ''-q'', ''-r'']"

definition BSD_SCRIPT_OPTIONS_WITH_VALUE :: "string list" where
  "BSD_SCRIPT_OPTIONS_WITH_VALUE = [''-F'', ''-t'']"

definition SANDBOX_EXEC_OPTIONS_WITH_VALUE :: "string list" where
  "SANDBOX_EXEC_OPTIONS_WITH_VALUE = [''-f'', ''-p'', ''-d'']"

definition TIMEOUT_FLAG_OPTIONS :: "string list" where
  "TIMEOUT_FLAG_OPTIONS = [''--foreground'', ''--preserve-status'', ''-v'', ''--verbose'']"

definition TIMEOUT_OPTIONS_WITH_VALUE :: "string list" where
  "TIMEOUT_OPTIONS_WITH_VALUE = [''-k'', ''--kill-after'', ''-s'', ''--signal'']"

definition XCRUN_FLAG_OPTIONS :: "string list" where
  "XCRUN_FLAG_OPTIONS = [''-k'', ''--kill-cache'', ''-l'', ''--log'', ''-n'', ''--no-cache'', ''-r'', ''--run'',
     ''-v'', ''--verbose'']"

definition isArchSelectorToken :: "string \<Rightarrow> bool" where
  "isArchSelectorToken token =
     (case token of [] \<Rightarrow> False | c # cs \<Rightarrow> c = CHR ''-'' \<and> cs \<noteq> [] \<and> list_all is_word_char cs)"

definition isKnownArchSelectorToken :: "string \<Rightarrow> bool" where
  "isKnownArchSelectorToken token = (token \<in> set [''-arm64'', ''-arm64e'', ''-i386'', ''-x86_64'', ''-x86_64h''])"

definition isKnownArchNameToken :: "string \<Rightarrow> bool" where
  "isKnownArchNameToken token = isKnownArchSelectorToken (CHR ''-'' # token)"

definition isEnvAssignment :: "string \<Rightarrow> bool" where
  "isEnvAssignment token =
     (case token of [] \<Rightarrow> False
      | c # cs \<Rightarrow> (is_alpha c \<or> c = CHR ''_'') \<and>
          (case dropWhile is_word_char cs of [] \<Rightarrow> False | d # ds \<Rightarrow> d = CHR ''=''))"

definition hasEnvInlineValuePrefix :: "string \<Rightarrow> bool" where
  "hasEnvInlineValuePrefix lower = list_ex (starts_with lower) ENV_INLINE_VALUE_PREFIXES"

section \<open>Scanning a wrapper's options\<close>

datatype scan_directive = ScanContinue | ScanConsumeNext | ScanStop | ScanInvalid

text \<open>The state \<open>'s\<close> is what the closure \<open>onToken\<close> keeps between calls. The result is the argv from the
  command on.\<close>

fun wrapper_scan ::
    "string list \<Rightarrow> ('s \<Rightarrow> string \<Rightarrow> string \<Rightarrow> scan_directive \<times> 's) \<Rightarrow> 's \<Rightarrow> bool \<Rightarrow> string list \<Rightarrow> string list option" where
  "wrapper_scan separators onToken s expects [] = (if expects then None else Some [])"
| "wrapper_scan separators onToken s expects (t # ts) =
     (let token = trim t in
      if token = [] then wrapper_scan separators onToken s expects ts
      else if expects then wrapper_scan separators onToken s False ts
      else if token \<in> set separators then Some ts
      else (case onToken s token (to_lower token) of
              (ScanStop, s') \<Rightarrow> Some (t # ts)
            | (ScanInvalid, s') \<Rightarrow> None
            | (ScanConsumeNext, s') \<Rightarrow> wrapper_scan separators onToken s' True ts
            | (ScanContinue, s') \<Rightarrow> wrapper_scan separators onToken s' False ts))"

definition scanWrapperInvocation ::
    "string list \<Rightarrow> ('s \<Rightarrow> string \<Rightarrow> string \<Rightarrow> scan_directive \<times> 's) \<Rightarrow> 's \<Rightarrow>
     (string list \<Rightarrow> string list option) \<Rightarrow> string list \<Rightarrow> string list option" where
  "scanWrapperInvocation separators onToken s adjustCommandIndex argv =
     (case wrapper_scan separators onToken s False (tl argv) of
        None \<Rightarrow> None
      | Some command \<Rightarrow>
          (case adjustCommandIndex command of
             None \<Rightarrow> None
           | Some command' \<Rightarrow> if command' = [] then None else Some command'))"

definition flag_of :: "string \<Rightarrow> string" where
  "flag_of token = takeWhile (\<lambda>c. c \<noteq> CHR ''='') token"

definition has_eq :: "string \<Rightarrow> bool" where
  "has_eq token = (CHR ''='' \<in> set token)"

definition no_option :: "string \<Rightarrow> bool" where
  "no_option token = (\<not> starts_with token ''-'' \<or> token = ''-'')"

definition stateless :: "(string \<Rightarrow> string \<Rightarrow> scan_directive) \<Rightarrow> unit \<Rightarrow> string \<Rightarrow> string \<Rightarrow> scan_directive \<times> unit" where
  "stateless f s token lower = (f token lower, ())"

definition env_token :: "string \<Rightarrow> string \<Rightarrow> scan_directive" where
  "env_token token lower =
     (if isEnvAssignment token then ScanContinue
      else if no_option token then ScanStop
      else let flag = flag_of lower in
        if flag \<in> set ENV_FLAG_OPTIONS then ScanContinue
        else if flag \<in> set ENV_OPTIONS_WITH_VALUE then (if has_eq lower then ScanContinue else ScanConsumeNext)
        else if hasEnvInlineValuePrefix lower then ScanContinue
        else ScanInvalid)"

definition unwrapEnvInvocation :: "string list \<Rightarrow> string list option" where
  "unwrapEnvInvocation argv = scanWrapperInvocation [''--'', ''-''] (stateless env_token) () Some argv"

fun env_modifiers :: "bool \<Rightarrow> string list \<Rightarrow> bool" where
  "env_modifiers expects [] = False"
| "env_modifiers expects (t # ts) =
     (let token = trim t in
      if token = [] then env_modifiers expects ts
      else if expects then True
      else if token = ''--'' \<or> token = ''-'' then False
      else if isEnvAssignment token then True
      else if no_option token then False
      else let lower = to_lower token; flag = flag_of lower in
        if flag \<in> set ENV_FLAG_OPTIONS then True
        else if flag \<in> set ENV_OPTIONS_WITH_VALUE then
          (if has_eq lower then True else env_modifiers True ts)
        else True)"

definition envInvocationUsesModifiers :: "string list \<Rightarrow> bool" where
  "envInvocationUsesModifiers argv = env_modifiers False (tl argv)"

definition unwrapDashOptionInvocation ::
    "(string \<Rightarrow> string \<Rightarrow> scan_directive) \<Rightarrow> (string list \<Rightarrow> string list option) \<Rightarrow> string list \<Rightarrow> string list option" where
  "unwrapDashOptionInvocation onFlag adjustCommandIndex argv =
     scanWrapperInvocation [''--'']
       (stateless (\<lambda>token lower. if no_option token then ScanStop else onFlag (flag_of lower) lower)) ()
       adjustCommandIndex argv"

definition takes_value :: "bool \<Rightarrow> scan_directive" where
  "takes_value inline = (if inline then ScanContinue else ScanConsumeNext)"

definition nice_flag :: "string \<Rightarrow> string \<Rightarrow> scan_directive" where
  "nice_flag flag lower =
     (if (case lower of [] \<Rightarrow> False | c # cs \<Rightarrow> c = CHR ''-'' \<and> cs \<noteq> [] \<and> list_all is_digit cs) then ScanContinue
      else if flag \<in> set NICE_OPTIONS_WITH_VALUE then takes_value (has_eq lower \<or> lower \<noteq> flag)
      else if starts_with lower ''-n'' \<and> length lower > 2 then ScanContinue
      else ScanInvalid)"

definition unwrapNiceInvocation :: "string list \<Rightarrow> string list option" where
  "unwrapNiceInvocation argv = unwrapDashOptionInvocation nice_flag Some argv"

definition caffeinate_flag :: "string \<Rightarrow> string \<Rightarrow> scan_directive" where
  "caffeinate_flag flag lower =
     (if flag \<in> set [''-d'', ''-i'', ''-m'', ''-s'', ''-u''] then ScanContinue
      else if flag \<in> set CAFFEINATE_OPTIONS_WITH_VALUE then takes_value (lower \<noteq> flag \<or> has_eq lower)
      else ScanInvalid)"

definition unwrapCaffeinateInvocation :: "string list \<Rightarrow> string list option" where
  "unwrapCaffeinateInvocation argv = unwrapDashOptionInvocation caffeinate_flag Some argv"

definition nohup_token :: "string \<Rightarrow> string \<Rightarrow> scan_directive" where
  "nohup_token token lower =
     (if no_option token then ScanStop
      else if lower = ''--help'' \<or> lower = ''--version'' then ScanContinue else ScanInvalid)"

definition unwrapNohupInvocation :: "string list \<Rightarrow> string list option" where
  "unwrapNohupInvocation argv = scanWrapperInvocation [''--''] (stateless nohup_token) () Some argv"

definition sandbox_flag :: "string \<Rightarrow> string \<Rightarrow> scan_directive" where
  "sandbox_flag flag lower =
     (if flag \<in> set SANDBOX_EXEC_OPTIONS_WITH_VALUE then takes_value (lower \<noteq> flag \<or> has_eq lower)
      else ScanInvalid)"

definition unwrapSandboxExecInvocation :: "string list \<Rightarrow> string list option" where
  "unwrapSandboxExecInvocation argv = unwrapDashOptionInvocation sandbox_flag Some argv"

definition stdbuf_flag :: "string \<Rightarrow> string \<Rightarrow> scan_directive" where
  "stdbuf_flag flag lower =
     (if flag \<notin> set STDBUF_OPTIONS_WITH_VALUE then ScanInvalid else takes_value (has_eq lower))"

definition unwrapStdbufInvocation :: "string list \<Rightarrow> string list option" where
  "unwrapStdbufInvocation argv = unwrapDashOptionInvocation stdbuf_flag Some argv"

definition time_flag :: "string \<Rightarrow> string \<Rightarrow> scan_directive" where
  "time_flag flag lower =
     (if flag \<in> set TIME_FLAG_OPTIONS then ScanContinue
      else if flag \<in> set TIME_OPTIONS_WITH_VALUE then takes_value (has_eq lower)
      else ScanInvalid)"

definition unwrapTimeInvocation :: "string list \<Rightarrow> string list option" where
  "unwrapTimeInvocation argv = unwrapDashOptionInvocation time_flag Some argv"

definition supportsScriptPositionalCommand :: "string \<Rightarrow> bool" where
  "supportsScriptPositionalCommand pf = (pf = ''darwin'' \<or> pf = ''freebsd'')"

definition script_token :: "string \<Rightarrow> string \<Rightarrow> scan_directive" where
  "script_token token lower =
     (if no_option lower then ScanStop
      else let flag = flag_of token in
        if flag \<in> set BSD_SCRIPT_OPTIONS_WITH_VALUE then takes_value (has_eq token)
        else if flag \<in> set BSD_SCRIPT_FLAG_OPTIONS then ScanContinue
        else ScanInvalid)"

text \<open>The command follows the transcript file: the second token that is not blank.\<close>

definition after_transcript :: "string list \<Rightarrow> string list option" where
  "after_transcript command =
     (case dropWhile (\<lambda>t. trim t = []) command of
        [] \<Rightarrow> None
      | transcript # rest \<Rightarrow>
          (case dropWhile (\<lambda>t. trim t = []) rest of [] \<Rightarrow> None | t # ts \<Rightarrow> Some (t # ts)))"

definition unwrapScriptInvocation :: "string \<Rightarrow> string list \<Rightarrow> string list option" where
  "unwrapScriptInvocation pf argv =
     (if \<not> supportsScriptPositionalCommand pf then None
      else scanWrapperInvocation [''--''] (stateless script_token) () after_transcript argv)"

definition timeout_flag :: "string \<Rightarrow> string \<Rightarrow> scan_directive" where
  "timeout_flag flag lower =
     (if flag \<in> set TIMEOUT_FLAG_OPTIONS then ScanContinue
      else if flag \<in> set TIMEOUT_OPTIONS_WITH_VALUE then takes_value (has_eq lower)
      else ScanInvalid)"

text \<open>The command follows the duration.\<close>

definition after_duration :: "string list \<Rightarrow> string list option" where
  "after_duration command = (case tl command of [] \<Rightarrow> None | t # ts \<Rightarrow> Some (t # ts))"

definition unwrapTimeoutInvocation :: "string list \<Rightarrow> string list option" where
  "unwrapTimeoutInvocation argv = unwrapDashOptionInvocation timeout_flag after_duration argv"

text \<open>The state says whether the name of an architecture is due.\<close>

definition arch_token :: "bool \<Rightarrow> string \<Rightarrow> string \<Rightarrow> scan_directive \<times> bool" where
  "arch_token expectsArchName token lower =
     (if expectsArchName then (if isKnownArchNameToken lower then ScanContinue else ScanInvalid, False)
      else if no_option token then (ScanStop, False)
      else if lower = ''-32'' \<or> lower = ''-64'' then (ScanContinue, False)
      else if lower = ''-arch'' then (ScanContinue, True)
      else if lower \<in> set [''-c'', ''-d'', ''-e'', ''-h''] then (ScanInvalid, False)
      else (if isArchSelectorToken token \<and> isKnownArchSelectorToken lower then ScanContinue else ScanInvalid, False))"

definition unwrapArchInvocation :: "string list \<Rightarrow> string list option" where
  "unwrapArchInvocation argv = scanWrapperInvocation [] arch_token False Some argv"

definition supportsArchDispatchWrapper :: "string \<Rightarrow> bool" where
  "supportsArchDispatchWrapper pf = (pf = ''darwin'')"

definition supportsXcrunDispatchWrapper :: "string \<Rightarrow> bool" where
  "supportsXcrunDispatchWrapper pf = (pf = ''darwin'')"

definition xcrun_token :: "string \<Rightarrow> string \<Rightarrow> scan_directive" where
  "xcrun_token token lower =
     (if no_option token then ScanStop
      else if lower \<in> set XCRUN_FLAG_OPTIONS then ScanContinue else ScanInvalid)"

definition unwrapXcrunInvocation :: "string list \<Rightarrow> string list option" where
  "unwrapXcrunInvocation argv = scanWrapperInvocation [] (stateless xcrun_token) () Some argv"

section \<open>The table of dispatch wrappers\<close>

record wrapper_spec =
  ws_unwrap :: "(string \<Rightarrow> string list \<Rightarrow> string list option) option"
  ws_transparent :: "string \<Rightarrow> string list \<Rightarrow> bool"

definition opaque_spec :: wrapper_spec where
  "opaque_spec = \<lparr>ws_unwrap = None, ws_transparent = (\<lambda>pf argv. False)\<rparr>"

definition plain_spec :: "(string list \<Rightarrow> string list option) \<Rightarrow> wrapper_spec" where
  "plain_spec f = \<lparr>ws_unwrap = Some (\<lambda>pf. f), ws_transparent = (\<lambda>pf argv. True)\<rparr>"

definition platform_spec :: "(string \<Rightarrow> bool) \<Rightarrow> (string list \<Rightarrow> string list option) \<Rightarrow> wrapper_spec" where
  "platform_spec supported f =
     \<lparr>ws_unwrap = Some (\<lambda>pf argv. if supported pf then f argv else None), ws_transparent = (\<lambda>pf argv. supported pf)\<rparr>"

definition DISPATCH_WRAPPER_SPECS :: "(string \<times> wrapper_spec) list" where
  "DISPATCH_WRAPPER_SPECS =
    [(''arch'', platform_spec supportsArchDispatchWrapper unwrapArchInvocation),
     (''caffeinate'', plain_spec unwrapCaffeinateInvocation),
     (''chrt'', opaque_spec),
     (''doas'', opaque_spec),
     (''env'', \<lparr>ws_unwrap = Some (\<lambda>pf. unwrapEnvInvocation),
                ws_transparent = (\<lambda>pf argv. \<not> envInvocationUsesModifiers argv)\<rparr>),
     (''ionice'', opaque_spec),
     (''nice'', plain_spec unwrapNiceInvocation),
     (''nohup'', plain_spec unwrapNohupInvocation),
     (''sandbox-exec'', plain_spec unwrapSandboxExecInvocation),
     (''script'', \<lparr>ws_unwrap = Some unwrapScriptInvocation, ws_transparent = (\<lambda>pf argv. True)\<rparr>),
     (''setsid'', opaque_spec),
     (''stdbuf'', plain_spec unwrapStdbufInvocation),
     (''sudo'', opaque_spec),
     (''taskset'', opaque_spec),
     (''time'', plain_spec unwrapTimeInvocation),
     (''timeout'', plain_spec unwrapTimeoutInvocation),
     (''xcrun'', platform_spec supportsXcrunDispatchWrapper unwrapXcrunInvocation)]"

definition isDispatchWrapperExecutable :: "string \<Rightarrow> bool" where
  "isDispatchWrapperExecutable token = (map_of DISPATCH_WRAPPER_SPECS (normalizeExecutableToken token) \<noteq> None)"

datatype unwrap_result = NotWrapper | WrapperBlocked string | Unwrapped string "string list"

definition token0 :: "string list \<Rightarrow> string" where
  "token0 argv = (case argv of [] \<Rightarrow> [] | t # ts \<Rightarrow> trim t)"

definition unwrapKnownDispatchWrapperInvocation :: "string \<Rightarrow> string list \<Rightarrow> unwrap_result" where
  "unwrapKnownDispatchWrapperInvocation pf argv =
     (if token0 argv = [] then NotWrapper
      else let wrapper = normalizeExecutableToken (token0 argv) in
        (case map_of DISPATCH_WRAPPER_SPECS wrapper of
           None \<Rightarrow> NotWrapper
         | Some spec \<Rightarrow>
             (case ws_unwrap spec of
                None \<Rightarrow> WrapperBlocked wrapper
              | Some unwrap \<Rightarrow>
                  (case unwrap pf argv of None \<Rightarrow> WrapperBlocked wrapper | Some rest \<Rightarrow> Unwrapped wrapper rest))))"

definition isSemanticDispatchWrapperUsage :: "string \<Rightarrow> string \<Rightarrow> string list \<Rightarrow> bool" where
  "isSemanticDispatchWrapperUsage pf wrapper argv =
     (case map_of DISPATCH_WRAPPER_SPECS wrapper of
        None \<Rightarrow> True
      | Some spec \<Rightarrow> ws_unwrap spec = None \<or> \<not> ws_transparent spec pf argv)"

record dispatch_plan =
  dp_argv :: "string list"
  dp_wrappers :: "string list"
  dp_blocked :: "string option"

text \<open>The loop of the plan: at most \<open>n\<close> wrappers, in the order they were stripped. Its right result is what is
  left when it ends, its left result the plan it returns early.\<close>

fun dispatch_plan_loop ::
    "string \<Rightarrow> nat \<Rightarrow> string list \<Rightarrow> string list \<Rightarrow> dispatch_plan + string list \<times> string list" where
  "dispatch_plan_loop pf 0 current wrappers = Inr (current, wrappers)"
| "dispatch_plan_loop pf (Suc n) current wrappers =
     (case unwrapKnownDispatchWrapperInvocation pf current of
        WrapperBlocked w \<Rightarrow> Inl \<lparr>dp_argv = current, dp_wrappers = wrappers, dp_blocked = Some w\<rparr>
      | NotWrapper \<Rightarrow> Inr (current, wrappers)
      | Unwrapped w rest \<Rightarrow>
          if rest = [] then Inr (current, wrappers)
          else if isSemanticDispatchWrapperUsage pf w current
            then Inl \<lparr>dp_argv = current, dp_wrappers = wrappers @ [w], dp_blocked = Some w\<rparr>
          else dispatch_plan_loop pf n rest (wrappers @ [w]))"

definition resolveDispatchWrapperTrustPlan :: "string \<Rightarrow> string list \<Rightarrow> nat \<Rightarrow> dispatch_plan" where
  "resolveDispatchWrapperTrustPlan pf argv maxDepth =
     (case dispatch_plan_loop pf maxDepth argv [] of
        Inl plan \<Rightarrow> plan
      | Inr (current, wrappers) \<Rightarrow>
          let free = \<lparr>dp_argv = current, dp_wrappers = wrappers, dp_blocked = None\<rparr> in
          if length wrappers \<ge> maxDepth then
            (case unwrapKnownDispatchWrapperInvocation pf current of
               NotWrapper \<Rightarrow> free
             | WrapperBlocked w \<Rightarrow> free\<lparr>dp_blocked := Some w\<rparr>
             | Unwrapped w rest \<Rightarrow> free\<lparr>dp_blocked := Some w\<rparr>)
          else free)"

definition unwrapDispatchWrappersForResolution :: "string \<Rightarrow> string list \<Rightarrow> nat \<Rightarrow> string list" where
  "unwrapDispatchWrappersForResolution pf argv maxDepth = dp_argv (resolveDispatchWrapperTrustPlan pf argv maxDepth)"

definition hasDispatchEnvManipulation :: "string \<Rightarrow> string list \<Rightarrow> bool" where
  "hasDispatchEnvManipulation pf argv =
     (case unwrapKnownDispatchWrapperInvocation pf argv of
        Unwrapped w rest \<Rightarrow> w = ''env'' \<and> envInvocationUsesModifiers argv
      | _ \<Rightarrow> False)"

section \<open>Inline commands\<close>

definition POSIX_INLINE_COMMAND_FLAGS :: "string list" where
  "POSIX_INLINE_COMMAND_FLAGS = [''-lc'', ''-c'', ''--command'']"

definition POWERSHELL_INLINE_COMMAND_FLAGS :: "string list" where
  "POWERSHELL_INLINE_COMMAND_FLAGS =
     [''-c'', ''-command'', ''--command'', ''-f'', ''-file'', ''-encodedcommand'', ''-enc'', ''-e'']"

text \<open>The token after \<open>argv[i]\<close>, given what follows it.\<close>

definition value_after :: "nat \<Rightarrow> string list \<Rightarrow> string option \<times> nat option" where
  "value_after i ts = (case ts of [] \<Rightarrow> (None, None) | t # _ \<Rightarrow> (nonempty (trim t), Some (Suc i)))"

definition is_combined_c :: "string \<Rightarrow> bool" where
  "is_combined_c token =
     (case token of [] \<Rightarrow> False
      | d # cs \<Rightarrow> d = CHR ''-'' \<and> CHR ''-'' \<notin> set cs \<and> (CHR ''c'' \<in> set cs \<or> CHR ''C'' \<in> set cs))"

fun inline_match :: "string list \<Rightarrow> bool \<Rightarrow> nat \<Rightarrow> string list \<Rightarrow> string option \<times> nat option" where
  "inline_match flags allowCombinedC i [] = (None, None)"
| "inline_match flags allowCombinedC i (t # ts) =
     (let token = trim t; lower = to_lower token in
      if token = [] then inline_match flags allowCombinedC (Suc i) ts
      else if lower = ''--'' then (None, None)
      else if lower \<in> set flags then value_after i ts
      else if allowCombinedC \<and> is_combined_c token then
        (let commandIndex = length (takeWhile (\<lambda>c. c \<noteq> CHR ''c'') lower);
             inline = trim (drop (Suc commandIndex) token)
         in if inline \<noteq> [] then (Some inline, Some i) else value_after i ts)
      else inline_match flags allowCombinedC (Suc i) ts)"

definition resolveInlineCommandMatch :: "string list \<Rightarrow> string list \<Rightarrow> bool \<Rightarrow> string option \<times> nat option" where
  "resolveInlineCommandMatch argv flags allowCombinedC = inline_match flags allowCombinedC 1 (tl argv)"

section \<open>Shell wrappers\<close>

datatype shell_kind = PosixShell | CmdShell | PowerShell

definition POSIX_SHELL_WRAPPER_NAMES :: "string list" where
  "POSIX_SHELL_WRAPPER_NAMES = [''ash'', ''bash'', ''dash'', ''fish'', ''ksh'', ''sh'', ''zsh'']"

definition WINDOWS_CMD_WRAPPER_NAMES :: "string list" where
  "WINDOWS_CMD_WRAPPER_NAMES = [''cmd'']"

definition POWERSHELL_WRAPPER_NAMES :: "string list" where
  "POWERSHELL_WRAPPER_NAMES = [''powershell'', ''pwsh'']"

definition SHELL_MULTIPLEXER_WRAPPER_NAMES :: "string list" where
  "SHELL_MULTIPLEXER_WRAPPER_NAMES = [''busybox'', ''toybox'']"

definition SHELL_WRAPPER_SPECS :: "(shell_kind \<times> string list) list" where
  "SHELL_WRAPPER_SPECS =
     [(PosixShell, POSIX_SHELL_WRAPPER_NAMES), (CmdShell, WINDOWS_CMD_WRAPPER_NAMES),
      (PowerShell, POWERSHELL_WRAPPER_NAMES)]"

definition SHELL_WRAPPER_CANONICAL :: "string list" where
  "SHELL_WRAPPER_CANONICAL = POSIX_SHELL_WRAPPER_NAMES @ WINDOWS_CMD_WRAPPER_NAMES @ POWERSHELL_WRAPPER_NAMES"

definition isShellWrapperExecutable :: "string \<Rightarrow> bool" where
  "isShellWrapperExecutable token = (normalizeExecutableToken token \<in> set SHELL_WRAPPER_CANONICAL)"

definition findShellWrapperSpec :: "string \<Rightarrow> shell_kind option" where
  "findShellWrapperSpec baseExecutable =
     map_option fst (find (\<lambda>(kind, names). baseExecutable \<in> set names) SHELL_WRAPPER_SPECS)"

definition unwrapKnownShellMultiplexerInvocation :: "string list \<Rightarrow> unwrap_result" where
  "unwrapKnownShellMultiplexerInvocation argv =
     (if token0 argv = [] then NotWrapper
      else let wrapper = normalizeExecutableToken (token0 argv) in
        if wrapper \<notin> set SHELL_MULTIPLEXER_WRAPPER_NAMES then NotWrapper
        else let rest = (case tl argv of [] \<Rightarrow> [] | t # ts \<Rightarrow> if trim t = ''--'' then ts else t # ts) in
          if token0 rest = [] \<or> \<not> isShellWrapperExecutable (token0 rest) then WrapperBlocked wrapper
          else Unwrapped wrapper rest)"

definition extractPosixShellInlineCommand :: "string list \<Rightarrow> string option" where
  "extractPosixShellInlineCommand argv = fst (resolveInlineCommandMatch argv POSIX_INLINE_COMMAND_FLAGS True)"

definition extractPowerShellInlineCommand :: "string list \<Rightarrow> string option" where
  "extractPowerShellInlineCommand argv = fst (resolveInlineCommandMatch argv POWERSHELL_INLINE_COMMAND_FLAGS False)"

definition extractCmdInlineCommand :: "string list \<Rightarrow> string option" where
  "extractCmdInlineCommand argv =
     (case dropWhile (\<lambda>item. to_lower (trim item) \<notin> set [''/c'', ''/k'']) argv of
        [] \<Rightarrow> None
      | flag # tail \<Rightarrow> if tail = [] then None else nonempty (trim (join_with '' '' tail)))"

fun extractShellWrapperPayload :: "string list \<Rightarrow> shell_kind \<Rightarrow> string option" where
  "extractShellWrapperPayload argv PosixShell = extractPosixShellInlineCommand argv"
| "extractShellWrapperPayload argv CmdShell = extractCmdInlineCommand argv"
| "extractShellWrapperPayload argv PowerShell = extractPowerShellInlineCommand argv"

definition isWithinDispatchClassificationDepth :: "nat \<Rightarrow> bool" where
  "isWithinDispatchClassificationDepth depth = (depth \<le> MAX_DISPATCH_WRAPPER_DEPTH)"

text \<open>The command of a shell that is called with an inline one: the payload, which is never blank.\<close>

definition shell_payload :: "string list \<Rightarrow> string option" where
  "shell_payload argv =
     (case findShellWrapperSpec (normalizeExecutableToken (token0 argv)) of
        None \<Rightarrow> None
      | Some kind \<Rightarrow> extractShellWrapperPayload argv kind)"

function env_manipulation :: "string \<Rightarrow> string list \<Rightarrow> nat \<Rightarrow> bool \<Rightarrow> bool" where
  "env_manipulation pf argv depth seen =
     (if \<not> isWithinDispatchClassificationDepth depth \<or> token0 argv = [] then False
      else (case unwrapKnownDispatchWrapperInvocation pf argv of
              WrapperBlocked w \<Rightarrow> False
            | Unwrapped w rest \<Rightarrow> env_manipulation pf rest (Suc depth) (seen \<or> hasDispatchEnvManipulation pf argv)
            | NotWrapper \<Rightarrow>
                (case unwrapKnownShellMultiplexerInvocation argv of
                   WrapperBlocked w \<Rightarrow> False
                 | Unwrapped w rest \<Rightarrow> env_manipulation pf rest (Suc depth) seen
                 | NotWrapper \<Rightarrow> shell_payload argv \<noteq> None \<and> seen)))"
  by pat_completeness auto
termination
  by (relation "measure (\<lambda>(pf, argv, depth, seen). Suc MAX_DISPATCH_WRAPPER_DEPTH - depth)")
    (auto simp: isWithinDispatchClassificationDepth_def)

declare env_manipulation.simps [simp del]

definition hasEnvManipulationBeforeShellWrapper :: "string \<Rightarrow> string list \<Rightarrow> bool" where
  "hasEnvManipulationBeforeShellWrapper pf argv = env_manipulation pf argv 0 False"

text \<open>\<open>None\<close> when argv is no shell wrapper, otherwise its command.\<close>

function shell_wrapper_command :: "string \<Rightarrow> string list \<Rightarrow> string option \<Rightarrow> nat \<Rightarrow> string option" where
  "shell_wrapper_command pf argv rawCommand depth =
     (if \<not> isWithinDispatchClassificationDepth depth \<or> token0 argv = [] then None
      else (case unwrapKnownDispatchWrapperInvocation pf argv of
              WrapperBlocked w \<Rightarrow> None
            | Unwrapped w rest \<Rightarrow> shell_wrapper_command pf rest rawCommand (Suc depth)
            | NotWrapper \<Rightarrow>
                (case unwrapKnownShellMultiplexerInvocation argv of
                   WrapperBlocked w \<Rightarrow> None
                 | Unwrapped w rest \<Rightarrow> shell_wrapper_command pf rest rawCommand (Suc depth)
                 | NotWrapper \<Rightarrow>
                     (case shell_payload argv of
                        None \<Rightarrow> None
                      | Some payload \<Rightarrow> Some (case rawCommand of Some raw \<Rightarrow> raw | None \<Rightarrow> payload)))))"
  by pat_completeness auto
termination
  by (relation "measure (\<lambda>(pf, argv, raw, depth). Suc MAX_DISPATCH_WRAPPER_DEPTH - depth)")
    (auto simp: isWithinDispatchClassificationDepth_def)

declare shell_wrapper_command.simps [simp del]

definition extractShellWrapperInlineCommand :: "string \<Rightarrow> string list \<Rightarrow> string option" where
  "extractShellWrapperInlineCommand pf argv = shell_wrapper_command pf argv None 0"

definition extractShellWrapperCommand :: "string \<Rightarrow> string list \<Rightarrow> string option \<Rightarrow> string option" where
  "extractShellWrapperCommand pf argv rawCommand = shell_wrapper_command pf argv (trimmed_opt rawCommand) 0"

section \<open>The trust plan of a chain of wrappers\<close>

record trust_plan =
  tp_argv :: "string list"
  tp_policyArgv :: "string list"
  tp_wrapperChain :: "string list"
  tp_blocked :: "string option"
  tp_shellWrapperExecutable :: bool
  tp_shellInlineCommand :: "string option"

definition blockedExecWrapperTrustPlan :: "string list \<Rightarrow> string list \<Rightarrow> string list \<Rightarrow> string \<Rightarrow> trust_plan" where
  "blockedExecWrapperTrustPlan argv policyArgv wrapperChain w =
     \<lparr>tp_argv = argv, tp_policyArgv = policyArgv, tp_wrapperChain = wrapperChain, tp_blocked = Some w,
      tp_shellWrapperExecutable = False, tp_shellInlineCommand = None\<rparr>"

definition finalizeExecWrapperTrustPlan :: "string \<Rightarrow> string list \<Rightarrow> string list \<Rightarrow> string list \<Rightarrow> trust_plan" where
  "finalizeExecWrapperTrustPlan pf argv policyArgv wrapperChain =
     (let shellWrapperExecutable = (token0 argv \<noteq> [] \<and> isShellWrapperExecutable (token0 argv)) in
      \<lparr>tp_argv = argv, tp_policyArgv = policyArgv, tp_wrapperChain = wrapperChain, tp_blocked = None,
       tp_shellWrapperExecutable = shellWrapperExecutable,
       tp_shellInlineCommand =
         (if shellWrapperExecutable then extractShellWrapperInlineCommand pf argv else None)\<rparr>)"

record plan_state =
  ps_current :: "string list"
  ps_policyArgv :: "string list"
  ps_multiplexer :: bool
  ps_chain :: "string list"

fun trust_plan_loop :: "string \<Rightarrow> nat \<Rightarrow> nat \<Rightarrow> plan_state \<Rightarrow> trust_plan + plan_state" where
  "trust_plan_loop pf maxDepth 0 s = Inr s"
| "trust_plan_loop pf maxDepth (Suc n) s =
     (let dp = resolveDispatchWrapperTrustPlan pf (ps_current s) (maxDepth - length (ps_chain s)) in
      case dp_blocked dp of
        Some w \<Rightarrow> Inl (blockedExecWrapperTrustPlan (dp_argv dp) (dp_argv dp) (ps_chain s) w)
      | None \<Rightarrow>
          if dp_wrappers dp \<noteq> [] then
            (let s1 = s\<lparr>ps_chain := ps_chain s @ dp_wrappers dp, ps_current := dp_argv dp,
                        ps_policyArgv := (if ps_multiplexer s then ps_policyArgv s else dp_argv dp)\<rparr>
             in if length (ps_chain s1) \<ge> maxDepth then Inr s1 else trust_plan_loop pf maxDepth n s1)
          else
            (case unwrapKnownShellMultiplexerInvocation (ps_current s) of
               WrapperBlocked w \<Rightarrow>
                 Inl (blockedExecWrapperTrustPlan (ps_current s) (ps_policyArgv s) (ps_chain s) w)
             | Unwrapped w rest \<Rightarrow>
                 (let s1 = \<lparr>ps_current = rest,
                            ps_policyArgv = (if ps_multiplexer s then ps_policyArgv s else ps_current s),
                            ps_multiplexer = True, ps_chain = ps_chain s @ [w]\<rparr>
                  in if length (ps_chain s1) \<ge> maxDepth then Inr s1 else trust_plan_loop pf maxDepth n s1)
             | NotWrapper \<Rightarrow> Inr s))"

definition resolveExecWrapperTrustPlan :: "string \<Rightarrow> string list \<Rightarrow> nat \<Rightarrow> trust_plan" where
  "resolveExecWrapperTrustPlan pf argv maxDepth =
     (case trust_plan_loop pf maxDepth maxDepth
        \<lparr>ps_current = argv, ps_policyArgv = argv, ps_multiplexer = False, ps_chain = []\<rparr> of
        Inl plan \<Rightarrow> plan
      | Inr s \<Rightarrow>
          let blocked = (\<lambda>w. blockedExecWrapperTrustPlan (ps_current s) (ps_policyArgv s) (ps_chain s) w);
              free = finalizeExecWrapperTrustPlan pf (ps_current s) (ps_policyArgv s) (ps_chain s)
          in if length (ps_chain s) \<ge> maxDepth then
               (case unwrapKnownDispatchWrapperInvocation pf (ps_current s) of
                  WrapperBlocked w \<Rightarrow> blocked w
                | Unwrapped w rest \<Rightarrow> blocked w
                | NotWrapper \<Rightarrow>
                    (case unwrapKnownShellMultiplexerInvocation (ps_current s) of
                       WrapperBlocked w \<Rightarrow> blocked w
                     | Unwrapped w rest \<Rightarrow> blocked w
                     | NotWrapper \<Rightarrow> free))
             else free)"

end
