(* ===== verification/ExecWrapperProps.thy ===== *)
theory ExecWrapperProps
  imports ExecWrapper "HOL-Library.Sublist"
begin

text \<open>
  The trust plan of a wrapped command is a normal form: peeling one transparent wrapper at a time until none is
  left. What the other functions say of the command is what they say of that normal form.
\<close>

section \<open>Unwrapping leaves a proper suffix\<close>

lemma strict_suffix_tl: "suffix zs ys \<Longrightarrow> strict_suffix zs (y # ys)"
  by (auto simp: strict_suffix_def suffix_def)

lemma wrapper_scan_suffix: "wrapper_scan sep f s expects ts = Some rest \<Longrightarrow> suffix rest ts"
  by (induction sep f s expects ts rule: wrapper_scan.induct)
    (auto simp: Let_def intro: suffix_ConsI split: if_splits scan_directive.splits prod.splits)

definition shrinks :: "(string list \<Rightarrow> string list option) \<Rightarrow> bool" where
  "shrinks f \<longleftrightarrow> (\<forall>argv rest. argv \<noteq> [] \<longrightarrow> f argv = Some rest \<longrightarrow> rest \<noteq> [] \<and> strict_suffix rest argv)"

lemma scan_shrinks:
  assumes "\<And>xs ys. adjust xs = Some ys \<Longrightarrow> suffix ys xs"
  shows "shrinks (scanWrapperInvocation sep f s adjust)"
  unfolding shrinks_def
proof (intro allI impI)
  fix argv rest
  assume ne: "argv \<noteq> []" and r: "scanWrapperInvocation sep f s adjust argv = Some rest"
  then obtain command where c: "wrapper_scan sep f s False (tl argv) = Some command" "adjust command = Some rest" "rest \<noteq> []"
    by (auto simp: scanWrapperInvocation_def split: option.splits if_splits)
  have "suffix rest (tl argv)" using wrapper_scan_suffix [OF c(1)] assms [OF c(2)] by (rule suffix_order.trans [rotated])
  moreover obtain t ts where "argv = t # ts" using ne by (cases argv) auto
  ultimately show "rest \<noteq> [] \<and> strict_suffix rest argv" using c(3) strict_suffix_tl by simp
qed

lemma dash_shrinks:
  assumes "\<And>xs ys. adjust xs = Some ys \<Longrightarrow> suffix ys xs"
  shows "shrinks (unwrapDashOptionInvocation f adjust)"
  using scan_shrinks [OF assms] by (simp add: shrinks_def unwrapDashOptionInvocation_def)

lemma after_transcript_suffix: "after_transcript xs = Some ys \<Longrightarrow> suffix ys xs"
proof -
  assume a: "after_transcript xs = Some ys"
  then obtain t rest where d: "dropWhile (\<lambda>t. trim t = []) xs = t # rest" "dropWhile (\<lambda>t. trim t = []) rest = ys"
    by (auto simp: after_transcript_def split: list.splits)
  have "suffix ys rest" using d(2) suffix_dropWhile by blast
  then have "suffix ys (t # rest)" by (rule suffix_ConsI)
  moreover have "suffix (t # rest) xs" unfolding d(1) [symmetric] by (rule suffix_dropWhile)
  ultimately show ?thesis by (rule suffix_order.trans)
qed

lemma after_duration_suffix: "after_duration xs = Some ys \<Longrightarrow> suffix ys xs"
  by (cases xs) (auto simp: after_duration_def intro: suffix_ConsI split: list.splits)

lemma shrinks_if: "shrinks f \<Longrightarrow> shrinks (\<lambda>argv. if b then f argv else None)"
  by (auto simp: shrinks_def)

lemma script_shrinks: "shrinks (unwrapScriptInvocation pf)"
proof -
  have "shrinks (\<lambda>argv. if supportsScriptPositionalCommand pf
      then scanWrapperInvocation [''--''] (stateless script_token) () after_transcript argv else None)"
    by (rule shrinks_if [OF scan_shrinks [OF after_transcript_suffix]])
  then show ?thesis by (simp add: shrinks_def unwrapScriptInvocation_def)
qed

lemmas unwrapper_shrinks =
  scan_shrinks [where adjust = Some, simplified] dash_shrinks [where adjust = Some, simplified]

lemma spec_shrinks:
  assumes "map_of DISPATCH_WRAPPER_SPECS w = Some spec" and "ws_unwrap spec = Some f"
  shows "shrinks (f pf)"
proof -
  have plain: "shrinks unwrapArchInvocation" "shrinks unwrapCaffeinateInvocation" "shrinks unwrapEnvInvocation"
    "shrinks unwrapNiceInvocation" "shrinks unwrapNohupInvocation" "shrinks unwrapSandboxExecInvocation"
    "shrinks unwrapStdbufInvocation" "shrinks unwrapTimeInvocation" "shrinks unwrapXcrunInvocation"
    unfolding unwrapArchInvocation_def [abs_def] unwrapCaffeinateInvocation_def [abs_def] unwrapEnvInvocation_def [abs_def]
      unwrapNiceInvocation_def [abs_def] unwrapNohupInvocation_def [abs_def] unwrapSandboxExecInvocation_def [abs_def]
      unwrapStdbufInvocation_def [abs_def] unwrapTimeInvocation_def [abs_def] unwrapXcrunInvocation_def [abs_def]
    by (rule unwrapper_shrinks)+
  have timeout: "shrinks unwrapTimeoutInvocation"
    unfolding unwrapTimeoutInvocation_def [abs_def] by (rule dash_shrinks [OF after_duration_suffix])
  have "(w, spec) \<in> set DISPATCH_WRAPPER_SPECS" using assms(1) by (rule map_of_SomeD)
  then have "f \<in> {unwrapScriptInvocation, (\<lambda>pf argv. if supportsArchDispatchWrapper pf then unwrapArchInvocation argv else None),
      (\<lambda>pf argv. if supportsXcrunDispatchWrapper pf then unwrapXcrunInvocation argv else None)} \<or>
    f \<in> (\<lambda>g pf. g) ` {unwrapCaffeinateInvocation, unwrapEnvInvocation, unwrapNiceInvocation, unwrapNohupInvocation,
      unwrapSandboxExecInvocation, unwrapStdbufInvocation, unwrapTimeInvocation, unwrapTimeoutInvocation}"
    using assms(2) by (auto simp: DISPATCH_WRAPPER_SPECS_def plain_spec_def platform_spec_def opaque_spec_def)
  then show ?thesis using plain timeout script_shrinks [of pf] by (auto simp: shrinks_if)
qed

lemma dispatch_shrinks:
  assumes "unwrapKnownDispatchWrapperInvocation pf argv = Unwrapped w rest"
  shows "rest \<noteq> [] \<and> strict_suffix rest argv"
proof -
  from assms obtain spec f where s: "map_of DISPATCH_WRAPPER_SPECS w = Some spec" "ws_unwrap spec = Some f"
      "f pf argv = Some rest" and ne: "token0 argv \<noteq> []"
    by (auto simp: unwrapKnownDispatchWrapperInvocation_def Let_def split: if_splits option.splits)
  from ne have "argv \<noteq> []" by (auto simp: token0_def)
  with spec_shrinks [OF s(1,2), of pf] s(3) show ?thesis by (simp add: shrinks_def)
qed

lemma multiplexer_shrinks:
  assumes "unwrapKnownShellMultiplexerInvocation argv = Unwrapped w rest"
  shows "rest \<noteq> [] \<and> strict_suffix rest argv"
proof -
  from assms have r: "rest = (case tl argv of [] \<Rightarrow> [] | t # ts \<Rightarrow> if trim t = ''--'' then ts else t # ts)"
      and ne: "token0 argv \<noteq> []" "token0 rest \<noteq> []"
    by (auto simp: unwrapKnownShellMultiplexerInvocation_def Let_def split: if_splits)
  then obtain a as where a: "argv = a # as" by (cases argv) (auto simp: token0_def)
  have "suffix rest as" unfolding r a by (auto intro: suffix_ConsI split: list.splits)
  with ne(2) show ?thesis by (auto simp: a token0_def strict_suffix_tl)
qed

section \<open>Peeling one wrapper at a time\<close>

definition bare :: "string \<Rightarrow> string list \<Rightarrow> bool" where
  "bare pf argv \<longleftrightarrow> unwrapKnownDispatchWrapperInvocation pf argv = NotWrapper \<and>
     unwrapKnownShellMultiplexerInvocation argv = NotWrapper"

definition peel :: "string \<Rightarrow> string list \<Rightarrow> string list option" where
  "peel pf argv =
     (case unwrapKnownDispatchWrapperInvocation pf argv of
        WrapperBlocked w \<Rightarrow> None
      | Unwrapped w rest \<Rightarrow> if isSemanticDispatchWrapperUsage pf w argv then None else Some rest
      | NotWrapper \<Rightarrow>
          (case unwrapKnownShellMultiplexerInvocation argv of Unwrapped w rest \<Rightarrow> Some rest | _ \<Rightarrow> None))"

text \<open>The command under at most \<open>n\<close> wrappers.\<close>

fun peel_all :: "string \<Rightarrow> nat \<Rightarrow> string list \<Rightarrow> string list option" where
  "peel_all pf 0 argv = (if bare pf argv then Some argv else None)"
| "peel_all pf (Suc n) argv =
     (if bare pf argv then Some argv else case peel pf argv of None \<Rightarrow> None | Some rest \<Rightarrow> peel_all pf n rest)"

lemma peel_all_bare: "bare pf argv \<Longrightarrow> peel_all pf n argv = Some argv"
  by (cases n) simp_all

lemma peel_not_bare: "peel pf argv = Some rest \<Longrightarrow> \<not> bare pf argv"
  by (auto simp: peel_def bare_def)

lemma peel_strict: "peel pf argv = Some rest \<Longrightarrow> strict_suffix rest argv"
  using dispatch_shrinks multiplexer_shrinks by (fastforce simp: peel_def split: unwrap_result.splits if_splits)

lemma peel_all_SomeD: "peel_all pf n argv = Some a \<Longrightarrow> bare pf a \<and> suffix a argv"
proof (induction n arbitrary: argv)
  case 0
  then show ?case by (simp split: if_splits)
next
  case (Suc n)
  show ?case
  proof (cases "bare pf argv")
    case True
    with Suc.prems show ?thesis by simp
  next
    case False
    with Suc.prems obtain rest where r: "peel pf argv = Some rest" "peel_all pf n rest = Some a"
      by (auto split: option.splits)
    from Suc.IH [OF r(2)] peel_strict [OF r(1)] show ?thesis
      by (meson strict_suffix_def suffix_order.le_less_trans suffix_order.less_imp_le)
  qed
qed

lemma dispatch_loop:
  "(case dispatch_plan_loop pf n cur ws of
      Inl p \<Rightarrow> dp_blocked p \<noteq> None \<and> peel_all pf n cur = None
    | Inr (c, ws') \<Rightarrow> \<exists>xs. ws' = ws @ xs \<and> length xs \<le> n \<and> peel_all pf n cur = peel_all pf (n - length xs) c \<and>
        (xs = [] \<longrightarrow> c = cur) \<and> (length xs < n \<longrightarrow> unwrapKnownDispatchWrapperInvocation pf c = NotWrapper))"
proof (induction n arbitrary: cur ws)
  case 0
  then show ?case by simp
next
  case (Suc n)
  show ?case
  proof (cases "unwrapKnownDispatchWrapperInvocation pf cur")
    case NotWrapper
    then show ?thesis by simp
  next
    case (WrapperBlocked w)
    then show ?thesis by (simp add: bare_def peel_def)
  next
    case (Unwrapped w rest)
    have nb: "\<not> bare pf cur" using Unwrapped by (simp add: bare_def)
    have ne: "rest \<noteq> []" using dispatch_shrinks [OF Unwrapped] by simp
    show ?thesis
    proof (cases "isSemanticDispatchWrapperUsage pf w cur")
      case True
      then show ?thesis using Unwrapped nb ne by (simp add: peel_def)
    next
      case False
      then have step: "dispatch_plan_loop pf (Suc n) cur ws = dispatch_plan_loop pf n rest (ws @ [w])"
          and pa: "peel_all pf (Suc n) cur = peel_all pf n rest"
        using Unwrapped nb ne by (simp_all add: peel_def)
      show ?thesis
      proof (cases "dispatch_plan_loop pf n rest (ws @ [w])")
        case (Inl p)
        then show ?thesis using Suc.IH [of rest "ws @ [w]"] unfolding step pa by simp
      next
        case (Inr r)
        obtain c ws' where r: "r = (c, ws')" by (cases r)
        from Suc.IH [of rest "ws @ [w]"] Inr r obtain xs where xs: "ws' = (ws @ [w]) @ xs" "length xs \<le> n"
            "peel_all pf n rest = peel_all pf (n - length xs) c"
            "length xs < n \<longrightarrow> unwrapKnownDispatchWrapperInvocation pf c = NotWrapper"
          by auto
        show ?thesis unfolding step pa Inr r
          using xs by (auto intro!: exI [where x = "w # xs"])
      qed
    qed
  qed
qed

lemma dispatch_plan_peels:
  fixes m :: nat and pf :: string and argv :: "string list"
  defines "p \<equiv> resolveDispatchWrapperTrustPlan pf argv m"
  shows "dp_blocked p \<noteq> None \<Longrightarrow> peel_all pf m argv = None"
    and "dp_blocked p = None \<Longrightarrow> length (dp_wrappers p) \<le> m \<and>
      peel_all pf m argv = peel_all pf (m - length (dp_wrappers p)) (dp_argv p) \<and>
      (dp_wrappers p = [] \<longrightarrow> dp_argv p = argv) \<and> unwrapKnownDispatchWrapperInvocation pf (dp_argv p) = NotWrapper"
proof -
  have l: "case dispatch_plan_loop pf m argv [] of
      Inl p \<Rightarrow> dp_blocked p \<noteq> None \<and> peel_all pf m argv = None
    | Inr (c, ws') \<Rightarrow> \<exists>xs. ws' = [] @ xs \<and> length xs \<le> m \<and> peel_all pf m argv = peel_all pf (m - length xs) c \<and>
        (xs = [] \<longrightarrow> c = argv) \<and> (length xs < m \<longrightarrow> unwrapKnownDispatchWrapperInvocation pf c = NotWrapper)"
    by (rule dispatch_loop)
  show "dp_blocked p \<noteq> None \<Longrightarrow> peel_all pf m argv = None"
    using l by (auto simp: p_def resolveDispatchWrapperTrustPlan_def Let_def bare_def
        split: sum.splits if_splits unwrap_result.splits)
  show "dp_blocked p = None \<Longrightarrow> length (dp_wrappers p) \<le> m \<and>
      peel_all pf m argv = peel_all pf (m - length (dp_wrappers p)) (dp_argv p) \<and>
      (dp_wrappers p = [] \<longrightarrow> dp_argv p = argv) \<and> unwrapKnownDispatchWrapperInvocation pf (dp_argv p) = NotWrapper"
    using l by (auto simp: p_def resolveDispatchWrapperTrustPlan_def Let_def
        split: sum.splits if_splits unwrap_result.splits)
qed

lemma trust_loop:
  assumes "M - length (ps_chain s) \<le> n" and "length (ps_chain s) \<le> M" and "n = 0 \<or> length (ps_chain s) < M"
  shows "case trust_plan_loop pf M n s of
      Inl p \<Rightarrow> tp_blocked p \<noteq> None \<and> peel_all pf (M - length (ps_chain s)) (ps_current s) = None
    | Inr s' \<Rightarrow> length (ps_chain s') \<le> M \<and>
        peel_all pf (M - length (ps_chain s)) (ps_current s) = peel_all pf (M - length (ps_chain s')) (ps_current s') \<and>
        (length (ps_chain s') < M \<longrightarrow> bare pf (ps_current s'))"
  using assms
proof (induction n arbitrary: s)
  case 0
  then show ?case by simp
next
  case (Suc n)
  let ?b = "M - length (ps_chain s)"
  let ?dp = "resolveDispatchWrapperTrustPlan pf (ps_current s) ?b"
  note dp = dispatch_plan_peels [where pf = pf and argv = "ps_current s" and m = ?b]
  show ?case
  proof (cases "dp_blocked ?dp")
    case (Some w)
    then show ?thesis using dp(1) by (simp add: Let_def blockedExecWrapperTrustPlan_def)
  next
    case None
    note d = dp(2) [OF None]
    show ?thesis
    proof (cases "dp_wrappers ?dp = []")
      case False
      let ?s = "s\<lparr>ps_chain := ps_chain s @ dp_wrappers ?dp, ps_current := dp_argv ?dp,
          ps_policyArgv := (if ps_multiplexer s then ps_policyArgv s else dp_argv ?dp)\<rparr>"
      have len: "length (ps_chain ?s) \<le> M" "M - length (ps_chain ?s) \<le> n" using d Suc.prems False
        by (auto simp: neq_Nil_conv)
      have pa: "peel_all pf ?b (ps_current s) = peel_all pf (M - length (ps_chain ?s)) (ps_current ?s)"
        using d by simp
      show ?thesis
      proof (cases "length (ps_chain ?s) \<ge> M")
        case True
        then have "trust_plan_loop pf M (Suc n) s = Inr ?s" using None False by (simp add: Let_def)
        then show ?thesis using True len(1) pa by simp
      next
        case 2: False
        then have "trust_plan_loop pf M (Suc n) s = trust_plan_loop pf M n ?s" using None False by (simp add: Let_def)
        then show ?thesis using Suc.IH [OF len(2,1)] 2 unfolding pa by simp
      qed
    next
      case True
      then have cur: "unwrapKnownDispatchWrapperInvocation pf (ps_current s) = NotWrapper" using d by metis
      show ?thesis
      proof (cases "unwrapKnownShellMultiplexerInvocation (ps_current s)")
        case NotWrapper
        then show ?thesis using None True cur Suc.prems(2) by (simp add: Let_def bare_def)
      next
        case (WrapperBlocked w)
        then have "peel_all pf ?b (ps_current s) = None" using cur by (cases ?b) (simp_all add: bare_def peel_def)
        then show ?thesis using None True WrapperBlocked by (simp add: Let_def blockedExecWrapperTrustPlan_def)
      next
        case (Unwrapped w rest)
        let ?s = "\<lparr>ps_current = rest, ps_policyArgv = (if ps_multiplexer s then ps_policyArgv s else ps_current s),
            ps_multiplexer = True, ps_chain = ps_chain s @ [w]\<rparr>"
        have nb: "\<not> bare pf (ps_current s)" and p: "peel pf (ps_current s) = Some rest"
          using Unwrapped cur by (simp_all add: bare_def peel_def)
        show ?thesis
        proof -
          have lt: "length (ps_chain s) < M" using Suc.prems(3) by simp
          have pa: "peel_all pf ?b (ps_current s) = peel_all pf (M - length (ps_chain ?s)) (ps_current ?s)"
          proof -
            have b: "?b = Suc (M - Suc (length (ps_chain s)))" using lt by simp
            show ?thesis unfolding b using nb p by simp
          qed
          have len: "M - length (ps_chain ?s) \<le> n" "length (ps_chain ?s) \<le> M" using lt Suc.prems by auto
          show ?thesis
          proof (cases "length (ps_chain ?s) \<ge> M")
            case 1: True
            then have "trust_plan_loop pf M (Suc n) s = Inr ?s" using None True Unwrapped by (simp add: Let_def)
            then show ?thesis using 1 len(2) pa by simp
          next
            case 2: False
            then have "trust_plan_loop pf M (Suc n) s = trust_plan_loop pf M n ?s"
              using None True Unwrapped by (simp add: Let_def)
            then show ?thesis using Suc.IH [OF len] 2 unfolding pa by simp
          qed
        qed
      qed
    qed
  qed
qed

lemma trust_plan_peeled:
  "(if tp_blocked (resolveExecWrapperTrustPlan pf argv maxDepth) = None
    then Some (tp_argv (resolveExecWrapperTrustPlan pf argv maxDepth)) else None) = peel_all pf maxDepth argv"
proof -
  let ?s = "\<lparr>ps_current = argv, ps_policyArgv = argv, ps_multiplexer = False, ps_chain = []\<rparr>"
  have "maxDepth = 0 \<or> 0 < maxDepth" by auto
  note l = trust_loop [where s = ?s and M = maxDepth and n = maxDepth and pf = pf, simplified, OF this]
  show ?thesis
  proof (cases "trust_plan_loop pf maxDepth maxDepth ?s")
    case (Inl p)
    then show ?thesis using l by (simp add: resolveExecWrapperTrustPlan_def)
  next
    case (Inr s)
    then have s: "length (ps_chain s) \<le> maxDepth"
        "peel_all pf maxDepth argv = peel_all pf (maxDepth - length (ps_chain s)) (ps_current s)"
        "length (ps_chain s) < maxDepth \<longrightarrow> bare pf (ps_current s)"
      using l by auto
    show ?thesis
    proof (cases "bare pf (ps_current s)")
      case True
      then show ?thesis using Inr s(2)
        by (simp add: resolveExecWrapperTrustPlan_def Let_def bare_def finalizeExecWrapperTrustPlan_def peel_all_bare)
    next
      case False
      then have full: "length (ps_chain s) = maxDepth" using s(1,3) by (simp add: le_less)
      then have "peel_all pf maxDepth argv = None" using s(2) False by simp
      then show ?thesis using Inr full False
        by (auto simp: resolveExecWrapperTrustPlan_def Let_def bare_def blockedExecWrapperTrustPlan_def
            split: unwrap_result.splits)
    qed
  qed
qed

text \<open>C19: The trust plan finds the command that a chain of wrappers runs. It is not blocked exactly when peeling one
  wrapper at a time (a dispatch wrapper that neither the table nor the options make opaque, or a shell of busybox or
  toybox) reaches a command without wrappers in at most \<open>maxDepth\<close> steps, and then it names that command;
  an \<open>env\<close> that changes the environment, an unknown option or one wrapper too many blocks it.\<close>

theorem trust_plan_peels:
  "(if tp_blocked (resolveExecWrapperTrustPlan pf argv maxDepth) = None
    then Some (tp_argv (resolveExecWrapperTrustPlan pf argv maxDepth)) else None) = peel_all pf maxDepth argv"
  by (rule trust_plan_peeled)

section \<open>What the operator is shown\<close>

lemma token0_ne: "peel pf argv = Some rest \<Longrightarrow> token0 argv \<noteq> []"
  by (auto simp: peel_def unwrapKnownDispatchWrapperInvocation_def unwrapKnownShellMultiplexerInvocation_def)

lemma command_of_peeled:
  assumes "peel pf argv = Some rest" and "d \<le> MAX_DISPATCH_WRAPPER_DEPTH"
  shows "shell_wrapper_command pf argv raw d = shell_wrapper_command pf rest raw (Suc d)"
  using assms token0_ne [OF assms(1)]
  by (auto simp: shell_wrapper_command.simps [of pf argv] peel_def isWithinDispatchClassificationDepth_def
      split: unwrap_result.splits if_splits)

lemma command_of_bare:
  assumes "bare pf argv" and "d \<le> MAX_DISPATCH_WRAPPER_DEPTH"
  shows "shell_wrapper_command pf argv raw d = shell_wrapper_command pf argv raw 0"
  using assms by (simp add: shell_wrapper_command.simps [of pf argv] bare_def isWithinDispatchClassificationDepth_def)

lemma command_of_peel_all:
  "peel_all pf n argv = Some a \<Longrightarrow> d + n \<le> MAX_DISPATCH_WRAPPER_DEPTH \<Longrightarrow>
   shell_wrapper_command pf argv raw d = shell_wrapper_command pf a raw 0"
proof (induction n arbitrary: argv d)
  case 0
  then show ?case using command_of_bare [of pf argv d] by (simp split: if_splits)
next
  case (Suc n)
  show ?case
  proof (cases "bare pf argv")
    case True
    then show ?thesis using Suc.prems command_of_bare [of pf argv d] by simp
  next
    case False
    then obtain rest where r: "peel pf argv = Some rest" "peel_all pf n rest = Some a"
      using Suc.prems(1) by (auto split: option.splits)
    with Suc show ?thesis using command_of_peeled [OF r(1), of d] by simp
  qed
qed

lemma env_of_peeled:
  assumes "peel pf argv = Some rest"
  shows "env_manipulation pf argv d False \<longrightarrow> env_manipulation pf rest (Suc d) False"
proof (cases "unwrapKnownDispatchWrapperInvocation pf argv")
  case NotWrapper
  then show ?thesis using assms
    by (auto simp: env_manipulation.simps [of pf argv] peel_def split: unwrap_result.splits)
next
  case (WrapperBlocked w)
  then show ?thesis using assms by (simp add: peel_def)
next
  case (Unwrapped w r)
  then have "\<not> isSemanticDispatchWrapperUsage pf w argv" "r = rest" using assms by (auto simp: peel_def split: if_splits)
  then have "\<not> hasDispatchEnvManipulation pf argv"
    using Unwrapped by (auto simp: hasDispatchEnvManipulation_def isSemanticDispatchWrapperUsage_def DISPATCH_WRAPPER_SPECS_def)
  then show ?thesis using Unwrapped \<open>r = rest\<close> by (simp add: env_manipulation.simps [of pf argv])
qed

lemma env_of_peel_all: "peel_all pf n argv = Some a \<Longrightarrow> \<not> env_manipulation pf argv d False"
proof (induction n arbitrary: argv d)
  case 0
  then show ?case by (simp add: env_manipulation.simps [of pf argv] bare_def split: if_splits)
next
  case (Suc n)
  show ?case
  proof (cases "bare pf argv")
    case True
    then show ?thesis by (simp add: env_manipulation.simps [of pf argv] bare_def)
  next
    case False
    then obtain rest where r: "peel pf argv = Some rest" "peel_all pf n rest = Some a"
      using Suc.prems by (auto split: option.splits)
    from Suc.IH [OF r(2)] env_of_peeled [OF r(1)] show ?thesis by blast
  qed
qed

lemma shell_spec_iff: "findShellWrapperSpec (normalizeExecutableToken t) \<noteq> None \<longleftrightarrow> isShellWrapperExecutable t"
  by (auto simp: findShellWrapperSpec_def isShellWrapperExecutable_def SHELL_WRAPPER_SPECS_def SHELL_WRAPPER_CANONICAL_def)

lemma loop_blocked: "trust_plan_loop pf M k s = Inl p \<Longrightarrow> tp_blocked p \<noteq> None"
  by (induction pf M k s rule: trust_plan_loop.induct)
    (auto simp: Let_def blockedExecWrapperTrustPlan_def split: option.splits if_splits unwrap_result.splits)

lemma plan_shell:
  assumes "tp_blocked (resolveExecWrapperTrustPlan pf argv n) = None"
  shows "tp_shellInlineCommand (resolveExecWrapperTrustPlan pf argv n) =
    (let a = tp_argv (resolveExecWrapperTrustPlan pf argv n)
     in if token0 a \<noteq> [] \<and> isShellWrapperExecutable (token0 a) then extractShellWrapperInlineCommand pf a else None)"
  using assms loop_blocked [of pf n n]
  by (fastforce simp: resolveExecWrapperTrustPlan_def Let_def blockedExecWrapperTrustPlan_def
      finalizeExecWrapperTrustPlan_def split: sum.splits if_splits unwrap_result.splits)

text \<open>The command the policy judges is the command the operator is shown. When the trust plan is not blocked,
  the command it names is the end of the argv as it was given, not rewritten; the inline command of a shell
  that it reports is the one the display extracts from the whole argv, on its own, through its own walk over
  the wrappers; and that walk sees no change of the environment in front of the shell.\<close>

theorem trusted_command_is_shown:
  assumes "tp_blocked (resolveExecWrapperTrustPlan pf argv MAX_DISPATCH_WRAPPER_DEPTH) = None"
  shows "suffix (tp_argv (resolveExecWrapperTrustPlan pf argv MAX_DISPATCH_WRAPPER_DEPTH)) argv \<and>
    tp_shellInlineCommand (resolveExecWrapperTrustPlan pf argv MAX_DISPATCH_WRAPPER_DEPTH) =
      extractShellWrapperInlineCommand pf argv \<and>
    \<not> hasEnvManipulationBeforeShellWrapper pf argv"
proof -
  let ?p = "resolveExecWrapperTrustPlan pf argv MAX_DISPATCH_WRAPPER_DEPTH"
  have pa: "peel_all pf MAX_DISPATCH_WRAPPER_DEPTH argv = Some (tp_argv ?p)"
    using trust_plan_peeled [of pf argv MAX_DISPATCH_WRAPPER_DEPTH] assms by simp
  have bare: "bare pf (tp_argv ?p)" and suf: "suffix (tp_argv ?p) argv" using peel_all_SomeD [OF pa] by simp_all
  have ext: "extractShellWrapperInlineCommand pf argv = extractShellWrapperInlineCommand pf (tp_argv ?p)"
    unfolding extractShellWrapperInlineCommand_def by (rule command_of_peel_all [OF pa]) simp
  have "extractShellWrapperInlineCommand pf a = None"
    if "bare pf a" "token0 a = [] \<or> \<not> isShellWrapperExecutable (token0 a)" for a
    using that shell_spec_iff [of "token0 a"]
    by (auto simp: extractShellWrapperInlineCommand_def shell_wrapper_command.simps [of pf a] bare_def shell_payload_def)
  with bare have "tp_shellInlineCommand ?p = extractShellWrapperInlineCommand pf argv"
    unfolding ext plan_shell [OF assms] Let_def by (auto split: if_splits)
  then show ?thesis using suf env_of_peel_all [OF pa] by (simp add: hasEnvManipulationBeforeShellWrapper_def)
qed

theorem trusted_command_is_shown_witness:
  "tp_shellInlineCommand (resolveExecWrapperTrustPlan ''linux''
     [''timeout'', ''-k'', ''5'', ''10'', ''busybox'', ''sh'', ''-c'', ''ls''] MAX_DISPATCH_WRAPPER_DEPTH) = Some ''ls''"
proof -
  let ?argv = "[''timeout'', ''-k'', ''5'', ''10'', ''busybox'', ''sh'', ''-c'', ''ls'']"
  have b: "tp_blocked (resolveExecWrapperTrustPlan ''linux'' ?argv MAX_DISPATCH_WRAPPER_DEPTH) = None"
    by code_simp
  have e: "extractShellWrapperInlineCommand ''linux'' ?argv = Some ''ls''" by code_simp
  from trusted_command_is_shown [OF b] e show ?thesis by metis
qed

end
