(* ===== verification/HostEnv.thy ===== *)
theory HostEnv
  imports Prelude
begin

text \<open>
  Environment variables a request may set for a command on the host: \<open>src/infra/host-env-security.ts\<close> with its
  policy file \<open>host-env-security-policy.json\<close> and \<open>openclaw-exec-env.ts\<close>. An environment is a list of names and
  values without repeated names; of a request only the values that are strings count, so a source is a list
  of names with \<open>jsval\<close>s. \<open>collate\<close> is \<open>localeCompare\<close>.
\<close>

type_synonym host_env = "(string \<times> string) list"

text \<open>\<open>env[key] = value\<close> on an object literal: assigning a string to \<open>__proto__\<close> does nothing.\<close>

definition put_env :: "string \<Rightarrow> string \<Rightarrow> host_env \<Rightarrow> host_env" where
  "put_env key value env = (if key = ''__proto__'' then env else AList.update key value env)"

section \<open>The policy\<close>

definition HOST_DANGEROUS_ENV_KEYS :: "string list" where
  "HOST_DANGEROUS_ENV_KEYS =
    [''NODE_OPTIONS'', ''NODE_PATH'', ''PYTHONHOME'', ''PYTHONPATH'', ''PERL5LIB'', ''PERL5OPT'',
     ''RUBYLIB'', ''RUBYOPT'', ''BASH_ENV'', ''ENV'', ''BROWSER'', ''GIT_EDITOR'', ''GIT_EXTERNAL_DIFF'',
     ''GIT_EXEC_PATH'', ''GIT_SEQUENCE_EDITOR'', ''GIT_TEMPLATE_DIR'', ''GIT_SSL_NO_VERIFY'',
     ''GIT_SSL_CAINFO'', ''GIT_SSL_CAPATH'', ''CC'', ''CXX'', ''CARGO_BUILD_RUSTC'', ''CMAKE_C_COMPILER'',
     ''CMAKE_CXX_COMPILER'', ''SHELL'', ''SHELLOPTS'', ''PS4'', ''GCONV_PATH'', ''IFS'', ''SSLKEYLOGFILE'',
     ''JAVA_TOOL_OPTIONS'', ''_JAVA_OPTIONS'', ''JDK_JAVA_OPTIONS'', ''PYTHONBREAKPOINT'',
     ''DOTNET_STARTUP_HOOKS'', ''DOTNET_ADDITIONAL_DEPS'', ''GLIBC_TUNABLES'', ''MAVEN_OPTS'',
     ''SBT_OPTS'', ''GRADLE_OPTS'', ''ANT_OPTS'']"

definition HOST_DANGEROUS_ENV_PREFIXES :: "string list" where
  "HOST_DANGEROUS_ENV_PREFIXES = [''DYLD_'', ''LD_'', ''BASH_FUNC_'']"

definition HOST_DANGEROUS_OVERRIDE_ENV_KEYS :: "string list" where
  "HOST_DANGEROUS_OVERRIDE_ENV_KEYS =
    [''HOME'', ''GRADLE_USER_HOME'', ''ZDOTDIR'', ''GIT_SSH_COMMAND'', ''GIT_SSH'', ''GIT_PROXY_COMMAND'',
     ''GIT_ASKPASS'', ''GIT_SSL_NO_VERIFY'', ''GIT_SSL_CAINFO'', ''GIT_SSL_CAPATH'', ''SSH_ASKPASS'',
     ''LESSOPEN'', ''LESSCLOSE'', ''PAGER'', ''MANPAGER'', ''GIT_PAGER'', ''EDITOR'', ''VISUAL'',
     ''FCEDIT'', ''SUDO_EDITOR'', ''PROMPT_COMMAND'', ''HISTFILE'', ''PERL5DB'', ''PERL5DBCMD'',
     ''OPENSSL_CONF'', ''OPENSSL_ENGINES'', ''PYTHONSTARTUP'', ''WGETRC'', ''CURL_HOME'', ''CLASSPATH'',
     ''CGO_CFLAGS'', ''CGO_LDFLAGS'', ''GOFLAGS'', ''CORECLR_PROFILER_PATH'', ''PHPRC'',
     ''PHP_INI_SCAN_DIR'', ''DENO_DIR'', ''BUN_CONFIG_REGISTRY'', ''YARN_RC_FILENAME'', ''HTTP_PROXY'',
     ''HTTPS_PROXY'', ''ALL_PROXY'', ''NO_PROXY'', ''NODE_TLS_REJECT_UNAUTHORIZED'',
     ''NODE_EXTRA_CA_CERTS'', ''SSL_CERT_FILE'', ''SSL_CERT_DIR'', ''REQUESTS_CA_BUNDLE'',
     ''CURL_CA_BUNDLE'', ''DOCKER_HOST'', ''DOCKER_TLS_VERIFY'', ''DOCKER_CERT_PATH'', ''PIP_INDEX_URL'',
     ''PIP_PYPI_URL'', ''PIP_EXTRA_INDEX_URL'', ''PIP_CONFIG_FILE'', ''PIP_FIND_LINKS'',
     ''PIP_TRUSTED_HOST'', ''UV_INDEX'', ''UV_INDEX_URL'', ''UV_PYTHON'', ''UV_EXTRA_INDEX_URL'',
     ''UV_DEFAULT_INDEX'', ''DOCKER_HOST'', ''DOCKER_TLS_VERIFY'', ''DOCKER_CERT_PATH'',
     ''DOCKER_CONTEXT'', ''LIBRARY_PATH'', ''CPATH'', ''C_INCLUDE_PATH'', ''CPLUS_INCLUDE_PATH'',
     ''OBJC_INCLUDE_PATH'', ''NODE_EXTRA_CA_CERTS'', ''SSL_CERT_FILE'', ''SSL_CERT_DIR'',
     ''REQUESTS_CA_BUNDLE'', ''CURL_CA_BUNDLE'', ''GOPROXY'', ''GONOSUMCHECK'', ''GONOSUMDB'',
     ''GONOPROXY'', ''GOPRIVATE'', ''GOENV'', ''GOPATH'', ''PYTHONUSERBASE'', ''VIRTUAL_ENV'',
     ''LUA_PATH'', ''LUA_CPATH'', ''GEM_HOME'', ''GEM_PATH'', ''BUNDLE_GEMFILE'', ''COMPOSER_HOME'',
     ''XDG_CONFIG_HOME'', ''AWS_CONFIG_FILE'']"

definition HOST_DANGEROUS_OVERRIDE_ENV_PREFIXES :: "string list" where
  "HOST_DANGEROUS_OVERRIDE_ENV_PREFIXES = [''GIT_CONFIG_'', ''NPM_CONFIG_'', ''CARGO_REGISTRIES_'']"

definition HOST_SHELL_WRAPPER_ALLOWED_OVERRIDE_ENV_KEYS :: "string list" where
  "HOST_SHELL_WRAPPER_ALLOWED_OVERRIDE_ENV_KEYS = [''TERM'', ''LANG'', ''LC_ALL'', ''LC_CTYPE'', ''LC_MESSAGES'',
     ''COLORTERM'', ''NO_COLOR'', ''FORCE_COLOR'']"

section \<open>Names of variables\<close>

definition is_identifier :: "(char \<Rightarrow> bool) \<Rightarrow> string \<Rightarrow> bool" where
  "is_identifier rest key = (case key of [] \<Rightarrow> False | c # cs \<Rightarrow> (is_alpha c \<or> c = CHR ''_'') \<and> list_all rest cs)"

definition PORTABLE_ENV_VAR_KEY :: "string \<Rightarrow> bool" where
  "PORTABLE_ENV_VAR_KEY key = is_identifier is_word_char key"

definition WINDOWS_COMPAT_OVERRIDE_ENV_VAR_KEY :: "string \<Rightarrow> bool" where
  "WINDOWS_COMPAT_OVERRIDE_ENV_VAR_KEY key =
     is_identifier (\<lambda>c. is_word_char c \<or> c = CHR ''('' \<or> c = CHR '')'') key"

definition normalizeEnvVarKey :: "bool \<Rightarrow> string \<Rightarrow> string option" where
  "normalizeEnvVarKey portable rawKey =
     (let key = trim rawKey in
      if key = [] then None
      else if portable \<and> \<not> PORTABLE_ENV_VAR_KEY key then None
      else Some key)"

definition normalizeHostOverrideEnvVarKey :: "string \<Rightarrow> string option" where
  "normalizeHostOverrideEnvVarKey rawKey =
     (case normalizeEnvVarKey False rawKey of
        None \<Rightarrow> None
      | Some key \<Rightarrow>
          if PORTABLE_ENV_VAR_KEY key \<or> WINDOWS_COMPAT_OVERRIDE_ENV_VAR_KEY key then Some key else None)"

definition isDangerousHostEnvVarName :: "string \<Rightarrow> bool" where
  "isDangerousHostEnvVarName rawKey =
     (case normalizeEnvVarKey False rawKey of
        None \<Rightarrow> False
      | Some key \<Rightarrow> let upper = to_upper key in
          upper \<in> set HOST_DANGEROUS_ENV_KEYS \<or> list_ex (starts_with upper) HOST_DANGEROUS_ENV_PREFIXES)"

definition isDangerousHostEnvOverrideVarName :: "string \<Rightarrow> bool" where
  "isDangerousHostEnvOverrideVarName rawKey =
     (case normalizeEnvVarKey False rawKey of
        None \<Rightarrow> False
      | Some key \<Rightarrow> let upper = to_upper key in
          upper \<in> set HOST_DANGEROUS_OVERRIDE_ENV_KEYS \<or>
          list_ex (starts_with upper) HOST_DANGEROUS_OVERRIDE_ENV_PREFIXES)"

section \<open>Overrides\<close>

fun listNormalizedEnvEntries :: "bool \<Rightarrow> (string \<times> jsval) list \<Rightarrow> host_env" where
  "listNormalizedEnvEntries portable [] = []"
| "listNormalizedEnvEntries portable ((rawKey, v) # source) =
     (case (v, normalizeEnvVarKey portable rawKey) of
        (JStr value, Some key) \<Rightarrow> (key, value) # listNormalizedEnvEntries portable source
      | _ \<Rightarrow> listNormalizedEnvEntries portable source)"

definition sortUnique :: "(string \<Rightarrow> string \<Rightarrow> int) \<Rightarrow> string list \<Rightarrow> string list" where
  "sortUnique collate values = sort_with collate (rev (remdups (rev values)))"

record override_result =
  or_accepted :: host_env
  or_blocked :: "string list"
  or_invalid :: "string list"

datatype override_verdict = OverrideAccepted string | OverrideBlocked string | OverrideInvalid string

definition override_verdict_of :: "bool \<Rightarrow> string \<Rightarrow> override_verdict" where
  "override_verdict_of blockPathOverrides rawKey =
     (case normalizeHostOverrideEnvVarKey rawKey of
        None \<Rightarrow> OverrideInvalid (if trim rawKey = [] then rawKey else trim rawKey)
      | Some normalized \<Rightarrow>
          let upper = to_upper normalized in
          if blockPathOverrides \<and> upper = ''PATH'' then OverrideBlocked upper
          else if isDangerousHostEnvVarName upper \<or> isDangerousHostEnvOverrideVarName upper then OverrideBlocked upper
          else OverrideAccepted normalized)"

fun sort_overrides :: "bool \<Rightarrow> (string \<times> jsval) list \<Rightarrow> override_result \<Rightarrow> override_result" where
  "sort_overrides blockPathOverrides [] r = r"
| "sort_overrides blockPathOverrides ((rawKey, v) # overrides) r =
     (case v of
        JStr value \<Rightarrow>
          sort_overrides blockPathOverrides overrides
            (case override_verdict_of blockPathOverrides rawKey of
               OverrideAccepted key \<Rightarrow> r\<lparr>or_accepted := put_env key value (or_accepted r)\<rparr>
             | OverrideBlocked key \<Rightarrow> r\<lparr>or_blocked := or_blocked r @ [key]\<rparr>
             | OverrideInvalid key \<Rightarrow> r\<lparr>or_invalid := or_invalid r @ [key]\<rparr>)
      | _ \<Rightarrow> sort_overrides blockPathOverrides overrides r)"

definition sanitizeHostEnvOverridesWithDiagnostics ::
    "(string \<Rightarrow> string \<Rightarrow> int) \<Rightarrow> (string \<times> jsval) list option \<Rightarrow> bool \<Rightarrow> override_result" where
  "sanitizeHostEnvOverridesWithDiagnostics collate overrides blockPathOverrides =
     (let r = sort_overrides blockPathOverrides (or_default overrides [])
        \<lparr>or_accepted = [], or_blocked = [], or_invalid = []\<rparr>
      in r\<lparr>or_blocked := sortUnique collate (or_blocked r), or_invalid := sortUnique collate (or_invalid r)\<rparr>)"

definition put_all :: "host_env \<Rightarrow> host_env \<Rightarrow> host_env" where
  "put_all entries env = foldl (\<lambda>acc (key, value). put_env key value acc) env entries"

definition markOpenClawExecEnv :: "host_env \<Rightarrow> host_env" where
  "markOpenClawExecEnv env = AList.update ''OPENCLAW_CLI'' ''1'' env"

definition safe_base :: "(string \<times> jsval) list \<Rightarrow> host_env" where
  "safe_base baseEnv =
     put_all (filter (\<lambda>(key, value). \<not> isDangerousHostEnvVarName key) (listNormalizedEnvEntries False baseEnv)) []"

definition sanitizeHostExecEnv ::
    "(string \<Rightarrow> string \<Rightarrow> int) \<Rightarrow> (string \<times> jsval) list \<Rightarrow> (string \<times> jsval) list option \<Rightarrow> bool \<Rightarrow> host_env" where
  "sanitizeHostExecEnv collate baseEnv overrides blockPathOverrides =
     markOpenClawExecEnv
       (put_all (or_accepted (sanitizeHostEnvOverridesWithDiagnostics collate overrides blockPathOverrides))
         (safe_base baseEnv))"

definition inspectHostExecEnvOverrides ::
    "(string \<Rightarrow> string \<Rightarrow> int) \<Rightarrow> (string \<times> jsval) list option \<Rightarrow> bool \<Rightarrow> string list \<times> string list" where
  "inspectHostExecEnvOverrides collate overrides blockPathOverrides =
     (let r = sanitizeHostEnvOverridesWithDiagnostics collate overrides blockPathOverrides
      in (or_blocked r, or_invalid r))"

definition string_props :: "host_env \<Rightarrow> (string \<times> jsval) list" where
  "string_props env = map (\<lambda>(k, v). (k, JStr v)) env"

definition sanitizeSystemRunEnvOverrides :: "(string \<times> jsval) list option \<Rightarrow> bool \<Rightarrow> (string \<times> jsval) list option" where
  "sanitizeSystemRunEnvOverrides overrides shellWrapper =
     (case overrides of
        None \<Rightarrow> None
      | Some ov \<Rightarrow>
          if \<not> shellWrapper then Some ov
          else let filtered = put_all (filter (\<lambda>(key, value). to_upper key \<in> set HOST_SHELL_WRAPPER_ALLOWED_OVERRIDE_ENV_KEYS)
                 (listNormalizedEnvEntries True ov)) []
            in if filtered = [] then None else Some (string_props filtered))"

section \<open>What it promises\<close>

text \<open>
  What a request can do to the environment of a command on the host: nothing to the protected variables.
\<close>

definition protected_env :: "string \<Rightarrow> bool" where
  "protected_env key \<longleftrightarrow> to_upper key = ''PATH'' \<or> isDangerousHostEnvVarName key \<or> isDangerousHostEnvOverrideVarName key"

section \<open>Upper case\<close>

lemma upper_char_idem: "concat (map upper_char (upper_char c)) = upper_char c"
  by (auto simp: upper_char_def Let_def of_char_of)

lemma to_upper_idem: "to_upper (to_upper s) = to_upper s"
  by (induction s) (simp_all add: to_upper_def upper_char_idem)

lemma js_ws_code: "js_ws d \<Longrightarrow> (of_char d :: nat) \<in> {9, 10, 11, 12, 13, 32, 160}"
  by (auto simp: js_ws_def)

lemma identifier_char_upper:
  assumes "is_word_char c \<or> c = CHR ''('' \<or> c = CHR '')''"
  shows "list_all (\<lambda>d. \<not> js_ws d) (upper_char c)"
proof -
  let ?n = "of_char c :: nat"
  have n: "?n \<in> {40, 41, 95} \<or> (48 \<le> ?n \<and> ?n \<le> 57) \<or> (65 \<le> ?n \<and> ?n \<le> 90) \<or> (97 \<le> ?n \<and> ?n \<le> 122)"
    using assms by (auto simp: is_word_char_def is_alpha_def is_digit_def Let_def)
  show ?thesis
  proof (cases "97 \<le> ?n \<and> ?n \<le> 122")
    case True
    then have "upper_char c = [char_of (?n - 32)]" by (simp add: upper_char_def Let_def)
    moreover have "\<not> js_ws (char_of (?n - 32))" using js_ws_code [of "char_of (?n - 32)"] True by (auto simp: of_char_of)
    ultimately show ?thesis by simp
  next
    case False
    then have "upper_char c = [c]" using n by (auto simp: upper_char_def Let_def)
    moreover have "\<not> js_ws c" using js_ws_code [of c] n by auto
    ultimately show ?thesis by simp
  qed
qed

lemma trim_no_ws: "list_all (\<lambda>d. \<not> js_ws d) s \<Longrightarrow> trim s = s"
proof -
  assume a: "list_all (\<lambda>d. \<not> js_ws d) s"
  have dw: "dropWhile js_ws t = t" if "list_all (\<lambda>d. \<not> js_ws d) t" for t using that by (cases t) auto
  from a have "list_all (\<lambda>d. \<not> js_ws d) (rev s)" by simp
  with a show "trim s = s" by (simp add: trim_def trim_end_def dw)
qed

lemma identifier_upper:
  assumes "is_identifier (\<lambda>c. is_word_char c \<or> c = CHR ''('' \<or> c = CHR '')'') key"
  shows "trim (to_upper key) = to_upper key"
proof (rule trim_no_ws)
  have "list_all (\<lambda>c. is_word_char c \<or> c = CHR ''('' \<or> c = CHR '')'') key"
    using assms by (cases key) (auto simp: is_identifier_def is_word_char_def)
  then show "list_all (\<lambda>d. \<not> js_ws d) (to_upper key)"
    by (induction key) (auto simp: to_upper_def intro!: identifier_char_upper)
qed

section \<open>Accepted overrides\<close>

lemma override_key:
  assumes "normalizeHostOverrideEnvVarKey rawKey = Some key"
  shows "trim key = key \<and> key \<noteq> [] \<and> trim (to_upper key) = to_upper key"
proof -
  have wide: "is_identifier is_word_char key \<Longrightarrow> is_identifier (\<lambda>c. is_word_char c \<or> c = CHR ''('' \<or> c = CHR '')'') key"
    by (cases key) (auto simp: is_identifier_def list_all_iff)
  from assms have "trim key = key \<and> key \<noteq> [] \<and> is_identifier (\<lambda>c. is_word_char c \<or> c = CHR ''('' \<or> c = CHR '')'') key"
    using wide by (auto simp: normalizeHostOverrideEnvVarKey_def normalizeEnvVarKey_def Let_def PORTABLE_ENV_VAR_KEY_def
        WINDOWS_COMPAT_OVERRIDE_ENV_VAR_KEY_def split: if_splits)
  then show ?thesis using identifier_upper by blast
qed

lemma accepted_not_protected:
  assumes "override_verdict_of True rawKey = OverrideAccepted key"
  shows "\<not> protected_env key"
proof -
  from assms have n: "normalizeHostOverrideEnvVarKey rawKey = Some key"
      and ok: "to_upper key \<noteq> ''PATH''" "\<not> isDangerousHostEnvVarName (to_upper key)"
        "\<not> isDangerousHostEnvOverrideVarName (to_upper key)"
    by (auto simp: override_verdict_of_def Let_def split: option.splits if_splits)
  have "to_upper key \<noteq> []" using override_key [OF n]
    by (cases key) (auto simp: to_upper_def upper_char_def Let_def)
  then show ?thesis using ok override_key [OF n]
    by (simp add: protected_env_def isDangerousHostEnvVarName_def isDangerousHostEnvOverrideVarName_def
        normalizeEnvVarKey_def to_upper_idem)
qed

abbreviation protected_part :: "host_env \<Rightarrow> host_env" where
  "protected_part env \<equiv> filter (protected_env \<circ> fst) env"

lemma protected_part_put: "\<not> protected_env key \<Longrightarrow> protected_part (put_env key v env) = protected_part env"
  by (induction env) (auto simp: put_env_def)

lemma update_free:
  "list_all (\<lambda>(key, v). \<not> P key) env \<Longrightarrow> \<not> P k \<Longrightarrow> list_all (\<lambda>(key, v). \<not> P key) (AList.update k val env)"
  by (induction env) auto

lemma put_env_keys: "fst ` set (put_env key v env) \<subseteq> insert key (fst ` set env)"
  by (auto simp: put_env_def dom_update)

lemma put_all_keys:
  "fst ` set (put_all entries env) \<subseteq> fst ` set entries \<union> fst ` set env"
proof (induction entries arbitrary: env)
  case Nil
  then show ?case by (simp add: put_all_def)
next
  case (Cons e entries)
  obtain key v where e: "e = (key, v)" by (cases e)
  have "put_all (e # entries) env = put_all entries (put_env key v env)" by (simp add: put_all_def e)
  then show ?case using Cons.IH [of "put_env key v env"] put_env_keys [of key v env] by (auto simp: e)
qed

lemma put_all_protected:
  "list_all (\<lambda>(key, v). \<not> protected_env key) entries \<Longrightarrow> protected_part (put_all entries env) = protected_part env"
  by (induction entries arbitrary: env) (auto simp: put_all_def protected_part_put)

lemma put_env_free:
  assumes "list_all (\<lambda>(key, v). \<not> protected_env key) env" and "\<not> protected_env key"
  shows "list_all (\<lambda>(key, v). \<not> protected_env key) (put_env key val env)"
  using assms by (simp add: put_env_def update_free)

lemma accepted_entries:
  "list_all (\<lambda>(key, v). \<not> protected_env key) (or_accepted r) \<Longrightarrow>
   list_all (\<lambda>(key, v). \<not> protected_env key) (or_accepted (sort_overrides True overrides r))"
proof (induction overrides arbitrary: r)
  case Nil
  then show ?case by simp
next
  case (Cons ov overrides)
  obtain rawKey v where e: "ov = (rawKey, v)" by (cases ov)
  show ?case
  proof (cases v)
    case (JStr val)
    then show ?thesis
    proof (cases "override_verdict_of True rawKey")
      case (OverrideAccepted key)
      then show ?thesis using Cons.prems accepted_not_protected [OF OverrideAccepted]
        by (simp add: e JStr Cons.IH put_env_free)
    qed (use Cons.prems in \<open>simp_all add: e JStr Cons.IH\<close>)
  qed (use Cons in \<open>simp_all add: e\<close>)
qed

text \<open>C31: A request cannot touch the protected part of a command's environment. Whatever it asks for, the variables
  that steer loaders, interpreters and compilers are absent, and those that decide what is executed or trusted
  (\<open>PATH\<close> in any case of its letters, the home directory, proxies, certificates, package indexes and the like)
  have exactly the values they have without the request.\<close>

theorem host_env_protected:
  "list_all (\<lambda>(key, v). \<not> isDangerousHostEnvVarName key) (sanitizeHostExecEnv collate baseEnv overrides True) \<and>
   protected_part (sanitizeHostExecEnv collate baseEnv overrides True) =
     protected_part (sanitizeHostExecEnv collate baseEnv None True)"
proof -
  let ?acc = "or_accepted (sanitizeHostEnvOverridesWithDiagnostics collate overrides True)"
  have acc: "list_all (\<lambda>(key, v). \<not> protected_env key) ?acc"
    using accepted_entries [of "\<lparr>or_accepted = [], or_blocked = [], or_invalid = []\<rparr>"]
    by (simp add: sanitizeHostEnvOverridesWithDiagnostics_def Let_def)
  have marker: "\<not> protected_env ''OPENCLAW_CLI''" by code_simp
  have none: "or_accepted (sanitizeHostEnvOverridesWithDiagnostics collate None True) = []"
    by (simp add: sanitizeHostEnvOverridesWithDiagnostics_def or_default_def Let_def)
  have eq: "protected_part (markOpenClawExecEnv env) = protected_part env" for env
    using protected_part_put [OF marker, of "''1''" env] by (simp add: markOpenClawExecEnv_def put_env_def)
  have "\<not> isDangerousHostEnvVarName key" if "(key, v) \<in> set (put_all ?acc (safe_base baseEnv))" for key v
  proof -
    have "key \<in> fst ` set ?acc \<union> fst ` set (safe_base baseEnv)"
      using put_all_keys [of ?acc "safe_base baseEnv"] that by (metis fst_conv image_eqI subsetD)
    moreover have "fst ` set (safe_base baseEnv) \<subseteq> {k. \<not> isDangerousHostEnvVarName k}"
      unfolding safe_base_def using put_all_keys
      by (rule order_trans) auto
    ultimately show ?thesis using acc by (auto simp: protected_env_def list_all_iff)
  qed
  moreover have "\<not> isDangerousHostEnvVarName ''OPENCLAW_CLI''" using marker by (simp add: protected_env_def)
  ultimately have "list_all (\<lambda>(key, v). \<not> isDangerousHostEnvVarName key) (markOpenClawExecEnv (put_all ?acc (safe_base baseEnv)))"
    unfolding markOpenClawExecEnv_def by (intro update_free) (auto simp: list_all_iff)
  then show ?thesis unfolding sanitizeHostExecEnv_def eq put_all_protected [OF acc]
    by (simp add: none put_all_def)
qed

end
