(* ===== verification/SystemRun.thy ===== *)
theory SystemRun
  imports ExecWrapper HostEnv
begin

text \<open>
  A command that the gateway asks a node to run: its text (\<open>src/infra/system-run-command.ts\<close>,
  \<open>system-run-normalize.ts\<close>), the plan and the binding of an approval
  (\<open>system-run-approval-binding.ts\<close>), and the context of a request and of a run
  (\<open>system-run-approval-context.ts\<close>). Untyped parameters are \<open>jsval\<close>s; \<open>pf\<close> is the platform, \<open>sha\<close> the
  hexadecimal SHA-256 and \<open>collate\<close> is \<open>localeCompare\<close>.
\<close>

section \<open>Untyped values\<close>

text \<open>\<open>String(value)\<close>.\<close>

fun js_to_string :: "jsval \<Rightarrow> string" where
  "js_to_string JUndef = ''undefined''"
| "js_to_string JNull = ''null''"
| "js_to_string (JBool b) = (if b then ''true'' else ''false'')"
| "js_to_string (JNum r) = show_num r"
| "js_to_string JNonFinite = ''NaN''"
| "js_to_string (JBigInt i) = show_int i"
| "js_to_string (JStr s) = s"
| "js_to_string (JArr xs) =
     join_with '','' (map (\<lambda>x. case x of JUndef \<Rightarrow> [] | JNull \<Rightarrow> [] | _ \<Rightarrow> js_to_string x) xs)"
| "js_to_string (JObj kvs) = ''[object Object]''"
| "js_to_string (JErr n m) = (if n = [] then m else if m = [] then n else n @ '': '' @ m)"

definition normalizeNonEmptyString :: "jsval \<Rightarrow> string option" where
  "normalizeNonEmptyString value = (case value of JStr s \<Rightarrow> nonempty (trim s) | _ \<Rightarrow> None)"

definition normalizeStringArray :: "jsval \<Rightarrow> string list" where
  "normalizeStringArray value = (case value of JArr xs \<Rightarrow> map js_to_string xs | _ \<Rightarrow> [])"

text \<open>The properties of a plain object; the code tells apart objects, arrays and everything else.\<close>

definition object_props :: "jsval \<Rightarrow> (string \<times> jsval) list option" where
  "object_props value = (case value of JObj kvs \<Rightarrow> Some kvs | JErr n m \<Rightarrow> Some [] | _ \<Rightarrow> None)"

section \<open>The text of a command\<close>

definition format_arg :: "string \<Rightarrow> string" where
  "format_arg arg =
     (if arg = [] then [CHR 0x22, CHR 0x22]
      else if \<not> list_ex (\<lambda>c. js_ws c \<or> c = CHR 0x22) arg then arg
      else [CHR 0x22] @ concat (map (\<lambda>c. if c = CHR 0x22 then [CHR 0x5C, CHR 0x22] else [c]) arg) @ [CHR 0x22])"

definition formatExecCommand :: "string list \<Rightarrow> string" where
  "formatExecCommand argv = join_with '' '' (map format_arg argv)"

definition POSIX_OR_POWERSHELL_INLINE_WRAPPER_NAMES :: "string list" where
  "POSIX_OR_POWERSHELL_INLINE_WRAPPER_NAMES =
     [''ash'', ''bash'', ''dash'', ''fish'', ''ksh'', ''powershell'', ''pwsh'', ''sh'', ''zsh'']"

definition unwrapShellWrapperArgv :: "string \<Rightarrow> string list \<Rightarrow> string list" where
  "unwrapShellWrapperArgv pf argv =
     (let dispatchUnwrapped = unwrapDispatchWrappersForResolution pf argv MAX_DISPATCH_WRAPPER_DEPTH in
      case unwrapKnownShellMultiplexerInvocation dispatchUnwrapped of
        Unwrapped w rest \<Rightarrow> rest
      | _ \<Rightarrow> dispatchUnwrapped)"

definition hasTrailingPositionalArgvAfterInlineCommand :: "string \<Rightarrow> string list \<Rightarrow> bool" where
  "hasTrailingPositionalArgvAfterInlineCommand pf argv =
     (let wrapperArgv = unwrapShellWrapperArgv pf argv in
      if token0 wrapperArgv = [] then False
      else let wrapper = normalizeExecutableToken (token0 wrapperArgv) in
        if wrapper \<notin> set POSIX_OR_POWERSHELL_INLINE_WRAPPER_NAMES then False
        else (case snd (if wrapper = ''powershell'' \<or> wrapper = ''pwsh''
                        then resolveInlineCommandMatch wrapperArgv POWERSHELL_INLINE_COMMAND_FLAGS False
                        else resolveInlineCommandMatch wrapperArgv POSIX_INLINE_COMMAND_FLAGS True) of
                None \<Rightarrow> False
              | Some inlineCommandIndex \<Rightarrow> list_ex (\<lambda>entry. trim entry \<noteq> []) (drop (Suc inlineCommandIndex) wrapperArgv)))"

record command_display =
  cd_shellPayload :: "string option"
  cd_commandText :: string
  cd_previewText :: "string option"

definition buildSystemRunCommandDisplay :: "string \<Rightarrow> string list \<Rightarrow> command_display" where
  "buildSystemRunCommandDisplay pf argv =
     (let shellPayload = extractShellWrapperCommand pf argv None;
          shellWrapperPositionalArgv = hasTrailingPositionalArgvAfterInlineCommand pf argv;
          envManipulation = (shellPayload \<noteq> None \<and> hasEnvManipulationBeforeShellWrapper pf argv)
      in \<lparr>cd_shellPayload = shellPayload, cd_commandText = formatExecCommand argv,
          cd_previewText =
            (case shellPayload of
               Some payload \<Rightarrow> if \<not> envManipulation \<and> \<not> shellWrapperPositionalArgv then Some (trim payload) else None
             | None \<Rightarrow> None)\<rparr>)"

definition normalizeRawCommandText :: "jsval \<Rightarrow> string option" where
  "normalizeRawCommandText rawCommand = normalizeNonEmptyString rawCommand"

text \<open>A refused request: its message and the details that go with it.\<close>

record run_failure =
  rf_message :: string
  rf_details :: "(string \<times> jsval) list option"

definition validateSystemRunCommandConsistency ::
    "string \<Rightarrow> string list \<Rightarrow> jsval \<Rightarrow> bool \<Rightarrow> run_failure + command_display" where
  "validateSystemRunCommandConsistency pf argv rawCommand allowLegacyShellText =
     (let display = buildSystemRunCommandDisplay pf argv in
      case normalizeRawCommandText rawCommand of
        None \<Rightarrow> Inr display
      | Some raw \<Rightarrow>
          let matchesCanonicalArgv = (raw = cd_commandText display);
              matchesLegacyShellText = (allowLegacyShellText \<and> cd_previewText display = Some raw)
          in if \<not> matchesCanonicalArgv \<and> \<not> matchesLegacyShellText then
               Inl \<lparr>rf_message = ''INVALID_REQUEST: rawCommand does not match command'',
                    rf_details = Some [(''code'', JStr ''RAW_COMMAND_MISMATCH''), (''rawCommand'', JStr raw),
                      (''inferred'', JStr (cd_commandText display)), (''formattedArgv'', JStr (cd_commandText display))]\<rparr>
             else Inr display)"

record resolved_command =
  rc_argv :: "string list"
  rc_display :: command_display

definition resolveSystemRunCommandWithMode ::
    "string \<Rightarrow> jsval \<Rightarrow> jsval \<Rightarrow> bool \<Rightarrow> run_failure + resolved_command" where
  "resolveSystemRunCommandWithMode pf command rawCommand allowLegacyShellText =
     (let raw = normalizeRawCommandText rawCommand;
          argv = normalizeStringArray command
      in if argv = [] then
           (if raw \<noteq> None
            then Inl \<lparr>rf_message = ''rawCommand requires params.command'',
                      rf_details = Some [(''code'', JStr ''MISSING_COMMAND'')]\<rparr>
            else Inr \<lparr>rc_argv = [], rc_display =
                       \<lparr>cd_shellPayload = None, cd_commandText = [], cd_previewText = None\<rparr>\<rparr>)
         else (case validateSystemRunCommandConsistency pf argv
                      (case raw of None \<Rightarrow> JNull | Some r \<Rightarrow> JStr r) allowLegacyShellText of
                 Inl e \<Rightarrow> Inl e
               | Inr display \<Rightarrow> Inr \<lparr>rc_argv = argv, rc_display = display\<rparr>))"

definition resolveSystemRunCommand :: "string \<Rightarrow> jsval \<Rightarrow> jsval \<Rightarrow> run_failure + resolved_command" where
  "resolveSystemRunCommand pf command rawCommand = resolveSystemRunCommandWithMode pf command rawCommand False"

definition resolveSystemRunCommandRequest :: "string \<Rightarrow> jsval \<Rightarrow> jsval \<Rightarrow> run_failure + resolved_command" where
  "resolveSystemRunCommandRequest pf command rawCommand = resolveSystemRunCommandWithMode pf command rawCommand True"

section \<open>Plans\<close>

record file_operand =
  fo_argvIndex :: nat
  fo_path :: string
  fo_sha256 :: string

record run_plan =
  rp_argv :: "string list"
  rp_cwd :: "string option"
  rp_commandText :: string
  rp_commandPreview :: "string option"
  rp_agentId :: "string option"
  rp_sessionKey :: "string option"
  rp_operand :: "file_operand option"

text \<open>Outer \<open>None\<close>: null, the operand is malformed; inner \<open>None\<close>: undefined, there is none.\<close>

definition normalizeSystemRunApprovalFileOperand :: "jsval \<Rightarrow> file_operand option option" where
  "normalizeSystemRunApprovalFileOperand value =
     (if value = JUndef then Some None
      else (case object_props value of
              None \<Rightarrow> None
            | Some candidate \<Rightarrow>
                let argvIndex = (case get_prop ''argvIndex'' candidate of
                      JNum r \<Rightarrow> if r = of_int \<lfloor>r\<rfloor> \<and> 0 \<le> r then Some (nat \<lfloor>r\<rfloor>) else None
                    | _ \<Rightarrow> None)
                in (case (argvIndex, normalizeNonEmptyString (get_prop ''path'' candidate),
                          normalizeNonEmptyString (get_prop ''sha256'' candidate)) of
                      (Some i, Some p, Some h) \<Rightarrow> Some (Some \<lparr>fo_argvIndex = i, fo_path = p, fo_sha256 = h\<rparr>)
                    | _ \<Rightarrow> None)))"

definition normalizeSystemRunApprovalPlan :: "jsval \<Rightarrow> run_plan option" where
  "normalizeSystemRunApprovalPlan value =
     (case object_props value of
        None \<Rightarrow> None
      | Some candidate \<Rightarrow>
          let argv = normalizeStringArray (get_prop ''argv'' candidate);
              operand = normalizeSystemRunApprovalFileOperand (get_prop ''mutableFileOperand'' candidate);
              commandText = (case normalizeNonEmptyString (get_prop ''commandText'' candidate) of
                  Some t \<Rightarrow> Some t
                | None \<Rightarrow> normalizeNonEmptyString (get_prop ''rawCommand'' candidate))
          in if argv = [] then None
             else (case (operand, commandText) of
                     (Some op, Some t) \<Rightarrow>
                       Some \<lparr>rp_argv = argv, rp_cwd = normalizeNonEmptyString (get_prop ''cwd'' candidate),
                             rp_commandText = t,
                             rp_commandPreview = normalizeNonEmptyString (get_prop ''commandPreview'' candidate),
                             rp_agentId = normalizeNonEmptyString (get_prop ''agentId'' candidate),
                             rp_sessionKey = normalizeNonEmptyString (get_prop ''sessionKey'' candidate),
                             rp_operand = op\<rparr>
                   | _ \<Rightarrow> None))"

text \<open>A plan as the object it is: absent strings are null, an absent operand is undefined.\<close>

definition string_or_null :: "string option \<Rightarrow> jsval" where
  "string_or_null s = (case s of None \<Rightarrow> JNull | Some t \<Rightarrow> JStr t)"

definition operand_value :: "file_operand option \<Rightarrow> jsval" where
  "operand_value op = (case op of None \<Rightarrow> JUndef
     | Some f \<Rightarrow> JObj [(''argvIndex'', JNum (of_nat (fo_argvIndex f))), (''path'', JStr (fo_path f)),
                      (''sha256'', JStr (fo_sha256 f))])"

definition plan_value :: "run_plan \<Rightarrow> jsval" where
  "plan_value p = JObj
     [(''argv'', JArr (map JStr (rp_argv p))), (''cwd'', string_or_null (rp_cwd p)),
      (''commandText'', JStr (rp_commandText p)), (''commandPreview'', string_or_null (rp_commandPreview p)),
      (''agentId'', string_or_null (rp_agentId p)), (''sessionKey'', string_or_null (rp_sessionKey p)),
      (''mutableFileOperand'', operand_value (rp_operand p))]"

definition parsePreparedSystemRunPayload :: "jsval \<Rightarrow> run_plan option" where
  "parsePreparedSystemRunPayload payload =
     (case object_props payload of
        None \<Rightarrow> None
      | Some raw \<Rightarrow>
          (case normalizeSystemRunApprovalPlan (get_prop ''plan'' raw) of
             Some plan \<Rightarrow> Some plan
           | None \<Rightarrow>
               (case object_props (get_prop ''plan'' raw) of
                  None \<Rightarrow> None
                | Some legacyPlan \<Rightarrow>
                    let argv = normalizeStringArray (get_prop ''argv'' legacyPlan);
                        commandText = (case normalizeNonEmptyString (get_prop ''rawCommand'' legacyPlan) of
                            Some t \<Rightarrow> Some t
                          | None \<Rightarrow> (case normalizeNonEmptyString (get_prop ''commandText'' raw) of
                                Some t \<Rightarrow> Some t
                              | None \<Rightarrow> normalizeNonEmptyString (get_prop ''cmdText'' raw)))
                    in (case commandText of
                          None \<Rightarrow> None
                        | Some t \<Rightarrow>
                            if argv = [] then None
                            else Some \<lparr>rp_argv = argv, rp_cwd = normalizeNonEmptyString (get_prop ''cwd'' legacyPlan),
                                       rp_commandText = t,
                                       rp_commandPreview = normalizeNonEmptyString (get_prop ''commandPreview'' legacyPlan),
                                       rp_agentId = normalizeNonEmptyString (get_prop ''agentId'' legacyPlan),
                                       rp_sessionKey = normalizeNonEmptyString (get_prop ''sessionKey'' legacyPlan),
                                       rp_operand = None\<rparr>))))"

section \<open>Bindings\<close>

fun normalizeSystemRunEnvEntries_aux :: "(string \<times> jsval) list \<Rightarrow> (string \<times> string) list" where
  "normalizeSystemRunEnvEntries_aux [] = []"
| "normalizeSystemRunEnvEntries_aux ((rawKey, v) # env) =
     (case (v, normalizeHostOverrideEnvVarKey rawKey) of
        (JStr value, Some key) \<Rightarrow> (key, value) # normalizeSystemRunEnvEntries_aux env
      | _ \<Rightarrow> normalizeSystemRunEnvEntries_aux env)"

definition normalizeSystemRunEnvEntries :: "(string \<Rightarrow> string \<Rightarrow> int) \<Rightarrow> jsval \<Rightarrow> (string \<times> string) list" where
  "normalizeSystemRunEnvEntries collate env =
     (case object_props env of
        None \<Rightarrow> []
      | Some kvs \<Rightarrow> sort_with (\<lambda>a b. collate (fst a) (fst b)) (normalizeSystemRunEnvEntries_aux kvs))"

definition json_strings :: "string list \<Rightarrow> string" where
  "json_strings ss = ''['' @ join_with '','' (map json_quote ss) @ '']''"

definition hashSystemRunEnvEntries :: "(string \<Rightarrow> string) \<Rightarrow> (string \<times> string) list \<Rightarrow> string option" where
  "hashSystemRunEnvEntries sha entries =
     (if entries = [] then None
      else Some (sha (''['' @ join_with '','' (map (\<lambda>(k, v). json_strings [k, v]) entries) @ '']'')))"

definition buildSystemRunApprovalEnvBinding ::
    "(string \<Rightarrow> string) \<Rightarrow> (string \<Rightarrow> string \<Rightarrow> int) \<Rightarrow> jsval \<Rightarrow> string option \<times> string list" where
  "buildSystemRunApprovalEnvBinding sha collate env =
     (let entries = normalizeSystemRunEnvEntries collate env in (hashSystemRunEnvEntries sha entries, map fst entries))"

record run_binding =
  rb_argv :: "string list"
  rb_cwd :: "string option"
  rb_agentId :: "string option"
  rb_sessionKey :: "string option"
  rb_envHash :: "string option"

definition buildSystemRunApprovalBinding ::
    "(string \<Rightarrow> string) \<Rightarrow> (string \<Rightarrow> string \<Rightarrow> int) \<Rightarrow> jsval \<Rightarrow> jsval \<Rightarrow> jsval \<Rightarrow> jsval \<Rightarrow> jsval \<Rightarrow>
     run_binding \<times> string list" where
  "buildSystemRunApprovalBinding sha collate argv cwd agentId sessionKey env =
     (let (envHash, envKeys) = buildSystemRunApprovalEnvBinding sha collate env in
      (\<lparr>rb_argv = normalizeStringArray argv, rb_cwd = normalizeNonEmptyString cwd,
        rb_agentId = normalizeNonEmptyString agentId, rb_sessionKey = normalizeNonEmptyString sessionKey,
        rb_envHash = envHash\<rparr>, envKeys))"

definition argvMatches :: "string list \<Rightarrow> string list \<Rightarrow> bool" where
  "argvMatches expectedArgv actualArgv = (expectedArgv \<noteq> [] \<and> expectedArgv = actualArgv)"

datatype match_code = RequestMismatch | EnvBindingMissing | EnvMismatch

record match_failure =
  mf_code :: match_code
  mf_message :: string
  mf_details :: "(string \<times> jsval) list option"

fun code_text :: "match_code \<Rightarrow> string" where
  "code_text RequestMismatch = ''APPROVAL_REQUEST_MISMATCH''"
| "code_text EnvBindingMissing = ''APPROVAL_ENV_BINDING_MISSING''"
| "code_text EnvMismatch = ''APPROVAL_ENV_MISMATCH''"

definition requestMismatch :: "(string \<times> jsval) list option \<Rightarrow> match_failure" where
  "requestMismatch details =
     \<lparr>mf_code = RequestMismatch, mf_message = ''approval id does not match request'', mf_details = details\<rparr>"

definition env_keys_detail :: "string list \<Rightarrow> string \<times> jsval" where
  "env_keys_detail keys = (''envKeys'', JArr (map JStr keys))"

definition truthy_hash :: "string option \<Rightarrow> bool" where
  "truthy_hash h = (case h of None \<Rightarrow> False | Some s \<Rightarrow> s \<noteq> [])"

text \<open>\<open>None\<close>: it matches.\<close>

definition matchSystemRunApprovalEnvHash :: "string option \<Rightarrow> string option \<Rightarrow> string list \<Rightarrow> match_failure option" where
  "matchSystemRunApprovalEnvHash expectedEnvHash actualEnvHash actualEnvKeys =
     (let missing = Some \<lparr>mf_code = EnvBindingMissing,
            mf_message = ''approval id missing env binding for requested env overrides'',
            mf_details = Some [env_keys_detail actualEnvKeys]\<rparr>
      in if \<not> truthy_hash expectedEnvHash \<and> \<not> truthy_hash actualEnvHash \<and> actualEnvKeys \<noteq> [] then missing
         else if \<not> truthy_hash expectedEnvHash \<and> \<not> truthy_hash actualEnvHash then None
         else if \<not> truthy_hash expectedEnvHash \<and> truthy_hash actualEnvHash then missing
         else if expectedEnvHash \<noteq> actualEnvHash then
           Some \<lparr>mf_code = EnvMismatch, mf_message = ''approval id env binding mismatch'',
             mf_details = Some [env_keys_detail actualEnvKeys, (''expectedEnvHash'', string_or_null expectedEnvHash),
               (''actualEnvHash'', string_or_null actualEnvHash)]\<rparr>
         else None)"

definition matchSystemRunApprovalBinding :: "run_binding \<Rightarrow> run_binding \<Rightarrow> string list \<Rightarrow> match_failure option" where
  "matchSystemRunApprovalBinding expected_b actual_b actualEnvKeys =
     (if \<not> argvMatches (rb_argv expected_b) (rb_argv actual_b) then Some (requestMismatch None)
      else if rb_cwd expected_b \<noteq> rb_cwd actual_b then Some (requestMismatch None)
      else if rb_agentId expected_b \<noteq> rb_agentId actual_b then Some (requestMismatch None)
      else if rb_sessionKey expected_b \<noteq> rb_sessionKey actual_b then Some (requestMismatch None)
      else matchSystemRunApprovalEnvHash (rb_envHash expected_b) (rb_envHash actual_b) actualEnvKeys)"

definition missingSystemRunApprovalBinding :: "string list \<Rightarrow> match_failure" where
  "missingSystemRunApprovalBinding actualEnvKeys = requestMismatch (Some [env_keys_detail actualEnvKeys])"

definition toSystemRunApprovalMismatchError :: "string \<Rightarrow> match_failure \<Rightarrow> run_failure" where
  "toSystemRunApprovalMismatchError runId m =
     \<lparr>rf_message = mf_message m,
      rf_details = Some ([(''code'', JStr (code_text (mf_code m))), (''runId'', JStr runId)] @ or_default (mf_details m) [])\<rparr>"

section \<open>The context of a request and of a run\<close>

definition normalizeCommandText :: "jsval \<Rightarrow> string" where
  "normalizeCommandText value = (case value of JStr s \<Rightarrow> s | _ \<Rightarrow> [])"

definition normalizeCommandPreview :: "string \<Rightarrow> string \<Rightarrow> string option" where
  "normalizeCommandPreview value authoritative =
     (case nonempty (trim value) of
        None \<Rightarrow> None
      | Some preview \<Rightarrow> if preview = authoritative then None else Some preview)"

record request_context =
  qc_plan :: "run_plan option"
  qc_commandArgv :: "string list option"
  qc_commandText :: string
  qc_commandPreview :: "string option"
  qc_cwd :: "string option"
  qc_agentId :: "string option"
  qc_sessionKey :: "string option"

definition plan_or :: "(run_plan \<Rightarrow> string option) \<Rightarrow> run_plan option \<Rightarrow> jsval \<Rightarrow> string option" where
  "plan_or f plan value = (case Option.bind plan f of Some s \<Rightarrow> Some s | None \<Rightarrow> normalizeNonEmptyString value)"

definition resolveSystemRunApprovalRequestContext ::
    "jsval \<Rightarrow> jsval \<Rightarrow> jsval \<Rightarrow> jsval \<Rightarrow> jsval \<Rightarrow> jsval \<Rightarrow> jsval \<Rightarrow> request_context" where
  "resolveSystemRunApprovalRequestContext host command commandArgv systemRunPlan cwd agentId sessionKey =
     (let normalizedPlan = (if normalizeNonEmptyString host = Some ''node''
                            then normalizeSystemRunApprovalPlan systemRunPlan else None);
          fallbackArgv = normalizeStringArray commandArgv;
          fallbackCommand = normalizeCommandText command;
          commandText = (case normalizedPlan of
              Some p \<Rightarrow> if rp_commandText p \<noteq> [] then rp_commandText p else formatExecCommand (rp_argv p)
            | None \<Rightarrow> fallbackCommand);
          commandPreview = (case normalizedPlan of
              Some p \<Rightarrow> normalizeCommandPreview (or_default (rp_commandPreview p) fallbackCommand) commandText
            | None \<Rightarrow> None);
          plan = map_option (\<lambda>p. p\<lparr>rp_commandPreview := commandPreview\<rparr>) normalizedPlan
      in \<lparr>qc_plan = plan,
          qc_commandArgv = (case plan of Some p \<Rightarrow> Some (rp_argv p)
              | None \<Rightarrow> if fallbackArgv \<noteq> [] then Some fallbackArgv else None),
          qc_commandText = commandText, qc_commandPreview = commandPreview,
          qc_cwd = plan_or rp_cwd plan cwd, qc_agentId = plan_or rp_agentId plan agentId,
          qc_sessionKey = plan_or rp_sessionKey plan sessionKey\<rparr>)"

record runtime_context =
  rx_plan :: "run_plan option"
  rx_argv :: "string list"
  rx_cwd :: "string option"
  rx_agentId :: "string option"
  rx_sessionKey :: "string option"
  rx_commandText :: string

definition resolveSystemRunApprovalRuntimeContext ::
    "string \<Rightarrow> jsval \<Rightarrow> jsval \<Rightarrow> jsval \<Rightarrow> jsval \<Rightarrow> jsval \<Rightarrow> jsval \<Rightarrow> run_failure + runtime_context" where
  "resolveSystemRunApprovalRuntimeContext pf plan command rawCommand cwd agentId sessionKey =
     (case normalizeSystemRunApprovalPlan plan of
        Some p \<Rightarrow>
          Inr \<lparr>rx_plan = Some p, rx_argv = rp_argv p, rx_cwd = rp_cwd p, rx_agentId = rp_agentId p,
               rx_sessionKey = rp_sessionKey p, rx_commandText = rp_commandText p\<rparr>
      | None \<Rightarrow>
          (case resolveSystemRunCommandRequest pf command rawCommand of
             Inl e \<Rightarrow> Inl e
           | Inr rc \<Rightarrow>
               Inr \<lparr>rx_plan = None, rx_argv = rc_argv rc, rx_cwd = normalizeNonEmptyString cwd,
                    rx_agentId = normalizeNonEmptyString agentId, rx_sessionKey = normalizeNonEmptyString sessionKey,
                    rx_commandText = cd_commandText (rc_display rc)\<rparr>))"

end
