(* ===== verification/SystemRunGate.thy ===== *)
theory SystemRunGate
  imports SystemRun ExecApproval
begin

text \<open>
  How an approval is asked for, answered and used for a run on a node: the handlers of
  \<open>src/gateway/server-methods/exec-approval.ts\<close> and the check in front of \<open>node.invoke\<close>,
  \<open>src/gateway/node-invoke-system-run-approval.ts\<close> with \<open>-match.ts\<close> and \<open>-errors.ts\<close>. Parameters that passed
  the schema of a handler are typed; those of \<open>node.invoke\<close> are a \<open>jsval\<close>. A handler is one function per
  synchronous section, from the manager to the manager.
\<close>

section \<open>Requests\<close>

record exec_request =
  er_command :: string
  er_commandPreview :: "string option"
  er_commandArgv :: "string list option"
  er_envKeys :: "string list option"
  er_systemRunBinding :: "run_binding option"
  er_systemRunPlan :: "run_plan option"
  er_cwd :: "string option"
  er_nodeId :: "string option"
  er_host :: "string option"
  er_security :: "string option"
  er_ask :: "string option"
  er_allowedDecisions :: "approval_decision list"
  er_agentId :: "string option"
  er_resolvedPath :: "string option"
  er_sessionKey :: "string option"
  er_turnSourceChannel :: "string option"
  er_turnSourceTo :: "string option"
  er_turnSourceAccountId :: "string option"
  er_turnSourceThreadId :: jsval

type_synonym approvals = "exec_request approval_manager"

text \<open>\<open>sanitizeExecApprovalDisplayText\<close>: the only character of category Cf below 256 is the soft hyphen.\<close>

definition sanitizeExecApprovalDisplayText :: "string \<Rightarrow> string" where
  "sanitizeExecApprovalDisplayText commandText =
     concat (map (\<lambda>c. if c = CHR 0xAD then [CHR 0x5C] @ ''u{AD}'' else [c]) commandText)"

text \<open>A client of the gateway; \<open>None\<close> stands for a call from the process itself.\<close>

record approval_client =
  cl_connId :: "string option"
  cl_scopes :: jsval
  cl_deviceId :: "string option"
  cl_clientId :: "string option"
  cl_displayName :: "string option"

record request_params =
  rq_id :: "string option"
  rq_command :: jsval
  rq_commandArgv :: jsval
  rq_env :: jsval
  rq_cwd :: jsval
  rq_systemRunPlan :: jsval
  rq_nodeId :: "string option"
  rq_host :: "string option"
  rq_security :: "string option"
  rq_ask :: "string option"
  rq_agentId :: jsval
  rq_resolvedPath :: "string option"
  rq_sessionKey :: jsval
  rq_turnSourceChannel :: "string option"
  rq_turnSourceTo :: "string option"
  rq_turnSourceAccountId :: "string option"
  rq_turnSourceThreadId :: jsval
  rq_timeoutMs :: "int option"
  rq_twoPhase :: bool

definition DEFAULT_EXEC_APPROVAL_TIMEOUT_MS :: int where
  "DEFAULT_EXEC_APPROVAL_TIMEOUT_MS = 1800000"

definition trimmed :: "string option \<Rightarrow> string" where
  "trimmed s = (case s of None \<Rightarrow> [] | Some t \<Rightarrow> trim t)"

definition request_context_of :: "request_params \<Rightarrow> request_context" where
  "request_context_of p =
     resolveSystemRunApprovalRequestContext (JStr (trimmed (rq_host p))) (rq_command p) (rq_commandArgv p)
       (rq_systemRunPlan p) (rq_cwd p) (rq_agentId p) (rq_sessionKey p)"

definition build_request ::
    "(string \<Rightarrow> string) \<Rightarrow> (string \<Rightarrow> string \<Rightarrow> int) \<Rightarrow> request_params \<Rightarrow> exec_request" where
  "build_request sha collate p =
     (let host = trimmed (rq_host p); node = (host = ''node''); c = request_context_of p;
          envKeys = snd (buildSystemRunApprovalEnvBinding sha collate (rq_env p));
          binding = (if node then
              Some (fst (buildSystemRunApprovalBinding sha collate
                (case qc_commandArgv c of None \<Rightarrow> JUndef | Some argv \<Rightarrow> JArr (map JStr argv))
                (string_or_null (qc_cwd c)) (string_or_null (qc_agentId c)) (string_or_null (qc_sessionKey c)) (rq_env p)))
            else None)
      in \<lparr>er_command = sanitizeExecApprovalDisplayText (qc_commandText c),
          er_commandPreview = (if node then None else map_option sanitizeExecApprovalDisplayText (qc_commandPreview c)),
          er_commandArgv = (if node then None else qc_commandArgv c),
          er_envKeys = (if envKeys = [] then None else Some envKeys),
          er_systemRunBinding = binding, er_systemRunPlan = qc_plan c, er_cwd = qc_cwd c,
          er_nodeId = (if node then Some (trimmed (rq_nodeId p)) else None), er_host = nonempty host,
          er_security = rq_security p, er_ask = rq_ask p,
          er_allowedDecisions = resolveExecApprovalAllowedDecisions (rq_ask p),
          er_agentId = qc_agentId c, er_resolvedPath = rq_resolvedPath p, er_sessionKey = qc_sessionKey c,
          er_turnSourceChannel = trimmed_opt (rq_turnSourceChannel p), er_turnSourceTo = trimmed_opt (rq_turnSourceTo p),
          er_turnSourceAccountId = trimmed_opt (rq_turnSourceAccountId p),
          er_turnSourceThreadId = rq_turnSourceThreadId p\<rparr>)"

text \<open>What \<open>exec.approval.request\<close> refuses.\<close>

definition request_refusal :: "request_params \<Rightarrow> approvals \<Rightarrow> string option" where
  "request_refusal p m =
     (let host = trimmed (rq_host p); c = request_context_of p in
      if host = ''node'' \<and> trimmed (rq_nodeId p) = [] then Some ''nodeId is required for host=node''
      else if host = ''node'' \<and> qc_plan c = None then Some ''systemRunPlan is required for host=node''
      else if qc_commandText c = [] then Some ''command is required''
      else if host = ''node'' \<and> or_default (qc_commandArgv c) [] = [] then Some ''commandArgv is required for host=node''
      else (case trimmed_opt (rq_id p) of
              None \<Rightarrow> None
            | Some explicitId \<Rightarrow>
                if getSnapshot explicitId m \<noteq> None then Some ''approval id already pending'' else None))"

text \<open>The first section of the handler: it ends with a refusal or a registered record and its promise.\<close>

definition request_approval ::
    "(string \<Rightarrow> string) \<Rightarrow> (string \<Rightarrow> string \<Rightarrow> int) \<Rightarrow> int \<Rightarrow> string \<Rightarrow> approval_client option \<Rightarrow> request_params \<Rightarrow>
     approvals \<Rightarrow> (string + exec_request approval_record \<times> nat) \<times> approvals" where
  "request_approval sha collate now uuid client p m =
     (case request_refusal p m of
        Some e \<Rightarrow> (Inl e, m)
      | None \<Rightarrow>
          let timeoutMs = or_default (rq_timeoutMs p) DEFAULT_EXEC_APPROVAL_TIMEOUT_MS;
              rc = (create now uuid (build_request sha collate p) timeoutMs (trimmed_opt (rq_id p)))
                     \<lparr>xr_connId := Option.bind client cl_connId, xr_deviceId := Option.bind client cl_deviceId,
                      xr_clientId := Option.bind client cl_clientId\<rparr>
          in (case register now rc timeoutMs m of
                (Inl e, m1) \<Rightarrow> (Inl (''registration failed: Error: '' @ e), m1)
              | (Inr promise, m1) \<Rightarrow> (Inr (rc, promise), m1)))"

datatype approval_response =
    RespAccepted string int int
  | RespDecision string "approval_decision option" int int

text \<open>The second section, once the request was broadcast and forwarded: without anybody to answer it is settled
  at once, otherwise the promise \<open>Inr\<close> is awaited.\<close>

definition route_approval ::
    "int \<Rightarrow> bool \<Rightarrow> bool \<Rightarrow> bool \<Rightarrow> bool \<Rightarrow> exec_request approval_record \<times> nat \<Rightarrow> approvals \<Rightarrow>
     approval_response list \<times> nat option \<times> approvals" where
  "route_approval now hasExecApprovalClients forwarded hasTurnSourceRoute twoPhase rp m =
     (let (rc, promise) = rp in
      if \<not> hasExecApprovalClients \<and> \<not> forwarded \<and> \<not> hasTurnSourceRoute then
        ([RespDecision (xr_id rc) None (xr_createdAtMs rc) (xr_expiresAtMs rc)], None,
         snd (expire now (xr_id rc) (Some ''no-approval-route'') m))
      else (if twoPhase then [RespAccepted (xr_id rc) (xr_createdAtMs rc) (xr_expiresAtMs rc)] else [], Some promise, m))"

text \<open>\<open>exec.approval.waitDecision\<close>: the promise it awaits and the record it answers with.\<close>

definition wait_decision :: "string option \<Rightarrow> approvals \<Rightarrow> string + nat \<times> exec_request approval_record option" where
  "wait_decision p_id m =
     (let rid = trimmed p_id in
      if rid = [] then Inl ''id is required''
      else (case awaitDecision rid m of
              None \<Rightarrow> Inl ''approval expired or not found''
            | Some promise \<Rightarrow> Inr (promise, getSnapshot rid m)))"

text \<open>\<open>exec.approval.resolve\<close>. The stored decisions are always explicit and never empty.\<close>

definition decision_text :: "approval_decision \<Rightarrow> string" where
  "decision_text d = (case d of AllowOnce \<Rightarrow> ''allow-once'' | AllowAlways \<Rightarrow> ''allow-always'' | Deny \<Rightarrow> ''deny'')"

definition resolver_name :: "approval_client option \<Rightarrow> string option" where
  "resolver_name client =
     (case client of None \<Rightarrow> None
      | Some c \<Rightarrow> (case cl_displayName c of Some n \<Rightarrow> Some n | None \<Rightarrow> cl_clientId c))"

definition ambiguous_message :: "string list \<Rightarrow> string" where
  "ambiguous_message ids =
     ''ambiguous approval id prefix; matches: '' @ join_with '', '' (take 3 ids) @
       (if length ids > 3 then '' (+'' @ show_nat (length ids - 3) @ '' more)'' else []) @ ''. Use the full id.''"

definition answer_approval ::
    "int \<Rightarrow> approval_client option \<Rightarrow> string \<Rightarrow> string \<Rightarrow> approvals \<Rightarrow> string option \<times> approvals" where
  "answer_approval now client p_id p_decision m =
     (case parse_decision p_decision of
        None \<Rightarrow> (Some ''invalid decision'', m)
      | Some decision \<Rightarrow>
          let answer = (\<lambda>approvalId.
                (case getSnapshot approvalId m of
                   Some sn \<Rightarrow>
                     if decision \<notin> set (resolveExecApprovalRequestAllowedDecisions
                          (Some (map decision_text (er_allowedDecisions (xr_request sn)))) (er_ask (xr_request sn)))
                     then (Some ''allow-always is unavailable because the effective policy requires approval every time'', m)
                     else (case resolve_approval now approvalId decision (resolver_name client) m of
                             (True, m1) \<Rightarrow> (None, m1)
                           | (False, m1) \<Rightarrow> (Some ''unknown or expired approval id'', m1))
                 | None \<Rightarrow> (case resolve_approval now approvalId decision (resolver_name client) m of
                             (True, m1) \<Rightarrow> (None, m1)
                           | (False, m1) \<Rightarrow> (Some ''unknown or expired approval id'', m1))))
          in (case lookupPendingId p_id m of
                NoId \<Rightarrow> (Some ''unknown or expired approval id'', m)
              | AmbiguousIds ids \<Rightarrow> (Some (ambiguous_message ids), m)
              | ExactId i \<Rightarrow> answer i
              | PrefixId i \<Rightarrow> answer i))"

section \<open>Using an approval\<close>

definition systemRunApprovalGuardError :: "string \<Rightarrow> string \<Rightarrow> (string \<times> jsval) list \<Rightarrow> run_failure" where
  "systemRunApprovalGuardError code message details =
     \<lparr>rf_message = message, rf_details = Some ((''code'', JStr code) # details)\<rparr>"

definition systemRunApprovalRequired :: "string \<Rightarrow> run_failure" where
  "systemRunApprovalRequired runId =
     systemRunApprovalGuardError ''APPROVAL_REQUIRED'' ''approval required'' [(''runId'', JStr runId)]"

definition normalizeApprovalDecision :: "jsval \<Rightarrow> approval_decision option" where
  "normalizeApprovalDecision value =
     (case normalizeNonEmptyString value of
        Some s \<Rightarrow> if s = ''allow-once'' then Some AllowOnce else if s = ''allow-always'' then Some AllowAlways else None
      | None \<Rightarrow> None)"

definition clientHasApprovals :: "approval_client option \<Rightarrow> bool" where
  "clientHasApprovals client =
     (let scopes = (case client of None \<Rightarrow> [] | Some c \<Rightarrow> (case cl_scopes c of JArr xs \<Rightarrow> xs | _ \<Rightarrow> [])) in
      JStr ''operator.admin'' \<in> set scopes \<or> JStr ''operator.approvals'' \<in> set scopes)"

definition SYSTEM_RUN_PARAM_KEYS :: "string list" where
  "SYSTEM_RUN_PARAM_KEYS = [''command'', ''rawCommand'', ''systemRunPlan'', ''cwd'', ''env'', ''timeoutMs'',
     ''needsScreenRecording'', ''agentId'', ''sessionKey'', ''runId'', ''suppressNotifyOnExit'']"

definition pickSystemRunParams :: "(string \<times> jsval) list \<Rightarrow> (string \<times> jsval) list" where
  "pickSystemRunParams raw =
     List.map_filter (\<lambda>key. map_option (Pair key) (map_of raw key)) SYSTEM_RUN_PARAM_KEYS"

definition evaluateSystemRunApprovalMatch ::
    "(string \<Rightarrow> string) \<Rightarrow> (string \<Rightarrow> string \<Rightarrow> int) \<Rightarrow> string list \<Rightarrow> exec_request \<Rightarrow> runtime_context \<Rightarrow> jsval \<Rightarrow>
     match_failure option" where
  "evaluateSystemRunApprovalMatch sha collate argv request rx env =
     (if er_host request \<noteq> Some ''node'' then Some (requestMismatch None)
      else let (actualBinding, envKeys) = buildSystemRunApprovalBinding sha collate (JArr (map JStr argv))
                 (string_or_null (rx_cwd rx)) (string_or_null (rx_agentId rx)) (string_or_null (rx_sessionKey rx)) env
        in (case er_systemRunBinding request of
              None \<Rightarrow> Some (missingSystemRunApprovalBinding envKeys)
            | Some expectedBinding \<Rightarrow> matchSystemRunApprovalBinding expectedBinding actualBinding envKeys))"

text \<open>The checks before the match: \<open>Inr\<close> the record under the run id.\<close>

definition guard_record ::
    "int \<Rightarrow> string option \<Rightarrow> approval_client option \<Rightarrow> string \<Rightarrow> approvals \<Rightarrow>
     run_failure + exec_request approval_record" where
  "guard_record now nodeId client runId m =
     (let withId = [(''runId'', JStr runId)] in
      case getSnapshot runId m of
        None \<Rightarrow> Inl (systemRunApprovalGuardError ''UNKNOWN_APPROVAL_ID'' ''unknown or expired approval id'' withId)
      | Some sn \<Rightarrow>
          if now > xr_expiresAtMs sn then
            Inl (systemRunApprovalGuardError ''APPROVAL_EXPIRED'' ''approval expired'' withId)
          else (case trimmed_opt nodeId of
            None \<Rightarrow> Inl (systemRunApprovalGuardError ''MISSING_NODE_ID'' ''node.invoke requires nodeId'' withId)
          | Some targetNodeId \<Rightarrow>
              (case trimmed_opt (er_nodeId (xr_request sn)) of
                 None \<Rightarrow> Inl (systemRunApprovalGuardError ''APPROVAL_NODE_BINDING_MISSING''
                   ''approval id missing node binding'' withId)
               | Some approvalNodeId \<Rightarrow>
                   if approvalNodeId \<noteq> targetNodeId then
                     Inl (systemRunApprovalGuardError ''APPROVAL_NODE_MISMATCH'' ''approval id not valid for this node'' withId)
                   else if or_default (xr_deviceId sn) [] \<noteq> [] then
                     (if xr_deviceId sn \<noteq> Option.bind client cl_deviceId then
                        Inl (systemRunApprovalGuardError ''APPROVAL_DEVICE_MISMATCH''
                          ''approval id not valid for this device'' withId)
                      else Inr sn)
                   else if or_default (xr_connId sn) [] \<noteq> [] \<and> xr_connId sn \<noteq> Option.bind client cl_connId then
                     Inl (systemRunApprovalGuardError ''APPROVAL_CLIENT_MISMATCH''
                       ''approval id not valid for this client'' withId)
                   else Inr sn)))"

definition set_or_delete :: "string \<Rightarrow> string option \<Rightarrow> (string \<times> jsval) list \<Rightarrow> (string \<times> jsval) list" where
  "set_or_delete key s next' =
     (case s of
        Some t \<Rightarrow> if t \<noteq> [] then AList.update key (JStr t) next' else AList.delete key next'
      | None \<Rightarrow> AList.delete key next')"

text \<open>The fields that a plan overrides.\<close>

definition with_plan :: "runtime_context \<Rightarrow> (string \<times> jsval) list \<Rightarrow> (string \<times> jsval) list" where
  "with_plan rx next' =
     (case rx_plan rx of
        None \<Rightarrow> next'
      | Some plan \<Rightarrow>
          set_or_delete ''sessionKey'' (rx_sessionKey rx)
            (set_or_delete ''agentId'' (rx_agentId rx)
              (set_or_delete ''cwd'' (rx_cwd rx)
                (set_or_delete ''rawCommand'' (Some (rx_commandText rx))
                  (AList.update ''systemRunPlan'' (plan_value plan)
                    (AList.update ''command'' (JArr (map JStr (rp_argv plan))) next'))))))"

definition approved_params :: "approval_decision \<Rightarrow> (string \<times> jsval) list \<Rightarrow> (string \<times> jsval) list" where
  "approved_params d next' =
     AList.update ''approvalDecision'' (JStr (decision_text d)) (AList.update ''approved'' (JBool True) next')"

definition timed_out :: "exec_request approval_record \<Rightarrow> bool" where
  "timed_out sn = (xr_resolvedAtMs sn \<noteq> None \<and> xr_decision sn = None \<and> xr_resolvedBy sn = Some None)"

text \<open>Enforcing the recorded decision. A record that nobody answered lets clients that may approve commands use the
  fallback.\<close>

definition use_decision ::
    "approval_client option \<Rightarrow> string \<Rightarrow> bool \<Rightarrow> approval_decision option \<Rightarrow> exec_request approval_record \<Rightarrow>
     (string \<times> jsval) list \<Rightarrow> approvals \<Rightarrow> (run_failure + jsval) \<times> approvals" where
  "use_decision client runId approved requestedDecision sn next' m =
     (if xr_decision sn = Some AllowOnce then
        (let (consumed', m1) = consumeAllowOnce runId m in
         (if consumed' then Inr (JObj (approved_params AllowOnce next')) else Inl (systemRunApprovalRequired runId), m1))
      else if xr_decision sn = Some AllowAlways then (Inr (JObj (approved_params AllowAlways next')), m)
      else if timed_out sn \<and> approved \<and> requestedDecision = Some AllowOnce \<and> clientHasApprovals client then
        (Inr (JObj (approved_params AllowOnce next')), m)
      else (Inl (systemRunApprovalRequired runId), m))"

text \<open>The run of a record that passed its checks.\<close>

definition forward_approved ::
    "string \<Rightarrow> (string \<Rightarrow> string) \<Rightarrow> (string \<Rightarrow> string \<Rightarrow> int) \<Rightarrow> approval_client option \<Rightarrow> (string \<times> jsval) list \<Rightarrow> string \<Rightarrow>
     exec_request approval_record \<Rightarrow> approvals \<Rightarrow> (run_failure + jsval) \<times> approvals" where
  "forward_approved pf sha collate client obj runId sn m =
     (let p = (\<lambda>key. get_prop key obj) in
      case resolveSystemRunApprovalRuntimeContext pf
             (case er_systemRunPlan (xr_request sn) of None \<Rightarrow> JNull | Some pl \<Rightarrow> plan_value pl)
             (p ''command'') (p ''rawCommand'') (p ''cwd'') (p ''agentId'') (p ''sessionKey'') of
        Inl e \<Rightarrow> (Inl e, m)
      | Inr rx \<Rightarrow>
          (case evaluateSystemRunApprovalMatch sha collate (rx_argv rx) (xr_request sn) rx (p ''env'') of
             Some mf \<Rightarrow> (Inl (toSystemRunApprovalMismatchError runId mf), m)
           | None \<Rightarrow> use_decision client runId (p ''approved'' = JBool True)
               (normalizeApprovalDecision (p ''approvalDecision'')) sn (with_plan rx (pickSystemRunParams obj)) m))"

text \<open>\<open>exec_approvals\<close> is \<open>None\<close> when the gateway has no approval manager.\<close>

definition sanitizeSystemRunParamsForForwarding ::
    "string \<Rightarrow> (string \<Rightarrow> string) \<Rightarrow> (string \<Rightarrow> string \<Rightarrow> int) \<Rightarrow> int \<Rightarrow> string option \<Rightarrow> jsval \<Rightarrow> approval_client option \<Rightarrow>
     approvals option \<Rightarrow> (run_failure + jsval) \<times> approvals option" where
  "sanitizeSystemRunParamsForForwarding pf sha collate now nodeId rawParams client exec_approvals =
     (case object_props rawParams of
        None \<Rightarrow> (Inr rawParams, exec_approvals)
      | Some obj \<Rightarrow>
          let approved = (get_prop ''approved'' obj = JBool True);
              requestedDecision = normalizeApprovalDecision (get_prop ''approvalDecision'' obj)
          in if \<not> approved \<and> requestedDecision = None then
               (case resolveSystemRunCommandRequest pf (get_prop ''command'' obj) (get_prop ''rawCommand'' obj) of
                  Inl e \<Rightarrow> (Inl e, exec_approvals)
                | Inr rc \<Rightarrow> (Inr (JObj (pickSystemRunParams obj)), exec_approvals))
             else (case normalizeNonEmptyString (get_prop ''runId'' obj) of
               None \<Rightarrow> (Inl (systemRunApprovalGuardError ''MISSING_RUN_ID'' ''approval override requires params.runId'' []),
                       exec_approvals)
             | Some runId \<Rightarrow>
                 (case exec_approvals of
                    None \<Rightarrow> (Inl (systemRunApprovalGuardError ''APPROVALS_UNAVAILABLE'' ''exec approvals unavailable'' []), None)
                  | Some m \<Rightarrow>
                      (case guard_record now nodeId client runId m of
                         Inl e \<Rightarrow> (Inl e, Some m)
                       | Inr sn \<Rightarrow> apsnd Some (forward_approved pf sha collate client obj runId sn m)))))"

section \<open>The node\<close>

record parsed_run =
  pr_argv :: "string list"
  pr_display :: command_display
  pr_plan :: "run_plan option"
  pr_agentId :: "string option"
  pr_sessionKey :: string
  pr_runId :: string
  pr_decision :: "approval_decision option"
  pr_approved :: bool
  pr_envOverrides :: "(string \<times> jsval) list option"
  pr_cwd :: "string option"
  pr_timeoutMs :: jsval
  pr_needsScreenRecording :: bool
  pr_suppressNotifyOnExit :: bool

definition env_rejection :: "string list \<Rightarrow> string list \<Rightarrow> string" where
  "env_rejection blocked invalid =
     ''SYSTEM_RUN_DENIED: environment override rejected ('' @
       join_with ''; '' ((if blocked = [] then [] else [''blocked override keys: '' @ join_with '', '' blocked]) @
         (if invalid = [] then [] else [''invalid non-portable override keys: '' @ join_with '', '' invalid])) @ '')''"

text \<open>\<open>parseSystemRunPhase\<close> of \<open>src/node-host/invoke-system-run.ts\<close>; \<open>Inl\<close> is the message of INVALID_REQUEST.
  The parameters arrive as an object of JSON values.\<close>

definition parse_system_run ::
    "string \<Rightarrow> (string \<Rightarrow> string \<Rightarrow> int) \<Rightarrow> string \<Rightarrow> (string \<times> jsval) list \<Rightarrow> string + parsed_run" where
  "parse_system_run pf collate uuid obj =
     (let p = (\<lambda>key. get_prop key obj) in
      case resolveSystemRunCommandRequest pf (p ''command'') (p ''rawCommand'') of
        Inl e \<Rightarrow> Inl (rf_message e)
      | Inr rc \<Rightarrow>
          if rc_argv rc = [] then Inl ''command required''
          else let plan = (if p ''systemRunPlan'' = JUndef then None else normalizeSystemRunApprovalPlan (p ''systemRunPlan'')) in
            if p ''systemRunPlan'' \<noteq> JUndef \<and> plan = None then Inl ''systemRunPlan invalid''
            else let overrides = (case p ''env'' of JObj kvs \<Rightarrow> Some kvs | _ \<Rightarrow> None);
                     (blocked, invalid) = inspectHostExecEnvOverrides collate overrides True
              in if blocked \<noteq> [] \<or> invalid \<noteq> [] then Inl (env_rejection blocked invalid)
                 else Inr \<lparr>pr_argv = rc_argv rc, pr_display = rc_display rc, pr_plan = plan,
                   pr_agentId = normalizeNonEmptyString (p ''agentId''),
                   pr_sessionKey = or_default (normalizeNonEmptyString (p ''sessionKey'')) ''node'',
                   pr_runId = or_default (normalizeNonEmptyString (p ''runId'')) uuid,
                   pr_decision = (case p ''approvalDecision'' of JStr d \<Rightarrow>
                       (if d = ''allow-once'' then Some AllowOnce else if d = ''allow-always'' then Some AllowAlways else None)
                     | _ \<Rightarrow> None),
                   pr_approved = (p ''approved'' = JBool True),
                   pr_envOverrides = sanitizeSystemRunEnvOverrides overrides (cd_shellPayload (rc_display rc) \<noteq> None),
                   pr_cwd = normalizeNonEmptyString (p ''cwd''), pr_timeoutMs = p ''timeoutMs'',
                   pr_needsScreenRecording = (p ''needsScreenRecording'' = JBool True),
                   pr_suppressNotifyOnExit = (p ''suppressNotifyOnExit'' = JBool True)\<rparr>)"

end
