(* ===== verification/SystemRunProps.thy ===== *)
theory SystemRunProps
  imports SystemRunGate
begin

text \<open>
  What an approval allows: the run it was given for, on the node and for the client it was given to. The text that
  the operator is shown determines the command, and it survives the way from the request to the node.
\<close>

section \<open>The text of a command can be read back\<close>

text \<open>The reader goes from the right: an inner quote has a backslash before it, an opening one has not.\<close>

fun read_quoted :: "string \<Rightarrow> string \<Rightarrow> string \<times> string" where
  "read_quoted acc [] = (acc, [])"
| "read_quoted acc (c # cs) =
     (if c = CHR 0x22 then
        (case cs of
           [] \<Rightarrow> (acc, [])
         | b # bs \<Rightarrow> if b = CHR 0x5C then read_quoted (CHR 0x22 # acc) bs else (acc, cs))
      else read_quoted (c # acc) cs)"

lemma read_quoted_length: "length (snd (read_quoted acc cs)) \<le> length cs"
proof (induction acc cs rule: read_quoted.induct)
  case (1 acc)
  then show ?case by simp
next
  case (2 acc c cs)
  show ?case
  proof (cases "c = CHR 0x22")
    case True
    then show ?thesis
    proof (cases cs)
      case (Cons b bs)
      then show ?thesis using True 2(1) by (cases "b = CHR 0x5C") simp_all
    qed simp
  next
    case False
    then show ?thesis using 2(2) by simp
  qed
qed

function read_args :: "string \<Rightarrow> string list" where
  "read_args [] = []"
| "read_args (c # cs) =
     (if c = CHR 0x22 then fst (read_quoted [] cs) # read_args (tl (snd (read_quoted [] cs)))
      else rev (takeWhile (\<lambda>d. d \<noteq> CHR '' '') (c # cs)) # read_args (tl (dropWhile (\<lambda>d. d \<noteq> CHR '' '') (c # cs))))"
  by pat_completeness auto
termination
proof (relation "measure length")
  fix c :: char and cs :: string
  show "(tl (snd (read_quoted [] cs)), c # cs) \<in> measure length"
    using read_quoted_length [of "[]" cs] by simp
  have "length (dropWhile (\<lambda>d. d \<noteq> CHR '' '') cs) \<le> length cs" by (rule length_dropWhile_le)
  then show "(tl (dropWhile (\<lambda>d. d \<noteq> CHR '' '') (c # cs)), c # cs) \<in> measure length" by auto
qed simp

definition parse_command :: "string \<Rightarrow> string list" where
  "parse_command text' = rev (read_args (rev text'))"

lemma read_quoted_escaped:
  assumes "rest = [] \<or> hd rest = CHR '' ''"
  shows "read_quoted acc (rev (concat (map (\<lambda>c. if c = CHR 0x22 then [CHR 0x5C, CHR 0x22] else [c]) arg)) @ CHR 0x22 # rest) =
    (arg @ acc, rest)"
proof (induction arg arbitrary: acc rule: rev_induct)
  case Nil
  then show ?case using assms by (cases rest) auto
next
  case (snoc c arg)
  then show ?case by simp
qed

lemma read_formatted:
  assumes "rest = [] \<or> hd rest = CHR '' ''"
  shows "read_args (rev (format_arg arg) @ rest) = arg # read_args (tl rest)"
proof -
  let ?plain = "arg \<noteq> [] \<and> \<not> list_ex (\<lambda>c. js_ws c \<or> c = CHR 0x22) arg"
  show ?thesis
  proof (cases ?plain)
    case True
    then obtain c cs where r: "rev arg = c # cs" by (cases "rev arg") auto
    have chars: "\<forall>d \<in> set arg. d \<noteq> CHR '' '' \<and> d \<noteq> CHR 0x22" using True by (auto simp: list_ex_iff js_ws_def)
    then have c: "c \<noteq> CHR 0x22" using r by (metis list.set_intros(1) set_rev)
    have all: "\<forall>d \<in> set (c # cs). d \<noteq> CHR '' ''" using chars r by (metis set_rev)
    have tw: "takeWhile (\<lambda>d. d \<noteq> CHR '' '') ((c # cs) @ rest) = c # cs"
      using all assms by (subst takeWhile_append2) (auto simp: takeWhile_eq_Nil_iff)
    have dw: "dropWhile (\<lambda>d. d \<noteq> CHR '' '') ((c # cs) @ rest) = rest"
      using all assms by (subst dropWhile_append2) (auto simp: dropWhile_eq_self_iff)
    have "read_args ((c # cs) @ rest) =
        rev (takeWhile (\<lambda>d. d \<noteq> CHR '' '') ((c # cs) @ rest)) #
          read_args (tl (dropWhile (\<lambda>d. d \<noteq> CHR '' '') ((c # cs) @ rest)))"
      using c by simp
    then have "read_args ((c # cs) @ rest) = arg # read_args (tl rest)"
      unfolding tw dw by (simp add: r [symmetric])
    then show ?thesis using True by (simp add: format_arg_def r)
  next
    case False
    let ?e = "concat (map (\<lambda>c. if c = CHR 0x22 then [CHR 0x5C, CHR 0x22] else [c]) arg)"
    have "format_arg arg = [CHR 0x22] @ ?e @ [CHR 0x22]" using False by (auto simp: format_arg_def)
    then have "rev (format_arg arg) @ rest = CHR 0x22 # rev ?e @ CHR 0x22 # rest" by simp
    then show ?thesis using read_quoted_escaped [OF assms, of "[]" arg] by simp
  qed
qed

lemma join_snoc: "xs \<noteq> [] \<Longrightarrow> join_with sep (xs @ [x]) = join_with sep xs @ sep @ x"
  by (cases xs) (simp_all add: join_with_def)

lemma parse_formatted: "parse_command (formatExecCommand argv) = argv"
proof (induction argv rule: rev_induct)
  case Nil
  then show ?case by (simp add: parse_command_def formatExecCommand_def join_with_def)
next
  case (snoc arg argv)
  show ?case
  proof (cases "argv = []")
    case True
    then show ?thesis using read_formatted [of "[]" arg]
      by (simp add: parse_command_def formatExecCommand_def join_with_def)
  next
    case False
    then have "formatExecCommand (argv @ [arg]) = formatExecCommand argv @ CHR '' '' # format_arg arg"
      by (simp add: formatExecCommand_def join_snoc)
    then show ?thesis using snoc.IH read_formatted [of "CHR '' '' # rev (formatExecCommand argv)" arg]
      by (simp add: parse_command_def)
  qed
qed

text \<open>C37: The text of a command determines its argument list: a reader gets back every argument from the text, with
  blanks, quotes and backslashes wherever they are, empty arguments included. Two commands that are shown
  alike are the same command.\<close>

theorem command_text_roundtrip:
  "parse_command (formatExecCommand argv) = argv"
  by (rule parse_formatted)

section \<open>Plans survive being stored\<close>

lemma nonempty_trim_idem: "nonempty (trim s) = Some t \<Longrightarrow> nonempty (trim t) = Some t"
  by (auto simp: nonempty_def split: if_splits)

lemma nonempty_trim_ne: "nonempty (trim s) = Some t \<Longrightarrow> t \<noteq> []"
  by (auto simp: nonempty_def split: if_splits)

lemma normalized_string:
  "normalizeNonEmptyString v = Some t \<Longrightarrow> normalizeNonEmptyString (JStr t) = Some t"
  by (auto simp: normalizeNonEmptyString_def split: jsval.splits dest: nonempty_trim_idem)

lemma normalized_or_null:
  "(\<And>t. s = Some t \<Longrightarrow> normalizeNonEmptyString (JStr t) = Some t) \<Longrightarrow> normalizeNonEmptyString (string_or_null s) = s"
  by (cases s) (auto simp: string_or_null_def normalizeNonEmptyString_def)

lemma normalized_twice: "normalizeNonEmptyString (string_or_null (normalizeNonEmptyString v)) = normalizeNonEmptyString v"
  by (rule normalized_or_null) (rule normalized_string)

lemma string_array_values: "normalizeStringArray (JArr (map JStr ss)) = ss"
  by (induction ss) (simp_all add: normalizeStringArray_def)

definition plan_ok :: "run_plan \<Rightarrow> bool" where
  "plan_ok p \<longleftrightarrow> rp_argv p \<noteq> [] \<and> nonempty (trim (rp_commandText p)) = Some (rp_commandText p) \<and>
     (\<forall>s \<in> {rp_cwd p, rp_commandPreview p, rp_agentId p, rp_sessionKey p}. normalizeNonEmptyString (string_or_null s) = s) \<and>
     (case rp_operand p of None \<Rightarrow> True
      | Some f \<Rightarrow> nonempty (trim (fo_path f)) = Some (fo_path f) \<and> nonempty (trim (fo_sha256 f)) = Some (fo_sha256 f))"

lemma normalized_JStr: "normalizeNonEmptyString (JStr s) = nonempty (trim s)"
  by (simp add: normalizeNonEmptyString_def)

lemma normalized_text: "normalizeNonEmptyString v = Some t \<Longrightarrow> nonempty (trim t) = Some t"
  using normalized_string normalized_JStr by metis

lemma operand_ok:
  "normalizeSystemRunApprovalFileOperand v = Some (Some f) \<Longrightarrow>
   nonempty (trim (fo_path f)) = Some (fo_path f) \<and> nonempty (trim (fo_sha256 f)) = Some (fo_sha256 f)"
  by (auto simp: normalizeSystemRunApprovalFileOperand_def Let_def dest!: normalized_text
      split: if_splits option.splits jsval.splits)

lemma normalized_plan_ok: "normalizeSystemRunApprovalPlan v = Some p \<Longrightarrow> plan_ok p"
  by (auto simp: normalizeSystemRunApprovalPlan_def plan_ok_def Let_def normalized_twice
      dest!: normalized_text dest: operand_ok split: if_splits option.splits)

lemma operand_roundtrip:
  assumes "case op of None \<Rightarrow> True
      | Some f \<Rightarrow> nonempty (trim (fo_path f)) = Some (fo_path f) \<and> nonempty (trim (fo_sha256 f)) = Some (fo_sha256 f)"
  shows "normalizeSystemRunApprovalFileOperand (operand_value op) = Some op"
  using assms
  by (cases op) (simp_all add: operand_value_def normalizeSystemRunApprovalFileOperand_def object_props_def get_prop_def
      or_default_def normalized_JStr Let_def)

lemma plan_roundtrip: "plan_ok p \<Longrightarrow> normalizeSystemRunApprovalPlan (plan_value p) = Some p"
  by (simp add: plan_ok_def plan_value_def normalizeSystemRunApprovalPlan_def object_props_def get_prop_def or_default_def
      string_array_values normalized_JStr operand_roundtrip Let_def)

section \<open>An approved run is bound to its approval\<close>

definition approval_applies :: "int \<Rightarrow> string option \<Rightarrow> approval_client option \<Rightarrow> exec_request approval_record \<Rightarrow> bool" where
  "approval_applies now nodeId client sn \<longleftrightarrow> now \<le> xr_expiresAtMs sn \<and>
     trimmed_opt nodeId \<noteq> None \<and> trimmed_opt (er_nodeId (xr_request sn)) = trimmed_opt nodeId \<and>
     (if or_default (xr_deviceId sn) [] \<noteq> [] then Option.bind client cl_deviceId = xr_deviceId sn
      else or_default (xr_connId sn) [] = [] \<or> Option.bind client cl_connId = xr_connId sn)"

definition run_matches ::
    "(string \<Rightarrow> string) \<Rightarrow> (string \<Rightarrow> string \<Rightarrow> int) \<Rightarrow> run_binding \<Rightarrow> (string \<times> jsval) list \<Rightarrow> bool" where
  "run_matches sha collate b out \<longleftrightarrow>
     normalizeStringArray (get_prop ''command'' out) = rb_argv b \<and>
     normalizeNonEmptyString (get_prop ''cwd'' out) = rb_cwd b \<and>
     normalizeNonEmptyString (get_prop ''agentId'' out) = rb_agentId b \<and>
     normalizeNonEmptyString (get_prop ''sessionKey'' out) = rb_sessionKey b \<and>
     (let h = fst (buildSystemRunApprovalEnvBinding sha collate (get_prop ''env'' out))
      in rb_envHash b = h \<or> (h = None \<and> rb_envHash b = Some []))"

lemma guard_record_Inr:
  "guard_record now nodeId client runId m = Inr sn \<Longrightarrow>
   getSnapshot runId m = Some sn \<and> approval_applies now nodeId client sn"
  by (auto simp: guard_record_def Let_def approval_applies_def split: option.splits if_splits)

lemma get_prop_update [simp]: "get_prop k (AList.update k' v al) = (if k = k' then v else get_prop k al)"
  by (simp add: get_prop_def update_conv' or_default_def)

lemma get_prop_delete [simp]: "get_prop k (AList.delete k' al) = (if k = k' then JUndef else get_prop k al)"
  by (simp add: get_prop_def delete_conv' or_default_def)

lemma map_of_picked:
  "map_of (List.map_filter (\<lambda>key. map_option (Pair key) (map_of raw key)) ks) k = (if k \<in> set ks then map_of raw k else None)"
  by (induction ks) (auto simp: List.map_filter_simps split: option.splits)

lemma get_prop_picked: "get_prop k (pickSystemRunParams obj) = (if k \<in> set SYSTEM_RUN_PARAM_KEYS then get_prop k obj else JUndef)"
  by (simp add: pickSystemRunParams_def get_prop_def map_of_picked or_default_def)

lemma set_or_delete_prop:
  "normalizeNonEmptyString (string_or_null s) = s \<Longrightarrow>
   normalizeNonEmptyString (get_prop k (set_or_delete k s al)) = s"
  by (cases s) (auto simp: set_or_delete_def string_or_null_def normalizeNonEmptyString_def nonempty_def split: if_splits)

lemma set_or_delete_other: "k \<noteq> k' \<Longrightarrow> get_prop k (set_or_delete k' s al) = get_prop k al"
  by (simp add: set_or_delete_def split: option.splits)

lemma resolved_argv: "resolveSystemRunCommandRequest pf command raw = Inr rc \<Longrightarrow> rc_argv rc = normalizeStringArray command"
  by (auto simp: resolveSystemRunCommandRequest_def resolveSystemRunCommandWithMode_def Let_def
      split: if_splits sum.splits)

lemma runtime_fields:
  assumes "resolveSystemRunApprovalRuntimeContext pf plan command raw cwd agentId sessionKey = Inr rx"
  shows "(case rx_plan rx of
      Some p \<Rightarrow> plan_ok p \<and> rx_argv rx = rp_argv p \<and> rx_cwd rx = rp_cwd p \<and> rx_agentId rx = rp_agentId p \<and>
        rx_sessionKey rx = rp_sessionKey p \<and> rx_commandText rx = rp_commandText p \<and>
        normalizeSystemRunApprovalPlan plan = Some p
    | None \<Rightarrow> rx_argv rx = normalizeStringArray command \<and> rx_cwd rx = normalizeNonEmptyString cwd \<and>
        rx_agentId rx = normalizeNonEmptyString agentId \<and> rx_sessionKey rx = normalizeNonEmptyString sessionKey)"
  using assms by (auto simp: resolveSystemRunApprovalRuntimeContext_def resolved_argv
      dest: normalized_plan_ok split: option.splits sum.splits)

lemma runtime_normalized:
  assumes "resolveSystemRunApprovalRuntimeContext pf plan command raw cwd agentId sessionKey = Inr rx"
  shows "normalizeNonEmptyString (string_or_null (rx_cwd rx)) = rx_cwd rx"
    "normalizeNonEmptyString (string_or_null (rx_agentId rx)) = rx_agentId rx"
    "normalizeNonEmptyString (string_or_null (rx_sessionKey rx)) = rx_sessionKey rx"
  using runtime_fields [OF assms] by (auto simp: plan_ok_def normalized_twice split: option.splits)

text \<open>The run that is forwarded is the one of the context.\<close>

lemma with_plan_fields:
  assumes rx: "resolveSystemRunApprovalRuntimeContext pf plan (get_prop ''command'' obj) (get_prop ''rawCommand'' obj)
      (get_prop ''cwd'' obj) (get_prop ''agentId'' obj) (get_prop ''sessionKey'' obj) = Inr rx"
  defines "out \<equiv> with_plan rx (pickSystemRunParams obj)"
  shows "normalizeStringArray (get_prop ''command'' out) = rx_argv rx"
    "normalizeNonEmptyString (get_prop ''cwd'' out) = rx_cwd rx"
    "normalizeNonEmptyString (get_prop ''agentId'' out) = rx_agentId rx"
    "normalizeNonEmptyString (get_prop ''sessionKey'' out) = rx_sessionKey rx"
    "get_prop ''env'' out = get_prop ''env'' obj"
proof -
  note n = runtime_normalized [OF rx]
  note f = runtime_fields [OF rx]
  have keys: "''command'' \<in> set SYSTEM_RUN_PARAM_KEYS" "''cwd'' \<in> set SYSTEM_RUN_PARAM_KEYS"
    "''agentId'' \<in> set SYSTEM_RUN_PARAM_KEYS" "''sessionKey'' \<in> set SYSTEM_RUN_PARAM_KEYS"
    "''env'' \<in> set SYSTEM_RUN_PARAM_KEYS"
    by (simp_all add: SYSTEM_RUN_PARAM_KEYS_def)
  show "normalizeStringArray (get_prop ''command'' out) = rx_argv rx"
    using f by (auto simp: out_def with_plan_def set_or_delete_other string_array_values get_prop_picked keys split: option.splits)
  show "normalizeNonEmptyString (get_prop ''cwd'' out) = rx_cwd rx"
    using f n(1) by (auto simp: out_def with_plan_def set_or_delete_other set_or_delete_prop get_prop_picked keys split: option.splits)
  show "normalizeNonEmptyString (get_prop ''agentId'' out) = rx_agentId rx"
    using f n(2) by (auto simp: out_def with_plan_def set_or_delete_other set_or_delete_prop get_prop_picked keys split: option.splits)
  show "normalizeNonEmptyString (get_prop ''sessionKey'' out) = rx_sessionKey rx"
    using f n(3) by (auto simp: out_def with_plan_def set_or_delete_other set_or_delete_prop get_prop_picked keys split: option.splits)
  show "get_prop ''env'' out = get_prop ''env'' obj"
    by (auto simp: out_def with_plan_def set_or_delete_other get_prop_picked keys split: option.splits)
qed

lemma env_hash_match:
  assumes "matchSystemRunApprovalEnvHash h (fst e) (snd e) = None" and "e = buildSystemRunApprovalEnvBinding sha collate env"
  shows "h = fst e \<or> (fst e = None \<and> h = Some [])"
  using assms
  by (auto simp: matchSystemRunApprovalEnvHash_def buildSystemRunApprovalEnvBinding_def hashSystemRunEnvEntries_def
      truthy_hash_def Let_def split: if_splits option.splits)

lemma evaluated_match:
  assumes rx: "resolveSystemRunApprovalRuntimeContext pf plan command raw cwd agentId sessionKey = Inr rx"
    and ok: "evaluateSystemRunApprovalMatch sha collate (rx_argv rx) request rx env = None"
  obtains b where "er_host request = Some ''node''" "er_systemRunBinding request = Some b" "rb_argv b = rx_argv rx"
    "rb_cwd b = rx_cwd rx" "rb_agentId b = rx_agentId rx" "rb_sessionKey b = rx_sessionKey rx"
    "rb_envHash b = fst (buildSystemRunApprovalEnvBinding sha collate env) \<or>
      (fst (buildSystemRunApprovalEnvBinding sha collate env) = None \<and> rb_envHash b = Some [])"
proof -
  obtain h keys where e: "buildSystemRunApprovalEnvBinding sha collate env = (h, keys)" by fastforce
  let ?actual = "\<lparr>rb_argv = rx_argv rx, rb_cwd = rx_cwd rx, rb_agentId = rx_agentId rx,
        rb_sessionKey = rx_sessionKey rx, rb_envHash = h\<rparr>"
  have act: "buildSystemRunApprovalBinding sha collate (JArr (map JStr (rx_argv rx))) (string_or_null (rx_cwd rx))
      (string_or_null (rx_agentId rx)) (string_or_null (rx_sessionKey rx)) env = (?actual, keys)"
    unfolding buildSystemRunApprovalBinding_def e Let_def prod.case string_array_values runtime_normalized [OF rx]
    by (rule refl)
  have host: "er_host request = Some ''node''"
    using ok unfolding evaluateSystemRunApprovalMatch_def by (cases "er_host request = Some ''node''") simp_all
  from ok obtain b where b: "er_systemRunBinding request = Some b" "matchSystemRunApprovalBinding b ?actual keys = None"
    unfolding evaluateSystemRunApprovalMatch_def act host Let_def prod.case by (cases "er_systemRunBinding request") simp_all
  have hash: "matchSystemRunApprovalEnvHash (rb_envHash b) h keys = None" and f: "rb_argv b = rx_argv rx" "rb_cwd b = rx_cwd rx"
      "rb_agentId b = rx_agentId rx" "rb_sessionKey b = rx_sessionKey rx"
    using b(2) unfolding matchSystemRunApprovalBinding_def argvMatches_def by (simp_all split: if_splits)
  have "rb_envHash b = h \<or> (h = None \<and> rb_envHash b = Some [])"
    using env_hash_match [OF _ e [symmetric], of "rb_envHash b"] hash by simp
  then show thesis unfolding fst_conv e by (intro that [OF host b(1) f]) (simp add: e)
qed

lemma apsnd_Some_eq: "apsnd Some p = (a, Some b) \<longleftrightarrow> p = (a, b)"
  by (cases p) auto

definition decision_used :: "string \<Rightarrow> approval_client option \<Rightarrow> approvals \<Rightarrow> exec_request approval_record \<Rightarrow> approvals \<Rightarrow> bool" where
  "decision_used runId client m sn m' \<longleftrightarrow>
     (xr_decision sn = Some AllowOnce \<and> consumeAllowOnce runId m = (True, m')) \<or>
     (xr_decision sn = Some AllowAlways \<and> m' = m) \<or>
     (timed_out sn \<and> clientHasApprovals client \<and> m' = m)"

text \<open>The inversion of the check: what held when it let an approved run through.\<close>

lemma forwarded_inv:
  assumes ok: "sanitizeSystemRunParamsForForwarding pf sha collate now nodeId (JObj obj) client (Some m) = (Inr (JObj out), Some m')"
    and approved: "get_prop ''approved'' out \<noteq> JUndef \<or> get_prop ''approvalDecision'' out \<noteq> JUndef"
  obtains runId sn rx b d where "normalizeNonEmptyString (get_prop ''runId'' obj) = Some runId"
    "getSnapshot runId m = Some sn" "approval_applies now nodeId client sn"
    "resolveSystemRunApprovalRuntimeContext pf
       (case er_systemRunPlan (xr_request sn) of None \<Rightarrow> JNull | Some pl \<Rightarrow> plan_value pl)
       (get_prop ''command'' obj) (get_prop ''rawCommand'' obj) (get_prop ''cwd'' obj) (get_prop ''agentId'' obj)
       (get_prop ''sessionKey'' obj) = Inr rx"
    "er_host (xr_request sn) = Some ''node''" "er_systemRunBinding (xr_request sn) = Some b"
    "out = approved_params d (with_plan rx (pickSystemRunParams obj))"
    "run_matches sha collate b out" "decision_used runId client m sn m'"
proof -
  let ?p = "\<lambda>key. get_prop key obj"
  have plain: "get_prop ''approved'' (pickSystemRunParams obj) = JUndef"
      "get_prop ''approvalDecision'' (pickSystemRunParams obj) = JUndef"
    by (simp_all add: get_prop_picked SYSTEM_RUN_PARAM_KEYS_def)
  have override: "?p ''approved'' = JBool True \<or> normalizeApprovalDecision (?p ''approvalDecision'') \<noteq> None"
  proof (rule ccontr)
    assume no: "\<not> ?thesis"
    have "out = pickSystemRunParams obj"
      using ok no unfolding sanitizeSystemRunParamsForForwarding_def object_props_def
      by (simp add: Let_def split: sum.splits)
    then show False using approved plain by simp
  qed
  with ok obtain runId sn where g: "normalizeNonEmptyString (?p ''runId'') = Some runId"
      "guard_record now nodeId client runId m = Inr sn"
      "forward_approved pf sha collate client obj runId sn m = (Inr (JObj out), m')"
  proof -
    have *: "\<not> (?p ''approved'' \<noteq> JBool True \<and> normalizeApprovalDecision (?p ''approvalDecision'') = None)"
      using override by blast
    from ok show thesis
      unfolding sanitizeSystemRunParamsForForwarding_def object_props_def jsval.case option.case Let_def if_not_P [OF *]
      using that by (auto simp: apsnd_Some_eq split: sum.splits option.splits)
  qed
  from g(3) obtain rx where rx: "resolveSystemRunApprovalRuntimeContext pf
         (case er_systemRunPlan (xr_request sn) of None \<Rightarrow> JNull | Some pl \<Rightarrow> plan_value pl)
         (?p ''command'') (?p ''rawCommand'') (?p ''cwd'') (?p ''agentId'') (?p ''sessionKey'') = Inr rx"
      "evaluateSystemRunApprovalMatch sha collate (rx_argv rx) (xr_request sn) rx (?p ''env'') = None"
      "use_decision client runId (?p ''approved'' = JBool True) (normalizeApprovalDecision (?p ''approvalDecision'')) sn
         (with_plan rx (pickSystemRunParams obj)) m = (Inr (JObj out), m')"
    unfolding forward_approved_def Let_def by (auto split: sum.splits option.splits)
  note r = g(1,2) rx(1,2)
  let ?next = "with_plan rx (pickSystemRunParams obj)"
  from rx(3) obtain d where d: "out = approved_params d ?next" "decision_used runId client m sn m'"
    unfolding use_decision_def decision_used_def Let_def by (auto split: if_splits prod.splits)
  from evaluated_match [OF r(3,4)] obtain b where b: "er_host (xr_request sn) = Some ''node''"
      "er_systemRunBinding (xr_request sn) = Some b" "rb_argv b = rx_argv rx" "rb_cwd b = rx_cwd rx"
      "rb_agentId b = rx_agentId rx" "rb_sessionKey b = rx_sessionKey rx"
      "rb_envHash b = fst (buildSystemRunApprovalEnvBinding sha collate (?p ''env'')) \<or>
       (fst (buildSystemRunApprovalEnvBinding sha collate (?p ''env'')) = None \<and> rb_envHash b = Some [])"
    by blast
  have "run_matches sha collate b out"
    using b(3-7) with_plan_fields [OF r(3)] by (simp add: run_matches_def d(1) approved_params_def Let_def)
  with that r(1,3) guard_record_Inr [OF r(2)] b(1,2) d show thesis by blast
qed

text \<open>C15: A run that the gateway forwards as approved is the run that was approved. Whatever a client sends, if the
  forwarded parameters carry an approval then a record is pending under its run id that has not expired and that
  was requested for this node by this device (or connection); its command line, directory, agent, session and
  environment are those the record was bound to; and the record was answered \<open>allow-once\<close>, which this use
  spends, or \<open>allow-always\<close>, or nobody answered and the client may approve commands itself.\<close>

theorem approved_run_is_bound:
  assumes "sanitizeSystemRunParamsForForwarding pf sha collate now nodeId (JObj obj) client (Some m) = (Inr (JObj out), Some m')"
    and "get_prop ''approved'' out \<noteq> JUndef \<or> get_prop ''approvalDecision'' out \<noteq> JUndef"
  shows "\<exists>runId sn b. normalizeNonEmptyString (get_prop ''runId'' obj) = Some runId \<and> getSnapshot runId m = Some sn \<and>
    approval_applies now nodeId client sn \<and> er_host (xr_request sn) = Some ''node'' \<and>
    er_systemRunBinding (xr_request sn) = Some b \<and> run_matches sha collate b out \<and> decision_used runId client m sn m'"
  using forwarded_inv [OF assms] by metis

section \<open>What the operator is shown is what runs\<close>

lemma preview_normalized: "normalizeNonEmptyString (string_or_null (normalizeCommandPreview v t)) = normalizeCommandPreview v t"
proof (rule normalized_or_null)
  fix u assume "normalizeCommandPreview v t = Some u"
  then have "nonempty (trim v) = Some u" by (simp add: normalizeCommandPreview_def split: option.splits if_splits)
  then show "normalizeNonEmptyString (JStr u) = Some u" by (simp add: normalized_JStr nonempty_trim_idem)
qed

lemma request_plan:
  assumes node: "trimmed (rq_host p) = ''node''" and ok: "request_refusal p m = None"
  obtains plan where "er_systemRunPlan (build_request sha collate p) = Some plan" "plan_ok plan"
    "er_command (build_request sha collate p) = sanitizeExecApprovalDisplayText (rp_commandText plan)"
proof -
  have "qc_plan (request_context_of p) \<noteq> None"
    using ok unfolding request_refusal_def Let_def node by (simp split: if_splits)
  then obtain q where q: "normalizeSystemRunApprovalPlan (rq_systemRunPlan p) = Some q"
    by (auto simp: request_context_of_def resolveSystemRunApprovalRequestContext_def Let_def split: if_splits)
  have nn: "normalizeNonEmptyString (JStr ''node'') = Some ''node''" by code_simp
  define plan where "plan = q\<lparr>rp_commandPreview :=
    normalizeCommandPreview (or_default (rp_commandPreview q) (normalizeCommandText (rq_command p))) (rp_commandText q)\<rparr>"
  have qok: "plan_ok q" using normalized_plan_ok [OF q] .
  then have "nonempty (trim (rp_commandText q)) = Some (rp_commandText q)" by (simp add: plan_ok_def)
  then have ne: "rp_commandText q \<noteq> []" by (rule nonempty_trim_ne)
  have c: "qc_plan (request_context_of p) = Some plan" "qc_commandText (request_context_of p) = rp_commandText plan"
    using ne by (simp_all add: request_context_of_def resolveSystemRunApprovalRequestContext_def Let_def node nn q plan_def)
  have "plan_ok plan" using qok preview_normalized by (simp add: plan_ok_def plan_def)
  then show thesis using c by (intro that [of plan]) (simp_all add: build_request_def Let_def)
qed

lemma node_argv:
  assumes run: "parse_system_run pf collate uuid out = Inr pr"
    and fields: "get_prop ''command'' out = JArr (map JStr argv)" "get_prop ''rawCommand'' out = JStr ct"
    and ct: "nonempty (trim ct) = Some ct"
  shows "pr_argv pr = argv \<and>
    (ct = formatExecCommand argv \<or> cd_previewText (buildSystemRunCommandDisplay pf argv) = Some ct)"
proof -
  from run obtain rc where rc: "resolveSystemRunCommandRequest pf (JArr (map JStr argv)) (JStr ct) = Inr rc"
      and argv: "pr_argv pr = rc_argv rc"
    unfolding parse_system_run_def Let_def fields by (auto split: sum.splits if_splits prod.splits)
  have same: "rc_argv rc = argv" using resolved_argv [OF rc] by (simp only: string_array_values)
  have raw: "normalizeRawCommandText (JStr ct) = Some ct" by (simp add: normalizeRawCommandText_def normalized_JStr ct)
  have "argv \<noteq> []"
    using rc unfolding resolveSystemRunCommandRequest_def resolveSystemRunCommandWithMode_def Let_def raw string_array_values
    by (auto split: if_splits)
  then have "validateSystemRunCommandConsistency pf argv (JStr ct) True = Inr (rc_display rc)"
    using rc unfolding resolveSystemRunCommandRequest_def resolveSystemRunCommandWithMode_def Let_def raw string_array_values
    by (auto split: sum.splits)
  then have "ct = cd_commandText (buildSystemRunCommandDisplay pf argv) \<or>
      cd_previewText (buildSystemRunCommandDisplay pf argv) = Some ct"
    unfolding validateSystemRunCommandConsistency_def Let_def raw by (auto split: if_splits)
  then show ?thesis using argv same by (simp add: buildSystemRunCommandDisplay_def Let_def)
qed

lemma forwarded_command:
  assumes "rx_plan rx = Some plan" and "rx_commandText rx = rp_commandText plan" and "rp_commandText plan \<noteq> []"
  shows "get_prop ''command'' (approved_params d (with_plan rx next')) = JArr (map JStr (rp_argv plan))"
    "get_prop ''rawCommand'' (approved_params d (with_plan rx next')) = JStr (rp_commandText plan)"
  using assms by (simp_all add: approved_params_def with_plan_def set_or_delete_other) (simp add: set_or_delete_def)


lemma override_result:
  assumes "get_prop ''approved'' obj = JBool True"
    and "fst (sanitizeSystemRunParamsForForwarding pf sha collate now nodeId (JObj obj) client (Some m)) = Inr v"
  obtains out m' where "sanitizeSystemRunParamsForForwarding pf sha collate now nodeId (JObj obj) client (Some m) =
    (Inr (JObj out), Some m')" "get_prop ''approved'' out = JBool True"
proof -
  from assms obtain runId sn where f: "fst (forward_approved pf sha collate client obj runId sn m) = Inr v"
      "sanitizeSystemRunParamsForForwarding pf sha collate now nodeId (JObj obj) client (Some m) =
       apsnd Some (forward_approved pf sha collate client obj runId sn m)"
    unfolding sanitizeSystemRunParamsForForwarding_def object_props_def jsval.case option.case Let_def assms(1)
    by (auto split: sum.splits option.splits)
  from f(1) obtain d next' where "v = JObj (approved_params d next')"
    unfolding forward_approved_def Let_def use_decision_def
    by (auto split: sum.splits option.splits if_splits prod.splits)
  moreover obtain m' where "forward_approved pf sha collate client obj runId sn m = (Inr v, m')"
    using f(1) by (metis prod.collapse)
  ultimately show thesis using f(2) by (intro that [of "approved_params d next'" m']) (simp_all add: approved_params_def)
qed

text \<open>An approval whose directory comes from the request and not from the plan can never be used. The request
  falls back to its own directory when the plan names none, and binds the record to it; the run under the record
  takes the plan's directory only, so it never matches: no answer of the operator makes the gateway forward an
  approved run.\<close>

theorem plan_fallback_never_runs:
  assumes "fst (request_approval sha collate asked uuid asker p m0) = Inr (rc, promise)" and "trimmed (rq_host p) = ''node''"
    and "normalizeSystemRunApprovalPlan (rq_systemRunPlan p) = Some plan" and "rp_cwd plan = None"
    and "normalizeNonEmptyString (rq_cwd p) = Some dir"
    and "normalizeNonEmptyString (get_prop ''runId'' obj) = Some runId"
    and "getSnapshot runId m = Some sn" and "xr_request sn = xr_request rc" and "get_prop ''approved'' obj = JBool True"
  shows "\<exists>e. fst (sanitizeSystemRunParamsForForwarding pf sha collate now nodeId (JObj obj) client (Some m)) = Inl e"
proof (rule ccontr)
  assume no: "\<not> ?thesis"
  then obtain v where "fst (sanitizeSystemRunParamsForForwarding pf sha collate now nodeId (JObj obj) client (Some m)) = Inr v"
    by (cases "fst (sanitizeSystemRunParamsForForwarding pf sha collate now nodeId (JObj obj) client (Some m))") auto
  from override_result [OF assms(9) this] obtain out m' where
      fwd: "sanitizeSystemRunParamsForForwarding pf sha collate now nodeId (JObj obj) client (Some m) = (Inr (JObj out), Some m')"
      and "get_prop ''approved'' out = JBool True"
    by blast
  then have app: "get_prop ''approved'' out \<noteq> JUndef \<or> get_prop ''approvalDecision'' out \<noteq> JUndef" by simp
  have rq: "xr_request sn = build_request sha collate p"
    using assms(1,8) by (auto simp: request_approval_def Let_def create_def split: option.splits sum.splits prod.splits)
  have nn: "normalizeNonEmptyString (JStr ''node'') = Some ''node''" by code_simp
  have dir: "normalizeNonEmptyString (string_or_null (Some dir)) = Some dir"
    using assms(5) by (simp add: string_or_null_def normalized_string)
  have ctx: "qc_cwd (request_context_of p) = Some dir"
      "\<exists>pl. qc_plan (request_context_of p) = Some pl \<and> rp_cwd pl = None \<and> plan_ok pl"
    using assms(3-5) normalized_plan_ok [OF assms(3)] preview_normalized
    by (simp_all add: request_context_of_def resolveSystemRunApprovalRequestContext_def Let_def assms(2) nn plan_or_def plan_ok_def)
  then obtain pl where pl: "er_systemRunPlan (xr_request sn) = Some pl" "rp_cwd pl = None" "plan_ok pl"
    unfolding rq by (auto simp: build_request_def Let_def)
  have cwd: "map_option rb_cwd (er_systemRunBinding (xr_request sn)) = Some (Some dir)"
    unfolding rq build_request_def Let_def buildSystemRunApprovalBinding_def ctx(1) assms(2)
    by (simp add: dir split: prod.splits)
  show False
  proof (rule forwarded_inv [OF fwd app])
    fix runId' sn' rx b d
    assume h: "normalizeNonEmptyString (get_prop ''runId'' obj) = Some runId'" "getSnapshot runId' m = Some sn'"
      "resolveSystemRunApprovalRuntimeContext pf
         (case er_systemRunPlan (xr_request sn') of None \<Rightarrow> JNull | Some pl \<Rightarrow> plan_value pl)
         (get_prop ''command'' obj) (get_prop ''rawCommand'' obj) (get_prop ''cwd'' obj) (get_prop ''agentId'' obj)
         (get_prop ''sessionKey'' obj) = Inr rx"
      "er_systemRunBinding (xr_request sn') = Some b"
      "out = approved_params d (with_plan rx (pickSystemRunParams obj))" "run_matches sha collate b out"
    have eq: "sn' = sn" using h(1,2) assms(6,7) by simp
    have "rx_cwd rx = None" using h(3) plan_roundtrip [OF pl(3)] pl(1,2) unfolding eq
      by (auto simp: resolveSystemRunApprovalRuntimeContext_def)
    then have "normalizeNonEmptyString (get_prop ''cwd'' out) = None"
      using with_plan_fields(2) [OF h(3)] by (simp add: h(5) approved_params_def)
    then have "rb_cwd b = None" using h(6) by (simp add: run_matches_def)
    then show False using cwd h(4) unfolding eq by simp
  qed
qed

section \<open>An example\<close>

definition no_sha :: "string \<Rightarrow> string" where
  "no_sha s = s"

definition no_collation :: "string \<Rightarrow> string \<Rightarrow> int" where
  "no_collation a b = 0"

definition example_client :: "approval_client option" where
  "example_client = Some \<lparr>cl_connId = Some ''c'', cl_scopes = JArr [JStr ''operator.write''], cl_deviceId = Some ''d'',
     cl_clientId = Some ''agent'', cl_displayName = None\<rparr>"

definition example_argv :: "string list" where
  "example_argv = [''cat'', ''a b'']"

definition example_asked :: request_params where
  "example_asked = \<lparr>rq_id = None, rq_command = JUndef, rq_commandArgv = JUndef, rq_env = JUndef, rq_cwd = JUndef,
     rq_systemRunPlan = JObj [(''argv'', JArr (map JStr example_argv)), (''commandText'', JStr (formatExecCommand example_argv))],
     rq_nodeId = Some ''n'', rq_host = Some ''node'', rq_security = None, rq_ask = None, rq_agentId = JUndef,
     rq_resolvedPath = None, rq_sessionKey = JUndef, rq_turnSourceChannel = None, rq_turnSourceTo = None,
     rq_turnSourceAccountId = None, rq_turnSourceThreadId = JUndef, rq_timeoutMs = None, rq_twoPhase = True\<rparr>"

definition example_pending :: approvals where
  "example_pending = snd (request_approval no_sha no_collation 0 ''u'' example_client example_asked empty_manager)"

definition example_answered :: approvals where
  "example_answered = snd (answer_approval 5 None ''u'' ''allow-once'' example_pending)"

definition example_run :: "(string \<times> jsval) list" where
  "example_run = [(''runId'', JStr ''u''), (''approved'', JBool True), (''command'', JArr [JStr ''rm'']), (''cwd'', JStr ''/w'')]"

definition example_forward :: "(run_failure + jsval) \<times> approvals option" where
  "example_forward = sanitizeSystemRunParamsForForwarding ''linux'' no_sha no_collation 10 (Some ''n'') (JObj example_run)
     example_client (Some example_answered)"

definition example_out :: "(string \<times> jsval) list" where
  "example_out = (case fst example_forward of Inr (JObj out) \<Rightarrow> out | _ \<Rightarrow> [])"

definition example_spent :: approvals where
  "example_spent = (case snd example_forward of Some m \<Rightarrow> m | None \<Rightarrow> empty_manager)"

lemma example_forwarded:
  "sanitizeSystemRunParamsForForwarding ''linux'' no_sha no_collation 10 (Some ''n'') (JObj example_run) example_client
     (Some example_answered) = (Inr (JObj example_out), Some example_spent)"
  "get_prop ''approved'' example_out = JBool True"
  by code_simp+

theorem approved_run_is_bound_witness:
  "\<exists>runId sn b. normalizeNonEmptyString (get_prop ''runId'' example_run) = Some runId \<and>
    getSnapshot runId example_answered = Some sn \<and> approval_applies 10 (Some ''n'') example_client sn \<and>
    er_host (xr_request sn) = Some ''node'' \<and> er_systemRunBinding (xr_request sn) = Some b \<and>
    run_matches no_sha no_collation b example_out \<and> decision_used runId example_client example_answered sn example_spent"
  by (rule approved_run_is_bound [OF example_forwarded(1)]) (simp add: example_forwarded(2))

definition example_record :: "exec_request approval_record" where
  "example_record = (case getSnapshot ''u'' example_answered of Some sn \<Rightarrow> sn | None \<Rightarrow> create 0 [] (build_request no_sha no_collation example_asked) 0 None)"


definition stranded :: request_params where
  "stranded = example_asked\<lparr>rq_cwd := JStr ''/w''\<rparr>"

definition stranded_pending :: approvals where
  "stranded_pending = snd (answer_approval 5 None ''u'' ''allow-once''
     (snd (request_approval no_sha no_collation 0 ''u'' example_client stranded empty_manager)))"

theorem plan_fallback_never_runs_witness:
  "\<exists>e. fst (sanitizeSystemRunParamsForForwarding ''linux'' no_sha no_collation 10 (Some ''n'') (JObj example_run)
     example_client (Some stranded_pending)) = Inl e"
proof -
  let ?sn = "case getSnapshot ''u'' stranded_pending of Some sn \<Rightarrow> sn | None \<Rightarrow> create 0 [] (build_request no_sha no_collation stranded) 0 None"
  obtain rc promise where a: "fst (request_approval no_sha no_collation 0 ''u'' example_client stranded empty_manager) = Inr (rc, promise)"
      and same: "xr_request rc = xr_request ?sn"
  proof -
    have "(case fst (request_approval no_sha no_collation 0 ''u'' example_client stranded empty_manager) of
        Inr (rc, promise) \<Rightarrow> xr_request rc = xr_request ?sn | Inl e \<Rightarrow> False)" by code_simp
    then show thesis using that by (auto split: sum.splits)
  qed
  obtain plan where plan: "normalizeSystemRunApprovalPlan (rq_systemRunPlan stranded) = Some plan" "rp_cwd plan = None"
  proof -
    have "(case normalizeSystemRunApprovalPlan (rq_systemRunPlan stranded) of Some plan \<Rightarrow> rp_cwd plan = None | None \<Rightarrow> False)"
      by code_simp
    then show thesis using that by (auto split: option.splits)
  qed
  have c: "trimmed (rq_host stranded) = ''node''" "normalizeNonEmptyString (rq_cwd stranded) = Some ''/w''"
      "normalizeNonEmptyString (get_prop ''runId'' example_run) = Some ''u''" "getSnapshot ''u'' stranded_pending = Some ?sn"
      "get_prop ''approved'' example_run = JBool True"
    by code_simp+
  show ?thesis by (rule plan_fallback_never_runs [OF a c(1) plan c(2-4) same [symmetric] c(5)])
qed

end
