(* ===== verification/AuthProfiles.thy ===== *)
theory AuthProfiles
  imports Prelude
begin

text \<open>
  The store of provider credentials: \<open>src/agents/auth-profiles/types.ts\<close>, the names of providers
  (\<open>src/agents/provider-id.ts\<close>), references to secrets (\<open>src/config/types.secrets.ts\<close>), which credentials can be
  used (\<open>auth-profiles/credential-state.ts\<close>) and the operations of \<open>auth-profiles/profiles.ts\<close>.

  A store is a JSON object; its objects are association lists in insertion order. Descriptive fields of a credential
  (email, display name, metadata) are left out. Times are rationals: a configured back-off may be a fraction of an hour.
\<close>

section \<open>Providers\<close>

definition normalizeProviderId :: "string \<Rightarrow> string" where
  "normalizeProviderId provider =
     (let normalized = to_lower (trim provider) in
      if normalized = ''z.ai'' \<or> normalized = ''z-ai'' then ''zai''
      else if normalized = ''opencode-zen'' then ''opencode''
      else if normalized = ''opencode-go-auth'' then ''opencode-go''
      else if normalized = ''kimi'' \<or> normalized = ''kimi-code'' \<or> normalized = ''kimi-coding'' then ''kimi''
      else if normalized = ''bedrock'' \<or> normalized = ''aws-bedrock'' then ''amazon-bedrock''
      else if normalized = ''bytedance'' \<or> normalized = ''doubao'' then ''volcengine''
      else normalized)"

definition normalizeProviderIdForAuth :: "string \<Rightarrow> string" where
  "normalizeProviderIdForAuth provider =
     (let normalized = normalizeProviderId provider in
      if normalized = ''volcengine-plan'' then ''volcengine''
      else if normalized = ''byteplus-plan'' then ''byteplus''
      else normalized)"

definition findNormalizedProviderValue :: "(string \<times> 'a) list option \<Rightarrow> string \<Rightarrow> 'a option" where
  "findNormalizedProviderValue entries provider =
     map_option snd (List.find (\<lambda>(key, v). normalizeProviderId key = normalizeProviderId provider) (or_default entries []))"

definition findNormalizedProviderKey :: "(string \<times> 'a) list option \<Rightarrow> string \<Rightarrow> string option" where
  "findNormalizedProviderKey entries provider =
     List.find (\<lambda>key. normalizeProviderId key = normalizeProviderId provider) (map fst (or_default entries []))"

section \<open>References to secrets\<close>

datatype secret_source = SecretEnv | SecretFile | SecretExec

record secret_ref =
  sr_source :: secret_source
  sr_provider :: string
  sr_id :: string

definition record_props :: "jsval \<Rightarrow> (string \<times> jsval) list option" where
  "record_props v = (case v of JObj kvs \<Rightarrow> Some kvs | JErr n m \<Rightarrow> Some [] | _ \<Rightarrow> None)"

definition secret_source_of :: "jsval \<Rightarrow> secret_source option" where
  "secret_source_of v =
     (if v = JStr ''env'' then Some SecretEnv
      else if v = JStr ''file'' then Some SecretFile
      else if v = JStr ''exec'' then Some SecretExec else None)"

definition nonblank :: "jsval \<Rightarrow> string option" where
  "nonblank v = (case v of JStr s \<Rightarrow> if trim s = [] then None else Some s | _ \<Rightarrow> None)"

definition isSecretRef :: "jsval \<Rightarrow> secret_ref option" where
  "isSecretRef value =
     (case record_props value of
        None \<Rightarrow> None
      | Some kvs \<Rightarrow>
          if length kvs \<noteq> 3 then None
          else (case (secret_source_of (get_prop ''source'' kvs), nonblank (get_prop ''provider'' kvs), nonblank (get_prop ''id'' kvs)) of
                  (Some s, Some p, Some i) \<Rightarrow> Some \<lparr>sr_source = s, sr_provider = p, sr_id = i\<rparr>
                | _ \<Rightarrow> None))"

definition DEFAULT_SECRET_PROVIDER_ALIAS :: string where
  "DEFAULT_SECRET_PROVIDER_ALIAS = ''default''"

definition isLegacySecretRefWithoutProvider :: "jsval \<Rightarrow> (secret_source \<times> string) option" where
  "isLegacySecretRefWithoutProvider value =
     (case record_props value of
        None \<Rightarrow> None
      | Some kvs \<Rightarrow>
          (case (secret_source_of (get_prop ''source'' kvs), nonblank (get_prop ''id'' kvs)) of
             (Some s, Some i) \<Rightarrow> if get_prop ''provider'' kvs = JUndef then Some (s, i) else None
           | _ \<Rightarrow> None))"

text \<open>\<open>[A-Z][A-Z0-9_]{0,127}\<close>.\<close>

definition is_upper :: "char \<Rightarrow> bool" where
  "is_upper c = (let n = (of_char c :: nat) in 65 \<le> n \<and> n \<le> 90)"

definition isValidEnvSecretRefId :: "string \<Rightarrow> bool" where
  "isValidEnvSecretRefId s =
     (case s of [] \<Rightarrow> False
      | c # cs \<Rightarrow> is_upper c \<and> length cs \<le> 127 \<and> list_all (\<lambda>d. is_upper d \<or> is_digit d \<or> d = CHR ''_'') cs)"

definition parseEnvTemplateSecretRef :: "jsval \<Rightarrow> secret_ref option" where
  "parseEnvTemplateSecretRef value =
     (case value of
        JStr v \<Rightarrow>
          let t = trim v in
          if starts_with t ''${'' \<and> ends_with t ''}'' \<and> isValidEnvSecretRefId (butlast (drop 2 t))
          then Some \<lparr>sr_source = SecretEnv, sr_provider = DEFAULT_SECRET_PROVIDER_ALIAS, sr_id = butlast (drop 2 t)\<rparr>
          else None
      | _ \<Rightarrow> None)"

text \<open>Without configured defaults, as every caller modelled here uses it.\<close>

definition coerceSecretRef :: "jsval \<Rightarrow> secret_ref option" where
  "coerceSecretRef value =
     (case isSecretRef value of
        Some r \<Rightarrow> Some r
      | None \<Rightarrow>
          (case isLegacySecretRefWithoutProvider value of
             Some (s, i) \<Rightarrow> Some \<lparr>sr_source = s, sr_provider = DEFAULT_SECRET_PROVIDER_ALIAS, sr_id = i\<rparr>
           | None \<Rightarrow> parseEnvTemplateSecretRef value))"

definition normalizeSecretInputString :: "jsval \<Rightarrow> string option" where
  "normalizeSecretInputString value = (case value of JStr s \<Rightarrow> nonempty (trim s) | _ \<Rightarrow> None)"

section \<open>The store\<close>

datatype auth_credential =
    ApiKeyCredential (cred_provider: string) (cred_key: jsval) (cred_keyRef: jsval)
  | TokenCredential (cred_provider: string) (cred_token: jsval) (cred_tokenRef: jsval) (cred_expires: jsval)
  | OAuthCredential (cred_provider: string) (cred_access: jsval) (cred_refresh: jsval) (cred_accountId: "string option")

datatype auth_mode = ApiKeyMode | TokenMode | OAuthMode

definition cred_type :: "auth_credential \<Rightarrow> auth_mode" where
  "cred_type c = (case c of ApiKeyCredential p k r \<Rightarrow> ApiKeyMode | TokenCredential p t r e \<Rightarrow> TokenMode
     | OAuthCredential p a r i \<Rightarrow> OAuthMode)"

datatype failure_reason = FrAuth | FrAuthPermanent | FrFormat | FrOverloaded | FrRateLimit | FrBilling | FrTimeout
  | FrModelNotFound | FrSessionExpired | FrUnknown

record usage_stats =
  us_lastUsed :: "rat option"
  us_cooldownUntil :: "rat option"
  us_cooldownReason :: "failure_reason option"
  us_cooldownModel :: "string option"
  us_disabledUntil :: "rat option"
  us_disabledReason :: "failure_reason option"
  us_errorCount :: "nat option"
  us_failureCounts :: "(failure_reason \<times> nat) list option"
  us_lastFailureAt :: "rat option"

definition empty_stats :: usage_stats where
  "empty_stats = \<lparr>us_lastUsed = None, us_cooldownUntil = None, us_cooldownReason = None, us_cooldownModel = None,
     us_disabledUntil = None, us_disabledReason = None, us_errorCount = None, us_failureCounts = None,
     us_lastFailureAt = None\<rparr>"

record auth_store =
  as_profiles :: "(string \<times> auth_credential) list"
  as_order :: "(string \<times> string list) list option"
  as_lastGood :: "(string \<times> string) list option"
  as_usageStats :: "(string \<times> usage_stats) list option"

definition profile_at :: "auth_store \<Rightarrow> string \<Rightarrow> auth_credential option" where
  "profile_at store profileId = map_of (as_profiles store) profileId"

definition stats_at :: "auth_store \<Rightarrow> string \<Rightarrow> usage_stats option" where
  "stats_at store profileId = map_of (or_default (as_usageStats store) []) profileId"

text \<open>
  \<open>updateAuthProfileStoreWithLock\<close>: under the lock the store is read afresh, changed and saved; \<open>None\<close> when the lock
  or the file failed. The result is the fresh store after the updater and what was saved.
\<close>

definition update_with_lock ::
    "auth_store option \<Rightarrow> (auth_store \<Rightarrow> bool \<times> auth_store) \<Rightarrow> auth_store option \<times> auth_store option" where
  "update_with_lock fresh updater =
     (case fresh of
        None \<Rightarrow> (None, None)
      | Some st \<Rightarrow> let (shouldSave, st1) = updater st in (Some st1, if shouldSave then Some st1 else None))"

section \<open>Which credentials can be used\<close>

datatype expiry_state = ExpiryMissing | ExpiryValid | ExpiryExpired | ExpiryInvalid

definition resolveTokenExpiryState :: "rat \<Rightarrow> jsval \<Rightarrow> expiry_state" where
  "resolveTokenExpiryState now expires =
     (case expires of
        JUndef \<Rightarrow> ExpiryMissing
      | JNum e \<Rightarrow> if e \<le> 0 then ExpiryInvalid else if now \<ge> e then ExpiryExpired else ExpiryValid
      | _ \<Rightarrow> ExpiryInvalid)"

datatype credential_reason = CredOk | CredMissing | CredInvalidExpires | CredExpired
  | ProfileMissing | ProviderMismatch | ModeMismatch

definition secret_configured :: "jsval \<Rightarrow> jsval \<Rightarrow> bool" where
  "secret_configured value ref' = (normalizeSecretInputString value \<noteq> None \<or> coerceSecretRef ref' \<noteq> None)"

text \<open>The reason; only \<open>CredOk\<close> is eligible.\<close>

definition evaluateStoredCredentialEligibility :: "rat \<Rightarrow> auth_credential \<Rightarrow> credential_reason" where
  "evaluateStoredCredentialEligibility now credential =
     (case credential of
        ApiKeyCredential p key keyRef \<Rightarrow> if secret_configured key keyRef then CredOk else CredMissing
      | TokenCredential p token tokenRef expires \<Rightarrow>
          if \<not> secret_configured token tokenRef then CredMissing
          else (case resolveTokenExpiryState now expires of
                  ExpiryInvalid \<Rightarrow> CredInvalidExpires
                | ExpiryExpired \<Rightarrow> CredExpired
                | _ \<Rightarrow> CredOk)
      | OAuthCredential p access refresh account \<Rightarrow>
          if normalizeSecretInputString access = None \<and> normalizeSecretInputString refresh = None then CredMissing
          else CredOk)"

section \<open>Operations on profiles\<close>

definition dedupeProfileIds :: "string list \<Rightarrow> string list" where
  "dedupeProfileIds profileIds = rev (remdups (rev profileIds))"

definition normalizeStringEntries :: "string list \<Rightarrow> string list" where
  "normalizeStringEntries order = filter (\<lambda>s. s \<noteq> []) (map trim order)"

text \<open>What changes under the lock; the order of a provider that gets no entry is removed.\<close>

definition put_order :: "string \<Rightarrow> string list \<Rightarrow> auth_store \<Rightarrow> bool \<times> auth_store" where
  "put_order providerKey deduped store =
     (let order = or_default (as_order store) [] in
      if deduped = [] then
        (case map_of order providerKey of
           None \<Rightarrow> (False, store\<lparr>as_order := Some order\<rparr>)
         | Some old \<Rightarrow>
             (let left = AList.delete providerKey order in
              (True, store\<lparr>as_order := (if left = [] then None else Some left)\<rparr>)))
      else (True, store\<lparr>as_order := Some (AList.update providerKey deduped order)\<rparr>))"

definition setAuthProfileOrder ::
    "string \<Rightarrow> string list option \<Rightarrow> auth_store option \<Rightarrow> auth_store option \<times> auth_store option" where
  "setAuthProfileOrder provider order fresh =
     update_with_lock fresh
       (put_order (normalizeProviderId provider) (dedupeProfileIds (normalizeStringEntries (or_default order []))))"

definition put_profile :: "string \<Rightarrow> auth_credential \<Rightarrow> auth_store \<Rightarrow> auth_store" where
  "put_profile profileId credential store = store\<lparr>as_profiles := AList.update profileId credential (as_profiles store)\<rparr>"

definition upsertAuthProfileWithLock ::
    "string \<Rightarrow> auth_credential \<Rightarrow> auth_store option \<Rightarrow> auth_store option \<times> auth_store option" where
  "upsertAuthProfileWithLock profileId credential fresh =
     update_with_lock fresh (\<lambda>store. (True, put_profile profileId credential store))"

definition listProfilesForProvider :: "auth_store \<Rightarrow> string \<Rightarrow> string list" where
  "listProfilesForProvider store provider =
     map fst (filter (\<lambda>(i, cred). normalizeProviderIdForAuth (cred_provider cred) = normalizeProviderIdForAuth provider)
       (as_profiles store))"

definition put_last_good :: "string \<Rightarrow> string \<Rightarrow> auth_store \<Rightarrow> bool \<times> auth_store" where
  "put_last_good provider profileId store =
     (case profile_at store profileId of
        None \<Rightarrow> (False, store)
      | Some profile \<Rightarrow>
          if cred_provider profile \<noteq> provider then (False, store)
          else (True, store\<lparr>as_lastGood := Some (AList.update provider profileId (or_default (as_lastGood store) []))\<rparr>))"

text \<open>The caller's store afterwards, and what was saved.\<close>

definition markAuthProfileGood ::
    "string \<Rightarrow> string \<Rightarrow> auth_store option \<Rightarrow> auth_store \<Rightarrow> auth_store \<times> auth_store option" where
  "markAuthProfileGood provider profileId fresh store =
     (case update_with_lock fresh (put_last_good provider profileId) of
        (Some updated, saved) \<Rightarrow> (store\<lparr>as_lastGood := as_lastGood updated\<rparr>, saved)
      | (None, saved) \<Rightarrow>
          (case put_last_good provider profileId store of
             (False, st) \<Rightarrow> (store, None)
           | (True, st) \<Rightarrow> (st, Some st)))"

end
