(* ===== verification/AuthUsage.thy ===== *)
theory AuthUsage
  imports AuthProfiles
begin

text \<open>
  Cooldowns of credentials: \<open>src/agents/auth-profiles/usage.ts\<close>. A transient failure puts a profile in cooldown, a
  billing or permanent authentication failure disables it; both are windows on the clock in the profile's usage
  statistics. Every function gets the instant of its clock reading. The probe of the provider's usage page is an HTTP
  request whose outcome is an argument.
\<close>

section \<open>Reasons\<close>

definition FAILURE_REASON_PRIORITY :: "failure_reason list" where
  "FAILURE_REASON_PRIORITY = [FrAuthPermanent, FrAuth, FrBilling, FrFormat, FrModelNotFound, FrOverloaded, FrTimeout,
     FrRateLimit, FrUnknown]"

definition isAuthCooldownBypassedForProvider :: "string option \<Rightarrow> bool" where
  "isAuthCooldownBypassedForProvider provider =
     (let normalized = normalizeProviderId (or_default provider []) in
      normalized = ''openrouter'' \<or> normalized = ''kilocode'')"

definition shouldProbeWhamForFailure :: "string option \<Rightarrow> failure_reason \<Rightarrow> bool" where
  "shouldProbeWhamForFailure provider reason =
     (normalizeProviderId (or_default provider []) = ''openai-codex'' \<and> (reason = FrRateLimit \<or> reason = FrUnknown))"

section \<open>The usage probe\<close>

definition WHAM_BURST_COOLDOWN_MS :: rat where "WHAM_BURST_COOLDOWN_MS = 15000"
definition WHAM_PROBE_FAILURE_COOLDOWN_MS :: rat where "WHAM_PROBE_FAILURE_COOLDOWN_MS = 30000"
definition WHAM_HTTP_ERROR_COOLDOWN_MS :: rat where "WHAM_HTTP_ERROR_COOLDOWN_MS = 300000"
definition WHAM_TOKEN_EXPIRED_COOLDOWN_MS :: rat where "WHAM_TOKEN_EXPIRED_COOLDOWN_MS = 43200000"
definition WHAM_DEAD_ACCOUNT_COOLDOWN_MS :: rat where "WHAM_DEAD_ACCOUNT_COOLDOWN_MS = 86400000"
definition WHAM_TEAM_ROLLING_MAX_COOLDOWN_MS :: rat where "WHAM_TEAM_ROLLING_MAX_COOLDOWN_MS = 7200000"
definition WHAM_PERSONAL_MAX_COOLDOWN_MS :: rat where "WHAM_PERSONAL_MAX_COOLDOWN_MS = 14400000"
definition WHAM_TEAM_WEEKLY_MAX_COOLDOWN_MS :: rat where "WHAM_TEAM_WEEKLY_MAX_COOLDOWN_MS = 14400000"

text \<open>The numbers of the answer; \<open>None\<close> when a field is absent or no finite number.\<close>

record wham_window =
  ww_usedPercent :: "rat option"
  ww_resetAt :: "rat option"
  ww_resetAfterSeconds :: "rat option"

record wham_limit =
  wl_limitReached :: "bool option"
  wl_primary :: "wham_window option"
  wl_secondary :: "wham_window option"

datatype wham_response = WhamThrew | WhamHttpError nat | WhamBody "wham_limit option"

definition resolveWhamResetMs :: "wham_window option \<Rightarrow> rat \<Rightarrow> rat option" where
  "resolveWhamResetMs window now =
     (case window of
        None \<Rightarrow> None
      | Some w \<Rightarrow>
          (case ww_resetAfterSeconds w of
             Some s \<Rightarrow> if s > 0 then Some (s * 1000)
               else (case ww_resetAt w of Some a \<Rightarrow> if a > 0 then Some (max 0 (a * 1000 - now)) else None | None \<Rightarrow> None)
           | None \<Rightarrow> (case ww_resetAt w of Some a \<Rightarrow> if a > 0 then Some (max 0 (a * 1000 - now)) else None | None \<Rightarrow> None)))"

definition isWhamWindowExhausted :: "wham_window option \<Rightarrow> bool" where
  "isWhamWindowExhausted window =
     (case window of None \<Rightarrow> False | Some w \<Rightarrow> (case ww_usedPercent w of None \<Rightarrow> False | Some p \<Rightarrow> p \<ge> 100))"

definition half_capped :: "rat option \<Rightarrow> rat \<Rightarrow> rat" where
  "half_capped resetMs cap =
     (case resetMs of None \<Rightarrow> WHAM_PROBE_FAILURE_COOLDOWN_MS | Some r \<Rightarrow> min (of_int \<lfloor>r / 2\<rfloor>) cap)"

text \<open>The cooldown that an answer calls for.\<close>

definition wham_cooldown :: "rat \<Rightarrow> wham_response \<Rightarrow> rat" where
  "wham_cooldown now res =
     (case res of
        WhamThrew \<Rightarrow> WHAM_PROBE_FAILURE_COOLDOWN_MS
      | WhamHttpError status \<Rightarrow>
          if status = 401 then WHAM_TOKEN_EXPIRED_COOLDOWN_MS
          else if status = 403 then WHAM_DEAD_ACCOUNT_COOLDOWN_MS
          else WHAM_HTTP_ERROR_COOLDOWN_MS
      | WhamBody None \<Rightarrow> WHAM_PROBE_FAILURE_COOLDOWN_MS
      | WhamBody (Some data) \<Rightarrow>
          if wl_limitReached data = Some False then WHAM_BURST_COOLDOWN_MS
          else (let primaryResetMs = resolveWhamResetMs (wl_primary data) now;
                    secondaryResetMs = resolveWhamResetMs (wl_secondary data) now
            in if wl_secondary data = None then half_capped primaryResetMs WHAM_PERSONAL_MAX_COOLDOWN_MS
               else if isWhamWindowExhausted (wl_secondary data)
                 then half_capped secondaryResetMs WHAM_TEAM_WEEKLY_MAX_COOLDOWN_MS
               else if isWhamWindowExhausted (wl_primary data)
                 then half_capped primaryResetMs WHAM_TEAM_ROLLING_MAX_COOLDOWN_MS
               else WHAM_PROBE_FAILURE_COOLDOWN_MS))"

definition probeWhamForCooldown :: "auth_store \<Rightarrow> string \<Rightarrow> rat \<Rightarrow> wham_response \<Rightarrow> rat option" where
  "probeWhamForCooldown store profileId now res =
     (case profile_at store profileId of
        Some (OAuthCredential p (JStr access) refresh account) \<Rightarrow>
          if access = [] then None else Some (wham_cooldown now res)
      | _ \<Rightarrow> None)"

text \<open>\<open>existing.cooldownUntil\<close> while it is ahead of the clock, otherwise \<open>0\<close>.\<close>

definition applyWhamCooldownResult :: "usage_stats \<Rightarrow> usage_stats \<Rightarrow> rat \<Rightarrow> rat \<Rightarrow> usage_stats" where
  "applyWhamCooldownResult existing computed now cooldownMs =
     (let existingActive = (case us_cooldownUntil existing of Some u \<Rightarrow> if u > now then u else 0 | None \<Rightarrow> 0)
      in computed\<lparr>us_cooldownUntil := Some (max existingActive (now + cooldownMs))\<rparr>)"

section \<open>Windows\<close>

definition positive_until :: "rat option \<Rightarrow> rat list" where
  "positive_until u = (case u of Some v \<Rightarrow> if v > 0 then [v] else [] | None \<Rightarrow> [])"

definition resolveProfileUnusableUntil :: "usage_stats \<Rightarrow> rat option" where
  "resolveProfileUnusableUntil stats =
     (case positive_until (us_cooldownUntil stats) @ positive_until (us_disabledUntil stats) of
        [] \<Rightarrow> None
      | v # vs \<Rightarrow> Some (foldl max v vs))"

definition isActiveUnusableWindow :: "rat option \<Rightarrow> rat \<Rightarrow> bool" where
  "isActiveUnusableWindow until' now = (case until' of None \<Rightarrow> False | Some u \<Rightarrow> u > 0 \<and> now < u)"

definition shouldBypassModelScopedCooldown :: "usage_stats \<Rightarrow> rat \<Rightarrow> string option \<Rightarrow> bool" where
  "shouldBypassModelScopedCooldown stats now forModel =
     (or_default forModel [] \<noteq> [] \<and> us_cooldownReason stats = Some FrRateLimit \<and>
      or_default (us_cooldownModel stats) [] \<noteq> [] \<and> us_cooldownModel stats \<noteq> forModel \<and>
      \<not> isActiveUnusableWindow (us_disabledUntil stats) now)"

definition provider_of :: "auth_store \<Rightarrow> string \<Rightarrow> string option" where
  "provider_of store profileId = map_option cred_provider (profile_at store profileId)"

definition isProfileInCooldown :: "auth_store \<Rightarrow> string \<Rightarrow> rat \<Rightarrow> string option \<Rightarrow> bool" where
  "isProfileInCooldown store profileId now forModel =
     (if isAuthCooldownBypassedForProvider (provider_of store profileId) then False
      else case stats_at store profileId of
        None \<Rightarrow> False
      | Some stats \<Rightarrow>
          if shouldBypassModelScopedCooldown stats now forModel then False
          else (case resolveProfileUnusableUntil stats of None \<Rightarrow> False | Some u \<Rightarrow> now < u))"

definition resolveProfileUnusableUntilForDisplay :: "auth_store \<Rightarrow> string \<Rightarrow> rat option" where
  "resolveProfileUnusableUntilForDisplay store profileId =
     (if isAuthCooldownBypassedForProvider (provider_of store profileId) then None
      else Option.bind (stats_at store profileId) resolveProfileUnusableUntil)"

text \<open>The scores of the reasons, in the order in which they appear.\<close>

definition addScore :: "failure_reason \<Rightarrow> nat \<Rightarrow> (failure_reason \<times> nat) list \<Rightarrow> (failure_reason \<times> nat) list" where
  "addScore reason value scores =
     (if reason \<notin> set FAILURE_REASON_PRIORITY \<or> value = 0 then scores
      else AList.update reason (or_default (map_of scores reason) 0 + value) scores)"

definition counted_reasons :: "usage_stats \<Rightarrow> (failure_reason \<times> nat) list" where
  "counted_reasons stats =
     filter (\<lambda>(reason, n). reason \<in> set FAILURE_REASON_PRIORITY \<and> n > 0) (or_default (us_failureCounts stats) [])"

definition score_cooldown :: "rat \<Rightarrow> usage_stats \<Rightarrow> (failure_reason \<times> nat) list \<Rightarrow> (failure_reason \<times> nat) list" where
  "score_cooldown now stats scores =
     (if \<not> isActiveUnusableWindow (us_cooldownUntil stats) now then scores
      else if counted_reasons stats = [] then addScore FrUnknown 1 scores
      else foldl (\<lambda>acc (reason, n). addScore reason n acc) scores (counted_reasons stats))"

definition score_profile :: "rat \<Rightarrow> usage_stats \<Rightarrow> (failure_reason \<times> nat) list \<Rightarrow> (failure_reason \<times> nat) list" where
  "score_profile now stats scores =
     (case us_disabledReason stats of
        Some r \<Rightarrow>
          if isActiveUnusableWindow (us_disabledUntil stats) now \<and> r \<in> set FAILURE_REASON_PRIORITY
          then addScore r 1000 scores else score_cooldown now stats scores
      | None \<Rightarrow> score_cooldown now stats scores)"

text \<open>The loop over the priorities: the best reason so far with its score and its priority.\<close>

fun best_reason ::
    "(failure_reason \<times> nat) list \<Rightarrow> nat \<Rightarrow> failure_reason list \<Rightarrow> (failure_reason \<times> nat \<times> nat) option \<Rightarrow>
     failure_reason option" where
  "best_reason scores i [] best = map_option fst best"
| "best_reason scores i (reason # reasons) best =
     best_reason scores (Suc i) reasons
       (case map_of scores reason of
          None \<Rightarrow> best
        | Some score \<Rightarrow>
            (case best of
               None \<Rightarrow> Some (reason, score, i)
             | Some (b, bestScore, bestPriority) \<Rightarrow>
                 if score > bestScore \<or> score = bestScore \<and> i < bestPriority then Some (reason, score, i) else best))"

definition resolveProfilesUnavailableReason :: "auth_store \<Rightarrow> string list \<Rightarrow> rat \<Rightarrow> failure_reason option" where
  "resolveProfilesUnavailableReason store profileIds now =
     best_reason
       (foldl (\<lambda>scores i. case stats_at store i of None \<Rightarrow> scores | Some stats \<Rightarrow> score_profile now stats scores) [] profileIds)
       0 FAILURE_REASON_PRIORITY None"

definition getSoonestCooldownExpiry :: "auth_store \<Rightarrow> string list \<Rightarrow> rat \<Rightarrow> string option \<Rightarrow> rat option" where
  "getSoonestCooldownExpiry store profileIds now forModel =
     foldl (\<lambda>soonest i.
       case stats_at store i of
         None \<Rightarrow> soonest
       | Some stats \<Rightarrow>
           if shouldBypassModelScopedCooldown stats now forModel then soonest
           else (case resolveProfileUnusableUntil stats of
                   None \<Rightarrow> soonest
                 | Some u \<Rightarrow> (case soonest of None \<Rightarrow> Some u | Some s \<Rightarrow> if u < s then Some u else soonest)))
       None profileIds"

definition window_expired :: "rat option \<Rightarrow> rat \<Rightarrow> bool" where
  "window_expired until' now = (case until' of None \<Rightarrow> False | Some u \<Rightarrow> u > 0 \<and> now \<ge> u)"

text \<open>One profile of \<open>clearExpiredCooldowns\<close>: whether it changed, and its statistics.\<close>

definition clear_expired :: "rat \<Rightarrow> usage_stats \<Rightarrow> bool \<times> usage_stats" where
  "clear_expired now stats =
     (let cooldownExpired = window_expired (us_cooldownUntil stats) now;
          disabledExpired = window_expired (us_disabledUntil stats) now;
          s1 = (if cooldownExpired
                then stats\<lparr>us_cooldownUntil := None, us_cooldownReason := None, us_cooldownModel := None\<rparr> else stats);
          s2 = (if disabledExpired then s1\<lparr>us_disabledUntil := None, us_disabledReason := None\<rparr> else s1);
          mutated = (cooldownExpired \<or> disabledExpired)
      in (mutated, if mutated \<and> resolveProfileUnusableUntil s2 = None
                   then s2\<lparr>us_errorCount := Some 0, us_failureCounts := None\<rparr> else s2))"

definition clearExpiredCooldowns :: "rat \<Rightarrow> auth_store \<Rightarrow> bool \<times> auth_store" where
  "clearExpiredCooldowns now store =
     (case as_usageStats store of
        None \<Rightarrow> (False, store)
      | Some usage \<Rightarrow>
          (list_ex (\<lambda>(i, stats). fst (clear_expired now stats)) usage,
           store\<lparr>as_usageStats := Some (map (\<lambda>(i, stats). (i, snd (clear_expired now stats))) usage)\<rparr>))"

section \<open>Back-off\<close>

definition calculateAuthProfileCooldownMs :: "nat \<Rightarrow> rat" where
  "calculateAuthProfileCooldownMs errorCount =
     (let normalized = max 1 errorCount in
      if normalized \<le> 1 then 30000 else if normalized \<le> 2 then 60000 else 300000)"

text \<open>\<open>cfg.auth.cooldowns\<close>; its values come from a file.\<close>

record cooldown_options =
  co_billingBackoffHours :: jsval
  co_billingBackoffHoursByProvider :: "(string \<times> jsval) list option"
  co_billingMaxHours :: jsval
  co_authPermanentBackoffMinutes :: jsval
  co_authPermanentMaxMinutes :: jsval
  co_failureWindowHours :: jsval

record cooldown_config =
  cc_billingBackoffMs :: rat
  cc_billingMaxMs :: rat
  cc_authPermanentBackoffMs :: rat
  cc_authPermanentMaxMs :: rat
  cc_failureWindowMs :: rat

definition no_options :: cooldown_options where
  "no_options = \<lparr>co_billingBackoffHours = JUndef, co_billingBackoffHoursByProvider = None, co_billingMaxHours = JUndef,
     co_authPermanentBackoffMinutes = JUndef, co_authPermanentMaxMinutes = JUndef, co_failureWindowHours = JUndef\<rparr>"

definition resolvePositiveNumber :: "jsval \<Rightarrow> rat \<Rightarrow> rat" where
  "resolvePositiveNumber value fallback = (case value of JNum n \<Rightarrow> if n > 0 then n else fallback | _ \<Rightarrow> fallback)"

definition nullish :: "jsval \<Rightarrow> bool" where
  "nullish v = (v = JUndef \<or> v = JNull)"

definition resolveAuthCooldownConfig :: "cooldown_options option \<Rightarrow> string \<Rightarrow> cooldown_config" where
  "resolveAuthCooldownConfig cooldowns providerId =
     (let c = or_default cooldowns no_options;
          billingOverride = or_default (map_option snd (List.find (\<lambda>(key, v). normalizeProviderId key = providerId)
            (or_default (co_billingBackoffHoursByProvider c) []))) JUndef;
          billingBackoffHours = resolvePositiveNumber
            (if nullish billingOverride then co_billingBackoffHours c else billingOverride) 5
      in \<lparr>cc_billingBackoffMs = billingBackoffHours * 60 * 60 * 1000,
          cc_billingMaxMs = resolvePositiveNumber (co_billingMaxHours c) 24 * 60 * 60 * 1000,
          cc_authPermanentBackoffMs = resolvePositiveNumber (co_authPermanentBackoffMinutes c) 10 * 60 * 1000,
          cc_authPermanentMaxMs = resolvePositiveNumber (co_authPermanentMaxMinutes c) 60 * 60 * 1000,
          cc_failureWindowMs = resolvePositiveNumber (co_failureWindowHours c) 24 * 60 * 60 * 1000\<rparr>)"

definition calculateDisabledLaneBackoffMs :: "nat \<Rightarrow> rat \<Rightarrow> rat \<Rightarrow> rat" where
  "calculateDisabledLaneBackoffMs errorCount base maxOpt =
     (let normalized = max 1 errorCount; baseMs = max 60000 base; maxMs = max baseMs maxOpt;
          exponent = min (normalized - 1) 10
      in min maxMs (baseMs * 2 ^ exponent))"

text \<open>The reasons that disable a profile.\<close>

definition disabling :: "failure_reason \<Rightarrow> bool" where
  "disabling reason = (reason = FrBilling \<or> reason = FrAuthPermanent)"

definition resolveDisabledFailureBackoffMs :: "failure_reason \<Rightarrow> nat \<Rightarrow> cooldown_config \<Rightarrow> rat" where
  "resolveDisabledFailureBackoffMs reason errorCount cfg =
     (if reason = FrBilling
      then calculateDisabledLaneBackoffMs errorCount (cc_billingBackoffMs cfg) (cc_billingMaxMs cfg)
      else calculateDisabledLaneBackoffMs errorCount (cc_authPermanentBackoffMs cfg) (cc_authPermanentMaxMs cfg))"

section \<open>Updates of the statistics\<close>

definition resetUsageStats :: "usage_stats option \<Rightarrow> usage_stats" where
  "resetUsageStats existing =
     (or_default existing empty_stats)\<lparr>us_errorCount := Some 0, us_cooldownUntil := None, us_cooldownReason := None,
        us_cooldownModel := None, us_disabledUntil := None, us_disabledReason := None, us_failureCounts := None\<rparr>"

definition updateUsageStatsEntry :: "string \<Rightarrow> (usage_stats option \<Rightarrow> usage_stats) \<Rightarrow> auth_store \<Rightarrow> auth_store" where
  "updateUsageStatsEntry profileId updater store =
     store\<lparr>as_usageStats := Some (AList.update profileId (updater (stats_at store profileId))
        (or_default (as_usageStats store) []))\<rparr>"

definition keepActiveWindowOrRecompute :: "rat option \<Rightarrow> rat \<Rightarrow> rat \<Rightarrow> rat" where
  "keepActiveWindowOrRecompute existingUntil now recomputedUntil =
     (case existingUntil of Some u \<Rightarrow> if u > now then u else recomputedUntil | None \<Rightarrow> recomputedUntil)"

definition reset_counters :: "usage_stats \<Rightarrow> rat \<Rightarrow> cooldown_config \<Rightarrow> bool" where
  "reset_counters existing now cfg =
     ((case us_lastFailureAt existing of None \<Rightarrow> False | Some t \<Rightarrow> t > 0 \<and> now - t > cc_failureWindowMs cfg) \<or>
      (case resolveProfileUnusableUntil existing of None \<Rightarrow> False | Some u \<Rightarrow> now \<ge> u))"

text \<open>The model that a cooldown is limited to after one more failure.\<close>

definition next_cooldown_model :: "usage_stats \<Rightarrow> rat \<Rightarrow> failure_reason \<Rightarrow> string option \<Rightarrow> string option" where
  "next_cooldown_model existing now reason modelId =
     (let truthy = (\<lambda>m. or_default m [] \<noteq> []); cm = us_cooldownModel existing in
      if (case us_cooldownUntil existing of None \<Rightarrow> False | Some u \<Rightarrow> u > now) then
        (if truthy cm \<and> truthy modelId \<and> cm \<noteq> modelId then None
         else if reason = FrRateLimit \<and> \<not> truthy modelId \<and> truthy cm then None
         else if reason \<noteq> FrRateLimit then None
         else cm)
      else if reason = FrRateLimit then modelId else None)"

definition computeNextProfileUsageStats ::
    "usage_stats \<Rightarrow> rat \<Rightarrow> failure_reason \<Rightarrow> cooldown_config \<Rightarrow> string option \<Rightarrow> usage_stats" where
  "computeNextProfileUsageStats existing now reason cfg modelId =
     (let fresh = reset_counters existing now cfg;
          nextErrorCount = (if fresh then 0 else or_default (us_errorCount existing) 0) + 1;
          counts0 = (if fresh then [] else or_default (us_failureCounts existing) []);
          failureCounts = AList.update reason (or_default (map_of counts0 reason) 0 + 1) counts0;
          updated = existing\<lparr>us_errorCount := Some nextErrorCount, us_failureCounts := Some failureCounts,
                             us_lastFailureAt := Some now\<rparr>
      in if disabling reason then
           (let backoffMs = resolveDisabledFailureBackoffMs reason (or_default (map_of failureCounts reason) 1) cfg
            in updated\<lparr>us_disabledUntil :=
                         Some (keepActiveWindowOrRecompute (us_disabledUntil existing) now (now + backoffMs)),
                       us_disabledReason := Some reason\<rparr>)
         else
           (let backoffMs = calculateAuthProfileCooldownMs nextErrorCount
            in updated\<lparr>us_cooldownUntil :=
                         Some (keepActiveWindowOrRecompute (us_cooldownUntil existing) now (now + backoffMs)),
                       us_cooldownReason := Some reason,
                       us_cooldownModel := next_cooldown_model existing now reason modelId\<rparr>))"

section \<open>The operations\<close>

text \<open>Each gives the caller's store afterwards and what was saved. \<open>fresh\<close> is the store under the lock.\<close>

definition mark_used :: "rat \<Rightarrow> string \<Rightarrow> auth_store \<Rightarrow> auth_store" where
  "mark_used now profileId store =
     updateUsageStatsEntry profileId (\<lambda>existing. (resetUsageStats existing)\<lparr>us_lastUsed := Some now\<rparr>) store"

definition markAuthProfileUsed ::
    "rat \<Rightarrow> string \<Rightarrow> auth_store option \<Rightarrow> auth_store \<Rightarrow> auth_store \<times> auth_store option" where
  "markAuthProfileUsed now profileId fresh store =
     (case update_with_lock fresh (\<lambda>st. if profile_at st profileId = None then (False, st)
                                       else (True, mark_used now profileId st)) of
        (Some updated, saved) \<Rightarrow> (store\<lparr>as_usageStats := as_usageStats updated\<rparr>, saved)
      | (None, saved) \<Rightarrow>
          if profile_at store profileId = None then (store, None)
          else (let st = mark_used now profileId store in (st, Some st)))"

text \<open>Recording a failure in one store.\<close>

definition record_failure ::
    "rat \<Rightarrow> string \<Rightarrow> failure_reason \<Rightarrow> cooldown_options option \<Rightarrow> string option \<Rightarrow> rat option \<Rightarrow> auth_store \<Rightarrow>
     auth_store" where
  "record_failure now profileId reason cooldowns modelId whamResult store =
     (let cfg = resolveAuthCooldownConfig cooldowns (normalizeProviderId (or_default (provider_of store profileId) []));
          existing = or_default (stats_at store profileId) empty_stats;
          computed = computeNextProfileUsageStats existing now reason cfg modelId;
          nextStats = (case whamResult of
              Some cooldownMs \<Rightarrow>
                if shouldProbeWhamForFailure (provider_of store profileId) reason
                then applyWhamCooldownResult existing computed now cooldownMs else computed
            | None \<Rightarrow> computed)
      in updateUsageStatsEntry profileId (\<lambda>_. nextStats) store)"

definition markAuthProfileFailure ::
    "rat \<Rightarrow> wham_response \<Rightarrow> rat \<Rightarrow> string \<Rightarrow> failure_reason \<Rightarrow> cooldown_options option \<Rightarrow> string option \<Rightarrow>
     auth_store option \<Rightarrow> auth_store \<Rightarrow> auth_store \<times> auth_store option" where
  "markAuthProfileFailure probedAt response now profileId reason cooldowns modelId fresh store =
     (let exempt = (\<lambda>st. profile_at st profileId = None \<or> isAuthCooldownBypassedForProvider (provider_of st profileId)) in
      if exempt store then (store, None)
      else
        (let whamResult = (if shouldProbeWhamForFailure (provider_of store profileId) reason
                           then probeWhamForCooldown store profileId probedAt response else None)
         in case update_with_lock fresh (\<lambda>st. if exempt st then (False, st)
                else (True, record_failure now profileId reason cooldowns modelId whamResult st)) of
              (Some updated, saved) \<Rightarrow> (store\<lparr>as_usageStats := as_usageStats updated\<rparr>, saved)
            | (None, saved) \<Rightarrow>
                (let st = record_failure now profileId reason cooldowns modelId whamResult store in (st, Some st))))"

definition markAuthProfileCooldown ::
    "rat \<Rightarrow> wham_response \<Rightarrow> rat \<Rightarrow> string \<Rightarrow> auth_store option \<Rightarrow> auth_store \<Rightarrow> auth_store \<times> auth_store option" where
  "markAuthProfileCooldown probedAt response now profileId fresh store =
     markAuthProfileFailure probedAt response now profileId FrUnknown None None fresh store"

definition clearAuthProfileCooldown ::
    "string \<Rightarrow> auth_store option \<Rightarrow> auth_store \<Rightarrow> auth_store \<times> auth_store option" where
  "clearAuthProfileCooldown profileId fresh store =
     (case update_with_lock fresh (\<lambda>st. if stats_at st profileId = None then (False, st)
                                       else (True, updateUsageStatsEntry profileId resetUsageStats st)) of
        (Some updated, saved) \<Rightarrow> (store\<lparr>as_usageStats := as_usageStats updated\<rparr>, saved)
      | (None, saved) \<Rightarrow>
          if stats_at store profileId = None then (store, None)
          else (let st = updateUsageStatsEntry profileId resetUsageStats store in (st, Some st)))"

end
