(* ===== verification/AuthUsageProps.thy ===== *)
theory AuthUsageProps
  imports AuthUsage
begin

text \<open>
  What the cooldowns of credentials promise: a profile recovers a bounded time after its last failure, retries within
  a window do not extend it, a model gets past a cooldown only when all failures of the window were rate limits of
  one other model, and the reason given for unavailable profiles is the one of an active window.
\<close>

section \<open>The life of one profile\<close>

text \<open>A failure with the probe's instant and answer, the instant of the failure, its reason and model; a success; a
  manual reset; the sweep of expired cooldowns. The locked store is the caller's.\<close>

datatype auth_event =
    AuthFailed rat wham_response rat failure_reason "string option"
  | AuthUsed rat
  | AuthCleared
  | AuthSwept rat

fun auth_step :: "cooldown_options option \<Rightarrow> string \<Rightarrow> auth_store \<Rightarrow> auth_event \<Rightarrow> auth_store" where
  "auth_step opts i st (AuthFailed probedAt response now reason modelId) =
     fst (markAuthProfileFailure probedAt response now i reason opts modelId (Some st) st)"
| "auth_step opts i st (AuthUsed now) = fst (markAuthProfileUsed now i (Some st) st)"
| "auth_step opts i st AuthCleared = fst (clearAuthProfileCooldown i (Some st) st)"
| "auth_step opts i st (AuthSwept now) = snd (clearExpiredCooldowns now st)"

definition auth_run :: "cooldown_options option \<Rightarrow> string \<Rightarrow> auth_store \<Rightarrow> auth_event list \<Rightarrow> auth_store" where
  "auth_run opts i st es = foldl (auth_step opts i) st es"

text \<open>The statistics of the profile, empty ones when there are none.\<close>

definition stats_of :: "auth_store \<Rightarrow> string \<Rightarrow> usage_stats" where
  "stats_of st i = or_default (stats_at st i) empty_stats"

lemma stats_update: "stats_at (updateUsageStatsEntry i f st) i = Some (f (stats_at st i))"
  by (simp add: updateUsageStatsEntry_def stats_at_def or_default_def update_conv')

lemma profile_update [simp]: "profile_at (updateUsageStatsEntry j f st) i = profile_at st i"
  by (simp add: updateUsageStatsEntry_def profile_at_def)

lemma map_of_map_snd: "map_of (map (\<lambda>(i, v). (i, f v)) xs) k = map_option f (map_of xs k)"
  by (induction xs) auto

lemma profile_step [simp]: "profile_at (auth_step opts i st e) j = profile_at st j"
  by (cases e) (auto simp: markAuthProfileFailure_def markAuthProfileUsed_def clearAuthProfileCooldown_def
      clearExpiredCooldowns_def update_with_lock_def profile_at_def Let_def split: option.split)

lemma provider_step [simp]: "provider_of (auth_step opts i st e) j = provider_of st j"
  by (simp add: provider_of_def)

definition exempt :: "auth_store \<Rightarrow> string \<Rightarrow> bool" where
  "exempt st i \<longleftrightarrow> profile_at st i = None \<or> isAuthCooldownBypassedForProvider (provider_of st i)"

lemma exempt_step [simp]: "exempt (auth_step opts i st e) j = exempt st j"
  by (simp add: exempt_def)

definition failure_config :: "cooldown_options option \<Rightarrow> auth_store \<Rightarrow> string \<Rightarrow> cooldown_config" where
  "failure_config opts st i = resolveAuthCooldownConfig opts (normalizeProviderId (or_default (provider_of st i) []))"

text \<open>What a step does to the statistics.\<close>

definition probe_result :: "auth_store \<Rightarrow> string \<Rightarrow> rat \<Rightarrow> wham_response \<Rightarrow> failure_reason \<Rightarrow> rat option" where
  "probe_result st i probedAt response reason =
     (if shouldProbeWhamForFailure (provider_of st i) reason then probeWhamForCooldown st i probedAt response else None)"

definition after_failure ::
    "usage_stats \<Rightarrow> rat \<Rightarrow> failure_reason \<Rightarrow> cooldown_config \<Rightarrow> string option \<Rightarrow> rat option \<Rightarrow> usage_stats" where
  "after_failure s now reason cfg modelId probed =
     (let computed = computeNextProfileUsageStats s now reason cfg modelId in
      case probed of None \<Rightarrow> computed | Some ms \<Rightarrow> applyWhamCooldownResult s computed now ms)"

lemma stats_at_cong: "as_usageStats st = as_usageStats st' \<Longrightarrow> stats_at st i = stats_at st' i"
  by (simp add: stats_at_def)

lemma recorded:
  "record_failure now i reason opts m (probe_result st i p r reason) st =
     updateUsageStatsEntry i (\<lambda>_. after_failure (stats_of st i) now reason (failure_config opts st i) m
       (probe_result st i p r reason)) st"
  by (simp add: record_failure_def after_failure_def probe_result_def stats_of_def failure_config_def Let_def
      split: option.split)

lemma step_failed:
  "\<not> exempt st i \<Longrightarrow> auth_step opts i st (AuthFailed p r now reason m) =
     st\<lparr>as_usageStats := as_usageStats (record_failure now i reason opts m (probe_result st i p r reason) st)\<rparr>"
  by (auto simp: exempt_def markAuthProfileFailure_def update_with_lock_def probe_result_def Let_def)

lemma stats_failed:
  assumes "\<not> exempt st i"
  shows "stats_at (auth_step opts i st (AuthFailed p r now reason m)) i =
     Some (after_failure (stats_of st i) now reason (failure_config opts st i) m (probe_result st i p r reason))"
proof -
  have "stats_at (auth_step opts i st (AuthFailed p r now reason m)) i =
      stats_at (record_failure now i reason opts m (probe_result st i p r reason) st) i"
    unfolding step_failed [OF assms] by (rule stats_at_cong) simp
  then show ?thesis unfolding recorded stats_update .
qed

lemma stats_failed_exempt: "exempt st i \<Longrightarrow> auth_step opts i st (AuthFailed p r now reason m) = st"
  by (simp add: exempt_def markAuthProfileFailure_def Let_def)

lemma stats_used: "stats_of (auth_step opts i st (AuthUsed now)) i =
    (if profile_at st i = None then stats_of st i else (resetUsageStats (stats_at st i))\<lparr>us_lastUsed := Some now\<rparr>)"
proof (cases "profile_at st i")
  case None
  then show ?thesis by (simp add: markAuthProfileUsed_def update_with_lock_def)
next
  case (Some c)
  have "stats_at (auth_step opts i st (AuthUsed now)) i = stats_at (mark_used now i st) i"
    using Some by (intro stats_at_cong) (simp add: markAuthProfileUsed_def update_with_lock_def)
  then show ?thesis using Some by (simp add: stats_of_def mark_used_def stats_update or_default_def)
qed

lemma stats_cleared: "stats_of (auth_step opts i st AuthCleared) i =
    (if stats_at st i = None then stats_of st i else resetUsageStats (stats_at st i))"
proof (cases "stats_at st i")
  case None
  then show ?thesis by (simp add: clearAuthProfileCooldown_def update_with_lock_def)
next
  case (Some c)
  have "stats_at (auth_step opts i st AuthCleared) i = stats_at (updateUsageStatsEntry i resetUsageStats st) i"
    using Some by (intro stats_at_cong) (simp add: clearAuthProfileCooldown_def update_with_lock_def)
  then show ?thesis using Some by (simp add: stats_of_def stats_update or_default_def)
qed

lemma swept_empty: "snd (clear_expired now empty_stats) = empty_stats"
  by (simp add: clear_expired_def window_expired_def empty_stats_def)

lemma stats_swept: "stats_of (auth_step opts i st (AuthSwept now)) i = snd (clear_expired now (stats_of st i))"
  by (cases "as_usageStats st")
    (auto simp: stats_of_def stats_at_def clearExpiredCooldowns_def or_default_def map_of_map_snd swept_empty split: option.split)

declare auth_step.simps [simp del]

section \<open>Recovery\<close>

text \<open>The longest cooldown of a provider, and the longest disabling of a configuration.\<close>

definition cooldown_cap :: "string option \<Rightarrow> rat" where
  "cooldown_cap provider =
     (if normalizeProviderId (or_default provider []) = ''openai-codex'' then 86400000 else 300000)"

definition lane_cap :: "rat \<Rightarrow> rat \<Rightarrow> rat" where
  "lane_cap base maxOpt = max (max 60000 base) maxOpt"

definition disabled_cap :: "cooldown_config \<Rightarrow> rat" where
  "disabled_cap cfg = max (lane_cap (cc_billingBackoffMs cfg) (cc_billingMaxMs cfg))
     (lane_cap (cc_authPermanentBackoffMs cfg) (cc_authPermanentMaxMs cfg))"

lemma lane_backoff_cap: "calculateDisabledLaneBackoffMs n base maxOpt \<le> lane_cap base maxOpt"
  unfolding calculateDisabledLaneBackoffMs_def lane_cap_def Let_def by (rule min.cobounded1)

lemma backoff_cap: "resolveDisabledFailureBackoffMs reason n cfg \<le> disabled_cap cfg"
  unfolding resolveDisabledFailureBackoffMs_def disabled_cap_def
  by (simp add: max.coboundedI1 max.coboundedI2 lane_backoff_cap)

lemma cooldown_ms_cap: "calculateAuthProfileCooldownMs n \<le> 300000"
  by (simp add: calculateAuthProfileCooldownMs_def Let_def)

lemma half_capped_le: "half_capped r c \<le> max 30000 c"
  by (auto simp: half_capped_def WHAM_PROBE_FAILURE_COOLDOWN_MS_def split: option.split)

lemma wham_cap: "wham_cooldown now res \<le> 86400000"
proof -
  have "half_capped r c \<le> 86400000" if "c \<le> 86400000" for r c
    using half_capped_le [of r c] that by (simp add: max_def split: if_splits)
  then show ?thesis
    by (simp add: wham_cooldown_def Let_def WHAM_BURST_COOLDOWN_MS_def WHAM_PROBE_FAILURE_COOLDOWN_MS_def
        WHAM_HTTP_ERROR_COOLDOWN_MS_def WHAM_TOKEN_EXPIRED_COOLDOWN_MS_def WHAM_DEAD_ACCOUNT_COOLDOWN_MS_def
        WHAM_TEAM_ROLLING_MAX_COOLDOWN_MS_def WHAM_PERSONAL_MAX_COOLDOWN_MS_def WHAM_TEAM_WEEKLY_MAX_COOLDOWN_MS_def
        split: wham_response.split option.split)
qed

lemma probe_cap:
  "probe_result st i p r reason = Some ms \<Longrightarrow> ms \<le> 86400000 \<and> cooldown_cap (provider_of st i) = 86400000"
  using wham_cap by (auto simp: probe_result_def shouldProbeWhamForFailure_def probeWhamForCooldown_def cooldown_cap_def
      split: if_splits option.splits auth_credential.splits jsval.splits)

lemma cooldown_cap_ge: "300000 \<le> cooldown_cap provider"
  by (simp add: cooldown_cap_def)

text \<open>Windows end at most one cap after the last failure.\<close>

definition until_ok :: "rat \<Rightarrow> rat option \<Rightarrow> bool" where
  "until_ok limit u = (case u of None \<Rightarrow> True | Some v \<Rightarrow> v \<le> max 0 limit)"

definition windows_ok :: "rat \<Rightarrow> rat \<Rightarrow> usage_stats \<Rightarrow> bool" where
  "windows_ok cl dl s \<longleftrightarrow> until_ok cl (us_cooldownUntil s) \<and> until_ok dl (us_disabledUntil s)"

lemma until_ok_keep: "until_ok limit u \<Longrightarrow> v \<le> limit \<Longrightarrow> until_ok limit (Some (keepActiveWindowOrRecompute u now v))"
  by (auto simp: until_ok_def keepActiveWindowOrRecompute_def split: option.split)

lemma computed_ok:
  assumes "windows_ok cl dl s" "now + 300000 \<le> cl" "now + disabled_cap cfg \<le> dl"
  shows "windows_ok cl dl (computeNextProfileUsageStats s now reason cfg m)"
proof -
  have "now + calculateAuthProfileCooldownMs n \<le> cl" for n using cooldown_ms_cap [of n] assms(2) by linarith
  moreover have "now + resolveDisabledFailureBackoffMs reason n cfg \<le> dl" for n
    using backoff_cap [of reason n cfg] assms(3) by linarith
  ultimately show ?thesis
    using assms(1) by (simp add: windows_ok_def computeNextProfileUsageStats_def Let_def until_ok_keep)
qed

lemma after_failure_ok:
  assumes ok: "windows_ok cl dl s" and cl: "now + 300000 \<le> cl" "\<And>ms. probed = Some ms \<Longrightarrow> now + ms \<le> cl"
    and dl: "now + disabled_cap cfg \<le> dl"
  shows "windows_ok cl dl (after_failure s now reason cfg m probed)"
proof (cases probed)
  case None
  then show ?thesis using computed_ok [OF ok cl(1) dl] by (simp add: after_failure_def)
next
  case (Some ms)
  have "until_ok cl (Some (max (case us_cooldownUntil s of Some u \<Rightarrow> if u > now then u else 0 | None \<Rightarrow> 0) (now + ms)))"
    using ok cl(2) [OF Some] by (auto simp: windows_ok_def until_ok_def split: option.splits)
  then show ?thesis
    using computed_ok [OF ok cl(1) dl, of reason m]
    by (simp add: Some after_failure_def applyWhamCooldownResult_def windows_ok_def Let_def)
qed

fun failed_by :: "rat \<Rightarrow> auth_event \<Rightarrow> bool" where
  "failed_by t (AuthFailed p r now reason m) = (now \<le> t)"
| "failed_by t e = True"

lemma reset_ok: "windows_ok cl dl (resetUsageStats s)" "windows_ok cl dl ((resetUsageStats s)\<lparr>us_lastUsed := u\<rparr>)"
  by (simp_all add: windows_ok_def until_ok_def resetUsageStats_def)

lemma swept_ok: "windows_ok cl dl s \<Longrightarrow> windows_ok cl dl (snd (clear_expired now s))"
  by (simp add: windows_ok_def until_ok_def clear_expired_def Let_def)

lemma failure_config_step [simp]: "failure_config opts (auth_step opts i st e) j = failure_config opts st j"
  by (simp add: failure_config_def)

lemma step_windows:
  assumes "windows_ok (t + cooldown_cap (provider_of st i)) (t + disabled_cap (failure_config opts st i)) (stats_of st i)"
    and "failed_by t e"
  shows "windows_ok (t + cooldown_cap (provider_of st i)) (t + disabled_cap (failure_config opts st i))
    (stats_of (auth_step opts i st e) i)"
proof (cases e)
  case (AuthFailed p r now reason m)
  show ?thesis
  proof (cases "exempt st i")
    case True
    then show ?thesis using assms(1) by (simp add: AuthFailed stats_failed_exempt)
  next
    case False
    have "windows_ok (t + cooldown_cap (provider_of st i)) (t + disabled_cap (failure_config opts st i))
        (after_failure (stats_of st i) now reason (failure_config opts st i) m (probe_result st i p r reason))"
      using assms AuthFailed cooldown_cap_ge [of "provider_of st i"] probe_cap
      by (intro after_failure_ok) fastforce+
    then show ?thesis
      using stats_failed [OF False] by (simp add: AuthFailed stats_of_def or_default_def)
  qed
qed (use assms in \<open>auto simp: stats_used stats_cleared stats_swept reset_ok swept_ok\<close>)

lemma run_windows:
  "windows_ok (t + cooldown_cap (provider_of st i)) (t + disabled_cap (failure_config opts st i)) (stats_of st i) \<Longrightarrow>
   list_all (failed_by t) es \<Longrightarrow>
   windows_ok (t + cooldown_cap (provider_of st i)) (t + disabled_cap (failure_config opts st i))
     (stats_of (auth_run opts i st es) i)"
proof (induction es arbitrary: st)
  case (Cons e es)
  then show ?case using step_windows [of t st i opts e] Cons.IH [of "auth_step opts i st e"]
    by (simp add: auth_run_def)
qed (simp add: auth_run_def)

lemma unusable_until_ok:
  "windows_ok cl dl s \<Longrightarrow> resolveProfileUnusableUntil s = Some u \<Longrightarrow> u \<le> max cl dl"
  by (auto simp: windows_ok_def until_ok_def resolveProfileUnusableUntil_def positive_until_def
      split: option.splits if_splits)

text \<open>C18: Every profile recovers. Whatever failures, successes, resets and sweeps a profile has been through, once the
  longest cooldown of its provider (five minutes; a day when the usage page of openai-codex is consulted) and the
  longest configured disabling have passed since the last failure, it is usable again for every model.\<close>

theorem profile_recovers:
  assumes "stats_at st i = None" and "list_all (failed_by t) es"
    and "t + max (cooldown_cap (provider_of st i)) (disabled_cap (failure_config opts st i)) \<le> now"
  shows "\<not> isProfileInCooldown (auth_run opts i st es) i now model"
proof
  let ?cl = "t + cooldown_cap (provider_of st i)" and ?dl = "t + disabled_cap (failure_config opts st i)"
  let ?s = "auth_run opts i st es"
  assume "isProfileInCooldown ?s i now model"
  then obtain s u where u: "stats_at ?s i = Some s" "resolveProfileUnusableUntil s = Some u" "now < u"
    by (auto simp: isProfileInCooldown_def split: if_splits option.splits)
  have "windows_ok ?cl ?dl (stats_of st i)"
    using assms(1) by (simp add: stats_of_def or_default_def empty_stats_def windows_ok_def until_ok_def)
  then have "windows_ok ?cl ?dl (stats_of ?s i)" by (rule run_windows [OF _ assms(2)])
  moreover have "stats_of ?s i = s" using u(1) by (simp add: stats_of_def or_default_def)
  ultimately have "windows_ok ?cl ?dl s" by simp
  then have "u \<le> max ?cl ?dl" using unusable_until_ok u(2) by blast
  with u(3) assms(3) show False by simp
qed

definition two_keys :: auth_store where
  "two_keys = \<lparr>as_profiles = [(''codex:1'', OAuthCredential ''openai-codex'' (JStr ''t'') JUndef None),
       (''openai:1'', ApiKeyCredential ''openai'' (JStr ''k'') JUndef)],
     as_order = None, as_lastGood = None, as_usageStats = None\<rparr>"

definition bad_day :: "auth_event list" where
  "bad_day = [AuthFailed 0 WhamThrew 1000 FrRateLimit (Some ''m''), AuthFailed 0 WhamThrew 2000 FrTimeout None,
     AuthFailed 0 WhamThrew 3000 FrBilling None]"

theorem profile_recovers_witness:
  "isProfileInCooldown (auth_run None ''openai:1'' two_keys bad_day) ''openai:1'' 3000 None \<and>
   \<not> isProfileInCooldown (auth_run None ''openai:1'' two_keys bad_day) ''openai:1'' 86403000 None"
proof
  show "isProfileInCooldown (auth_run None ''openai:1'' two_keys bad_day) ''openai:1'' 3000 None" by code_simp
  have "stats_at two_keys ''openai:1'' = None" "list_all (failed_by 3000) bad_day"
    "3000 + max (cooldown_cap (provider_of two_keys ''openai:1'')) (disabled_cap (failure_config None two_keys ''openai:1''))
      \<le> 86403000"
    by code_simp+
  then show "\<not> isProfileInCooldown (auth_run None ''openai:1'' two_keys bad_day) ''openai:1'' 86403000 None"
    by (rule profile_recovers)
qed

section \<open>Retries within a window\<close>

text \<open>A failure before \<open>u\<close>.\<close>

fun fails_before :: "rat \<Rightarrow> auth_event \<Rightarrow> bool" where
  "fails_before u (AuthFailed p r now reason m) = (now < u)"
| "fails_before u e = False"

lemma kept_window: "now < u \<Longrightarrow> keepActiveWindowOrRecompute (Some u) now v = u"
  by (simp add: keepActiveWindowOrRecompute_def)

lemma retry_keeps:
  assumes "now < u" and "\<not> shouldProbeWhamForFailure (provider_of st i) reason"
  shows "us_cooldownUntil (stats_of st i) = Some u \<Longrightarrow>
      us_cooldownUntil (stats_of (auth_step opts i st (AuthFailed p r now reason m)) i) = Some u"
    and "us_disabledUntil (stats_of st i) = Some u \<Longrightarrow>
      us_disabledUntil (stats_of (auth_step opts i st (AuthFailed p r now reason m)) i) = Some u"
proof -
  have "stats_of (auth_step opts i st (AuthFailed p r now reason m)) i =
      (if exempt st i then stats_of st i
       else computeNextProfileUsageStats (stats_of st i) now reason (failure_config opts st i) m)"
    using assms(2)
    by (auto simp: stats_failed_exempt stats_failed stats_of_def or_default_def after_failure_def probe_result_def)
  then show "us_cooldownUntil (stats_of st i) = Some u \<Longrightarrow>
      us_cooldownUntil (stats_of (auth_step opts i st (AuthFailed p r now reason m)) i) = Some u"
    and "us_disabledUntil (stats_of st i) = Some u \<Longrightarrow>
      us_disabledUntil (stats_of (auth_step opts i st (AuthFailed p r now reason m)) i) = Some u"
    using assms(1) by (simp_all add: computeNextProfileUsageStats_def Let_def kept_window)
qed

definition window_ends :: "usage_stats \<Rightarrow> rat option \<times> rat option" where
  "window_ends s = (us_cooldownUntil s, us_disabledUntil s)"

text \<open>Retrying does not push recovery out. While both windows of a profile are active, any number of further
  failures, for whatever reasons and models, leaves the ends of the windows where they are (outside openai-codex,
  whose usage page may lengthen a cooldown).\<close>

theorem retries_never_extend:
  assumes "normalizeProviderId (or_default (provider_of st i) []) \<noteq> ''openai-codex''"
    and "window_ends (stats_of st i) = (Some u, Some v)" and "list_all (fails_before (min u v)) es"
  shows "window_ends (stats_of (auth_run opts i st es) i) = (Some u, Some v)"
  using assms
proof (induction es arbitrary: st)
  case (Cons e es)
  then obtain p r now reason m where e: "e = AuthFailed p r now reason m" "now < u" "now < v"
    by (cases e) auto
  have "\<not> shouldProbeWhamForFailure (provider_of st i) reason"
    using Cons.prems(1) by (simp add: shouldProbeWhamForFailure_def)
  then have "window_ends (stats_of (auth_step opts i st e) i) = (Some u, Some v)"
    using Cons.prems(2) e retry_keeps [OF e(2)] retry_keeps [OF e(3)] by (simp add: window_ends_def)
  then show ?case using Cons.IH [of "auth_step opts i st e"] Cons.prems by (simp add: auth_run_def)
qed (simp add: auth_run_def)

theorem retries_never_extend_witness:
  "window_ends (stats_of (auth_run None ''openai:1'' (auth_run None ''openai:1'' two_keys bad_day)
     [AuthFailed 0 WhamThrew 5000 FrOverloaded None, AuthFailed 0 WhamThrew 6000 FrAuthPermanent None]) ''openai:1'') =
   (Some 31000, Some 18003000)"
proof (rule retries_never_extend)
  show "normalizeProviderId (or_default (provider_of (auth_run None ''openai:1'' two_keys bad_day) ''openai:1'') []) \<noteq>
    ''openai-codex''" by code_simp
  show "window_ends (stats_of (auth_run None ''openai:1'' two_keys bad_day) ''openai:1'') = (Some 31000, Some 18003000)"
    by code_simp
  show "list_all (fails_before (min 31000 18003000))
    [AuthFailed 0 WhamThrew 5000 FrOverloaded None, AuthFailed 0 WhamThrew 6000 FrAuthPermanent None]" by simp
qed

section \<open>Cooldowns of one model\<close>

text \<open>The transient failures since the current cooldown began, as they happen.\<close>

definition cooling :: "usage_stats \<Rightarrow> rat \<Rightarrow> bool" where
  "cooling s now = (case us_cooldownUntil s of None \<Rightarrow> False | Some u \<Rightarrow> u > now)"

fun window_log ::
    "auth_store \<Rightarrow> string \<Rightarrow> (failure_reason \<times> string option) list \<Rightarrow> auth_event \<Rightarrow>
     (failure_reason \<times> string option) list" where
  "window_log st i fs (AuthFailed p r now reason m) =
     (if exempt st i \<or> disabling reason then fs
      else if cooling (stats_of st i) now then fs @ [(reason, m)] else [(reason, m)])"
| "window_log st i fs e = fs"

fun window_failures ::
    "cooldown_options option \<Rightarrow> string \<Rightarrow> auth_store \<Rightarrow> (failure_reason \<times> string option) list \<Rightarrow> auth_event list \<Rightarrow>
     (failure_reason \<times> string option) list" where
  "window_failures opts i st fs [] = fs"
| "window_failures opts i st fs (e # es) = window_failures opts i (auth_step opts i st e) (window_log st i fs e) es"

text \<open>A cooldown names a model only when every failure of its window was a rate limit of that model.\<close>

definition model_scope_ok :: "usage_stats \<Rightarrow> (failure_reason \<times> string option) list \<Rightarrow> bool" where
  "model_scope_ok s fs \<longleftrightarrow>
     (us_cooldownModel s = None \<or> us_cooldownModel s = Some [] \<or>
      fs \<noteq> [] \<and> list_all (\<lambda>f. f = (FrRateLimit, us_cooldownModel s)) fs)"

lemma computed_scope:
  assumes "model_scope_ok s fs"
  shows "model_scope_ok (computeNextProfileUsageStats s now reason cfg m)
    (if disabling reason then fs else if cooling s now then fs @ [(reason, m)] else [(reason, m)])"
proof (cases "disabling reason")
  case True
  then show ?thesis using assms by (simp add: model_scope_ok_def computeNextProfileUsageStats_def Let_def)
next
  case False
  show ?thesis
  proof (cases "cooling s now")
    case True
    then show ?thesis using assms False
      by (auto simp: model_scope_ok_def computeNextProfileUsageStats_def Let_def next_cooldown_model_def cooling_def
          or_default_def split: option.splits if_splits)
  next
    case no: False
    then show ?thesis using False
      by (auto simp: model_scope_ok_def computeNextProfileUsageStats_def Let_def next_cooldown_model_def cooling_def
          split: option.splits)
  qed
qed

lemma model_scope_cong: "us_cooldownModel s = us_cooldownModel s' \<Longrightarrow> model_scope_ok s fs = model_scope_ok s' fs"
  by (simp add: model_scope_ok_def)

lemma after_failure_model:
  "us_cooldownModel (after_failure s now reason cfg m probed) =
     us_cooldownModel (computeNextProfileUsageStats s now reason cfg m)"
  by (simp add: after_failure_def applyWhamCooldownResult_def Let_def split: option.split)

lemma after_failure_scope:
  "model_scope_ok s fs \<Longrightarrow> model_scope_ok (after_failure s now reason cfg m probed)
    (if disabling reason then fs else if cooling s now then fs @ [(reason, m)] else [(reason, m)])"
  unfolding model_scope_cong [OF after_failure_model] by (rule computed_scope)

lemma step_scope: "model_scope_ok (stats_of st i) fs \<Longrightarrow>
    model_scope_ok (stats_of (auth_step opts i st e) i) (window_log st i fs e)"
proof (cases e)
  case (AuthFailed p r now reason m)
  assume ok: "model_scope_ok (stats_of st i) fs"
  show ?thesis
  proof (cases "exempt st i")
    case True
    then show ?thesis using ok by (simp add: AuthFailed stats_failed_exempt)
  next
    case False
    then have "stats_of (auth_step opts i st e) i =
        after_failure (stats_of st i) now reason (failure_config opts st i) m (probe_result st i p r reason)"
      using stats_failed by (simp add: AuthFailed stats_of_def or_default_def)
    then show ?thesis using False after_failure_scope [OF ok, of now reason] by (simp add: AuthFailed)
  qed
qed (auto simp: stats_used stats_cleared stats_swept resetUsageStats_def clear_expired_def model_scope_ok_def Let_def)

lemma run_scope: "model_scope_ok (stats_of st i) fs \<Longrightarrow>
    model_scope_ok (stats_of (auth_run opts i st es) i) (window_failures opts i st fs es)"
proof (induction es arbitrary: st fs)
  case (Cons e es)
  then show ?case using step_scope [of st i fs opts e] by (simp add: auth_run_def)
qed (simp add: auth_run_def)

text \<open>A request gets past an active cooldown only for another model. If a profile is let through for a model while
  its cooldown runs, then every transient failure since that cooldown began was a rate limit of one and the same
  other model; one timeout, one rate limit of an unknown model or one of a second model closes the profile to all.\<close>

theorem model_bypass_sound:
  assumes "stats_at st i = None" and "\<not> isAuthCooldownBypassedForProvider (provider_of st i)"
    and "isActiveUnusableWindow (us_cooldownUntil (stats_of (auth_run opts i st es) i)) now"
    and "\<not> isProfileInCooldown (auth_run opts i st es) i now (Some model)"
  shows "\<exists>other. other \<noteq> model \<and> window_failures opts i st [] es \<noteq> [] \<and>
    list_all (\<lambda>f. f = (FrRateLimit, Some other)) (window_failures opts i st [] es)"
proof -
  let ?st = "auth_run opts i st es"
  have "provider_of ?st i = provider_of st i"
    by (induction es arbitrary: st) (simp_all add: auth_run_def)
  moreover obtain s where s: "stats_at ?st i = Some s"
    using assms(3) by (cases "stats_at ?st i") (auto simp: stats_of_def or_default_def empty_stats_def isActiveUnusableWindow_def)
  moreover have act: "isActiveUnusableWindow (us_cooldownUntil s) now" using assms(3) s by (simp add: stats_of_def or_default_def)
  moreover have "now < u" if "resolveProfileUnusableUntil s = Some u" for u
    using act that by (auto simp: isActiveUnusableWindow_def resolveProfileUnusableUntil_def positive_until_def
        split: option.splits if_splits)
  moreover have "resolveProfileUnusableUntil s \<noteq> None"
    using act by (auto simp: isActiveUnusableWindow_def resolveProfileUnusableUntil_def positive_until_def
        split: option.splits list.splits if_splits)
  ultimately have "shouldBypassModelScopedCooldown s now (Some model)"
    using assms(2,4) by (auto simp: isProfileInCooldown_def split: if_splits option.splits)
  moreover have "model_scope_ok s (window_failures opts i st [] es)"
    using run_scope [of st i "[]" opts es] assms(1) s
    by (simp add: stats_of_def or_default_def model_scope_ok_def empty_stats_def)
  ultimately show ?thesis
    by (auto simp: shouldBypassModelScopedCooldown_def model_scope_ok_def or_default_def split: option.splits)
qed

definition rate_limited :: "auth_event list" where
  "rate_limited = [AuthFailed 0 WhamThrew 1000 FrTimeout None, AuthSwept 40000,
     AuthFailed 0 WhamThrew 50000 FrRateLimit (Some ''opus''), AuthFailed 0 WhamThrew 51000 FrRateLimit (Some ''opus'')]"

theorem model_bypass_sound_witness:
  "\<exists>other. other \<noteq> ''haiku'' \<and> window_failures None ''openai:1'' two_keys [] rate_limited \<noteq> [] \<and>
    list_all (\<lambda>f. f = (FrRateLimit, Some other)) (window_failures None ''openai:1'' two_keys [] rate_limited)"
proof (rule model_bypass_sound)
  show "stats_at two_keys ''openai:1'' = None" by code_simp
  show "\<not> isAuthCooldownBypassedForProvider (provider_of two_keys ''openai:1'')" by code_simp
  show "isActiveUnusableWindow (us_cooldownUntil (stats_of (auth_run None ''openai:1'' two_keys rate_limited) ''openai:1'')) 60000"
    by code_simp
  show "\<not> isProfileInCooldown (auth_run None ''openai:1'' two_keys rate_limited) ''openai:1'' 60000 (Some ''haiku'')"
    by code_simp
qed

section \<open>Why profiles are unavailable\<close>

text \<open>The reasons a profile gives: why it is disabled, or the counted failures of its cooldown.\<close>

definition reasons_of :: "rat \<Rightarrow> usage_stats \<Rightarrow> failure_reason set" where
  "reasons_of now s =
     (case us_disabledReason s of
        Some r \<Rightarrow>
          if isActiveUnusableWindow (us_disabledUntil s) now \<and> r \<in> set FAILURE_REASON_PRIORITY then {r}
          else if isActiveUnusableWindow (us_cooldownUntil s) now
            then (if counted_reasons s = [] then {FrUnknown} else fst ` set (counted_reasons s)) else {}
      | None \<Rightarrow>
          if isActiveUnusableWindow (us_cooldownUntil s) now
          then (if counted_reasons s = [] then {FrUnknown} else fst ` set (counted_reasons s)) else {})"

definition scored :: "(failure_reason \<times> nat) list \<Rightarrow> failure_reason set" where
  "scored scores = fst ` set scores"

lemma scored_add: "r \<in> set FAILURE_REASON_PRIORITY \<Longrightarrow> n \<noteq> 0 \<Longrightarrow> scored (addScore r n scores) = insert r (scored scores)"
  by (simp add: addScore_def scored_def dom_update)

lemma scored_counts:
  "list_all (\<lambda>(r, n). r \<in> set FAILURE_REASON_PRIORITY \<and> n \<noteq> 0) cs \<Longrightarrow>
   scored (foldl (\<lambda>acc (r, n). addScore r n acc) scores cs) = scored scores \<union> fst ` set cs"
  by (induction cs arbitrary: scores) (auto simp: scored_add)

lemma counted_ok: "list_all (\<lambda>(r, n). r \<in> set FAILURE_REASON_PRIORITY \<and> n \<noteq> 0) (counted_reasons s)"
  by (auto simp: counted_reasons_def list_all_iff)

lemma unknown_known: "FrUnknown \<in> set FAILURE_REASON_PRIORITY"
  by (simp add: FAILURE_REASON_PRIORITY_def)

lemma scored_profile: "scored (score_profile now s scores) = scored scores \<union> reasons_of now s"
  by (auto simp: score_profile_def score_cooldown_def reasons_of_def scored_add scored_counts [OF counted_ok] unknown_known
      split: option.splits)

lemma reasons_known: "reasons_of now s \<subseteq> set FAILURE_REASON_PRIORITY"
  using counted_ok [of s] unknown_known by (auto simp: reasons_of_def list_all_iff split: option.splits if_splits)

lemma best_reason_None: "best_reason scores i rs best = None \<longleftrightarrow> best = None \<and> (\<forall>r \<in> set rs. r \<notin> scored scores)"
  by (induction scores i rs best rule: best_reason.induct)
    (auto simp: scored_def map_of_eq_None_iff split: option.splits prod.splits dest: map_of_SomeD intro: rev_image_eqI)

lemma scored_entry: "map_of scores r = Some n \<Longrightarrow> r \<in> scored scores"
  by (force simp: scored_def dest: map_of_SomeD)

lemma best_reason_Some: "best_reason scores i rs best = Some r \<Longrightarrow> r \<in> scored scores \<or> map_option fst best = Some r"
proof (induction rs arbitrary: i best)
  case (Cons q rs)
  show ?case
  proof (cases "map_of scores q")
    case None
    then show ?thesis using Cons by simp
  next
    case (Some n)
    then have "q \<in> scored scores" by (rule scored_entry)
    then show ?thesis using Cons.prems Some
      by (cases best) (auto split: prod.splits if_splits dest!: Cons.IH)
  qed
qed simp

lemma scored_all:
  "scored (foldl (\<lambda>scores i. case stats_at store i of None \<Rightarrow> scores | Some stats \<Rightarrow> score_profile now stats scores) scores ids) =
     scored scores \<union> (\<Union>i \<in> set ids. reasons_of now (stats_of store i))"
proof (induction ids arbitrary: scores)
  case (Cons i ids)
  have "reasons_of now empty_stats = {}" by (simp add: reasons_of_def empty_stats_def isActiveUnusableWindow_def)
  then show ?case
    by (cases "stats_at store i") (auto simp: Cons.IH scored_profile stats_of_def or_default_def)
qed simp

text \<open>The reason for which profiles are said to be unavailable is real. A reason is given exactly when some listed
  profile gives one, and it is one that a profile gives: why it is disabled now, or a failure counted in a
  cooldown that runs now, or \<open>unknown\<close> when that cooldown counted nothing.\<close>

theorem unavailable_reason_real:
  "(case resolveProfilesUnavailableReason store ids now of
      None \<Rightarrow> (\<Union>i \<in> set ids. reasons_of now (stats_of store i)) = {}
    | Some r \<Rightarrow> r \<in> (\<Union>i \<in> set ids. reasons_of now (stats_of store i)))"
proof -
  define scores where "scores =
    foldl (\<lambda>scores i. case stats_at store i of None \<Rightarrow> scores | Some stats \<Rightarrow> score_profile now stats scores) [] ids"
  have eq: "resolveProfilesUnavailableReason store ids now = best_reason scores 0 FAILURE_REASON_PRIORITY None"
    by (simp add: resolveProfilesUnavailableReason_def scores_def)
  have all: "scored scores = (\<Union>i \<in> set ids. reasons_of now (stats_of store i))"
    unfolding scores_def scored_all by (simp add: scored_def)
  then have "scored scores \<subseteq> set FAILURE_REASON_PRIORITY" using reasons_known by blast
  then have "scored scores = {}" if "best_reason scores 0 FAILURE_REASON_PRIORITY None = None"
    using that unfolding best_reason_None by blast
  moreover have "r \<in> scored scores" if "best_reason scores 0 FAILURE_REASON_PRIORITY None = Some r" for r
    using best_reason_Some [OF that] by simp
  ultimately show ?thesis unfolding eq all [symmetric] by (auto split: option.split)
qed

end
