(* ===== verification/AuthOrder.thy ===== *)
theory AuthOrder
  imports AuthUsage
begin

text \<open>
  Which credential is tried next: \<open>src/agents/auth-profiles/order.ts\<close>, and the credential a session sticks to,
  \<open>auth-profiles/session-override.ts\<close>. A synchronous section reads the clock once.
\<close>

section \<open>Eligible profiles\<close>

record profile_config =
  pf_provider :: string
  pf_mode :: auth_mode

record auth_config =
  ac_profiles :: "(string \<times> profile_config) list option"
  ac_order :: "(string \<times> string list) list option"
  ac_cooldowns :: "cooldown_options option"

definition resolveAuthProfileEligibility ::
    "auth_config \<Rightarrow> auth_store \<Rightarrow> string \<Rightarrow> string \<Rightarrow> rat \<Rightarrow> credential_reason" where
  "resolveAuthProfileEligibility cfg store provider profileId now =
     (let providerAuthKey = normalizeProviderIdForAuth provider in
      case profile_at store profileId of
        None \<Rightarrow> ProfileMissing
      | Some cred \<Rightarrow>
          if normalizeProviderIdForAuth (cred_provider cred) \<noteq> providerAuthKey then ProviderMismatch
          else (case map_of (or_default (ac_profiles cfg) []) profileId of
                  None \<Rightarrow> evaluateStoredCredentialEligibility now cred
                | Some pc \<Rightarrow>
                    if normalizeProviderIdForAuth (pf_provider pc) \<noteq> providerAuthKey then ProviderMismatch
                    else if pf_mode pc \<noteq> cred_type cred \<and> \<not> (pf_mode pc = OAuthMode \<and> cred_type cred = TokenMode)
                      then ModeMismatch
                    else evaluateStoredCredentialEligibility now cred))"

definition eligible :: "auth_config \<Rightarrow> auth_store \<Rightarrow> string \<Rightarrow> rat \<Rightarrow> string \<Rightarrow> bool" where
  "eligible cfg store provider now profileId =
     (resolveAuthProfileEligibility cfg store (normalizeProviderIdForAuth provider) profileId now = CredOk)"

section \<open>The order\<close>

definition rat_cmp :: "rat \<Rightarrow> rat \<Rightarrow> int" where
  "rat_cmp a b = (if a < b then - 1 else if a = b then 0 else 1)"

definition cooldown_end :: "auth_store \<Rightarrow> rat \<Rightarrow> string \<Rightarrow> rat" where
  "cooldown_end store now profileId =
     or_default (resolveProfileUnusableUntil (or_default (stats_at store profileId) empty_stats)) now"

definition in_cooldown :: "auth_store \<Rightarrow> rat \<Rightarrow> string \<Rightarrow> bool" where
  "in_cooldown store now profileId = isProfileInCooldown store profileId now None"

definition cooldown_sorted :: "auth_store \<Rightarrow> rat \<Rightarrow> string list \<Rightarrow> string list" where
  "cooldown_sorted store now ids =
     sort_with (\<lambda>a b. rat_cmp (cooldown_end store now a) (cooldown_end store now b)) (filter (in_cooldown store now) ids)"

definition type_score :: "auth_store \<Rightarrow> string \<Rightarrow> int" where
  "type_score store profileId =
     (case profile_at store profileId of
        None \<Rightarrow> 3
      | Some c \<Rightarrow> (case cred_type c of OAuthMode \<Rightarrow> 0 | TokenMode \<Rightarrow> 1 | ApiKeyMode \<Rightarrow> 2))"

definition last_used :: "auth_store \<Rightarrow> string \<Rightarrow> rat" where
  "last_used store profileId = or_default (Option.bind (stats_at store profileId) us_lastUsed) 0"

definition by_type_and_use :: "auth_store \<Rightarrow> string \<Rightarrow> string \<Rightarrow> int" where
  "by_type_and_use store a b =
     (if type_score store a \<noteq> type_score store b then type_score store a - type_score store b
      else rat_cmp (last_used store a) (last_used store b))"

definition orderProfilesByMode :: "auth_store \<Rightarrow> rat \<Rightarrow> string list \<Rightarrow> string list" where
  "orderProfilesByMode store now order =
     sort_with (by_type_and_use store) (filter (\<lambda>i. \<not> in_cooldown store now i) order) @ cooldown_sorted store now order"

definition preferred_first :: "string option \<Rightarrow> string list \<Rightarrow> string list" where
  "preferred_first preferred ids =
     (case preferred of
        None \<Rightarrow> ids
      | Some p \<Rightarrow> if p \<noteq> [] \<and> p \<in> set ids then p # filter (\<lambda>e. e \<noteq> p) ids else ids)"

text \<open>The order given by the store or the configuration, if any, and the candidates before they are ordered.\<close>

definition explicit_order :: "auth_config \<Rightarrow> auth_store \<Rightarrow> string \<Rightarrow> string list option" where
  "explicit_order cfg store provider =
     (case findNormalizedProviderValue (as_order store) (normalizeProviderId provider) of
        Some storedOrder \<Rightarrow> Some storedOrder
      | None \<Rightarrow> findNormalizedProviderValue (ac_order cfg) (normalizeProviderId provider))"

definition explicit_profiles :: "auth_config \<Rightarrow> string \<Rightarrow> string list" where
  "explicit_profiles cfg provider =
     map fst (filter (\<lambda>(i, pc). normalizeProviderIdForAuth (pf_provider pc) = normalizeProviderIdForAuth provider)
       (or_default (ac_profiles cfg) []))"

definition base_order :: "auth_config \<Rightarrow> auth_store \<Rightarrow> string \<Rightarrow> string list" where
  "base_order cfg store provider =
     (case explicit_order cfg store provider of
        Some ids \<Rightarrow> ids
      | None \<Rightarrow>
          if explicit_profiles cfg provider \<noteq> [] then explicit_profiles cfg provider
          else listProfilesForProvider store provider)"

definition usable_profiles :: "auth_config \<Rightarrow> auth_store \<Rightarrow> string \<Rightarrow> rat \<Rightarrow> string list" where
  "usable_profiles cfg store provider now =
     (let base = base_order cfg store provider;
          filtered = filter (eligible cfg store provider now) base
      in dedupeProfileIds
           (if filtered = [] \<and> explicit_profiles cfg provider \<noteq> [] \<and> list_all (\<lambda>i. profile_at store i = None) base
            then filter (eligible cfg store provider now) (listProfilesForProvider store provider)
            else filtered))"

text \<open>The result and the store with its expired cooldowns cleared.\<close>

definition resolveAuthProfileOrder ::
    "auth_config \<Rightarrow> auth_store \<Rightarrow> string \<Rightarrow> string option \<Rightarrow> rat \<Rightarrow> string list \<times> auth_store" where
  "resolveAuthProfileOrder cfg store0 provider preferredProfile now =
     (let store = snd (clearExpiredCooldowns now store0) in
      (if base_order cfg store provider = [] then []
       else
         (let deduped = usable_profiles cfg store provider now in
          if or_default (explicit_order cfg store provider) [] \<noteq> [] then
            preferred_first preferredProfile
              (filter (\<lambda>i. \<not> in_cooldown store now i) deduped @ cooldown_sorted store now deduped)
          else preferred_first preferredProfile (orderProfilesByMode store now deduped)), store))"

section \<open>The profile of a session\<close>

datatype override_source = OverrideAuto | OverrideUser

record session_auth =
  sa_override :: "string option"
  sa_source :: "override_source option"
  sa_overrideCompaction :: "nat option"
  sa_compactionCount :: "nat option"
  sa_updatedAt :: "rat option"

definition isProfileForProvider :: "auth_store \<Rightarrow> string \<Rightarrow> string \<Rightarrow> bool" where
  "isProfileForProvider store provider profileId =
     (case provider_of store profileId of
        None \<Rightarrow> False
      | Some p \<Rightarrow> p \<noteq> [] \<and> normalizeProviderId p = normalizeProviderId provider)"

definition clearSessionAuthProfileOverride :: "rat \<Rightarrow> session_auth \<Rightarrow> session_auth" where
  "clearSessionAuthProfileOverride now e =
     e\<lparr>sa_override := None, sa_source := None, sa_overrideCompaction := None, sa_updatedAt := Some now\<rparr>"

definition pickFirstAvailable :: "auth_store \<Rightarrow> rat \<Rightarrow> string list \<Rightarrow> string" where
  "pickFirstAvailable store now order =
     (case List.find (\<lambda>i. \<not> in_cooldown store now i) order of Some i \<Rightarrow> i | None \<Rightarrow> hd order)"

fun index_of :: "string \<Rightarrow> string list \<Rightarrow> nat option" where
  "index_of x [] = None"
| "index_of x (y # ys) = (if x = y then Some 0 else map_option Suc (index_of x ys))"

definition pickNextAvailable :: "auth_store \<Rightarrow> rat \<Rightarrow> string list \<Rightarrow> string \<Rightarrow> string" where
  "pickNextAvailable store now order active =
     (case index_of active order of
        None \<Rightarrow> pickFirstAvailable store now order
      | Some startIndex \<Rightarrow>
          (case List.find (\<lambda>i. \<not> in_cooldown store now i)
                  (map (\<lambda>k. order ! ((startIndex + k) mod length order)) [1..<Suc (length order)]) of
             Some i \<Rightarrow> i
           | None \<Rightarrow> order ! startIndex))"

text \<open>The current override, dropped when it names no usable profile of the provider.\<close>

definition checked_override ::
    "rat \<Rightarrow> auth_store \<Rightarrow> string \<Rightarrow> string list \<Rightarrow> session_auth \<Rightarrow> string option \<times> session_auth" where
  "checked_override now store provider order e =
     (case trimmed_opt (sa_override e) of
        None \<Rightarrow> (None, e)
      | Some current \<Rightarrow>
          if profile_at store current = None \<or> \<not> isProfileForProvider store provider current \<or>
             order \<noteq> [] \<and> current \<notin> set order
          then (None, clearSessionAuthProfileOverride now e) else (Some current, e))"

text \<open>The profile, the session entry and the store; a session that is not stored keeps its override unseen.\<close>

definition resolveSessionAuthProfileOverride ::
    "auth_config \<Rightarrow> rat \<Rightarrow> string \<Rightarrow> bool \<Rightarrow> auth_store \<Rightarrow> session_auth \<Rightarrow> string option \<times> session_auth \<times> auth_store" where
  "resolveSessionAuthProfileOverride cfg now provider isNewSession store0 e0 =
     (let (order, store) = resolveAuthProfileOrder cfg store0 provider None now;
          (current, e) = checked_override now store provider order e0
      in if order = [] then (None, e, store)
         else
           (let compactionCount = or_default (sa_compactionCount e) 0;
                storedCompaction = or_default (sa_overrideCompaction e) compactionCount;
                source = (case sa_source e of
                    Some s \<Rightarrow> Some s
                  | None \<Rightarrow> if sa_overrideCompaction e \<noteq> None then Some OverrideAuto
                      else if current \<noteq> None then Some OverrideUser else None)
            in if source = Some OverrideUser \<and> current \<noteq> None \<and> \<not> isNewSession then (current, e, store)
               else
                 (let next' = (if isNewSession
                      then (case current of Some c \<Rightarrow> pickNextAvailable store now order c | None \<Rightarrow> pickFirstAvailable store now order)
                      else (case current of
                          Some c \<Rightarrow> if compactionCount > storedCompaction then pickNextAvailable store now order c
                            else if in_cooldown store now c then pickFirstAvailable store now order else c
                        | None \<Rightarrow> pickFirstAvailable store now order));
                      e1 = (if sa_override e \<noteq> Some next' \<or> sa_source e \<noteq> Some OverrideAuto \<or>
                               sa_overrideCompaction e \<noteq> Some compactionCount
                            then e\<lparr>sa_override := Some next', sa_source := Some OverrideAuto,
                                   sa_overrideCompaction := Some compactionCount, sa_updatedAt := Some now\<rparr> else e)
                  in if next' = [] then (current, e, store) else (Some next', e1, store))))"

end
