(* ===== verification/AuthOrderProps.thy ===== *)
theory AuthOrderProps
  imports AuthOrder SortLemmas
begin

text \<open>
  What the order of credentials promises: every usable credential once, those in cooldown last, the least recently
  used first within a kind; and what a session's choice of a credential is.
\<close>

section \<open>The order\<close>

lemma consistent_rat_cmp: "consistent rat_cmp"
  by (rule consistentI) (auto simp: rat_cmp_def split: if_splits)

lemma consistent_by_type_and_use: "consistent (by_type_and_use store)"
proof -
  have "consistent (\<lambda>a b. if type_score store a - type_score store b \<noteq> 0 then type_score store a - type_score store b
      else rat_cmp (last_used store a) (last_used store b))"
    by (rule consistent_lex [OF consistent_diff consistent_pullback [OF consistent_rat_cmp]])
  moreover have "by_type_and_use store = (\<lambda>a b. if type_score store a - type_score store b \<noteq> 0
      then type_score store a - type_score store b else rat_cmp (last_used store a) (last_used store b))"
    by (intro ext) (simp add: by_type_and_use_def)
  ultimately show ?thesis by simp
qed

lemma consistent_cooldown_end: "consistent (\<lambda>a b. rat_cmp (cooldown_end store now a) (cooldown_end store now b))"
  by (rule consistent_pullback [OF consistent_rat_cmp])

lemma set_dedupe [simp]: "set (dedupeProfileIds ids) = set ids"
  by (simp add: dedupeProfileIds_def)

lemma distinct_dedupe [simp]: "distinct (dedupeProfileIds ids)"
  by (simp add: dedupeProfileIds_def)

lemma cooldown_sorted_simps [simp]:
  "set (cooldown_sorted store now ids) = {i \<in> set ids. in_cooldown store now i}"
  "distinct (cooldown_sorted store now ids) = distinct (filter (in_cooldown store now) ids)"
  by (auto simp: cooldown_sorted_def)

lemma cooldown_sorted_sorted:
  "sorted_wrt (\<lambda>a b. cooldown_end store now a \<le> cooldown_end store now b) (cooldown_sorted store now ids)"
  using sorted_sort_with [OF consistent_cooldown_end [of store now], of "filter (in_cooldown store now) ids"]
  unfolding cooldown_sorted_def
  by (rule sorted_wrt_mono_rel [rotated]) (auto simp: rat_cmp_def split: if_splits)

text \<open>The two halves of an order: usable now, then in cooldown by the end of the cooldown.\<close>

definition cooled_last :: "auth_store \<Rightarrow> rat \<Rightarrow> string list \<Rightarrow> string list \<Rightarrow> bool" where
  "cooled_last store now avail cooled \<longleftrightarrow>
     list_all (\<lambda>i. \<not> in_cooldown store now i) avail \<and> list_all (in_cooldown store now) cooled \<and>
     sorted_wrt (\<lambda>a b. cooldown_end store now a \<le> cooldown_end store now b) cooled"

lemma usable_distinct: "distinct (usable_profiles cfg store provider now)"
  by (simp add: usable_profiles_def Let_def)

lemma usable_eligible: "list_all (eligible cfg store provider now) (usable_profiles cfg store provider now)"
  by (auto simp: usable_profiles_def Let_def list_all_iff)

lemma usable_explicit:
  "filter (eligible cfg store provider now) (base_order cfg store provider) \<noteq> [] \<Longrightarrow>
   set (usable_profiles cfg store provider now) = {i \<in> set (base_order cfg store provider). eligible cfg store provider now i}"
  by (auto simp: usable_profiles_def Let_def)


section \<open>The profile of a session\<close>

lemma find_or: "List.find P xs = Some x \<Longrightarrow> P x \<and> x \<in> set xs" "List.find P xs = None \<Longrightarrow> list_all (\<lambda>x. \<not> P x) xs"
  by (auto simp: find_Some_iff find_None_iff list_all_iff)

text \<open>A pick is listed, and in cooldown only when all of the list is.\<close>

definition good_pick :: "auth_store \<Rightarrow> rat \<Rightarrow> string list \<Rightarrow> string \<Rightarrow> bool" where
  "good_pick store now order p \<longleftrightarrow> p \<in> set order \<and> (\<not> in_cooldown store now p \<or> list_all (in_cooldown store now) order)"

lemma first_pick: "order \<noteq> [] \<Longrightarrow> good_pick store now order (pickFirstAvailable store now order)"
  by (auto simp: pickFirstAvailable_def good_pick_def split: option.split dest: find_or)

lemma index_of_nth: "index_of x xs = Some k \<Longrightarrow> k < length xs \<and> xs ! k = x"
  by (induction xs arbitrary: k) (auto split: if_splits)

lemma rotation_all:
  assumes "k < length xs"
  shows "set (map (\<lambda>j. xs ! ((k + j) mod length xs)) [1..<Suc (length xs)]) = set xs"
proof
  show "set xs \<subseteq> set (map (\<lambda>j. xs ! ((k + j) mod length xs)) [1..<Suc (length xs)])"
  proof
    fix x assume "x \<in> set xs"
    then obtain m where m: "m < length xs" "xs ! m = x" by (auto simp: in_set_conv_nth)
    let ?j = "if k < m then m - k else m + length xs - k"
    have "(k + ?j) mod length xs = m" "1 \<le> ?j" "?j < Suc (length xs)" using assms m by auto
    then show "x \<in> set (map (\<lambda>j. xs ! ((k + j) mod length xs)) [1..<Suc (length xs)])"
      unfolding set_map set_upt using m(2) by (intro image_eqI [of _ _ ?j]) (simp_all only: atLeastLessThan_iff)
  qed
next
  have "(k + j) mod length xs < length xs" for j using assms by (intro mod_less_divisor) linarith
  then show "set (map (\<lambda>j. xs ! ((k + j) mod length xs)) [1..<Suc (length xs)]) \<subseteq> set xs"
    by (auto simp del: upt_Suc)
qed

lemma next_pick: "order \<noteq> [] \<Longrightarrow> good_pick store now order (pickNextAvailable store now order active)"
proof (cases "index_of active order")
  case None
  then show "order \<noteq> [] \<Longrightarrow> ?thesis" by (simp add: pickNextAvailable_def first_pick)
next
  case (Some k)
  define rot where "rot = map (\<lambda>j. order ! ((k + j) mod length order)) [1..<Suc (length order)]"
  have k: "k < length order" using index_of_nth [OF Some] by simp
  have rot: "set rot = set order" unfolding rot_def by (rule rotation_all [OF k])
  have eq: "pickNextAvailable store now order active =
      (case List.find (\<lambda>i. \<not> in_cooldown store now i) rot of Some i \<Rightarrow> i | None \<Rightarrow> order ! k)"
    by (simp only: pickNextAvailable_def Some rot_def option.case)
  show ?thesis
  proof (cases "List.find (\<lambda>i. \<not> in_cooldown store now i) rot")
    case None
    then have "list_all (in_cooldown store now) order" using find_or(2) [OF None] rot by (simp add: list_all_iff)
    then show ?thesis using k by (simp add: eq None good_pick_def)
  next
    case (Some i)
    then show ?thesis using find_or(1) [OF Some] rot by (simp add: eq Some good_pick_def)
  qed
qed

lemma checked_current:
  "checked_override now store provider order e = (current, e') \<Longrightarrow> order \<noteq> [] \<Longrightarrow>
   case current of None \<Rightarrow> True | Some c \<Rightarrow> c \<in> set order \<and> e' = e"
  by (auto simp: checked_override_def split: option.splits if_splits)

text \<open>A session always gets a usable credential. It gets none only when the provider has none, and otherwise one of
  the order; one in cooldown only when all are in cooldown, or when the user chose it for this session, whose
  choice is kept as it is.\<close>

theorem session_profile_usable:
  assumes "resolveSessionAuthProfileOverride cfg now provider isNew store0 e0 = (result, e, store)"
    and "[] \<notin> set (fst (resolveAuthProfileOrder cfg store0 provider None now))"
  shows "(case result of
      None \<Rightarrow> fst (resolveAuthProfileOrder cfg store0 provider None now) = []
    | Some p \<Rightarrow>
        good_pick store now (fst (resolveAuthProfileOrder cfg store0 provider None now)) p \<or>
        p \<in> set (fst (resolveAuthProfileOrder cfg store0 provider None now)) \<and> \<not> isNew \<and>
          trimmed_opt (sa_override e0) = Some p \<and> e = e0 \<and> sa_source e0 \<noteq> Some OverrideAuto)"
proof -
  obtain order st where r: "resolveAuthProfileOrder cfg store0 provider None now = (order, st)" by force
  obtain current e1 where c: "checked_override now st provider order e0 = (current, e1)" by force
  have nonempty: "p \<noteq> []" if "p \<in> set order" for p using that assms(2) r by auto
  show ?thesis
  proof (cases "order = []")
    case True
    then show ?thesis using assms(1) r c by (simp add: resolveSessionAuthProfileOverride_def Let_def)
  next
    case False
    have cur: "c \<in> set order \<and> e1 = e0 \<and> trimmed_opt (sa_override e0) = Some c" if "current = Some c" for c
      using checked_current [OF c False] that c
      by (auto simp: checked_override_def split: option.splits if_splits)
    have pick: "good_pick st now order (pickFirstAvailable st now order)"
      "good_pick st now order (pickNextAvailable st now order a)" for a
      using False first_pick next_pick by blast+
    have good: "good_pick st now order p \<Longrightarrow> p \<noteq> []" for p using nonempty by (simp add: good_pick_def)
    have keep: "good_pick st now order c" if "current = Some c" "\<not> in_cooldown st now c" for c
      using cur that by (simp add: good_pick_def)
    show ?thesis
    proof (cases current)
      case None
      then have "result = Some (pickFirstAvailable st now order) \<and> store = st"
        using assms(1) False r c good [OF pick(1)]
        by (simp add: resolveSessionAuthProfileOverride_def Let_def split: if_splits)
      then show ?thesis using pick(1) r by simp
    next
      case (Some q)
      have e1: "e1 = e0" using cur [OF Some] by blast
      have "store = st \<and> (result = Some (pickFirstAvailable st now order) \<or> result = Some (pickNextAvailable st now order q) \<or>
          result = Some q \<and> (\<not> in_cooldown st now q \<or> \<not> isNew \<and> e = e0 \<and> sa_source e0 \<noteq> Some OverrideAuto))"
        using assms(1) False r c [unfolded Some e1] good [OF pick(1)] good [OF pick(2)]
        by (auto simp: resolveSessionAuthProfileOverride_def Let_def split: if_splits option.splits)
      then show ?thesis using pick cur [OF Some] keep [OF Some] r by auto
    qed
  qed
qed

text \<open>A session on a key in cooldown moves to the other key; one whose user chose that key stays.\<close>

definition one_cooling :: auth_store where
  "one_cooling = \<lparr>as_profiles = [(''a'', ApiKeyCredential ''p'' (JStr ''k'') JUndef),
       (''b'', ApiKeyCredential ''p'' (JStr ''l'') JUndef)],
     as_order = None, as_lastGood = None,
     as_usageStats = Some [(''a'', empty_stats\<lparr>us_cooldownUntil := Some 9000\<rparr>)]\<rparr>"

definition no_auth_config :: auth_config where
  "no_auth_config = \<lparr>ac_profiles = None, ac_order = None, ac_cooldowns = None\<rparr>"

definition bound_session :: "override_source \<Rightarrow> session_auth" where
  "bound_session source = \<lparr>sa_override = Some ''a'', sa_source = Some source, sa_overrideCompaction = Some 0,
     sa_compactionCount = Some 0, sa_updatedAt = None\<rparr>"

theorem session_profile_usable_witness:
  "fst (resolveSessionAuthProfileOverride no_auth_config 5000 ''p'' False one_cooling (bound_session OverrideAuto)) =
     Some ''b'' \<and>
   fst (resolveSessionAuthProfileOverride no_auth_config 5000 ''p'' False one_cooling (bound_session OverrideUser)) =
     Some ''a'' \<and>
   good_pick one_cooling 5000 [''b'', ''a''] ''b''"
proof -
  obtain result e store where r:
    "resolveSessionAuthProfileOverride no_auth_config 5000 ''p'' False one_cooling (bound_session OverrideAuto) =
      (result, e, store)" using prod_cases3 by blast
  have fst: "fst (resolveSessionAuthProfileOverride no_auth_config 5000 ''p'' False one_cooling (bound_session OverrideAuto)) =
      Some ''b''"
    "fst (resolveSessionAuthProfileOverride no_auth_config 5000 ''p'' False one_cooling (bound_session OverrideUser)) =
      Some ''a''"
    "snd (snd (resolveSessionAuthProfileOverride no_auth_config 5000 ''p'' False one_cooling (bound_session OverrideAuto))) =
      one_cooling"
    "sa_source (bound_session OverrideAuto) = Some OverrideAuto"
    "fst (resolveAuthProfileOrder no_auth_config one_cooling ''p'' None 5000) = [''b'', ''a'']"
    by code_simp+
  then have "result = Some ''b''" "store = one_cooling" using r by simp_all
  moreover have "[] \<notin> set (fst (resolveAuthProfileOrder no_auth_config one_cooling ''p'' None 5000))"
    by (simp add: fst)
  ultimately show ?thesis using session_profile_usable [OF r] fst by simp
qed

end
