(* ===== verification/ModelFallback.thy ===== *)
theory ModelFallback
  imports AuthOrder
begin

text \<open>
  Falling back to other models: \<open>src/agents/model-fallback.ts\<close> with \<open>failover-policy.ts\<close> and the normal form of
  errors of \<open>failover-error.ts\<close>. A run tries its candidates in order; a candidate whose provider has all its
  credentials in cooldown is skipped or probed. What a call of the model does (its result or what it throws) and the
  clock are functions of the number of the candidate. How an error is classified, and how a written model reference is
  resolved, are inputs.
\<close>

section \<open>Errors\<close>

text \<open>What the code observes of a thrown value: whether it is a \<open>FailoverError\<close> already, the reason its
  classification gives, an \<open>AbortError\<close> that is no timeout, and a \<open>LiveSessionModelSwitchError\<close>.\<close>

record run_error =
  re_message :: string
  re_failover :: bool
  re_reason :: "failure_reason option"
  re_status :: "nat option"
  re_code :: "string option"
  re_userAbort :: bool
  re_liveSwitch :: bool

definition resolveFailoverStatus :: "failure_reason \<Rightarrow> nat option" where
  "resolveFailoverStatus reason =
     (case reason of FrBilling \<Rightarrow> Some 402 | FrRateLimit \<Rightarrow> Some 429 | FrOverloaded \<Rightarrow> Some 503 | FrAuth \<Rightarrow> Some 401
      | FrAuthPermanent \<Rightarrow> Some 403 | FrTimeout \<Rightarrow> Some 408 | FrFormat \<Rightarrow> Some 400 | FrModelNotFound \<Rightarrow> Some 404
      | FrSessionExpired \<Rightarrow> Some 410 | FrUnknown \<Rightarrow> None)"

definition coerceToFailoverError :: "run_error \<Rightarrow> run_error option" where
  "coerceToFailoverError err =
     (if re_failover err then Some err
      else case re_reason err of
        None \<Rightarrow> None
      | Some reason \<Rightarrow>
          Some (err\<lparr>re_failover := True, re_userAbort := False, re_liveSwitch := False,
            re_status := (case re_status err of Some s \<Rightarrow> Some s | None \<Rightarrow> resolveFailoverStatus reason)\<rparr>))"

definition shouldRethrowAbort :: "run_error \<Rightarrow> bool" where
  "shouldRethrowAbort err = (\<not> re_failover err \<and> re_userAbort err)"

section \<open>The policy of probes\<close>

definition shouldAllowCooldownProbeForReason :: "failure_reason option \<Rightarrow> bool" where
  "shouldAllowCooldownProbeForReason reason =
     (reason \<in> {Some FrRateLimit, Some FrOverloaded, Some FrBilling, Some FrUnknown})"

definition shouldUseTransientCooldownProbeSlot :: "failure_reason option \<Rightarrow> bool" where
  "shouldUseTransientCooldownProbeSlot reason = (reason \<in> {Some FrRateLimit, Some FrOverloaded, Some FrUnknown})"

definition shouldPreserveTransientCooldownProbeSlot :: "failure_reason option \<Rightarrow> bool" where
  "shouldPreserveTransientCooldownProbeSlot reason =
     (reason \<in> {Some FrModelNotFound, Some FrFormat, Some FrAuth, Some FrAuthPermanent, Some FrSessionExpired})"

section \<open>Candidates\<close>

record model_candidate =
  mc_provider :: string
  mc_model :: string

definition modelKey :: "string \<Rightarrow> string \<Rightarrow> string" where
  "modelKey provider model =
     (let providerId = trim provider; modelId = trim model in
      if providerId = [] then modelId
      else if modelId = [] then providerId
      else if starts_with (to_lower modelId) (to_lower providerId @ ''/'') then modelId
      else providerId @ ''/'' @ modelId)"

definition candidate_key :: "model_candidate \<Rightarrow> string" where
  "candidate_key c = modelKey (mc_provider c) (mc_model c)"

text \<open>The collector; its set of seen keys is the keys of its candidates.\<close>

definition addExplicitCandidate :: "model_candidate list \<Rightarrow> model_candidate \<Rightarrow> model_candidate list" where
  "addExplicitCandidate candidates c =
     (if mc_provider c = [] \<or> mc_model c = [] \<or> candidate_key c \<in> set (map candidate_key candidates) then candidates
      else candidates @ [c])"

text \<open>The references of the configuration: \<open>fc_primary\<close> is the configured model (\<open>None\<close> without a configuration),
  \<open>fc_normalize\<close> and \<open>fc_resolve\<close> are \<open>normalizeModelRef\<close> and \<open>resolveModelRefFromString\<close>.\<close>

record fallback_config =
  fc_primary :: "model_candidate option"
  fc_fallbacks :: "string list"
  fc_normalize :: "string \<Rightarrow> string \<Rightarrow> model_candidate"
  fc_resolve :: "string \<Rightarrow> model_candidate option"

definition DEFAULT_CANDIDATE :: model_candidate where
  "DEFAULT_CANDIDATE = \<lparr>mc_provider = ''anthropic'', mc_model = ''claude-opus-4-6''\<rparr>"

definition resolveFallbackCandidates ::
    "fallback_config \<Rightarrow> string \<Rightarrow> string \<Rightarrow> string list option \<Rightarrow> model_candidate list" where
  "resolveFallbackCandidates fc provider model fallbacksOverride =
     (let dflt = or_default (fc_primary fc) DEFAULT_CANDIDATE;
          providerRaw = (if trim provider = [] then mc_provider dflt else trim provider);
          modelRaw = (if trim model = [] then mc_model dflt else trim model);
          normalizedPrimary = fc_normalize fc providerRaw modelRaw;
          configuredPrimary = fc_normalize fc (mc_provider dflt) (mc_model dflt);
          modelFallbacks = (case fallbacksOverride of
              Some ids \<Rightarrow> ids
            | None \<Rightarrow>
                if mc_provider normalizedPrimary \<noteq> mc_provider configuredPrimary \<and>
                   \<not> list_ex (\<lambda>raw. fc_resolve fc raw = Some normalizedPrimary) (fc_fallbacks fc)
                then [] else fc_fallbacks fc);
          c1 = addExplicitCandidate [] normalizedPrimary;
          c2 = foldl addExplicitCandidate c1 (List.map_filter (fc_resolve fc) modelFallbacks)
      in if fallbacksOverride = None
         then (case fc_primary fc of
                 Some p \<Rightarrow> if mc_provider p \<noteq> [] \<and> mc_model p \<noteq> [] then addExplicitCandidate c2 p else c2
               | None \<Rightarrow> c2)
         else c2)"

section \<open>The throttle of probes\<close>

type_synonym probe_state = "(string \<times> rat) list"

definition MIN_PROBE_INTERVAL_MS :: rat where "MIN_PROBE_INTERVAL_MS = 30000"
definition PROBE_MARGIN_MS :: rat where "PROBE_MARGIN_MS = 120000"
definition PROBE_STATE_TTL_MS :: rat where "PROBE_STATE_TTL_MS = 86400000"
definition MAX_PROBE_KEYS :: nat where "MAX_PROBE_KEYS = 256"

definition resolveProbeThrottleKey :: "string \<Rightarrow> string option \<Rightarrow> string" where
  "resolveProbeThrottleKey provider agentDir =
     (let scope = (case agentDir of None \<Rightarrow> [] | Some d \<Rightarrow> trim d) in
      if scope = [] then provider else scope @ ''::'' @ provider)"

definition pruneProbeState :: "rat \<Rightarrow> probe_state \<Rightarrow> probe_state" where
  "pruneProbeState now ps = filter (\<lambda>(key, ts). \<not> (ts \<le> 0 \<or> now - ts > PROBE_STATE_TTL_MS)) ps"

text \<open>The first key with the smallest time.\<close>

fun oldest_probe :: "probe_state \<Rightarrow> (string \<times> rat) option" where
  "oldest_probe [] = None"
| "oldest_probe ((key, ts) # ps) =
     (case oldest_probe ps of
        None \<Rightarrow> Some (key, ts)
      | Some (k, t) \<Rightarrow> if t < ts then Some (k, t) else Some (key, ts))"

lemma oldest_probe_mem: "oldest_probe ps = Some kt \<Longrightarrow> kt \<in> set ps"
  by (induction ps arbitrary: kt rule: oldest_probe.induct) (auto split: option.splits if_splits)

lemma without_oldest_shorter:
  "oldest_probe ps = Some (key, ts) \<Longrightarrow> length (filter (\<lambda>(k, t). k \<noteq> key) ps) < length ps"
  using length_filter_less [OF oldest_probe_mem, of ps "(key, ts)" "\<lambda>(k, t). k \<noteq> key"] by simp

function enforceProbeStateCap :: "probe_state \<Rightarrow> probe_state" where
  "enforceProbeStateCap ps =
     (if length ps \<le> MAX_PROBE_KEYS then ps
      else case oldest_probe ps of
        None \<Rightarrow> ps
      | Some (key, ts) \<Rightarrow> if key = [] then ps else enforceProbeStateCap (filter (\<lambda>(k, t). k \<noteq> key) ps))"
  by pat_completeness auto
termination
  by (relation "measure length") (auto dest: without_oldest_shorter)

declare enforceProbeStateCap.simps [simp del]

text \<open>The answer and the pruned state.\<close>

definition isProbeThrottleOpen :: "rat \<Rightarrow> string \<Rightarrow> probe_state \<Rightarrow> bool \<times> probe_state" where
  "isProbeThrottleOpen now throttleKey ps0 =
     (let ps = pruneProbeState now ps0
      in (now - or_default (map_of ps throttleKey) 0 \<ge> MIN_PROBE_INTERVAL_MS, ps))"

definition markProbeAttempt :: "rat \<Rightarrow> string \<Rightarrow> probe_state \<Rightarrow> probe_state" where
  "markProbeAttempt now throttleKey ps =
     enforceProbeStateCap (AList.update throttleKey now (pruneProbeState now ps))"

section \<open>The decision on a provider in cooldown\<close>

definition shouldProbePrimaryDuringCooldown ::
    "bool \<Rightarrow> bool \<Rightarrow> rat \<Rightarrow> string \<Rightarrow> auth_store \<Rightarrow> string list \<Rightarrow> string \<Rightarrow> probe_state \<Rightarrow> bool \<times> probe_state" where
  "shouldProbePrimaryDuringCooldown isPrimary hasFallbackCandidates now throttleKey store profileIds model ps =
     (if \<not> isPrimary \<or> \<not> hasFallbackCandidates then (False, ps)
      else case isProbeThrottleOpen now throttleKey ps of
        (False, ps1) \<Rightarrow> (False, ps1)
      | (True, ps1) \<Rightarrow>
          (case getSoonestCooldownExpiry store profileIds now (Some model) of
             None \<Rightarrow> (True, ps1)
           | Some soonest \<Rightarrow> (now \<ge> soonest - PROBE_MARGIN_MS, ps1)))"

datatype cooldown_decision =
    SkipCandidate failure_reason string
  | AttemptCandidate failure_reason bool

definition reason_name :: "failure_reason \<Rightarrow> string" where
  "reason_name r = (case r of FrAuth \<Rightarrow> ''auth'' | FrAuthPermanent \<Rightarrow> ''auth_permanent'' | FrFormat \<Rightarrow> ''format''
     | FrOverloaded \<Rightarrow> ''overloaded'' | FrRateLimit \<Rightarrow> ''rate_limit'' | FrBilling \<Rightarrow> ''billing'' | FrTimeout \<Rightarrow> ''timeout''
     | FrModelNotFound \<Rightarrow> ''model_not_found'' | FrSessionExpired \<Rightarrow> ''session_expired'' | FrUnknown \<Rightarrow> ''unknown'')"

definition issue_message :: "string \<Rightarrow> failure_reason \<Rightarrow> string" where
  "issue_message provider reason =
     ''Provider '' @ provider @ '' has '' @ reason_name reason @ '' issue (skipping all models)''"

definition resolveCooldownDecision ::
    "model_candidate \<Rightarrow> bool \<Rightarrow> bool \<Rightarrow> bool \<Rightarrow> rat \<Rightarrow> string \<Rightarrow> auth_store \<Rightarrow> string list \<Rightarrow> probe_state \<Rightarrow>
     cooldown_decision \<times> probe_state" where
  "resolveCooldownDecision candidate isPrimary requestedModel hasFallbackCandidates now probeThrottleKey store profileIds ps =
     (let (shouldProbe, ps1) = shouldProbePrimaryDuringCooldown isPrimary hasFallbackCandidates now probeThrottleKey store
            profileIds (mc_model candidate) ps;
          inferredReason = or_default (resolveProfilesUnavailableReason store profileIds now) FrUnknown
      in if inferredReason = FrAuth \<or> inferredReason = FrAuthPermanent then
           (SkipCandidate inferredReason (issue_message (mc_provider candidate) inferredReason), ps1)
         else if inferredReason = FrBilling then
           (let (single, ps2) = (if isPrimary \<and> \<not> hasFallbackCandidates
                                 then isProbeThrottleOpen now probeThrottleKey ps1 else (False, ps1))
            in (if isPrimary \<and> (shouldProbe \<or> single) then AttemptCandidate inferredReason True
                else SkipCandidate inferredReason (issue_message (mc_provider candidate) inferredReason), ps2))
         else if isPrimary \<and> (\<not> requestedModel \<or> shouldProbe) \<or>
                 \<not> isPrimary \<and> inferredReason \<in> {FrRateLimit, FrOverloaded, FrUnknown} then
           (AttemptCandidate inferredReason (isPrimary \<and> shouldProbe), ps1)
         else (SkipCandidate inferredReason
                 (''Provider '' @ mc_provider candidate @ '' is in cooldown (all profiles unavailable)''), ps1))"

section \<open>The run\<close>

record fallback_attempt =
  fa_candidate :: model_candidate
  fa_error :: string
  fa_reason :: "failure_reason option"
  fa_status :: "nat option"
  fa_code :: "string option"

datatype 'r run_outcome = RunReturned 'r | RunThrew run_error

text \<open>\<open>fs_calls\<close> is the log of the calls of \<open>run\<close>: the candidate and whether the call is a probe.\<close>

record fallback_state =
  fs_store :: "auth_store option"
  fs_probes :: probe_state
  fs_used :: "string list"
  fs_attempts :: "fallback_attempt list"
  fs_lastError :: "run_error option"
  fs_calls :: "(model_candidate \<times> bool) list"

datatype 'r fallback_result =
    FallbackSuccess 'r model_candidate "fallback_attempt list"
  | FallbackThrew run_error
  | FallbackSummary string "fallback_attempt list" "rat option"

definition skipped :: "model_candidate \<Rightarrow> string \<Rightarrow> failure_reason \<Rightarrow> fallback_attempt" where
  "skipped c msg reason =
     \<lparr>fa_candidate = c, fa_error = msg, fa_reason = Some reason, fa_status = None, fa_code = None\<rparr>"

text \<open>A failed attempt: \<open>describeFailoverError\<close>.\<close>

definition failed :: "model_candidate \<Rightarrow> run_error \<Rightarrow> fallback_attempt" where
  "failed c e = \<lparr>fa_candidate = c, fa_error = re_message e, fa_reason = Some (or_default (re_reason e) FrUnknown),
     fa_status = re_status e, fa_code = re_code e\<rparr>"

definition throwFallbackFailureSummary ::
    "fallback_attempt list \<Rightarrow> nat \<Rightarrow> run_error option \<Rightarrow> string \<Rightarrow> (fallback_attempt \<Rightarrow> string) \<Rightarrow> rat option \<Rightarrow>
     'r fallback_result" where
  "throwFallbackFailureSummary attempts candidates lastError label fmt soonest =
     (case (length attempts \<le> 1, lastError) of
        (True, Some e) \<Rightarrow> FallbackThrew e
      | _ \<Rightarrow>
          FallbackSummary
            (''All '' @ label @ '' failed ('' @ show_nat (if attempts = [] then candidates else length attempts) @ ''): '' @
               (if attempts = [] then ''unknown'' else join_with '' | '' (map fmt attempts)))
            attempts soonest)"

definition format_attempt :: "fallback_attempt \<Rightarrow> string" where
  "format_attempt a = mc_provider (fa_candidate a) @ ''/'' @ mc_model (fa_candidate a) @ '': '' @ fa_error a @
     (case fa_reason a of None \<Rightarrow> [] | Some r \<Rightarrow> '' ('' @ reason_name r @ '')'')"

text \<open>\<open>refreshed\<close> is the store read again from disk.\<close>

definition resolveFallbackSoonestCooldownExpiry ::
    "auth_config \<Rightarrow> auth_store option \<Rightarrow> rat \<Rightarrow> model_candidate list \<Rightarrow> rat option" where
  "resolveFallbackSoonestCooldownExpiry cfg refreshed now candidates =
     (case refreshed of
        None \<Rightarrow> None
      | Some st \<Rightarrow>
          fst (foldl (\<lambda>(soonest, s) c.
            let (ids, s1) = resolveAuthProfileOrder cfg s (mc_provider c) None now in
            (case getSoonestCooldownExpiry s1 ids now (Some (mc_model c)) of
               None \<Rightarrow> soonest
             | Some t \<Rightarrow> (case soonest of None \<Rightarrow> Some t | Some u \<Rightarrow> if t < u then Some t else soonest), s1))
            (None, st) candidates))"

text \<open>What is done with a candidate before it is run: skipped, or run with the options, as a probe of its provider.\<close>

datatype preparation = PrepSkip fallback_attempt | PrepRun bool "string option"

definition prepare_candidate ::
    "auth_config \<Rightarrow> string option \<Rightarrow> bool \<Rightarrow> bool \<Rightarrow> bool \<Rightarrow> rat \<Rightarrow> model_candidate \<Rightarrow> fallback_state \<Rightarrow>
     preparation \<times> fallback_state" where
  "prepare_candidate cfg agentDir isPrimary requestedModel hasFallbackCandidates now c s =
     (case fs_store s of
        None \<Rightarrow> (PrepRun False None, s)
      | Some st0 \<Rightarrow>
          let (profileIds, st) = resolveAuthProfileOrder cfg st0 (mc_provider c) None now;
              s1 = s\<lparr>fs_store := Some st\<rparr>
          in if profileIds = [] \<or> list_ex (\<lambda>i. \<not> isProfileInCooldown st i now (Some (mc_model c))) profileIds
             then (PrepRun False None, s1)
             else
               (let key = resolveProbeThrottleKey (mc_provider c) agentDir;
                    (decision, ps) = resolveCooldownDecision c isPrimary requestedModel hasFallbackCandidates now key st
                      profileIds (fs_probes s1)
                in case decision of
                     SkipCandidate reason msg \<Rightarrow> (PrepSkip (skipped c msg reason), s1\<lparr>fs_probes := ps\<rparr>)
                   | AttemptCandidate reason markProbe \<Rightarrow>
                       (let s2 = s1\<lparr>fs_probes := (if markProbe then markProbeAttempt now key ps else ps)\<rparr>;
                            transient = shouldUseTransientCooldownProbeSlot (Some reason)
                        in if shouldAllowCooldownProbeForReason (Some reason) then
                             (if transient \<and> mc_provider c \<in> set (fs_used s2)
                              then (PrepSkip (skipped c (''Provider '' @ mc_provider c @
                                      '' is in cooldown (probe already attempted this run)'') reason), s2)
                              else (PrepRun True (if transient then Some (mc_provider c) else None), s2))
                           else (PrepRun False None, s2))))"

text \<open>What follows an error: \<open>Inl\<close> ends the run. \<open>overflow\<close> recognises the message of a context overflow.\<close>

definition candidate_failed ::
    "(string \<Rightarrow> bool) \<Rightarrow> bool \<Rightarrow> string option \<Rightarrow> model_candidate \<Rightarrow> run_error \<Rightarrow> fallback_state \<Rightarrow>
     run_error + fallback_state" where
  "candidate_failed overflow isLast probed c thrown s =
     (case coerceToFailoverError thrown of
        None \<Rightarrow>
          if shouldRethrowAbort thrown then Inl thrown
          else
            (let s1 = (case probed of
                   Some p \<Rightarrow> if shouldPreserveTransientCooldownProbeSlot (re_reason thrown) then s
                     else s\<lparr>fs_used := p # fs_used s\<rparr>
                 | None \<Rightarrow> s)
             in if overflow (re_message thrown) then Inl thrown
                else if re_liveSwitch thrown then
                  (let e = thrown\<lparr>re_failover := True, re_reason := Some FrOverloaded, re_status := None, re_code := None\<rparr>
                   in Inr (s1\<lparr>fs_lastError := Some e, fs_attempts := fs_attempts s1 @ [failed c e]\<rparr>))
                else if isLast then Inl thrown
                else Inr (s1\<lparr>fs_lastError := Some thrown, fs_attempts := fs_attempts s1 @ [failed c thrown]\<rparr>))
      | Some e \<Rightarrow>
          (let s1 = (case probed of
                 Some p \<Rightarrow> if shouldPreserveTransientCooldownProbeSlot (re_reason e) then s
                   else s\<lparr>fs_used := p # fs_used s\<rparr>
               | None \<Rightarrow> s)
           in if overflow (re_message e) then Inl e
              else Inr (s1\<lparr>fs_lastError := Some e, fs_attempts := fs_attempts s1 @ [failed c e]\<rparr>)))"

text \<open>The loop over the candidates; \<open>Inl\<close> is a result, \<open>Inr\<close> the state when all of them failed.\<close>

fun fallback_loop ::
    "auth_config \<Rightarrow> string option \<Rightarrow> (string \<Rightarrow> bool) \<Rightarrow> model_candidate \<Rightarrow> nat \<Rightarrow> (nat \<Rightarrow> rat) \<Rightarrow> (nat \<Rightarrow> 'r run_outcome) \<Rightarrow>
     nat \<Rightarrow> model_candidate list \<Rightarrow> fallback_state \<Rightarrow> 'r fallback_result option \<times> fallback_state" where
  "fallback_loop cfg agentDir overflow requested n clock outcome i [] s = (None, s)"
| "fallback_loop cfg agentDir overflow requested n clock outcome i (c # cs) s =
     (case prepare_candidate cfg agentDir (i = 0) (c = requested) (n > 1) (clock i) c s of
        (PrepSkip a, s1) \<Rightarrow>
          fallback_loop cfg agentDir overflow requested n clock outcome (Suc i) cs (s1\<lparr>fs_attempts := fs_attempts s1 @ [a]\<rparr>)
      | (PrepRun probe probed, s1) \<Rightarrow>
          (let s2 = s1\<lparr>fs_calls := fs_calls s1 @ [(c, probe)]\<rparr> in
           case outcome i of
             RunReturned r \<Rightarrow> (Some (FallbackSuccess r c (fs_attempts s2)), s2)
           | RunThrew e \<Rightarrow>
               (case candidate_failed overflow (cs = []) probed c e s2 of
                  Inl err \<Rightarrow> (Some (FallbackThrew err), s2)
                | Inr s3 \<Rightarrow> fallback_loop cfg agentDir overflow requested n clock outcome (Suc i) cs s3)))"

text \<open>The result, and the state at the end. \<open>store\<close> is \<open>None\<close> without a configuration.\<close>

definition runWithModelFallback ::
    "fallback_config \<Rightarrow> auth_config \<Rightarrow> string \<Rightarrow> string \<Rightarrow> string option \<Rightarrow> string list option \<Rightarrow> (string \<Rightarrow> bool) \<Rightarrow>
     (nat \<Rightarrow> rat) \<Rightarrow> (nat \<Rightarrow> 'r run_outcome) \<Rightarrow> auth_store option \<Rightarrow> auth_store option \<Rightarrow> probe_state \<Rightarrow>
     'r fallback_result \<times> fallback_state" where
  "runWithModelFallback fc cfg provider model agentDir fallbacksOverride overflow clock outcome store refreshed probes =
     (let candidates = resolveFallbackCandidates fc provider model fallbacksOverride;
          s0 = \<lparr>fs_store = store, fs_probes = probes, fs_used = [], fs_attempts = [], fs_lastError = None, fs_calls = []\<rparr>
      in case fallback_loop cfg agentDir overflow \<lparr>mc_provider = provider, mc_model = model\<rparr> (length candidates) clock
                outcome 0 candidates s0 of
           (Some res, s) \<Rightarrow> (res, s)
         | (None, s) \<Rightarrow>
             (throwFallbackFailureSummary (fs_attempts s) (length candidates) (fs_lastError s) ''models'' format_attempt
                (if store = None then None
                 else resolveFallbackSoonestCooldownExpiry cfg refreshed (clock (length candidates)) candidates), s))"

text \<open>Image models have no cooldown: every candidate is run.\<close>

definition resolveImageFallbackCandidates ::
    "(string \<Rightarrow> model_candidate option) \<Rightarrow> string option \<Rightarrow> string option \<Rightarrow> string list \<Rightarrow> model_candidate list" where
  "resolveImageFallbackCandidates resolve modelOverride primary imageFallbacks =
     (let firsts = (case trimmed_opt modelOverride of
                      Some t \<Rightarrow> [or_default modelOverride []]
                    | None \<Rightarrow> (case trimmed_opt primary of Some t \<Rightarrow> [or_default primary []] | None \<Rightarrow> []))
      in foldl addExplicitCandidate [] (List.map_filter resolve (firsts @ imageFallbacks)))"

fun image_loop ::
    "(nat \<Rightarrow> 'r run_outcome) \<Rightarrow> nat \<Rightarrow> model_candidate list \<Rightarrow> fallback_attempt list \<Rightarrow> run_error option \<Rightarrow>
     'r fallback_result option \<times> fallback_attempt list \<times> run_error option" where
  "image_loop outcome i [] attempts lastError = (None, attempts, lastError)"
| "image_loop outcome i (c # cs) attempts lastError =
     (case outcome i of
        RunReturned r \<Rightarrow> (Some (FallbackSuccess r c attempts), attempts, lastError)
      | RunThrew e \<Rightarrow>
          (let err = or_default (coerceToFailoverError e) e in
           if coerceToFailoverError e = None \<and> shouldRethrowAbort e then (Some (FallbackThrew e), attempts, lastError)
           else image_loop outcome (Suc i) cs
                  (attempts @ [\<lparr>fa_candidate = c, fa_error = re_message err, fa_reason = None, fa_status = None, fa_code = None\<rparr>])
                  (Some err)))"

definition runWithImageModelFallback ::
    "(string \<Rightarrow> model_candidate option) \<Rightarrow> string option \<Rightarrow> string option \<Rightarrow> string list \<Rightarrow> (nat \<Rightarrow> 'r run_outcome) \<Rightarrow>
     string + 'r fallback_result" where
  "runWithImageModelFallback resolve modelOverride primary imageFallbacks outcome =
     (let candidates = resolveImageFallbackCandidates resolve modelOverride primary imageFallbacks in
      if candidates = [] then
        Inl ''No image model configured. Set agents.defaults.imageModel.primary or agents.defaults.imageModel.fallbacks.''
      else (case image_loop outcome 0 candidates [] None of
          (Some res, attempts, lastError) \<Rightarrow> Inr res
        | (None, attempts, lastError) \<Rightarrow>
            Inr (throwFallbackFailureSummary attempts (length candidates) lastError ''image models''
              (\<lambda>a. mc_provider (fa_candidate a) @ ''/'' @ mc_model (fa_candidate a) @ '': '' @ fa_error a) None)))"

end
