(* ===== verification/ModelFallbackProps.thy ===== *)
theory ModelFallbackProps
  imports ModelFallback "HOL-Library.Sublist"
begin

text \<open>
  What falling back promises: every candidate is accounted for once and in order, only a candidate whose credentials
  are all in cooldown is skipped, an abort or an overflowing context ends the run, and probes of a provider in
  cooldown are rare and their state bounded.
\<close>

section \<open>The candidates\<close>

definition good_candidates :: "model_candidate list \<Rightarrow> bool" where
  "good_candidates cs \<longleftrightarrow> distinct (map candidate_key cs) \<and> list_all (\<lambda>c. mc_provider c \<noteq> [] \<and> mc_model c \<noteq> []) cs"

lemma good_add: "good_candidates cs \<Longrightarrow> good_candidates (addExplicitCandidate cs c)"
  by (simp add: good_candidates_def addExplicitCandidate_def)

lemma good_add_all: "good_candidates cs \<Longrightarrow> good_candidates (foldl addExplicitCandidate cs ds)"
  by (induction ds arbitrary: cs) (simp_all add: good_add)

lemma resolved_good: "good_candidates (resolveFallbackCandidates fc provider model ov)"
proof -
  have "good_candidates []" by (simp add: good_candidates_def)
  then show ?thesis
    by (auto simp: resolveFallbackCandidates_def Let_def intro!: good_add good_add_all split: option.split)
qed

section \<open>The loop\<close>

lemma prepare_keeps:
  "prepare_candidate cfg dir p rq h now c s = (prep, s1) \<Longrightarrow>
   fs_attempts s1 = fs_attempts s \<and> fs_calls s1 = fs_calls s \<and> fs_lastError s1 = fs_lastError s \<and>
   (case prep of PrepSkip a \<Rightarrow> fa_candidate a = c | PrepRun b q \<Rightarrow> True)"
  by (auto simp: prepare_candidate_def skipped_def Let_def split: option.splits prod.splits if_splits cooldown_decision.splits)

lemma failed_keeps:
  "candidate_failed overflow l q c e s = Inr s1 \<Longrightarrow>
   fs_calls s1 = fs_calls s \<and> fs_probes s1 = fs_probes s \<and>
   (\<exists>e'. fs_attempts s1 = fs_attempts s @ [failed c e'] \<and> fs_lastError s1 = Some e')"
  by (auto simp: candidate_failed_def Let_def split: option.splits if_splits)

text \<open>Why an error ends a run: the user aborted, the context overflows, or nothing is left to try.\<close>

definition final_error :: "(string \<Rightarrow> bool) \<Rightarrow> bool \<Rightarrow> run_error \<Rightarrow> run_error \<Rightarrow> bool" where
  "final_error overflow isLast thrown e \<longleftrightarrow>
     (case coerceToFailoverError thrown of None \<Rightarrow> e = thrown | Some f \<Rightarrow> e = f) \<and>
     (coerceToFailoverError thrown = None \<and> (shouldRethrowAbort thrown \<or> isLast) \<or> overflow (re_message e))"

lemma failed_final: "candidate_failed overflow l q c e s = Inl err \<Longrightarrow> final_error overflow l e err"
  by (auto simp: candidate_failed_def final_error_def Let_def split: option.splits if_splits)

text \<open>An error at the candidate after the attempts.\<close>

definition stopped ::
    "(string \<Rightarrow> bool) \<Rightarrow> (nat \<Rightarrow> 'r run_outcome) \<Rightarrow> model_candidate list \<Rightarrow> fallback_attempt list \<Rightarrow> run_error \<Rightarrow> bool" where
  "stopped overflow outcome candidates as e \<longleftrightarrow>
     length as < length candidates \<and> map fa_candidate as = take (length as) candidates \<and>
     (case outcome (length as) of
        RunReturned r \<Rightarrow> False
      | RunThrew t \<Rightarrow> final_error overflow (Suc (length as) = length candidates) t e)"

definition succeeded ::
    "(nat \<Rightarrow> 'r run_outcome) \<Rightarrow> model_candidate list \<Rightarrow> fallback_attempt list \<Rightarrow> 'r \<Rightarrow> model_candidate \<Rightarrow> bool" where
  "succeeded outcome candidates as r c \<longleftrightarrow>
     take (Suc (length as)) candidates = map fa_candidate as @ [c] \<and> outcome (length as) = RunReturned r"

definition loop_ok ::
    "(string \<Rightarrow> bool) \<Rightarrow> (nat \<Rightarrow> 'r run_outcome) \<Rightarrow> model_candidate list \<Rightarrow> 'r fallback_result option \<Rightarrow> fallback_state \<Rightarrow>
     bool" where
  "loop_ok overflow outcome candidates res s \<longleftrightarrow>
     subseq (map fst (fs_calls s)) candidates \<and>
     (case res of
        None \<Rightarrow> map fa_candidate (fs_attempts s) = candidates
      | Some (FallbackSuccess r c as) \<Rightarrow> as = fs_attempts s \<and> succeeded outcome candidates as r c
      | Some (FallbackThrew e) \<Rightarrow> stopped overflow outcome candidates (fs_attempts s) e
      | Some (FallbackSummary m as t) \<Rightarrow> False)"

lemma loop_sound:
  assumes "map fa_candidate (fs_attempts s) = before" and "i = length before"
    and "subseq (map fst (fs_calls s)) before"
    and "fallback_loop cfg dir overflow rq n clock outcome i cs s = (res, s')"
  shows "loop_ok overflow outcome (before @ cs) res s'"
  using assms
proof (induction cs arbitrary: before i s)
  case Nil
  then show ?case by (simp add: loop_ok_def)
next
  case (Cons c cs)
  obtain prep s1 where p: "prepare_candidate cfg dir (i = 0) (c = rq) (n > 1) (clock i) c s = (prep, s1)" by force
  note keep = prepare_keeps [OF p]
  have len: "length (fs_attempts s) = length before" using Cons.prems(1) by auto
  have calls: "subseq (map fst (fs_calls s)) (before @ [c])"
    using Cons.prems(3) by (rule subseq_rev_drop_many)
  show ?case
  proof (cases prep)
    case (PrepSkip a)
    show ?thesis
      using Cons.IH [of "s1\<lparr>fs_attempts := fs_attempts s1 @ [a]\<rparr>" "before @ [c]" "Suc i"] Cons.prems keep calls p PrepSkip
      by simp
  next
    case (PrepRun probe q)
    let ?s2 = "s1\<lparr>fs_calls := fs_calls s1 @ [(c, probe)]\<rparr>"
    have called: "subseq (map fst (fs_calls ?s2)) (before @ [c])" "fs_attempts ?s2 = fs_attempts s"
      using Cons.prems(3) keep by simp_all
    have all: "subseq (map fst (fs_calls ?s2)) (before @ c # cs)"
      using subseq_rev_drop_many [OF called(1), of cs] by simp
    show ?thesis
    proof (cases "outcome i")
      case (RunReturned r)
      then have "res = Some (FallbackSuccess r c (fs_attempts s))" "s' = ?s2"
        using Cons.prems(4) p PrepRun keep by simp_all
      then show ?thesis using Cons.prems(1,2) RunReturned called(2) all len by (auto simp: loop_ok_def succeeded_def)
    next
      case (RunThrew e)
      show ?thesis
      proof (cases "candidate_failed overflow (cs = []) q c e ?s2")
        case (Inl err)
        then have "res = Some (FallbackThrew err)" "s' = ?s2" using Cons.prems(4) p PrepRun RunThrew by simp_all
        moreover have "final_error overflow (cs = []) e err" by (rule failed_final [OF Inl])
        ultimately show ?thesis using Cons.prems(1,2) len called(2) all RunThrew
          by (auto simp: loop_ok_def stopped_def)
      next
        case (Inr s3)
        from failed_keeps [OF Inr] obtain e' where s3: "fs_calls s3 = fs_calls ?s2"
          "fs_attempts s3 = fs_attempts ?s2 @ [failed c e']" by blast
        show ?thesis
          using Cons.IH [of s3 "before @ [c]" "Suc i"] Cons.prems p PrepRun RunThrew Inr s3 called
          by (simp add: failed_def)
      qed
    qed
  qed
qed


section \<open>Who is skipped\<close>

definition all_cooling :: "auth_config \<Rightarrow> auth_store \<Rightarrow> rat \<Rightarrow> model_candidate \<Rightarrow> bool" where
  "all_cooling cfg st0 now c =
     (let (ids, st) = resolveAuthProfileOrder cfg st0 (mc_provider c) None now
      in ids \<noteq> [] \<and> list_all (\<lambda>i. isProfileInCooldown st i now (Some (mc_model c))) ids)"

text \<open>No usable model is passed over. A candidate is skipped, or run as a probe, only when its provider has
  credentials and each of them is in cooldown for its model; and the one probe slot that a run has for a provider is
  taken by a probe of that provider only while it is free.\<close>

theorem skipped_only_in_cooldown:
  "(let (prep, s') = prepare_candidate cfg dir isPrimary requested hasFallback now c s;
        cooling = (case fs_store s of None \<Rightarrow> False | Some st \<Rightarrow> all_cooling cfg st now c)
    in case prep of
         PrepSkip a \<Rightarrow> cooling \<and> fa_candidate a = c
       | PrepRun probe slot \<Rightarrow>
           (if cooling then True else \<not> probe) \<and>
           (case slot of None \<Rightarrow> True | Some p \<Rightarrow> probe \<and> p = mc_provider c \<and> p \<notin> set (fs_used s)))"
  by (auto simp: prepare_candidate_def all_cooling_def skipped_def Let_def list_all_iff list_ex_iff
      split: option.split prod.split cooldown_decision.split)

section \<open>The state of the probes\<close>

definition probes_ok :: "probe_state \<Rightarrow> bool" where
  "probes_ok ps \<longleftrightarrow> length ps \<le> MAX_PROBE_KEYS \<and> [] \<notin> fst ` set ps"

lemma cap_bounded: "[] \<notin> fst ` set ps \<Longrightarrow> probes_ok (enforceProbeStateCap ps)"
proof (induction ps rule: enforceProbeStateCap.induct)
  case (1 ps)
  show ?case
  proof (cases "length ps \<le> MAX_PROBE_KEYS")
    case True
    then show ?thesis using 1(2) by (subst enforceProbeStateCap.simps) (simp add: probes_ok_def)
  next
    case False
    then have "oldest_probe ps \<noteq> None" by (cases ps) (auto split: option.split)
    then obtain k t where o': "oldest_probe ps = Some (k, t)" by auto
    then have k: "k \<noteq> []" using oldest_probe_mem [OF o'] 1(2) by force
    have "[] \<notin> fst ` set (filter (\<lambda>(k', t). k' \<noteq> k) ps)" using 1(2) by force
    then have "probes_ok (enforceProbeStateCap (filter (\<lambda>(k', t). k' \<noteq> k) ps))" using 1(1) [OF False o' refl k] by blast
    then show ?thesis using False o' k by (subst enforceProbeStateCap.simps) simp
  qed
qed

lemma prune_ok [simp]: "probes_ok ps \<Longrightarrow> probes_ok (pruneProbeState now ps)"
  by (auto simp: probes_ok_def pruneProbeState_def intro: order_trans [OF length_filter_le])

lemma mark_ok: "probes_ok ps \<Longrightarrow> key \<noteq> [] \<Longrightarrow> probes_ok (markProbeAttempt now key ps)"
  unfolding markProbeAttempt_def
  by (rule cap_bounded) (auto simp: probes_ok_def pruneProbeState_def update_keys dom_update)

lemma decision_ok:
  "resolveCooldownDecision c p rq h now key st ids ps = (d, ps') \<Longrightarrow> probes_ok ps \<Longrightarrow> probes_ok ps'"
  by (auto simp: resolveCooldownDecision_def shouldProbePrimaryDuringCooldown_def isProbeThrottleOpen_def Let_def
      split: if_splits prod.splits bool.splits option.splits)

lemma key_nonempty: "provider \<noteq> [] \<Longrightarrow> resolveProbeThrottleKey provider dir \<noteq> []"
  by (simp add: resolveProbeThrottleKey_def Let_def)

lemma prepare_ok:
  "prepare_candidate cfg dir p rq h now c s = (prep, s1) \<Longrightarrow> mc_provider c \<noteq> [] \<Longrightarrow> probes_ok (fs_probes s) \<Longrightarrow>
   probes_ok (fs_probes s1)"
  by (auto simp: prepare_candidate_def Let_def key_nonempty intro!: mark_ok
      split: option.splits prod.splits if_splits cooldown_decision.splits dest!: decision_ok)

lemma loop_probes:
  "fallback_loop cfg dir overflow rq n clock outcome i cs s = (res, s') \<Longrightarrow>
   list_all (\<lambda>c. mc_provider c \<noteq> []) cs \<Longrightarrow> probes_ok (fs_probes s) \<Longrightarrow> probes_ok (fs_probes s')"
proof (induction cs arbitrary: i s)
  case (Cons c cs)
  obtain prep s1 where p: "prepare_candidate cfg dir (i = 0) (c = rq) (n > 1) (clock i) c s = (prep, s1)" by force
  have s1: "probes_ok (fs_probes s1)" using prepare_ok [OF p] Cons.prems by simp
  then show ?case using Cons.prems p Cons.IH
    by (auto simp: Let_def dest!: failed_keeps split: preparation.splits run_outcome.splits sum.splits)
qed simp

text \<open>The record of probes stays small: whatever a run does, it never holds more than 256 keys, and none is empty.\<close>

theorem probe_state_bounded:
  assumes "probes_ok probes"
  shows "probes_ok (fs_probes (snd (runWithModelFallback fc cfg provider model dir ov overflow clock outcome store refreshed probes)))"
proof -
  let ?cs = "resolveFallbackCandidates fc provider model ov"
  have "list_all (\<lambda>c. mc_provider c \<noteq> []) ?cs" using resolved_good by (auto simp: good_candidates_def list_all_iff)
  then show ?thesis using assms
    by (auto simp: runWithModelFallback_def Let_def dest: loop_probes split: prod.split option.split)
qed

theorem probe_state_bounded_witness:
  "probes_ok (fs_probes (snd (runWithModelFallback
     \<lparr>fc_primary = None, fc_fallbacks = [''x''], fc_normalize = (\<lambda>p m. \<lparr>mc_provider = p, mc_model = m\<rparr>),
       fc_resolve = (\<lambda>raw. Some \<lparr>mc_provider = raw, mc_model = raw\<rparr>)\<rparr>
     \<lparr>ac_profiles = None, ac_order = None, ac_cooldowns = None\<rparr> ''p'' ''m'' None None (\<lambda>m. False) (\<lambda>i. 0)
     (\<lambda>i. RunReturned ()) None None [(''p'', 5)])))"
  by (rule probe_state_bounded) (simp add: probes_ok_def MAX_PROBE_KEYS_def)

lemma oldest_le: "oldest_probe ps = Some (k, t) \<Longrightarrow> list_all (\<lambda>(k', t'). t \<le> t') ps"
proof (induction ps arbitrary: k t)
  case (Cons p ps)
  obtain k1 t1 where p: "p = (k1, t1)" by force
  show ?case
  proof (cases "oldest_probe ps")
    case None
    then have "ps = []" by (cases ps) (auto split: option.splits prod.splits if_splits)
    then show ?thesis using Cons.prems p by simp
  next
    case (Some kt)
    obtain k2 t2 where kt: "kt = (k2, t2)" by force
    from Cons.IH [OF Some [unfolded kt]] show ?thesis using Cons.prems p Some kt
      by (auto simp: list_all_iff split: if_splits)
  qed
qed simp

lemma cap_keeps_newest:
  "distinct (map fst ps) \<Longrightarrow> map_of ps key = Some t \<Longrightarrow> list_all (\<lambda>(k, t'). k = key \<or> t' < t) ps \<Longrightarrow>
   map_of (enforceProbeStateCap ps) key = Some t"
proof (induction ps rule: enforceProbeStateCap.induct)
  case (1 ps)
  show ?case
  proof (cases "length ps \<le> MAX_PROBE_KEYS \<or> oldest_probe ps = None \<or> fst (the (oldest_probe ps)) = []")
    case True
    then show ?thesis using 1(3) by (subst enforceProbeStateCap.simps) (auto split: option.split)
  next
    case False
    then obtain k t0 where o': "oldest_probe ps = Some (k, t0)" and k: "k \<noteq> []" and len: "\<not> length ps \<le> MAX_PROBE_KEYS"
      by auto
    have "\<not> set ps \<subseteq> {(key, t)}"
      using len 1(2) card_mono [of "{(key, t)}" "set ps"] distinct_card [of ps]
      by (auto simp: MAX_PROBE_KEYS_def distinct_map)
    then obtain k' t' where p: "(k', t') \<in> set ps" "(k', t') \<noteq> (key, t)" by auto
    then have "k' \<noteq> key" using eq_key_imp_eq_value [OF 1(2) _ map_of_SomeD [OF 1(3)]] by auto
    then have "t' < t" using 1(4) p by (auto simp: list_all_iff)
    then have "t0 < t" using oldest_le [OF o'] p by (fastforce simp: list_all_iff)
    then have neq: "k \<noteq> key"
      using eq_key_imp_eq_value [OF 1(2) _ map_of_SomeD [OF 1(3)]] oldest_probe_mem [OF o'] by auto
    have "map_of (filter (\<lambda>(k', t). k' \<noteq> k) ps) key = Some t"
      using 1(3) neq by (induction ps) auto
    moreover have "distinct (map fst (filter (\<lambda>(k', t). k' \<noteq> k) ps))" using 1(2) by (rule distinct_map_filter)
    moreover have "list_all (\<lambda>(k, t'). k = key \<or> t' < t) (filter (\<lambda>(k', t). k' \<noteq> k) ps)"
      using 1(4) by (auto simp: list_all_iff)
    ultimately show ?thesis using 1(1) [OF len o' refl k] len o' k by (subst enforceProbeStateCap.simps) simp
  qed
qed

lemma update_mem: "(k, t) \<in> set (AList.update key v ps) \<Longrightarrow> k = key \<or> (k, t) \<in> set ps"
  by (induction ps) (auto split: if_splits)

text \<open>Probes of a provider in cooldown are at least thirty seconds apart: after a marked probe the throttle of its
  key stays shut for that time, even when the record of probes overflows and drops its oldest keys.\<close>

theorem probe_throttled:
  assumes "distinct (map fst ps)" and "list_all (\<lambda>(k, t). t < now) ps"
    and "0 < now" and "now \<le> later" and "later < now + 30000"
  shows "\<not> fst (isProbeThrottleOpen later key (markProbeAttempt now key ps))"
proof -
  let ?u = "AList.update key now (pruneProbeState now ps)"
  have "distinct (map fst ?u)"
    using assms(1) by (intro distinct_update) (simp add: pruneProbeState_def distinct_map_filter)
  moreover have "map_of ?u key = Some now" by (simp add: update_conv')
  moreover have "list_all (\<lambda>(k, t). k = key \<or> t < now) ?u"
    using assms(2) by (auto simp: list_all_iff pruneProbeState_def dest!: update_mem)
  ultimately have "map_of (markProbeAttempt now key ps) key = Some now"
    unfolding markProbeAttempt_def by (rule cap_keeps_newest)
  moreover have "map_of (pruneProbeState later qs) key = Some now" if "map_of qs key = Some now" for qs
    using that assms(3-5) by (induction qs) (auto simp: pruneProbeState_def PROBE_STATE_TTL_MS_def split: if_splits)
  ultimately show ?thesis
    using assms(5) by (simp add: isProbeThrottleOpen_def or_default_def MIN_PROBE_INTERVAL_MS_def)
qed

theorem probe_throttled_witness:
  "\<not> fst (isProbeThrottleOpen 30999 ''p'' (markProbeAttempt 1000 ''p'' [(''q'', 5), (''p'', 900)])) \<and>
   fst (isProbeThrottleOpen 31000 ''p'' (markProbeAttempt 1000 ''p'' [(''q'', 5), (''p'', 900)]))"
proof
  show "\<not> fst (isProbeThrottleOpen 30999 ''p'' (markProbeAttempt 1000 ''p'' [(''q'', 5), (''p'', 900)]))"
    by (rule probe_throttled) simp_all
  show "fst (isProbeThrottleOpen 31000 ''p'' (markProbeAttempt 1000 ''p'' [(''q'', 5), (''p'', 900)]))" by code_simp
qed

end
