(* ===== verification/SessionKeys.thy ===== *)
theory SessionKeys
  imports AgentIds
begin

text \<open>
  Session keys: \<open>src/sessions/session-key-utils.ts\<close> and \<open>src/routing/session-key.ts\<close>. A key names the session of an
  agent as \<open>agent:<agent>:<rest>\<close>; the code builds keys from messages and parses them wherever it needs their parts.
  \<open>string option\<close> is \<open>string | undefined | null\<close>. The entries of an object are in the order of \<open>Object.entries\<close>.
\<close>

section \<open>Parsing\<close>

definition segments :: "string \<Rightarrow> string list" where
  "segments raw = filter (\<lambda>p. p \<noteq> []) (split_on CHR '':'' raw)"

definition raw_key :: "string option \<Rightarrow> string" where
  "raw_key sessionKey = trim (or_default sessionKey [])"

definition parseAgentSessionKey :: "string option \<Rightarrow> (string \<times> string) option" where
  "parseAgentSessionKey sessionKey =
     (let raw = to_lower (raw_key sessionKey) in
      if raw = [] then None
      else (case segments raw of
              p0 # p1 # p2 # ps \<Rightarrow>
                if p0 \<noteq> ''agent'' then None
                else (let agentId = trim p1; rest = join_with '':'' (p2 # ps)
                      in if agentId = [] \<or> rest = [] then None else Some (agentId, rest))
            | _ \<Rightarrow> None))"

text \<open>The part of the key after the agent, or the key when it has none.\<close>

definition scoped_rest :: "string \<Rightarrow> string" where
  "scoped_rest raw = (case parseAgentSessionKey (Some raw) of None \<Rightarrow> raw | Some (a, rest) \<Rightarrow> rest)"

datatype chat_kind = DirectChat | GroupChat | ChannelChat | UnknownChat

text \<open>\<open>^discord:(?:[^:]+:)?guild-[^:]+:channel-[^:]+$\<close>.\<close>

definition named_part :: "string \<Rightarrow> string \<Rightarrow> bool" where
  "named_part prefix part = (starts_with part prefix \<and> length part > length prefix)"

definition legacy_discord :: "string \<Rightarrow> bool" where
  "legacy_discord scoped =
     (case split_on CHR '':'' scoped of
        [d, g, c] \<Rightarrow> d = ''discord'' \<and> named_part ''guild-'' g \<and> named_part ''channel-'' c
      | [d, a, g, c] \<Rightarrow> d = ''discord'' \<and> a \<noteq> [] \<and> named_part ''guild-'' g \<and> named_part ''channel-'' c
      | _ \<Rightarrow> False)"

definition deriveSessionChatType :: "string option \<Rightarrow> chat_kind" where
  "deriveSessionChatType sessionKey =
     (let raw = to_lower (raw_key sessionKey) in
      if raw = [] then UnknownChat
      else (let scoped = scoped_rest raw; tokens = set (segments scoped) in
            if ''group'' \<in> tokens then GroupChat
            else if ''channel'' \<in> tokens then ChannelChat
            else if ''direct'' \<in> tokens \<or> ''dm'' \<in> tokens then DirectChat
            else if legacy_discord scoped then ChannelChat else UnknownChat))"

text \<open>\<open>^cron:[^:]+:run:[^:]+$\<close>.\<close>

definition isCronRunSessionKey :: "string option \<Rightarrow> bool" where
  "isCronRunSessionKey sessionKey =
     (case parseAgentSessionKey sessionKey of
        None \<Rightarrow> False
      | Some (a, rest) \<Rightarrow>
          (case split_on CHR '':'' rest of
             [c, job, r, run] \<Rightarrow> c = ''cron'' \<and> job \<noteq> [] \<and> r = ''run'' \<and> run \<noteq> []
           | _ \<Rightarrow> False))"

definition isCronSessionKey :: "string option \<Rightarrow> bool" where
  "isCronSessionKey sessionKey =
     (case parseAgentSessionKey sessionKey of None \<Rightarrow> False | Some (a, rest) \<Rightarrow> starts_with (to_lower rest) ''cron:'')"

definition rest_starts :: "string \<Rightarrow> string \<Rightarrow> bool" where
  "rest_starts raw prefix =
     (case parseAgentSessionKey (Some raw) of None \<Rightarrow> False | Some (a, rest) \<Rightarrow> starts_with (to_lower rest) prefix)"

definition isSubagentSessionKey :: "string option \<Rightarrow> bool" where
  "isSubagentSessionKey sessionKey =
     (let raw = raw_key sessionKey in
      raw \<noteq> [] \<and> (starts_with (to_lower raw) ''subagent:'' \<or> rest_starts raw ''subagent:''))"

text \<open>The number of separators that \<open>split\<close> finds.\<close>

function split_count :: "string \<Rightarrow> string \<Rightarrow> nat" where
  "split_count sep s =
     (if sep = [] \<or> s = [] then 0
      else if starts_with s sep then Suc (split_count sep (drop (length sep) s))
      else split_count sep (tl s))"
  by pat_completeness auto
termination
  by (relation "measure (\<lambda>(sep, s). length s)") auto

declare split_count.simps [simp del]

definition getSubagentDepth :: "string option \<Rightarrow> nat" where
  "getSubagentDepth sessionKey =
     (let raw = to_lower (raw_key sessionKey) in if raw = [] then 0 else split_count '':subagent:'' raw)"

definition isAcpSessionKey :: "string option \<Rightarrow> bool" where
  "isAcpSessionKey sessionKey =
     (let raw = raw_key sessionKey in raw \<noteq> [] \<and> (starts_with (to_lower raw) ''acp:'' \<or> rest_starts raw ''acp:''))"

definition normalizeSessionConversationChannel :: "string option \<Rightarrow> string option" where
  "normalizeSessionConversationChannel value = nonempty (to_lower (trim (or_default value [])))"

fun last_index_of :: "string \<Rightarrow> string \<Rightarrow> nat option" where
  "last_index_of pat [] = (if pat = [] then Some 0 else None)"
| "last_index_of pat (c # cs) =
     (case last_index_of pat cs of
        Some k \<Rightarrow> Some (Suc k)
      | None \<Rightarrow> if starts_with (c # cs) pat then Some 0 else None)"

text \<open>The base key and the thread id.\<close>

definition parseThreadSessionSuffix :: "string option \<Rightarrow> string option \<times> string option" where
  "parseThreadSessionSuffix sessionKey =
     (let raw = raw_key sessionKey in
      if raw = [] then (None, None)
      else (case last_index_of '':thread:'' (to_lower raw) of
              None \<Rightarrow> (Some raw, None)
            | Some k \<Rightarrow> (Some (take k raw), nonempty (trim (drop (k + length '':thread:'') raw)))))"

record conversation_ref =
  cr_channel :: string
  cr_kind :: string
  cr_rawId :: string
  cr_prefix :: string

definition parseRawSessionConversationRef :: "string option \<Rightarrow> conversation_ref option" where
  "parseRawSessionConversationRef sessionKey =
     (let raw = raw_key sessionKey in
      if raw = [] then None
      else
        (let rawParts = segments raw;
             bodyStartIndex = (if length rawParts \<ge> 3 \<and> to_lower (trim (rawParts ! 0)) = ''agent'' then 2 else 0);
             parts = drop bodyStartIndex rawParts
         in if length parts < 3 then None
            else (case normalizeSessionConversationChannel (Some (parts ! 0)) of
                    None \<Rightarrow> None
                  | Some channel \<Rightarrow>
                      (let kind = to_lower (trim (parts ! 1));
                           rawId = trim (join_with '':'' (drop 2 parts));
                           prefix = trim (join_with '':'' (take (bodyStartIndex + 2) rawParts))
                       in if kind \<noteq> ''group'' \<and> kind \<noteq> ''channel'' then None
                          else if rawId = [] \<or> prefix = [] then None
                          else Some \<lparr>cr_channel = channel, cr_kind = kind, cr_rawId = rawId, cr_prefix = prefix\<rparr>))))"

definition resolveThreadParentSessionKey :: "string option \<Rightarrow> string option" where
  "resolveThreadParentSessionKey sessionKey =
     (case parseThreadSessionSuffix sessionKey of
        (base, None) \<Rightarrow> None
      | (base, Some t) \<Rightarrow> (case base of None \<Rightarrow> None | Some b \<Rightarrow> nonempty (trim b)))"

section \<open>Building\<close>

definition DEFAULT_AGENT_ID :: string where "DEFAULT_AGENT_ID = ''main''"
definition DEFAULT_MAIN_KEY :: string where "DEFAULT_MAIN_KEY = ''main''"

definition normalizeToken :: "string option \<Rightarrow> string" where
  "normalizeToken value = to_lower (trim (or_default value []))"

definition scopedHeartbeatWakeOptions :: "string \<Rightarrow> (string \<times> jsval) list \<Rightarrow> (string \<times> jsval) list" where
  "scopedHeartbeatWakeOptions sessionKey wakeOptions =
     (if parseAgentSessionKey (Some sessionKey) \<noteq> None
      then AList.update ''sessionKey'' (JStr sessionKey) wakeOptions else wakeOptions)"

definition normalizeMainKey :: "string option \<Rightarrow> string" where
  "normalizeMainKey value =
     (let trimmed = trim (or_default value []) in if trimmed = [] then DEFAULT_MAIN_KEY else to_lower trimmed)"

definition toAgentRequestSessionKey :: "string option \<Rightarrow> string option" where
  "toAgentRequestSessionKey storeKey =
     (let raw = raw_key storeKey in if raw = [] then None else Some (scoped_rest raw))"

definition agent_key :: "string \<Rightarrow> string \<Rightarrow> string" where
  "agent_key agentId rest = ''agent:'' @ agentId @ '':'' @ rest"

definition buildAgentMainSessionKey :: "string \<Rightarrow> string option \<Rightarrow> string" where
  "buildAgentMainSessionKey agentId mainKey = agent_key (normalizeAgentId (Some agentId)) (normalizeMainKey mainKey)"

definition toAgentStoreSessionKey :: "string \<Rightarrow> string option \<Rightarrow> string option \<Rightarrow> string" where
  "toAgentStoreSessionKey agentId requestKey mainKey =
     (let raw = raw_key requestKey in
      if raw = [] \<or> to_lower raw = DEFAULT_MAIN_KEY then buildAgentMainSessionKey agentId mainKey
      else (case parseAgentSessionKey (Some raw) of
              Some (a, rest) \<Rightarrow> agent_key a rest
            | None \<Rightarrow>
                if starts_with (to_lower raw) ''agent:'' then to_lower raw
                else agent_key (normalizeAgentId (Some agentId)) (to_lower raw)))"

definition resolveAgentIdFromSessionKey :: "string option \<Rightarrow> string" where
  "resolveAgentIdFromSessionKey sessionKey =
     normalizeAgentId (Some (case parseAgentSessionKey sessionKey of None \<Rightarrow> DEFAULT_AGENT_ID | Some (a, rest) \<Rightarrow> a))"

datatype key_shape = ShapeMissing | ShapeAgent | ShapeLegacyOrAlias | ShapeMalformedAgent

definition classifySessionKeyShape :: "string option \<Rightarrow> key_shape" where
  "classifySessionKeyShape sessionKey =
     (let raw = raw_key sessionKey in
      if raw = [] then ShapeMissing
      else if parseAgentSessionKey (Some raw) \<noteq> None then ShapeAgent
      else if starts_with (to_lower raw) ''agent:'' then ShapeMalformedAgent else ShapeLegacyOrAlias)"

datatype dm_scope = DmMain | DmPerPeer | DmPerChannelPeer | DmPerAccountChannelPeer

text \<open>The canonical name under which a configuration links the peer.\<close>

definition resolveLinkedPeerId :: "(string \<times> string list) list option \<Rightarrow> string \<Rightarrow> string \<Rightarrow> string option" where
  "resolveLinkedPeerId identityLinks channel peerId0 =
     (case identityLinks of
        None \<Rightarrow> None
      | Some links \<Rightarrow>
          (let peerId = trim peerId0 in
           if peerId = [] then None
           else
             (let ch = normalizeToken (Some channel);
                  candidates = filter (\<lambda>c. c \<noteq> [])
                    (normalizeToken (Some peerId) #
                     (if ch = [] then [] else [normalizeToken (Some (ch @ '':'' @ peerId))]))
              in if candidates = [] then None
                 else map_option (\<lambda>(canonical, ids). trim canonical)
                   (List.find (\<lambda>(canonical, ids). trim canonical \<noteq> [] \<and>
                      list_ex (\<lambda>i. normalizeToken (Some i) \<noteq> [] \<and> normalizeToken (Some i) \<in> set candidates) ids) links))))"

definition buildAgentPeerSessionKey ::
    "string \<Rightarrow> string option \<Rightarrow> string \<Rightarrow> string option \<Rightarrow> string option \<Rightarrow> string option \<Rightarrow>
     (string \<times> string list) list option \<Rightarrow> dm_scope option \<Rightarrow> string" where
  "buildAgentPeerSessionKey agentId mainKey channel0 accountId peerKind0 peerId0 identityLinks dmScope0 =
     (let peerKind = or_default peerKind0 ''direct''; a = normalizeAgentId (Some agentId);
          lowered = to_lower (trim channel0); channel = (if lowered = [] then ''unknown'' else lowered)
      in if peerKind = ''direct'' then
           (let dmScope = or_default dmScope0 DmMain;
                peerId1 = trim (or_default peerId0 []);
                linked = (if dmScope = DmMain then None else resolveLinkedPeerId identityLinks channel0 peerId1);
                peerId = to_lower (case linked of None \<Rightarrow> peerId1 | Some l \<Rightarrow> if l = [] then peerId1 else l)
            in if dmScope = DmPerAccountChannelPeer \<and> peerId \<noteq> [] then
                 agent_key a (channel @ '':'' @ normalizeAccountId accountId @ '':direct:'' @ peerId)
               else if dmScope = DmPerChannelPeer \<and> peerId \<noteq> [] then agent_key a (channel @ '':direct:'' @ peerId)
               else if dmScope = DmPerPeer \<and> peerId \<noteq> [] then agent_key a (''direct:'' @ peerId)
               else buildAgentMainSessionKey agentId mainKey)
         else
           (let trimmed = trim (or_default peerId0 []);
                peerId = to_lower (if trimmed = [] then ''unknown'' else trimmed)
            in agent_key a (channel @ '':'' @ peerKind @ '':'' @ peerId)))"

definition buildGroupHistoryKey :: "string \<Rightarrow> string option \<Rightarrow> string \<Rightarrow> string \<Rightarrow> string" where
  "buildGroupHistoryKey channel0 accountId peerKind peerId0 =
     (let channel = (if normalizeToken (Some channel0) = [] then ''unknown'' else normalizeToken (Some channel0));
          lowered = to_lower (trim peerId0); peerId = (if lowered = [] then ''unknown'' else lowered)
      in channel @ '':'' @ normalizeAccountId accountId @ '':'' @ peerKind @ '':'' @ peerId)"

text \<open>\<open>normalizeThreadId\<close> is the caller's; its default is \<open>toLowerCase\<close>.\<close>

definition resolveThreadSessionKeys ::
    "string \<Rightarrow> string option \<Rightarrow> string option \<Rightarrow> bool option \<Rightarrow> (string \<Rightarrow> string) option \<Rightarrow> string \<times> string option" where
  "resolveThreadSessionKeys baseSessionKey threadId0 parentSessionKey useSuffix normalizeThreadId =
     (let threadId = trim (or_default threadId0 []) in
      if threadId = [] then (baseSessionKey, None)
      else
        (let normalized = or_default normalizeThreadId to_lower threadId
         in (if or_default useSuffix True then baseSessionKey @ '':thread:'' @ normalized else baseSessionKey,
             parentSessionKey)))"

end
