(* ===== verification/TextLemmas.thy ===== *)
theory TextLemmas
  imports Prelude
begin

text \<open>
  Facts on the string operations that several components share: characters by their code, case folding, trimmed
  strings, and strings cut at a separator.
\<close>

section \<open>Characters by code\<close>

definition code :: "char \<Rightarrow> nat" where
  "code c = of_char c"

lemma code_eq: "c = d \<longleftrightarrow> code c = code d"
  by (simp add: code_def)

lemma code_less [simp]: "code c < 256"
  by (simp add: code_def)

lemma code_ws: "js_ws c \<longleftrightarrow> code c \<in> {9, 10, 11, 12, 13, 32, 160}"
  by (simp add: js_ws_def code_eq) (simp add: code_def)

lemma code_lower: "code (lower_char c) =
    (if (65 \<le> code c \<and> code c \<le> 90) \<or> (192 \<le> code c \<and> code c \<le> 222 \<and> code c \<noteq> 215) then code c + 32 else code c)"
  by (auto simp: lower_char_def code_def Let_def)

lemma lower_idem [simp]: "lower_char (lower_char c) = lower_char c"
  by (simp add: code_eq code_lower)

lemma ws_lower [simp]: "js_ws (lower_char c) = js_ws c"
  by (simp add: code_ws code_lower)

section \<open>Case folding\<close>

lemma to_lower_idem [simp]: "to_lower (to_lower s) = to_lower s"
  by (simp add: to_lower_def comp_def)

lemma to_lower_append [simp]: "to_lower (s @ t) = to_lower s @ to_lower t"
  by (simp add: to_lower_def)

lemma to_lower_empty [simp]: "to_lower s = [] \<longleftrightarrow> s = []"
  by (simp add: to_lower_def)

lemma length_to_lower [simp]: "length (to_lower s) = length s"
  by (simp add: to_lower_def)

section \<open>Trimmed strings\<close>

definition tight :: "string \<Rightarrow> bool" where
  "tight s \<longleftrightarrow> s \<noteq> [] \<and> \<not> js_ws (hd s) \<and> \<not> js_ws (last s)"

lemma drop_no_ws: "xs \<noteq> [] \<Longrightarrow> \<not> js_ws (hd xs) \<Longrightarrow> dropWhile js_ws xs = xs"
  by (cases xs) auto

lemma tight_trim: "tight s \<Longrightarrow> trim s = s"
  by (simp add: tight_def trim_def trim_end_def drop_no_ws hd_rev)

lemma trim_tight: "trim s \<noteq> [] \<Longrightarrow> tight (trim s)"
proof -
  let ?d = "dropWhile js_ws s"
  let ?r = "dropWhile js_ws (rev ?d)"
  assume ne: "trim s \<noteq> []"
  have r: "trim s = rev ?r" by (simp only: trim_def trim_end_def)
  with ne have rne: "?r \<noteq> []" by (metis rev.simps(1))
  then have dne: "?d \<noteq> []" by (metis dropWhile.simps(1) rev.simps(1))
  have "\<not> js_ws (hd ?r)" using rne by (rule hd_dropWhile)
  moreover have "\<not> js_ws (hd ?d)" using dne by (rule hd_dropWhile)
  moreover have "hd (trim s) = hd ?d" using hd_trim_end [of ?d] ne unfolding trim_def by blast
  ultimately show ?thesis using ne rne by (simp add: tight_def r last_rev)
qed

lemma tight_lower: "tight s \<Longrightarrow> tight (to_lower s)"
  by (simp add: tight_def to_lower_def hd_map last_map)

lemma tight_append: "s \<noteq> [] \<Longrightarrow> \<not> js_ws (hd s) \<Longrightarrow> tight t \<Longrightarrow> tight (s @ t)"
  by (simp add: tight_def)

section \<open>Cut at a separator\<close>

lemma split_on_free: "c \<notin> set s \<Longrightarrow> split_on c s = [s]"
  by (induction s) auto

lemma split_on_at: "c \<notin> set s \<Longrightarrow> split_on c (s @ c # t) = s # split_on c t"
  by (induction s) auto

lemma cut_unique: "c \<notin> set a \<Longrightarrow> c \<notin> set b \<Longrightarrow> a @ c # x = b @ c # y \<longleftrightarrow> a = b \<and> x = y"
proof (induction a arbitrary: b)
  case Nil
  then show ?case by (cases b) auto
next
  case (Cons h a)
  then show ?case by (cases b) auto
qed

end
