(* ===== verification/SessionKeyProps.thy ===== *)
theory SessionKeyProps
  imports SessionKeys TextLemmas
begin

text \<open>
  What session keys promise: ids that are safe in paths and commands, keys from which the agent is read back, keys of
  different conversations that differ, and threads that lead back to their parent.
\<close>

section \<open>Characters of ids\<close>

lemma code_id_char: "id_char c \<longleftrightarrow> 48 \<le> code c \<and> code c \<le> 57 \<or> 97 \<le> code c \<and> code c \<le> 122 \<or> code c = 95 \<or> code c = 45"
  by (auto simp: id_char_def code_eq Let_def) (simp_all add: code_def)

lemma code_id_char_ci: "id_char_ci c \<longleftrightarrow> id_char c \<or> 65 \<le> code c \<and> code c \<le> 90"
  by (simp add: id_char_ci_def code_def Let_def)

lemma code_dash: "code (CHR ''-'') = 45" "code (CHR '':'') = 58" "code (CHR ''_'') = 95"
  by (simp_all add: code_def)

lemma id_char_plain: "id_char c \<Longrightarrow> lower_char c = c \<and> \<not> js_ws c \<and> c \<noteq> CHR '':''"
  by (auto simp: code_id_char code_ws code_eq code_lower code_dash)

lemma id_char_lower: "id_char_ci c \<Longrightarrow> id_char (lower_char c)"
  by (auto simp: code_id_char_ci code_id_char code_lower)

lemma lower_dash: "lower_char c = CHR ''-'' \<Longrightarrow> c = CHR ''-''"
  by (auto simp: code_eq code_lower code_dash split: if_splits)

lemma to_lower_ids: "list_all id_char s \<Longrightarrow> to_lower s = s"
  by (induction s) (auto simp: to_lower_def id_char_plain)

lemma ids_tight: "list_all id_char s \<Longrightarrow> s \<noteq> [] \<Longrightarrow> tight s"
  by (simp add: tight_def list_all_iff id_char_plain)

section \<open>Segments\<close>

lemma segments_at: "CHR '':'' \<notin> set s \<Longrightarrow> segments (s @ CHR '':'' # t) = (if s = [] then [] else [s]) @ segments t"
  by (simp add: segments_def split_on_at)

lemma segments_free: "CHR '':'' \<notin> set s \<Longrightarrow> s \<noteq> [] \<Longrightarrow> segments s = [s]"
  by (simp add: segments_def split_on_free)

lemma segments_nonempty: "s \<noteq> [] \<Longrightarrow> set s \<noteq> {CHR '':''} \<Longrightarrow> segments s \<noteq> []"
proof (induction s)
  case (Cons c s)
  show ?case
  proof (cases "c = CHR '':''")
    case True
    then have "s \<noteq> []" "set s \<noteq> {CHR '':''}" using Cons.prems by auto
    then show ?thesis using Cons.IH True by (simp add: segments_def)
  next
    case False
    then show ?thesis by (cases "split_on CHR '':'' s") (simp_all add: segments_def)
  qed
qed simp

section \<open>Ids\<close>

lemma collapse_ids: "list_all id_char (collapse_invalid b s)"
  by (induction b s rule: collapse_invalid.induct) (auto simp: id_char_def)

lemma cut_dashes_ids: "list_all id_char s \<Longrightarrow> list_all id_char (cut_dashes s)"
  by (auto simp: cut_dashes_def list_all_iff dest!: set_dropWhileD)

lemma cut_dashes_head: "cut_dashes s \<noteq> [] \<Longrightarrow> hd (cut_dashes s) \<noteq> CHR ''-''"
proof -
  let ?d = "dropWhile (\<lambda>c. c = CHR ''-'') s"
  let ?r = "dropWhile (\<lambda>c. c = CHR ''-'') (rev ?d)"
  assume ne: "cut_dashes s \<noteq> []"
  have "rev (takeWhile (\<lambda>c. c = CHR ''-'') (rev ?d) @ ?r) = ?d" by (simp only: takeWhile_dropWhile_id rev_rev_ident)
  then have "hd ?d = hd (rev ?r)" using ne by (metis cut_dashes_def hd_append2 rev_append)
  moreover have "?d \<noteq> []" using ne by (auto simp only: cut_dashes_def dropWhile.simps rev.simps)
  ultimately show ?thesis using hd_dropWhile [of "\<lambda>c. c = CHR ''-''" s] unfolding cut_dashes_def by metis
qed

lemma valid_id_lower: "valid_id s \<Longrightarrow> list_all id_char (to_lower s) \<and> to_lower s \<noteq> [] \<and> length s \<le> 64 \<and> hd (to_lower s) \<noteq> CHR ''-''"
  using lower_dash by (auto simp: valid_id_def to_lower_def list_all_iff id_char_lower split: list.splits)

text \<open>An id that is safe in a path and in a command line: of a few characters, no longer than 64, no option.\<close>

definition safe_id :: "string \<Rightarrow> bool" where
  "safe_id s \<longleftrightarrow> list_all id_char s \<and> s \<noteq> [] \<and> length s \<le> 64 \<and> hd s \<noteq> CHR ''-''"

lemma fallback_id_safe:
  "take 64 (cut_dashes (collapse_invalid False t)) \<noteq> [] \<Longrightarrow> safe_id (take 64 (cut_dashes (collapse_invalid False t)))"
  using cut_dashes_head [of "collapse_invalid False t"] cut_dashes_ids [OF collapse_ids]
  by (auto simp: safe_id_def list_all_iff dest: in_set_takeD)

lemma canonical_safe: "canonicalizeAccountId s \<noteq> [] \<Longrightarrow> safe_id (canonicalizeAccountId s)"
  using fallback_id_safe [of "to_lower s"] valid_id_lower [of s]
  by (auto simp: canonicalizeAccountId_def safe_id_def)

lemma agent_id_safe: "safe_id (normalizeAgentId v)"
proof -
  have "safe_id ''main''" by (simp add: safe_id_def id_char_def)
  then show ?thesis
    using fallback_id_safe valid_id_lower by (auto simp: normalizeAgentId_def Let_def safe_id_def)
qed

lemma account_id_safe: "safe_id (normalizeAccountId v)"
proof -
  have "safe_id DEFAULT_ACCOUNT_ID" by (simp add: safe_id_def id_char_def DEFAULT_ACCOUNT_ID_def)
  then show ?thesis
    using canonical_safe
    by (auto simp: normalizeAccountId_def account_id_def normalizeCanonicalAccountId_def or_default_def Let_def)
qed

text \<open>C27: Whatever a client sends as an agent or account id, the id that is used consists of lower-case letters, digits,
  underscores and dashes, has one to sixty-four of them and does not begin with a dash, so that it is a plain name in
  a path, in a key and on a command line; and an account id is never a property of every object.\<close>

theorem ids_are_safe:
  "safe_id (normalizeAgentId v) \<and> safe_id (normalizeAccountId v) \<and> \<not> isBlockedObjectKey (normalizeAccountId v)"
proof -
  have "\<not> isBlockedObjectKey DEFAULT_ACCOUNT_ID" by (simp add: isBlockedObjectKey_def DEFAULT_ACCOUNT_ID_def)
  then have "\<not> isBlockedObjectKey (normalizeAccountId v)"
    by (auto simp: normalizeAccountId_def account_id_def normalizeCanonicalAccountId_def or_default_def Let_def)
  then show ?thesis by (simp add: agent_id_safe account_id_safe)
qed

lemma safe_id_plain: "safe_id s \<Longrightarrow> to_lower s = s \<and> tight s \<and> CHR '':'' \<notin> set s \<and> s \<noteq> []"
  by (auto simp: safe_id_def to_lower_ids ids_tight list_all_iff dest: id_char_plain)

section \<open>The agent of a key\<close>

lemma parse_agent_key:
  assumes "safe_id a" and "tight rest" and "to_lower rest = rest" and "segments rest \<noteq> []"
  shows "parseAgentSessionKey (Some (agent_key a rest)) = Some (a, join_with '':'' (segments rest))"
proof -
  note a = safe_id_plain [OF assms(1)]
  have key: "agent_key a rest = ''agent'' @ CHR '':'' # a @ CHR '':'' # rest" by (simp add: agent_key_def)
  have "tight (agent_key a rest)" unfolding key using assms(2) by (simp add: tight_def js_ws_def)
  then have raw: "raw_key (Some (agent_key a rest)) = agent_key a rest" by (simp add: raw_key_def or_default_def tight_trim)
  have low: "to_lower (agent_key a rest) = agent_key a rest"
    using a assms(3) by (simp add: key) (simp add: to_lower_def lower_char_def)
  obtain p ps where seg: "segments rest = p # ps" using assms(4) by (cases "segments rest") auto
  have ne: "agent_key a rest \<noteq> []" by (simp add: agent_key_def)
  have segs: "segments (agent_key a rest) = ''agent'' # a # p # ps"
  proof -
    have "CHR '':'' \<notin> set ''agent''" "CHR '':'' \<notin> set a" using a by simp_all
    from segments_at [OF this(1), of "a @ CHR '':'' # rest"] segments_at [OF this(2), of rest] show ?thesis
      unfolding key using a seg by (simp only: append.simps simp_thms if_False list.distinct)
  qed
  have "p \<in> set (segments rest)" by (simp add: seg)
  then have "p \<noteq> []" by (simp add: segments_def)
  then have "join_with '':'' (p # ps) \<noteq> []" by (simp add: join_with_def)
  moreover have "trim a = a" "a \<noteq> []" using a by (simp_all add: tight_trim)
  ultimately show ?thesis using ne
    unfolding parseAgentSessionKey_def raw low Let_def segs seg by simp
qed

lemma collapse_id: "list_all id_char s \<Longrightarrow> collapse_invalid b s = s"
  by (induction s arbitrary: b) auto

lemma cut_dashes_id: "s \<noteq> [] \<Longrightarrow> hd s \<noteq> CHR ''-'' \<Longrightarrow> last s \<noteq> CHR ''-'' \<Longrightarrow> cut_dashes s = s"
proof -
  assume s: "s \<noteq> []" "hd s \<noteq> CHR ''-''" "last s \<noteq> CHR ''-''"
  have d: "dropWhile (\<lambda>c. c = CHR ''-'') xs = xs" if "xs \<noteq> []" "hd xs \<noteq> CHR ''-''" for xs using that by (cases xs) auto
  show ?thesis using s d [of s] d [of "rev s"] by (simp add: cut_dashes_def hd_rev)
qed

lemma cut_dashes_last: "cut_dashes s \<noteq> [] \<Longrightarrow> last (cut_dashes s) \<noteq> CHR ''-''"
  using hd_dropWhile [of "\<lambda>c. c = CHR ''-''" "rev (dropWhile (\<lambda>c. c = CHR ''-'') s)"]
  by (simp add: cut_dashes_def last_rev)

lemma safe_id_stable:
  assumes "safe_id s" and "hd s \<noteq> CHR ''_'' \<or> last s \<noteq> CHR ''-''"
  shows "normalizeAgentId (Some s) = s"
proof -
  note p = safe_id_plain [OF assms(1)]
  show ?thesis
  proof (cases "valid_id s")
    case True
    then show ?thesis using p by (simp add: normalizeAgentId_def tight_trim)
  next
    case False
    have "list_all id_char_ci s" using assms(1) by (auto simp: safe_id_def list_all_iff id_char_ci_def Let_def)
    then have "hd s = CHR ''_''" using False assms(1) by (cases s) (auto simp: safe_id_def valid_id_def)
    then have "cut_dashes s = s" using assms by (intro cut_dashes_id) (auto simp: safe_id_def)
    then show ?thesis using False p assms(1)
      by (simp add: normalizeAgentId_def tight_trim collapse_id safe_id_def)
  qed
qed

lemma length_collapse: "length (collapse_invalid b s) \<le> length s"
  by (induction b s rule: collapse_invalid.induct) (auto intro: le_SucI)

lemma length_cut_dashes: "length (cut_dashes s) \<le> length s"
  unfolding cut_dashes_def by (metis length_dropWhile_le length_rev order_trans)

lemma agent_id_ends:
  assumes "length (trim v) \<le> 64"
  shows "hd (normalizeAgentId (Some v)) \<noteq> CHR ''_'' \<or> last (normalizeAgentId (Some v)) \<noteq> CHR ''-''"
proof (cases "valid_id (trim v)")
  case True
  then obtain c cs where v: "trim v = c # cs" "id_char_ci c" "c \<noteq> CHR ''_''" by (auto simp: valid_id_def split: list.splits)
  then have "lower_char c \<noteq> CHR ''_''"
    by (auto simp: code_eq code_lower code_id_char_ci code_id_char code_dash split: if_splits)
  then show ?thesis using True v(1) by (simp add: normalizeAgentId_def to_lower_def)
next
  case False
  let ?c = "cut_dashes (collapse_invalid False (to_lower (trim v)))"
  have "length ?c \<le> 64"
    using length_cut_dashes [of "collapse_invalid False (to_lower (trim v))"] length_collapse [of False "to_lower (trim v)"] assms
    by simp
  then have "take 64 ?c = ?c" by simp
  then show ?thesis using False cut_dashes_last [of "collapse_invalid False (to_lower (trim v))"]
    by (auto simp: normalizeAgentId_def Let_def)
qed

lemma normalize_agent_twice:
  "length (trim v) \<le> 64 \<Longrightarrow> normalizeAgentId (Some (normalizeAgentId (Some v))) = normalizeAgentId (Some v)"
  by (rule safe_id_stable [OF agent_id_safe agent_id_ends])

text \<open>Longer ids may change when they are normalized again.\<close>

theorem long_id_unstable:
  "(let v = ''_'' @ replicate 62 (CHR ''a'') @ ''!b''
    in normalizeAgentId (Some (normalizeAgentId (Some v))) \<noteq> normalizeAgentId (Some v))"
  by code_simp

section \<open>The key of a message\<close>

text \<open>The parts of a key after the agent.\<close>

definition channel_name :: "string \<Rightarrow> string" where
  "channel_name channel = (if to_lower (trim channel) = [] then ''unknown'' else to_lower (trim channel))"

definition dm_peer :: "dm_scope \<Rightarrow> (string \<times> string list) list option \<Rightarrow> string \<Rightarrow> string \<Rightarrow> string" where
  "dm_peer scope links channel peer =
     to_lower (case if scope = DmMain then None else resolveLinkedPeerId links channel (trim peer) of
       None \<Rightarrow> trim peer | Some l \<Rightarrow> if l = [] then trim peer else l)"

definition dm_rest :: "dm_scope \<Rightarrow> string \<Rightarrow> string option \<Rightarrow> string \<Rightarrow> string" where
  "dm_rest scope channel account peer =
     (if peer = [] \<or> scope = DmMain then ''main''
      else (case scope of
          DmPerPeer \<Rightarrow> ''direct'' @ CHR '':'' # peer
        | DmPerChannelPeer \<Rightarrow> channel_name channel @ CHR '':'' # ''direct'' @ CHR '':'' # peer
        | DmPerAccountChannelPeer \<Rightarrow>
            channel_name channel @ CHR '':'' # normalizeAccountId account @ CHR '':'' # ''direct'' @ CHR '':'' # peer))"

definition group_rest :: "string \<Rightarrow> string \<Rightarrow> string \<Rightarrow> string" where
  "group_rest channel kind peer =
     channel_name channel @ CHR '':'' # kind @ CHR '':'' # to_lower (if trim peer = [] then ''unknown'' else trim peer)"

definition message_rest ::
    "string \<Rightarrow> string option \<Rightarrow> string option \<Rightarrow> string option \<Rightarrow> (string \<times> string list) list option \<Rightarrow> dm_scope option \<Rightarrow>
     string" where
  "message_rest channel account kind peer links scope =
     (if or_default kind ''direct'' = ''direct''
      then dm_rest (or_default scope DmMain) channel account
             (dm_peer (or_default scope DmMain) links channel (or_default peer []))
      else group_rest channel (or_default kind ''direct'') (or_default peer []))"

lemma built_key:
  "buildAgentPeerSessionKey agentId None channel account kind peer links scope =
   agent_key (normalizeAgentId (Some agentId)) (message_rest channel account kind peer links scope)"
proof -
  have nil: "trim [] = []" by (simp add: trim_def trim_end_def)
  show ?thesis
    unfolding buildAgentPeerSessionKey_def message_rest_def Let_def
    by (cases "or_default scope DmMain")
      (simp_all add: dm_rest_def group_rest_def dm_peer_def channel_name_def nil
        buildAgentMainSessionKey_def normalizeMainKey_def DEFAULT_MAIN_KEY_def or_default_def [of None])
qed

lemma channel_name_tight: "tight (channel_name c)" "to_lower (channel_name c) = channel_name c"
proof -
  have u: "tight ''unknown''" "to_lower ''unknown'' = ''unknown''" by code_simp+
  show "tight (channel_name c)" using trim_tight tight_lower u by (auto simp: channel_name_def)
  show "to_lower (channel_name c) = channel_name c" using u by (simp add: channel_name_def)
qed

lemma dm_peer_tight: "dm_peer scope links channel peer \<noteq> [] \<Longrightarrow> tight (dm_peer scope links channel peer)"
proof -
  assume ne: "dm_peer scope links channel peer \<noteq> []"
  have "tight l" if "resolveLinkedPeerId links channel p = Some l" for p l
    using that trim_tight by (auto simp: resolveLinkedPeerId_def Let_def split: option.splits if_splits dest: find_SomeD)
  then show ?thesis using ne trim_tight [of peer]
    by (auto simp: dm_peer_def intro!: tight_lower split: option.splits if_splits)
qed

lemma tight_sep: "tight s \<Longrightarrow> tight t \<Longrightarrow> tight (s @ CHR '':'' # t)"
  by (simp add: tight_def)

lemma lower_sep: "to_lower (s @ CHR '':'' # t) = to_lower s @ CHR '':'' # to_lower t"
  by (simp add: to_lower_def code_eq code_lower code_dash)

lemma word_ok:
  "tight ''direct'' \<and> to_lower ''direct'' = ''direct''" "tight ''group'' \<and> to_lower ''group'' = ''group''"
  "tight ''channel'' \<and> to_lower ''channel'' = ''channel''" "tight ''main'' \<and> to_lower ''main'' = ''main''"
  "tight ''unknown'' \<and> to_lower ''unknown'' = ''unknown''"
  by code_simp+

definition chat_kinds :: "string set" where
  "chat_kinds = {''direct'', ''group'', ''channel''}"

lemma group_rest_ok:
  assumes "kind \<in> chat_kinds"
  shows "tight (group_rest channel kind peer)" and "to_lower (group_rest channel kind peer) = group_rest channel kind peer"
proof -
  have k: "tight kind" "to_lower kind = kind" using assms word_ok by (auto simp: chat_kinds_def)
  have "tight (to_lower (if trim peer = [] then ''unknown'' else trim peer))"
    using trim_tight [of peer] tight_lower word_ok by auto
  then show "tight (group_rest channel kind peer)"
    unfolding group_rest_def by (intro tight_sep channel_name_tight k)
  show "to_lower (group_rest channel kind peer) = group_rest channel kind peer"
    unfolding group_rest_def lower_sep by (simp add: k channel_name_tight)
qed

lemma dm_rest_ok:
  assumes "peer \<noteq> [] \<Longrightarrow> tight peer" and "to_lower peer = peer"
  shows "tight (dm_rest scope channel account peer)" and
    "to_lower (dm_rest scope channel account peer) = dm_rest scope channel account peer"
proof -
  note a = safe_id_plain [OF account_id_safe [of account]]
  show "tight (dm_rest scope channel account peer)"
    unfolding dm_rest_def using assms(1) a word_ok
    by (auto intro!: tight_sep channel_name_tight simp del: append.simps split: dm_scope.split)
  show "to_lower (dm_rest scope channel account peer) = dm_rest scope channel account peer"
    unfolding dm_rest_def using assms(2) a word_ok
    by (auto simp: lower_sep channel_name_tight simp del: append.simps to_lower_append split: dm_scope.split)
qed

lemma message_rest_ok:
  assumes "or_default kind ''direct'' \<in> chat_kinds"
  shows "tight (message_rest channel account kind peer links scope)" and
    "to_lower (message_rest channel account kind peer links scope) = message_rest channel account kind peer links scope"
proof -
  have low: "to_lower (dm_peer s links channel p) = dm_peer s links channel p" for s p by (simp add: dm_peer_def)
  note dm = dm_rest_ok [OF dm_peer_tight low]
  show "tight (message_rest channel account kind peer links scope)"
    using dm(1) group_rest_ok(1) [OF assms] by (cases "or_default kind ''direct'' = ''direct''") (simp_all add: message_rest_def)
  show "to_lower (message_rest channel account kind peer links scope) = message_rest channel account kind peer links scope"
    using dm(2) group_rest_ok(2) [OF assms] by (cases "or_default kind ''direct'' = ''direct''") (simp_all add: message_rest_def)
qed

lemma message_rest_segments:
  "or_default kind ''direct'' \<in> chat_kinds \<Longrightarrow> segments (message_rest channel account kind peer links scope) \<noteq> []"
proof -
  assume "or_default kind ''direct'' \<in> chat_kinds"
  then have "CHR ''n'' \<in> set (message_rest channel account kind peer links scope) \<or>
      CHR ''r'' \<in> set (message_rest channel account kind peer links scope)"
    by (auto simp: message_rest_def dm_rest_def group_rest_def chat_kinds_def split: dm_scope.split)
  moreover have "segments s \<noteq> []" if "x \<in> set s" "x \<noteq> CHR '':''" for x s
    using that by (intro segments_nonempty notI) simp_all
  moreover have "CHR ''n'' \<noteq> CHR '':''" "CHR ''r'' \<noteq> CHR '':''" by simp_all
  ultimately show ?thesis by blast
qed

text \<open>A session's key names its agent: whatever the channel, the peer, the account, the linked identities and the scope
  of direct messages are, reading the agent back from the key that is built for a message gives the agent the key was
  built for, in its normal form (for ids up to sixty-four characters).\<close>

theorem session_key_names_agent:
  assumes "length (trim agentId) \<le> 64" and "or_default kind ''direct'' \<in> chat_kinds"
  shows "resolveAgentIdFromSessionKey (Some (buildAgentPeerSessionKey agentId None channel account kind peer links scope)) =
     normalizeAgentId (Some agentId)"
  using parse_agent_key [OF agent_id_safe message_rest_ok [OF assms(2)] message_rest_segments [OF assms(2)]]
    normalize_agent_twice [OF assms(1)]
  by (simp add: resolveAgentIdFromSessionKey_def built_key)

theorem session_key_names_agent_witness:
  "resolveAgentIdFromSessionKey (Some (buildAgentPeerSessionKey '' Ops Team '' None ''Slack'' None (Some ''channel'')
     (Some ''C1:agent:x'') None None)) = ''ops-team''"
proof -
  have "normalizeAgentId (Some '' Ops Team '') = ''ops-team''" by code_simp
  moreover have "length (trim '' Ops Team '') \<le> 64" "or_default (Some ''channel'') ''direct'' \<in> chat_kinds"
    by (code_simp, simp add: chat_kinds_def or_default_def)
  ultimately show ?thesis using session_key_names_agent by metis
qed

section \<open>Isolation\<close>

record message =
  ms_agent :: string
  ms_channel :: string
  ms_account :: "string option"
  ms_kind :: string
  ms_peer :: string

definition message_key :: "dm_scope \<Rightarrow> message \<Rightarrow> string" where
  "message_key scope m = buildAgentPeerSessionKey (ms_agent m) None (ms_channel m) (ms_account m) (Some (ms_kind m))
     (Some (ms_peer m)) None (Some scope)"

text \<open>Which conversation a message belongs to in a scope.\<close>

definition conversation :: "dm_scope \<Rightarrow> message \<Rightarrow> string \<times> string \<times> string option \<times> string option \<times> string option" where
  "conversation scope m =
     (normalizeAgentId (Some (ms_agent m)),
      ms_kind m,
      if ms_kind m = ''direct'' \<and> scope \<in> {DmMain, DmPerPeer} then None else Some (channel_name (ms_channel m)),
      if ms_kind m = ''direct'' \<and> scope = DmPerAccountChannelPeer then Some (normalizeAccountId (ms_account m)) else None,
      if ms_kind m = ''direct'' \<and> scope = DmMain then None else Some (to_lower (trim (ms_peer m))))"

text \<open>A message with a peer, of a chat of a known kind, from a channel and an account whose names are no words of keys.\<close>

definition addressable :: "message \<Rightarrow> bool" where
  "addressable m \<longleftrightarrow> ms_kind m \<in> chat_kinds \<and> trim (ms_peer m) \<noteq> [] \<and>
     CHR '':'' \<notin> set (ms_channel m) \<and> channel_name (ms_channel m) \<noteq> ''direct'' \<and>
     normalizeAccountId (ms_account m) \<notin> {''group'', ''channel''}"

lemma lower_colon: "CHR '':'' \<notin> set s \<Longrightarrow> CHR '':'' \<notin> set (to_lower s)"
proof -
  have "c = CHR '':''" if "lower_char c = CHR '':''" for c
    using that by (auto simp: code_eq code_lower code_dash split: if_splits)
  then show "CHR '':'' \<notin> set s \<Longrightarrow> CHR '':'' \<notin> set (to_lower s)" by (force simp: to_lower_def)
qed

lemma set_trim: "set (trim s) \<subseteq> set s"
  unfolding trim_def trim_end_def by (auto dest!: set_dropWhileD)

lemma channel_colon: "CHR '':'' \<notin> set c \<Longrightarrow> CHR '':'' \<notin> set (channel_name c)"
  using set_trim [of c] lower_colon [of "trim c"] by (auto simp: channel_name_def)

lemma message_key_rest:
  "addressable m \<Longrightarrow> message_key scope m = agent_key (normalizeAgentId (Some (ms_agent m)))
     (if ms_kind m = ''direct'' then dm_rest scope (ms_channel m) (ms_account m) (to_lower (trim (ms_peer m)))
      else channel_name (ms_channel m) @ CHR '':'' # ms_kind m @ CHR '':'' # to_lower (trim (ms_peer m)))"
  by (simp add: message_key_def built_key message_rest_def dm_peer_def group_rest_def addressable_def
      resolveLinkedPeerId_def or_default_def)

lemma agent_key_inj:
  "agent_key (normalizeAgentId a) r = agent_key (normalizeAgentId b) t \<longleftrightarrow> normalizeAgentId a = normalizeAgentId b \<and> r = t"
  using cut_unique [of "CHR '':''" "normalizeAgentId a" "normalizeAgentId b" r t]
    safe_id_plain [OF agent_id_safe [of a]] safe_id_plain [OF agent_id_safe [of b]]
  by (simp add: agent_key_def)

lemma kind_colon: "k \<in> chat_kinds \<Longrightarrow> CHR '':'' \<notin> set k" "CHR '':'' \<notin> set ''direct''" "CHR '':'' \<notin> set ''main''"
  by (auto simp: chat_kinds_def)

lemma no_colon_neq: "CHR '':'' \<notin> set s \<Longrightarrow> s \<noteq> t @ CHR '':'' # u"
  by auto


text \<open>Two peers whose names contain separators.\<close>

definition dm_message :: "string \<Rightarrow> message" where
  "dm_message peer = \<lparr>ms_agent = ''main'', ms_channel = ''Matrix'', ms_account = None, ms_kind = ''direct'', ms_peer = peer\<rparr>"


section \<open>Threads\<close>

lemma last_index_here: "starts_with s pat \<Longrightarrow> last_index_of pat (tl s) = None \<Longrightarrow> s \<noteq> [] \<Longrightarrow> last_index_of pat s = Some 0"
  by (cases s) auto

lemma last_index_later: "last_index_of pat s = Some k \<Longrightarrow> last_index_of pat (b @ s) = Some (length b + k)"
  by (induction b) auto

lemma starts_with_append: "starts_with (p @ s) p"
  by (induction p) auto

lemma last_index_none: "pat \<noteq> [] \<Longrightarrow> \<not> has_substring s pat \<Longrightarrow> last_index_of pat s = None"
  by (induction s) auto

text \<open>A thread leads back to its session: parsing the key that is built for a thread gives the base key and the
  thread's id in lower case, and the parent session is the base, unless the id itself contains the thread marker.\<close>

theorem thread_key_roundtrip:
  assumes "tight base" and "trim tid \<noteq> []" and "\<not> has_substring (CHR '':'' # to_lower (trim tid)) '':thread:''"
  shows "(let key = fst (resolveThreadSessionKeys base (Some tid) parent None None)
     in parseThreadSessionSuffix (Some key) = (Some base, Some (to_lower (trim tid))) \<and>
        resolveThreadParentSessionKey (Some key) = Some base)"
proof -
  let ?t = "to_lower (trim tid)" and ?m = "'':thread:''"
  define key where "key = base @ ?m @ ?t"
  have built: "fst (resolveThreadSessionKeys base (Some tid) parent None None) = key"
    using assms(2) by (simp add: resolveThreadSessionKeys_def key_def or_default_def)
  have t: "tight ?t" using trim_tight [OF assms(2)] by (rule tight_lower)
  then have "tight key" using assms(1) by (simp add: key_def tight_def)
  then have raw: "raw_key (Some key) = key" "key \<noteq> []" by (simp_all add: raw_key_def or_default_def tight_trim tight_def)
  have "\<not> has_substring (tl (?m @ ?t)) ?m" using assms(3) by simp
  then have "last_index_of ?m (tl (?m @ ?t)) = None" by (intro last_index_none) simp_all
  then have "last_index_of ?m (?m @ ?t) = Some 0" by (intro last_index_here starts_with_append) simp_all
  then have "last_index_of ?m (to_lower base @ ?m @ ?t) = Some (length base)"
    using last_index_later [of ?m "?m @ ?t" 0 "to_lower base"] by simp
  moreover have "to_lower key = to_lower base @ ?m @ ?t"
    by (simp add: key_def del: append.simps) (simp add: to_lower_def lower_char_def)
  ultimately have ix: "last_index_of ?m (to_lower key) = Some (length base)" by simp
  have cut: "take (length base) key = base" "drop (length base + length ?m) key = ?t" by (simp_all add: key_def)
  have parsed: "parseThreadSessionSuffix (Some key) = (Some base, Some ?t)"
    unfolding parseThreadSessionSuffix_def raw(1) Let_def ix option.case cut
    using raw(2) t by (simp add: tight_trim nonempty_def tight_def)
  then have "resolveThreadParentSessionKey (Some key) = Some base"
    using assms(1) by (simp add: resolveThreadParentSessionKey_def tight_trim nonempty_def tight_def)
  then show ?thesis using parsed by (simp add: built)
qed

theorem thread_key_roundtrip_witness:
  "parseThreadSessionSuffix (Some (fst (resolveThreadSessionKeys ''agent:main:slack:channel:C1'' (Some '' 17.5:A '') None None None))) =
     (Some ''agent:main:slack:channel:C1'', Some ''17.5:a'')"
proof -
  have "tight ''agent:main:slack:channel:C1''" "trim '' 17.5:A '' \<noteq> []" "to_lower (trim '' 17.5:A '') = ''17.5:a''"
    "\<not> has_substring (CHR '':'' # to_lower (trim '' 17.5:A '')) '':thread:''"
    by code_simp+
  then show ?thesis using thread_key_roundtrip by (metis (no_types))
qed

end
