(* ===== verification/Routing.thy ===== *)
theory Routing
  imports SessionKeys
begin

text \<open>
  Which agent answers a message: \<open>src/routing/resolve-route.ts\<close>, with the kinds of chats of
  \<open>src/channels/chat-type.ts\<close> and the default agent of \<open>src/agents/agent-scope.ts\<close>. The code evaluates the bindings of a
  configuration once per channel and account, indexes them, and caches the route of each kind of message.

  The parts of a configuration are shared objects which are replaced and not modified, and the code compares them by
  reference. So a \<open>config\<close> holds references, and \<open>heap\<close> says what they refer to. The value of a missing string is
  \<open>None\<close>.
\<close>

section \<open>Configurations\<close>

definition normalizeChatType :: "string option \<Rightarrow> string option" where
  "normalizeChatType raw =
     (let value = to_lower (trim (or_default raw [])) in
      if value = ''direct'' \<or> value = ''dm'' then Some ''direct''
      else if value = ''group'' then Some ''group''
      else if value = ''channel'' then Some ''channel'' else None)"

record match_peer =
  mp_kind :: "string option"
  mp_id :: "string option"

record binding_match =
  bm_channel :: "string option"
  bm_accountId :: "string option"
  bm_peer :: "match_peer option"
  bm_guildId :: "string option"
  bm_teamId :: "string option"
  bm_roles :: "string list option"

datatype binding_type = RouteBinding | AcpBinding

record agent_binding =
  ab_type :: binding_type
  ab_agentId :: string
  ab_match :: "binding_match option"

record agent_entry =
  ae_id :: "string option"
  ae_default :: bool

record session_config =
  se_dmScope :: "dm_scope option"
  se_identityLinks :: "(string \<times> string list) list option"

record heap =
  hp_bindings :: "nat \<Rightarrow> agent_binding list"
  hp_agents :: "nat \<Rightarrow> agent_entry list"
  hp_session :: "nat \<Rightarrow> session_config"

record config =
  cf_bindings :: nat
  cf_agents :: nat
  cf_session :: nat

definition listBindings :: "heap \<Rightarrow> config \<Rightarrow> agent_binding list" where
  "listBindings h cfg = filter (\<lambda>b. ab_type b = RouteBinding) (hp_bindings h (cf_bindings cfg))"

definition resolveDefaultAgentId :: "heap \<Rightarrow> config \<Rightarrow> string" where
  "resolveDefaultAgentId h cfg =
     (let agents = hp_agents h (cf_agents cfg) in
      case agents of
        [] \<Rightarrow> DEFAULT_AGENT_ID
      | a # as \<Rightarrow>
          (let chosen = (case filter ae_default agents of d # ds \<Rightarrow> ae_id d | [] \<Rightarrow> ae_id a)
           in normalizeAgentId (Some (or_default (trimmed_opt chosen) DEFAULT_AGENT_ID))))"

section \<open>The agents\<close>

record agent_lookup =
  lk_agents :: nat
  lk_byNormalizedId :: "(string \<times> string) list"
  lk_fallback :: string

definition agent_ids :: "agent_entry list \<Rightarrow> (string \<times> string) list" where
  "agent_ids agents =
     foldl (\<lambda>m a. case trimmed_opt (ae_id a) of
         None \<Rightarrow> m
       | Some rawId \<Rightarrow> AList.update (normalizeAgentId (Some rawId)) (sanitizeAgentId (Some rawId)) m) [] agents"

definition build_lookup :: "heap \<Rightarrow> config \<Rightarrow> agent_lookup" where
  "build_lookup h cfg =
     \<lparr>lk_agents = cf_agents cfg, lk_byNormalizedId = agent_ids (hp_agents h (cf_agents cfg)),
      lk_fallback = sanitizeAgentId (Some (resolveDefaultAgentId h cfg))\<rparr>"

definition resolveAgentLookupCache :: "heap \<Rightarrow> config \<Rightarrow> agent_lookup option \<Rightarrow> agent_lookup" where
  "resolveAgentLookupCache h cfg existing =
     (case existing of
        Some e \<Rightarrow> if lk_agents e = cf_agents cfg then e else build_lookup h cfg
      | None \<Rightarrow> build_lookup h cfg)"

definition pickFirstExistingAgentId :: "agent_lookup \<Rightarrow> string \<Rightarrow> string" where
  "pickFirstExistingAgentId lookup agentId =
     (let trimmed = trim agentId in
      if trimmed = [] then lk_fallback lookup
      else if lk_byNormalizedId lookup = [] then sanitizeAgentId (Some trimmed)
      else (case map_of (lk_byNormalizedId lookup) (normalizeAgentId (Some trimmed)) of
              Some resolved \<Rightarrow> if resolved \<noteq> [] then resolved else lk_fallback lookup
            | None \<Rightarrow> lk_fallback lookup))"

section \<open>Bindings\<close>

datatype peer_constraint = NoPeer | InvalidPeer | WildcardKind string | ValidPeer string string

record normalized_match =
  nm_account :: string
  nm_peer :: peer_constraint
  nm_guild :: "string option"
  nm_team :: "string option"
  nm_roles :: "string list option"

record evaluated_binding =
  vb_agentId :: string
  vb_match :: normalized_match
  vb_order :: nat

definition normalizePeerConstraint :: "match_peer option \<Rightarrow> peer_constraint" where
  "normalizePeerConstraint peer =
     (case peer of
        None \<Rightarrow> NoPeer
      | Some p \<Rightarrow>
          (let i = trim (or_default (mp_id p) []) in
           case normalizeChatType (mp_kind p) of
             None \<Rightarrow> InvalidPeer
           | Some kind \<Rightarrow> if i = [] then InvalidPeer else if i = ''*'' then WildcardKind kind else ValidPeer kind i))"

definition normalizeBindingMatch :: "binding_match \<Rightarrow> normalized_match" where
  "normalizeBindingMatch m =
     \<lparr>nm_account = trim (or_default (bm_accountId m) []), nm_peer = normalizePeerConstraint (bm_peer m),
      nm_guild = trimmed_opt (bm_guildId m), nm_team = trimmed_opt (bm_teamId m),
      nm_roles = (case bm_roles m of Some rs \<Rightarrow> if rs = [] then None else Some rs | None \<Rightarrow> None)\<rparr>"

definition resolveAccountPatternKey :: "string \<Rightarrow> string" where
  "resolveAccountPatternKey pat = (if trim pat = [] then DEFAULT_ACCOUNT_ID else normalizeAccountId (Some pat))"

record channel_bindings =
  cb_byAccount :: "(string \<times> evaluated_binding list) list"
  cb_anyAccount :: "evaluated_binding list"

definition no_bindings :: channel_bindings where
  "no_bindings = \<lparr>cb_byAccount = [], cb_anyAccount = []\<rparr>"

definition push_at :: "string \<Rightarrow> evaluated_binding \<Rightarrow> (string \<times> evaluated_binding list) list \<Rightarrow> (string \<times> evaluated_binding list) list" where
  "push_at key b m = AList.update key (or_default (map_of m key) [] @ [b]) m"

text \<open>One turn of the loop: the next order number and the buckets of the channels.\<close>

definition add_binding ::
    "nat \<times> (string \<times> channel_bindings) list \<Rightarrow> agent_binding \<Rightarrow> nat \<times> (string \<times> channel_bindings) list" where
  "add_binding st b =
     (case (st, ab_match b) of
        (_, None) \<Rightarrow> st
      | ((order, byChannel), Some m) \<Rightarrow>
          (let channel = normalizeToken (bm_channel m) in
           if channel = [] then st
           else
             (let match = normalizeBindingMatch m;
                  evaluated = \<lparr>vb_agentId = ab_agentId b, vb_match = match, vb_order = order\<rparr>;
                  bucket = or_default (map_of byChannel channel) no_bindings;
                  bucket' = (if nm_account match = ''*''
                    then bucket\<lparr>cb_anyAccount := cb_anyAccount bucket @ [evaluated]\<rparr>
                    else bucket\<lparr>cb_byAccount :=
                      push_at (resolveAccountPatternKey (nm_account match)) evaluated (cb_byAccount bucket)\<rparr>)
              in (Suc order, AList.update channel bucket' byChannel))))"

definition buildEvaluatedBindingsByChannel :: "heap \<Rightarrow> config \<Rightarrow> (string \<times> channel_bindings) list" where
  "buildEvaluatedBindingsByChannel h cfg = snd (foldl add_binding (0, []) (listBindings h cfg))"

fun merge_loop :: "evaluated_binding list \<Rightarrow> evaluated_binding list \<Rightarrow> evaluated_binding list" where
  "merge_loop (a # as) (b # bs) =
     (if vb_order a \<le> vb_order b then a # merge_loop as (b # bs) else b # merge_loop (a # as) bs)"
| "merge_loop as bs = as @ bs"

definition mergeEvaluatedBindingsInSourceOrder ::
    "evaluated_binding list \<Rightarrow> evaluated_binding list \<Rightarrow> evaluated_binding list" where
  "mergeEvaluatedBindingsInSourceOrder accountScoped anyAccount =
     (if accountScoped = [] then anyAccount else if anyAccount = [] then accountScoped
      else merge_loop accountScoped anyAccount)"

section \<open>The index\<close>

record route_peer =
  rp_kind :: string
  rp_id :: string

definition peerLookupKeys :: "string \<Rightarrow> string \<Rightarrow> string list" where
  "peerLookupKeys kind i =
     (if kind = ''group'' then [''group:'' @ i, ''channel:'' @ i]
      else if kind = ''channel'' then [''channel:'' @ i, ''group:'' @ i]
      else [kind @ '':'' @ i])"

record bindings_index =
  ix_byPeer :: "(string \<times> evaluated_binding list) list"
  ix_byPeerWildcard :: "evaluated_binding list"
  ix_byGuildWithRoles :: "(string \<times> evaluated_binding list) list"
  ix_byGuild :: "(string \<times> evaluated_binding list) list"
  ix_byTeam :: "(string \<times> evaluated_binding list) list"
  ix_byAccount :: "evaluated_binding list"
  ix_byChannel :: "evaluated_binding list"

definition empty_index :: bindings_index where
  "empty_index = \<lparr>ix_byPeer = [], ix_byPeerWildcard = [], ix_byGuildWithRoles = [], ix_byGuild = [], ix_byTeam = [],
     ix_byAccount = [], ix_byChannel = []\<rparr>"

definition pushToIndexMap ::
    "(string \<times> evaluated_binding list) list \<Rightarrow> string \<Rightarrow> evaluated_binding \<Rightarrow> (string \<times> evaluated_binding list) list" where
  "pushToIndexMap m key b = (if key = [] then m else push_at key b m)"

definition index_binding :: "bindings_index \<Rightarrow> evaluated_binding \<Rightarrow> bindings_index" where
  "index_binding ix b =
     (let m = vb_match b in
      case nm_peer m of
        ValidPeer kind i \<Rightarrow>
          ix\<lparr>ix_byPeer := foldl (\<lambda>acc key. pushToIndexMap acc key b) (ix_byPeer ix) (peerLookupKeys kind i)\<rparr>
      | WildcardKind kind \<Rightarrow> ix\<lparr>ix_byPeerWildcard := ix_byPeerWildcard ix @ [b]\<rparr>
      | _ \<Rightarrow>
          (case (nm_guild m, nm_roles m) of
             (Some g, Some rs) \<Rightarrow> ix\<lparr>ix_byGuildWithRoles := pushToIndexMap (ix_byGuildWithRoles ix) g b\<rparr>
           | (Some g, None) \<Rightarrow> ix\<lparr>ix_byGuild := pushToIndexMap (ix_byGuild ix) g b\<rparr>
           | (None, _) \<Rightarrow>
               (case nm_team m of
                  Some t \<Rightarrow> ix\<lparr>ix_byTeam := pushToIndexMap (ix_byTeam ix) t b\<rparr>
                | None \<Rightarrow>
                    if nm_account m \<noteq> ''*'' then ix\<lparr>ix_byAccount := ix_byAccount ix @ [b]\<rparr>
                    else ix\<lparr>ix_byChannel := ix_byChannel ix @ [b]\<rparr>)))"

definition buildEvaluatedBindingsIndex :: "evaluated_binding list \<Rightarrow> bindings_index" where
  "buildEvaluatedBindingsIndex bindings = foldl index_binding empty_index bindings"

text \<open>The set of seen objects: bindings with different order numbers are different objects.\<close>

definition collectPeerIndexedBindings :: "bindings_index \<Rightarrow> route_peer option \<Rightarrow> evaluated_binding list" where
  "collectPeerIndexedBindings index peer =
     (case peer of
        None \<Rightarrow> []
      | Some p \<Rightarrow>
          foldl (\<lambda>out key.
            foldl (\<lambda>out b. if b \<in> set out then out else out @ [b]) out (or_default (map_of (ix_byPeer index) key) []))
            [] (peerLookupKeys (rp_kind p) (rp_id p)))"

section \<open>The caches of the bindings\<close>

definition MAX_EVALUATED_BINDINGS_CACHE_KEYS :: nat where "MAX_EVALUATED_BINDINGS_CACHE_KEYS = 2000"
definition MAX_RESOLVED_ROUTE_CACHE_KEYS :: nat where "MAX_RESOLVED_ROUTE_CACHE_KEYS = 4000"

record bindings_cache =
  bc_bindings :: nat
  bc_byChannel :: "(string \<times> channel_bindings) list"
  bc_evaluated :: "(string \<times> evaluated_binding list) list"
  bc_index :: "(string \<times> bindings_index) list"

definition cache_key :: "string \<Rightarrow> string \<Rightarrow> string" where
  "cache_key channel accountId = channel @ [CHR 0x09] @ accountId"

definition evaluated_for :: "(string \<times> channel_bindings) list \<Rightarrow> string \<Rightarrow> string \<Rightarrow> evaluated_binding list" where
  "evaluated_for byChannel channel accountId =
     (let cb = map_of byChannel channel in
      mergeEvaluatedBindingsInSourceOrder
        (case cb of None \<Rightarrow> [] | Some b \<Rightarrow> or_default (map_of (cb_byAccount b) accountId) [])
        (case cb of None \<Rightarrow> [] | Some b \<Rightarrow> cb_anyAccount b))"

definition current_cache :: "heap \<Rightarrow> config \<Rightarrow> bindings_cache option \<Rightarrow> bindings_cache" where
  "current_cache h cfg existing =
     (let fresh = \<lparr>bc_bindings = cf_bindings cfg, bc_byChannel = buildEvaluatedBindingsByChannel h cfg,
                    bc_evaluated = [], bc_index = []\<rparr>
      in case existing of Some e \<Rightarrow> if bc_bindings e = cf_bindings cfg then e else fresh | None \<Rightarrow> fresh)"

definition getEvaluatedBindingsForChannelAccount ::
    "heap \<Rightarrow> config \<Rightarrow> string \<Rightarrow> string \<Rightarrow> bindings_cache option \<Rightarrow> evaluated_binding list \<times> bindings_cache" where
  "getEvaluatedBindingsForChannelAccount h cfg channel accountId existing =
     (let cache = current_cache h cfg existing;
          key = cache_key channel accountId
      in case map_of (bc_evaluated cache) key of
           Some hit \<Rightarrow> (hit, cache)
         | None \<Rightarrow>
             (let evaluated = evaluated_for (bc_byChannel cache) channel accountId;
                  ix = buildEvaluatedBindingsIndex evaluated;
                  cache1 = cache\<lparr>bc_evaluated := AList.update key evaluated (bc_evaluated cache),
                                 bc_index := AList.update key ix (bc_index cache)\<rparr>
              in (evaluated,
                  if length (bc_evaluated cache1) > MAX_EVALUATED_BINDINGS_CACHE_KEYS
                  then cache1\<lparr>bc_evaluated := [(key, evaluated)], bc_index := [(key, ix)]\<rparr> else cache1)))"

definition getEvaluatedBindingIndexForChannelAccount ::
    "heap \<Rightarrow> config \<Rightarrow> string \<Rightarrow> string \<Rightarrow> bindings_cache option \<Rightarrow> bindings_index \<times> bindings_cache" where
  "getEvaluatedBindingIndexForChannelAccount h cfg channel accountId existing =
     (let (bindings, cache) = getEvaluatedBindingsForChannelAccount h cfg channel accountId existing;
          key = cache_key channel accountId
      in case map_of (bc_index cache) key of
           Some indexed \<Rightarrow> (indexed, cache)
         | None \<Rightarrow>
             (let built = buildEvaluatedBindingsIndex bindings
              in (built, cache\<lparr>bc_index := AList.update key built (bc_index cache)\<rparr>)))"

section \<open>Matching\<close>

record binding_scope =
  sc_peer :: "route_peer option"
  sc_guildId :: string
  sc_teamId :: string
  sc_roles :: "string list"

definition peerKindMatches :: "string \<Rightarrow> string \<Rightarrow> bool" where
  "peerKindMatches bindingKind scopeKind =
     (bindingKind = scopeKind \<or>
      ''group'' \<in> {bindingKind, scopeKind} \<and> ''channel'' \<in> {bindingKind, scopeKind})"

definition peer_matches :: "peer_constraint \<Rightarrow> route_peer option \<Rightarrow> bool" where
  "peer_matches c peer =
     (case c of
        NoPeer \<Rightarrow> True
      | InvalidPeer \<Rightarrow> False
      | ValidPeer kind i \<Rightarrow> (case peer of None \<Rightarrow> False | Some p \<Rightarrow> peerKindMatches kind (rp_kind p) \<and> rp_id p = i)
      | WildcardKind kind \<Rightarrow> (case peer of None \<Rightarrow> False | Some p \<Rightarrow> peerKindMatches kind (rp_kind p)))"

definition matchesBindingScope :: "normalized_match \<Rightarrow> binding_scope \<Rightarrow> bool" where
  "matchesBindingScope m scope =
     (peer_matches (nm_peer m) (sc_peer scope) \<and>
      (case nm_guild m of None \<Rightarrow> True | Some g \<Rightarrow> g = sc_guildId scope) \<and>
      (case nm_team m of None \<Rightarrow> True | Some t \<Rightarrow> t = sc_teamId scope) \<and>
      (case nm_roles m of None \<Rightarrow> True | Some rs \<Rightarrow> list_ex (\<lambda>r. r \<in> set (sc_roles scope)) rs))"

datatype matched_by = ByPeer | ByPeerParent | ByPeerWildcard | ByGuildRoles | ByGuild | ByTeam | ByAccount | ByChannel
  | ByDefault

text \<open>A tier: what matched, whether it is enabled, the peer of its scope, its candidates and its predicate.\<close>

record tier =
  ti_matchedBy :: matched_by
  ti_enabled :: bool
  ti_peer :: "route_peer option"
  ti_candidates :: "evaluated_binding list"
  ti_predicate :: "normalized_match \<Rightarrow> bool"

record route_query =
  rq_peer :: "route_peer option"
  rq_parent :: "route_peer option"
  rq_guildId :: string
  rq_teamId :: string
  rq_roles :: "string list"

definition is_valid_peer :: "normalized_match \<Rightarrow> bool" where
  "is_valid_peer m = (case nm_peer m of ValidPeer k i \<Rightarrow> True | _ \<Rightarrow> False)"

definition is_wildcard_peer :: "normalized_match \<Rightarrow> bool" where
  "is_wildcard_peer m = (case nm_peer m of WildcardKind k \<Rightarrow> True | _ \<Rightarrow> False)"

definition with_id :: "route_peer option \<Rightarrow> route_peer option" where
  "with_id peer = (case peer of None \<Rightarrow> None | Some p \<Rightarrow> if rp_id p = [] then None else Some p)"

definition at_key :: "(string \<times> evaluated_binding list) list \<Rightarrow> string \<Rightarrow> evaluated_binding list" where
  "at_key m key = (if key = [] then [] else or_default (map_of m key) [])"

definition route_tiers :: "bindings_index \<Rightarrow> route_query \<Rightarrow> tier list" where
  "route_tiers ix q =
     [\<lparr>ti_matchedBy = ByPeer, ti_enabled = (rq_peer q \<noteq> None), ti_peer = rq_peer q,
        ti_candidates = collectPeerIndexedBindings ix (rq_peer q), ti_predicate = is_valid_peer\<rparr>,
      \<lparr>ti_matchedBy = ByPeerParent, ti_enabled = (with_id (rq_parent q) \<noteq> None), ti_peer = with_id (rq_parent q),
        ti_candidates = collectPeerIndexedBindings ix (rq_parent q), ti_predicate = is_valid_peer\<rparr>,
      \<lparr>ti_matchedBy = ByPeerWildcard, ti_enabled = (rq_peer q \<noteq> None), ti_peer = rq_peer q,
        ti_candidates = ix_byPeerWildcard ix, ti_predicate = is_wildcard_peer\<rparr>,
      \<lparr>ti_matchedBy = ByGuildRoles, ti_enabled = (rq_guildId q \<noteq> [] \<and> rq_roles q \<noteq> []), ti_peer = rq_peer q,
        ti_candidates = at_key (ix_byGuildWithRoles ix) (rq_guildId q),
        ti_predicate = (\<lambda>m. nm_guild m \<noteq> None \<and> nm_roles m \<noteq> None)\<rparr>,
      \<lparr>ti_matchedBy = ByGuild, ti_enabled = (rq_guildId q \<noteq> []), ti_peer = rq_peer q,
        ti_candidates = at_key (ix_byGuild ix) (rq_guildId q),
        ti_predicate = (\<lambda>m. nm_guild m \<noteq> None \<and> nm_roles m = None)\<rparr>,
      \<lparr>ti_matchedBy = ByTeam, ti_enabled = (rq_teamId q \<noteq> []), ti_peer = rq_peer q,
        ti_candidates = at_key (ix_byTeam ix) (rq_teamId q), ti_predicate = (\<lambda>m. nm_team m \<noteq> None)\<rparr>,
      \<lparr>ti_matchedBy = ByAccount, ti_enabled = True, ti_peer = rq_peer q,
        ti_candidates = ix_byAccount ix, ti_predicate = (\<lambda>m. nm_account m \<noteq> ''*'')\<rparr>,
      \<lparr>ti_matchedBy = ByChannel, ti_enabled = True, ti_peer = rq_peer q,
        ti_candidates = ix_byChannel ix, ti_predicate = (\<lambda>m. nm_account m = ''*'')\<rparr>]"

definition tier_match :: "route_query \<Rightarrow> tier \<Rightarrow> evaluated_binding option" where
  "tier_match q t =
     (if ti_enabled t
      then List.find (\<lambda>b. ti_predicate t (vb_match b) \<and>
             matchesBindingScope (vb_match b)
               \<lparr>sc_peer = ti_peer t, sc_guildId = rq_guildId q, sc_teamId = rq_teamId q, sc_roles = rq_roles q\<rparr>)
             (ti_candidates t)
      else None)"

fun first_match :: "route_query \<Rightarrow> tier list \<Rightarrow> (matched_by \<times> evaluated_binding) option" where
  "first_match q [] = None"
| "first_match q (t # ts) =
     (case tier_match q t of Some b \<Rightarrow> Some (ti_matchedBy t, b) | None \<Rightarrow> first_match q ts)"

section \<open>The route\<close>

datatype last_route_policy = LastRouteMain | LastRouteSession

record agent_route =
  ro_agentId :: string
  ro_channel :: string
  ro_accountId :: string
  ro_sessionKey :: string
  ro_mainSessionKey :: string
  ro_lastRoutePolicy :: last_route_policy
  ro_matchedBy :: matched_by

definition deriveLastRoutePolicy :: "string \<Rightarrow> string \<Rightarrow> last_route_policy" where
  "deriveLastRoutePolicy sessionKey mainSessionKey =
     (if sessionKey = mainSessionKey then LastRouteMain else LastRouteSession)"

definition resolveInboundLastRouteSessionKey :: "agent_route \<Rightarrow> string \<Rightarrow> string" where
  "resolveInboundLastRouteSessionKey route sessionKey =
     (case ro_lastRoutePolicy route of LastRouteMain \<Rightarrow> ro_mainSessionKey route | LastRouteSession \<Rightarrow> sessionKey)"

definition buildAgentSessionKey ::
    "string \<Rightarrow> string \<Rightarrow> string option \<Rightarrow> route_peer option \<Rightarrow> dm_scope option \<Rightarrow> (string \<times> string list) list option \<Rightarrow>
     string" where
  "buildAgentSessionKey agentId channel0 accountId peer dmScope identityLinks =
     (let channel = (if normalizeToken (Some channel0) = [] then ''unknown'' else normalizeToken (Some channel0)) in
      buildAgentPeerSessionKey agentId (Some DEFAULT_MAIN_KEY) channel accountId
        (Some (case peer of None \<Rightarrow> ''direct'' | Some p \<Rightarrow> rp_kind p))
        (case peer of None \<Rightarrow> None | Some p \<Rightarrow> Some (if trim (rp_id p) = [] then ''unknown'' else trim (rp_id p)))
        identityLinks dmScope)"

record route_input =
  ri_channel :: string
  ri_accountId :: "string option"
  ri_peer :: "route_peer option"
  ri_parentPeer :: "route_peer option"
  ri_guildId :: "string option"
  ri_teamId :: "string option"
  ri_memberRoleIds :: "string list option"

definition normal_peer :: "route_peer option \<Rightarrow> route_peer option" where
  "normal_peer peer =
     map_option (\<lambda>p. \<lparr>rp_kind = or_default (normalizeChatType (Some (rp_kind p))) (rp_kind p), rp_id = trim (rp_id p)\<rparr>) peer"

definition route_query_of :: "route_input \<Rightarrow> route_query" where
  "route_query_of input =
     \<lparr>rq_peer = normal_peer (ri_peer input), rq_parent = normal_peer (ri_parentPeer input),
      rq_guildId = trim (or_default (ri_guildId input) []), rq_teamId = trim (or_default (ri_teamId input) []),
      rq_roles = or_default (ri_memberRoleIds input) []\<rparr>"

definition choose_route ::
    "agent_lookup \<Rightarrow> string \<Rightarrow> string \<Rightarrow> route_peer option \<Rightarrow> session_config \<Rightarrow> string \<Rightarrow> matched_by \<Rightarrow> agent_route" where
  "choose_route lookup channel accountId peer session agentId matchedBy =
     (let resolvedAgentId = pickFirstExistingAgentId lookup agentId;
          sessionKey = to_lower (buildAgentSessionKey resolvedAgentId channel (Some accountId) peer
            (Some (or_default (se_dmScope session) DmMain)) (se_identityLinks session));
          mainSessionKey = to_lower (buildAgentMainSessionKey resolvedAgentId (Some DEFAULT_MAIN_KEY))
      in \<lparr>ro_agentId = resolvedAgentId, ro_channel = channel, ro_accountId = accountId, ro_sessionKey = sessionKey,
          ro_mainSessionKey = mainSessionKey, ro_lastRoutePolicy = deriveLastRoutePolicy sessionKey mainSessionKey,
          ro_matchedBy = matchedBy\<rparr>)"

text \<open>The key of a route in the cache.\<close>

definition formatRouteCachePeer :: "route_peer option \<Rightarrow> string" where
  "formatRouteCachePeer peer =
     (case peer of None \<Rightarrow> ''-'' | Some p \<Rightarrow> if rp_id p = [] then ''-'' else rp_kind p @ '':'' @ rp_id p)"

definition formatRoleIdsCacheKey :: "string list \<Rightarrow> string" where
  "formatRoleIdsCacheKey roleIds =
     (case roleIds of
        [] \<Rightarrow> ''-''
      | [r] \<Rightarrow> r
      | [a, b] \<Rightarrow> if a \<le> b then a @ '','' @ b else b @ '','' @ a
      | _ \<Rightarrow> join_with '','' (sort roleIds))"

definition dm_scope_name :: "dm_scope \<Rightarrow> string" where
  "dm_scope_name s = (case s of DmMain \<Rightarrow> ''main'' | DmPerPeer \<Rightarrow> ''per-peer'' | DmPerChannelPeer \<Rightarrow> ''per-channel-peer''
     | DmPerAccountChannelPeer \<Rightarrow> ''per-account-channel-peer'')"

definition dash_if_empty :: "string \<Rightarrow> string" where
  "dash_if_empty s = (if s = [] then ''-'' else s)"

definition buildResolvedRouteCacheKey :: "string \<Rightarrow> string \<Rightarrow> route_query \<Rightarrow> dm_scope \<Rightarrow> string" where
  "buildResolvedRouteCacheKey channel accountId q dmScope =
     join_with [CHR 0x09] [channel, accountId, formatRouteCachePeer (rq_peer q), formatRouteCachePeer (rq_parent q),
       dash_if_empty (rq_guildId q), dash_if_empty (rq_teamId q), formatRoleIdsCacheKey (rq_roles q), dm_scope_name dmScope]"

text \<open>The caches of one configuration object, and the route without and with the cache of routes, which the code
  leaves aside while it logs verbosely or when identities are linked.\<close>

record route_cache =
  rc_bindings :: nat
  rc_agents :: nat
  rc_session :: nat
  rc_byKey :: "(string \<times> agent_route) list"

record route_caches =
  cs_bindings :: "bindings_cache option"
  cs_lookup :: "agent_lookup option"
  cs_routes :: "route_cache option"

definition resolveRouteCacheForConfig :: "config \<Rightarrow> route_cache option \<Rightarrow> route_cache" where
  "resolveRouteCacheForConfig cfg existing =
     (let fresh = \<lparr>rc_bindings = cf_bindings cfg, rc_agents = cf_agents cfg, rc_session = cf_session cfg, rc_byKey = []\<rparr> in
      case existing of
        Some e \<Rightarrow>
          if rc_bindings e = cf_bindings cfg \<and> rc_agents e = cf_agents cfg \<and> rc_session e = cf_session cfg then e else fresh
      | None \<Rightarrow> fresh)"

definition compute_route ::
    "heap \<Rightarrow> config \<Rightarrow> string \<Rightarrow> string \<Rightarrow> route_query \<Rightarrow> route_caches \<Rightarrow> agent_route \<times> route_caches" where
  "compute_route h cfg channel accountId q cs =
     (let (bindings, bc1) = getEvaluatedBindingsForChannelAccount h cfg channel accountId (cs_bindings cs);
          (index, bc2) = getEvaluatedBindingIndexForChannelAccount h cfg channel accountId (Some bc1);
          lookup = resolveAgentLookupCache h cfg (cs_lookup cs);
          session = hp_session h (cf_session cfg);
          (agentId, matchedBy) = (case first_match q (route_tiers index q) of
              Some (by', b) \<Rightarrow> (vb_agentId b, by')
            | None \<Rightarrow> (resolveDefaultAgentId h cfg, ByDefault))
      in (choose_route lookup channel accountId (rq_peer q) session agentId matchedBy,
          cs\<lparr>cs_bindings := Some bc2, cs_lookup := Some lookup\<rparr>))"

definition resolveAgentRoute :: "bool \<Rightarrow> heap \<Rightarrow> config \<Rightarrow> route_input \<Rightarrow> route_caches \<Rightarrow> agent_route \<times> route_caches" where
  "resolveAgentRoute verbose h cfg input cs =
     (let channel = normalizeToken (Some (ri_channel input)); accountId = normalizeAccountId (ri_accountId input);
          q = route_query_of input; session = hp_session h (cf_session cfg);
          dmScope = or_default (se_dmScope session) DmMain
      in if verbose \<or> se_identityLinks session \<noteq> None then compute_route h cfg channel accountId q cs
         else
           (let rc = resolveRouteCacheForConfig cfg (cs_routes cs);
                key = buildResolvedRouteCacheKey channel accountId q dmScope
            in case map_of (rc_byKey rc) key of
                 Some cached \<Rightarrow> (cached, cs\<lparr>cs_routes := Some rc\<rparr>)
               | None \<Rightarrow>
                   (let (route, cs1) = compute_route h cfg channel accountId q cs;
                        byKey = AList.update key route (rc_byKey rc)
                    in (route, cs1\<lparr>cs_routes := Some (rc\<lparr>rc_byKey :=
                          if length byKey > MAX_RESOLVED_ROUTE_CACHE_KEYS then [(key, route)] else byKey\<rparr>)\<rparr>))))"

end
