(* ===== verification/RoutingProps.thy ===== *)
theory RoutingProps
  imports Routing SessionKeyProps
begin

text \<open>
  What routing promises: through all its indexes and caches a message gets the agent of the first binding, in the
  order of the configuration, of the most specific tier that matches.
\<close>

section \<open>The reference\<close>

text \<open>The bindings with a channel, numbered.\<close>

fun evaluated_from :: "nat \<Rightarrow> agent_binding list \<Rightarrow> (string \<times> evaluated_binding) list" where
  "evaluated_from n [] = []"
| "evaluated_from n (b # bs) =
     (case ab_match b of
        None \<Rightarrow> evaluated_from n bs
      | Some m \<Rightarrow>
          if normalizeToken (bm_channel m) = [] then evaluated_from n bs
          else (normalizeToken (bm_channel m),
                \<lparr>vb_agentId = ab_agentId b, vb_match = normalizeBindingMatch m, vb_order = n\<rparr>) # evaluated_from (Suc n) bs)"

definition any_account :: "evaluated_binding \<Rightarrow> bool" where
  "any_account b = (nm_account (vb_match b) = ''*'')"

definition for_account :: "string \<Rightarrow> evaluated_binding \<Rightarrow> bool" where
  "for_account account b = (\<not> any_account b \<and> resolveAccountPatternKey (nm_account (vb_match b)) = account)"

definition bindings_for :: "heap \<Rightarrow> config \<Rightarrow> string \<Rightarrow> string \<Rightarrow> evaluated_binding list" where
  "bindings_for h cfg channel account =
     map snd (filter (\<lambda>(c, b). c = channel \<and> (any_account b \<or> for_account account b)) (evaluated_from 0 (listBindings h cfg)))"

text \<open>When a binding matches in a tier.\<close>

definition in_scope :: "route_query \<Rightarrow> route_peer option \<Rightarrow> normalized_match \<Rightarrow> bool" where
  "in_scope q peer m = matchesBindingScope m
     \<lparr>sc_peer = peer, sc_guildId = rq_guildId q, sc_teamId = rq_teamId q, sc_roles = rq_roles q\<rparr>"

fun matches_in :: "route_query \<Rightarrow> matched_by \<Rightarrow> normalized_match \<Rightarrow> bool" where
  "matches_in q ByPeer m = (is_valid_peer m \<and> in_scope q (rq_peer q) m)"
| "matches_in q ByPeerParent m = (is_valid_peer m \<and> in_scope q (with_id (rq_parent q)) m)"
| "matches_in q ByPeerWildcard m = (is_wildcard_peer m \<and> in_scope q (rq_peer q) m)"
| "matches_in q ByGuildRoles m = (nm_peer m = NoPeer \<and> nm_guild m \<noteq> None \<and> nm_roles m \<noteq> None \<and> in_scope q (rq_peer q) m)"
| "matches_in q ByGuild m = (nm_peer m = NoPeer \<and> nm_guild m \<noteq> None \<and> nm_roles m = None \<and> in_scope q (rq_peer q) m)"
| "matches_in q ByTeam m = (nm_peer m = NoPeer \<and> nm_guild m = None \<and> nm_team m \<noteq> None \<and> in_scope q (rq_peer q) m)"
| "matches_in q ByAccount m = (nm_peer m = NoPeer \<and> nm_guild m = None \<and> nm_team m = None \<and> nm_account m \<noteq> ''*'' \<and>
     in_scope q (rq_peer q) m)"
| "matches_in q ByChannel m = (nm_peer m = NoPeer \<and> nm_guild m = None \<and> nm_team m = None \<and> nm_account m = ''*'' \<and>
     in_scope q (rq_peer q) m)"
| "matches_in q ByDefault m = False"

definition tier_order :: "matched_by list" where
  "tier_order = [ByPeer, ByPeerParent, ByPeerWildcard, ByGuildRoles, ByGuild, ByTeam, ByAccount, ByChannel]"

fun first_tier :: "route_query \<Rightarrow> evaluated_binding list \<Rightarrow> matched_by list \<Rightarrow> (matched_by \<times> evaluated_binding) option" where
  "first_tier q bs [] = None"
| "first_tier q bs (t # ts) =
     (case List.find (\<lambda>b. matches_in q t (vb_match b)) bs of Some b \<Rightarrow> Some (t, b) | None \<Rightarrow> first_tier q bs ts)"

definition route_of :: "heap \<Rightarrow> config \<Rightarrow> string \<Rightarrow> string \<Rightarrow> route_query \<Rightarrow> agent_route" where
  "route_of h cfg channel account q =
     (let (agentId, matchedBy) = (case first_tier q (bindings_for h cfg channel account) tier_order of
              Some (t, b) \<Rightarrow> (vb_agentId b, t)
            | None \<Rightarrow> (resolveDefaultAgentId h cfg, ByDefault))
      in choose_route (build_lookup h cfg) channel account (rq_peer q) (hp_session h (cf_session cfg)) agentId matchedBy)"

definition route_spec :: "heap \<Rightarrow> config \<Rightarrow> route_input \<Rightarrow> agent_route" where
  "route_spec h cfg input =
     route_of h cfg (normalizeToken (Some (ri_channel input))) (normalizeAccountId (ri_accountId input)) (route_query_of input)"

section \<open>The bindings of a channel and an account\<close>

definition bucket_any :: "(string \<times> channel_bindings) list \<Rightarrow> string \<Rightarrow> evaluated_binding list" where
  "bucket_any m channel = (case map_of m channel of None \<Rightarrow> [] | Some cb \<Rightarrow> cb_anyAccount cb)"

definition bucket_for :: "(string \<times> channel_bindings) list \<Rightarrow> string \<Rightarrow> string \<Rightarrow> evaluated_binding list" where
  "bucket_for m channel account =
     (case map_of m channel of None \<Rightarrow> [] | Some cb \<Rightarrow> or_default (map_of (cb_byAccount cb) account) [])"

lemma push_at_lookup:
  "or_default (map_of (push_at k b m) k') [] = or_default (map_of m k') [] @ (if k = k' then [b] else [])"
  by (simp add: push_at_def update_conv' or_default_def)

lemma buckets:
  "foldl add_binding (n, m) bs = (n', m') \<Longrightarrow>
   bucket_any m' channel = bucket_any m channel @
     map snd (filter (\<lambda>(c, b). c = channel \<and> any_account b) (evaluated_from n bs)) \<and>
   bucket_for m' channel account = bucket_for m channel account @
     map snd (filter (\<lambda>(c, b). c = channel \<and> for_account account b) (evaluated_from n bs))"
proof (induction bs arbitrary: n m)
  case (Cons b bs)
  show ?case
  proof (cases "ab_match b")
    case None
    then show ?thesis using Cons.prems Cons.IH [of n m] by (simp add: add_binding_def)
  next
    case (Some bm)
    let ?c = "normalizeToken (bm_channel bm)"
    show ?thesis
    proof (cases "?c = []")
      case True
      then show ?thesis using Cons.prems Cons.IH [of n m] Some by (simp add: add_binding_def)
    next
      case False
      obtain m1 where m1: "add_binding (n, m) b = (Suc n, m1)" using False Some by (simp add: add_binding_def Let_def)
      let ?e = "\<lparr>vb_agentId = ab_agentId b, vb_match = normalizeBindingMatch bm, vb_order = n\<rparr>"
      have "bucket_any m1 channel = bucket_any m channel @ (if ?c = channel \<and> any_account ?e then [?e] else [])"
        "bucket_for m1 channel account = bucket_for m channel account @ (if ?c = channel \<and> for_account account ?e then [?e] else [])"
        using m1 False Some
        by (auto simp: add_binding_def Let_def bucket_any_def bucket_for_def any_account_def for_account_def update_conv'
            no_bindings_def or_default_def push_at_def split: option.splits if_splits)
      then show ?thesis using Cons.prems Cons.IH [of "Suc n" m1] m1 Some False by simp
    qed
  qed
qed simp

lemma evaluated_sorted:
  "sorted_wrt (\<lambda>x y. vb_order (snd x) < vb_order (snd y)) (evaluated_from n bs) \<and>
   list_all (\<lambda>x. n \<le> vb_order (snd x)) (evaluated_from n bs)"
proof (induction bs arbitrary: n)
  case (Cons b bs)
  then show ?case using Cons.IH [of n] Cons.IH [of "Suc n"] by (fastforce simp: list_all_iff split: option.split)
qed simp

lemma merge_Nil2 [simp]: "merge_loop as [] = as"
  by (cases as) simp_all

lemma merge_filters:
  "sorted_wrt (\<lambda>x y. vb_order x < vb_order y) xs \<Longrightarrow> list_all (\<lambda>x. \<not> (P x \<and> Q x)) xs \<Longrightarrow>
   merge_loop (filter P xs) (filter Q xs) = filter (\<lambda>x. P x \<or> Q x) xs"
proof (induction xs)
  case (Cons x xs)
  have later: "vb_order x < vb_order y" if "y \<in> set xs" for y using Cons.prems(1) that by simp
  have IH: "merge_loop (filter P xs) (filter Q xs) = filter (\<lambda>x. P x \<or> Q x) xs" using Cons by simp
  show ?case
  proof (cases "P x")
    case True
    then have nq: "\<not> Q x" using Cons.prems(2) by simp
    show ?thesis
    proof (cases "filter Q xs")
      case Nil
      then show ?thesis using True nq IH by simp
    next
      case (Cons b bs)
      then have "b \<in> set (filter Q xs)" by simp
      then have "b \<in> set xs" by simp
      then show ?thesis using True nq IH Cons later by (simp add: less_imp_le)
    qed
  next
    case False
    show ?thesis
    proof (cases "Q x")
      case True
      show ?thesis
      proof (cases "filter P xs")
        case Nil
        then show ?thesis using True False IH by simp
      next
        case (Cons a as)
        then have "a \<in> set (filter P xs)" by simp
        then have "a \<in> set xs" by simp
        then have "\<not> vb_order a \<le> vb_order x" using later by (simp add: not_le)
        then show ?thesis using True False IH Cons by simp
      qed
    qed (use False IH in simp)
  qed
qed simp

lemma merge_eq: "mergeEvaluatedBindingsInSourceOrder as bs = merge_loop as bs"
  by (simp add: mergeEvaluatedBindingsInSourceOrder_def)

lemma part_filter: "map snd (filter (\<lambda>(c, b). c = k \<and> P b) ys) = filter P (map snd (filter (\<lambda>(c, b). c = k) ys))"
  by (induction ys) auto

lemma evaluated_for_eq:
  "evaluated_for (buildEvaluatedBindingsByChannel h cfg) channel account = bindings_for h cfg channel account"
proof -
  define xs where "xs = map snd (filter (\<lambda>(c, b). c = channel) (evaluated_from 0 (listBindings h cfg)))"
  obtain n m where f: "foldl add_binding (0, []) (listBindings h cfg) = (n, m)" by force
  have part: "map snd (filter (\<lambda>(c, b). c = channel \<and> P b) (evaluated_from 0 (listBindings h cfg))) = filter P xs" for P
    unfolding xs_def by (rule part_filter)
  have "sorted_wrt (\<lambda>x y. vb_order x < vb_order y) xs"
    using evaluated_sorted [of 0 "listBindings h cfg"] by (simp add: xs_def sorted_wrt_map sorted_wrt_filter)
  then have "merge_loop (filter (for_account account) xs) (filter any_account xs) =
      filter (\<lambda>x. for_account account x \<or> any_account x) xs"
    by (rule merge_filters) (simp add: for_account_def list_all_iff)
  moreover have "bucket_any m channel = filter any_account xs" "bucket_for m channel account = filter (for_account account) xs"
    using buckets [OF f, of channel account] part by (simp_all add: bucket_any_def bucket_for_def)
  ultimately show ?thesis using part [of "\<lambda>b. any_account b \<or> for_account account b"]
    by (simp add: evaluated_for_def buildEvaluatedBindingsByChannel_def f merge_eq bucket_any_def bucket_for_def bindings_for_def
        disj_commute Let_def)
qed

section \<open>The index\<close>

lemma find_filter: "List.find P (filter F xs) = List.find (\<lambda>x. F x \<and> P x) xs"
  by (induction xs) auto

lemma find_same: "(\<And>x. x \<in> set xs \<Longrightarrow> P x = Q x) \<Longrightarrow> List.find P xs = List.find Q xs"
  by (induction xs) auto

lemma find_appended: "List.find P (xs @ ys) = (case List.find P xs of Some x \<Rightarrow> Some x | None \<Rightarrow> List.find P ys)"
  by (induction xs) auto

lemma find_dedupe: "List.find P (foldl (\<lambda>out b. if b \<in> set out then out else out @ [b]) out ys) = List.find P (out @ ys)"
proof (induction ys arbitrary: out)
  case (Cons y ys)
  show ?case
  proof (cases "y \<in> set out")
    case True
    have "List.find P (out @ ys) = List.find P (out @ y # ys)"
    proof (cases "List.find P out")
      case None
      then have "\<not> P y" using True by (auto simp: find_None_iff)
      then show ?thesis by (simp add: find_appended None)
    qed (simp add: find_appended)
    then show ?thesis using Cons.IH [of out] True by simp
  qed (use Cons.IH [of "out @ [y]"] in simp)
qed simp

text \<open>Where the index puts a binding.\<close>

definition plain_peer :: "normalized_match \<Rightarrow> bool" where
  "plain_peer m = (\<not> is_valid_peer m \<and> \<not> is_wildcard_peer m)"

definition has_key :: "string \<Rightarrow> evaluated_binding \<Rightarrow> bool" where
  "has_key key b = (case nm_peer (vb_match b) of ValidPeer k i \<Rightarrow> key \<in> set (peerLookupKeys k i) | _ \<Rightarrow> False)"

definition at_list :: "(string \<times> evaluated_binding list) list \<Rightarrow> string \<Rightarrow> evaluated_binding list" where
  "at_list m key = or_default (map_of m key) []"

lemma at_list_push: "k \<noteq> [] \<Longrightarrow> at_list (pushToIndexMap m k b) key = at_list m key @ (if k = key then [b] else [])"
  by (simp add: at_list_def pushToIndexMap_def push_at_lookup)

lemma at_list_push_keys:
  "at_list (foldl (\<lambda>acc key. pushToIndexMap acc key b) m (peerLookupKeys k i)) key =
   at_list m key @ (if key \<in> set (peerLookupKeys k i) then [b] else [])"
  by (auto simp: peerLookupKeys_def at_list_push)

lemma index_snoc: "buildEvaluatedBindingsIndex (bs @ [b]) = index_binding (buildEvaluatedBindingsIndex bs) b"
  by (simp add: buildEvaluatedBindingsIndex_def)

definition wf_match :: "normalized_match \<Rightarrow> bool" where
  "wf_match m \<longleftrightarrow> nm_guild m \<noteq> Some [] \<and> nm_team m \<noteq> Some []"

lemma index_parts:
  assumes "list_all (\<lambda>b. wf_match (vb_match b)) bs"
  shows "at_list (ix_byPeer (buildEvaluatedBindingsIndex bs)) key = filter (has_key key) bs"
    and "ix_byPeerWildcard (buildEvaluatedBindingsIndex bs) = filter (\<lambda>b. is_wildcard_peer (vb_match b)) bs"
    and "at_list (ix_byGuildWithRoles (buildEvaluatedBindingsIndex bs)) g =
      filter (\<lambda>b. plain_peer (vb_match b) \<and> nm_guild (vb_match b) = Some g \<and> nm_roles (vb_match b) \<noteq> None) bs"
    and "at_list (ix_byGuild (buildEvaluatedBindingsIndex bs)) g =
      filter (\<lambda>b. plain_peer (vb_match b) \<and> nm_guild (vb_match b) = Some g \<and> nm_roles (vb_match b) = None) bs"
    and "at_list (ix_byTeam (buildEvaluatedBindingsIndex bs)) t =
      filter (\<lambda>b. plain_peer (vb_match b) \<and> nm_guild (vb_match b) = None \<and> nm_team (vb_match b) = Some t) bs"
    and "ix_byAccount (buildEvaluatedBindingsIndex bs) =
      filter (\<lambda>b. plain_peer (vb_match b) \<and> nm_guild (vb_match b) = None \<and> nm_team (vb_match b) = None \<and> \<not> any_account b) bs"
    and "ix_byChannel (buildEvaluatedBindingsIndex bs) =
      filter (\<lambda>b. plain_peer (vb_match b) \<and> nm_guild (vb_match b) = None \<and> nm_team (vb_match b) = None \<and> any_account b) bs"
  using assms
proof (induction bs rule: rev_induct)
  case Nil
  {
    case 1 then show ?case by (simp add: buildEvaluatedBindingsIndex_def empty_index_def at_list_def or_default_def)
  next
    case 2 then show ?case by (simp add: buildEvaluatedBindingsIndex_def empty_index_def)
  next
    case 3 then show ?case by (simp add: buildEvaluatedBindingsIndex_def empty_index_def at_list_def or_default_def)
  next
    case 4 then show ?case by (simp add: buildEvaluatedBindingsIndex_def empty_index_def at_list_def or_default_def)
  next
    case 5 then show ?case by (simp add: buildEvaluatedBindingsIndex_def empty_index_def at_list_def or_default_def)
  next
    case 6 then show ?case by (simp add: buildEvaluatedBindingsIndex_def empty_index_def)
  next
    case 7 then show ?case by (simp add: buildEvaluatedBindingsIndex_def empty_index_def)
  }
next
  case (snoc b bs)
  note defs = index_snoc index_binding_def has_key_def plain_peer_def is_valid_peer_def is_wildcard_peer_def any_account_def
    at_list_push at_list_push_keys wf_match_def Let_def
  {
    case 1 then show ?case using snoc.IH(1) by (auto simp: defs split: peer_constraint.split option.split)
  next
    case 2 then show ?case using snoc.IH(2) by (auto simp: defs split: peer_constraint.split option.split)
  next
    case 3 then show ?case using snoc.IH(3) by (auto simp: defs split: peer_constraint.split option.split)
  next
    case 4 then show ?case using snoc.IH(4) by (auto simp: defs split: peer_constraint.split option.split)
  next
    case 5 then show ?case using snoc.IH(5) by (auto simp: defs split: peer_constraint.split option.split)
  next
    case 6 then show ?case using snoc.IH(6) by (auto simp: defs split: peer_constraint.split option.split)
  next
    case 7 then show ?case using snoc.IH(7) by (auto simp: defs split: peer_constraint.split option.split)
  }
qed

section \<open>The tiers\<close>

lemma find_concat_first:
  assumes "\<And>x. P x \<Longrightarrow> F x" and "set ys \<subseteq> set xs"
  shows "List.find P (filter F xs @ ys) = List.find P xs"
proof (cases "List.find P xs")
  case None
  then have "list_all (\<lambda>x. \<not> P x) (filter F xs @ ys)" using assms(2) by (auto simp: find_None_iff list_all_iff)
  then have "List.find P (filter F xs @ ys) = None" by (auto simp: find_None_iff list_all_iff)
  then show ?thesis by (simp only: None)
next
  case (Some x)
  have "List.find P (filter F xs) = List.find P xs" unfolding find_filter using assms(1) by (intro find_same) blast
  then show ?thesis by (simp add: find_appended Some)
qed

definition add_unseen :: "'a list \<Rightarrow> 'a list \<Rightarrow> 'a list" where
  "add_unseen out ys = foldl (\<lambda>out b. if b \<in> set out then out else out @ [b]) out ys"

lemma find_add_unseen: "List.find P (add_unseen out ys) = List.find P (out @ ys)"
  by (simp only: add_unseen_def find_dedupe)

lemma find_dedupe_keys:
  "List.find P (foldl (\<lambda>out key. add_unseen out (L key)) out keys) = List.find P (out @ concat (map L keys))"
proof (induction keys arbitrary: out)
  case (Cons k keys)
  have "List.find P (add_unseen out (L k) @ concat (map L keys)) = List.find P ((out @ L k) @ concat (map L keys))"
    unfolding find_appended [of P "add_unseen out (L k)"] find_appended [of P "out @ L k"] find_add_unseen ..
  then show ?case unfolding foldl_Cons Cons.IH list.map concat.simps append.assoc .
qed simp

lemma peer_keys: "peerKindMatches k kind \<Longrightarrow> hd (peerLookupKeys kind i) \<in> set (peerLookupKeys k i)"
proof -
  assume "peerKindMatches k kind"
  then consider "k = kind" | "k = ''group''" "kind = ''channel''" | "k = ''channel''" "kind = ''group''"
    unfolding peerKindMatches_def by blast
  then show ?thesis by cases (simp_all add: peerLookupKeys_def)
qed

lemma collect_find:
  assumes wf: "list_all (\<lambda>b. wf_match (vb_match b)) bs"
    and peer: "\<And>b. P b \<Longrightarrow> is_valid_peer (vb_match b) \<and> peer_matches (nm_peer (vb_match b)) (Some p)"
  shows "List.find P (collectPeerIndexedBindings (buildEvaluatedBindingsIndex bs) (Some p)) = List.find P bs"
proof -
  have lookup: "or_default (map_of (ix_byPeer (buildEvaluatedBindingsIndex bs)) key) [] = filter (has_key key) bs" for key
    using index_parts(1) [OF wf, of key] by (simp add: at_list_def)
  have first: "has_key (hd (peerLookupKeys (rp_kind p) (rp_id p))) b" if "P b" for b
  proof -
    note pb = peer [OF \<open>P b\<close>]
    obtain k where k: "nm_peer (vb_match b) = ValidPeer k (rp_id p)" "peerKindMatches k (rp_kind p)"
      using pb by (cases "nm_peer (vb_match b)") (auto simp: is_valid_peer_def peer_matches_def)
    then show ?thesis using peer_keys [OF k(2)] by (simp add: has_key_def)
  qed
  obtain k ks where ks: "peerLookupKeys (rp_kind p) (rp_id p) = k # ks"
    by (cases "peerLookupKeys (rp_kind p) (rp_id p)") (auto simp: peerLookupKeys_def split: if_splits)
  have "List.find P (collectPeerIndexedBindings (buildEvaluatedBindingsIndex bs) (Some p)) =
      List.find P (concat (map (\<lambda>key. filter (has_key key) bs) (k # ks)))"
    by (simp only: collectPeerIndexedBindings_def add_unseen_def [symmetric] option.case lookup ks find_dedupe_keys append_Nil)
  also have "\<dots> = List.find P (filter (has_key k) bs @ concat (map (\<lambda>key. filter (has_key key) bs) ks))" by simp
  also have "\<dots> = List.find P bs" using first by (intro find_concat_first) (auto simp: ks)
  finally show ?thesis .
qed

lemma normal_wf: "wf_match (normalizeBindingMatch m)"
  by (auto simp: wf_match_def normalizeBindingMatch_def dest: trimmed_opt_Some)

lemma bindings_for_wf: "list_all (\<lambda>b. wf_match (vb_match b)) (bindings_for h cfg channel account)"
proof -
  have "wf_match (vb_match b)" if "(c, b) \<in> set (evaluated_from n bs)" for c b n bs
    using that by (induction n bs rule: evaluated_from.induct) (auto simp: normal_wf split: option.splits if_splits)
  then show ?thesis by (auto simp: bindings_for_def list_all_iff)
qed

lemma at_key_list: "at_key m key = (if key = [] then [] else at_list m key)"
  by (simp add: at_key_def at_list_def)

lemma scope_plain: "in_scope q peer m \<Longrightarrow> plain_peer m \<longleftrightarrow> nm_peer m = NoPeer"
  by (auto simp: in_scope_def matchesBindingScope_def peer_matches_def plain_peer_def is_valid_peer_def is_wildcard_peer_def
      split: peer_constraint.splits)

lemma find_none: "(\<And>x. \<not> P x) \<Longrightarrow> List.find P xs = None"
  by (simp add: find_None_iff)

lemma tiers_match:
  assumes wf: "list_all (\<lambda>b. wf_match (vb_match b)) bs"
  shows "map (tier_match q) (route_tiers (buildEvaluatedBindingsIndex bs) q) =
     map (\<lambda>t. List.find (\<lambda>b. matches_in q t (vb_match b)) bs) tier_order \<and>
     map ti_matchedBy (route_tiers (buildEvaluatedBindingsIndex bs) q) = tier_order"
proof -
  note ix = index_parts [OF wf]
  have guild: "g = rq_guildId q" if "in_scope q peer m" "nm_guild m = Some g" for peer m g
    using that by (simp add: in_scope_def matchesBindingScope_def)
  have team: "t = rq_teamId q" if "in_scope q peer m" "nm_team m = Some t" for peer m t
    using that by (simp add: in_scope_def matchesBindingScope_def)
  have roles: "rq_roles q \<noteq> []" if "in_scope q peer m" "nm_roles m \<noteq> None" for peer m
    using that by (auto simp: in_scope_def matchesBindingScope_def list_ex_iff)
  have wfb: "nm_guild (vb_match b) \<noteq> Some []" "nm_team (vb_match b) \<noteq> Some []" if "b \<in> set bs" for b
    using that wf by (auto simp: wf_match_def list_all_iff)
  have nopeer: "\<not> (is_valid_peer m \<and> in_scope q None m)" "\<not> (is_wildcard_peer m \<and> in_scope q None m)" for m
    by (auto simp: in_scope_def matchesBindingScope_def peer_matches_def is_valid_peer_def is_wildcard_peer_def
        split: peer_constraint.splits)
  have peers: "List.find (\<lambda>b. is_valid_peer (vb_match b) \<and> in_scope q (Some p) (vb_match b))
      (collectPeerIndexedBindings (buildEvaluatedBindingsIndex bs) (Some p)) =
      List.find (\<lambda>b. is_valid_peer (vb_match b) \<and> in_scope q (Some p) (vb_match b)) bs" for p
    by (rule collect_find [OF wf]) (simp add: in_scope_def matchesBindingScope_def)
  have t1: "tier_match q (route_tiers (buildEvaluatedBindingsIndex bs) q ! 0) =
      List.find (\<lambda>b. matches_in q ByPeer (vb_match b)) bs"
    using peers nopeer by (cases "rq_peer q") (simp_all add: route_tiers_def tier_match_def in_scope_def [symmetric] find_none)
  have t2: "tier_match q (route_tiers (buildEvaluatedBindingsIndex bs) q ! 1) =
      List.find (\<lambda>b. matches_in q ByPeerParent (vb_match b)) bs"
    using peers nopeer
    by (cases "rq_parent q") (simp_all add: route_tiers_def tier_match_def in_scope_def [symmetric] find_none with_id_def)
  have t3: "tier_match q (route_tiers (buildEvaluatedBindingsIndex bs) q ! 2) =
      List.find (\<lambda>b. matches_in q ByPeerWildcard (vb_match b)) bs"
    using nopeer
    by (cases "rq_peer q") (simp_all add: route_tiers_def tier_match_def in_scope_def [symmetric] find_none ix find_filter conj_ac)
  have none: "List.find (\<lambda>b. matches_in q t (vb_match b)) bs = None" if "\<And>b. b \<in> set bs \<Longrightarrow> \<not> matches_in q t (vb_match b)" for t
    using that by (auto simp: find_None_iff)
  have t4: "tier_match q (route_tiers (buildEvaluatedBindingsIndex bs) q ! 3) =
      List.find (\<lambda>b. matches_in q ByGuildRoles (vb_match b)) bs"
  proof (cases "rq_guildId q \<noteq> [] \<and> rq_roles q \<noteq> []")
    case True
    then show ?thesis
      by (simp add: route_tiers_def tier_match_def in_scope_def [symmetric] at_key_list ix find_filter)
        (rule find_same, use scope_plain guild in blast)
  next
    case False
    then show ?thesis using none [of ByGuildRoles] guild roles wfb
      by (fastforce simp: route_tiers_def tier_match_def)
  qed
  have t5: "tier_match q (route_tiers (buildEvaluatedBindingsIndex bs) q ! 4) =
      List.find (\<lambda>b. matches_in q ByGuild (vb_match b)) bs"
  proof (cases "rq_guildId q \<noteq> []")
    case True
    then show ?thesis
      by (simp add: route_tiers_def tier_match_def in_scope_def [symmetric] at_key_list ix find_filter)
        (rule find_same, use scope_plain guild in blast)
  next
    case False
    then show ?thesis using none [of ByGuild] guild wfb
      by (fastforce simp: route_tiers_def tier_match_def)
  qed
  have t6: "tier_match q (route_tiers (buildEvaluatedBindingsIndex bs) q ! 5) =
      List.find (\<lambda>b. matches_in q ByTeam (vb_match b)) bs"
  proof (cases "rq_teamId q \<noteq> []")
    case True
    then show ?thesis
      by (simp add: route_tiers_def tier_match_def in_scope_def [symmetric] at_key_list ix find_filter)
        (rule find_same, use scope_plain team in blast)
  next
    case False
    then show ?thesis using none [of ByTeam] team wfb
      by (fastforce simp: route_tiers_def tier_match_def)
  qed
  have t7: "tier_match q (route_tiers (buildEvaluatedBindingsIndex bs) q ! 6) =
      List.find (\<lambda>b. matches_in q ByAccount (vb_match b)) bs"
    by (simp add: route_tiers_def tier_match_def in_scope_def [symmetric] ix find_filter any_account_def)
      (rule find_same, use scope_plain in blast)
  have t8: "tier_match q (route_tiers (buildEvaluatedBindingsIndex bs) q ! 7) =
      List.find (\<lambda>b. matches_in q ByChannel (vb_match b)) bs"
    by (simp add: route_tiers_def tier_match_def in_scope_def [symmetric] ix find_filter any_account_def)
      (rule find_same, use scope_plain in blast)
  have names: "map ti_matchedBy (route_tiers (buildEvaluatedBindingsIndex bs) q) = tier_order"
    by (simp add: route_tiers_def tier_order_def)
  have eight: "ts = [ts ! 0, ts ! 1, ts ! 2, ts ! 3, ts ! 4, ts ! 5, ts ! 6, ts ! 7]" if "length ts = 8" for ts :: "tier list"
    using that by (simp add: eval_nat_numeral length_Suc_conv) (auto simp: nth_Cons')
  have "length (route_tiers (buildEvaluatedBindingsIndex bs) q) = 8" by (simp add: route_tiers_def)
  note ts = eight [OF this]
  have "map (tier_match q) (route_tiers (buildEvaluatedBindingsIndex bs) q) =
      map (\<lambda>t. List.find (\<lambda>b. matches_in q t (vb_match b)) bs) tier_order"
    unfolding arg_cong [OF ts, of "map (tier_match q)"] list.map t1 t2 t3 t4 t5 t6 t7 t8 tier_order_def ..
  with names show ?thesis by blast
qed

lemma first_match_tiers:
  "map (tier_match q) ts = map (\<lambda>t. List.find (\<lambda>b. matches_in q t (vb_match b)) bs) os \<Longrightarrow> map ti_matchedBy ts = os \<Longrightarrow>
   first_match q ts = first_tier q bs os"
  by (induction ts arbitrary: os) (auto split: option.split)

lemma index_is_first_tier:
  "first_match q (route_tiers (buildEvaluatedBindingsIndex (bindings_for h cfg channel account)) q) =
   first_tier q (bindings_for h cfg channel account) tier_order"
  using tiers_match [OF bindings_for_wf] by (intro first_match_tiers) blast+

section \<open>The caches of bindings and agents\<close>

definition tab_free :: "string \<Rightarrow> bool" where
  "tab_free s \<longleftrightarrow> CHR 0x09 \<notin> set s"

lemma cache_key_inj:
  "tab_free a \<Longrightarrow> tab_free b \<Longrightarrow> cache_key c a = cache_key d b \<longleftrightarrow> c = d \<and> a = b"
proof -
  assume "tab_free a" "tab_free b"
  then have "rev a @ CHR 0x09 # rev c = rev b @ CHR 0x09 # rev d \<longleftrightarrow> rev a = rev b \<and> rev c = rev d"
    by (intro cut_unique) (simp_all add: tab_free_def)
  moreover have "rev (cache_key x y) = rev y @ CHR 0x09 # rev x" for x y by (simp add: cache_key_def)
  ultimately show ?thesis by (metis rev_is_rev_conv)
qed

definition refs :: "nat \<Rightarrow> nat \<Rightarrow> nat \<Rightarrow> config" where
  "refs b a s = \<lparr>cf_bindings = b, cf_agents = a, cf_session = s\<rparr>"

definition entry_ok :: "(string \<times> channel_bindings) list \<Rightarrow> (evaluated_binding list \<Rightarrow> 'v) \<Rightarrow> string \<Rightarrow> 'v \<Rightarrow> bool" where
  "entry_ok byChannel f key v \<longleftrightarrow> (\<exists>channel account. tab_free account \<and> key = cache_key channel account \<and>
     v = f (evaluated_for byChannel channel account))"

definition entries_ok :: "(string \<times> channel_bindings) list \<Rightarrow> (evaluated_binding list \<Rightarrow> 'v) \<Rightarrow> (string \<times> 'v) list \<Rightarrow> bool" where
  "entries_ok byChannel f m \<longleftrightarrow> list_all (\<lambda>(k, v). entry_ok byChannel f k v) m"

definition bindings_cache_ok :: "heap \<Rightarrow> bindings_cache \<Rightarrow> bool" where
  "bindings_cache_ok h c \<longleftrightarrow>
     bc_byChannel c = buildEvaluatedBindingsByChannel h (refs (bc_bindings c) 0 0) \<and>
     entries_ok (bc_byChannel c) (\<lambda>bs. bs) (bc_evaluated c) \<and>
     entries_ok (bc_byChannel c) buildEvaluatedBindingsIndex (bc_index c) \<and>
     length (bc_evaluated c) \<le> MAX_EVALUATED_BINDINGS_CACHE_KEYS"

lemma entries_update: "entries_ok bc f m \<Longrightarrow> entry_ok bc f k v \<Longrightarrow> entries_ok bc f (AList.update k v m)"
  by (induction m) (auto simp: entries_ok_def)

lemma entries_lookup:
  "entries_ok bc f m \<Longrightarrow> map_of m (cache_key channel account) = Some v \<Longrightarrow> tab_free account \<Longrightarrow>
   v = f (evaluated_for bc channel account)"
  by (auto simp: entries_ok_def entry_ok_def list_all_iff cache_key_inj dest!: map_of_SomeD)

lemma entry_here: "tab_free account \<Longrightarrow> entry_ok bc f (cache_key channel account) (f (evaluated_for bc channel account))"
  by (auto simp: entry_ok_def)

lemma by_channel_refs: "buildEvaluatedBindingsByChannel h (refs (cf_bindings cfg) 0 0) = buildEvaluatedBindingsByChannel h cfg"
  by (simp add: buildEvaluatedBindingsByChannel_def listBindings_def refs_def)

lemma length_update: "length (AList.update k v m) \<le> Suc (length m)"
  by (induction m) auto

lemma get_bindings_ok:
  assumes "\<And>e. existing = Some e \<Longrightarrow> bindings_cache_ok h e" and "tab_free account"
    and "getEvaluatedBindingsForChannelAccount h cfg channel account existing = (bs, c)"
  shows "bs = bindings_for h cfg channel account \<and> bindings_cache_ok h c \<and> bc_bindings c = cf_bindings cfg"
proof -
  define c0 where "c0 = current_cache h cfg existing"
  have c0: "bindings_cache_ok h c0" "bc_bindings c0 = cf_bindings cfg"
    using assms(1)
    by (auto simp: c0_def current_cache_def bindings_cache_ok_def entries_ok_def by_channel_refs Let_def split: option.split)
  then have ch: "bc_byChannel c0 = buildEvaluatedBindingsByChannel h cfg" by (simp add: bindings_cache_ok_def by_channel_refs)
  let ?k = "cache_key channel account" and ?e = "evaluated_for (bc_byChannel c0) channel account"
  have val: "?e = bindings_for h cfg channel account" by (simp add: ch evaluated_for_eq)
  have get: "getEvaluatedBindingsForChannelAccount h cfg channel account existing =
      (case map_of (bc_evaluated c0) ?k of
         Some hit \<Rightarrow> (hit, c0)
       | None \<Rightarrow> (?e, if length (AList.update ?k ?e (bc_evaluated c0)) > MAX_EVALUATED_BINDINGS_CACHE_KEYS
           then c0\<lparr>bc_evaluated := [(?k, ?e)], bc_index := [(?k, buildEvaluatedBindingsIndex ?e)]\<rparr>
           else c0\<lparr>bc_evaluated := AList.update ?k ?e (bc_evaluated c0),
                   bc_index := AList.update ?k (buildEvaluatedBindingsIndex ?e) (bc_index c0)\<rparr>))"
    by (simp add: getEvaluatedBindingsForChannelAccount_def c0_def [symmetric] Let_def split: option.split)
  show ?thesis
  proof (cases "map_of (bc_evaluated c0) ?k")
    case None
    have here: "entry_ok (bc_byChannel c0) (\<lambda>bs. bs) ?k ?e"
      "entry_ok (bc_byChannel c0) buildEvaluatedBindingsIndex ?k (buildEvaluatedBindingsIndex ?e)"
      using entry_here [OF assms(2), of "bc_byChannel c0" "\<lambda>bs. bs"]
        entry_here [OF assms(2), of "bc_byChannel c0" buildEvaluatedBindingsIndex] by simp_all
    then have one: "entries_ok (bc_byChannel c0) (\<lambda>bs. bs) [(?k, ?e)]"
      "entries_ok (bc_byChannel c0) buildEvaluatedBindingsIndex [(?k, buildEvaluatedBindingsIndex ?e)]"
      by (simp_all add: entries_ok_def)
    show ?thesis using assms(3) get None c0 val one entries_update [OF _ here(1)] entries_update [OF _ here(2)]
      by (auto simp: bindings_cache_ok_def MAX_EVALUATED_BINDINGS_CACHE_KEYS_def)
  next
    case (Some hit)
    have "entries_ok (bc_byChannel c0) (\<lambda>bs. bs) (bc_evaluated c0)" using c0(1) unfolding bindings_cache_ok_def by blast
    from entries_lookup [OF this Some assms(2)] have "hit = ?e" .
    then show ?thesis using assms(3) get Some c0 val by simp
  qed
qed

lemma get_index_ok:
  assumes "\<And>e. existing = Some e \<Longrightarrow> bindings_cache_ok h e" and "tab_free account"
    and "getEvaluatedBindingIndexForChannelAccount h cfg channel account existing = (ix, c)"
  shows "ix = buildEvaluatedBindingsIndex (bindings_for h cfg channel account) \<and> bindings_cache_ok h c"
proof -
  obtain bs c1 where g: "getEvaluatedBindingsForChannelAccount h cfg channel account existing = (bs, c1)" by force
  from get_bindings_ok [OF assms(1,2) g] have c1: "bs = bindings_for h cfg channel account" "bindings_cache_ok h c1"
    "bc_bindings c1 = cf_bindings cfg" by blast+
  then have val: "evaluated_for (bc_byChannel c1) channel account = bs"
    by (simp add: bindings_cache_ok_def by_channel_refs evaluated_for_eq)
  show ?thesis
  proof (cases "map_of (bc_index c1) (cache_key channel account)")
    case None
    have e: "entry_ok (bc_byChannel c1) buildEvaluatedBindingsIndex (cache_key channel account) (buildEvaluatedBindingsIndex bs)"
      using entry_here [OF assms(2), of "bc_byChannel c1" buildEvaluatedBindingsIndex channel] unfolding val .
    have "ix = buildEvaluatedBindingsIndex bs \<and>
        c = c1\<lparr>bc_index := AList.update (cache_key channel account) (buildEvaluatedBindingsIndex bs) (bc_index c1)\<rparr>"
      using assms(3) g None by (auto simp: getEvaluatedBindingIndexForChannelAccount_def Let_def)
    moreover have "entries_ok (bc_byChannel c1) buildEvaluatedBindingsIndex
        (AList.update (cache_key channel account) (buildEvaluatedBindingsIndex bs) (bc_index c1))"
      using c1(2) entries_update [OF _ e] unfolding bindings_cache_ok_def by blast
    ultimately show ?thesis using c1 unfolding bindings_cache_ok_def by auto
  next
    case (Some i)
    have "entries_ok (bc_byChannel c1) buildEvaluatedBindingsIndex (bc_index c1)" using c1(2) unfolding bindings_cache_ok_def by blast
    from entries_lookup [OF this Some assms(2)] have "i = buildEvaluatedBindingsIndex bs" by (simp add: val)
    then show ?thesis using assms(3) g c1 Some by (simp add: getEvaluatedBindingIndexForChannelAccount_def)
  qed
qed

definition lookup_ok :: "heap \<Rightarrow> agent_lookup \<Rightarrow> bool" where
  "lookup_ok h l \<longleftrightarrow> l = build_lookup h (refs 0 (lk_agents l) 0)"

lemma lookup_refs: "build_lookup h (refs b (cf_agents cfg) s) = build_lookup h cfg"
  by (simp add: build_lookup_def resolveDefaultAgentId_def refs_def)

lemma get_lookup_ok:
  "(\<And>e. existing = Some e \<Longrightarrow> lookup_ok h e) \<Longrightarrow>
   resolveAgentLookupCache h cfg existing = build_lookup h cfg \<and> lookup_ok h (build_lookup h cfg)"
  using lookup_refs [where h = h and cfg = cfg] by (auto simp: resolveAgentLookupCache_def lookup_ok_def build_lookup_def split: option.split)

definition inner_ok :: "heap \<Rightarrow> route_caches \<Rightarrow> bool" where
  "inner_ok h cs \<longleftrightarrow> (case cs_bindings cs of None \<Rightarrow> True | Some c \<Rightarrow> bindings_cache_ok h c) \<and>
     (case cs_lookup cs of None \<Rightarrow> True | Some l \<Rightarrow> lookup_ok h l)"

lemma compute_route_ok:
  assumes "inner_ok h cs" and "tab_free account"
  shows "fst (compute_route h cfg channel account q cs) = route_of h cfg channel account q"
    and "inner_ok h (snd (compute_route h cfg channel account q cs))"
    and "cs_routes (snd (compute_route h cfg channel account q cs)) = cs_routes cs"
proof -
  obtain bs c1 where b: "getEvaluatedBindingsForChannelAccount h cfg channel account (cs_bindings cs) = (bs, c1)" by force
  obtain ix c2 where i: "getEvaluatedBindingIndexForChannelAccount h cfg channel account (Some c1) = (ix, c2)" by force
  have c: "bindings_cache_ok h e" if "cs_bindings cs = Some e" for e using assms(1) that by (simp add: inner_ok_def)
  have l: "lookup_ok h e" if "cs_lookup cs = Some e" for e using assms(1) that by (simp add: inner_ok_def)
  note b' = get_bindings_ok [OF c assms(2) b]
  have "bindings_cache_ok h e" if "Some c1 = Some e" for e using that b' by simp
  note i' = get_index_ok [OF this assms(2) i]
  note l' = get_lookup_ok [OF l, where cfg = cfg]
  show "fst (compute_route h cfg channel account q cs) = route_of h cfg channel account q"
    by (simp add: compute_route_def b i i' l' route_of_def index_is_first_tier Let_def split: prod.split option.split)
  show "inner_ok h (snd (compute_route h cfg channel account q cs))"
    by (simp add: compute_route_def b i i' l' inner_ok_def Let_def split: prod.split option.split)
  show "cs_routes (snd (compute_route h cfg channel account q cs)) = cs_routes cs"
    by (simp add: compute_route_def b i Let_def split: prod.split option.split)
qed

section \<open>The route is the first match\<close>

definition no_caches :: route_caches where
  "no_caches = \<lparr>cs_bindings = None, cs_lookup = None, cs_routes = None\<rparr>"

lemma account_tab_free: "tab_free (normalizeAccountId v)"
proof -
  have "\<not> id_char (CHR 0x09)" using id_char_plain [of "CHR 0x09"] by (auto simp: js_ws_def)
  then show ?thesis using account_id_safe [of v] by (auto simp: tab_free_def safe_id_def list_all_iff)
qed

text \<open>C3: The agent that answers is the one of the first matching binding of the most specific tier: through the buckets
  by channel and account, the merge of both lists and the seven indexes, a message gets exactly the route that
  searching the bindings of the configuration in their order gives, tier by tier (the peer, its parent, any peer of
  the kind, guild with roles, guild, team, account, channel), and the default agent's when none matches.\<close>

theorem route_is_first_match:
  "fst (resolveAgentRoute verbose h cfg input no_caches) = route_spec h cfg input"
proof -
  have "inner_ok h no_caches" by (simp add: inner_ok_def no_caches_def)
  note c = compute_route_ok(1) [OF this account_tab_free]
  have none: "cs_routes no_caches = None" by (simp add: no_caches_def)
  show ?thesis
    by (simp add: resolveAgentRoute_def resolveRouteCacheForConfig_def none route_spec_def Let_def split_beta c)
qed

end
