(* ===== verification/RouteCacheProps.thy ===== *)
theory RouteCacheProps
  imports RoutingProps
begin

text \<open>
  The cache of routes is transparent: \<open>resolveAgentRoute\<close> is an instance of \<open>bounded_memo\<close> for the messages that the
  key of the cache tells apart, and an example of two messages that it does not.
\<close>

section \<open>The cache of routes\<close>

text \<open>Messages whose parts the key of the cache tells apart.\<close>

definition telling :: "string \<Rightarrow> bool" where
  "telling s \<longleftrightarrow> tab_free s \<and> s \<noteq> ''-''"

definition telling_peer :: "route_peer \<Rightarrow> bool" where
  "telling_peer p \<longleftrightarrow> tab_free (rp_kind p) \<and> CHR '':'' \<notin> set (rp_kind p) \<and> tab_free (rp_id p)"

definition telling_roles :: "string list \<Rightarrow> bool" where
  "telling_roles rs \<longleftrightarrow> list_all (\<lambda>r. telling r \<and> CHR '','' \<notin> set r) rs"

definition telling_query :: "route_query \<Rightarrow> bool" where
  "telling_query q \<longleftrightarrow>
     (case rq_peer q of None \<Rightarrow> True | Some p \<Rightarrow> telling_peer p \<and> rp_id p \<noteq> []) \<and>
     (case rq_parent q of None \<Rightarrow> True | Some p \<Rightarrow> telling_peer p) \<and>
     telling (rq_guildId q) \<and> telling (rq_teamId q) \<and> telling_roles (rq_roles q)"

definition telling_input :: "route_input \<Rightarrow> bool" where
  "telling_input i \<longleftrightarrow> tab_free (normalizeToken (Some (ri_channel i))) \<and> telling_query (route_query_of i)"

lemma join_with_Nil: "join_with sep [] = []"
  by (simp add: join_with_def)

lemma join_with_Cons: "join_with sep (x # xs) = x @ (case xs of [] \<Rightarrow> [] | _ \<Rightarrow> sep @ join_with sep xs)"
  by (cases xs) (simp_all add: join_with_def)

lemma split_join: "xs \<noteq> [] \<Longrightarrow> list_all (\<lambda>x. c \<notin> set x) xs \<Longrightarrow> split_on c (join_with [c] xs) = xs"
proof (induction xs)
  case (Cons x xs)
  then show ?case by (cases xs) (simp_all add: join_with_Cons split_on_free split_on_at)
qed simp

lemma join_free: "list_all (\<lambda>x. c \<notin> set x) xs \<Longrightarrow> c \<noteq> d \<Longrightarrow> c \<notin> set (join_with [d] xs)"
  by (induction xs) (auto simp: join_with_Nil join_with_Cons split: list.split)

lemma join_inj:
  "xs \<noteq> [] \<Longrightarrow> ys \<noteq> [] \<Longrightarrow> list_all (\<lambda>x. c \<notin> set x) xs \<Longrightarrow> list_all (\<lambda>x. c \<notin> set x) ys \<Longrightarrow>
   join_with [c] xs = join_with [c] ys \<longleftrightarrow> xs = ys"
  by (metis split_join)

lemma dash_inj: "telling s \<Longrightarrow> telling t \<Longrightarrow> dash_if_empty s = dash_if_empty t \<longleftrightarrow> s = t"
  by (auto simp: dash_if_empty_def telling_def)

lemma dash_tab: "telling s \<Longrightarrow> tab_free (dash_if_empty s)"
  by (auto simp: dash_if_empty_def telling_def tab_free_def)

lemma peer_format_tab: "telling_peer p \<Longrightarrow> tab_free (formatRouteCachePeer (Some p))"
  by (auto simp: formatRouteCachePeer_def telling_peer_def tab_free_def)

lemma peer_format_inj:
  "(case p of None \<Rightarrow> True | Some x \<Rightarrow> telling_peer x) \<Longrightarrow> (case p' of None \<Rightarrow> True | Some x \<Rightarrow> telling_peer x) \<Longrightarrow>
   formatRouteCachePeer p = formatRouteCachePeer p' \<Longrightarrow> with_id p = with_id p'"
proof -
  assume t: "case p of None \<Rightarrow> True | Some x \<Rightarrow> telling_peer x" "case p' of None \<Rightarrow> True | Some x \<Rightarrow> telling_peer x"
    and eq: "formatRouteCachePeer p = formatRouteCachePeer p'"
  have f: "formatRouteCachePeer o' = (case with_id o' of None \<Rightarrow> ''-'' | Some x \<Rightarrow> rp_kind x @ CHR '':'' # rp_id x)" for o'
    by (simp add: formatRouteCachePeer_def with_id_def split: option.split)
  have tell: "telling_peer x" if "with_id o' = Some x" "case o' of None \<Rightarrow> True | Some y \<Rightarrow> telling_peer y" for o' x
    using that by (auto simp: with_id_def split: option.splits if_splits)
  have colon: "rp_kind x @ CHR '':'' # rp_id x \<noteq> ''-''" for x
    by (cases "rp_kind x") simp_all
  show ?thesis
  proof (cases "with_id p")
    case None
    then show ?thesis using eq colon by (auto simp: f split: option.splits)
  next
    case (Some x)
    then obtain y where y: "with_id p' = Some y" using eq colon by (cases "with_id p'") (auto simp: f)
    have "rp_kind x = rp_kind y \<and> rp_id x = rp_id y"
      using eq Some y tell [OF Some t(1)] tell [OF y t(2)] by (simp add: f telling_peer_def cut_unique)
    then show ?thesis using Some y by simp
  qed
qed

lemma roles_format: "formatRoleIdsCacheKey rs = (if rs = [] then ''-'' else join_with '','' (sort rs))"
proof -
  have two: "join_with '','' (sort [a, b]) = (if a \<le> b then a @ '','' @ b else b @ '','' @ a)" for a b :: string
    by (simp add: join_with_def)
  show ?thesis
  proof (cases rs)
    case (Cons a as)
    note r = Cons
    show ?thesis
    proof (cases as)
      case (Cons b bs)
      show ?thesis
      proof (cases bs)
        case Nil
        have "formatRoleIdsCacheKey rs = (if a \<le> b then a @ '','' @ b else b @ '','' @ a)"
          unfolding r Cons Nil by (simp add: formatRoleIdsCacheKey_def)
        then show ?thesis unfolding two [symmetric] using r Cons Nil by simp
      qed (use r Cons in \<open>simp add: formatRoleIdsCacheKey_def\<close>)
    qed (use r in \<open>simp add: formatRoleIdsCacheKey_def join_with_def\<close>)
  qed (simp add: formatRoleIdsCacheKey_def)
qed

lemma telling_roles_sort: "telling_roles rs \<Longrightarrow> telling_roles (sort rs)"
  by (simp add: telling_roles_def list_all_iff)

lemma roles_parts:
  "telling_roles rs \<Longrightarrow> list_all (\<lambda>r. CHR '','' \<notin> set r) rs \<and> list_all (\<lambda>r. CHR 0x09 \<notin> set r) rs \<and> rs \<noteq> [''-'']"
  by (auto simp: telling_roles_def telling_def tab_free_def list_all_iff)

lemma roles_format_tab: "telling_roles rs \<Longrightarrow> tab_free (formatRoleIdsCacheKey rs)"
  using roles_parts [OF telling_roles_sort, of rs] join_free [of "CHR 0x09" "sort rs" "CHR '',''"]
  by (simp add: roles_format tab_free_def)

lemma sort_nonempty: "rs \<noteq> [] \<Longrightarrow> sort rs \<noteq> []"
  by (metis set_empty set_sort)

lemma roles_not_dash: "telling_roles rs \<Longrightarrow> rs \<noteq> [] \<Longrightarrow> join_with '','' (sort rs) \<noteq> ''-''"
proof
  assume t: "telling_roles rs" "rs \<noteq> []" and e: "join_with '','' (sort rs) = ''-''"
  have "split_on (CHR '','') (join_with '','' (sort rs)) = sort rs"
    using roles_parts [OF telling_roles_sort [OF t(1)]] sort_nonempty [OF t(2)] by (intro split_join) blast+
  then have "sort rs = [''-'']" by (simp add: e)
  then show False using roles_parts [OF telling_roles_sort [OF t(1)]] by simp
qed

lemma roles_format_inj:
  assumes "telling_roles rs" and "telling_roles rs'" and "formatRoleIdsCacheKey rs = formatRoleIdsCacheKey rs'"
  shows "set rs = set rs'"
proof (cases "rs = [] \<or> rs' = []")
  case True
  then show ?thesis using assms roles_not_dash [OF assms(1)] roles_not_dash [OF assms(2)]
    by (auto simp: roles_format split: if_splits)
next
  case False
  have s: "sort rs \<noteq> []" "sort rs' \<noteq> []" using False sort_nonempty by blast+
  have "join_with '','' (sort rs) = join_with '','' (sort rs')" using assms(3) False by (simp add: roles_format)
  then have "sort rs = sort rs'"
    using join_inj [OF s] roles_parts [OF telling_roles_sort [OF assms(1)]] roles_parts [OF telling_roles_sort [OF assms(2)]]
    by blast
  then show ?thesis by (metis set_sort)
qed

definition same_query :: "route_query \<Rightarrow> route_query \<Rightarrow> bool" where
  "same_query q q' \<longleftrightarrow> rq_peer q = rq_peer q' \<and> with_id (rq_parent q) = with_id (rq_parent q') \<and>
     rq_guildId q = rq_guildId q' \<and> rq_teamId q = rq_teamId q' \<and> set (rq_roles q) = set (rq_roles q')"

lemma same_query_matches: "same_query q q' \<Longrightarrow> matches_in q t m = matches_in q' t m"
  by (cases t) (simp_all add: same_query_def in_scope_def matchesBindingScope_def cong: option.case_cong)

lemma same_query_route: "same_query q q' \<Longrightarrow> route_of h cfg channel account q = route_of h cfg channel account q'"
proof -
  assume s: "same_query q q'"
  have "first_tier q bs ts = first_tier q' bs ts" for bs ts
    by (induction ts) (simp_all add: same_query_matches [OF s] split: option.split)
  then show ?thesis using s by (simp add: route_of_def same_query_def)
qed

lemma key_tells:
  assumes "telling_query q" and "telling_query q'" and "tab_free c" and "tab_free c'" and "tab_free a" and "tab_free a'"
    and "buildResolvedRouteCacheKey c a q s = buildResolvedRouteCacheKey c' a' q' s'"
  shows "c = c' \<and> a = a' \<and> same_query q q'"
proof -
  have tab: "list_all (\<lambda>x. CHR 0x09 \<notin> set x) [c, a, formatRouteCachePeer (rq_peer q), formatRouteCachePeer (rq_parent q),
       dash_if_empty (rq_guildId q), dash_if_empty (rq_teamId q), formatRoleIdsCacheKey (rq_roles q), dm_scope_name s]"
    if "telling_query q" "tab_free c" "tab_free a" for c a q s
  proof -
    have p: "tab_free (formatRouteCachePeer p)" if "case p of None \<Rightarrow> True | Some x \<Rightarrow> telling_peer x" for p
      using that peer_format_tab by (cases p) (auto simp: formatRouteCachePeer_def tab_free_def)
    have "tab_free (formatRouteCachePeer (rq_peer q))" "tab_free (formatRouteCachePeer (rq_parent q))"
      by (rule p, use that(1) in \<open>auto simp: telling_query_def split: option.splits\<close>)+
    moreover have "tab_free (dm_scope_name s)" by (cases s) (simp_all add: dm_scope_name_def tab_free_def)
    ultimately show ?thesis using that dash_tab roles_format_tab by (simp add: telling_query_def tab_free_def)
  qed
  have "[c, a, formatRouteCachePeer (rq_peer q), formatRouteCachePeer (rq_parent q), dash_if_empty (rq_guildId q),
        dash_if_empty (rq_teamId q), formatRoleIdsCacheKey (rq_roles q), dm_scope_name s] =
      [c', a', formatRouteCachePeer (rq_peer q'), formatRouteCachePeer (rq_parent q'), dash_if_empty (rq_guildId q'),
        dash_if_empty (rq_teamId q'), formatRoleIdsCacheKey (rq_roles q'), dm_scope_name s']"
    using assms(7) join_inj [OF _ _ tab [OF assms(1,3,5)] tab [OF assms(2,4,6)]] unfolding buildResolvedRouteCacheKey_def by blast
  then have e: "c = c'" "a = a'" "formatRouteCachePeer (rq_peer q) = formatRouteCachePeer (rq_peer q')"
    "formatRouteCachePeer (rq_parent q) = formatRouteCachePeer (rq_parent q')"
    "dash_if_empty (rq_guildId q) = dash_if_empty (rq_guildId q')" "dash_if_empty (rq_teamId q) = dash_if_empty (rq_teamId q')"
    "formatRoleIdsCacheKey (rq_roles q) = formatRoleIdsCacheKey (rq_roles q')" by blast+
  have t: "case rq_peer q of None \<Rightarrow> True | Some x \<Rightarrow> telling_peer x" "case rq_peer q' of None \<Rightarrow> True | Some x \<Rightarrow> telling_peer x"
    "case rq_parent q of None \<Rightarrow> True | Some x \<Rightarrow> telling_peer x" "case rq_parent q' of None \<Rightarrow> True | Some x \<Rightarrow> telling_peer x"
    using assms(1,2) by (auto simp: telling_query_def split: option.splits)
  have w: "with_id (rq_peer q) = rq_peer q" "with_id (rq_peer q') = rq_peer q'"
    using assms(1,2) by (auto simp: telling_query_def with_id_def split: option.splits)
  have "rq_peer q = rq_peer q'" using peer_format_inj [OF t(1,2) e(3)] unfolding w .
  moreover have tell: "telling (rq_guildId q)" "telling (rq_guildId q')" "telling (rq_teamId q)" "telling (rq_teamId q')"
    "telling_roles (rq_roles q)" "telling_roles (rq_roles q')" using assms(1,2) by (simp_all add: telling_query_def)
  ultimately show ?thesis
    using e(1,2) peer_format_inj [OF t(3,4) e(4)] roles_format_inj [OF tell(5,6) e(7)] e(5,6) dash_inj [OF tell(1,2)] dash_inj [OF tell(3,4)]
    by (simp add: same_query_def)
qed


text \<open>The inputs of a sequence of messages: verbose logging or not, the configuration, the message.\<close>

type_synonym route_call = "bool \<times> config \<times> route_input"

definition route_call :: "heap \<Rightarrow> route_call \<Rightarrow> route_caches \<Rightarrow> agent_route \<times> route_caches" where
  "route_call h k cs = (case k of (verbose, cfg, input) \<Rightarrow> resolveAgentRoute verbose h cfg input cs)"

definition route_value :: "heap \<Rightarrow> route_call \<Rightarrow> agent_route" where
  "route_value h k = (case k of (verbose, cfg, input) \<Rightarrow> route_spec h cfg input)"

definition telling_call :: "route_call \<Rightarrow> bool" where
  "telling_call k = (case k of (verbose, cfg, input) \<Rightarrow> telling_input input)"

definition input_key :: "heap \<Rightarrow> config \<Rightarrow> route_input \<Rightarrow> string" where
  "input_key h cfg i = buildResolvedRouteCacheKey (normalizeToken (Some (ri_channel i))) (normalizeAccountId (ri_accountId i))
     (route_query_of i) (or_default (se_dmScope (hp_session h (cf_session cfg))) DmMain)"

definition cached_ok :: "heap \<Rightarrow> config \<Rightarrow> string \<times> agent_route \<Rightarrow> bool" where
  "cached_ok h cfg e \<longleftrightarrow> (\<exists>i. telling_input i \<and> fst e = input_key h cfg i \<and> snd e = route_spec h cfg i)"

definition route_cache_ok :: "heap \<Rightarrow> route_cache \<Rightarrow> bool" where
  "route_cache_ok h rc \<longleftrightarrow> list_all (cached_ok h (refs (rc_bindings rc) (rc_agents rc) (rc_session rc))) (rc_byKey rc) \<and>
     length (rc_byKey rc) \<le> MAX_RESOLVED_ROUTE_CACHE_KEYS"

definition route_inv :: "heap \<Rightarrow> route_caches \<Rightarrow> bool" where
  "route_inv h cs \<longleftrightarrow> inner_ok h cs \<and> (case cs_routes cs of None \<Rightarrow> True | Some rc \<Rightarrow> route_cache_ok h rc)"

definition cached_routes :: "route_caches \<Rightarrow> nat" where
  "cached_routes cs = (case cs_routes cs of None \<Rightarrow> 0 | Some rc \<Rightarrow> length (rc_byKey rc))"

lemma cached_ok_lookup:
  assumes "list_all (cached_ok h cfg) m" and "map_of m (input_key h cfg i) = Some r" and "telling_input i"
  shows "r = route_spec h cfg i"
proof -
  from assms(2) have "(input_key h cfg i, r) \<in> set m" by (rule map_of_SomeD)
  with assms(1) obtain j where j: "telling_input j" "input_key h cfg i = input_key h cfg j" "r = route_spec h cfg j"
    by (auto simp: cached_ok_def list_all_iff)
  have "normalizeToken (Some (ri_channel i)) = normalizeToken (Some (ri_channel j)) \<and>
      normalizeAccountId (ri_accountId i) = normalizeAccountId (ri_accountId j) \<and>
      same_query (route_query_of i) (route_query_of j)"
    by (rule key_tells) (use assms(3) j account_tab_free in \<open>simp_all add: telling_input_def input_key_def\<close>)
  then have e: "normalizeToken (Some (ri_channel i)) = normalizeToken (Some (ri_channel j))"
    "normalizeAccountId (ri_accountId i) = normalizeAccountId (ri_accountId j)"
    and q: "same_query (route_query_of i) (route_query_of j)" by blast+
  show ?thesis unfolding j(3) route_spec_def e same_query_route [OF q] ..
qed

lemma cached_update: "list_all P m \<Longrightarrow> P (k, v) \<Longrightarrow> list_all P (AList.update k v m)"
  by (induction m) auto

lemma route_call_ok:
  assumes "route_inv h cs" and "telling_input i"
  shows "fst (resolveAgentRoute verbose h cfg i cs) = route_spec h cfg i"
    and "route_inv h (snd (resolveAgentRoute verbose h cfg i cs))"
proof -
  let ?c = "normalizeToken (Some (ri_channel i))" and ?a = "normalizeAccountId (ri_accountId i)"
  have inner: "inner_ok h cs" using assms(1) by (simp add: route_inv_def)
  note comp = compute_route_ok [OF inner account_tab_free [of "ri_accountId i"], of cfg ?c "route_query_of i"]
  obtain r cs1 where cr: "compute_route h cfg ?c ?a (route_query_of i) cs = (r, cs1)" by force
  have r: "r = route_spec h cfg i" "inner_ok h cs1" "cs_routes cs1 = cs_routes cs"
    using comp by (simp_all add: cr route_spec_def)
  define rc where "rc = resolveRouteCacheForConfig cfg (cs_routes cs)"
  have rc: "route_cache_ok h rc" "refs (rc_bindings rc) (rc_agents rc) (rc_session rc) = cfg"
    using assms(1)
    by (auto simp: rc_def resolveRouteCacheForConfig_def route_inv_def route_cache_ok_def refs_def Let_def split: option.split)
  then have all: "list_all (cached_ok h cfg) (rc_byKey rc)" by (simp add: route_cache_ok_def)
  have here: "cached_ok h cfg (input_key h cfg i, route_spec h cfg i)" using assms(2) by (auto simp: cached_ok_def)
  define rc' where "rc' = rc\<lparr>rc_byKey :=
      if length (AList.update (input_key h cfg i) r (rc_byKey rc)) > MAX_RESOLVED_ROUTE_CACHE_KEYS
      then [(input_key h cfg i, r)] else AList.update (input_key h cfg i) r (rc_byKey rc)\<rparr>"
  have eq: "resolveAgentRoute verbose h cfg i cs =
      (if verbose \<or> se_identityLinks (hp_session h (cf_session cfg)) \<noteq> None then (r, cs1)
       else case map_of (rc_byKey rc) (input_key h cfg i) of
           Some cached \<Rightarrow> (cached, cs\<lparr>cs_routes := Some rc\<rparr>)
         | None \<Rightarrow> (r, cs1\<lparr>cs_routes := Some rc'\<rparr>))"
    unfolding resolveAgentRoute_def Let_def cr by (simp add: rc_def rc'_def input_key_def split: option.split)
  show "fst (resolveAgentRoute verbose h cfg i cs) = route_spec h cfg i"
    using cached_ok_lookup [OF all _ assms(2)] by (simp add: eq r split: option.split)
  have keep: "inner_ok h (x\<lparr>cs_routes := y\<rparr>) = inner_ok h x" for x y by (simp add: inner_ok_def)
  have "route_cache_ok h rc'"
    using cached_update [OF all here] here by (auto simp: rc'_def route_cache_ok_def rc(2) r(1) MAX_RESOLVED_ROUTE_CACHE_KEYS_def)
  then show "route_inv h (snd (resolveAgentRoute verbose h cfg i cs))"
    using assms(1) rc(1) r inner by (simp add: eq route_inv_def keep split: option.split)
qed

interpretation rt: bounded_memo "route_call h" "route_value h" telling_call "route_inv h" cached_routes
    MAX_RESOLVED_ROUTE_CACHE_KEYS for h
proof unfold_locales
  fix c k
  assume "route_inv h c" "telling_call k"
  then show "fst (route_call h k c) = route_value h k" "route_inv h (snd (route_call h k c))"
    by (cases k; simp add: route_call_def route_value_def telling_call_def route_call_ok)+
next
  fix c
  assume "route_inv h c"
  then show "cached_routes c \<le> MAX_RESOLVED_ROUTE_CACHE_KEYS"
    by (auto simp: cached_routes_def route_inv_def route_cache_ok_def split: option.splits)
qed

fun answer_all :: "heap \<Rightarrow> route_call list \<Rightarrow> route_caches \<Rightarrow> agent_route list \<times> route_caches" where
  "answer_all h [] cs = ([], cs)"
| "answer_all h ((verbose, cfg, input) # ks) cs =
     (case resolveAgentRoute verbose h cfg input cs of (r, cs') \<Rightarrow>
        case answer_all h ks cs' of (rs, cs'') \<Rightarrow> (r # rs, cs''))"

lemma answer_all_calls: "answer_all h ks cs = rt.calls h ks cs"
proof (induction h ks cs rule: answer_all.induct)
  case (2 h verbose cfg input ks cs)
  have "route_call h (verbose, cfg, input) cs = resolveAgentRoute verbose h cfg input cs" by (simp add: route_call_def)
  then show ?case using 2 by (simp split: prod.split)
qed simp

lemma route_inv_empty: "route_inv h no_caches"
  by (simp add: route_inv_def inner_ok_def no_caches_def)



text \<open>An example: two agents, a binding of the second to all groups of the channel \<open>w\<close>.\<close>

definition demo_heap :: heap where
  "demo_heap =
     \<lparr>hp_bindings = (\<lambda>_. [\<lparr>ab_type = RouteBinding, ab_agentId = ''b'', ab_match = Some
        \<lparr>bm_channel = Some ''w'', bm_accountId = Some ''*'', bm_peer = Some \<lparr>mp_kind = Some ''group'', mp_id = Some ''*''\<rparr>,
         bm_guildId = None, bm_teamId = None, bm_roles = None\<rparr>\<rparr>]),
      hp_agents = (\<lambda>_. [\<lparr>ae_id = Some ''a'', ae_default = True\<rparr>, \<lparr>ae_id = Some ''b'', ae_default = False\<rparr>]),
      hp_session = (\<lambda>_. \<lparr>se_dmScope = None, se_identityLinks = None\<rparr>)\<rparr>"

definition demo_message :: "route_peer option \<Rightarrow> route_input" where
  "demo_message peer = \<lparr>ri_channel = ''w'', ri_accountId = None, ri_peer = peer, ri_parentPeer = None, ri_guildId = None,
     ri_teamId = None, ri_memberRoleIds = None\<rparr>"


text \<open>The key of the cache writes a peer with an empty id like no peer. Asked first, a message of a group without an id gets the
  agent of the group binding; after a message without a peer it gets the default agent.\<close>

definition empty_group :: "route_peer option" where
  "empty_group = Some \<lparr>rp_kind = ''group'', rp_id = []\<rparr>"

theorem empty_peer_shares_route:
  "ro_agentId (route_spec demo_heap (refs 0 0 0) (demo_message empty_group)) = ''b'' \<and>
   map ro_agentId (fst (answer_all demo_heap
     [(False, refs 0 0 0, demo_message None), (False, refs 0 0 0, demo_message empty_group)] no_caches)) = [''a'', ''a'']"
  by code_simp

end
