(* ===== verification/OperatorScopes.thy ===== *)
theory OperatorScopes
  imports Prelude
begin

text \<open>
  What a role with some scopes may do: \<open>src/shared/operator-scope-compat.ts\<close> and the scopes of a device's token in
  \<open>src/shared/device-auth.ts\<close>. A JavaScript set that is filled in order is a list without duplicates, \<open>js_set\<close>.
\<close>

section \<open>Lists of names\<close>

definition js_set :: "'a list \<Rightarrow> 'a list" where
  "js_set xs = rev (remdups (rev xs))"

definition trimmed_names :: "string list \<Rightarrow> string list" where
  "trimmed_names xs = js_set (filter (\<lambda>s. s \<noteq> []) (map trim xs))"

definition normalizeScopeList :: "string list \<Rightarrow> string list" where
  "normalizeScopeList scopes = trimmed_names scopes"

section \<open>Which scopes satisfy which\<close>

definition OPERATOR_ROLE :: string where "OPERATOR_ROLE = ''operator''"
definition OPERATOR_ADMIN_SCOPE :: string where "OPERATOR_ADMIN_SCOPE = ''operator.admin''"
definition OPERATOR_READ_SCOPE :: string where "OPERATOR_READ_SCOPE = ''operator.read''"
definition OPERATOR_WRITE_SCOPE :: string where "OPERATOR_WRITE_SCOPE = ''operator.write''"
definition OPERATOR_SCOPE_PREFIX :: string where "OPERATOR_SCOPE_PREFIX = ''operator.''"

definition operatorScopeSatisfied :: "string \<Rightarrow> string list \<Rightarrow> bool" where
  "operatorScopeSatisfied requested granted =
     (if OPERATOR_ADMIN_SCOPE \<in> set granted \<and> starts_with requested OPERATOR_SCOPE_PREFIX then True
      else if requested = OPERATOR_READ_SCOPE
        then OPERATOR_READ_SCOPE \<in> set granted \<or> OPERATOR_WRITE_SCOPE \<in> set granted
      else if requested = OPERATOR_WRITE_SCOPE then OPERATOR_WRITE_SCOPE \<in> set granted
      else requested \<in> set granted)"

definition roleScopesAllow :: "string \<Rightarrow> string list \<Rightarrow> string list \<Rightarrow> bool" where
  "roleScopesAllow role requestedScopes allowedScopes =
     (let requested = normalizeScopeList requestedScopes; allowed = normalizeScopeList allowedScopes in
      if requested = [] then True
      else if allowed = [] then False
      else if trim role \<noteq> OPERATOR_ROLE then list_all (\<lambda>s. s \<in> set allowed) requested
      else list_all (\<lambda>s. operatorScopeSatisfied s allowed) requested)"

definition resolveMissingRequestedScope :: "string \<Rightarrow> string list \<Rightarrow> string list \<Rightarrow> string option" where
  "resolveMissingRequestedScope role requestedScopes allowedScopes =
     List.find (\<lambda>s. \<not> roleScopesAllow role [s] allowedScopes) requestedScopes"

section \<open>The scopes of a token\<close>

definition normalizeDeviceAuthScopes :: "string list option \<Rightarrow> string list" where
  "normalizeDeviceAuthScopes scopes =
     (case scopes of
        None \<Rightarrow> []
      | Some ss \<Rightarrow>
          (let out = trimmed_names ss;
               implied = (if ''operator.admin'' \<in> set out then js_set (out @ [''operator.read'', ''operator.write''])
                 else if ''operator.write'' \<in> set out then js_set (out @ [''operator.read'']) else out)
           in sort implied))"

section \<open>Lemmas\<close>

lemma set_js_set [simp]: "set (js_set xs) = set xs"
  by (simp add: js_set_def)

lemma js_set_empty [simp]: "js_set xs = [] \<longleftrightarrow> xs = []"
  using set_js_set [of xs] by (metis set_empty)

lemma set_trimmed_names: "set (trimmed_names xs) = trim ` set xs - {[]}"
  by (auto simp: trimmed_names_def)

text \<open>Scopes as they are kept: trimmed and not empty.\<close>

definition plain_scopes :: "string list \<Rightarrow> bool" where
  "plain_scopes ss \<longleftrightarrow> list_all (\<lambda>s. trim s = s \<and> s \<noteq> []) ss"

lemma plain_trimmed [simp]: "plain_scopes (trimmed_names ss)"
  by (auto simp: plain_scopes_def list_all_iff set_trimmed_names trim_idem)

text \<open>When scopes cover one scope for an operator, independent of how the lists are written.\<close>

definition covers :: "string list \<Rightarrow> string \<Rightarrow> bool" where
  "covers granted s \<longleftrightarrow> operatorScopeSatisfied (trim s) (normalizeScopeList granted)"

definition operator_scope :: "string \<Rightarrow> bool" where
  "operator_scope s \<longleftrightarrow> starts_with (trim s) OPERATOR_SCOPE_PREFIX"

lemma operator_scope_nonempty: "operator_scope s \<Longrightarrow> trim s \<noteq> []"
  by (auto simp: operator_scope_def OPERATOR_SCOPE_PREFIX_def)

lemma set_normal: "set (normalizeScopeList ss) = trim ` set ss - {[]}"
  by (simp add: normalizeScopeList_def set_trimmed_names)

lemma operator_names [simp]:
  "trim OPERATOR_ADMIN_SCOPE = OPERATOR_ADMIN_SCOPE" "trim OPERATOR_READ_SCOPE = OPERATOR_READ_SCOPE"
  "trim OPERATOR_WRITE_SCOPE = OPERATOR_WRITE_SCOPE"
  "operator_scope OPERATOR_ADMIN_SCOPE" "operator_scope OPERATOR_READ_SCOPE" "operator_scope OPERATOR_WRITE_SCOPE"
  "OPERATOR_ADMIN_SCOPE \<noteq> OPERATOR_READ_SCOPE" "OPERATOR_ADMIN_SCOPE \<noteq> OPERATOR_WRITE_SCOPE"
  "OPERATOR_READ_SCOPE \<noteq> OPERATOR_WRITE_SCOPE"
  by code_simp+

lemma allow_one: "roleScopesAllow OPERATOR_ROLE [s] allowed \<longleftrightarrow> trim s = [] \<or> covers allowed s"
proof -
  have r: "trim OPERATOR_ROLE = OPERATOR_ROLE" by code_simp
  have n: "normalizeScopeList [s] = (if trim s = [] then [] else [trim s])"
    by (simp add: normalizeScopeList_def trimmed_names_def js_set_def)
  have "\<not> operatorScopeSatisfied t []" for t by (simp add: operatorScopeSatisfied_def)
  then show ?thesis by (auto simp: roleScopesAllow_def Let_def r n covers_def)
qed

lemma allow_covers: "roleScopesAllow OPERATOR_ROLE ss allowed \<longleftrightarrow> (\<forall>s \<in> set ss. trim s = [] \<or> covers allowed s)"
proof -
  have r: "trim OPERATOR_ROLE = OPERATOR_ROLE" by code_simp
  have none: "\<not> operatorScopeSatisfied t []" for t by (simp add: operatorScopeSatisfied_def)
  show ?thesis
  proof (cases "normalizeScopeList ss = []")
    case True
    then have "trim ` set ss - {[]} = {}" by (simp add: set_normal [symmetric])
    then show ?thesis by (auto simp: roleScopesAllow_def Let_def True)
  next
    case False
    have "list_all (\<lambda>s. operatorScopeSatisfied s (normalizeScopeList allowed)) (normalizeScopeList ss) \<longleftrightarrow>
        (\<forall>s \<in> set ss. trim s = [] \<or> covers allowed s)"
      by (auto simp: list_all_iff set_normal covers_def)
    moreover have "\<not> list_all (\<lambda>s. operatorScopeSatisfied s []) (normalizeScopeList ss)"
      using False none by (cases "normalizeScopeList ss") simp_all
    ultimately show ?thesis using False by (auto simp: roleScopesAllow_def Let_def r)
  qed
qed

lemma allow_member:
  "trim role \<noteq> OPERATOR_ROLE \<Longrightarrow> roleScopesAllow role ss allowed \<Longrightarrow> s \<in> set ss \<Longrightarrow> trim s \<noteq> [] \<Longrightarrow> trim s \<in> trim ` set allowed"
  by (auto simp: roleScopesAllow_def Let_def list_all_iff set_normal split: if_splits)
     (metis DiffI empty_iff empty_set image_eqI set_normal singletonD)+

lemma covers_member: "trim s \<in> trim ` set ss \<Longrightarrow> trim s \<noteq> [] \<Longrightarrow> covers ss s"
  by (auto simp: covers_def operatorScopeSatisfied_def set_normal)

text \<open>Covering is transitive on the scopes of operators.\<close>

lemma covers_trans:
  assumes "covers granted s" and "operator_scope s" and "\<And>g. g \<in> set granted \<Longrightarrow> operator_scope g \<Longrightarrow> covers more g"
  shows "covers more s"
proof -
  have all: "operatorScopeSatisfied g (normalizeScopeList more)"
    if "g \<in> set (normalizeScopeList granted)" "starts_with g OPERATOR_SCOPE_PREFIX" for g
    using assms(3) that by (auto simp: set_normal covers_def operator_scope_def)
  have pre: "starts_with OPERATOR_ADMIN_SCOPE OPERATOR_SCOPE_PREFIX" "starts_with OPERATOR_READ_SCOPE OPERATOR_SCOPE_PREFIX"
    "starts_with OPERATOR_WRITE_SCOPE OPERATOR_SCOPE_PREFIX" by code_simp+
  have s: "starts_with (trim s) OPERATOR_SCOPE_PREFIX" using assms(2) by (simp add: operator_scope_def)
  note a = all [OF _ pre(1)] and r = all [OF _ pre(2)] and w = all [OF _ pre(3)] and t = all [OF _ s]
  show ?thesis
    using assms(1) a r w t s
    by (auto simp: covers_def operatorScopeSatisfied_def pre split: if_splits)
qed

lemma covers_mono: "covers granted s \<Longrightarrow> set granted \<subseteq> set more \<Longrightarrow> covers more s"
  by (auto simp: covers_def operatorScopeSatisfied_def set_normal split: if_splits)

text \<open>The scopes a token names are implied by the scopes it was given.\<close>

lemma normal_scopes_set:
  "set (normalizeDeviceAuthScopes (Some ss)) = (trim ` set ss - {[]}) \<union>
     (if OPERATOR_ADMIN_SCOPE \<in> trim ` set ss then {OPERATOR_READ_SCOPE, OPERATOR_WRITE_SCOPE}
      else if OPERATOR_WRITE_SCOPE \<in> trim ` set ss then {OPERATOR_READ_SCOPE} else {})"
  by (auto simp: normalizeDeviceAuthScopes_def Let_def set_trimmed_names OPERATOR_ADMIN_SCOPE_def OPERATOR_WRITE_SCOPE_def
      OPERATOR_READ_SCOPE_def simp del: append.simps)

lemma normal_scopes_covered: "s \<in> set (normalizeDeviceAuthScopes (Some ss)) \<Longrightarrow> covers ss s"
proof -
  assume s: "s \<in> set (normalizeDeviceAuthScopes (Some ss))"
  have pre: "starts_with OPERATOR_READ_SCOPE OPERATOR_SCOPE_PREFIX" "starts_with OPERATOR_WRITE_SCOPE OPERATOR_SCOPE_PREFIX"
    by code_simp+
  have ne: "OPERATOR_ADMIN_SCOPE \<noteq> []" "OPERATOR_WRITE_SCOPE \<noteq> []" by code_simp+
  consider "s \<in> trim ` set ss" "s \<noteq> []"
    | "OPERATOR_ADMIN_SCOPE \<in> trim ` set ss" "s = OPERATOR_READ_SCOPE \<or> s = OPERATOR_WRITE_SCOPE"
    | "OPERATOR_WRITE_SCOPE \<in> trim ` set ss" "s = OPERATOR_READ_SCOPE"
    using s by (auto simp: normal_scopes_set split: if_splits)
  then show ?thesis
  proof cases
    case 1
    then have "trim s = s" by (auto simp: trim_idem)
    then show ?thesis using 1 by (intro covers_member) simp_all
  next
    case 2
    then show ?thesis using ne pre by (auto simp: covers_def operatorScopeSatisfied_def set_normal)
  next
    case 3
    then show ?thesis using ne pre by (auto simp: covers_def operatorScopeSatisfied_def set_normal)
  qed
qed

lemma normal_scopes_trim: "s \<in> set (normalizeDeviceAuthScopes ss) \<Longrightarrow> trim s = s \<and> s \<noteq> []"
proof (cases ss)
  case (Some xs)
  have "OPERATOR_READ_SCOPE \<noteq> []" "OPERATOR_WRITE_SCOPE \<noteq> []" by code_simp+
  then show "s \<in> set (normalizeDeviceAuthScopes ss) \<Longrightarrow> trim s = s \<and> s \<noteq> []"
    using Some by (auto simp: normal_scopes_set trim_idem split: if_splits)
qed (simp add: normalizeDeviceAuthScopes_def)

end
