(* ===== verification/PairingRequests.thy ===== *)
theory PairingRequests
  imports GatewayAuth SortLemmas
begin

text \<open>
  What the pairing of devices and the pairing of nodes share: \<open>src/infra/pairing-files.ts\<close>,
  \<open>src/infra/pairing-pending.ts\<close> and \<open>src/infra/pairing-token.ts\<close>. A table of pending requests is a list of entries in
  insertion order, keyed by the id of the request; the properties that every JavaScript object has are not used as
  keys. The interface \<open>request_table\<close> says what the two modules give the shared code: a refreshed request keeps its
  id and its subject, a new one has the new id and the subject of the incoming request. Its lemmas are proved once.
\<close>

section \<open>The shared operations\<close>

definition pruneExpiredPending :: "('p \<Rightarrow> int) \<Rightarrow> int \<Rightarrow> int \<Rightarrow> (string \<times> 'p) list \<Rightarrow> (string \<times> 'p) list" where
  "pruneExpiredPending ts nowMs ttlMs pendingById = filter (\<lambda>(k, p). \<not> nowMs - ts p > ttlMs) pendingById"

text \<open>The result: the request, whether it is new, the requests after it.\<close>

definition reconcilePendingPairingRequests ::
    "('p \<Rightarrow> string) \<Rightarrow> (string \<times> 'p) list \<Rightarrow> 'p list \<Rightarrow> ('p \<Rightarrow> bool) \<Rightarrow> ('p \<Rightarrow> 'p) \<Rightarrow> ('p list \<Rightarrow> 'p) \<Rightarrow>
     'p \<times> bool \<times> (string \<times> 'p) list" where
  "reconcilePendingPairingRequests requestId pendingById existing canRefresh refresh build =
     (case existing of
        [e] \<Rightarrow>
          if canRefresh e
          then (refresh e, False, AList.update (requestId (refresh e)) (refresh e) pendingById)
          else (build existing, True,
                AList.update (requestId (build existing)) (build existing) (AList.delete (requestId e) pendingById))
      | _ \<Rightarrow>
          (build existing, True,
           AList.update (requestId (build existing)) (build existing)
             (foldl (\<lambda>m e. AList.delete (requestId e) m) pendingById existing)))"

text \<open>The id of the subject of the rejected request, and the requests after it.\<close>

definition rejectPendingPairingRequest :: "string \<Rightarrow> ('p \<Rightarrow> string) \<Rightarrow> (string \<times> 'p) list \<Rightarrow> (string \<times> (string \<times> 'p) list) option" where
  "rejectPendingPairingRequest requestId getId pendingById =
     (case map_of pendingById requestId of
        None \<Rightarrow> None
      | Some pending \<Rightarrow> Some (getId pending, AList.delete requestId pendingById))"

text \<open>The requests of one subject, the latest first.\<close>

definition pending_of :: "('p \<Rightarrow> int) \<Rightarrow> ('p \<Rightarrow> string) \<Rightarrow> string \<Rightarrow> (string \<times> 'p) list \<Rightarrow> 'p list" where
  "pending_of ts getId i pendingById =
     sort_with (\<lambda>l r. ts r - ts l) (filter (\<lambda>p. getId p = i) (map snd pendingById))"

text \<open>Thirty-two random bytes make a token; here a token is an argument.\<close>

definition verifyPairingToken :: "(string \<Rightarrow> string) \<Rightarrow> string \<Rightarrow> string \<Rightarrow> bool" where
  "verifyPairingToken sha provided expected =
     (if trim provided = [] \<or> trim expected = [] then False else safeEqualSecret sha (Some provided) (Some expected))"

section \<open>Well-formed tables\<close>

text \<open>Every request is stored under its own id, and no subject has two.\<close>

definition table_ok :: "('p \<Rightarrow> string) \<Rightarrow> ('p \<Rightarrow> string) \<Rightarrow> (string \<times> 'p) list \<Rightarrow> bool" where
  "table_ok rid subject m \<longleftrightarrow> distinct (map fst m) \<and> list_all (\<lambda>(k, p). rid p = k \<and> trim (subject p) = subject p) m \<and>
     distinct (map (\<lambda>(k, p). subject p) m)"

lemma table_ok_filter: "table_ok rid subject m \<Longrightarrow> table_ok rid subject (filter P m)"
  by (auto simp: table_ok_def list_all_iff distinct_map_filter)

lemma table_ok_delete: "table_ok rid subject m \<Longrightarrow> table_ok rid subject (AList.delete k m)"
  by (simp add: AList.delete_eq table_ok_filter)

lemma table_ok_prune: "table_ok rid subject m \<Longrightarrow> table_ok rid subject (pruneExpiredPending ts now ttl m)"
  by (simp add: pruneExpiredPending_def table_ok_filter)

lemma table_value: "table_ok rid subject m \<Longrightarrow> p \<in> snd ` set m \<Longrightarrow> map_of m (rid p) = Some p"
  by (force simp: table_ok_def list_all_iff)

lemma set_update_subset: "set (AList.update k p m) \<subseteq> insert (k, p) (set m)"
  by (induction m) auto

text \<open>Replacing an entry by one of the same subject, or adding one of a new subject.\<close>

lemma table_ok_update:
  assumes "table_ok rid subject m" and "rid p = k" and "trim (subject p) = subject p"
    and "\<And>k' p'. (k', p') \<in> set m \<Longrightarrow> k' \<noteq> k \<Longrightarrow> subject p' \<noteq> subject p"
  shows "table_ok rid subject (AList.update k p m)"
  using assms
proof (induction m)
  case (Cons e m)
  obtain k' p' where e: "e = (k', p')" by force
  have m: "table_ok rid subject m" using Cons.prems(1) by (simp add: table_ok_def)
  show ?case
  proof (cases "k' = k")
    case True
    have "subject p \<notin> (\<lambda>(k, p). subject p) ` set m"
    proof clarify
      fix k2 p2
      assume m2: "(k2, p2) \<in> set m" and d: "subject p = subject p2"
      then have "k2 \<in> fst ` set m" by force
      moreover have "k' \<notin> fst ` set m" using Cons.prems(1) by (simp add: e table_ok_def)
      ultimately have "k2 \<noteq> k" using True by blast
      then show False using Cons.prems(4) [of k2 p2] m2 d by simp
    qed
    then show ?thesis using Cons.prems True by (simp add: e table_ok_def)
  next
    case False
    have IH: "table_ok rid subject (AList.update k p m)"
      by (rule Cons.IH [OF m assms(2,3)]) (use Cons.prems(4) in auto)
    note sub = set_update_subset [of k p m]
    have fresh: "k' \<notin> fst ` set m" "subject p' \<notin> (\<lambda>(k, p). subject p) ` set m"
      using Cons.prems(1) by (auto simp: e table_ok_def)
    have "k' \<notin> fst ` set (AList.update k p m)" using sub False fresh(1) by auto
    moreover have "subject p' \<noteq> subject p" using Cons.prems(4) [of k' p'] False by (simp add: e)
    then have "subject p' \<notin> (\<lambda>(k, p). subject p) ` set (AList.update k p m)"
      using image_mono [OF sub, of "\<lambda>(k, p). subject p"] fresh(2) by (simp add: subset_iff) metis
    ultimately show ?thesis using IH Cons.prems(1) False by (simp add: e table_ok_def)
  qed
qed (simp add: table_ok_def)

lemma foldl_delete: "foldl (\<lambda>m e. AList.delete (g e) m) m es = filter (\<lambda>(k, p). k \<notin> g ` set es) m"
  by (induction es arbitrary: m) (auto simp: AList.delete_eq intro!: filter_cong)

lemma pending_of_set: "set (pending_of ts getId i m) = {p \<in> snd ` set m. getId p = i}"
  by (auto simp: pending_of_def set_sort_with)

lemma reconcile_eq:
  "reconcilePendingPairingRequests rid m es can refresh build =
     (if \<exists>e. es = [e] \<and> can e
      then (refresh (hd es), False, AList.update (rid (refresh (hd es))) (refresh (hd es)) m)
      else (build es, True, AList.update (rid (build es)) (build es) (foldl (\<lambda>m e. AList.delete (rid e) m) m es)))"
  by (cases es; cases "tl es") (auto simp: reconcilePendingPairingRequests_def)

section \<open>The interface\<close>

locale request_table =
  fixes rid :: "'p \<Rightarrow> string" and subject :: "'p \<Rightarrow> string" and ts :: "'p \<Rightarrow> int"
    and can :: "'i \<Rightarrow> 'p \<Rightarrow> bool" and refresh :: "'i \<Rightarrow> 'p \<Rightarrow> 'p" and build :: "'i \<Rightarrow> 'p list \<Rightarrow> 'p"
    and new_id :: "'i \<Rightarrow> string" and asked_for :: "'i \<Rightarrow> string"
  assumes refresh_keeps: "rid (refresh i p) = rid p" "subject (refresh i p) = subject p"
    and build_new: "rid (build i es) = new_id i" "subject (build i es) = asked_for i"
    and subject_tight: "trim (asked_for i) = asked_for i"
begin

definition receive :: "'i \<Rightarrow> (string \<times> 'p) list \<Rightarrow> 'p \<times> bool \<times> (string \<times> 'p) list" where
  "receive i m = reconcilePendingPairingRequests rid m (pending_of ts subject (asked_for i) m) (can i) (refresh i) (build i)"

lemma pending_ids:
  assumes ok: "table_ok rid subject m" and kp: "(k, p) \<in> set m"
  shows "k \<in> rid ` set (pending_of ts subject i m) \<longleftrightarrow> subject p = i"
proof
  have k: "rid p = k" using ok kp by (auto simp: table_ok_def list_all_iff)
  show "k \<in> rid ` set (pending_of ts subject i m)" if "subject p = i" using kp k that by (force simp: pending_of_set)
  assume "k \<in> rid ` set (pending_of ts subject i m)"
  then obtain p' where p': "p' \<in> snd ` set m" "subject p' = i" "rid p' = k" by (auto simp: pending_of_set)
  have "map_of m k = Some p'" using table_value [OF ok p'(1)] p'(3) by simp
  moreover have "map_of m k = Some p" using table_value [OF ok, of p] kp k by force
  ultimately show "subject p = i" using p'(2) by simp
qed

text \<open>What receiving a request leaves: its own entry, and every entry of another subject.\<close>

lemma receive_cases:
  assumes ok: "table_ok rid subject m" and r: "receive i m = (r, created, m')"
  shows "(\<exists>e \<in> snd ` set m. \<not> created \<and> can i e \<and> subject e = asked_for i \<and> r = refresh i e \<and> m' = AList.update (rid e) r m) \<or>
         (created \<and> (\<exists>es. r = build i es) \<and> m' = AList.update (new_id i) r (filter (\<lambda>(k, p). subject p \<noteq> asked_for i) m))"
proof -
  let ?es = "pending_of ts subject (asked_for i) m"
  have "filter (\<lambda>(k, p). k \<notin> rid ` set ?es) m = filter (\<lambda>(k, p). subject p \<noteq> asked_for i) m"
    by (rule filter_cong [OF refl]) (use pending_ids [OF ok] in blast)
  then have new: "foldl (\<lambda>m e. AList.delete (rid e) m) m ?es = filter (\<lambda>(k, p). subject p \<noteq> asked_for i) m"
    by (simp add: foldl_delete)
  show ?thesis
  proof (cases "\<exists>e. ?es = [e] \<and> can i e")
    case True
    then obtain e where e: "?es = [e]" "can i e" by blast
    have "e \<in> set ?es" using e by simp
    then have m: "e \<in> snd ` set m" "subject e = asked_for i" by (simp_all add: pending_of_set)
    have "r = refresh i e" "\<not> created" "m' = AList.update (rid e) r m"
      using r e by (auto simp: receive_def reconcile_eq refresh_keeps)
    then show ?thesis using e(2) m by blast
  next
    case False
    have "(r, created, m') = (build i ?es, True, AList.update (rid (build i ?es)) (build i ?es)
        (foldl (\<lambda>m e. AList.delete (rid e) m) m ?es))"
      unfolding r [symmetric] receive_def by (simp only: reconcile_eq False if_False)
    then show ?thesis by (auto simp only: prod.inject build_new new)
  qed
qed

lemma receive_ok:
  assumes ok: "table_ok rid subject m"
  shows "table_ok rid subject (snd (snd (receive i m)))"
proof -
  obtain r created m' where r: "receive i m = (r, created, m')" by (metis prod.collapse)
  from receive_cases [OF ok r] have "table_ok rid subject m'"
  proof (elim disjE bexE conjE exE)
    fix e
    assume e: "e \<in> snd ` set m" "subject e = asked_for i" and re: "r = refresh i e" and m': "m' = AList.update (rid e) r m"
    obtain k where k: "(k, e) \<in> set m" using e(1) by auto
    then have "rid e = k" using ok by (auto simp: table_ok_def list_all_iff)
    have other: "subject p' \<noteq> asked_for i" if "(k', p') \<in> set m" "k' \<noteq> rid e" for k' p'
    proof
      assume "subject p' = asked_for i"
      moreover have "inj_on (\<lambda>(k, p). subject p) (set m)" using ok by (simp add: table_ok_def distinct_map)
      ultimately have "(k', p') = (k, e)" using k that(1) e(2)
        by (elim inj_onD [where x = "(k', p')" and y = "(k, e)"]) simp_all
      then show False using that(2) \<open>rid e = k\<close> by simp
    qed
    show ?thesis unfolding m'
      by (rule table_ok_update [OF ok]) (use other e(2) subject_tight in \<open>auto simp: re refresh_keeps\<close>)
  next
    fix es
    assume c: "r = build i es" and m': "m' = AList.update (new_id i) r (filter (\<lambda>(k, p). subject p \<noteq> asked_for i) m)"
    show ?thesis unfolding m'
      by (rule table_ok_update [OF table_ok_filter [OF ok]]) (use subject_tight in \<open>auto simp: c build_new\<close>)
  qed
  then show ?thesis by (simp add: r)
qed

end

section \<open>What an id stands for\<close>

text \<open>Whatever is stored under the id has a property; the property survives when entries go away.\<close>

definition held :: "string \<Rightarrow> ('p \<Rightarrow> bool) \<Rightarrow> (string \<times> 'p) list \<Rightarrow> bool" where
  "held i P m \<longleftrightarrow> (\<forall>p. map_of m i = Some p \<longrightarrow> P p)"

lemma map_of_filter_distinct: "distinct (map fst m) \<Longrightarrow> map_of (filter P m) k = Some v \<Longrightarrow> map_of m k = Some v"
  by (induction m) (auto split: if_splits dest!: map_of_SomeD intro: rev_image_eqI)

lemma held_filter: "table_ok rid subject m \<Longrightarrow> held i P m \<Longrightarrow> held i P (filter Q m)"
  unfolding held_def by (metis map_of_filter_distinct table_ok_def)

lemma held_prune: "table_ok rid subject m \<Longrightarrow> held i P m \<Longrightarrow> held i P (pruneExpiredPending ts now ttl m)"
  unfolding pruneExpiredPending_def by (rule held_filter)

lemma held_delete: "held i P m \<Longrightarrow> held i P (AList.delete k m)"
  by (auto simp: held_def delete_conv' split: if_splits)

lemma held_update: "held i P m \<Longrightarrow> k \<noteq> i \<or> P q \<Longrightarrow> held i P (AList.update k q m)"
  by (auto simp: held_def update_conv' split: if_splits)

end
