(* ===== verification/DevicePairing.thy ===== *)
theory DevicePairing
  imports OperatorScopes PairingRequests
begin

text \<open>
  Pairing of devices: \<open>src/infra/device-pairing.ts\<close>. Every operation runs under one lock: it
  loads both files, drops the expired requests, and saves both files if it changed something. So an operation is a
  function from the files to the answer and the files after it; \<open>clock n\<close> is its \<open>n\<close>-th reading of the clock and
  \<open>fresh n\<close> its \<open>n\<close>-th random token. A record keyed by strings is a list in insertion order.
\<close>

section \<open>Data\<close>

record device_info =
  di_displayName :: "string option"
  di_platform :: "string option"
  di_deviceFamily :: "string option"
  di_clientId :: "string option"
  di_clientMode :: "string option"
  di_remoteIp :: "string option"

record pairing_input =
  pi_deviceId :: string
  pi_publicKey :: string
  pi_info :: device_info
  pi_role :: "string option"
  pi_roles :: "string list option"
  pi_scopes :: "string list option"
  pi_silent :: "bool option"

record pending_request =
  pq_requestId :: string
  pq_deviceId :: string
  pq_publicKey :: string
  pq_info :: device_info
  pq_role :: "string option"
  pq_roles :: "string list option"
  pq_scopes :: "string list option"
  pq_silent :: "bool option"
  pq_isRepair :: bool
  pq_ts :: int

record auth_token =
  dt_token :: string
  dt_role :: string
  dt_scopes :: "string list"
  dt_createdAtMs :: int
  dt_rotatedAtMs :: "int option"
  dt_revokedAtMs :: "int option"
  dt_lastUsedAtMs :: "int option"

record paired_device =
  pd_deviceId :: string
  pd_publicKey :: string
  pd_info :: device_info
  pd_role :: "string option"
  pd_roles :: "string list option"
  pd_scopes :: "string list option"
  pd_approvedScopes :: "string list option"
  pd_tokens :: "(string \<times> auth_token) list option"
  pd_createdAtMs :: int
  pd_approvedAtMs :: int

record pairing_files =
  pf_pending :: "(string \<times> pending_request) list"
  pf_paired :: "(string \<times> paired_device) list"

definition PENDING_TTL_MS :: int where "PENDING_TTL_MS = 5 * 60 * 1000"

section \<open>Roles and scopes\<close>

definition loadState :: "int \<Rightarrow> pairing_files \<Rightarrow> pairing_files" where
  "loadState now f = f\<lparr>pf_pending := pruneExpiredPending pq_ts now PENDING_TTL_MS (pf_pending f)\<rparr>"

definition normalizeDeviceId :: "string \<Rightarrow> string" where
  "normalizeDeviceId deviceId = trim deviceId"

definition normalizeRole :: "string option \<Rightarrow> string option" where
  "normalizeRole role = trimmed_opt role"

text \<open>The arguments of \<open>mergeRoles\<close> as lists: a role is a list of one, a missing argument an empty list.\<close>

definition one_role :: "string option \<Rightarrow> string list" where
  "one_role r = (case r of None \<Rightarrow> [] | Some x \<Rightarrow> [x])"

definition mergeRoles :: "string list list \<Rightarrow> string list option" where
  "mergeRoles items = (let roles = trimmed_names (concat items) in if roles = [] then None else Some roles)"

definition truthy_ms :: "int option \<Rightarrow> bool" where
  "truthy_ms t = (case t of None \<Rightarrow> False | Some n \<Rightarrow> n \<noteq> 0)"

definition listActiveTokenRoles :: "(string \<times> auth_token) list option \<Rightarrow> string list option" where
  "listActiveTokenRoles tokens =
     (case tokens of
        None \<Rightarrow> None
      | Some ts \<Rightarrow> mergeRoles [map dt_role (filter (\<lambda>t. \<not> truthy_ms (dt_revokedAtMs t)) (map snd ts))])"

definition listEffectivePairedDeviceRoles :: "paired_device \<Rightarrow> string list" where
  "listEffectivePairedDeviceRoles device =
     (case listActiveTokenRoles (pd_tokens device) of
        Some rs \<Rightarrow> rs
      | None \<Rightarrow>
          if or_default (pd_tokens device) [] \<noteq> [] then []
          else or_default (mergeRoles [or_default (pd_roles device) [], one_role (pd_role device)]) [])"

definition hasEffectivePairedDeviceRole :: "paired_device \<Rightarrow> string \<Rightarrow> bool" where
  "hasEffectivePairedDeviceRole device role =
     (case normalizeRole (Some role) of None \<Rightarrow> False | Some r \<Rightarrow> r \<in> set (listEffectivePairedDeviceRoles device))"

definition mergeScopes :: "string list option list \<Rightarrow> string list option" where
  "mergeScopes items =
     (let given = filter (\<lambda>i. i \<noteq> None) items; scopes = trimmed_names (concat (map the given))
      in if scopes = [] then (if given \<noteq> [] then Some [] else None) else Some scopes)"

definition sameStringSet :: "string list \<Rightarrow> string list \<Rightarrow> bool" where
  "sameStringSet left right = (length left = length right \<and> list_all (\<lambda>v. v \<in> set right) left)"

definition resolveRequestedRoles :: "string option \<Rightarrow> string list option \<Rightarrow> string list" where
  "resolveRequestedRoles role roles = or_default (mergeRoles [or_default roles [], one_role role]) []"

definition resolveRequestedScopes :: "string list option \<Rightarrow> string list" where
  "resolveRequestedScopes scopes = normalizeDeviceAuthScopes scopes"

section \<open>Requests\<close>

definition samePendingApprovalSnapshot :: "pending_request \<Rightarrow> pairing_input \<Rightarrow> bool" where
  "samePendingApprovalSnapshot e i =
     (pq_publicKey e = pi_publicKey i \<and> normalizeRole (pq_role e) = normalizeRole (pi_role i) \<and>
      sameStringSet (resolveRequestedRoles (pq_role e) (pq_roles e)) (resolveRequestedRoles (pi_role i) (pi_roles i)) \<and>
      sameStringSet (resolveRequestedScopes (pq_scopes e)) (resolveRequestedScopes (pi_scopes i)))"

definition info_or :: "device_info \<Rightarrow> device_info \<Rightarrow> device_info" where
  "info_or new old =
     (let pick = (\<lambda>f. case f new of None \<Rightarrow> f old | Some v \<Rightarrow> Some v) in
      \<lparr>di_displayName = pick di_displayName, di_platform = pick di_platform, di_deviceFamily = pick di_deviceFamily,
       di_clientId = pick di_clientId, di_clientMode = pick di_clientMode, di_remoteIp = pick di_remoteIp\<rparr>)"

definition refreshPendingDevicePairingRequest :: "int \<Rightarrow> bool \<Rightarrow> pairing_input \<Rightarrow> pending_request \<Rightarrow> pending_request" where
  "refreshPendingDevicePairingRequest now isRepair i e =
     e\<lparr>pq_publicKey := pi_publicKey i, pq_info := info_or (pi_info i) (pq_info e),
       pq_silent := Some (or_default (pq_silent e) False \<and> or_default (pi_silent i) False),
       pq_isRepair := pq_isRepair e \<or> isRepair, pq_ts := now\<rparr>"

definition resolveSupersededPendingSilent :: "pending_request list \<Rightarrow> bool option \<Rightarrow> bool" where
  "resolveSupersededPendingSilent existing incomingSilent =
     (or_default incomingSilent False \<and> list_all (\<lambda>p. pq_silent p = Some True) existing)"

definition buildPendingDevicePairingRequest :: "string \<Rightarrow> int \<Rightarrow> string \<Rightarrow> bool \<Rightarrow> pairing_input \<Rightarrow> pending_request" where
  "buildPendingDevicePairingRequest requestId now deviceId isRepair i =
     (let role = normalizeRole (pi_role i) in
      \<lparr>pq_requestId = requestId, pq_deviceId = deviceId, pq_publicKey = pi_publicKey i, pq_info = pi_info i,
       pq_role = role, pq_roles = mergeRoles [or_default (pi_roles i) [], one_role role],
       pq_scopes = mergeScopes [pi_scopes i], pq_silent = pi_silent i, pq_isRepair = isRepair, pq_ts = now\<rparr>)"

definition replacement_input :: "pairing_input \<Rightarrow> pending_request list \<Rightarrow> pairing_input" where
  "replacement_input i existing =
     i\<lparr>pi_role := (case normalizeRole (pi_role i) of
           Some r \<Rightarrow> Some r
         | None \<Rightarrow> (case existing of [] \<Rightarrow> None | latest # _ \<Rightarrow> pq_role latest)),
       pi_roles := mergeRoles (concat (map (\<lambda>p. [or_default (pq_roles p) [], one_role (pq_role p)]) existing) @
         [or_default (pi_roles i) [], one_role (pi_role i)]),
       pi_scopes := mergeScopes (map pq_scopes existing @ [pi_scopes i]),
       pi_silent := Some (resolveSupersededPendingSilent existing (pi_silent i))\<rparr>"

text \<open>\<open>None\<close> is the exception for a missing id.\<close>

definition requestDevicePairing ::
    "(nat \<Rightarrow> int) \<Rightarrow> string \<Rightarrow> pairing_input \<Rightarrow> pairing_files \<Rightarrow> (pending_request \<times> bool) option \<times> pairing_files" where
  "requestDevicePairing clock uuid req f =
     (let s = loadState (clock 0) f; deviceId = normalizeDeviceId (pi_deviceId req) in
      if deviceId = [] then (None, f)
      else
        (let isRepair = (map_of (pf_paired s) deviceId \<noteq> None);
             (request, created, pending) = reconcilePendingPairingRequests pq_requestId (pf_pending s)
               (pending_of pq_ts pq_deviceId deviceId (pf_pending s))
               (\<lambda>e. samePendingApprovalSnapshot e req)
               (refreshPendingDevicePairingRequest (clock 1) isRepair req)
               (\<lambda>existing. buildPendingDevicePairingRequest uuid (clock 1) deviceId isRepair (replacement_input req existing))
         in (Some (request, created), s\<lparr>pf_pending := pending\<rparr>)))"

section \<open>Tokens\<close>

definition getPairedDeviceFromState :: "pairing_files \<Rightarrow> string \<Rightarrow> paired_device option" where
  "getPairedDeviceFromState s deviceId = map_of (pf_paired s) (normalizeDeviceId deviceId)"

definition cloneDeviceTokens :: "paired_device \<Rightarrow> (string \<times> auth_token) list" where
  "cloneDeviceTokens device = or_default (pd_tokens device) []"

definition buildDeviceAuthToken ::
    "string \<Rightarrow> string \<Rightarrow> string list \<Rightarrow> auth_token option \<Rightarrow> int \<Rightarrow> int option \<Rightarrow> auth_token" where
  "buildDeviceAuthToken token role scopes existing now rotatedAtMs =
     \<lparr>dt_token = token, dt_role = role, dt_scopes = scopes,
      dt_createdAtMs = (case existing of None \<Rightarrow> now | Some e \<Rightarrow> dt_createdAtMs e), dt_rotatedAtMs = rotatedAtMs,
      dt_revokedAtMs = None, dt_lastUsedAtMs = Option.bind existing dt_lastUsedAtMs\<rparr>"

definition resolveRoleScopedDeviceTokenScopes :: "string \<Rightarrow> string list option \<Rightarrow> string list" where
  "resolveRoleScopedDeviceTokenScopes role scopes =
     (let normalized = normalizeDeviceAuthScopes scopes in
      if role = ''operator'' then filter (\<lambda>s. starts_with s OPERATOR_SCOPE_PREFIX) normalized
      else filter (\<lambda>s. \<not> starts_with s OPERATOR_SCOPE_PREFIX) normalized)"

definition or_else :: "'a option \<Rightarrow> 'a option \<Rightarrow> 'a option" where
  "or_else x y = (case x of None \<Rightarrow> y | Some v \<Rightarrow> Some v)"

definition resolveApprovedTokenScopes ::
    "string \<Rightarrow> pending_request \<Rightarrow> auth_token option \<Rightarrow> string list option \<Rightarrow> paired_device option \<Rightarrow> string list" where
  "resolveApprovedTokenScopes role pending existingToken approvedScopes existing =
     (let requestedScopes = resolveRoleScopedDeviceTokenScopes role (pq_scopes pending) in
      if requestedScopes \<noteq> [] then requestedScopes
      else resolveRoleScopedDeviceTokenScopes role
        (or_else (map_option dt_scopes existingToken)
          (or_else approvedScopes
            (or_else (Option.bind existing pd_approvedScopes) (Option.bind existing pd_scopes)))))"

definition resolveApprovedDeviceScopeBaseline :: "paired_device \<Rightarrow> string list option" where
  "resolveApprovedDeviceScopeBaseline device =
     (case or_else (pd_approvedScopes device) (pd_scopes device) of
        None \<Rightarrow> None
      | Some b \<Rightarrow> Some (normalizeDeviceAuthScopes (Some b)))"

definition scopesWithinApprovedDeviceBaseline :: "string \<Rightarrow> string list \<Rightarrow> string list option \<Rightarrow> bool" where
  "scopesWithinApprovedDeviceBaseline role scopes approvedScopes =
     (case approvedScopes of None \<Rightarrow> False | Some approved \<Rightarrow> roleScopesAllow role scopes approved)"

section \<open>Lists\<close>

definition listDevicePairing :: "int \<Rightarrow> pairing_files \<Rightarrow> pending_request list \<times> paired_device list" where
  "listDevicePairing now f =
     (let s = loadState now f in
      (sort_with (\<lambda>a b. pq_ts b - pq_ts a) (map snd (pf_pending s)),
       sort_with (\<lambda>a b. pd_approvedAtMs b - pd_approvedAtMs a) (map snd (pf_paired s))))"

definition getPairedDevice :: "int \<Rightarrow> string \<Rightarrow> pairing_files \<Rightarrow> paired_device option" where
  "getPairedDevice now deviceId f = map_of (pf_paired (loadState now f)) (normalizeDeviceId deviceId)"

definition getPendingDevicePairing :: "int \<Rightarrow> string \<Rightarrow> pairing_files \<Rightarrow> pending_request option" where
  "getPendingDevicePairing now requestId f = map_of (pf_pending (loadState now f)) requestId"

section \<open>Approvals\<close>

datatype approval = NoSuchRequest | Forbidden string | Approved string paired_device

text \<open>The tokens of the requested roles: the \<open>n\<close>-th role reads the clock and takes a random token of its own.\<close>

definition approved_token ::
    "(nat \<Rightarrow> int) \<Rightarrow> (nat \<Rightarrow> string) \<Rightarrow> pending_request \<Rightarrow> string list option \<Rightarrow> paired_device option \<Rightarrow>
     (string \<times> auth_token) list \<Rightarrow> nat \<times> string \<Rightarrow> (string \<times> auth_token) list" where
  "approved_token clock fresh pending approvedScopes existing tokens nr =
     (let (n, role) = nr; existingToken = map_of tokens role; now = clock (n + 2)
      in AList.update role
           \<lparr>dt_token = fresh n, dt_role = role,
            dt_scopes = resolveApprovedTokenScopes role pending existingToken approvedScopes existing,
            dt_createdAtMs = (case existingToken of None \<Rightarrow> now | Some e \<Rightarrow> dt_createdAtMs e),
            dt_rotatedAtMs = (if existingToken = None then None else Some now), dt_revokedAtMs = None,
            dt_lastUsedAtMs = Option.bind existingToken dt_lastUsedAtMs\<rparr> tokens)"

definition approved_device ::
    "(nat \<Rightarrow> int) \<Rightarrow> (nat \<Rightarrow> string) \<Rightarrow> pending_request \<Rightarrow> paired_device option \<Rightarrow> paired_device" where
  "approved_device clock fresh pending existing =
     (let requestedRoles = resolveRequestedRoles (pq_role pending) (pq_roles pending);
          roles = mergeRoles [or_default (Option.bind existing pd_roles) [], one_role (Option.bind existing pd_role),
            or_default (pq_roles pending) [], one_role (pq_role pending)];
          approvedScopes = mergeScopes
            [or_else (Option.bind existing pd_approvedScopes) (Option.bind existing pd_scopes), pq_scopes pending]
      in \<lparr>pd_deviceId = pq_deviceId pending, pd_publicKey = pq_publicKey pending, pd_info = pq_info pending,
          pd_role = pq_role pending, pd_roles = roles, pd_scopes = approvedScopes, pd_approvedScopes = approvedScopes,
          pd_tokens = Some (foldl (approved_token clock fresh pending approvedScopes existing)
            (or_default (Option.bind existing pd_tokens) []) (enumerate 0 requestedRoles)),
          pd_createdAtMs = (case existing of None \<Rightarrow> clock 1 | Some e \<Rightarrow> pd_createdAtMs e), pd_approvedAtMs = clock 1\<rparr>)"

text \<open>\<open>callerScopes\<close> is missing when the approver is not a client of the gateway.\<close>

definition approval_refusal :: "string list option \<Rightarrow> pending_request \<Rightarrow> string option" where
  "approval_refusal callerScopes pending =
     (let requestedRoles = resolveRequestedRoles (pq_role pending) (pq_roles pending);
          requested = filter (\<lambda>s. starts_with s OPERATOR_SCOPE_PREFIX) (normalizeDeviceAuthScopes (pq_scopes pending))
      in case requested of
           [] \<Rightarrow> None
         | first # _ \<Rightarrow>
             (case callerScopes of
                None \<Rightarrow> Some first
              | Some cs \<Rightarrow>
                  if ''operator'' \<notin> set requestedRoles then Some first
                  else resolveMissingRequestedScope ''operator'' requested cs))"

definition approveDevicePairing ::
    "(nat \<Rightarrow> int) \<Rightarrow> (nat \<Rightarrow> string) \<Rightarrow> string \<Rightarrow> string list option \<Rightarrow> pairing_files \<Rightarrow> approval \<times> pairing_files" where
  "approveDevicePairing clock fresh requestId callerScopes f =
     (let s = loadState (clock 0) f in
      case map_of (pf_pending s) requestId of
        None \<Rightarrow> (NoSuchRequest, f)
      | Some pending \<Rightarrow>
          (case approval_refusal callerScopes pending of
             Some missing \<Rightarrow> (Forbidden missing, f)
           | None \<Rightarrow>
               (let device = approved_device clock fresh pending (map_of (pf_paired s) (pq_deviceId pending))
                in (Approved requestId device,
                    s\<lparr>pf_pending := AList.delete requestId (pf_pending s),
                      pf_paired := AList.update (pd_deviceId device) device (pf_paired s)\<rparr>))))"

definition rejectDevicePairing :: "(nat \<Rightarrow> int) \<Rightarrow> string \<Rightarrow> pairing_files \<Rightarrow> (string \<times> string) option \<times> pairing_files" where
  "rejectDevicePairing clock requestId f =
     (let s = loadState (clock 0) f in
      case rejectPendingPairingRequest requestId pq_deviceId (pf_pending s) of
        None \<Rightarrow> (None, f)
      | Some (deviceId, pending) \<Rightarrow> (Some (requestId, deviceId), s\<lparr>pf_pending := pending\<rparr>))"

section \<open>Paired devices\<close>

definition removePairedDevice :: "(nat \<Rightarrow> int) \<Rightarrow> string \<Rightarrow> pairing_files \<Rightarrow> string option \<times> pairing_files" where
  "removePairedDevice clock deviceId f =
     (let s = loadState (clock 0) f; normalized = normalizeDeviceId deviceId in
      if normalized = [] \<or> map_of (pf_paired s) normalized = None then (None, f)
      else (Some normalized, s\<lparr>pf_paired := AList.delete normalized (pf_paired s)\<rparr>))"

definition clearDevicePairing :: "(nat \<Rightarrow> int) \<Rightarrow> string \<Rightarrow> pairing_files \<Rightarrow> bool \<times> pairing_files" where
  "clearDevicePairing clock deviceId f =
     (let s = loadState (clock 0) f; normalized = normalizeDeviceId deviceId in
      if map_of (pf_paired s) normalized = None then (False, f)
      else (True, s\<lparr>pf_paired := AList.delete normalized (pf_paired s)\<rparr>))"

text \<open>A patch: a missing field is \<open>None\<close>, a field that is set to \<open>undefined\<close> is \<open>Some None\<close> and overwrites like any other.\<close>

record device_patch =
  dp_publicKey :: "string option"
  dp_displayName :: "string option option"
  dp_platform :: "string option option"
  dp_deviceFamily :: "string option option"
  dp_clientId :: "string option option"
  dp_clientMode :: "string option option"
  dp_remoteIp :: "string option option"
  dp_role :: "string option"
  dp_scopes :: "string list option"
  dp_tokens :: "(string \<times> auth_token) list option option"

definition patched_info :: "device_patch \<Rightarrow> device_info \<Rightarrow> device_info" where
  "patched_info p i =
     \<lparr>di_displayName = or_default (dp_displayName p) (di_displayName i), di_platform = or_default (dp_platform p) (di_platform i),
      di_deviceFamily = or_default (dp_deviceFamily p) (di_deviceFamily i), di_clientId = or_default (dp_clientId p) (di_clientId i),
      di_clientMode = or_default (dp_clientMode p) (di_clientMode i), di_remoteIp = or_default (dp_remoteIp p) (di_remoteIp i)\<rparr>"

definition patched_device :: "device_patch \<Rightarrow> paired_device \<Rightarrow> paired_device" where
  "patched_device p d =
     d\<lparr>pd_publicKey := or_default (dp_publicKey p) (pd_publicKey d), pd_info := patched_info p (pd_info d),
       pd_tokens := or_default (dp_tokens p) (pd_tokens d), pd_role := or_else (dp_role p) (pd_role d),
       pd_roles := mergeRoles [or_default (pd_roles d) [], one_role (pd_role d), one_role (dp_role p)],
       pd_scopes := mergeScopes [pd_scopes d, dp_scopes p]\<rparr>"

text \<open>The device is looked up under its trimmed id and stored under the id as it was given.\<close>

definition updatePairedDeviceMetadata :: "(nat \<Rightarrow> int) \<Rightarrow> string \<Rightarrow> device_patch \<Rightarrow> pairing_files \<Rightarrow> pairing_files" where
  "updatePairedDeviceMetadata clock deviceId patch f =
     (let s = loadState (clock 0) f in
      case map_of (pf_paired s) (normalizeDeviceId deviceId) of
        None \<Rightarrow> f
      | Some d \<Rightarrow> s\<lparr>pf_paired := AList.update deviceId (patched_device patch d) (pf_paired s)\<rparr>)"

text \<open>The code changes the device it looked up, and stores it under the id that the device holds.\<close>

definition put_device :: "string \<Rightarrow> paired_device \<Rightarrow> pairing_files \<Rightarrow> pairing_files" where
  "put_device key d s = s\<lparr>pf_paired := AList.update (pd_deviceId d) d (AList.update key d (pf_paired s))\<rparr>"

definition put_token :: "string \<Rightarrow> auth_token \<Rightarrow> paired_device \<Rightarrow> paired_device" where
  "put_token role t d = d\<lparr>pd_tokens := Some (AList.update role t (or_default (pd_tokens d) []))\<rparr>"

datatype verify_result = TokenOk | TokenRefused string

definition verifyDeviceToken ::
    "(string \<Rightarrow> string) \<Rightarrow> (nat \<Rightarrow> int) \<Rightarrow> string \<Rightarrow> string \<Rightarrow> string \<Rightarrow> string list \<Rightarrow> pairing_files \<Rightarrow>
     verify_result \<times> pairing_files" where
  "verifyDeviceToken sha clock deviceId token role0 scopes f =
     (let s = loadState (clock 0) f in
      case getPairedDeviceFromState s deviceId of
        None \<Rightarrow> (TokenRefused ''device-not-paired'', f)
      | Some device \<Rightarrow>
          (case normalizeRole (Some role0) of
             None \<Rightarrow> (TokenRefused ''role-missing'', f)
           | Some role \<Rightarrow>
               (case map_of (or_default (pd_tokens device) []) role of
                  None \<Rightarrow> (TokenRefused ''token-missing'', f)
                | Some entry \<Rightarrow>
                    if truthy_ms (dt_revokedAtMs entry) then (TokenRefused ''token-revoked'', f)
                    else if \<not> verifyPairingToken sha token (dt_token entry) then (TokenRefused ''token-mismatch'', f)
                    else if \<not> scopesWithinApprovedDeviceBaseline role (dt_scopes entry) (resolveApprovedDeviceScopeBaseline device)
                      then (TokenRefused ''scope-mismatch'', f)
                    else if \<not> roleScopesAllow role (normalizeDeviceAuthScopes (Some scopes)) (dt_scopes entry)
                      then (TokenRefused ''scope-mismatch'', f)
                    else (TokenOk, put_device (normalizeDeviceId deviceId)
                           (put_token role (entry\<lparr>dt_lastUsedAtMs := Some (clock 1)\<rparr>) device) s))))"

definition resolveDeviceTokenUpdateContext ::
    "pairing_files \<Rightarrow> string \<Rightarrow> string \<Rightarrow> (paired_device \<times> string \<times> (string \<times> auth_token) list \<times> auth_token option) option" where
  "resolveDeviceTokenUpdateContext s deviceId role0 =
     (case (getPairedDeviceFromState s deviceId, normalizeRole (Some role0)) of
        (Some device, Some role) \<Rightarrow> Some (device, role, cloneDeviceTokens device, map_of (cloneDeviceTokens device) role)
      | _ \<Rightarrow> None)"

definition ensureDeviceToken ::
    "(nat \<Rightarrow> int) \<Rightarrow> string \<Rightarrow> string \<Rightarrow> string \<Rightarrow> string list \<Rightarrow> pairing_files \<Rightarrow> auth_token option \<times> pairing_files" where
  "ensureDeviceToken clock fresh deviceId role0 scopes f =
     (let s = loadState (clock 0) f; requestedScopes = normalizeDeviceAuthScopes (Some scopes) in
      case resolveDeviceTokenUpdateContext s deviceId role0 of
        None \<Rightarrow> (None, f)
      | Some (device, role, tokens, existing) \<Rightarrow>
          (let approvedScopes = resolveApprovedDeviceScopeBaseline device in
           if \<not> scopesWithinApprovedDeviceBaseline role requestedScopes approvedScopes then (None, f)
           else
             (let next = buildDeviceAuthToken fresh role requestedScopes existing (clock 1)
                    (if existing = None then None else Some (clock 1));
                  issued = (Some next, put_device (normalizeDeviceId deviceId) (put_token role next device) s)
              in case existing of
                   None \<Rightarrow> issued
                 | Some e \<Rightarrow>
                     if \<not> truthy_ms (dt_revokedAtMs e) \<and> scopesWithinApprovedDeviceBaseline role (dt_scopes e) approvedScopes \<and>
                        roleScopesAllow role requestedScopes (dt_scopes e)
                     then (Some e, f) else issued)))"

datatype rotation = Rotated auth_token | RotationDenied string

definition rotateDeviceToken ::
    "(nat \<Rightarrow> int) \<Rightarrow> string \<Rightarrow> string \<Rightarrow> string \<Rightarrow> string list option \<Rightarrow> pairing_files \<Rightarrow> rotation \<times> pairing_files" where
  "rotateDeviceToken clock fresh deviceId role0 scopes f =
     (let s = loadState (clock 0) f in
      case resolveDeviceTokenUpdateContext s deviceId role0 of
        None \<Rightarrow> (RotationDenied ''unknown-device-or-role'', f)
      | Some (device, role, tokens, existing) \<Rightarrow>
          (let requestedScopes = normalizeDeviceAuthScopes
                 (or_else scopes (or_else (map_option dt_scopes existing) (pd_scopes device)));
               approvedScopes = resolveApprovedDeviceScopeBaseline device
           in if approvedScopes = None then (RotationDenied ''missing-approved-scope-baseline'', f)
              else if \<not> scopesWithinApprovedDeviceBaseline role requestedScopes approvedScopes
                then (RotationDenied ''scope-outside-approved-baseline'', f)
              else
                (let next = buildDeviceAuthToken fresh role requestedScopes existing (clock 1) (Some (clock 1))
                 in (Rotated next, put_device (normalizeDeviceId deviceId) (put_token role next device) s))))"

definition revokeDeviceToken ::
    "(nat \<Rightarrow> int) \<Rightarrow> string \<Rightarrow> string \<Rightarrow> pairing_files \<Rightarrow> auth_token option \<times> pairing_files" where
  "revokeDeviceToken clock deviceId role0 f =
     (let s = loadState (clock 0) f in
      case (getPairedDeviceFromState s deviceId, normalizeRole (Some role0)) of
        (Some device, Some role) \<Rightarrow>
          (case map_of (or_default (pd_tokens device) []) role of
             None \<Rightarrow> (None, f)
           | Some t \<Rightarrow>
               (let entry = t\<lparr>dt_revokedAtMs := Some (clock 1)\<rparr>
                in (Some entry, put_device (normalizeDeviceId deviceId) (put_token role entry device) s)))
      | _ \<Rightarrow> (None, f))"

text \<open>The summary of a device's tokens, without their secrets; \<open>collate\<close> is \<open>localeCompare\<close>.\<close>

record token_summary =
  sm_role :: string
  sm_scopes :: "string list"
  sm_createdAtMs :: int
  sm_rotatedAtMs :: "int option"
  sm_revokedAtMs :: "int option"
  sm_lastUsedAtMs :: "int option"

definition summarizeDeviceTokens ::
    "(string \<Rightarrow> string \<Rightarrow> int) \<Rightarrow> (string \<times> auth_token) list option \<Rightarrow> token_summary list option" where
  "summarizeDeviceTokens collate tokens =
     (case tokens of
        None \<Rightarrow> None
      | Some ts \<Rightarrow>
          (let summaries = sort_with (\<lambda>a b. collate (sm_role a) (sm_role b))
                 (map (\<lambda>(k, t). \<lparr>sm_role = dt_role t, sm_scopes = dt_scopes t, sm_createdAtMs = dt_createdAtMs t,
                    sm_rotatedAtMs = dt_rotatedAtMs t, sm_revokedAtMs = dt_revokedAtMs t,
                    sm_lastUsedAtMs = dt_lastUsedAtMs t\<rparr>) ts)
           in if summaries = [] then None else Some summaries))"

end
