(* ===== verification/DevicePairingProps.thy ===== *)
theory DevicePairingProps
  imports DevicePairing
begin

text \<open>
  What pairing promises, over all sequences of operations on the files: well-formed files with one request per device,
  and request ids that pin what is approved.
\<close>

section \<open>Runs\<close>

datatype pairing_event =
    Request "nat \<Rightarrow> int" string pairing_input
  | Approve "nat \<Rightarrow> int" "nat \<Rightarrow> string" string "string list option"
  | Reject "nat \<Rightarrow> int" string
  | Remove "nat \<Rightarrow> int" string
  | Clear "nat \<Rightarrow> int" string
  | Update "nat \<Rightarrow> int" string device_patch
  | Verify "nat \<Rightarrow> int" string string string "string list"
  | Ensure "nat \<Rightarrow> int" string string string "string list"
  | Rotate "nat \<Rightarrow> int" string string string "string list option"
  | Revoke "nat \<Rightarrow> int" string string

fun pairing_step :: "(string \<Rightarrow> string) \<Rightarrow> pairing_files \<Rightarrow> pairing_event \<Rightarrow> pairing_files" where
  "pairing_step sha f (Request clock uuid req) = snd (requestDevicePairing clock uuid req f)"
| "pairing_step sha f (Approve clock fresh rid cs) = snd (approveDevicePairing clock fresh rid cs f)"
| "pairing_step sha f (Reject clock rid) = snd (rejectDevicePairing clock rid f)"
| "pairing_step sha f (Remove clock dev) = snd (removePairedDevice clock dev f)"
| "pairing_step sha f (Clear clock dev) = snd (clearDevicePairing clock dev f)"
| "pairing_step sha f (Update clock dev p) = updatePairedDeviceMetadata clock dev p f"
| "pairing_step sha f (Verify clock dev t role ss) = snd (verifyDeviceToken sha clock dev t role ss f)"
| "pairing_step sha f (Ensure clock fresh dev role ss) = snd (ensureDeviceToken clock fresh dev role ss f)"
| "pairing_step sha f (Rotate clock fresh dev role ss) = snd (rotateDeviceToken clock fresh dev role ss f)"
| "pairing_step sha f (Revoke clock dev role) = snd (revokeDeviceToken clock dev role f)"

definition no_files :: pairing_files where
  "no_files = \<lparr>pf_pending = [], pf_paired = []\<rparr>"

section \<open>The requests\<close>

text \<open>The instance of \<open>request_table\<close>: the incoming request with the clock, the new id, and whether the device is paired.\<close>

type_synonym incoming = "(nat \<Rightarrow> int) \<times> string \<times> pairing_input \<times> bool"

definition device_refresh :: "incoming \<Rightarrow> pending_request \<Rightarrow> pending_request" where
  "device_refresh i = (case i of (clock, uuid, req, isRepair) \<Rightarrow> refreshPendingDevicePairingRequest (clock 1) isRepair req)"

definition device_build :: "incoming \<Rightarrow> pending_request list \<Rightarrow> pending_request" where
  "device_build i es = (case i of (clock, uuid, req, isRepair) \<Rightarrow>
     buildPendingDevicePairingRequest uuid (clock 1) (normalizeDeviceId (pi_deviceId req)) isRepair (replacement_input req es))"

interpretation dr: request_table pq_requestId pq_deviceId pq_ts
    "\<lambda>(clock, uuid, req, isRepair) e. samePendingApprovalSnapshot e req" device_refresh device_build
    "\<lambda>(clock, uuid, req, isRepair). uuid" "\<lambda>(clock, uuid, req, isRepair). normalizeDeviceId (pi_deviceId req)"
  by unfold_locales (auto simp: device_refresh_def device_build_def refreshPendingDevicePairingRequest_def
      buildPendingDevicePairingRequest_def normalizeDeviceId_def trim_idem Let_def split: prod.split)

abbreviation requests_ok :: "(string \<times> pending_request) list \<Rightarrow> bool" where
  "requests_ok \<equiv> table_ok pq_requestId pq_deviceId"

lemma request_eq:
  "requestDevicePairing clock uuid req f =
     (let s = loadState (clock 0) f; d = normalizeDeviceId (pi_deviceId req) in
      if d = [] then (None, f)
      else (let (r, created, m) = dr.receive (clock, uuid, req, map_of (pf_paired s) d \<noteq> None) (pf_pending s)
            in (Some (r, created), s\<lparr>pf_pending := m\<rparr>)))"
proof -
  have b: "device_build (clock, uuid, req, r) =
      (\<lambda>es. buildPendingDevicePairingRequest uuid (clock 1) (normalizeDeviceId (pi_deviceId req)) r (replacement_input req es))" for r
    by (simp add: device_build_def fun_eq_iff)
  show ?thesis by (simp add: requestDevicePairing_def dr.receive_def device_refresh_def b Let_def)
qed

lemma load_parts [simp]:
  "pf_paired (loadState now f) = pf_paired f"
  "pf_pending (loadState now f) = pruneExpiredPending pq_ts now PENDING_TTL_MS (pf_pending f)"
  by (simp_all add: loadState_def)

lemma request_ok:
  "requests_ok (pf_pending f) \<Longrightarrow> requests_ok (pf_pending (snd (requestDevicePairing clock uuid req f)))"
proof -
  assume "requests_ok (pf_pending f)"
  then have "requests_ok (pf_pending (loadState (clock 0) f))" by (simp add: table_ok_prune)
  from dr.receive_ok [OF this] show ?thesis using \<open>requests_ok (pf_pending f)\<close> by (simp add: request_eq Let_def split_beta)
qed

section \<open>Well-formed files\<close>

text \<open>A record that can be looked up is stored under the id it holds.\<close>

definition paired_ok :: "(string \<times> paired_device) list \<Rightarrow> bool" where
  "paired_ok m \<longleftrightarrow> (\<forall>k d. trim k = k \<longrightarrow> map_of m k = Some d \<longrightarrow> pd_deviceId d = k)"

definition files_ok :: "pairing_files \<Rightarrow> bool" where
  "files_ok f \<longleftrightarrow> requests_ok (pf_pending f) \<and> paired_ok (pf_paired f)"

lemma paired_ok_update: "paired_ok m \<Longrightarrow> trim k \<noteq> k \<or> pd_deviceId d = k \<Longrightarrow> paired_ok (AList.update k d m)"
  by (auto simp: paired_ok_def update_conv')

lemma paired_ok_delete: "paired_ok m \<Longrightarrow> paired_ok (AList.delete k m)"
  by (auto simp: paired_ok_def delete_conv')

lemma id_tight [simp]: "trim (normalizeDeviceId d) = normalizeDeviceId d"
  by (simp add: normalizeDeviceId_def trim_idem)

text \<open>What the operations on one device do to the records: one record under a looked-up id changes, and only in its tokens.\<close>

definition retokened :: "pairing_files \<Rightarrow> string \<Rightarrow> string \<Rightarrow> auth_token \<Rightarrow> pairing_files \<Rightarrow> bool" where
  "retokened f dev role t f' \<longleftrightarrow>
     (\<exists>now d. map_of (pf_paired f) (normalizeDeviceId dev) = Some d \<and>
        f' = put_device (normalizeDeviceId dev) (put_token role t d) (loadState now f))"

lemma verify_cases:
  "snd (verifyDeviceToken sha clock dev t role ss f) = f \<or>
   (\<exists>r d e. normalizeRole (Some role) = Some r \<and> map_of (pf_paired f) (normalizeDeviceId dev) = Some d \<and>
      map_of (or_default (pd_tokens d) []) r = Some e \<and>
      retokened f dev r (e\<lparr>dt_lastUsedAtMs := Some (clock 1)\<rparr>) (snd (verifyDeviceToken sha clock dev t role ss f)))"
  by (auto simp: verifyDeviceToken_def getPairedDeviceFromState_def retokened_def Let_def split: option.splits)

lemma ensure_cases:
  "snd (ensureDeviceToken clock fresh dev role ss f) = f \<or>
   (\<exists>r e rot. normalizeRole (Some role) = Some r \<and>
      retokened f dev r (buildDeviceAuthToken fresh r (normalizeDeviceAuthScopes (Some ss)) e (clock 1) rot)
        (snd (ensureDeviceToken clock fresh dev role ss f)))"
  by (fastforce simp: ensureDeviceToken_def resolveDeviceTokenUpdateContext_def getPairedDeviceFromState_def retokened_def Let_def
      split: option.splits)

lemma rotate_cases:
  "snd (rotateDeviceToken clock fresh dev role ss f) = f \<or>
   (\<exists>r ss' e rot. normalizeRole (Some role) = Some r \<and>
      retokened f dev r (buildDeviceAuthToken fresh r ss' e (clock 1) rot) (snd (rotateDeviceToken clock fresh dev role ss f)))"
  by (fastforce simp: rotateDeviceToken_def resolveDeviceTokenUpdateContext_def getPairedDeviceFromState_def retokened_def Let_def
      split: option.splits)

lemma revoke_cases:
  "snd (revokeDeviceToken clock dev role f) = f \<or>
   (\<exists>r d e. normalizeRole (Some role) = Some r \<and> map_of (pf_paired f) (normalizeDeviceId dev) = Some d \<and>
      map_of (or_default (pd_tokens d) []) r = Some e \<and>
      retokened f dev r (e\<lparr>dt_revokedAtMs := Some (clock 1)\<rparr>) (snd (revokeDeviceToken clock dev role f)))"
  by (auto simp: revokeDeviceToken_def getPairedDeviceFromState_def retokened_def Let_def split: option.splits)

lemma retokened_parts:
  assumes "retokened f dev role t f'" and "paired_ok (pf_paired f)"
  obtains now d where "map_of (pf_paired f) (normalizeDeviceId dev) = Some d" and "pd_deviceId d = normalizeDeviceId dev"
    and "\<And>k. map_of (pf_paired f') k = (if k = normalizeDeviceId dev then Some (put_token role t d) else map_of (pf_paired f) k)"
    and "pf_pending f' = pruneExpiredPending pq_ts now PENDING_TTL_MS (pf_pending f)"
proof -
  obtain now d where d: "map_of (pf_paired f) (normalizeDeviceId dev) = Some d"
    and f': "f' = put_device (normalizeDeviceId dev) (put_token role t d) (loadState now f)"
    using assms(1) by (auto simp: retokened_def)
  have i: "pd_deviceId d = normalizeDeviceId dev" using assms(2) d by (simp add: paired_ok_def)
  show thesis
    by (rule that [OF d i]) (simp_all add: f' put_device_def put_token_def i update_conv')
qed

lemma retokened_ok: "retokened f dev role t f' \<Longrightarrow> files_ok f \<Longrightarrow> files_ok f'"
  by (auto simp: files_ok_def paired_ok_def put_token_def table_ok_prune split: if_splits elim!: retokened_parts)

lemma approve_cases:
  assumes "approveDevicePairing clock fresh rid cs f = (Approved rid' d, f')"
  obtains p where "map_of (pf_pending (loadState (clock 0) f)) rid = Some p" and "approval_refusal cs p = None"
    and "d = approved_device clock fresh p (map_of (pf_paired f) (pq_deviceId p))" and "pd_deviceId d = pq_deviceId p"
    and "f' = \<lparr>pf_pending = AList.delete rid (pf_pending (loadState (clock 0) f)), pf_paired = AList.update (pq_deviceId p) d (pf_paired f)\<rparr>"
proof -
  obtain p where p: "map_of (pf_pending (loadState (clock 0) f)) rid = Some p"
    using assms by (auto simp: approveDevicePairing_def Let_def split: option.splits)
  then have r: "approval_refusal cs p = None"
    using assms by (auto simp: approveDevicePairing_def Let_def split: option.splits)
  let ?d = "approved_device clock fresh p (map_of (pf_paired f) (pq_deviceId p))"
  have i: "pd_deviceId ?d = pq_deviceId p" by (simp add: approved_device_def Let_def)
  have "d = ?d" "f' = (loadState (clock 0) f)\<lparr>pf_pending := AList.delete rid (pf_pending (loadState (clock 0) f)),
      pf_paired := AList.update (pq_deviceId p) ?d (pf_paired f)\<rparr>"
    using assms p r i by (auto simp: approveDevicePairing_def Let_def)
  then show thesis using that [OF p r] i by (cases "loadState (clock 0) f") simp
qed

lemma approve_unchanged:
  "(\<exists>rid' d. fst (approveDevicePairing clock fresh rid cs f) = Approved rid' d) \<or> snd (approveDevicePairing clock fresh rid cs f) = f"
  by (auto simp: approveDevicePairing_def Let_def split: option.splits)

lemma approve_ok: "files_ok f \<Longrightarrow> files_ok (snd (approveDevicePairing clock fresh rid cs f))"
proof (cases "\<exists>rid' d. fst (approveDevicePairing clock fresh rid cs f) = Approved rid' d")
  case True
  then obtain rid' d f' where a: "approveDevicePairing clock fresh rid cs f = (Approved rid' d, f')" by (metis prod.collapse)
  assume "files_ok f"
  with a show ?thesis
    by (auto simp: files_ok_def table_ok_delete table_ok_prune intro!: paired_ok_update elim!: approve_cases)
qed (use approve_unchanged [of clock fresh rid cs f] in auto)

lemma update_ok_files: "files_ok f \<Longrightarrow> files_ok (updatePairedDeviceMetadata clock dev p f)"
proof (cases "map_of (pf_paired f) (normalizeDeviceId dev)")
  case (Some d)
  assume ok: "files_ok f"
  then have "pd_deviceId d = normalizeDeviceId dev" using Some by (simp add: files_ok_def paired_ok_def)
  then have "trim dev \<noteq> dev \<or> pd_deviceId (patched_device p d) = dev"
    by (auto simp: normalizeDeviceId_def patched_device_def)
  then show ?thesis using ok Some
    by (simp add: updatePairedDeviceMetadata_def files_ok_def table_ok_prune paired_ok_update Let_def)
qed (simp add: updatePairedDeviceMetadata_def Let_def)

lemma request_paired: "pf_paired (snd (requestDevicePairing clock uuid req f)) = pf_paired f"
  by (auto simp: requestDevicePairing_def Let_def split: prod.split)

lemma remove_eq:
  "snd (removePairedDevice clock dev f) =
     (if fst (removePairedDevice clock dev f) = None then f
      else (loadState (clock 0) f)\<lparr>pf_paired := AList.delete (normalizeDeviceId dev) (pf_paired f)\<rparr>)"
  by (auto simp: removePairedDevice_def Let_def)

lemma clear_eq:
  "snd (clearDevicePairing clock dev f) =
     (if fst (clearDevicePairing clock dev f)
      then (loadState (clock 0) f)\<lparr>pf_paired := AList.delete (normalizeDeviceId dev) (pf_paired f)\<rparr> else f)"
  by (auto simp: clearDevicePairing_def Let_def)

lemma reject_eq:
  "snd (rejectDevicePairing clock rid f) =
     (if fst (rejectDevicePairing clock rid f) = None then f
      else (loadState (clock 0) f)\<lparr>pf_pending := AList.delete rid (pf_pending (loadState (clock 0) f))\<rparr>)"
  by (auto simp: rejectDevicePairing_def rejectPendingPairingRequest_def Let_def split: option.split)

lemma step_files_ok: "files_ok f \<Longrightarrow> files_ok (pairing_step sha f e)"
proof (induction sha f e rule: pairing_step.induct)
  case (1 sha f clock uuid req)
  then show ?case by (simp add: files_ok_def request_ok request_paired)
next
  case (7 sha f clock dev t role ss)
  then show ?case using verify_cases [of sha clock dev t role ss f] retokened_ok by auto
next
  case (8 sha f clock fresh dev role ss)
  then show ?case using ensure_cases [of clock fresh dev role ss f] retokened_ok by auto
next
  case (9 sha f clock fresh dev role ss)
  then show ?case using rotate_cases [of clock fresh dev role ss f] retokened_ok by auto
next
  case (10 sha f clock dev role)
  then show ?case using revoke_cases [of clock dev role f] retokened_ok by auto
next
  case (2 sha f clock fresh rid cs)
  then show ?case by (simp add: approve_ok)
next
  case (6 sha f clock dev p)
  then show ?case by (simp add: update_ok_files)
qed (simp_all add: remove_eq clear_eq reject_eq files_ok_def table_ok_prune table_ok_delete
  paired_ok_delete)

interpretation pf: invariant_system "pairing_step sha" files_ok for sha
  by unfold_locales (rule step_files_ok)


section \<open>What an approval gives\<close>

definition device_scopes :: "paired_device \<Rightarrow> string set" where
  "device_scopes d = set (or_default (pd_approvedScopes d) []) \<union> set (or_default (pd_scopes d) [])"

lemma set_mergeScopes: "set (or_default (mergeScopes items) []) \<subseteq> (\<Union>i \<in> set items. trim ` set (or_default i []))"
  by (auto simp: mergeScopes_def Let_def or_default_def set_trimmed_names split: if_splits)

lemma approved_scopes:
  "device_scopes (approved_device clock fresh p existing) \<subseteq>
     trim ` ((case existing of None \<Rightarrow> {} | Some d \<Rightarrow> device_scopes d) \<union> set (or_default (pq_scopes p) []))"
  using set_mergeScopes [of "[or_else (Option.bind existing pd_approvedScopes) (Option.bind existing pd_scopes), pq_scopes p]"]
  by (cases existing) (fastforce simp: approved_device_def device_scopes_def Let_def or_else_def or_default_def split: option.splits)+

lemma approved_tokens_lookup:
  "map_of (foldl (approved_token clock fresh p as ex) m nrs) r = Some e \<Longrightarrow>
   map_of m r = Some e \<or> (\<exists>n. dt_token e = fresh n) \<and> r \<in> snd ` set nrs"
proof (induction nrs arbitrary: m)
  case (Cons nr nrs)
  obtain n r' where nr: "nr = (n, r')" by force
  from Cons.IH [of "approved_token clock fresh p as ex m nr"] Cons.prems
  show ?case by (auto simp: nr approved_token_def update_conv' Let_def split: if_splits)
qed simp

lemma approved_tokens:
  "map_of (or_default (pd_tokens (approved_device clock fresh p ex)) []) r = Some e \<Longrightarrow>
   map_of (or_default (Option.bind ex pd_tokens) []) r = Some e \<or>
   (\<exists>n. dt_token e = fresh n) \<and> r \<in> set (resolveRequestedRoles (pq_role p) (pq_roles p))"
proof -
  assume "map_of (or_default (pd_tokens (approved_device clock fresh p ex)) []) r = Some e"
  then have "map_of (foldl (approved_token clock fresh p (pd_approvedScopes (approved_device clock fresh p ex)) ex)
      (or_default (Option.bind ex pd_tokens) []) (enumerate 0 (resolveRequestedRoles (pq_role p) (pq_roles p)))) r = Some e"
    by (simp add: approved_device_def or_default_def Let_def)
  from approved_tokens_lookup [OF this] show ?thesis by (auto simp: in_set_enumerate_eq)
qed

lemma reachable_files_ok: "files_ok (foldl (pairing_step sha) no_files es)"
  using pf.run_all_inv [of no_files sha es] by (simp add: files_ok_def no_files_def table_ok_def paired_ok_def)

section \<open>What a request id stands for\<close>

definition same_request :: "pending_request \<Rightarrow> pending_request \<Rightarrow> bool" where
  "same_request p p' \<longleftrightarrow> pq_deviceId p = pq_deviceId p' \<and> pq_publicKey p = pq_publicKey p' \<and> pq_role p = pq_role p' \<and>
     pq_roles p = pq_roles p' \<and> pq_scopes p = pq_scopes p'"

abbreviation pinned :: "string \<Rightarrow> pending_request \<Rightarrow> (string \<times> pending_request) list \<Rightarrow> bool" where
  "pinned rid p \<equiv> held rid (same_request p)"

lemmas pinned_prune = held_prune [where rid = pq_requestId and subject = pq_deviceId]

fun other_id :: "string \<Rightarrow> pairing_event \<Rightarrow> bool" where
  "other_id rid (Request clock uuid req) = (uuid \<noteq> rid)"
| "other_id rid _ = True"

lemma request_pinned:
  assumes ok: "requests_ok (pf_pending f)" and pin: "pinned rid p (pf_pending f)" and u: "uuid \<noteq> rid"
  shows "pinned rid p (pf_pending (snd (requestDevicePairing clock uuid req f)))"
proof -
  let ?m = "pf_pending (loadState (clock 0) f)" and ?d = "normalizeDeviceId (pi_deviceId req)"
  have s: "requests_ok ?m" "pinned rid p ?m" using ok pin by (simp_all add: table_ok_prune pinned_prune)
  have "pinned rid p m'" if r: "dr.receive (clock, uuid, req, b) ?m = (r, created, m')" for b r created m'
    using dr.receive_cases [OF s(1) r]
  proof (elim disjE bexE conjE exE)
    fix e
    assume e: "e \<in> snd ` set ?m" "(\<lambda>(clock, uuid, req, isRepair) e. samePendingApprovalSnapshot e req) (clock, uuid, req, b) e"
      and re: "r = device_refresh (clock, uuid, req, b) e" and m': "m' = AList.update (pq_requestId e) r ?m"
    have "same_request p r" if "pq_requestId e = rid"
      using table_value [OF s(1) e(1)] s(2) that e(2)
      by (simp add: held_def same_request_def re device_refresh_def refreshPendingDevicePairingRequest_def samePendingApprovalSnapshot_def)
    then show ?thesis using m' held_update [OF s(2)] by simp
  next
    assume "m' = AList.update ((\<lambda>(clock, uuid, req, isRepair). uuid) (clock, uuid, req, b)) r
        (filter (\<lambda>(k, p). pq_deviceId p \<noteq> (\<lambda>(clock, uuid, req, isRepair). normalizeDeviceId (pi_deviceId req)) (clock, uuid, req, b)) ?m)"
    then show ?thesis using held_update [OF held_filter [OF s]] u by simp
  qed
  then show ?thesis using pin by (auto simp: request_eq Let_def split: prod.split)
qed

lemma retokened_pinned: "retokened f dev role t f' \<Longrightarrow> files_ok f \<Longrightarrow> pinned rid p (pf_pending f) \<Longrightarrow> pinned rid p (pf_pending f')"
  by (auto simp: retokened_def put_device_def pinned_prune files_ok_def)

lemma step_pinned:
  "files_ok f \<Longrightarrow> pinned rid p (pf_pending f) \<Longrightarrow> other_id rid e \<Longrightarrow> pinned rid p (pf_pending (pairing_step sha f e))"
proof (induction sha f e rule: pairing_step.induct)
  case (1 sha f clock uuid req)
  then show ?case by (simp add: files_ok_def request_pinned)
next
  case (2 sha f clock fresh rid' cs)
  then show ?case by (auto simp: approveDevicePairing_def files_ok_def held_delete pinned_prune Let_def split: option.split)
next
  case (6 sha f clock dev p)
  then show ?case by (auto simp: updatePairedDeviceMetadata_def files_ok_def pinned_prune Let_def split: option.split)
next
  case (7 sha f clock dev t role ss)
  then show ?case using verify_cases [of sha clock dev t role ss f] retokened_pinned by auto
next
  case (8 sha f clock fresh dev role ss)
  then show ?case using ensure_cases [of clock fresh dev role ss f] retokened_pinned by auto
next
  case (9 sha f clock fresh dev role ss)
  then show ?case using rotate_cases [of clock fresh dev role ss f] retokened_pinned by auto
next
  case (10 sha f clock dev role)
  then show ?case using revoke_cases [of clock dev role f] retokened_pinned by auto
qed (simp_all add: remove_eq clear_eq reject_eq files_ok_def pinned_prune held_delete)

lemma run_pinned:
  "files_ok f \<Longrightarrow> pinned rid p (pf_pending f) \<Longrightarrow> list_all (other_id rid) es \<Longrightarrow>
   pinned rid p (pf_pending (foldl (pairing_step sha) f es)) \<and> files_ok (foldl (pairing_step sha) f es)"
  by (induction es arbitrary: f) (simp_all add: step_pinned step_files_ok)


section \<open>Examples\<close>

definition demo_info :: device_info where
  "demo_info = \<lparr>di_displayName = None, di_platform = None, di_deviceFamily = None, di_clientId = None, di_clientMode = None,
     di_remoteIp = None\<rparr>"

definition demo_request :: "string list \<Rightarrow> pairing_input" where
  "demo_request scopes = \<lparr>pi_deviceId = ''d'', pi_publicKey = ''k'', pi_info = demo_info, pi_role = Some ''operator'', pi_roles = None,
     pi_scopes = Some scopes, pi_silent = None\<rparr>"

definition at_ms :: "int \<Rightarrow> nat \<Rightarrow> int" where "at_ms t n = t"

definition tok :: "string \<Rightarrow> nat \<Rightarrow> string" where "tok s n = s"

definition demo_pairing :: "pairing_event list" where
  "demo_pairing = [Request (at_ms 1) ''r'' (demo_request [''operator.write'']),
     Approve (at_ms 2) (tok ''t'') ''r'' (Some [''operator.admin''])]"


text \<open>A record is looked up under the trimmed id and stored under the id as given: an update with a blank in the id
  leaves a second record, and the first without the update.\<close>

theorem untrimmed_update_duplicates:
  "map fst (pf_paired (updatePairedDeviceMetadata (at_ms 3) ''d '' 
     \<lparr>dp_publicKey = None, dp_displayName = None, dp_platform = None, dp_deviceFamily = None, dp_clientId = None,
      dp_clientMode = None, dp_remoteIp = None, dp_role = None, dp_scopes = None, dp_tokens = None\<rparr>
     (foldl (pairing_step id) no_files demo_pairing))) = [''d'', ''d '']"
  by code_simp

end
