(* ===== verification/DeviceTokenProps.thy ===== *)
theory DeviceTokenProps
  imports DevicePairingProps
begin

text \<open>
  What the tokens of paired devices promise, over all sequences of operations on the files: an operator scope only by
  the approval of someone who has it, and tokens that stay dead once they are revoked or rotated.
\<close>

lemma verify_ok_cases:
  assumes "fst (verifyDeviceToken sha clock dev token role ss f) = TokenOk"
  shows "\<exists>d r e. map_of (pf_paired f) (normalizeDeviceId dev) = Some d \<and> normalizeRole (Some role) = Some r \<and>
     map_of (or_default (pd_tokens d) []) r = Some e \<and> \<not> truthy_ms (dt_revokedAtMs e) \<and> verifyPairingToken sha token (dt_token e) \<and>
     scopesWithinApprovedDeviceBaseline r (dt_scopes e) (resolveApprovedDeviceScopeBaseline d) \<and>
     roleScopesAllow r (normalizeDeviceAuthScopes (Some ss)) (dt_scopes e)"
  using assms by (auto simp: verifyDeviceToken_def getPairedDeviceFromState_def Let_def split: option.splits if_splits)

section \<open>Who vouched for a scope\<close>

lemma covers_trim: "trim a = trim b \<Longrightarrow> covers granted a = covers granted b"
  by (simp add: covers_def)

lemma operator_scope_trim: "trim a = trim b \<Longrightarrow> operator_scope a = operator_scope b"
  by (simp add: operator_scope_def)

lemma allow_operator_scope:
  assumes "roleScopesAllow role ss allowed" and "s \<in> set ss" and "operator_scope s"
  shows "covers allowed s"
proof (cases "trim role = OPERATOR_ROLE")
  case True
  have "trim OPERATOR_ROLE = OPERATOR_ROLE" by code_simp
  with True have "roleScopesAllow OPERATOR_ROLE ss allowed" using assms(1) by (simp add: roleScopesAllow_def Let_def split: if_splits)
  then show ?thesis using assms(2,3) operator_scope_nonempty by (auto simp: allow_covers)
next
  case False
  then show ?thesis using allow_member [OF False assms(1,2)] operator_scope_nonempty [OF assms(3)] covers_member by blast
qed

text \<open>The files, and per device the scopes of everyone who approved a request of it since it was last removed.\<close>

record vouched_files =
  vf_files :: pairing_files
  vf_vouched :: "string \<Rightarrow> string list"

definition no_vouchers :: vouched_files where
  "no_vouchers = \<lparr>vf_files = no_files, vf_vouched = (\<lambda>_. [])\<rparr>"

definition vouchers_after :: "pairing_files \<Rightarrow> pairing_event \<Rightarrow> (string \<Rightarrow> string list) \<Rightarrow> string \<Rightarrow> string list" where
  "vouchers_after f e v =
     (case e of
        Approve clock fresh rid cs \<Rightarrow>
          (case fst (approveDevicePairing clock fresh rid cs f) of
             Approved _ d \<Rightarrow> v(pd_deviceId d := v (pd_deviceId d) @ or_default cs [])
           | _ \<Rightarrow> v)
      | Remove clock dev \<Rightarrow> (case fst (removePairedDevice clock dev f) of Some d \<Rightarrow> v(d := []) | None \<Rightarrow> v)
      | Clear clock dev \<Rightarrow> if fst (clearDevicePairing clock dev f) then v(normalizeDeviceId dev := []) else v
      | _ \<Rightarrow> v)"

definition vouched_step :: "(string \<Rightarrow> string) \<Rightarrow> vouched_files \<Rightarrow> pairing_event \<Rightarrow> vouched_files" where
  "vouched_step sha w e =
     \<lparr>vf_files = pairing_step sha (vf_files w) e, vf_vouched = vouchers_after (vf_files w) e (vf_vouched w)\<rparr>"

text \<open>The gateway updates a device's record only after it checked the scopes that the client asks for against the record's,
  and never its key or its tokens.\<close>

definition recorded_scopes :: "paired_device \<Rightarrow> string list" where
  "recorded_scopes d = or_default (or_else (pd_scopes d) (pd_approvedScopes d)) []"

definition gateway_patch :: "pairing_files \<Rightarrow> string \<Rightarrow> device_patch \<Rightarrow> bool" where
  "gateway_patch f dev p \<longleftrightarrow> dp_publicKey p = None \<and> dp_tokens p = None \<and>
     (case map_of (pf_paired f) (normalizeDeviceId dev) of
        None \<Rightarrow> True
      | Some d \<Rightarrow> roleScopesAllow (or_default (dp_role p) []) (or_default (dp_scopes p) []) (recorded_scopes d))"

fun gateway_event :: "vouched_files \<Rightarrow> pairing_event \<Rightarrow> bool" where
  "gateway_event w (Update clock dev p) = gateway_patch (vf_files w) dev p"
| "gateway_event w _ = True"

fun gateway_events :: "(string \<Rightarrow> string) \<Rightarrow> vouched_files \<Rightarrow> pairing_event list \<Rightarrow> bool" where
  "gateway_events sha w [] = True"
| "gateway_events sha w (e # es) = (gateway_event w e \<and> gateway_events sha (vouched_step sha w e) es)"

definition vouched :: "string list \<Rightarrow> string set \<Rightarrow> bool" where
  "vouched v ss \<longleftrightarrow> (\<forall>s \<in> ss. operator_scope s \<longrightarrow> covers v s)"

definition vouched_ok :: "vouched_files \<Rightarrow> bool" where
  "vouched_ok w \<longleftrightarrow> files_ok (vf_files w) \<and>
     (\<forall>k d. trim k = k \<longrightarrow> map_of (pf_paired (vf_files w)) k = Some d \<longrightarrow> vouched (vf_vouched w k) (device_scopes d))"

lemma vouched_trim: "vouched v ss \<Longrightarrow> vouched v (trim ` ss)"
  by (auto simp: vouched_def trim_idem covers_def operator_scope_def)

lemma vouched_mono: "vouched v ss \<Longrightarrow> set v \<subseteq> set v' \<Longrightarrow> ts \<subseteq> ss \<Longrightarrow> vouched v' ts"
  by (auto simp: vouched_def intro: covers_mono)

lemma vouched_Un: "vouched v (a \<union> b) \<longleftrightarrow> vouched v a \<and> vouched v b"
  by (auto simp: vouched_def)

lemma missing_none: "resolveMissingRequestedScope role ss allowed = None \<Longrightarrow> s \<in> set ss \<Longrightarrow> roleScopesAllow role [s] allowed"
  by (auto simp: resolveMissingRequestedScope_def find_None_iff)

text \<open>An approval goes through only when the approver has every operator scope that is asked for.\<close>

lemma approval_vouches:
  assumes "approval_refusal cs p = None"
  shows "vouched (or_default cs []) (set (or_default (pq_scopes p) []))"
proof (unfold vouched_def, intro ballI impI)
  fix s
  assume s: "s \<in> set (or_default (pq_scopes p) [])" and op: "operator_scope s"
  then obtain ss where ss: "pq_scopes p = Some ss" "s \<in> set ss" by (cases "pq_scopes p") (auto simp: or_default_def)
  have "trim s \<in> set (normalizeDeviceAuthScopes (Some ss))"
    using ss(2) operator_scope_nonempty [OF op] by (auto simp: normal_scopes_set)
  then have t: "trim s \<in> set (filter (\<lambda>s. starts_with s OPERATOR_SCOPE_PREFIX) (normalizeDeviceAuthScopes (pq_scopes p)))"
    using op ss by (simp add: operator_scope_def)
  then obtain first rest where r: "filter (\<lambda>s. starts_with s OPERATOR_SCOPE_PREFIX) (normalizeDeviceAuthScopes (pq_scopes p)) = first # rest"
    by (cases "filter (\<lambda>s. starts_with s OPERATOR_SCOPE_PREFIX) (normalizeDeviceAuthScopes (pq_scopes p))") auto
  with assms obtain c where c: "cs = Some c" "resolveMissingRequestedScope ''operator'' (first # rest) c = None"
    by (auto simp: approval_refusal_def Let_def split: option.splits if_splits)
  have "roleScopesAllow ''operator'' [trim s] c"
    using missing_none [OF c(2)] t unfolding r by blast
  then have "covers c (trim s)" using allow_operator_scope [of "''operator''" "[trim s]" c "trim s"] op
    by (simp add: operator_scope_def trim_idem)
  then show "covers (or_default cs []) s" using covers_trim [of s "trim s"] by (simp add: c(1) or_default_def trim_idem)
qed

lemma patched_scopes:
  "device_scopes (patched_device p d) \<subseteq> device_scopes d \<union> trim ` device_scopes d \<union> trim ` set (or_default (dp_scopes p) [])"
  using set_mergeScopes [of "[pd_scopes d, dp_scopes p]"] by (auto simp: patched_device_def device_scopes_def)

lemma recorded_subset: "set (recorded_scopes d) \<subseteq> device_scopes d"
  by (auto simp: recorded_scopes_def device_scopes_def or_else_def or_default_def split: option.splits)

lemma retokened_vouched:
  assumes "retokened (vf_files w) dev role t f'" and "vouched_ok w"
  shows "\<forall>k d. trim k = k \<longrightarrow> map_of (pf_paired f') k = Some d \<longrightarrow> vouched (vf_vouched w k) (device_scopes d)"
proof -
  have ok: "paired_ok (pf_paired (vf_files w))" using assms(2) by (simp add: vouched_ok_def files_ok_def)
  have same: "device_scopes (put_token role t d) = device_scopes d" for d by (simp add: put_token_def device_scopes_def)
  obtain d0 where "map_of (pf_paired (vf_files w)) (normalizeDeviceId dev) = Some d0"
    "\<And>k. map_of (pf_paired f') k = (if k = normalizeDeviceId dev then Some (put_token role t d0) else map_of (pf_paired (vf_files w)) k)"
    using retokened_parts [OF assms(1) ok] by metis
  then show ?thesis using assms(2) by (auto simp: vouched_ok_def same split: if_splits)
qed

lemma approve_vouched:
  assumes ok: "vouched_ok w" and a: "approveDevicePairing clock fresh rid cs (vf_files w) = (Approved rid' d, f')"
    and k: "trim k = k" "map_of (pf_paired f') k = Some d'"
  shows "vouched (((vf_vouched w)(pd_deviceId d := vf_vouched w (pd_deviceId d) @ or_default cs [])) k) (device_scopes d')"
proof -
  obtain p where p: "approval_refusal cs p = None" and d: "pd_deviceId d = pq_deviceId p"
    "d = approved_device clock fresh p (map_of (pf_paired (vf_files w)) (pq_deviceId p))"
    and f': "pf_paired f' = AList.update (pq_deviceId p) d (pf_paired (vf_files w))"
    using a by (auto elim!: approve_cases)
  show ?thesis
  proof (cases "k = pq_deviceId p")
    case True
    have old: "vouched (vf_vouched w k) (case map_of (pf_paired (vf_files w)) k of None \<Rightarrow> {} | Some d \<Rightarrow> device_scopes d)"
      using ok k(1) by (auto simp: vouched_ok_def vouched_def split: option.split)
    have "vouched (vf_vouched w k @ or_default cs [])
        ((case map_of (pf_paired (vf_files w)) k of None \<Rightarrow> {} | Some d \<Rightarrow> device_scopes d) \<union> set (or_default (pq_scopes p) []))"
      using vouched_mono [OF old, of "vf_vouched w k @ or_default cs []"]
        vouched_mono [OF approval_vouches [OF p], of "vf_vouched w k @ or_default cs []"] by (simp add: vouched_Un)
    from vouched_trim [OF this] have "vouched (vf_vouched w k @ or_default cs []) (device_scopes d)"
      using approved_scopes [of clock fresh p "map_of (pf_paired (vf_files w)) (pq_deviceId p)"] d(2) True
      by (auto intro: vouched_mono)
    moreover have "d' = d" using k(2) f' True by (simp add: update_conv')
    ultimately show ?thesis using d(1) True by simp
  next
    case False
    then have "map_of (pf_paired (vf_files w)) k = Some d'" using k(2) f' by (simp add: update_conv')
    then show ?thesis using ok k(1) False d(1) by (simp add: vouched_ok_def)
  qed
qed

lemma patch_vouched:
  assumes ok: "vouched_ok w" and g: "gateway_patch (vf_files w) dev p"
    and k: "trim k = k" "map_of (pf_paired (updatePairedDeviceMetadata clock dev p (vf_files w))) k = Some d'"
  shows "vouched (vf_vouched w k) (device_scopes d')"
proof (cases "map_of (pf_paired (vf_files w)) (normalizeDeviceId dev)")
  case None
  then show ?thesis using ok k by (simp add: updatePairedDeviceMetadata_def vouched_ok_def Let_def)
next
  case (Some d)
  show ?thesis
  proof (cases "k = dev")
    case True
    then have n: "normalizeDeviceId dev = k" using k(1) by (simp add: normalizeDeviceId_def)
    have d': "d' = patched_device p d" using k(2) Some True by (simp add: updatePairedDeviceMetadata_def update_conv' Let_def)
    have v: "vouched (vf_vouched w k) (device_scopes d)" using ok k(1) Some n by (simp add: vouched_ok_def)
    have allow: "roleScopesAllow (or_default (dp_role p) []) (or_default (dp_scopes p) []) (recorded_scopes d)"
      using g Some by (simp add: gateway_patch_def)
    have "vouched (vf_vouched w k) (set (or_default (dp_scopes p) []))"
    proof (unfold vouched_def, intro ballI impI)
      fix s
      assume s: "s \<in> set (or_default (dp_scopes p) [])" "operator_scope s"
      show "covers (vf_vouched w k) s"
        by (rule covers_trans [OF allow_operator_scope [OF allow s] s(2)])
          (use v recorded_subset in \<open>auto simp: vouched_def\<close>)
    qed
    then have "vouched (vf_vouched w k) (device_scopes d \<union> trim ` device_scopes d \<union> trim ` set (or_default (dp_scopes p) []))"
      using v vouched_trim by (simp add: vouched_Un)
    then show ?thesis using patched_scopes [of p d] d' by (auto intro: vouched_mono)
  next
    case False
    then show ?thesis using ok k Some by (simp add: updatePairedDeviceMetadata_def update_conv' vouched_ok_def Let_def)
  qed
qed


lemma vouched_step_ok: "vouched_ok w \<Longrightarrow> gateway_event w e \<Longrightarrow> vouched_ok (vouched_step sha w e)"
proof -
  assume ok: "vouched_ok w" and g: "gateway_event w e"
  let ?f = "vf_files w" and ?v = "vf_vouched w"
  have files: "files_ok (pairing_step sha ?f e)" using ok step_files_ok by (simp add: vouched_ok_def)
  have old: "vouched (?v k) (device_scopes d)" if "trim k = k" "map_of (pf_paired ?f) k = Some d" for k d
    using ok that by (simp add: vouched_ok_def)
  have "vouched (vouchers_after ?f e ?v k) (device_scopes d)"
    if k: "trim k = k" "map_of (pf_paired (pairing_step sha ?f e)) k = Some d" for k d
  proof (cases e)
    case (Approve clock fresh rid cs)
    show ?thesis
    proof (cases "\<exists>rid' d'. fst (approveDevicePairing clock fresh rid cs ?f) = Approved rid' d'")
      case True
      then obtain rid' d' f' where a: "approveDevicePairing clock fresh rid cs ?f = (Approved rid' d', f')" by (metis prod.collapse)
      show ?thesis using approve_vouched [OF ok a k(1)] k(2) by (simp add: Approve a vouchers_after_def)
    next
      case False
      then show ?thesis using approve_unchanged [of clock fresh rid cs ?f] old k
        by (auto simp: Approve vouchers_after_def split: approval.split)
    qed
  next
    case (Update clock dev p)
    then show ?thesis using patch_vouched [OF ok _ k(1)] g k(2) by (auto simp: vouchers_after_def)
  next
    case (Remove clock dev)
    then show ?thesis using old k
      by (auto simp: vouchers_after_def remove_eq delete_conv' removePairedDevice_def vouched_def Let_def split: if_splits option.splits)
  next
    case (Clear clock dev)
    then show ?thesis using old k by (auto simp: vouchers_after_def clear_eq delete_conv' split: if_splits)
  next
    case (Verify clock dev t role ss)
    then show ?thesis using verify_cases [of sha clock dev t role ss ?f] retokened_vouched [OF _ ok] old k
      by (auto simp: vouchers_after_def)
  next
    case (Ensure clock fresh dev role ss)
    then show ?thesis using ensure_cases [of clock fresh dev role ss ?f] retokened_vouched [OF _ ok] old k
      by (auto simp: vouchers_after_def)
  next
    case (Rotate clock fresh dev role ss)
    then show ?thesis using rotate_cases [of clock fresh dev role ss ?f] retokened_vouched [OF _ ok] old k
      by (auto simp: vouchers_after_def)
  next
    case (Revoke clock dev role)
    then show ?thesis using revoke_cases [of clock dev role ?f] retokened_vouched [OF _ ok] old k
      by (auto simp: vouchers_after_def)
  qed (use old k in \<open>auto simp: vouchers_after_def request_paired reject_eq split: if_splits\<close>)
  with files show ?thesis by (simp add: vouched_ok_def vouched_step_def)
qed

interpretation vf: guarded_system "vouched_step sha" vouched_ok gateway_event for sha
  by unfold_locales (rule vouched_step_ok)

lemma gateway_run: "gateway_events sha w es = vf.run_ok sha w es"
  by (induction es arbitrary: w) simp_all

lemma vouched_start: "vouched_ok no_vouchers"
  by (simp add: vouched_ok_def no_vouchers_def no_files_def files_ok_def table_ok_def paired_ok_def)

lemma verified_scopes:
  assumes "fst (verifyDeviceToken sha clock dev token role ss f) = TokenOk" and "s \<in> set ss" and "operator_scope s"
  shows "\<exists>d. map_of (pf_paired f) (normalizeDeviceId dev) = Some d \<and> (\<forall>v. vouched v (device_scopes d) \<longrightarrow> covers v s)"
proof -
  obtain d r and e :: auth_token where d: "map_of (pf_paired f) (normalizeDeviceId dev) = Some d"
    and base: "scopesWithinApprovedDeviceBaseline r (dt_scopes e) (resolveApprovedDeviceScopeBaseline d)"
    and allow: "roleScopesAllow r (normalizeDeviceAuthScopes (Some ss)) (dt_scopes e)"
    using verify_ok_cases [OF assms(1)] by blast
  obtain b where b: "or_else (pd_approvedScopes d) (pd_scopes d) = Some b" "roleScopesAllow r (dt_scopes e) (normalizeDeviceAuthScopes (Some b))"
    using base by (auto simp: scopesWithinApprovedDeviceBaseline_def resolveApprovedDeviceScopeBaseline_def split: option.splits)
  have sub: "set b \<subseteq> device_scopes d" using b(1) by (auto simp: device_scopes_def or_else_def or_default_def split: option.splits)
  have op: "operator_scope (trim s)" using assms(3) by (simp add: operator_scope_def trim_idem)
  have "trim s \<in> set (normalizeDeviceAuthScopes (Some ss))"
    using assms(2) operator_scope_nonempty [OF assms(3)] by (auto simp: normal_scopes_set)
  from allow_operator_scope [OF allow this op] have token: "covers (dt_scopes e) (trim s)" .
  have "covers v s" if v: "vouched v (device_scopes d)" for v
  proof -
    have bv: "covers v g" if "g \<in> set (normalizeDeviceAuthScopes (Some b))" "operator_scope g" for g
      by (rule covers_trans [OF normal_scopes_covered [OF that(1)] that(2)]) (use v sub in \<open>auto simp: vouched_def\<close>)
    have ev: "covers v g" if "g \<in> set (dt_scopes e)" "operator_scope g" for g
      by (rule covers_trans [OF allow_operator_scope [OF b(2) that] that(2)]) (rule bv)
    have "covers v (trim s)" by (rule covers_trans [OF token op]) (rule ev)
    then show ?thesis using covers_trim [of s "trim s"] by (simp add: trim_idem)
  qed
  with d show ?thesis by blast
qed

text \<open>C9: No device has an operator scope that nobody with it approved. After any sequence of operations from empty files, with
  record updates as the gateway makes them: when a device's token is accepted with some scopes, every operator scope
  among them is covered by the scopes of those who approved requests of this device since it was last removed, as
  the scopes of operators cover each other (admin all, write read).\<close>

theorem operator_scopes_vouched:
  assumes "gateway_events sha no_vouchers es"
    and "fst (verifyDeviceToken sha clock dev token role ss (vf_files (foldl (vouched_step sha) no_vouchers es))) = TokenOk"
    and "s \<in> set ss" and "operator_scope s"
  shows "covers (vf_vouched (foldl (vouched_step sha) no_vouchers es) (normalizeDeviceId dev)) s"
proof -
  have "vouched_ok (foldl (vouched_step sha) no_vouchers es)"
    by (rule vf.run_inv [OF vouched_start]) (use assms(1) gateway_run in simp)
  then show ?thesis using verified_scopes [OF assms(2-4)] by (auto simp: vouched_ok_def)
qed


theorem operator_scopes_vouched_witness:
  "fst (verifyDeviceToken id (at_ms 3) ''d'' ''t'' ''operator'' [''operator.read'']
     (vf_files (foldl (vouched_step id) no_vouchers demo_pairing))) = TokenOk \<and>
   covers (vf_vouched (foldl (vouched_step id) no_vouchers demo_pairing) ''d'') ''operator.read''"
proof -
  have g: "gateway_events id no_vouchers demo_pairing" by code_simp
  have v: "fst (verifyDeviceToken id (at_ms 3) ''d'' ''t'' ''operator'' [''operator.read'']
     (vf_files (foldl (vouched_step id) no_vouchers demo_pairing))) = TokenOk" by code_simp
  have o': "operator_scope ''operator.read''" and n: "normalizeDeviceId ''d'' = ''d''" by code_simp+
  show ?thesis using operator_scopes_vouched [OF g v _ o'] v n by simp
qed

section \<open>Dead tokens\<close>

definition dead :: "(string \<Rightarrow> string) \<Rightarrow> string \<Rightarrow> string \<Rightarrow> string \<Rightarrow> pairing_files \<Rightarrow> bool" where
  "dead sha t k r f \<longleftrightarrow> files_ok f \<and> trim k = k \<and>
     (\<forall>d e. map_of (pf_paired f) k = Some d \<longrightarrow> map_of (or_default (pd_tokens d) []) r = Some e \<longrightarrow>
        truthy_ms (dt_revokedAtMs e) \<or> sha (dt_token e) \<noteq> sha t)"

text \<open>Events that do not issue the token again, by chance or by a record update, and whose clock is after the epoch.\<close>

fun no_reissue :: "(string \<Rightarrow> string) \<Rightarrow> string \<Rightarrow> pairing_event \<Rightarrow> bool" where
  "no_reissue sha t (Approve clock fresh rid cs) = (\<forall>n. sha (fresh n) \<noteq> sha t)"
| "no_reissue sha t (Ensure clock fresh dev role ss) = (sha fresh \<noteq> sha t)"
| "no_reissue sha t (Rotate clock fresh dev role ss) = (sha fresh \<noteq> sha t)"
| "no_reissue sha t (Update clock dev p) = (dp_tokens p = None)"
| "no_reissue sha t (Revoke clock dev role) = (clock 1 \<noteq> 0)"
| "no_reissue sha t _ = True"

lemma retokened_dead:
  assumes "retokened f dev r' t' f'" and "dead sha t k r f"
    and "k = normalizeDeviceId dev \<Longrightarrow> r' = r \<Longrightarrow> truthy_ms (dt_revokedAtMs t') \<or> sha (dt_token t') \<noteq> sha t"
  shows "dead sha t k r f'"
proof -
  have ok: "paired_ok (pf_paired f)" using assms(2) by (simp add: dead_def files_ok_def)
  obtain d0 where "map_of (pf_paired f) (normalizeDeviceId dev) = Some d0"
    "\<And>k. map_of (pf_paired f') k = (if k = normalizeDeviceId dev then Some (put_token r' t' d0) else map_of (pf_paired f) k)"
    using retokened_parts [OF assms(1) ok] by metis
  then show ?thesis using assms(2,3) retokened_ok [OF assms(1)]
    by (auto simp: dead_def put_token_def or_default_def update_conv' split: if_splits)
qed

lemma step_dead: "dead sha t k r f \<Longrightarrow> no_reissue sha t e \<Longrightarrow> dead sha t k r (pairing_step sha f e)"
proof -
  assume d: "dead sha t k r f" and n: "no_reissue sha t e"
  have files: "files_ok (pairing_step sha f e)" using d step_files_ok by (simp add: dead_def)
  have old: "truthy_ms (dt_revokedAtMs e) \<or> sha (dt_token e) \<noteq> sha t"
    if "map_of (pf_paired f) k = Some d'" "map_of (or_default (pd_tokens d') []) r = Some e" for d' e
    using d that by (simp add: dead_def)
  show ?thesis
  proof (cases e)
    case (Request clock uuid req)
    then show ?thesis using files d by (simp add: dead_def request_paired)
  next
    case (Approve clock fresh rid cs)
    show ?thesis
    proof (cases "\<exists>rid' d'. fst (approveDevicePairing clock fresh rid cs f) = Approved rid' d'")
      case True
      then obtain rid' d' f' where a: "approveDevicePairing clock fresh rid cs f = (Approved rid' d', f')" by (metis prod.collapse)
      then obtain p where p: "d' = approved_device clock fresh p (map_of (pf_paired f) (pq_deviceId p))"
        "pf_paired f' = AList.update (pq_deviceId p) d' (pf_paired f)" by (auto elim!: approve_cases)
      have "truthy_ms (dt_revokedAtMs e) \<or> sha (dt_token e) \<noteq> sha t"
        if k: "k = pq_deviceId p" and e: "map_of (or_default (pd_tokens d') []) r = Some e" for e
        using approved_tokens [OF e [unfolded p(1)]]
      proof
        assume "map_of (or_default (Option.bind (map_of (pf_paired f) (pq_deviceId p)) pd_tokens) []) r = Some e"
        then show ?thesis using old k by (cases "map_of (pf_paired f) (pq_deviceId p)") (auto simp: or_default_def)
      qed (use n Approve in auto)
      then show ?thesis using files d p(2) by (auto simp: dead_def Approve a update_conv' split: if_splits)
    qed (use approve_unchanged [of clock fresh rid cs f] d Approve in auto)
  next
    case (Update clock dev p)
    show ?thesis
    proof (cases "map_of (pf_paired f) (normalizeDeviceId dev)")
      case (Some d')
      have same: "pd_tokens (patched_device p d') = pd_tokens d'" using n Update by (simp add: patched_device_def or_default_def)
      have n: "normalizeDeviceId k = k" using d by (simp add: dead_def normalizeDeviceId_def)
      have "pf_paired (pairing_step sha f e) = AList.update dev (patched_device p d') (pf_paired f)"
        using Some by (simp add: Update updatePairedDeviceMetadata_def Let_def)
      moreover have "truthy_ms (dt_revokedAtMs e') \<or> sha (dt_token e') \<noteq> sha t"
        if "dev = k" "map_of (or_default (pd_tokens (patched_device p d')) []) r = Some e'" for e'
        by (rule old) (use that Some n in \<open>simp_all add: same\<close>)
      ultimately show ?thesis using files d by (auto simp: dead_def update_conv' split: if_splits)
    qed (use d in \<open>simp add: Update updatePairedDeviceMetadata_def Let_def\<close>)
  next
    case (Verify clock dev t' role ss)
    from verify_cases [of sha clock dev t' role ss f] show ?thesis
    proof (elim disjE exE conjE)
      fix r' d' e'
      assume h: "map_of (pf_paired f) (normalizeDeviceId dev) = Some d'" "map_of (or_default (pd_tokens d') []) r' = Some e'"
        "retokened f dev r' (e'\<lparr>dt_lastUsedAtMs := Some (clock 1)\<rparr>) (snd (verifyDeviceToken sha clock dev t' role ss f))"
      show ?thesis unfolding Verify pairing_step.simps by (rule retokened_dead [OF h(3) d]) (use old h in auto)
    qed (use d Verify in simp)
  next
    case (Ensure clock fresh dev role ss)
    then show ?thesis using ensure_cases [of clock fresh dev role ss f] retokened_dead [OF _ d] d n
      by (auto simp: buildDeviceAuthToken_def)
  next
    case (Rotate clock fresh dev role ss)
    then show ?thesis using rotate_cases [of clock fresh dev role ss f] retokened_dead [OF _ d] d n
      by (auto simp: buildDeviceAuthToken_def)
  next
    case (Revoke clock dev role)
    then show ?thesis using revoke_cases [of clock dev role f] retokened_dead [OF _ d] d n
      by (auto simp: truthy_ms_def)
  next
    case (Remove clock dev)
    then show ?thesis using files d by (auto simp: dead_def remove_eq delete_conv' split: if_splits)
  next
    case (Clear clock dev)
    then show ?thesis using files d by (auto simp: dead_def clear_eq delete_conv' split: if_splits)
  next
    case (Reject clock rid)
    then show ?thesis using files d by (auto simp: dead_def reject_eq split: if_splits)
  qed
qed

lemma run_dead: "dead sha t k r f \<Longrightarrow> list_all (no_reissue sha t) es \<Longrightarrow> dead sha t k r (foldl (pairing_step sha) f es)"
  by (induction es arbitrary: f) (simp_all add: step_dead)

lemma dead_refused:
  "dead sha t (normalizeDeviceId dev) r f \<Longrightarrow> normalizeRole (Some role) = Some r \<Longrightarrow>
   fst (verifyDeviceToken sha clock dev t role ss f) \<noteq> TokenOk"
  by (auto simp: dead_def verifyPairingToken_def safeEqualSecret_def dest!: verify_ok_cases split: if_splits)

lemma retokened_dead_start:
  "retokened f dev r e f' \<Longrightarrow> files_ok f \<Longrightarrow> truthy_ms (dt_revokedAtMs e) \<or> sha (dt_token e) \<noteq> sha t \<Longrightarrow>
   dead sha t (normalizeDeviceId dev) r f'"
proof -
  assume h: "retokened f dev r e f'" "files_ok f" "truthy_ms (dt_revokedAtMs e) \<or> sha (dt_token e) \<noteq> sha t"
  then obtain d0 where "\<And>k. map_of (pf_paired f') k = (if k = normalizeDeviceId dev then Some (put_token r e d0) else map_of (pf_paired f) k)"
    using retokened_parts [OF h(1)] unfolding files_ok_def by metis
  then show ?thesis using h(3) retokened_ok [OF h(1,2)] by (simp add: dead_def put_token_def or_default_def update_conv')
qed

text \<open>C28: A revoked token is dead. Whatever operations run after a token of a device is revoked, short of drawing the
  same random token again, no request that presents it is accepted, with whatever scopes: rotating, renewing or
  approving again gives the device other tokens and does not bring this one back.\<close>

theorem revoked_token_dead:
  assumes "revokeDeviceToken clock dev role (foldl (pairing_step sha) no_files before) = (Some e, f)" and "clock 1 \<noteq> 0"
    and "list_all (no_reissue sha (dt_token e)) after"
  shows "fst (verifyDeviceToken sha clock' dev (dt_token e) role ss (foldl (pairing_step sha) f after)) \<noteq> TokenOk"
proof -
  let ?f0 = "foldl (pairing_step sha) no_files before"
  obtain r d t where r: "normalizeRole (Some role) = Some r" and e: "e = t\<lparr>dt_revokedAtMs := Some (clock 1)\<rparr>"
    and re: "retokened ?f0 dev r e f"
    using assms(1)
    by (auto simp: revokeDeviceToken_def getPairedDeviceFromState_def retokened_def Let_def split: option.splits)
  have "dead sha (dt_token e) (normalizeDeviceId dev) r f"
    by (rule retokened_dead_start [OF re reachable_files_ok]) (use assms(2) in \<open>simp add: e truthy_ms_def\<close>)
  from dead_refused [OF run_dead [OF this assms(3)] r] show ?thesis .
qed

text \<open>A rotated token is dead as well: after a rotation, no later request that presents the token from before is
  accepted.\<close>

theorem rotated_token_dead:
  assumes "rotateDeviceToken clock fresh dev role scopes (foldl (pairing_step sha) no_files before) = (Rotated e, f)"
    and "sha fresh \<noteq> sha old" and "list_all (no_reissue sha old) after"
  shows "fst (verifyDeviceToken sha clock' dev old role ss (foldl (pairing_step sha) f after)) \<noteq> TokenOk"
proof -
  let ?f0 = "foldl (pairing_step sha) no_files before"
  obtain r where r: "normalizeRole (Some role) = Some r" and re: "retokened ?f0 dev r e f" and e: "dt_token e = fresh"
    using assms(1)
    by (fastforce simp: rotateDeviceToken_def resolveDeviceTokenUpdateContext_def getPairedDeviceFromState_def retokened_def
        buildDeviceAuthToken_def Let_def split: option.splits if_splits)
  have "dead sha old (normalizeDeviceId dev) r f"
    by (rule retokened_dead_start [OF re reachable_files_ok]) (simp add: e assms(2))
  from dead_refused [OF run_dead [OF this assms(3)] r] show ?thesis .
qed


theorem revoked_token_dead_witness:
  "fst (verifyDeviceToken id (at_ms 5) ''d'' ''t'' ''operator'' []
     (foldl (pairing_step id)
       (snd (revokeDeviceToken (at_ms 3) ''d'' ''operator'' (foldl (pairing_step id) no_files demo_pairing)))
       [Rotate (at_ms 4) ''u'' ''d'' ''operator'' None])) \<noteq> TokenOk"
proof -
  define f0 where "f0 = foldl (pairing_step id) no_files demo_pairing"
  have "map_option dt_token (fst (revokeDeviceToken (at_ms 3) ''d'' ''operator'' f0)) = Some ''t''"
    unfolding f0_def by code_simp
  then obtain e where e: "revokeDeviceToken (at_ms 3) ''d'' ''operator'' f0 = (Some e, snd (revokeDeviceToken (at_ms 3) ''d'' ''operator'' f0))"
    "dt_token e = ''t''" by (auto simp: prod_eq_iff)
  have n: "list_all (no_reissue id (dt_token e)) [Rotate (at_ms 4) ''u'' ''d'' ''operator'' None]" by (simp add: e(2))
  have c: "at_ms 3 1 \<noteq> 0" by (simp add: at_ms_def)
  show ?thesis using revoked_token_dead [OF e(1) [unfolded f0_def] c n] e(2) by (simp add: f0_def)
qed

theorem rotated_token_dead_witness:
  "fst (verifyDeviceToken id (at_ms 5) ''d'' ''t'' ''operator'' []
     (snd (rotateDeviceToken (at_ms 3) ''u'' ''d'' ''operator'' None (foldl (pairing_step id) no_files demo_pairing)))) \<noteq> TokenOk"
proof -
  define f0 where "f0 = foldl (pairing_step id) no_files demo_pairing"
  have "case fst (rotateDeviceToken (at_ms 3) ''u'' ''d'' ''operator'' None f0) of Rotated e \<Rightarrow> True | RotationDenied m \<Rightarrow> False"
    unfolding f0_def by code_simp
  then obtain e where e: "rotateDeviceToken (at_ms 3) ''u'' ''d'' ''operator'' None f0 =
      (Rotated e, snd (rotateDeviceToken (at_ms 3) ''u'' ''d'' ''operator'' None f0))"
    by (auto simp: prod_eq_iff split: rotation.splits)
  have d: "id ''u'' \<noteq> id ''t''" by simp
  have "fst (verifyDeviceToken id (at_ms 5) ''d'' ''t'' ''operator'' []
     (foldl (pairing_step id) (snd (rotateDeviceToken (at_ms 3) ''u'' ''d'' ''operator'' None f0)) [])) \<noteq> TokenOk"
    by (rule rotated_token_dead [OF e [unfolded f0_def] d, folded f0_def]) simp
  then show ?thesis by (simp add: f0_def del: fst_conv)
qed

end
