(* ===== verification/NodePairing.thy ===== *)
theory NodePairing
  imports OperatorScopes PairingRequests
begin

text \<open>
  Pairing of nodes: \<open>src/infra/node-pairing.ts\<close>. As for devices, an operation is a function from the two files to the
  answer and the files after it, \<open>clock n\<close> is its \<open>n\<close>-th reading of the clock, and random ids and tokens are arguments.
\<close>

section \<open>Data\<close>

record node_info =
  ni_displayName :: "string option"
  ni_platform :: "string option"
  ni_version :: "string option"
  ni_coreVersion :: "string option"
  ni_uiVersion :: "string option"
  ni_deviceFamily :: "string option"
  ni_modelIdentifier :: "string option"
  ni_caps :: "string list option"
  ni_commands :: "string list option"
  ni_permissions :: "(string \<times> bool) list option"
  ni_remoteIp :: "string option"

record node_input =
  nq_nodeId :: string
  nq_info :: node_info
  nq_silent :: "bool option"

record pending_node =
  np_requestId :: string
  np_nodeId :: string
  np_info :: node_info
  np_silent :: "bool option"
  np_ts :: int

record paired_node =
  pn_nodeId :: string
  pn_info :: node_info
  pn_token :: string
  pn_bins :: "string list option"
  pn_createdAtMs :: int
  pn_approvedAtMs :: int
  pn_lastConnectedAtMs :: "int option"

record node_files =
  nf_pending :: "(string \<times> pending_node) list"
  nf_paired :: "(string \<times> paired_node) list"

definition NODE_PENDING_TTL_MS :: int where "NODE_PENDING_TTL_MS = 5 * 60 * 1000"
definition NODE_SYSTEM_RUN_COMMANDS :: "string list" where
  "NODE_SYSTEM_RUN_COMMANDS = [''system.run.prepare'', ''system.run'', ''system.which'']"

section \<open>Requests\<close>

definition loadNodes :: "int \<Rightarrow> node_files \<Rightarrow> node_files" where
  "loadNodes now f = f\<lparr>nf_pending := pruneExpiredPending np_ts now NODE_PENDING_TTL_MS (nf_pending f)\<rparr>"

definition normalizeNodeId :: "string \<Rightarrow> string" where
  "normalizeNodeId nodeId = trim nodeId"

definition normalizeStringList :: "string list option \<Rightarrow> string list option" where
  "normalizeStringList values = map_option (\<lambda>vs. filter (\<lambda>v. v \<noteq> []) (map trim vs)) values"

definition normal_lists :: "node_info \<Rightarrow> node_info" where
  "normal_lists i = i\<lparr>ni_caps := normalizeStringList (ni_caps i), ni_commands := normalizeStringList (ni_commands i)\<rparr>"

definition buildPendingNodePairingRequest :: "string \<Rightarrow> int \<Rightarrow> node_input \<Rightarrow> pending_node" where
  "buildPendingNodePairingRequest requestId now req =
     \<lparr>np_requestId = requestId, np_nodeId = nq_nodeId req, np_info = normal_lists (nq_info req), np_silent = nq_silent req,
      np_ts = now\<rparr>"

definition or_old :: "'a option \<Rightarrow> 'a option \<Rightarrow> 'a option" where
  "or_old new old = (case new of None \<Rightarrow> old | Some v \<Rightarrow> Some v)"

definition merge_info :: "node_info \<Rightarrow> node_info \<Rightarrow> node_info" where
  "merge_info new old =
     \<lparr>ni_displayName = or_old (ni_displayName new) (ni_displayName old), ni_platform = or_old (ni_platform new) (ni_platform old),
      ni_version = or_old (ni_version new) (ni_version old), ni_coreVersion = or_old (ni_coreVersion new) (ni_coreVersion old),
      ni_uiVersion = or_old (ni_uiVersion new) (ni_uiVersion old), ni_deviceFamily = or_old (ni_deviceFamily new) (ni_deviceFamily old),
      ni_modelIdentifier = or_old (ni_modelIdentifier new) (ni_modelIdentifier old), ni_caps = or_old (ni_caps new) (ni_caps old),
      ni_commands = or_old (ni_commands new) (ni_commands old), ni_permissions = or_old (ni_permissions new) (ni_permissions old),
      ni_remoteIp = or_old (ni_remoteIp new) (ni_remoteIp old)\<rparr>"

definition refreshPendingNodePairingRequest :: "int \<Rightarrow> node_input \<Rightarrow> pending_node \<Rightarrow> pending_node" where
  "refreshPendingNodePairingRequest now incoming existing =
     existing\<lparr>np_info := merge_info (normal_lists (nq_info incoming)) (np_info existing),
       np_silent := Some (or_default (np_silent existing) False \<and> or_default (nq_silent incoming) False), np_ts := now\<rparr>"

definition replacing_input :: "node_input \<Rightarrow> pending_node list \<Rightarrow> node_input" where
  "replacing_input incoming existing =
     incoming\<lparr>nq_silent := Some (or_default (nq_silent incoming) False \<and> list_all (\<lambda>p. np_silent p = Some True) existing)\<rparr>"

text \<open>\<open>None\<close> is the exception for a missing id.\<close>

definition requestNodePairing ::
    "(nat \<Rightarrow> int) \<Rightarrow> string \<Rightarrow> node_input \<Rightarrow> node_files \<Rightarrow> (pending_node \<times> bool) option \<times> node_files" where
  "requestNodePairing clock uuid req f =
     (let s = loadNodes (clock 0) f; nodeId = normalizeNodeId (nq_nodeId req) in
      if nodeId = [] then (None, f)
      else
        (let incoming = req\<lparr>nq_nodeId := nodeId\<rparr>;
             (request, created, pending) = reconcilePendingPairingRequests np_requestId (nf_pending s)
               (pending_of np_ts np_nodeId nodeId (nf_pending s)) (\<lambda>e. True)
               (refreshPendingNodePairingRequest (clock 1) incoming)
               (\<lambda>existing. buildPendingNodePairingRequest uuid (clock 1) (replacing_input incoming existing))
         in (Some (request, created), s\<lparr>nf_pending := pending\<rparr>)))"

section \<open>Approvals\<close>

definition resolveNodeApprovalRequiredScope :: "pending_node \<Rightarrow> string option" where
  "resolveNodeApprovalRequiredScope pending =
     (let commands = or_default (ni_commands (np_info pending)) [] in
      if list_ex (\<lambda>c. c \<in> set NODE_SYSTEM_RUN_COMMANDS) commands then Some OPERATOR_ADMIN_SCOPE
      else if commands \<noteq> [] then Some OPERATOR_WRITE_SCOPE else None)"

datatype node_approval = NoSuchNodeRequest | NodeForbidden string | NodeApproved string paired_node

definition approved_node :: "int \<Rightarrow> string \<Rightarrow> pending_node \<Rightarrow> paired_node option \<Rightarrow> paired_node" where
  "approved_node now token pending existing =
     \<lparr>pn_nodeId = np_nodeId pending, pn_info = np_info pending, pn_token = token, pn_bins = None,
      pn_createdAtMs = (case existing of None \<Rightarrow> now | Some e \<Rightarrow> pn_createdAtMs e), pn_approvedAtMs = now,
      pn_lastConnectedAtMs = None\<rparr>"

text \<open>\<open>options\<close> is missing for an approval from the host itself; inside it the scopes may be missing.\<close>

definition node_refusal :: "string list option option \<Rightarrow> pending_node \<Rightarrow> string option" where
  "node_refusal options pending =
     (case (resolveNodeApprovalRequiredScope pending, options) of
        (Some required, Some callerScopes) \<Rightarrow>
          resolveMissingRequestedScope OPERATOR_ROLE [required] (or_default callerScopes [])
      | _ \<Rightarrow> None)"

definition approveNodePairing ::
    "(nat \<Rightarrow> int) \<Rightarrow> string \<Rightarrow> string \<Rightarrow> string list option option \<Rightarrow> node_files \<Rightarrow> node_approval \<times> node_files" where
  "approveNodePairing clock token requestId options f =
     (let s = loadNodes (clock 0) f in
      case map_of (nf_pending s) requestId of
        None \<Rightarrow> (NoSuchNodeRequest, f)
      | Some pending \<Rightarrow>
          (case node_refusal options pending of
             Some missing \<Rightarrow> (NodeForbidden missing, f)
           | None \<Rightarrow>
               (let node = approved_node (clock 1) token pending (map_of (nf_paired s) (np_nodeId pending))
                in (NodeApproved requestId node,
                    s\<lparr>nf_pending := AList.delete requestId (nf_pending s),
                      nf_paired := AList.update (np_nodeId pending) node (nf_paired s)\<rparr>))))"

definition rejectNodePairing :: "(nat \<Rightarrow> int) \<Rightarrow> string \<Rightarrow> node_files \<Rightarrow> (string \<times> string) option \<times> node_files" where
  "rejectNodePairing clock requestId f =
     (let s = loadNodes (clock 0) f in
      case rejectPendingPairingRequest requestId np_nodeId (nf_pending s) of
        None \<Rightarrow> (None, f)
      | Some (nodeId, pending) \<Rightarrow> (Some (requestId, nodeId), s\<lparr>nf_pending := pending\<rparr>))"

section \<open>Paired nodes\<close>

definition listNodePairing :: "int \<Rightarrow> node_files \<Rightarrow> pending_node list \<times> paired_node list" where
  "listNodePairing now f =
     (let s = loadNodes now f in
      (sort_with (\<lambda>a b. np_ts b - np_ts a) (map snd (nf_pending s)),
       sort_with (\<lambda>a b. pn_approvedAtMs b - pn_approvedAtMs a) (map snd (nf_paired s))))"

definition getPairedNode :: "int \<Rightarrow> string \<Rightarrow> node_files \<Rightarrow> paired_node option" where
  "getPairedNode now nodeId f = map_of (nf_paired (loadNodes now f)) (normalizeNodeId nodeId)"

definition verifyNodeToken :: "(string \<Rightarrow> string) \<Rightarrow> int \<Rightarrow> string \<Rightarrow> string \<Rightarrow> node_files \<Rightarrow> paired_node option" where
  "verifyNodeToken sha now nodeId token f =
     (case map_of (nf_paired (loadNodes now f)) (normalizeNodeId nodeId) of
        None \<Rightarrow> None
      | Some node \<Rightarrow> if verifyPairingToken sha token (pn_token node) then Some node else None)"

record node_patch =
  nt_info :: node_info
  nt_bins :: "string list option"
  nt_lastConnectedAtMs :: "int option"

definition patched_node :: "node_patch \<Rightarrow> paired_node \<Rightarrow> paired_node" where
  "patched_node p n =
     n\<lparr>pn_info := merge_info (nt_info p) (pn_info n), pn_bins := or_old (nt_bins p) (pn_bins n),
       pn_lastConnectedAtMs := or_old (nt_lastConnectedAtMs p) (pn_lastConnectedAtMs n)\<rparr>"

definition updatePairedNodeMetadata :: "(nat \<Rightarrow> int) \<Rightarrow> string \<Rightarrow> node_patch \<Rightarrow> node_files \<Rightarrow> node_files" where
  "updatePairedNodeMetadata clock nodeId patch f =
     (let s = loadNodes (clock 0) f; normalized = normalizeNodeId nodeId in
      case map_of (nf_paired s) normalized of
        None \<Rightarrow> f
      | Some n \<Rightarrow> s\<lparr>nf_paired := AList.update normalized (patched_node patch n) (nf_paired s)\<rparr>)"

text \<open>The exception for an empty name is the left part.\<close>

definition renamePairedNode ::
    "(nat \<Rightarrow> int) \<Rightarrow> string \<Rightarrow> string \<Rightarrow> node_files \<Rightarrow> (string + paired_node option) \<times> node_files" where
  "renamePairedNode clock nodeId displayName f =
     (let s = loadNodes (clock 0) f; normalized = normalizeNodeId nodeId in
      case map_of (nf_paired s) normalized of
        None \<Rightarrow> (Inr None, f)
      | Some n \<Rightarrow>
          (if trim displayName = [] then (Inl ''displayName required'', f)
           else (let next = n\<lparr>pn_info := (pn_info n)\<lparr>ni_displayName := Some (trim displayName)\<rparr>\<rparr>
                 in (Inr (Some next), s\<lparr>nf_paired := AList.update normalized next (nf_paired s)\<rparr>))))"

section \<open>What it promises\<close>

text \<open>
  What the pairing of nodes promises: well-formed files with one request per node, a token that is always the one of
  the latest approval, and that a client of the gateway approves commands only with the scope for them; and how a
  node changes its request under the eyes of the approver.
\<close>

section \<open>Runs\<close>

datatype node_event =
    NodeRequest "nat \<Rightarrow> int" string node_input
  | NodeApprove "nat \<Rightarrow> int" string string "string list option option"
  | NodeReject "nat \<Rightarrow> int" string
  | NodeUpdate "nat \<Rightarrow> int" string node_patch
  | NodeRename "nat \<Rightarrow> int" string string

text \<open>The files, and the token of the latest approval of each node.\<close>

record node_world =
  nw_files :: node_files
  nw_latest :: "string \<Rightarrow> string option"

fun node_step :: "node_world \<Rightarrow> node_event \<Rightarrow> node_world" where
  "node_step w (NodeRequest clock uuid req) = w\<lparr>nw_files := snd (requestNodePairing clock uuid req (nw_files w))\<rparr>"
| "node_step w (NodeApprove clock token rid options) =
     (case approveNodePairing clock token rid options (nw_files w) of
        (NodeApproved _ n, f) \<Rightarrow> \<lparr>nw_files = f, nw_latest = (nw_latest w)(pn_nodeId n := Some token)\<rparr>
      | (_, f) \<Rightarrow> w\<lparr>nw_files := f\<rparr>)"
| "node_step w (NodeReject clock rid) = w\<lparr>nw_files := snd (rejectNodePairing clock rid (nw_files w))\<rparr>"
| "node_step w (NodeUpdate clock i p) = w\<lparr>nw_files := updatePairedNodeMetadata clock i p (nw_files w)\<rparr>"
| "node_step w (NodeRename clock i name) = w\<lparr>nw_files := snd (renamePairedNode clock i name (nw_files w))\<rparr>"

definition no_nodes :: node_world where
  "no_nodes = \<lparr>nw_files = \<lparr>nf_pending = [], nf_paired = []\<rparr>, nw_latest = (\<lambda>_. None)\<rparr>"

section \<open>The requests\<close>

definition node_refresh :: "(nat \<Rightarrow> int) \<times> string \<times> node_input \<Rightarrow> pending_node \<Rightarrow> pending_node" where
  "node_refresh i = (case i of (clock, uuid, req) \<Rightarrow>
     refreshPendingNodePairingRequest (clock 1) (req\<lparr>nq_nodeId := normalizeNodeId (nq_nodeId req)\<rparr>))"

definition node_build :: "(nat \<Rightarrow> int) \<times> string \<times> node_input \<Rightarrow> pending_node list \<Rightarrow> pending_node" where
  "node_build i es = (case i of (clock, uuid, req) \<Rightarrow>
     buildPendingNodePairingRequest uuid (clock 1) (replacing_input (req\<lparr>nq_nodeId := normalizeNodeId (nq_nodeId req)\<rparr>) es))"

interpretation nr: request_table np_requestId np_nodeId np_ts "\<lambda>(clock, uuid, req) e. True" node_refresh node_build
    "\<lambda>(clock, uuid, req). uuid" "\<lambda>(clock, uuid, req). normalizeNodeId (nq_nodeId req)"
  by unfold_locales (auto simp: node_refresh_def node_build_def refreshPendingNodePairingRequest_def replacing_input_def
      buildPendingNodePairingRequest_def normalizeNodeId_def trim_idem split: prod.split)

abbreviation node_requests_ok :: "(string \<times> pending_node) list \<Rightarrow> bool" where
  "node_requests_ok \<equiv> table_ok np_requestId np_nodeId"

lemma load_nodes [simp]:
  "nf_paired (loadNodes now f) = nf_paired f"
  "nf_pending (loadNodes now f) = pruneExpiredPending np_ts now NODE_PENDING_TTL_MS (nf_pending f)"
  by (simp_all add: loadNodes_def)

lemma node_request_eq:
  "requestNodePairing clock uuid req f =
     (let s = loadNodes (clock 0) f in
      if normalizeNodeId (nq_nodeId req) = [] then (None, f)
      else (let (r, created, m) = nr.receive (clock, uuid, req) (nf_pending s) in (Some (r, created), s\<lparr>nf_pending := m\<rparr>)))"
proof -
  have b: "node_build (clock, uuid, req) = (\<lambda>es. buildPendingNodePairingRequest uuid (clock 1)
      (replacing_input (req\<lparr>nq_nodeId := normalizeNodeId (nq_nodeId req)\<rparr>) es))" by (simp add: node_build_def fun_eq_iff)
  show ?thesis by (simp add: requestNodePairing_def nr.receive_def node_refresh_def b Let_def)
qed

section \<open>The token of the latest approval\<close>

definition node_world_ok :: "node_world \<Rightarrow> bool" where
  "node_world_ok w \<longleftrightarrow> node_requests_ok (nf_pending (nw_files w)) \<and>
     (\<forall>k n. map_of (nf_paired (nw_files w)) k = Some n \<longrightarrow> nw_latest w k = Some (pn_token n))"

lemma node_step_ok: "node_world_ok w \<Longrightarrow> node_world_ok (node_step w e)"
proof -
  assume ok: "node_world_ok w"
  then have p: "node_requests_ok (nf_pending (nw_files w))" by (simp add: node_world_ok_def)
  have s: "node_requests_ok (nf_pending (loadNodes now (nw_files w)))" for now using p by (simp add: table_ok_prune)
  show ?thesis
  proof (cases e)
    case (NodeRequest clock uuid req)
    have "node_requests_ok (nf_pending (snd (requestNodePairing clock uuid req (nw_files w))))"
      using nr.receive_ok [OF s, of "(clock, uuid, req)" "clock 0"] p by (simp add: node_request_eq Let_def split_beta)
    moreover have "nf_paired (snd (requestNodePairing clock uuid req (nw_files w))) = nf_paired (nw_files w)"
      by (simp add: node_request_eq Let_def split_beta)
    ultimately show ?thesis using ok by (simp add: NodeRequest node_world_ok_def)
  next
    case (NodeApprove clock token rid options)
    then show ?thesis using ok s
      by (auto simp: node_world_ok_def approveNodePairing_def approved_node_def update_conv' table_ok_delete table_ok_prune Let_def
          split: option.split)
  next
    case (NodeReject clock rid)
    then show ?thesis using ok
      by (auto simp: node_world_ok_def rejectNodePairing_def rejectPendingPairingRequest_def table_ok_delete table_ok_prune Let_def
          split: option.split)
  next
    case (NodeUpdate clock i p)
    then show ?thesis using ok
      by (auto simp: node_world_ok_def updatePairedNodeMetadata_def patched_node_def update_conv' table_ok_prune Let_def
          split: option.split)
  next
    case (NodeRename clock i name)
    then show ?thesis using ok
      by (auto simp: node_world_ok_def renamePairedNode_def update_conv' table_ok_prune Let_def split: option.split)
  qed
qed

interpretation nw: invariant_system node_step node_world_ok
  by unfold_locales (rule node_step_ok)

lemma node_run_ok: "node_world_ok (foldl node_step no_nodes es)"
  by (rule nw.run_all_inv) (simp add: node_world_ok_def no_nodes_def table_ok_def)

text \<open>A node has one token, the one of its latest approval. Over all sequences of operations from empty files, every
  request is stored under its own id and no node has two, and a token is accepted only when it is, up to its digest,
  the token of the latest approval of that node; updates of the record, renaming and new requests never change it.\<close>

theorem node_token_is_latest:
  "let w = foldl node_step no_nodes es in
   node_requests_ok (nf_pending (nw_files w)) \<and>
   (case verifyNodeToken sha now nodeId token (nw_files w) of
      None \<Rightarrow> True
    | Some n \<Rightarrow> (case nw_latest w (normalizeNodeId nodeId) of
         None \<Rightarrow> False
       | Some latest \<Rightarrow> pn_token n = latest \<and> sha token = sha latest))"
  using node_run_ok [of es]
  by (auto simp: node_world_ok_def verifyNodeToken_def verifyPairingToken_def safeEqualSecret_def Let_def split: option.split)

section \<open>The scope of the approver\<close>

text \<open>A client of the gateway pairs a node that can run commands only with the scope for it: with an administrator's
  when the node offers to run, prepare or look up programs, and with a writer's when it offers any command.\<close>

theorem node_approval_needs_scope:
  assumes "fst (approveNodePairing clock token rid (Some callerScopes) f) = NodeApproved rid' n"
    and "or_default (ni_commands (pn_info n)) [] \<noteq> []"
  shows "covers (or_default callerScopes []) OPERATOR_WRITE_SCOPE \<and>
    (set (or_default (ni_commands (pn_info n)) []) \<inter> set NODE_SYSTEM_RUN_COMMANDS \<noteq> {} \<longrightarrow>
       OPERATOR_ADMIN_SCOPE \<in> trim ` set (or_default callerScopes []))"
proof -
  obtain p where p: "node_refusal (Some callerScopes) p = None" "pn_info n = np_info p"
    using assms(1) by (auto simp: approveNodePairing_def approved_node_def Let_def split: option.splits)
  have admin: "covers cs OPERATOR_ADMIN_SCOPE \<longleftrightarrow> OPERATOR_ADMIN_SCOPE \<in> trim ` set cs" for cs
  proof -
    have "OPERATOR_ADMIN_SCOPE \<noteq> []" by code_simp
    then show ?thesis by (auto simp: covers_def operatorScopeSatisfied_def set_normal)
  qed
  have "covers cs OPERATOR_WRITE_SCOPE" if "OPERATOR_ADMIN_SCOPE \<in> trim ` set cs" for cs
  proof -
    have "OPERATOR_ADMIN_SCOPE \<noteq> []" "starts_with OPERATOR_WRITE_SCOPE OPERATOR_SCOPE_PREFIX" by code_simp+
    then show ?thesis using that by (simp add: covers_def operatorScopeSatisfied_def set_normal)
  qed
  moreover have need: "resolveMissingRequestedScope OPERATOR_ROLE [s] cs = None \<longleftrightarrow> trim s = [] \<or> covers cs s" for s cs
    by (simp add: resolveMissingRequestedScope_def allow_one)
  moreover have "OPERATOR_ADMIN_SCOPE \<noteq> []" "OPERATOR_WRITE_SCOPE \<noteq> []" by code_simp+
  ultimately show ?thesis
    using p(1) assms(2) admin
    by (auto simp: node_refusal_def resolveNodeApprovalRequiredScope_def p(2) need list_ex_iff Let_def split: if_splits)
qed

section \<open>Examples\<close>

definition plain_node :: node_info where
  "plain_node = \<lparr>ni_displayName = None, ni_platform = None, ni_version = None, ni_coreVersion = None, ni_uiVersion = None,
     ni_deviceFamily = None, ni_modelIdentifier = None, ni_caps = None, ni_commands = None, ni_permissions = None, ni_remoteIp = None\<rparr>"

definition ask_node :: "string list \<Rightarrow> node_input" where
  "ask_node commands = \<lparr>nq_nodeId = ''n'', nq_info = plain_node\<lparr>ni_commands := Some commands\<rparr>, nq_silent = None\<rparr>"

theorem node_approval_needs_scope_witness:
  "\<exists>n. fst (approveNodePairing (\<lambda>_. 2) ''t'' ''r'' (Some (Some [''operator.admin'']))
      (nw_files (foldl node_step no_nodes [NodeRequest (\<lambda>_. 1) ''r'' (ask_node [''system.run''])]))) = NodeApproved ''r'' n \<and>
    covers [''operator.admin''] OPERATOR_WRITE_SCOPE"
proof -
  let ?f = "nw_files (foldl node_step no_nodes [NodeRequest (\<lambda>_. 1) ''r'' (ask_node [''system.run''])])"
  have "case fst (approveNodePairing (\<lambda>_. 2) ''t'' ''r'' (Some (Some [''operator.admin''])) ?f) of
      NodeApproved r n \<Rightarrow> r = ''r'' \<and> or_default (ni_commands (pn_info n)) [] \<noteq> [] | _ \<Rightarrow> False" by code_simp
  then obtain n where n: "fst (approveNodePairing (\<lambda>_. 2) ''t'' ''r'' (Some (Some [''operator.admin''])) ?f) = NodeApproved ''r'' n"
    "or_default (ni_commands (pn_info n)) [] \<noteq> []"
    by (auto simp del: foldl.simps split: node_approval.splits)
  from node_approval_needs_scope [OF n] n(1) show ?thesis by (simp add: or_default_def del: foldl.simps)
qed

text \<open>Unlike a device's, a node's request may change under its id: the approver was shown a node that only notifies, and
  approves one that runs programs.\<close>

theorem node_request_repointed:
  "(let shown = nw_files (foldl node_step no_nodes [NodeRequest (\<lambda>_. 1) ''r'' (ask_node [''system.notify''])]);
        later = snd (requestNodePairing (\<lambda>_. 2) ''s'' (ask_node [''system.run'']) shown)
    in map_option (\<lambda>p. ni_commands (np_info p)) (map_of (nf_pending shown) ''r'') = Some (Some [''system.notify'']) \<and>
       (case fst (approveNodePairing (\<lambda>_. 3) ''t'' ''r'' (Some (Some [''operator.admin''])) later) of
          NodeApproved r n \<Rightarrow> ni_commands (pn_info n) = Some [''system.run''] | _ \<Rightarrow> False))"
  by code_simp

end
