(* ===== verification/DmPolicy.thy ===== *)
theory DmPolicy
  imports AuthProfiles
begin

text \<open>
  Which messages of a channel reach the agent, and which of them may carry commands: \<open>src/security/dm-policy-shared.ts\<close>
  with \<open>src/channels/allow-from.ts\<close>, \<open>allowlist-match.ts\<close>, \<open>command-gating.ts\<close> and \<open>mention-gating.ts\<close>,
  \<open>src/plugin-sdk/group-access.ts\<close> and \<open>src/config/runtime-group-policy.ts\<close>. The numbers that an allowlist may hold
  are given in their decimal form. \<open>isSenderAllowed\<close> is an argument, as in the code.
\<close>

section \<open>Lists of allowed senders\<close>

definition mergeDmAllowFromSources :: "string list option \<Rightarrow> string list option \<Rightarrow> string option \<Rightarrow> string list" where
  "mergeDmAllowFromSources allowFrom storeAllowFrom dmPolicy =
     (let storeEntries = (if dmPolicy = Some ''allowlist'' then [] else or_default storeAllowFrom []) in
      filter (\<lambda>s. s \<noteq> []) (map trim (or_default allowFrom [] @ storeEntries)))"

definition resolveGroupAllowFromSources :: "string list option \<Rightarrow> string list option \<Rightarrow> bool option \<Rightarrow> string list" where
  "resolveGroupAllowFromSources allowFrom groupAllowFrom fallbackToAllowFrom =
     (let scoped = (case groupAllowFrom of
          Some (e # es) \<Rightarrow> e # es
        | _ \<Rightarrow> if fallbackToAllowFrom = Some False then [] else or_default allowFrom [])
      in filter (\<lambda>s. s \<noteq> []) (map trim scoped))"

definition isSenderIdAllowed :: "string list \<Rightarrow> bool \<Rightarrow> bool \<Rightarrow> string option \<Rightarrow> bool \<Rightarrow> bool" where
  "isSenderIdAllowed entries hasWildcard hasEntries senderId allowWhenEmpty =
     (if \<not> hasEntries then allowWhenEmpty
      else if hasWildcard then True
      else case senderId of
        None \<Rightarrow> False
      | Some s \<Rightarrow> s \<noteq> [] \<and> s \<in> set entries)"

section \<open>Matching a sender against a list\<close>

datatype match_source = MatchWildcard | MatchId | MatchName

record allow_match =
  am_allowed :: bool
  am_key :: "string option"
  am_source :: "match_source option"

definition no_match :: allow_match where
  "no_match = \<lparr>am_allowed = False, am_key = None, am_source = None\<rparr>"

text \<open>A compiled allowlist is the set of its entries that are not empty.\<close>

definition compileAllowlist :: "string list \<Rightarrow> string set" where
  "compileAllowlist entries = set (filter (\<lambda>s. s \<noteq> []) entries)"

definition compileSimpleAllowlist :: "string list \<Rightarrow> string set" where
  "compileSimpleAllowlist entries =
     compileAllowlist (filter (\<lambda>s. s \<noteq> []) (map (\<lambda>e. to_lower (trim e)) entries))"

fun resolveAllowlistCandidates :: "string set \<Rightarrow> (string option \<times> match_source) list \<Rightarrow> allow_match" where
  "resolveAllowlistCandidates compiled [] = no_match"
| "resolveAllowlistCandidates compiled ((value, source) # cs) =
     (case value of
        None \<Rightarrow> resolveAllowlistCandidates compiled cs
      | Some v \<Rightarrow>
          if v = [] then resolveAllowlistCandidates compiled cs
          else if v \<in> compiled then \<lparr>am_allowed = True, am_key = Some v, am_source = Some source\<rparr>
          else resolveAllowlistCandidates compiled cs)"

definition resolveCompiledAllowlistMatch :: "string set \<Rightarrow> (string option \<times> match_source) list \<Rightarrow> allow_match" where
  "resolveCompiledAllowlistMatch compiled candidates =
     (if compiled = {} then no_match
      else if ''*'' \<in> compiled then \<lparr>am_allowed = True, am_key = Some ''*'', am_source = Some MatchWildcard\<rparr>
      else resolveAllowlistCandidates compiled candidates)"

definition resolveAllowlistMatchByCandidates :: "string list \<Rightarrow> (string option \<times> match_source) list \<Rightarrow> allow_match" where
  "resolveAllowlistMatchByCandidates allowList candidates =
     resolveCompiledAllowlistMatch (compileAllowlist allowList) candidates"

definition resolveAllowlistMatchSimple :: "string list \<Rightarrow> string \<Rightarrow> string option \<Rightarrow> bool option \<Rightarrow> allow_match" where
  "resolveAllowlistMatchSimple allowFrom senderId senderName allowNameMatching =
     (let compiled = compileSimpleAllowlist allowFrom in
      if compiled = {} then no_match
      else if ''*'' \<in> compiled then \<lparr>am_allowed = True, am_key = Some ''*'', am_source = Some MatchWildcard\<rparr>
      else resolveAllowlistCandidates compiled
        ((Some (to_lower senderId), MatchId) #
         (case senderName of
            Some n \<Rightarrow> if allowNameMatching = Some True \<and> n \<noteq> [] then [(Some (to_lower n), MatchName)] else []
          | None \<Rightarrow> [])))"

section \<open>The policy of a group\<close>

datatype group_policy = PolicyOpen | PolicyDisabled | PolicyAllowlist

definition resolveRuntimeGroupPolicy ::
    "bool \<Rightarrow> group_policy option \<Rightarrow> group_policy option \<Rightarrow> group_policy option \<Rightarrow> group_policy option \<Rightarrow>
     group_policy \<times> bool" where
  "resolveRuntimeGroupPolicy providerConfigPresent groupPolicy defaultGroupPolicy configuredFallbackPolicy
     missingProviderFallbackPolicy =
     ((if providerConfigPresent
       then or_default groupPolicy (or_default defaultGroupPolicy (or_default configuredFallbackPolicy PolicyOpen))
       else or_default groupPolicy (or_default missingProviderFallbackPolicy PolicyAllowlist)),
      \<not> providerConfigPresent \<and> groupPolicy = None)"

definition resolveOpenProviderRuntimeGroupPolicy ::
    "bool \<Rightarrow> group_policy option \<Rightarrow> group_policy option \<Rightarrow> group_policy \<times> bool" where
  "resolveOpenProviderRuntimeGroupPolicy providerConfigPresent groupPolicy defaultGroupPolicy =
     resolveRuntimeGroupPolicy providerConfigPresent groupPolicy defaultGroupPolicy (Some PolicyOpen) (Some PolicyAllowlist)"

definition resolveAllowlistProviderRuntimeGroupPolicy ::
    "bool \<Rightarrow> group_policy option \<Rightarrow> group_policy option \<Rightarrow> group_policy \<times> bool" where
  "resolveAllowlistProviderRuntimeGroupPolicy providerConfigPresent groupPolicy defaultGroupPolicy =
     resolveRuntimeGroupPolicy providerConfigPresent groupPolicy defaultGroupPolicy (Some PolicyAllowlist) (Some PolicyAllowlist)"

datatype group_reason = GroupAllowed | GroupDisabled | MissingMatchInput | EmptyAllowlist | NotAllowlisted
  | SenderNotAllowlisted | RouteNotAllowlisted | RouteDisabled

record group_access =
  ga_allowed :: bool
  ga_policy :: group_policy
  ga_reason :: group_reason

record sender_access = group_access +
  ga_missing_fallback :: bool

definition resolveSenderScopedGroupPolicy :: "group_policy \<Rightarrow> string list \<Rightarrow> group_policy" where
  "resolveSenderScopedGroupPolicy groupPolicy groupAllowFrom =
     (if groupPolicy = PolicyDisabled then PolicyDisabled
      else if groupAllowFrom \<noteq> [] then PolicyAllowlist else PolicyOpen)"

definition evaluateGroupRouteAccessForPolicy :: "group_policy \<Rightarrow> bool \<Rightarrow> bool \<Rightarrow> bool option \<Rightarrow> group_access" where
  "evaluateGroupRouteAccessForPolicy groupPolicy routeAllowlistConfigured routeMatched routeEnabled =
     (let no = \<lambda>r. \<lparr>ga_allowed = False, ga_policy = groupPolicy, ga_reason = r\<rparr> in
      if groupPolicy = PolicyDisabled then no GroupDisabled
      else if routeMatched \<and> routeEnabled = Some False then no RouteDisabled
      else if groupPolicy = PolicyAllowlist \<and> \<not> routeAllowlistConfigured then no EmptyAllowlist
      else if groupPolicy = PolicyAllowlist \<and> \<not> routeMatched then no RouteNotAllowlisted
      else \<lparr>ga_allowed = True, ga_policy = groupPolicy, ga_reason = GroupAllowed\<rparr>)"

definition evaluateMatchedGroupAccessForPolicy ::
    "group_policy \<Rightarrow> bool \<Rightarrow> bool \<Rightarrow> bool option \<Rightarrow> bool option \<Rightarrow> group_access" where
  "evaluateMatchedGroupAccessForPolicy groupPolicy allowlistConfigured allowlistMatched requireMatchInput hasMatchInput =
     (let no = \<lambda>r. \<lparr>ga_allowed = False, ga_policy = groupPolicy, ga_reason = r\<rparr> in
      if groupPolicy = PolicyDisabled then no GroupDisabled
      else if groupPolicy = PolicyAllowlist \<and> requireMatchInput = Some True \<and> hasMatchInput \<noteq> Some True
      then no MissingMatchInput
      else if groupPolicy = PolicyAllowlist \<and> \<not> allowlistConfigured then no EmptyAllowlist
      else if groupPolicy = PolicyAllowlist \<and> \<not> allowlistMatched then no NotAllowlisted
      else \<lparr>ga_allowed = True, ga_policy = groupPolicy, ga_reason = GroupAllowed\<rparr>)"

definition evaluateSenderGroupAccessForPolicy ::
    "group_policy \<Rightarrow> bool option \<Rightarrow> string list \<Rightarrow> string \<Rightarrow> (string \<Rightarrow> string list \<Rightarrow> bool) \<Rightarrow> sender_access" where
  "evaluateSenderGroupAccessForPolicy groupPolicy providerMissingFallbackApplied groupAllowFrom senderId isSenderAllowed =
     (let result = \<lambda>a r. \<lparr>ga_allowed = a, ga_policy = groupPolicy, ga_reason = r,
                           ga_missing_fallback = (providerMissingFallbackApplied = Some True)\<rparr> in
      if groupPolicy = PolicyDisabled then result False GroupDisabled
      else if groupPolicy = PolicyAllowlist \<and> groupAllowFrom = [] then result False EmptyAllowlist
      else if groupPolicy = PolicyAllowlist \<and> \<not> isSenderAllowed senderId groupAllowFrom
      then result False SenderNotAllowlisted
      else result True GroupAllowed)"

definition evaluateSenderGroupAccess ::
    "bool \<Rightarrow> group_policy option \<Rightarrow> group_policy option \<Rightarrow> string list \<Rightarrow> string \<Rightarrow>
     (string \<Rightarrow> string list \<Rightarrow> bool) \<Rightarrow> sender_access" where
  "evaluateSenderGroupAccess providerConfigPresent configuredGroupPolicy defaultGroupPolicy groupAllowFrom senderId
     isSenderAllowed =
     (let (groupPolicy, fallback) =
        resolveOpenProviderRuntimeGroupPolicy providerConfigPresent configuredGroupPolicy defaultGroupPolicy
      in evaluateSenderGroupAccessForPolicy groupPolicy (Some fallback) groupAllowFrom senderId isSenderAllowed)"

section \<open>Commands in messages\<close>

datatype gating_mode = GateAllow | GateDeny | GateConfigured

text \<open>An authorizer: is it configured, does it allow the sender.\<close>

record authorizer =
  az_configured :: bool
  az_allowed :: bool

definition resolveCommandAuthorizedFromAuthorizers :: "bool \<Rightarrow> authorizer list \<Rightarrow> gating_mode option \<Rightarrow> bool" where
  "resolveCommandAuthorizedFromAuthorizers useAccessGroups authorizers modeWhenAccessGroupsOff =
     (let mode = or_default modeWhenAccessGroupsOff GateAllow;
          vouched = list_ex (\<lambda>e. az_configured e \<and> az_allowed e) authorizers in
      if \<not> useAccessGroups then
        (case mode of
           GateAllow \<Rightarrow> True
         | GateDeny \<Rightarrow> False
         | GateConfigured \<Rightarrow> if \<not> list_ex az_configured authorizers then True else vouched)
      else vouched)"

text \<open>Is the sender authorized, is the message blocked.\<close>

definition resolveControlCommandGate ::
    "bool \<Rightarrow> authorizer list \<Rightarrow> bool \<Rightarrow> bool \<Rightarrow> gating_mode option \<Rightarrow> bool \<times> bool" where
  "resolveControlCommandGate useAccessGroups authorizers allowTextCommands hasControlCommand modeWhenAccessGroupsOff =
     (let commandAuthorized =
        resolveCommandAuthorizedFromAuthorizers useAccessGroups authorizers modeWhenAccessGroupsOff
      in (commandAuthorized, allowTextCommands \<and> hasControlCommand \<and> \<not> commandAuthorized))"

definition resolveDualTextControlCommandGate ::
    "bool \<Rightarrow> authorizer \<Rightarrow> authorizer \<Rightarrow> bool \<Rightarrow> gating_mode option \<Rightarrow> bool \<times> bool" where
  "resolveDualTextControlCommandGate useAccessGroups primary secondary hasControlCommand modeWhenAccessGroupsOff =
     resolveControlCommandGate useAccessGroups [primary, secondary] True hasControlCommand modeWhenAccessGroupsOff"

text \<open>Whether the message counts as a mention of the agent, and whether it is skipped.\<close>

definition resolveMentionGating :: "bool \<Rightarrow> bool \<Rightarrow> bool \<Rightarrow> bool option \<Rightarrow> bool option \<Rightarrow> bool \<times> bool" where
  "resolveMentionGating requireMention canDetectMention wasMentioned implicitMention shouldBypassMention =
     (let effectiveWasMentioned = (wasMentioned \<or> implicitMention = Some True \<or> shouldBypassMention = Some True)
      in (effectiveWasMentioned, requireMention \<and> canDetectMention \<and> \<not> effectiveWasMentioned))"

record mention_input =
  mi_isGroup :: bool
  mi_requireMention :: bool
  mi_canDetectMention :: bool
  mi_wasMentioned :: bool
  mi_implicitMention :: "bool option"
  mi_hasAnyMention :: "bool option"
  mi_allowTextCommands :: bool
  mi_hasControlCommand :: bool
  mi_commandAuthorized :: bool

definition resolveMentionGatingWithBypass :: "mention_input \<Rightarrow> (bool \<times> bool) \<times> bool" where
  "resolveMentionGatingWithBypass p =
     (let shouldBypassMention =
        (mi_isGroup p \<and> mi_requireMention p \<and> \<not> mi_wasMentioned p \<and> \<not> or_default (mi_hasAnyMention p) False \<and>
         mi_allowTextCommands p \<and> mi_commandAuthorized p \<and> mi_hasControlCommand p)
      in (resolveMentionGating (mi_requireMention p) (mi_canDetectMention p) (mi_wasMentioned p) (mi_implicitMention p)
            (Some shouldBypassMention), shouldBypassMention))"

section \<open>The decision for a message\<close>

definition resolvePinnedMainDmOwnerFromAllowlist ::
    "string option \<Rightarrow> string list option \<Rightarrow> (string \<Rightarrow> string option) \<Rightarrow> string option" where
  "resolvePinnedMainDmOwnerFromAllowlist dmScope allowFrom normalizeEntry =
     (if or_default dmScope ''main'' \<noteq> ''main'' then None
      else (let rawAllowFrom = or_default allowFrom [] in
        if list_ex (\<lambda>e. trim e = ''*'') rawAllowFrom then None
        else (case remdups (filter (\<lambda>s. s \<noteq> []) (List.map_filter normalizeEntry rawAllowFrom)) of
            [owner] \<Rightarrow> Some owner
          | _ \<Rightarrow> None)))"

definition resolveEffectiveAllowFromLists ::
    "string list option \<Rightarrow> string list option \<Rightarrow> string list option \<Rightarrow> string option \<Rightarrow> bool option \<Rightarrow>
     string list \<times> string list" where
  "resolveEffectiveAllowFromLists allowFrom groupAllowFrom storeAllowFrom dmPolicy fallback =
     (normalizeStringEntries (mergeDmAllowFromSources allowFrom storeAllowFrom dmPolicy),
      normalizeStringEntries (resolveGroupAllowFromSources allowFrom groupAllowFrom fallback))"

datatype dm_decision = DmAllow | DmBlock | DmPairing
datatype dm_reason = GROUP_POLICY_ALLOWED | GROUP_POLICY_DISABLED | GROUP_POLICY_EMPTY_ALLOWLIST
  | GROUP_POLICY_NOT_ALLOWLISTED | DM_POLICY_OPEN | DM_POLICY_DISABLED | DM_POLICY_ALLOWLISTED
  | DM_POLICY_PAIRING_REQUIRED | DM_POLICY_NOT_ALLOWLISTED

definition group_policy_of :: "string option \<Rightarrow> group_policy" where
  "group_policy_of p = (if p = Some ''open'' then PolicyOpen else if p = Some ''disabled'' then PolicyDisabled else PolicyAllowlist)"

definition resolveDmGroupAccessDecision ::
    "bool \<Rightarrow> string option \<Rightarrow> string option \<Rightarrow> string list \<Rightarrow> string list \<Rightarrow> (string list \<Rightarrow> bool) \<Rightarrow>
     dm_decision \<times> dm_reason" where
  "resolveDmGroupAccessDecision isGroup dmPolicyOpt groupPolicyOpt allowFrom groupAllowFrom isSenderAllowed =
     (let dmPolicy = or_default dmPolicyOpt ''pairing'';
          groupPolicy = group_policy_of groupPolicyOpt;
          effectiveAllowFrom = normalizeStringEntries allowFrom;
          effectiveGroupAllowFrom = normalizeStringEntries groupAllowFrom in
      if isGroup then
        (let groupAccess = evaluateMatchedGroupAccessForPolicy groupPolicy (effectiveGroupAllowFrom \<noteq> [])
               (isSenderAllowed effectiveGroupAllowFrom) None None in
         if \<not> ga_allowed groupAccess \<and> ga_reason groupAccess = GroupDisabled then (DmBlock, GROUP_POLICY_DISABLED)
         else if \<not> ga_allowed groupAccess \<and> ga_reason groupAccess = EmptyAllowlist then (DmBlock, GROUP_POLICY_EMPTY_ALLOWLIST)
         else if \<not> ga_allowed groupAccess \<and> ga_reason groupAccess = NotAllowlisted then (DmBlock, GROUP_POLICY_NOT_ALLOWLISTED)
         else (DmAllow, GROUP_POLICY_ALLOWED))
      else if dmPolicy = ''disabled'' then (DmBlock, DM_POLICY_DISABLED)
      else if dmPolicy = ''open'' then (DmAllow, DM_POLICY_OPEN)
      else if isSenderAllowed effectiveAllowFrom then (DmAllow, DM_POLICY_ALLOWLISTED)
      else if dmPolicy = ''pairing'' then (DmPairing, DM_POLICY_PAIRING_REQUIRED)
      else (DmBlock, DM_POLICY_NOT_ALLOWLISTED))"

record dm_input =
  di_isGroup :: bool
  di_dmPolicy :: "string option"
  di_groupPolicy :: "string option"
  di_allowFrom :: "string list option"
  di_groupAllowFrom :: "string list option"
  di_storeAllowFrom :: "string list option"
  di_fallback :: "bool option"

record dm_access =
  da_decision :: dm_decision
  da_reason :: dm_reason
  da_allowFrom :: "string list"
  da_groupAllowFrom :: "string list"

definition resolveDmGroupAccessWithLists :: "(string list \<Rightarrow> bool) \<Rightarrow> dm_input \<Rightarrow> dm_access" where
  "resolveDmGroupAccessWithLists isSenderAllowed p =
     (let (allowFrom, groupAllowFrom) = resolveEffectiveAllowFromLists (di_allowFrom p) (di_groupAllowFrom p)
            (di_storeAllowFrom p) (di_dmPolicy p) (di_fallback p);
          (decision, reason) = resolveDmGroupAccessDecision (di_isGroup p) (di_dmPolicy p) (di_groupPolicy p)
            allowFrom groupAllowFrom isSenderAllowed
      in \<lparr>da_decision = decision, da_reason = reason, da_allowFrom = allowFrom, da_groupAllowFrom = groupAllowFrom\<rparr>)"

record command_input =
  ci_useAccessGroups :: bool
  ci_allowTextCommands :: bool
  ci_hasControlCommand :: bool

record command_access = dm_access +
  da_commandAuthorized :: bool
  da_shouldBlockControlCommand :: bool

definition resolveDmGroupAccessWithCommandGate ::
    "(string list \<Rightarrow> bool) \<Rightarrow> dm_input \<Rightarrow> command_input option \<Rightarrow> command_access" where
  "resolveDmGroupAccessWithCommandGate isSenderAllowed p command =
     (let access = resolveDmGroupAccessWithLists isSenderAllowed p;
          configuredAllowFrom = normalizeStringEntries (or_default (di_allowFrom p) []);
          configuredGroupAllowFrom = normalizeStringEntries (resolveGroupAllowFromSources (Some configuredAllowFrom)
            (Some (normalizeStringEntries (or_default (di_groupAllowFrom p) []))) (di_fallback p));
          commandDmAllowFrom = (if di_isGroup p then configuredAllowFrom else da_allowFrom access);
          commandGroupAllowFrom = (if di_isGroup p then configuredGroupAllowFrom else da_groupAllowFrom access);
          gate = (case command of
              None \<Rightarrow> (False, False)
            | Some c \<Rightarrow> resolveControlCommandGate (ci_useAccessGroups c)
                [\<lparr>az_configured = (commandDmAllowFrom \<noteq> []), az_allowed = isSenderAllowed commandDmAllowFrom\<rparr>,
                 \<lparr>az_configured = (commandGroupAllowFrom \<noteq> []), az_allowed = isSenderAllowed commandGroupAllowFrom\<rparr>]
                (ci_allowTextCommands c) (ci_hasControlCommand c) None)
      in \<lparr>da_decision = da_decision access, da_reason = da_reason access, da_allowFrom = da_allowFrom access,
          da_groupAllowFrom = da_groupAllowFrom access, da_commandAuthorized = fst gate,
          da_shouldBlockControlCommand = di_isGroup p \<and> snd gate\<rparr>)"

section \<open>Reading the pairing store for a decision\<close>

text \<open>\<open>readStore\<close> is \<open>None\<close> when the read fails.\<close>

definition readStoreAllowFromForDmPolicy :: "string option \<Rightarrow> bool option \<Rightarrow> string list option \<Rightarrow> string list" where
  "readStoreAllowFromForDmPolicy dmPolicy shouldRead readStore =
     (if shouldRead = Some False \<or> dmPolicy = Some ''allowlist'' then [] else or_default readStore [])"

record dm_allow_state =
  ds_configAllowFrom :: "string list"
  ds_hasWildcard :: bool
  ds_allowCount :: nat
  ds_isMultiUserDm :: bool

definition normalized_entries :: "(string \<Rightarrow> string) \<Rightarrow> string list \<Rightarrow> string list" where
  "normalized_entries normalizeEntry es = filter (\<lambda>s. s \<noteq> []) (map trim (map normalizeEntry es))"

definition resolveDmAllowState ::
    "string list option \<Rightarrow> (string \<Rightarrow> string) option \<Rightarrow> string list option \<Rightarrow> dm_allow_state" where
  "resolveDmAllowState allowFrom normalizeEntryOpt readStore =
     (let configAllowFrom = normalizeStringEntries (or_default allowFrom []);
          hasWildcard = (''*'' \<in> set configAllowFrom);
          storeAllowFrom = readStoreAllowFromForDmPolicy None None readStore;
          normalizeEntry = or_default normalizeEntryOpt (\<lambda>v. v);
          normalizedCfg = normalized_entries normalizeEntry (filter (\<lambda>v. v \<noteq> ''*'') configAllowFrom);
          normalizedStore = normalized_entries normalizeEntry storeAllowFrom;
          allowCount = length (remdups (normalizedCfg @ normalizedStore))
      in \<lparr>ds_configAllowFrom = configAllowFrom, ds_hasWildcard = hasWildcard, ds_allowCount = allowCount,
          ds_isMultiUserDm = (hasWildcard \<or> allowCount > 1)\<rparr>)"

section \<open>What it promises\<close>

text \<open>
  What the policy of a channel promises: who gets through, and that in a group neither the decision nor the right to
  give commands depends on who was paired for direct messages.
\<close>

section \<open>Groups\<close>

lemma group_effective:
  "snd (resolveEffectiveAllowFromLists cfg grp store pol fb) = normalizeStringEntries (resolveGroupAllowFromSources cfg grp fb)"
  by (simp add: resolveEffectiveAllowFromLists_def)

lemma decision_group: "resolveDmGroupAccessDecision True pol gpol l g ok = resolveDmGroupAccessDecision True pol' gpol l' g ok"
  by (simp add: resolveDmGroupAccessDecision_def Let_def)

text \<open>C13: A message in a group is decided, and its commands are authorized or blocked, by the configured lists alone: who
  has been paired for direct messages changes nothing, for any way of matching a sender against a list.\<close>

theorem group_ignores_pairing:
  "let grouped = \<lambda>store. resolveDmGroupAccessWithCommandGate ok (p\<lparr>di_isGroup := True, di_storeAllowFrom := store\<rparr>) cmd in
   da_decision (grouped s) = da_decision (grouped s') \<and> da_reason (grouped s) = da_reason (grouped s') \<and>
   da_groupAllowFrom (grouped s) = da_groupAllowFrom (grouped s') \<and>
   da_commandAuthorized (grouped s) = da_commandAuthorized (grouped s') \<and>
   da_shouldBlockControlCommand (grouped s) = da_shouldBlockControlCommand (grouped s')"
proof -
  let ?lists = "\<lambda>store. resolveDmGroupAccessWithLists ok (p\<lparr>di_isGroup := True, di_storeAllowFrom := store\<rparr>)"
  have g: "da_groupAllowFrom (?lists s) = da_groupAllowFrom (?lists s')" for s s'
    by (simp add: resolveDmGroupAccessWithLists_def split_def group_effective Let_def)
  have d: "da_decision (?lists s) = da_decision (?lists s') \<and> da_reason (?lists s) = da_reason (?lists s')" for s s'
    using decision_group
    by (simp add: resolveDmGroupAccessWithLists_def split_def group_effective Let_def) metis
  show ?thesis using d [of s s'] g [of s s']
    by (simp add: resolveDmGroupAccessWithCommandGate_def Let_def split: option.splits)
qed

end
