(* ===== verification/ChannelPairing.thy ===== *)
theory ChannelPairing
  imports AgentIds
begin

text \<open>
  The pairing of the people who write to the agent: \<open>src/pairing/pairing-store.ts\<close>. A stranger's message creates a
  request with a code in the channel's pairing file; the owner approves the code, which adds the sender to the allowlist
  file of the account. A \<open>pairing_disk\<close> holds the credentials directory, by file name, and the module's read cache;
  every operation runs under the file's lock, so it is one step. The channel's \<open>normalizeAllowEntry\<close>
  (\<open>None\<close>: the channel has none), \<open>Date.parse\<close> (\<open>None\<close>: not a date), \<open>toISOString\<close> and the random numbers are
  arguments. \<open>Inl\<close> is a thrown error; what it leaves behind is returned where it has changed something.
\<close>

section \<open>Names of files\<close>

datatype pairing_error = InvalidChannel | InvalidAccount | NoUniqueCode | StatFailed

definition unsafe_char :: "char \<Rightarrow> bool" where
  "unsafe_char c = (c \<in> set [CHR 0x5C, CHR ''/'', CHR '':'', CHR ''*'', CHR ''?'', CHR 0x22, CHR ''<'', CHR ''>'', CHR ''|''])"

fun replace_dots :: "string \<Rightarrow> string" where
  "replace_dots [] = []"
| "replace_dots [c] = [c]"
| "replace_dots (c # d # s) =
     (if c = CHR ''.'' \<and> d = CHR ''.'' then CHR ''_'' # replace_dots s else c # replace_dots (d # s))"

definition safe_key :: "string \<Rightarrow> string option" where
  "safe_key s =
     (let raw = to_lower (trim s) in
      if raw = [] then None
      else (let safe = replace_dots (map (\<lambda>c. if unsafe_char c then CHR ''_'' else c) raw)
            in if safe = [] \<or> safe = ''_'' then None else Some safe))"

definition safeChannelKey :: "string \<Rightarrow> pairing_error + string" where
  "safeChannelKey channel = (case safe_key channel of None \<Rightarrow> Inl InvalidChannel | Some k \<Rightarrow> Inr k)"

definition safeAccountKey :: "string \<Rightarrow> pairing_error + string" where
  "safeAccountKey accountId = (case safe_key accountId of None \<Rightarrow> Inl InvalidAccount | Some k \<Rightarrow> Inr k)"

definition resolvePairingPath :: "string \<Rightarrow> pairing_error + string" where
  "resolvePairingPath channel = (case safeChannelKey channel of Inl e \<Rightarrow> Inl e | Inr k \<Rightarrow> Inr (k @ ''-pairing.json''))"

definition resolveAllowFromPath :: "string \<Rightarrow> string option \<Rightarrow> pairing_error + string" where
  "resolveAllowFromPath channel accountId =
     (case safeChannelKey channel of
        Inl e \<Rightarrow> Inl e
      | Inr base \<Rightarrow>
          (let normalizedAccountId = (case accountId of None \<Rightarrow> [] | Some a \<Rightarrow> trim a) in
           if normalizedAccountId = [] then Inr (base @ ''-allowFrom.json'')
           else (case safeAccountKey normalizedAccountId of
               Inl e \<Rightarrow> Inl e
             | Inr k \<Rightarrow> Inr (base @ ''-'' @ k @ ''-allowFrom.json''))))"

section \<open>The files and the cache\<close>

record channel_request =
  cr_id :: string
  cr_code :: string
  cr_createdAt :: string
  cr_lastSeenAt :: string
  cr_meta :: "(string \<times> string) list option"

text \<open>What \<open>stat\<close> and \<open>readFile\<close> find under a name. The body of an allowlist file is unreadable, not JSON of the
  expected shape, or a list of entries.\<close>

datatype allow_body = Unreadable | Malformed | Entries "string list"

record allow_file =
  af_mtime :: int
  af_size :: int
  af_body :: allow_body

datatype allow_node = NoFile | StatError | AllowFile allow_file

record allow_cache_entry =
  ac_exists :: bool
  ac_mtime :: "int option"
  ac_size :: "int option"
  ac_entries :: "string list"

text \<open>A pairing file that is absent, unreadable or not JSON of the expected shape is \<open>None\<close>: it reads as no requests,
  like the empty file that \<open>ensureJsonFile\<close> makes of an absent one.\<close>

record pairing_disk =
  pk_pending :: "string \<Rightarrow> channel_request list option"
  pk_allow :: "string \<Rightarrow> allow_node"
  pk_cache :: "string \<Rightarrow> allow_cache_entry option"

definition readPairingRequests :: "string \<Rightarrow> pairing_disk \<Rightarrow> channel_request list" where
  "readPairingRequests filePath d = or_default (pk_pending d filePath) []"

definition write_pending :: "string \<Rightarrow> channel_request list \<Rightarrow> pairing_disk \<Rightarrow> pairing_disk" where
  "write_pending filePath reqs d = d\<lparr>pk_pending := (pk_pending d)(filePath := Some reqs)\<rparr>"

section \<open>Requests: expiry, cap, codes\<close>

definition PAIRING_CODE_LENGTH :: nat where "PAIRING_CODE_LENGTH = 8"
definition PAIRING_CODE_ALPHABET :: string where "PAIRING_CODE_ALPHABET = ''ABCDEFGHJKLMNPQRSTUVWXYZ23456789''"
definition PAIRING_PENDING_TTL_MS :: int where "PAIRING_PENDING_TTL_MS = 60 * 60 * 1000"
definition PAIRING_PENDING_MAX :: nat where "PAIRING_PENDING_MAX = 3"

definition parseTimestamp :: "(string \<Rightarrow> int option) \<Rightarrow> string \<Rightarrow> int option" where
  "parseTimestamp parse value = (if value = [] then None else parse value)"

definition isExpired :: "(string \<Rightarrow> int option) \<Rightarrow> channel_request \<Rightarrow> int \<Rightarrow> bool" where
  "isExpired parse entry nowMs =
     (case parseTimestamp parse (cr_createdAt entry) of
        None \<Rightarrow> True
      | Some createdAt \<Rightarrow> if createdAt = 0 then True else nowMs - createdAt > PAIRING_PENDING_TTL_MS)"

definition pruneExpiredRequests ::
    "(string \<Rightarrow> int option) \<Rightarrow> channel_request list \<Rightarrow> int \<Rightarrow> channel_request list \<times> bool" where
  "pruneExpiredRequests parse reqs nowMs =
     (filter (\<lambda>r. \<not> isExpired parse r nowMs) reqs, list_ex (\<lambda>r. isExpired parse r nowMs) reqs)"

definition resolveLastSeenAt :: "(string \<Rightarrow> int option) \<Rightarrow> channel_request \<Rightarrow> int" where
  "resolveLastSeenAt parse entry =
     or_default (parseTimestamp parse (cr_lastSeenAt entry)) (or_default (parseTimestamp parse (cr_createdAt entry)) 0)"

definition normalizePairingAccountId :: "string option \<Rightarrow> string" where
  "normalizePairingAccountId accountId = (case accountId of None \<Rightarrow> [] | Some a \<Rightarrow> to_lower (trim a))"

definition or_default_account :: "string \<Rightarrow> string" where
  "or_default_account a = (if a = [] then DEFAULT_ACCOUNT_ID else a)"

definition meta_account :: "channel_request \<Rightarrow> string" where
  "meta_account entry = or_default (Option.bind (cr_meta entry) (\<lambda>m. map_of m ''accountId'')) []"

definition resolvePairingRequestAccountId :: "channel_request \<Rightarrow> string" where
  "resolvePairingRequestAccountId entry = or_default_account (normalizePairingAccountId (Some (meta_account entry)))"

definition requestMatchesAccountId :: "channel_request \<Rightarrow> string \<Rightarrow> bool" where
  "requestMatchesAccountId entry normalizedAccountId =
     (normalizedAccountId = [] \<or> resolvePairingRequestAccountId entry = normalizedAccountId)"

definition group_indexes :: "channel_request list \<Rightarrow> (string \<times> nat list) list" where
  "group_indexes reqs =
     foldl (\<lambda>grouped (i, entry). let a = resolvePairingRequestAccountId entry in
              AList.update a (or_default (map_of grouped a) [] @ [i]) grouped)
       [] (enumerate 0 reqs)"

definition dropped_of :: "(string \<Rightarrow> int option) \<Rightarrow> channel_request list \<Rightarrow> nat \<Rightarrow> nat list \<Rightarrow> nat list" where
  "dropped_of parse reqs maxPending indexes =
     (if length indexes \<le> maxPending then []
      else take (length indexes - maxPending)
        (sort_with (\<lambda>l r. resolveLastSeenAt parse (reqs ! l) - resolveLastSeenAt parse (reqs ! r)) indexes))"

definition pruneExcessRequestsByAccount ::
    "(string \<Rightarrow> int option) \<Rightarrow> channel_request list \<Rightarrow> nat \<Rightarrow> channel_request list \<times> bool" where
  "pruneExcessRequestsByAccount parse reqs maxPending =
     (if maxPending = 0 \<or> length reqs \<le> maxPending then (reqs, False)
      else (let dropped = concat (map (\<lambda>(a, ix). dropped_of parse reqs maxPending ix) (group_indexes reqs)) in
        if dropped = [] then (reqs, False)
        else (map snd (filter (\<lambda>(i, r). i \<notin> set dropped) (enumerate 0 reqs)), True)))"

text \<open>\<open>draw n\<close> is the \<open>n\<close>-th result of \<open>crypto.randomInt(0, 32)\<close>; attempt \<open>k\<close> uses eight of them.\<close>

definition randomCode :: "(nat \<Rightarrow> nat) \<Rightarrow> nat \<Rightarrow> string" where
  "randomCode draw attempt =
     map (\<lambda>i. PAIRING_CODE_ALPHABET ! draw (attempt * PAIRING_CODE_LENGTH + i)) [0..<PAIRING_CODE_LENGTH]"

definition generateUniqueCode :: "(nat \<Rightarrow> nat) \<Rightarrow> string set \<Rightarrow> pairing_error + string" where
  "generateUniqueCode draw existing =
     (case List.find (\<lambda>k. randomCode draw k \<notin> existing) [0..<500] of
        None \<Rightarrow> Inl NoUniqueCode
      | Some k \<Rightarrow> Inr (randomCode draw k))"

section \<open>Allowlist entries\<close>

definition shouldIncludeLegacyAllowFromEntries :: "string \<Rightarrow> bool" where
  "shouldIncludeLegacyAllowFromEntries normalizedAccountId =
     (normalizedAccountId = [] \<or> normalizedAccountId = DEFAULT_ACCOUNT_ID)"

definition resolveAllowFromAccountId :: "string option \<Rightarrow> string" where
  "resolveAllowFromAccountId accountId = or_default_account (normalizePairingAccountId accountId)"

definition normalizeAllowEntry :: "(string \<Rightarrow> string) option \<Rightarrow> string \<Rightarrow> string" where
  "normalizeAllowEntry adapter entry =
     (let trimmed = trim entry in
      if trimmed = [] \<or> trimmed = ''*'' then []
      else trim (case adapter of None \<Rightarrow> trimmed | Some f \<Rightarrow> f trimmed))"

text \<open>The normal form that most channels give: the entry without the channel's prefix. The regular expressions that the
  channels use match one of some prefixes, in any case; here they are listed in lower case.\<close>

definition createPairingPrefixStripper :: "string list \<Rightarrow> (string \<Rightarrow> string) \<Rightarrow> string \<Rightarrow> string" where
  "createPairingPrefixStripper prefixes mapped entry =
     (let e = trim entry in
      mapped (trim (case List.find (\<lambda>p. to_lower (take (length p) e) = p) prefixes of
          None \<Rightarrow> e
        | Some p \<Rightarrow> drop (length p) e)))"

definition dedupePreserveOrder :: "string list \<Rightarrow> string list" where
  "dedupePreserveOrder entries = rev (remdups (rev (filter (\<lambda>s. s \<noteq> []) (map trim entries))))"

definition body_entries :: "allow_body \<Rightarrow> string list" where
  "body_entries b = (case b of Entries l \<Rightarrow> l | _ \<Rightarrow> [])"

definition normalizeAllowFromList :: "(string \<Rightarrow> string) option \<Rightarrow> string list \<Rightarrow> string list" where
  "normalizeAllowFromList adapter l =
     dedupePreserveOrder (filter (\<lambda>s. s \<noteq> []) (map (normalizeAllowEntry adapter) l))"

section \<open>Reading an allowlist file through the cache\<close>

definition put_cache :: "string \<Rightarrow> allow_cache_entry \<Rightarrow> pairing_disk \<Rightarrow> pairing_disk" where
  "put_cache filePath e d = d\<lparr>pk_cache := (pk_cache d)(filePath := Some e)\<rparr>"

definition resolveAllowFromReadCacheHit ::
    "string \<Rightarrow> bool \<Rightarrow> int option \<Rightarrow> int option \<Rightarrow> pairing_disk \<Rightarrow> allow_cache_entry option" where
  "resolveAllowFromReadCacheHit filePath isThere mtimeMs sz d =
     (case pk_cache d filePath of
        None \<Rightarrow> None
      | Some cached \<Rightarrow>
          if ac_exists cached \<noteq> isThere then None
          else if \<not> isThere then Some cached
          else if ac_mtime cached \<noteq> mtimeMs \<or> ac_size cached \<noteq> sz then None
          else Some cached)"

definition resolveAllowFromReadCacheOrMissing ::
    "string \<Rightarrow> allow_file option \<Rightarrow> pairing_disk \<Rightarrow> (string list \<times> bool) option \<times> pairing_disk" where
  "resolveAllowFromReadCacheOrMissing filePath st d =
     (case resolveAllowFromReadCacheHit filePath (st \<noteq> None) (map_option af_mtime st) (map_option af_size st) d of
        Some cached \<Rightarrow> (Some (ac_entries cached, ac_exists cached), d)
      | None \<Rightarrow>
          if st = None
          then (Some ([], False),
                put_cache filePath \<lparr>ac_exists = False, ac_mtime = None, ac_size = None, ac_entries = []\<rparr> d)
          else (None, d))"

definition cache_of :: "bool \<Rightarrow> allow_file \<Rightarrow> string list \<Rightarrow> allow_cache_entry" where
  "cache_of isThere f es =
     \<lparr>ac_exists = isThere, ac_mtime = Some (af_mtime f), ac_size = Some (af_size f), ac_entries = es\<rparr>"

definition readAllowFromStateForPathWithExists ::
    "(string \<Rightarrow> string) option \<Rightarrow> string \<Rightarrow> pairing_disk \<Rightarrow> pairing_error + (string list \<times> bool) \<times> pairing_disk" where
  "readAllowFromStateForPathWithExists adapter filePath d =
     (if pk_allow d filePath = StatError then Inl StatFailed
      else (let st = (case pk_allow d filePath of AllowFile f \<Rightarrow> Some f | _ \<Rightarrow> None) in
        case resolveAllowFromReadCacheOrMissing filePath st d of
          (Some r, d') \<Rightarrow> Inr (r, d')
        | (None, d') \<Rightarrow>
            (case st of
               None \<Rightarrow> Inr (([], False), d')
             | Some f \<Rightarrow>
                 (let isThere = (af_body f \<noteq> Unreadable);
                      entries = normalizeAllowFromList adapter (body_entries (af_body f))
                  in Inr ((entries, isThere), put_cache filePath (cache_of isThere f entries) d')))))"

text \<open>The synchronous variant: no error escapes, and a file that cannot be read is not cached.\<close>

definition readAllowFromStateForPathSyncWithExists ::
    "(string \<Rightarrow> string) option \<Rightarrow> string \<Rightarrow> pairing_disk \<Rightarrow> (string list \<times> bool) \<times> pairing_disk" where
  "readAllowFromStateForPathSyncWithExists adapter filePath d =
     (if pk_allow d filePath = StatError then (([], False), d)
      else (let st = (case pk_allow d filePath of AllowFile f \<Rightarrow> Some f | _ \<Rightarrow> None) in
        case resolveAllowFromReadCacheOrMissing filePath st d of
          (Some r, d') \<Rightarrow> (r, d')
        | (None, d') \<Rightarrow>
            (case st of
               None \<Rightarrow> (([], False), d')
             | Some f \<Rightarrow>
                 (case af_body f of
                    Unreadable \<Rightarrow> (([], False), d')
                  | Malformed \<Rightarrow> (([], True), put_cache filePath (cache_of True f []) d')
                  | Entries l \<Rightarrow>
                      (let entries = normalizeAllowFromList adapter l
                       in ((entries, True), put_cache filePath (cache_of True f entries) d'))))))"

definition readAllowFromStateForPath ::
    "(string \<Rightarrow> string) option \<Rightarrow> string \<Rightarrow> pairing_disk \<Rightarrow> pairing_error + string list \<times> pairing_disk" where
  "readAllowFromStateForPath adapter filePath d =
     (case readAllowFromStateForPathWithExists adapter filePath d of
        Inl e \<Rightarrow> Inl e
      | Inr ((entries, _), d') \<Rightarrow> Inr (entries, d'))"

definition readAllowFromStateForPathSync ::
    "(string \<Rightarrow> string) option \<Rightarrow> string \<Rightarrow> pairing_disk \<Rightarrow> string list \<times> pairing_disk" where
  "readAllowFromStateForPathSync adapter filePath d =
     (let ((entries, _), d') = readAllowFromStateForPathSyncWithExists adapter filePath d in (entries, d'))"

definition readChannelAllowFromStore ::
    "(string \<Rightarrow> string) option \<Rightarrow> string \<Rightarrow> string option \<Rightarrow> pairing_disk \<Rightarrow>
     pairing_error + string list \<times> pairing_disk" where
  "readChannelAllowFromStore adapter channel accountId d =
     (let resolvedAccountId = resolveAllowFromAccountId accountId in
      case resolveAllowFromPath channel (Some resolvedAccountId) of
        Inl e \<Rightarrow> Inl e
      | Inr scopedPath \<Rightarrow>
          (case readAllowFromStateForPath adapter scopedPath d of
             Inl e \<Rightarrow> Inl e
           | Inr (scopedEntries, d1) \<Rightarrow>
               if \<not> shouldIncludeLegacyAllowFromEntries resolvedAccountId then Inr (scopedEntries, d1)
               else (case resolveAllowFromPath channel None of
                   Inl e \<Rightarrow> Inl e
                 | Inr legacyPath \<Rightarrow>
                     (case readAllowFromStateForPath adapter legacyPath d1 of
                        Inl e \<Rightarrow> Inl e
                      | Inr (legacyEntries, d2) \<Rightarrow> Inr (dedupePreserveOrder (scopedEntries @ legacyEntries), d2)))))"

definition readChannelAllowFromStoreSync ::
    "(string \<Rightarrow> string) option \<Rightarrow> string \<Rightarrow> string option \<Rightarrow> pairing_disk \<Rightarrow>
     pairing_error + string list \<times> pairing_disk" where
  "readChannelAllowFromStoreSync adapter channel accountId d =
     (let resolvedAccountId = resolveAllowFromAccountId accountId in
      case resolveAllowFromPath channel (Some resolvedAccountId) of
        Inl e \<Rightarrow> Inl e
      | Inr scopedPath \<Rightarrow>
          (let (scopedEntries, d1) = readAllowFromStateForPathSync adapter scopedPath d in
           if \<not> shouldIncludeLegacyAllowFromEntries resolvedAccountId then Inr (scopedEntries, d1)
           else (case resolveAllowFromPath channel None of
               Inl e \<Rightarrow> Inl e
             | Inr legacyPath \<Rightarrow>
                 (let (legacyEntries, d2) = readAllowFromStateForPathSync adapter legacyPath d1
                  in Inr (dedupePreserveOrder (scopedEntries @ legacyEntries), d2)))))"

definition readLegacyChannelAllowFromStore ::
    "(string \<Rightarrow> string) option \<Rightarrow> string \<Rightarrow> pairing_disk \<Rightarrow> pairing_error + string list \<times> pairing_disk" where
  "readLegacyChannelAllowFromStore adapter channel d =
     (case resolveAllowFromPath channel None of
        Inl e \<Rightarrow> Inl e
      | Inr filePath \<Rightarrow> readAllowFromStateForPath adapter filePath d)"

definition readLegacyChannelAllowFromStoreSync ::
    "(string \<Rightarrow> string) option \<Rightarrow> string \<Rightarrow> pairing_disk \<Rightarrow> pairing_error + string list \<times> pairing_disk" where
  "readLegacyChannelAllowFromStoreSync adapter channel d =
     (case resolveAllowFromPath channel None of
        Inl e \<Rightarrow> Inl e
      | Inr filePath \<Rightarrow> Inr (readAllowFromStateForPathSync adapter filePath d))"

section \<open>Changing an allowlist file\<close>

text \<open>\<open>stamp\<close> gives the modification time and the size that a file gets when the entries are written. The read
  before the change does not use the cache.\<close>

definition file_entries :: "allow_node \<Rightarrow> string list" where
  "file_entries n = (case n of AllowFile f \<Rightarrow> body_entries (af_body f) | _ \<Rightarrow> [])"

definition write_allow :: "(string list \<Rightarrow> int \<times> int) \<Rightarrow> string \<Rightarrow> string list \<Rightarrow> pairing_disk \<Rightarrow> pairing_disk" where
  "write_allow stamp filePath allowFrom d =
     d\<lparr>pk_allow := (pk_allow d)(filePath :=
         AllowFile \<lparr>af_mtime = fst (stamp allowFrom), af_size = snd (stamp allowFrom), af_body = Entries allowFrom\<rparr>)\<rparr>"

definition writeAllowFromState :: "(string list \<Rightarrow> int \<times> int) \<Rightarrow> string \<Rightarrow> string list \<Rightarrow> pairing_disk \<Rightarrow> pairing_disk" where
  "writeAllowFromState stamp filePath allowFrom d =
     put_cache filePath
       \<lparr>ac_exists = True, ac_mtime = Some (fst (stamp allowFrom)), ac_size = Some (snd (stamp allowFrom)), ac_entries = allowFrom\<rparr>
       (write_allow stamp filePath allowFrom d)"

text \<open>An absent file is created empty. A name that cannot be looked up cannot be created either.\<close>

definition ensure_allow :: "(string list \<Rightarrow> int \<times> int) \<Rightarrow> string \<Rightarrow> pairing_disk \<Rightarrow> pairing_error + pairing_disk" where
  "ensure_allow stamp filePath d =
     (case pk_allow d filePath of
        AllowFile f \<Rightarrow> Inr d
      | NoFile \<Rightarrow> Inr (write_allow stamp filePath [] d)
      | StatError \<Rightarrow> Inl StatFailed)"

definition updateAllowFromStoreEntry ::
    "(string \<Rightarrow> string) option \<Rightarrow> (string list \<Rightarrow> int \<times> int) \<Rightarrow> string \<Rightarrow> string \<Rightarrow> string option \<Rightarrow>
     (string list \<Rightarrow> string \<Rightarrow> string list option) \<Rightarrow> pairing_disk \<Rightarrow>
     pairing_error + (bool \<times> string list) \<times> pairing_disk" where
  "updateAllowFromStoreEntry adapter stamp channel entry accountId change d0 =
     (case resolveAllowFromPath channel accountId of
        Inl e \<Rightarrow> Inl e
      | Inr filePath \<Rightarrow>
          (case ensure_allow stamp filePath d0 of
             Inl e \<Rightarrow> Inl e
           | Inr d \<Rightarrow>
               (let current = normalizeAllowFromList adapter (file_entries (pk_allow d filePath));
                    normalized = normalizeAllowEntry adapter (trim entry) in
                if normalized = [] then Inr ((False, current), d)
                else (case change current normalized of
                    None \<Rightarrow> Inr ((False, current), d)
                  | Some nxt \<Rightarrow> Inr ((True, nxt), writeAllowFromState stamp filePath nxt d)))))"

definition addChannelAllowFromStoreEntry ::
    "(string \<Rightarrow> string) option \<Rightarrow> (string list \<Rightarrow> int \<times> int) \<Rightarrow> string \<Rightarrow> string \<Rightarrow> string option \<Rightarrow> pairing_disk \<Rightarrow>
     pairing_error + (bool \<times> string list) \<times> pairing_disk" where
  "addChannelAllowFromStoreEntry adapter stamp channel entry accountId =
     updateAllowFromStoreEntry adapter stamp channel entry accountId
       (\<lambda>current normalized. if normalized \<in> set current then None else Some (current @ [normalized]))"

definition removeChannelAllowFromStoreEntry ::
    "(string \<Rightarrow> string) option \<Rightarrow> (string list \<Rightarrow> int \<times> int) \<Rightarrow> string \<Rightarrow> string \<Rightarrow> string option \<Rightarrow> pairing_disk \<Rightarrow>
     pairing_error + (bool \<times> string list) \<times> pairing_disk" where
  "removeChannelAllowFromStoreEntry adapter stamp channel entry accountId =
     updateAllowFromStoreEntry adapter stamp channel entry accountId
       (\<lambda>current normalized. let nxt = filter (\<lambda>e. e \<noteq> normalized) current in
          if length nxt = length current then None else Some nxt)"

section \<open>Listing, asking, approving\<close>

definition listChannelPairingRequests ::
    "(string \<Rightarrow> int option) \<Rightarrow> (string \<Rightarrow> string \<Rightarrow> int) \<Rightarrow> int \<Rightarrow> string \<Rightarrow> string option \<Rightarrow> pairing_disk \<Rightarrow>
     pairing_error + channel_request list \<times> pairing_disk" where
  "listChannelPairingRequests parse collate nowMs channel accountId d =
     (case resolvePairingPath channel of
        Inl e \<Rightarrow> Inl e
      | Inr filePath \<Rightarrow>
          (let (prunedExpired, expiredRemoved) = pruneExpiredRequests parse (readPairingRequests filePath d) nowMs;
               (pruned, cappedRemoved) = pruneExcessRequestsByAccount parse prunedExpired PAIRING_PENDING_MAX;
               d' = (if expiredRemoved \<or> cappedRemoved then write_pending filePath pruned d else d);
               normalizedAccountId = normalizePairingAccountId accountId;
               filtered = (if normalizedAccountId \<noteq> [] then filter (\<lambda>e. requestMatchesAccountId e normalizedAccountId) pruned
                           else pruned)
           in Inr (sort_with (\<lambda>a b. collate (cr_createdAt a) (cr_createdAt b)) filtered, d')))"

text \<open>The metadata that is stored: trimmed values, the empty ones dropped, and the account.\<close>

definition request_meta :: "(string \<times> string option) list option \<Rightarrow> string \<Rightarrow> (string \<times> string) list" where
  "request_meta meta accountId =
     AList.update ''accountId'' accountId
       (filter (\<lambda>(k, v). v \<noteq> []) (map (\<lambda>(k, v). (k, trim (or_default v []))) (or_default meta [])))"

definition find_index :: "('a \<Rightarrow> bool) \<Rightarrow> 'a list \<Rightarrow> nat option" where
  "find_index P xs = List.find (\<lambda>i. P (xs ! i)) [0..<length xs]"

definition upsertChannelPairingRequest ::
    "(string \<Rightarrow> int option) \<Rightarrow> (int \<Rightarrow> string) \<Rightarrow> (nat \<Rightarrow> nat) \<Rightarrow> int \<Rightarrow> string \<Rightarrow> string \<Rightarrow> string \<Rightarrow>
     (string \<times> string option) list option \<Rightarrow> pairing_disk \<Rightarrow>
     pairing_error + (string \<times> bool) \<times> pairing_disk" where
  "upsertChannelPairingRequest parse toISO draw nowMs channel reqId accountId metaIn d =
     (case resolvePairingPath channel of
        Inl e \<Rightarrow> Inl e
      | Inr filePath \<Rightarrow>
          (let now = toISO nowMs;
               i = trim reqId;
               acct = or_default_account (normalizePairingAccountId (Some accountId));
               meta = request_meta metaIn acct;
               (reqs, expiredRemoved) = pruneExpiredRequests parse (readPairingRequests filePath d) nowMs;
               existingCodes = set (map (\<lambda>r. to_upper (trim (cr_code r))) reqs)
           in case find_index (\<lambda>r. cr_id r = i \<and> requestMatchesAccountId r acct) reqs of
                Some ix \<Rightarrow>
                  (let existing = reqs ! ix;
                       existingCode = trim (cr_code existing) in
                   case (if existingCode \<noteq> [] then Inr existingCode else generateUniqueCode draw existingCodes) of
                     Inl e \<Rightarrow> Inl e
                   | Inr cde \<Rightarrow>
                       (let nxt = \<lparr>cr_id = i, cr_code = cde, cr_createdAt = cr_createdAt existing, cr_lastSeenAt = now,
                                   cr_meta = Some meta\<rparr>;
                            (capped, _) = pruneExcessRequestsByAccount parse (reqs[ix := nxt]) PAIRING_PENDING_MAX
                        in Inr ((cde, False), write_pending filePath capped d)))
              | None \<Rightarrow>
                  (let (capped, cappedRemoved) = pruneExcessRequestsByAccount parse reqs PAIRING_PENDING_MAX in
                   if length (filter (\<lambda>r. requestMatchesAccountId r acct) capped) \<ge> PAIRING_PENDING_MAX
                   then Inr (([], False), if expiredRemoved \<or> cappedRemoved then write_pending filePath capped d else d)
                   else (case generateUniqueCode draw existingCodes of
                       Inl e \<Rightarrow> Inl e
                     | Inr cde \<Rightarrow>
                         Inr ((cde, True),
                              write_pending filePath (capped @ [\<lparr>cr_id = i, cr_code = cde, cr_createdAt = now,
                                cr_lastSeenAt = now, cr_meta = Some meta\<rparr>]) d)))))"

text \<open>The account whose allowlist an approval extends.\<close>

definition approval_account :: "string option \<Rightarrow> channel_request \<Rightarrow> string option" where
  "approval_account accountId entry =
     (case trimmed_opt accountId of Some a \<Rightarrow> Some a | None \<Rightarrow> nonempty (trim (meta_account entry)))"

definition splice_out :: "nat \<Rightarrow> 'a list \<Rightarrow> 'a list" where
  "splice_out i xs = take i xs @ drop (Suc i) xs"

text \<open>The request is taken out of the file before the allowlist is extended, so an error of the second step leaves the
  first one done.\<close>

definition approveChannelPairingCode ::
    "(string \<Rightarrow> int option) \<Rightarrow> (string \<Rightarrow> string) option \<Rightarrow> (string list \<Rightarrow> int \<times> int) \<Rightarrow> int \<Rightarrow> string \<Rightarrow> string \<Rightarrow>
     string option \<Rightarrow> pairing_disk \<Rightarrow> (pairing_error + channel_request option) \<times> pairing_disk" where
  "approveChannelPairingCode parse adapter stamp nowMs channel codeIn accountId d =
     (let cde = to_upper (trim codeIn) in
      if cde = [] then (Inr None, d)
      else case resolvePairingPath channel of
        Inl e \<Rightarrow> (Inl e, d)
      | Inr filePath \<Rightarrow>
          (let (pruned, removed) = pruneExpiredRequests parse (readPairingRequests filePath d) nowMs;
               acct = normalizePairingAccountId accountId in
           case find_index (\<lambda>r. to_upper (cr_code r) = cde \<and> requestMatchesAccountId r acct) pruned of
             None \<Rightarrow> (Inr None, if removed then write_pending filePath pruned d else d)
           | Some ix \<Rightarrow>
               (let entry = pruned ! ix;
                    d1 = write_pending filePath (splice_out ix pruned) d in
                case addChannelAllowFromStoreEntry adapter stamp channel (cr_id entry) (approval_account accountId entry) d1 of
                  Inl e \<Rightarrow> (Inl e, d1)
                | Inr (_, d2) \<Rightarrow> (Inr (Some entry), d2))))"

end
