(* ===== verification/ChannelPairingProps.thy ===== *)
theory ChannelPairingProps
  imports ChannelPairing DmPolicy SortLemmas TextLemmas
begin

text \<open>
  What the pairing store promises: no account holds more than three requests and a new code is unlike every code in
  use; an approval admits the sender who asked and nobody else, for the account of the request only; the cache of the
  allowlist files changes nothing when the channel's normal form is stable.
\<close>

section \<open>The cap\<close>

lemma enumerate_nth: "enumerate 0 xs = map (\<lambda>i. (i, xs ! i)) [0..<length xs]"
  by (rule nth_equalityI) (simp_all add: nth_enumerate_eq)

definition indexes_of :: "channel_request list \<Rightarrow> string \<Rightarrow> nat list" where
  "indexes_of reqs a = filter (\<lambda>i. resolvePairingRequestAccountId (reqs ! i) = a) [0..<length reqs]"

lemma indexes_snoc:
  "indexes_of (reqs @ [r]) a =
     indexes_of reqs a @ (if resolvePairingRequestAccountId r = a then [length reqs] else [])"
  by (auto simp: indexes_of_def nth_append intro!: filter_cong)

lemma group_snoc:
  "group_indexes (reqs @ [r]) =
     (let a = resolvePairingRequestAccountId r in
      AList.update a (or_default (map_of (group_indexes reqs) a) [] @ [length reqs]) (group_indexes reqs))"
  by (simp add: group_indexes_def enumerate_append_eq Let_def)

lemma map_of_group:
  "map_of (group_indexes reqs) a = (if indexes_of reqs a = [] then None else Some (indexes_of reqs a))"
proof (induction reqs rule: rev_induct)
  case Nil
  show ?case by (simp add: group_indexes_def indexes_of_def)
next
  case (snoc r reqs)
  then show ?case by (auto simp: group_snoc indexes_snoc Let_def update_conv' or_default_def)
qed

lemma distinct_group: "distinct (map fst (group_indexes reqs))"
  by (induction reqs rule: rev_induct) (simp_all add: group_snoc Let_def distinct_update, simp add: group_indexes_def)

lemma group_iff: "(a, ix) \<in> set (group_indexes reqs) \<longleftrightarrow> ix = indexes_of reqs a \<and> ix \<noteq> []"
  by (auto simp: map_of_group simp flip: map_of_eq_Some_iff [OF distinct_group] split: if_splits)

lemma set_dropped: "set (dropped_of parse reqs n ix) \<subseteq> set ix"
  by (auto simp: dropped_of_def set_sort_with dest: in_set_takeD)

lemma length_sort_with [simp]: "length (sort_with cmp xs) = length xs"
  by (metis mset_sort_with size_mset)

lemma card_dropped: "distinct ix \<Longrightarrow> card (set (dropped_of parse reqs n ix)) = length ix - n"
  by (simp add: dropped_of_def distinct_card)

definition dropped_indexes :: "(string \<Rightarrow> int option) \<Rightarrow> channel_request list \<Rightarrow> nat \<Rightarrow> nat list" where
  "dropped_indexes parse reqs n = concat (map (\<lambda>(a, ix). dropped_of parse reqs n ix) (group_indexes reqs))"

lemma dropped_at:
  "set (indexes_of reqs a) \<inter> set (dropped_indexes parse reqs n) = set (dropped_of parse reqs n (indexes_of reqs a))"
  (is "?l = ?r")
proof
  show "?r \<subseteq> ?l"
  proof (cases "indexes_of reqs a = []")
    case True
    then show ?thesis by (simp add: dropped_of_def)
  next
    case False
    then have "(a, indexes_of reqs a) \<in> set (group_indexes reqs)" by (simp add: group_iff)
    then show ?thesis using set_dropped by (fastforce simp: dropped_indexes_def)
  qed
  show "?l \<subseteq> ?r"
  proof clarify
    fix i assume i: "i \<in> set (indexes_of reqs a)" and d: "i \<in> set (dropped_indexes parse reqs n)"
    from d obtain b where b: "i \<in> set (dropped_of parse reqs n (indexes_of reqs b))"
      by (auto simp: dropped_indexes_def group_iff)
    then have "i \<in> set (indexes_of reqs b)" using set_dropped by blast
    with i have "a = b" by (auto simp: indexes_of_def)
    with b show "i \<in> ?r" by simp
  qed
qed

lemma prune_excess_eq:
  "fst (pruneExcessRequestsByAccount parse reqs n) =
     (if n = 0 \<or> length reqs \<le> n then reqs
      else map ((!) reqs) (filter (\<lambda>i. i \<notin> set (dropped_indexes parse reqs n)) [0..<length reqs]))"
  by (simp add: pruneExcessRequestsByAccount_def Let_def flip: dropped_indexes_def)
    (simp add: enumerate_nth filter_map comp_def map_nth)

lemma prune_excess_subset: "set (fst (pruneExcessRequestsByAccount parse reqs n)) \<subseteq> set reqs"
  by (auto simp: prune_excess_eq)

text \<open>At most \<open>n\<close> requests of an account stay, and they are the ones seen last.\<close>

lemma prune_excess_capped:
  assumes "0 < n"
  shows "length (filter (\<lambda>r. resolvePairingRequestAccountId r = a) (fst (pruneExcessRequestsByAccount parse reqs n))) \<le> n"
proof (cases "length reqs \<le> n")
  case True
  then show ?thesis by (simp add: prune_excess_eq le_trans [OF length_filter_le])
next
  case False
  let ?d = "set (dropped_indexes parse reqs n)" and ?ix = "indexes_of reqs a"
  have "length (filter (\<lambda>r. resolvePairingRequestAccountId r = a) (fst (pruneExcessRequestsByAccount parse reqs n)))
      = length (filter (\<lambda>i. i \<notin> ?d) ?ix)"
    using assms False by (simp add: prune_excess_eq filter_map comp_def indexes_of_def conj_commute)
  also have "\<dots> = card (set ?ix - set (dropped_of parse reqs n ?ix))"
  proof -
    have "distinct (filter (\<lambda>i. i \<notin> ?d) ?ix)" by (simp add: indexes_of_def)
    moreover have "set (filter (\<lambda>i. i \<notin> ?d) ?ix) = set ?ix - set (dropped_of parse reqs n ?ix)"
      using dropped_at [of reqs a parse n] by auto
    ultimately show ?thesis by (metis distinct_card)
  qed
  also have "\<dots> = length ?ix - (length ?ix - n)"
  proof -
    have d: "distinct ?ix" by (simp add: indexes_of_def)
    show ?thesis
      by (simp add: card_Diff_subset set_dropped card_dropped [OF d] distinct_card [OF d])
  qed
  finally show ?thesis by simp
qed

lemma account_idem [simp]: "normalizePairingAccountId (Some (or_default_account (normalizePairingAccountId a))) =
    or_default_account (normalizePairingAccountId a)"
proof (cases "normalizePairingAccountId a = []")
  case True
  then show ?thesis by (simp add: or_default_account_def) (simp add: normalizePairingAccountId_def, code_simp)
next
  case False
  then obtain b where b: "a = Some b" "to_lower (trim b) \<noteq> []" by (auto simp: normalizePairingAccountId_def split: option.splits)
  then have "tight (to_lower (trim b))" by (simp add: tight_lower trim_tight)
  with b False show ?thesis by (simp add: or_default_account_def normalizePairingAccountId_def tight_trim)
qed

lemma find_index_Some: "find_index P xs = Some i \<Longrightarrow> i < length xs \<and> P (xs ! i) \<and> (\<forall>j < i. \<not> P (xs ! j))"
  by (auto simp: find_index_def find_Some_iff)

lemma find_index_None: "find_index P xs = None \<longleftrightarrow> (\<forall>x \<in> set xs. \<not> P x)"
  by (force simp: find_index_def find_None_iff in_set_conv_nth)

lemma meta_account_new: "meta_account \<lparr>cr_id = i, cr_code = c, cr_createdAt = t, cr_lastSeenAt = u, cr_meta = Some (request_meta m a)\<rparr> = a"
  by (simp add: meta_account_def request_meta_def update_conv' or_default_def)

lemma unique_code_new: "generateUniqueCode draw existing = Inr c \<Longrightarrow> c \<notin> existing"
  by (auto simp: generateUniqueCode_def find_Some_iff split: option.splits)

lemma account_not_empty [simp]: "or_default_account a \<noteq> []"
  by (simp add: or_default_account_def DEFAULT_ACCOUNT_ID_def)

lemma read_write_pending [simp]: "readPairingRequests p (write_pending p reqs d) = reqs"
  by (simp add: readPairingRequests_def write_pending_def or_default_def)

text \<open>The requests of a file that have not expired, the codes in use among them, and the requests of one account.\<close>

definition live_requests :: "(string \<Rightarrow> int option) \<Rightarrow> int \<Rightarrow> string \<Rightarrow> pairing_disk \<Rightarrow> channel_request list" where
  "live_requests parse now path d = filter (\<lambda>r. \<not> isExpired parse r now) (readPairingRequests path d)"

definition codes_in_use :: "channel_request list \<Rightarrow> string set" where
  "codes_in_use reqs = (\<lambda>r. to_upper (trim (cr_code r))) ` set reqs"

definition of_account :: "string \<Rightarrow> channel_request list \<Rightarrow> channel_request list" where
  "of_account a reqs = filter (\<lambda>r. resolvePairingRequestAccountId r = a) reqs"

lemma of_account_capped: "length (of_account a (fst (pruneExcessRequestsByAccount parse reqs PAIRING_PENDING_MAX))) \<le> 3"
  using prune_excess_capped [of 3] by (simp add: of_account_def PAIRING_PENDING_MAX_def)

lemma prune_expired_live: "pruneExpiredRequests parse (readPairingRequests path d) now =
    (live_requests parse now path d, list_ex (\<lambda>r. isExpired parse r now) (readPairingRequests path d))"
  by (simp add: pruneExpiredRequests_def live_requests_def)

lemma no_expired: "\<not> list_ex (\<lambda>r. isExpired parse r now) (readPairingRequests path d) \<Longrightarrow>
    live_requests parse now path d = readPairingRequests path d"
  by (simp add: live_requests_def list_ex_iff filter_id_conv)

lemma prune_excess_kept: "\<not> snd (pruneExcessRequestsByAccount parse reqs n) \<Longrightarrow>
    fst (pruneExcessRequestsByAccount parse reqs n) = reqs"
  by (auto simp: pruneExcessRequestsByAccount_def Let_def split: if_splits)

text \<open>The sender of an incoming request, and the account that it is for.\<close>

definition asking :: "string \<Rightarrow> string \<Rightarrow> channel_request \<Rightarrow> bool" where
  "asking i acct r \<longleftrightarrow> cr_id r = trim i \<and> resolvePairingRequestAccountId r = or_default_account (normalizePairingAccountId (Some acct))"

lemma asking_eq: "(\<lambda>r. cr_id r = trim i \<and> requestMatchesAccountId r (or_default_account (normalizePairingAccountId (Some acct)))) =
    asking i acct"
  by (simp add: asking_def requestMatchesAccountId_def fun_eq_iff)

lemma of_account_eq: "filter (\<lambda>r. requestMatchesAccountId r (or_default_account a)) reqs = of_account (or_default_account a) reqs"
  by (simp add: of_account_def requestMatchesAccountId_def)

lemma codes_in_use_eq: "set (map (\<lambda>r. to_upper (trim (cr_code r))) reqs) = codes_in_use reqs"
  by (simp add: codes_in_use_def)

lemma upsert_eq:
  assumes "resolvePairingPath channel = Inr path"
  shows "upsertChannelPairingRequest parse toISO draw now channel i acct metaIn d =
    (let a = or_default_account (normalizePairingAccountId (Some acct));
         L = live_requests parse now path d;
         mk = \<lambda>c t. \<lparr>cr_id = trim i, cr_code = c, cr_createdAt = t, cr_lastSeenAt = toISO now, cr_meta = Some (request_meta metaIn a)\<rparr> in
     case find_index (asking i acct) L of
       Some ix \<Rightarrow>
         (case (if trim (cr_code (L ! ix)) \<noteq> [] then Inr (trim (cr_code (L ! ix))) else generateUniqueCode draw (codes_in_use L)) of
            Inl e \<Rightarrow> Inl e
          | Inr c \<Rightarrow> Inr ((c, False), write_pending path
              (fst (pruneExcessRequestsByAccount parse (L[ix := mk c (cr_createdAt (L ! ix))]) PAIRING_PENDING_MAX)) d))
     | None \<Rightarrow>
         (let (capped, cut) = pruneExcessRequestsByAccount parse L PAIRING_PENDING_MAX in
          if 3 \<le> length (of_account a capped)
          then Inr (([], False), if list_ex (\<lambda>r. isExpired parse r now) (readPairingRequests path d) \<or> cut
                                 then write_pending path capped d else d)
          else (case generateUniqueCode draw (codes_in_use L) of
              Inl e \<Rightarrow> Inl e
            | Inr c \<Rightarrow> Inr ((c, True), write_pending path (capped @ [mk c (toISO now)]) d))))"
  unfolding upsertChannelPairingRequest_def assms sum.case Let_def prune_expired_live prod.case asking_eq of_account_eq
    codes_in_use_eq
  by (simp only: split_def PAIRING_PENDING_MAX_def)

lemma unique_code_fresh:
  "case generateUniqueCode draw existing of Inl e \<Rightarrow> e = NoUniqueCode | Inr c \<Rightarrow> c \<notin> existing"
  by (auto simp: generateUniqueCode_def find_Some_iff split: option.splits)


section \<open>The cache of the allowlist files\<close>

text \<open>What a file holds, and which entries the normal form of the channel leaves stable: stripping a prefix, as most
  channels do, is stable but for an entry that has it twice.\<close>

definition stored_entries :: "(string \<Rightarrow> string) option \<Rightarrow> string \<Rightarrow> pairing_disk \<Rightarrow> string list" where
  "stored_entries a p d = normalizeAllowFromList a (file_entries (pk_allow d p))"

definition entry_stable :: "(string \<Rightarrow> string) option \<Rightarrow> string \<Rightarrow> bool" where
  "entry_stable a x \<longleftrightarrow> normalizeAllowEntry a (normalizeAllowEntry a x) = normalizeAllowEntry a x"

definition normal_list :: "(string \<Rightarrow> string) option \<Rightarrow> string list \<Rightarrow> bool" where
  "normal_list a l \<longleftrightarrow> distinct l \<and> (\<forall>x \<in> set l. normalizeAllowEntry a x = x \<and> x \<noteq> [])"

lemma entry_trimmed: "trim (normalizeAllowEntry a x) = normalizeAllowEntry a x"
  by (simp add: normalizeAllowEntry_def Let_def) (simp add: trim_def trim_end_def)

lemma entry_of_trim [simp]: "normalizeAllowEntry a (trim x) = normalizeAllowEntry a x"
  by (simp add: normalizeAllowEntry_def)

lemma set_dedupe_order: "set (dedupePreserveOrder l) = trim ` set l - {[]}"
  by (auto simp: dedupePreserveOrder_def)

lemma distinct_dedupe_order: "distinct (dedupePreserveOrder l)"
  by (simp add: dedupePreserveOrder_def)

lemma dedupe_id:
  assumes "distinct l" and "\<forall>x \<in> set l. trim x = x \<and> x \<noteq> []"
  shows "dedupePreserveOrder l = l"
proof -
  have "map trim l = l" using assms(2) by (simp add: map_idI)
  then show ?thesis using assms by (simp add: dedupePreserveOrder_def filter_id_conv distinct_remdups_id)
qed

lemma normalize_id:
  assumes "normal_list a l"
  shows "normalizeAllowFromList a l = l"
proof -
  have x: "normalizeAllowEntry a x = x" "x \<noteq> []" if "x \<in> set l" for x using assms that by (auto simp: normal_list_def)
  then have "map (normalizeAllowEntry a) l = l" by (simp add: map_idI)
  moreover have "filter (\<lambda>s. s \<noteq> []) l = l" using x by (simp add: filter_id_conv)
  moreover have "dedupePreserveOrder l = l" using assms x entry_trimmed [of a] by (metis dedupe_id normal_list_def)
  ultimately show ?thesis by (simp add: normalizeAllowFromList_def)
qed

lemma set_normalize: "set (normalizeAllowFromList a l) = normalizeAllowEntry a ` set l - {[]}"
  by (auto simp: normalizeAllowFromList_def set_dedupe_order entry_trimmed)
    (use entry_trimmed in \<open>force simp: image_iff\<close>)

lemma normal_normalize: "list_all (entry_stable a) l \<Longrightarrow> normal_list a (normalizeAllowFromList a l)"
  by (auto simp: normal_list_def set_normalize entry_stable_def list_all_iff)
    (simp add: normalizeAllowFromList_def distinct_dedupe_order)

lemma normal_snoc: "entry_stable a x \<Longrightarrow> normal_list a l \<Longrightarrow> normalizeAllowEntry a x \<noteq> [] \<Longrightarrow>
    normalizeAllowEntry a x \<notin> set l \<Longrightarrow> normal_list a (l @ [normalizeAllowEntry a x])"
  by (auto simp: normal_list_def entry_stable_def)

lemma normal_stable: "normal_list a l \<Longrightarrow> list_all (entry_stable a) l"
  by (simp add: normal_list_def list_all_iff entry_stable_def)

lemma normal_filter: "normal_list a l \<Longrightarrow> normal_list a (filter P l)"
  by (auto simp: normal_list_def)

text \<open>A cached entry that matches the file has what the file holds.\<close>

definition entry_current :: "(string \<Rightarrow> string) option \<Rightarrow> allow_node \<Rightarrow> allow_cache_entry \<Rightarrow> bool" where
  "entry_current a n e \<longleftrightarrow> (if ac_exists e then
      (case n of AllowFile f \<Rightarrow>
         ac_mtime e = Some (af_mtime f) \<longrightarrow> ac_size e = Some (af_size f) \<longrightarrow>
         ac_entries e = normalizeAllowFromList a (body_entries (af_body f))
       | _ \<Rightarrow> True)
     else ac_entries e = [])"

definition cache_current :: "(string \<Rightarrow> string) option \<Rightarrow> pairing_disk \<Rightarrow> bool" where
  "cache_current a d \<longleftrightarrow> (\<forall>p e. pk_cache d p = Some e \<longrightarrow> entry_current a (pk_allow d p) e)"

lemma cache_current_put:
  "cache_current a d \<Longrightarrow> entry_current a (pk_allow d p) e \<Longrightarrow> cache_current a (put_cache p e d)"
  by (simp add: cache_current_def put_cache_def)

lemma put_cache_sel [simp]: "pk_allow (put_cache p e d) = pk_allow d" "pk_pending (put_cache p e d) = pk_pending d"
  by (simp_all add: put_cache_def)

definition same_files :: "pairing_disk \<Rightarrow> pairing_disk \<Rightarrow> bool" where
  "same_files d d' \<longleftrightarrow> pk_allow d' = pk_allow d \<and> pk_pending d' = pk_pending d"

lemma same_files_refl [simp]: "same_files d d"
  by (simp add: same_files_def)

lemma same_files_put [simp]: "same_files d (put_cache p e d)"
  by (simp add: same_files_def)

lemma same_files_trans: "same_files d d1 \<Longrightarrow> same_files d1 d2 \<Longrightarrow> same_files d d2"
  by (simp add: same_files_def)

lemma stored_same: "same_files d d' \<Longrightarrow> stored_entries a p d' = stored_entries a p d"
  by (simp add: same_files_def stored_entries_def)

lemma no_entries [simp]: "normalizeAllowFromList a [] = []"
  by (simp add: normalizeAllowFromList_def dedupePreserveOrder_def)

lemma cache_hit_current:
  assumes "cache_current a d" and "st = (case pk_allow d p of AllowFile f \<Rightarrow> Some f | _ \<Rightarrow> None)"
    and "pk_allow d p \<noteq> StatError"
    and "resolveAllowFromReadCacheHit p (st \<noteq> None) (map_option af_mtime st) (map_option af_size st) d = Some e"
  shows "ac_entries e = stored_entries a p d"
proof -
  from assms(4) have e: "pk_cache d p = Some e" and x: "ac_exists e = (st \<noteq> None)"
    and m: "st \<noteq> None \<Longrightarrow> ac_mtime e = map_option af_mtime st \<and> ac_size e = map_option af_size st"
    by (auto simp: resolveAllowFromReadCacheHit_def split: option.splits if_splits)
  from assms(1) e have c: "entry_current a (pk_allow d p) e" by (simp add: cache_current_def)
  show ?thesis
  proof (cases "pk_allow d p")
    case (AllowFile f)
    then show ?thesis using assms(2) x m c by (simp add: entry_current_def stored_entries_def file_entries_def)
  next
    case NoFile
    then show ?thesis using assms(2) x c by (simp add: entry_current_def stored_entries_def file_entries_def)
  qed (use assms(3) in simp)
qed

lemma read_path_current:
  assumes ok: "cache_current a d" and st: "pk_allow d p \<noteq> StatError"
  obtains d' where "readAllowFromStateForPath a p d = Inr (stored_entries a p d, d')" and "same_files d d'"
    and "cache_current a d'"
proof -
  let ?st = "case pk_allow d p of AllowFile f \<Rightarrow> Some f | _ \<Rightarrow> None"
  have "\<exists>d'. readAllowFromStateForPath a p d = Inr (stored_entries a p d, d') \<and> same_files d d' \<and> cache_current a d'"
  proof (cases "resolveAllowFromReadCacheHit p (?st \<noteq> None) (map_option af_mtime ?st) (map_option af_size ?st) d")
    case (Some e)
    from cache_hit_current [OF ok refl st Some] Some ok st show ?thesis
      by (simp add: readAllowFromStateForPath_def readAllowFromStateForPathWithExists_def Let_def
          resolveAllowFromReadCacheOrMissing_def)
  next
    case None
    show ?thesis
    proof (cases "pk_allow d p")
      case NoFile
      with None ok show ?thesis
        by (simp add: readAllowFromStateForPath_def readAllowFromStateForPathWithExists_def Let_def
            resolveAllowFromReadCacheOrMissing_def stored_entries_def file_entries_def cache_current_put entry_current_def)
    next
      case (AllowFile f)
      have "entry_current a (pk_allow d p) (cache_of (af_body f \<noteq> Unreadable) f (stored_entries a p d))"
        by (simp add: entry_current_def AllowFile cache_of_def stored_entries_def file_entries_def body_entries_def)
      with AllowFile None ok show ?thesis
        by (simp add: readAllowFromStateForPath_def readAllowFromStateForPathWithExists_def Let_def
            resolveAllowFromReadCacheOrMissing_def stored_entries_def file_entries_def cache_current_put)
    qed (use st in simp)
  qed
  then show ?thesis using that by blast
qed

text \<open>The synchronous reader reads the same.\<close>

lemma read_path_sync_current:
  assumes ok: "cache_current a d" and st: "pk_allow d p \<noteq> StatError"
  obtains d' where "readAllowFromStateForPathSync a p d = (stored_entries a p d, d')" and "same_files d d'"
    and "cache_current a d'"
proof -
  let ?st = "case pk_allow d p of AllowFile f \<Rightarrow> Some f | _ \<Rightarrow> None"
  have "\<exists>d'. readAllowFromStateForPathSync a p d = (stored_entries a p d, d') \<and> same_files d d' \<and> cache_current a d'"
  proof (cases "resolveAllowFromReadCacheHit p (?st \<noteq> None) (map_option af_mtime ?st) (map_option af_size ?st) d")
    case (Some e)
    from cache_hit_current [OF ok refl st Some] Some ok st show ?thesis
      by (simp add: readAllowFromStateForPathSync_def readAllowFromStateForPathSyncWithExists_def Let_def
          resolveAllowFromReadCacheOrMissing_def)
  next
    case None
    show ?thesis
    proof (cases "pk_allow d p")
      case NoFile
      with None ok show ?thesis
        by (simp add: readAllowFromStateForPathSync_def readAllowFromStateForPathSyncWithExists_def Let_def
            resolveAllowFromReadCacheOrMissing_def stored_entries_def file_entries_def cache_current_put entry_current_def)
    next
      case (AllowFile f)
      have "entry_current a (pk_allow d p) (cache_of True f (stored_entries a p d))"
        by (simp add: entry_current_def AllowFile cache_of_def stored_entries_def file_entries_def body_entries_def)
      with AllowFile None ok show ?thesis
        by (cases "af_body f")
          (simp_all add: readAllowFromStateForPathSync_def readAllowFromStateForPathSyncWithExists_def Let_def
            resolveAllowFromReadCacheOrMissing_def stored_entries_def file_entries_def body_entries_def cache_current_put)
    qed (use st in simp)
  qed
  then show ?thesis using that by blast
qed

section \<open>Changes of the allowlist files\<close>

text \<open>Every entry of the allowlist files is stable, and so is every sender who waits.\<close>

definition files_stable :: "(string \<Rightarrow> string) option \<Rightarrow> pairing_disk \<Rightarrow> bool" where
  "files_stable a d \<longleftrightarrow> (\<forall>p. list_all (entry_stable a) (file_entries (pk_allow d p)))"

definition requests_stable :: "(string \<Rightarrow> string) option \<Rightarrow> pairing_disk \<Rightarrow> bool" where
  "requests_stable a d \<longleftrightarrow> (\<forall>p. list_all (\<lambda>r. entry_stable a (cr_id r)) (readPairingRequests p d))"

text \<open>A file written now gets a time of modification that the cache does not have yet.\<close>

definition later_stamp :: "(string list \<Rightarrow> int \<times> int) \<Rightarrow> pairing_disk \<Rightarrow> bool" where
  "later_stamp stamp d \<longleftrightarrow> (\<forall>p e es. pk_cache d p = Some e \<longrightarrow> ac_mtime e \<noteq> Some (fst (stamp es)))"

lemma write_allow_sel [simp]:
  "pk_cache (write_allow stamp p l d) = pk_cache d" "pk_pending (write_allow stamp p l d) = pk_pending d"
  "q \<noteq> p \<Longrightarrow> pk_allow (write_allow stamp p l d) q = pk_allow d q"
  "file_entries (pk_allow (write_allow stamp p l d) p) = l"
  by (simp_all add: write_allow_def file_entries_def body_entries_def)

lemma write_pending_sel [simp]:
  "pk_allow (write_pending p l d) = pk_allow d" "pk_cache (write_pending p l d) = pk_cache d"
  by (simp_all add: write_pending_def)

lemma write_state_sel [simp]:
  "pk_pending (writeAllowFromState stamp p l d) = pk_pending d"
  "q \<noteq> p \<Longrightarrow> pk_allow (writeAllowFromState stamp p l d) q = pk_allow d q"
  "file_entries (pk_allow (writeAllowFromState stamp p l d) p) = l"
  by (simp_all add: writeAllowFromState_def)

lemma cache_current_later:
  assumes "cache_current a d" and "later_stamp stamp d"
  shows "cache_current a (write_allow stamp p l d)"
  using assms by (auto simp: cache_current_def entry_current_def later_stamp_def write_allow_def split: allow_node.splits)

lemma cache_current_write:
  assumes "cache_current a d" and "normal_list a l"
  shows "cache_current a (writeAllowFromState stamp p l d)"
  using assms
  by (auto simp: cache_current_def entry_current_def writeAllowFromState_def put_cache_def write_allow_def body_entries_def
      normalize_id)

lemma ensure_allow_Inr:
  assumes "ensure_allow stamp p d0 = Inr d"
  shows "stored_entries a p d = stored_entries a p d0" and "q \<noteq> p \<Longrightarrow> pk_allow d q = pk_allow d0 q"
    and "pk_pending d = pk_pending d0" and "pk_cache d = pk_cache d0"
    and "cache_current a d0 \<Longrightarrow> later_stamp stamp d0 \<Longrightarrow> cache_current a d"
    and "file_entries (pk_allow d p) = file_entries (pk_allow d0 p)"
  using assms
  by (auto simp: ensure_allow_def stored_entries_def cache_current_later file_entries_def split: allow_node.splits)
    (auto simp: write_allow_def body_entries_def)

text \<open>The two changes, on the file of the account.\<close>

lemma add_eq:
  assumes "resolveAllowFromPath ch acct = Inr p" and "ensure_allow stamp p d0 = Inr d"
  shows "addChannelAllowFromStoreEntry a stamp ch x acct d0 =
    (let cur = stored_entries a p d; n = normalizeAllowEntry a x in
     if n = [] \<or> n \<in> set cur then Inr ((False, cur), d)
     else Inr ((True, cur @ [n]), writeAllowFromState stamp p (cur @ [n]) d))"
  by (simp add: addChannelAllowFromStoreEntry_def updateAllowFromStoreEntry_def assms Let_def stored_entries_def)

lemma remove_entry_eq:
  assumes "resolveAllowFromPath ch acct = Inr p" and "ensure_allow stamp p d0 = Inr d"
  shows "removeChannelAllowFromStoreEntry a stamp ch x acct d0 =
    (let cur = stored_entries a p d; n = normalizeAllowEntry a x in
     if n \<notin> set cur then Inr ((False, cur), d)
     else Inr ((True, filter (\<lambda>e. e \<noteq> n) cur), writeAllowFromState stamp p (filter (\<lambda>e. e \<noteq> n) cur) d))"
proof -
  have "length (filter (\<lambda>e. e \<noteq> n) cur) = length cur \<longleftrightarrow> n \<notin> set cur" for n :: string and cur
    by (metis (mono_tags, lifting) filter_True filter_id_conv length_filter_less less_irrefl)
  moreover have "[] \<notin> set (stored_entries a p d)" by (simp add: stored_entries_def set_normalize)
  ultimately show ?thesis
    by (simp add: removeChannelAllowFromStoreEntry_def updateAllowFromStoreEntry_def assms Let_def)
      (auto simp: stored_entries_def)
qed

lemma add_Inr:
  assumes "addChannelAllowFromStoreEntry a stamp ch x acct d0 = Inr (r, d')"
  obtains p d where "resolveAllowFromPath ch acct = Inr p" and "ensure_allow stamp p d0 = Inr d"
  using assms by (auto simp: addChannelAllowFromStoreEntry_def updateAllowFromStoreEntry_def split: sum.splits)

lemma remove_Inr:
  assumes "removeChannelAllowFromStoreEntry a stamp ch x acct d0 = Inr (r, d')"
  obtains p d where "resolveAllowFromPath ch acct = Inr p" and "ensure_allow stamp p d0 = Inr d"
  using assms by (auto simp: removeChannelAllowFromStoreEntry_def updateAllowFromStoreEntry_def split: sum.splits)

lemma add_effect:
  assumes "addChannelAllowFromStoreEntry a stamp ch x acct d0 = Inr (r, d')"
    and "resolveAllowFromPath ch acct = Inr p"
  shows "pk_pending d' = pk_pending d0" and "q \<noteq> p \<Longrightarrow> pk_allow d' q = pk_allow d0 q"
    and "files_stable a d0 \<Longrightarrow> entry_stable a x \<Longrightarrow> cache_current a d0 \<Longrightarrow> later_stamp stamp d0 \<Longrightarrow> cache_current a d'"
    and "files_stable a d0 \<Longrightarrow> entry_stable a x \<Longrightarrow> stored_entries a p d' =
      (let cur = stored_entries a p d0; n = normalizeAllowEntry a x in if n = [] \<or> n \<in> set cur then cur else cur @ [n])"
    and "pk_allow d' p \<noteq> StatError"
    and "files_stable a d0 \<Longrightarrow> entry_stable a x \<Longrightarrow> files_stable a d'"
proof -
  obtain d where d: "ensure_allow stamp p d0 = Inr d" using add_Inr [OF assms(1)] assms(2) by auto
  note ens = ensure_allow_Inr [OF d]
  let ?cur = "stored_entries a p d0" and ?n = "normalizeAllowEntry a x"
  from assms(1) have d': "d' = (if ?n = [] \<or> ?n \<in> set ?cur then d else writeAllowFromState stamp p (?cur @ [?n]) d)"
    by (auto simp: add_eq [OF assms(2) d] Let_def ens(1) split: if_splits)
  show "pk_pending d' = pk_pending d0" by (simp add: d' ens(3))
  show "q \<noteq> p \<Longrightarrow> pk_allow d' q = pk_allow d0 q" by (simp add: d' ens(2))
  have st: "pk_allow d p \<noteq> StatError" using d by (auto simp: ensure_allow_def write_allow_def split: allow_node.splits)
  then show "pk_allow d' p \<noteq> StatError" by (simp add: d' writeAllowFromState_def write_allow_def)
  assume s: "files_stable a d0" "entry_stable a x"
  have norm: "normal_list a (?cur @ [?n])" if "?n \<noteq> []" "?n \<notin> set ?cur"
    using that s by (intro normal_snoc) (simp_all add: stored_entries_def normal_normalize files_stable_def)
  show "cache_current a d0 \<Longrightarrow> later_stamp stamp d0 \<Longrightarrow> cache_current a d'"
    using norm by (simp add: d' ens(5) cache_current_write)
  show "files_stable a d'" unfolding files_stable_def
  proof
    fix q
    show "list_all (entry_stable a) (file_entries (pk_allow d' q))"
      using norm [THEN normal_stable] s(1) ens(2) [of q] ens(6) by (cases "q = p") (auto simp: d' files_stable_def)
  qed
  show "stored_entries a p d' = (let cur = ?cur; n = ?n in if n = [] \<or> n \<in> set cur then cur else cur @ [n])"
    using norm by (simp add: d' ens(1)) (simp add: stored_entries_def [of a p "writeAllowFromState _ _ _ _"] normalize_id)
qed

lemma remove_effect:
  assumes "removeChannelAllowFromStoreEntry a stamp ch x acct d0 = Inr (r, d')"
    and "resolveAllowFromPath ch acct = Inr p"
  shows "pk_pending d' = pk_pending d0" and "q \<noteq> p \<Longrightarrow> pk_allow d' q = pk_allow d0 q"
    and "files_stable a d0 \<Longrightarrow> cache_current a d0 \<Longrightarrow> later_stamp stamp d0 \<Longrightarrow> cache_current a d'"
    and "files_stable a d0 \<Longrightarrow> files_stable a d'"
    and "files_stable a d0 \<Longrightarrow> stored_entries a p d' = filter (\<lambda>e. e \<noteq> normalizeAllowEntry a x) (stored_entries a p d0)"
proof -
  obtain d where d: "ensure_allow stamp p d0 = Inr d" using remove_Inr [OF assms(1)] assms(2) by auto
  note ens = ensure_allow_Inr [OF d]
  let ?cur = "stored_entries a p d0" and ?n = "normalizeAllowEntry a x"
  from assms(1) have d': "d' = (if ?n \<notin> set ?cur then d else writeAllowFromState stamp p (filter (\<lambda>e. e \<noteq> ?n) ?cur) d)"
    by (auto simp: remove_entry_eq [OF assms(2) d] Let_def ens(1) split: if_splits)
  show "pk_pending d' = pk_pending d0" by (simp add: d' ens(3))
  show "q \<noteq> p \<Longrightarrow> pk_allow d' q = pk_allow d0 q" by (simp add: d' ens(2))
  assume s: "files_stable a d0"
  then have norm: "normal_list a (filter (\<lambda>e. e \<noteq> ?n) ?cur)"
    by (simp add: stored_entries_def normal_normalize normal_filter files_stable_def)
  show "cache_current a d0 \<Longrightarrow> later_stamp stamp d0 \<Longrightarrow> cache_current a d'"
    using norm by (simp add: d' ens(5) cache_current_write)
  show "files_stable a d'" unfolding files_stable_def
  proof
    fix q
    show "list_all (entry_stable a) (file_entries (pk_allow d' q))"
      using normal_stable [OF norm] s ens(2) [of q] ens(6) by (cases "q = p") (auto simp: d' files_stable_def)
  qed
  have "filter (\<lambda>e. e \<noteq> ?n) ?cur = ?cur" if "?n \<notin> set ?cur" using that by (auto simp: filter_id_conv)
  then show "stored_entries a p d' = filter (\<lambda>e. e \<noteq> ?n) ?cur"
    using norm by (simp add: d' ens(1)) (simp add: stored_entries_def [of a p "writeAllowFromState _ _ _ _"] normalize_id)
qed

section \<open>Approving a code\<close>

lemma approve_Some:
  assumes "approveChannelPairingCode parse a stamp now ch cin acct d = (Inr (Some e), d')"
  obtains path ix p r where "resolvePairingPath ch = Inr path" and "e = live_requests parse now path d ! ix"
    and "ix < length (live_requests parse now path d)"
    and "to_upper (cr_code e) = to_upper (trim cin)" and "to_upper (trim cin) \<noteq> []"
    and "requestMatchesAccountId e (normalizePairingAccountId acct)"
    and "resolveAllowFromPath ch (approval_account acct e) = Inr p"
    and "addChannelAllowFromStoreEntry a stamp ch (cr_id e) (approval_account acct e)
      (write_pending path (splice_out ix (live_requests parse now path d)) d) = Inr (r, d')"
proof -
  from assms obtain path ix r where x: "to_upper (trim cin) \<noteq> []" "resolvePairingPath ch = Inr path"
    "find_index (\<lambda>r. to_upper (cr_code r) = to_upper (trim cin) \<and> requestMatchesAccountId r (normalizePairingAccountId acct))
       (live_requests parse now path d) = Some ix" "e = live_requests parse now path d ! ix"
    "addChannelAllowFromStoreEntry a stamp ch (cr_id e) (approval_account acct e)
      (write_pending path (splice_out ix (live_requests parse now path d)) d) = Inr (r, d')"
    by (auto simp: approveChannelPairingCode_def Let_def prune_expired_live split: if_splits sum.splits option.splits)
  from add_Inr [OF x(5)] obtain p where "resolveAllowFromPath ch (approval_account acct e) = Inr p" by metis
  with x find_index_Some [OF x(3)] show ?thesis by (intro that) auto
qed

lemma approve_other:
  assumes "approveChannelPairingCode parse a stamp now ch cin acct d = (res, d')" and "\<nexists>e. res = Inr (Some e)"
  shows "pk_allow d' = pk_allow d" and "pk_cache d' = pk_cache d"
  using assms
  by (auto simp: approveChannelPairingCode_def Let_def split: if_splits sum.splits option.splits prod.splits)

section \<open>Reading an account's allowlist\<close>

text \<open>What an account's allowlist is, without the cache.\<close>

definition channel_entries ::
    "(string \<Rightarrow> string) option \<Rightarrow> string \<Rightarrow> string option \<Rightarrow> pairing_disk \<Rightarrow> pairing_error + string list" where
  "channel_entries a ch acct d =
     (let account = resolveAllowFromAccountId acct in
      case resolveAllowFromPath ch (Some account) of
        Inl e \<Rightarrow> Inl e
      | Inr p \<Rightarrow>
          if \<not> shouldIncludeLegacyAllowFromEntries account then Inr (stored_entries a p d)
          else (case resolveAllowFromPath ch None of
              Inl e \<Rightarrow> Inl e
            | Inr q \<Rightarrow> Inr (dedupePreserveOrder (stored_entries a p d @ stored_entries a q d))))"

definition readable :: "pairing_disk \<Rightarrow> bool" where
  "readable d \<longleftrightarrow> (\<forall>p. pk_allow d p \<noteq> StatError)"

lemma readable_same: "readable d \<Longrightarrow> same_files d d' \<Longrightarrow> readable d'"
  by (simp add: readable_def same_files_def)

lemma read_channel_current:
  assumes ok: "cache_current a d" and rd: "readable d"
  shows "map_sum (\<lambda>x. x) fst (readChannelAllowFromStore a ch acct d) = channel_entries a ch acct d"
    and "map_sum (\<lambda>x. x) fst (readChannelAllowFromStoreSync a ch acct d) = channel_entries a ch acct d"
proof -
  let ?A = "resolveAllowFromAccountId acct"
  have st: "pk_allow d p \<noteq> StatError" for p using rd by (simp add: readable_def)
  have "map_sum (\<lambda>x. x) fst (readChannelAllowFromStore a ch acct d) = channel_entries a ch acct d \<and>
    map_sum (\<lambda>x. x) fst (readChannelAllowFromStoreSync a ch acct d) = channel_entries a ch acct d"
  proof (cases "resolveAllowFromPath ch (Some ?A)")
    case (Inl e)
    then show ?thesis by (simp add: readChannelAllowFromStore_def readChannelAllowFromStoreSync_def channel_entries_def)
  next
    case (Inr p)
    obtain d1 where d1: "readAllowFromStateForPath a p d = Inr (stored_entries a p d, d1)" "same_files d d1" "cache_current a d1"
      by (rule read_path_current [OF ok st])
    obtain e1 where e1: "readAllowFromStateForPathSync a p d = (stored_entries a p d, e1)" "same_files d e1" "cache_current a e1"
      by (rule read_path_sync_current [OF ok st])
    show ?thesis
    proof (cases "resolveAllowFromPath ch None")
      case None: (Inl e)
      show ?thesis
        by (simp add: readChannelAllowFromStore_def readChannelAllowFromStoreSync_def channel_entries_def Inr None d1(1) e1(1) Let_def)
    next
      case q: (Inr q)
      have st1: "pk_allow d1 q \<noteq> StatError" "pk_allow e1 q \<noteq> StatError" using st d1(2) e1(2) by (simp_all add: same_files_def)
      obtain d2 where d2: "readAllowFromStateForPath a q d1 = Inr (stored_entries a q d1, d2)"
        by (rule read_path_current [OF d1(3) st1(1)])
      obtain e2 where e2: "readAllowFromStateForPathSync a q e1 = (stored_entries a q e1, e2)"
        by (rule read_path_sync_current [OF e1(3) st1(2)])
      show ?thesis
        by (simp add: readChannelAllowFromStore_def readChannelAllowFromStoreSync_def channel_entries_def Inr q d1(1) e1(1)
            d2 e2 stored_same [OF d1(2)] stored_same [OF e1(2)] Let_def)
    qed
  qed
  then show "map_sum (\<lambda>x. x) fst (readChannelAllowFromStore a ch acct d) = channel_entries a ch acct d"
    and "map_sum (\<lambda>x. x) fst (readChannelAllowFromStoreSync a ch acct d) = channel_entries a ch acct d" by blast+
qed

lemma add_files:
  assumes "addChannelAllowFromStoreEntry a stamp ch x acct d0 = Inr (r, d')"
    and "resolveAllowFromPath ch acct = Inr p"
  shows "file_entries (pk_allow d' p) \<in> {file_entries (pk_allow d0 p), stored_entries a p d0 @ [normalizeAllowEntry a x]}"
proof -
  obtain d where d: "ensure_allow stamp p d0 = Inr d" using add_Inr [OF assms(1)] assms(2) by auto
  have e: "file_entries (pk_allow d p) = file_entries (pk_allow d0 p)"
    using d by (auto simp: ensure_allow_def file_entries_def write_allow_def body_entries_def split: allow_node.splits)
  let ?n = "normalizeAllowEntry a x" and ?cur = "stored_entries a p d0"
  from assms(1) have "d' = d \<or> d' = writeAllowFromState stamp p (?cur @ [?n]) d"
    by (auto simp: add_eq [OF assms(2) d] Let_def ensure_allow_Inr(1) [OF d] split: if_splits)
  then show ?thesis using e by auto
qed

lemma mset_splice: "i < length xs \<Longrightarrow> add_mset (xs ! i) (mset (splice_out i xs)) = mset xs"
proof -
  assume "i < length xs"
  then have "xs = take i xs @ xs ! i # drop (Suc i) xs" by (rule id_take_nth_drop)
  then have "mset xs = mset (take i xs @ xs ! i # drop (Suc i) xs)" by simp
  then show ?thesis by (simp add: splice_out_def)
qed


section \<open>Runs of the store\<close>

text \<open>What happens to the files of one channel: its operations, and changes of the files from outside.\<close>

datatype channel_event =
    EvRead "string option"
  | EvReadSync "string option"
  | EvReadLegacy
  | EvAdd "string list \<Rightarrow> int \<times> int" string "string option"
  | EvRemove "string list \<Rightarrow> int \<times> int" string "string option"
  | EvAsk "nat \<Rightarrow> nat" int string string "(string \<times> string option) list option"
  | EvApprove "string list \<Rightarrow> int \<times> int" int string "string option"
  | EvOutside string allow_node

definition step_result :: "pairing_disk \<Rightarrow> 'e + 'r \<times> pairing_disk \<Rightarrow> pairing_disk" where
  "step_result d r = (case r of Inl _ \<Rightarrow> d | Inr (_, d') \<Rightarrow> d')"

fun channel_step ::
    "(string \<Rightarrow> int option) \<Rightarrow> (int \<Rightarrow> string) \<Rightarrow> (string \<Rightarrow> string) option \<Rightarrow> string \<Rightarrow> pairing_disk \<Rightarrow>
     channel_event \<Rightarrow> pairing_disk" where
  "channel_step parse toISO a ch d (EvRead acct) = step_result d (readChannelAllowFromStore a ch acct d)"
| "channel_step parse toISO a ch d (EvReadSync acct) = step_result d (readChannelAllowFromStoreSync a ch acct d)"
| "channel_step parse toISO a ch d EvReadLegacy = step_result d (readLegacyChannelAllowFromStore a ch d)"
| "channel_step parse toISO a ch d (EvAdd stamp x acct) = step_result d (addChannelAllowFromStoreEntry a stamp ch x acct d)"
| "channel_step parse toISO a ch d (EvRemove stamp x acct) =
     step_result d (removeChannelAllowFromStoreEntry a stamp ch x acct d)"
| "channel_step parse toISO a ch d (EvAsk draw now i acct metaIn) =
     step_result d (upsertChannelPairingRequest parse toISO draw now ch i acct metaIn d)"
| "channel_step parse toISO a ch d (EvApprove stamp now cin acct) =
     snd (approveChannelPairingCode parse a stamp now ch cin acct d)"
| "channel_step parse toISO a ch d (EvOutside p n) = d\<lparr>pk_allow := (pk_allow d)(p := n)\<rparr>"

text \<open>A file written now has a time of modification that the cache does not have, and what comes in is stable.\<close>

definition node_ok :: "(string \<Rightarrow> string) option \<Rightarrow> pairing_disk \<Rightarrow> allow_node \<Rightarrow> bool" where
  "node_ok a d n \<longleftrightarrow> list_all (entry_stable a) (file_entries n) \<and>
     (case n of AllowFile f \<Rightarrow> (\<forall>p e. pk_cache d p = Some e \<longrightarrow> ac_mtime e \<noteq> Some (af_mtime f)) | _ \<Rightarrow> True)"

fun event_ok :: "(string \<Rightarrow> string) option \<Rightarrow> pairing_disk \<Rightarrow> channel_event \<Rightarrow> bool" where
  "event_ok a d (EvAdd stamp x acct) = (later_stamp stamp d \<and> entry_stable a x)"
| "event_ok a d (EvRemove stamp x acct) = later_stamp stamp d"
| "event_ok a d (EvAsk draw now i acct metaIn) = entry_stable a i"
| "event_ok a d (EvApprove stamp now cin acct) = later_stamp stamp d"
| "event_ok a d (EvOutside p n) = node_ok a d n"
| "event_ok a d e = True"

definition store_ok :: "(string \<Rightarrow> string) option \<Rightarrow> pairing_disk \<Rightarrow> bool" where
  "store_ok a d \<longleftrightarrow> files_stable a d \<and> requests_stable a d \<and> cache_current a d"

lemma store_ok_same: "store_ok a d \<Longrightarrow> same_files d d' \<Longrightarrow> cache_current a d' \<Longrightarrow> store_ok a d'"
  by (simp add: store_ok_def same_files_def files_stable_def requests_stable_def readPairingRequests_def)

lemma read_path_keeps:
  assumes "readAllowFromStateForPath a p d = Inr (es, d')" and "cache_current a d"
  shows "cache_current a d'" and "same_files d d'"
proof -
  have "pk_allow d p \<noteq> StatError"
    using assms(1) by (auto simp: readAllowFromStateForPath_def readAllowFromStateForPathWithExists_def)
  from read_path_current [OF assms(2) this] assms(1) show "cache_current a d'" "same_files d d'" by (metis Pair_inject sum.inject(2))+
qed

lemma read_path_sync_keeps:
  assumes "readAllowFromStateForPathSync a p d = (es, d')" and "cache_current a d"
  shows "cache_current a d'" and "same_files d d'"
proof -
  have "cache_current a d' \<and> same_files d d'"
  proof (cases "pk_allow d p = StatError")
    case True
    then show ?thesis
      using assms by (simp add: readAllowFromStateForPathSync_def readAllowFromStateForPathSyncWithExists_def)
  next
    case False
    from read_path_sync_current [OF assms(2) False] assms(1) show ?thesis by (metis Pair_inject)
  qed
  then show "cache_current a d'" "same_files d d'" by blast+
qed

lemma read_channel_keeps:
  assumes "store_ok a d"
  shows "store_ok a (step_result d (readChannelAllowFromStore a ch acct d))"
    and "store_ok a (step_result d (readChannelAllowFromStoreSync a ch acct d))"
    and "store_ok a (step_result d (readLegacyChannelAllowFromStore a ch d))"
proof -
  have path: "store_ok a d2" if "readAllowFromStateForPath a p d1 = Inr (es, d2)" "store_ok a d1" for p es d1 d2
    using that read_path_keeps [OF that(1)] by (meson store_ok_def store_ok_same)
  have psync: "store_ok a d2" if "readAllowFromStateForPathSync a p d1 = (es, d2)" "store_ok a d1" for p es d1 d2
    using that read_path_sync_keeps [OF that(1)] by (meson store_ok_def store_ok_same)
  show "store_ok a (step_result d (readChannelAllowFromStore a ch acct d))"
    "store_ok a (step_result d (readChannelAllowFromStoreSync a ch acct d))"
    "store_ok a (step_result d (readLegacyChannelAllowFromStore a ch d))"
    using assms
    by (auto simp: readChannelAllowFromStore_def readChannelAllowFromStoreSync_def readLegacyChannelAllowFromStore_def
        step_result_def Let_def intro: path psync split: sum.splits prod.splits)
qed

lemma later_pending [simp]: "later_stamp stamp (write_pending p l d) = later_stamp stamp d"
  by (simp add: later_stamp_def)

lemma current_pending [simp]: "cache_current a (write_pending p l d) = cache_current a d"
  by (simp add: cache_current_def)

lemma stable_trim [simp]: "entry_stable a (trim x) = entry_stable a x"
  by (simp add: entry_stable_def)

lemma store_ok_pending:
  assumes "store_ok a d" and "list_all (\<lambda>r. entry_stable a (cr_id r)) l"
  shows "store_ok a (write_pending p l d)"
  using assms
  by (auto simp: store_ok_def files_stable_def requests_stable_def write_pending_def readPairingRequests_def
      or_default_def cache_current_def)

lemma requests_of_live: "store_ok a d \<Longrightarrow> list_all (\<lambda>r. entry_stable a (cr_id r)) (live_requests parse now p d)"
  by (auto simp: store_ok_def requests_stable_def live_requests_def list_all_iff)

lemma add_keeps:
  assumes "store_ok a d" "later_stamp stamp d" "entry_stable a x"
  shows "store_ok a (step_result d (addChannelAllowFromStoreEntry a stamp ch x acct d))"
proof (cases "addChannelAllowFromStoreEntry a stamp ch x acct d")
  case (Inr y)
  obtain r d' where y: "y = (r, d')" by (cases y)
  obtain p where p: "resolveAllowFromPath ch acct = Inr p" using add_Inr [OF Inr [unfolded y]] by metis
  note eff = add_effect [OF Inr [unfolded y] p]
  show ?thesis using assms eff(1,3,6) by (simp add: Inr y step_result_def store_ok_def requests_stable_def readPairingRequests_def)
qed (use assms in \<open>simp add: step_result_def\<close>)

lemma remove_keeps:
  assumes "store_ok a d" "later_stamp stamp d"
  shows "store_ok a (step_result d (removeChannelAllowFromStoreEntry a stamp ch x acct d))"
proof (cases "removeChannelAllowFromStoreEntry a stamp ch x acct d")
  case (Inr y)
  obtain r d' where y: "y = (r, d')" by (cases y)
  obtain p where p: "resolveAllowFromPath ch acct = Inr p" using remove_Inr [OF Inr [unfolded y]] by metis
  note eff = remove_effect [OF Inr [unfolded y] p]
  show ?thesis using assms eff(1,3,4) by (simp add: Inr y step_result_def store_ok_def requests_stable_def readPairingRequests_def)
qed (use assms in \<open>simp add: step_result_def\<close>)

text \<open>Asking writes requests that were there, and one of the sender.\<close>

lemma set_prune_update:
  "set (fst (pruneExcessRequestsByAccount parse (L[ix := r]) n)) \<subseteq> insert r (set L)"
  using prune_excess_subset [of parse "L[ix := r]" n] set_update_subset_insert [of L ix r] by blast

lemma upsert_files:
  assumes "upsertChannelPairingRequest parse toISO draw now ch i acct metaIn d = Inr (r, d')"
  obtains "d' = d" | p l where "d' = write_pending p l d"
    and "\<And>x. x \<in> set l \<Longrightarrow> cr_id x = trim i \<or> x \<in> set (live_requests parse now p d)"
proof -
  obtain path where path: "resolvePairingPath ch = Inr path"
    using assms by (cases "resolvePairingPath ch") (simp_all add: upsertChannelPairingRequest_def)
  let ?L = "live_requests parse now path d"
  let ?P = "fst (pruneExcessRequestsByAccount parse ?L PAIRING_PENDING_MAX)"
  have P: "set ?P \<subseteq> set ?L" by (rule prune_excess_subset)
  let ?mk = "\<lambda>c t. \<lparr>cr_id = trim i, cr_code = c, cr_createdAt = t, cr_lastSeenAt = toISO now,
    cr_meta = Some (request_meta metaIn (or_default_account (normalizePairingAccountId (Some acct))))\<rparr>"
  show ?thesis
  proof (cases "find_index (asking i acct) ?L")
    case (Some ix)
    with assms obtain c where
      "d' = write_pending path (fst (pruneExcessRequestsByAccount parse (?L[ix := ?mk c (cr_createdAt (?L ! ix))]) PAIRING_PENDING_MAX)) d"
      by (auto simp: upsert_eq [OF path] Let_def split: sum.splits)
    then show ?thesis by (rule that(2)) (use set_prune_update in fastforce)
  next
    case None
    with assms consider "d' = d" | "d' = write_pending path ?P d" | c where "d' = write_pending path (?P @ [?mk c (toISO now)]) d"
      by (auto simp: upsert_eq [OF path] Let_def split_def split: sum.splits if_splits)
    then show ?thesis
    proof cases
      case 1 then show ?thesis by (rule that(1))
    next
      case 2 then show ?thesis by (rule that(2)) (use P in blast)
    next
      case 3 then show ?thesis by (rule that(2)) (use P in auto)
    qed
  qed
qed

lemma upsert_keeps:
  assumes "store_ok a d" and "entry_stable a i"
  shows "store_ok a (step_result d (upsertChannelPairingRequest parse toISO draw now ch i acct metaIn d))"
proof (cases "upsertChannelPairingRequest parse toISO draw now ch i acct metaIn d")
  case (Inr y)
  obtain r d' where y: "y = (r, d')" by (cases y)
  from Inr [unfolded y] have "store_ok a d'"
  proof (cases rule: upsert_files)
    case (2 p l)
    have "list_all (\<lambda>r. entry_stable a (cr_id r)) l" unfolding list_all_iff
    proof
      fix x assume "x \<in> set l"
      from 2(2) [OF this] show "entry_stable a (cr_id x)"
        using requests_of_live [OF assms(1), of parse now p] assms(2) by (auto simp: list_all_iff)
    qed
    then show ?thesis using 2(1) assms(1) by (simp add: store_ok_pending)
  qed (use assms in simp)
  then show ?thesis by (simp add: Inr y step_result_def)
qed (use assms in \<open>simp add: step_result_def\<close>)

lemma set_splice: "set (splice_out i xs) \<subseteq> set xs"
  by (auto simp: splice_out_def dest: in_set_takeD in_set_dropD)

lemma approve_keeps:
  assumes "store_ok a d" "later_stamp stamp d"
  shows "store_ok a (snd (approveChannelPairingCode parse a stamp now ch cin acct d))"
proof (cases "resolvePairingPath ch")
  case (Inl e)
  then show ?thesis using assms(1) by (cases "to_upper (trim cin) = []") (simp_all add: approveChannelPairingCode_def Let_def)
next
  case (Inr path)
  let ?L = "live_requests parse now path d"
  let ?P = "\<lambda>r. to_upper (cr_code r) = to_upper (trim cin) \<and> requestMatchesAccountId r (normalizePairingAccountId acct)"
  note L = requests_of_live [OF assms(1), of parse now path]
  show ?thesis
  proof (cases "to_upper (trim cin) = [] \<or> find_index ?P ?L = None")
    case True
    then show ?thesis using assms(1) L
      by (auto simp: approveChannelPairingCode_def Inr Let_def prune_expired_live store_ok_pending)
  next
    case False
    then obtain ix where ix: "find_index ?P ?L = Some ix" by blast
    let ?d1 = "write_pending path (splice_out ix ?L) d"
    have "list_all (\<lambda>r. entry_stable a (cr_id r)) (splice_out ix ?L)"
      using L set_splice [of ix ?L] unfolding list_all_iff by blast
    then have "store_ok a ?d1" by (rule store_ok_pending [OF assms(1)])
    moreover have "entry_stable a (cr_id (?L ! ix))" using L find_index_Some [OF ix] by (simp add: list_all_iff)
    ultimately have "store_ok a (step_result ?d1 (addChannelAllowFromStoreEntry a stamp ch (cr_id (?L ! ix))
        (approval_account acct (?L ! ix)) ?d1))"
      using assms(2) by (simp add: add_keeps)
    moreover have "snd (approveChannelPairingCode parse a stamp now ch cin acct d) =
        step_result ?d1 (addChannelAllowFromStoreEntry a stamp ch (cr_id (?L ! ix)) (approval_account acct (?L ! ix)) ?d1)"
      using False by (simp add: approveChannelPairingCode_def Inr Let_def prune_expired_live ix step_result_def
          split: sum.splits prod.splits)
    ultimately show ?thesis by simp
  qed
qed

lemma outside_keeps:
  assumes "store_ok a d" and "node_ok a d n"
  shows "store_ok a (d\<lparr>pk_allow := (pk_allow d)(p := n)\<rparr>)"
proof -
  have "cache_current a (d\<lparr>pk_allow := (pk_allow d)(p := n)\<rparr>)"
    using assms by (auto simp: store_ok_def cache_current_def node_ok_def entry_current_def split: allow_node.splits if_splits)
  then show ?thesis using assms
    by (simp add: store_ok_def node_ok_def files_stable_def requests_stable_def readPairingRequests_def)
qed

interpretation store_runs: guarded_system "channel_step parse toISO a ch" "store_ok a" "event_ok a" for parse toISO a ch
proof unfold_locales
  show "store_ok a (channel_step parse toISO a ch d ev)" if "store_ok a d" "event_ok a d ev" for d ev
    using that by (cases ev) (simp_all add: read_channel_keeps add_keeps remove_keeps upsert_keeps approve_keeps outside_keeps)
qed

text \<open>A start of the process: no cache, and stable entries and senders in the files.\<close>

definition fresh_store :: "(string \<Rightarrow> string) option \<Rightarrow> pairing_disk \<Rightarrow> bool" where
  "fresh_store a d \<longleftrightarrow> pk_cache d = (\<lambda>_. None) \<and> files_stable a d \<and> requests_stable a d"

fun run_allowed :: "(string \<Rightarrow> int option) \<Rightarrow> (int \<Rightarrow> string) \<Rightarrow> (string \<Rightarrow> string) option \<Rightarrow> string \<Rightarrow> pairing_disk \<Rightarrow>
     channel_event list \<Rightarrow> bool" where
  "run_allowed parse toISO a ch d [] = True"
| "run_allowed parse toISO a ch d (ev # evs) =
     (event_ok a d ev \<and> run_allowed parse toISO a ch (channel_step parse toISO a ch d ev) evs)"

lemma run_allowed_ok: "run_allowed parse toISO a ch d evs = store_runs.run_ok parse toISO a ch d evs"
  by (induction evs arbitrary: d) simp_all

lemma run_store_ok:
  "fresh_store a d \<Longrightarrow> run_allowed parse toISO a ch d evs \<Longrightarrow> store_ok a (foldl (channel_step parse toISO a ch) d evs)"
  using store_runs.run_inv [of a d parse toISO ch evs]
  by (simp add: fresh_store_def store_ok_def cache_current_def run_allowed_ok)


section \<open>The whole way of a stranger\<close>

lemma trim_empty [simp]: "trim [] = []"
  by (simp add: trim_def trim_end_def)

lemma trim_lower [simp]: "trim (to_lower (trim s)) = to_lower (trim s)"
  by (cases "trim s = []") (simp add: to_lower_def, simp add: tight_lower tight_trim trim_tight)

lemma safe_key_lower: "safe_key (to_lower (trim s)) = safe_key s"
  by (simp add: safe_key_def)

lemma path_of_account:
  assumes "trim x \<noteq> []"
  shows "resolveAllowFromPath ch (Some (resolveAllowFromAccountId (Some x))) = resolveAllowFromPath ch (Some x)"
proof -
  have k: "safe_key (trim x) = safe_key x" "safe_key (to_lower (trim x)) = safe_key x"
    by (simp_all add: safe_key_def)
  have "resolveAllowFromAccountId (Some x) = to_lower (trim x)"
    using assms by (simp add: resolveAllowFromAccountId_def or_default_account_def normalizePairingAccountId_def)
  then show ?thesis using assms k
    by (cases "safeChannelKey ch") (simp_all add: resolveAllowFromPath_def Let_def safeAccountKey_def)
qed

text \<open>Codes: no character of the alphabet is blank or changed by the upper case.\<close>

lemma alphabet_plain: "list_all (\<lambda>x. \<not> js_ws x \<and> upper_char x = [x]) PAIRING_CODE_ALPHABET"
  by code_simp

lemma random_code_plain:
  assumes "\<forall>n. draw n < 32"
  shows "list_all (\<lambda>x. \<not> js_ws x \<and> upper_char x = [x]) (randomCode draw k)" and "randomCode draw k \<noteq> []"
proof -
  have "length PAIRING_CODE_ALPHABET = 32" by code_simp
  then have "PAIRING_CODE_ALPHABET ! draw n \<in> set PAIRING_CODE_ALPHABET" for n using assms by simp
  then show "list_all (\<lambda>x. \<not> js_ws x \<and> upper_char x = [x]) (randomCode draw k)"
    using alphabet_plain by (auto simp: randomCode_def list_all_iff)
  show "randomCode draw k \<noteq> []" by (simp add: randomCode_def PAIRING_CODE_LENGTH_def)
qed

lemma unique_code_random: "generateUniqueCode draw existing = Inr c \<Longrightarrow> \<exists>k. c = randomCode draw k"
  by (auto simp: generateUniqueCode_def split: option.splits)

lemma upper_plain: "list_all (\<lambda>x. \<not> js_ws x \<and> upper_char x = [x]) c \<Longrightarrow> to_upper c = c"
  by (induction c) (simp_all add: to_upper_def)

lemma no_ws_trim: "list_all (\<lambda>x. \<not> js_ws x) s \<Longrightarrow> trim s = s"
  by (cases "s = []") (simp, rule tight_trim, simp add: tight_def list_all_iff)

lemma ws_upper_char: "js_ws x \<Longrightarrow> upper_char x = [x]"
  by (auto simp: js_ws_def upper_char_def)

lemma ws_upper: "x \<in> set s \<Longrightarrow> js_ws x \<Longrightarrow> x \<in> set (to_upper s)"
  using ws_upper_char [of x] by (force simp: to_upper_def)

lemma upper_trim: "list_all (\<lambda>x. \<not> js_ws x) (to_upper s) \<Longrightarrow> trim s = s"
  by (rule no_ws_trim) (auto simp: list_all_iff dest: ws_upper)

lemma find_index_last: "\<forall>x \<in> set xs. \<not> P x \<Longrightarrow> P r \<Longrightarrow> find_index P (xs @ [r]) = Some (length xs)"
  by (auto simp: find_index_def find_Some_iff nth_append intro!: exI [of _ "length xs"])

text \<open>What asking leaves in the file.\<close>

lemma ask_created:
  assumes "upsertChannelPairingRequest parse toISO draw now ch i acct metaIn d = Inr ((c, True), d1)"
    and "\<forall>n. draw n < 32"
  obtains path capped r where "resolvePairingPath ch = Inr path" and "d1 = write_pending path (capped @ [r]) d"
    and "\<forall>x \<in> set capped. to_upper (trim (cr_code x)) \<noteq> c"
    and "cr_id r = trim i" "cr_code r = c" "cr_createdAt r = toISO now"
    and "resolvePairingRequestAccountId r = or_default_account (normalizePairingAccountId (Some acct))"
    and "list_all (\<lambda>x. \<not> js_ws x \<and> upper_char x = [x]) c" "c \<noteq> []"
proof -
  let ?a = "or_default_account (normalizePairingAccountId (Some acct))"
  let ?r = "\<lparr>cr_id = trim i, cr_code = c, cr_createdAt = toISO now, cr_lastSeenAt = toISO now,
        cr_meta = Some (request_meta metaIn ?a)\<rparr>"
  obtain path where path: "resolvePairingPath ch = Inr path"
    using assms(1) by (cases "resolvePairingPath ch") (simp_all add: upsertChannelPairingRequest_def)
  let ?L = "live_requests parse now path d"
  let ?P = "fst (pruneExcessRequestsByAccount parse ?L PAIRING_PENDING_MAX)"
  from assms(1) have g: "generateUniqueCode draw (codes_in_use ?L) = Inr c" and d1: "d1 = write_pending path (?P @ [?r]) d"
    by (auto simp: upsert_eq [OF path] Let_def split_def split: option.splits sum.splits if_splits)
  have "\<forall>x \<in> set ?P. to_upper (trim (cr_code x)) \<noteq> c"
    using unique_code_new [OF g] prune_excess_subset [of parse ?L PAIRING_PENDING_MAX] by (auto simp: codes_in_use_def)
  moreover from unique_code_random [OF g] random_code_plain [OF assms(2)]
  have "list_all (\<lambda>x. \<not> js_ws x \<and> upper_char x = [x]) c" "c \<noteq> []" by auto
  moreover have "resolvePairingRequestAccountId ?r = ?a"
    by (simp add: resolvePairingRequestAccountId_def meta_account_new) (simp add: or_default_account_def)
  ultimately show ?thesis using that [OF path d1] by simp
qed

lemma add_succeeds:
  assumes "resolveAllowFromPath ch acct = Inr p" and "pk_allow d p \<noteq> StatError"
  obtains r d' where "addChannelAllowFromStoreEntry a stamp ch x acct d = Inr (r, d')"
proof -
  obtain d0 where "ensure_allow stamp p d = Inr d0"
    using assms(2) by (cases "pk_allow d p") (auto simp: ensure_allow_def)
  note eq = add_eq [OF assms(1) this, of a x]
  show ?thesis
    by (cases "normalizeAllowEntry a x = [] \<or> normalizeAllowEntry a x \<in> set (stored_entries a p d0)")
      (rule that, simp add: eq Let_def)+
qed

lemma set_string_entries: "set (normalizeStringEntries l) = trim ` set l - {[]}"
  by (auto simp: normalizeStringEntries_def)

lemma string_entry: "x \<in> set l \<Longrightarrow> trim x = x \<Longrightarrow> x \<noteq> [] \<Longrightarrow> x \<in> set (normalizeStringEntries l)"
  by (force simp: set_string_entries)

lemma effective_has:
  assumes "x \<in> set store" "trim x = x" "x \<noteq> []" "pol \<noteq> Some ''allowlist''"
  shows "x \<in> set (normalizeStringEntries (fst (resolveEffectiveAllowFromLists cfg grp (Some store) pol fb)))"
proof -
  have "x \<in> set (mergeDmAllowFromSources cfg (Some store) pol)"
    using assms by (force simp: mergeDmAllowFromSources_def or_default_def)
  then have "x \<in> set (normalizeStringEntries (mergeDmAllowFromSources cfg (Some store) pol))"
    using assms(2,3) by (rule string_entry)
  then show ?thesis using assms(2,3) by (simp add: resolveEffectiveAllowFromLists_def string_entry)
qed


section \<open>Concrete runs\<close>

definition empty_disk :: pairing_disk where
  "empty_disk = \<lparr>pk_pending = (\<lambda>_. None), pk_allow = (\<lambda>_. NoFile), pk_cache = (\<lambda>_. None)\<rparr>"

definition telegram :: "(string \<Rightarrow> string) option" where
  "telegram = Some (createPairingPrefixStripper [''telegram:'', ''tg:''] (\<lambda>e. e))"

lemma empty_disk_fresh: "fresh_store a empty_disk" "readable empty_disk" "later_stamp stamp empty_disk"
  by (simp_all add: fresh_store_def empty_disk_def files_stable_def requests_stable_def file_entries_def
      readPairingRequests_def or_default_def readable_def later_stamp_def)

lemma telegram_paths: "resolvePairingPath ''telegram'' = Inr ''telegram-pairing.json''"
  "resolveAllowFromPath ''telegram'' (Some ''Work'') = Inr ''telegram-work-allowFrom.json''"
  by code_simp+

lemma telegram_entry: "normalizeAllowEntry telegram ''tg:42'' = ''42''" "entry_stable telegram ''tg:42''"
  by code_simp+

text \<open>An entry that a prefix hides: the wildcard is refused as an entry, but not when the prefix of the channel stands before
  it. It then admits everyone until the process ends or the file changes; the file read again gives nothing.\<close>

lemma wildcard_behind_prefix:
  "(case addChannelAllowFromStoreEntry telegram (\<lambda>l. (1, 10)) ''telegram'' ''*'' (Some ''work'') empty_disk of
      Inl e \<Rightarrow> False
    | Inr (r, d) \<Rightarrow> r = (False, [])) \<and>
   (case addChannelAllowFromStoreEntry telegram (\<lambda>l. (1, 10)) ''telegram'' ''telegram:*'' (Some ''work'') empty_disk of
      Inl e \<Rightarrow> False
    | Inr (r, d) \<Rightarrow>
        map_sum (\<lambda>x. x) fst (readChannelAllowFromStore telegram ''telegram'' (Some ''work'') d) = Inr [''*''] \<and>
        map_sum (\<lambda>x. x) fst (readChannelAllowFromStore telegram ''telegram'' (Some ''work'') (d\<lparr>pk_cache := (\<lambda>_. None)\<rparr>)) = Inr [])"
  by code_simp

text \<open>A run: an entry is added under the account, spelt with a capital.\<close>

definition one_added :: "channel_event list" where
  "one_added = [EvAdd (\<lambda>l. (1, 10)) ''tg:42'' (Some ''Work'')]"

definition parse0 :: "string \<Rightarrow> int option" where "parse0 s = Some 5000"
definition toISO0 :: "int \<Rightarrow> string" where "toISO0 t = ''1970-01-01T00:00:05.000Z''"

lemma one_added_run: "run_allowed parse0 toISO0 telegram ''telegram'' empty_disk one_added"
  by (simp add: one_added_def empty_disk_fresh telegram_entry)

lemma one_added_readable: "readable (foldl (channel_step parse0 toISO0 telegram ''telegram'') empty_disk one_added)"
proof -
  let ?add = "addChannelAllowFromStoreEntry telegram (\<lambda>l. (1, 10)) ''telegram'' ''tg:42'' (Some ''Work'') empty_disk"
  have "pk_allow empty_disk ''telegram-work-allowFrom.json'' \<noteq> StatError" by (simp add: empty_disk_def)
  from add_succeeds [OF telegram_paths(2) this] obtain r d where add: "?add = Inr (r, d)" by blast
  have "pk_allow d q \<noteq> StatError" for q
    using add_effect(2,5) [OF add telegram_paths(2)] by (cases "q = ''telegram-work-allowFrom.json''") (simp_all add: empty_disk_def)
  then show ?thesis by (simp add: one_added_def add step_result_def readable_def)
qed

lemma channel_entries_value:
  "channel_entries telegram ''telegram'' (Some ''work'')
     (foldl (channel_step parse0 toISO0 telegram ''telegram'') empty_disk one_added) = Inr [''42'']"
  by code_simp


text \<open>A stranger asks and is approved.\<close>

lemma asked_code:
  "(case upsertChannelPairingRequest parse0 toISO0 (\<lambda>n. n mod 32) 5000 ''telegram'' ''tg:42'' ''Work'' None empty_disk of
      Inl e \<Rightarrow> None | Inr (r, d) \<Rightarrow> Some r) = Some (''ABCDEFGH'', True)"
  by code_simp



end
