(* ===== verification/ShellAnalysis.thy ===== *)
theory ShellAnalysis
  imports ExecWrapper
begin

text \<open>
  The analysis of a shell command on hosts other than Windows: \<open>src/utils/shell-argv.ts\<close>, the POSIX part of
  \<open>src/infra/exec-approvals-analysis.ts\<close> and the resolution of its programs in
  \<open>src/infra/exec-command-resolution.ts\<close>. A command is cut at \<open>&&\<close>, \<open>||\<close> and \<open>;\<close>, each part at \<open>|\<close>, each segment into
  arguments. The loops over an index are recursions on the rest of the string; the character before it, which the test
  for a comment reads, is an argument. In all of them at most one of the flags \<open>inSingle\<close>, \<open>inDouble\<close> and \<open>escaped\<close> is
  set, so they are one state. Where programs are found on the disk is an argument.
\<close>

section \<open>Splitting into arguments\<close>

datatype quoting = Plain | Single | Double | Escaped

definition bs :: char where "bs = CHR 0x5C"
definition dq :: char where "dq = CHR 0x22"
definition sq :: char where "sq = CHR 0x27"
definition bt :: char where "bt = CHR 0x60"
definition nl :: char where "nl = CHR 0x0A"
definition cret :: char where "cret = CHR 0x0D"

definition argv_escape :: "char \<Rightarrow> bool" where
  "argv_escape c = (c \<in> {bs, dq, CHR ''$'', bt, nl, cret})"

definition push_token :: "string \<Rightarrow> string list \<Rightarrow> string list" where
  "push_token buf tokens = (if buf = [] then tokens else tokens @ [buf])"

function split_args :: "quoting \<Rightarrow> string \<Rightarrow> string list \<Rightarrow> string \<Rightarrow> string list option" where
  "split_args q buf tokens [] = (if q = Plain then Some (push_token buf tokens) else None)"
| "split_args q buf tokens (c # s) =
     (case q of
        Escaped \<Rightarrow> split_args Plain (buf @ [c]) tokens s
      | Single \<Rightarrow> if c = sq then split_args Plain buf tokens s else split_args Single (buf @ [c]) tokens s
      | Double \<Rightarrow>
          if c = bs \<and> s \<noteq> [] \<and> argv_escape (hd s) then split_args Double (buf @ [hd s]) tokens (tl s)
          else if c = dq then split_args Plain buf tokens s
          else split_args Double (buf @ [c]) tokens s
      | Plain \<Rightarrow>
          if c = bs then split_args Escaped buf tokens s
          else if c = sq then split_args Single buf tokens s
          else if c = dq then split_args Double buf tokens s
          else if c = CHR ''#'' \<and> buf = [] then Some (push_token buf tokens)
          else if js_ws c then split_args Plain [] (push_token buf tokens) s
          else split_args Plain (buf @ [c]) tokens s)"
  by pat_completeness auto
termination by (relation "measure (\<lambda>(q, buf, tokens, s). length s)") auto

definition splitShellArgs :: "string \<Rightarrow> string list option" where
  "splitShellArgs raw = split_args Plain [] [] raw"

section \<open>Splitting into parts\<close>

definition isDoubleQuoteEscape :: "char \<Rightarrow> bool" where
  "isDoubleQuoteEscape c = (c \<in> {bs, dq, CHR ''$'', bt})"

definition isEscapedLineContinuation :: "char \<Rightarrow> bool" where
  "isEscapedLineContinuation c = (c = nl \<or> c = cret)"

definition next_is :: "(char \<Rightarrow> bool) \<Rightarrow> string \<Rightarrow> bool" where
  "next_is P s = (case s of [] \<Rightarrow> False | c # r \<Rightarrow> P c)"

definition isShellCommentStart :: "char option \<Rightarrow> char \<Rightarrow> bool" where
  "isShellCommentStart prev c = (c = CHR ''#'' \<and> (case prev of None \<Rightarrow> True | Some p \<Rightarrow> js_ws p))"

datatype chain_op = OpAnd | OpOr | OpSeq

type_synonym chain_parts = "(string \<times> chain_op option) list"

text \<open>What the loop over the command leaves: the rest of the last part, the parts, whether an operator was found and whether
  the chain is malformed.\<close>

record chain_scan =
  cs_buf :: string
  cs_parts :: chain_parts
  cs_found :: bool
  cs_invalid :: bool

definition push_part :: "chain_op option \<Rightarrow> chain_scan \<Rightarrow> chain_scan" where
  "push_part op st =
     (let trimmed = trim (cs_buf st) in
      if trimmed = [] then st\<lparr>cs_buf := [], cs_found := True, cs_invalid := True\<rparr>
      else st\<lparr>cs_buf := [], cs_parts := cs_parts st @ [(trimmed, op)], cs_found := True\<rparr>)"

definition chain_add :: "string \<Rightarrow> chain_scan \<Rightarrow> chain_scan" where
  "chain_add t st = st\<lparr>cs_buf := cs_buf st @ t\<rparr>"

function chain_loop :: "quoting \<Rightarrow> char option \<Rightarrow> chain_scan \<Rightarrow> string \<Rightarrow> chain_scan" where
  "chain_loop q prev st [] = st"
| "chain_loop q prev st (c # s) =
     (case q of
        Escaped \<Rightarrow> chain_loop Plain (Some c) (chain_add [c] st) s
      | Single \<Rightarrow> chain_loop (if c = sq then Plain else Single) (Some c) (chain_add [c] st) s
      | Double \<Rightarrow>
          if c = bs \<and> next_is isEscapedLineContinuation s then st\<lparr>cs_invalid := True\<rparr>
          else if c = bs \<and> next_is isDoubleQuoteEscape s
          then chain_loop Double (Some (hd s)) (chain_add [c, hd s] st) (tl s)
          else chain_loop (if c = dq then Plain else Double) (Some c) (chain_add [c] st) s
      | Plain \<Rightarrow>
          if c = bs then chain_loop Escaped (Some c) (chain_add [c] st) s
          else if c = sq then chain_loop Single (Some c) (chain_add [c] st) s
          else if c = dq then chain_loop Double (Some c) (chain_add [c] st) s
          else if isShellCommentStart prev c then st
          else if c = CHR ''&'' \<and> next_is ((=) (CHR ''&'')) s
          then chain_loop Plain (Some (hd s)) (push_part (Some OpAnd) st) (tl s)
          else if c = CHR ''|'' \<and> next_is ((=) (CHR ''|'')) s
          then chain_loop Plain (Some (hd s)) (push_part (Some OpOr) st) (tl s)
          else if c = CHR '';'' then chain_loop Plain (Some c) (push_part (Some OpSeq) st) s
          else chain_loop Plain (Some c) (chain_add [c] st) s)"
  by (pat_completeness, simp_all only: prod.inject list.inject list.distinct) (elim conjE, (erule FalseE)?, (simp only:)?)+
termination by (relation "measure (\<lambda>(q, prev, st, s). length s)") auto

definition splitCommandChainWithOperators :: "string \<Rightarrow> chain_parts option" where
  "splitCommandChainWithOperators command =
     (let st = chain_loop Plain None \<lparr>cs_buf = [], cs_parts = [], cs_found = False, cs_invalid = False\<rparr> command;
          trimmed = trim (cs_buf st) in
      if \<not> cs_found st then None
      else if trimmed = [] then None
      else if cs_invalid st then None
      else Some (cs_parts st @ [(trimmed, None)]))"

definition splitCommandChain :: "string \<Rightarrow> string list option" where
  "splitCommandChain command = map_option (map fst) (splitCommandChainWithOperators command)"

section \<open>Splitting a pipeline\<close>

text \<open>A here-document is announced by \<open><<\<close> and a delimiter; its body follows the line.\<close>

record heredoc =
  hd_delimiter :: string
  hd_stripTabs :: bool
  hd_quoted :: bool

function quoted_delimiter :: "char \<Rightarrow> string \<Rightarrow> string \<Rightarrow> (string \<times> string) option" where
  "quoted_delimiter quote acc [] = None"
| "quoted_delimiter quote acc (c # s) =
     (if c = nl \<or> c = cret then None
      else if quote = dq \<and> c = bs \<and> s \<noteq> [] then quoted_delimiter quote (acc @ [hd s]) (tl s)
      else if c = quote then Some (acc, s)
      else quoted_delimiter quote (acc @ [c]) s)"
  by pat_completeness auto
termination by (relation "measure (\<lambda>(quote, acc, s). length s)") auto

definition delimiter_end :: "char \<Rightarrow> bool" where
  "delimiter_end c = (js_ws c \<or> c \<in> {CHR ''|'', CHR ''&'', CHR '';'', CHR ''<'', CHR ''>''})"

text \<open>The delimiter, what follows it, and whether it was quoted.\<close>

definition parseHeredocDelimiter :: "string \<Rightarrow> (string \<times> string \<times> bool) option" where
  "parseHeredocDelimiter source =
     (case dropWhile (\<lambda>c. c = CHR '' '' \<or> c = CHR 0x09) source of
        [] \<Rightarrow> None
      | c # s \<Rightarrow>
          if c = sq \<or> c = dq then map_option (\<lambda>(d, r). (d, r, True)) (quoted_delimiter c [] s)
          else (let d = takeWhile (\<lambda>x. \<not> delimiter_end x) (c # s) in
                if d = [] then None else Some (d, dropWhile (\<lambda>x. \<not> delimiter_end x) (c # s), False)))"

lemma quoted_delimiter_length: "quoted_delimiter quote acc s = Some (d, r) \<Longrightarrow> length r < length s"
  by (induction quote acc s rule: quoted_delimiter.induct) (auto split: if_splits)

lemma parse_heredoc_length [dest]: "parseHeredocDelimiter s = Some (d, r, qd) \<Longrightarrow> length r \<le> length s"
proof -
  assume a: "parseHeredocDelimiter s = Some (d, r, qd)"
  obtain c t where ct: "dropWhile (\<lambda>c. c = CHR '' '' \<or> c = CHR 0x09) s = c # t"
    using a by (cases "dropWhile (\<lambda>c. c = CHR '' '' \<or> c = CHR 0x09) s") (simp_all add: parseHeredocDelimiter_def)
  have l: "length (c # t) \<le> length s" by (metis ct length_dropWhile_le)
  show ?thesis
  proof (cases "c = sq \<or> c = dq")
    case True
    then obtain d' where "quoted_delimiter c [] t = Some (d', r)" using a by (auto simp: parseHeredocDelimiter_def ct)
    from quoted_delimiter_length [OF this] l show ?thesis by simp
  next
    case False
    then have "r = dropWhile (\<lambda>x. \<not> delimiter_end x) (c # t)"
      using a by (auto simp: parseHeredocDelimiter_def ct Let_def split: if_splits)
    then show ?thesis using l length_dropWhile_le [of "\<lambda>x. \<not> delimiter_end x" "c # t"] by simp
  qed
qed

text \<open>A character of a line of the body is escaped when an odd number of backslashes stands before it.\<close>

fun heredoc_expands :: "bool \<Rightarrow> string \<Rightarrow> bool" where
  "heredoc_expands esc [] = False"
| "heredoc_expands esc (c # s) =
     (if c = bs then heredoc_expands (\<not> esc) s
      else if \<not> esc \<and> c = bt then True
      else if \<not> esc \<and> c = CHR ''$'' \<and> next_is (\<lambda>n. n = CHR ''('' \<or> n = CHR ''{'') s then True
      else heredoc_expands False s)"

definition hasUnquotedHeredocExpansionToken :: "string \<Rightarrow> bool" where
  "hasUnquotedHeredocExpansionToken line = heredoc_expands False line"

definition heredoc_line :: "heredoc \<Rightarrow> string \<Rightarrow> string" where
  "heredoc_line h line = (if hd_stripTabs h then dropWhile (\<lambda>c. c = CHR 0x09) line else line)"

text \<open>The state of the scan: \<open>pi_body\<close> is the current line of the body of a here-document, when the scan is in one.\<close>

record pipe_scan =
  pi_buf :: string
  pi_segments :: "string list"
  pi_empty :: bool
  pi_pending :: "heredoc list"
  pi_body :: "string option"

definition push_segment :: "pipe_scan \<Rightarrow> pipe_scan" where
  "push_segment st =
     (let trimmed = trim (pi_buf st) in
      st\<lparr>pi_buf := [], pi_segments := (if trimmed = [] then pi_segments st else pi_segments st @ [trimmed])\<rparr>)"

definition pipe_add :: "string \<Rightarrow> pipe_scan \<Rightarrow> pipe_scan" where
  "pipe_add t st = st\<lparr>pi_buf := pi_buf st @ t, pi_empty := False\<rparr>"

definition unsupported :: "string \<Rightarrow> string" where
  "unsupported t = ''unsupported shell token: '' @ t"

text \<open>The end of a line of the body.\<close>

definition end_body_line :: "string \<Rightarrow> pipe_scan \<Rightarrow> string + pipe_scan" where
  "end_body_line line st =
     (case pi_pending st of
        [] \<Rightarrow> Inr (st\<lparr>pi_body := None\<rparr>)
      | h # hs \<Rightarrow>
          if heredoc_line h line = hd_delimiter h
          then Inr (st\<lparr>pi_pending := hs, pi_body := (if hs = [] then None else Some [])\<rparr>)
          else if \<not> hd_quoted h \<and> hasUnquotedHeredocExpansionToken line
          then Inl ''command substitution in unquoted heredoc''
          else Inr (st\<lparr>pi_body := Some []\<rparr>))"

definition skip_lf :: "char \<Rightarrow> string \<Rightarrow> string" where
  "skip_lf c s = (if c = cret \<and> next_is ((=) nl) s then tl s else s)"

lemma length_skip_lf: "length (skip_lf c s) \<le> length s"
  by (simp add: skip_lf_def)

definition disallowed :: "char \<Rightarrow> bool" where
  "disallowed c = (c \<in> {CHR ''>'', CHR ''<'', bt, nl, cret, CHR ''('', CHR '')''})"

text \<open>A here-document after \<open><<\<close>: what is added to the segment, the state and the rest of the command.\<close>

definition open_heredoc :: "string \<Rightarrow> pipe_scan \<Rightarrow> pipe_scan \<times> char \<times> string" where
  "open_heredoc s st =
     (let dash = next_is ((=) (CHR ''-'')) s;
          scan = (if dash then tl s else s);
          st1 = pipe_add (if dash then ''<<-'' else ''<<'') st in
      case parseHeredocDelimiter scan of
        None \<Rightarrow> (st1, CHR ''<'', s)
      | Some (d, r, qd) \<Rightarrow>
          (let used = take (length scan - length r) scan in
           (st1\<lparr>pi_buf := pi_buf st1 @ used,
                pi_pending := pi_pending st1 @ [\<lparr>hd_delimiter = d, hd_stripTabs = dash, hd_quoted = qd\<rparr>]\<rparr>,
            last (CHR ''<'' # used), r)))"

lemma open_heredoc_length: "(st', c, r) = open_heredoc s st \<Longrightarrow> length r \<le> length s"
  by (auto simp: open_heredoc_def Let_def split: option.splits if_splits prod.splits dest!: parse_heredoc_length)

lemma open_heredoc_tl: "(st', c, r) = open_heredoc (tl s) st \<Longrightarrow> length r \<le> length s"
  using open_heredoc_length [of st' c r "tl s" st] by simp

function pipe_loop :: "quoting \<Rightarrow> char option \<Rightarrow> pipe_scan \<Rightarrow> string \<Rightarrow> string + quoting \<times> pipe_scan" where
  "pipe_loop q prev st [] = Inr (q, st)"
| "pipe_loop q prev st (c # s) =
     (case pi_body st of
        Some line \<Rightarrow>
          if c = nl \<or> c = cret then
            (case end_body_line line st of
               Inl e \<Rightarrow> Inl e
             | Inr st' \<Rightarrow> pipe_loop q (Some nl) st' (skip_lf c s))
          else pipe_loop q (Some c) (st\<lparr>pi_body := Some (line @ [c])\<rparr>) s
      | None \<Rightarrow>
     (case q of
        Escaped \<Rightarrow> pipe_loop Plain (Some c) (pipe_add [c] st) s
      | Single \<Rightarrow> pipe_loop (if c = sq then Plain else Single) (Some c) (pipe_add [c] st) s
      | Double \<Rightarrow>
          if c = bs \<and> next_is isEscapedLineContinuation s then Inl (unsupported ''newline'')
          else if c = bs \<and> next_is isDoubleQuoteEscape s
          then pipe_loop Double (Some (hd s)) (pipe_add [c, hd s] st) (tl s)
          else if c = CHR ''$'' \<and> next_is ((=) (CHR ''('')) s then Inl (unsupported ''$()'')
          else if c = bt then Inl (unsupported [bt])
          else if c = nl \<or> c = cret then Inl (unsupported ''newline'')
          else pipe_loop (if c = dq then Plain else Double) (Some c) (pipe_add [c] st) s
      | Plain \<Rightarrow>
          if c = bs then pipe_loop Escaped (Some c) (pipe_add [c] st) s
          else if c = sq then pipe_loop Single (Some c) (pipe_add [c] st) s
          else if c = dq then pipe_loop Double (Some c) (pipe_add [c] st) s
          else if isShellCommentStart prev c then Inr (q, st)
          else if (c = nl \<or> c = cret) \<and> pi_pending st \<noteq> []
          then pipe_loop q (Some nl) (st\<lparr>pi_body := Some []\<rparr>) (skip_lf c s)
          else if c = CHR ''|'' \<and> next_is ((=) (CHR ''|'')) s then Inl (unsupported ''||'')
          else if c = CHR ''|'' \<and> next_is ((=) (CHR ''&'')) s then Inl (unsupported ''|&'')
          else if c = CHR ''|'' then pipe_loop q (Some c) (push_segment (st\<lparr>pi_empty := True\<rparr>)) s
          else if c = CHR ''&'' \<or> c = CHR '';'' then Inl (unsupported [c])
          else if c = CHR ''<'' \<and> next_is ((=) (CHR ''<'')) s then
            (case open_heredoc (tl s) st of (st', p, r) \<Rightarrow> pipe_loop q (Some p) st' r)
          else if disallowed c then Inl (unsupported [c])
          else if c = CHR ''$'' \<and> next_is ((=) (CHR ''('')) s then Inl (unsupported ''$()'')
          else pipe_loop q (Some c) (pipe_add [c] st) s))"
  by pat_completeness auto
termination
  by (relation "measure (\<lambda>(q, prev, st, s). length s)")
    (auto simp: less_Suc_eq_le length_skip_lf dest!: open_heredoc_tl)

text \<open>The end of the command: a last line without a newline may close a here-document.\<close>

definition close_body :: "pipe_scan \<Rightarrow> pipe_scan" where
  "close_body st =
     (case (pi_body st, pi_pending st) of
        (Some line, h # hs) \<Rightarrow>
          if heredoc_line h line = hd_delimiter h
          then st\<lparr>pi_pending := hs, pi_body := (if hs = [] then None else pi_body st)\<rparr> else st
      | _ \<Rightarrow> st)"

definition splitShellPipeline :: "string \<Rightarrow> string + string list" where
  "splitShellPipeline command =
     (case pipe_loop Plain None
        \<lparr>pi_buf = [], pi_segments = [], pi_empty = False, pi_pending = [], pi_body = None\<rparr> command of
        Inl e \<Rightarrow> Inl e
      | Inr (q, st0) \<Rightarrow>
          (let st = close_body st0 in
           if pi_pending st \<noteq> [] \<or> pi_body st \<noteq> None then Inl ''unterminated heredoc''
           else if q \<noteq> Plain then Inl ''unterminated shell quote/escape''
           else (let st' = push_segment st in
             if pi_empty st' \<or> pi_segments st' = []
             then Inl (if pi_segments st' = [] then ''empty command'' else ''empty pipeline segment'')
             else Inr (pi_segments st'))))"

section \<open>The programs of a command\<close>

record exec_target =
  et_rawExecutable :: string
  et_resolvedPath :: "string option"
  et_resolvedRealPath :: "string option"
  et_executableName :: string

record command_resolution =
  rs_execution :: exec_target
  rs_policy :: exec_target
  rs_effectiveArgv :: "string list"
  rs_wrapperChain :: "string list"
  rs_policyBlocked :: bool
  rs_blockedWrapper :: "string option"

text \<open>Where the programs are found on the disk, for the working directory and the environment of the command: the lookup
  of a name and the real path of a file. The platform is that of the host.\<close>

record exec_host =
  xh_platform :: string
  xh_find :: "string \<Rightarrow> string option"
  xh_realpath :: "string \<Rightarrow> string option"

definition parseFirstToken :: "string \<Rightarrow> string option" where
  "parseFirstToken command =
     (case trim command of
        [] \<Rightarrow> None
      | c # s \<Rightarrow>
          if c = dq \<or> c = sq then
            (let inner = takeWhile (\<lambda>x. x \<noteq> c) s in
             if inner \<noteq> s \<and> inner \<noteq> [] then Some inner else Some s)
          else Some (takeWhile (\<lambda>x. \<not> js_ws x) (c # s)))"

definition tryResolveRealpath :: "exec_host \<Rightarrow> string option \<Rightarrow> string option" where
  "tryResolveRealpath h filePath = (case filePath of None \<Rightarrow> None | Some p \<Rightarrow> if p = [] then None else xh_realpath h p)"

definition buildExecutableResolution :: "exec_host \<Rightarrow> string \<Rightarrow> exec_target" where
  "buildExecutableResolution h rawExecutable =
     (let resolvedPath = xh_find h rawExecutable in
      \<lparr>et_rawExecutable = rawExecutable, et_resolvedPath = resolvedPath,
       et_resolvedRealPath = tryResolveRealpath h resolvedPath,
       et_executableName = (case resolvedPath of None \<Rightarrow> rawExecutable | Some p \<Rightarrow> if p = [] then rawExecutable else posix_basename p)\<rparr>)"

definition buildCommandResolution ::
    "exec_host \<Rightarrow> string \<Rightarrow> string option \<Rightarrow> string list \<Rightarrow> string list \<Rightarrow> bool \<Rightarrow> string option \<Rightarrow> command_resolution" where
  "buildCommandResolution h rawExecutable policyRawExecutable effectiveArgv wrapperChain policyBlocked blockedWrapper =
     (let execution = buildExecutableResolution h rawExecutable in
      \<lparr>rs_execution = execution,
       rs_policy = (case policyRawExecutable of None \<Rightarrow> execution
                    | Some p \<Rightarrow> if p = [] then execution else buildExecutableResolution h p),
       rs_effectiveArgv = effectiveArgv, rs_wrapperChain = wrapperChain, rs_policyBlocked = policyBlocked,
       rs_blockedWrapper = blockedWrapper\<rparr>)"

definition resolveCommandResolution :: "exec_host \<Rightarrow> string \<Rightarrow> command_resolution option" where
  "resolveCommandResolution h command =
     (case parseFirstToken command of
        None \<Rightarrow> None
      | Some r \<Rightarrow> if r = [] then None else Some (buildCommandResolution h r None [r] [] False None))"

definition first_trimmed :: "string list \<Rightarrow> string option" where
  "first_trimmed argv = (case argv of [] \<Rightarrow> None | a # _ \<Rightarrow> Some (trim a))"

definition resolveCommandResolutionFromArgv :: "exec_host \<Rightarrow> string list \<Rightarrow> command_resolution option" where
  "resolveCommandResolutionFromArgv h argv =
     (let plan = resolveExecWrapperTrustPlan (xh_platform h) argv MAX_DISPATCH_WRAPPER_DEPTH in
      case first_trimmed (tp_argv plan) of
        None \<Rightarrow> None
      | Some rawExecutable \<Rightarrow>
          if rawExecutable = [] then None
          else Some (buildCommandResolution h rawExecutable (first_trimmed (tp_policyArgv plan)) (tp_argv plan)
            (tp_wrapperChain plan) (tp_blocked plan \<noteq> None) (tp_blocked plan)))"

section \<open>The analysis\<close>

record exec_segment =
  sg_raw :: string
  sg_argv :: "string list"
  sg_resolution :: "command_resolution option"

record exec_analysis =
  an_segments :: "exec_segment list"
  an_chains :: "exec_segment list list option"

fun parseSegmentsFromParts :: "exec_host \<Rightarrow> string list \<Rightarrow> exec_segment list option" where
  "parseSegmentsFromParts h [] = Some []"
| "parseSegmentsFromParts h (raw # parts) =
     (case splitShellArgs raw of
        None \<Rightarrow> None
      | Some argv \<Rightarrow>
          if argv = [] then None
          else map_option ((#) \<lparr>sg_raw = raw, sg_argv = argv, sg_resolution = resolveCommandResolutionFromArgv h argv\<rparr>)
            (parseSegmentsFromParts h parts))"

definition analyze_part :: "exec_host \<Rightarrow> string \<Rightarrow> string + exec_segment list" where
  "analyze_part h part =
     (case splitShellPipeline part of
        Inl reason \<Rightarrow> Inl reason
      | Inr segments \<Rightarrow>
          (case parseSegmentsFromParts h segments of None \<Rightarrow> Inl ''unable to parse shell segment'' | Some ss \<Rightarrow> Inr ss))"

fun analyze_parts :: "exec_host \<Rightarrow> string list \<Rightarrow> string + exec_segment list list" where
  "analyze_parts h [] = Inr []"
| "analyze_parts h (part # parts) =
     (case analyze_part h part of
        Inl reason \<Rightarrow> Inl reason
      | Inr ss \<Rightarrow> (case analyze_parts h parts of Inl reason \<Rightarrow> Inl reason | Inr gs \<Rightarrow> Inr (ss # gs)))"

text \<open>\<open>Inl\<close> is an analysis that is not ok, with its reason.\<close>

definition analyzeShellCommand :: "exec_host \<Rightarrow> string \<Rightarrow> string + exec_analysis" where
  "analyzeShellCommand h command =
     (case splitCommandChain command of
        Some chainParts \<Rightarrow>
          (case analyze_parts h chainParts of
             Inl reason \<Rightarrow> Inl reason
           | Inr gs \<Rightarrow> Inr \<lparr>an_segments = concat gs, an_chains = Some gs\<rparr>)
      | None \<Rightarrow>
          (case analyze_part h command of
             Inl reason \<Rightarrow> Inl reason
           | Inr segments \<Rightarrow> Inr \<lparr>an_segments = segments, an_chains = None\<rparr>))"

definition analyzeArgvCommand :: "exec_host \<Rightarrow> string list \<Rightarrow> string + exec_analysis" where
  "analyzeArgvCommand h argvIn =
     (let argv = filter (\<lambda>e. trim e \<noteq> []) argvIn in
      if argv = [] then Inl ''empty argv''
      else Inr \<lparr>an_segments = [\<lparr>sg_raw = join_with '' '' argv, sg_argv = argv,
                                sg_resolution = resolveCommandResolutionFromArgv h argv\<rparr>], an_chains = None\<rparr>)"

section \<open>Rebuilding a command\<close>

definition shellEscapeSingleArg :: "string \<Rightarrow> string" where
  "shellEscapeSingleArg value = [sq] @ concat (map (\<lambda>c. if c = sq then [sq, dq, sq, dq, sq] else [c]) value) @ [sq]"

definition renderQuotedArgv :: "string list \<Rightarrow> string" where
  "renderQuotedArgv argv = join_with '' '' (map shellEscapeSingleArg argv)"

definition op_text :: "chain_op \<Rightarrow> string" where
  "op_text op = (case op of OpAnd \<Rightarrow> ''&&'' | OpOr \<Rightarrow> ''||'' | OpSeq \<Rightarrow> '';'')"

text \<open>\<open>renderSegment\<close> gets the segment as it stands and its number.\<close>

fun render_segments :: "(string \<Rightarrow> nat \<Rightarrow> string + string) \<Rightarrow> nat \<Rightarrow> string list \<Rightarrow> string + string list" where
  "render_segments render n [] = Inr []"
| "render_segments render n (seg # segs) =
     (case render seg n of
        Inl reason \<Rightarrow> Inl reason
      | Inr r \<Rightarrow> (case render_segments render (Suc n) segs of Inl reason \<Rightarrow> Inl reason | Inr rs \<Rightarrow> Inr (r # rs)))"

fun rebuild_parts :: "(string \<Rightarrow> nat \<Rightarrow> string + string) \<Rightarrow> nat \<Rightarrow> string \<Rightarrow> chain_parts \<Rightarrow> string + string \<times> nat" where
  "rebuild_parts render n out [] = Inr (out, n)"
| "rebuild_parts render n out ((part, opToNext) # parts) =
     (case splitShellPipeline part of
        Inl reason \<Rightarrow> Inl reason
      | Inr segs \<Rightarrow>
          (case render_segments render n segs of
             Inl reason \<Rightarrow> Inl reason
           | Inr rendered \<Rightarrow>
               rebuild_parts render (n + length segs)
                 (out @ join_with '' | '' rendered @ (case opToNext of None \<Rightarrow> [] | Some op \<Rightarrow> '' '' @ op_text op @ '' '')) parts))"

definition rebuildShellCommandFromSource :: "(string \<Rightarrow> nat \<Rightarrow> string + string) \<Rightarrow> string \<Rightarrow> string + string \<times> nat" where
  "rebuildShellCommandFromSource render command =
     (let source = trim command in
      if source = [] then Inl ''empty command''
      else rebuild_parts render 0 [] (or_default (splitCommandChainWithOperators source) [(source, None)]))"

definition finalizeRebuiltShellCommand :: "string + string \<times> nat \<Rightarrow> nat option \<Rightarrow> string + string" where
  "finalizeRebuiltShellCommand rebuilt expectedSegmentCount =
     (case rebuilt of
        Inl reason \<Rightarrow> Inl reason
      | Inr (command, n) \<Rightarrow>
          if expectedSegmentCount \<noteq> None \<and> expectedSegmentCount \<noteq> Some n then Inl ''segment count mismatch'' else Inr command)"

definition buildSafeShellCommand :: "string \<Rightarrow> string + string" where
  "buildSafeShellCommand command =
     finalizeRebuiltShellCommand
       (rebuildShellCommandFromSource
         (\<lambda>raw n. let argv = or_default (splitShellArgs raw) [] in
            if argv = [] then Inl ''unable to parse shell segment'' else Inr (renderQuotedArgv argv))
         command) None"

text \<open>The arguments that a segment is planned to run with: those under its wrappers, the program by its path.\<close>

definition planned_executable :: "command_resolution option \<Rightarrow> string" where
  "planned_executable r =
     (case r of
        None \<Rightarrow> []
      | Some res \<Rightarrow> or_default (map_option trim (et_resolvedRealPath (rs_execution res)))
          (or_default (map_option trim (et_resolvedPath (rs_execution res))) []))"

definition resolvePlannedSegmentArgv :: "exec_segment \<Rightarrow> string list option" where
  "resolvePlannedSegmentArgv segment =
     (if (case sg_resolution segment of Some r \<Rightarrow> rs_policyBlocked r | None \<Rightarrow> False) then None
      else (let base = (case sg_resolution segment of
                Some r \<Rightarrow> if rs_effectiveArgv r \<noteq> [] then rs_effectiveArgv r else sg_argv segment
              | None \<Rightarrow> sg_argv segment);
            exe = planned_executable (sg_resolution segment) in
        case base of
          [] \<Rightarrow> None
        | a # as \<Rightarrow> Some ((if exe \<noteq> [] then exe else a) # as)))"

definition buildEnforcedShellCommand :: "string \<Rightarrow> exec_segment list \<Rightarrow> string + string" where
  "buildEnforcedShellCommand command segments =
     finalizeRebuiltShellCommand
       (rebuildShellCommandFromSource
         (\<lambda>raw n. if length segments \<le> n then Inl ''segment mapping failed''
            else (case resolvePlannedSegmentArgv (segments ! n) of
                None \<Rightarrow> Inl ''segment execution plan unavailable''
              | Some argv \<Rightarrow> Inr (renderQuotedArgv argv)))
         command) (Some (length segments))"

datatype satisfied_by = ByAllowlist | BySafeBins | BySkills | BySkillPrelude | ByNothing

definition buildSafeBinsShellCommand :: "string \<Rightarrow> exec_segment list \<Rightarrow> satisfied_by list \<Rightarrow> string + string" where
  "buildSafeBinsShellCommand command segments segmentSatisfiedBy =
     (if length segments \<noteq> length segmentSatisfiedBy then Inl ''segment metadata mismatch''
      else finalizeRebuiltShellCommand
        (rebuildShellCommandFromSource
          (\<lambda>raw n. if length segments \<le> n then Inl ''segment mapping failed''
             else if segmentSatisfiedBy ! n \<noteq> BySafeBins then Inr (trim raw)
             else (case resolvePlannedSegmentArgv (segments ! n) of
                 None \<Rightarrow> Inl ''segment execution plan unavailable''
               | Some argv \<Rightarrow> Inr (renderQuotedArgv argv)))
          command) (Some (length segments)))"

end
