(* ===== verification/ShellAnalysisProps.thy ===== *)
theory ShellAnalysisProps
  imports ShellAnalysis ExecWrapperProps TextLemmas
begin

text \<open>
  A command that is rebuilt with quoted arguments is analysed to exactly those arguments: what the gateway runs in place
  of an allowlisted command is what was compared with the allowlist.
\<close>

section \<open>A quoted argument in the three scans\<close>

definition esc_body :: "string \<Rightarrow> string" where
  "esc_body t = concat (map (\<lambda>c. if c = sq then [sq, dq, sq, dq, sq] else [c]) t)"

lemma escape_eq: "shellEscapeSingleArg t = sq # esc_body t @ [sq]"
  by (simp add: shellEscapeSingleArg_def esc_body_def)

lemma esc_simps [simp]: "esc_body [] = []" "esc_body (c # t) = (if c = sq then [sq, dq, sq, dq, sq] else [c]) @ esc_body t"
  by (simp_all add: esc_body_def)

lemma quote_chars [simp]: "sq \<noteq> dq" "dq \<noteq> sq" "sq \<noteq> bs" "bs \<noteq> sq" "dq \<noteq> bs" "bs \<noteq> dq"
  "sq \<noteq> CHR ''$''" "sq \<noteq> bt" "sq \<noteq> nl" "sq \<noteq> cret" "dq \<noteq> CHR ''$''" "dq \<noteq> bt" "dq \<noteq> nl" "dq \<noteq> cret" "CHR '' '' \<noteq> bs" "CHR '' '' \<noteq> sq" "CHR '' '' \<noteq> dq"
  "CHR ''|'' \<noteq> bs" "CHR ''|'' \<noteq> sq" "CHR ''|'' \<noteq> dq" "\<not> js_ws sq" "js_ws (CHR '' '')"
  by (simp_all add: sq_def dq_def bs_def bt_def nl_def cret_def js_ws_def)

lemma next_is_simps [simp]: "\<not> next_is P []" "next_is P (c # s) = P c"
  by (simp_all add: next_is_def)

lemma not_comment [simp]: "c \<noteq> CHR ''#'' \<Longrightarrow> \<not> isShellCommentStart prev c"
  by (simp add: isShellCommentStart_def)

lemma args_single: "split_args Single buf toks (esc_body t @ s) = split_args Single (buf @ t) toks s"
  by (induction t arbitrary: buf) auto

lemma args_quoted: "split_args Plain buf toks (shellEscapeSingleArg t @ s) = split_args Plain (buf @ t) toks s"
  by (simp add: escape_eq args_single)

lemma chain_add_add [simp]: "chain_add u (chain_add t st) = chain_add (t @ u) st"
  by (simp add: chain_add_def)

lemma pipe_add_add [simp]: "pipe_add u (pipe_add t st) = pipe_add (t @ u) st"
  by (simp add: pipe_add_def)

lemma pipe_add_body [simp]: "pi_body (pipe_add t st) = pi_body st"
  by (simp add: pipe_add_def)

lemma chain_single:
  "chain_loop Single prev st (esc_body t @ sq # s) = chain_loop Plain (Some sq) (chain_add (esc_body t @ [sq]) st) s"
  by (induction t arbitrary: prev st) auto

lemma chain_quoted:
  "chain_loop Plain prev st (shellEscapeSingleArg t @ s) =
     chain_loop Plain (Some sq) (chain_add (shellEscapeSingleArg t) st) s"
  using chain_single by (simp add: escape_eq)

lemma pipe_single:
  "pi_body st = None \<Longrightarrow>
     pipe_loop Single prev st (esc_body t @ sq # s) = pipe_loop Plain (Some sq) (pipe_add (esc_body t @ [sq]) st) s"
  by (induction t arbitrary: prev st) auto

lemma pipe_quoted:
  "pi_body st = None \<Longrightarrow>
     pipe_loop Plain prev st (shellEscapeSingleArg t @ s) = pipe_loop Plain (Some sq) (pipe_add (shellEscapeSingleArg t) st) s"
  using pipe_single by (simp add: escape_eq)

section \<open>Quoted arguments in a row\<close>

lemma join_cons: "join_with sep (w # v # ws) = w @ sep @ join_with sep (v # ws)"
  by (simp add: join_with_def)

lemma render_simps: "renderQuotedArgv [t] = shellEscapeSingleArg t"
  "renderQuotedArgv (t # u # ts) = shellEscapeSingleArg t @ CHR '' '' # renderQuotedArgv (u # ts)"
  by (simp_all add: renderQuotedArgv_def join_cons) (simp add: join_with_def)

text \<open>Every argument that is quoted comes back.\<close>

lemma args_render:
  "argv \<noteq> [] \<Longrightarrow> \<forall>t \<in> set argv. t \<noteq> [] \<Longrightarrow> split_args Plain [] toks (renderQuotedArgv argv) = Some (toks @ argv)"
proof (induction argv arbitrary: toks rule: induct_list012)
  case (2 t)
  then show ?case using args_quoted [of "[]" toks t "[]"] by (simp add: render_simps push_token_def)
next
  case (3 t u ts)
  then show ?case using 3(2) [of "toks @ [t]"]
    by (simp add: render_simps args_quoted push_token_def)
qed simp

lemma split_render: "argv \<noteq> [] \<Longrightarrow> \<forall>t \<in> set argv. t \<noteq> [] \<Longrightarrow> splitShellArgs (renderQuotedArgv argv) = Some argv"
  by (simp add: splitShellArgs_def args_render)

lemma chain_render:
  "argv \<noteq> [] \<Longrightarrow> chain_loop Plain prev st (renderQuotedArgv argv @ s) =
     chain_loop Plain (Some sq) (chain_add (renderQuotedArgv argv) st) s"
  by (induction argv arbitrary: prev st rule: induct_list012) (simp_all add: render_simps chain_quoted)

lemma pipe_render:
  "argv \<noteq> [] \<Longrightarrow> pi_body st = None \<Longrightarrow> pi_pending st = [] \<Longrightarrow>
     pipe_loop Plain prev st (renderQuotedArgv argv @ s) = pipe_loop Plain (Some sq) (pipe_add (renderQuotedArgv argv) st) s"
proof (induction argv arbitrary: prev st rule: induct_list012)
  case (3 t u ts)
  have "CHR '' '' \<noteq> nl" "CHR '' '' \<noteq> cret" "\<not> disallowed (CHR '' '')" by (simp_all add: nl_def cret_def disallowed_def bt_def)
  with 3 show ?case by (simp add: render_simps pipe_quoted) (simp add: pipe_add_def)
qed (simp_all add: render_simps pipe_quoted)

lemma tight_render: "argv \<noteq> [] \<Longrightarrow> tight (renderQuotedArgv argv)"
proof (induction argv rule: induct_list012)
  case (3 t u ts)
  then show ?case by (simp add: render_simps tight_def escape_eq)
qed (simp_all add: render_simps tight_def escape_eq)

lemma trim_padded:
  assumes "tight p" and "list_all js_ws a" and "list_all js_ws b"
  shows "trim (a @ p @ b) = p"
proof -
  have p: "p \<noteq> []" "\<not> js_ws (hd p)" "\<not> js_ws (last p)" using assms(1) by (simp_all add: tight_def)
  have "dropWhile js_ws (a @ p @ b) = dropWhile js_ws (p @ b)" using assms(2) by (simp add: list_all_iff dropWhile_append2)
  also have "\<dots> = p @ b" using p by (cases p) simp_all
  finally have "trim (a @ p @ b) = rev (dropWhile js_ws (rev b @ rev p))" by (simp add: trim_def trim_end_def)
  also have "dropWhile js_ws (rev b @ rev p) = dropWhile js_ws (rev p)"
    by (rule dropWhile_append2) (use assms(3) in \<open>simp add: list_all_iff\<close>)
  also have "\<dots> = rev p" using p by (simp add: drop_no_ws hd_rev)
  finally show ?thesis by simp
qed

section \<open>Pipelines and chains of quoted arguments\<close>

text \<open>A part of a rebuilt command is given by the arguments of its segments.\<close>

definition part_text :: "string list list \<Rightarrow> string" where
  "part_text argvs = join_with '' | '' (map renderQuotedArgv argvs)"

definition argvs_ok :: "string list list \<Rightarrow> bool" where
  "argvs_ok argvs \<longleftrightarrow> argvs \<noteq> [] \<and> (\<forall>argv \<in> set argvs. argv \<noteq> [] \<and> (\<forall>t \<in> set argv. t \<noteq> []))"

lemma part_simps: "part_text [a] = renderQuotedArgv a"
  "part_text (a # b # r) = renderQuotedArgv a @ '' | '' @ part_text (b # r)"
  by (simp_all add: part_text_def join_cons) (simp add: join_with_def)

lemma tight_part: "argvs_ok argvs \<Longrightarrow> tight (part_text argvs)"
proof (induction argvs rule: induct_list012)
  case (3 a b r)
  then have "tight (renderQuotedArgv a)" "tight (part_text (b # r))" by (simp_all add: tight_render argvs_ok_def)
  then show ?case by (simp add: part_simps tight_def)
qed (simp_all add: argvs_ok_def part_simps tight_render)

lemma chain_part:
  "argvs_ok argvs \<Longrightarrow> chain_loop Plain prev st (part_text argvs @ s) =
     chain_loop Plain (Some sq) (chain_add (part_text argvs) st) s"
proof (induction argvs arbitrary: prev st rule: induct_list012)
  case (3 a b r)
  then have "a \<noteq> []" "argvs_ok (b # r)" by (simp_all add: argvs_ok_def)
  with 3 show ?case by (simp add: part_simps chain_render)
qed (simp_all add: argvs_ok_def part_simps chain_render)

lemma push_keeps [simp]: "pi_empty (push_segment st) = pi_empty st" "pi_body (push_segment st) = pi_body st"
  "pi_pending (push_segment st) = pi_pending st"
  by (simp_all add: push_segment_def Let_def)

text \<open>The scan of a part, from a state whose buffer is blank.\<close>

lemma pipe_part:
  assumes "argvs_ok argvs" and "pi_body st = None" and "pi_pending st = []" and "list_all js_ws (pi_buf st)"
  shows "\<exists>st'. pipe_loop Plain prev st (part_text argvs) = Inr (Plain, st') \<and> pi_body st' = None \<and> pi_pending st' = [] \<and>
    \<not> pi_empty st' \<and> pi_segments (push_segment st') = pi_segments st @ map renderQuotedArgv argvs"
  using assms
proof (induction argvs arbitrary: prev st rule: induct_list012)
  case (2 a)
  let ?st = "pipe_add (renderQuotedArgv a) st"
  have a: "a \<noteq> []" using 2(1) by (simp add: argvs_ok_def)
  have "pipe_loop Plain prev st (part_text [a]) = Inr (Plain, ?st)"
    using pipe_render [OF a 2(2,3), of prev "[]"] by (simp add: part_simps)
  moreover have "pi_segments (push_segment ?st) = pi_segments st @ [renderQuotedArgv a]"
    using trim_padded [OF tight_render [OF a] 2(4), of "[]"] tight_render [OF a]
    by (simp add: push_segment_def pipe_add_def tight_def)
  ultimately show ?case using 2 by (simp add: pipe_add_def)
next
  case (3 a b r)
  have a: "a \<noteq> []" and br: "argvs_ok (b # r)" using 3(3) by (simp_all add: argvs_ok_def)
  have sp: "CHR '' '' \<noteq> nl" "CHR '' '' \<noteq> cret" "\<not> disallowed (CHR '' '')" "CHR ''|'' \<noteq> nl" "CHR ''|'' \<noteq> cret"
    by (simp_all add: nl_def cret_def disallowed_def bt_def)
  let ?mid = "st\<lparr>pi_segments := pi_segments st @ [renderQuotedArgv a], pi_buf := '' '', pi_empty := False\<rparr>"
  have t: "trim (pi_buf st @ renderQuotedArgv a @ '' '') = renderQuotedArgv a"
    by (rule trim_padded [OF tight_render [OF a] 3(6)]) simp
  have ne: "renderQuotedArgv a \<noteq> []" using tight_render [OF a] by (simp add: tight_def)
  have "pipe_loop Plain prev st (part_text (a # b # r)) = pipe_loop Plain (Some (CHR '' '')) ?mid (part_text (b # r))"
    using pipe_render [OF a 3(4,5)] sp 3(4,5) t ne
    by (simp add: part_simps) (simp add: pipe_add_def push_segment_def)
  with 3(2) [of ?mid "Some (CHR '' '')"] br 3(4,5) show ?case by simp
qed (simp add: argvs_ok_def)

lemma split_part:
  assumes "argvs_ok argvs"
  shows "splitShellPipeline (part_text argvs) = Inr (map renderQuotedArgv argvs)"
proof -
  from pipe_part [OF assms, of "\<lparr>pi_buf = [], pi_segments = [], pi_empty = False, pi_pending = [], pi_body = None\<rparr>" None]
  obtain st' where "pipe_loop Plain None \<lparr>pi_buf = [], pi_segments = [], pi_empty = False, pi_pending = [], pi_body = None\<rparr>
      (part_text argvs) = Inr (Plain, st')" "pi_body st' = None" "pi_pending st' = []" "\<not> pi_empty st'"
    "pi_segments (push_segment st') = map renderQuotedArgv argvs"
    by auto
  then show ?thesis using assms by (simp add: splitShellPipeline_def close_body_def argvs_ok_def Let_def)
qed

lemma parse_rendered:
  "\<forall>argv \<in> set argvs. argv \<noteq> [] \<and> (\<forall>t \<in> set argv. t \<noteq> []) \<Longrightarrow>
   \<exists>ss. parseSegmentsFromParts h (map renderQuotedArgv argvs) = Some ss \<and> map sg_argv ss = argvs"
proof (induction argvs)
  case (Cons a r)
  then obtain ss where "parseSegmentsFromParts h (map renderQuotedArgv r) = Some ss" "map sg_argv ss = r" by auto
  moreover have "splitShellArgs (renderQuotedArgv a) = Some a" "a \<noteq> []" using Cons.prems by (simp_all add: split_render)
  ultimately show ?case by simp
qed simp

lemma analyze_rendered:
  assumes "argvs_ok argvs"
  shows "\<exists>ss. analyze_part h (part_text argvs) = Inr ss \<and> map sg_argv ss = argvs"
  using parse_rendered [of argvs h] assms by (auto simp: analyze_part_def split_part argvs_ok_def)

text \<open>A rebuilt command is given by its parts and the operators between them.\<close>

type_synonym quoted_parts = "(string list list \<times> chain_op option) list"

fun chain_text :: "quoted_parts \<Rightarrow> string" where
  "chain_text [] = []"
| "chain_text ((p, op) # r) = part_text p @ (case op of None \<Rightarrow> [] | Some x \<Rightarrow> '' '' @ op_text x @ '' '') @ chain_text r"

fun ops_ok :: "('a \<times> chain_op option) list \<Rightarrow> bool" where
  "ops_ok [] = False"
| "ops_ok [(p, op)] = (op = None)"
| "ops_ok ((p, op) # x # r) = (op \<noteq> None \<and> ops_ok (x # r))"

definition texts :: "quoted_parts \<Rightarrow> chain_parts" where
  "texts ps = map (\<lambda>(p, op). (part_text p, op)) ps"

lemma op_chars [simp]: "CHR ''&'' \<noteq> bs" "CHR ''&'' \<noteq> sq" "CHR ''&'' \<noteq> dq" "CHR '';'' \<noteq> bs" "CHR '';'' \<noteq> sq" "CHR '';'' \<noteq> dq"
  by (simp_all add: sq_def dq_def bs_def)

lemma chain_op:
  "chain_loop Plain prev st (op_text x @ CHR '' '' # s) =
     chain_loop Plain (Some (CHR '' '')) (chain_add '' '' (push_part (Some x) st)) s"
  by (cases x) (simp_all add: op_text_def)

lemma push_blank:
  assumes "tight p" and "list_all js_ws a"
  shows "push_part op (chain_add '' '' (chain_add p (st\<lparr>cs_buf := a\<rparr>))) =
    st\<lparr>cs_buf := [], cs_parts := cs_parts st @ [(p, op)], cs_found := True\<rparr>"
proof -
  have "trim (a @ p @ '' '') = p" by (rule trim_padded [OF assms]) simp
  then show ?thesis using assms(1) by (simp add: push_part_def chain_add_def tight_def)
qed

lemma chain_text_loop:
  assumes "ops_ok ps" and "\<forall>(p, op) \<in> set ps. argvs_ok p" and "list_all js_ws (cs_buf st)"
  shows "\<exists>st'. chain_loop Plain prev st (chain_text ps) = st' \<and> trim (cs_buf st') \<noteq> [] \<and>
    cs_parts st' @ [(trim (cs_buf st'), None)] = cs_parts st @ texts ps \<and>
    cs_invalid st' = cs_invalid st \<and> cs_found st' = (cs_found st \<or> length ps > 1)"
  using assms
proof (induction ps arbitrary: prev st rule: ops_ok.induct)
  case (2 p op)
  then have p: "argvs_ok p" "op = None" by simp_all
  have t: "trim (cs_buf st @ part_text p) = part_text p"
    using trim_padded [OF tight_part [OF p(1)] 2(3), of "[]"] by simp
  have "chain_loop Plain prev st (chain_text [(p, op)]) = chain_add (part_text p) st"
    using chain_part [OF p(1), of prev st "[]"] p(2) by simp
  then show ?case using t tight_part [OF p(1)] p(2) by (simp add: texts_def tight_def) (simp add: chain_add_def)
next
  case (3 p op y r)
  then obtain x where p: "argvs_ok p" "op = Some x" by auto
  let ?st = "chain_add '' '' (push_part (Some x) (chain_add '' '' (chain_add (part_text p) st)))"
  have st: "?st = st\<lparr>cs_buf := '' '', cs_parts := cs_parts st @ [(part_text p, Some x)], cs_found := True\<rparr>"
    using push_blank [OF tight_part [OF p(1)] 3(4), of "Some x" st] by (simp add: chain_add_def)
  have step: "chain_loop Plain prev st (chain_text ((p, op) # y # r)) = chain_loop Plain (Some (CHR '' '')) ?st (chain_text (y # r))"
    using chain_part [OF p(1), of prev st] chain_op by (simp add: p(2))
  have "ops_ok (y # r)" "\<forall>(p, op) \<in> set (y # r). argvs_ok p" using 3(2,3) by auto
  moreover have "list_all js_ws (cs_buf ?st)" unfolding st by simp
  ultimately show ?case using 3(1) [of ?st "Some (CHR '' '')"]
    unfolding step st by (auto simp: texts_def p(2))
qed simp

lemma split_chain_text:
  assumes "ops_ok ps" and "\<forall>(p, op) \<in> set ps. argvs_ok p"
  shows "splitCommandChainWithOperators (chain_text ps) = (if length ps > 1 then Some (texts ps) else None)"
  using chain_text_loop [OF assms, of "\<lparr>cs_buf = [], cs_parts = [], cs_found = False, cs_invalid = False\<rparr>" None]
  by (auto simp: splitCommandChainWithOperators_def Let_def)

lemma analyze_rendered_parts:
  assumes "\<forall>(p, op) \<in> set ps. argvs_ok p"
  shows "\<exists>gs. analyze_parts h (map fst (texts ps)) = Inr gs \<and> map (map sg_argv) gs = map fst ps"
  using assms
proof (induction ps)
  case (Cons a r)
  obtain p op where a: "a = (p, op)" by force
  from Cons obtain gs where "analyze_parts h (map fst (texts r)) = Inr gs" "map (map sg_argv) gs = map fst r" by auto
  moreover obtain ss where "analyze_part h (part_text p) = Inr ss" "map sg_argv ss = p"
    using analyze_rendered [of p h] Cons.prems by (auto simp: a)
  ultimately show ?case by (simp add: texts_def a)
qed (simp add: texts_def)

text \<open>What the analysis makes of a rebuilt command.\<close>

lemma analyze_chain_text:
  assumes "ops_ok ps" and "\<forall>(p, op) \<in> set ps. argvs_ok p"
  shows "\<exists>a. analyzeShellCommand h (chain_text ps) = Inr a \<and> map sg_argv (an_segments a) = concat (map fst ps)"
proof (cases "length ps > 1")
  case True
  obtain gs where g: "analyze_parts h (map fst (texts ps)) = Inr gs" "map (map sg_argv) gs = map fst ps"
    using analyze_rendered_parts [OF assms(2)] by blast
  then have "map sg_argv (concat gs) = concat (map fst ps)" by (metis map_concat)
  with True g(1) show ?thesis
    by (simp add: analyzeShellCommand_def splitCommandChain_def split_chain_text [OF assms])
next
  case False
  then obtain p op where ps: "ps = [(p, op)]" using assms(1) by (cases ps rule: ops_ok.cases) auto
  then have op: "op = None" "argvs_ok p" using assms by simp_all
  have "splitCommandChainWithOperators (part_text p) = None" using split_chain_text [OF assms] by (simp add: ps op(1))
  with analyze_rendered [OF op(2), of h] show ?thesis
    by (auto simp: analyzeShellCommand_def splitCommandChain_def ps op(1))
qed

section \<open>What rebuilding leaves\<close>

text \<open>The loop of \<open>splitCommandChainWithOperators\<close> keeps an operator with every part but the last.\<close>

definition parts_ops :: "chain_scan \<Rightarrow> bool" where
  "parts_ops st \<longleftrightarrow> (\<forall>(p, op) \<in> set (cs_parts st). op \<noteq> None)"

lemma parts_ops_simps [simp]: "parts_ops st \<Longrightarrow> parts_ops (push_part (Some x) st)"
  "parts_ops (chain_add t st) = parts_ops st" "parts_ops (st\<lparr>cs_invalid := b\<rparr>) = parts_ops st"
  by (auto simp: parts_ops_def push_part_def chain_add_def Let_def)

lemma chain_loop_ops: "parts_ops st \<Longrightarrow> parts_ops (chain_loop q prev st s)"
proof (induction s arbitrary: q prev st rule: length_induct)
  case (1 s)
  have IH: "parts_ops (chain_loop q prev st r)" if "length r < length s" "parts_ops st" for q prev st r
    using 1(1) that by blast
  show ?case
  proof (cases s)
    case (Cons c r)
    then show ?thesis using 1(2) by (cases q) (simp_all add: IH less_Suc_eq_le)
  qed (use 1(2) in simp)
qed

lemma ops_ok_snoc: "\<forall>(p, op) \<in> set xs. op \<noteq> None \<Longrightarrow> ops_ok (xs @ [(p, None)])"
proof (induction xs)
  case (Cons x xs)
  then show ?case by (cases x; cases xs) auto
qed simp

lemma ops_ok_snd: "map snd xs = map snd ys \<Longrightarrow> ops_ok xs \<longleftrightarrow> ops_ok ys"
proof (induction xs arbitrary: ys rule: ops_ok.induct)
  case (2 p op)
  then show ?case by (cases ys; cases "tl ys") auto
next
  case (3 p op x r)
  then obtain a b y ys' where ys: "ys = (a, b) # y # ys'" by (cases ys; cases "tl ys") auto
  then show ?case using "3.IH" [of "y # ys'"] "3.prems" by auto
qed simp

lemma source_ops: "ops_ok (or_default (splitCommandChainWithOperators source) [(source, None)])"
proof (cases "splitCommandChainWithOperators source")
  case (Some ps)
  let ?st = "chain_loop Plain None \<lparr>cs_buf = [], cs_parts = [], cs_found = False, cs_invalid = False\<rparr> source"
  have "parts_ops ?st" by (rule chain_loop_ops) (simp add: parts_ops_def)
  moreover have "ps = cs_parts ?st @ [(trim (cs_buf ?st), None)]"
    using Some by (auto simp: splitCommandChainWithOperators_def Let_def split: if_splits)
  ultimately have "ops_ok ps" using ops_ok_snoc by (simp add: parts_ops_def)
  with Some show ?thesis by (simp add: or_default_def)
qed (simp add: or_default_def)

text \<open>A renderer that quotes arguments: \<open>A seg n\<close> are the arguments it gives segment \<open>n\<close>.\<close>

definition quotes :: "(string \<Rightarrow> nat \<Rightarrow> string + string) \<Rightarrow> (string \<Rightarrow> nat \<Rightarrow> string list) \<Rightarrow> bool" where
  "quotes render A \<longleftrightarrow>
     (\<forall>seg n r. render seg n = Inr r \<longrightarrow> r = renderQuotedArgv (A seg n) \<and> A seg n \<noteq> [] \<and> (\<forall>t \<in> set (A seg n). t \<noteq> []))"

definition numbered :: "(string \<Rightarrow> nat \<Rightarrow> string list) \<Rightarrow> nat \<Rightarrow> string list \<Rightarrow> string list list" where
  "numbered A n segs = map (\<lambda>(i, seg). A seg i) (enumerate n segs)"

lemma numbered_simps [simp]: "numbered A n [] = []" "numbered A n (seg # segs) = A seg n # numbered A (Suc n) segs"
  by (simp_all add: numbered_def)

lemma numbered_append: "numbered A n (xs @ ys) = numbered A n xs @ numbered A (n + length xs) ys"
  by (simp add: numbered_def enumerate_append_eq)

lemma length_numbered [simp]: "length (numbered A n segs) = length segs"
  by (simp add: numbered_def)

lemma render_quotes:
  assumes "quotes render A"
  shows "render_segments render n segs = Inr rs \<Longrightarrow>
    rs = map renderQuotedArgv (numbered A n segs) \<and> (\<forall>argv \<in> set (numbered A n segs). argv \<noteq> [] \<and> (\<forall>t \<in> set argv. t \<noteq> []))"
  using assms by (induction segs arbitrary: n rs) (auto simp: quotes_def split: sum.splits)

lemma split_not_empty: "splitShellPipeline part = Inr segs \<Longrightarrow> segs \<noteq> []"
  by (auto simp: splitShellPipeline_def Let_def split: sum.splits prod.splits if_splits)

text \<open>\<open>sss\<close> are the segments of the parts.\<close>

lemma rebuild_quotes:
  assumes q: "quotes render A"
  shows "rebuild_parts render n out parts = Inr (out', m) \<Longrightarrow>
    \<exists>ps sss. out' = out @ chain_text ps \<and> map snd ps = map snd parts \<and> (\<forall>(p, op) \<in> set ps. argvs_ok p) \<and>
      map (\<lambda>(part, op). splitShellPipeline part) parts = map Inr sss \<and>
      concat (map fst ps) = numbered A n (concat sss) \<and> m = n + length (concat sss)"
proof (induction parts arbitrary: n out)
  case Nil
  then show ?case by (intro exI [of _ "[]"]) simp
next
  case (Cons a parts)
  obtain part op where a: "a = (part, op)" by force
  obtain segs where s: "splitShellPipeline part = Inr segs" using Cons.prems by (auto simp: a split: sum.splits)
  obtain rs where rs: "render_segments render n segs = Inr rs" using Cons.prems by (auto simp: a s split: sum.splits)
  note num = render_quotes [OF q rs]
  let ?sep = "case op of None \<Rightarrow> [] | Some x \<Rightarrow> '' '' @ op_text x @ '' ''"
  have "rebuild_parts render (n + length segs) (out @ join_with '' | '' rs @ ?sep) parts = Inr (out', m)"
    using Cons.prems by (simp add: a s rs)
  from Cons.IH [OF this] obtain ps sss where ih: "out' = (out @ join_with '' | '' rs @ ?sep) @ chain_text ps"
    "map snd ps = map snd parts" "\<forall>(p, op) \<in> set ps. argvs_ok p"
    "map (\<lambda>(part, op). splitShellPipeline part) parts = map Inr sss"
    "concat (map fst ps) = numbered A (n + length segs) (concat sss)" "m = n + length segs + length (concat sss)" by blast
  have "argvs_ok (numbered A n segs)" using num split_not_empty [OF s] by (cases segs) (auto simp: argvs_ok_def)
  moreover have "part_text (numbered A n segs) = join_with '' | '' rs" using num by (simp add: part_text_def)
  ultimately show ?case using ih
    by (intro exI [of _ "(numbered A n segs, op) # ps"] exI [of _ "segs # sss"]) (simp add: a s numbered_append)
qed

text \<open>A command that is rebuilt with quoted arguments is analysed to these arguments.\<close>

lemma rebuilt_analysed:
  assumes q: "quotes render A" and r: "rebuildShellCommandFromSource render command = Inr (out, m)"
  shows "\<exists>a sss. analyzeShellCommand h out = Inr a \<and> map sg_argv (an_segments a) = numbered A 0 (concat sss) \<and>
    m = length (concat sss) \<and>
    map (\<lambda>(part, op). splitShellPipeline part)
      (or_default (splitCommandChainWithOperators (trim command)) [(trim command, None)]) = map Inr sss \<and>
    map snd (or_default (splitCommandChainWithOperators out) [(out, None)]) =
      map snd (or_default (splitCommandChainWithOperators (trim command)) [(trim command, None)])"
proof -
  let ?parts = "or_default (splitCommandChainWithOperators (trim command)) [(trim command, None)]"
  have "rebuild_parts render 0 [] ?parts = Inr (out, m)"
    using r by (simp add: rebuildShellCommandFromSource_def Let_def split: if_splits)
  from rebuild_quotes [OF q this] obtain ps sss where x: "out = chain_text ps" "map snd ps = map snd ?parts"
    "\<forall>(p, op) \<in> set ps. argvs_ok p" "map (\<lambda>(part, op). splitShellPipeline part) ?parts = map Inr sss"
    "concat (map fst ps) = numbered A 0 (concat sss)" "m = length (concat sss)" by auto
  have ops: "ops_ok ps" using source_ops [of "trim command"] x(2) by (metis ops_ok_snd)
  have snds: "map snd (or_default (splitCommandChainWithOperators out) [(out, None)]) = map snd ps"
  proof (cases "length ps > 1")
    case True
    then show ?thesis by (simp add: x(1) split_chain_text [OF ops x(3)] or_default_def texts_def split_def comp_def)
  next
    case False
    then obtain p op where "ps = [(p, op)]" using ops by (cases ps rule: ops_ok.cases) auto
    then show ?thesis using False ops split_chain_text [OF ops x(3)] by (simp add: x(1) or_default_def)
  qed
  show ?thesis using analyze_chain_text [OF ops x(3), of h] x snds by auto
qed

text \<open>The operators that stand between the parts of a command.\<close>

definition operators :: "string \<Rightarrow> chain_op option list" where
  "operators command = map snd (or_default (splitCommandChainWithOperators command) [(command, None)])"

section \<open>Arguments are never empty\<close>

lemma split_args_nonempty:
  "split_args q buf toks s = Some argv \<Longrightarrow> \<forall>t \<in> set toks. t \<noteq> [] \<Longrightarrow> \<forall>t \<in> set argv. t \<noteq> []"
proof (induction s arbitrary: q buf toks rule: length_induct)
  case (1 s)
  have IH: "\<forall>t \<in> set argv. t \<noteq> []"
    if "split_args q buf toks r = Some argv" "length r < length s" "\<forall>t \<in> set toks. t \<noteq> []" for q buf toks r
    using 1(1) that by blast
  have push: "\<forall>t \<in> set (push_token buf toks). t \<noteq> []" using 1(3) by (simp add: push_token_def)
  show ?case
  proof (cases s)
    case Nil
    then show ?thesis using 1(2) push by (simp split: if_splits)
  next
    case (Cons c r)
    have l: "length r < length s" "length (tl r) < length s" by (simp_all add: Cons)
    show ?thesis
      by (insert 1(2) [unfolded Cons], cases q; simp split: if_splits;
          (erule IH [OF _ l(1) 1(3)] | erule IH [OF _ l(1) push] | erule IH [OF _ l(2) 1(3)] | (use push in simp)))
  qed
qed

lemma splitShellArgs_nonempty: "splitShellArgs raw = Some argv \<Longrightarrow> \<forall>t \<in> set argv. t \<noteq> []"
  using split_args_nonempty unfolding splitShellArgs_def by fastforce

lemma trust_plan_suffix:
  assumes "tp_blocked (resolveExecWrapperTrustPlan pf argv M) = None"
  shows "suffix (tp_argv (resolveExecWrapperTrustPlan pf argv M)) argv"
proof -
  have "peel_all pf M argv = Some (tp_argv (resolveExecWrapperTrustPlan pf argv M))"
    using trust_plan_peeled [of pf argv M] assms by simp
  then show ?thesis using peel_all_SomeD by blast
qed

text \<open>A segment of an analysis: its arguments come from the splitter, its programs from them.\<close>

definition analysed :: "exec_host \<Rightarrow> exec_segment \<Rightarrow> bool" where
  "analysed h seg \<longleftrightarrow> splitShellArgs (sg_raw seg) = Some (sg_argv seg) \<and> sg_argv seg \<noteq> [] \<and>
     sg_resolution seg = resolveCommandResolutionFromArgv h (sg_argv seg)"

lemma parse_analysed: "parseSegmentsFromParts h parts = Some ss \<Longrightarrow> \<forall>seg \<in> set ss. analysed h seg"
  by (induction parts arbitrary: ss) (auto simp: analysed_def split: option.splits if_splits)

lemma part_analysed: "analyze_part h part = Inr ss \<Longrightarrow> \<forall>seg \<in> set ss. analysed h seg"
  using parse_analysed by (auto simp: analyze_part_def split: sum.splits option.splits)

lemma parts_analysed: "analyze_parts h parts = Inr gs \<Longrightarrow> \<forall>ss \<in> set gs. \<forall>seg \<in> set ss. analysed h seg"
  using part_analysed by (induction parts arbitrary: gs) (auto split: sum.splits)

lemma analysis_analysed: "analyzeShellCommand h command = Inr a \<Longrightarrow> \<forall>seg \<in> set (an_segments a). analysed h seg"
  using part_analysed parts_analysed by (fastforce simp: analyzeShellCommand_def split: option.splits sum.splits)

definition base_argv :: "exec_segment \<Rightarrow> string list" where
  "base_argv seg = (case sg_resolution seg of
     Some r \<Rightarrow> if rs_effectiveArgv r \<noteq> [] then rs_effectiveArgv r else sg_argv seg | None \<Rightarrow> sg_argv seg)"

lemma planned_base:
  assumes "resolvePlannedSegmentArgv seg = Some argv"
  shows "\<exists>a b as. base_argv seg = b # as \<and> argv = a # as \<and> (a = b \<or> a \<noteq> [])"
proof -
  obtain b as where b: "base_argv seg = b # as"
    using assms unfolding resolvePlannedSegmentArgv_def Let_def base_argv_def [symmetric]
    by (auto split: if_splits list.splits)
  show ?thesis using assms unfolding resolvePlannedSegmentArgv_def Let_def base_argv_def [symmetric] b
    by (auto split: if_splits)
qed

lemma planned_nonempty:
  assumes "analysed h seg" and "resolvePlannedSegmentArgv seg = Some argv"
  shows "argv \<noteq> [] \<and> (\<forall>t \<in> set argv. t \<noteq> [])"
proof -
  have toks: "\<forall>t \<in> set (sg_argv seg). t \<noteq> []" using assms(1) splitShellArgs_nonempty by (auto simp: analysed_def)
  have base: "\<forall>t \<in> set (base_argv seg). t \<noteq> []"
  proof (cases "sg_resolution seg")
    case (Some r)
    let ?plan = "resolveExecWrapperTrustPlan (xh_platform h) (sg_argv seg) MAX_DISPATCH_WRAPPER_DEPTH"
    have r: "rs_effectiveArgv r = tp_argv ?plan" "rs_policyBlocked r = (tp_blocked ?plan \<noteq> None)"
      using Some assms(1)
      by (auto simp: analysed_def resolveCommandResolutionFromArgv_def buildCommandResolution_def Let_def
          split: option.splits if_splits)
    then have "tp_blocked ?plan = None" using assms(2) Some by (simp add: resolvePlannedSegmentArgv_def split: if_splits)
    from set_mono_suffix [OF trust_plan_suffix [OF this]] toks show ?thesis by (auto simp: base_argv_def Some r)
  qed (use toks in \<open>simp add: base_argv_def\<close>)
  from planned_base [OF assms(2)] base show ?thesis by auto
qed

lemma rebuilt_operators:
  assumes "quotes render A" and "rebuildShellCommandFromSource render command = Inr (out, m)"
  shows "\<exists>a. analyzeShellCommand h out = Inr a \<and> length (an_segments a) = m \<and> operators out = operators (trim command) \<and>
    (\<exists>segs. map sg_argv (an_segments a) = numbered A 0 segs)"
proof -
  obtain a sss where "analyzeShellCommand h out = Inr a" "map sg_argv (an_segments a) = numbered A 0 (concat sss)"
    "m = length (concat sss)" "operators out = operators (trim command)"
    using rebuilt_analysed [OF assms, of h] unfolding operators_def by blast
  moreover from this have "length (an_segments a) = m" by (metis length_map length_numbered)
  ultimately show ?thesis by blast
qed

lemma numbered_const: "numbered (\<lambda>seg. f) n xs = map f [n..<n + length xs]"
  by (induction xs arbitrary: n) (simp_all add: upt_rec)

lemma numbered_argvs: "numbered (\<lambda>seg n. f seg) n xs = map f xs"
  by (induction xs arbitrary: n) simp_all

lemma planned_quotes:
  assumes "\<forall>seg \<in> set segments. analysed h seg"
  shows "quotes
    (\<lambda>raw n. if length segments \<le> n then Inl ''segment mapping failed''
       else (case resolvePlannedSegmentArgv (segments ! n) of
           None \<Rightarrow> Inl ''segment execution plan unavailable''
         | Some argv \<Rightarrow> Inr (renderQuotedArgv argv)))
    (\<lambda>raw n. or_default (resolvePlannedSegmentArgv (segments ! n)) [])"
proof -
  have "argv \<noteq> [] \<and> (\<forall>t \<in> set argv. t \<noteq> [])" if "\<not> length segments \<le> n" "resolvePlannedSegmentArgv (segments ! n) = Some argv"
    for n argv using planned_nonempty [OF _ that(2), of h] assms that(1) by (simp add: not_le)
  then show ?thesis by (auto simp: quotes_def or_default_def split: if_splits option.splits)
qed

lemma safe_quotes:
  "quotes
    (\<lambda>raw n. let argv = or_default (splitShellArgs raw) [] in
       if argv = [] then Inl ''unable to parse shell segment'' else Inr (renderQuotedArgv argv))
    (\<lambda>raw n. or_default (splitShellArgs raw) [])"
  using splitShellArgs_nonempty by (auto simp: quotes_def or_default_def split: if_splits option.splits)

section \<open>What is run is what was checked\<close>

lemma enforced_segments:
  assumes "\<forall>seg \<in> set segments. analysed h seg" and "buildEnforcedShellCommand command segments = Inr out"
  shows "\<exists>a'. analyzeShellCommand h out = Inr a' \<and>
    map (\<lambda>seg. Some (sg_argv seg)) (an_segments a') = map resolvePlannedSegmentArgv segments \<and>
    operators out = operators (trim command)"
proof -
  let ?segs = segments
  let ?f = "\<lambda>n. or_default (resolvePlannedSegmentArgv (?segs ! n)) []"
  obtain m where r: "rebuildShellCommandFromSource (\<lambda>raw n. if length ?segs \<le> n then Inl ''segment mapping failed''
       else (case resolvePlannedSegmentArgv (?segs ! n) of None \<Rightarrow> Inl ''segment execution plan unavailable''
         | Some argv \<Rightarrow> Inr (renderQuotedArgv argv))) command = Inr (out, m)" and m: "m = length ?segs"
    using assms(2) by (auto simp: buildEnforcedShellCommand_def finalizeRebuiltShellCommand_def split: sum.splits if_splits)
  obtain a' raws where a': "analyzeShellCommand h out = Inr a'" "length (an_segments a') = m"
      "operators out = operators (trim command)" "map sg_argv (an_segments a') = numbered (\<lambda>seg. ?f) 0 raws"
    using rebuilt_operators [OF planned_quotes [OF assms(1)] r, of h] by blast
  then have len: "length raws = length ?segs" using m by (metis length_map length_numbered)
  have "Some (sg_argv (an_segments a' ! n)) = resolvePlannedSegmentArgv (?segs ! n)" if "n < length ?segs" for n
  proof -
    have "sg_argv (an_segments a' ! n) = ?f n"
      using arg_cong [OF a'(4), of "\<lambda>xs. xs ! n"] that len a'(2) m by (simp add: numbered_const)
    moreover have "sg_argv (an_segments a' ! n) \<noteq> []"
      using analysis_analysed [OF a'(1)] that a'(2) m by (simp add: analysed_def)
    ultimately show ?thesis by (auto simp: or_default_def split: option.splits)
  qed
  then have "map (\<lambda>seg. Some (sg_argv seg)) (an_segments a') = map resolvePlannedSegmentArgv ?segs"
    by (intro nth_equalityI) (simp_all add: a'(2) m)
  with a' show ?thesis by blast
qed

text \<open>C0: What the gateway runs in place of an allowlisted command is what the allowlist was asked about. When a command was
  analysed and its enforced form could be built, that form is a command with the same operators, and analysing it gives,
  segment for segment, exactly the arguments planned for the segments of the first analysis: the program by the path it was
  found at, under no wrapper, and every further argument literally, whatever characters it holds.\<close>

theorem enforced_command_is_analysed:
  assumes "analyzeShellCommand h command = Inr a"
    and "buildEnforcedShellCommand command (an_segments a) = Inr out"
  shows "\<exists>a'. analyzeShellCommand h out = Inr a' \<and>
    map (\<lambda>seg. Some (sg_argv seg)) (an_segments a') = map resolvePlannedSegmentArgv (an_segments a) \<and>
    operators out = operators (trim command)"
  by (rule enforced_segments [OF analysis_analysed [OF assms(1)] assms(2)])

definition linux_host :: exec_host where
  "linux_host = \<lparr>xh_platform = ''linux'',
     xh_find = (\<lambda>name. if name = ''cat'' then Some ''/bin/cat'' else if name = ''grep'' then Some ''/usr/bin/grep'' else None),
     xh_realpath = (\<lambda>p. if p = ''/bin/cat'' then Some ''/usr/bin/cat'' else None)\<rparr>"

text \<open>\<open>nice cat $HOME/'a b' | grep x ; echo it's\<close>, with the quote escaped.\<close>

definition sample_command :: string where
  "sample_command = ''nice cat $HOME/'' @ [sq] @ ''a b'' @ [sq] @ '' | grep x ; echo it'' @ [bs, sq] @ ''s''"

definition sample_enforced :: string where
  "sample_enforced = renderQuotedArgv [''/usr/bin/cat'', ''$HOME/a b''] @ '' | '' @ renderQuotedArgv [''/usr/bin/grep'', ''x''] @
     '' ; '' @ renderQuotedArgv [''echo'', ''it'' @ [sq] @ ''s'']"

lemma sample_values:
  "\<exists>a. analyzeShellCommand linux_host sample_command = Inr a \<and>
    buildEnforcedShellCommand sample_command (an_segments a) = Inr sample_enforced"
proof -
  have "(case analyzeShellCommand linux_host sample_command of Inl e \<Rightarrow> False
    | Inr a \<Rightarrow> buildEnforcedShellCommand sample_command (an_segments a) = Inr sample_enforced)" by code_simp
  then show ?thesis by (simp split: sum.splits)
qed

theorem enforced_command_is_analysed_witness:
  "\<exists>a a'. analyzeShellCommand linux_host sample_command = Inr a \<and>
    analyzeShellCommand linux_host sample_enforced = Inr a' \<and>
    map (\<lambda>seg. Some (sg_argv seg)) (an_segments a') = map resolvePlannedSegmentArgv (an_segments a) \<and>
    operators sample_enforced = [Some OpSeq, None]"
proof -
  obtain a where a: "analyzeShellCommand linux_host sample_command = Inr a"
    "buildEnforcedShellCommand sample_command (an_segments a) = Inr sample_enforced"
    using sample_values by blast
  have "operators (trim sample_command) = [Some OpSeq, None]" by code_simp
  with a enforced_command_is_analysed [OF a] show ?thesis by auto
qed

lemma parse_split:
  "\<forall>raw \<in> set segs. \<exists>argv. splitShellArgs raw = Some argv \<and> argv \<noteq> [] \<Longrightarrow>
   \<exists>ss. parseSegmentsFromParts h segs = Some ss \<and> map sg_argv ss = map (\<lambda>raw. or_default (splitShellArgs raw) []) segs"
  by (induction segs) (fastforce simp: or_default_def)+

lemma analyze_split:
  assumes "map (\<lambda>(part, op). splitShellPipeline part) parts = map Inr sss"
    and "\<forall>raw \<in> set (concat sss). \<exists>argv. splitShellArgs raw = Some argv \<and> argv \<noteq> []"
  shows "\<exists>gs. analyze_parts h (map fst parts) = Inr gs \<and>
    map (map sg_argv) gs = map (map (\<lambda>raw. or_default (splitShellArgs raw) [])) sss"
  using assms
proof (induction parts arbitrary: sss)
  case (Cons p parts)
  obtain segs rest where sss: "sss = segs # rest" using Cons.prems(1) by (cases sss) auto
  have "splitShellPipeline (fst p) = Inr segs" using Cons.prems(1) by (simp add: sss split_def)
  moreover obtain ss where "parseSegmentsFromParts h segs = Some ss"
      "map sg_argv ss = map (\<lambda>raw. or_default (splitShellArgs raw) []) segs"
    using parse_split [of segs h] Cons.prems(2) by (auto simp: sss)
  moreover obtain gs where "analyze_parts h (map fst parts) = Inr gs"
      "map (map sg_argv) gs = map (map (\<lambda>raw. or_default (splitShellArgs raw) [])) rest"
    using Cons.IH [of rest] Cons.prems by (auto simp: sss)
  ultimately show ?case by (simp add: analyze_part_def sss)
qed simp

lemma analyze_source:
  assumes "map (\<lambda>(part, op). splitShellPipeline part)
      (or_default (splitCommandChainWithOperators source) [(source, None)]) = map Inr sss"
    and "\<forall>raw \<in> set (concat sss). \<exists>argv. splitShellArgs raw = Some argv \<and> argv \<noteq> []"
  shows "\<exists>a. analyzeShellCommand h source = Inr a \<and>
    map sg_argv (an_segments a) = map (\<lambda>raw. or_default (splitShellArgs raw) []) (concat sss)"
proof -
  obtain gs where gs: "analyze_parts h (map fst (or_default (splitCommandChainWithOperators source) [(source, None)])) = Inr gs"
    "map (map sg_argv) gs = map (map (\<lambda>raw. or_default (splitShellArgs raw) [])) sss"
    using analyze_split [OF assms] by blast
  then have "map sg_argv (concat gs) = map (\<lambda>raw. or_default (splitShellArgs raw) []) (concat sss)" by (metis map_concat)
  with gs(1) show ?thesis
    by (auto simp: analyzeShellCommand_def splitCommandChain_def or_default_def split: option.splits sum.splits)
qed

text \<open>C0: The form of a command in which every argument is literal means what the command meant: when it could be built,
  command and form are analysed to the same arguments, segment for segment, with the same operators between them.\<close>

theorem safe_command_literal:
  assumes "buildSafeShellCommand command = Inr out"
  shows "\<exists>a a'. analyzeShellCommand h (trim command) = Inr a \<and> analyzeShellCommand h out = Inr a' \<and>
    map sg_argv (an_segments a') = map sg_argv (an_segments a) \<and> operators out = operators (trim command)"
proof -
  let ?A = "\<lambda>raw n. or_default (splitShellArgs raw) []"
  obtain m where r: "rebuildShellCommandFromSource (\<lambda>raw n. let argv = or_default (splitShellArgs raw) [] in
       if argv = [] then Inl ''unable to parse shell segment'' else Inr (renderQuotedArgv argv)) command = Inr (out, m)"
    using assms by (auto simp: buildSafeShellCommand_def finalizeRebuiltShellCommand_def split: sum.splits if_splits)
  obtain a' sss where x: "analyzeShellCommand h out = Inr a'" "map sg_argv (an_segments a') = map (\<lambda>raw. ?A raw 0) (concat sss)"
      "map (\<lambda>(part, op). splitShellPipeline part)
        (or_default (splitCommandChainWithOperators (trim command)) [(trim command, None)]) = map Inr sss"
      "operators out = operators (trim command)"
    using rebuilt_analysed [OF safe_quotes r, of h] unfolding operators_def numbered_argvs by blast
  have "\<forall>argv \<in> set (map sg_argv (an_segments a')). argv \<noteq> []"
    using analysis_analysed [OF x(1)] by (simp add: analysed_def)
  then have "\<exists>argv. splitShellArgs raw = Some argv \<and> argv \<noteq> []" if "raw \<in> set (concat sss)" for raw
    using that unfolding x(2) by (force simp: or_default_def split: option.splits)
  then obtain a where "analyzeShellCommand h (trim command) = Inr a"
      "map sg_argv (an_segments a) = map (\<lambda>raw. ?A raw 0) (concat sss)"
    using analyze_source [OF x(3)] by blast
  with x show ?thesis by auto
qed

theorem safe_command_literal_witness:
  "\<exists>out a a'. buildSafeShellCommand sample_command = Inr out \<and>
    analyzeShellCommand linux_host sample_command = Inr a \<and> analyzeShellCommand linux_host out = Inr a' \<and>
    map sg_argv (an_segments a') = map sg_argv (an_segments a) \<and> operators out = [Some OpSeq, None]"
proof -
  have "(case buildSafeShellCommand sample_command of Inl e \<Rightarrow> False | Inr out \<Rightarrow> True)" by code_simp
  then obtain out where out: "buildSafeShellCommand sample_command = Inr out" by (auto split: sum.splits)
  have "trim sample_command = sample_command" "operators sample_command = [Some OpSeq, None]" by code_simp+
  with safe_command_literal [OF out, of linux_host] out show ?thesis by auto
qed

section \<open>What the analysis does not see\<close>

definition analysed_argvs :: "exec_host \<Rightarrow> string \<Rightarrow> string list list option" where
  "analysed_argvs h command =
     (case analyzeShellCommand h command of Inl reason \<Rightarrow> None | Inr a \<Rightarrow> Some (map sg_argv (an_segments a)))"

text \<open>A comment ends the analysis, not only its line: the second line of the command is not seen.\<close>

theorem line_after_comment_unseen:
  "analysed_argvs linux_host (''cat a #'' @ [nl] @ ''rm b'') = Some [[''cat'', ''a'']]"
  by code_simp

text \<open>A no-break space, which a shell takes for a letter, starts a comment: what follows the semicolon is not seen.\<close>

theorem comment_after_nbsp_unseen:
  "analysed_argvs linux_host (''cat a'' @ [CHR 0xA0] @ ''# ; rm b'') = Some [[''cat'', ''a'']]"
  by code_simp

text \<open>An empty quoted string before a hash does not keep it from starting a comment, and an empty argument is lost.\<close>

theorem empty_quotes_lost:
  "splitShellArgs (''cat '' @ [sq, sq] @ ''# b'') = Some [''cat'']"
  "buildSafeShellCommand (''grep '' @ [sq, sq] @ '' f'') = Inr (renderQuotedArgv [''grep'', ''f''])"
  by code_simp+

text \<open>The rebuilt command has the announcement of a here-document as an argument, and not its body.\<close>

theorem heredoc_body_lost:
  "buildSafeShellCommand (''cat <<EOF'' @ [nl] @ ''text'' @ [nl] @ ''EOF'') = Inr (renderQuotedArgv [''cat'', ''<<EOF''])"
  by code_simp

end
