(* ===== verification/Spec2Isabelle.thy ===== *)
theory Spec2Isabelle
  imports CommandQueueProps HeartbeatProps BeforeToolCallProps CronResultProps CronDeliveryProps CronRetryProps
    CronOpsProps CronListProps GatewayAuthProps ExecRunProps
    ExecApprovalProps ExecWrapperProps HostEnv SystemRunProps
    AuthUsageProps AuthOrderProps ModelFallbackProps SessionKeyProps RouteCacheProps
    DeviceTokenProps NodePairing DmPolicy ChannelPairingProps ShellAnalysisProps
begin

text \<open>
  A verification library for the subsystems of OpenClaw that decide who may drive an agent, which agent
  answers, what it runs and when: the routing of messages to agents and sessions, the in-process command queue, the gate before every tool call, the policy and the
  approvals of shell commands, the cron service and the heartbeat's wake-ups, the gateway's authentication, and the
  choice of credentials and models. All paths below are relative to \<open>src/openclaw-src/\<close>.

  \<^bold>\<open>The program.\<close> A message that arrives on a channel is routed by the bindings of the configuration
  (\<open>src/routing/resolve-route.ts\<close>) to an agent and to the session whose key (\<open>src/routing/session-key.ts\<close>) names the agent,
  the channel and the peer. Everything the gateway runs for an agent goes through the command queue
  (\<open>src/process/command-queue.ts\<close>): named lanes, each a FIFO with a concurrency limit. A run
  calls tools; \<open>src/agents/pi-tools.before-tool-call.ts\<close> wraps every call: it consults the loop
  detector (\<open>src/agents/tool-loop-detection.ts\<close>) over the session's recent calls
  (\<open>src/logging/diagnostic-session-state.ts\<close>), lets plugins rewrite, block or hold the call for
  approval, and records the outcome. A shell command passes one more gate, on the gateway host
  (\<open>src/agents/bash-tools.exec-host-gateway.ts\<close>) or on a node (\<open>src/node-host/exec-policy.ts\<close>): the
  policy and allowlist of \<open>src/infra/exec-approvals.ts\<close> say whether it runs, is refused or waits for a
  person, whose answer comes through \<open>src/gateway/exec-approval-manager.ts\<close>. The gateway forwards a command to a
  node only under an approval bound to exactly that command (\<open>src/infra/system-run-*.ts\<close>,
  \<open>src/gateway/node-invoke-system-run-approval.ts\<close>), and the node takes wrappers such as \<open>env\<close> or \<open>sh -c\<close> apart
  before it decides (\<open>src/infra/*-wrapper-*.ts\<close>). The cron service (\<open>src/cron\<close>) keeps a store of jobs,
  computes their next runs, wakes on a timer, runs the due jobs and records the results; a manual
  run is put in the cron lane of the command queue. Events, cron jobs and timers wake the heartbeat through
  \<open>src/infra/heartbeat-wake.ts\<close>. A run calls a model with one of the provider's credentials
  (\<open>src/agents/auth-profiles\<close>) and falls back to other models when that fails (\<open>src/agents/model-fallback.ts\<close>). Clients reach all of this through the gateway:
  \<open>src/gateway/auth.ts\<close> decides every connection, with the client address that \<open>src/gateway/net.ts\<close>
  resolves behind proxies and the limiter of \<open>src/gateway/auth-rate-limit.ts\<close>. Devices and nodes are paired first
  (\<open>src/infra/device-pairing.ts\<close>, \<open>src/infra/node-pairing.ts\<close>): a person approves a request, and the device gets a token for
  each role with some scopes. The people who write on a channel pass \<open>src/security/dm-policy-shared.ts\<close> first: a stranger
  gets a code from \<open>src/pairing/pairing-store.ts\<close>, and its approval puts the sender on the allowlist of the account.

  \<^bold>\<open>Shared vocabulary.\<close> \<open>Prelude\<close> has the JavaScript values and string operations the code uses,
  updates of the first matching list element, and the locales \<open>guarded_system\<close> and
  \<open>invariant_system\<close> (a step function with an invariant), which \<open>CommandQueueInv\<close>,
  \<open>ToolLoopProps\<close> and \<open>ChannelPairingProps\<close> interpret on the queue, on the loop detector and on the pairing store. \<open>BoundedMemo\<close> has the
  locale \<open>bounded_memo\<close> (a bounded cache in front of a pure function), interpreted on the two
  caches of the cron code, on the two caches of account ids and on the cache of routes, and \<open>CronOpsProps\<close> the locale \<open>keyed_table\<close>, interpreted on the
  job list. \<open>SortLemmas\<close> has what sorting with a comparison function gives when it is consistent,
  \<open>TextLemmas\<close> what trimming, lowering and cutting do to strings.

  \<^bold>\<open>Sessions and routing.\<close> \<open>AgentIds\<close> is the normal form of agent ids and \<open>src/routing/account-id.ts\<close> with its caches;
  \<open>SessionKeys\<close> is \<open>src/sessions/session-key-utils.ts\<close> and \<open>src/routing/session-key.ts\<close>; \<open>Routing\<close> is
  \<open>src/routing/resolve-route.ts\<close>: the buckets of bindings by channel and account, their index, the eight tiers, the
  choice of agent and session, and the three caches, passed explicitly. A configuration holds references to its parts,
  since the code compares them by reference, and a \<open>heap\<close> says what they refer to. \<open>SessionKeyProps\<close> shows that ids are
  plain names, that a key leads back to its agent and that no two conversations share a session; \<open>RoutingProps\<close> that
  the indexes give the first match of a plain search by tiers; \<open>RouteCacheProps\<close> that the caches change nothing, and
  for which messages they do.

  \<^bold>\<open>The command queue.\<close> \<open>CommandQueue\<close> models the module: \<open>queue_state\<close> holds what the module
  keeps globally, one event is one synchronous section (an exported function, the continuation of
  a settled task, a timer callback), closures are numbered promises and task ids, and the effects
  of a section are appended to a log. \<open>CommandQueueInv\<close> proves the invariant of every section,
  \<open>CommandQueueProps\<close> the promises to callers: conservation of promises, no lost wakeup, FIFO
  starts, the concurrency bound, draining, stale completions after a reset, waiters.

  \<^bold>\<open>The gate before a tool call.\<close> \<open>SessionState\<close> is the session registry with its pruning, \<open>ToolLoop\<close>
  the detector with the hash of a call (SHA-256 is a parameter), the sliding window and the
  verdicts, \<open>BeforeToolCall\<close> the composition: loop check, plugin hook, approval dialogue, wrapped
  execution and the table of adjusted parameters. \<open>ToolLoopProps\<close> and \<open>BeforeToolCallProps\<close>
  show that verdicts have evidence, that a runaway agent is stopped and which calls escape.

  \<^bold>\<open>The cron service.\<close> The data of \<open>cron/types.ts\<close> are the records and datatypes of \<open>CronTypes\<close>.
  \<open>CronSchedule\<close> computes the next and previous run of a schedule (\<open>cron/schedule.ts\<close>,
  \<open>cron/parse.ts\<close>, \<open>cron/stagger.ts\<close>), \<open>CronCaches\<close> its caches; \<open>CronJobs\<close> is the first half of
  \<open>cron/service/jobs.ts\<close> (next run of a job, upkeep, validation, due jobs), \<open>CronPatch\<close> the second
  (creation and patches); \<open>CronDelivery\<close> is \<open>cron/delivery-plan.ts\<close>; \<open>CronResult\<close>, \<open>CronTimer\<close> and
  \<open>CronExecute\<close> are \<open>cron/service/timer.ts\<close> (applying a result; the sections of a tick and of the
  start-up catch-up with load and save; running a job, its time limit and the worker pool);
  \<open>CronOps\<close> is \<open>cron/service/ops.ts\<close>. The service's state is the record \<open>cron_service\<close>: the jobs
  in memory (if loaded), the jobs on disk, the armed timer, the running flag and the effects so
  far. Each section that the code runs under its lock is one function on that record; every
  clock reading is an argument. An exception is the left part of a sum, and a function that
  mutates before it throws returns the mutated state too.

  What their lemmas show: \<open>CronScheduleProps\<close> the grid of interval schedules and that a cron run is
  in the future; \<open>CronUpkeepProps\<close> that maintenance never skips a due run and that a broken
  schedule is disabled after three rounds; \<open>CronPatchProps\<close> that every accepted job is one the
  service supports; \<open>CronDeliveryProps\<close> the failure destination; \<open>CronResultProps\<close> and
  \<open>CronRetryProps\<close> back-off, retries, alerts, forced runs; \<open>CronTickProps\<close> the exclusive selection
  of due jobs, the armed timer and the bounded catch-up; \<open>CronExecuteProps\<close> the worker pool, the
  wait for the heartbeat and the time limit; \<open>CronOpsProps\<close> that the store refines a map from ids
  to jobs, and manual runs in the cron lane; \<open>CronListProps\<close> the paged list.

  \<^bold>\<open>Shell commands.\<close> \<open>ExecPolicy\<close> is the approvals file (its normalization on load, its legacy forms,
  the entries an agent's list gains) and the resolution of the policy in force, \<open>ExecGate\<close> the decision
  on either host as functions from the request and the file to an outcome and the file after it, with
  the answer to a prompt as a second step that gets the file on disk at that time. \<open>ExecApproval\<close> is the
  approval manager: its map of pending entries, its timers and the promises it settled, stepped by
  calls and timer callbacks. \<open>ExecGateProps\<close> shows which policy is in force and that the displayed one
  is enforced, \<open>ExecRunProps\<close> what a command that runs must have had, and three ways in which an
  \<open>allow-always\<close> goes wrong, \<open>ExecApprovalProps\<close> that each promise is settled once and each \<open>allow-once\<close>
  used once. Security levels and ask modes are linear orders (\<open>instantiation\<close>), and the manager
  interprets \<open>invariant_system\<close>.

  \<^bold>\<open>What a command runs.\<close> \<open>ExecWrapper\<close> peels dispatch wrappers (\<open>env\<close>, \<open>nice\<close>, \<open>timeout\<close> and the like) and shell
  wrappers off an argument list, with the bound on their number (\<open>dispatch-wrapper-resolution.ts\<close>,
  \<open>shell-wrapper-resolution.ts\<close>, \<open>exec-wrapper-trust-plan.ts\<close>); \<open>HostEnv\<close> is \<open>host-env-security.ts\<close>, the environment that
  a command gets; \<open>SystemRun\<close> the request of a node command, its displayed text and the binding of an approval,
  \<open>SystemRunGate\<close> the gateway's check of a forwarded command against the approval's record and the node's first
  phase. \<open>ExecWrapperProps\<close> shows that trust is given to what really runs, \<open>HostEnv\<close> that no override reaches a
  protected variable, \<open>SystemRunProps\<close> that the approved command is the one forwarded, by the client and for the node
  it was approved for, and that the text shown to the approver determines the argument list.

  \<^bold>\<open>Reading a shell command.\<close> \<open>ShellAnalysis\<close> is \<open>utils/shell-argv.ts\<close>, the part of \<open>infra/exec-approvals-analysis.ts\<close>
  for hosts other than Windows and the resolution of programs in \<open>infra/exec-command-resolution.ts\<close>: three scans over the
  characters (arguments, chains, pipelines with their here-documents), the analysis made of them, and the command rebuilt
  with quoted arguments that the gateway runs in place of an allowlisted one. Which file a name stands for is a field of
  \<open>exec_host\<close>. \<open>ShellAnalysisProps\<close> shows that the rebuilt command is analysed to exactly the arguments that were
  checked, whatever characters they hold, and which commands the analysis does not see in full.

  \<^bold>\<open>The heartbeat's wake-ups.\<close> \<open>HeartbeatReason\<close> classifies reasons; \<open>HeartbeatWake\<close> is the queue of pending wakes with
  its timer, its running batches and the registered handler, one function per synchronous section, so that a batch
  interleaves with requests, timers and changes of the handler. \<open>HeartbeatProps\<close> shows that a pending wake always has an
  armed timer, that a wake is owed until a run for it was not turned away, and when batches exclude each other.

  \<^bold>\<open>Credentials and models.\<close> \<open>AuthProfiles\<close> has the stored credentials and their eligibility, with a store read again
  from disk under its lock as an argument; \<open>AuthUsage\<close> the cooldowns and disabled windows of \<open>usage.ts\<close>; \<open>AuthOrder\<close> the
  order in which credentials are tried and the one a session keeps; \<open>ModelFallback\<close> the candidates of a run, the
  throttle of probes and the loop over the candidates, whose state \<open>fallback_state\<close> logs every call. \<open>AuthUsageProps\<close>
  shows over all sequences of events that a profile recovers in bounded time, that retries do not extend a window
  and which failures let another model through; \<open>AuthOrderProps\<close> that an order is a sorted permutation of the usable
  credentials and what a session may be given; \<open>ModelFallbackProps\<close> that a run accounts for every candidate, skips
  none that is usable, and probes rarely with bounded state.

  \<^bold>\<open>The gateway's front door.\<close> \<open>NetIp\<close> is \<open>shared/net/ip.ts\<close> (literals, special ranges, IPv4
  addresses embedded in IPv6 ones, with octets and hextets as 8 and 16-bit words), \<open>GatewayNet\<close>
  \<open>gateway/net.ts\<close> and \<open>gateway/origin-check.ts\<close>, \<open>AuthRateLimit\<close> the limiter, whose state is the map
  from scope and client to the recent failures, and \<open>GatewayAuth\<close> the decision, a function from the
  request and the limiter's state to the answer and the next state. \<open>GatewayNet\<close> shows that a
  client cannot choose the address it is charged under and that embedded addresses are recovered;
  \<open>GatewayAuthProps\<close> what a granted connection proves, the bound on guesses over all interleavings
  with other clients and with pruning, and the requests that escape it.

  \<^bold>\<open>Pairing.\<close> \<open>OperatorScopes\<close> says which scopes satisfy which (\<open>shared/operator-scope-compat.ts\<close>). \<open>PairingRequests\<close> is what
  the pairing of devices and of nodes share, with the locale \<open>request_table\<close> for what they give the shared code; its
  instances are in \<open>DevicePairingProps\<close> and \<open>NodePairing\<close>. \<open>DevicePairing\<close> and \<open>NodePairing\<close> are the two modules: an
  operation is a function from the two files to its answer and the files after it, for the code runs each under a
  lock and loads and saves both files. \<open>DevicePairingProps\<close> shows that the files stay well-formed and that an approval
  grants what was shown under the id of the request; \<open>DeviceTokenProps\<close>, over all sequences of operations, that an
  operator scope needs an approver who has it and that revoked and rotated tokens stay dead; \<open>NodePairing\<close> that a
  node has one token, the one of its latest approval, and which scope an approver needs.

  \<^bold>\<open>People on channels.\<close> \<open>DmPolicy\<close> is the decision for a message and its commands (\<open>security/dm-policy-shared.ts\<close> and the
  parts of \<open>channels\<close>, \<open>plugin-sdk/group-access.ts\<close> and \<open>config/runtime-group-policy.ts\<close> it is made of); matching a sender
  against a list is an argument, as in the code. \<open>ChannelPairing\<close> is \<open>pairing/pairing-store.ts\<close>: a \<open>pairing_disk\<close> holds the
  pairing and allowlist files by name and the cache of the reader. \<open>DmPolicy\<close> shows that groups ignore who was paired
  for direct messages; \<open>ChannelPairingProps\<close> that requests are capped and codes unique, that an approval admits the one
  who asked and nobody else, that the code given out works within its hour, and, as an instance of
  \<open>guarded_system\<close>, that the cache is never stale.

  \<^bold>\<open>Parameters.\<close> Code outside the repository is an argument: the cron evaluator \<open>croner\<close>,
  \<open>Date.parse\<close>, the host time zone, \<open>URL\<close> and SHA-256 are fields of \<open>cron_env\<close> or arguments
  (no property assumes anything of them beyond what its statement says), the failover classifier
  and the configuration are fields of \<open>cron_deps\<close>, \<open>localeCompare\<close> is a \<open>collation\<close> which the
  order of a listing assumes to be a consistent comparison. The parsers and range tables of
  \<open>ipaddr.js\<close>, \<open>net.isIP\<close> and \<open>URL\<close> are the record \<open>ip_lib\<close>, the tailnet's \<open>whois\<close> and the digest of
  secrets are fields of \<open>auth_env\<close>. The evaluation of a shell command (whether its segments match the allowlist,
  whether it is obfuscated or evaluates code inline) is the function \<open>gv_evaluate\<close> of the exec gate,
  fresh ids are a sequence. The platform and the digest of a binding are arguments of the node commands;
  the answer of a provider's usage page, the classification of a thrown error and the resolution of a written model
  reference are arguments of credentials and fallback; a channel's normal form of an allowlist entry, \<open>toISOString\<close> and the
  random numbers of a code are arguments of the pairing store. Plugin and approval answers, the
  results of runs and of the heartbeat are inputs.

  \<^bold>\<open>Numbers and fuel.\<close> Instants and durations are \<open>int\<close>: the code's doubles hold them exactly below
  2 to the 53, and an instant beyond that is outside the model; values the code checks or floors
  itself are rationals. The only 32-bit behaviour the code meets, the range of a timer, is written
  out in \<open>node_timer_ms\<close>. Loops are structural (\<open>pump_loop\<close>, \<open>defer_jobs\<close>), decrease a measure (\<open>enforceProbeStateCap\<close>) or have the code's own
  bound (four attempts in \<open>staggered_next_loop\<close>, the depth of wrappers). \<open>heartbeat_loop\<close> is the only loop with fuel; the
  property on it gives an amount that always suffices. Strings are lists of characters below 256,
  one per UTF-16 code unit.

  \<^bold>\<open>Not modelled.\<close> Log lines, telemetry and the task ledger; reading, writing and backing up
  \<open>jobs.json\<close> (the model keeps the list last saved); the coercion of loosely typed gateway input
  in \<open>cron/normalize.ts\<close>; the agent runtime behind a run; the session reaper. The exec gate ends where a process is
  spawned: running it, its output, the hardening of its paths on the node and the notifications are left out, and so are
  the matching of segments against the allowlist behind \<open>gv_evaluate\<close> (\<open>exec-approvals-allowlist.ts\<close>) and the shell syntax
  of Windows. Of the credentials: the file format of the store with its migrations, the external
  stores and the refresh of tokens. Of the rest of the repository: merging the gateway's credentials from secret
  references and the environment; channels,
  extensions, the user interface and the apps are glue around external services.
\<close>

end
